(* ===== verification/Prelude.thy ===== *)
theory Prelude
  imports Complex_Main "HOL-Library.Multiset" "HOL-Library.Product_Lexorder"
begin

text \<open>
  Shared ground of the development: the names of the model's base types, the exceptions
  the modelled code raises, results as \<open>exn + 'a\<close> (\<open>Inl\<close> is a raised exception), Python
  dictionaries as maps whose missing keys raise, and the generic facts about results,
  lists and sums that the component theories share.
\<close>

section \<open>Base types\<close>

text \<open>
  A \<open>UUID\<close> is a 128-bit number compared as a number (Python, and PostgreSQL's \<open>uuid\<close>
  order alike); an aware \<open>datetime\<close> is its instant in microseconds since the UTC epoch; a
  \<open>timedelta\<close> is a number of microseconds.
\<close>

type_synonym uuid = nat
type_synonym datetime = int
type_synonym timedelta = int

text \<open>
  The exceptions of the modelled code. The first group is raised by Python and its decimal
  module, the second by the database driver, the third by UrjaSetu's own classes
  (\<open>backend/app/core/errors.py\<close>, the service modules and the meter adapters, whose validation
  errors name a line and a field), each with its stable \<open>code\<close>; an \<open>HTTPException\<close> has its status. The
  prose of a message and the \<open>details\<close> dictionary are diagnostics and are not kept.
\<close>

datatype exn =
    InvalidOperation
  | DivisionByZero
  | KeyError
  | AssertionError
  | PyTypeError
  | PyValueError
  | PyOverflowError
  | PyOSError
  | PriceCrossError
  | IntegrityError string
  | DataError
  | NotFoundError string
  | ConflictError string
  | UnprocessableError string
  | MarketStateError string
  | OrderValidationError string
  | MatchingEngineError
  | GridEngineError
  | PricingEngineError
  | SettlementError
  | NotReconcilableError
  | ForecastProviderError string
  | AuditError
  | AdapterParseError
  | AdapterValidationError "nat option" "string option"
  | HTTPException int

type_synonym 'a result = "exn + 'a"

section \<open>Results\<close>

definition bindE :: "'a result \<Rightarrow> ('a \<Rightarrow> 'b result) \<Rightarrow> 'b result" where
  "bindE m f = (case m of Inl e \<Rightarrow> Inl e | Inr x \<Rightarrow> f x)"

definition guardE :: "bool \<Rightarrow> exn \<Rightarrow> unit result" where
  "guardE b e = (if b then Inr () else Inl e)"

definition returns :: "'a result \<Rightarrow> bool" where
  "returns m \<longleftrightarrow> (case m of Inl _ \<Rightarrow> False | Inr _ \<Rightarrow> True)"

named_theorems result_simps \<open>evaluation of results\<close>
named_theorems val_simps \<open>decimal operations as operations on the numbers they denote\<close>
named_theorems repr_intros \<open>numbers that 28 digits represent exactly\<close>

lemma bindE_Inl [simp, result_simps]: "bindE (Inl e) f = Inl e"
  by (simp add: bindE_def)

lemma bindE_Inr [simp, result_simps]: "bindE (Inr x) f = f x"
  by (simp add: bindE_def)

lemma bindE_eq_Inr: "bindE m f = Inr y \<longleftrightarrow> (\<exists>x. m = Inr x \<and> f x = Inr y)"
  by (cases m) auto

lemma bindE_eq_Inl: "bindE m f = Inl e \<longleftrightarrow> m = Inl e \<or> (\<exists>x. m = Inr x \<and> f x = Inl e)"
  by (cases m) auto

lemma bindE_InrE:
  assumes "bindE m f = Inr y"
  obtains x where "m = Inr x" and "f x = Inr y"
  using assms by (auto simp: bindE_eq_Inr)

lemma bindE_assoc: "bindE (bindE m f) g = bindE m (\<lambda>x. bindE (f x) g)"
  by (cases m) auto

lemma guardE_True [simp, result_simps]: "guardE True e = Inr ()"
  by (simp add: guardE_def)

lemma guardE_False [simp, result_simps]: "guardE False e = Inl e"
  by (simp add: guardE_def)

lemma guardE_eq_Inr [simp]: "guardE b e = Inr u \<longleftrightarrow> b"
  by (simp add: guardE_def)

lemma guardE_eq_Inl [simp]: "guardE b e = Inl e' \<longleftrightarrow> \<not> b \<and> e' = e"
  by (auto simp: guardE_def)

lemma returns_simps [simp]: "returns (Inr x)" "\<not> returns (Inl e)"
  by (simp_all add: returns_def)

lemma returns_iff: "returns m \<longleftrightarrow> (\<exists>x. m = Inr x)"
  by (cases m) auto

lemma returns_bindE: "returns (bindE m f) \<longleftrightarrow> (\<exists>x. m = Inr x \<and> returns (f x))"
  by (cases m) auto

section \<open>Dictionaries and options\<close>

text \<open>\<open>d[k]\<close> raises \<open>KeyError\<close> where \<open>d.get(k, default)\<close> does not.\<close>

definition getitem :: "('k \<rightharpoonup> 'v) \<Rightarrow> 'k \<Rightarrow> 'v result" where
  "getitem d k = (case d k of None \<Rightarrow> Inl KeyError | Some v \<Rightarrow> Inr v)"

definition dict_get :: "('k \<rightharpoonup> 'v) \<Rightarrow> 'k \<Rightarrow> 'v \<Rightarrow> 'v" where
  "dict_get d k v = (case d k of None \<Rightarrow> v | Some w \<Rightarrow> w)"

lemma pred_option_code [code]: "pred_option P None = True" "pred_option P (Some x) = P x"
  by simp_all

lemma getitem_Some [simp]: "d k = Some v \<Longrightarrow> getitem d k = Inr v"
  by (simp add: getitem_def)

lemma getitem_eq_Inr [simp]: "getitem d k = Inr v \<longleftrightarrow> d k = Some v"
  by (simp add: getitem_def split: option.splits)

lemma dict_get_Some [simp]: "d k = Some v \<Longrightarrow> dict_get d k w = v"
  by (simp add: dict_get_def)

lemma dict_get_None [simp]: "d k = None \<Longrightarrow> dict_get d k w = w"
  by (simp add: dict_get_def)

section \<open>Lists\<close>

text \<open>
  A loop whose body may raise: \<open>foldE\<close> runs the body over the elements from the left and
  stops at the first exception.
\<close>

fun foldE :: "('a \<Rightarrow> 's \<Rightarrow> 's result) \<Rightarrow> 'a list \<Rightarrow> 's \<Rightarrow> 's result" where
  "foldE f [] s = Inr s"
| "foldE f (x # xs) s = bindE (f x s) (foldE f xs)"

lemma foldE_invariant:
  assumes "foldE f xs s = Inr t" and "P s"
    and "\<And>x s s'. x \<in> set xs \<Longrightarrow> P s \<Longrightarrow> f x s = Inr s' \<Longrightarrow> P s'"
  shows "P t"
  using assms by (induction xs arbitrary: s) (auto simp: bindE_eq_Inr)

lemma foldE_returns:
  assumes "P s"
    and "\<And>x s. x \<in> set xs \<Longrightarrow> P s \<Longrightarrow> \<exists>s'. f x s = Inr s' \<and> P s'"
  shows "\<exists>t. foldE f xs s = Inr t \<and> P t"
  using assms
proof (induction xs arbitrary: s)
  case Nil
  then show ?case by simp
next
  case (Cons x xs)
  from Cons.prems obtain s' where s': "f x s = Inr s'" "P s'"
    by (meson list.set_intros(1))
  from Cons.IH [OF s'(2)] Cons.prems(2) have "\<exists>t. foldE f xs s' = Inr t \<and> P t"
    by simp
  with s'(1) show ?case by simp
qed

lemma foldE_append: "foldE f (xs @ ys) s = bindE (foldE f xs s) (foldE f ys)"
proof (induction xs arbitrary: s)
  case (Cons x xs)
  then show ?case by (cases "f x s") simp_all
qed simp

text \<open>A comprehension whose element expression may raise.\<close>

fun mapE :: "('a \<Rightarrow> 'b result) \<Rightarrow> 'a list \<Rightarrow> 'b list result" where
  "mapE f [] = Inr []"
| "mapE f (x # xs) = bindE (f x) (\<lambda>y. bindE (mapE f xs) (\<lambda>ys. Inr (y # ys)))"

lemma mapE_cong [fundef_cong]:
  "xs = ys \<Longrightarrow> (\<And>x. x \<in> set ys \<Longrightarrow> f x = g x) \<Longrightarrow> mapE f xs = mapE g ys"
  by (induction xs arbitrary: ys) auto

lemma mapE_eq_Inr: "mapE f xs = Inr ys \<longleftrightarrow> list_all2 (\<lambda>x y. f x = Inr y) xs ys"
  by (induction xs arbitrary: ys) (auto simp: bindE_eq_Inr list_all2_Cons1)

lemma mapE_map: "mapE f (map g xs) = mapE (\<lambda>x. f (g x)) xs"
  by (induction xs) simp_all

lemma mapE_Inr: "(\<And>x. x \<in> set xs \<Longrightarrow> f x = Inr (g x)) \<Longrightarrow> mapE f xs = Inr (map g xs)"
  by (induction xs) simp_all

lemma sort_key_mset_eq:
  assumes "mset xs = mset ys" and "inj_on f (set xs)"
  shows "sort_key f xs = sort_key f ys"
  by (rule sort_key_inj_key_eq) (simp_all add: assms)

end
