(* ===== verification/Decimals.thy ===== *)
theory Decimals
  imports Prelude
begin

text \<open>
  Python's \<open>decimal.Decimal\<close> as the code uses it: a coefficient and an exponent, arithmetic
  that computes exactly and then rounds half-even to the 28 significant digits of the
  default context, comparison by value, \<open>quantize\<close> with \<open>ROUND_HALF_UP\<close> that raises
  \<open>InvalidOperation\<close> when the result needs more than 28 digits. \<open>val\<close> is the number a decimal
  denotes. The second half shows that every operation is the operation on numbers followed
  by a faithful rounding: it never crosses a number that 28 digits can represent, and is
  exact where the result is such a number.

  Infinities, NaNs, the sign of zero and the exponent limits of the context (six digits)
  are not modelled: no operation of the program produces the first two from finite stored
  values, and no value comes near the last.
\<close>

section \<open>The number type\<close>

datatype decimal = Dec (coeff: int) (dexp: int)

definition val :: "decimal \<Rightarrow> rat" where
  "val d = of_int (coeff d) * 10 powi dexp d"

text \<open>Digits of a number that is not negative, \<open>len(str(n))\<close>.\<close>

function dlen :: "int \<Rightarrow> nat" where
  "dlen n = (if n < 10 then 1 else Suc (dlen (n div 10)))"
  by pat_completeness auto
termination
  by (relation "measure nat") auto

declare dlen.simps [simp del]

definition PREC :: nat where
  "PREC = 28"

section \<open>Rounding\<close>

text \<open>The integer nearest to \<open>n / d\<close> (of magnitudes, \<open>d\<close> positive), ties to the even one.\<close>

definition half_even :: "int \<Rightarrow> int \<Rightarrow> int" where
  "half_even n d =
     (let q = n div d; r = n mod d
      in if 2 * r < d then q
         else if d < 2 * r then q + 1
         else if even q then q else q + 1)"

text \<open>The integer nearest to \<open>n / d\<close>, ties away from zero.\<close>

definition half_up :: "int \<Rightarrow> int \<Rightarrow> int" where
  "half_up n d = (2 * n + d) div (2 * d)"

text \<open>
  A magnitude \<open>n / d\<close> at exponent \<open>e\<close>, where \<open>n / d\<close> has 28 digits before the point,
  rounded to 28 digits. Rounding up may carry into a 29th digit, which is then a zero.
\<close>

definition round_mag :: "int \<Rightarrow> int \<Rightarrow> int \<Rightarrow> int \<times> int" where
  "round_mag n d e =
     (let q = half_even n d in if q = 10 ^ 28 then (10 ^ 27, e + 1) else (q, e))"

definition signed :: "int \<Rightarrow> int \<times> int \<Rightarrow> decimal" where
  "signed c m = Dec (sgn c * fst m) (snd m)"

text \<open>\<open>Decimal._fix\<close>: the context rounding every arithmetic result passes through.\<close>

definition fix28 :: "decimal \<Rightarrow> decimal" where
  "fix28 d =
     (let l = dlen \<bar>coeff d\<bar>
      in if l \<le> PREC then d
         else signed (coeff d)
           (round_mag \<bar>coeff d\<bar> (10 ^ (l - PREC)) (dexp d + int (l - PREC))))"

section \<open>Arithmetic and comparison\<close>

text \<open>Two decimals brought to their smaller exponent.\<close>

definition aligned :: "decimal \<Rightarrow> int \<Rightarrow> int" where
  "aligned d e = coeff d * 10 ^ nat (dexp d - e)"

instantiation decimal :: "{plus, minus, uminus, times, zero, one, abs, preorder}"
begin

definition plus_decimal :: "decimal \<Rightarrow> decimal \<Rightarrow> decimal" where
  "plus_decimal x y =
     (let e = min (dexp x) (dexp y) in fix28 (Dec (aligned x e + aligned y e) e))"

definition uminus_decimal :: "decimal \<Rightarrow> decimal" where
  "uminus_decimal x = fix28 (Dec (- coeff x) (dexp x))"

definition minus_decimal :: "decimal \<Rightarrow> decimal \<Rightarrow> decimal" where
  "minus_decimal x y =
     (let e = min (dexp x) (dexp y) in fix28 (Dec (aligned x e - aligned y e) e))"

definition times_decimal :: "decimal \<Rightarrow> decimal \<Rightarrow> decimal" where
  "times_decimal x y = fix28 (Dec (coeff x * coeff y) (dexp x + dexp y))"

definition abs_decimal :: "decimal \<Rightarrow> decimal" where
  "abs_decimal x = fix28 (Dec \<bar>coeff x\<bar> (dexp x))"

definition zero_decimal :: decimal where
  "zero_decimal = Dec 0 0"

definition one_decimal :: decimal where
  "one_decimal = Dec 1 0"

definition less_eq_decimal :: "decimal \<Rightarrow> decimal \<Rightarrow> bool" where
  "less_eq_decimal x y \<longleftrightarrow>
     (let e = min (dexp x) (dexp y) in aligned x e \<le> aligned y e)"

definition less_decimal :: "decimal \<Rightarrow> decimal \<Rightarrow> bool" where
  "less_decimal x y \<longleftrightarrow>
     (let e = min (dexp x) (dexp y) in aligned x e < aligned y e)"

lemma aligned_val:
  assumes "e \<le> dexp d"
  shows "of_int (aligned d e) = val d / 10 powi e"
proof -
  have "(10::rat) powi dexp d = 10 powi e * 10 powi (dexp d - e)"
    by (simp flip: power_int_add)
  moreover have "(10::rat) powi (dexp d - e) = 10 ^ nat (dexp d - e)"
    using assms by (simp add: power_int_def)
  ultimately show ?thesis
    by (simp add: aligned_def val_def)
qed

lemma less_eq_decimal_val: "(x::decimal) \<le> y \<longleftrightarrow> val x \<le> val y"
proof -
  let ?e = "min (dexp x) (dexp y)"
  have "x \<le> y \<longleftrightarrow> (of_int (aligned x ?e) :: rat) \<le> of_int (aligned y ?e)"
    by (simp add: less_eq_decimal_def Let_def)
  also have "\<dots> \<longleftrightarrow> val x \<le> val y"
    by (simp add: aligned_val divide_right_mono field_simps)
  finally show ?thesis .
qed

lemma less_decimal_val: "(x::decimal) < y \<longleftrightarrow> val x < val y"
proof -
  let ?e = "min (dexp x) (dexp y)"
  have "x < y \<longleftrightarrow> (of_int (aligned x ?e) :: rat) < of_int (aligned y ?e)"
    by (simp add: less_decimal_def Let_def)
  also have "\<dots> \<longleftrightarrow> val x < val y"
    by (simp add: aligned_val field_simps)
  finally show ?thesis .
qed

instance
  by standard (auto simp: less_eq_decimal_val less_decimal_val)

end

text \<open>\<open>==\<close> on decimals compares values, not representations.\<close>

definition deq :: "decimal \<Rightarrow> decimal \<Rightarrow> bool" where
  "deq x y \<longleftrightarrow> x \<le> y \<and> y \<le> x"

text \<open>Python's \<open>min\<close> and \<open>max\<close> keep the first of two equal arguments.\<close>

definition pymin :: "decimal \<Rightarrow> decimal \<Rightarrow> decimal" where
  "pymin x y = (if y < x then y else x)"

definition pymax :: "decimal \<Rightarrow> decimal \<Rightarrow> decimal" where
  "pymax x y = (if x < y then y else x)"

text \<open>\<open>sum(xs, ZERO)\<close>\<close>

definition dsum :: "decimal list \<Rightarrow> decimal" where
  "dsum xs = foldl (+) 0 xs"

text \<open>
  Division. The quotient of the coefficients is scaled to 28 digits before the point; an
  exact quotient is brought back towards the ideal exponent by dropping trailing zeros.
\<close>

function strip10 :: "int \<Rightarrow> int \<Rightarrow> int \<Rightarrow> decimal" where
  "strip10 c e ideal =
     (if e < ideal \<and> c mod 10 = 0 then strip10 (c div 10) (e + 1) ideal else Dec c e)"
  by pat_completeness auto
termination
  by (relation "measure (\<lambda>(c, e, ideal). nat (ideal - e))") auto

declare strip10.simps [simp del]

definition div_scale :: "int \<Rightarrow> int \<Rightarrow> int" where
  "div_scale n d =
     (let s = 28 + int (dlen d) - int (dlen n)
      in if 10 ^ 28 \<le> n * 10 ^ nat s div (d * 10 ^ nat (- s)) then s - 1 else s)"

definition ddiv :: "decimal \<Rightarrow> decimal \<Rightarrow> decimal result" where
  "ddiv x y =
     (if coeff y = 0 then Inl (if coeff x = 0 then InvalidOperation else DivisionByZero)
      else if coeff x = 0 then Inr (Dec 0 (dexp x - dexp y))
      else
        (let s = div_scale \<bar>coeff x\<bar> \<bar>coeff y\<bar>;
             n = \<bar>coeff x\<bar> * 10 ^ nat s;
             d = \<bar>coeff y\<bar> * 10 ^ nat (- s);
             ideal = dexp x - dexp y;
             sg = sgn (coeff x) * sgn (coeff y)
         in if n mod d = 0 then Inr (strip10 (sg * (n div d)) (ideal - s) ideal)
            else Inr (signed sg (round_mag n d (ideal - s)))))"

text \<open>\<open>value.quantize(Decimal(10) ** -p, rounding=ROUND_HALF_UP)\<close>\<close>

definition quantize :: "nat \<Rightarrow> decimal \<Rightarrow> decimal result" where
  "quantize p x =
     (let c = (if - int p \<le> dexp x then coeff x * 10 ^ nat (dexp x + int p)
               else sgn (coeff x) * half_up \<bar>coeff x\<bar> (10 ^ nat (- int p - dexp x)))
      in if dlen \<bar>c\<bar> \<le> PREC then Inr (Dec c (- int p)) else Inl InvalidOperation)"

section \<open>Rounding and grids on numbers\<close>

text \<open>
  The abstract side: rounding half away from zero to \<open>p\<close> decimal places, and the numbers
  with at most \<open>p\<close> decimal places, which a column \<open>Numeric(_, p)\<close> stores.
\<close>

definition rhu :: "rat \<Rightarrow> int" where
  "rhu r = (if 0 \<le> r then \<lfloor>r + 1 / 2\<rfloor> else - \<lfloor>1 / 2 - r\<rfloor>)"

definition round_half_up :: "nat \<Rightarrow> rat \<Rightarrow> rat" where
  "round_half_up p r = of_int (rhu (r * 10 ^ p)) / 10 ^ p"

definition grid :: "nat \<Rightarrow> rat \<Rightarrow> bool" where
  "grid p r \<longleftrightarrow> of_int \<lfloor>r * 10 ^ p\<rfloor> = r * 10 ^ p"

section \<open>Digits\<close>

lemma dlen_pos [simp]: "0 < dlen n"
  by (subst dlen.simps) simp

lemma le_div_int: "0 < d \<Longrightarrow> m \<le> n div d \<longleftrightarrow> m * d \<le> n" for d m n :: int
  by (smt (verit) div_mult_mod_eq nonzero_mult_div_cancel_right pos_mod_sign zdiv_mono1
      mult_right_mono)

lemma div_less_int: "0 < d \<Longrightarrow> n div d < m \<longleftrightarrow> n < m * d" for d m n :: int
  using le_div_int [of d m n] by linarith

lemma dlen_le_iff: "0 < k \<Longrightarrow> dlen n \<le> k \<longleftrightarrow> n < 10 ^ k"
proof (induction n arbitrary: k rule: dlen.induct)
  case (1 n)
  show ?case
  proof (cases "n < 10")
    case True
    have "(10::int) ^ 1 \<le> 10 ^ k"
      using "1.prems" by (intro power_increasing) simp_all
    with True "1.prems" show ?thesis by (subst dlen.simps) simp
  next
    case False
    show ?thesis
    proof (cases "k = 1")
      case True
      with False show ?thesis by (subst dlen.simps) (simp add: not_le)
    next
      case neq: False
      with "1.prems" obtain j where j: "k = Suc j" "0 < j"
        by (cases k) auto
      have "dlen n \<le> k \<longleftrightarrow> n div 10 < 10 ^ j"
        using False "1.IH" [OF False j(2)] j(1) by (subst dlen.simps) simp
      also have "\<dots> \<longleftrightarrow> n < 10 ^ k"
        using j(1) by (simp add: div_less_int mult.commute)
      finally show ?thesis .
    qed
  qed
qed

lemma less_pow_dlen: "n < 10 ^ dlen n"
  using dlen_le_iff [of "dlen n" n] by simp

lemma pow_dlen_le:
  assumes "0 < n"
  shows "10 ^ (dlen n - 1) \<le> n"
proof (cases "dlen n = 1")
  case True
  with assms show ?thesis by simp
next
  case False
  then have "0 < dlen n - 1" and "\<not> dlen n \<le> dlen n - 1"
    using dlen_pos [of n] by linarith+
  then show ?thesis
    using dlen_le_iff [of "dlen n - 1" n] by simp
qed

section \<open>Faithful rounding\<close>

text \<open>
  The numbers 28 digits represent, and the contract of the context's rounding: the result
  never crosses a represented number, so it is exact where the exact result is one.
\<close>

definition rep28 :: "rat \<Rightarrow> bool" where
  "rep28 r \<longleftrightarrow> (\<exists>c e. \<bar>c\<bar> < 10 ^ 28 \<and> r = of_int c * 10 powi e)"

definition rounds_to :: "rat \<Rightarrow> rat \<Rightarrow> bool" where
  "rounds_to v w \<longleftrightarrow> (\<forall>r. rep28 r \<longrightarrow> (r \<le> v \<longrightarrow> r \<le> w) \<and> (v \<le> r \<longrightarrow> w \<le> r))"

lemma rep28I [repr_intros]: "\<bar>c\<bar> < 10 ^ 28 \<Longrightarrow> rep28 (of_int c * 10 powi e)"
  unfolding rep28_def by blast

lemma rep28_uminus: "rep28 (- r) \<longleftrightarrow> rep28 r"
proof -
  have "rep28 (- r)" if "rep28 r" for r
  proof -
    from that obtain c e where "\<bar>c\<bar> < 10 ^ 28" "r = of_int c * 10 powi e"
      unfolding rep28_def by blast
    then have "- r = of_int (- c) * 10 powi e" "\<bar>- c\<bar> < 10 ^ 28" by simp_all
    then show ?thesis unfolding rep28_def by blast
  qed
  from this [of r] this [of "- r"] show ?thesis by auto
qed

lemma rep28_int [repr_intros]: "\<bar>c\<bar> < 10 ^ 28 \<Longrightarrow> rep28 (of_int c)"
  using rep28I [of c 0] by simp

lemma rep28_zero [simp, repr_intros]: "rep28 0"
  using rep28_int [of 0] by simp

lemma rep28_one [simp, repr_intros]: "rep28 1"
  using rep28_int [of 1] by simp

lemma rounds_to_refl [simp]: "rounds_to v v"
  by (simp add: rounds_to_def)

lemma rounds_to_exact: "rounds_to v w \<Longrightarrow> rep28 v \<Longrightarrow> w = v"
  by (meson order.eq_iff order.refl rounds_to_def)

lemma rounds_to_ge: "rounds_to v w \<Longrightarrow> rep28 r \<Longrightarrow> r \<le> v \<Longrightarrow> r \<le> w"
  by (simp add: rounds_to_def)

lemma rounds_to_le: "rounds_to v w \<Longrightarrow> rep28 r \<Longrightarrow> v \<le> r \<Longrightarrow> w \<le> r"
  by (simp add: rounds_to_def)

lemma rounds_to_nonneg: "rounds_to v w \<Longrightarrow> 0 \<le> v \<Longrightarrow> 0 \<le> w"
  by (rule rounds_to_ge) simp_all

lemma rounds_to_nonpos: "rounds_to v w \<Longrightarrow> v \<le> 0 \<Longrightarrow> w \<le> 0"
  by (rule rounds_to_le) simp_all

lemma rounds_to_uminus: "rounds_to v w \<Longrightarrow> rounds_to (- v) (- w)"
  unfolding rounds_to_def by (metis minus_le_iff neg_le_iff_le rep28_uminus le_minus_iff)

lemma half_even_ge:
  assumes "0 < d" and "m * d \<le> n"
  shows "m \<le> half_even n d"
proof -
  have "m \<le> n div d"
    using assms by (simp add: le_div_int)
  then show ?thesis by (auto simp: half_even_def Let_def)
qed

lemma half_even_le:
  assumes "0 < d" and "n \<le> m * d"
  shows "half_even n d \<le> m"
proof (cases "n mod d = 0")
  case True
  with assms have "n div d \<le> m"
    by (metis le_div_int div_mult_mod_eq add.right_neutral mult_le_cancel_right not_less_iff_gr_or_eq)
  with True assms(1) show ?thesis by (simp add: half_even_def Let_def)
next
  case False
  have "n \<noteq> m * d" using False by auto
  with assms have "n div d < m" by (simp add: div_less_int)
  then show ?thesis by (auto simp: half_even_def Let_def)
qed

lemma round_mag_val:
  "of_int (fst (round_mag n d e)) * 10 powi snd (round_mag n d e)
     = (of_int (half_even n d) * 10 powi e :: rat)"
  by (simp add: round_mag_def Let_def power_int_add)

lemma powi_split: "f \<ge> e \<Longrightarrow> (10::rat) powi f = of_int (10 ^ nat (f - e)) * 10 powi e"
proof -
  assume "f \<ge> e"
  then have "(10::rat) powi (f - e) = 10 ^ nat (f - e)" by (simp add: power_int_def)
  moreover have "(10::rat) powi f = 10 powi (f - e) * 10 powi e" by (simp flip: power_int_add)
  ultimately show ?thesis by simp
qed

lemma powi_pos [simp]: "0 < (10::rat) powi e"
  by (simp add: zero_less_power_int)

lemma round_mag_bounds:
  fixes n d c e f :: int and r :: rat
  assumes d: "0 < d" and lo: "10 ^ 27 * d \<le> n"
    and r: "r = of_int c * 10 powi f" "\<bar>c\<bar> < 10 ^ 28"
  defines "v \<equiv> of_int n / of_int d * (10 powi e :: rat)"
    and "w \<equiv> of_int (half_even n d) * (10 powi e :: rat)"
  shows "(r \<le> v \<longrightarrow> r \<le> w) \<and> (v \<le> r \<longrightarrow> w \<le> r)"
proof (cases "e \<le> f")
  case True
  define C where "C = c * 10 ^ nat (f - e)"
  have rC: "r = of_int C * 10 powi e"
    using powi_split [OF True] r(1) by (simp add: C_def)
  have "r \<le> v \<longleftrightarrow> (of_int (C * d) :: rat) \<le> of_int n"
    using d by (simp add: rC v_def field_simps)
  then have rv: "r \<le> v \<longleftrightarrow> C * d \<le> n" by (simp only: of_int_le_iff)
  have "v \<le> r \<longleftrightarrow> (of_int n :: rat) \<le> of_int (C * d)"
    using d by (simp add: rC v_def field_simps)
  then have vr: "v \<le> r \<longleftrightarrow> n \<le> C * d" by (simp only: of_int_le_iff)
  show ?thesis
    using half_even_ge [OF d, of C n] half_even_le [OF d, of n C] rv vr
    by (simp add: rC w_def)
next
  case False
  have "\<bar>r\<bar> = of_int \<bar>c\<bar> * 10 powi f"
    by (simp add: r(1) abs_mult)
  also have "\<dots> < 10 ^ 28 * 10 powi f"
    using r(2) by (simp add: of_int_less_iff [where 'a = rat, symmetric] del: of_int_less_iff)
  also have "\<dots> = 10 ^ 27 * 10 powi (f + 1)"
    by (simp add: power_int_add)
  also have "\<dots> \<le> 10 ^ 27 * 10 powi e"
    using False by (simp add: power_int_increasing)
  finally have small: "\<bar>r\<bar> < 10 ^ 27 * 10 powi e" .
  have "(of_int (10 ^ 27 * d) :: rat) \<le> of_int n"
    using lo by (simp only: of_int_le_iff)
  then have "10 ^ 27 * 10 powi e \<le> v"
    using d by (simp add: v_def field_simps)
  moreover have "(of_int (10 ^ 27) :: rat) \<le> of_int (half_even n d)"
    using half_even_ge [OF d lo] by (simp only: of_int_le_iff)
  then have "10 ^ 27 * 10 powi e \<le> w"
    by (simp add: w_def)
  ultimately show ?thesis using small by linarith
qed

end
