(* ===== verification/Decimal_Laws.thy ===== *)
theory Decimal_Laws
  imports Decimals
begin

text \<open>
  The laws the component proofs use of decimals: every operation of \<open>Decimals\<close> is the
  operation on the denoted numbers followed by a faithful rounding, comparisons compare
  the numbers, \<open>quantize\<close> is rounding half away from zero onto the grid of \<open>10 ^ -p\<close>. The
  collection \<open>val_simps\<close> moves a goal about decimals to one about rationals.
\<close>

section \<open>Comparisons\<close>

declare less_eq_decimal_val [val_simps]
declare less_decimal_val [val_simps]

lemma deq_val [val_simps]: "deq x y \<longleftrightarrow> val x = val y"
  by (auto simp: deq_def val_simps)

lemma val_zero [simp, val_simps]: "val 0 = 0"
  by (simp add: zero_decimal_def val_def)

lemma val_one [simp, val_simps]: "val 1 = 1"
  by (simp add: one_decimal_def val_def)

lemma val_pymin [val_simps]: "val (pymin x y) = min (val x) (val y)"
  by (auto simp: pymin_def val_simps)

lemma val_pymax [val_simps]: "val (pymax x y) = max (val x) (val y)"
  by (auto simp: pymax_def val_simps)

section \<open>Context rounding\<close>

lemma signed_rounds:
  assumes "c \<noteq> 0" and d: "0 < d" and lo: "10 ^ 27 * d \<le> n"
  shows "rounds_to (of_int (sgn c) * (of_int n / of_int d * 10 powi e))
    (val (signed c (round_mag n d e)))"
proof -
  let ?v = "of_int n / of_int d * (10 powi e :: rat)"
  let ?w = "of_int (half_even n d) * (10 powi e :: rat)"
  have rnd: "rounds_to ?v ?w"
    unfolding rounds_to_def rep28_def using round_mag_bounds [OF d lo] by blast
  have "val (signed c (round_mag n d e))
      = of_int (sgn c) * (of_int (fst (round_mag n d e)) * 10 powi snd (round_mag n d e))"
    by (simp add: val_def signed_def)
  then have "val (signed c (round_mag n d e)) = of_int (sgn c) * ?w"
    by (simp only: round_mag_val)
  with rnd rounds_to_uminus [OF rnd] assms(1) show ?thesis
    by (cases "0 < c") (auto simp: sgn_if)
qed

lemma fix28_rounds: "rounds_to (val x) (val (fix28 x))"
proof (cases "dlen \<bar>coeff x\<bar> \<le> PREC")
  case True
  then show ?thesis by (simp add: fix28_def)
next
  case False
  define n where "n = \<bar>coeff x\<bar>"
  define s where "s = dlen n - PREC"
  have l: "dlen n = s + 28" and n0: "0 < n" and c0: "coeff x \<noteq> 0"
    using False dlen_le_iff [of 1 0] by (auto simp: s_def n_def PREC_def)
  have "10 ^ (dlen n - 1) \<le> n" by (rule pow_dlen_le [OF n0])
  moreover have "(10::int) ^ (dlen n - 1) = 10 ^ 27 * 10 ^ s"
    unfolding power_add [symmetric] l by simp
  ultimately have lo: "10 ^ 27 * 10 ^ s \<le> n" by simp
  have fx: "fix28 x = signed (coeff x) (round_mag n (10 ^ s) (dexp x + int s))"
    using False by (simp add: fix28_def Let_def n_def s_def)
  have "(of_int n :: rat) = \<bar>of_int (coeff x)\<bar>"
    by (simp add: n_def)
  moreover have "(10::rat) powi (dexp x + int s) = 10 powi dexp x * 10 ^ s"
    by (simp add: power_int_add)
  ultimately have "of_int (sgn (coeff x)) * (of_int n / of_int (10 ^ s) * 10 powi (dexp x + int s))
      = val x"
    by (auto simp: val_def sgn_if)
  then show ?thesis
    using signed_rounds [OF c0 _ lo, of "dexp x + int s"] by (simp add: fx)
qed

lemma aligned_val_mult:
  "e \<le> dexp d \<Longrightarrow> of_int (aligned d e) * 10 powi e = val d"
  by (simp add: aligned_val)

lemma plus_rounds: "rounds_to (val x + val y) (val (x + y))"
proof -
  let ?e = "min (dexp x) (dexp y)"
  have "val (Dec (aligned x ?e + aligned y ?e) ?e) = val x + val y"
    by (simp add: val_def [of "Dec _ _"] distrib_right aligned_val_mult)
  then show ?thesis
    using fix28_rounds [of "Dec (aligned x ?e + aligned y ?e) ?e"]
    by (simp add: plus_decimal_def Let_def)
qed

lemma minus_rounds: "rounds_to (val x - val y) (val (x - y))"
proof -
  let ?e = "min (dexp x) (dexp y)"
  have "val (Dec (aligned x ?e - aligned y ?e) ?e) = val x - val y"
    by (simp add: val_def [of "Dec _ _"] left_diff_distrib aligned_val_mult)
  then show ?thesis
    using fix28_rounds [of "Dec (aligned x ?e - aligned y ?e) ?e"]
    by (simp add: minus_decimal_def Let_def)
qed

lemma times_rounds: "rounds_to (val x * val y) (val (x * y))"
proof -
  have "val (Dec (coeff x * coeff y) (dexp x + dexp y)) = val x * val y"
    by (simp add: val_def power_int_add)
  then show ?thesis
    using fix28_rounds [of "Dec (coeff x * coeff y) (dexp x + dexp y)"]
    by (simp add: times_decimal_def)
qed

lemma uminus_rounds: "rounds_to (- val x) (val (- x))"
proof -
  have "val (Dec (- coeff x) (dexp x)) = - val x"
    by (simp add: val_def)
  then show ?thesis
    using fix28_rounds [of "Dec (- coeff x) (dexp x)"] by (simp add: uminus_decimal_def)
qed

lemma abs_rounds: "rounds_to \<bar>val x\<bar> (val \<bar>x\<bar>)"
proof -
  have "val (Dec \<bar>coeff x\<bar> (dexp x)) = \<bar>val x\<bar>"
    by (simp add: val_def abs_mult)
  then show ?thesis
    using fix28_rounds [of "Dec \<bar>coeff x\<bar> (dexp x)"] by (simp add: abs_decimal_def)
qed

lemmas arith_rounds = plus_rounds minus_rounds times_rounds uminus_rounds abs_rounds

lemmas val_plus = plus_rounds [THEN rounds_to_exact]
lemmas val_minus = minus_rounds [THEN rounds_to_exact]
lemmas val_times = times_rounds [THEN rounds_to_exact]
lemmas val_uminus = uminus_rounds [THEN rounds_to_exact]

lemma times_nonneg: "0 \<le> val x \<Longrightarrow> 0 \<le> val y \<Longrightarrow> 0 \<le> val (x * y)"
  by (rule rounds_to_nonneg [OF times_rounds]) simp

lemma times_nonpos: "0 \<le> val x \<Longrightarrow> val y \<le> 0 \<Longrightarrow> val (x * y) \<le> 0"
  by (rule rounds_to_nonpos [OF times_rounds]) (simp add: mult_nonneg_nonpos)

section \<open>Division\<close>

lemma div_scale_lower:
  assumes a: "0 < a" and b: "0 < b"
  defines "s \<equiv> div_scale a b"
  shows "10 ^ 27 * (b * 10 ^ nat (- s)) \<le> a * 10 ^ nat s"
proof -
  define s0 where "s0 = 28 + int (dlen b) - int (dlen a)"
  let ?n0 = "a * 10 ^ nat s0" and ?d0 = "b * 10 ^ nat (- s0)"
  have blt: "b < 10 ^ dlen b" by (rule less_pow_dlen)
  have age: "10 ^ (dlen a - 1) \<le> a" by (rule pow_dlen_le [OF a])
  have base: "10 ^ 27 * ?d0 \<le> ?n0"
  proof (cases "0 \<le> s0")
    case True
    have "10 ^ 27 * b \<le> 10 ^ 27 * 10 ^ dlen b" using blt by simp
    also have "\<dots> = 10 ^ (dlen a - 1) * 10 ^ nat s0"
    proof -
      have "27 + dlen b = dlen a - 1 + nat s0"
        using True dlen_pos [of a] unfolding s0_def by linarith
      then show ?thesis by (simp only: power_add [symmetric])
    qed
    also have "\<dots> \<le> a * 10 ^ nat s0" using age by simp
    finally show ?thesis using True by simp
  next
    case False
    have "10 ^ 27 * ?d0 \<le> 10 ^ 27 * (10 ^ dlen b * 10 ^ nat (- s0))" using blt by simp
    also have "\<dots> = 10 ^ (27 + dlen b + nat (- s0))" by (simp add: power_add)
    also have "27 + dlen b + nat (- s0) = dlen a - 1"
      using False dlen_pos [of a] unfolding s0_def by linarith
    also have "10 ^ (dlen a - 1) \<le> ?n0" using age False by simp
    finally show ?thesis .
  qed
  show ?thesis
  proof (cases "10 ^ 28 \<le> ?n0 div ?d0")
    case False
    then have "s = s0" by (simp add: s_def div_scale_def s0_def Let_def)
    with base show ?thesis by simp
  next
    case True
    then have s: "s = s0 - 1" by (simp add: s_def div_scale_def s0_def Let_def)
    have big: "10 ^ 28 * ?d0 \<le> ?n0"
      using True b by (simp add: le_div_int)
    show ?thesis
    proof (cases "1 \<le> s0")
      case True
      then have "nat s0 = Suc (nat s)" "nat (- s) = 0" "nat (- s0) = 0" by (simp_all add: s)
      with big show ?thesis by simp
    next
      case False
      then have "nat (- s) = Suc (nat (- s0))" "nat s = 0" "nat s0 = 0" by (simp_all add: s)
      with big show ?thesis by simp
    qed
  qed
qed

lemma strip10_val: "val (strip10 c e i) = of_int c * 10 powi e"
proof (induction c e i rule: strip10.induct)
  case (1 c e i)
  show ?case
  proof (cases "e < i \<and> c mod 10 = 0")
    case True
    then have "c = 10 * (c div 10)" by auto
    then have "(of_int c :: rat) = 10 * of_int (c div 10)"
      by (metis of_int_mult of_int_numeral)
    with 1 True show ?thesis
      by (subst strip10.simps) (simp add: power_int_add)
  next
    case False
    then show ?thesis by (subst strip10.simps) (auto simp: val_def)
  qed
qed

lemma scaled_ratio:
  "(of_int (a * 10 ^ nat s) / of_int (b * 10 ^ nat (- s)) :: rat)
     = of_int a / of_int b * 10 powi s"
proof (cases "0 \<le> s")
  case True
  then have "(10::rat) powi s = 10 ^ nat s" and "nat (- s) = 0"
    by (simp_all add: power_int_def)
  then show ?thesis by simp
next
  case False
  then have "(10::rat) powi s = 1 / 10 ^ nat (- s)" and "nat s = 0"
    by (simp_all add: power_int_def inverse_eq_divide power_one_over)
  then show ?thesis by simp
qed

lemma scaled_quotient:
  assumes "coeff y \<noteq> 0"
  shows "of_int (sgn (coeff x) * sgn (coeff y)) *
      (of_int (\<bar>coeff x\<bar> * 10 ^ nat s) / of_int (\<bar>coeff y\<bar> * 10 ^ nat (- s))
        * 10 powi (dexp x - dexp y - s))
    = val x / val y"
proof -
  have e: "(10::rat) powi s * 10 powi (dexp x - dexp y - s) = 10 powi dexp x / 10 powi dexp y"
    by (simp flip: power_int_add power_int_diff)
  have "(of_int (sgn (coeff x) * sgn (coeff y)) :: rat) *
      (of_int \<bar>coeff x\<bar> / of_int \<bar>coeff y\<bar>) = of_int (coeff x) / of_int (coeff y)"
    by (auto simp: sgn_if)
  then have "of_int (sgn (coeff x) * sgn (coeff y)) *
      (of_int \<bar>coeff x\<bar> / of_int \<bar>coeff y\<bar>)
        * (10 powi s * 10 powi (dexp x - dexp y - s)) = val x / val y"
    by (simp add: e val_def)
  then show ?thesis
    unfolding scaled_ratio by (simp only: mult.assoc)
qed

lemma val_eq_0_iff [simp]: "val x = 0 \<longleftrightarrow> coeff x = 0"
  by (simp add: val_def)

lemma ddiv_rounds:
  assumes "val y \<noteq> 0"
  shows "\<exists>z. ddiv x y = Inr z \<and> rounds_to (val x / val y) (val z)"
proof (cases "coeff x = 0")
  case True
  with assms show ?thesis by (simp add: ddiv_def val_def)
next
  case False
  define a b where "a = \<bar>coeff x\<bar>" and "b = \<bar>coeff y\<bar>"
  have ab: "0 < a" "0 < b" using False assms by (simp_all add: a_def b_def)
  define s n d where "s = div_scale a b" and "n = a * 10 ^ nat s" and "d = b * 10 ^ nat (- s)"
  define e where "e = dexp x - dexp y - s"
  let ?sg = "sgn (coeff x) * sgn (coeff y)"
  have d0: "0 < d" and lo: "10 ^ 27 * d \<le> n"
    using ab div_scale_lower [OF ab] by (simp_all add: d_def n_def s_def)
  have q: "of_int ?sg * (of_int n / of_int d * 10 powi e) = val x / val y"
    using scaled_quotient [of y x s] assms by (simp add: n_def d_def e_def a_def b_def)
  have sg: "?sg \<noteq> 0" "sgn ?sg = ?sg" using False assms by (simp_all add: sgn_mult sgn_eq_0_iff)
  have dv: "ddiv x y = (if n mod d = 0
      then Inr (strip10 (?sg * (n div d)) e (dexp x - dexp y))
      else Inr (signed ?sg (round_mag n d e)))"
    using False assms by (simp add: ddiv_def Let_def n_def d_def e_def s_def a_def b_def)
  show ?thesis
  proof (cases "n mod d = 0")
    case True
    then have "(of_int (n div d) :: rat) = of_int n / of_int d"
    by (simp add: of_int_div mod_0_imp_dvd)
    then have "val (strip10 (?sg * (n div d)) e (dexp x - dexp y)) = val x / val y"
      using q by (simp add: strip10_val mult.assoc)
    with dv True show ?thesis by simp
  next
    case False
    with dv signed_rounds [OF sg(1) d0 lo, of e] q sg(2) show ?thesis by simp
  qed
qed

lemma ddiv_zero: "val y = 0 \<Longrightarrow> \<exists>e. ddiv x y = Inl e"
  by (simp add: ddiv_def)

lemma ddivE:
  assumes "ddiv x y = Inr z"
  obtains "val y \<noteq> 0" and "rounds_to (val x / val y) (val z)"
proof
  show nz: "val y \<noteq> 0" using assms ddiv_zero [of y x] by auto
  show "rounds_to (val x / val y) (val z)"
    using ddiv_rounds [OF nz, of x] assms by auto
qed

section \<open>Rounding half up\<close>

lemma rhu_of_int [simp]: "rhu (of_int n) = n"
proof -
  have "\<lfloor>(of_int n :: rat) + 1 / 2\<rfloor> = n" by (rule floor_unique) simp_all
  moreover have "\<lfloor>1 / 2 - (of_int n :: rat)\<rfloor> = - n" by (rule floor_unique) simp_all
  ultimately show ?thesis by (simp add: rhu_def)
qed

lemma rhu_uminus: "rhu (- r) = - rhu r"
proof (cases "r = 0")
  case True
  then show ?thesis using rhu_of_int [of 0] by simp
qed (auto simp: rhu_def add.commute)

lemma rhu_nonneg: "0 \<le> r \<Longrightarrow> 0 \<le> rhu r"
  by (simp add: rhu_def)

lemma rhu_mono:
  assumes "r \<le> s"
  shows "rhu r \<le> rhu s"
proof (cases "0 \<le> r \<or> s < 0")
  case True
  with assms show ?thesis by (auto simp: rhu_def intro: floor_mono)
next
  case False
  then have "0 \<le> rhu s" and "0 \<le> rhu (- r)"
    by (simp_all add: rhu_nonneg)
  then show ?thesis by (simp add: rhu_uminus)
qed

lemma rhu_error: "\<bar>of_int (rhu r) - r\<bar> \<le> 1 / 2"
proof -
  have pos: "\<bar>of_int (rhu r) - r\<bar> \<le> 1 / 2" if "0 \<le> r" for r
  proof -
    have "of_int (rhu r) \<le> r + 1 / 2" "r + 1 / 2 < of_int (rhu r) + 1"
      using that floor_correct [of "r + 1 / 2"] by (simp_all add: rhu_def)
    then show ?thesis unfolding abs_le_iff by linarith
  qed
  show ?thesis
  proof (cases "0 \<le> r")
    case False
    then have "\<bar>of_int (rhu (- r)) - (- r)\<bar> \<le> 1 / 2" by (intro pos) simp
    then show ?thesis by (simp add: rhu_uminus abs_minus_commute)
  qed (rule pos)
qed

lemma grid_of_int [simp]: "grid p (of_int n / 10 ^ p)"
  by (simp add: grid_def)

lemma gridI: "r = of_int n / 10 ^ p \<Longrightarrow> grid p r"
  by simp

lemma gridE:
  assumes "grid p r"
  obtains n where "r = of_int n / 10 ^ p"
proof
  show "r = of_int \<lfloor>r * 10 ^ p\<rfloor> / 10 ^ p"
    using assms unfolding grid_def by (simp only: nonzero_eq_divide_eq) simp
qed

lemma grid_zero [simp]: "grid p 0"
  using grid_of_int [of p 0] by simp

lemma grid_plus: "grid p r \<Longrightarrow> grid p s \<Longrightarrow> grid p (r + s)"
proof (elim gridE)
  fix m n assume "r = of_int m / 10 ^ p" "s = of_int n / 10 ^ p"
  then show ?thesis by (intro gridI [of _ "m + n"]) (simp add: add_divide_distrib)
qed

lemma grid_uminus: "grid p r \<Longrightarrow> grid p (- r)"
proof (elim gridE)
  fix m assume "r = of_int m / 10 ^ p"
  then show ?thesis by (intro gridI [of _ "- m"]) simp
qed

lemma grid_minus: "grid p r \<Longrightarrow> grid p s \<Longrightarrow> grid p (r - s)"
  using grid_plus [of p r "- s"] by (simp add: grid_uminus)

lemma grid_times: "grid p r \<Longrightarrow> grid q s \<Longrightarrow> grid (p + q) (r * s)"
proof (elim gridE)
  fix m n assume "r = of_int m / 10 ^ p" "s = of_int n / 10 ^ q"
  then show ?thesis by (intro gridI [of _ "m * n"]) (simp add: power_add)
qed

lemma grid_min: "grid p r \<Longrightarrow> grid p s \<Longrightarrow> grid p (min r s)"
  by (simp add: min_def)

lemma grid_max: "grid p r \<Longrightarrow> grid p s \<Longrightarrow> grid p (max r s)"
  by (simp add: max_def)

lemma grid_sum_list: "(\<And>x. x \<in> set xs \<Longrightarrow> grid p (f x)) \<Longrightarrow> grid p (sum_list (map f xs))"
  by (induction xs) (auto intro: grid_plus)

lemma grid_weaken:
  assumes "grid p r" and "p \<le> q"
  shows "grid q r"
proof -
  from assms(1) obtain n where n: "r = of_int n / 10 ^ p" by (rule gridE)
  have "(10::rat) ^ q = 10 ^ p * 10 ^ (q - p)" using assms(2) by (simp flip: power_add)
  with n have "r = of_int (n * 10 ^ (q - p)) / 10 ^ q" by simp
  then show ?thesis by (rule gridI)
qed

lemma grid_less_step: "grid p r \<Longrightarrow> 0 < r \<Longrightarrow> 1 / 10 ^ p \<le> r"
proof (elim gridE)
  fix n assume "r = of_int n / 10 ^ p" "0 < r"
  moreover from this have "1 \<le> n" by (simp add: zero_less_divide_iff)
  then have "(1::rat) \<le> of_int n" by simp
  ultimately show ?thesis by (simp add: divide_right_mono)
qed

lemma rep28_grid:
  assumes "grid p r" and "\<bar>r\<bar> * 10 ^ p < 10 ^ 28"
  shows "rep28 r"
proof -
  from assms(1) obtain n where n: "r = of_int n / 10 ^ p" by (rule gridE)
  with assms(2) have "(of_int \<bar>n\<bar> :: rat) < of_int (10 ^ 28)"
    by (simp add: abs_divide)
  then have "\<bar>n\<bar> < 10 ^ 28" by (simp only: of_int_less_iff)
  moreover have "r = of_int n * 10 powi (- int p)"
    by (simp add: n power_int_minus divide_inverse)
  ultimately show ?thesis unfolding rep28_def by blast
qed

lemma round_half_up_grid [simp]: "grid p (round_half_up p r)"
  by (simp add: round_half_up_def)

lemma round_half_up_id: "grid p r \<Longrightarrow> round_half_up p r = r"
  by (elim gridE) (simp add: round_half_up_def)

lemma round_half_up_mono: "r \<le> s \<Longrightarrow> round_half_up p r \<le> round_half_up p s"
  by (simp add: round_half_up_def divide_right_mono rhu_mono)

lemma round_half_up_zero [simp]: "round_half_up p 0 = 0"
  by (rule round_half_up_id) simp

lemma round_half_up_nonneg: "0 \<le> r \<Longrightarrow> 0 \<le> round_half_up p r"
  using round_half_up_mono [of 0 r p] by simp

lemma round_half_up_nonpos: "r \<le> 0 \<Longrightarrow> round_half_up p r \<le> 0"
  using round_half_up_mono [of r 0 p] by simp

lemma round_half_up_uminus: "round_half_up p (- r) = - round_half_up p r"
  by (simp add: round_half_up_def rhu_uminus)

lemma round_half_up_error: "\<bar>round_half_up p r - r\<bar> \<le> 1 / (2 * 10 ^ p)"
proof -
  have "\<bar>round_half_up p r - r\<bar> = \<bar>of_int (rhu (r * 10 ^ p)) - r * 10 ^ p\<bar> / 10 ^ p"
  proof -
    have "round_half_up p r - r = (of_int (rhu (r * 10 ^ p)) - r * 10 ^ p) / 10 ^ p"
      by (simp add: round_half_up_def diff_divide_distrib)
    then show ?thesis by (simp add: abs_divide)
  qed
  also have "\<dots> \<le> (1 / 2) / 10 ^ p"
    by (intro divide_right_mono rhu_error) simp
  finally show ?thesis by simp
qed

lemma half_up_floor:
  assumes "0 < d"
  shows "half_up n d = \<lfloor>(of_int n / of_int d :: rat) + 1 / 2\<rfloor>"
proof -
  have "(of_int n / of_int d :: rat) + 1 / 2 = of_int (2 * n + d) / of_int (2 * d)"
    using assms by (simp add: field_simps)
  then show ?thesis
    unfolding half_up_def by (simp only: floor_divide_of_int_eq)
qed

definition quantized :: "nat \<Rightarrow> decimal \<Rightarrow> int" where
  "quantized p x = (if - int p \<le> dexp x then coeff x * 10 ^ nat (dexp x + int p)
     else sgn (coeff x) * half_up \<bar>coeff x\<bar> (10 ^ nat (- int p - dexp x)))"

lemma quantized_rhu: "quantized p x = rhu (val x * 10 ^ p)"
proof (cases "- int p \<le> dexp x")
  case True
  have "(10::rat) powi dexp x * 10 ^ p = 10 powi (dexp x + int p)"
    by (simp add: power_int_add)
  also have "\<dots> = 10 ^ nat (dexp x + int p)"
    using True by (simp add: power_int_def)
  finally have "val x * 10 ^ p = of_int (coeff x * 10 ^ nat (dexp x + int p))"
    by (simp add: val_def)
  then have "rhu (val x * 10 ^ p) = coeff x * 10 ^ nat (dexp x + int p)"
    by (simp only: rhu_of_int)
  with True show ?thesis by (simp add: quantized_def)
next
  case False
  define d :: int where "d = 10 ^ nat (- int p - dexp x)"
  have "(10::rat) powi dexp x * 10 ^ p = 10 powi (dexp x + int p)"
    by (simp add: power_int_add)
  also have "\<dots> = 1 / of_int d"
    using False by (simp add: power_int_def d_def inverse_eq_divide power_one_over add.commute)
  finally have v: "val x * 10 ^ p = of_int (coeff x) / of_int d"
    unfolding val_def mult.assoc by simp
  have fl: "half_up n d = rhu (of_int n / of_int d)" if "0 \<le> n" for n
    using half_up_floor [of d n] that by (simp add: rhu_def d_def)
  have "quantized p x = sgn (coeff x) * rhu (of_int \<bar>coeff x\<bar> / of_int d)"
    using False by (simp only: quantized_def if_False d_def [symmetric] fl abs_ge_zero)
  also have "\<dots> = rhu (val x * 10 ^ p)"
    using rhu_of_int [of 0] by (cases "0 < coeff x") (auto simp: sgn_if v rhu_uminus [symmetric])
  finally show ?thesis .
qed

lemma quantize_quantized:
  "quantize p x = (if \<bar>quantized p x\<bar> < 10 ^ 28 then Inr (Dec (quantized p x) (- int p))
     else Inl InvalidOperation)"
proof -
  have "dlen \<bar>quantized p x\<bar> \<le> PREC \<longleftrightarrow> \<bar>quantized p x\<bar> < 10 ^ 28"
    using dlen_le_iff [of 28 "\<bar>quantized p x\<bar>"] by (simp add: PREC_def)
  then show ?thesis
    by (simp add: quantize_def Let_def quantized_def [symmetric])
qed

lemma quantize_val:
  assumes "quantize p x = Inr z"
  shows "val z = round_half_up p (val x)"
proof -
  have "z = Dec (quantized p x) (- int p)"
    using assms by (simp add: quantize_quantized split: if_splits)
  then show ?thesis
    by (simp add: val_def round_half_up_def quantized_rhu power_int_minus divide_inverse)
qed

lemma quantize_returns: "\<bar>rhu (val x * 10 ^ p)\<bar> < 10 ^ 28 \<Longrightarrow> \<exists>z. quantize p x = Inr z"
  by (simp add: quantize_quantized quantized_rhu)

lemma quantize_returns_iff: "returns (quantize p x) \<longleftrightarrow> \<bar>rhu (val x * 10 ^ p)\<bar> < 10 ^ 28"
  by (simp add: quantize_quantized quantized_rhu)

lemma quantize_total:
  assumes "\<bar>val x\<bar> \<le> of_int m" and "m * 10 ^ p < 10 ^ 28"
  obtains z where "quantize p x = Inr z" and "val z = round_half_up p (val x)"
proof -
  have "val x * 10 ^ p \<le> of_int m * 10 ^ p" "- of_int m * 10 ^ p \<le> val x * 10 ^ p"
    using assms(1) by (intro mult_right_mono; simp add: abs_le_iff)+
  then have "val x * 10 ^ p \<le> of_int (m * 10 ^ p)" "of_int (- (m * 10 ^ p)) \<le> val x * 10 ^ p"
    by simp_all
  then have "rhu (val x * 10 ^ p) \<le> m * 10 ^ p" "- (m * 10 ^ p) \<le> rhu (val x * 10 ^ p)"
    using rhu_mono by (metis rhu_of_int)+
  with assms(2) have "\<bar>rhu (val x * 10 ^ p)\<bar> < 10 ^ 28" by linarith
  with quantize_returns obtain z where "quantize p x = Inr z" by blast
  with quantize_val that show thesis by blast
qed

text \<open>Stored values have four decimals.\<close>

lemma val_Dec4: "val (Dec c (- 4)) = of_int c / 10 ^ 4"
  by (simp add: val_def power_int_def field_simps)

section \<open>Extremes of a list\<close>

text \<open>\<open>min(xs, default=None)\<close> and \<open>max(xs, default=None)\<close>\<close>

fun pymin_of :: "decimal list \<Rightarrow> decimal option" where
  "pymin_of [] = None"
| "pymin_of (x # xs) = Some (foldl pymin x xs)"

fun pymax_of :: "decimal list \<Rightarrow> decimal option" where
  "pymax_of [] = None"
| "pymax_of (x # xs) = Some (foldl pymax x xs)"

lemma foldl_pymax: "foldl pymax m xs \<in> insert m (set xs) \<and> val m \<le> val (foldl pymax m xs)
    \<and> (\<forall>x \<in> set xs. val x \<le> val (foldl pymax m xs))"
proof (induction xs arbitrary: m)
  case (Cons x xs)
  have "pymax m x = m \<or> pymax m x = x" "val m \<le> val (pymax m x)" "val x \<le> val (pymax m x)"
    by (auto simp: pymax_def val_simps)
  with Cons [of "pymax m x"] show ?case by auto
qed simp

lemma foldl_pymin: "foldl pymin m xs \<in> insert m (set xs) \<and> val (foldl pymin m xs) \<le> val m
    \<and> (\<forall>x \<in> set xs. val (foldl pymin m xs) \<le> val x)"
proof (induction xs arbitrary: m)
  case (Cons x xs)
  have "pymin m x = m \<or> pymin m x = x" "val (pymin m x) \<le> val m" "val (pymin m x) \<le> val x"
    by (auto simp: pymin_def val_simps)
  with Cons [of "pymin m x"] show ?case by auto
qed simp

lemma pymax_of_None [simp]: "pymax_of xs = None \<longleftrightarrow> xs = []"
  by (cases xs) simp_all

lemma pymin_of_None [simp]: "pymin_of xs = None \<longleftrightarrow> xs = []"
  by (cases xs) simp_all

lemma pymax_of_Some:
  "pymax_of xs = Some m \<Longrightarrow> m \<in> set xs \<and> (\<forall>x \<in> set xs. val x \<le> val m)"
  using foldl_pymax by (cases xs) auto

lemma pymin_of_Some:
  "pymin_of xs = Some m \<Longrightarrow> m \<in> set xs \<and> (\<forall>x \<in> set xs. val m \<le> val x)"
  using foldl_pymin by (cases xs) auto

section \<open>Sums of amounts\<close>

text \<open>
  Amounts with four decimals below a bound add up exactly: \<open>money k\<close> bounds a sum of \<open>k\<close> of them.
\<close>

definition money :: "nat \<Rightarrow> rat \<Rightarrow> bool" where
  "money k v \<longleftrightarrow> grid 4 v \<and> \<bar>v\<bar> \<le> of_nat k * 10 ^ 10"

lemma money_rep28:
  assumes "money k v" and "k \<le> 10000"
  shows "rep28 v"
proof (rule rep28_grid [of 4])
  have "of_nat k * 10 ^ 10 \<le> (10000 * 10 ^ 10 :: rat)"
    using assms(2) by (intro mult_right_mono) simp_all
  with assms(1) show "\<bar>v\<bar> * 10 ^ 4 < 10 ^ 28" by (simp add: money_def)
qed (use assms(1) in \<open>simp add: money_def\<close>)

lemma money_plus:
  assumes "money j (val x)" "money k (val y)" "j + k \<le> 10000"
  shows "val (x + y) = val x + val y" and "money (j + k) (val (x + y))"
proof -
  have m: "money (j + k) (val x + val y)"
    using assms(1,2) abs_triangle_ineq [of "val x" "val y"]
    by (auto simp: money_def grid_plus distrib_right)
  then show "val (x + y) = val x + val y" using assms(3) by (intro val_plus money_rep28)
  with m show "money (j + k) (val (x + y))" by simp
qed

section \<open>Stored energy\<close>

text \<open>A stored energy quantity (\<open>Numeric(14, 4)\<close>).\<close>

definition stored_energy :: "decimal \<Rightarrow> bool" where
  "stored_energy q \<longleftrightarrow> grid 4 (val q) \<and> 0 \<le> val q \<and> val q < 10 ^ 10"

lemma stored_energy_Dec [simp]: "stored_energy (Dec c (- 4)) \<longleftrightarrow> 0 \<le> c \<and> c < 10 ^ 14"
proof -
  have "(of_int c :: rat) / 10 ^ 4 < 10 ^ 10 \<longleftrightarrow> of_int c < (of_int (10 ^ 14) :: rat)"
    by (simp add: field_simps)
  then show ?thesis
    unfolding stored_energy_def val_Dec4 using grid_of_int [of 4 c] by simp
qed

lemma stored_energy_bounds:
  "stored_energy q \<Longrightarrow> grid 4 (val q) \<and> 0 \<le> val q \<and> val q \<le> 10 ^ 10"
  by (simp add: stored_energy_def)

lemma dsum_snoc: "dsum (xs @ [x]) = dsum xs + x"
  by (simp add: dsum_def)

end
