(* ===== verification/Clearing_Price.thy ===== *)
theory Clearing_Price
  imports Decimal_Laws
begin

text \<open>
  \<open>backend/app/domain/policies/clearing_price.py\<close>: when a buy and a sell cross, the price
  they clear at, and the rounding of every price to four decimals.
\<close>

definition PRICE_PLACES :: nat where
  "PRICE_PLACES = 4"

definition quantize_price :: "decimal \<Rightarrow> decimal result" where
  "quantize_price v = quantize PRICE_PLACES v"

definition midpoint_clearing_price :: "decimal \<Rightarrow> decimal \<Rightarrow> decimal result" where
  "midpoint_clearing_price buy_max sell_min =
     (if sell_min > buy_max then Inl PriceCrossError
      else bindE (ddiv (buy_max + sell_min) (Dec 2 0)) quantize_price)"

definition prices_cross :: "decimal option \<Rightarrow> decimal option \<Rightarrow> bool" where
  "prices_cross buy_max sell_min =
     (case (buy_max, sell_min) of
        (Some b, Some s) \<Rightarrow> s \<le> b
      | _ \<Rightarrow> False)"

text \<open>
  The prices the database stores (\<open>Numeric(12, 4)\<close>) are numbers with four decimals; the
  bound below is far wider than the column's eight integer digits.
\<close>

definition stored_price :: "decimal \<Rightarrow> bool" where
  "stored_price p \<longleftrightarrow> grid 4 (val p) \<and> 0 \<le> val p \<and> val p < 10 ^ 8"

lemma stored_price_Dec [simp]: "stored_price (Dec c (- 4)) \<longleftrightarrow> 0 \<le> c \<and> c < 10 ^ 12"
proof -
  have "(of_int c :: rat) / 10 ^ 4 < 10 ^ 8 \<longleftrightarrow> of_int c < (of_int (10 ^ 12) :: rat)"
    by (simp add: field_simps)
  then show ?thesis
    unfolding stored_price_def val_Dec4 using grid_of_int [of 4 c] by simp
qed

lemma quantize_price_val: "quantize_price v = Inr z \<Longrightarrow> val z = round_half_up 4 (val v)"
  by (simp add: quantize_price_def PRICE_PLACES_def quantize_val)

lemma quantize_price_grid: "quantize_price v = Inr z \<Longrightarrow> grid 4 (val z)"
  by (simp add: quantize_price_val)

lemma quantize_price_total:
  assumes "\<bar>val v\<bar> \<le> 10 ^ 20"
  obtains z where "quantize_price v = Inr z" and "val z = round_half_up 4 (val v)"
proof (rule quantize_total [of v "10 ^ 20" 4])
  show "\<bar>val v\<bar> \<le> of_int (10 ^ 20)" using assms by simp
  show "(10 ^ 20 :: int) * 10 ^ 4 < 10 ^ 28" by simp
  fix z assume "quantize 4 v = Inr z" "val z = round_half_up 4 (val v)"
  then show thesis by (intro that) (simp_all add: quantize_price_def PRICE_PLACES_def)
qed

lemma prices_cross_Some [simp]: "prices_cross (Some b) (Some s) \<longleftrightarrow> s \<le> b"
  by (simp add: prices_cross_def)

lemma prices_crossE:
  assumes "prices_cross b s"
  obtains b' s' where "b = Some b'" and "s = Some s'" and "s' \<le> b'"
  using assms by (auto simp: prices_cross_def split: option.splits)

text \<open>Halving: the quotient by two never leaves the interval of its two arguments.\<close>

lemma half_sum_bounds:
  assumes "ddiv (b + s) (Dec 2 0) = Inr m" and "val s \<le> val b"
    and "rep28 (val s)" and "rep28 (val b)" and "rep28 (2 * val s)" and "rep28 (2 * val b)"
  shows "val s \<le> val m \<and> val m \<le> val b"
proof -
  have two: "val (Dec 2 0) = 2" by (simp add: val_def)
  from assms(1) have r: "rounds_to (val (b + s) / 2) (val m)"
    by (auto elim: ddivE simp: two)
  have "2 * val s \<le> val (b + s)" "val (b + s) \<le> 2 * val b"
    using assms plus_rounds [of b s] by (auto intro: rounds_to_ge rounds_to_le)
  then have "val s \<le> val (b + s) / 2" "val (b + s) / 2 \<le> val b" by simp_all
  with r assms(3,4) show ?thesis by (auto intro: rounds_to_ge rounds_to_le)
qed

lemma stored_price_rep28: "stored_price p \<Longrightarrow> rep28 (val p)"
  by (rule rep28_grid [of 4]) (simp_all add: stored_price_def)

lemma stored_price_double_rep28: "stored_price p \<Longrightarrow> rep28 (2 * val p)"
  using grid_plus [of 4 "val p" "val p"]
  by (intro rep28_grid [of 4]) (simp_all add: stored_price_def)

lemma midpoint_returns:
  assumes "stored_price b" and "stored_price s" and "s \<le> b"
  shows "\<exists>p. midpoint_clearing_price b s = Inr p \<and> s \<le> p \<and> p \<le> b \<and> stored_price p"
proof -
  from assms(3) have sb: "val s \<le> val b" and n: "\<not> b < s" by (simp_all add: val_simps)
  have "val (Dec 2 0) \<noteq> 0" by simp
  then obtain m where m: "ddiv (b + s) (Dec 2 0) = Inr m" using ddiv_rounds by blast
  have mb: "val s \<le> val m \<and> val m \<le> val b"
    using half_sum_bounds [OF m sb] assms
    by (simp add: stored_price_rep28 stored_price_double_rep28)
  with assms(1,2) have "\<bar>val m\<bar> \<le> 10 ^ 20" by (simp add: stored_price_def)
  then obtain p where p: "quantize_price m = Inr p" "val p = round_half_up 4 (val m)"
    by (rule quantize_price_total)
  have "round_half_up 4 (val s) \<le> val p" "val p \<le> round_half_up 4 (val b)"
    using mb by (simp_all add: p(2) round_half_up_mono)
  then have pb: "val s \<le> val p" "val p \<le> val b"
    using assms(1,2) by (simp_all add: stored_price_def round_half_up_id)
  with assms(1,2) quantize_price_grid [OF p(1)] have "stored_price p"
    by (simp add: stored_price_def)
  with n m p(1) pb show ?thesis
    by (simp add: midpoint_clearing_price_def val_simps)
qed

lemma midpoint_raises: "b < s \<Longrightarrow> midpoint_clearing_price b s = Inl PriceCrossError"
  by (simp add: midpoint_clearing_price_def)

end
