(* ===== verification/Domain_Enums.thy ===== *)
theory Domain_Enums
  imports Prelude
begin

text \<open>
  The controlled vocabularies of \<open>backend/app/domain/enums.py\<close>: every enumeration as a
  datatype with the source's members (prefixed where two enumerations share a member
  name), its properties as functions, and the stored string values where a serialization
  depends on them. The trust ladder of verification levels is an instance of \<open>linorder\<close>
  by its explicit rank.
\<close>

section \<open>Identity and verification\<close>

datatype user_role = CONSUMER | PROSUMER | OPERATOR | REGULATOR_VIEWER | ADMIN

datatype user_status = User_PENDING | User_ACTIVE | User_SUSPENDED

datatype verification_level = Level_NONE | SELF_DECLARED | DOCUMENT_VERIFIED | DISCOM_VERIFIED

fun rank :: "verification_level \<Rightarrow> nat" where
  "rank Level_NONE = 0"
| "rank SELF_DECLARED = 1"
| "rank DOCUMENT_VERIFIED = 2"
| "rank DISCOM_VERIFIED = 3"

instantiation verification_level :: linorder
begin

definition less_eq_verification_level :: "verification_level \<Rightarrow> verification_level \<Rightarrow> bool" where
  "less_eq_verification_level a b \<longleftrightarrow> rank a \<le> rank b"

definition less_verification_level :: "verification_level \<Rightarrow> verification_level \<Rightarrow> bool" where
  "less_verification_level a b \<longleftrightarrow> rank a < rank b"

lemma rank_inject: "rank a = rank b \<longleftrightarrow> a = b"
  by (cases a; cases b) simp_all

instance
  by standard (auto simp: less_eq_verification_level_def less_verification_level_def
      simp flip: rank_inject)

end

datatype verification_type =
  Evidence_IDENTITY | Evidence_UTILITY_ACCOUNT | Evidence_METER | Evidence_ENERGY_ASSET

datatype verification_source = Source_SELF_DECLARED | DISCOM | THIRD_PARTY | Source_OPERATOR

datatype verification_status =
  Verification_PENDING | VERIFIED | Verification_REJECTED | Verification_EXPIRED | REVOKED

datatype consent_scope = METER_DATA | DEVICE_DATA | MARKET_PARTICIPATION

section \<open>Assets\<close>

datatype grid_node_type = SUBSTATION | FEEDER | TRANSFORMER | CONNECTION_POINT

datatype energy_asset_type = PV | BATTERY | EV

datatype energy_asset_status = PLANNED | Asset_ACTIVE | INACTIVE | DECOMMISSIONED

datatype meter_type = SMART_METER | NET_METER | GROSS_METER

datatype inverter_protocol =
  SUNSPEC_MODBUS_TCP | SUNSPEC_MODBUS_RTU | VENDOR_API | SIMULATED | Protocol_UNKNOWN

section \<open>Audit vocabulary\<close>

datatype audit_entity_type = Entity_ORDER | Entity_TRADE | Entity_MARKET_SESSION

datatype audit_event_type =
    ORDER_PLACED | ORDER_CANCELLED | MARKET_CLEARED | TRADE_PROPOSED
  | GRID_VALIDATION_RECORDED | PRICE_CALCULATED | TRADE_RECONCILED | TRADE_SETTLED

definition subject :: "audit_event_type \<Rightarrow> audit_entity_type" where
  "subject t =
     (if t \<in> {ORDER_PLACED, ORDER_CANCELLED} then Entity_ORDER
      else if t = MARKET_CLEARED then Entity_MARKET_SESSION
      else Entity_TRADE)"

fun audit_entity_value :: "audit_entity_type \<Rightarrow> string" where
  "audit_entity_value Entity_ORDER = ''order''"
| "audit_entity_value Entity_TRADE = ''trade''"
| "audit_entity_value Entity_MARKET_SESSION = ''market_session''"

fun audit_event_value :: "audit_event_type \<Rightarrow> string" where
  "audit_event_value ORDER_PLACED = ''order_placed''"
| "audit_event_value ORDER_CANCELLED = ''order_cancelled''"
| "audit_event_value MARKET_CLEARED = ''market_cleared''"
| "audit_event_value TRADE_PROPOSED = ''trade_proposed''"
| "audit_event_value GRID_VALIDATION_RECORDED = ''grid_validation_recorded''"
| "audit_event_value PRICE_CALCULATED = ''price_calculated''"
| "audit_event_value TRADE_RECONCILED = ''trade_reconciled''"
| "audit_event_value TRADE_SETTLED = ''trade_settled''"

section \<open>Realtime vocabulary\<close>

datatype realtime_channel = Channel_MARKET | Channel_GRID | Channel_TELEMETRY

datatype realtime_event_type =
    ORDER_ACCEPTED | CLEARING_STARTED | Realtime_TRADE_PROPOSED | MARKET_PRICE_CHANGED
  | SETTLEMENT_UPDATED | GRID_VALIDATION_UPDATED | GRID_SNAPSHOT_UPDATED | TELEMETRY_UPDATED

definition channel :: "realtime_event_type \<Rightarrow> realtime_channel" where
  "channel t =
     (if t \<in> {GRID_VALIDATION_UPDATED, GRID_SNAPSHOT_UPDATED} then Channel_GRID
      else if t = TELEMETRY_UPDATED then Channel_TELEMETRY
      else Channel_MARKET)"

fun realtime_channel_value :: "realtime_channel \<Rightarrow> string" where
  "realtime_channel_value Channel_MARKET = ''market''"
| "realtime_channel_value Channel_GRID = ''grid''"
| "realtime_channel_value Channel_TELEMETRY = ''telemetry''"

fun realtime_event_value :: "realtime_event_type \<Rightarrow> string" where
  "realtime_event_value ORDER_ACCEPTED = ''order_accepted''"
| "realtime_event_value CLEARING_STARTED = ''clearing_started''"
| "realtime_event_value Realtime_TRADE_PROPOSED = ''trade_proposed''"
| "realtime_event_value MARKET_PRICE_CHANGED = ''market_price_changed''"
| "realtime_event_value SETTLEMENT_UPDATED = ''settlement_updated''"
| "realtime_event_value GRID_VALIDATION_UPDATED = ''grid_validation_updated''"
| "realtime_event_value GRID_SNAPSHOT_UPDATED = ''grid_snapshot_updated''"
| "realtime_event_value TELEMETRY_UPDATED = ''telemetry_updated''"

section \<open>Settlement vocabulary\<close>

datatype reconciliation_status = AWAITING_TELEMETRY | RECONCILED

definition reconciliation_is_complete :: "reconciliation_status \<Rightarrow> bool" where
  "reconciliation_is_complete s \<longleftrightarrow> s = RECONCILED"

fun reconciliation_status_value :: "reconciliation_status \<Rightarrow> string" where
  "reconciliation_status_value AWAITING_TELEMETRY = ''awaiting_telemetry''"
| "reconciliation_status_value RECONCILED = ''reconciled''"

datatype settlement_status = Settlement_PENDING | SETTLED | SUPERSEDED

fun settlement_status_value :: "settlement_status \<Rightarrow> string" where
  "settlement_status_value Settlement_PENDING = ''pending''"
| "settlement_status_value SETTLED = ''settled''"
| "settlement_status_value SUPERSEDED = ''superseded''"

definition settlement_is_final :: "settlement_status \<Rightarrow> bool" where
  "settlement_is_final s \<longleftrightarrow> s = SETTLED"

section \<open>Telemetry and forecast vocabulary\<close>

datatype telemetry_quality_status =
  VALID | MISSING | STALE | OUT_OF_ORDER | DUPLICATE | INVALID_VALUE | SOURCE_UNAVAILABLE

definition is_usable :: "telemetry_quality_status \<Rightarrow> bool" where
  "is_usable s \<longleftrightarrow> s = VALID"

fun telemetry_quality_value :: "telemetry_quality_status \<Rightarrow> string" where
  "telemetry_quality_value VALID = ''valid''"
| "telemetry_quality_value MISSING = ''missing''"
| "telemetry_quality_value STALE = ''stale''"
| "telemetry_quality_value OUT_OF_ORDER = ''out_of_order''"
| "telemetry_quality_value DUPLICATE = ''duplicate''"
| "telemetry_quality_value INVALID_VALUE = ''invalid_value''"
| "telemetry_quality_value SOURCE_UNAVAILABLE = ''source_unavailable''"

datatype telemetry_source = Source_METER | INVERTER | SIMULATOR | IMPORT | MANUAL

datatype forecast_type = SOLAR | LOAD | SURPLUS

datatype forecast_run_status = Run_PENDING | RUNNING | COMPLETED | FAILED

definition run_is_terminal :: "forecast_run_status \<Rightarrow> bool" where
  "run_is_terminal s \<longleftrightarrow> s \<in> {COMPLETED, FAILED}"

definition run_has_points :: "forecast_run_status \<Rightarrow> bool" where
  "run_has_points s \<longleftrightarrow> s = COMPLETED"

section \<open>Market vocabulary\<close>

datatype market_type = DAY_AHEAD

datatype market_session_status = Session_OPEN | CLOSED | CLEARED

fun session_status_value :: "market_session_status \<Rightarrow> string" where
  "session_status_value Session_OPEN = ''open''"
| "session_status_value CLOSED = ''closed''"
| "session_status_value CLEARED = ''cleared''"

definition accepts_orders :: "market_session_status \<Rightarrow> bool" where
  "accepts_orders s \<longleftrightarrow> s = Session_OPEN"

definition can_clear :: "market_session_status \<Rightarrow> bool" where
  "can_clear s \<longleftrightarrow> s = CLOSED"

datatype order_side = BUY | SELL

fun opposite :: "order_side \<Rightarrow> order_side" where
  "opposite BUY = SELL"
| "opposite SELL = BUY"

fun order_side_value :: "order_side \<Rightarrow> string" where
  "order_side_value BUY = ''buy''"
| "order_side_value SELL = ''sell''"

datatype order_status = Order_OPEN | PARTIALLY_FILLED | FILLED | CANCELLED | Order_REJECTED

definition order_is_active :: "order_status \<Rightarrow> bool" where
  "order_is_active s \<longleftrightarrow> s \<in> {Order_OPEN, PARTIALLY_FILLED}"

definition order_is_terminal :: "order_status \<Rightarrow> bool" where
  "order_is_terminal s \<longleftrightarrow> \<not> order_is_active s"

datatype trade_status = PROPOSED | COMMITTED | Trade_REJECTED | Trade_SETTLED

fun order_status_value :: "order_status \<Rightarrow> string" where
  "order_status_value Order_OPEN = ''open''"
| "order_status_value PARTIALLY_FILLED = ''partially_filled''"
| "order_status_value FILLED = ''filled''"
| "order_status_value CANCELLED = ''cancelled''"
| "order_status_value Order_REJECTED = ''rejected''"

fun trade_status_value :: "trade_status \<Rightarrow> string" where
  "trade_status_value PROPOSED = ''proposed''"
| "trade_status_value COMMITTED = ''committed''"
| "trade_status_value Trade_REJECTED = ''rejected''"
| "trade_status_value Trade_SETTLED = ''settled''"

section \<open>Pricing and grid vocabulary\<close>

datatype price_component_kind =
  Kind_BASE | Kind_TIME | Kind_CONGESTION | Kind_IMBALANCE | Kind_LOCAL_RENEWABLE

datatype time_of_day_band = PEAK | Band_SOLAR | NORMAL

datatype grid_validation_status = SAFE | UNSAFE | UNKNOWN

definition permits_trade :: "grid_validation_status \<Rightarrow> bool" where
  "permits_trade s \<longleftrightarrow> s = SAFE"

definition was_evaluated :: "grid_validation_status \<Rightarrow> bool" where
  "was_evaluated s \<longleftrightarrow> s \<noteq> UNKNOWN"

fun grid_status_value :: "grid_validation_status \<Rightarrow> string" where
  "grid_status_value SAFE = ''safe''"
| "grid_status_value UNSAFE = ''unsafe''"
| "grid_status_value UNKNOWN = ''unknown''"

datatype grid_validation_decision = ACCEPT | REPRICE | REDUCE | SHIFT | REJECT

definition decision_is_safe :: "grid_validation_decision \<Rightarrow> bool" where
  "decision_is_safe d \<longleftrightarrow> d = ACCEPT"

definition requires_remediation :: "grid_validation_decision \<Rightarrow> bool" where
  "requires_remediation d \<longleftrightarrow> d \<in> {REPRICE, REDUCE, SHIFT}"

fun decision_value :: "grid_validation_decision \<Rightarrow> string" where
  "decision_value ACCEPT = ''accept''"
| "decision_value REPRICE = ''reprice''"
| "decision_value REDUCE = ''reduce''"
| "decision_value SHIFT = ''shift''"
| "decision_value REJECT = ''reject''"

datatype grid_violation_type = UNDER_VOLTAGE | OVER_VOLTAGE | LINE_OVERLOAD | TRANSFORMER_OVERLOAD

definition is_voltage :: "grid_violation_type \<Rightarrow> bool" where
  "is_voltage v \<longleftrightarrow> v \<in> {UNDER_VOLTAGE, OVER_VOLTAGE}"

definition is_loading :: "grid_violation_type \<Rightarrow> bool" where
  "is_loading v \<longleftrightarrow> v \<in> {LINE_OVERLOAD, TRANSFORMER_OVERLOAD}"

fun violation_value :: "grid_violation_type \<Rightarrow> string" where
  "violation_value UNDER_VOLTAGE = ''under_voltage''"
| "violation_value OVER_VOLTAGE = ''over_voltage''"
| "violation_value LINE_OVERLOAD = ''line_overload''"
| "violation_value TRANSFORMER_OVERLOAD = ''transformer_overload''"

section \<open>Facts about the vocabularies\<close>

lemma order_is_active_simps [simp]:
  "order_is_active Order_OPEN" "order_is_active PARTIALLY_FILLED"
  "\<not> order_is_active FILLED" "\<not> order_is_active CANCELLED" "\<not> order_is_active Order_REJECTED"
  by (simp_all add: order_is_active_def)

lemma permits_trade_simps [simp]:
  "permits_trade SAFE" "\<not> permits_trade UNSAFE" "\<not> permits_trade UNKNOWN"
  by (simp_all add: permits_trade_def)

lemma opposite_opposite [simp]: "opposite (opposite s) = s"
  by (cases s) simp_all

lemma audit_event_value_inject: "audit_event_value a = audit_event_value b \<longleftrightarrow> a = b"
  by (cases a; cases b) simp_all

lemma violation_value_inject: "violation_value a = violation_value b \<longleftrightarrow> a = b"
  by (cases a; cases b) simp_all

end
