(* ===== verification/Market_Matching.thy ===== *)
theory Market_Matching
  imports Clearing_Price Domain_Enums
begin

text \<open>
  The market matching contract (\<open>backend/app/domain/interfaces/market.py\<close>) and the baseline
  engine behind it (\<open>backend/app/domain/policies/market_matching.py\<close>): the order book, the
  merit orders of both sides, and the double auction loop as the code runs it, with its
  dictionaries of remaining energy, its \<open>continue\<close>s and its \<open>break\<close>.
\<close>

section \<open>The contract's data\<close>

record order_book_entry =
  e_order_id :: uuid
  e_side :: order_side
  e_user_id :: uuid
  e_site_id :: uuid
  e_remaining_kwh :: decimal
  e_delivery_start :: datetime
  e_delivery_end :: datetime
  e_created_at :: datetime
  e_node_id :: "uuid option"
  e_max_price :: "decimal option"
  e_min_price :: "decimal option"
  e_reliability :: "decimal option"

definition limit_price :: "order_book_entry \<Rightarrow> decimal option" where
  "limit_price e = (if e_side e = BUY then e_max_price e else e_min_price e)"

definition overlaps :: "order_book_entry \<Rightarrow> order_book_entry \<Rightarrow> bool" where
  "overlaps a b \<longleftrightarrow>
     e_delivery_start a < e_delivery_end b \<and> e_delivery_start b < e_delivery_end a"

record order_book =
  book_session_id :: uuid
  book_market_date :: int
  book_market_type :: market_type
  book_buys :: "order_book_entry list"
  book_sells :: "order_book_entry list"

definition total_demand_kwh :: "order_book \<Rightarrow> decimal" where
  "total_demand_kwh b = dsum (map e_remaining_kwh (book_buys b))"

definition total_supply_kwh :: "order_book \<Rightarrow> decimal" where
  "total_supply_kwh b = dsum (map e_remaining_kwh (book_sells b))"

definition book_is_empty :: "order_book \<Rightarrow> bool" where
  "book_is_empty b \<longleftrightarrow> book_buys b = [] \<or> book_sells b = []"

record matching_request =
  req_order_book :: order_book
  req_cleared_at :: datetime

record proposed_trade =
  pt_buy_order_id :: uuid
  pt_sell_order_id :: uuid
  pt_quantity_kwh :: decimal
  pt_clearing_price :: decimal
  pt_delivery_start :: datetime
  pt_delivery_end :: datetime

record matching_result =
  mr_engine :: string
  mr_engine_version :: string
  mr_trades :: "proposed_trade list"
  mr_unmatched_buys :: "uuid list"
  mr_unmatched_sells :: "uuid list"

definition matched_kwh :: "matching_result \<Rightarrow> decimal" where
  "matched_kwh r = dsum (map pt_quantity_kwh (mr_trades r))"

definition trade_count :: "matching_result \<Rightarrow> nat" where
  "trade_count r = length (mr_trades r)"

section \<open>The baseline engine\<close>

text \<open>
  The sort keys. A price is compared as the number it denotes, after the context rounding
  that the unary minus of the buyers' key applies; a missing price cannot occur after the
  filter (Python would raise, the model's value for it is never reached).
\<close>

definition buy_key :: "order_book_entry \<Rightarrow> rat \<times> datetime \<times> uuid" where
  "buy_key b =
     (case e_max_price b of Some p \<Rightarrow> val (- p) | None \<Rightarrow> 0, e_created_at b, e_order_id b)"

definition sell_key :: "order_book_entry \<Rightarrow> rat \<times> datetime \<times> uuid" where
  "sell_key s =
     (case e_min_price s of Some p \<Rightarrow> val p | None \<Rightarrow> 0, e_created_at s, e_order_id s)"

definition sorted_buys :: "order_book \<Rightarrow> order_book_entry list" where
  "sorted_buys book = sort_key buy_key
     (filter (\<lambda>b. e_remaining_kwh b > 0 \<and> e_max_price b \<noteq> None) (book_buys book))"

definition sorted_sells :: "order_book \<Rightarrow> order_book_entry list" where
  "sorted_sells book = sort_key sell_key
     (filter (\<lambda>s. e_remaining_kwh s > 0 \<and> e_min_price s \<noteq> None) (book_sells book))"

record match_state =
  rem_buys :: "uuid \<rightharpoonup> decimal"
  rem_sells :: "uuid \<rightharpoonup> decimal"
  trades :: "proposed_trade list"

text \<open>
  One turn of the inner loop for a buy and a sell; the flag says whether the loop breaks.
\<close>

definition match_pair ::
  "order_book_entry \<Rightarrow> order_book_entry \<Rightarrow> match_state \<Rightarrow> (bool \<times> match_state) result" where
  "match_pair buy sell st =
     (if e_user_id sell = e_user_id buy then Inr (False, st)
      else bindE (getitem (rem_sells st) (e_order_id sell)) (\<lambda>rem_sell.
        if rem_sell \<le> 0 then Inr (False, st)
        else if \<not> prices_cross (e_max_price buy) (e_min_price sell) then Inr (False, st)
        else
          (let overlap_start = max (e_delivery_start buy) (e_delivery_start sell);
               overlap_end = min (e_delivery_end buy) (e_delivery_end sell)
           in if overlap_end \<le> overlap_start then Inr (False, st)
              else bindE (getitem (rem_buys st) (e_order_id buy)) (\<lambda>rem_buy.
                let trade_qty = pymin rem_buy rem_sell
                in if trade_qty \<le> 0 then Inr (False, st)
                   else
                     (case (e_max_price buy, e_min_price sell) of
                        (Some bp, Some sp) \<Rightarrow>
                          bindE (midpoint_clearing_price bp sp) (\<lambda>price.
                            let t = \<lparr>pt_buy_order_id = e_order_id buy,
                                     pt_sell_order_id = e_order_id sell,
                                     pt_quantity_kwh = trade_qty,
                                     pt_clearing_price = price,
                                     pt_delivery_start = overlap_start,
                                     pt_delivery_end = overlap_end\<rparr>;
                                left = rem_buy - trade_qty
                            in Inr (left \<le> 0,
                                 \<lparr>rem_buys = (rem_buys st)(e_order_id buy \<mapsto> left),
                                  rem_sells = (rem_sells st)
                                    (e_order_id sell \<mapsto> rem_sell - trade_qty),
                                  trades = trades st @ [t]\<rparr>))
                      | _ \<Rightarrow> Inl AssertionError)))))"

fun match_sells ::
  "order_book_entry \<Rightarrow> order_book_entry list \<Rightarrow> match_state \<Rightarrow> match_state result" where
  "match_sells buy [] st = Inr st"
| "match_sells buy (sell # sells) st =
     bindE (match_pair buy sell st) (\<lambda>(stop, st').
       if stop then Inr st' else match_sells buy sells st')"

definition match_buy ::
  "order_book_entry list \<Rightarrow> order_book_entry \<Rightarrow> match_state \<Rightarrow> match_state result" where
  "match_buy sells buy st =
     bindE (getitem (rem_buys st) (e_order_id buy)) (\<lambda>rem_buy.
       if rem_buy \<le> 0 then Inr st else match_sells buy sells st)"

definition start_state :: "order_book_entry list \<Rightarrow> order_book_entry list \<Rightarrow> match_state" where
  "start_state buys sells =
     \<lparr>rem_buys = map_of (rev (map (\<lambda>b. (e_order_id b, e_remaining_kwh b)) buys)),
      rem_sells = map_of (rev (map (\<lambda>s. (e_order_id s, e_remaining_kwh s)) sells)),
      trades = []\<rparr>"

definition unmatched :: "order_book_entry list \<Rightarrow> (uuid \<rightharpoonup> decimal) \<Rightarrow> uuid list" where
  "unmatched es rem =
     map e_order_id
       (filter (\<lambda>e. dict_get rem (e_order_id e) (e_remaining_kwh e) > 0) es)"

definition match_book :: "string \<Rightarrow> string \<Rightarrow> matching_request \<Rightarrow> matching_result result" where
  "match_book name version request =
     (let book = req_order_book request
      in if book_is_empty book then
           Inr \<lparr>mr_engine = name, mr_engine_version = version, mr_trades = [],
                mr_unmatched_buys = map e_order_id (book_buys book),
                mr_unmatched_sells = map e_order_id (book_sells book)\<rparr>
         else
           bindE (foldE (match_buy (sorted_sells book)) (sorted_buys book)
                    (start_state (sorted_buys book) (sorted_sells book))) (\<lambda>st.
             Inr \<lparr>mr_engine = name, mr_engine_version = version, mr_trades = trades st,
                  mr_unmatched_buys = unmatched (book_buys book) (rem_buys st),
                  mr_unmatched_sells = unmatched (book_sells book) (rem_sells st)\<rparr>))"

definition baseline_name :: string where
  "baseline_name = ''baseline_double_auction''"

definition baseline_version :: string where
  "baseline_version = ''0.1.0''"

definition baseline_match :: "matching_request \<Rightarrow> matching_result result" where
  "baseline_match = match_book baseline_name baseline_version"

section \<open>What the properties speak of\<close>

definition entry_ok :: "order_book_entry \<Rightarrow> bool" where
  "entry_ok e \<longleftrightarrow> stored_energy (e_remaining_kwh e)
     \<and> pred_option stored_price (e_max_price e) \<and> pred_option stored_price (e_min_price e)"

text \<open>
  A book as the market service builds it: one entry per order (the primary key), sides as
  labelled, quantities and prices as stored.
\<close>

definition book_ok :: "order_book \<Rightarrow> bool" where
  "book_ok book \<longleftrightarrow>
     distinct (map e_order_id (book_buys book @ book_sells book))
     \<and> list_all (\<lambda>b. e_side b = BUY) (book_buys book)
     \<and> list_all (\<lambda>s. e_side s = SELL) (book_sells book)
     \<and> list_all entry_ok (book_buys book) \<and> list_all entry_ok (book_sells book)"

definition compatible :: "order_book_entry \<Rightarrow> order_book_entry \<Rightarrow> bool" where
  "compatible buy sell \<longleftrightarrow>
     e_user_id sell \<noteq> e_user_id buy \<and> prices_cross (e_max_price buy) (e_min_price sell)
     \<and> max (e_delivery_start buy) (e_delivery_start sell)
         < min (e_delivery_end buy) (e_delivery_end sell)"

text \<open>The energy trades commit on an order, as an exact number.\<close>

definition committed_to :: "uuid \<Rightarrow> proposed_trade list \<Rightarrow> rat" where
  "committed_to i ts =
     sum_list (map (\<lambda>t. val (pt_quantity_kwh t))
       (filter (\<lambda>t. pt_buy_order_id t = i \<or> pt_sell_order_id t = i) ts))"

definition trade_between ::
  "order_book_entry \<Rightarrow> order_book_entry \<Rightarrow> proposed_trade \<Rightarrow> bool" where
  "trade_between buy sell t \<longleftrightarrow>
     pt_buy_order_id t = e_order_id buy \<and> pt_sell_order_id t = e_order_id sell
     \<and> compatible buy sell \<and> 0 < pt_quantity_kwh t \<and> stored_energy (pt_quantity_kwh t)
     \<and> (\<exists>bp sp. e_max_price buy = Some bp \<and> e_min_price sell = Some sp
          \<and> sp \<le> pt_clearing_price t \<and> pt_clearing_price t \<le> bp
          \<and> stored_price (pt_clearing_price t))
     \<and> pt_delivery_start t = max (e_delivery_start buy) (e_delivery_start sell)
     \<and> pt_delivery_end t = min (e_delivery_end buy) (e_delivery_end sell)"

end
