(* ===== verification/Market_Matching_Props.thy ===== *)
theory Market_Matching_Props
  imports Market_Matching
begin

text \<open>
  Correctness of the baseline matching engine. The loop invariant ties the remaining
  quantities to the trades made so far; a progress relation between loop states says what a
  later turn can no longer change. From the two: no order is over-filled, every trade is
  between compatible orders inside both limits, nothing compatible is left unmatched, and
  priority in the merit orders is respected.
\<close>

section \<open>The loop invariant\<close>

definition pools_ok :: "order_book_entry list \<Rightarrow> order_book_entry list \<Rightarrow> bool" where
  "pools_ok buys sells \<longleftrightarrow> distinct (map e_order_id (buys @ sells))
     \<and> (\<forall>e \<in> set buys \<union> set sells. entry_ok e)"

definition rem_inv ::
  "order_book_entry list \<Rightarrow> (uuid \<rightharpoonup> decimal) \<Rightarrow> proposed_trade list \<Rightarrow> bool" where
  "rem_inv es rem ts \<longleftrightarrow> dom rem \<subseteq> e_order_id ` set es
     \<and> (\<forall>e \<in> set es. \<exists>r. rem (e_order_id e) = Some r \<and> grid 4 (val r) \<and> 0 \<le> val r
        \<and> val r + committed_to (e_order_id e) ts = val (e_remaining_kwh e))"

definition match_inv ::
  "order_book_entry list \<Rightarrow> order_book_entry list \<Rightarrow> match_state \<Rightarrow> bool" where
  "match_inv buys sells st \<longleftrightarrow>
     rem_inv buys (rem_buys st) (trades st) \<and> rem_inv sells (rem_sells st) (trades st)
     \<and> (\<forall>t \<in> set (trades st). \<exists>b \<in> set buys. \<exists>s \<in> set sells. trade_between b s t)"

definition exhausted :: "(uuid \<rightharpoonup> decimal) \<Rightarrow> uuid \<Rightarrow> bool" where
  "exhausted rem i \<longleftrightarrow> (\<exists>r. rem i = Some r \<and> val r \<le> 0)"

lemma committed_to_Nil [simp]: "committed_to i [] = 0"
  by (simp add: committed_to_def)

lemma committed_to_append: "committed_to i (ts @ us) = committed_to i ts + committed_to i us"
  by (simp add: committed_to_def)

lemma committed_to_single:
  "committed_to i [t] = (if pt_buy_order_id t = i \<or> pt_sell_order_id t = i
     then val (pt_quantity_kwh t) else 0)"
  by (simp add: committed_to_def)

lemma committed_to_nonneg:
  "(\<And>t. t \<in> set ts \<Longrightarrow> 0 \<le> val (pt_quantity_kwh t)) \<Longrightarrow> 0 \<le> committed_to i ts"
  by (auto simp: committed_to_def intro!: sum_list_nonneg)

lemma trade_between_qty_pos: "trade_between b s t \<Longrightarrow> 0 < val (pt_quantity_kwh t)"
  by (simp add: trade_between_def val_simps)

lemma match_inv_committed_nonneg: "match_inv buys sells st \<Longrightarrow> 0 \<le> committed_to i (trades st)"
  by (rule committed_to_nonneg)
    (auto simp: match_inv_def dest!: trade_between_qty_pos intro: less_imp_le)

lemma rem_invE:
  assumes "rem_inv es rem ts" and "e \<in> set es"
  obtains r where "rem (e_order_id e) = Some r" "grid 4 (val r)" "0 \<le> val r"
    "val r + committed_to (e_order_id e) ts = val (e_remaining_kwh e)"
  using assms unfolding rem_inv_def by blast

lemma stored_energy_minus:
  assumes "grid 4 (val x)" "grid 4 (val y)" "0 \<le> val y" "val y \<le> val x" "val x < 10 ^ 10"
  shows "val (x - y) = val x - val y"
  using assms by (intro val_minus rep28_grid [of 4] grid_minus) simp_all

text \<open>One turn of the inner loop: it skips, for a reason, or it trades.\<close>

lemma match_pair_cases:
  assumes inv: "match_inv buys sells st" and ok: "pools_ok buys sells"
    and b: "b \<in> set buys" and s: "s \<in> set sells"
  obtains (skip) "match_pair b s st = Inr (False, st)"
      "\<not> compatible b s \<or> exhausted (rem_sells st) (e_order_id s)
        \<or> exhausted (rem_buys st) (e_order_id b)"
  | (trade) t rb rs lb ls where
      "rem_buys st (e_order_id b) = Some rb" "rem_sells st (e_order_id s) = Some rs"
      "0 < val rs" "0 < val rb" "compatible b s" "trade_between b s t"
      "val (pt_quantity_kwh t) = min (val rb) (val rs)"
      "val lb = val rb - min (val rb) (val rs)" "val ls = val rs - min (val rb) (val rs)"
      "match_pair b s st = Inr (lb \<le> 0,
         \<lparr>rem_buys = (rem_buys st)(e_order_id b \<mapsto> lb),
          rem_sells = (rem_sells st)(e_order_id s \<mapsto> ls), trades = trades st @ [t]\<rparr>)"
proof -
  from inv have ib: "rem_inv buys (rem_buys st) (trades st)"
    and isl: "rem_inv sells (rem_sells st) (trades st)" by (simp_all add: match_inv_def)
  obtain rb where rb: "rem_buys st (e_order_id b) = Some rb" "grid 4 (val rb)" "0 \<le> val rb"
    "val rb + committed_to (e_order_id b) (trades st) = val (e_remaining_kwh b)"
    by (rule rem_invE [OF ib b])
  obtain rs where rs: "rem_sells st (e_order_id s) = Some rs" "grid 4 (val rs)" "0 \<le> val rs"
    "val rs + committed_to (e_order_id s) (trades st) = val (e_remaining_kwh s)"
    by (rule rem_invE [OF isl s])
  have eok: "entry_ok b" "entry_ok s" using ok b s by (auto simp: pools_ok_def)
  have nn: "0 \<le> committed_to i (trades st)" for i
    by (rule match_inv_committed_nonneg [OF inv])
  have bnd: "val rb < 10 ^ 10" "val rs < 10 ^ 10"
    using rb(4) rs(4) nn [of "e_order_id b"] nn [of "e_order_id s"] eok
    by (simp_all add: entry_ok_def stored_energy_def)
  show thesis
  proof (cases "compatible b s \<and> 0 < val rs \<and> 0 < val rb")
    case False
    then have "\<not> compatible b s \<or> exhausted (rem_sells st) (e_order_id s)
        \<or> exhausted (rem_buys st) (e_order_id b)"
      using rb(1) rs(1) by (auto simp: exhausted_def)
    moreover have "match_pair b s st = Inr (False, st)"
    proof -
      have "rb \<le> 0 \<Longrightarrow> pymin rb rs \<le> 0" by (simp add: val_simps)
      moreover have "\<not> compatible b s \<or> rs \<le> 0 \<or> rb \<le> 0"
        using False by (simp add: val_simps not_less)
      ultimately show ?thesis
        using rb(1) rs(1) by (auto simp: match_pair_def compatible_def Let_def not_less)
    qed
    ultimately show thesis by (rule skip [rotated])
  next
    case True
    then have comp: "compatible b s" and pos: "0 < val rs" "0 < val rb" by simp_all
    from comp obtain bp sp where p: "e_max_price b = Some bp" "e_min_price s = Some sp" "sp \<le> bp"
      by (auto simp: compatible_def elim: prices_crossE)
    with eok have sp: "stored_price bp" "stored_price sp" by (simp_all add: entry_ok_def)
    obtain price where pr: "midpoint_clearing_price bp sp = Inr price" "sp \<le> price" "price \<le> bp"
      "stored_price price"
      using midpoint_returns [OF sp p(3)] by blast
    let ?q = "pymin rb rs"
    let ?t = "\<lparr>pt_buy_order_id = e_order_id b, pt_sell_order_id = e_order_id s,
      pt_quantity_kwh = ?q, pt_clearing_price = price,
      pt_delivery_start = max (e_delivery_start b) (e_delivery_start s),
      pt_delivery_end = min (e_delivery_end b) (e_delivery_end s)\<rparr>"
    have q: "val ?q = min (val rb) (val rs)" by (rule val_pymin)
    have qg: "grid 4 (val ?q)" using rb rs by (simp add: q grid_min)
    have qp: "\<not> ?q \<le> 0" using pos by (simp add: val_simps)
    have tb: "trade_between b s ?t"
      using comp qg p(1,2) pr(2-4) pos bnd
      by (simp add: trade_between_def val_simps stored_energy_def)
    have lb: "val (rb - ?q) = val rb - min (val rb) (val rs)"
      using rb pos bnd qg by (subst stored_energy_minus) (simp_all add: q)
    have ls: "val (rs - ?q) = val rs - min (val rb) (val rs)"
      using rs pos bnd qg by (subst stored_energy_minus) (simp_all add: q)
    have "\<not> rs \<le> 0" using pos by (simp add: val_simps)
    moreover have "e_user_id s \<noteq> e_user_id b"
      "\<not> min (e_delivery_end b) (e_delivery_end s) \<le> max (e_delivery_start b) (e_delivery_start s)"
      using comp by (auto simp: compatible_def)
    ultimately have "match_pair b s st = Inr (rb - ?q \<le> 0,
         \<lparr>rem_buys = (rem_buys st)(e_order_id b \<mapsto> rb - ?q),
          rem_sells = (rem_sells st)(e_order_id s \<mapsto> rs - ?q), trades = trades st @ [?t]\<rparr>)"
      using rb(1) rs(1) p pr(1) qp by (simp add: match_pair_def Let_def)
    with rb(1) rs(1) pos comp tb q lb ls show thesis
      by (intro trade [of rb rs ?t "rb - ?q" "rs - ?q"]) simp_all
  qed
qed


section \<open>Visited pairs and priority\<close>

text \<open>
  The nested loops visit pairs of a buy and a sell. Of the pairs visited so far, none can
  still trade; and for every trade made, whoever had priority over one of its sides and
  could have had the trade is exhausted.
\<close>

definition spent :: "match_state \<Rightarrow> order_book_entry \<Rightarrow> order_book_entry \<Rightarrow> bool" where
  "spent st b s \<longleftrightarrow> compatible b s \<longrightarrow>
     exhausted (rem_sells st) (e_order_id s) \<or> exhausted (rem_buys st) (e_order_id b)"

definition priority_kept ::
  "order_book_entry list \<Rightarrow> order_book_entry list \<Rightarrow> match_state \<Rightarrow> bool" where
  "priority_kept buys sells st \<longleftrightarrow>
     (\<forall>t \<in> set (trades st). \<forall>b \<in> set buys. \<forall>s \<in> set sells. trade_between b s t \<longrightarrow>
        (\<forall>s' \<in> set sells. sell_key s' < sell_key s \<longrightarrow> compatible b s' \<longrightarrow>
           exhausted (rem_sells st) (e_order_id s'))
        \<and> (\<forall>b' \<in> set buys. buy_key b' < buy_key b \<longrightarrow> compatible b' s \<longrightarrow>
           exhausted (rem_buys st) (e_order_id b')))"

definition visit_inv :: "order_book_entry list \<Rightarrow> order_book_entry list
    \<Rightarrow> (order_book_entry \<times> order_book_entry) set \<Rightarrow> match_state \<Rightarrow> bool" where
  "visit_inv buys sells V st \<longleftrightarrow> match_inv buys sells st
     \<and> (\<forall>(b, s) \<in> V. spent st b s) \<and> priority_kept buys sells st"

lemma pools_ok_buy_inj:
  "pools_ok buys sells \<Longrightarrow> b \<in> set buys \<Longrightarrow> b' \<in> set buys
     \<Longrightarrow> e_order_id b = e_order_id b' \<Longrightarrow> b = b'"
  by (auto simp: pools_ok_def distinct_map dest: inj_onD)

lemma pools_ok_sell_inj:
  "pools_ok buys sells \<Longrightarrow> s \<in> set sells \<Longrightarrow> s' \<in> set sells
     \<Longrightarrow> e_order_id s = e_order_id s' \<Longrightarrow> s = s'"
  by (auto simp: pools_ok_def distinct_map dest: inj_onD)

lemma pools_ok_disjoint:
  "pools_ok buys sells \<Longrightarrow> b \<in> set buys \<Longrightarrow> s \<in> set sells \<Longrightarrow> e_order_id b \<noteq> e_order_id s"
  by (force simp: pools_ok_def)

lemma trade_between_unique:
  assumes "pools_ok buys sells" "b \<in> set buys" "s \<in> set sells" "b' \<in> set buys" "s' \<in> set sells"
    and "trade_between b s t" "trade_between b' s' t"
  shows "b' = b \<and> s' = s"
proof -
  have "e_order_id b' = e_order_id b" "e_order_id s' = e_order_id s"
    using assms(6,7) by (simp_all add: trade_between_def)
  with assms(1-5) show ?thesis using pools_ok_buy_inj pools_ok_sell_inj by blast
qed

text \<open>The remaining quantities after a trade still add up.\<close>

lemma rem_inv_trade:
  assumes "rem_inv es rem ts"
    and "\<And>e. e \<in> set es \<Longrightarrow> e_order_id e = i \<Longrightarrow> pt_buy_order_id t = i \<or> pt_sell_order_id t = i"
    and "\<And>e. e \<in> set es \<Longrightarrow> e_order_id e \<noteq> i \<Longrightarrow>
      pt_buy_order_id t \<noteq> e_order_id e \<and> pt_sell_order_id t \<noteq> e_order_id e"
    and "rem i = Some r" and "val l = val r - val (pt_quantity_kwh t)"
    and "val (pt_quantity_kwh t) \<le> val r" and "grid 4 (val (pt_quantity_kwh t))"
  shows "rem_inv es (rem(i \<mapsto> l)) (ts @ [t])"
  unfolding rem_inv_def
proof (intro conjI ballI)
  show "dom (rem(i \<mapsto> l)) \<subseteq> e_order_id ` set es"
    using assms(1,4) unfolding rem_inv_def by auto
next
  fix e assume e: "e \<in> set es"
  obtain q where q: "rem (e_order_id e) = Some q" "grid 4 (val q)" "0 \<le> val q"
    "val q + committed_to (e_order_id e) ts = val (e_remaining_kwh e)"
    by (rule rem_invE [OF assms(1) e])
  show "\<exists>r. (rem(i \<mapsto> l)) (e_order_id e) = Some r \<and> grid 4 (val r) \<and> 0 \<le> val r
      \<and> val r + committed_to (e_order_id e) (ts @ [t]) = val (e_remaining_kwh e)"
  proof (cases "e_order_id e = i")
    case True
    with q assms(2) [OF e True] assms(4-7) show ?thesis
      by (auto simp: committed_to_append committed_to_single intro: grid_minus)
  next
    case False
    with q assms(3) [OF e False] show ?thesis
      by (simp add: committed_to_append committed_to_single)
  qed
qed

lemma exhausted_mono:
  "rem i = Some r \<Longrightarrow> 0 < val r \<Longrightarrow> exhausted rem j \<Longrightarrow> exhausted (rem(i \<mapsto> l)) j"
  by (auto simp: exhausted_def)

lemma match_pair_visit:
  assumes inv: "visit_inv buys sells V st" and ok: "pools_ok buys sells"
    and b: "b \<in> set buys" and s: "s \<in> set sells"
    and Vs: "\<And>s'. s' \<in> set sells \<Longrightarrow> sell_key s' < sell_key s \<Longrightarrow> (b, s') \<in> V"
    and Vb: "\<And>b'. b' \<in> set buys \<Longrightarrow> buy_key b' < buy_key b \<Longrightarrow> (b', s) \<in> V"
  shows "\<exists>stop st'. match_pair b s st = Inr (stop, st')
    \<and> visit_inv buys sells (insert (b, s) V) st'
    \<and> (stop \<longrightarrow> exhausted (rem_buys st') (e_order_id b))"
proof -
  from inv have mi: "match_inv buys sells st" by (simp add: visit_inv_def)
  show ?thesis
  proof (cases rule: match_pair_cases [OF mi ok b s, case_names skip trade])
    case skip
    with inv show ?thesis by (auto simp: visit_inv_def spent_def)
  next
    case (trade t rb rs lb ls)
    let ?st = "\<lparr>rem_buys = (rem_buys st)(e_order_id b \<mapsto> lb),
      rem_sells = (rem_sells st)(e_order_id s \<mapsto> ls), trades = trades st @ [t]\<rparr>"
    have ids: "pt_buy_order_id t = e_order_id b" "pt_sell_order_id t = e_order_id s"
      and qg: "grid 4 (val (pt_quantity_kwh t))"
      using trade(6) by (simp_all add: trade_between_def stored_energy_def)
    have eb: "exhausted (rem_buys ?st) i" if "exhausted (rem_buys st) i" for i
      using exhausted_mono [OF trade(1,4) that] by simp
    have es: "exhausted (rem_sells ?st) i" if "exhausted (rem_sells st) i" for i
      using exhausted_mono [OF trade(2,3) that] by simp
    have nb: "\<not> exhausted (rem_buys st) (e_order_id b)"
      and ns: "\<not> exhausted (rem_sells st) (e_order_id s)"
      using trade(1-4) by (simp_all add: exhausted_def)
    have "rem_inv buys (rem_buys ?st) (trades ?st)"
      using mi trade(1,7,8) qg ids pools_ok_disjoint [OF ok _ s]
      by (auto simp: match_inv_def intro!: rem_inv_trade)
    moreover have "rem_inv sells (rem_sells ?st) (trades ?st)"
      unfolding match_state.simps
      by (rule rem_inv_trade [where r = rs])
        (use mi trade(2,7,9) qg ids pools_ok_disjoint [OF ok b] in \<open>auto simp: match_inv_def\<close>)
    ultimately have mi': "match_inv buys sells ?st"
      using mi trade(6) b s by (auto simp: match_inv_def)
    have sp': "spent ?st b' s'" if "spent st b' s'" for b' s'
      using that eb es unfolding spent_def by blast
    have "spent ?st b s"
      using trade(8,9) by (auto simp: spent_def exhausted_def min_def)
    with inv sp' have V': "\<forall>(b', s') \<in> insert (b, s) V. spent ?st b' s'"
      by (auto simp: visit_inv_def)
    have "priority_kept buys sells ?st"
      unfolding priority_kept_def
    proof (intro ballI impI)
      fix t' b1 s1
      assume t': "t' \<in> set (trades ?st)" and m: "b1 \<in> set buys" "s1 \<in> set sells"
        and tb: "trade_between b1 s1 t'"
      let ?goal = "\<lambda>st. (\<forall>s'\<in>set sells. sell_key s' < sell_key s1 \<longrightarrow> compatible b1 s' \<longrightarrow>
             exhausted (rem_sells st) (e_order_id s'))
          \<and> (\<forall>b'\<in>set buys. buy_key b' < buy_key b1 \<longrightarrow> compatible b' s1 \<longrightarrow>
             exhausted (rem_buys st) (e_order_id b'))"
      have "?goal st"
      proof (cases "t' \<in> set (trades st)")
        case True
        with inv m tb show ?thesis by (auto simp: visit_inv_def priority_kept_def)
      next
        case False
        with t' have "t' = t" by simp
        with trade_between_unique [OF ok b s m trade(6)] tb have eq: "b1 = b" "s1 = s" by simp_all
        from inv have sp: "spent st b' s'" if "(b', s') \<in> V" for b' s'
          using that by (auto simp: visit_inv_def)
        from sp [OF Vs] sp [OF Vb] nb ns show ?thesis unfolding eq spent_def by blast
      qed
      then show "?goal ?st" using eb es by blast
    qed
    with mi' V' have "visit_inv buys sells (insert (b, s) V) ?st" by (simp add: visit_inv_def)
    moreover have "lb \<le> 0 \<longrightarrow> exhausted (rem_buys ?st) (e_order_id b)"
      by (simp add: exhausted_def val_simps)
    ultimately show ?thesis using trade(10) by blast
  qed
qed


section \<open>The loops\<close>

lemma match_sells_visit:
  assumes "visit_inv buys sells V st" "pools_ok buys sells" "b \<in> set buys"
    and "sells = pre @ todo" "sorted (map sell_key sells)"
    and "\<And>s. s \<in> set pre \<Longrightarrow> (b, s) \<in> V"
    and "\<And>b' s. b' \<in> set buys \<Longrightarrow> s \<in> set sells \<Longrightarrow> buy_key b' < buy_key b \<Longrightarrow> (b', s) \<in> V"
  shows "\<exists>st'. match_sells b todo st = Inr st' \<and> visit_inv buys sells (V \<union> {b} \<times> set sells) st'"
  using assms
proof (induction todo arbitrary: V st pre)
  case Nil
  then have "V \<union> {b} \<times> set sells = V" by auto
  with Nil show ?case by simp
next
  case (Cons s todo)
  have s: "s \<in> set sells" using Cons.prems(4) by simp
  have first: "(b, s') \<in> V" if "s' \<in> set sells" "sell_key s' < sell_key s" for s'
  proof -
    have "sell_key s \<le> sell_key x" if "x \<in> set (s # todo)" for x
      using Cons.prems(4,5) that by (auto simp: sorted_append)
    with that Cons.prems(4,6) show ?thesis by (auto simp: not_le [symmetric])
  qed
  obtain stop st1 where m: "match_pair b s st = Inr (stop, st1)"
    and v: "visit_inv buys sells (insert (b, s) V) st1"
    and ex: "stop \<longrightarrow> exhausted (rem_buys st1) (e_order_id b)"
    using match_pair_visit [OF Cons.prems(1-3) s first Cons.prems(7)] s by blast
  show ?case
  proof (cases stop)
    case True
    with v ex have "visit_inv buys sells (V \<union> {b} \<times> set sells) st1"
      by (auto simp: visit_inv_def spent_def)
    with m True show ?thesis by simp
  next
    case False
    have "\<exists>st'. match_sells b todo st1 = Inr st'
        \<and> visit_inv buys sells (insert (b, s) V \<union> {b} \<times> set sells) st'"
      using Cons.prems v by (intro Cons.IH [where pre = "pre @ [s]"]) auto
    with m False s show ?thesis by (auto simp: insert_absorb)
  qed
qed

lemma match_buy_visit:
  assumes "visit_inv buys sells V st" "pools_ok buys sells" "b \<in> set buys"
    and "sorted (map sell_key sells)"
    and "\<And>b' s. b' \<in> set buys \<Longrightarrow> s \<in> set sells \<Longrightarrow> buy_key b' < buy_key b \<Longrightarrow> (b', s) \<in> V"
  shows "\<exists>st'. match_buy sells b st = Inr st'
    \<and> visit_inv buys sells (V \<union> {b} \<times> set sells) st'"
proof -
  from assms(1) have "rem_inv buys (rem_buys st) (trades st)"
    by (simp add: visit_inv_def match_inv_def)
  then obtain r where r: "rem_buys st (e_order_id b) = Some r"
    using assms(3) by (rule rem_invE)
  show ?thesis
  proof (cases "r \<le> 0")
    case True
    with r have "exhausted (rem_buys st) (e_order_id b)" by (simp add: exhausted_def val_simps)
    with assms(1) have "visit_inv buys sells (V \<union> {b} \<times> set sells) st"
      by (auto simp: visit_inv_def spent_def)
    with r True show ?thesis by (simp add: match_buy_def)
  next
    case False
    have "\<exists>st'. match_sells b sells st = Inr st'
        \<and> visit_inv buys sells (V \<union> {b} \<times> set sells) st'"
      using assms by (intro match_sells_visit [where pre = "[]"]) auto
    with r False show ?thesis by (simp add: match_buy_def)
  qed
qed

lemma match_buys_visit:
  assumes "visit_inv buys sells (set pre \<times> set sells) st" "pools_ok buys sells"
    and "buys = pre @ todo" "sorted (map buy_key buys)" "sorted (map sell_key sells)"
  shows "\<exists>st'. foldE (match_buy sells) todo st = Inr st'
    \<and> visit_inv buys sells (set buys \<times> set sells) st'"
  using assms
proof (induction todo arbitrary: pre st)
  case (Cons b todo)
  have b: "b \<in> set buys" using Cons.prems(3) by simp
  have first: "(b', s) \<in> set pre \<times> set sells"
    if "b' \<in> set buys" "s \<in> set sells" "buy_key b' < buy_key b" for b' s
  proof -
    have "buy_key b \<le> buy_key x" if "x \<in> set (b # todo)" for x
      using Cons.prems(3,4) that by (auto simp: sorted_append)
    with that Cons.prems(3) show ?thesis by (auto simp: not_le [symmetric])
  qed
  obtain st1 where m: "match_buy sells b st = Inr st1"
    and v: "visit_inv buys sells (set pre \<times> set sells \<union> {b} \<times> set sells) st1"
    using match_buy_visit [OF Cons.prems(1,2) b Cons.prems(5) first] by blast
  have "set pre \<times> set sells \<union> {b} \<times> set sells = set (pre @ [b]) \<times> set sells" by auto
  with v have "visit_inv buys sells (set (pre @ [b]) \<times> set sells) st1" by (simp only:)
  from Cons.IH [OF this] Cons.prems m show ?case by simp
qed simp

section \<open>From the book to the result\<close>

lemma map_of_rev_distinct:
  assumes "distinct (map f xs)" and "x \<in> set xs"
  shows "map_of (rev (map (\<lambda>x. (f x, g x)) xs)) (f x) = Some (g x)"
proof (rule map_of_is_SomeI)
  have "map fst (map (\<lambda>x. (f x, g x)) xs) = map f xs" by simp
  with assms(1) show "distinct (map fst (rev (map (\<lambda>x. (f x, g x)) xs)))"
    by (simp add: rev_map [symmetric] comp_def)
qed (use assms(2) in auto)

lemma sorted_buys_set:
  "set (sorted_buys book) = {b \<in> set (book_buys book). 0 < e_remaining_kwh b \<and> e_max_price b \<noteq> None}"
  by (auto simp: sorted_buys_def)

lemma sorted_sells_set:
  "set (sorted_sells book) = {s \<in> set (book_sells book). 0 < e_remaining_kwh s \<and> e_min_price s \<noteq> None}"
  by (auto simp: sorted_sells_def)

lemma distinct_sort_filter:
  "distinct (map f xs) \<Longrightarrow> distinct (map f (sort_key k (filter P xs)))"
  by (simp add: distinct_map inj_on_def)

lemma book_pools_ok:
  assumes "book_ok book"
  shows "pools_ok (sorted_buys book) (sorted_sells book)"
  using assms distinct_sort_filter [of e_order_id]
  by (auto simp: pools_ok_def book_ok_def list_all_iff sorted_buys_def sorted_sells_def)

lemma start_visit:
  assumes "pools_ok buys sells"
  shows "visit_inv buys sells {} (start_state buys sells)"
proof -
  have "rem_inv es (map_of (rev (map (\<lambda>b. (e_order_id b, e_remaining_kwh b)) es))) []"
    if "distinct (map e_order_id es)" "\<forall>e \<in> set es. entry_ok e" for es
    using that map_of_rev_distinct [OF that(1), of _ e_remaining_kwh]
    by (auto simp: rem_inv_def entry_ok_def stored_energy_def dom_map_of_conv_image_fst image_image)
  with assms show ?thesis
    by (simp add: visit_inv_def match_inv_def start_state_def priority_kept_def pools_ok_def)
qed

lemma sorted_pools [simp]:
  "sorted (map buy_key (sorted_buys book))" "sorted (map sell_key (sorted_sells book))"
  by (simp_all add: sorted_buys_def sorted_sells_def)

lemma loop_visit:
  assumes "book_ok book"
  shows "\<exists>st. foldE (match_buy (sorted_sells book)) (sorted_buys book)
       (start_state (sorted_buys book) (sorted_sells book)) = Inr st
     \<and> visit_inv (sorted_buys book) (sorted_sells book)
       (set (sorted_buys book) \<times> set (sorted_sells book)) st"
proof -
  have p: "pools_ok (sorted_buys book) (sorted_sells book)" by (rule book_pools_ok [OF assms])
  show ?thesis
    by (rule match_buys_visit [where pre = "[]", OF _ p])
      (simp_all only: start_visit [OF p] sorted_pools append_Nil list.set empty_iff
        Sigma_empty1 simp_thms)
qed

lemma match_book_result:
  assumes "book_ok (req_order_book req)"
  obtains st r where "match_book name version req = Inr r" "mr_trades r = trades st"
    "mr_engine r = name" "mr_engine_version r = version"
    "visit_inv (sorted_buys (req_order_book req)) (sorted_sells (req_order_book req))
       (set (sorted_buys (req_order_book req)) \<times> set (sorted_sells (req_order_book req))) st"
    "\<not> book_is_empty (req_order_book req) \<Longrightarrow>
       mr_unmatched_buys r = unmatched (book_buys (req_order_book req)) (rem_buys st)
       \<and> mr_unmatched_sells r = unmatched (book_sells (req_order_book req)) (rem_sells st)"
    "book_is_empty (req_order_book req) \<Longrightarrow>
       trades st = []
       \<and> mr_unmatched_buys r = map e_order_id (book_buys (req_order_book req))
       \<and> mr_unmatched_sells r = map e_order_id (book_sells (req_order_book req))"
proof (cases "book_is_empty (req_order_book req)")
  case True
  let ?b = "sorted_buys (req_order_book req)" and ?s = "sorted_sells (req_order_book req)"
  from True have "set ?b \<times> set ?s = {}"
    by (auto simp: book_is_empty_def sorted_buys_def sorted_sells_def)
  with start_visit [OF book_pools_ok [OF assms]]
  have "visit_inv ?b ?s (set ?b \<times> set ?s) (start_state ?b ?s)" by (simp only:)
  with True show thesis
    by (intro that [of "\<lparr>mr_engine = name, mr_engine_version = version, mr_trades = [],
        mr_unmatched_buys = map e_order_id (book_buys (req_order_book req)),
        mr_unmatched_sells = map e_order_id (book_sells (req_order_book req))\<rparr>"
        "start_state ?b ?s"])
      (simp_all only: match_book_def Let_def if_True start_state_def match_state.simps
        matching_result.simps simp_thms)
next
  case False
  obtain st where "foldE (match_buy (sorted_sells (req_order_book req)))
        (sorted_buys (req_order_book req))
        (start_state (sorted_buys (req_order_book req)) (sorted_sells (req_order_book req))) = Inr st"
    "visit_inv (sorted_buys (req_order_book req)) (sorted_sells (req_order_book req))
       (set (sorted_buys (req_order_book req)) \<times> set (sorted_sells (req_order_book req))) st"
    using loop_visit [OF assms] by blast
  with False show thesis
    by (intro that [of "\<lparr>mr_engine = name, mr_engine_version = version, mr_trades = trades st,
        mr_unmatched_buys = unmatched (book_buys (req_order_book req)) (rem_buys st),
        mr_unmatched_sells = unmatched (book_sells (req_order_book req)) (rem_sells st)\<rparr>" st])
      (simp_all add: match_book_def Let_def)
qed

text \<open>An order that entered neither merit order is in no trade.\<close>

lemma not_in_pool_committed:
  assumes "match_inv buys sells st" "i \<notin> e_order_id ` (set buys \<union> set sells)"
  shows "committed_to i (trades st) = 0"
proof -
  have "filter (\<lambda>t. pt_buy_order_id t = i \<or> pt_sell_order_id t = i) (trades st) = []"
    using assms by (force simp: match_inv_def filter_empty_conv trade_between_def)
  then show ?thesis by (simp add: committed_to_def)
qed

text \<open>What the engine reports left on an order, and what the trades took, make it up.\<close>

lemma residual:
  assumes "rem_inv pool rem ts" "set pool \<subseteq> set es" "distinct (map e_order_id es)"
    and "e \<in> set es" "0 \<le> val (e_remaining_kwh e)"
    and "e_order_id e \<notin> e_order_id ` set pool \<Longrightarrow> committed_to (e_order_id e) ts = 0"
  shows "val (dict_get rem (e_order_id e) (e_remaining_kwh e)) + committed_to (e_order_id e) ts
      = val (e_remaining_kwh e)
    \<and> 0 \<le> val (dict_get rem (e_order_id e) (e_remaining_kwh e))"
proof (cases "e \<in> set pool")
  case True
  with assms(1) obtain r where "rem (e_order_id e) = Some r" "0 \<le> val r"
    "val r + committed_to (e_order_id e) ts = val (e_remaining_kwh e)" by (rule rem_invE)
  then show ?thesis by simp
next
  case False
  with assms(2-4) have out: "e_order_id e \<notin> e_order_id ` set pool"
    by (auto simp: distinct_map dest: inj_onD)
  with assms(1) have "rem (e_order_id e) = None" unfolding rem_inv_def by blast
  with assms(5) assms(6) [OF out] show ?thesis by simp
qed

definition residuals ::
  "order_book_entry list \<Rightarrow> (uuid \<rightharpoonup> decimal) \<Rightarrow> proposed_trade list \<Rightarrow> bool" where
  "residuals es rem ts \<longleftrightarrow> (\<forall>e \<in> set es.
     val (dict_get rem (e_order_id e) (e_remaining_kwh e)) + committed_to (e_order_id e) ts
       = val (e_remaining_kwh e)
     \<and> 0 \<le> val (dict_get rem (e_order_id e) (e_remaining_kwh e)))"

lemma residuals_unmatched:
  assumes "residuals es rem ts" "distinct (map e_order_id es)" "e \<in> set es"
  shows "e_order_id e \<in> set (unmatched es rem)
    \<longleftrightarrow> committed_to (e_order_id e) ts < val (e_remaining_kwh e)"
proof -
  have "e' = e" if "e' \<in> set es" "e_order_id e' = e_order_id e" for e'
    using assms(2,3) that by (auto simp: distinct_map dest: inj_onD)
  then have "e_order_id e \<in> set (unmatched es rem)
      \<longleftrightarrow> 0 < val (dict_get rem (e_order_id e) (e_remaining_kwh e))"
    using assms(3) by (auto simp: unmatched_def val_simps)
  with assms(1,3) show ?thesis unfolding residuals_def by force
qed

lemma residuals_exhausted:
  assumes "residuals es rem ts" "e \<in> set es" "exhausted rem (e_order_id e)"
  shows "committed_to (e_order_id e) ts = val (e_remaining_kwh e)"
proof -
  from assms(3) obtain r where "rem (e_order_id e) = Some r" "val r \<le> 0"
    by (auto simp: exhausted_def)
  then have "dict_get rem (e_order_id e) (e_remaining_kwh e) = r" by simp
  with assms(1,2) have "val r + committed_to (e_order_id e) ts = val (e_remaining_kwh e)"
    "0 \<le> val r" unfolding residuals_def by auto
  with \<open>val r \<le> 0\<close> show ?thesis by linarith
qed

lemma book_residuals:
  assumes ok: "book_ok book"
    and inv: "match_inv (sorted_buys book) (sorted_sells book) st"
  shows "residuals (book_buys book) (rem_buys st) (trades st)"
    and "residuals (book_sells book) (rem_sells st) (trades st)"
proof -
  have dis: "e_order_id b \<noteq> e_order_id s"
    if "b \<in> set (book_buys book)" "s \<in> set (book_sells book)" for b s
    using ok that by (force simp: book_ok_def)
  have sub: "set (sorted_buys book) \<subseteq> set (book_buys book)"
    "set (sorted_sells book) \<subseteq> set (book_sells book)"
    by (auto simp: sorted_buys_set sorted_sells_set)
  have nn: "0 \<le> val (e_remaining_kwh e)" if "e \<in> set (book_buys book) \<union> set (book_sells book)" for e
    using ok that by (auto simp: book_ok_def list_all_iff entry_ok_def stored_energy_def)
  have d: "distinct (map e_order_id (book_buys book))" "distinct (map e_order_id (book_sells book))"
    using ok by (simp_all add: book_ok_def)
  have b: "committed_to (e_order_id e) (trades st) = 0"
    if "e \<in> set (book_buys book)" "e_order_id e \<notin> e_order_id ` set (sorted_buys book)" for e
    using that dis sub(2) by (intro not_in_pool_committed [OF inv]) blast
  have s: "committed_to (e_order_id e) (trades st) = 0"
    if "e \<in> set (book_sells book)" "e_order_id e \<notin> e_order_id ` set (sorted_sells book)" for e
    using that dis sub(1) by (intro not_in_pool_committed [OF inv]) fastforce
  from inv have ri: "rem_inv (sorted_buys book) (rem_buys st) (trades st)"
    "rem_inv (sorted_sells book) (rem_sells st) (trades st)" by (simp_all add: match_inv_def)
  show "residuals (book_buys book) (rem_buys st) (trades st)"
    unfolding residuals_def using residual [OF ri(1) sub(1) d(1)] nn b by blast
  show "residuals (book_sells book) (rem_sells st) (trades st)"
    unfolding residuals_def using residual [OF ri(2) sub(2) d(2)] nn s by blast
qed


section \<open>The properties\<close>

lemma baseline_outcome:
  assumes ok: "book_ok (req_order_book req)"
  obtains st r where "baseline_match req = Inr r" "mr_trades r = trades st"
    "visit_inv (sorted_buys (req_order_book req)) (sorted_sells (req_order_book req))
       (set (sorted_buys (req_order_book req)) \<times> set (sorted_sells (req_order_book req))) st"
    "residuals (book_buys (req_order_book req)) (rem_buys st) (trades st)"
    "residuals (book_sells (req_order_book req)) (rem_sells st) (trades st)"
    "\<not> book_is_empty (req_order_book req) \<Longrightarrow>
       mr_unmatched_buys r = unmatched (book_buys (req_order_book req)) (rem_buys st)
       \<and> mr_unmatched_sells r = unmatched (book_sells (req_order_book req)) (rem_sells st)"
proof -
  obtain st r where r: "match_book baseline_name baseline_version req = Inr r"
    "mr_trades r = trades st"
    "visit_inv (sorted_buys (req_order_book req)) (sorted_sells (req_order_book req))
       (set (sorted_buys (req_order_book req)) \<times> set (sorted_sells (req_order_book req))) st"
    "\<not> book_is_empty (req_order_book req) \<Longrightarrow>
       mr_unmatched_buys r = unmatched (book_buys (req_order_book req)) (rem_buys st)
       \<and> mr_unmatched_sells r = unmatched (book_sells (req_order_book req)) (rem_sells st)"
    by (rule match_book_result [OF ok]) blast
  moreover from r(3) have
    "match_inv (sorted_buys (req_order_book req)) (sorted_sells (req_order_book req)) st"
    by (simp add: visit_inv_def)
  ultimately show thesis
    by (intro that [of r st]) (simp_all add: baseline_match_def book_residuals [OF ok])
qed

lemma visit_inv_trades:
  assumes "visit_inv (sorted_buys book) (sorted_sells book) V st" "t \<in> set (trades st)"
  obtains b s where "b \<in> set (book_buys book)" "s \<in> set (book_sells book)" "trade_between b s t"
  using assms by (auto simp: visit_inv_def match_inv_def sorted_buys_set sorted_sells_set)

text \<open>An order that could still trade is in its merit order, or has nothing left.\<close>

lemma compatible_in_pool:
  assumes "compatible b s" "b \<in> set (book_buys book)" "s \<in> set (book_sells book)"
  shows "0 < val (e_remaining_kwh b) \<Longrightarrow> b \<in> set (sorted_buys book)"
    and "0 < val (e_remaining_kwh s) \<Longrightarrow> s \<in> set (sorted_sells book)"
  using assms by (auto simp: compatible_def sorted_buys_set sorted_sells_set val_simps
    elim!: prices_crossE)

lemma residuals_zero:
  assumes "residuals es rem ts" "e \<in> set es" "\<not> 0 < val (e_remaining_kwh e)"
    and "0 \<le> committed_to (e_order_id e) ts"
  shows "committed_to (e_order_id e) ts = val (e_remaining_kwh e)"
  using assms unfolding residuals_def by fastforce

lemma trade_in_pools:
  assumes "book_ok book" and inv: "visit_inv (sorted_buys book) (sorted_sells book) V st"
    and m: "b \<in> set (book_buys book)" "s \<in> set (book_sells book)"
    and t: "t \<in> set (trades st)" "trade_between b s t"
  shows "(\<forall>s' \<in> set (sorted_sells book). sell_key s' < sell_key s \<longrightarrow> compatible b s' \<longrightarrow>
        exhausted (rem_sells st) (e_order_id s'))
    \<and> (\<forall>b' \<in> set (sorted_buys book). buy_key b' < buy_key b \<longrightarrow> compatible b' s \<longrightarrow>
        exhausted (rem_buys st) (e_order_id b'))"
proof -
  from inv t(1) obtain b0 s0 where p: "b0 \<in> set (sorted_buys book)" "s0 \<in> set (sorted_sells book)"
    "trade_between b0 s0 t" by (auto simp: visit_inv_def match_inv_def)
  with t(2) have ids: "e_order_id b0 = e_order_id b" "e_order_id s0 = e_order_id s"
    by (simp_all add: trade_between_def)
  have "inj_on e_order_id (set (book_buys book))" "inj_on e_order_id (set (book_sells book))"
    using assms(1) by (simp_all add: book_ok_def distinct_map)
  with ids m p have "b0 = b" "s0 = s"
    by (auto simp: sorted_buys_set sorted_sells_set dest: inj_onD)
  with p inv t(1) show ?thesis unfolding visit_inv_def priority_kept_def by blast
qed

text \<open>C13. On every book the service can build, the engine returns a result, and each of its
  trades is between a buy and a sell of the book that belong to different users, whose limits
  cross and whose delivery windows overlap; its price lies within both limits and its window
  is the overlap.\<close>

theorem baseline_trades_sound:
  assumes "book_ok (req_order_book req)"
  shows "\<exists>r. baseline_match req = Inr r
    \<and> (\<forall>t \<in> set (mr_trades r). \<exists>b \<in> set (book_buys (req_order_book req)).
         \<exists>s \<in> set (book_sells (req_order_book req)). trade_between b s t)"
proof (rule baseline_outcome [OF assms], goal_cases)
  case (1 st r)
  then show ?case by (auto elim!: visit_inv_trades)
qed

text \<open>C14. No order is over-filled: the energy all trades commit on an order is at most what it
  had left, and the order is reported unmatched exactly when something of it remains.\<close>

theorem baseline_conserves_energy:
  assumes "book_ok (req_order_book req)" "\<not> book_is_empty (req_order_book req)"
  shows "\<exists>r. baseline_match req = Inr r
    \<and> (\<forall>b \<in> set (book_buys (req_order_book req)).
         committed_to (e_order_id b) (mr_trades r) \<le> val (e_remaining_kwh b)
         \<and> (e_order_id b \<in> set (mr_unmatched_buys r)
              \<longleftrightarrow> committed_to (e_order_id b) (mr_trades r) < val (e_remaining_kwh b)))
    \<and> (\<forall>s \<in> set (book_sells (req_order_book req)).
         committed_to (e_order_id s) (mr_trades r) \<le> val (e_remaining_kwh s)
         \<and> (e_order_id s \<in> set (mr_unmatched_sells r)
              \<longleftrightarrow> committed_to (e_order_id s) (mr_trades r) < val (e_remaining_kwh s)))"
proof (rule baseline_outcome [OF assms(1)], goal_cases)
  case (1 st r)
  have d: "distinct (map e_order_id (book_buys (req_order_book req)))"
    "distinct (map e_order_id (book_sells (req_order_book req)))"
    using assms(1) by (simp_all add: book_ok_def)
  have le: "committed_to (e_order_id e) ts \<le> val (e_remaining_kwh e)"
    if "residuals es rem ts" "e \<in> set es" for es rem ts e
    using that unfolding residuals_def by fastforce
  from 1 assms(2) show ?case
    using residuals_unmatched [OF 1(4) d(1)] residuals_unmatched [OF 1(5) d(2)] le by simp
qed

text \<open>C16. Nothing tradable is left behind: of any compatible buy and sell of the book, one is
  filled completely.\<close>

theorem baseline_exhaustive:
  assumes "book_ok (req_order_book req)"
    and "b \<in> set (book_buys (req_order_book req))" "s \<in> set (book_sells (req_order_book req))"
    and "compatible b s"
  shows "\<exists>r. baseline_match req = Inr r
    \<and> (committed_to (e_order_id b) (mr_trades r) = val (e_remaining_kwh b)
       \<or> committed_to (e_order_id s) (mr_trades r) = val (e_remaining_kwh s))"
proof (rule baseline_outcome [OF assms(1)], goal_cases)
  case (1 st r)
  then have nn: "0 \<le> committed_to i (trades st)" for i
    by (auto simp: visit_inv_def intro: match_inv_committed_nonneg)
  have "committed_to (e_order_id b) (trades st) = val (e_remaining_kwh b)
       \<or> committed_to (e_order_id s) (trades st) = val (e_remaining_kwh s)"
  proof (cases "0 < val (e_remaining_kwh b) \<and> 0 < val (e_remaining_kwh s)")
    case True
    then have "(b, s) \<in> set (sorted_buys (req_order_book req)) \<times> set (sorted_sells (req_order_book req))"
      using compatible_in_pool [OF assms(4,2,3)] by simp
    with 1(3) have "spent st b s" by (auto simp: visit_inv_def)
    with assms 1(4,5) residuals_exhausted show ?thesis unfolding spent_def by blast
  qed (use 1(4,5) assms(2,3) nn residuals_zero in blast)
  with 1 show ?case by simp
qed

text \<open>
  Which of two orders of one side goes first, by the prices and instants of the orders themselves: the
  better limit, then the earlier order, then the smaller identifier.
\<close>

definition goes_before :: "order_book_entry \<Rightarrow> order_book_entry \<Rightarrow> bool" where
  "goes_before x y \<longleftrightarrow>
     e_created_at x < e_created_at y \<or> e_created_at x = e_created_at y \<and> e_order_id x < e_order_id y"

definition sell_precedes :: "order_book_entry \<Rightarrow> order_book_entry \<Rightarrow> bool" where
  "sell_precedes x y \<longleftrightarrow>
     (\<exists>p q. e_min_price x = Some p \<and> e_min_price y = Some q \<and> (val p < val q \<or> val p = val q \<and> goes_before x y))"

definition buy_precedes :: "order_book_entry \<Rightarrow> order_book_entry \<Rightarrow> bool" where
  "buy_precedes x y \<longleftrightarrow>
     (\<exists>p q. e_max_price x = Some p \<and> e_max_price y = Some q \<and> (val p > val q \<or> val p = val q \<and> goes_before x y))"

lemma sell_precedes_key: "sell_precedes x y \<Longrightarrow> sell_key x < sell_key y"
  by (auto simp: sell_precedes_def goes_before_def sell_key_def)

lemma buy_precedes_key:
  assumes "book_ok book" "x \<in> set (book_buys book)" "y \<in> set (book_buys book)" "buy_precedes x y"
  shows "buy_key x < buy_key y"
proof -
  have "rep28 (val p)" if "z \<in> set (book_buys book)" "e_max_price z = Some p" for z p
    using assms(1) that by (fastforce simp: book_ok_def list_all_iff entry_ok_def intro: stored_price_rep28)
  with assms(2-4) show ?thesis
    by (auto simp: buy_precedes_def goes_before_def buy_key_def val_uminus rep28_uminus)
qed

text \<open>C15. Price-time priority: when a buy and a sell trade, every sell that was compatible with the
  buy and asks for less, or the same and was placed earlier (or with the smaller identifier at the
  same instant), is filled completely; and so is every buy that was compatible with the sell and
  offers more, or the same and was placed earlier.\<close>

theorem baseline_priority:
  assumes "book_ok (req_order_book req)"
  shows "\<exists>r. baseline_match req = Inr r
    \<and> (\<forall>b \<in> set (book_buys (req_order_book req)). \<forall>s \<in> set (book_sells (req_order_book req)).
       (\<exists>t \<in> set (mr_trades r). trade_between b s t) \<longrightarrow>
         (\<forall>s' \<in> set (book_sells (req_order_book req)).
            sell_precedes s' s \<and> compatible b s' \<longrightarrow>
            committed_to (e_order_id s') (mr_trades r) = val (e_remaining_kwh s'))
         \<and> (\<forall>b' \<in> set (book_buys (req_order_book req)).
            buy_precedes b' b \<and> compatible b' s \<longrightarrow>
            committed_to (e_order_id b') (mr_trades r) = val (e_remaining_kwh b')))"
proof (rule baseline_outcome [OF assms], goal_cases)
  case (1 st r)
  then have nn: "0 \<le> committed_to i (trades st)" for i
    by (auto simp: visit_inv_def intro: match_inv_committed_nonneg)
  note fill = residuals_zero residuals_exhausted compatible_in_pool
  have sells: "committed_to (e_order_id s') (trades st) = val (e_remaining_kwh s')"
    if "b \<in> set (book_buys (req_order_book req))" "s \<in> set (book_sells (req_order_book req))"
      "t \<in> set (trades st)" "trade_between b s t" "s' \<in> set (book_sells (req_order_book req))"
      "sell_precedes s' s" "compatible b s'" for b s t s'
    using trade_in_pools [OF assms 1(3) that(1-4)] that(1-5,7) sell_precedes_key [OF that(6)] 1(5) nn fill(1,2,4) by blast
  have buys: "committed_to (e_order_id b') (trades st) = val (e_remaining_kwh b')"
    if "b \<in> set (book_buys (req_order_book req))" "s \<in> set (book_sells (req_order_book req))"
      "t \<in> set (trades st)" "trade_between b s t" "b' \<in> set (book_buys (req_order_book req))"
      "buy_precedes b' b" "compatible b' s" for b s t b'
    using trade_in_pools [OF assms 1(3) that(1-4)] that(1-5,7) buy_precedes_key [OF assms that(5,1,6)] 1(4) nn fill(1,2,3) by blast
  show ?case
    by (rule exI [of _ r], unfold 1(2)) (use 1(1) sells buys in blast)
qed

text \<open>The result depends on the orders, not on the order they are listed in: two books with
  the same orders yield the same trades in the same sequence.\<close>

theorem baseline_order_independent:
  assumes "book_ok (req_order_book req)"
    and "mset (book_buys (req_order_book req')) = mset (book_buys (req_order_book req))"
    and "mset (book_sells (req_order_book req')) = mset (book_sells (req_order_book req))"
  shows "\<exists>r r'. baseline_match req = Inr r \<and> baseline_match req' = Inr r'
    \<and> mr_trades r' = mr_trades r
    \<and> mset (mr_unmatched_buys r') = mset (mr_unmatched_buys r)
    \<and> mset (mr_unmatched_sells r') = mset (mr_unmatched_sells r)"
proof -
  let ?b = "req_order_book req" and ?b' = "req_order_book req'"
  have inj: "inj_on k (set (filter P es))"
    if "distinct (map e_order_id es)" "\<And>e e'. k e = k e' \<Longrightarrow> e_order_id e = e_order_id e'"
    for k :: "order_book_entry \<Rightarrow> rat \<times> datetime \<times> uuid" and P es
    using that unfolding distinct_map inj_on_def by (metis filter_is_subset subsetD)
  have d: "distinct (map e_order_id (book_buys ?b))" "distinct (map e_order_id (book_sells ?b))"
    using assms(1) by (simp_all add: book_ok_def)
  have sb: "sorted_buys ?b' = sorted_buys ?b"
    unfolding sorted_buys_def
    by (intro sort_key_mset_eq [symmetric] inj [OF d(1)]) (simp_all add: assms buy_key_def)
  have ss: "sorted_sells ?b' = sorted_sells ?b"
    unfolding sorted_sells_def
    by (intro sort_key_mset_eq [symmetric] inj [OF d(2)]) (simp_all add: assms sell_key_def)
  have um: "mset (unmatched es' rem) = mset (unmatched es rem)" if "mset es' = mset es" for es es' rem
    using that by (simp add: unmatched_def)
  have emp: "book_is_empty ?b' \<longleftrightarrow> book_is_empty ?b"
    using assms(2,3) by (auto simp: book_is_empty_def)
  show ?thesis
  proof (cases "book_is_empty ?b")
    case True
    with emp assms(2,3) show ?thesis by (simp add: baseline_match_def match_book_def Let_def)
  next
    case False
    with emp loop_visit [OF assms(1)] um [OF assms(2)] um [OF assms(3)] show ?thesis
      by (auto simp: baseline_match_def match_book_def Let_def sb ss)
  qed
qed

section \<open>A concrete book\<close>

text \<open>Two buys and two sells; the witnesses below apply the properties to it.\<close>

definition demo_entry :: "uuid \<Rightarrow> order_side \<Rightarrow> uuid \<Rightarrow> decimal \<Rightarrow> datetime \<Rightarrow> decimal
    \<Rightarrow> order_book_entry" where
  "demo_entry i side user qty created price =
     \<lparr>e_order_id = i, e_side = side, e_user_id = user, e_site_id = 100 + user,
      e_remaining_kwh = qty, e_delivery_start = 0, e_delivery_end = 900000000,
      e_created_at = created, e_node_id = None,
      e_max_price = (if side = BUY then Some price else None),
      e_min_price = (if side = SELL then Some price else None), e_reliability = None\<rparr>"

definition demo_buy1 :: order_book_entry where
  "demo_buy1 = demo_entry 1 BUY 11 (Dec 50000 (-4)) 3 (Dec 65000 (-4))"

definition demo_buy2 :: order_book_entry where
  "demo_buy2 = demo_entry 2 BUY 12 (Dec 20000 (-4)) 2 (Dec 70000 (-4))"

definition demo_sell1 :: order_book_entry where
  "demo_sell1 = demo_entry 3 SELL 13 (Dec 40000 (-4)) 1 (Dec 52500 (-4))"

definition demo_sell2 :: order_book_entry where
  "demo_sell2 = demo_entry 4 SELL 14 (Dec 10000 (-4)) 1 (Dec 50000 (-4))"

definition demo_book :: order_book where
  "demo_book = \<lparr>book_session_id = 7, book_market_date = 20000, book_market_type = DAY_AHEAD,
     book_buys = [demo_buy1, demo_buy2], book_sells = [demo_sell1, demo_sell2]\<rparr>"

definition demo_request :: matching_request where
  "demo_request = \<lparr>req_order_book = demo_book, req_cleared_at = 5\<rparr>"

lemmas demo_entries = demo_buy1_def demo_buy2_def demo_sell1_def demo_sell2_def demo_entry_def

lemma demo_book_ok: "book_ok (req_order_book demo_request)"
  by (simp add: demo_request_def demo_book_def demo_entries book_ok_def entry_ok_def)

lemma demo_members [simp]:
  "set (book_buys (req_order_book demo_request)) = {demo_buy1, demo_buy2}"
  "set (book_sells (req_order_book demo_request)) = {demo_sell1, demo_sell2}"
  by (simp_all add: demo_request_def demo_book_def)

lemma demo_fields [simp]:
  "e_order_id demo_buy1 = 1" "e_order_id demo_buy2 = 2"
  "e_order_id demo_sell1 = 3" "e_order_id demo_sell2 = 4"
  "e_remaining_kwh demo_buy1 = Dec 50000 (-4)" "e_remaining_kwh demo_buy2 = Dec 20000 (-4)"
  "e_remaining_kwh demo_sell1 = Dec 40000 (-4)" "e_remaining_kwh demo_sell2 = Dec 10000 (-4)"
  by (simp_all add: demo_entries)

lemma demo_compatible:
  "compatible demo_buy1 demo_sell1" "compatible demo_buy2 demo_sell1"
  "compatible demo_buy2 demo_sell2" "compatible demo_buy1 demo_sell2"
  by (simp_all add: compatible_def demo_entries val_simps val_Dec4)

lemma demo_keys:
  "sell_precedes demo_sell2 demo_sell1" "buy_precedes demo_buy2 demo_buy1"
  by (simp_all add: sell_precedes_def buy_precedes_def demo_entries val_Dec4)

definition demo_result :: matching_result where
  "demo_result =
     (let t = (\<lambda>b s q p. \<lparr>pt_buy_order_id = b, pt_sell_order_id = s, pt_quantity_kwh = q,
        pt_clearing_price = p, pt_delivery_start = 0, pt_delivery_end = 900000000\<rparr>)
      in \<lparr>mr_engine = baseline_name, mr_engine_version = baseline_version,
        mr_trades = [t 2 4 (Dec 10000 (-4)) (Dec 60000 (-4)),
                     t 2 3 (Dec 10000 (-4)) (Dec 61250 (-4)),
                     t 1 3 (Dec 30000 (-4)) (Dec 58750 (-4))],
        mr_unmatched_buys = [1], mr_unmatched_sells = []\<rparr>)"

lemma demo_match: "baseline_match demo_request = Inr demo_result"
  by code_simp

theorem baseline_trades_sound_witness:
  "\<exists>b s. trade_between b s (hd (mr_trades demo_result))"
  using baseline_trades_sound [OF demo_book_ok] by (auto simp: demo_match demo_result_def Let_def)

theorem baseline_conserves_energy_witness:
  "committed_to 1 (mr_trades demo_result) < val (Dec 50000 (-4))
   \<and> committed_to 2 (mr_trades demo_result) \<le> val (Dec 20000 (-4))"
proof -
  have "\<not> book_is_empty (req_order_book demo_request)"
    by (simp add: demo_request_def demo_book_def book_is_empty_def)
  from baseline_conserves_energy [OF demo_book_ok this] show ?thesis
    by (simp add: demo_match) (simp add: demo_result_def)
qed

theorem baseline_exhaustive_witness:
  "committed_to 1 (mr_trades demo_result) = val (Dec 50000 (-4))
   \<or> committed_to 3 (mr_trades demo_result) = val (Dec 40000 (-4))"
  using baseline_exhaustive [OF demo_book_ok _ _ demo_compatible(1)] by (simp add: demo_match)

theorem baseline_priority_witness:
  "committed_to 4 (mr_trades demo_result) = val (Dec 10000 (-4))
   \<and> committed_to 2 (mr_trades demo_result) = val (Dec 20000 (-4))"
proof -
  have "\<exists>t \<in> set (mr_trades demo_result). trade_between demo_buy1 demo_sell1 t"
    "\<exists>t \<in> set (mr_trades demo_result). trade_between demo_buy2 demo_sell1 t"
    using demo_compatible
    by (simp_all add: demo_result_def Let_def trade_between_def demo_entries val_simps val_Dec4)
  with baseline_priority [OF demo_book_ok] demo_compatible demo_keys show ?thesis
    by (simp add: demo_match)
qed

theorem baseline_order_independent_witness:
  "\<exists>r'. baseline_match (demo_request\<lparr>req_order_book := demo_book
       \<lparr>book_buys := rev (book_buys demo_book), book_sells := rev (book_sells demo_book)\<rparr>\<rparr>) = Inr r'
     \<and> mr_trades r' = mr_trades demo_result"
proof -
  have "req_order_book demo_request = demo_book" by (simp add: demo_request_def)
  with baseline_order_independent [OF demo_book_ok, of "demo_request\<lparr>req_order_book := demo_book
       \<lparr>book_buys := rev (book_buys demo_book), book_sells := rev (book_sells demo_book)\<rparr>\<rparr>"]
  show ?thesis by (auto simp: demo_match)
qed

end
