(* ===== verification/Canonical_Text.thy ===== *)
theory Canonical_Text
  imports Decimals
begin

text \<open>
  The texts Python renders values as, where the audit layer hashes them: decimal digits,
  \<open>str(UUID)\<close>, \<open>format(Decimal, "f")\<close> and the ISO form of an instant in UTC with
  microseconds. A text is a list of characters of code below 256. The second half shows
  which renderings determine the value they render.
\<close>

section \<open>Digits\<close>

definition dig :: "int \<Rightarrow> char" where
  "dig n = char_of (if n < 10 then 48 + n else 87 + n)"

text \<open>A number in base \<open>b\<close> with exactly \<open>k\<close> digits (of \<open>n mod b ^ k\<close>).\<close>

fun fixed :: "int \<Rightarrow> nat \<Rightarrow> int \<Rightarrow> string" where
  "fixed b 0 n = []"
| "fixed b (Suc k) n = fixed b k (n div b) @ [dig (n mod b)]"

function digits :: "int \<Rightarrow> string" where
  "digits n = (if n < 10 then [dig n] else digits (n div 10) @ [dig (n mod 10)])"
  by pat_completeness auto
termination
  by (relation "measure nat") auto

declare digits.simps [simp del]

definition int_text :: "int \<Rightarrow> string" where
  "int_text n = (if n < 0 then CHR ''-'' # digits (- n) else digits n)"

section \<open>UUIDs and decimals\<close>

definition uuid_text :: "uuid \<Rightarrow> string" where
  "uuid_text u =
     (let h = fixed 16 32 (int u)
      in take 8 h @ ''-'' @ take 4 (drop 8 h) @ ''-'' @ take 4 (drop 12 h) @ ''-''
         @ take 4 (drop 16 h) @ ''-'' @ drop 20 h)"

definition format_f :: "decimal \<Rightarrow> string" where
  "format_f d =
     (let ds = digits \<bar>coeff d\<bar>;
          sign = (if coeff d < 0 then ''-'' else [])
      in if 0 \<le> dexp d
         then sign @ (if coeff d = 0 then ''0'' else ds @ replicate (nat (dexp d)) (CHR ''0''))
         else
           (let k = nat (- dexp d);
                padded = replicate (Suc k - length ds) (CHR ''0'') @ ds;
                p = length padded - k
            in sign @ take p padded @ ''.'' @ drop p padded))"

section \<open>Instants\<close>

text \<open>The proleptic Gregorian date of a day number (day 1 is the 1st of January of year 1).\<close>

definition days_before_month :: "int list" where
  "days_before_month = [0, 31, 59, 90, 120, 151, 181, 212, 243, 273, 304, 334]"

definition before_month :: "bool \<Rightarrow> int \<Rightarrow> int" where
  "before_month leap m =
     days_before_month ! nat (m - 1) + (if 2 < m \<and> leap then 1 else 0)"

text \<open>Month and day of the \<open>n\<close>-th day (from 0) of a year.\<close>

definition month_day :: "bool \<Rightarrow> int \<Rightarrow> int \<times> int" where
  "month_day leap n =
     (let guess = (n + 50) div 32;
          m = (if before_month leap guess > n then guess - 1 else guess)
      in (m, n - before_month leap m + 1))"

definition ord2ymd :: "int \<Rightarrow> int \<times> int \<times> int" where
  "ord2ymd ordinal =
     (let n = ordinal - 1;
          n400 = n div 146097; n = n mod 146097;
          n100 = n div 36524; n = n mod 36524;
          n4 = n div 1461; n = n mod 1461;
          n1 = n div 365; n = n mod 365;
          year = n400 * 400 + n100 * 100 + n4 * 4 + n1 + 1
      in if n1 = 4 \<or> n100 = 4 then (year - 1, 12, 31)
         else (year, month_day (n1 = 3 \<and> (n4 \<noteq> 24 \<or> n100 = 3)) n))"

text \<open>Day number of the UTC epoch, and \<open>isoformat(timespec="microseconds")\<close> in UTC.\<close>

definition epoch_ordinal :: int where
  "epoch_ordinal = 719163"

definition iso_text :: "datetime \<Rightarrow> string" where
  "iso_text us =
     (let day = us div 86400000000 + epoch_ordinal;
          rest = us mod 86400000000
      in (case ord2ymd day of (y, m, d) \<Rightarrow>
           fixed 10 4 y @ ''-'' @ fixed 10 2 m @ ''-'' @ fixed 10 2 d @ ''T''
           @ fixed 10 2 (rest div 3600000000) @ '':'' @ fixed 10 2 (rest div 60000000 mod 60)
           @ '':'' @ fixed 10 2 (rest div 1000000 mod 60) @ ''.'' @ fixed 10 6 (rest mod 1000000)
           @ ''+00:00''))"

text \<open>The instants Python's \<open>datetime\<close> holds: years 1 to 9999.\<close>

definition datetime_ok :: "datetime \<Rightarrow> bool" where
  "datetime_ok us \<longleftrightarrow> - 719162 * 86400000000 \<le> us \<and> us < 2932897 * 86400000000"

text \<open>\<open>t + delta\<close> raises outside them.\<close>

definition datetime_plus :: "datetime \<Rightarrow> timedelta \<Rightarrow> datetime result" where
  "datetime_plus t delta = (if datetime_ok (t + delta) then Inr (t + delta) else Inl PyOverflowError)"

definition uuid_ok :: "uuid \<Rightarrow> bool" where
  "uuid_ok u \<longleftrightarrow> u < 16 ^ 32"

section \<open>Renderings that determine their value\<close>

lemma dig_inject: "0 \<le> m \<Longrightarrow> m < 16 \<Longrightarrow> 0 \<le> n \<Longrightarrow> n < 16 \<Longrightarrow> dig m = dig n \<longleftrightarrow> m = n"
proof -
  assume b: "0 \<le> m" "m < 16" "0 \<le> n" "n < 16"
  have inj: "(char_of x :: char) = char_of y \<longleftrightarrow> x = y" if "0 \<le> x" "x < 256" "0 \<le> y" "y < 256" for x y :: int
  proof
    assume "(char_of x :: char) = char_of y"
    then have "(of_char (char_of x :: char) :: int) = of_char (char_of y :: char)" by simp
    then have "x mod 256 = y mod 256" by (simp add: take_bit_eq_mod)
    with that show "x = y" by simp
  qed simp
  show ?thesis using b by (auto simp: dig_def inj)
qed

lemma length_fixed [simp]: "length (fixed b k n) = k"
  by (induction k arbitrary: n) simp_all

lemma fixed_inject:
  assumes "fixed b k m = fixed b k n" "0 < b" "b \<le> 16" "0 \<le> m" "m < b ^ k" "0 \<le> n" "n < b ^ k"
  shows "m = n"
  using assms
proof (induction k arbitrary: m n)
  case (Suc k)
  have bnd: "0 \<le> x mod b" "x mod b < 16" for x
    using pos_mod_bound [OF Suc.prems(2), of x] pos_mod_sign [OF Suc.prems(2), of x] Suc.prems(3)
    by simp_all
  from Suc.prems(1) have "fixed b k (m div b) = fixed b k (n div b)" "m mod b = n mod b"
    by (simp_all add: dig_inject bnd)
  moreover have "m div b < b ^ k" "n div b < b ^ k"
    using Suc.prems by (simp_all add: div_less_int mult.commute)
  moreover have "0 \<le> m div b" "0 \<le> n div b"
    using Suc.prems by (simp_all add: pos_imp_zdiv_nonneg_iff)
  ultimately have "m div b = n div b" "m mod b = n mod b" using Suc.IH Suc.prems(2,3) by blast+
  then show ?case by (metis div_mult_mod_eq)
qed simp

lemma digits_not_Nil [simp]: "digits n \<noteq> []"
  by (subst digits.simps) simp

lemma digits_digit: "0 \<le> n \<Longrightarrow> c \<in> set (digits n) \<Longrightarrow> \<exists>k. 0 \<le> k \<and> k < 10 \<and> c = dig k"
proof (induction n rule: digits.induct)
  case (1 n)
  show ?case
  proof (cases "n < 10")
    case True
    then have "digits n = [dig n]" by (subst digits.simps) simp
    with True 1 show ?thesis by auto
  next
    case False
    then have "digits n = digits (n div 10) @ [dig (n mod 10)]" by (subst digits.simps) simp
    with "1.prems"(2) consider "c \<in> set (digits (n div 10))" | "c = dig (n mod 10)" by auto
    then show ?thesis
    proof cases
      case 1
      with "1.IH" False "1.prems"(1) show ?thesis by (simp add: pos_imp_zdiv_nonneg_iff)
    next
      case 2
      then show ?thesis by (intro exI [of _ "n mod 10"]) simp
    qed
  qed
qed

lemma digits_inject:
  assumes "digits m = digits n" "0 \<le> m" "0 \<le> n"
  shows "m = n"
  using assms
proof (induction m arbitrary: n rule: digits.induct)
  case (1 m)
  have dm: "digits x = (if x < 10 then [dig x] else digits (x div 10) @ [dig (x mod 10)])" for x
    by (rule digits.simps)
  show ?case
  proof (cases "m < 10")
    case True
    have "n < 10"
    proof (rule ccontr)
      assume "\<not> n < 10"
      with True "1.prems"(1) have "digits (n div 10) = []" using dm [of m] dm [of n] by simp
      then show False by simp
    qed
    with True "1.prems" show ?thesis using dm [of m] dm [of n] by (simp add: dig_inject)
  next
    case False
    have n: "\<not> n < 10"
    proof
      assume "n < 10"
      with False "1.prems"(1) have "digits (m div 10) = []" using dm [of m] dm [of n] by simp
      then show False by simp
    qed
    have "digits (m div 10) = digits (n div 10)" "dig (m mod 10) = dig (n mod 10)"
      using "1.prems"(1) dm [of m] dm [of n] False n by simp_all
    then have "m div 10 = n div 10" "m mod 10 = n mod 10"
      using "1.IH" [OF False] "1.prems" n
      by (simp_all add: dig_inject pos_imp_zdiv_nonneg_iff less_trans [OF pos_mod_bound])
    then show ?thesis by (metis div_mult_mod_eq)
  qed
qed

lemma uuid_pieces:
  "xs = take 8 xs @ take 4 (drop 8 xs) @ take 4 (drop 12 xs) @ take 4 (drop 16 xs) @ drop 20 xs"
proof -
  have "drop k xs = take 4 (drop k xs) @ drop (k + 4) xs" for k
    using append_take_drop_id [of 4 "drop k xs"] by (simp add: add.commute)
  from this [of 8] this [of 12] this [of 16] append_take_drop_id [of 8 xs] show ?thesis by simp
qed

lemma uuid_text_inject:
  assumes "uuid_text u = uuid_text v" "uuid_ok u" "uuid_ok v"
  shows "u = v"
proof -
  let ?h = "fixed 16 32 (int u)" and ?g = "fixed 16 32 (int v)"
  have "take 8 ?h = take 8 ?g" "take 4 (drop 8 ?h) = take 4 (drop 8 ?g)"
    "take 4 (drop 12 ?h) = take 4 (drop 12 ?g)" "take 4 (drop 16 ?h) = take 4 (drop 16 ?g)"
    "drop 20 ?h = drop 20 ?g"
    using assms(1) by (simp_all add: uuid_text_def Let_def)
  then have "?h = ?g" using uuid_pieces [of ?h] uuid_pieces [of ?g] by metis
  then have "int u = int v"
    using assms(2,3) by (intro fixed_inject [of 16 32]) (simp_all add: uuid_ok_def)
  then show ?thesis by simp
qed

section \<open>The calendar\<close>

definition days_before_year :: "int \<Rightarrow> int" where
  "days_before_year y = (y - 1) * 365 + (y - 1) div 4 - (y - 1) div 100 + (y - 1) div 400"

definition is_leap :: "int \<Rightarrow> bool" where
  "is_leap y \<longleftrightarrow> y mod 4 = 0 \<and> (y mod 100 \<noteq> 0 \<or> y mod 400 = 0)"

definition ymd2ord :: "int \<times> int \<times> int \<Rightarrow> int" where
  "ymd2ord = (\<lambda>(y, m, d). days_before_year y + before_month (is_leap y) m + d)"

definition days_in_month :: "bool \<Rightarrow> int \<Rightarrow> int" where
  "days_in_month leap m =
     (if m = 2 \<and> leap then 29 else [31, 28, 31, 30, 31, 30, 31, 31, 30, 31, 30, 31] ! nat (m - 1))"

definition month_day_ok :: "bool \<Rightarrow> int \<Rightarrow> bool" where
  "month_day_ok leap n =
     (case month_day leap n of
        (m, d) \<Rightarrow> 1 \<le> m \<and> m \<le> 12 \<and> 1 \<le> d \<and> d \<le> days_in_month leap m \<and> days_in_month leap m \<le> 31)"

lemma month_day_common: "list_all (month_day_ok False) [0..364]"
  by code_simp

lemma month_day_leap: "list_all (month_day_ok True) [0..365]"
  by code_simp

lemma month_day_ranges:
  assumes "0 \<le> n" "n < (if leap then 366 else 365)"
  shows "month_day_ok leap n"
  using assms month_day_common month_day_leap
  by (auto simp: list_all_iff split: if_splits)

text \<open>The parts of the date algorithm, and that the date determines the day.\<close>

lemma div_mod_rep:
  fixes x k q r :: int
  assumes "x = k * q + r" "0 \<le> r" "r < k"
  shows "x div k = q \<and> x mod k = r"
  using int_div_pos_eq [OF assms] int_mod_pos_eq [OF assms] by blast

lemma year_parts:
  fixes x :: int
  assumes "x = 400 * a + 100 * b + 4 * c + e"
    and "0 \<le> b" "b \<le> 3" "0 \<le> c" "c \<le> 24" "0 \<le> e" "e \<le> 3"
  shows "x div 4 = 100 * a + 25 * b + c" "x div 100 = 4 * a + b" "x div 400 = a"
    "x mod 4 = e" "x mod 100 = 4 * c + e" "x mod 400 = 100 * b + 4 * c + e"
proof -
  have "x = 4 * (100 * a + 25 * b + c) + e" "x = 100 * (4 * a + b) + (4 * c + e)"
    "x = 400 * a + (100 * b + 4 * c + e)" "0 \<le> 4 * c + e" "4 * c + e < 100"
    "0 \<le> 100 * b + 4 * c + e" "100 * b + 4 * c + e < 400" "e < 4"
    using assms by (simp_all add: algebra_simps)
  then show "x div 4 = 100 * a + 25 * b + c" "x div 100 = 4 * a + b" "x div 400 = a"
    "x mod 4 = e" "x mod 100 = 4 * c + e" "x mod 400 = 100 * b + 4 * c + e"
    using div_mod_rep assms(6) by blast+
qed

lemma leap_succ:
  fixes x :: int
  assumes "x = 400 * a + 100 * b + 4 * c + e"
    and "0 \<le> b" "b \<le> 3" "0 \<le> c" "c \<le> 24" "0 \<le> e" "e \<le> 3"
  shows "is_leap (x + 1) \<longleftrightarrow> e = 3 \<and> (c \<noteq> 24 \<or> b = 3)"
proof -
  have "(x + 1) mod k = (x mod k + 1) mod k" for k by (simp add: mod_add_left_eq)
  then have m: "(x + 1) mod 4 = (e + 1) mod 4" "(x + 1) mod 100 = (4 * c + e + 1) mod 100"
    "(x + 1) mod 400 = (100 * b + 4 * c + e + 1) mod 400"
    by (simp_all only: year_parts [OF assms])
  have "(e + 1) mod 4 = 0 \<longleftrightarrow> e = 3" using assms(6,7) by presburger
  moreover have "(4 * c + 3 + 1) mod 100 = 0 \<longleftrightarrow> c = 24"
    using assms(4,5) mod_pos_pos_trivial [of "4 * c + 4" 100] by (cases "c = 24") simp_all
  moreover have "(100 * b + 4 * 24 + 3 + 1) mod 400 = 0 \<longleftrightarrow> b = 3"
    using assms(2,3) mod_pos_pos_trivial [of "100 * b + 100" 400] by (cases "b = 3") simp_all
  ultimately show ?thesis unfolding is_leap_def m by (cases "e = 3"; cases "c = 24") simp_all
qed

lemma ord2ymd_inverse:
  assumes "1 \<le> n" "n \<le> 3652059" and y: "ord2ymd n = (y, m, d)"
  shows "ymd2ord (y, m, d) = n \<and> 1 \<le> y \<and> y \<le> 9999 \<and> 1 \<le> m \<and> m \<le> 12
    \<and> 1 \<le> d \<and> d \<le> days_in_month (is_leap y) m \<and> d \<le> 31"
proof -
  define a r1 where "a = (n - 1) div 146097" and "r1 = (n - 1) mod 146097"
  define b r2 where "b = r1 div 36524" and "r2 = r1 mod 36524"
  define c r3 where "c = r2 div 1461" and "r3 = r2 mod 1461"
  define e r4 where "e = r3 div 365" and "r4 = r3 mod 365"
  have n: "n - 1 = 146097 * a + r1" "0 \<le> r1" "r1 < 146097" by (simp_all add: a_def r1_def)
  have r1: "r1 = 36524 * b + r2" "0 \<le> r2" "r2 < 36524" by (simp_all add: b_def r2_def)
  have r2: "r2 = 1461 * c + r3" "0 \<le> r3" "r3 < 1461" by (simp_all add: c_def r3_def)
  have r3: "r3 = 365 * e + r4" "0 \<le> r4" "r4 < 365" by (simp_all add: e_def r4_def)
  have bnd: "0 \<le> a" "a \<le> 24" "0 \<le> b" "b \<le> 4" "0 \<le> c" "c \<le> 24" "0 \<le> e" "e \<le> 4"
    using assms(1,2) n r1 r2 r3 by linarith+
  define Y where "Y = a * 400 + b * 100 + c * 4 + e + 1"
  have ymd: "(y, m, d) = (if e = 4 \<or> b = 4 then (Y - 1, 12, 31)
      else (Y, month_day (e = 3 \<and> (c \<noteq> 24 \<or> b = 3)) r4))"
    using y [symmetric]
    unfolding ord2ymd_def Let_def Y_def e_def r4_def c_def r3_def b_def r2_def a_def r1_def .
  consider (century) "b = 4" | (leap) "b \<noteq> 4" "e = 4" | (day) "b \<noteq> 4" "e \<noteq> 4" by blast
  then show ?thesis
  proof cases
    case century
    then have z: "r2 = 0" "c = 0" "r3 = 0" "e = 0" "r4 = 0" using r1 r2 r3 n(3) bnd by linarith+
    have yy: "y = 400 * (a + 1)" "m = 12" "d = 31" using ymd century z by (simp_all add: Y_def)
    have a23: "a \<le> 23" using assms(2) n(1) r1(1) century z bnd by linarith
    define x where "x = 400 * a + 399"
    have x: "x = 400 * a + 100 * 3 + 4 * 24 + 3" by (simp add: x_def)
    note parts = year_parts [OF x] and succ = leap_succ [OF x]
    have yx: "y = x + 1" by (simp add: yy x_def)
    have lp: "is_leap (x + 1)" using succ by simp
    have "ymd2ord (y, m, d) = x * 365 + (100 * a + 25 * 3 + 24) - (4 * a + 3) + a + 335 + 31"
      using lp parts by (simp add: yx yy(2,3) ymd2ord_def days_before_year_def before_month_def
          days_before_month_def)
    also have "\<dots> = n" using n(1) r1(1) century z by (simp add: x_def)
    finally have "ymd2ord (y, m, d) = n" .
    then show ?thesis using bnd(1) a23 by (simp add: yy days_in_month_def)
  next
    case leap
    have z: "r4 = 0" "r3 = 1460" using leap r3 r2(3) by simp_all
    have bc: "b \<le> 3" "c \<le> 23" using leap bnd(4) r1(3) r2(1) z bnd(5,6) by linarith+
    define x where "x = 400 * a + 100 * b + 4 * c + 3"
    note parts = year_parts [OF x_def bnd(3) bc(1) bnd(5,6)]
      and succ = leap_succ [OF x_def bnd(3) bc(1) bnd(5,6)]
    have yy: "y = x + 1" "m = 12" "d = 31" using ymd leap by (simp_all add: Y_def x_def)
    have lp: "is_leap (x + 1)" using succ bc by simp
    have "ymd2ord (y, m, d) = x * 365 + (100 * a + 25 * b + c) - (4 * a + b) + a + 335 + 31"
      using lp parts by (simp add: yy ymd2ord_def days_before_year_def before_month_def days_before_month_def)
    also have "\<dots> = n" using n(1) r1(1) r2(1) z by (simp add: x_def)
    finally have "ymd2ord (y, m, d) = n" .
    moreover have "y \<le> 9999" using assms(2) n r1 r2 r3 bc bnd by (simp add: yy x_def)
    ultimately show ?thesis using bnd by (simp add: yy x_def days_in_month_def)
  next
    case day
    have be: "b \<le> 3" "e \<le> 3" using day bnd by linarith+
    define x where "x = 400 * a + 100 * b + 4 * c + e"
    note parts = year_parts [OF x_def bnd(3) be(1) bnd(5,6,7) be(2)]
      and succ = leap_succ [OF x_def bnd(3) be(1) bnd(5,6,7) be(2)]
    have "y = Y" "(m, d) = month_day (is_leap (x + 1)) r4"
      using ymd day unfolding succ [symmetric] by simp_all
    moreover have "Y = x + 1" by (simp add: Y_def x_def)
    ultimately have yy: "y = x + 1" "(m, d) = month_day (is_leap (x + 1)) r4" by simp_all
    have ok: "1 \<le> m \<and> m \<le> 12 \<and> 1 \<le> d \<and> d \<le> days_in_month (is_leap (x + 1)) m \<and> d \<le> 31"
    proof -
      have "r4 < (if is_leap (x + 1) then 366 else 365)" using r3(3) by simp
      from month_day_ranges [OF r3(2) this] show ?thesis
        by (simp add: month_day_ok_def yy(2) [symmetric])
    qed
    have "d = r4 - before_month (is_leap (x + 1)) m + 1"
      using yy(2) by (simp add: month_day_def Let_def)
    then have "ymd2ord (y, m, d) = x * 365 + (100 * a + 25 * b + c) - (4 * a + b) + a + r4 + 1"
      using parts by (simp add: yy(1) ymd2ord_def days_before_year_def)
    also have "\<dots> = n" using n(1) r1(1) r2(1) r3(1) by (simp add: x_def)
    finally have "ymd2ord (y, m, d) = n" .
    moreover have "y \<le> 9999"
      using assms(2) n r1 r2 r3 be bnd by (simp add: yy(1) x_def)
    ultimately show ?thesis using bnd ok by (simp add: yy(1) x_def)
  qed
qed

lemma ord2ymd_inject:
  assumes "1 \<le> m" "m \<le> 3652059" "1 \<le> n" "n \<le> 3652059" "ord2ymd m = ord2ymd n"
  shows "m = n"
  using ord2ymd_inverse [OF assms(1,2)] ord2ymd_inverse [OF assms(3,4)] assms(5)
  by (metis prod_cases3)

lemma time_parts:
  fixes s t :: int
  assumes "s div 3600000000 = t div 3600000000" "s div 60000000 mod 60 = t div 60000000 mod 60"
    "s div 1000000 mod 60 = t div 1000000 mod 60" "s mod 1000000 = t mod 1000000"
  shows "s = t"
proof -
  have h: "x div 60000000 div 60 = x div 3600000000" "x div 1000000 div 60 = x div 60000000" for x :: int
    by (simp_all add: zdiv_zmult2_eq [symmetric])
  have "s div 60000000 = t div 60000000" by (metis assms(1,2) h(1) div_mult_mod_eq)
  then have "s div 1000000 = t div 1000000" by (metis assms(3) h(2) div_mult_mod_eq)
  then show ?thesis by (metis assms(4) div_mult_mod_eq)
qed

text \<open>An instant is determined by its text.\<close>

lemma iso_text_inject:
  assumes "iso_text s = iso_text t" "datetime_ok s" "datetime_ok t"
  shows "s = t"
proof -
  let ?D = "86400000000 :: int"
  define ds dt where "ds = s div ?D + epoch_ordinal" and "dt = t div ?D + epoch_ordinal"
  define rs rt where "rs = s mod ?D" and "rt = t mod ?D"
  obtain y m d where s: "ord2ymd ds = (y, m, d)" by (metis prod_cases3)
  obtain y' m' d' where t: "ord2ymd dt = (y', m', d')" by (metis prod_cases3)
  have rng: "1 \<le> ds" "ds \<le> 3652059" "1 \<le> dt" "dt \<le> 3652059"
    using assms(2,3) by (auto simp: ds_def dt_def epoch_ordinal_def datetime_ok_def)
  note inv = ord2ymd_inverse [OF rng(1,2) s] ord2ymd_inverse [OF rng(3,4) t]
  have r: "0 \<le> rs" "rs < ?D" "0 \<le> rt" "rt < ?D" by (simp_all add: rs_def rt_def)
  have eqs: "fixed 10 4 y = fixed 10 4 y'" "fixed 10 2 m = fixed 10 2 m'" "fixed 10 2 d = fixed 10 2 d'"
    "fixed 10 2 (rs div 3600000000) = fixed 10 2 (rt div 3600000000)"
    "fixed 10 2 (rs div 60000000 mod 60) = fixed 10 2 (rt div 60000000 mod 60)"
    "fixed 10 2 (rs div 1000000 mod 60) = fixed 10 2 (rt div 1000000 mod 60)"
    "fixed 10 6 (rs mod 1000000) = fixed 10 6 (rt mod 1000000)"
    using assms(1)
    by (simp_all add: iso_text_def Let_def ds_def [symmetric] dt_def [symmetric] s t
        rs_def [symmetric] rt_def [symmetric])
  have fi: "x = z" if "fixed 10 k x = fixed 10 k z" "0 \<le> x" "x < 10 ^ k" "0 \<le> z" "z < 10 ^ k" for k x z
    using fixed_inject [OF that(1)] that by simp
  have "y = y'" "m = m'" "d = d'"
    using fi [OF eqs(1)] fi [OF eqs(2)] fi [OF eqs(3)] inv by simp_all
  then have "ds = dt" using ord2ymd_inject [OF rng] s t by simp
  moreover have "rs div 3600000000 = rt div 3600000000" using r by (intro fi [OF eqs(4)]) auto
  moreover have sm: "rs div 60000000 mod 60 = rt div 60000000 mod 60"
    "rs div 1000000 mod 60 = rt div 1000000 mod 60"
    by (intro fi [OF eqs(5)] fi [OF eqs(6)]; simp add: less_trans [OF pos_mod_bound])+
  moreover have "rs mod 1000000 = rt mod 1000000" by (intro fi [OF eqs(7)]) simp_all
  ultimately have "rs = rt" using time_parts by blast
  with \<open>ds = dt\<close> show ?thesis
    by (metis add_right_cancel ds_def dt_def rs_def rt_def div_mult_mod_eq)
qed

section \<open>Texts of decimals and instants\<close>

text \<open>
  Texts Python renders in messages, reasons and notifications: \<open>str(Decimal)\<close>, which switches to
  an exponent where the digits alone would not show the precision, \<open>datetime.isoformat()\<close> in UTC,
  which leaves out a fraction of zero, and \<open>sep.join(texts)\<close>.
\<close>

definition decimal_text :: "decimal \<Rightarrow> string" where
  "decimal_text d =
     (let ds = digits \<bar>coeff d\<bar>; e = dexp d; n = int (length ds);
          left = e + n;
          point = (if e \<le> 0 \<and> - 6 < left then left else 1);
          sign = (if coeff d < 0 then ''-'' else []);
          body = (if point \<le> 0 then ''0.'' @ replicate (nat (- point)) (CHR ''0'') @ ds
                  else if n \<le> point then ds @ replicate (nat (point - n)) (CHR ''0'')
                  else take (nat point) ds @ ''.'' @ drop (nat point) ds);
          ex = left - point
      in sign @ body @ (if ex = 0 then []
                        else CHR ''E'' # (if ex < 0 then ''-'' else ''+'') @ digits \<bar>ex\<bar>))"

definition isoformat :: "datetime \<Rightarrow> string" where
  "isoformat us =
     (let text = iso_text us in if us mod 1000000 = 0 then take 19 text @ drop 26 text else text)"

fun joined :: "string \<Rightarrow> string list \<Rightarrow> string" where
  "joined sep [] = []"
| "joined sep [t] = t"
| "joined sep (t # u # ts) = t @ sep @ joined sep (u # ts)"

text \<open>The renderings on the cases that differ.\<close>

lemma decimal_text_examples:
  "decimal_text (Dec 10600 (-4)) = ''1.0600''" "decimal_text (Dec (-5) (-3)) = ''-0.005''"
  "decimal_text (Dec 12 3) = ''1.2E+4''" "decimal_text (Dec 5 (-8)) = ''5E-8''"
  "decimal_text (Dec 0 (-2)) = ''0.00''" "decimal_text (Dec 100 0) = ''100''"
  by code_simp+

lemma isoformat_examples:
  "isoformat 0 = ''1970-01-01T00:00:00+00:00''"
  "isoformat 900500000 = ''1970-01-01T00:15:00.500000+00:00''"
  by code_simp+

end
