(* ===== verification/Canonical_Json.thy ===== *)
theory Canonical_Json
  imports Canonical_Text "HOL-Library.Char_ord" "HOL-Library.List_Lexorder"
begin

text \<open>
  \<open>json.dumps(value, sort_keys=True, separators=(",", ":"), ensure_ascii=False)\<close> on the
  values the audit layer serializes, and that the text determines the value: a string ends
  at its unescaped quote, a number at the first character that is no digit, and what
  follows a value inside another is a comma or a closing bracket.
\<close>

datatype json =
    JNull
  | JBool bool
  | JInt int
  | JStr string
  | JArr "json list"
  | JObj "(string \<times> json) list"

section \<open>Serialization\<close>

definition esc :: "char \<Rightarrow> string" where
  "esc c =
     (let n = of_char c :: int
      in if n = 34 then [CHR 0x5C, CHR 0x22]
         else if n = 92 then [CHR 0x5C, CHR 0x5C]
         else if n = 10 then CHR 0x5C # ''n''
         else if n = 13 then CHR 0x5C # ''r''
         else if n = 9 then CHR 0x5C # ''t''
         else if n = 8 then CHR 0x5C # ''b''
         else if n = 12 then CHR 0x5C # ''f''
         else if n < 32 then CHR 0x5C # CHR ''u'' # fixed 16 4 n
         else [c])"

definition json_string :: "string \<Rightarrow> string" where
  "json_string s = CHR 0x22 # concat (map esc s) @ [CHR 0x22]"

fun commas :: "string list \<Rightarrow> string" where
  "commas [] = []"
| "commas [x] = x"
| "commas (x # y # zs) = x @ CHR '','' # commas (y # zs)"

definition member_text :: "string \<times> string \<Rightarrow> string" where
  "member_text = (\<lambda>(k, t). json_string k @ CHR '':'' # t)"

fun dumps :: "json \<Rightarrow> string" where
  "dumps JNull = ''null''"
| "dumps (JBool b) = (if b then ''true'' else ''false'')"
| "dumps (JInt n) = int_text n"
| "dumps (JStr s) = json_string s"
| "dumps (JArr xs) = CHR ''['' # commas (map dumps xs) @ '']''"
| "dumps (JObj kvs) =
     CHR ''{'' # commas (map member_text (sort_key fst (map (\<lambda>(k, v). (k, dumps v)) kvs))) @ ''}''"

text \<open>Objects whose keys are in order, at every level.\<close>

fun sorted_json :: "json \<Rightarrow> bool" where
  "sorted_json (JArr xs) \<longleftrightarrow> list_all sorted_json xs"
| "sorted_json (JObj kvs) \<longleftrightarrow> sorted (map fst kvs) \<and> list_all (\<lambda>(k, v). sorted_json v) kvs"
| "sorted_json v \<longleftrightarrow> True"

section \<open>Strings\<close>

definition term_next :: "string \<Rightarrow> bool" where
  "term_next r \<longleftrightarrow> r = [] \<or> hd r \<in> {CHR '','', CHR '']'', CHR ''}''}"

lemma of_char_range: "0 \<le> (of_char c :: int)" "(of_char c :: int) < 256"
proof -
  have "(of_char c :: int) = int (of_char c :: nat)" by (rule of_nat_of_char [symmetric])
  then show "0 \<le> (of_char c :: int)" "(of_char c :: int) < 256"
    using range_nat_of_char by auto
qed

lemma of_char_inject: "(of_char c :: int) = of_char d \<longleftrightarrow> c = d"
  by (metis char_of_char)

text \<open>The character a two-character escape stands for.\<close>

definition unescape :: "char \<Rightarrow> char" where
  "unescape k =
     (if k = CHR ''n'' then CHR 0x0A else if k = CHR ''r'' then CHR 0x0D
      else if k = CHR ''t'' then CHR 0x09 else if k = CHR ''b'' then CHR 0x08
      else if k = CHR ''f'' then CHR 0x0C else k)"

lemma esc_cases:
  obtains (short) k where "esc c = [CHR 0x5C, k]" "k \<noteq> CHR ''u''" "c = unescape k"
  | (control) "esc c = CHR 0x5C # CHR ''u'' # fixed 16 4 (of_char c)" "(of_char c :: int) < 32"
  | (plain) "esc c = [c]" "c \<noteq> CHR 0x5C" "c \<noteq> CHR 0x22"
proof -
  let ?n = "of_char c :: int"
  consider "?n = 34" | "?n = 92" | "?n = 10" | "?n = 13" | "?n = 9" | "?n = 8" | "?n = 12"
    | "?n \<notin> {34, 92, 10, 13, 9, 8, 12}" "?n < 32" | "?n \<notin> {34, 92, 10, 13, 9, 8, 12}" "\<not> ?n < 32"
    by blast
  then show thesis
  proof cases
    case 1
    then show thesis by (intro short [of "CHR 0x22"])
        (simp_all add: esc_def unescape_def of_char_inject [symmetric])
  next
    case 2
    then show thesis by (intro short [of "CHR 0x5C"])
        (simp_all add: esc_def unescape_def of_char_inject [symmetric])
  next
    case 3
    then show thesis by (intro short [of "CHR ''n''"])
        (simp_all add: esc_def unescape_def of_char_inject [symmetric])
  next
    case 4
    then show thesis by (intro short [of "CHR ''r''"])
        (simp_all add: esc_def unescape_def of_char_inject [symmetric])
  next
    case 5
    then show thesis by (intro short [of "CHR ''t''"])
        (simp_all add: esc_def unescape_def of_char_inject [symmetric])
  next
    case 6
    then show thesis by (intro short [of "CHR ''b''"])
        (simp_all add: esc_def unescape_def of_char_inject [symmetric])
  next
    case 7
    then show thesis by (intro short [of "CHR ''f''"])
        (simp_all add: esc_def unescape_def of_char_inject [symmetric])
  next
    case 8
    then show thesis by (intro control) (simp_all add: esc_def)
  next
    case 9
    moreover from 9 have "c \<noteq> CHR 0x5C" "c \<noteq> CHR 0x22" by auto
    ultimately show thesis by (intro plain) (simp_all add: esc_def)
  qed
qed

lemma esc_cancel:
  assumes eq: "esc c @ x = esc d @ y"
  shows "c = d \<and> x = y"
proof (cases c rule: esc_cases)
  case c: (short k)
  then show ?thesis using eq by (cases d rule: esc_cases) auto
next
  case c: control
  show ?thesis
  proof (cases d rule: esc_cases)
    case d: control
    from eq have "fixed 16 4 (of_char c) = fixed 16 4 (of_char d)" "x = y"
      by (simp_all add: c(1) d(1))
    with fixed_inject [OF this(1)] c(2) d(2) of_char_range show ?thesis
      by (simp add: of_char_inject)
  qed (use c eq in auto)
next
  case c: plain
  then show ?thesis using eq by (cases d rule: esc_cases) auto
qed

lemma esc_not_quote: "esc c @ x \<noteq> CHR 0x22 # y"
  by (cases c rule: esc_cases) auto

lemma json_string_cancel:
  assumes "json_string s @ x = json_string t @ y"
  shows "s = t \<and> x = y"
proof -
  have "concat (map esc s) @ CHR 0x22 # x = concat (map esc t) @ CHR 0x22 # y \<Longrightarrow> s = t \<and> x = y"
  proof (induction s arbitrary: t)
    case Nil
    then show ?case
    proof (cases t)
      case (Cons d ds)
      with Nil have "esc d @ (concat (map esc ds) @ CHR 0x22 # y) = CHR 0x22 # x" by simp
      with esc_not_quote show ?thesis by blast
    qed simp
  next
    case (Cons c cs)
    show ?case
    proof (cases t)
      case Nil
      with Cons.prems have "esc c @ (concat (map esc cs) @ CHR 0x22 # x) = CHR 0x22 # y" by simp
      with esc_not_quote show ?thesis by blast
    next
      case t: (Cons d ds)
      with Cons.prems have "esc c @ (concat (map esc cs) @ CHR 0x22 # x)
          = esc d @ (concat (map esc ds) @ CHR 0x22 # y)" by simp
      from esc_cancel [OF this] Cons.IH t show ?thesis by blast
    qed
  qed
  with assms show ?thesis by (simp add: json_string_def)
qed

section \<open>Numbers\<close>

definition is_dig :: "char \<Rightarrow> bool" where
  "is_dig c \<longleftrightarrow> (\<exists>k. 0 \<le> k \<and> k < 10 \<and> c = dig k)"

lemma is_dig_code: "is_dig c \<Longrightarrow> 48 \<le> (of_char c :: int) \<and> (of_char c :: int) < 58"
  by (auto simp: is_dig_def dig_def take_bit_eq_mod)

lemma not_is_dig: "\<not> is_dig (CHR ''-'')" "\<not> is_dig (CHR '','')" "\<not> is_dig (CHR '']'')"
  "\<not> is_dig (CHR ''}'')"
  using is_dig_code by fastforce+

lemma digits_is_dig: "0 \<le> n \<Longrightarrow> c \<in> set (digits n) \<Longrightarrow> is_dig c"
  using digits_digit by (auto simp: is_dig_def)

lemma takeWhile_digits:
  assumes "0 \<le> n" "term_next r"
  shows "takeWhile is_dig (digits n @ r) = digits n" "dropWhile is_dig (digits n @ r) = r"
proof -
  have "r = [] \<or> \<not> is_dig (hd r)" using assms(2) not_is_dig by (auto simp: term_next_def)
  then have r: "takeWhile is_dig r = []" "dropWhile is_dig r = r" by (cases r; simp)+
  show "takeWhile is_dig (digits n @ r) = digits n" "dropWhile is_dig (digits n @ r) = r"
    using digits_is_dig [OF assms(1)] r by (simp_all add: takeWhile_append dropWhile_append)
qed

lemma digits_cancel:
  assumes "digits m @ r = digits n @ s" "0 \<le> m" "0 \<le> n" "term_next r" "term_next s"
  shows "m = n \<and> r = s"
  using takeWhile_digits [OF assms(2,4)] takeWhile_digits [OF assms(3,5)] assms(1)
    digits_inject [OF _ assms(2,3)] by metis

lemma digits_hd: "0 \<le> n \<Longrightarrow> is_dig (hd (digits n))"
  using digits_is_dig by (metis digits_not_Nil hd_in_set)

lemma int_text_cancel:
  assumes "int_text m @ r = int_text n @ s" "term_next r" "term_next s"
  shows "m = n \<and> r = s"
proof -
  have h: "digits k @ x \<noteq> CHR ''-'' # y" if "0 \<le> k" for k x y
    using digits_hd [OF that] not_is_dig(1) by (metis digits_not_Nil hd_append2 list.sel(1))
  show ?thesis
    using assms digits_cancel [of "- m" r "- n" s] digits_cancel [of m r n s]
      h [of m r "digits (- n) @ s"] h [of n s "digits (- m) @ r"]
    by (auto simp: int_text_def split: if_splits)
qed

lemma int_text_hd: "is_dig (hd (int_text n)) \<or> hd (int_text n) = CHR ''-''"
  by (auto simp: int_text_def digits_hd)

lemma int_text_not_Nil [simp]: "int_text n \<noteq> []"
  by (simp add: int_text_def)

section \<open>Lists\<close>

definition cancels :: "('a \<Rightarrow> bool) \<Rightarrow> ('a \<Rightarrow> string) \<Rightarrow> 'a \<Rightarrow> bool" where
  "cancels P f x \<longleftrightarrow>
     (\<forall>y r s. P y \<longrightarrow> f x @ r = f y @ s \<longrightarrow> term_next r \<longrightarrow> term_next s \<longrightarrow> x = y \<and> r = s)"

lemma commas_cancel:
  assumes "commas (map f xs) @ close # r = commas (map f ys) @ close # s"
    and "\<forall>x \<in> set xs. cancels P f x" and "\<forall>y \<in> set ys. P y" and "close \<in> {CHR '']'', CHR ''}''}"
    and "\<forall>x. f x \<noteq> [] \<and> hd (f x) \<noteq> close"
  shows "xs = ys \<and> r = s"
  using assms
proof (induction xs arbitrary: ys)
  case Nil
  show ?case
  proof (cases ys)
    case (Cons y ys')
    then have "\<exists>z. commas (map f ys) = f y @ z" by (cases ys') auto
    with Nil show ?thesis by (metis append_assoc commas.simps(1) hd_append2 list.sel(1) list.simps(8) append_Nil)
  qed (use Nil in simp)
next
  case (Cons x xs)
  show ?case
  proof (cases ys)
    case Nil
    have "\<exists>z. commas (map f (x # xs)) = f x @ z" by (cases xs) auto
    with Cons.prems Nil show ?thesis
      by (metis append_assoc commas.simps(1) hd_append2 list.sel(1) list.simps(8) append_Nil)
  next
    case ys: (Cons y ys')
    define r' where "r' = (case xs of [] \<Rightarrow> close # r | _ \<Rightarrow> CHR '','' # commas (map f xs) @ close # r)"
    define s' where "s' = (case ys' of [] \<Rightarrow> close # s | _ \<Rightarrow> CHR '','' # commas (map f ys') @ close # s)"
    have "f x @ r' = f y @ s'"
      using Cons.prems(1) unfolding ys r'_def s'_def by (cases xs; cases ys') simp_all
    moreover have "term_next r'" "term_next s'"
      using Cons.prems(4) by (auto simp: term_next_def r'_def s'_def split: list.splits)
    ultimately have xy: "x = y" "r' = s'" using Cons.prems(2,3) by (auto simp: ys cancels_def)
    have "close \<noteq> CHR '',''" using Cons.prems(4) by auto
    with xy(2) have "(xs = [] \<longleftrightarrow> ys' = []) \<and> commas (map f xs) @ close # r = commas (map f ys') @ close # s"
      by (auto simp: r'_def s'_def split: list.splits)
    with Cons.IH [of ys'] Cons.prems(2-5) xy(1) show ?thesis by (simp add: ys)
  qed
qed

section \<open>Values\<close>

text \<open>The form of a value shows in the first character of its text.\<close>

fun form :: "json \<Rightarrow> nat" where
  "form JNull = 0"
| "form (JBool b) = 1"
| "form (JInt n) = 2"
| "form (JStr s) = 3"
| "form (JArr xs) = 4"
| "form (JObj kvs) = 5"

definition form_of :: "char \<Rightarrow> nat" where
  "form_of c =
     (if c = CHR ''n'' then 0 else if c = CHR ''t'' \<or> c = CHR ''f'' then 1
      else if c = CHR 0x22 then 3 else if c = CHR ''['' then 4 else if c = CHR ''{'' then 5 else 2)"

lemma form_of_dig: "is_dig c \<Longrightarrow> form_of c = 2"
  using is_dig_code [of c] by (auto simp: form_of_def)

lemma dumps_not_Nil [simp]: "dumps v \<noteq> []"
  by (cases v) (auto simp: json_string_def)

lemma form_of_hd: "form_of (hd (dumps v)) = form v"
proof (cases v)
  case (JInt n)
  have "form_of CHR ''-'' = 2" by (simp add: form_of_def)
  with JInt show ?thesis using int_text_hd [of n] by (auto simp: form_of_dig)
qed (auto simp: json_string_def form_of_def)

lemma same_form: "dumps v @ r = dumps w @ s \<Longrightarrow> form v = form w"
  by (metis form_of_hd dumps_not_Nil hd_append2)

lemma hd_dumps_open: "hd (dumps v) \<noteq> CHR '']''"
proof
  assume "hd (dumps v) = CHR '']''"
  then show False
  proof (cases v)
    case (JInt n)
    with \<open>hd (dumps v) = CHR '']''\<close> int_text_hd [of n] not_is_dig show False by auto
  qed (auto simp: json_string_def split: if_splits)
qed

definition entry_text :: "string \<times> json \<Rightarrow> string" where
  "entry_text kv = member_text (fst kv, dumps (snd kv))"

lemma dumps_sorted_obj:
  assumes "sorted (map fst kvs)"
  shows "dumps (JObj kvs) = CHR ''{'' # commas (map entry_text kvs) @ ''}''"
proof -
  have "sort_key fst (map (\<lambda>(k, v). (k, dumps v)) kvs) = map (\<lambda>(k, v). (k, dumps v)) kvs"
    using assms by (intro sort_key_id_if_sorted) (simp add: case_prod_beta comp_def)
  then show ?thesis
    by (simp add: entry_text_def [abs_def] case_prod_beta comp_def)
qed

lemma cancels_entry:
  assumes "cancels sorted_json dumps (snd kv)"
  shows "cancels (\<lambda>kv. sorted_json (snd kv)) entry_text kv"
proof -
  have "kv = kw \<and> r = s"
    if "sorted_json (snd kw)" "entry_text kv @ r = entry_text kw @ s" "term_next r" "term_next s" for kw r s
  proof -
    from that(2) have "json_string (fst kv) @ (CHR '':'' # dumps (snd kv) @ r)
        = json_string (fst kw) @ (CHR '':'' # dumps (snd kw) @ s)"
      by (simp add: entry_text_def member_text_def)
    from json_string_cancel [OF this] have "fst kv = fst kw" "dumps (snd kv) @ r = dumps (snd kw) @ s"
      by auto
    moreover from assms this(2) that have "snd kv = snd kw \<and> r = s" by (auto simp: cancels_def)
    ultimately show ?thesis by (simp add: prod_eq_iff)
  qed
  then show ?thesis by (auto simp: cancels_def)
qed

text \<open>The text of a value whose keys are in order determines the value.\<close>

lemma dumps_cancel: "sorted_json v \<Longrightarrow> cancels sorted_json dumps v"
proof (induction v)
  case JNull
  show ?case
    unfolding cancels_def
  proof (intro allI impI)
    fix y r s
    assume eq: "dumps JNull @ r = dumps y @ s"
    from same_form [OF eq] have "y = JNull" by (cases y) auto
    with eq show "JNull = y \<and> r = s" by simp
  qed
next
  case (JBool b)
  show ?case
    unfolding cancels_def
  proof (intro allI impI)
    fix y r s
    assume eq: "dumps (JBool b) @ r = dumps y @ s"
    from same_form [OF eq] obtain b' where "y = JBool b'" by (cases y) auto
    with eq show "JBool b = y \<and> r = s" by (auto split: if_splits)
  qed
next
  case (JInt n)
  show ?case
    unfolding cancels_def
  proof (intro allI impI)
    fix y r s
    assume eq: "dumps (JInt n) @ r = dumps y @ s" and t: "term_next r" "term_next s"
    from same_form [OF eq] obtain m where "y = JInt m" by (cases y) auto
    with eq int_text_cancel [of n r m s] t show "JInt n = y \<and> r = s" by auto
  qed
next
  case (JStr a)
  show ?case
    unfolding cancels_def
  proof (intro allI impI)
    fix y r s
    assume eq: "dumps (JStr a) @ r = dumps y @ s"
    from same_form [OF eq] obtain b where "y = JStr b" by (cases y) auto
    with eq json_string_cancel [of a r b s] show "JStr a = y \<and> r = s" by auto
  qed
next
  case (JArr xs)
  show ?case
    unfolding cancels_def
  proof (intro allI impI)
    fix y r s
    assume eq: "dumps (JArr xs) @ r = dumps y @ s" and y: "sorted_json y"
    from same_form [OF eq] obtain ys where ys: "y = JArr ys" by (cases y) auto
    have "xs = ys \<and> r = s"
    proof (rule commas_cancel [where P = sorted_json])
      show "commas (map dumps xs) @ CHR '']'' # r = commas (map dumps ys) @ CHR '']'' # s"
        using eq by (simp add: ys)
      show "\<forall>x \<in> set xs. cancels sorted_json dumps x"
        using JArr by (simp add: list_all_iff)
      show "\<forall>y \<in> set ys. sorted_json y" using y by (simp add: ys list_all_iff)
      show "\<forall>x. dumps x \<noteq> [] \<and> hd (dumps x) \<noteq> CHR '']''" using hd_dumps_open by simp
    qed simp
    with ys show "JArr xs = y \<and> r = s" by simp
  qed
next
  case (JObj kvs)
  show ?case
    unfolding cancels_def
  proof (intro allI impI)
    fix y r s
    assume eq: "dumps (JObj kvs) @ r = dumps y @ s" and y: "sorted_json y"
    from same_form [OF eq] obtain kws where kws: "y = JObj kws" by (cases y) auto
    have "kvs = kws \<and> r = s"
    proof (rule commas_cancel [where P = "\<lambda>kv. sorted_json (snd kv)"])
      have "sorted (map fst kvs)" "sorted (map fst kws)" using JObj.prems y by (simp_all add: kws)
      then show "commas (map entry_text kvs) @ CHR ''}'' # r = commas (map entry_text kws) @ CHR ''}'' # s"
        using eq by (simp add: kws dumps_sorted_obj del: dumps.simps)
      show "\<forall>x \<in> set kvs. cancels (\<lambda>kv. sorted_json (snd kv)) entry_text x"
        using JObj by (auto intro!: cancels_entry simp: list_all_iff)
      show "\<forall>y \<in> set kws. sorted_json (snd y)"
        using y by (simp add: kws list_all_iff case_prod_beta)
      show "\<forall>x. entry_text x \<noteq> [] \<and> hd (entry_text x) \<noteq> CHR ''}''"
        by (simp add: entry_text_def member_text_def json_string_def)
    qed simp
    with kws show "JObj kvs = y \<and> r = s" by simp
  qed
qed

lemma dumps_inject:
  assumes "dumps v = dumps w" "sorted_json v" "sorted_json w"
  shows "v = w"
  using dumps_cancel [OF assms(2)] assms(1,3)
  unfolding cancels_def by (metis append_Nil2 term_next_def)

end
