(* ===== verification/Sha256.thy ===== *)
theory Sha256
  imports Canonical_Text "HOL-Library.Word"
begin

unbundle bit_operations_syntax

text \<open>
  \<open>hashlib.sha256(text.encode("utf-8")).hexdigest()\<close> of the standard library: the UTF-8
  bytes of a text, the padding and the 64 rounds of SHA-256 on 32-bit words, and the
  digest in hexadecimal. Texts hold characters of code below 256, which UTF-8 writes in
  one or two bytes. Nothing is proved of the function but its range: where tamper
  evidence depends on it, the statement names the collision an undetected change needs.
\<close>

section \<open>Bytes\<close>

definition utf8_char :: "char \<Rightarrow> int list" where
  "utf8_char c =
     (let n = of_char c :: int
      in if n < 128 then [n] else [192 + n div 64, 128 + n mod 64])"

definition utf8 :: "string \<Rightarrow> int list" where
  "utf8 s = concat (map utf8_char s)"

fun big_endian :: "nat \<Rightarrow> int \<Rightarrow> int list" where
  "big_endian 0 n = []"
| "big_endian (Suc k) n = big_endian k (n div 256) @ [n mod 256]"

definition padded :: "int list \<Rightarrow> int list" where
  "padded bs =
     (let n = length bs
      in bs @ 128 # replicate (nat ((55 - int n) mod 64)) 0 @ big_endian 8 (8 * int n))"

fun to_words :: "int list \<Rightarrow> 32 word list" where
  "to_words (a # b # c # d # bs) =
     word_of_int (((a * 256 + b) * 256 + c) * 256 + d) # to_words bs"
| "to_words _ = []"

section \<open>Rounds\<close>

definition rotr :: "nat \<Rightarrow> 32 word \<Rightarrow> 32 word" where
  "rotr n x = (drop_bit n x OR push_bit (32 - n) x)"

text \<open>
  The standard's constants are the first 32 bits of the fractional parts of the cube roots
  of the first 64 primes, and of the square roots of the first 8: the largest \<open>x\<close> with
  \<open>x ^ 3 \<le> p * 2 ^ 96\<close> (or \<open>x ^ 2 \<le> p * 2 ^ 64\<close>), found bit by bit, modulo \<open>2 ^ 32\<close>.
\<close>

fun root_bits :: "nat \<Rightarrow> nat \<Rightarrow> int \<Rightarrow> int \<Rightarrow> int" where
  "root_bits e 0 n acc = acc"
| "root_bits e (Suc k) n acc =
     root_bits e k n (if (acc + 2 ^ k) ^ e \<le> n then acc + 2 ^ k else acc)"

definition first_primes :: "int list" where
  "first_primes = filter (\<lambda>n. list_all (\<lambda>d. n mod d \<noteq> 0) [2..n - 1]) [2..311]"

definition round_constants :: "32 word list" where
  "round_constants = map (\<lambda>p. word_of_int (root_bits 3 38 (p * 2 ^ 96) 0)) first_primes"

definition initial_hash :: "32 word list" where
  "initial_hash = map (\<lambda>p. word_of_int (root_bits 2 38 (p * 2 ^ 64) 0)) (take 8 first_primes)"

definition next_word :: "32 word list \<Rightarrow> 32 word" where
  "next_word ws =
     (let n = length ws; x = ws ! (n - 15); y = ws ! (n - 2)
      in ws ! (n - 16) + (rotr 7 x XOR rotr 18 x XOR drop_bit 3 x)
         + ws ! (n - 7) + (rotr 17 y XOR rotr 19 y XOR drop_bit 10 y))"

fun schedule :: "nat \<Rightarrow> 32 word list \<Rightarrow> 32 word list" where
  "schedule 0 ws = ws"
| "schedule (Suc k) ws = schedule k (ws @ [next_word ws])"

definition sha_round :: "32 word \<times> 32 word \<Rightarrow> 32 word list \<Rightarrow> 32 word list" where
  "sha_round = (\<lambda>(k, w) st.
     (let a = st ! 0; b = st ! 1; c = st ! 2; d = st ! 3;
          e = st ! 4; f = st ! 5; g = st ! 6; h = st ! 7;
          t1 = h + (rotr 6 e XOR rotr 11 e XOR rotr 25 e) + ((e AND f) XOR (NOT e AND g)) + k + w;
          t2 = (rotr 2 a XOR rotr 13 a XOR rotr 22 a) + ((a AND b) XOR (a AND c) XOR (b AND c))
      in [t1 + t2, a, b, c, d + t1, e, f, g]))"

definition compress :: "32 word list \<Rightarrow> 32 word list \<Rightarrow> 32 word list" where
  "compress block st =
     map2 (+) st (fold sha_round (zip round_constants (schedule 48 block)) st)"

fun blocks :: "nat \<Rightarrow> 32 word list \<Rightarrow> 32 word list \<Rightarrow> 32 word list" where
  "blocks 0 ws st = st"
| "blocks (Suc n) ws st = blocks n (drop 16 ws) (compress (take 16 ws) st)"

definition hex_word :: "32 word \<Rightarrow> string" where
  "hex_word w = fixed 16 8 (uint w)"

definition sha256_hex :: "string \<Rightarrow> string" where
  "sha256_hex s =
     (let ws = to_words (padded (utf8 s))
      in concat (map hex_word (blocks (length ws div 16) ws initial_hash)))"

section \<open>The range of the digest\<close>

lemma length_sha_round: "length (sha_round kw st) = 8"
  by (cases kw) (simp add: sha_round_def Let_def)

lemma length_rounds: "length st = 8 \<Longrightarrow> length (fold sha_round kws st) = 8"
  by (induction kws arbitrary: st) (simp_all add: length_sha_round)

lemma length_blocks: "length st = 8 \<Longrightarrow> length (blocks n ws st) = 8"
  by (induction n arbitrary: ws st) (simp_all add: compress_def length_rounds)

lemma take_first_primes: "length (take 8 first_primes) = 8"
proof -
  have split: "[2..311 :: int] = [2..20 - 1] @ [20..311]" by (rule upto_split1) simp_all
  have "length (filter (\<lambda>n :: int. list_all (\<lambda>d. n mod d \<noteq> 0) [2..n - 1]) [2..20 - 1]) = 8"
    by code_simp
  moreover have "length (take 8 (xs @ ys)) = 8" if "length xs = 8" for xs ys :: "int list"
    using that by simp
  ultimately show ?thesis unfolding first_primes_def split filter_append by blast
qed

text \<open>A digest has the 64 characters \<open>audit_events.event_hash\<close> is sized for.\<close>

lemma length_sha256_hex [simp]: "length (sha256_hex s) = 64"
proof -
  have "length (concat (map hex_word ws)) = 8 * length ws" for ws
    by (induction ws) (simp_all add: hex_word_def)
  moreover have "length initial_hash = 8" using take_first_primes by (simp add: initial_hash_def)
  ultimately show ?thesis by (simp add: sha256_hex_def Let_def length_blocks)
qed

end
