(* ===== verification/Audit_Chain_Props.thy ===== *)
theory Audit_Chain_Props
  imports Audit_Chain
begin

text \<open>
  What the audit chain guarantees: canonicalisation is idempotent on what it produces, the
  hashed text determines everything an event says, verification accepts exactly the chains
  that sealing builds and otherwise names the first broken event, and a chain cannot be
  rewritten under the same last hash without a SHA-256 collision.
\<close>

section \<open>The canonical form\<close>

text \<open>A canonical value read back from the JSON column.\<close>

fun embed :: "json \<Rightarrow> pyval" where
  "embed JNull = PNone"
| "embed (JBool b) = PBool b"
| "embed (JInt n) = PInt n"
| "embed (JStr s) = PStr s"
| "embed (JArr xs) = PList (map embed xs)"
| "embed (JObj kvs) = PDict (map (\<lambda>(k, v). (k, embed v)) kvs)"

lemma canonicalise_embed: "sorted_json j \<Longrightarrow> canonicalise (embed j) = Inr j"
proof (induction j)
  case (JArr xs)
  then have "mapE (\<lambda>x. canonicalise (embed x)) xs = Inr (map (\<lambda>x. x) xs)"
    by (intro mapE_Inr) (simp add: list_all_iff)
  then show ?case by (simp add: mapE_map)
next
  case (JObj kvs)
  have "sort_key fst (map (\<lambda>(k, v). (k, embed v)) kvs) = map (\<lambda>(k, v). (k, embed v)) kvs"
    using JObj.prems by (intro sort_key_id_if_sorted) (simp add: case_prod_beta comp_def)
  moreover have "mapE (\<lambda>kv. bindE (canonicalise (embed (snd kv))) (\<lambda>v. Inr (fst kv, v))) kvs
      = Inr (map (\<lambda>kv. kv) kvs)"
    using JObj by (intro mapE_Inr) (auto simp: list_all_iff)
  ultimately show ?case by (simp add: mapE_map case_prod_beta)
qed simp_all

lemma canonical_items:
  assumes "mapE (\<lambda>item. bindE (canonicalise (snd item)) (\<lambda>v. Inr (fst item, v))) items = Inr kvs"
  shows "list_all2 (\<lambda>item kv. fst kv = fst item \<and> canonicalise (snd item) = Inr (snd kv)) items kvs"
  using assms unfolding mapE_eq_Inr by (rule list_all2_mono) (auto simp: bindE_eq_Inr)

lemma list_all2_keys: "list_all2 (\<lambda>x y. fst y = fst x \<and> R x y) xs ys \<Longrightarrow> map fst ys = map fst xs"
  by (induction rule: list_all2_induct) simp_all

lemma list_all2_source: "list_all2 R xs ys \<Longrightarrow> y \<in> set ys \<Longrightarrow> \<exists>x \<in> set xs. R x y"
  by (metis in_set_conv_nth list_all2_conv_all_nth)

lemma canonicalise_sorted: "canonicalise v = Inr j \<Longrightarrow> sorted_json j"
proof (induction v arbitrary: j rule: canonicalise.induct)
  case (11 items)
  then obtain kvs where kvs: "j = JObj kvs"
    "mapE (\<lambda>item. bindE (canonicalise (snd item)) (\<lambda>v. Inr (fst item, v))) (sort_key fst items) = Inr kvs"
    by (auto simp: bindE_eq_Inr)
  note items = canonical_items [OF kvs(2)]
  have "sorted (map fst kvs)" using list_all2_keys [OF items] by simp
  moreover have "sorted_json (snd kv)" if kv: "kv \<in> set kvs" for kv
  proof -
    from list_all2_source [OF items kv] obtain item
      where "item \<in> set (sort_key fst items)" "canonicalise (snd item) = Inr (snd kv)" by blast
    with "11.IH" show ?thesis by blast
  qed
  ultimately show ?case by (auto simp: kvs(1) list_all_iff)
next
  case (12 xs)
  then obtain ys where ys: "j = JArr ys" "list_all2 (\<lambda>x y. canonicalise x = Inr y) xs ys"
    by (auto simp: bindE_eq_Inr mapE_eq_Inr)
  have "sorted_json y" if "y \<in> set ys" for y
    using list_all2_source [OF ys(2) that] "12.IH" by blast
  then show ?case by (simp add: ys(1) list_all_iff)
qed (auto split: if_splits)

lemma canonicalise_idem: "canonicalise v = Inr j \<Longrightarrow> canonicalise (embed j) = Inr j"
  by (rule canonicalise_embed [OF canonicalise_sorted])

lemma canonicalise_dict_perm:
  assumes "mset xs = mset ys" "distinct (map fst ys)"
  shows "canonicalise (PDict xs) = canonicalise (PDict ys)"
proof -
  have "inj_on fst (set xs)" using assms by (metis distinct_map mset_eq_setD)
  from sort_key_mset_eq [OF assms(1) this] show ?thesis by simp
qed

section \<open>The hashed text\<close>

definition payload_json :: "audit_event \<Rightarrow> (string \<times> json) list result" where
  "payload_json ev = canonical_payload (PDict (with_payload_version ev))"

definition material_json ::
  "audit_event \<Rightarrow> string option \<Rightarrow> (string \<times> json) list \<Rightarrow> json" where
  "material_json ev previous_hash payload =
     JObj
       [(''actor_user_id'', case ae_actor_user_id ev of None \<Rightarrow> JNull | Some u \<Rightarrow> JStr (uuid_text u)),
        (''entity_id'', JStr (uuid_text (ae_entity_id ev))),
        (''entity_type'', JStr (audit_entity_value (ae_entity_type ev))),
        (''event_id'', JStr (uuid_text (ae_event_id ev))),
        (''event_time'', JStr (iso_text (ae_event_time ev))),
        (''event_type'', JStr (audit_event_value (ae_event_type ev))),
        (''payload'', JObj payload),
        (''previous_hash'', case previous_hash of None \<Rightarrow> JNull | Some h \<Rightarrow> JStr h),
        (''recorded_at'', JStr (iso_text (ae_recorded_at ev)))]"

lemma sorted_material:
  "sort_key fst
     [(''event_id'', a :: pyval), (''event_type'', b), (''entity_type'', c), (''entity_id'', d),
      (''event_time'', e), (''recorded_at'', f), (''actor_user_id'', g), (''payload'', h),
      (''previous_hash'', i)] =
   [(''actor_user_id'', g), (''entity_id'', d), (''entity_type'', c), (''event_id'', a),
    (''event_time'', e), (''event_type'', b), (''payload'', h), (''previous_hash'', i),
    (''recorded_at'', f)]"
  by code_simp

lemma canonicalise_optional [simp]:
  "canonicalise (optional PUuid u) = Inr (case u of None \<Rightarrow> JNull | Some w \<Rightarrow> JStr (uuid_text w))"
  "canonicalise (optional PStr s) = Inr (case s of None \<Rightarrow> JNull | Some t \<Rightarrow> JStr t)"
  by (cases u; simp add: optional_def) (cases s; simp add: optional_def)

lemma canonical_payload_dict:
  "canonical_payload (PDict items) = Inr kvs \<longleftrightarrow> canonicalise (PDict items) = Inr (JObj kvs)"
  by (auto simp: canonical_payload_def bindE_eq_Inr)

lemma canonicalise_material:
  "canonicalise (event_material ev p) = Inr j \<longleftrightarrow>
   datetime_ok (ae_event_time ev) \<and> datetime_ok (ae_recorded_at ev)
   \<and> (\<exists>payload. payload_json ev = Inr payload \<and> j = material_json ev p payload)"
  unfolding payload_json_def canonical_payload_dict event_material_def material_json_def
  by (auto simp: bindE_eq_Inr sorted_material split: if_splits)

lemma fingerprint_eq:
  "event_fingerprint ev p = Inr h \<longleftrightarrow>
   datetime_ok (ae_event_time ev) \<and> datetime_ok (ae_recorded_at ev)
   \<and> (\<exists>payload. payload_json ev = Inr payload \<and> h = sha256_hex (dumps (material_json ev p payload)))"
  by (auto simp: event_fingerprint_def canonical_json_def bindE_eq_Inr canonicalise_material)

lemma material_sorted:
  "canonicalise (event_material ev p) = Inr j \<Longrightarrow> sorted_json j"
  by (rule canonicalise_sorted)

text \<open>Two events that say the same: every field, and the payload up to its canonical form.\<close>

definition same_content :: "audit_event \<Rightarrow> audit_event \<Rightarrow> bool" where
  "same_content a b \<longleftrightarrow>
     a\<lparr>ae_payload := []\<rparr> = b\<lparr>ae_payload := []\<rparr> \<and> payload_json a = payload_json b"

definition event_uuids_ok :: "audit_event \<Rightarrow> bool" where
  "event_uuids_ok ev \<longleftrightarrow>
     uuid_ok (ae_event_id ev) \<and> uuid_ok (ae_entity_id ev) \<and> pred_option uuid_ok (ae_actor_user_id ev)"

lemma audit_entity_value_inject: "audit_entity_value a = audit_entity_value b \<longleftrightarrow> a = b"
  by (cases a; cases b) simp_all

lemma material_inject:
  assumes "material_json a p pa = material_json b q pb" "event_uuids_ok a" "event_uuids_ok b"
    and "datetime_ok (ae_event_time a)" "datetime_ok (ae_recorded_at a)"
    and "datetime_ok (ae_event_time b)" "datetime_ok (ae_recorded_at b)"
  shows "a\<lparr>ae_payload := []\<rparr> = b\<lparr>ae_payload := []\<rparr>" "pa = pb" "p = q"
proof -
  have "ae_actor_user_id a = ae_actor_user_id b"
    using assms(1-3)
    by (auto simp: material_json_def event_uuids_ok_def uuid_text_inject split: option.splits)
  moreover have "ae_event_time a = ae_event_time b" "ae_recorded_at a = ae_recorded_at b"
    using assms(1,4-7) by (auto simp: material_json_def intro: iso_text_inject)
  moreover have "ae_event_id a = ae_event_id b" "ae_entity_id a = ae_entity_id b"
    using assms(1-3) by (auto simp: material_json_def event_uuids_ok_def intro: uuid_text_inject)
  moreover have "ae_event_type a = ae_event_type b" "ae_entity_type a = ae_entity_type b"
    using assms(1) by (auto simp: material_json_def audit_event_value_inject audit_entity_value_inject)
  ultimately show "a\<lparr>ae_payload := []\<rparr> = b\<lparr>ae_payload := []\<rparr>" by simp
  show "pa = pb" "p = q" using assms(1) by (auto simp: material_json_def split: option.splits)
qed

text \<open>Two recorded events whose different hashed texts have the same digest.\<close>

definition hashed_text :: "sealed_audit_event \<Rightarrow> string result" where
  "hashed_text sealed = canonical_json (event_material (se_event sealed) (se_previous_hash sealed))"

definition collide :: "sealed_audit_event \<Rightarrow> sealed_audit_event \<Rightarrow> bool" where
  "collide a b \<longleftrightarrow>
     (case (hashed_text a, hashed_text b) of
        (Inr s, Inr t) \<Rightarrow> s \<noteq> t \<and> sha256_hex s = sha256_hex t
      | _ \<Rightarrow> False)"

lemma same_fingerprint:
  assumes "event_fingerprint (se_event a) (se_previous_hash a) = Inr h"
    and "event_fingerprint (se_event b) (se_previous_hash b) = Inr h"
    and "event_uuids_ok (se_event a)" "event_uuids_ok (se_event b)" "\<not> collide a b"
  shows "se_previous_hash a = se_previous_hash b \<and> same_content (se_event a) (se_event b)"
proof -
  from assms(1) obtain pa where a: "datetime_ok (ae_event_time (se_event a))"
      "datetime_ok (ae_recorded_at (se_event a))" "payload_json (se_event a) = Inr pa"
      "h = sha256_hex (dumps (material_json (se_event a) (se_previous_hash a) pa))"
    by (auto simp: fingerprint_eq)
  from assms(2) obtain pb where b: "datetime_ok (ae_event_time (se_event b))"
      "datetime_ok (ae_recorded_at (se_event b))" "payload_json (se_event b) = Inr pb"
      "h = sha256_hex (dumps (material_json (se_event b) (se_previous_hash b) pb))"
    by (auto simp: fingerprint_eq)
  have ca: "canonicalise (event_material (se_event a) (se_previous_hash a))
      = Inr (material_json (se_event a) (se_previous_hash a) pa)"
    and cb: "canonicalise (event_material (se_event b) (se_previous_hash b))
      = Inr (material_json (se_event b) (se_previous_hash b) pb)"
    using a b by (auto simp: canonicalise_material)
  have "dumps (material_json (se_event a) (se_previous_hash a) pa)
      = dumps (material_json (se_event b) (se_previous_hash b) pb)"
    using assms(5) a(4) b(4) by (auto simp: collide_def hashed_text_def canonical_json_def ca cb)
  then have "material_json (se_event a) (se_previous_hash a) pa
      = material_json (se_event b) (se_previous_hash b) pb"
    using material_sorted [OF ca] material_sorted [OF cb] by (rule dumps_inject)
  from material_inject [OF this assms(3,4) a(1,2) b(1,2)] a(3) b(3) show ?thesis
    by (simp add: same_content_def)
qed

section \<open>Chains\<close>

text \<open>A chain that starts after \<open>p\<close>: every event is linked to its predecessor and hashed right.\<close>

fun linked :: "string option \<Rightarrow> sealed_audit_event list \<Rightarrow> bool" where
  "linked p [] \<longleftrightarrow> True"
| "linked p (s # ss) \<longleftrightarrow>
     se_previous_hash s = p \<and> event_fingerprint (se_event s) p = Inr (se_event_hash s)
     \<and> linked (Some (se_event_hash s)) ss"

definition head_hash :: "string option \<Rightarrow> sealed_audit_event list \<Rightarrow> string option" where
  "head_hash p ss = (if ss = [] then p else Some (se_event_hash (last ss)))"

definition verified :: "sealed_audit_event list \<Rightarrow> bool" where
  "verified ss \<longleftrightarrow> (case verify_chain ss of Inl _ \<Rightarrow> False | Inr v \<Rightarrow> cv_intact v)"

lemma linked_append:
  "linked p (xs @ ys) \<longleftrightarrow> linked p xs \<and> linked (head_hash p xs) ys"
  by (induction xs arbitrary: p) (auto simp: head_hash_def)

lemma head_hash_append [simp]: "head_hash p (xs @ [y]) = Some (se_event_hash y)"
  by (simp add: head_hash_def)

lemma no_problems:
  "event_problems first p h s = [] \<longleftrightarrow>
   se_event_hash s = h \<and> se_previous_hash s = p \<and> (first \<longrightarrow> se_previous_hash s = None)"
  by (simp add: event_problems_def Let_def)

definition intact_after :: "nat \<Rightarrow> chain_verification" where
  "intact_after n = \<lparr>cv_intact = True, cv_events_checked = n, cv_broken_at = None, cv_problems = []\<rparr>"

lemma walk_linked:
  assumes "linked p ss" "k = 0 \<Longrightarrow> p = None"
  shows "walk k p (ss @ rest) = walk (k + length ss) (head_hash p ss) rest"
  using assms
proof (induction ss arbitrary: k p)
  case (Cons s ss)
  have "head_hash p (s # ss) = head_hash (Some (se_event_hash s)) ss" by (simp add: head_hash_def)
  with Cons.IH [of "Some (se_event_hash s)" "Suc k"] Cons.prems show ?case
    by (auto simp: event_problems_def)
qed (simp add: head_hash_def)

lemma walk_intact_linked:
  assumes "walk k p ss = Inr v" "cv_intact v"
  shows "linked p ss"
  using assms
proof (induction ss arbitrary: k p)
  case (Cons s ss)
  from Cons.prems(1) obtain h where h: "event_fingerprint (se_event s) (se_previous_hash s) = Inr h"
    by (auto simp: bindE_eq_Inr)
  show ?case
  proof (cases "event_problems (k = 0) p h s = []")
    case True
    then have e: "se_event_hash s = h" "se_previous_hash s = p" by (simp_all add: no_problems)
    have "linked (Some (se_event_hash s)) ss"
      using Cons.IH [of "Suc k" "Some (se_event_hash s)"] Cons.prems h True by simp
    with e h show ?thesis by simp
  next
    case False
    with Cons.prems h show ?thesis by (auto simp: Let_def)
  qed
qed simp

lemma verify_linked: "linked None ss \<Longrightarrow> verify_chain ss = Inr (intact_after (length ss))"
  using walk_linked [of None ss 0 "[]"] by (simp add: verify_chain_def intact_after_def)

lemma verified_iff: "verified ss \<longleftrightarrow> linked None ss"
proof
  assume "verified ss"
  then obtain v where "verify_chain ss = Inr v" "cv_intact v"
    by (auto simp: verified_def split: sum.splits)
  then show "linked None ss" unfolding verify_chain_def by (rule walk_intact_linked)
next
  assume "linked None ss"
  then show "verified ss" by (simp add: verified_def verify_linked intact_after_def)
qed

lemma verify_broken:
  assumes "linked None good"
    and "event_fingerprint (se_event bad) (se_previous_hash bad) = Inr h"
    and "\<not> linked (head_hash None good) [bad]"
  obtains ps where "ps \<noteq> []" and "verify_chain (good @ bad # rest) =
    Inr \<lparr>cv_intact = False, cv_events_checked = length good,
         cv_broken_at = Some (ae_event_id (se_event bad)), cv_problems = ps\<rparr>"
proof -
  let ?ps = "event_problems (good = []) (head_hash None good) h bad"
  have ne: "?ps \<noteq> []" using assms(2,3) by (auto simp: no_problems)
  have "walk 0 None (good @ bad # rest) = walk (length good) (head_hash None good) (bad # rest)"
    using walk_linked [OF assms(1), of 0] by simp
  with ne assms(2) have "verify_chain (good @ bad # rest) =
    Inr \<lparr>cv_intact = False, cv_events_checked = length good,
         cv_broken_at = Some (ae_event_id (se_event bad)), cv_problems = ?ps\<rparr>"
    by (simp add: verify_chain_def)
  with ne that show thesis by blast
qed

text \<open>Sealing a list of events, each after the one before it.\<close>

fun seal_all :: "string option \<Rightarrow> audit_event list \<Rightarrow> sealed_audit_event list result" where
  "seal_all p [] = Inr []"
| "seal_all p (ev # evs) =
     bindE (seal ev p) (\<lambda>s. bindE (seal_all (Some (se_event_hash s)) evs) (\<lambda>ss. Inr (s # ss)))"

lemma seal_eq:
  "seal ev p = Inr s \<longleftrightarrow>
   se_event s = ev \<and> se_previous_hash s = p \<and> event_fingerprint ev p = Inr (se_event_hash s)"
  by (cases s) (auto simp: seal_def bindE_eq_Inr)

lemma seal_all_iff: "seal_all p evs = Inr ss \<longleftrightarrow> map se_event ss = evs \<and> linked p ss"
proof (induction evs arbitrary: p ss)
  case (Cons ev evs)
  show ?case by (cases ss) (auto simp: bindE_eq_Inr Cons.IH seal_eq)
qed auto

section \<open>Rewriting a chain\<close>

definition same_record :: "sealed_audit_event \<Rightarrow> sealed_audit_event \<Rightarrow> bool" where
  "same_record a b \<longleftrightarrow>
     se_previous_hash a = se_previous_hash b \<and> se_event_hash a = se_event_hash b
     \<and> same_content (se_event a) (se_event b)"

lemma linked_same_head:
  assumes "linked None c" "linked None d" "head_hash None c = head_hash None d"
    and "\<forall>s \<in> set c \<union> set d. event_uuids_ok (se_event s)"
    and "\<forall>a \<in> set c. \<forall>b \<in> set d. \<not> collide a b"
  shows "list_all2 same_record c d"
  using assms
proof (induction c arbitrary: d rule: rev_induct)
  case Nil
  then show ?case by (simp add: head_hash_def split: if_splits)
next
  case (snoc x xs)
  from snoc.prems(3) obtain ys y where d: "d = ys @ [y]"
    by (cases d rule: rev_cases) (simp_all add: head_hash_def)
  have x: "linked None xs" "se_previous_hash x = head_hash None xs"
    "event_fingerprint (se_event x) (se_previous_hash x) = Inr (se_event_hash x)"
    using snoc.prems(1) by (simp_all add: linked_append)
  have y: "linked None ys" "se_previous_hash y = head_hash None ys"
    "event_fingerprint (se_event y) (se_previous_hash y) = Inr (se_event_hash y)"
    using snoc.prems(2) by (simp_all add: d linked_append)
  have h: "se_event_hash x = se_event_hash y" using snoc.prems(3) by (simp add: d)
  have s: "se_previous_hash x = se_previous_hash y \<and> same_content (se_event x) (se_event y)"
    using snoc.prems(4,5) x(3) y(3) h by (intro same_fingerprint) (simp_all add: d)
  have "list_all2 same_record xs ys"
    using snoc.prems(4,5) s x y by (intro snoc.IH) (simp_all add: d)
  moreover have "same_record x y" using s h by (simp add: same_record_def)
  ultimately show ?case by (simp add: d list_all2_appendI)
qed

section \<open>The chain's properties\<close>

definition demo_event :: "nat \<Rightarrow> int \<Rightarrow> audit_event" where
  "demo_event i t =
     \<lparr>ae_event_id = i, ae_event_type = TRADE_PROPOSED, ae_entity_type = subject TRADE_PROPOSED,
      ae_entity_id = 7, ae_event_time = 0, ae_recorded_at = t, ae_actor_user_id = None,
      ae_payload = [(''trade_id'', PUuid 7), (''quantity_kwh'', PDecimal (Dec 250 (- 2))),
                    (''reason'', PNone)]\<rparr>"

definition demo_payload :: "(string \<times> json) list" where
  "demo_payload =
     [(''payload_version'', JStr ''1.0.0''), (''quantity_kwh'', JStr ''2.50''), (''reason'', JNull),
      (''trade_id'', JStr ''00000000-0000-0000-0000-000000000007'')]"

lemma demo_payload_json: "payload_json (demo_event i t) = Inr demo_payload"
proof -
  have "with_payload_version (demo_event i t) =
      [(''payload_version'', PStr ''1.0.0''), (''trade_id'', PUuid 7),
       (''quantity_kwh'', PDecimal (Dec 250 (- 2))), (''reason'', PNone)]"
    by (simp add: demo_event_def with_payload_version_def PAYLOAD_VERSION_KEY_def PAYLOAD_VERSION_def)
  moreover have "canonical_payload (PDict
      [(''payload_version'', PStr ''1.0.0''), (''trade_id'', PUuid 7),
       (''quantity_kwh'', PDecimal (Dec 250 (- 2))), (''reason'', PNone)]) = Inr demo_payload"
    by code_simp
  ultimately show ?thesis by (simp add: payload_json_def)
qed

lemma demo_event_ok: "event_uuids_ok (demo_event 3 t)" "event_uuids_ok (demo_event 2 t)"
  by (simp_all add: demo_event_def event_uuids_ok_def uuid_ok_def)

lemma demo_fingerprint: "0 \<le> t \<Longrightarrow> t < 10 \<Longrightarrow> \<exists>h. event_fingerprint (demo_event i t) p = Inr h"
proof -
  assume "0 \<le> t" "t < 10"
  then have "datetime_ok (ae_event_time (demo_event i t))" "datetime_ok (ae_recorded_at (demo_event i t))"
    by (simp_all add: demo_event_def datetime_ok_def)
  then have "event_fingerprint (demo_event i t) p
      = Inr (sha256_hex (dumps (material_json (demo_event i t) p demo_payload)))"
    by (simp add: fingerprint_eq demo_payload_json)
  then show ?thesis by blast
qed

text \<open>Two events sealed one after the other.\<close>

lemma demo_chain:
  obtains a b where "seal_all None [demo_event 3 0, demo_event 2 5] = Inr [a, b]"
    "se_event a = demo_event 3 0" "se_event b = demo_event 2 5" "linked None [a, b]"
proof -
  obtain g where g: "event_fingerprint (demo_event 3 0) None = Inr g"
    using demo_fingerprint [of 0 3 None] by auto
  obtain h where h: "event_fingerprint (demo_event 2 5) (Some g) = Inr h"
    using demo_fingerprint [of 5 2 "Some g"] by auto
  have s: "seal_all None [demo_event 3 0, demo_event 2 5] =
      Inr [\<lparr>se_event = demo_event 3 0, se_previous_hash = None, se_event_hash = g\<rparr>,
           \<lparr>se_event = demo_event 2 5, se_previous_hash = Some g, se_event_hash = h\<rparr>]"
    by (simp add: seal_def g h)
  from s [unfolded seal_all_iff] that [OF s] show thesis by simp
qed

text \<open>The canonical form is a fixed point: a payload reduced for storage and read back
  reduces to itself, so re-hashing the stored form reproduces the hashed text.\<close>

theorem canonical_payload_roundtrip:
  assumes "canonical_payload value = Inr kvs"
  shows "canonical_payload (embed (JObj kvs)) = Inr kvs
    \<and> canonical_json (embed (JObj kvs)) = canonical_json value"
proof -
  from assms obtain v where v: "canonicalise value = Inr v"
    "(case v of JObj kvs \<Rightarrow> Inr kvs | _ \<Rightarrow> Inl PyTypeError) = Inr kvs"
    by (auto simp: canonical_payload_def bindE_eq_Inr)
  from v(2) have "v = JObj kvs" by (cases v) simp_all
  with v(1) have j: "canonicalise value = Inr (JObj kvs)" by simp
  from canonicalise_idem [OF j] j show ?thesis
    unfolding canonical_payload_def canonical_json_def by (simp del: canonicalise.simps embed.simps)
qed

lemma canonical_payload_roundtrip_witness:
  "canonical_payload (PDict (with_payload_version (demo_event 3 0))) = Inr demo_payload
   \<and> canonical_payload (embed (JObj demo_payload)) = Inr demo_payload"
  using demo_payload_json [of 3 0]
    canonical_payload_roundtrip [of "PDict (with_payload_version (demo_event 3 0))" demo_payload]
  unfolding payload_json_def by blast

text \<open>C22. Verification accepts exactly the chains that sealing builds: a chain is reported
  intact if and only if sealing its events, each on the hash of the one before it from no
  predecessor, returns that very chain; and then every event is counted.\<close>

theorem verify_accepts_exactly_sealed:
  "((\<exists>v. verify_chain ss = Inr v \<and> cv_intact v) \<longleftrightarrow> seal_all None (map se_event ss) = Inr ss)
   \<and> (verify_chain ss = Inr \<lparr>cv_intact = True, cv_events_checked = length ss, cv_broken_at = None,
        cv_problems = []\<rparr> \<longleftrightarrow> seal_all None (map se_event ss) = Inr ss)"
proof -
  have "(\<exists>v. verify_chain ss = Inr v \<and> cv_intact v) \<longleftrightarrow> linked None ss"
    using verified_iff [of ss] by (auto simp: verified_def split: sum.splits)
  then show ?thesis using verify_linked [of ss] by (auto simp: seal_all_iff intact_after_def)
qed

text \<open>The first break is named: when a chain continues a sealed prefix with an event that
  is not what sealing it there gives (its content, its hash or its link was changed), the walk
  stops at that event, reports its id and counts the events before it, whatever follows.\<close>

theorem verify_names_first_break:
  assumes "seal_all None (map se_event good) = Inr good"
    and "returns (event_fingerprint (se_event bad) (se_previous_hash bad))"
    and "seal (se_event bad) (if good = [] then None else Some (se_event_hash (last good))) \<noteq> Inr bad"
  shows "\<exists>problems. problems \<noteq> [] \<and> verify_chain (good @ bad # rest) =
    Inr \<lparr>cv_intact = False, cv_events_checked = length good,
         cv_broken_at = Some (ae_event_id (se_event bad)), cv_problems = problems\<rparr>"
proof -
  from assms(2) obtain h where h: "event_fingerprint (se_event bad) (se_previous_hash bad) = Inr h"
    by (auto simp: returns_iff)
  have "linked None good" using assms(1) by (simp add: seal_all_iff)
  moreover have "\<not> linked (head_hash None good) [bad]" using assms(3) by (simp add: head_hash_def seal_eq)
  ultimately show ?thesis using verify_broken [OF _ h] by metis
qed

text \<open>The demo chain with a predecessor written into its first event.\<close>

lemma verify_names_first_break_witness:
  "\<exists>a b problems. seal_all None [demo_event 3 0, demo_event 2 5] = Inr [a, b]
     \<and> verify_chain [a\<lparr>se_previous_hash := Some []\<rparr>, b] =
       Inr \<lparr>cv_intact = False, cv_events_checked = 0, cv_broken_at = Some 3, cv_problems = problems\<rparr>"
proof -
  obtain a b where ab: "seal_all None [demo_event 3 0, demo_event 2 5] = Inr [a, b]"
    "se_event a = demo_event 3 0" by (rule demo_chain)
  obtain h where "event_fingerprint (demo_event 3 0) (Some []) = Inr h"
    using demo_fingerprint [of 0 3 "Some []"] by auto
  with verify_names_first_break [of "[]" "a\<lparr>se_previous_hash := Some []\<rparr>" "[b]"] ab show ?thesis
    by (auto simp: seal_eq demo_event_def)
qed

text \<open>C21. Tampering is evident: two chains that verification accepts and whose last events
  carry the same hash record the same events in the same places - every id, type, entity,
  both timestamps, actor, link and hash, and the payload up to its canonical form - unless two
  different hashed texts among them have one SHA-256 digest. Hence no event of a chain can be
  edited, removed, inserted or reordered while its head hash stays.\<close>

theorem tampering_is_evident:
  assumes "\<exists>v. verify_chain c = Inr v \<and> cv_intact v" and "\<exists>v. verify_chain d = Inr v \<and> cv_intact v"
    and "map se_event_hash (take 1 (rev c)) = map se_event_hash (take 1 (rev d))"
    and "list_all (\<lambda>s. event_uuids_ok (se_event s)) (c @ d)"
  shows "list_all2 same_record c d \<or> (\<exists>a \<in> set c. \<exists>b \<in> set d. collide a b)"
proof -
  have "linked None c" "linked None d"
    using assms(1,2) verified_iff [of c] verified_iff [of d] by (auto simp: verified_def)
  moreover have "head_hash None c = head_hash None d"
    using assms(3) by (cases c rule: rev_cases; cases d rule: rev_cases) (auto simp: head_hash_def)
  ultimately show ?thesis using linked_same_head [of c d] assms(4) by (auto simp: list_all_iff)
qed

lemma tampering_is_evident_witness:
  "\<exists>c. length c = 2 \<and> (\<exists>v. verify_chain c = Inr v \<and> cv_intact v)
     \<and> (list_all2 same_record c c \<or> (\<exists>a \<in> set c. \<exists>b \<in> set c. collide a b))"
proof -
  obtain a b where ab: "se_event a = demo_event 3 0" "se_event b = demo_event 2 5" "linked None [a, b]"
    by (rule demo_chain)
  have v: "\<exists>v. verify_chain [a, b] = Inr v \<and> cv_intact v"
    using verify_linked [OF ab(3)] by (simp add: intact_after_def)
  show ?thesis
    using tampering_is_evident [OF v v] demo_event_ok ab v by (intro exI [of _ "[a, b]"]) simp
qed

end
