(* ===== verification/Audit_Log.thy ===== *)
theory Audit_Log
  imports Audit_Chain_Props
begin

text \<open>
  The audit log: the rows of \<open>audit_events\<close> with the table's constraints
  (\<open>db/models/audit.py\<close>), the repository's queries (\<open>repositories/audit.py\<close>) and the
  service that appends, verifies and anchors (\<open>services/audit_service.py\<close>). The table is
  the list of its rows in insertion order; what the database refuses is an
  \<open>IntegrityError\<close> with the constraint's name. A session's reads see its own writes.
\<close>

section \<open>The table\<close>

record audit_row =
  ar_id :: uuid
  ar_event_type :: audit_event_type
  ar_entity_type :: audit_entity_type
  ar_entity_id :: uuid
  ar_event_time :: datetime
  ar_recorded_at :: datetime
  ar_actor_user_id :: "uuid option"
  ar_payload_json :: "(string \<times> json) list"
  ar_event_hash :: string
  ar_previous_hash :: "string option"
  ar_ledger_anchor_id :: "string option"

type_synonym audit_log = "audit_row list"

text \<open>The constraints on one row, then those against the rows the table holds.\<close>

definition row_checks :: "uuid set \<Rightarrow> audit_row \<Rightarrow> unit result" where
  "row_checks users row =
     bindE (guardE (length (ar_event_hash row) = 64) (IntegrityError ''ck_audit_events_event_hash_is_sha256'')) (\<lambda>_.
     bindE (guardE (pred_option (\<lambda>h. length h = 64) (ar_previous_hash row))
              (IntegrityError ''ck_audit_events_previous_hash_is_sha256'')) (\<lambda>_.
     bindE (guardE (ar_previous_hash row \<noteq> Some (ar_event_hash row))
              (IntegrityError ''ck_audit_events_event_does_not_follow_itself'')) (\<lambda>_.
     guardE (pred_option (\<lambda>u. u \<in> users) (ar_actor_user_id row))
            (IntegrityError ''fk_audit_events_actor_user_id_users''))))"

definition insert_row :: "uuid set \<Rightarrow> audit_log \<Rightarrow> audit_row \<Rightarrow> audit_log result" where
  "insert_row users tbl row =
     bindE (row_checks users row) (\<lambda>_.
     bindE (guardE (ar_id row \<notin> set (map ar_id tbl)) (IntegrityError ''pk_audit_events'')) (\<lambda>_.
     bindE (guardE (ar_event_hash row \<notin> set (map ar_event_hash tbl))
              (IntegrityError ''uq_audit_events_event_hash'')) (\<lambda>_.
     bindE (guardE (ar_previous_hash row \<notin> set (map ar_previous_hash tbl))
              (IntegrityError ''uq_audit_events_previous_hash'')) (\<lambda>_.
     Inr (tbl @ [row])))))"

section \<open>Queries\<close>

definition recorded_key :: "audit_row \<Rightarrow> datetime \<times> uuid" where
  "recorded_key row = (ar_recorded_at row, ar_id row)"

definition list_chain :: "nat option \<Rightarrow> audit_log \<Rightarrow> audit_row list" where
  "list_chain limit tbl =
     (let rows = sort_key recorded_key tbl
      in (case limit of None \<Rightarrow> rows | Some n \<Rightarrow> take n rows))"

definition latest :: "audit_log \<Rightarrow> audit_row option" where
  "latest tbl = (case rev (sort_key recorded_key tbl) of [] \<Rightarrow> None | row # _ \<Rightarrow> Some row)"

definition get_row :: "audit_log \<Rightarrow> uuid \<Rightarrow> audit_row option" where
  "get_row tbl event_id = List.find (\<lambda>row. ar_id row = event_id) tbl"

definition list_for_entity :: "audit_log \<Rightarrow> audit_entity_type \<Rightarrow> uuid \<Rightarrow> audit_row list" where
  "list_for_entity tbl entity_type entity_id =
     sort_key recorded_key
       (filter (\<lambda>row. ar_entity_type row = entity_type \<and> ar_entity_id row = entity_id) tbl)"

definition unanchored :: "audit_log \<Rightarrow> nat \<Rightarrow> audit_row list" where
  "unanchored tbl limit =
     take limit (sort_key ar_recorded_at (filter (\<lambda>row. ar_ledger_anchor_id row = None) tbl))"

section \<open>Appending\<close>

definition new_row :: "audit_log \<Rightarrow> audit_event \<Rightarrow> audit_row result" where
  "new_row tbl ev =
     bindE (seal ev (map_option ar_event_hash (latest tbl))) (\<lambda>sealed.
     bindE (canonical_payload (PDict (with_payload_version ev))) (\<lambda>payload.
     Inr \<lparr>ar_id = ae_event_id ev, ar_event_type = ae_event_type ev,
          ar_entity_type = ae_entity_type ev, ar_entity_id = ae_entity_id ev,
          ar_event_time = ae_event_time ev, ar_recorded_at = ae_recorded_at ev,
          ar_actor_user_id = ae_actor_user_id ev, ar_payload_json = payload,
          ar_event_hash = se_event_hash sealed, ar_previous_hash = se_previous_hash sealed,
          ar_ledger_anchor_id = None\<rparr>))"

definition audit_record :: "uuid set \<Rightarrow> audit_event \<Rightarrow> audit_log \<Rightarrow> audit_log result" where
  "audit_record users ev tbl = bindE (new_row tbl ev) (insert_row users tbl)"

definition rehydrate :: "audit_row \<Rightarrow> sealed_audit_event" where
  "rehydrate row =
     \<lparr>se_event = \<lparr>ae_event_id = ar_id row, ae_event_type = ar_event_type row,
        ae_entity_type = ar_entity_type row, ae_entity_id = ar_entity_id row,
        ae_event_time = ar_event_time row, ae_recorded_at = ar_recorded_at row,
        ae_actor_user_id = ar_actor_user_id row,
        ae_payload = map (\<lambda>(k, v). (k, embed v)) (ar_payload_json row)\<rparr>,
      se_previous_hash = ar_previous_hash row, se_event_hash = ar_event_hash row\<rparr>"

definition audit_verify :: "audit_log \<Rightarrow> nat option \<Rightarrow> chain_verification result" where
  "audit_verify tbl limit = verify_chain (map rehydrate (list_chain limit tbl))"

section \<open>Anchoring\<close>

text \<open>
  A publisher returns its reference or raises; the column holds 200 characters. The
  reference is all the service keeps of a \<open>LedgerAnchor\<close>.
\<close>

type_synonym publisher = "sealed_audit_event \<Rightarrow> string result"

definition local_publish :: publisher where
  "local_publish sealed = Inr (''local:'' @ take 32 (se_event_hash sealed))"

definition anchor_event :: "publisher \<Rightarrow> audit_log \<Rightarrow> uuid \<Rightarrow> audit_log result" where
  "anchor_event publish tbl event_id =
     (case get_row tbl event_id of
        None \<Rightarrow> Inl (NotFoundError ''AUDIT_EVENT_NOT_FOUND'')
      | Some row \<Rightarrow>
          bindE (guardE (ar_ledger_anchor_id row = None) AuditError) (\<lambda>_.
          bindE (publish (rehydrate row)) (\<lambda>reference.
          bindE (guardE (length reference \<le> 200) DataError) (\<lambda>_.
          Inr (map (\<lambda>r. if ar_id r = event_id then r\<lparr>ar_ledger_anchor_id := Some reference\<rparr> else r)
                 tbl)))))"

section \<open>Building events\<close>

text \<open>\<open>uuid4()\<close> and the clock are arguments; \<open>recorded_at\<close> defaults to the clock.\<close>

definition build_event ::
  "uuid \<Rightarrow> datetime \<Rightarrow> audit_event_type \<Rightarrow> uuid \<Rightarrow> (string \<times> pyval) list \<Rightarrow> datetime
   \<Rightarrow> uuid option \<Rightarrow> datetime option \<Rightarrow> audit_event" where
  "build_event new_id now event_type entity_id payload occurred_at actor recorded_at =
     \<lparr>ae_event_id = new_id, ae_event_type = event_type, ae_entity_type = subject event_type,
      ae_entity_id = entity_id, ae_event_time = occurred_at,
      ae_recorded_at = (case recorded_at of None \<Rightarrow> now | Some t \<Rightarrow> t),
      ae_actor_user_id = actor, ae_payload = payload\<rparr>"

definition order_placed ::
  "uuid \<Rightarrow> datetime \<Rightarrow> uuid \<Rightarrow> uuid \<Rightarrow> uuid \<Rightarrow> string \<Rightarrow> decimal \<Rightarrow> decimal option
   \<Rightarrow> datetime \<Rightarrow> datetime \<Rightarrow> datetime \<Rightarrow> audit_event" where
  "order_placed new_id now order_id user_id site_id side energy limit d_start d_end occurred_at =
     build_event new_id now ORDER_PLACED order_id
       [(''order_id'', PUuid order_id), (''site_id'', PUuid site_id), (''side'', PStr side),
        (''energy_kwh'', PDecimal energy), (''limit_price_inr_per_kwh'', optional PDecimal limit),
        (''delivery_start'', PDatetime d_start), (''delivery_end'', PDatetime d_end)]
       occurred_at (Some user_id) None"

definition market_cleared ::
  "uuid \<Rightarrow> datetime \<Rightarrow> uuid \<Rightarrow> string \<Rightarrow> nat \<Rightarrow> decimal \<Rightarrow> string option \<Rightarrow> string option
   \<Rightarrow> datetime \<Rightarrow> audit_event" where
  "market_cleared new_id now session_id market_date trades matched engine version occurred_at =
     build_event new_id now MARKET_CLEARED session_id
       [(''market_session_id'', PUuid session_id), (''market_date'', PStr market_date),
        (''trade_count'', PInt (int trades)), (''matched_kwh'', PDecimal matched),
        (''matching_engine'', optional PStr engine),
        (''matching_engine_version'', optional PStr version)]
       occurred_at None None"

definition trade_proposed ::
  "uuid \<Rightarrow> datetime \<Rightarrow> uuid \<Rightarrow> uuid \<Rightarrow> uuid \<Rightarrow> decimal \<Rightarrow> decimal \<Rightarrow> datetime \<Rightarrow> datetime
   \<Rightarrow> datetime \<Rightarrow> audit_event" where
  "trade_proposed new_id now trade_id buy_id sell_id quantity price d_start d_end occurred_at =
     build_event new_id now TRADE_PROPOSED trade_id
       [(''trade_id'', PUuid trade_id), (''buy_order_id'', PUuid buy_id),
        (''sell_order_id'', PUuid sell_id), (''quantity_kwh'', PDecimal quantity),
        (''clearing_price_inr_per_kwh'', PDecimal price),
        (''delivery_start'', PDatetime d_start), (''delivery_end'', PDatetime d_end)]
       occurred_at None None"

definition grid_validation_recorded ::
  "uuid \<Rightarrow> datetime \<Rightarrow> uuid \<Rightarrow> uuid \<Rightarrow> grid_validation_status \<Rightarrow> string \<Rightarrow> string \<Rightarrow> string option
   \<Rightarrow> string \<Rightarrow> decimal option \<Rightarrow> decimal option \<Rightarrow> decimal option \<Rightarrow> decimal option
   \<Rightarrow> string option \<Rightarrow> datetime \<Rightarrow> audit_event" where
  "grid_validation_recorded new_id now trade_id run_id status decision engine version input_hash
     min_v max_v max_line max_transformer reason occurred_at =
     build_event new_id now GRID_VALIDATION_RECORDED trade_id
       [(''trade_id'', PUuid trade_id), (''grid_validation_id'', PUuid run_id),
        (''grid_status'', PStr (grid_status_value status)), (''decision'', PStr decision),
        (''simulation_engine'', PStr engine), (''engine_version'', optional PStr version),
        (''input_hash'', PStr input_hash), (''min_voltage_pu'', optional PDecimal min_v),
        (''max_voltage_pu'', optional PDecimal max_v),
        (''max_line_loading_pct'', optional PDecimal max_line),
        (''max_transformer_loading_pct'', optional PDecimal max_transformer),
        (''reason'', optional PStr reason)]
       occurred_at None None"

definition price_calculated ::
  "uuid \<Rightarrow> datetime \<Rightarrow> uuid \<Rightarrow> uuid \<Rightarrow> decimal \<Rightarrow> decimal \<Rightarrow> decimal \<Rightarrow> decimal \<Rightarrow> decimal
   \<Rightarrow> decimal \<Rightarrow> string \<Rightarrow> datetime \<Rightarrow> audit_event" where
  "price_calculated new_id now trade_id components_id base time congestion imbalance renewable final
     formula occurred_at =
     build_event new_id now PRICE_CALCULATED trade_id
       [(''trade_id'', PUuid trade_id), (''price_components_id'', PUuid components_id),
        (''base_market_price'', PDecimal base), (''time_component'', PDecimal time),
        (''congestion_component'', PDecimal congestion),
        (''imbalance_component'', PDecimal imbalance),
        (''local_renewable_component'', PDecimal renewable), (''final_price'', PDecimal final),
        (''formula_version'', PStr formula)]
       occurred_at None None"

definition trade_reconciled ::
  "uuid \<Rightarrow> datetime \<Rightarrow> uuid \<Rightarrow> uuid \<Rightarrow> decimal \<Rightarrow> decimal option \<Rightarrow> decimal option \<Rightarrow> bool
   \<Rightarrow> decimal \<Rightarrow> string \<Rightarrow> string option \<Rightarrow> uuid option \<Rightarrow> datetime \<Rightarrow> audit_event" where
  "trade_reconciled new_id now trade_id reconciliation_id committed actual deviation in_tolerance
     balancing status policy forecast occurred_at =
     build_event new_id now TRADE_RECONCILED trade_id
       [(''trade_id'', PUuid trade_id), (''reconciliation_id'', PUuid reconciliation_id),
        (''committed_kwh'', PDecimal committed), (''actual_kwh'', optional PDecimal actual),
        (''deviation_kwh'', optional PDecimal deviation), (''within_tolerance'', PBool in_tolerance),
        (''balancing_kwh'', PDecimal balancing), (''reconciliation_status'', PStr status),
        (''policy_version'', optional PStr policy), (''forecast_basis_id'', optional PUuid forecast)]
       occurred_at None None"

definition trade_settled ::
  "uuid \<Rightarrow> datetime \<Rightarrow> uuid \<Rightarrow> uuid \<Rightarrow> uuid \<Rightarrow> uuid \<Rightarrow> decimal \<Rightarrow> decimal \<Rightarrow> decimal \<Rightarrow> decimal
   \<Rightarrow> decimal \<Rightarrow> decimal \<Rightarrow> string option \<Rightarrow> uuid option \<Rightarrow> uuid option \<Rightarrow> uuid option \<Rightarrow> datetime
   \<Rightarrow> audit_event" where
  "trade_settled new_id now trade_id settlement_id buyer seller settled gross fee charge debit credit
     policy components run forecast occurred_at =
     build_event new_id now TRADE_SETTLED trade_id
       [(''trade_id'', PUuid trade_id), (''settlement_id'', PUuid settlement_id),
        (''buyer_user_id'', PUuid buyer), (''seller_user_id'', PUuid seller),
        (''settled_kwh'', PDecimal settled), (''gross_amount_inr'', PDecimal gross),
        (''platform_fee_inr'', PDecimal fee), (''balancing_charge_inr'', PDecimal charge),
        (''buyer_debit_inr'', PDecimal debit), (''seller_credit_inr'', PDecimal credit),
        (''policy_version'', optional PStr policy),
        (''price_components_id'', optional PUuid components),
        (''grid_validation_id'', optional PUuid run), (''forecast_basis_id'', optional PUuid forecast)]
       occurred_at None None"

end
