(* ===== verification/Audit_Log_Props.thy ===== *)
theory Audit_Log_Props
  imports Audit_Log
begin

text \<open>
  What the audit log guarantees: what is stored hashes to what was sealed; a log
  verifies exactly if it was recorded in the order of its keys (instant, event id); an event
  stamped before the head is accepted and makes the log unverifiable; the constraints refuse a fork; anchoring changes no
  verdict and happens once.
\<close>

section \<open>What is stored is what was hashed\<close>

definition py_dict :: "audit_event \<Rightarrow> bool" where
  "py_dict ev \<longleftrightarrow> distinct (map fst (ae_payload ev))"

lemma version_keys:
  "py_dict ev \<Longrightarrow> distinct (map fst (with_payload_version ev))"
  "PAYLOAD_VERSION_KEY \<in> set (map fst (with_payload_version ev))"
  by (auto simp: py_dict_def with_payload_version_def distinct_map inj_on_def)

lemma filter_key_out: "x \<notin> fst ` set xs \<Longrightarrow> filter (\<lambda>item. fst item \<noteq> x) xs = xs"
  by (induction xs) auto

lemma version_present:
  assumes "py_dict ev" "PAYLOAD_VERSION_KEY \<in> set (map fst (ae_payload ev))"
  shows "mset (with_payload_version ev) = mset (ae_payload ev)"
proof -
  from assms(2) obtain v where "(PAYLOAD_VERSION_KEY, v) \<in> set (ae_payload ev)" by auto
  then obtain xs ys where pl: "ae_payload ev = xs @ (PAYLOAD_VERSION_KEY, v) # ys"
    by (meson split_list)
  with assms(1) have "PAYLOAD_VERSION_KEY \<notin> fst ` set xs" "PAYLOAD_VERSION_KEY \<notin> fst ` set ys"
    by (auto simp: py_dict_def)
  moreover from this have "map_of (ae_payload ev) PAYLOAD_VERSION_KEY = Some v"
    using map_of_eq_None_iff [of xs PAYLOAD_VERSION_KEY] by (simp add: pl map_add_def)
  ultimately show ?thesis by (simp add: with_payload_version_def pl filter_key_out)
qed

lemma canonical_keys:
  assumes "payload_json ev = Inr kvs"
  shows "sorted (map fst kvs)" "mset (map fst kvs) = mset (map fst (with_payload_version ev))"
proof -
  from assms have j: "canonicalise (PDict (with_payload_version ev)) = Inr (JObj kvs)"
    by (simp add: payload_json_def canonical_payload_dict)
  from canonicalise_sorted [OF j] show "sorted (map fst kvs)" by simp
  from j have "mapE (\<lambda>item. bindE (canonicalise (snd item)) (\<lambda>v. Inr (fst item, v)))
      (sort_key fst (with_payload_version ev)) = Inr kvs"
    by (auto simp: bindE_eq_Inr)
  from list_all2_keys [OF canonical_items [OF this]]
  show "mset (map fst kvs) = mset (map fst (with_payload_version ev))" by simp
qed

lemma payload_json_embed:
  assumes "payload_json ev = Inr kvs" "py_dict ev"
    and pl: "ae_payload ev' = map (\<lambda>(k, v). (k, embed v)) kvs"
  shows "payload_json ev' = Inr kvs"
proof -
  note keys = canonical_keys [OF assms(1)]
  have fst': "map fst (ae_payload ev') = map fst kvs" by (simp add: pl case_prod_beta comp_def)
  have d: "distinct (map fst kvs)"
    using version_keys(1) [OF assms(2)] keys(2) by (metis mset_eq_imp_distinct_iff)
  have "PAYLOAD_VERSION_KEY \<in> set (map fst (ae_payload ev'))"
    using version_keys(2) [of ev] keys(2) fst' by (metis mset_eq_setD)
  then have "mset (with_payload_version ev') = mset (ae_payload ev')"
    by (intro version_present) (simp_all add: py_dict_def fst' d)
  then have "canonicalise (PDict (with_payload_version ev')) = canonicalise (embed (JObj kvs))"
    using canonicalise_dict_perm [of "with_payload_version ev'" "ae_payload ev'"] d fst'
    unfolding pl embed.simps(6) by metis
  also have "\<dots> = Inr (JObj kvs)"
    using assms(1) unfolding payload_json_def canonical_payload_dict by (rule canonicalise_idem)
  finally show ?thesis by (simp add: payload_json_def canonical_payload_dict)
qed

lemma new_row_eq:
  "new_row tbl ev = Inr row \<longleftrightarrow>
   (\<exists>h payload. event_fingerprint ev (map_option ar_event_hash (latest tbl)) = Inr h
     \<and> payload_json ev = Inr payload
     \<and> row = \<lparr>ar_id = ae_event_id ev, ar_event_type = ae_event_type ev,
          ar_entity_type = ae_entity_type ev, ar_entity_id = ae_entity_id ev,
          ar_event_time = ae_event_time ev, ar_recorded_at = ae_recorded_at ev,
          ar_actor_user_id = ae_actor_user_id ev, ar_payload_json = payload,
          ar_event_hash = h, ar_previous_hash = map_option ar_event_hash (latest tbl),
          ar_ledger_anchor_id = None\<rparr>)"
  by (cases "event_fingerprint ev (map_option ar_event_hash (latest tbl))"; cases "payload_json ev")
     (simp_all add: new_row_def seal_def payload_json_def eq_commute [of row])

text \<open>A row's recomputed hash is the hash the event was sealed with.\<close>

lemma rehydrated_fingerprint:
  assumes row: "new_row tbl ev = Inr row" and "py_dict ev"
  shows "event_fingerprint (se_event (rehydrate row)) (ar_previous_hash row) = Inr (ar_event_hash row)"
    and "ar_previous_hash row = map_option ar_event_hash (latest tbl)"
    and "recorded_key row = (ae_recorded_at ev, ae_event_id ev)"
    and "event_fingerprint ev (ar_previous_hash row) = Inr (ar_event_hash row)"
proof -
  from row obtain h payload where
    h: "event_fingerprint ev (map_option ar_event_hash (latest tbl)) = Inr h"
    and p: "payload_json ev = Inr payload"
    and r: "row = \<lparr>ar_id = ae_event_id ev, ar_event_type = ae_event_type ev,
          ar_entity_type = ae_entity_type ev, ar_entity_id = ae_entity_id ev,
          ar_event_time = ae_event_time ev, ar_recorded_at = ae_recorded_at ev,
          ar_actor_user_id = ae_actor_user_id ev, ar_payload_json = payload,
          ar_event_hash = h, ar_previous_hash = map_option ar_event_hash (latest tbl),
          ar_ledger_anchor_id = None\<rparr>"
    by (auto simp: new_row_eq)
  show "ar_previous_hash row = map_option ar_event_hash (latest tbl)"
    "recorded_key row = (ae_recorded_at ev, ae_event_id ev)"
    "event_fingerprint ev (ar_previous_hash row) = Inr (ar_event_hash row)"
    using h by (simp_all add: r recorded_key_def)
  have "payload_json (se_event (rehydrate row)) = Inr payload"
    by (rule payload_json_embed [OF p assms(2)]) (simp add: rehydrate_def r)
  then show "event_fingerprint (se_event (rehydrate row)) (ar_previous_hash row) = Inr (ar_event_hash row)"
    using h p by (auto simp: fingerprint_eq r rehydrate_def material_json_def)
qed

section \<open>Appending in clock order\<close>

lemma sort_key_snoc_max:
  assumes "\<forall>y \<in> set xs. f y \<le> f x"
  shows "sort_key f (xs @ [x]) = sort_key f xs @ [x]"
proof (rule properties_for_sort_key)
  show "sorted (map f (sort_key f xs @ [x]))" using assms by (simp add: sorted_append)
  show "filter (\<lambda>y. f k = f y) (sort_key f xs @ [x]) = filter (\<lambda>y. f k = f y) (xs @ [x])" for k
    using sort_key_stable [of f "f k" xs] by (simp add: eq_commute)
qed simp

lemma latest_eq: "latest tbl = (if tbl = [] then None else Some (last (sort_key recorded_key tbl)))"
proof (cases "sort_key recorded_key tbl" rule: rev_cases)
  case Nil
  then show ?thesis by (simp add: latest_def) (metis set_empty set_sort)
next
  case (snoc ys y)
  then have "tbl \<noteq> []" by auto
  then show ?thesis by (simp add: latest_def snoc)
qed

definition intact_log :: "audit_log \<Rightarrow> bool" where
  "intact_log tbl \<longleftrightarrow> linked None (map rehydrate (list_chain None tbl))"

lemma length_list_chain [simp]: "length (list_chain None tbl) = length tbl"
  by (simp add: list_chain_def)

lemma audit_verify_intact:
  "audit_verify tbl None = Inr (intact_after (length tbl)) \<longleftrightarrow> intact_log tbl"
proof
  assume "audit_verify tbl None = Inr (intact_after (length tbl))"
  then have "verified (map rehydrate (list_chain None tbl))"
    by (simp add: verified_def audit_verify_def intact_after_def)
  then show "intact_log tbl" by (simp add: verified_iff intact_log_def)
next
  assume "intact_log tbl"
  from verify_linked [OF this [unfolded intact_log_def]]
  show "audit_verify tbl None = Inr (intact_after (length tbl))" by (simp add: audit_verify_def)
qed

lemma rehydrate_hashes [simp]:
  "se_event_hash (rehydrate row) = ar_event_hash row"
  "se_previous_hash (rehydrate row) = ar_previous_hash row"
  "ae_event_id (se_event (rehydrate row)) = ar_id row"
  by (simp_all add: rehydrate_def)

lemma head_of_log:
  "head_hash None (map rehydrate (list_chain None tbl)) = map_option ar_event_hash (latest tbl)"
proof -
  have "sort_key recorded_key tbl \<noteq> [] \<longleftrightarrow> tbl \<noteq> []" by (metis set_empty set_sort)
  then show ?thesis by (auto simp: head_hash_def list_chain_def latest_eq last_map)
qed

definition event_key :: "audit_event \<Rightarrow> datetime \<times> uuid" where
  "event_key ev = (ae_recorded_at ev, ae_event_id ev)"

lemma insert_row_eq:
  "insert_row users tbl row = Inr tbl' \<longleftrightarrow>
   row_checks users row = Inr () \<and> ar_id row \<notin> set (map ar_id tbl)
   \<and> ar_event_hash row \<notin> set (map ar_event_hash tbl)
   \<and> ar_previous_hash row \<notin> set (map ar_previous_hash tbl) \<and> tbl' = tbl @ [row]"
  by (auto simp: insert_row_def bindE_eq_Inr)

lemma new_row_linked:
  assumes "new_row tbl ev = Inr row" "py_dict ev" "intact_log tbl"
    and "\<forall>r \<in> set tbl. recorded_key r \<le> event_key ev"
  shows "intact_log (tbl @ [row])" "list_chain None (tbl @ [row]) = list_chain None tbl @ [row]"
proof -
  note r = rehydrated_fingerprint [OF assms(1,2)]
  show chain: "list_chain None (tbl @ [row]) = list_chain None tbl @ [row]"
    using assms(4) r(3) by (simp add: list_chain_def sort_key_snoc_max event_key_def)
  show "intact_log (tbl @ [row])"
    using assms(3) r(1,2) by (simp add: intact_log_def chain linked_append head_of_log)
qed

section \<open>When an append succeeds\<close>

text \<open>The table keeps the constraints it checks.\<close>

definition table_ok :: "uuid set \<Rightarrow> audit_log \<Rightarrow> bool" where
  "table_ok users tbl \<longleftrightarrow>
     distinct (map ar_id tbl) \<and> distinct (map ar_event_hash tbl) \<and> distinct (map ar_previous_hash tbl)
     \<and> list_all (\<lambda>row. row_checks users row = Inr ()) tbl"

lemma insert_row_ok: "table_ok users tbl \<Longrightarrow> insert_row users tbl row = Inr tbl' \<Longrightarrow> table_ok users tbl'"
  by (auto simp: table_ok_def insert_row_eq)

lemma audit_record_ok:
  "table_ok users tbl \<Longrightarrow> audit_record users ev tbl = Inr tbl' \<Longrightarrow> table_ok users tbl'"
  by (auto simp: audit_record_def bindE_eq_Inr intro: insert_row_ok)

lemma hash_length: "event_fingerprint ev p = Inr h \<Longrightarrow> length h = 64"
  by (auto simp: fingerprint_eq)

lemma row_checks_eq:
  "row_checks users row = Inr () \<longleftrightarrow>
   length (ar_event_hash row) = 64 \<and> pred_option (\<lambda>h. length h = 64) (ar_previous_hash row)
   \<and> ar_previous_hash row \<noteq> Some (ar_event_hash row)
   \<and> pred_option (\<lambda>u. u \<in> users) (ar_actor_user_id row)"
  by (auto simp: row_checks_def bindE_eq_Inr)

lemma latest_in: "latest tbl = Some row \<Longrightarrow> row \<in> set tbl"
proof -
  assume "latest tbl = Some row"
  then have "tbl \<noteq> []" "row = last (sort_key recorded_key tbl)" by (auto simp: latest_eq split: if_splits)
  moreover from this(1) have "sort_key recorded_key tbl \<noteq> []" by (metis set_empty set_sort)
  ultimately show "row \<in> set tbl" by (metis last_in_set set_sort)
qed

text \<open>In an intact chain of distinct hashes nobody claims the head as predecessor.\<close>

lemma linked_predecessors:
  assumes "linked p ss" "s \<in> set ss"
  shows "se_previous_hash s = p \<or> se_previous_hash s \<in> Some ` set (map se_event_hash (butlast ss))"
  using assms
proof (induction ss arbitrary: p)
  case (Cons t ss)
  then show ?case by (cases "ss = []") auto
qed simp

lemma head_unclaimed:
  assumes "intact_log tbl" "distinct (map ar_event_hash tbl)"
  shows "map_option ar_event_hash (latest tbl) \<notin> set (map ar_previous_hash tbl)"
proof
  assume claimed: "map_option ar_event_hash (latest tbl) \<in> set (map ar_previous_hash tbl)"
  let ?ss = "map rehydrate (list_chain None tbl)"
  from claimed obtain row where row: "row \<in> set tbl" "ar_previous_hash row = map_option ar_event_hash (latest tbl)"
    by auto
  then have ne: "tbl \<noteq> []" by auto
  then obtain last_row where l: "latest tbl = Some last_row" "last_row = last (list_chain None tbl)"
    by (auto simp: latest_eq list_chain_def)
  have ne': "list_chain None tbl \<noteq> []" using ne by (metis length_0_conv length_list_chain)
  have "rehydrate row \<in> set ?ss" using row(1) by (simp add: list_chain_def)
  from linked_predecessors [OF assms(1) [unfolded intact_log_def] this] row(2) l(1)
  have "ar_event_hash last_row \<in> ar_event_hash ` set (butlast (list_chain None tbl))"
    by (auto simp: map_butlast [symmetric] image_iff)
  moreover have "distinct (map ar_event_hash (list_chain None tbl))"
    using assms(2) by (simp add: list_chain_def distinct_map)
  then have "distinct (map ar_event_hash (butlast (list_chain None tbl) @ [last_row]))"
    using l(2) ne' by simp
  ultimately show False by auto
qed

lemma audit_record_succeeds:
  assumes "table_ok users tbl" "intact_log tbl" "py_dict ev"
    and "event_fingerprint ev (map_option ar_event_hash (latest tbl)) = Inr h"
    and "pred_option (\<lambda>u. u \<in> users) (ae_actor_user_id ev)"
    and "ae_event_id ev \<notin> set (map ar_id tbl)"
  shows "\<exists>row. new_row tbl ev = Inr row \<and> ar_event_hash row = h
    \<and> (h \<notin> set (map ar_event_hash tbl) \<longrightarrow> audit_record users ev tbl = Inr (tbl @ [row]))"
proof -
  from assms(4) obtain payload where p: "payload_json ev = Inr payload" by (auto simp: fingerprint_eq)
  then obtain row where row: "new_row tbl ev = Inr row"
    and f: "ar_event_hash row = h" "ar_id row = ae_event_id ev" "ar_actor_user_id row = ae_actor_user_id ev"
      "ar_previous_hash row = map_option ar_event_hash (latest tbl)"
    using assms(4) by (simp add: new_row_eq)
  have "audit_record users ev tbl = Inr (tbl @ [row])" if fresh: "h \<notin> set (map ar_event_hash tbl)"
  proof -
    have prev: "length g = 64 \<and> g \<noteq> h" if "ar_previous_hash row = Some g" for g
    proof -
      from that f(4) obtain r where "latest tbl = Some r" "ar_event_hash r = g" by auto
      with latest_in [of tbl r] assms(1) fresh show ?thesis
        by (auto simp: table_ok_def list_all_iff row_checks_eq)
    qed
    have "row_checks users row = Inr ()"
      using prev hash_length [OF assms(4)] assms(5) f(1-3)
      by (cases "ar_previous_hash row") (auto simp: row_checks_eq)
    moreover have "ar_previous_hash row \<notin> set (map ar_previous_hash tbl)"
      using head_unclaimed [OF assms(2)] assms(1) unfolding f(4) by (simp add: table_ok_def)
    ultimately have "insert_row users tbl row = Inr (tbl @ [row])"
      using assms(6) fresh f by (simp add: insert_row_eq)
    with row show ?thesis by (simp add: audit_record_def)
  qed
  with row f(1) show ?thesis by blast
qed

section \<open>Appending behind the head\<close>

text \<open>Sorting one more element only inserts it.\<close>

lemma sort_key_split:
  assumes S: "sort_key f xs = A @ B"
    and A: "\<forall>a \<in> set A. f a \<le> f x" and B: "\<forall>b \<in> set B. f x < f b"
  shows "sort_key f (xs @ [x]) = A @ x # B"
proof (rule properties_for_sort_key)
  have "mset A + mset B = mset xs" by (metis S mset_append mset_sort)
  then show "mset (A @ x # B) = mset (xs @ [x])" by simp
  have "sorted (map f A)" "sorted (map f B)" "\<forall>a \<in> set A. \<forall>b \<in> set B. f a \<le> f b"
    using sorted_sort_key [of f xs] unfolding S by (auto simp: sorted_append)
  then show "sorted (map f (A @ x # B))"
    using A B by (auto simp: sorted_append less_imp_le)
  fix k
  have "filter (\<lambda>y. f k = f y) (A @ B) = filter (\<lambda>y. f k = f y) xs"
    using sort_key_stable [of f "f k" xs] unfolding S by (simp add: eq_commute)
  moreover have "f k = f x \<Longrightarrow> filter (\<lambda>y. f k = f y) B = []" using B by (auto simp: filter_empty_conv)
  ultimately show "filter (\<lambda>y. f k = f y) (A @ x # B) = filter (\<lambda>y. f k = f y) (xs @ [x])"
    by (cases "f k = f x") auto
qed

lemma sort_key_snoc:
  obtains A B where "sort_key f xs = A @ B" "sort_key f (xs @ [x]) = A @ x # B" "\<forall>b \<in> set B. f x < f b"
proof -
  let ?S = "sort_key f xs"
  define A B where "A = takeWhile (\<lambda>y. f y \<le> f x) ?S" and "B = dropWhile (\<lambda>y. f y \<le> f x) ?S"
  have S: "?S = A @ B" by (simp add: A_def B_def)
  have A: "\<forall>a \<in> set A. f a \<le> f x" unfolding A_def by (blast dest: set_takeWhileD)
  have B: "\<forall>b \<in> set B. f x < f b"
  proof (cases B)
    case (Cons b bs)
    have "\<not> f b \<le> f x" using hd_dropWhile [of "\<lambda>y. f y \<le> f x" ?S]
      unfolding B_def [symmetric] Cons by simp
    moreover have "\<forall>c \<in> set bs. f b \<le> f c"
      using sorted_sort_key [of f xs] unfolding S Cons by (simp add: sorted_append)
    ultimately show ?thesis unfolding Cons by auto
  qed simp
  from S A B sort_key_split [OF S A B] that show thesis by blast
qed

lemma stale_breaks:
  assumes "intact_log tbl" "table_ok users tbl" "py_dict ev" "new_row tbl ev = Inr row"
    and "latest tbl = Some head" "event_key ev < recorded_key head"
  shows "\<exists>v. audit_verify (tbl @ [row]) None = Inr v \<and> \<not> cv_intact v
    \<and> cv_broken_at v = Some (ae_event_id ev)"
proof -
  note r = rehydrated_fingerprint [OF assms(4,3)]
  obtain A B where chain: "list_chain None tbl = A @ B" "list_chain None (tbl @ [row]) = A @ row # B"
    and B: "\<forall>b \<in> set B. recorded_key row < recorded_key b"
    by (rule sort_key_snoc [of recorded_key tbl row]) (auto simp: list_chain_def)
  have hd: "head = last (A @ B)" using assms(5) chain(1) by (auto simp: latest_eq list_chain_def split: if_splits)
  have "head \<in> set tbl" by (rule latest_in [OF assms(5)])
  have head_mem: "head \<in> set (A @ row # B)" using chain(1) \<open>head \<in> set tbl\<close>
    by (metis Un_iff list.set_intros(2) list_chain_def option.simps(4) set_append set_sort)
  have Bne: "B \<noteq> []"
  proof
    assume "B = []"
    then have "sorted (map recorded_key (A @ [row]))"
      using chain(2) by (metis list_chain_def option.simps(4) sorted_sort_key)
    moreover have "head \<in> set A" using head_mem assms(6) r(3) \<open>B = []\<close> by (auto simp: event_key_def)
    ultimately have "recorded_key head \<le> recorded_key row" by (auto simp: sorted_append)
    with assms(6) r(3) show False by (simp add: event_key_def)
  qed
  let ?A = "map rehydrate A"
  have linkA: "linked None ?A" using assms(1) by (simp add: intact_log_def chain linked_append)
  have prev: "ar_previous_hash row = Some (ar_event_hash head)" using r(2) assms(5) by simp
  have "head_hash None ?A \<noteq> ar_previous_hash row"
  proof
    assume eq: "head_hash None ?A = ar_previous_hash row"
    then have "A \<noteq> []" using prev by (auto simp: head_hash_def)
    then have "ar_event_hash (last A) = ar_event_hash head" using eq prev by (simp add: head_hash_def last_map)
    moreover have "distinct (map ar_event_hash (A @ B))"
      using assms(2) chain(1) [symmetric] by (simp add: table_ok_def list_chain_def distinct_map)
    moreover have "last A \<in> set A" "head \<in> set B" using \<open>A \<noteq> []\<close> Bne hd by simp_all
    ultimately show False by (auto simp: image_iff)
  qed
  then have "\<not> linked (head_hash None ?A) [rehydrate row]" by auto
  from verify_broken [OF linkA _ this, of "ar_event_hash row" "map rehydrate B"] r(1)
  obtain ps where "verify_chain (?A @ rehydrate row # map rehydrate B) =
    Inr \<lparr>cv_intact = False, cv_events_checked = length ?A,
         cv_broken_at = Some (ae_event_id (se_event (rehydrate row))), cv_problems = ps\<rparr>"
    by auto
  moreover have "ar_id row = ae_event_id ev" using r(3) by (simp add: recorded_key_def)
  ultimately show ?thesis by (simp add: audit_verify_def chain)
qed

section \<open>A log recorded from empty\<close>

text \<open>An intact log grew in the order of its keys: the last row lies behind all the others.\<close>

lemma record_all_snoc:
  "foldE f (xs @ [x]) s = bindE (foldE f xs s) (f x)"
proof (induction xs arbitrary: s)
  case Nil
  then show ?case by (cases "f x s") simp_all
next
  case (Cons a xs)
  then show ?case by (cases "f a s") simp_all
qed

lemma intact_append_in_order:
  assumes ok: "table_ok users (tbl @ [row])" and row: "new_row tbl ev = Inr row" "py_dict ev"
    and intact: "intact_log (tbl @ [row])"
  shows "intact_log tbl \<and> (\<forall>r \<in> set tbl. recorded_key r \<le> event_key ev)"
proof -
  note r = rehydrated_fingerprint [OF row]
  obtain A B where chain: "list_chain None tbl = A @ B" "list_chain None (tbl @ [row]) = A @ row # B"
    and B: "\<forall>b \<in> set B. recorded_key row < recorded_key b"
    by (rule sort_key_snoc [of recorded_key tbl row]) (auto simp: list_chain_def)
  have sets: "set A \<union> set B = set tbl" using arg_cong [OF chain(1), of set] by (simp add: list_chain_def)
  have linked: "linked None (map rehydrate A)" "ar_previous_hash row = head_hash None (map rehydrate A)"
    using intact unfolding intact_log_def chain(2) by (simp_all add: linked_append)
  have "B = []"
  proof (rule ccontr)
    assume "B \<noteq> []"
    then have "tbl \<noteq> []" using sets by auto
    then have l: "latest tbl = Some (last B)"
      using chain(1) \<open>B \<noteq> []\<close> by (simp add: latest_eq list_chain_def)
    then have "A \<noteq> []" "ar_event_hash (last A) = ar_event_hash (last B)"
      using r(2) linked(2) by (auto simp: head_hash_def last_map split: if_splits)
    moreover have "distinct (map ar_event_hash (A @ B))"
      using ok unfolding chain(1) [symmetric] by (simp add: table_ok_def list_chain_def distinct_map)
    moreover have "ar_event_hash (last B) \<in> ar_event_hash ` set B" "A \<noteq> [] \<Longrightarrow> ar_event_hash (last A) \<in> ar_event_hash ` set A"
      using \<open>B \<noteq> []\<close> by simp_all
    ultimately show False by auto
  qed
  then have "intact_log tbl" using linked(1) chain(1) by (simp add: intact_log_def)
  moreover have "recorded_key x \<le> event_key ev" if "x \<in> set tbl" for x
  proof -
    have "sorted (map recorded_key (A @ [row]))" using chain(2) \<open>B = []\<close>
      by (metis list_chain_def option.simps(4) sorted_sort_key)
    then show ?thesis using that sets \<open>B = []\<close> r(3) by (auto simp: sorted_append event_key_def)
  qed
  ultimately show ?thesis by blast
qed

lemma recorded_log:
  assumes "foldE (audit_record users) evs [] = Inr tbl" "list_all py_dict evs"
  shows "table_ok users tbl \<and> map recorded_key tbl = map event_key evs
    \<and> (intact_log tbl \<longleftrightarrow> sorted (map event_key evs))"
  using assms
proof (induction evs arbitrary: tbl rule: rev_induct)
  case Nil
  then show ?case by (simp add: table_ok_def intact_log_def list_chain_def)
next
  case (snoc ev evs)
  then obtain t where t: "foldE (audit_record users) evs [] = Inr t" "audit_record users ev t = Inr tbl"
    by (auto simp: record_all_snoc bindE_eq_Inr)
  then obtain row where row: "new_row t ev = Inr row" "tbl = t @ [row]"
    by (auto simp: audit_record_def bindE_eq_Inr insert_row_eq)
  have py: "py_dict ev" "list_all py_dict evs" using snoc.prems(2) by simp_all
  note IH = snoc.IH [OF t(1) py(2)]
  have ok: "table_ok users (t @ [row])" using audit_record_ok [OF _ t(2)] IH row(2) by simp
  have keys: "map recorded_key tbl = map event_key (evs @ [ev])"
    using IH rehydrated_fingerprint(3) [OF row(1) py(1)] by (simp add: row(2) event_key_def)
  have "set (map recorded_key t) = set (map event_key evs)" by (simp only: conjunct1 [OF conjunct2 [OF IH]])
  then have keyset: "recorded_key ` set t = event_key ` set evs" by simp
  have "(\<forall>r \<in> set t. recorded_key r \<le> event_key ev) \<longleftrightarrow> (\<forall>e \<in> set evs. event_key e \<le> event_key ev)"
    by (simp only: ball_simps(9) [of recorded_key "set t" "\<lambda>k. k \<le> event_key ev", symmetric]
      ball_simps(9) [of event_key "set evs" "\<lambda>k. k \<le> event_key ev", symmetric] keyset)
  moreover have "intact_log (t @ [row]) \<longleftrightarrow> intact_log t \<and> (\<forall>r \<in> set t. recorded_key r \<le> event_key ev)"
    using intact_append_in_order [OF ok row(1) py(1)] new_row_linked(1) [OF row(1) py(1)] by blast
  ultimately show ?case using IH ok keys by (simp add: row(2) sorted_append)
qed

section \<open>Anchoring\<close>

lemma sort_key_map: "(\<And>x. f (g x) = f x) \<Longrightarrow> sort_key f (map g xs) = map g (sort_key f xs)"
proof -
  assume fg: "\<And>x. f (g x) = f x"
  have "insort_key f (g x) (map g ys) = map g (insort_key f x ys)" for x ys
    by (induction ys) (simp_all add: fg)
  then show ?thesis by (induction xs) simp_all
qed

definition set_anchor :: "uuid \<Rightarrow> string \<Rightarrow> audit_row \<Rightarrow> audit_row" where
  "set_anchor i reference r = (if ar_id r = i then r\<lparr>ar_ledger_anchor_id := Some reference\<rparr> else r)"

lemma set_anchor_simps [simp]:
  "recorded_key (set_anchor i reference r) = recorded_key r"
  "rehydrate (set_anchor i reference r) = rehydrate r"
  "ar_id (set_anchor i reference r) = ar_id r"
  "(set_anchor i reference r)\<lparr>ar_ledger_anchor_id := None\<rparr> = r\<lparr>ar_ledger_anchor_id := None\<rparr>"
  by (simp_all add: set_anchor_def recorded_key_def rehydrate_def)

lemma audit_verify_set_anchor: "audit_verify (map (set_anchor i reference) tbl) limit = audit_verify tbl limit"
  by (cases limit) (simp_all add: audit_verify_def list_chain_def sort_key_map comp_def take_map)

lemma find_map_anchor:
  "get_row (map (set_anchor i reference) tbl) j = map_option (set_anchor i reference) (get_row tbl j)"
  unfolding get_row_def by (induction tbl) auto

text \<open>The contract the service needs of a publisher: it answers with a reference that fits.\<close>

locale ledger_publisher =
  fixes publish :: publisher
  assumes publish_fits: "\<exists>reference. publish sealed = Inr reference \<and> length reference \<le> 200"
begin

lemma anchored_once:
  assumes "get_row tbl i = Some row" "ar_ledger_anchor_id row = None"
  shows "\<exists>reference. publish (rehydrate row) = Inr reference
    \<and> anchor_event publish tbl i = Inr (map (set_anchor i reference) tbl)
    \<and> anchor_event publish (map (set_anchor i reference) tbl) i = Inl AuditError"
proof -
  obtain reference where r: "publish (rehydrate row) = Inr reference" "length reference \<le> 200"
    using publish_fits by blast
  have "ar_id row = i" using assms(1) by (auto simp: get_row_def find_Some_iff)
  then have "ar_ledger_anchor_id (set_anchor i reference row) \<noteq> None" by (simp add: set_anchor_def)
  then have "anchor_event publish (map (set_anchor i reference) tbl) i = Inl AuditError"
    by (auto simp: anchor_event_def find_map_anchor assms(1) guardE_def)
  moreover have "anchor_event publish tbl i = Inr (map (set_anchor i reference) tbl)"
    using assms r by (simp add: anchor_event_def set_anchor_def [abs_def])
  ultimately show ?thesis using r(1) by blast
qed

end

interpretation local: ledger_publisher local_publish
  by unfold_locales (simp add: local_publish_def)

section \<open>The log's properties\<close>

lemma demo_append:
  assumes "0 \<le> t" "t < 10"
  obtains row where "new_row [] (demo_event i t) = Inr row" "audit_record {} (demo_event i t) [] = Inr [row]"
    "ar_id row = i" "recorded_key row = (t, i)" "ar_ledger_anchor_id row = None"
    "intact_log [row]" "table_ok {} [row]"
proof -
  have ok: "table_ok {} []" "intact_log []" "py_dict (demo_event i t)"
    by (simp_all add: table_ok_def intact_log_def list_chain_def py_dict_def demo_event_def)
  obtain h where h: "event_fingerprint (demo_event i t) (map_option ar_event_hash (latest [])) = Inr h"
    using demo_fingerprint [OF assms, of i "map_option ar_event_hash (latest [])"] by auto
  from audit_record_succeeds [OF ok h] obtain row where
    row: "new_row [] (demo_event i t) = Inr row" "audit_record {} (demo_event i t) [] = Inr [row]"
    by (auto simp: demo_event_def)
  note r = rehydrated_fingerprint(3) [OF row(1) ok(3)] new_row_linked(1) [OF row(1) ok(3,2)]
    audit_record_ok [OF ok(1) row(2)]
  have "ar_ledger_anchor_id row = None" using row(1) by (auto simp: new_row_eq)
  with that [OF row] r show thesis by (simp add: demo_event_def recorded_key_def)
qed

text \<open>Appending keeps the log verifiable. On a log the database accepts and verification
  reports intact, an event that canonicalises, has a fresh id, a known actor and a clock not
  behind any row's is stored unless its digest is already in the log, and the longer log
  verifies intact with one more event; the row rehydrates to the very hash it was sealed with.\<close>

theorem append_keeps_log_intact:
  assumes "table_ok users tbl" and "audit_verify tbl None = Inr (intact_after (length tbl))"
    and "py_dict ev" and "new_row tbl ev = Inr row"
    and "pred_option (\<lambda>u. u \<in> users) (ae_actor_user_id ev)"
    and "ae_event_id ev \<notin> set (map ar_id tbl)"
    and "\<forall>r \<in> set tbl. recorded_key r \<le> event_key ev"
    and "ar_event_hash row \<notin> set (map ar_event_hash tbl)"
  shows "audit_record users ev tbl = Inr (tbl @ [row]) \<and> table_ok users (tbl @ [row])
    \<and> audit_verify (tbl @ [row]) None = Inr (intact_after (Suc (length tbl)))
    \<and> event_fingerprint (se_event (rehydrate row)) (ar_previous_hash row) = Inr (ar_event_hash row)"
proof -
  note r = rehydrated_fingerprint [OF assms(4,3)]
  have i: "intact_log tbl" using assms(2) by (simp add: audit_verify_intact)
  have "event_fingerprint ev (map_option ar_event_hash (latest tbl)) = Inr (ar_event_hash row)"
    using r(2,4) by simp
  from audit_record_succeeds [OF assms(1) i assms(3) this assms(5,6)] assms(4,8)
  have rec: "audit_record users ev tbl = Inr (tbl @ [row])" by simp
  moreover have "table_ok users (tbl @ [row])" by (rule audit_record_ok [OF assms(1) rec])
  moreover have "intact_log (tbl @ [row])" by (rule new_row_linked(1) [OF assms(4,3) i assms(7)])
  then have "audit_verify (tbl @ [row]) None = Inr (intact_after (Suc (length tbl)))"
    using audit_verify_intact [of "tbl @ [row]"] by simp
  ultimately show ?thesis using r(1) by blast
qed

lemma append_keeps_log_intact_witness:
  "\<exists>row. new_row [] (demo_event 3 0) = Inr row \<and> audit_verify [row] None = Inr (intact_after 1)"
proof -
  obtain row where row: "new_row [] (demo_event 3 0) = Inr row" by (rule demo_append [of 0 3]) simp_all
  have "table_ok {} []" "py_dict (demo_event 3 0)" "intact_log []"
    by (simp_all add: table_ok_def intact_log_def list_chain_def py_dict_def demo_event_def)
  moreover from this(3) have "audit_verify [] None = Inr (intact_after (length ([] :: audit_log)))"
    by (simp only: audit_verify_intact)
  ultimately have "table_ok {} []" "audit_verify [] None = Inr (intact_after (length ([] :: audit_log)))"
    "py_dict (demo_event 3 0)" by blast+
  from append_keeps_log_intact [OF this row] row show ?thesis by (simp add: demo_event_def)
qed

text \<open>C39. Exactly a log written in the order of its keys verifies. Whatever events are recorded one
  after the other into an empty log, if every append was accepted then verification reports the log
  intact with every event counted if and only if the pairs of recorded instant and event id never
  decrease. An advancing clock is enough; of two events at one instant the one with the smaller id must
  have come first.\<close>

theorem clock_ordered_log_verifies:
  assumes "foldE (audit_record users) evs [] = Inr tbl" and "list_all py_dict evs"
  shows "audit_verify tbl None = Inr (intact_after (length evs))
    \<longleftrightarrow> sorted (map (\<lambda>ev. (ae_recorded_at ev, ae_event_id ev)) evs)"
proof -
  note r = recorded_log [OF assms]
  from r have "length tbl = length evs" by (metis length_map)
  with r audit_verify_intact [of tbl] show ?thesis by (simp add: event_key_def [abs_def])
qed

lemma clock_ordered_log_verifies_witness:
  "(\<exists>tbl. foldE (audit_record {}) [demo_event 3 0] [] = Inr tbl \<and> audit_verify tbl None = Inr (intact_after 1))
   \<and> (case foldE (audit_record {}) [demo_event 2 5, demo_event 3 5] [] of
        Inl _ \<Rightarrow> True | Inr tbl \<Rightarrow> audit_verify tbl None = Inr (intact_after 2))
   \<and> (case foldE (audit_record {}) [demo_event 3 5, demo_event 2 5] [] of
        Inl _ \<Rightarrow> True | Inr tbl \<Rightarrow> audit_verify tbl None \<noteq> Inr (intact_after 2))"
proof -
  obtain row where row: "audit_record {} (demo_event 3 0) [] = Inr [row]" by (rule demo_append [of 0 3]) simp_all
  have f: "foldE (audit_record {}) [demo_event 3 0] [] = Inr [row]" by (simp add: row)
  have demo: "py_dict (demo_event i t)" "ae_recorded_at (demo_event i t) = t" "ae_event_id (demo_event i t) = i"
    for i t by (simp_all add: py_dict_def demo_event_def)
  have pair: "length [demo_event i 5, demo_event j 5] = 2" for i j by simp
  note iff = clock_ordered_log_verifies [where users = "{}"]
  have "audit_verify [row] None = Inr (intact_after 1)" using iff [OF f] by (simp add: demo)
  moreover have "case foldE (audit_record {}) [demo_event 2 5, demo_event 3 5] [] of
        Inl _ \<Rightarrow> True | Inr tbl \<Rightarrow> audit_verify tbl None = Inr (intact_after 2)"
    using iff [of "[demo_event 2 5, demo_event 3 5]"]
    by (simp only: pair split: sum.split) (simp add: demo)
  moreover have "case foldE (audit_record {}) [demo_event 3 5, demo_event 2 5] [] of
        Inl _ \<Rightarrow> True | Inr tbl \<Rightarrow> audit_verify tbl None \<noteq> Inr (intact_after 2)"
    using iff [of "[demo_event 3 5, demo_event 2 5]"]
    by (simp only: pair split: sum.split) (simp add: demo)
  ultimately show ?thesis using f by blast
qed

text \<open>The order of the log is the clock's, not the order of appending: an event whose pair
  (recorded_at, id) lies before the head's - a clock that stepped back, or two events in one
  microsecond whose random ids sort the other way - is sealed onto the head but sorts before
  it. Stored, it makes the log of untouched rows verify as broken at that event.\<close>

theorem stale_clock_breaks_log:
  assumes "table_ok users tbl" and "audit_verify tbl None = Inr (intact_after (length tbl))"
    and "latest tbl = Some head" and "event_key ev < recorded_key head"
    and "py_dict ev" and "new_row tbl ev = Inr row"
  shows "\<exists>v. audit_verify (tbl @ [row]) None = Inr v \<and> \<not> cv_intact v
    \<and> cv_broken_at v = Some (ae_event_id ev)"
  using stale_breaks [OF _ assms(1,5,6,3,4)] assms(2) by (simp add: audit_verify_intact)

text \<open>Two events of one microsecond.\<close>

lemma stale_clock_breaks_log_witness:
  "\<exists>a b v. new_row [] (demo_event 3 5) = Inr a \<and> new_row [a] (demo_event 2 5) = Inr b
     \<and> audit_verify [a, b] None = Inr v \<and> \<not> cv_intact v \<and> cv_broken_at v = Some 2"
proof -
  obtain a where a: "new_row [] (demo_event 3 5) = Inr a" "recorded_key a = (5, 3)" "intact_log [a]"
    "table_ok {} [a]" by (rule demo_append [of 5 3]) simp_all
  have l: "latest [a] = Some a" by (simp add: latest_eq)
  obtain h where h: "event_fingerprint (demo_event 2 5) (map_option ar_event_hash (latest [a])) = Inr h"
    using demo_fingerprint [of 5 2 "map_option ar_event_hash (latest [a])"] by auto
  then obtain b where b: "new_row [a] (demo_event 2 5) = Inr b"
    by (auto simp: new_row_eq demo_payload_json)
  have "event_key (demo_event 2 5) < recorded_key a" "py_dict (demo_event 2 5)"
    "ae_event_id (demo_event 2 5) = 2"
    by (simp_all add: a(2) event_key_def py_dict_def demo_event_def)
  moreover have "audit_verify [a] None = Inr (intact_after (length [a]))"
    using a(3) by (simp only: audit_verify_intact)
  ultimately show ?thesis using stale_clock_breaks_log [OF a(4) _ l _ _ b] a(1) b by auto
qed

text \<open>The chain cannot fork: of two transactions that sealed their events against the same
  head, whichever stores its row second is refused by the database.\<close>

theorem chain_cannot_fork:
  assumes "new_row tbl e1 = Inr r1" and "new_row tbl e2 = Inr r2" and "insert_row users tbl r1 = Inr tbl1"
  shows "\<exists>c. insert_row users tbl1 r2 = Inl (IntegrityError c)"
proof -
  have "ar_previous_hash r1 = ar_previous_hash r2" using assms(1,2) by (auto simp: new_row_eq)
  then have "ar_previous_hash r2 \<in> set (map ar_previous_hash tbl1)"
    using assms(3) by (auto simp: insert_row_eq)
  then show ?thesis by (auto simp: insert_row_def row_checks_def guardE_def)
qed

lemma chain_cannot_fork_witness:
  "\<exists>a b c. new_row [] (demo_event 3 0) = Inr a \<and> new_row [] (demo_event 2 5) = Inr b
     \<and> insert_row {} [a] b = Inl (IntegrityError c)"
proof -
  obtain a where a: "new_row [] (demo_event 3 0) = Inr a" "audit_record {} (demo_event 3 0) [] = Inr [a]"
    by (rule demo_append [of 0 3]) simp_all
  obtain b where b: "new_row [] (demo_event 2 5) = Inr b" by (rule demo_append [of 5 2]) simp_all
  have "insert_row {} [] a = Inr [a]" using a by (simp add: audit_record_def)
  from chain_cannot_fork [OF a(1) b this] a(1) b show ?thesis by blast
qed

text \<open>Anchoring an event that has no anchor, with the local publisher, succeeds; it writes
  only that row's anchor, leaves every verdict of verification as it was, and cannot be
  repeated.\<close>

theorem anchoring_changes_no_verdict:
  assumes "get_row tbl i = Some row" and "ar_ledger_anchor_id row = None"
  shows "\<exists>tbl'. anchor_event local_publish tbl i = Inr tbl'
    \<and> get_row tbl' i = Some (row\<lparr>ar_ledger_anchor_id := Some (''local:'' @ take 32 (ar_event_hash row))\<rparr>)
    \<and> map (\<lambda>r. r\<lparr>ar_ledger_anchor_id := None\<rparr>) tbl' = map (\<lambda>r. r\<lparr>ar_ledger_anchor_id := None\<rparr>) tbl
    \<and> (\<forall>limit. audit_verify tbl' limit = audit_verify tbl limit)
    \<and> anchor_event local_publish tbl' i = Inl AuditError"
proof -
  from local.anchored_once [OF assms] obtain reference where
    r: "local_publish (rehydrate row) = Inr reference"
      "anchor_event local_publish tbl i = Inr (map (set_anchor i reference) tbl)"
      "anchor_event local_publish (map (set_anchor i reference) tbl) i = Inl AuditError" by blast
  have "reference = ''local:'' @ take 32 (ar_event_hash row)" using r(1) by (simp add: local_publish_def)
  moreover have "ar_id row = i" using assms(1) by (auto simp: get_row_def find_Some_iff)
  ultimately have "set_anchor i reference row
      = row\<lparr>ar_ledger_anchor_id := Some (''local:'' @ take 32 (ar_event_hash row))\<rparr>"
    by (simp add: set_anchor_def)
  with r(2,3) show ?thesis
    by (intro exI [of _ "map (set_anchor i reference) tbl"])
       (simp add: find_map_anchor assms(1) audit_verify_set_anchor)
qed

lemma anchoring_changes_no_verdict_witness:
  "\<exists>row tbl'. new_row [] (demo_event 3 0) = Inr row \<and> anchor_event local_publish [row] 3 = Inr tbl'
     \<and> audit_verify tbl' None = audit_verify [row] None"
proof -
  obtain row where row: "new_row [] (demo_event 3 0) = Inr row" "ar_id row = 3" "ar_ledger_anchor_id row = None"
    by (rule demo_append [of 0 3]) simp_all
  have "get_row [row] 3 = Some row" by (simp add: get_row_def row(2))
  from anchoring_changes_no_verdict [OF this row(3)] row(1) show ?thesis by blast
qed

end
