(* ===== verification/Tables.thy ===== *)
theory Tables
  imports Decimal_Laws
begin

text \<open>
  Tables of the database as lists of rows in insertion order, with the operations the
  repositories issue: fetch by primary key (\<open>repositories/base.py\<close>), update of one row, and
  the constraints a flush checks. A violated constraint is an \<open>IntegrityError\<close> with the
  constraint's name; a \<open>CHECK\<close> whose operand is \<open>NULL\<close> passes. A \<open>Numeric(p, s)\<close> column
  rounds what it is given to \<open>s\<close> decimals, half away from zero, and refuses what then has more
  than \<open>p\<close> digits (a \<open>DataError\<close>, before any constraint is looked at).
\<close>

definition fetch :: "('r \<Rightarrow> uuid) \<Rightarrow> 'r list \<Rightarrow> uuid \<Rightarrow> 'r option" where
  "fetch key rows i = List.find (\<lambda>r. key r = i) rows"

definition modify :: "('r \<Rightarrow> uuid) \<Rightarrow> uuid \<Rightarrow> ('r \<Rightarrow> 'r) \<Rightarrow> 'r list \<Rightarrow> 'r list" where
  "modify key i f rows = map (\<lambda>r. if key r = i then f r else r) rows"

definition constraint :: "bool \<Rightarrow> string \<Rightarrow> unit result" where
  "constraint holds name = guardE holds (IntegrityError name)"

definition known :: "('r \<Rightarrow> uuid) \<Rightarrow> 'r list \<Rightarrow> uuid \<Rightarrow> bool" where
  "known key rows i \<longleftrightarrow> i \<in> set (map key rows)"

definition numeric :: "nat \<Rightarrow> nat \<Rightarrow> decimal \<Rightarrow> decimal result" where
  "numeric p s d =
     (let c = quantized s d in if \<bar>c\<bar> < 10 ^ p then Inr (Dec c (- int s)) else Inl DataError)"

definition nullable :: "('a \<Rightarrow> 'a result) \<Rightarrow> 'a option \<Rightarrow> 'a option result" where
  "nullable column v = (case v of None \<Rightarrow> Inr None | Some d \<Rightarrow> bindE (column d) (\<lambda>d. Inr (Some d)))"

text \<open>The checks of a flush in turn; the first that fails is reported.\<close>

fun all_checks :: "(bool \<times> string) list \<Rightarrow> unit result" where
  "all_checks [] = Inr ()"
| "all_checks ((holds, name) # cs) = bindE (constraint holds name) (\<lambda>_. all_checks cs)"

named_theorems table_simps \<open>reading and updating tables\<close>

lemma all_checks_eq [simp]: "all_checks cs = Inr u \<longleftrightarrow> list_all fst cs"
  by (induction cs) (auto simp: constraint_def bindE_eq_Inr)

lemma all_checks_fails: "\<not> list_all fst cs \<Longrightarrow> \<exists>c. all_checks cs = Inl (IntegrityError c)"
proof (induction cs)
  case (Cons c cs)
  then show ?case by (cases c) (auto simp: constraint_def guardE_def)
qed simp

lemma all_checks_cases:
  "all_checks cs = Inr () \<and> list_all fst cs \<or> (\<exists>c. all_checks cs = Inl (IntegrityError c)) \<and> \<not> list_all fst cs"
  using all_checks_eq [of cs "()"] all_checks_fails [of cs] by blast

declare all_checks.simps [simp del]

lemma find_append: "List.find P (xs @ ys) = (case List.find P xs of None \<Rightarrow> List.find P ys | Some x \<Rightarrow> Some x)"
  by (induction xs) simp_all

lemma fetch_SomeD: "fetch key rows i = Some r \<Longrightarrow> r \<in> set rows \<and> key r = i"
  by (auto simp: fetch_def find_Some_iff)

lemma fetch_None: "fetch key rows i = None \<longleftrightarrow> i \<notin> key ` set rows"
  by (auto simp: fetch_def find_None_iff)

lemma fetch_known: "known key rows i \<longleftrightarrow> fetch key rows i \<noteq> None"
  by (simp add: known_def fetch_None)

lemma fetch_member:
  assumes "distinct (map key rows)" "r \<in> set rows"
  shows "fetch key rows (key r) = Some r"
  using assms unfolding fetch_def
proof (induction rows)
  case (Cons q rows)
  show ?case
  proof (cases "r = q")
    case False
    with Cons.prems have "r \<in> set rows" "key q \<noteq> key r" by auto
    with Cons show ?thesis by simp
  qed simp
qed simp

lemma fetch_unique:
  assumes "distinct (map key rows)"
  shows "fetch key rows i = Some r \<longleftrightarrow> r \<in> set rows \<and> key r = i"
  using fetch_member [OF assms, of r] fetch_SomeD [of key rows i r] by auto

lemma fetch_append [table_simps]:
  "fetch key (rows @ [r]) i =
   (case fetch key rows i of Some q \<Rightarrow> Some q | None \<Rightarrow> if key r = i then Some r else None)"
  unfolding fetch_def by (induction rows) auto

lemma known_append [simp]: "known key (rows @ [r]) i \<longleftrightarrow> known key rows i \<or> key r = i"
  by (auto simp: known_def)

lemma fetch_append_new: "\<not> known key rows i \<Longrightarrow> key r = i \<Longrightarrow> fetch key (rows @ [r]) i = Some r"
  by (auto simp: fetch_append fetch_known split: option.splits)

lemma fetch_persists: "known key xs i \<Longrightarrow> fetch key (xs @ ys) i = fetch key xs i"
proof (induction xs)
  case (Cons x xs)
  then show ?case by (cases "key x = i") (simp_all add: fetch_def known_def)
qed (simp add: known_def)

lemma keys_modify [simp]: "(\<And>r. key (f r) = key r) \<Longrightarrow> map key (modify key i f rows) = map key rows"
  by (simp add: modify_def comp_def cong: map_cong)

lemma modify_keeps: "(\<And>r. g (f r) = g r) \<Longrightarrow> map g (modify key i f rows) = map g rows"
  by (simp add: modify_def comp_def)

lemma fetch_modify [table_simps]:
  assumes "\<And>r. key (f r) = key r"
  shows "fetch key (modify key i f rows) j =
    (if i = j then map_option f (fetch key rows j) else fetch key rows j)"
  using assms unfolding fetch_def modify_def by (induction rows) auto

lemma set_modify: "r \<in> set (modify key i f rows) \<longleftrightarrow>
    (\<exists>q \<in> set rows. r = (if key q = i then f q else q))"
  unfolding modify_def set_map image_iff by blast

section \<open>Numeric columns\<close>

lemma numeric_val: "numeric p s d = Inr e \<Longrightarrow> val e = round_half_up s (val d)"
  by (auto simp: numeric_def Let_def quantized_rhu round_half_up_def val_def power_int_minus divide_inverse
      split: if_splits)

lemma numeric_Inl: "numeric p s d = Inl e \<Longrightarrow> e = DataError"
  by (auto simp: numeric_def Let_def split: if_splits)

text \<open>A value a column holds is stored as it is.\<close>

lemma numeric_exact [simp]: "numeric p s (Dec c (- int s)) = (if \<bar>c\<bar> < 10 ^ p then Inr (Dec c (- int s)) else Inl DataError)"
  by (simp add: numeric_def Let_def quantized_def)

lemma numeric_fits:
  assumes "\<bar>val d\<bar> \<le> of_int m" and "m * 10 ^ s < 10 ^ p"
  shows "\<exists>e. numeric p s d = Inr e"
proof -
  have "val d * 10 ^ s \<le> of_int m * 10 ^ s" "- of_int m * 10 ^ s \<le> val d * 10 ^ s"
    using assms(1) by (intro mult_right_mono; simp add: abs_le_iff)+
  then have "val d * 10 ^ s \<le> of_int (m * 10 ^ s)" "of_int (- (m * 10 ^ s)) \<le> val d * 10 ^ s"
    by simp_all
  then have "rhu (val d * 10 ^ s) \<le> m * 10 ^ s" "- (m * 10 ^ s) \<le> rhu (val d * 10 ^ s)"
    using rhu_mono by (metis rhu_of_int)+
  with assms(2) have "\<bar>rhu (val d * 10 ^ s)\<bar> < 10 ^ p" by linarith
  then show ?thesis by (simp add: numeric_def Let_def quantized_rhu)
qed

lemma nullable_Inl: "nullable c v = Inl e \<Longrightarrow> \<exists>d. v = Some d \<and> c d = Inl e"
  by (cases v) (auto simp: nullable_def bindE_eq_Inl)

lemma nullable_Inr: "nullable c v = Inr w \<longleftrightarrow>
    (case v of None \<Rightarrow> w = None | Some d \<Rightarrow> \<exists>e. c d = Inr e \<and> w = Some e)"
  by (cases v) (auto simp: nullable_def bindE_eq_Inr)

end
