(* ===== verification/Eligibility.thy ===== *)
theory Eligibility
  imports Domain_Enums
begin

text \<open>
  The trading-eligibility policy (\<open>domain/policies/eligibility.py\<close>): the verification level
  in force at an instant, and who may buy and sell with every reason why not. The facts say
  exactly when each side is open and that the reasons are complete.
\<close>

section \<open>The policy\<close>

definition TRADING_ROLES :: "user_role list" where
  "TRADING_ROLES = [CONSUMER, PROSUMER]"

definition SELLING_ROLES :: "user_role list" where
  "SELLING_ROLES = [PROSUMER]"

definition MINIMUM_TRADING_LEVEL :: verification_level where
  "MINIMUM_TRADING_LEVEL = DISCOM_VERIFIED"

record verification_evidence =
  ve_status :: verification_status
  ve_level :: verification_level
  ve_expires_at :: "datetime option"

record eligibility_input =
  ei_role :: user_role
  ei_status :: user_status
  ei_evaluated_at :: datetime
  ei_utility_account_level :: verification_level
  ei_meter_level :: verification_level
  ei_market_consent :: bool
  ei_meter_data_consent :: bool
  ei_active_generation_asset :: bool

record eligibility_decision =
  ed_can_buy :: bool
  ed_can_sell :: bool
  ed_trust_level :: verification_level
  ed_reasons :: "string list"

definition can_trade :: "eligibility_decision \<Rightarrow> bool" where
  "can_trade d \<longleftrightarrow> ed_can_buy d \<or> ed_can_sell d"

fun resolve_from ::
  "datetime \<Rightarrow> verification_level \<Rightarrow> verification_evidence list \<Rightarrow> verification_level" where
  "resolve_from now best [] = best"
| "resolve_from now best (item # rest) =
     (if ve_status item \<noteq> VERIFIED then resolve_from now best rest
      else if (case ve_expires_at item of None \<Rightarrow> False | Some t \<Rightarrow> t \<le> now)
      then resolve_from now best rest
      else resolve_from now (if rank (ve_level item) > rank best then ve_level item else best) rest)"

definition resolve_verification_level ::
  "verification_evidence list \<Rightarrow> datetime \<Rightarrow> verification_level" where
  "resolve_verification_level evidence now = resolve_from now Level_NONE evidence"

definition buy_blocking :: "eligibility_input \<Rightarrow> string list" where
  "buy_blocking d =
     (if ei_status d \<noteq> User_ACTIVE then [''USER_NOT_ACTIVE''] else [])
     @ (if ei_role d \<notin> set TRADING_ROLES then [''ROLE_NOT_PERMITTED_TO_TRADE''] else [])
     @ (if rank (ei_utility_account_level d) < rank MINIMUM_TRADING_LEVEL
        then [''UTILITY_ACCOUNT_NOT_DISCOM_VERIFIED''] else [])
     @ (if \<not> ei_market_consent d then [''MARKET_PARTICIPATION_CONSENT_MISSING''] else [])"

definition sell_blocking :: "eligibility_input \<Rightarrow> string list" where
  "sell_blocking d =
     buy_blocking d
     @ (if ei_role d \<notin> set SELLING_ROLES then [''ROLE_NOT_PERMITTED_TO_SELL''] else [])
     @ (if \<not> ei_active_generation_asset d then [''NO_ACTIVE_GENERATION_ASSET''] else [])
     @ (if rank (ei_meter_level d) < rank MINIMUM_TRADING_LEVEL
        then [''METER_NOT_DISCOM_VERIFIED''] else [])
     @ (if \<not> ei_meter_data_consent d then [''METER_DATA_CONSENT_MISSING''] else [])"

text \<open>\<open>dict.fromkeys\<close> keeps the first occurrence of each element, in order.\<close>

fun from_keys :: "'a list \<Rightarrow> 'a list" where
  "from_keys [] = []"
| "from_keys (x # xs) = x # filter (\<lambda>y. y \<noteq> x) (from_keys xs)"

definition evaluate_eligibility :: "eligibility_input \<Rightarrow> eligibility_decision" where
  "evaluate_eligibility d =
     \<lparr>ed_can_buy = (buy_blocking d = []),
      ed_can_sell = (sell_blocking d = []),
      ed_trust_level =
        (if rank (ei_meter_level d) < rank (ei_utility_account_level d)
         then ei_meter_level d else ei_utility_account_level d),
      ed_reasons = from_keys (sell_blocking d)\<rparr>"

section \<open>Facts\<close>

text \<open>Evidence in force: verified and not expired.\<close>

definition in_force :: "datetime \<Rightarrow> verification_evidence \<Rightarrow> bool" where
  "in_force now item \<longleftrightarrow> ve_status item = VERIFIED \<and> pred_option (\<lambda>t. now < t) (ve_expires_at item)"

lemma not_in_force:
  "\<not> in_force now item \<longleftrightarrow>
   ve_status item \<noteq> VERIFIED \<or> (case ve_expires_at item of None \<Rightarrow> False | Some t \<Rightarrow> t \<le> now)"
  by (cases "ve_expires_at item") (auto simp: in_force_def not_less)

lemma resolve_from_step:
  "resolve_from now best (item # rest) =
   resolve_from now (if in_force now item then max best (ve_level item) else best) rest"
proof -
  have "(if rank (ve_level item) > rank best then ve_level item else best) = max best (ve_level item)"
    by (cases best; cases "ve_level item") (simp_all add: max_def less_eq_verification_level_def)
  then show ?thesis using not_in_force [of now item] by (cases "in_force now item") auto
qed

lemma resolve_from_Max:
  "resolve_from now best evidence = Max (insert best (ve_level ` {e \<in> set evidence. in_force now e}))"
proof (induction evidence arbitrary: best)
  case (Cons item rest)
  let ?S = "ve_level ` {e \<in> set rest. in_force now e}"
  have fin: "finite ?S" by simp
  have split: "ve_level ` {e \<in> set (item # rest). in_force now e}
      = (if in_force now item then insert (ve_level item) ?S else ?S)"
    by auto
  show ?case
  proof (cases "in_force now item")
    case True
    have "Max (insert (max a b) S) = Max (insert a (insert b S))"
      if "finite S" for a b :: verification_level and S
      using that by (cases "S = {}") (simp_all add: max.assoc)
    from this [OF fin]
    have "Max (insert (max best (ve_level item)) ?S) = Max (insert best (insert (ve_level item) ?S))" .
    with True show ?thesis by (simp only: resolve_from_step Cons.IH split if_True)
  next
    case False
    then show ?thesis by (simp only: resolve_from_step Cons.IH split if_False)
  qed
qed simp

lemma Level_NONE_least [simp]: "Level_NONE \<le> l"
  by (simp add: less_eq_verification_level_def)

text \<open>A level is reached exactly when evidence in force reaches it.\<close>

lemma resolve_reaches:
  assumes "l \<noteq> Level_NONE"
  shows "l \<le> resolve_verification_level evidence now \<longleftrightarrow>
    (\<exists>e \<in> set evidence. in_force now e \<and> l \<le> ve_level e)"
proof -
  have "\<not> l \<le> Level_NONE"
    using assms by (cases l) (simp_all add: less_eq_verification_level_def)
  then show ?thesis
    by (auto simp: resolve_verification_level_def resolve_from_Max Max_ge_iff)
qed

lemma rank_minimum: "rank l < rank MINIMUM_TRADING_LEVEL \<longleftrightarrow> l \<noteq> DISCOM_VERIFIED"
  by (cases l) (simp_all add: MINIMUM_TRADING_LEVEL_def)

lemma DISCOM_top [simp]: "DISCOM_VERIFIED \<le> l \<longleftrightarrow> l = DISCOM_VERIFIED"
  by (cases l) (simp_all add: less_eq_verification_level_def)

lemma can_buy_iff:
  "ed_can_buy (evaluate_eligibility d) \<longleftrightarrow>
   ei_status d = User_ACTIVE \<and> ei_role d \<in> {CONSUMER, PROSUMER}
   \<and> ei_utility_account_level d = DISCOM_VERIFIED \<and> ei_market_consent d"
  by (auto simp: evaluate_eligibility_def buy_blocking_def rank_minimum TRADING_ROLES_def)

lemma can_sell_iff:
  "ed_can_sell (evaluate_eligibility d) \<longleftrightarrow>
   ed_can_buy (evaluate_eligibility d) \<and> ei_role d = PROSUMER \<and> ei_active_generation_asset d
   \<and> ei_meter_level d = DISCOM_VERIFIED \<and> ei_meter_data_consent d"
  by (auto simp: evaluate_eligibility_def sell_blocking_def rank_minimum SELLING_ROLES_def)

lemma set_from_keys [simp]: "set (from_keys xs) = set xs"
  by (induction xs) auto

lemma distinct_from_keys [simp]: "distinct (from_keys xs)"
  by (induction xs) simp_all

lemma reasons_facts:
  "distinct (ed_reasons (evaluate_eligibility d))"
  "ed_reasons (evaluate_eligibility d) = [] \<longleftrightarrow> ed_can_sell (evaluate_eligibility d)"
  by (auto simp: evaluate_eligibility_def) (metis list.set(1) set_empty set_from_keys)+

lemma trust_is_weaker:
  "ed_trust_level (evaluate_eligibility d) = min (ei_utility_account_level d) (ei_meter_level d)"
  by (auto simp: evaluate_eligibility_def min_def less_eq_verification_level_def not_less
      simp flip: rank_inject)

end
