(* ===== verification/Registry.thy ===== *)
theory Registry
  imports Tables Eligibility
begin

text \<open>
  The identity and asset registry: the tables of \<open>db/models/identity.py\<close> and
  \<open>db/models/assets.py\<close>, the queries of their repositories, and the two services over them
  (\<open>services/identity_service.py\<close>, \<open>services/asset_service.py\<close>). Every operation is one
  transaction: it returns the registry it commits, or raises and leaves it as it was. New
  primary keys (\<open>uuid4\<close>) and the clock are arguments; \<open>created_at\<close> and \<open>updated_at\<close> are left
  out where no operation reads them.
\<close>

section \<open>Rows\<close>

record user_row =
  us_id :: uuid
  us_email :: "string option"
  us_display_name :: string
  us_role :: user_role
  us_status :: user_status

record utility_account_row =
  ua_id :: uuid
  ua_user_id :: uuid
  ua_discom_code :: string
  ua_consumer_number_hash :: string
  ua_verification_level :: verification_level
  ua_verified_at :: "datetime option"

record consent_row =
  co_id :: uuid
  co_user_id :: uuid
  co_scope :: consent_scope
  co_granted_at :: datetime
  co_revoked_at :: "datetime option"

record grid_node_row =
  gn_id :: uuid
  gn_external_ref :: string
  gn_node_type :: grid_node_type
  gn_nominal_voltage_kv :: decimal
  gn_parent_node_id :: "uuid option"
  gn_feeder_id :: "string option"
  gn_rated_capacity_kw :: "decimal option"

record site_row =
  si_id :: uuid
  si_owner_user_id :: uuid
  si_name :: string
  si_latitude :: "decimal option"
  si_longitude :: "decimal option"
  si_grid_node_id :: "uuid option"
  si_timezone :: string

record meter_row =
  me_id :: uuid
  me_site_id :: uuid
  me_meter_type :: meter_type
  me_vendor :: "string option"
  me_external_meter_ref :: "string option"
  me_verification_level :: verification_level
  me_active :: bool

record asset_row =
  as_id :: uuid
  as_site_id :: uuid
  as_asset_type :: energy_asset_type
  as_capacity_kw :: decimal
  as_commissioned_at :: "datetime option"
  as_status :: energy_asset_status

record inverter_row =
  iv_id :: uuid
  iv_energy_asset_id :: uuid
  iv_manufacturer :: "string option"
  iv_model :: "string option"
  iv_protocol :: inverter_protocol
  iv_external_device_ref :: "string option"
  iv_adapter_type :: "string option"

record verification_row =
  vr_id :: uuid
  vr_user_id :: uuid
  vr_asset_id :: "uuid option"
  vr_verification_type :: verification_type
  vr_source :: verification_source
  vr_verification_level :: verification_level
  vr_status :: verification_status
  vr_verified_at :: "datetime option"
  vr_expires_at :: "datetime option"

record registry =
  t_users :: "user_row list"
  t_utility_accounts :: "utility_account_row list"
  t_consents :: "consent_row list"
  t_grid_nodes :: "grid_node_row list"
  t_sites :: "site_row list"
  t_meters :: "meter_row list"
  t_energy_assets :: "asset_row list"
  t_inverters :: "inverter_row list"
  t_verifications :: "verification_row list"

section \<open>Constraints\<close>

text \<open>In PostgreSQL's order: checks on the row, then keys, then references.
  \<open>length(trim(s)) > 0\<close>: \<open>trim\<close> strips spaces only. A unique column admits many \<open>NULL\<close>s.\<close>

definition not_blank :: "string \<Rightarrow> bool" where
  "not_blank s \<longleftrightarrow> list_ex (\<lambda>c. c \<noteq> CHR 0x20) s"

definition unclaimed :: "'k option \<Rightarrow> 'k option list \<Rightarrow> bool" where
  "unclaimed k ks \<longleftrightarrow> k = None \<or> k \<notin> set ks"

definition user_checks :: "user_row list \<Rightarrow> user_row \<Rightarrow> (bool \<times> string) list" where
  "user_checks others u =
     [(not_blank (us_display_name u), ''ck_users_display_name_not_blank''),
      (\<not> known us_id others (us_id u), ''pk_users''),
      (unclaimed (us_email u) (map us_email others), ''uq_users_email'')]"

definition site_checks :: "'a registry_scheme \<Rightarrow> site_row \<Rightarrow> (bool \<times> string) list" where
  "site_checks reg s =
     [(pred_option (\<lambda>x. Dec (- 90) 0 \<le> x \<and> x \<le> Dec 90 0) (si_latitude s), ''ck_sites_latitude_range''),
      (pred_option (\<lambda>x. Dec (- 180) 0 \<le> x \<and> x \<le> Dec 180 0) (si_longitude s), ''ck_sites_longitude_range''),
      (not_blank (si_name s), ''ck_sites_name_not_blank''),
      (\<not> known si_id (t_sites reg) (si_id s), ''pk_sites''),
      (known us_id (t_users reg) (si_owner_user_id s), ''fk_sites_owner_user_id_users''),
      (pred_option (known gn_id (t_grid_nodes reg)) (si_grid_node_id s),
       ''fk_sites_grid_node_id_grid_nodes'')]"

definition meter_checks :: "'a registry_scheme \<Rightarrow> meter_row \<Rightarrow> (bool \<times> string) list" where
  "meter_checks reg m =
     [(\<not> known me_id (t_meters reg) (me_id m), ''pk_meters''),
      (unclaimed (me_external_meter_ref m) (map me_external_meter_ref (t_meters reg)),
       ''uq_meters_external_meter_ref''),
      (known si_id (t_sites reg) (me_site_id m), ''fk_meters_site_id_sites'')]"

definition asset_checks :: "'a registry_scheme \<Rightarrow> asset_row \<Rightarrow> (bool \<times> string) list" where
  "asset_checks reg a =
     [(0 < as_capacity_kw a, ''ck_energy_assets_capacity_positive''),
      (\<not> known as_id (t_energy_assets reg) (as_id a), ''pk_energy_assets''),
      (known si_id (t_sites reg) (as_site_id a), ''fk_energy_assets_site_id_sites'')]"

definition inverter_checks :: "'a registry_scheme \<Rightarrow> inverter_row \<Rightarrow> (bool \<times> string) list" where
  "inverter_checks reg v =
     [(\<not> known iv_id (t_inverters reg) (iv_id v), ''pk_inverter_devices''),
      (unclaimed (iv_external_device_ref v) (map iv_external_device_ref (t_inverters reg)),
       ''uq_inverter_devices_external_device_ref''),
      (known as_id (t_energy_assets reg) (iv_energy_asset_id v),
       ''fk_inverter_devices_energy_asset_id_energy_assets'')]"

definition verification_checks :: "'a registry_scheme \<Rightarrow> verification_row \<Rightarrow> (bool \<times> string) list" where
  "verification_checks reg v =
     [(case (vr_expires_at v, vr_verified_at v) of
         (Some e, Some w) \<Rightarrow> w < e | _ \<Rightarrow> True, ''ck_verification_records_expires_after_verified''),
      (vr_status v \<noteq> VERIFIED \<or> vr_verified_at v \<noteq> None,
       ''ck_verification_records_verified_at_required_when_verified''),
      (\<not> known vr_id (t_verifications reg) (vr_id v), ''pk_verification_records''),
      (known us_id (t_users reg) (vr_user_id v), ''fk_verification_records_user_id_users''),
      (pred_option (known as_id (t_energy_assets reg)) (vr_asset_id v),
       ''fk_verification_records_asset_id_energy_assets'')]"

text \<open>An insert whose violated constraints are all reported as one domain conflict.\<close>

definition or_conflict :: "string \<Rightarrow> unit result \<Rightarrow> unit result" where
  "or_conflict code r = (case r of Inl (IntegrityError _) \<Rightarrow> Inl (ConflictError code) | _ \<Rightarrow> r)"

section \<open>Identity service\<close>

record user_create =
  uc_display_name :: string
  uc_role :: user_role
  uc_email :: "string option"
  uc_status :: user_status

text \<open>A partial update: \<open>None\<close> is a field the request leaves unset, \<open>Some None\<close> an explicit null.\<close>

record user_update =
  uu_display_name :: "string option option"
  uu_email :: "string option option"
  uu_status :: "user_status option option"

definition create_user ::
  "'a registry_scheme \<Rightarrow> user_create \<Rightarrow> uuid \<Rightarrow> ('a registry_scheme \<times> user_row) result" where
  "create_user reg payload new_id =
     (if uc_email payload \<noteq> None \<and> uc_email payload \<in> set (map us_email (t_users reg))
      then Inl (ConflictError ''USER_EMAIL_ALREADY_EXISTS'')
      else
        (let u = \<lparr>us_id = new_id, us_email = uc_email payload,
                  us_display_name = uc_display_name payload, us_role = uc_role payload,
                  us_status = uc_status payload\<rparr>
         in bindE (or_conflict ''USER_EMAIL_ALREADY_EXISTS'' (all_checks (user_checks (t_users reg) u)))
              (\<lambda>_. Inr (reg\<lparr>t_users := t_users reg @ [u]\<rparr>, u))))"

definition get_user :: "'a registry_scheme \<Rightarrow> uuid \<Rightarrow> user_row result" where
  "get_user reg user_id =
     (case fetch us_id (t_users reg) user_id of
        None \<Rightarrow> Inl (NotFoundError ''USER_NOT_FOUND'') | Some u \<Rightarrow> Inr u)"

text \<open>Setting a column that may not be null to null violates its constraint at the flush.\<close>

definition set_field :: "'a option option \<Rightarrow> 'a \<Rightarrow> 'a result" where
  "set_field field old =
     (case field of
        None \<Rightarrow> Inr old
      | Some None \<Rightarrow> Inl (IntegrityError ''not_null'')
      | Some (Some new) \<Rightarrow> Inr new)"

definition updated_user :: "user_update \<Rightarrow> user_row \<Rightarrow> user_row result" where
  "updated_user payload u =
     bindE (set_field (uu_display_name payload) (us_display_name u)) (\<lambda>name.
     bindE (set_field (uu_status payload) (us_status u)) (\<lambda>status.
     Inr (u\<lparr>us_display_name := name, us_status := status,
            us_email := (case uu_email payload of None \<Rightarrow> us_email u | Some e \<Rightarrow> e)\<rparr>)))"

definition update_user ::
  "'a registry_scheme \<Rightarrow> uuid \<Rightarrow> user_update \<Rightarrow> 'a registry_scheme result" where
  "update_user reg user_id payload =
     bindE (get_user reg user_id) (\<lambda>u.
       case updated_user payload u of
         Inl _ \<Rightarrow> Inl (ConflictError ''USER_EMAIL_ALREADY_EXISTS'')
       | Inr u' \<Rightarrow>
           bindE (or_conflict ''USER_EMAIL_ALREADY_EXISTS''
                    (all_checks (user_checks (filter (\<lambda>w. us_id w \<noteq> user_id) (t_users reg)) u')))
             (\<lambda>_. Inr (reg\<lparr>t_users := modify us_id user_id (\<lambda>_. u') (t_users reg)\<rparr>)))"

definition has_active_scope :: "'a registry_scheme \<Rightarrow> uuid \<Rightarrow> consent_scope \<Rightarrow> bool" where
  "has_active_scope reg user_id scope \<longleftrightarrow>
     list_ex (\<lambda>c. co_user_id c = user_id \<and> co_scope c = scope \<and> co_revoked_at c = None) (t_consents reg)"

definition UTILITY_EVIDENCE_TYPES :: "verification_type list" where
  "UTILITY_EVIDENCE_TYPES = [Evidence_UTILITY_ACCOUNT, Evidence_IDENTITY]"

definition METER_EVIDENCE_TYPES :: "verification_type list" where
  "METER_EVIDENCE_TYPES = [Evidence_METER]"

definition GENERATION_ASSET_TYPES :: "energy_asset_type list" where
  "GENERATION_ASSET_TYPES = [PV, BATTERY]"

definition list_verifications :: "'a registry_scheme \<Rightarrow> uuid \<Rightarrow> verification_row list" where
  "list_verifications reg user_id = filter (\<lambda>v. vr_user_id v = user_id) (t_verifications reg)"

definition level_from_records ::
  "verification_row list \<Rightarrow> verification_type list \<Rightarrow> datetime \<Rightarrow> verification_level" where
  "level_from_records records types now =
     resolve_verification_level
       (map (\<lambda>v. \<lparr>ve_status = vr_status v, ve_level = vr_verification_level v,
                  ve_expires_at = vr_expires_at v\<rparr>)
          (filter (\<lambda>v. vr_verification_type v \<in> set types) records)) now"

text \<open>\<open>max(levels, key=rank)\<close>; ranks tell levels apart, so ties do not matter.\<close>

definition strongest :: "verification_level list \<Rightarrow> verification_level \<Rightarrow> verification_level" where
  "strongest stored from_records = foldr max stored from_records"

definition utility_account_level ::
  "'a registry_scheme \<Rightarrow> uuid \<Rightarrow> verification_level \<Rightarrow> verification_level" where
  "utility_account_level reg user_id from_records =
     strongest (map ua_verification_level
       (filter (\<lambda>a. ua_user_id a = user_id \<and> ua_verified_at a \<noteq> None) (t_utility_accounts reg)))
       from_records"

definition sites_of :: "'a registry_scheme \<Rightarrow> uuid \<Rightarrow> site_row list" where
  "sites_of reg user_id = filter (\<lambda>s. si_owner_user_id s = user_id) (t_sites reg)"

definition meter_level ::
  "'a registry_scheme \<Rightarrow> uuid \<Rightarrow> verification_level \<Rightarrow> verification_level" where
  "meter_level reg user_id from_records =
     strongest (map me_verification_level
       (concat (map (\<lambda>s. filter (\<lambda>m. me_site_id m = si_id s \<and> me_active m) (t_meters reg))
                 (sites_of reg user_id))))
       from_records"

definition has_active_generation_asset :: "'a registry_scheme \<Rightarrow> uuid \<Rightarrow> bool" where
  "has_active_generation_asset reg user_id \<longleftrightarrow>
     list_ex (\<lambda>a. as_asset_type a \<in> set GENERATION_ASSET_TYPES \<and> as_status a = Asset_ACTIVE
                  \<and> as_site_id a \<in> set (map si_id (sites_of reg user_id)))
       (t_energy_assets reg)"

definition get_eligibility ::
  "'a registry_scheme \<Rightarrow> uuid \<Rightarrow> datetime option \<Rightarrow> datetime
   \<Rightarrow> (eligibility_decision \<times> datetime) result" where
  "get_eligibility reg user_id given now =
     bindE (get_user reg user_id) (\<lambda>u.
       let evaluated_at = (case given of None \<Rightarrow> now | Some t \<Rightarrow> t);
           records = list_verifications reg user_id
       in Inr (evaluate_eligibility
            \<lparr>ei_role = us_role u, ei_status = us_status u, ei_evaluated_at = evaluated_at,
             ei_utility_account_level = utility_account_level reg user_id
               (level_from_records records UTILITY_EVIDENCE_TYPES evaluated_at),
             ei_meter_level = meter_level reg user_id
               (level_from_records records METER_EVIDENCE_TYPES evaluated_at),
             ei_market_consent = has_active_scope reg user_id MARKET_PARTICIPATION,
             ei_meter_data_consent = has_active_scope reg user_id METER_DATA,
             ei_active_generation_asset = has_active_generation_asset reg user_id\<rparr>,
            evaluated_at))"

section \<open>Asset service\<close>

text \<open>Coordinates are \<open>Numeric(9, 6)\<close>, capacities \<open>Numeric(12, 3)\<close>.\<close>

definition stored_site :: "site_row \<Rightarrow> site_row result" where
  "stored_site s =
     bindE (nullable (numeric 9 6) (si_latitude s)) (\<lambda>lat.
     bindE (nullable (numeric 9 6) (si_longitude s)) (\<lambda>lon.
     Inr (s\<lparr>si_latitude := lat, si_longitude := lon\<rparr>)))"

definition create_site ::
  "'a registry_scheme \<Rightarrow> site_row \<Rightarrow> 'a registry_scheme result" where
  "create_site reg s =
     (if \<not> known us_id (t_users reg) (si_owner_user_id s) then Inl (NotFoundError ''USER_NOT_FOUND'')
      else if \<not> pred_option (known gn_id (t_grid_nodes reg)) (si_grid_node_id s)
      then Inl (NotFoundError ''GRID_NODE_NOT_FOUND'')
      else bindE (stored_site s) (\<lambda>s.
           bindE (all_checks (site_checks reg s)) (\<lambda>_. Inr (reg\<lparr>t_sites := t_sites reg @ [s]\<rparr>))))"

definition get_site :: "'a registry_scheme \<Rightarrow> uuid \<Rightarrow> site_row result" where
  "get_site reg site_id =
     (case fetch si_id (t_sites reg) site_id of
        None \<Rightarrow> Inl (NotFoundError ''SITE_NOT_FOUND'') | Some s \<Rightarrow> Inr s)"

definition attach_meter ::
  "'a registry_scheme \<Rightarrow> meter_row \<Rightarrow> 'a registry_scheme result" where
  "attach_meter reg m =
     bindE (get_site reg (me_site_id m)) (\<lambda>_.
     bindE (or_conflict ''METER_REF_ALREADY_REGISTERED'' (all_checks (meter_checks reg m))) (\<lambda>_.
     Inr (reg\<lparr>t_meters := t_meters reg @ [m]\<rparr>)))"

definition register_energy_asset ::
  "'a registry_scheme \<Rightarrow> asset_row \<Rightarrow> 'a registry_scheme result" where
  "register_energy_asset reg a =
     bindE (get_site reg (as_site_id a)) (\<lambda>_.
     bindE (numeric 12 3 (as_capacity_kw a)) (\<lambda>kw.
     let row = a\<lparr>as_capacity_kw := kw\<rparr>
     in bindE (all_checks (asset_checks reg row)) (\<lambda>_.
        Inr (reg\<lparr>t_energy_assets := t_energy_assets reg @ [row]\<rparr>))))"

definition get_energy_asset :: "'a registry_scheme \<Rightarrow> uuid \<Rightarrow> asset_row result" where
  "get_energy_asset reg asset_id =
     (case fetch as_id (t_energy_assets reg) asset_id of
        None \<Rightarrow> Inl (NotFoundError ''ENERGY_ASSET_NOT_FOUND'') | Some a \<Rightarrow> Inr a)"

definition register_inverter ::
  "'a registry_scheme \<Rightarrow> inverter_row \<Rightarrow> 'a registry_scheme result" where
  "register_inverter reg v =
     bindE (get_energy_asset reg (iv_energy_asset_id v)) (\<lambda>_.
     bindE (or_conflict ''INVERTER_REF_ALREADY_REGISTERED'' (all_checks (inverter_checks reg v))) (\<lambda>_.
     Inr (reg\<lparr>t_inverters := t_inverters reg @ [v]\<rparr>)))"

text \<open>The record's user is the owner of the asset's site, whatever the request carries.\<close>

definition submit_asset_verification ::
  "'a registry_scheme \<Rightarrow> uuid \<Rightarrow> verification_row \<Rightarrow> ('a registry_scheme \<times> verification_row) result" where
  "submit_asset_verification reg asset_id v =
     bindE (get_energy_asset reg asset_id) (\<lambda>asset.
     bindE (get_site reg (as_site_id asset)) (\<lambda>s.
       let rec = v\<lparr>vr_user_id := si_owner_user_id s, vr_asset_id := Some asset_id\<rparr>
       in bindE (or_conflict ''VERIFICATION_RECORD_INVALID'' (all_checks (verification_checks reg rec))) (\<lambda>_.
          Inr (reg\<lparr>t_verifications := t_verifications reg @ [rec]\<rparr>, rec))))"

definition list_asset_verifications :: "'a registry_scheme \<Rightarrow> uuid \<Rightarrow> verification_row list result" where
  "list_asset_verifications reg asset_id =
     bindE (get_energy_asset reg asset_id) (\<lambda>_.
     Inr (filter (\<lambda>v. vr_asset_id v = Some asset_id) (t_verifications reg)))"

end
