(* ===== verification/Registry_Props.thy ===== *)
theory Registry_Props
  imports Registry
begin

text \<open>
  What the registry guarantees: every operation keeps the constraints of its tables, from any
  registry that satisfies them; who may sell is exactly who holds the evidence; and what a
  caller is told when a profile write is refused.
\<close>

section \<open>The constraints as an invariant\<close>

definition distinct_keys :: "'k option list \<Rightarrow> bool" where
  "distinct_keys ks \<longleftrightarrow> distinct (filter (\<lambda>k. k \<noteq> None) ks)"

definition emails_unique :: "user_row list \<Rightarrow> bool" where
  "emails_unique users \<longleftrightarrow>
     (\<forall>u \<in> set users. \<forall>w \<in> set users.
        us_email u \<noteq> None \<longrightarrow> us_email u = us_email w \<longrightarrow> us_id u = us_id w)"

definition registry_ok :: "'a registry_scheme \<Rightarrow> bool" where
  "registry_ok reg \<longleftrightarrow>
     distinct (map us_id (t_users reg))
     \<and> emails_unique (t_users reg)
     \<and> list_all (\<lambda>u. not_blank (us_display_name u)) (t_users reg)
     \<and> distinct (map si_id (t_sites reg))
     \<and> list_all (\<lambda>s. known us_id (t_users reg) (si_owner_user_id s)
          \<and> pred_option (known gn_id (t_grid_nodes reg)) (si_grid_node_id s)
          \<and> pred_option (\<lambda>x. - 90 \<le> val x \<and> val x \<le> 90) (si_latitude s)
          \<and> pred_option (\<lambda>x. - 180 \<le> val x \<and> val x \<le> 180) (si_longitude s)
          \<and> not_blank (si_name s)) (t_sites reg)
     \<and> distinct (map me_id (t_meters reg))
     \<and> list_all (\<lambda>m. known si_id (t_sites reg) (me_site_id m)) (t_meters reg)
     \<and> distinct_keys (map me_external_meter_ref (t_meters reg))
     \<and> distinct (map as_id (t_energy_assets reg))
     \<and> list_all (\<lambda>a. known si_id (t_sites reg) (as_site_id a) \<and> 0 < as_capacity_kw a) (t_energy_assets reg)
     \<and> distinct (map iv_id (t_inverters reg))
     \<and> distinct_keys (map iv_external_device_ref (t_inverters reg))
     \<and> list_all (\<lambda>v. known as_id (t_energy_assets reg) (iv_energy_asset_id v)) (t_inverters reg)
     \<and> distinct (map vr_id (t_verifications reg))
     \<and> list_all (\<lambda>v. known us_id (t_users reg) (vr_user_id v)
          \<and> pred_option (known as_id (t_energy_assets reg)) (vr_asset_id v)
          \<and> (vr_status v = VERIFIED \<longrightarrow> vr_verified_at v \<noteq> None)
          \<and> (\<forall>w e. vr_verified_at v = Some w \<longrightarrow> vr_expires_at v = Some e \<longrightarrow> w < e)) (t_verifications reg)"

inductive registry_step :: "'a registry_scheme \<Rightarrow> 'a registry_scheme \<Rightarrow> bool" where
  user_created: "create_user reg p i = Inr (reg', u) \<Longrightarrow> registry_step reg reg'"
| user_updated: "update_user reg i p = Inr reg' \<Longrightarrow> registry_step reg reg'"
| site_created: "create_site reg s = Inr reg' \<Longrightarrow> registry_step reg reg'"
| meter_attached: "attach_meter reg m = Inr reg' \<Longrightarrow> registry_step reg reg'"
| asset_registered: "register_energy_asset reg a = Inr reg' \<Longrightarrow> registry_step reg reg'"
| inverter_registered: "register_inverter reg v = Inr reg' \<Longrightarrow> registry_step reg reg'"
| verification_submitted: "submit_asset_verification reg i v = Inr (reg', w) \<Longrightarrow> registry_step reg reg'"

lemma or_conflict_eq [simp]: "or_conflict code r = Inr u \<longleftrightarrow> r = Inr u"
  by (auto simp: or_conflict_def split: sum.splits exn.splits)

lemma or_conflict_checks:
  "or_conflict code (all_checks cs) = (if list_all fst cs then Inr () else Inl (ConflictError code))"
  using all_checks_cases [of cs] unfolding or_conflict_def
  by (elim disjE conjE exE) (simp_all only: sum.case exn.case if_True if_False)

lemma distinct_keys_append: "distinct_keys (ks @ [k]) \<longleftrightarrow> distinct_keys ks \<and> unclaimed k ks"
  by (auto simp: unclaimed_def distinct_keys_def)

lemma list_all_weaken: "list_all P xs \<Longrightarrow> (\<And>x. P x \<Longrightarrow> Q x) \<Longrightarrow> list_all Q xs"
  by (simp add: list_all_iff)

lemma create_user_eq:
  "create_user reg p i = Inr (reg', u) \<longleftrightarrow>
   u = \<lparr>us_id = i, us_email = uc_email p, us_display_name = uc_display_name p, us_role = uc_role p,
        us_status = uc_status p\<rparr>
   \<and> list_all fst (user_checks (t_users reg) u) \<and> reg' = reg\<lparr>t_users := t_users reg @ [u]\<rparr>"
  by (auto simp: create_user_def Let_def bindE_eq_Inr user_checks_def unclaimed_def image_iff)

lemma emails_unique_append:
  assumes "emails_unique users" "unclaimed (us_email u) (map us_email users)"
  shows "emails_unique (users @ [u])"
  unfolding emails_unique_def
proof (intro ballI impI)
  fix x y
  assume xy: "x \<in> set (users @ [u])" "y \<in> set (users @ [u])" "us_email x \<noteq> None" "us_email x = us_email y"
  have new: "us_email v \<noteq> us_email u" if "v \<in> set users" "us_email u \<noteq> None" for v
    using assms(2) that unfolding unclaimed_def by (metis image_eqI set_map)
  from xy(1,2) consider "x = u" "y = u" | "x \<in> set users" "y = u" | "x = u" "y \<in> set users"
    | "x \<in> set users" "y \<in> set users" by auto
  then show "us_id x = us_id y"
  proof cases
    case 4
    with assms(1) xy show ?thesis unfolding emails_unique_def by blast
  qed (use new xy(3,4) in metis)+
qed

lemma emails_unique_mono: "emails_unique users \<Longrightarrow> set vs \<subseteq> set users \<Longrightarrow> emails_unique vs"
  unfolding emails_unique_def by blast

lemma emails_unique_same: "set us = set vs \<Longrightarrow> emails_unique us = emails_unique vs"
  unfolding emails_unique_def by simp

lemma create_user_ok:
  assumes "registry_ok reg" "create_user reg p i = Inr (reg', u)"
  shows "registry_ok reg'"
proof -
  have r: "reg' = reg\<lparr>t_users := t_users reg @ [u]\<rparr>"
    and c: "\<not> known us_id (t_users reg) (us_id u)" "unclaimed (us_email u) (map us_email (t_users reg))"
      "not_blank (us_display_name u)"
    using assms(2) by (auto simp: create_user_eq user_checks_def)
  have "emails_unique (t_users reg @ [u])"
    using assms(1) c(2) unfolding registry_ok_def by (blast intro: emails_unique_append)
  then show ?thesis
    using assms(1) c(1,3) unfolding registry_ok_def r by (simp add: known_def list_all_iff)
qed

lemma updated_user_id: "updated_user p u = Inr w \<Longrightarrow> us_id w = us_id u"
  by (auto simp: updated_user_def bindE_eq_Inr)

lemma update_user_ok:
  assumes ok: "registry_ok reg" and upd: "update_user reg i p = Inr reg'"
  shows "registry_ok reg'"
proof -
  from upd obtain u w where u: "fetch us_id (t_users reg) i = Some u" "updated_user p u = Inr w"
    and c: "list_all fst (user_checks (filter (\<lambda>x. us_id x \<noteq> i) (t_users reg)) w)"
    and r: "reg' = reg\<lparr>t_users := modify us_id i (\<lambda>_. w) (t_users reg)\<rparr>"
    by (auto simp: update_user_def get_user_def bindE_eq_Inr split: option.splits sum.splits)
  have i: "us_id w = i" using fetch_SomeD [OF u(1)] updated_user_id [OF u(2)] by simp
  have ids: "map us_id (t_users reg') = map us_id (t_users reg)"
    by (auto simp: r modify_def i)
  have mem: "x \<in> set (t_users reg') \<Longrightarrow> x = w \<or> x \<in> set (t_users reg) \<and> us_id x \<noteq> i" for x
    by (auto simp: r modify_def split: if_splits)
  have "emails_unique (filter (\<lambda>x. us_id x \<noteq> i) (t_users reg) @ [w])"
    using ok c by (intro emails_unique_append)
      (auto simp: registry_ok_def user_checks_def intro: emails_unique_mono)
  moreover have "set (t_users reg') = set (filter (\<lambda>x. us_id x \<noteq> i) (t_users reg) @ [w])"
    using fetch_SomeD [OF u(1)] by (auto simp: r modify_def image_iff split: if_splits)
  ultimately have "emails_unique (t_users reg')" using emails_unique_same by blast
  moreover have "list_all (\<lambda>u. not_blank (us_display_name u)) (t_users reg')"
    using mem ok c by (auto simp: registry_ok_def user_checks_def list_all_iff)
  ultimately show ?thesis
    using ok ids unfolding registry_ok_def by (simp add: known_def r)
qed

text \<open>Appending a row that passes its checks.\<close>

lemma degrees: "val (Dec (- 90) 0) = - 90" "val (Dec 90 0) = 90" "val (Dec (- 180) 0) = - 180" "val (Dec 180 0) = 180"
  by (simp_all add: val_def)

lemma append_ok:
  assumes "registry_ok reg"
  shows "list_all fst (site_checks reg s) \<Longrightarrow> registry_ok (reg\<lparr>t_sites := t_sites reg @ [s]\<rparr>)"
    and "list_all fst (meter_checks reg m) \<Longrightarrow> registry_ok (reg\<lparr>t_meters := t_meters reg @ [m]\<rparr>)"
    and "list_all fst (asset_checks reg a) \<Longrightarrow> registry_ok (reg\<lparr>t_energy_assets := t_energy_assets reg @ [a]\<rparr>)"
    and "list_all fst (inverter_checks reg v) \<Longrightarrow> registry_ok (reg\<lparr>t_inverters := t_inverters reg @ [v]\<rparr>)"
    and "list_all fst (verification_checks reg w) \<Longrightarrow> registry_ok (reg\<lparr>t_verifications := t_verifications reg @ [w]\<rparr>)"
proof -
  show "registry_ok (reg\<lparr>t_sites := t_sites reg @ [s]\<rparr>)" if "list_all fst (site_checks reg s)"
    using assms that unfolding registry_ok_def site_checks_def
    by (simp add: known_def list_all_iff less_eq_decimal_val degrees)
  show "registry_ok (reg\<lparr>t_meters := t_meters reg @ [m]\<rparr>)" if "list_all fst (meter_checks reg m)"
    using assms that unfolding registry_ok_def meter_checks_def by (simp add: known_def distinct_keys_append)
  show "registry_ok (reg\<lparr>t_energy_assets := t_energy_assets reg @ [a]\<rparr>)" if "list_all fst (asset_checks reg a)"
  proof -
    have k: "pred_option (known as_id (t_energy_assets reg @ [a])) x" if "pred_option (known as_id (t_energy_assets reg)) x" for x
      using that by (cases x) (simp_all add: known_def)
    from assms that show ?thesis unfolding registry_ok_def asset_checks_def
      by (simp add: list_all_iff) (auto simp: known_def intro: k)
  qed
  show "registry_ok (reg\<lparr>t_inverters := t_inverters reg @ [v]\<rparr>)" if "list_all fst (inverter_checks reg v)"
    using assms that unfolding registry_ok_def inverter_checks_def by (simp add: known_def distinct_keys_append)
  show "registry_ok (reg\<lparr>t_verifications := t_verifications reg @ [w]\<rparr>)" if "list_all fst (verification_checks reg w)"
    using assms that unfolding registry_ok_def verification_checks_def by (auto simp: known_def)
qed

lemma registry_step_ok: "registry_step reg reg' \<Longrightarrow> registry_ok reg \<Longrightarrow> registry_ok reg'"
proof (induction rule: registry_step.induct)
  case (user_created reg p i reg' u)
  then show ?case by (blast intro: create_user_ok)
next
  case (user_updated reg i p reg')
  then show ?case by (blast intro: update_user_ok)
qed (auto simp: create_site_def attach_meter_def register_energy_asset_def register_inverter_def
    submit_asset_verification_def bindE_eq_Inr Let_def intro: append_ok split: if_splits)

section \<open>Who may sell\<close>

lemma strongest_DISCOM:
  "strongest stored r = DISCOM_VERIFIED \<longleftrightarrow> DISCOM_VERIFIED \<in> set stored \<or> r = DISCOM_VERIFIED"
proof -
  have "max a b = DISCOM_VERIFIED \<longleftrightarrow> a = DISCOM_VERIFIED \<or> b = DISCOM_VERIFIED" for a b
    by (cases a; cases b) (simp_all add: max_def less_eq_verification_level_def)
  then show ?thesis unfolding strongest_def by (induction stored) auto
qed

lemma level_from_records_DISCOM:
  "level_from_records records types now = DISCOM_VERIFIED \<longleftrightarrow>
   (\<exists>v \<in> set records. vr_verification_type v \<in> set types \<and> vr_status v = VERIFIED
      \<and> vr_verification_level v = DISCOM_VERIFIED \<and> pred_option (\<lambda>t. now < t) (vr_expires_at v))"
proof -
  have "DISCOM_VERIFIED \<le> level_from_records records types now \<longleftrightarrow>
    (\<exists>v \<in> set records. vr_verification_type v \<in> set types \<and> vr_status v = VERIFIED
      \<and> vr_verification_level v = DISCOM_VERIFIED \<and> pred_option (\<lambda>t. now < t) (vr_expires_at v))"
    unfolding level_from_records_def by (subst resolve_reaches) (auto simp: in_force_def)
  then show ?thesis by simp
qed

text \<open>The evidence a seller needs, read off the tables.\<close>

definition utility_link :: "'a registry_scheme \<Rightarrow> uuid \<Rightarrow> datetime \<Rightarrow> bool" where
  "utility_link reg i now \<longleftrightarrow>
     (\<exists>a \<in> set (t_utility_accounts reg). ua_user_id a = i \<and> ua_verified_at a \<noteq> None
        \<and> ua_verification_level a = DISCOM_VERIFIED)
     \<or> (\<exists>v \<in> set (t_verifications reg). vr_user_id v = i
        \<and> vr_verification_type v \<in> {Evidence_UTILITY_ACCOUNT, Evidence_IDENTITY}
        \<and> vr_status v = VERIFIED \<and> vr_verification_level v = DISCOM_VERIFIED
        \<and> pred_option (\<lambda>t. now < t) (vr_expires_at v))"

definition meter_link :: "'a registry_scheme \<Rightarrow> uuid \<Rightarrow> datetime \<Rightarrow> bool" where
  "meter_link reg i now \<longleftrightarrow>
     (\<exists>s \<in> set (t_sites reg). \<exists>m \<in> set (t_meters reg). si_owner_user_id s = i
        \<and> me_site_id m = si_id s \<and> me_active m \<and> me_verification_level m = DISCOM_VERIFIED)
     \<or> (\<exists>v \<in> set (t_verifications reg). vr_user_id v = i \<and> vr_verification_type v = Evidence_METER
        \<and> vr_status v = VERIFIED \<and> vr_verification_level v = DISCOM_VERIFIED
        \<and> pred_option (\<lambda>t. now < t) (vr_expires_at v))"

definition consented :: "'a registry_scheme \<Rightarrow> uuid \<Rightarrow> consent_scope \<Rightarrow> bool" where
  "consented reg i scope \<longleftrightarrow>
     (\<exists>c \<in> set (t_consents reg). co_user_id c = i \<and> co_scope c = scope \<and> co_revoked_at c = None)"

definition owns_generation :: "'a registry_scheme \<Rightarrow> uuid \<Rightarrow> bool" where
  "owns_generation reg i \<longleftrightarrow>
     (\<exists>s \<in> set (t_sites reg). \<exists>a \<in> set (t_energy_assets reg). si_owner_user_id s = i
        \<and> as_site_id a = si_id s \<and> as_asset_type a \<in> {PV, BATTERY} \<and> as_status a = Asset_ACTIVE)"

lemma in_image: "x \<in> f ` S \<longleftrightarrow> (\<exists>a \<in> S. f a = x)"
  by auto

lemma utility_account_level_DISCOM:
  "utility_account_level reg i (level_from_records (list_verifications reg i) UTILITY_EVIDENCE_TYPES now)
     = DISCOM_VERIFIED \<longleftrightarrow> utility_link reg i now"
  unfolding utility_account_level_def strongest_DISCOM level_from_records_DISCOM utility_link_def
    list_verifications_def UTILITY_EVIDENCE_TYPES_def set_map set_filter in_image
  by auto

lemma meter_level_DISCOM:
  "meter_level reg i (level_from_records (list_verifications reg i) METER_EVIDENCE_TYPES now)
     = DISCOM_VERIFIED \<longleftrightarrow> meter_link reg i now"
  unfolding meter_level_def strongest_DISCOM level_from_records_DISCOM meter_link_def
    list_verifications_def METER_EVIDENCE_TYPES_def sites_of_def set_map set_filter set_concat in_image
  by auto

lemma has_active_scope_iff: "has_active_scope reg i scope \<longleftrightarrow> consented reg i scope"
  by (auto simp: has_active_scope_def consented_def list_ex_iff)

lemma has_generation_iff: "has_active_generation_asset reg i \<longleftrightarrow> owns_generation reg i"
  by (auto simp: has_active_generation_asset_def owns_generation_def list_ex_iff sites_of_def
      GENERATION_ASSET_TYPES_def)

section \<open>The registry's properties\<close>

definition empty_registry :: registry where
  "empty_registry =
     \<lparr>t_users = [], t_utility_accounts = [], t_consents = [], t_grid_nodes = [], t_sites = [],
      t_meters = [], t_energy_assets = [], t_inverters = [], t_verifications = []\<rparr>"

text \<open>A prosumer whose connection and meter the DISCOM has verified.\<close>

definition demo_registry :: registry where
  "demo_registry =
     empty_registry
       \<lparr>t_users := [\<lparr>us_id = 1, us_email = None, us_display_name = ''A'', us_role = PROSUMER,
                     us_status = User_ACTIVE\<rparr>],
        t_utility_accounts := [\<lparr>ua_id = 2, ua_user_id = 1, ua_discom_code = ''D'',
          ua_consumer_number_hash = ''h'', ua_verification_level = DISCOM_VERIFIED,
          ua_verified_at = Some 0\<rparr>],
        t_consents := [\<lparr>co_id = 3, co_user_id = 1, co_scope = MARKET_PARTICIPATION, co_granted_at = 0,
                        co_revoked_at = None\<rparr>,
                       \<lparr>co_id = 4, co_user_id = 1, co_scope = METER_DATA, co_granted_at = 0,
                        co_revoked_at = None\<rparr>],
        t_sites := [\<lparr>si_id = 5, si_owner_user_id = 1, si_name = ''S'', si_latitude = None,
                     si_longitude = None, si_grid_node_id = None, si_timezone = ''Asia/Kolkata''\<rparr>],
        t_meters := [\<lparr>me_id = 6, me_site_id = 5, me_meter_type = NET_METER, me_vendor = None,
                      me_external_meter_ref = None, me_verification_level = Level_NONE,
                      me_active = True\<rparr>],
        t_energy_assets := [\<lparr>as_id = 7, as_site_id = 5, as_asset_type = PV, as_capacity_kw = Dec 5 0,
                             as_commissioned_at = None, as_status = Asset_ACTIVE\<rparr>],
        t_verifications := [\<lparr>vr_id = 8, vr_user_id = 1, vr_asset_id = Some 7,
          vr_verification_type = Evidence_METER, vr_source = DISCOM,
          vr_verification_level = DISCOM_VERIFIED, vr_status = VERIFIED, vr_verified_at = Some 0,
          vr_expires_at = Some 100\<rparr>]\<rparr>"

text \<open>C33. Trading eligibility is exactly the evidence on file. For a known user the answer always
  comes, at the given instant or the clock's. Selling is open if and only if the user is an
  active prosumer with unrevoked consents for the market and for meter data, an active PV or
  battery on an own site, and a DISCOM-verified connection and meter, each by a stored level or by
  a verified record of the right kind that has not expired; buying needs the first link only.
  Reasons are given exactly when selling is closed.\<close>

theorem eligibility_is_the_evidence:
  assumes "get_user reg i = Inr u"
  shows "\<exists>d t. get_eligibility reg i given now = Inr (d, t) \<and> t = (case given of None \<Rightarrow> now | Some g \<Rightarrow> g)
    \<and> (ed_can_buy d \<longleftrightarrow> us_status u = User_ACTIVE \<and> us_role u \<in> {CONSUMER, PROSUMER}
         \<and> utility_link reg i t \<and> consented reg i MARKET_PARTICIPATION)
    \<and> (ed_can_sell d \<longleftrightarrow> ed_can_buy d \<and> us_role u = PROSUMER \<and> owns_generation reg i
         \<and> meter_link reg i t \<and> consented reg i METER_DATA)
    \<and> (ed_reasons d = [] \<longleftrightarrow> ed_can_sell d) \<and> distinct (ed_reasons d)"
  using assms
  by (simp add: get_eligibility_def Let_def can_buy_iff can_sell_iff reasons_facts
      utility_account_level_DISCOM meter_level_DISCOM has_active_scope_iff has_generation_iff)

lemma eligibility_is_the_evidence_witness:
  "\<exists>d. get_eligibility demo_registry 1 None 99 = Inr (d, 99) \<and> ed_can_sell d \<and> ed_reasons d = []"
proof -
  have u: "get_user demo_registry 1 = Inr (hd (t_users demo_registry))" by code_simp
  have "us_status (hd (t_users demo_registry)) = User_ACTIVE" "us_role (hd (t_users demo_registry)) = PROSUMER"
    "utility_link demo_registry 1 99" "meter_link demo_registry 1 99"
    "consented demo_registry 1 MARKET_PARTICIPATION" "consented demo_registry 1 METER_DATA"
    "owns_generation demo_registry 1"
    by (simp_all add: demo_registry_def empty_registry_def utility_link_def meter_link_def consented_def
        owns_generation_def)
  with eligibility_is_the_evidence [OF u, of None 99] show ?thesis by auto
qed

text \<open>C34. The registry keeps its integrity: from any registry whose tables satisfy their
  constraints, every run of the services' operations - users created and updated, sites, meters,
  assets, inverters and verification records registered - ends in one that does. Identifiers, email
  addresses and external references stay unique; names are not blank; every site has an owner on
  file, a grid node on file if any, and coordinates on the globe if any; every meter and asset has a
  site, every inverter its asset and every verification record its user and its asset if any;
  capacities are positive; verified records say when, and expire after it.\<close>

theorem registry_integrity:
  assumes "registry_step\<^sup>*\<^sup>* reg reg'" and "registry_ok reg"
  shows "registry_ok reg'"
  using assms by (induction rule: rtranclp_induct) (auto intro: registry_step_ok)

lemma registry_integrity_witness:
  "\<exists>reg u. create_user empty_registry
      \<lparr>uc_display_name = ''A'', uc_role = PROSUMER, uc_email = None, uc_status = User_PENDING\<rparr> 1
      = Inr (reg, u) \<and> t_users reg = [u] \<and> registry_ok reg"
proof -
  let ?p = "\<lparr>uc_display_name = ''A'', uc_role = PROSUMER, uc_email = None, uc_status = User_PENDING\<rparr>"
  define u where "u = \<lparr>us_id = 1, us_email = None, us_display_name = ''A'', us_role = PROSUMER,
    us_status = User_PENDING\<rparr>"
  have c: "create_user empty_registry ?p 1 = Inr (empty_registry\<lparr>t_users := [u]\<rparr>, u)"
    by (simp add: create_user_eq u_def empty_registry_def user_checks_def known_def unclaimed_def not_blank_def)
  have "registry_ok empty_registry"
    by (simp add: registry_ok_def empty_registry_def emails_unique_def distinct_keys_def)
  with registry_integrity [of empty_registry "empty_registry\<lparr>t_users := [u]\<rparr>"] user_created [OF c] c
  show ?thesis by (auto simp: empty_registry_def)
qed

text \<open>A refused profile write is always blamed on the email address. Clearing the display name
  of a user, which touches no email, and creating a user whose name is blank, with an address
  nobody has or none, both answer that the email is taken.\<close>

theorem refused_profile_blames_email:
  assumes "get_user reg i = Inr u"
  shows "update_user reg i \<lparr>uu_display_name = Some None, uu_email = None, uu_status = None\<rparr>
      = Inl (ConflictError ''USER_EMAIL_ALREADY_EXISTS'')
    \<and> create_user reg \<lparr>uc_display_name = '' '', uc_role = role, uc_email = None, uc_status = status\<rparr> j
      = Inl (ConflictError ''USER_EMAIL_ALREADY_EXISTS'')"
  using assms
  by (simp add: update_user_def updated_user_def set_field_def create_user_def Let_def or_conflict_checks
      user_checks_def not_blank_def)

lemma refused_profile_blames_email_witness:
  "get_user demo_registry 1 = Inr (hd (t_users demo_registry))
   \<and> update_user demo_registry 1 \<lparr>uu_display_name = Some None, uu_email = None, uu_status = None\<rparr>
      = Inl (ConflictError ''USER_EMAIL_ALREADY_EXISTS'')"
proof -
  have u: "get_user demo_registry 1 = Inr (hd (t_users demo_registry))" by code_simp
  with refused_profile_blames_email [OF u] show ?thesis by blast
qed

end
