(* ===== verification/Telemetry_Quality.thy ===== *)
theory Telemetry_Quality
  imports Domain_Enums Decimal_Laws
begin

text \<open>
  The normalized reading (\<open>domain/interfaces/telemetry.py\<close>) and its classification
  (\<open>domain/policies/telemetry_quality.py\<close>): one status per reading by a fixed precedence.
  The reasons' prose is left out; the invalid value found is kept as its channel.
\<close>

record normalized_reading =
  nr_meter_id :: uuid
  nr_timestamp :: datetime
  nr_interval_start :: datetime
  nr_interval_end :: datetime
  nr_source :: telemetry_source
  nr_energy_asset_id :: "uuid option"
  nr_generation_kw :: "decimal option"
  nr_load_kw :: "decimal option"
  nr_grid_import_kw :: "decimal option"
  nr_grid_export_kw :: "decimal option"
  nr_energy_kwh :: "decimal option"
  nr_battery_soc :: "decimal option"
  nr_source_unavailable :: bool

definition measurements :: "normalized_reading \<Rightarrow> decimal option list" where
  "measurements r =
     [nr_generation_kw r, nr_load_kw r, nr_grid_import_kw r, nr_grid_export_kw r,
      nr_energy_kwh r, nr_battery_soc r]"

definition has_any_measurement :: "normalized_reading \<Rightarrow> bool" where
  "has_any_measurement r \<longleftrightarrow> list_ex (\<lambda>v. v \<noteq> None) (measurements r)"

definition DEFAULT_STALENESS_THRESHOLD :: timedelta where
  "DEFAULT_STALENESS_THRESHOLD = 15 * 60 * 1000000"

definition BATTERY_SOC_MIN :: decimal where
  "BATTERY_SOC_MIN = Dec 0 0"

definition BATTERY_SOC_MAX :: decimal where
  "BATTERY_SOC_MAX = Dec 100 0"

record series_context =
  sc_latest_interval_start :: "datetime option"
  sc_duplicate_exists :: bool

datatype invalid_value =
  Interval_reversed | Negative_channel string | Soc_out_of_range

definition channels :: "normalized_reading \<Rightarrow> (string \<times> decimal option) list" where
  "channels r =
     [(''generation_kw'', nr_generation_kw r), (''load_kw'', nr_load_kw r),
      (''grid_import_kw'', nr_grid_import_kw r), (''grid_export_kw'', nr_grid_export_kw r),
      (''energy_kwh'', nr_energy_kwh r)]"

definition is_negative :: "decimal option \<Rightarrow> bool" where
  "is_negative v = (case v of None \<Rightarrow> False | Some d \<Rightarrow> d < 0)"

definition first_invalid_value :: "normalized_reading \<Rightarrow> invalid_value option" where
  "first_invalid_value r =
     (if nr_interval_end r < nr_interval_start r then Some Interval_reversed
      else (case List.find (\<lambda>(name, v). is_negative v) (channels r) of
              Some (name, v) \<Rightarrow> Some (Negative_channel name)
            | None \<Rightarrow>
                (case nr_battery_soc r of
                   None \<Rightarrow> None
                 | Some soc \<Rightarrow>
                     if \<not> (BATTERY_SOC_MIN \<le> soc \<and> soc \<le> BATTERY_SOC_MAX)
                     then Some Soc_out_of_range else None)))"

definition classify_reading ::
  "normalized_reading \<Rightarrow> datetime \<Rightarrow> series_context option \<Rightarrow> timedelta \<Rightarrow> telemetry_quality_status" where
  "classify_reading r evaluated_at context threshold =
     (let c = (case context of
                 None \<Rightarrow> \<lparr>sc_latest_interval_start = None, sc_duplicate_exists = False\<rparr>
               | Some c \<Rightarrow> c)
      in if nr_source_unavailable r then SOURCE_UNAVAILABLE
         else if first_invalid_value r \<noteq> None then INVALID_VALUE
         else if \<not> has_any_measurement r then MISSING
         else if sc_duplicate_exists c then DUPLICATE
         else if (case sc_latest_interval_start c of
                    None \<Rightarrow> False | Some t \<Rightarrow> nr_interval_start r < t) then OUT_OF_ORDER
         else if evaluated_at - nr_interval_end r > threshold then STALE
         else VALID)"

section \<open>Facts\<close>

text \<open>What a reading of status VALID guarantees to its readers.\<close>

definition sound_reading :: "normalized_reading \<Rightarrow> bool" where
  "sound_reading r \<longleftrightarrow>
     nr_interval_start r \<le> nr_interval_end r \<and> has_any_measurement r
     \<and> list_all (\<lambda>(name, v). pred_option (\<lambda>d. 0 \<le> val d) v) (channels r)
     \<and> pred_option (\<lambda>d. 0 \<le> val d \<and> val d \<le> 100) (nr_battery_soc r)"

lemma val_soc: "val BATTERY_SOC_MIN = 0" "val BATTERY_SOC_MAX = 100"
  by (simp_all add: BATTERY_SOC_MIN_def BATTERY_SOC_MAX_def val_def)

lemma not_negative: "\<not> is_negative v \<longleftrightarrow> pred_option (\<lambda>d. 0 \<le> val d) v"
  by (cases v) (simp_all add: is_negative_def less_decimal_val not_less)

lemma valid_first:
  "first_invalid_value r = None \<longleftrightarrow>
   nr_interval_start r \<le> nr_interval_end r
   \<and> list_all (\<lambda>(name, v). pred_option (\<lambda>d. 0 \<le> val d) v) (channels r)
   \<and> pred_option (\<lambda>d. 0 \<le> val d \<and> val d \<le> 100) (nr_battery_soc r)"
proof -
  have "List.find (\<lambda>(name, v). is_negative v) (channels r) = None \<longleftrightarrow>
      list_all (\<lambda>(name, v). pred_option (\<lambda>d. 0 \<le> val d) v) (channels r)"
    by (auto simp: find_None_iff list_all_iff not_negative [symmetric])
  then show ?thesis
    by (cases "nr_battery_soc r")
       (auto simp: first_invalid_value_def not_less less_eq_decimal_val val_soc split: option.splits)
qed

lemma sound_reading_iff: "sound_reading r \<longleftrightarrow> first_invalid_value r = None \<and> has_any_measurement r"
  unfolding sound_reading_def valid_first by blast

lemma classify_VALID:
  "classify_reading r now context threshold = VALID \<longleftrightarrow>
   \<not> nr_source_unavailable r \<and> sound_reading r
   \<and> \<not> (case context of None \<Rightarrow> False | Some c \<Rightarrow> sc_duplicate_exists c)
   \<and> (case context of None \<Rightarrow> True
        | Some c \<Rightarrow> pred_option (\<lambda>t. t \<le> nr_interval_start r) (sc_latest_interval_start c))
   \<and> now - nr_interval_end r \<le> threshold"
  by (cases "context") (auto simp: classify_reading_def sound_reading_iff Let_def not_less split: option.splits)

end
