(* ===== verification/Realtime.thy ===== *)
theory Realtime
  imports Audit_Chain Canonical_Text
begin

text \<open>
  Realtime notifications: the event and its wire message (\<open>domain/interfaces/realtime.py\<close>), the
  in-process hub that fans an event out to the subscribers of its channel
  (\<open>services/realtime_service.py\<close>) and the bounded queue of one connection (\<open>api/ws.py\<close>). A
  subscriber is what the transport registered: whether it accepts a message or raises is the
  argument \<open>accepts\<close>. Logging is left out.
\<close>

section \<open>Scalars and events\<close>

text \<open>The local time of a naive instant depends on the machine's zone and is not interpreted.\<close>

datatype scalar = S_none | S_str string | S_bool bool | S_int int | S_local_time

fun scalar_of :: "pyval \<Rightarrow> scalar result" where
  "scalar_of PNone = Inr S_none"
| "scalar_of (PStr s) = Inr (S_str s)"
| "scalar_of (PBool b) = Inr (S_bool b)"
| "scalar_of (PInt n) = Inr (S_int n)"
| "scalar_of (PDecimal d) = Inr (S_str (format_f d))"
| "scalar_of (PEnum (PStr s)) = Inr (S_str s)"
| "scalar_of (PUuid u) = Inr (S_str (uuid_text u))"
| "scalar_of (PDatetime us) = (if datetime_ok us then Inr (S_str (isoformat us)) else Inl PyOverflowError)"
| "scalar_of PNaive = Inr S_local_time"
| "scalar_of _ = Inl PyTypeError"

text \<open>What a service hands over; the event adds the instant and the identifier it is created with.\<close>

record notice =
  re_event_type :: realtime_event_type
  re_entity_type :: string
  re_entity_id :: "uuid option"
  re_trade_id :: "uuid option"
  re_payload :: "(string \<times> scalar) list"

record realtime_event = notice +
  re_occurred_at :: datetime
  re_event_id :: uuid

definition stamped :: "datetime \<Rightarrow> uuid \<Rightarrow> notice \<Rightarrow> realtime_event" where
  "stamped now event_id n = notice.extend n \<lparr>re_occurred_at = now, re_event_id = event_id\<rparr>"

definition re_channel :: "'a notice_scheme \<Rightarrow> realtime_channel" where
  "re_channel ev = channel (re_event_type ev)"

record message =
  ms_event_id :: string
  ms_event_type :: string
  ms_channel :: string
  ms_occurred_at :: string
  ms_entity_type :: string
  ms_entity_id :: "string option"
  ms_trade_id :: "string option"
  ms_payload :: "(string \<times> scalar) list"
  ms_payload_version :: string

definition to_message :: "realtime_event \<Rightarrow> message" where
  "to_message ev =
     \<lparr>ms_event_id = uuid_text (re_event_id ev),
      ms_event_type = realtime_event_value (re_event_type ev),
      ms_channel = realtime_channel_value (re_channel ev),
      ms_occurred_at = isoformat (re_occurred_at ev),
      ms_entity_type = re_entity_type ev,
      ms_entity_id = map_option uuid_text (re_entity_id ev),
      ms_trade_id = map_option uuid_text (re_trade_id ev),
      ms_payload = re_payload ev,
      ms_payload_version = ''1.0.0''\<rparr>"

section \<open>The hub\<close>

text \<open>Each channel holds its subscribers by token, in the order they came.\<close>

type_synonym 's hub = "realtime_channel \<Rightarrow> (uuid \<times> 's) list"

definition new_hub :: "'s hub" where
  "new_hub = (\<lambda>_. [])"

definition subscribe :: "'s hub \<Rightarrow> realtime_channel \<Rightarrow> uuid \<Rightarrow> 's \<Rightarrow> 's hub" where
  "subscribe hub ch token s = hub(ch := filter (\<lambda>(t, _). t \<noteq> token) (hub ch) @ [(token, s)])"

definition unsubscribe :: "'s hub \<Rightarrow> realtime_channel \<Rightarrow> uuid \<Rightarrow> 's hub" where
  "unsubscribe hub ch token = hub(ch := filter (\<lambda>(t, _). t \<noteq> token) (hub ch))"

definition subscriber_count :: "'s hub \<Rightarrow> realtime_channel \<Rightarrow> nat" where
  "subscriber_count hub ch = length (hub ch)"

text \<open>One delivery: what was delivered to whom so far, the hub and the count.\<close>

definition deliver ::
  "('s \<Rightarrow> message \<Rightarrow> bool) \<Rightarrow> realtime_channel \<Rightarrow> message \<Rightarrow> uuid \<times> 's
   \<Rightarrow> 's hub \<times> ('s \<times> message) list \<times> nat \<Rightarrow> 's hub \<times> ('s \<times> message) list \<times> nat" where
  "deliver accepts ch m = (\<lambda>(token, s) (hub, sent, n).
     if accepts s m then (hub, sent @ [(s, m)], n + 1) else (unsubscribe hub ch token, sent, n))"

definition publish ::
  "('s \<Rightarrow> message \<Rightarrow> bool) \<Rightarrow> 's hub \<Rightarrow> realtime_event \<Rightarrow> 's hub \<times> ('s \<times> message) list \<times> nat" where
  "publish accepts hub ev =
     fold (deliver accepts (re_channel ev) (to_message ev)) (hub (re_channel ev)) (hub, [], 0)"

definition reset :: "'s hub \<Rightarrow> 's hub" where
  "reset hub = (\<lambda>_. [])"

section \<open>A connection's queue\<close>

definition QUEUE_DEPTH :: nat where
  "QUEUE_DEPTH = 64"

definition enqueue :: "message list \<Rightarrow> message \<Rightarrow> message list" where
  "enqueue queue m = (if length queue \<ge> QUEUE_DEPTH then tl queue else queue) @ [m]"

section \<open>Facts\<close>

definition tokens_unique :: "'s hub \<Rightarrow> bool" where
  "tokens_unique hub \<longleftrightarrow> (\<forall>ch. distinct (map fst (hub ch)))"

definition failing :: "('s \<Rightarrow> message \<Rightarrow> bool) \<Rightarrow> message \<Rightarrow> (uuid \<times> 's) list \<Rightarrow> uuid set" where
  "failing accepts m targets = fst ` set (filter (\<lambda>(_, s). \<not> accepts s m) targets)"

lemma failing_Cons:
  "failing accepts m ((t, s) # targets) =
   (if accepts s m then failing accepts m targets else insert t (failing accepts m targets))"
  by (simp add: failing_def)

lemma unsubscribe_filter:
  "(unsubscribe hub ch t)(ch := filter (\<lambda>(u, _). u \<notin> F) (unsubscribe hub ch t ch)) =
   hub(ch := filter (\<lambda>(u, _). u \<notin> insert t F) (hub ch))"
  by (simp add: unsubscribe_def case_prod_unfold conj_commute)

lemma deliver_pair:
  "deliver accepts ch m (t, s) (hub, sent, n) =
   (if accepts s m then (hub, sent @ [(s, m)], n + 1) else (unsubscribe hub ch t, sent, n))"
  by (simp add: deliver_def)

lemma deliver_all:
  "fold (deliver accepts ch m) targets (hub, sent, n) =
    (hub(ch := filter (\<lambda>(t, _). t \<notin> failing accepts m targets) (hub ch)),
     sent @ map (\<lambda>(_, s). (s, m)) (filter (\<lambda>(_, s). accepts s m) targets),
     n + length (filter (\<lambda>(_, s). accepts s m) targets))"
proof (induction targets arbitrary: hub sent n)
  case Nil
  then show ?case by (simp add: failing_def)
next
  case (Cons x targets)
  obtain t s where x: "x = (t, s)" by (cases x)
  show ?case
    by (cases "accepts s m")
       (simp_all add: x deliver_pair failing_Cons Cons.IH unsubscribe_filter del: insert_iff fun_upd_apply)
qed

lemma enqueue_last:
  "enqueue queue m = drop (Suc (length queue) - QUEUE_DEPTH) (queue @ [m])"
  if "length queue \<le> QUEUE_DEPTH"
  using that by (cases "length queue = QUEUE_DEPTH") (auto simp: enqueue_def QUEUE_DEPTH_def drop_Suc tl_append split: list.splits)

end
