(* ===== verification/Telemetry_Service.thy ===== *)
theory Telemetry_Service
  imports Registry Telemetry_Quality Realtime
begin

text \<open>
  Telemetry ingestion and retrieval: the table (\<open>db/models/telemetry.py\<close>), its queries
  (\<open>repositories/telemetry.py\<close>) and the service (\<open>services/telemetry_service.py\<close>). An operation
  is one transaction and returns the tables it commits with the notifications it publishes
  afterwards; an exception leaves the tables as they were. The clock and the new primary keys
  are arguments; rows that an \<open>ORDER BY\<close> does not tell apart come in table order.
\<close>

section \<open>The table\<close>

record reading_row =
  rd_id :: uuid
  rd_meter_id :: uuid
  rd_energy_asset_id :: "uuid option"
  rd_timestamp :: datetime
  rd_interval_start :: datetime
  rd_interval_end :: datetime
  rd_generation_kw :: "decimal option"
  rd_load_kw :: "decimal option"
  rd_grid_import_kw :: "decimal option"
  rd_grid_export_kw :: "decimal option"
  rd_energy_kwh :: "decimal option"
  rd_battery_soc :: "decimal option"
  rd_generation_kwh :: "decimal option"
  rd_load_kwh :: "decimal option"
  rd_grid_import_kwh :: "decimal option"
  rd_grid_export_kwh :: "decimal option"
  rd_quality_status :: telemetry_quality_status
  rd_source :: telemetry_source

record telemetry_db = registry +
  t_readings :: "reading_row list"

text \<open>The natural key; two null assets are the same (\<open>NULLS NOT DISTINCT\<close>).\<close>

definition natural_key :: "reading_row \<Rightarrow> uuid \<times> uuid option \<times> datetime" where
  "natural_key r = (rd_meter_id r, rd_energy_asset_id r, rd_interval_start r)"

definition not_negative_check :: "decimal option \<Rightarrow> bool" where
  "not_negative_check v = pred_option (\<lambda>d. 0 \<le> d) v"

definition reading_checks :: "'a telemetry_db_scheme \<Rightarrow> reading_row \<Rightarrow> (bool \<times> string) list" where
  "reading_checks db r =
     [(rd_interval_start r \<le> rd_interval_end r, ''ck_interval_end_not_before_start''),
      (not_negative_check (rd_generation_kw r), ''ck_generation_kw_not_negative''),
      (not_negative_check (rd_load_kw r), ''ck_load_kw_not_negative''),
      (not_negative_check (rd_grid_import_kw r), ''ck_grid_import_kw_not_negative''),
      (not_negative_check (rd_grid_export_kw r), ''ck_grid_export_kw_not_negative''),
      (not_negative_check (rd_energy_kwh r), ''ck_energy_kwh_not_negative''),
      (pred_option (\<lambda>d. Dec 0 0 \<le> d \<and> d \<le> Dec 100 0) (rd_battery_soc r), ''ck_battery_soc_percent''),
      (\<not> known rd_id (t_readings db) (rd_id r), ''pk_telemetry_readings''),
      (natural_key r \<notin> set (map natural_key (t_readings db)),
       ''uq_telemetry_readings_meter_id_energy_asset_id_interval_start''),
      (known me_id (t_meters db) (rd_meter_id r), ''fk_telemetry_readings_meter_id_meters''),
      (pred_option (known as_id (t_energy_assets db)) (rd_energy_asset_id r),
       ''fk_telemetry_readings_energy_asset_id_energy_assets'')]"

text \<open>The measured columns as they are stored: \<open>Numeric(14, 4)\<close>, and \<open>Numeric(5, 2)\<close> for the charge.\<close>

definition stored_reading :: "reading_row \<Rightarrow> reading_row result" where
  "stored_reading r =
     bindE (nullable (numeric 14 4) (rd_generation_kw r)) (\<lambda>g.
     bindE (nullable (numeric 14 4) (rd_load_kw r)) (\<lambda>l.
     bindE (nullable (numeric 14 4) (rd_grid_import_kw r)) (\<lambda>i.
     bindE (nullable (numeric 14 4) (rd_grid_export_kw r)) (\<lambda>x.
     bindE (nullable (numeric 14 4) (rd_energy_kwh r)) (\<lambda>e.
     bindE (nullable (numeric 5 2) (rd_battery_soc r)) (\<lambda>b.
     Inr (r\<lparr>rd_generation_kw := g, rd_load_kw := l, rd_grid_import_kw := i, rd_grid_export_kw := x,
            rd_energy_kwh := e, rd_battery_soc := b\<rparr>)))))))"

definition insert_reading ::
  "reading_row \<Rightarrow> 'a telemetry_db_scheme \<Rightarrow> 'a telemetry_db_scheme result" where
  "insert_reading r db =
     bindE (stored_reading r) (\<lambda>row.
     bindE (all_checks (reading_checks db row)) (\<lambda>_.
     Inr (db\<lparr>t_readings := t_readings db @ [row]\<rparr>)))"

section \<open>Queries\<close>

fun max_of :: "datetime list \<Rightarrow> datetime option" where
  "max_of [] = None"
| "max_of (t # ts) = Some (fold max ts t)"

definition series :: "'a telemetry_db_scheme \<Rightarrow> uuid \<Rightarrow> uuid option \<Rightarrow> reading_row list" where
  "series db meter asset =
     filter (\<lambda>r. rd_meter_id r = meter \<and> rd_energy_asset_id r = asset) (t_readings db)"

definition latest_interval_start :: "'a telemetry_db_scheme \<Rightarrow> uuid \<Rightarrow> uuid option \<Rightarrow> datetime option" where
  "latest_interval_start db meter asset = max_of (map rd_interval_start (series db meter asset))"

definition exists_for_interval :: "'a telemetry_db_scheme \<Rightarrow> uuid \<Rightarrow> uuid option \<Rightarrow> datetime \<Rightarrow> bool" where
  "exists_for_interval db meter asset start \<longleftrightarrow>
     list_ex (\<lambda>r. rd_interval_start r = start) (series db meter asset)"

definition site_scoped :: "'a telemetry_db_scheme \<Rightarrow> uuid \<Rightarrow> reading_row list" where
  "site_scoped db site_id =
     filter (\<lambda>r. case fetch me_id (t_meters db) (rd_meter_id r) of
                   None \<Rightarrow> False | Some m \<Rightarrow> me_site_id m = site_id) (t_readings db)"

definition valid_only :: "bool \<Rightarrow> reading_row list \<Rightarrow> reading_row list" where
  "valid_only only rows = (if only then filter (\<lambda>r. rd_quality_status r = VALID) rows else rows)"

definition latest_for_site :: "'a telemetry_db_scheme \<Rightarrow> uuid \<Rightarrow> bool \<Rightarrow> reading_row option" where
  "latest_for_site db site_id only_valid =
     (case sort_key (\<lambda>r. - rd_interval_start r) (valid_only only_valid (site_scoped db site_id)) of
        [] \<Rightarrow> None | r # _ \<Rightarrow> Some r)"

definition site_window :: "'a telemetry_db_scheme \<Rightarrow> uuid \<Rightarrow> datetime \<Rightarrow> datetime \<Rightarrow> bool \<Rightarrow> reading_row list" where
  "site_window db site_id start stop only_valid =
     valid_only only_valid
       (filter (\<lambda>r. start \<le> rd_timestamp r \<and> rd_timestamp r \<le> stop) (site_scoped db site_id))"

definition list_for_site ::
  "'a telemetry_db_scheme \<Rightarrow> uuid \<Rightarrow> datetime \<Rightarrow> datetime \<Rightarrow> bool \<Rightarrow> nat \<Rightarrow> nat \<Rightarrow> reading_row list" where
  "list_for_site db site_id start stop only_valid limit offset =
     take limit (drop offset (sort_key rd_timestamp (site_window db site_id start stop only_valid)))"

text \<open>\<open>date_bin(resolution, t, origin)\<close> for instants not before the origin.\<close>

definition date_bin :: "timedelta \<Rightarrow> datetime \<Rightarrow> datetime \<Rightarrow> datetime" where
  "date_bin resolution t origin = origin + (t - origin) div resolution * resolution"

record aggregated_reading =
  ag_bucket_start :: datetime
  ag_generation_kw :: "decimal option"
  ag_load_kw :: "decimal option"
  ag_grid_import_kw :: "decimal option"
  ag_grid_export_kw :: "decimal option"
  ag_energy_kwh :: "decimal option"
  ag_reading_count :: nat

text \<open>
  \<open>sum\<close> is exact over the numbers that are not null, and null over none. How PostgreSQL rounds
  \<open>avg\<close> is its own affair: the function is an argument.
\<close>

definition present :: "'a option list \<Rightarrow> 'a list" where
  "present vs = map the (filter (\<lambda>v. v \<noteq> None) vs)"

definition sql_sum :: "decimal list \<Rightarrow> decimal option" where
  "sql_sum ds =
     (if ds = [] then None
      else (let e = fold min (map dexp ds) 0 in Some (Dec (sum_list (map (\<lambda>d. aligned d e) ds)) e)))"

definition aggregate_bucket ::
  "(decimal list \<Rightarrow> decimal option) \<Rightarrow> datetime \<Rightarrow> reading_row list \<Rightarrow> aggregated_reading" where
  "aggregate_bucket avg bucket rows =
     \<lparr>ag_bucket_start = bucket,
      ag_generation_kw = avg (present (map rd_generation_kw rows)),
      ag_load_kw = avg (present (map rd_load_kw rows)),
      ag_grid_import_kw = avg (present (map rd_grid_import_kw rows)),
      ag_grid_export_kw = avg (present (map rd_grid_export_kw rows)),
      ag_energy_kwh = sql_sum (present (map rd_energy_kwh rows)),
      ag_reading_count = length rows\<rparr>"

definition aggregate_for_site ::
  "(decimal list \<Rightarrow> decimal option) \<Rightarrow> 'a telemetry_db_scheme \<Rightarrow> uuid \<Rightarrow> datetime \<Rightarrow> datetime \<Rightarrow> timedelta
   \<Rightarrow> bool \<Rightarrow> aggregated_reading list result" where
  "aggregate_for_site avg db site_id start stop resolution only_valid =
     (let rows = site_window db site_id start stop only_valid;
          bin = (\<lambda>r. date_bin resolution (rd_timestamp r) start)
      in if rows \<noteq> [] \<and> resolution \<le> 0 then Inl DataError
         else Inr (map (\<lambda>b. aggregate_bucket avg b (filter (\<lambda>r. bin r = b) rows))
                       (sort (remdups (map bin rows)))))"

definition count_by_quality :: "'a telemetry_db_scheme \<Rightarrow> uuid \<Rightarrow> telemetry_quality_status \<Rightarrow> nat option" where
  "count_by_quality db site_id q =
     (let n = length (filter (\<lambda>r. rd_quality_status r = q) (site_scoped db site_id))
      in if n = 0 then None else Some n)"

definition list_for_meter :: "'a telemetry_db_scheme \<Rightarrow> uuid \<Rightarrow> datetime \<Rightarrow> datetime \<Rightarrow> reading_row list" where
  "list_for_meter db meter start stop =
     sort_key rd_interval_start
       (filter (\<lambda>r. rd_meter_id r = meter \<and> start \<le> rd_interval_start r \<and> rd_interval_start r < stop)
         (t_readings db))"

section \<open>Ingestion\<close>

definition NON_STORABLE_STATUSES :: "telemetry_quality_status list" where
  "NON_STORABLE_STATUSES = [DUPLICATE, INVALID_VALUE]"

record ingestion_outcome =
  io_status :: telemetry_quality_status
  io_reading :: "reading_row option"

definition io_stored :: "ingestion_outcome \<Rightarrow> bool" where
  "io_stored o1 \<longleftrightarrow> io_reading o1 \<noteq> None"

definition batch_accepted :: "ingestion_outcome list \<Rightarrow> nat" where
  "batch_accepted os = length (filter (\<lambda>o1. is_usable (io_status o1) \<and> io_stored o1) os)"

definition batch_flagged :: "ingestion_outcome list \<Rightarrow> nat" where
  "batch_flagged os = length os - batch_accepted os"

definition batch_stored :: "ingestion_outcome list \<Rightarrow> nat" where
  "batch_stored os = length (filter io_stored os)"

definition batch_rejected :: "ingestion_outcome list \<Rightarrow> nat" where
  "batch_rejected os = length (filter (\<lambda>o1. \<not> io_stored o1) os)"

definition counts_by_status :: "ingestion_outcome list \<Rightarrow> telemetry_quality_status \<Rightarrow> nat option" where
  "counts_by_status os q =
     (let n = length (filter (\<lambda>o1. io_status o1 = q) os) in if n = 0 then None else Some n)"

definition require_meter :: "'a telemetry_db_scheme \<Rightarrow> uuid \<Rightarrow> unit result" where
  "require_meter db meter = guardE (known me_id (t_meters db) meter) (NotFoundError ''METER_NOT_FOUND'')"

definition require_asset :: "'a telemetry_db_scheme \<Rightarrow> uuid option \<Rightarrow> unit result" where
  "require_asset db asset =
     guardE (pred_option (known as_id (t_energy_assets db)) asset) (NotFoundError ''ENERGY_ASSET_NOT_FOUND'')"

definition require_site :: "'a telemetry_db_scheme \<Rightarrow> uuid \<Rightarrow> unit result" where
  "require_site db site_id = guardE (known si_id (t_sites db) site_id) (NotFoundError ''SITE_NOT_FOUND'')"

definition to_model :: "uuid \<Rightarrow> normalized_reading \<Rightarrow> telemetry_quality_status \<Rightarrow> reading_row" where
  "to_model new_id r status =
     \<lparr>rd_id = new_id, rd_meter_id = nr_meter_id r, rd_energy_asset_id = nr_energy_asset_id r,
      rd_timestamp = nr_timestamp r, rd_interval_start = nr_interval_start r,
      rd_interval_end = nr_interval_end r, rd_generation_kw = nr_generation_kw r,
      rd_load_kw = nr_load_kw r, rd_grid_import_kw = nr_grid_import_kw r,
      rd_grid_export_kw = nr_grid_export_kw r, rd_energy_kwh = nr_energy_kwh r,
      rd_battery_soc = nr_battery_soc r, rd_generation_kwh = None, rd_load_kwh = None,
      rd_grid_import_kwh = None, rd_grid_export_kwh = None,
      rd_quality_status = status, rd_source = nr_source r\<rparr>"

definition classify_and_build ::
  "'a telemetry_db_scheme \<Rightarrow> uuid \<Rightarrow> normalized_reading \<Rightarrow> datetime \<Rightarrow> timedelta \<Rightarrow> datetime option \<Rightarrow> bool
   \<Rightarrow> ingestion_outcome" where
  "classify_and_build db new_id r evaluated_at threshold extra_latest extra_duplicate =
     (let stored_latest = latest_interval_start db (nr_meter_id r) (nr_energy_asset_id r);
          newest = max_of (present [stored_latest, extra_latest]);
          duplicate = extra_duplicate
            \<or> exists_for_interval db (nr_meter_id r) (nr_energy_asset_id r) (nr_interval_start r);
          status = classify_reading r evaluated_at
            (Some \<lparr>sc_latest_interval_start = newest, sc_duplicate_exists = duplicate\<rparr>) threshold
      in \<lparr>io_status = status,
          io_reading = (if status \<in> set NON_STORABLE_STATUSES then None
                        else Some (to_model new_id r status))\<rparr>)"

definition notify_site :: "uuid \<Rightarrow> telemetry_quality_status \<Rightarrow> nat \<Rightarrow> notice" where
  "notify_site meter quality n =
     \<lparr>re_event_type = TELEMETRY_UPDATED, re_entity_type = ''meter'', re_entity_id = Some meter,
      re_trade_id = None,
      re_payload = [(''quality_status'', S_str (telemetry_quality_value quality)),
                    (''readings'', S_int (int n))]\<rparr>"

text \<open>What a row reads as after the commit, when its attributes are loaded again.\<close>

definition refreshed :: "'a telemetry_db_scheme \<Rightarrow> ingestion_outcome \<Rightarrow> ingestion_outcome" where
  "refreshed db o1 =
     o1\<lparr>io_reading := (case io_reading o1 of None \<Rightarrow> None | Some r \<Rightarrow> fetch rd_id (t_readings db) (rd_id r))\<rparr>"

definition ingest_reading ::
  "timedelta \<Rightarrow> datetime option \<Rightarrow> datetime \<Rightarrow> uuid \<Rightarrow> normalized_reading \<Rightarrow> 'a telemetry_db_scheme
   \<Rightarrow> ('a telemetry_db_scheme \<times> ingestion_outcome \<times> notice list) result" where
  "ingest_reading threshold given now new_id r db =
     bindE (require_meter db (nr_meter_id r)) (\<lambda>_.
     bindE (require_asset db (nr_energy_asset_id r)) (\<lambda>_.
       let evaluated_at = (case given of None \<Rightarrow> now | Some t \<Rightarrow> t);
           outcome = classify_and_build db new_id r evaluated_at threshold None False
       in (case io_reading outcome of
             None \<Rightarrow> Inr (db, outcome, [])
           | Some row \<Rightarrow>
               bindE (insert_reading row db) (\<lambda>db'.
               Inr (db', refreshed db' outcome,
                    [notify_site (rd_meter_id row) (io_status outcome) 1])))))"

record batch_state =
  bs_staged_latest :: "uuid \<times> uuid option \<Rightarrow> datetime option"
  bs_staged_intervals :: "(uuid \<times> uuid option \<times> datetime) list"
  bs_verified_meters :: "uuid list"
  bs_verified_assets :: "uuid list"
  bs_outcomes :: "ingestion_outcome list"

definition empty_batch :: batch_state where
  "empty_batch =
     \<lparr>bs_staged_latest = Map.empty, bs_staged_intervals = [], bs_verified_meters = [],
      bs_verified_assets = [], bs_outcomes = []\<rparr>"

definition verify_meter :: "'a telemetry_db_scheme \<Rightarrow> uuid \<Rightarrow> batch_state \<Rightarrow> batch_state result" where
  "verify_meter db meter bs =
     (if meter \<notin> set (bs_verified_meters bs)
      then bindE (require_meter db meter) (\<lambda>_.
           Inr (bs\<lparr>bs_verified_meters := meter # bs_verified_meters bs\<rparr>))
      else Inr bs)"

definition verify_asset :: "'a telemetry_db_scheme \<Rightarrow> uuid option \<Rightarrow> batch_state \<Rightarrow> batch_state result" where
  "verify_asset db asset bs =
     (case asset of
        None \<Rightarrow> Inr bs
      | Some a \<Rightarrow>
          if a \<notin> set (bs_verified_assets bs)
          then bindE (require_asset db asset) (\<lambda>_.
               Inr (bs\<lparr>bs_verified_assets := a # bs_verified_assets bs\<rparr>))
          else Inr bs)"

definition stage :: "uuid \<times> uuid option \<Rightarrow> datetime \<Rightarrow> batch_state \<Rightarrow> batch_state" where
  "stage ser start bs =
     (let previous = bs_staged_latest bs ser;
          bs = bs\<lparr>bs_staged_intervals := (fst ser, snd ser, start) # bs_staged_intervals bs\<rparr>
      in if (case previous of None \<Rightarrow> True | Some p \<Rightarrow> start > p)
         then bs\<lparr>bs_staged_latest := (bs_staged_latest bs)(ser \<mapsto> start)\<rparr> else bs)"

definition batch_step ::
  "'a telemetry_db_scheme \<Rightarrow> datetime \<Rightarrow> timedelta \<Rightarrow> uuid \<times> normalized_reading \<Rightarrow> batch_state \<Rightarrow> batch_state result" where
  "batch_step db evaluated_at threshold = (\<lambda>(new_id, r) bs.
     bindE (verify_meter db (nr_meter_id r) bs) (\<lambda>bs.
     bindE (verify_asset db (nr_energy_asset_id r) bs) (\<lambda>bs.
       let ser = (nr_meter_id r, nr_energy_asset_id r);
           outcome = classify_and_build db new_id r evaluated_at threshold (bs_staged_latest bs ser)
             ((nr_meter_id r, nr_energy_asset_id r, nr_interval_start r) \<in> set (bs_staged_intervals bs));
           bs = bs\<lparr>bs_outcomes := bs_outcomes bs @ [outcome]\<rparr>
       in Inr (if io_stored outcome then stage ser (nr_interval_start r) bs else bs))))"

definition batch_notices :: "(reading_row \<times> telemetry_quality_status) list \<Rightarrow> notice list" where
  "batch_notices stored =
     (if stored = [] then []
      else [notify_site (rd_meter_id (fst (last stored))) (snd (last stored)) (length stored)])"

definition storable_rows :: "ingestion_outcome list \<Rightarrow> reading_row list" where
  "storable_rows os = present (map io_reading os)"

definition ingest_batch ::
  "timedelta \<Rightarrow> datetime option \<Rightarrow> datetime \<Rightarrow> (uuid \<times> normalized_reading) list \<Rightarrow> 'a telemetry_db_scheme
   \<Rightarrow> ('a telemetry_db_scheme \<times> ingestion_outcome list \<times> notice list) result" where
  "ingest_batch threshold given now readings db =
     (let evaluated_at = (case given of None \<Rightarrow> now | Some t \<Rightarrow> t)
      in bindE (foldE (batch_step db evaluated_at threshold) readings empty_batch) (\<lambda>bs.
         let storable = storable_rows (bs_outcomes bs)
         in bindE (foldE insert_reading storable db) (\<lambda>db'.
            Inr (db', map (refreshed db') (bs_outcomes bs),
                 batch_notices (map (\<lambda>r. (r, rd_quality_status r)) storable)))))"

section \<open>Retrieval\<close>

definition get_latest_for_site ::
  "'a telemetry_db_scheme \<Rightarrow> uuid \<Rightarrow> bool \<Rightarrow> reading_row option result" where
  "get_latest_for_site db site_id only_valid =
     bindE (require_site db site_id) (\<lambda>_. Inr (latest_for_site db site_id only_valid))"

definition get_interval_for_site ::
  "(decimal list \<Rightarrow> decimal option) \<Rightarrow> 'a telemetry_db_scheme \<Rightarrow> uuid \<Rightarrow> datetime \<Rightarrow> datetime
   \<Rightarrow> timedelta option \<Rightarrow> bool \<Rightarrow> nat \<Rightarrow> nat \<Rightarrow> (reading_row list + aggregated_reading list) result" where
  "get_interval_for_site avg db site_id start stop resolution only_valid limit offset =
     bindE (require_site db site_id) (\<lambda>_.
       case resolution of
         Some step \<Rightarrow> bindE (aggregate_for_site avg db site_id start stop step True) (\<lambda>bs. Inr (Inr bs))
       | None \<Rightarrow> Inr (Inl (list_for_site db site_id start stop only_valid limit offset)))"

definition get_quality_summary ::
  "'a telemetry_db_scheme \<Rightarrow> uuid \<Rightarrow> (telemetry_quality_status \<Rightarrow> nat option) result" where
  "get_quality_summary db site_id =
     bindE (require_site db site_id) (\<lambda>_. Inr (count_by_quality db site_id))"

end
