(* ===== verification/Durations.thy ===== *)
theory Durations
  imports Decimal_Laws
begin

text \<open>
  Durations as decimals: \<open>Decimal(interval.total_seconds())\<close>. \<open>total_seconds\<close> is a true
  division of the microseconds by a million, a double (53 significant bits, ties to even),
  and \<open>Decimal(float)\<close> is exact, so the model divides to 53 bits and expands the binary
  fraction. Whole seconds come out exact.
\<close>

section \<open>Division to a double\<close>

function blen :: "int \<Rightarrow> nat" where
  "blen n = (if n < 2 then 1 else Suc (blen (n div 2)))"
  by pat_completeness auto
termination
  by (relation "measure nat") auto

declare blen.simps [simp del]

definition float_scale :: "int \<Rightarrow> int \<Rightarrow> int" where
  "float_scale n d =
     (let s = 53 + int (blen d) - int (blen n)
      in if 2 ^ 53 \<le> n * 2 ^ nat s div (d * 2 ^ nat (- s)) then s - 1 else s)"

text \<open>A binary fraction \<open>m / 2 ^ k\<close> in lowest terms, as a decimal: \<open>m * 5 ^ k / 10 ^ k\<close>.\<close>

fun from_binary :: "int \<Rightarrow> nat \<Rightarrow> decimal" where
  "from_binary m 0 = Dec m 0"
| "from_binary m (Suc k) =
     (if even m then from_binary (m div 2) k else Dec (m * 5 ^ Suc k) (- int (Suc k)))"

text \<open>\<open>Decimal(n / d)\<close> for \<open>0 \<le> n\<close> and \<open>0 < d\<close>, the quotient being the double.\<close>

definition float_quotient :: "int \<Rightarrow> int \<Rightarrow> decimal" where
  "float_quotient n d =
     (if n = 0 then Dec 0 0
      else
        (let s = float_scale n d;
             m = half_even (n * 2 ^ nat s) (d * 2 ^ nat (- s))
         in if s \<le> 0 then Dec (m * 2 ^ nat (- s)) 0 else from_binary m (nat s)))"

definition total_seconds :: "timedelta \<Rightarrow> decimal" where
  "total_seconds us =
     (let q = float_quotient \<bar>us\<bar> 1000000 in Dec (sgn us * coeff q) (dexp q))"

section \<open>Whole seconds are exact\<close>

lemma from_binary_val: "val (from_binary m k) = of_int m / 2 ^ k"
proof (induction m k rule: from_binary.induct)
  case (1 m)
  then show ?case by (simp add: val_def)
next
  case (2 m k)
  show ?case
  proof (cases "even m")
    case True
    then have "(of_int m :: rat) = 2 * of_int (m div 2)"
      by (metis dvd_mult_div_cancel of_int_mult of_int_numeral)
    with 2 True show ?thesis by simp
  next
    case False
    have "(10::rat) ^ Suc k = 2 ^ Suc k * 5 ^ Suc k" by (simp flip: power_mult_distrib)
    then have "(5::rat) ^ Suc k * 10 powi (- int (Suc k)) = 1 / 2 ^ Suc k"
      by (simp add: power_int_minus power_int_def[of 10 "int (Suc k)"] field_simps
          flip: of_nat_Suc)
    with False show ?thesis
      by (simp add: val_def mult.assoc del: power_Suc of_nat_Suc)
  qed
qed

lemma half_even_exact: "0 < d \<Longrightarrow> half_even (q * d) d = q"
  by (simp add: half_even_def Let_def)

lemma blen_pos [simp]: "0 < blen n"
  by (subst blen.simps) simp

lemma blen_le_iff: "0 < k \<Longrightarrow> blen n \<le> k \<longleftrightarrow> n < 2 ^ k"
proof (induction n arbitrary: k rule: blen.induct)
  case (1 n)
  show ?case
  proof (cases "n < 2")
    case True
    have "(2::int) ^ 1 \<le> 2 ^ k" using "1.prems" by (intro power_increasing) simp_all
    with True "1.prems" show ?thesis by (subst blen.simps) simp
  next
    case False
    show ?thesis
    proof (cases "k = 1")
      case True
      with False show ?thesis by (subst blen.simps) simp
    next
      case neq: False
      with "1.prems" obtain j where j: "k = Suc j" "0 < j" by (cases k) auto
      have "blen n \<le> k \<longleftrightarrow> n div 2 < 2 ^ j"
        using False "1.IH" [OF False j(2)] j(1) by (subst blen.simps) simp
      also have "\<dots> \<longleftrightarrow> n < 2 ^ k" using j(1) by (simp add: div_less_int mult.commute)
      finally show ?thesis .
    qed
  qed
qed

lemma less_pow_blen: "n < 2 ^ blen n"
  using blen_le_iff [of "blen n" n] by simp

lemma blen_mult: "0 < a \<Longrightarrow> 0 < b \<Longrightarrow> blen (a * b) \<le> blen a + blen b"
proof -
  assume "0 < a" "0 < b"
  then have "a * b < 2 ^ blen a * 2 ^ blen b"
    by (intro mult_strict_mono less_pow_blen) simp_all
  then show ?thesis by (subst blen_le_iff) (simp_all add: power_add)
qed

lemma float_scale_nonneg:
  assumes "0 < q" "q < 2 ^ 52" "0 < d"
  shows "0 \<le> float_scale (q * d) d"
proof -
  have "blen q \<le> 52" using assms by (simp add: blen_le_iff)
  moreover have "blen (q * d) \<le> blen q + blen d" using assms by (intro blen_mult)
  ultimately show ?thesis unfolding float_scale_def Let_def by auto
qed

lemma float_quotient_exact:
  assumes "0 \<le> q" "q < 2 ^ 52" "0 < d"
  shows "val (float_quotient (q * d) d) = of_int q"
proof (cases "q = 0")
  case True
  then show ?thesis by (simp add: float_quotient_def val_def)
next
  case False
  define s where "s = float_scale (q * d) d"
  have s: "0 \<le> s" using float_scale_nonneg False assms by (simp add: s_def)
  then have "half_even (q * d * 2 ^ nat s) (d * 2 ^ nat (- s)) = q * 2 ^ nat s"
    using half_even_exact [OF assms(3), of "q * 2 ^ nat s"] by (simp add: ac_simps)
  with False assms(3) s show ?thesis
    using half_even_exact [OF assms(3), of q]
    by (simp add: float_quotient_def Let_def s_def [symmetric] from_binary_val)
      (simp add: val_def)
qed

lemma float_quotient_pos:
  assumes n: "0 < n" and d: "0 < d"
  shows "0 < val (float_quotient n d)"
proof -
  define s where "s = float_scale n d"
  let ?n = "n * 2 ^ nat s" and ?d = "d * 2 ^ nat (- s)"
  have "2 ^ (blen n - 1) \<le> n"
  proof (cases "blen n = 1")
    case False
    then have "\<not> blen n \<le> blen n - 1" "0 < blen n - 1" using blen_pos [of n] by linarith+
    then show ?thesis using blen_le_iff [of "blen n - 1" n] by simp
  qed (use n in simp)
  then have "2 ^ (blen n - 1) * 2 ^ nat s \<le> ?n" by simp
  moreover have "?d \<le> 2 ^ blen d * 2 ^ nat (- s)"
    using less_pow_blen [of d] by simp
  moreover have "(2::int) ^ blen d * 2 ^ nat (- s) \<le> 2 ^ (blen n - 1) * 2 ^ nat s"
  proof -
    have "52 + int (blen d) - int (blen n) \<le> s"
      by (auto simp: s_def float_scale_def Let_def)
    then have "blen d + nat (- s) \<le> blen n - 1 + nat s" using blen_pos [of n] by linarith
    then show ?thesis unfolding power_add [symmetric] by (intro power_increasing) simp_all
  qed
  ultimately have "1 * ?d \<le> ?n" by linarith
  then have "1 \<le> half_even ?n ?d" using d by (intro half_even_ge) simp_all
  then have "0 < val (Dec (half_even ?n ?d * 2 ^ nat (- s)) 0)"
    "0 < val (from_binary (half_even ?n ?d) (nat s))"
    by (simp add: val_def) (use \<open>1 \<le> half_even ?n ?d\<close> in \<open>simp add: from_binary_val\<close>)
  with n show ?thesis
    unfolding float_quotient_def Let_def s_def [symmetric] by (simp only: split: if_split) simp
qed

lemma total_seconds_float:
  "val (total_seconds us) = of_int (sgn us) * val (float_quotient \<bar>us\<bar> 1000000)"
  by (simp add: total_seconds_def Let_def val_def)

lemma total_seconds_val:
  assumes "\<bar>s\<bar> < 2 ^ 52"
  shows "val (total_seconds (s * 1000000)) = of_int s"
proof -
  have "val (float_quotient (\<bar>s\<bar> * 1000000) 1000000) = of_int \<bar>s\<bar>"
    using assms by (intro float_quotient_exact) simp_all
  moreover have "\<bar>s * 1000000\<bar> = \<bar>s\<bar> * 1000000" "sgn (s * 1000000) = sgn s"
    by (simp_all add: abs_mult sgn_mult)
  ultimately have "val (total_seconds (s * 1000000)) = of_int (sgn s * \<bar>s\<bar>)"
    by (simp only: total_seconds_float of_int_mult)
  then show ?thesis by (simp only: mult_sgn_abs)
qed

lemma total_seconds_pos: "0 < us \<Longrightarrow> 0 < val (total_seconds us)"
  by (simp add: total_seconds_float float_quotient_pos)

lemma total_seconds_nonpos: "us \<le> 0 \<Longrightarrow> val (total_seconds us) \<le> 0"
  using float_quotient_pos [of "- us" 1000000]
  by (cases "us = 0") (simp_all add: total_seconds_float)

lemma total_seconds_le_0 [simp]: "val (total_seconds us) \<le> 0 \<longleftrightarrow> us \<le> 0"
  using total_seconds_pos [of us] total_seconds_nonpos [of us] by linarith

end
