(* ===== verification/Surplus.thy ===== *)
theory Surplus
  imports Durations
begin

text \<open>
  The expected surplus (\<open>domain/policies/surplus.py\<close>): two forecasts paired interval by interval,
  and the energy a site could offer. A window is the list of its points.
\<close>

record surplus_point =
  sp_interval_start :: datetime
  sp_interval_end :: datetime
  sp_generation_kw :: "decimal option"
  sp_load_kw :: "decimal option"
  sp_surplus_kw :: "decimal option"

definition is_exporting :: "surplus_point \<Rightarrow> bool" where
  "is_exporting p \<longleftrightarrow> (case sp_surplus_kw p of None \<Rightarrow> False | Some kw \<Rightarrow> 0 < kw)"

definition exportable_kw :: "surplus_point \<Rightarrow> decimal" where
  "exportable_kw p =
     (case sp_surplus_kw p of None \<Rightarrow> 0 | Some kw \<Rightarrow> if kw < 0 then 0 else kw)"

definition add_exportable :: "surplus_point \<Rightarrow> decimal \<Rightarrow> decimal result" where
  "add_exportable p acc =
     bindE (ddiv (total_seconds (sp_interval_end p - sp_interval_start p)) (Dec 3600 0)) (\<lambda>hours.
     Inr (acc + exportable_kw p * hours))"

definition total_exportable_kwh :: "surplus_point list \<Rightarrow> decimal result" where
  "total_exportable_kwh points = foldE add_exportable points 0"

definition has_exportable_energy :: "surplus_point list \<Rightarrow> bool result" where
  "has_exportable_energy points = bindE (total_exportable_kwh points) (\<lambda>t. Inr (0 < t))"

text \<open>The dictionary of a forecast by interval start: a later entry replaces an earlier one.\<close>

definition by_start ::
  "(datetime \<times> datetime \<times> decimal option) list \<Rightarrow> datetime \<Rightarrow> (datetime \<times> decimal option) option" where
  "by_start entries = map_of (rev entries)"

definition surplus_of :: "decimal option \<Rightarrow> decimal option \<Rightarrow> decimal option" where
  "surplus_of gen_kw load_kw = (case gen_kw of None \<Rightarrow> None | Some g \<Rightarrow> map_option (\<lambda>l. g - l) load_kw)"

definition pair_point ::
  "datetime \<Rightarrow> (datetime \<times> decimal option) option \<Rightarrow> (datetime \<times> decimal option) option \<Rightarrow> surplus_point option" where
  "pair_point start gen load =
     (let gen_kw = Option.bind gen snd; load_kw = Option.bind load snd
      in case (case gen of Some (e, _) \<Rightarrow> Some e | None \<Rightarrow> map_option fst load) of
           None \<Rightarrow> None
         | Some e \<Rightarrow> Some
             \<lparr>sp_interval_start = start, sp_interval_end = e, sp_generation_kw = gen_kw, sp_load_kw = load_kw,
              sp_surplus_kw = surplus_of gen_kw load_kw\<rparr>)"

definition calculate_surplus ::
  "(datetime \<times> datetime \<times> decimal option) list \<Rightarrow> (datetime \<times> datetime \<times> decimal option) list
   \<Rightarrow> surplus_point list" where
  "calculate_surplus generation consumption =
     (let gen = by_start generation; load = by_start consumption;
          starts = sort (remdups (map fst generation @ map fst consumption))
      in concat (map (\<lambda>s. case pair_point s (gen s) (load s) of None \<Rightarrow> [] | Some p \<Rightarrow> [p]) starts))"

section \<open>Facts\<close>

lemma by_start_None: "by_start entries s = None \<longleftrightarrow> s \<notin> fst ` set entries"
  by (simp add: by_start_def map_of_eq_None_iff)

lemma pair_point_None: "pair_point s g l = None \<longleftrightarrow> g = None \<and> l = None"
  by (auto simp: pair_point_def Let_def split: option.splits)

lemma pair_point_start: "pair_point s g l = Some p \<Longrightarrow> sp_interval_start p = s"
  by (auto simp: pair_point_def Let_def split: option.splits)

text \<open>One point per interval start either forecast has, in order.\<close>

lemma surplus_starts:
  "map sp_interval_start (calculate_surplus g l) = sort (remdups (map fst g @ map fst l))"
proof -
  have "map sp_interval_start (case pair_point s (by_start g s) (by_start l s) of None \<Rightarrow> [] | Some p \<Rightarrow> [p]) = [s]"
    if "s \<in> fst ` set g \<union> fst ` set l" for s
    using that pair_point_None [of s "by_start g s" "by_start l s"] pair_point_start
    by (auto simp: by_start_None split: option.splits)
  then show ?thesis
    unfolding calculate_surplus_def Let_def map_concat map_map comp_def
    by (subst map_cong [OF refl, of _ _ "\<lambda>s. [s]"]) auto
qed

lemma pair_point_facts:
  assumes "pair_point s g l = Some p"
  shows "sp_interval_start p = s \<and> sp_generation_kw p = Option.bind g snd \<and> sp_load_kw p = Option.bind l snd
    \<and> sp_surplus_kw p = surplus_of (sp_generation_kw p) (sp_load_kw p)"
  using assms by (cases g; cases l) (auto simp: pair_point_def Let_def)

lemma surplus_point_facts:
  assumes "p \<in> set (calculate_surplus g l)"
  shows "sp_generation_kw p = Option.bind (by_start g (sp_interval_start p)) snd
    \<and> sp_load_kw p = Option.bind (by_start l (sp_interval_start p)) snd
    \<and> sp_surplus_kw p = surplus_of (sp_generation_kw p) (sp_load_kw p)"
proof -
  from assms obtain s where "pair_point s (by_start g s) (by_start l s) = Some p"
    by (auto simp: calculate_surplus_def Let_def split: option.splits)
  from pair_point_facts [OF this] show ?thesis by auto
qed

lemma exportable_nonneg: "0 \<le> val (exportable_kw p)"
  by (auto simp: exportable_kw_def less_decimal_val not_less split: option.splits)

text \<open>The total is defined and never negative.\<close>

lemma total_exportable:
  assumes "\<And>p. p \<in> set points \<Longrightarrow> sp_interval_start p \<le> sp_interval_end p"
  shows "\<exists>t. total_exportable_kwh points = Inr t \<and> 0 \<le> val t"
proof -
  have "\<exists>t. foldE add_exportable points 0 = Inr t \<and> 0 \<le> val t"
  proof (rule foldE_returns [where P = "\<lambda>t. 0 \<le> val t"])
    fix p s
    assume p: "p \<in> set points" "0 \<le> val s"
    have "val (Dec 3600 0) = 3600" by (simp add: val_def)
    then obtain q where q: "ddiv (total_seconds (sp_interval_end p - sp_interval_start p)) (Dec 3600 0) = Inr q"
      "rounds_to (val (total_seconds (sp_interval_end p - sp_interval_start p)) / 3600) (val q)"
      using ddiv_rounds [of "Dec 3600 0"] by fastforce
    have "0 \<le> val (total_seconds (sp_interval_end p - sp_interval_start p))"
      using assms [OF p(1)] total_seconds_pos [of "sp_interval_end p - sp_interval_start p"]
      by (cases "sp_interval_end p = sp_interval_start p") (simp_all add: total_seconds_float)
    then have "0 \<le> val q" by (intro rounds_to_nonneg [OF q(2)]) simp
    then have "0 \<le> val (exportable_kw p * q)" by (intro times_nonneg exportable_nonneg)
    then have "0 \<le> val (s + exportable_kw p * q)"
      using p(2) by (intro rounds_to_nonneg [OF plus_rounds]) simp
    then show "\<exists>s'. add_exportable p s = Inr s' \<and> 0 \<le> val s'"
      by (simp add: add_exportable_def q(1))
  qed simp
  then show ?thesis by (simp add: total_exportable_kwh_def)
qed

end
