(* ===== verification/Forecasting.thy ===== *)
theory Forecasting
  imports Telemetry_Service Surplus
begin

text \<open>
  Forecast runs: the provider contract (\<open>domain/interfaces/forecasting.py\<close>), provider selection
  (\<open>services/forecast_registry.py\<close>), the tables and their queries
  (\<open>db/models/forecasting.py\<close>, \<open>repositories/forecasting.py\<close>) and the orchestration
  (\<open>services/forecast_service.py\<close>). A provider is a parameter: a name, a version, the types it
  supports and a prediction that may raise anything. A run commits before the provider is called
  and again afterwards, so the operation returns the tables it leaves together with the result or
  the exception. Prose in messages is left out; the reason recorded for an exception is an argument.
\<close>

section \<open>The provider contract\<close>

record historical_observation =
  ho_interval_start :: datetime
  ho_interval_end :: datetime
  ho_generation_kw :: "decimal option"
  ho_load_kw :: "decimal option"
  ho_energy_kwh :: "decimal option"

record forecast_request =
  fq_site_id :: uuid
  fq_forecast_type :: forecast_type
  fq_horizon_start :: datetime
  fq_horizon_end :: datetime
  fq_interval :: timedelta
  fq_history :: "historical_observation list"


record predicted_point =
  pp_interval_start :: datetime
  pp_interval_end :: datetime
  pp_predicted_kw :: "decimal option"
  pp_predicted_kwh :: "decimal option"
  pp_confidence :: "decimal option"
  pp_lower_bound :: "decimal option"
  pp_upper_bound :: "decimal option"

record forecast_result =
  fz_forecast_type :: forecast_type
  fz_provider :: string
  fz_model_version :: string
  fz_generated_at :: datetime
  fz_points :: "predicted_point list"

text \<open>Objects are told apart by identity: \<open>pv_object\<close>.\<close>

record provider =
  pv_object :: nat
  pv_name :: string
  pv_model_version :: string
  pv_supports :: "forecast_type \<Rightarrow> bool"
  pv_predict :: "forecast_request \<Rightarrow> forecast_result result"

section \<open>Provider selection\<close>

type_synonym provider_registry = "string \<Rightarrow> provider option"

definition register_provider ::
  "provider \<Rightarrow> bool \<Rightarrow> provider_registry \<Rightarrow> provider_registry result" where
  "register_provider p replace providers =
     (if \<not> replace \<and> (case providers (pv_name p) of None \<Rightarrow> False | Some q \<Rightarrow> pv_object q \<noteq> pv_object p)
      then Inl (UnprocessableError ''FORECAST_PROVIDER_NAME_TAKEN'')
      else Inr (providers(pv_name p \<mapsto> p)))"

definition get_provider :: "provider_registry \<Rightarrow> string \<Rightarrow> provider result" where
  "get_provider providers name =
     (case providers name of
        None \<Rightarrow> Inl (UnprocessableError ''FORECAST_PROVIDER_NOT_REGISTERED'')
      | Some p \<Rightarrow> Inr p)"

definition clear_registry :: "provider_registry \<Rightarrow> provider_registry" where
  "clear_registry providers = Map.empty"

datatype provider_choice = Default_provider | Named_provider string | Given_provider provider

fun resolve_provider :: "provider_registry \<Rightarrow> string \<Rightarrow> provider_choice \<Rightarrow> provider result" where
  "resolve_provider providers configured Default_provider = get_provider providers configured"
| "resolve_provider providers configured (Named_provider name) = get_provider providers name"
| "resolve_provider providers configured (Given_provider p) = Inr p"

section \<open>Tables\<close>

record run_row =
  fr_id :: uuid
  fr_forecast_type :: forecast_type
  fr_provider :: string
  fr_model_version :: string
  fr_horizon_start :: datetime
  fr_horizon_end :: datetime
  fr_status :: forecast_run_status
  fr_error :: "string option"
  fr_created_at :: datetime

record point_row =
  fp_id :: uuid
  fp_forecast_run_id :: uuid
  fp_site_id :: uuid
  fp_interval_start :: datetime
  fp_interval_end :: datetime
  fp_predicted_kw :: "decimal option"
  fp_predicted_kwh :: "decimal option"
  fp_confidence :: "decimal option"
  fp_lower_bound :: "decimal option"
  fp_upper_bound :: "decimal option"

record forecast_db = telemetry_db +
  t_forecast_runs :: "run_row list"
  t_forecast_points :: "point_row list"

definition run_checks :: "'a forecast_db_scheme \<Rightarrow> run_row \<Rightarrow> (bool \<times> string) list" where
  "run_checks db r =
     [(fr_horizon_start r < fr_horizon_end r, ''ck_forecast_runs_horizon_end_after_start''),
      (\<not> known fr_id (t_forecast_runs db) (fr_id r), ''pk_forecast_runs'')]"

definition point_key :: "point_row \<Rightarrow> uuid \<times> uuid \<times> datetime" where
  "point_key p = (fp_forecast_run_id p, fp_site_id p, fp_interval_start p)"

definition bounds_ordered :: "decimal option \<Rightarrow> decimal option \<Rightarrow> bool" where
  "bounds_ordered lo hi = (case (lo, hi) of (Some l, Some h) \<Rightarrow> l \<le> h | _ \<Rightarrow> True)"

definition point_checks :: "'a forecast_db_scheme \<Rightarrow> point_row \<Rightarrow> (bool \<times> string) list" where
  "point_checks db p =
     [(fp_interval_start p < fp_interval_end p, ''ck_forecast_points_interval_end_after_start''),
      (pred_option (\<lambda>c. 0 \<le> c \<and> c \<le> 1) (fp_confidence p), ''ck_forecast_points_confidence_is_a_probability''),
      (bounds_ordered (fp_lower_bound p) (fp_upper_bound p), ''ck_forecast_points_bounds_ordered''),
      (\<not> known fp_id (t_forecast_points db) (fp_id p), ''pk_forecast_points''),
      (point_key p \<notin> set (map point_key (t_forecast_points db)),
       ''uq_forecast_points_forecast_run_id_site_id_interval_start''),
      (known fr_id (t_forecast_runs db) (fp_forecast_run_id p), ''fk_forecast_points_forecast_run_id''),
      (known si_id (t_sites db) (fp_site_id p), ''fk_forecast_points_site_id_sites'')]"

text \<open>A \<open>String(n)\<close> column refuses a longer text.\<close>

definition varchar :: "nat \<Rightarrow> string \<Rightarrow> unit result" where
  "varchar n s = guardE (length s \<le> n) DataError"

definition stored_point :: "point_row \<Rightarrow> point_row result" where
  "stored_point p =
     bindE (nullable (numeric 14 4) (fp_predicted_kw p)) (\<lambda>kw.
     bindE (nullable (numeric 14 4) (fp_predicted_kwh p)) (\<lambda>kwh.
     bindE (nullable (numeric 5 4) (fp_confidence p)) (\<lambda>c.
     bindE (nullable (numeric 14 4) (fp_lower_bound p)) (\<lambda>lo.
     bindE (nullable (numeric 14 4) (fp_upper_bound p)) (\<lambda>hi.
     Inr (p\<lparr>fp_predicted_kw := kw, fp_predicted_kwh := kwh, fp_confidence := c,
            fp_lower_bound := lo, fp_upper_bound := hi\<rparr>))))))"

definition insert_run :: "run_row \<Rightarrow> 'a forecast_db_scheme \<Rightarrow> 'a forecast_db_scheme result" where
  "insert_run r db =
     bindE (varchar 64 (fr_provider r)) (\<lambda>_.
     bindE (varchar 64 (fr_model_version r)) (\<lambda>_.
     bindE (all_checks (run_checks db r)) (\<lambda>_.
     Inr (db\<lparr>t_forecast_runs := t_forecast_runs db @ [r]\<rparr>))))"

definition insert_point :: "point_row \<Rightarrow> 'a forecast_db_scheme \<Rightarrow> 'a forecast_db_scheme result" where
  "insert_point p db =
     bindE (stored_point p) (\<lambda>row.
     bindE (all_checks (point_checks db row)) (\<lambda>_.
     Inr (db\<lparr>t_forecast_points := t_forecast_points db @ [row]\<rparr>)))"

section \<open>Queries\<close>

definition run_of_point :: "'a forecast_db_scheme \<Rightarrow> point_row \<Rightarrow> run_row option" where
  "run_of_point db p = fetch fr_id (t_forecast_runs db) (fp_forecast_run_id p)"

definition created_key :: "'a forecast_db_scheme \<Rightarrow> point_row \<Rightarrow> datetime \<times> datetime" where
  "created_key db p =
     (fp_interval_start p, case run_of_point db p of None \<Rightarrow> 0 | Some r \<Rightarrow> fr_created_at r)"

definition points_for_site ::
  "'a forecast_db_scheme \<Rightarrow> uuid \<Rightarrow> datetime \<Rightarrow> datetime \<Rightarrow> forecast_type option \<Rightarrow> uuid option \<Rightarrow> point_row list" where
  "points_for_site db site_id start stop ftype run_id =
     sort_key (created_key db)
       (filter (\<lambda>p. fp_site_id p = site_id \<and> start \<le> fp_interval_start p \<and> fp_interval_start p < stop
          \<and> (case run_of_point db p of
               None \<Rightarrow> False
             | Some r \<Rightarrow> fr_status r = COMPLETED \<and> pred_option (\<lambda>t. fr_forecast_type r = t) ftype)
          \<and> pred_option (\<lambda>i. fp_forecast_run_id p = i) run_id)
         (t_forecast_points db))"

definition points_for_run :: "'a forecast_db_scheme \<Rightarrow> uuid \<Rightarrow> point_row list" where
  "points_for_run db run_id =
     sort_key fp_interval_start (filter (\<lambda>p. fp_forecast_run_id p = run_id) (t_forecast_points db))"

text \<open>The dictionary keeps the last point of each interval start; its keys are then sorted.\<close>

definition latest_per_interval ::
  "'a forecast_db_scheme \<Rightarrow> uuid \<Rightarrow> datetime \<Rightarrow> datetime \<Rightarrow> forecast_type \<Rightarrow> point_row list" where
  "latest_per_interval db site_id start stop ftype =
     (let points = points_for_site db site_id start stop (Some ftype) None;
          newest = map_of (rev (map (\<lambda>p. (fp_interval_start p, p)) points))
      in map (\<lambda>s. the (newest s)) (sort (remdups (map fp_interval_start points))))"

definition latest_completed_for_site ::
  "'a forecast_db_scheme \<Rightarrow> uuid \<Rightarrow> forecast_type \<Rightarrow> datetime option \<Rightarrow> run_row option" where
  "latest_completed_for_site db site_id ftype covering =
     (case sort_key (\<lambda>r. - fr_created_at r)
        (filter (\<lambda>r. list_ex (\<lambda>p. fp_forecast_run_id p = fr_id r \<and> fp_site_id p = site_id) (t_forecast_points db)
           \<and> fr_forecast_type r = ftype \<and> fr_status r = COMPLETED
           \<and> pred_option (\<lambda>t. fr_horizon_start r \<le> t \<and> t < fr_horizon_end r) covering)
          (t_forecast_runs db)) of
        [] \<Rightarrow> None | r # _ \<Rightarrow> Some r)"

section \<open>History\<close>

definition DEFAULT_HISTORY_WINDOW :: timedelta where
  "DEFAULT_HISTORY_WINDOW = 14 * 86400 * 1000000"

definition DEFAULT_INTERVAL :: timedelta where
  "DEFAULT_INTERVAL = 15 * 60 * 1000000"

record history_bucket =
  hb_interval_end :: datetime
  hb_generation_kw :: "decimal option"
  hb_load_kw :: "decimal option"
  hb_energy_kwh :: "decimal option"

definition accumulate_channel :: "decimal option \<Rightarrow> decimal option \<Rightarrow> decimal option" where
  "accumulate_channel total_so_far value =
     (case value of
        None \<Rightarrow> total_so_far
      | Some v \<Rightarrow> (case total_so_far of None \<Rightarrow> Some v | Some t \<Rightarrow> Some (t + v)))"

definition bucket_add :: "reading_row \<Rightarrow> history_bucket \<Rightarrow> history_bucket" where
  "bucket_add r b =
     b\<lparr>hb_generation_kw := accumulate_channel (hb_generation_kw b) (rd_generation_kw r),
       hb_load_kw := accumulate_channel (hb_load_kw b) (rd_load_kw r),
       hb_energy_kwh := accumulate_channel (hb_energy_kwh b) (rd_energy_kwh r)\<rparr>"

definition bucket_row ::
  "reading_row \<Rightarrow> (datetime \<Rightarrow> history_bucket option) \<Rightarrow> datetime \<Rightarrow> history_bucket option" where
  "bucket_row r buckets =
     (let b = (case buckets (rd_interval_start r) of
                 Some b \<Rightarrow> b
               | None \<Rightarrow> \<lparr>hb_interval_end = rd_interval_end r, hb_generation_kw = None, hb_load_kw = None,
                          hb_energy_kwh = None\<rparr>)
      in buckets(rd_interval_start r \<mapsto> bucket_add r b))"

definition observation :: "datetime \<Rightarrow> history_bucket \<Rightarrow> historical_observation" where
  "observation start b =
     \<lparr>ho_interval_start = start, ho_interval_end = hb_interval_end b, ho_generation_kw = hb_generation_kw b,
      ho_load_kw = hb_load_kw b, ho_energy_kwh = hb_energy_kwh b\<rparr>"

definition gather_history ::
  "'a telemetry_db_scheme \<Rightarrow> uuid \<Rightarrow> datetime \<Rightarrow> timedelta \<Rightarrow> historical_observation list" where
  "gather_history db site_id stop window =
     (let rows = list_for_site db site_id (stop - window) stop True 100000 0;
          buckets = fold bucket_row rows Map.empty
      in map (\<lambda>s. observation s (the (buckets s))) (sort (remdups (map rd_interval_start rows))))"

section \<open>A run\<close>

definition validate_horizon :: "datetime \<Rightarrow> datetime \<Rightarrow> timedelta \<Rightarrow> unit result" where
  "validate_horizon start stop interval =
     (if stop \<le> start then Inl (UnprocessableError ''FORECAST_HORIZON_INVALID'')
      else if interval \<le> 0 then Inl (UnprocessableError ''FORECAST_INTERVAL_INVALID'')
      else Inr ())"

definition invalid_result :: exn where
  "invalid_result = ForecastProviderError ''FORECAST_PROVIDER_FAILED''"

definition point_valid :: "forecast_request \<Rightarrow> predicted_point \<Rightarrow> bool" where
  "point_valid request p \<longleftrightarrow>
     fq_horizon_start request \<le> pp_interval_start p \<and> pp_interval_start p < fq_horizon_end request
     \<and> pred_option (\<lambda>c. 0 \<le> c \<and> c \<le> 1) (pp_confidence p)"

fun validate_points :: "forecast_request \<Rightarrow> datetime list \<Rightarrow> predicted_point list \<Rightarrow> unit result" where
  "validate_points request seen [] = Inr ()"
| "validate_points request seen (p # ps) =
     (if pp_interval_end p \<le> pp_interval_start p then Inl invalid_result
      else if pp_interval_start p \<in> set seen then Inl invalid_result
      else if \<not> point_valid request p then Inl invalid_result
      else validate_points request (pp_interval_start p # seen) ps)"

definition validate_result :: "forecast_result \<Rightarrow> forecast_request \<Rightarrow> unit result" where
  "validate_result res request =
     (if fz_forecast_type res \<noteq> fq_forecast_type request then Inl invalid_result
      else if fz_points res = [] then Inl invalid_result
      else validate_points request [] (fz_points res))"

definition point_model :: "uuid \<Rightarrow> uuid \<Rightarrow> uuid \<Rightarrow> predicted_point \<Rightarrow> point_row" where
  "point_model new_id run_id site_id p =
     \<lparr>fp_id = new_id, fp_forecast_run_id = run_id, fp_site_id = site_id,
      fp_interval_start = pp_interval_start p, fp_interval_end = pp_interval_end p,
      fp_predicted_kw = pp_predicted_kw p, fp_predicted_kwh = pp_predicted_kwh p,
      fp_confidence = pp_confidence p, fp_lower_bound = pp_lower_bound p, fp_upper_bound = pp_upper_bound p\<rparr>"

definition update_run ::
  "uuid \<Rightarrow> (run_row \<Rightarrow> run_row) \<Rightarrow> 'a forecast_db_scheme \<Rightarrow> 'a forecast_db_scheme" where
  "update_run run_id f db = db\<lparr>t_forecast_runs := modify fr_id run_id f (t_forecast_runs db)\<rparr>"

definition mark_failed :: "uuid \<Rightarrow> string \<Rightarrow> 'a forecast_db_scheme \<Rightarrow> 'a forecast_db_scheme" where
  "mark_failed run_id reason =
     update_run run_id (\<lambda>r. r\<lparr>fr_status := FAILED, fr_error := Some (take 500 reason)\<rparr>)"

text \<open>The points and the run's completion, one transaction.\<close>

definition complete_run ::
  "(nat \<Rightarrow> uuid) \<Rightarrow> uuid \<Rightarrow> uuid \<Rightarrow> forecast_result \<Rightarrow> 'a forecast_db_scheme \<Rightarrow> 'a forecast_db_scheme result" where
  "complete_run fresh run_id site_id res db =
     bindE (foldE insert_point
        (map (\<lambda>(k, p). point_model (fresh k) run_id site_id p) (enumerate 0 (fz_points res))) db) (\<lambda>db'.
     bindE (varchar 64 (fz_model_version res)) (\<lambda>_.
     Inr (update_run run_id
        (\<lambda>r. r\<lparr>fr_status := COMPLETED, fr_model_version := fz_model_version res\<rparr>) db')))"

record run_order =
  ro_site_id :: uuid
  ro_forecast_type :: forecast_type
  ro_horizon_start :: datetime
  ro_horizon_end :: datetime
  ro_interval :: timedelta
  ro_history_window :: timedelta

definition start_run ::
  "provider \<Rightarrow> run_order \<Rightarrow> datetime \<Rightarrow> uuid \<Rightarrow> 'a forecast_db_scheme \<Rightarrow> 'a forecast_db_scheme result" where
  "start_run p order now run_id db =
     bindE (require_site db (ro_site_id order)) (\<lambda>_.
     bindE (validate_horizon (ro_horizon_start order) (ro_horizon_end order) (ro_interval order)) (\<lambda>_.
     bindE (guardE (pv_supports p (ro_forecast_type order)) (ForecastProviderError ''FORECAST_TYPE_UNSUPPORTED'')) (\<lambda>_.
     insert_run
       \<lparr>fr_id = run_id, fr_forecast_type = ro_forecast_type order, fr_provider = pv_name p,
        fr_model_version = pv_model_version p, fr_horizon_start = ro_horizon_start order,
        fr_horizon_end = ro_horizon_end order, fr_status = RUNNING, fr_error = None, fr_created_at = now\<rparr> db)))"

definition forecast_request_of :: "run_order \<Rightarrow> 'a telemetry_db_scheme \<Rightarrow> forecast_request" where
  "forecast_request_of order db =
     \<lparr>fq_site_id = ro_site_id order, fq_forecast_type = ro_forecast_type order,
      fq_horizon_start = ro_horizon_start order, fq_horizon_end = ro_horizon_end order,
      fq_interval = ro_interval order,
      fq_history = gather_history db (ro_site_id order) (ro_horizon_start order) (ro_history_window order)\<rparr>"

definition ask_provider :: "provider \<Rightarrow> forecast_request \<Rightarrow> forecast_result result" where
  "ask_provider p request =
     bindE (pv_predict p request) (\<lambda>res. bindE (validate_result res request) (\<lambda>_. Inr res))"

text \<open>The tables left behind, and the run or the exception.\<close>

definition run_forecast ::
  "provider_registry \<Rightarrow> string \<Rightarrow> (exn \<Rightarrow> string) \<Rightarrow> provider_choice \<Rightarrow> run_order \<Rightarrow> datetime \<Rightarrow> uuid \<Rightarrow> (nat \<Rightarrow> uuid)
   \<Rightarrow> 'a forecast_db_scheme \<Rightarrow> 'a forecast_db_scheme \<times> run_row result" where
  "run_forecast providers configured describe choice order now run_id fresh db =
     (case resolve_provider providers configured choice of
        Inl e \<Rightarrow> (db, Inl e)
      | Inr p \<Rightarrow>
         (case start_run p order now run_id db of
            Inl e \<Rightarrow> (db, Inl e)
          | Inr db1 \<Rightarrow>
             (case ask_provider p (forecast_request_of order db1) of
                Inl (ForecastProviderError c) \<Rightarrow>
                  (mark_failed run_id ''provider returned an invalid result'' db1, Inl (ForecastProviderError c))
              | Inl e \<Rightarrow>
                  (mark_failed run_id (describe e) db1, Inl (ForecastProviderError ''FORECAST_PROVIDER_FAILED''))
              | Inr res \<Rightarrow>
                  (case complete_run fresh run_id (ro_site_id order) res db1 of
                     Inl e \<Rightarrow> (db1, Inl e)
                   | Inr db2 \<Rightarrow>
                       (db2, case fetch fr_id (t_forecast_runs db2) run_id of
                               None \<Rightarrow> Inl (NotFoundError ''FORECAST_RUN_NOT_FOUND'')
                             | Some r \<Rightarrow> Inr r)))))"

section \<open>Reading forecasts\<close>

definition get_run :: "'a forecast_db_scheme \<Rightarrow> uuid \<Rightarrow> run_row result" where
  "get_run db run_id =
     (case fetch fr_id (t_forecast_runs db) run_id of
        None \<Rightarrow> Inl (NotFoundError ''FORECAST_RUN_NOT_FOUND'') | Some r \<Rightarrow> Inr r)"

definition get_points_for_site ::
  "'a forecast_db_scheme \<Rightarrow> uuid \<Rightarrow> datetime \<Rightarrow> datetime \<Rightarrow> forecast_type option \<Rightarrow> point_row list result" where
  "get_points_for_site db site_id start stop ftype =
     bindE (require_site db site_id) (\<lambda>_. Inr (points_for_site db site_id start stop ftype None))"

definition power_entries :: "point_row list \<Rightarrow> (datetime \<times> datetime \<times> decimal option) list" where
  "power_entries points = map (\<lambda>p. (fp_interval_start p, fp_interval_end p, fp_predicted_kw p)) points"

definition get_surplus_for_site ::
  "'a forecast_db_scheme \<Rightarrow> uuid \<Rightarrow> datetime \<Rightarrow> datetime \<Rightarrow> surplus_point list result" where
  "get_surplus_for_site db site_id start stop =
     bindE (require_site db site_id) (\<lambda>_.
     Inr (calculate_surplus (power_entries (latest_per_interval db site_id start stop SOLAR))
                            (power_entries (latest_per_interval db site_id start stop LOAD))))"

end
