(* ===== verification/Telemetry_Props.thy ===== *)
theory Telemetry_Props
  imports Telemetry_Service Registry_Props
begin

text \<open>
  What ingestion guarantees: the series stay sound and every VALID row is what the policy says,
  one batch is the readings ingested one by one, and where recording a gap runs into the
  natural key.
\<close>

section \<open>The table's invariant\<close>

definition sound_row :: "reading_row \<Rightarrow> bool" where
  "sound_row r \<longleftrightarrow>
     rd_interval_start r \<le> rd_interval_end r
     \<and> list_all not_negative_check
         [rd_generation_kw r, rd_load_kw r, rd_grid_import_kw r, rd_grid_export_kw r, rd_energy_kwh r]
     \<and> pred_option (\<lambda>d. 0 \<le> d \<and> d \<le> Dec 100 0) (rd_battery_soc r)"

definition telemetry_ok :: "'a telemetry_db_scheme \<Rightarrow> bool" where
  "telemetry_ok db \<longleftrightarrow>
     distinct (map rd_id (t_readings db)) \<and> distinct (map natural_key (t_readings db))
     \<and> list_all (\<lambda>r. sound_row r \<and> known me_id (t_meters db) (rd_meter_id r)
          \<and> pred_option (known as_id (t_energy_assets db)) (rd_energy_asset_id r)) (t_readings db)"

lemma insert_reading_eq:
  "insert_reading r db = Inr db' \<longleftrightarrow>
   (\<exists>row. stored_reading r = Inr row \<and> list_all fst (reading_checks db row)
      \<and> db' = db\<lparr>t_readings := t_readings db @ [row]\<rparr>)"
  by (auto simp: insert_reading_def bindE_eq_Inr)

lemma Dec_0_0 [simp]: "Dec 0 0 = 0"
  by (simp add: zero_decimal_def)

lemma checks_iff:
  "list_all fst (reading_checks db row) \<longleftrightarrow>
   sound_row row \<and> \<not> known rd_id (t_readings db) (rd_id row)
   \<and> natural_key row \<notin> natural_key ` set (t_readings db)
   \<and> known me_id (t_meters db) (rd_meter_id row)
   \<and> pred_option (known as_id (t_energy_assets db)) (rd_energy_asset_id row)"
  by (auto simp: reading_checks_def sound_row_def)

lemma insert_reading_ok:
  "insert_reading r db = Inr db' \<Longrightarrow> telemetry_ok db \<Longrightarrow> telemetry_ok db'"
  by (auto simp: insert_reading_eq checks_iff telemetry_ok_def known_def)

section \<open>A reading and its row\<close>

text \<open>No channel overflows its column.\<close>

definition fits :: "normalized_reading \<Rightarrow> bool" where
  "fits r \<longleftrightarrow> list_all (\<lambda>(name, v). pred_option (\<lambda>d. \<bar>rhu (val d * 10 ^ 4)\<bar> < 10 ^ 14) v) (channels r)"

lemma nullable_numeric:
  assumes "pred_option (\<lambda>d. \<bar>rhu (val d * 10 ^ s)\<bar> < 10 ^ p) v"
  shows "nullable (numeric p s) v = Inr (map_option (\<lambda>d. Dec (quantized s d) (- int s)) v)"
  using assms by (cases v) (simp_all add: nullable_def numeric_def Let_def quantized_rhu)

lemma val_quantized: "val (Dec (quantized s d) (- int s)) = round_half_up s (val d)"
  by (simp add: quantized_rhu round_half_up_def val_def power_int_minus divide_inverse)

lemma quantized_not_negative:
  "\<not> is_negative v \<Longrightarrow> not_negative_check (map_option (\<lambda>d. Dec (quantized s d) (- int s)) v)"
  by (cases v) (simp_all add: is_negative_def not_negative_check_def less_eq_decimal_val less_decimal_val
      val_quantized round_half_up_nonneg not_less)

lemma round_100: "r \<le> 100 \<Longrightarrow> round_half_up 2 r \<le> 100"
proof -
  assume "r \<le> 100"
  then have "round_half_up 2 r \<le> round_half_up 2 100" by (rule round_half_up_mono)
  moreover have "grid 2 (100::rat)" by (simp add: grid_def)
  ultimately show ?thesis by (simp add: round_half_up_id)
qed

lemma soc_fits:
  assumes "pred_option (\<lambda>d. 0 \<le> val d \<and> val d \<le> 100) v"
  shows "pred_option (\<lambda>d. \<bar>rhu (val d * 10 ^ 2)\<bar> < 10 ^ 5) v"
proof (cases v)
  case (Some d)
  with assms have d: "0 \<le> val d * 10 ^ 2" "val d * 10 ^ 2 \<le> of_int 10000" by simp_all
  from rhu_mono [OF d(2)] have "rhu (val d * 10 ^ 2) \<le> 10000" by (simp only: rhu_of_int)
  moreover have "0 \<le> rhu (val d * 10 ^ 2)" by (rule rhu_nonneg [OF d(1)])
  ultimately show ?thesis using Some by simp
qed simp

lemma soc_stored:
  assumes "pred_option (\<lambda>d. 0 \<le> val d \<and> val d \<le> 100) v"
  shows "pred_option (\<lambda>d. 0 \<le> d \<and> d \<le> Dec 100 0) (map_option (\<lambda>d. Dec (quantized 2 d) (- int 2)) v)"
proof (cases v)
  case (Some d)
  have "val (Dec 100 0) = 100" by (simp add: val_def)
  with Some assms val_quantized [of 2 d] show ?thesis
    by (simp add: less_eq_decimal_val round_half_up_nonneg round_100)
qed simp

text \<open>A row built from a reading without impossible values is stored soundly.\<close>

text \<open>The row of a reading holds its instants, its source and its values to the digits of their columns.\<close>

definition holds_values :: "normalized_reading \<Rightarrow> reading_row \<Rightarrow> bool" where
  "holds_values r row \<longleftrightarrow>
     rd_timestamp row = nr_timestamp r \<and> rd_interval_end row = nr_interval_end r \<and> rd_source row = nr_source r
     \<and> map_option val (rd_generation_kw row) = map_option (\<lambda>d. round_half_up 4 (val d)) (nr_generation_kw r)
     \<and> map_option val (rd_load_kw row) = map_option (\<lambda>d. round_half_up 4 (val d)) (nr_load_kw r)
     \<and> map_option val (rd_grid_import_kw row) = map_option (\<lambda>d. round_half_up 4 (val d)) (nr_grid_import_kw r)
     \<and> map_option val (rd_grid_export_kw row) = map_option (\<lambda>d. round_half_up 4 (val d)) (nr_grid_export_kw r)
     \<and> map_option val (rd_energy_kwh row) = map_option (\<lambda>d. round_half_up 4 (val d)) (nr_energy_kwh r)
     \<and> map_option val (rd_battery_soc row) = map_option (\<lambda>d. round_half_up 2 (val d)) (nr_battery_soc r)"

lemma stored_sound:
  assumes "first_invalid_value r = None" and "fits r"
  obtains row where "stored_reading (to_model i r q) = Inr row" and "sound_row row" and "rd_id row = i"
    and "natural_key row = (nr_meter_id r, nr_energy_asset_id r, nr_interval_start r)"
    and "rd_meter_id row = nr_meter_id r" and "rd_energy_asset_id row = nr_energy_asset_id r"
    and "rd_quality_status row = q" and "rd_interval_start row = nr_interval_start r" and "holds_values r row"
proof -
  define store where "store = (\<lambda>s. map_option (\<lambda>d. Dec (quantized s d) (- int s)))"
  have inv: "nr_interval_start r \<le> nr_interval_end r"
    "list_all (\<lambda>v. \<not> is_negative v)
      [nr_generation_kw r, nr_load_kw r, nr_grid_import_kw r, nr_grid_export_kw r, nr_energy_kwh r]"
    "pred_option (\<lambda>d. 0 \<le> val d \<and> val d \<le> 100) (nr_battery_soc r)"
    using assms(1) by (auto simp: valid_first channels_def not_negative)
  have fit: "list_all (\<lambda>v. nullable (numeric 14 4) v = Inr (store 4 v))
      [nr_generation_kw r, nr_load_kw r, nr_grid_import_kw r, nr_grid_export_kw r, nr_energy_kwh r]"
    using assms(2) nullable_numeric [of 4 14] by (simp add: fits_def channels_def store_def)
  have soc: "nullable (numeric 5 2) (nr_battery_soc r) = Inr (store 2 (nr_battery_soc r))"
    unfolding store_def by (rule nullable_numeric [OF soc_fits [OF inv(3)]])
  let ?row = "(to_model i r q)
    \<lparr>rd_generation_kw := store 4 (nr_generation_kw r), rd_load_kw := store 4 (nr_load_kw r),
     rd_grid_import_kw := store 4 (nr_grid_import_kw r), rd_grid_export_kw := store 4 (nr_grid_export_kw r),
     rd_energy_kwh := store 4 (nr_energy_kwh r), rd_battery_soc := store 2 (nr_battery_soc r)\<rparr>"
  have "stored_reading (to_model i r q) = Inr ?row"
    using fit soc by (simp add: stored_reading_def to_model_def)
  moreover have "sound_row ?row"
    using inv quantized_not_negative [of _ 4] soc_stored [OF inv(3)]
    by (simp add: sound_row_def store_def to_model_def)
  moreover have "map_option val (store p v) = map_option (\<lambda>d. round_half_up p (val d)) v" for p v
    using val_quantized by (cases v) (simp_all add: store_def)
  then have "holds_values r ?row" by (simp add: holds_values_def to_model_def)
  ultimately show thesis
    by (intro that [of ?row]) (simp_all add: to_model_def natural_key_def)
qed

lemma max_of_present:
  "max_of ts = (if ts = [] then None else Some (Max (set ts)))"
proof (cases ts)
  case (Cons t us)
  have "fold max us t = Max (set (t # us))"
    by (rule Max.set_eq_fold [symmetric])
  with Cons show ?thesis by simp
qed simp

lemma series_empty: "map f xs = [] \<longleftrightarrow> xs = []" by simp

lemma exists_for_interval_iff:
  "exists_for_interval db m a s \<longleftrightarrow> (m, a, s) \<in> natural_key ` set (t_readings db)"
  by (force simp: exists_for_interval_def series_def list_ex_iff natural_key_def)

lemma pred_option_iff: "pred_option P v \<longleftrightarrow> (\<forall>x. v = Some x \<longrightarrow> P x)"
  by (cases v) simp_all

lemma latest_before:
  "pred_option (\<lambda>t. t \<le> s) (latest_interval_start db m a) \<longleftrightarrow>
   (\<forall>q \<in> set (series db m a). rd_interval_start q \<le> s)"
  by (simp add: latest_interval_start_def max_of_present)

text \<open>The interval of a reading is on record for its series.\<close>

definition recorded :: "'a telemetry_db_scheme \<Rightarrow> normalized_reading \<Rightarrow> bool" where
  "recorded db r \<longleftrightarrow>
     (nr_meter_id r, nr_energy_asset_id r, nr_interval_start r) \<in> natural_key ` set (t_readings db)"

definition gap :: "normalized_reading \<Rightarrow> bool" where
  "gap r \<longleftrightarrow> nr_source_unavailable r \<or> \<not> has_any_measurement r"

lemma max_of_one [simp]: "max_of (present [v, None]) = v"
  by (cases v) (simp_all add: present_def)

lemma built_status:
  "io_status (classify_and_build db i r t thr None False) =
   classify_reading r t
     (Some \<lparr>sc_latest_interval_start = latest_interval_start db (nr_meter_id r) (nr_energy_asset_id r),
            sc_duplicate_exists = recorded db r\<rparr>) thr"
  by (simp add: classify_and_build_def Let_def recorded_def exists_for_interval_iff)

lemma built_reading:
  "io_reading (classify_and_build db i r t thr x y) =
   (let s = io_status (classify_and_build db i r t thr x y)
    in if s \<in> {DUPLICATE, INVALID_VALUE} then None else Some (to_model i r s))"
  by (simp add: classify_and_build_def Let_def NON_STORABLE_STATUSES_def)

lemma classify_not_stored:
  "classify_reading r t (Some c) thr \<in> {DUPLICATE, INVALID_VALUE} \<longleftrightarrow>
   \<not> nr_source_unavailable r
   \<and> (first_invalid_value r \<noteq> None \<or> has_any_measurement r \<and> sc_duplicate_exists c)"
  by (auto simp: classify_reading_def Let_def)

section \<open>One reading\<close>

lemma insert_reading_stored:
  assumes "stored_reading r = Inr row" and "list_all fst (reading_checks db row)"
  shows "insert_reading r db = Inr (db\<lparr>t_readings := t_readings db @ [row]\<rparr>)"
  using assms by (auto simp: insert_reading_eq)

lemma insert_duplicate:
  assumes "stored_reading r = Inr row" "sound_row row" "\<not> known rd_id (t_readings db) (rd_id row)"
    and "natural_key row \<in> natural_key ` set (t_readings db)"
  shows "insert_reading r db
    = Inl (IntegrityError ''uq_telemetry_readings_meter_id_energy_asset_id_interval_start'')"
  using assms by (simp add: insert_reading_def reading_checks_def sound_row_def all_checks.simps
      constraint_def)

lemma built_fresh:
  assumes "\<not> (gap r \<and> recorded db r)" "nr_source_unavailable r \<Longrightarrow> first_invalid_value r = None"
    and "io_reading (classify_and_build db i r t thr None False) = Some row"
  shows "first_invalid_value r = None \<and> \<not> recorded db r
    \<and> row = to_model i r (io_status (classify_and_build db i r t thr None False))"
  using assms classify_not_stored [of r t _ thr]
  by (auto simp: built_reading Let_def built_status gap_def split: if_splits)

definition demo_telemetry :: "reading_row list \<Rightarrow> telemetry_db" where
  "demo_telemetry rows = registry.extend demo_registry (telemetry_db.fields rows)"

definition demo_reading :: "decimal option \<Rightarrow> normalized_reading" where
  "demo_reading kwh =
     \<lparr>nr_meter_id = 6, nr_timestamp = 900000000, nr_interval_start = 0, nr_interval_end = 900000000,
      nr_source = Source_METER, nr_energy_asset_id = None, nr_generation_kw = None, nr_load_kw = None,
      nr_grid_import_kw = None, nr_grid_export_kw = None, nr_energy_kwh = kwh, nr_battery_soc = None,
      nr_source_unavailable = False\<rparr>"

lemmas demo_telemetry_defs = demo_telemetry_def demo_registry_def empty_registry_def registry.defs
  telemetry_db.defs

lemma demo_known:
  "known me_id (t_meters (demo_telemetry rows)) 6"
  "t_readings (demo_telemetry rows) = rows"
  by (simp_all add: demo_telemetry_defs known_def)

lemma demo_rhu: "rhu (val (Dec 2 0) * 10000) = 20000"
proof -
  have "val (Dec 2 0) * 10000 = of_int 20000" by (simp add: val_def)
  then show ?thesis by (simp only: rhu_of_int)
qed

lemma demo_fits: "fits (demo_reading None)" "fits (demo_reading (Some (Dec 2 0)))"
  by (simp_all add: fits_def channels_def demo_reading_def demo_rhu)

lemma demo_first_invalid: "first_invalid_value (demo_reading None) = None"
  by (simp add: first_invalid_value_def demo_reading_def channels_def is_negative_def)

text \<open>The values a reading can have: instants in order, channels not negative, a charge of 0 to 100 percent.\<close>

definition possible :: "normalized_reading \<Rightarrow> bool" where
  "possible r \<longleftrightarrow> nr_interval_start r \<le> nr_interval_end r
     \<and> (\<forall>v \<in> {nr_generation_kw r, nr_load_kw r, nr_grid_import_kw r, nr_grid_export_kw r, nr_energy_kwh r}.
          pred_option (\<lambda>d. 0 \<le> val d) v)
     \<and> pred_option (\<lambda>d. 0 \<le> val d \<and> val d \<le> 100) (nr_battery_soc r)"

lemma possible_first: "first_invalid_value r = None \<longleftrightarrow> possible r"
  by (auto simp: valid_first possible_def channels_def)

lemma built_status_eq:
  "io_status (classify_and_build db i r t thr None False) =
        (if nr_source_unavailable r then SOURCE_UNAVAILABLE
         else if \<not> possible r then INVALID_VALUE
         else if nr_generation_kw r = None \<and> nr_load_kw r = None \<and> nr_grid_import_kw r = None \<and> nr_grid_export_kw r = None
           \<and> nr_energy_kwh r = None \<and> nr_battery_soc r = None then MISSING
         else if recorded db r then DUPLICATE
         else if \<exists>q \<in> set (series db (nr_meter_id r) (nr_energy_asset_id r)). nr_interval_start r < rd_interval_start q
         then OUT_OF_ORDER
         else if thr < t - nr_interval_end r then STALE else VALID)"
proof -
  have "(case latest_interval_start db m a of None \<Rightarrow> False | Some u \<Rightarrow> x < u)
      \<longleftrightarrow> (\<exists>q \<in> set (series db m a). x < rd_interval_start q)" for m a x
    using latest_before [of x db m a] by (auto simp: not_less [symmetric] split: option.splits)
  then show ?thesis
    unfolding built_status classify_reading_def Let_def option.case series_context.simps possible_first [symmetric]
    by (simp add: has_any_measurement_def measurements_def)
qed

lemma known_required:
  assumes "known me_id (t_meters db) m" "pred_option (known as_id (t_energy_assets db)) a"
  shows "require_meter db m = Inr ()" "require_asset db a = Inr ()"
  using assms by (simp_all add: require_meter_def require_asset_def)

text \<open>A row that was built is stored and announced.\<close>

lemma built_row_ingested:
  assumes "telemetry_ok db" "\<not> known rd_id (t_readings db) i"
    and "known me_id (t_meters db) (nr_meter_id r)"
    and "pred_option (known as_id (t_energy_assets db)) (nr_energy_asset_id r)"
    and "fits r" and "nr_source_unavailable r \<Longrightarrow> possible r"
    and "\<not> (gap r \<and> recorded db r)"
    and some: "io_reading (classify_and_build db i r t thr None False) = Some new"
  shows "\<exists>row n. ingest_reading thr (Some t) now i r db = Inr (db\<lparr>t_readings := t_readings db @ [row]\<rparr>,
        (classify_and_build db i r t thr None False)\<lparr>io_reading := Some row\<rparr>, [n])
    \<and> telemetry_ok (db\<lparr>t_readings := t_readings db @ [row]\<rparr>)
    \<and> natural_key row = (nr_meter_id r, nr_energy_asset_id r, nr_interval_start r)
    \<and> rd_quality_status row = io_status (classify_and_build db i r t thr None False) \<and> holds_values r row"
proof -
  define o1 where "o1 = classify_and_build db i r t thr None False"
  note req = known_required [OF assms(3,4)]
  from built_fresh [OF assms(7) assms(6) [folded possible_first] some] have inv: "first_invalid_value r = None"
    and fresh: "\<not> recorded db r" and new: "new = to_model i r (io_status o1)"
    by (simp_all add: o1_def)
  obtain row where row: "stored_reading (to_model i r (io_status o1)) = Inr row" "sound_row row" "rd_id row = i"
    "natural_key row = (nr_meter_id r, nr_energy_asset_id r, nr_interval_start r)"
    "rd_meter_id row = nr_meter_id r" "rd_energy_asset_id row = nr_energy_asset_id r"
    "rd_quality_status row = io_status o1" "holds_values r row"
    using stored_sound [OF inv assms(5)] by metis
  let ?db = "db\<lparr>t_readings := t_readings db @ [row]\<rparr>"
  have ins: "insert_reading new db = Inr ?db"
    unfolding new using row fresh assms(2,3,4)
    by (intro insert_reading_stored) (simp_all add: checks_iff recorded_def)
  have "refreshed ?db o1 = o1\<lparr>io_reading := Some row\<rparr>"
    using fetch_append_new [of rd_id "t_readings db" i row] assms(2) row(3)
    by (simp add: refreshed_def some [folded o1_def] new to_model_def)
  then have "ingest_reading thr (Some t) now i r db =
      Inr (?db, o1\<lparr>io_reading := Some row\<rparr>, [notify_site (rd_meter_id new) (io_status o1) 1])"
    by (simp add: ingest_reading_def req o1_def [symmetric] some [folded o1_def] ins)
  moreover have "telemetry_ok ?db" by (rule insert_reading_ok [OF ins assms(1)])
  ultimately show ?thesis using row(4,7,8) unfolding o1_def by blast
qed

text \<open>C35. A reading of a known meter and asset, with no channel beyond its column, that is not a gap on an
  interval already on record and carries no impossible value when its source is unavailable, is
  ingested. It is either refused as a duplicate or an impossible value, and nothing changes and nobody
  is told, or exactly one row of its series is added and one notification says so; the row has the
  reading's instants, source and values, to the digits of the columns, and its status. The table
  keeps its invariant. The status is the first that applies: unavailable source, impossible value,
  nothing measured, interval on record, a later interval of the series on record, older than the
  threshold; VALID otherwise, that is exactly for a sound reading of an available source that is none
  of these.\<close>

theorem ingest_keeps_series:
  assumes "telemetry_ok db" "\<not> known rd_id (t_readings db) i"
    and "known me_id (t_meters db) (nr_meter_id r)"
    and "pred_option (known as_id (t_energy_assets db)) (nr_energy_asset_id r)"
    and "fits r" and "nr_source_unavailable r \<Longrightarrow> possible r"
    and "\<not> (gap r \<and> recorded db r)"
  shows "\<exists>db' outcome ns. ingest_reading thr (Some t) now i r db = Inr (db', outcome, ns)
    \<and> telemetry_ok db'
    \<and> (io_reading outcome = None \<longleftrightarrow> io_status outcome \<in> {DUPLICATE, INVALID_VALUE})
    \<and> (case io_reading outcome of None \<Rightarrow> db' = db \<and> ns = []
        | Some row \<Rightarrow> db' = db\<lparr>t_readings := t_readings db @ [row]\<rparr> \<and> length ns = 1
            \<and> natural_key row = (nr_meter_id r, nr_energy_asset_id r, nr_interval_start r)
            \<and> rd_quality_status row = io_status outcome \<and> holds_values r row)
    \<and> io_status outcome =
        (if nr_source_unavailable r then SOURCE_UNAVAILABLE
         else if \<not> possible r then INVALID_VALUE
         else if nr_generation_kw r = None \<and> nr_load_kw r = None \<and> nr_grid_import_kw r = None \<and> nr_grid_export_kw r = None
           \<and> nr_energy_kwh r = None \<and> nr_battery_soc r = None then MISSING
         else if recorded db r then DUPLICATE
         else if \<exists>q \<in> set (series db (nr_meter_id r) (nr_energy_asset_id r)). nr_interval_start r < rd_interval_start q
         then OUT_OF_ORDER
         else if thr < t - nr_interval_end r then STALE else VALID)
    \<and> (io_status outcome = VALID \<longleftrightarrow>
         \<not> nr_source_unavailable r \<and> sound_reading r \<and> \<not> recorded db r
         \<and> (\<forall>q \<in> set (series db (nr_meter_id r) (nr_energy_asset_id r)).
               rd_interval_start q \<le> nr_interval_start r)
         \<and> t - nr_interval_end r \<le> thr)"
proof -
  define o1 where "o1 = classify_and_build db i r t thr None False"
  have valid: "io_status o1 = VALID \<longleftrightarrow> \<not> nr_source_unavailable r \<and> sound_reading r \<and> \<not> recorded db r
      \<and> (\<forall>q \<in> set (series db (nr_meter_id r) (nr_energy_asset_id r)).
            rd_interval_start q \<le> nr_interval_start r)
      \<and> t - nr_interval_end r \<le> thr"
    unfolding o1_def built_status classify_VALID by (simp add: latest_before)
  have status: "io_status o1 =
        (if nr_source_unavailable r then SOURCE_UNAVAILABLE
         else if \<not> possible r then INVALID_VALUE
         else if nr_generation_kw r = None \<and> nr_load_kw r = None \<and> nr_grid_import_kw r = None \<and> nr_grid_export_kw r = None
           \<and> nr_energy_kwh r = None \<and> nr_battery_soc r = None then MISSING
         else if recorded db r then DUPLICATE
         else if \<exists>q \<in> set (series db (nr_meter_id r) (nr_energy_asset_id r)). nr_interval_start r < rd_interval_start q
         then OUT_OF_ORDER
         else if thr < t - nr_interval_end r then STALE else VALID)"
    unfolding o1_def by (rule built_status_eq)
  note req = known_required [OF assms(3,4)]
  have none: "io_reading o1 = None \<longleftrightarrow> io_status o1 \<in> {DUPLICATE, INVALID_VALUE}"
    unfolding o1_def by (simp add: built_reading Let_def)
  show ?thesis
  proof (cases "io_reading o1")
    case None
    then have "ingest_reading thr (Some t) now i r db = Inr (db, o1, [])"
      by (simp add: ingest_reading_def req o1_def [symmetric])
    with None none valid status assms(1) show ?thesis by auto
  next
    case (Some new)
    obtain row n where row: "ingest_reading thr (Some t) now i r db
          = Inr (db\<lparr>t_readings := t_readings db @ [row]\<rparr>, o1\<lparr>io_reading := Some row\<rparr>, [n])"
        "telemetry_ok (db\<lparr>t_readings := t_readings db @ [row]\<rparr>)"
        "natural_key row = (nr_meter_id r, nr_energy_asset_id r, nr_interval_start r)"
        "rd_quality_status row = io_status o1" "holds_values r row"
      using built_row_ingested [OF assms Some [unfolded o1_def]] unfolding o1_def by blast
    then show ?thesis using none valid status Some by auto
  qed
qed

lemma ingest_keeps_series_witness:
  "\<exists>db' outcome ns. ingest_reading DEFAULT_STALENESS_THRESHOLD (Some 1000000000) 0 20
      (demo_reading (Some (Dec 2 0))) (demo_telemetry []) = Inr (db', outcome, ns)
    \<and> io_status outcome = VALID \<and> length (t_readings db') = 1 \<and> telemetry_ok db'"
proof -
  let ?r = "demo_reading (Some (Dec 2 0))"
  have ok: "telemetry_ok (demo_telemetry [])" by (simp add: telemetry_ok_def demo_known)
  have pre: "\<not> known rd_id (t_readings (demo_telemetry [])) 20"
    "known me_id (t_meters (demo_telemetry [])) (nr_meter_id ?r)"
    "pred_option (known as_id (t_energy_assets (demo_telemetry []))) (nr_energy_asset_id ?r)"
    "\<not> nr_source_unavailable ?r" "\<not> recorded (demo_telemetry []) ?r"
    by (simp_all add: demo_known known_def [of rd_id] demo_reading_def recorded_def)
  have "sound_reading ?r"
    by (simp add: sound_reading_def demo_reading_def has_any_measurement_def measurements_def channels_def val_def)
  with ingest_keeps_series [OF ok pre(1,2,3) demo_fits(2), of DEFAULT_STALENESS_THRESHOLD 1000000000 0] pre(4,5)
  show ?thesis
    by (fastforce simp: demo_known series_def demo_reading_def DEFAULT_STALENESS_THRESHOLD_def split: option.splits)
qed

section \<open>A batch\<close>

lemma stored_reading_key: "stored_reading r = Inr row \<Longrightarrow>
    natural_key row = natural_key r \<and> rd_id row = rd_id r \<and> rd_meter_id row = rd_meter_id r
    \<and> rd_energy_asset_id row = rd_energy_asset_id r \<and> rd_interval_start row = rd_interval_start r"
  by (auto simp: stored_reading_def bindE_eq_Inr natural_key_def)

lemma storable_rows_snoc:
  "storable_rows (os @ [o1]) = storable_rows os @ (case io_reading o1 of None \<Rightarrow> [] | Some r \<Rightarrow> [r])"
  by (cases "io_reading o1") (simp_all add: storable_rows_def present_def)

lemma storable_rows_append: "storable_rows (os @ ps) = storable_rows os @ storable_rows ps"
  by (simp add: storable_rows_def present_def)

lemma require_known:
  "require_meter db m = Inr u \<longleftrightarrow> known me_id (t_meters db) m"
  "require_asset db a = Inr u \<longleftrightarrow> pred_option (known as_id (t_energy_assets db)) a"
  by (simp_all add: require_meter_def require_asset_def)

definition verified_ok :: "'a telemetry_db_scheme \<Rightarrow> batch_state \<Rightarrow> bool" where
  "verified_ok db bs \<longleftrightarrow>
     (\<forall>m \<in> set (bs_verified_meters bs). known me_id (t_meters db) m)
     \<and> (\<forall>a \<in> set (bs_verified_assets bs). known as_id (t_energy_assets db) a)"

text \<open>One step of the loop once the meter and the asset are known.\<close>

definition advance ::
  "'a telemetry_db_scheme \<Rightarrow> datetime \<Rightarrow> timedelta \<Rightarrow> uuid \<Rightarrow> normalized_reading \<Rightarrow> batch_state \<Rightarrow> batch_state" where
  "advance db t thr i r bs =
     (let o1 = classify_and_build db i r t thr (bs_staged_latest bs (nr_meter_id r, nr_energy_asset_id r))
                 ((nr_meter_id r, nr_energy_asset_id r, nr_interval_start r) \<in> set (bs_staged_intervals bs));
          bs1 = bs\<lparr>bs_outcomes := bs_outcomes bs @ [o1]\<rparr>
      in if io_stored o1 then stage (nr_meter_id r, nr_energy_asset_id r) (nr_interval_start r) bs1 else bs1)"

lemma batch_step_known:
  assumes "verified_ok db bs" and "batch_step db t thr (i, r) bs = Inr bs'"
  shows "known me_id (t_meters db) (nr_meter_id r)
      \<and> pred_option (known as_id (t_energy_assets db)) (nr_energy_asset_id r)"
  using assms
  by (auto simp: batch_step_def verify_meter_def verify_asset_def bindE_eq_Inr require_known verified_ok_def
      split: if_splits option.splits)

lemma batch_step_eq:
  assumes "verified_ok db bs" and "known me_id (t_meters db) (nr_meter_id r)"
    and "pred_option (known as_id (t_energy_assets db)) (nr_energy_asset_id r)"
  obtains vm va where "verified_ok db (bs\<lparr>bs_verified_meters := vm, bs_verified_assets := va\<rparr>)"
    and "batch_step db t thr (i, r) bs
      = Inr (advance db t thr i r (bs\<lparr>bs_verified_meters := vm, bs_verified_assets := va\<rparr>))"
proof -
  define vm where "vm = (if nr_meter_id r \<notin> set (bs_verified_meters bs)
    then nr_meter_id r # bs_verified_meters bs else bs_verified_meters bs)"
  define va where "va = (case nr_energy_asset_id r of None \<Rightarrow> bs_verified_assets bs
    | Some a \<Rightarrow> if a \<notin> set (bs_verified_assets bs) then a # bs_verified_assets bs else bs_verified_assets bs)"
  have "verify_meter db (nr_meter_id r) bs = Inr (bs\<lparr>bs_verified_meters := vm\<rparr>)"
    using assms(2) by (simp add: verify_meter_def vm_def require_meter_def)
  moreover have "verify_asset db (nr_energy_asset_id r) (bs\<lparr>bs_verified_meters := vm\<rparr>)
      = Inr (bs\<lparr>bs_verified_meters := vm, bs_verified_assets := va\<rparr>)"
    using assms(3) by (auto simp: verify_asset_def va_def require_asset_def split: option.splits)
  ultimately have "batch_step db t thr (i, r) bs
      = Inr (advance db t thr i r (bs\<lparr>bs_verified_meters := vm, bs_verified_assets := va\<rparr>))"
    by (simp add: batch_step_def advance_def Let_def)
  moreover have "verified_ok db (bs\<lparr>bs_verified_meters := vm, bs_verified_assets := va\<rparr>)"
    using assms by (auto simp: verified_ok_def vm_def va_def split: option.splits)
  ultimately show thesis by (rule that [rotated])
qed

text \<open>What the loop has staged, against the rows \<open>S\<close> it is going to store.\<close>

definition staged_ok :: "reading_row list \<Rightarrow> batch_state \<Rightarrow> bool" where
  "staged_ok S bs \<longleftrightarrow>
     set (bs_staged_intervals bs) = natural_key ` set S
     \<and> (\<forall>m a. bs_staged_latest bs (m, a) =
          max_of (map rd_interval_start (filter (\<lambda>r. rd_meter_id r = m \<and> rd_energy_asset_id r = a) S)))"

lemma max_of_append: "max_of (xs @ ys) = max_of (present [max_of xs, max_of ys])"
proof (cases "xs = [] \<or> ys = []")
  case True
  then show ?thesis by (elim disjE) (simp_all add: max_of_present present_def)
next
  case False
  then show ?thesis by (simp add: max_of_present present_def Max_Un max.commute)
qed

lemma max_of_snoc:
  "max_of (xs @ [s]) =
   (case max_of xs of None \<Rightarrow> Some s | Some p \<Rightarrow> if s > p then Some s else Some p)"
  by (cases xs) (auto simp: max_def)

lemma advance_staged:
  assumes "staged_ok S bs"
    and "natural_key row = (nr_meter_id r, nr_energy_asset_id r, nr_interval_start r)"
  shows "staged_ok (S @ [row]) (stage (nr_meter_id r, nr_energy_asset_id r) (nr_interval_start r) bs)"
proof -
  have row: "rd_meter_id row = nr_meter_id r" "rd_energy_asset_id row = nr_energy_asset_id r"
    "rd_interval_start row = nr_interval_start r"
    using assms(2) by (simp_all add: natural_key_def)
  have "max_of (map rd_interval_start (filter (\<lambda>r. rd_meter_id r = m \<and> rd_energy_asset_id r = a) (S @ [row])))
      = (if (m, a) = (nr_meter_id r, nr_energy_asset_id r)
         then (case bs_staged_latest bs (m, a) of None \<Rightarrow> Some (nr_interval_start r)
               | Some p \<Rightarrow> if nr_interval_start r > p then Some (nr_interval_start r) else Some p)
         else bs_staged_latest bs (m, a))" for m a
    using assms(1) by (auto simp: staged_ok_def row max_of_snoc simp del: max_of.simps)
  then show ?thesis
    using assms by (auto simp: staged_ok_def stage_def Let_def simp del: max_of.simps split: option.splits)
qed

text \<open>Against the staged state a reading is classified as it would be against the stored rows.\<close>

lemma classify_staged:
  assumes "staged_ok S bs"
  shows "classify_and_build db i r t thr (bs_staged_latest bs (nr_meter_id r, nr_energy_asset_id r))
      ((nr_meter_id r, nr_energy_asset_id r, nr_interval_start r) \<in> set (bs_staged_intervals bs))
    = classify_and_build (db\<lparr>t_readings := t_readings db @ S\<rparr>) i r t thr None False"
proof -
  have "latest_interval_start (db\<lparr>t_readings := t_readings db @ S\<rparr>) m a
      = max_of (present [latest_interval_start db m a, bs_staged_latest bs (m, a)])" for m a
    using assms by (simp add: latest_interval_start_def series_def staged_ok_def max_of_append)
  moreover have "exists_for_interval (db\<lparr>t_readings := t_readings db @ S\<rparr>) m a s
      \<longleftrightarrow> (m, a, s) \<in> set (bs_staged_intervals bs) \<or> exists_for_interval db m a s" for m a s
    using assms by (auto simp: exists_for_interval_iff staged_ok_def)
  ultimately show ?thesis by (simp add: classify_and_build_def Let_def)
qed

section \<open>A batch is the sequence of its readings\<close>

fun ingest_each ::
  "timedelta \<Rightarrow> datetime \<Rightarrow> (uuid \<times> normalized_reading) list \<Rightarrow> 'a telemetry_db_scheme
   \<Rightarrow> ('a telemetry_db_scheme \<times> ingestion_outcome list) result" where
  "ingest_each thr t [] db = Inr (db, [])"
| "ingest_each thr t ((i, r) # rest) db =
     bindE (ingest_reading thr (Some t) t i r db) (\<lambda>(db1, o1, _).
     bindE (ingest_each thr t rest db1) (\<lambda>(db2, os). Inr (db2, o1 # os)))"

lemma insert_reading_extends:
  assumes "insert_reading r db = Inr db'"
  obtains row where "db' = db\<lparr>t_readings := t_readings db @ [row]\<rparr>" and "natural_key row = natural_key r"
    and "rd_id row = rd_id r" and "\<not> known rd_id (t_readings db) (rd_id r)"
    and "natural_key r \<notin> natural_key ` set (t_readings db)"
proof -
  obtain row where row: "stored_reading r = Inr row" "list_all fst (reading_checks db row)"
    "db' = db\<lparr>t_readings := t_readings db @ [row]\<rparr>"
    using assms by (auto simp: insert_reading_eq)
  with stored_reading_key [OF row(1)] show thesis by (intro that [of row]) (simp_all add: checks_iff)
qed

lemma refreshed_extends:
  assumes "\<exists>more. t_readings db' = t_readings db @ more"
    and "\<forall>row. io_reading o1 = Some row \<longrightarrow> known rd_id (t_readings db) (rd_id row)"
  shows "refreshed db' o1 = refreshed db o1"
proof (cases "io_reading o1")
  case (Some row)
  with assms(2) have "known rd_id (t_readings db) (rd_id row)" by simp
  with assms(1) show ?thesis by (auto simp: refreshed_def Some fetch_persists)
qed (simp add: refreshed_def)

lemma readings_same: "\<exists>more. db = db\<lparr>t_readings := t_readings db @ more\<rparr>"
  by (rule exI [of _ "[]"]) simp

lemma ingest_reading_extends:
  "ingest_reading thr g now i r db = Inr (db1, o1, ns) \<Longrightarrow>
   \<exists>more. db1 = db\<lparr>t_readings := t_readings db @ more\<rparr>"
  by (auto simp: ingest_reading_def bindE_eq_Inr Let_def insert_reading_eq split: option.splits
      intro: readings_same)

lemma ingest_each_extends:
  "ingest_each thr t rs db = Inr (db', os) \<Longrightarrow> \<exists>more. t_readings db' = t_readings db @ more"
proof (induction rs arbitrary: db os)
  case (Cons x rs)
  obtain i r where x: "x = (i, r)" by (cases x)
  from Cons.prems obtain db1 o1 ns os1 where s: "ingest_reading thr (Some t) t i r db = Inr (db1, o1, ns)"
    "ingest_each thr t rs db1 = Inr (db', os1)"
    by (auto simp: x bindE_eq_Inr)
  from ingest_reading_extends [OF s(1)] Cons.IH [OF s(2)] show ?case by auto
qed auto

lemma stage_outcomes [simp]: "bs_outcomes (stage ser start bs) = bs_outcomes bs"
  by (simp add: stage_def Let_def)

lemma verify_outcomes:
  "verify_meter db m bs = Inr bs' \<Longrightarrow> bs_outcomes bs' = bs_outcomes bs"
  "verify_asset db a bs = Inr bs' \<Longrightarrow> bs_outcomes bs' = bs_outcomes bs"
  by (auto simp: verify_meter_def verify_asset_def bindE_eq_Inr split: if_splits option.splits)

lemma batch_step_outcome:
  assumes "batch_step db t thr (i, r) bs = Inr bs'"
  obtains a b where "bs_outcomes bs' = bs_outcomes bs @ [classify_and_build db i r t thr a b]"
proof -
  from assms obtain bs1 bs2 where v: "verify_meter db (nr_meter_id r) bs = Inr bs1"
    "verify_asset db (nr_energy_asset_id r) bs1 = Inr bs2"
    and s: "bs' = advance db t thr i r bs2"
    by (auto simp: batch_step_def bindE_eq_Inr advance_def Let_def)
  from verify_outcomes(1) [OF v(1)] verify_outcomes(2) [OF v(2)] that show thesis
    by (simp add: s advance_def Let_def split: if_splits)
qed

lemma batch_outcomes:
  "foldE (batch_step db t thr) rs bs = Inr bs' \<Longrightarrow> \<exists>new. bs_outcomes bs' = bs_outcomes bs @ new"
proof (induction rs arbitrary: bs)
  case (Cons x rs)
  from Cons.prems obtain bs1 where "batch_step db t thr x bs = Inr bs1" "foldE (batch_step db t thr) rs bs1 = Inr bs'"
    by (auto simp: bindE_eq_Inr)
  moreover from this(1) obtain a b where "bs_outcomes bs1 = bs_outcomes bs
      @ [classify_and_build db (fst x) (snd x) t thr a b]"
    using batch_step_outcome [of db t thr "fst x" "snd x" bs bs1] by auto
  ultimately show ?case using Cons.IH [of bs1] by auto
qed simp

definition storing :: "'a telemetry_db_scheme \<Rightarrow> batch_state \<Rightarrow> reading_row list \<Rightarrow> bool" where
  "storing db bs S \<longleftrightarrow>
     foldE insert_reading (storable_rows (bs_outcomes bs)) db = Inr (db\<lparr>t_readings := t_readings db @ S\<rparr>)
     \<and> staged_ok S bs \<and> verified_ok db bs"

definition finishes ::
  "'a telemetry_db_scheme \<Rightarrow> datetime \<Rightarrow> timedelta \<Rightarrow> (uuid \<times> normalized_reading) list \<Rightarrow> batch_state
   \<Rightarrow> 'a telemetry_db_scheme \<Rightarrow> ingestion_outcome list \<Rightarrow> bool" where
  "finishes db t thr rs bs db' os \<longleftrightarrow>
     (\<exists>bs'. foldE (batch_step db t thr) rs bs = Inr bs'
        \<and> foldE insert_reading (storable_rows (bs_outcomes bs')) db = Inr db'
        \<and> os = map (refreshed db') (drop (length (bs_outcomes bs)) (bs_outcomes bs')))"

lemma finishes_Cons:
  assumes "batch_step db t thr x bs = Inr bs1" and "bs_outcomes bs1 = bs_outcomes bs @ [o1]"
  shows "finishes db t thr (x # rs) bs db' os \<longleftrightarrow>
    (\<exists>os'. os = refreshed db' o1 # os' \<and> finishes db t thr rs bs1 db' os')"
proof -
  have "drop (length (bs_outcomes bs)) (bs_outcomes bs') =
      o1 # drop (length (bs_outcomes bs1)) (bs_outcomes bs')"
    if "foldE (batch_step db t thr) rs bs1 = Inr bs'" for bs'
    using batch_outcomes [OF that] assms(2) by auto
  then show ?thesis using assms(1) unfolding finishes_def by auto
qed

lemma finishes_refused:
  assumes "foldE insert_reading (storable_rows (bs_outcomes bs)) db = Inl e"
  shows "\<not> finishes db t thr rs bs db' os"
  using assms batch_outcomes [of db t thr rs bs]
  by (fastforce simp: finishes_def storable_rows_append foldE_append)

lemma storing_none:
  assumes "storing db bs S" and "io_reading o1 = None"
  shows "storing db (bs\<lparr>bs_outcomes := bs_outcomes bs @ [o1]\<rparr>) S"
  using assms by (simp add: storing_def storable_rows_snoc staged_ok_def verified_ok_def)

lemma storing_row:
  assumes "storing db bs S" and "io_reading o1 = Some row"
    and "natural_key row = (nr_meter_id r, nr_energy_asset_id r, nr_interval_start r)"
    and "insert_reading row (db\<lparr>t_readings := t_readings db @ S\<rparr>) = Inr dbk"
  obtains srow where "dbk = db\<lparr>t_readings := t_readings db @ S @ [srow]\<rparr>" and "rd_id srow = rd_id row"
    and "storing db (stage (nr_meter_id r, nr_energy_asset_id r) (nr_interval_start r)
           (bs\<lparr>bs_outcomes := bs_outcomes bs @ [o1]\<rparr>)) (S @ [srow])"
proof -
  obtain srow where dbk: "dbk = db\<lparr>t_readings := t_readings db @ S @ [srow]\<rparr>"
    and k: "natural_key srow = natural_key row" "rd_id srow = rd_id row"
    using insert_reading_extends [OF assms(4)] by auto
  have "staged_ok S (bs\<lparr>bs_outcomes := bs_outcomes bs @ [o1]\<rparr>)"
    using assms(1) by (simp add: storing_def staged_ok_def)
  from advance_staged [OF this, of srow r] k(1) assms(3)
  have "staged_ok (S @ [srow]) (stage (nr_meter_id r, nr_energy_asset_id r) (nr_interval_start r)
           (bs\<lparr>bs_outcomes := bs_outcomes bs @ [o1]\<rparr>))"
    by simp
  moreover have "foldE insert_reading (storable_rows (bs_outcomes bs @ [o1])) db = Inr dbk"
    using assms(1,2,4) by (simp add: storing_def storable_rows_snoc foldE_append)
  ultimately show thesis
    using assms(1) dbk k(2)
    by (intro that [of srow]) (simp_all add: storing_def verified_ok_def stage_def Let_def)
qed

lemma batch_simulates:
  assumes "storing db bs S"
  shows "finishes db t thr rs bs db' os \<longleftrightarrow>
    ingest_each thr t rs (db\<lparr>t_readings := t_readings db @ S\<rparr>) = Inr (db', os)"
  using assms
proof (induction rs arbitrary: bs S os)
  case Nil
  then show ?case by (auto simp: finishes_def storing_def)
next
  case (Cons x rs)
  obtain i r where x: "x = (i, r)" by (cases x)
  let ?dbk = "db\<lparr>t_readings := t_readings db @ S\<rparr>"
  have ver: "verified_ok db bs" using Cons.prems by (simp add: storing_def)
  show ?case
  proof (cases "known me_id (t_meters db) (nr_meter_id r)
      \<and> pred_option (known as_id (t_energy_assets db)) (nr_energy_asset_id r)")
    case False
    then have "\<not> finishes db t thr (x # rs) bs db' os"
      using batch_step_known [OF ver] by (auto simp: finishes_def x bindE_eq_Inr)
    moreover have "ingest_each thr t (x # rs) ?dbk \<noteq> Inr (db', os)"
      using False by (auto simp: x ingest_reading_def bindE_eq_Inr require_known)
    ultimately show ?thesis by blast
  next
    case True
    then obtain vm va where
      v: "verified_ok db (bs\<lparr>bs_verified_meters := vm, bs_verified_assets := va\<rparr>)" and
      step: "batch_step db t thr (i, r) bs
        = Inr (advance db t thr i r (bs\<lparr>bs_verified_meters := vm, bs_verified_assets := va\<rparr>))"
      using batch_step_eq [OF ver] by metis
    define bs0 where "bs0 = bs\<lparr>bs_verified_meters := vm, bs_verified_assets := va\<rparr>"
    define o1 where "o1 = classify_and_build ?dbk i r t thr None False"
    have st0: "storing db bs0 S"
      using Cons.prems v by (simp add: storing_def bs0_def staged_ok_def)
    then have adv: "advance db t thr i r bs0 =
        (if io_stored o1 then stage (nr_meter_id r, nr_energy_asset_id r) (nr_interval_start r)
           (bs0\<lparr>bs_outcomes := bs_outcomes bs0 @ [o1]\<rparr>)
         else bs0\<lparr>bs_outcomes := bs_outcomes bs0 @ [o1]\<rparr>)"
      using classify_staged [of S bs0 db i r t thr]
      by (simp add: advance_def Let_def storing_def o1_def)
    have outs: "bs_outcomes (advance db t thr i r bs0) = bs_outcomes bs @ [o1]"
      by (simp add: adv) (simp add: bs0_def)
    note fin = finishes_Cons [OF step [folded bs0_def] outs, folded x]
    have req: "require_meter ?dbk (nr_meter_id r) = Inr ()" "require_asset ?dbk (nr_energy_asset_id r) = Inr ()"
      using True by (simp_all add: require_known)
    show ?thesis
    proof (cases "io_reading o1")
      case None
      with adv storing_none [OF st0 None] have st1: "storing db (advance db t thr i r bs0) S"
        by (simp add: io_stored_def)
      have "ingest_reading thr (Some t) t i r ?dbk = Inr (?dbk, o1, [])"
        by (simp add: ingest_reading_def req o1_def [symmetric] None)
      moreover have "refreshed db' o1 = o1" using None by (simp add: refreshed_def)
      ultimately show ?thesis
        using Cons.IH [OF st1] unfolding fin by (auto simp: x bindE_eq_Inr)
    next
      case (Some row)
      have row: "natural_key row = (nr_meter_id r, nr_energy_asset_id r, nr_interval_start r)" "rd_id row = i"
        using Some by (auto simp: o1_def built_reading Let_def to_model_def natural_key_def split: if_splits)
      have ing: "ingest_reading thr (Some t) t i r ?dbk = bindE (insert_reading row ?dbk)
          (\<lambda>dbk. Inr (dbk, refreshed dbk o1, [notify_site (rd_meter_id row) (io_status o1) 1]))"
        by (simp add: ingest_reading_def req o1_def [symmetric] Some)
      show ?thesis
      proof (cases "insert_reading row ?dbk")
        case (Inl e)
        then have "foldE insert_reading (storable_rows (bs_outcomes (advance db t thr i r bs0))) db = Inl e"
          using st0 unfolding outs storable_rows_snoc foldE_append by (simp add: Some storing_def bs0_def)
        from finishes_refused [OF this] show ?thesis unfolding fin by (simp add: x ing Inl)
      next
        case (Inr dbk)
        obtain srow where s: "dbk = db\<lparr>t_readings := t_readings db @ S @ [srow]\<rparr>" "rd_id srow = rd_id row"
          "storing db (stage (nr_meter_id r, nr_energy_asset_id r) (nr_interval_start r)
             (bs0\<lparr>bs_outcomes := bs_outcomes bs0 @ [o1]\<rparr>)) (S @ [srow])"
          by (rule storing_row [OF st0 Some row(1) Inr])
        have st1: "storing db (advance db t thr i r bs0) (S @ [srow])"
          using s(3) by (simp add: adv io_stored_def Some)
        have "refreshed db' o1 = refreshed dbk o1" if "ingest_each thr t rs dbk = Inr (db', os')" for os'
          using refreshed_extends [OF ingest_each_extends [OF that]] s(1,2) Some by (simp add: known_def)
        then show ?thesis
          using Cons.IH [OF st1] unfolding fin by (auto simp: x bindE_eq_Inr ing Inr s(1))
      qed
    qed
  qed
qed

text \<open>C28. A batch is the sequence of its readings. Ingesting a batch succeeds exactly when ingesting its
  readings one after the other, each in its own transaction at the same instant, would, and then
  leaves the same tables and reports the same outcome for every reading, duplicates and late
  intervals within the batch included.\<close>

theorem batch_is_the_sequence:
  "(\<exists>ns. ingest_batch thr (Some t) now readings db = Inr (db', os, ns))
   \<longleftrightarrow> ingest_each thr t readings db = Inr (db', os)"
proof -
  have "storing db empty_batch []"
    by (simp add: storing_def empty_batch_def staged_ok_def verified_ok_def storable_rows_def present_def)
  from batch_simulates [OF this] have "finishes db t thr readings empty_batch db' os \<longleftrightarrow>
      ingest_each thr t readings db = Inr (db', os)" by simp
  moreover have "finishes db t thr readings empty_batch db' os \<longleftrightarrow>
      (\<exists>ns. ingest_batch thr (Some t) now readings db = Inr (db', os, ns))"
    by (auto simp: finishes_def ingest_batch_def bindE_eq_Inr Let_def empty_batch_def)
  ultimately show ?thesis by blast
qed

section \<open>Gaps\<close>

lemma batch_builds:
  assumes "foldE (batch_step db t thr) rs bs = Inr bs'" and "(i, r) \<in> set rs"
  shows "\<exists>a b. classify_and_build db i r t thr a b \<in> set (bs_outcomes bs')"
  using assms
proof (induction rs arbitrary: bs)
  case (Cons x rs)
  from Cons.prems(1) obtain bs1 where s: "batch_step db t thr x bs = Inr bs1"
    "foldE (batch_step db t thr) rs bs1 = Inr bs'"
    by (auto simp: bindE_eq_Inr)
  show ?case
  proof (cases "x = (i, r)")
    case True
    with s(1) obtain a b where "bs_outcomes bs1 = bs_outcomes bs @ [classify_and_build db i r t thr a b]"
      using batch_step_outcome by blast
    with batch_outcomes [OF s(2)] have "classify_and_build db i r t thr a b \<in> set (bs_outcomes bs')" by auto
    then show ?thesis by blast
  next
    case False
    with Cons s(2) show ?thesis by auto
  qed
qed simp

lemma insert_fresh:
  "foldE insert_reading rows db = Inr db' \<Longrightarrow> row \<in> set rows \<Longrightarrow>
   natural_key row \<notin> natural_key ` set (t_readings db)"
proof (induction rows arbitrary: db)
  case (Cons r rows)
  from Cons.prems(1) obtain db1 where s: "insert_reading r db = Inr db1" "foldE insert_reading rows db1 = Inr db'"
    by (auto simp: bindE_eq_Inr)
  from insert_reading_extends [OF s(1)] obtain srow where d: "db1 = db\<lparr>t_readings := t_readings db @ [srow]\<rparr>"
    "natural_key r \<notin> natural_key ` set (t_readings db)" by blast
  with Cons.IH [OF s(2)] Cons.prems(2) show ?case by auto
qed simp

lemma gap_status:
  assumes "gap r" and "first_invalid_value r = None"
  shows "classify_reading r t c thr \<in> {SOURCE_UNAVAILABLE, MISSING}"
  using assms by (auto simp: classify_reading_def Let_def gap_def)

text \<open>Recording the same gap twice fails. A reading that says its source is unavailable, or that
  measures nothing, is recorded although its interval is taken - the classifier looks for
  duplicates only after both - so the row runs into the table's natural key: ingesting it raises
  an integrity error, and so does every batch that contains it, which loses the whole upload.\<close>

theorem repeated_gap_raises:
  assumes "known me_id (t_meters db) (nr_meter_id r)"
    and "pred_option (known as_id (t_energy_assets db)) (nr_energy_asset_id r)"
    and "\<not> known rd_id (t_readings db) i" and "fits r"
    and "first_invalid_value r = None" and "gap r" and "recorded db r"
  shows "ingest_reading thr given now i r db
      = Inl (IntegrityError ''uq_telemetry_readings_meter_id_energy_asset_id_interval_start'')
    \<and> (\<exists>e. ingest_batch thr given now (before @ (i, r) # after) db = Inl e)"
proof -
  have built: "io_reading (classify_and_build db i r t thr a b) =
      Some (to_model i r (io_status (classify_and_build db i r t thr a b)))" for t a b
  proof -
    have "io_status (classify_and_build db i r t thr a b) \<in> {SOURCE_UNAVAILABLE, MISSING}"
      unfolding classify_and_build_def Let_def ingestion_outcome.simps by (rule gap_status [OF assms(6,5)])
    then show ?thesis by (auto simp: built_reading Let_def)
  qed
  have "ingest_reading thr given now i r db
      = Inl (IntegrityError ''uq_telemetry_readings_meter_id_energy_asset_id_interval_start'')"
  proof -
    define t where "t = (case given of None \<Rightarrow> now | Some t \<Rightarrow> t)"
    define q where "q = io_status (classify_and_build db i r t thr None False)"
    obtain row where row: "stored_reading (to_model i r q) = Inr row" "sound_row row" "rd_id row = i"
      "natural_key row = (nr_meter_id r, nr_energy_asset_id r, nr_interval_start r)"
      using stored_sound [OF assms(5,4)] by metis
    from row assms(3,7) have "insert_reading (to_model i r q) db
        = Inl (IntegrityError ''uq_telemetry_readings_meter_id_energy_asset_id_interval_start'')"
      by (intro insert_duplicate [OF row(1,2)]) (simp_all add: recorded_def)
    with assms(1,2) built [of t] show ?thesis
      by (simp add: ingest_reading_def require_meter_def require_asset_def t_def [symmetric] q_def)
  qed
  moreover have "ingest_batch thr given now (before @ (i, r) # after) db \<noteq> Inr (db', os, ns)" for db' os ns
  proof
    define t where "t = (case given of None \<Rightarrow> now | Some t \<Rightarrow> t)"
    assume "ingest_batch thr given now (before @ (i, r) # after) db = Inr (db', os, ns)"
    then obtain bs' where b: "foldE (batch_step db t thr) (before @ (i, r) # after) empty_batch = Inr bs'"
      "foldE insert_reading (storable_rows (bs_outcomes bs')) db = Inr db'"
      by (auto simp: ingest_batch_def bindE_eq_Inr Let_def t_def)
    from batch_builds [OF b(1), of i r] obtain x y
      where o1: "classify_and_build db i r t thr x y \<in> set (bs_outcomes bs')" by auto
    define q where "q = io_status (classify_and_build db i r t thr x y)"
    have "to_model i r q \<in> set (storable_rows (bs_outcomes bs'))"
      using o1 built [of t x y] by (force simp: storable_rows_def present_def q_def)
    from insert_fresh [OF b(2) this] assms(7) show False
      by (simp add: recorded_def to_model_def natural_key_def)
  qed
  ultimately show ?thesis by (metis prod.exhaust sum.exhaust)
qed

lemma repeated_gap_raises_witness:
  "ingest_reading DEFAULT_STALENESS_THRESHOLD None 0 21 (demo_reading None)
      (demo_telemetry [to_model 20 (demo_reading None) MISSING])
    = Inl (IntegrityError ''uq_telemetry_readings_meter_id_energy_asset_id_interval_start'')"
proof -
  let ?r = "demo_reading None" and ?db = "demo_telemetry [to_model 20 (demo_reading None) MISSING]"
  have "known me_id (t_meters ?db) (nr_meter_id ?r)"
    "pred_option (known as_id (t_energy_assets ?db)) (nr_energy_asset_id ?r)"
    "\<not> known rd_id (t_readings ?db) 21" "gap ?r" "recorded ?db ?r"
    by (simp_all add: demo_telemetry_defs known_def demo_reading_def to_model_def gap_def recorded_def
        natural_key_def has_any_measurement_def measurements_def)
  from repeated_gap_raises [OF this(1,2,3) demo_fits(1) demo_first_invalid this(4,5)] show ?thesis by blast
qed

end
