(* ===== verification/Forecasting_Props.thy ===== *)
theory Forecasting_Props
  imports Forecasting Telemetry_Props
begin

text \<open>
  What a forecast run leaves behind on every path, and that the surplus pairs the newest completed
  predictions: runs that failed, or that the store refused, never reach a reader.
\<close>

section \<open>Runs\<close>

definition forecast_ok :: "'a forecast_db_scheme \<Rightarrow> bool" where
  "forecast_ok db \<longleftrightarrow>
     list_all (\<lambda>p. known fr_id (t_forecast_runs db) (fp_forecast_run_id p)) (t_forecast_points db)"

lemma start_run_eq:
  assumes "start_run p order now run_id db = Inr db1"
  obtains r where "db1 = db\<lparr>t_forecast_runs := t_forecast_runs db @ [r]\<rparr>" and "fr_id r = run_id"
    and "fr_status r = RUNNING" and "\<not> known fr_id (t_forecast_runs db) run_id"
    and "fetch fr_id (t_forecast_runs db1) run_id = Some r" and "fr_created_at r = now"
    and "fr_forecast_type r = ro_forecast_type order" and "fr_error r = None"
proof -
  let ?r = "\<lparr>fr_id = run_id, fr_forecast_type = ro_forecast_type order, fr_provider = pv_name p,
        fr_model_version = pv_model_version p, fr_horizon_start = ro_horizon_start order,
        fr_horizon_end = ro_horizon_end order, fr_status = RUNNING, fr_error = None, fr_created_at = now\<rparr>"
  have "db1 = db\<lparr>t_forecast_runs := t_forecast_runs db @ [?r]\<rparr>" "\<not> known fr_id (t_forecast_runs db) run_id"
    using assms by (auto simp: start_run_def insert_run_def bindE_eq_Inr run_checks_def)
  then show thesis by (intro that [of ?r]) (simp_all add: fetch_append_new)
qed

lemma fetch_update_run:
  assumes "\<And>r. fr_id (f r) = fr_id r"
  shows "fetch fr_id (t_forecast_runs (update_run i f db)) i = map_option f (fetch fr_id (t_forecast_runs db) i)"
  using assms by (simp add: update_run_def fetch_modify)

lemma insert_point_extends:
  assumes "insert_point p db = Inr db'"
  obtains row where "stored_point p = Inr row" and "db' = db\<lparr>t_forecast_points := t_forecast_points db @ [row]\<rparr>"
    and "list_all fst (point_checks db row)"
  using assms by (auto simp: insert_point_def bindE_eq_Inr)

lemma stored_point_key: "stored_point p = Inr row \<Longrightarrow>
    fp_forecast_run_id row = fp_forecast_run_id p \<and> fp_interval_start row = fp_interval_start p
    \<and> fp_site_id row = fp_site_id p \<and> fp_id row = fp_id p"
  by (auto simp: stored_point_def bindE_eq_Inr)

lemma insert_points_extend:
  "foldE insert_point ps db = Inr db' \<Longrightarrow>
   \<exists>rows. db' = db\<lparr>t_forecast_points := t_forecast_points db @ rows\<rparr> \<and> list_all2 (\<lambda>p row. stored_point p = Inr row) ps rows"
proof (induction ps arbitrary: db)
  case Nil
  then have "db' = db\<lparr>t_forecast_points := t_forecast_points db @ []\<rparr>" by simp
  then show ?case by blast
next
  case (Cons p ps)
  from Cons.prems obtain db1 where s: "insert_point p db = Inr db1" "foldE insert_point ps db1 = Inr db'"
    by (auto simp: bindE_eq_Inr)
  from insert_point_extends [OF s(1)] obtain row where row: "stored_point p = Inr row"
    "db1 = db\<lparr>t_forecast_points := t_forecast_points db @ [row]\<rparr>" by blast
  from Cons.IH [OF s(2)] obtain rows where rows: "db' = db1\<lparr>t_forecast_points := t_forecast_points db1 @ rows\<rparr>"
    "list_all2 (\<lambda>p row. stored_point p = Inr row) ps rows" by blast
  have "db' = db\<lparr>t_forecast_points := t_forecast_points db @ (row # rows)\<rparr>"
    using rows(1) row(2) by simp
  with row(1) rows(2) show ?case by (intro exI [of _ "row # rows"]) simp
qed

lemma store_errors:
  "numeric a b d = Inl e \<Longrightarrow> e = DataError"
  "nullable (numeric a b) v = Inl e \<Longrightarrow> e = DataError"
  "varchar n s = Inl e \<Longrightarrow> e = DataError"
  "all_checks cs = Inl e \<Longrightarrow> \<exists>c. e = IntegrityError c"
  using all_checks_cases [of cs]
  by (auto simp: varchar_def dest: numeric_Inl nullable_Inl)

definition store_refusal :: "exn \<Rightarrow> bool" where
  "store_refusal e \<longleftrightarrow> e = DataError \<or> (\<exists>c. e = IntegrityError c)"

lemma insert_point_refusal: "insert_point p db = Inl e \<Longrightarrow> store_refusal e"
  unfolding insert_point_def stored_point_def bindE_eq_Inl store_refusal_def
  by (elim disjE exE conjE; (drule store_errors(2) | drule store_errors(4) | simp); (blast | simp)?)

lemma insert_points_refusal: "foldE insert_point ps db = Inl e \<Longrightarrow> store_refusal e"
  by (induction ps arbitrary: db) (auto simp: bindE_eq_Inl dest: insert_point_refusal)

lemma complete_run_refusal: "complete_run fresh i s res db = Inl e \<Longrightarrow> store_refusal e"
  using store_errors(3) [of 64 "fz_model_version res" e]
  by (auto simp: complete_run_def bindE_eq_Inl store_refusal_def dest: insert_points_refusal [unfolded store_refusal_def])

lemma run_forecast_cases:
  assumes "resolve_provider providers configured choice = Inr p"
    and "start_run p order now run_id db = Inr db1"
  shows "(\<exists>res db2. ask_provider p (forecast_request_of order db1) = Inr res
        \<and> complete_run fresh run_id (ro_site_id order) res db1 = Inr db2
        \<and> fst (run_forecast providers configured describe choice order now run_id fresh db) = db2
        \<and> snd (run_forecast providers configured describe choice order now run_id fresh db)
          = (case fetch fr_id (t_forecast_runs db2) run_id of
               None \<Rightarrow> Inl (NotFoundError ''FORECAST_RUN_NOT_FOUND'') | Some r \<Rightarrow> Inr r))
    \<or> (\<exists>res e. ask_provider p (forecast_request_of order db1) = Inr res
        \<and> complete_run fresh run_id (ro_site_id order) res db1 = Inl e
        \<and> run_forecast providers configured describe choice order now run_id fresh db = (db1, Inl e))
    \<or> (\<exists>reason c. \<not> returns (ask_provider p (forecast_request_of order db1))
        \<and> run_forecast providers configured describe choice order now run_id fresh db
          = (mark_failed run_id reason db1, Inl (ForecastProviderError c)))"
proof (cases "ask_provider p (forecast_request_of order db1)")
  case (Inl e)
  then show ?thesis using assms by (cases e) (auto simp: run_forecast_def)
next
  case (Inr res)
  then show ?thesis using assms
    by (cases "complete_run fresh run_id (ro_site_id order) res db1") (auto simp: run_forecast_def)
qed

section \<open>What readers see\<close>

text \<open>A table with one more run that is not completed reads the same.\<close>

lemma insort_key_same: "(\<And>y. y \<in> insert x (set xs) \<Longrightarrow> f y = g y) \<Longrightarrow> insort_key f x xs = insort_key g x xs"
  by (induction xs) auto

lemma sort_key_same: "(\<And>x. x \<in> set xs \<Longrightarrow> f x = g x) \<Longrightarrow> sort_key f xs = sort_key g xs"
  by (induction xs) (auto intro!: insort_key_same)

lemma points_for_site_unfinished:
  assumes "forecast_ok db" and "\<not> known fr_id (t_forecast_runs db) (fr_id r)"
  shows "points_for_site (db\<lparr>t_forecast_runs := t_forecast_runs db @ [r]\<rparr>) = points_for_site db"
proof -
  let ?db = "db\<lparr>t_forecast_runs := t_forecast_runs db @ [r]\<rparr>"
  have eq: "run_of_point ?db p = run_of_point db p" if "p \<in> set (t_forecast_points db)" for p
  proof -
    have "fp_forecast_run_id p \<noteq> fr_id r"
      using assms that by (auto simp: forecast_ok_def list_all_iff)
    then show ?thesis by (simp add: run_of_point_def fetch_append split: option.splits)
  qed
  have keys: "sort_key (created_key ?db) (filter P (t_forecast_points db))
      = sort_key (created_key db) (filter P (t_forecast_points db))" for P
    by (rule sort_key_same) (simp add: created_key_def eq)
  show ?thesis
    by (intro ext) (simp add: points_for_site_def eq keys cong: filter_cong)
qed

text \<open>Neither does one whose row only says that it failed.\<close>

lemma points_for_site_failed:
  assumes "forecast_ok db" and "start_run p order now run_id db = Inr db1"
  shows "points_for_site (mark_failed run_id reason db1) = points_for_site db"
    and "points_for_site db1 = points_for_site db"
proof -
  obtain r where r: "db1 = db\<lparr>t_forecast_runs := t_forecast_runs db @ [r]\<rparr>" "fr_id r = run_id"
    "\<not> known fr_id (t_forecast_runs db) run_id"
    by (rule start_run_eq [OF assms(2)])
  show "points_for_site db1 = points_for_site db"
    unfolding r(1) using r(2,3) by (intro points_for_site_unfinished assms(1)) simp
  let ?r = "r\<lparr>fr_status := FAILED, fr_error := Some (take 500 reason)\<rparr>"
  have "modify fr_id run_id f (t_forecast_runs db) = t_forecast_runs db" for f
    using r(3) by (auto simp: modify_def known_def intro!: map_idI)
  then have "mark_failed run_id reason db1 = db\<lparr>t_forecast_runs := t_forecast_runs db @ [?r]\<rparr>"
    by (simp add: mark_failed_def update_run_def r(1,2) modify_def)
  then show "points_for_site (mark_failed run_id reason db1) = points_for_site db"
    using r(2,3) points_for_site_unfinished [OF assms(1), of ?r] by simp
qed

lemma surplus_reads_points:
  "points_for_site db' = points_for_site db \<Longrightarrow> t_sites db' = t_sites db \<Longrightarrow>
   get_surplus_for_site db' i s e = get_surplus_for_site db i s e"
  by (simp add: get_surplus_for_site_def latest_per_interval_def require_site_def)

lemma start_run_sites: "start_run p order now run_id db = Inr db1 \<Longrightarrow> t_sites db1 = t_sites db"
  by (auto elim: start_run_eq)

lemma stored_points_match:
  assumes "list_all2 (\<lambda>p row. stored_point p = Inr row)
      (map (\<lambda>(k, p). point_model (fresh k) i site p) (enumerate n ps)) rows"
  shows "map fp_interval_start rows = map pp_interval_start ps
    \<and> list_all (\<lambda>q. fp_forecast_run_id q = i \<and> fp_site_id q = site) rows"
  using assms
proof (induction ps arbitrary: n rows)
  case (Cons p ps)
  then obtain row rest where rows: "rows = row # rest" and row: "stored_point (point_model (fresh n) i site p) = Inr row"
    and rest: "list_all2 (\<lambda>p row. stored_point p = Inr row)
      (map (\<lambda>(k, p). point_model (fresh k) i site p) (enumerate (Suc n) ps)) rest"
    by (auto simp: list_all2_Cons1)
  from Cons.IH [OF rest] stored_point_key [OF row] show ?case by (simp add: rows point_model_def)
qed simp

lemma complete_run_eq:
  assumes "complete_run fresh i site res db1 = Inr db2" and "fetch fr_id (t_forecast_runs db1) i = Some r"
  obtains rows where "t_forecast_points db2 = t_forecast_points db1 @ rows"
    and "map fp_interval_start rows = map pp_interval_start (fz_points res)"
    and "list_all (\<lambda>q. fp_forecast_run_id q = i \<and> fp_site_id q = site) rows"
    and "fetch fr_id (t_forecast_runs db2) i
      = Some (r\<lparr>fr_status := COMPLETED, fr_model_version := fz_model_version res\<rparr>)"
proof -
  let ?f = "\<lambda>r. r\<lparr>fr_status := COMPLETED, fr_model_version := fz_model_version res\<rparr>"
  from assms(1) obtain dbp where dbp: "foldE insert_point
      (map (\<lambda>(k, p). point_model (fresh k) i site p) (enumerate 0 (fz_points res))) db1 = Inr dbp"
    "db2 = update_run i ?f dbp"
    by (auto simp: complete_run_def bindE_eq_Inr)
  from insert_points_extend [OF dbp(1)] obtain rows where rows:
    "dbp = db1\<lparr>t_forecast_points := t_forecast_points db1 @ rows\<rparr>"
    "list_all2 (\<lambda>p row. stored_point p = Inr row)
      (map (\<lambda>(k, p). point_model (fresh k) i site p) (enumerate 0 (fz_points res))) rows"
    by blast
  have "fetch fr_id (t_forecast_runs db2) i = map_option ?f (fetch fr_id (t_forecast_runs dbp) i)"
    unfolding dbp(2) by (rule fetch_update_run) simp
  with assms(2) rows(1) have "fetch fr_id (t_forecast_runs db2) i = Some (?f r)" by simp
  moreover have "t_forecast_points db2 = t_forecast_points db1 @ rows"
    by (simp add: dbp(2) update_run_def rows(1))
  ultimately show thesis using stored_points_match [OF rows(2)] that by blast
qed

text \<open>C32. A forecast run always leaves its record, and only a finished one is read. Once the run is
  accepted, either the provider's result is valid and stored: the run is COMPLETED under the
  version the result names, with one point per predicted interval; or the provider raised or
  returned what the contract forbids: the run is FAILED with a reason and the caller gets a
  provider error; or the store refused the points: the run stays as it was started and the caller
  gets the database's error. In the last two cases the surplus of every site over every window
  is what it was before.\<close>

theorem run_forecast_leaves_record:
  assumes "forecast_ok db" and "resolve_provider providers configured choice = Inr p"
    and "start_run p order now run_id db = Inr db1"
    and "run_forecast providers configured describe choice order now run_id fresh db = (db', out)"
  shows "case out of
      Inr r \<Rightarrow> fetch fr_id (t_forecast_runs db') run_id = Some r \<and> fr_status r = COMPLETED
        \<and> (\<exists>res rows. ask_provider p (forecast_request_of order db1) = Inr res
            \<and> fr_model_version r = fz_model_version res
            \<and> t_forecast_points db' = t_forecast_points db @ rows
            \<and> map fp_interval_start rows = map pp_interval_start (fz_points res)
            \<and> list_all (\<lambda>q. fp_forecast_run_id q = run_id \<and> fp_site_id q = ro_site_id order) rows)
    | Inl e \<Rightarrow> (\<exists>r. fetch fr_id (t_forecast_runs db') run_id = Some r
        \<and> (if returns (ask_provider p (forecast_request_of order db1))
           then store_refusal e \<and> fr_status r = RUNNING \<and> fr_error r = None
           else (\<exists>c. e = ForecastProviderError c) \<and> fr_status r = FAILED \<and> fr_error r \<noteq> None))
        \<and> (\<forall>site s t. get_surplus_for_site db' site s t = get_surplus_for_site db site s t)"
proof -
  obtain r where db1: "db1 = db\<lparr>t_forecast_runs := t_forecast_runs db @ [r]\<rparr>"
    and r: "fr_status r = RUNNING" "fr_error r = None" "fetch fr_id (t_forecast_runs db1) run_id = Some r"
    by (rule start_run_eq [OF assms(3)])
  note quiet = points_for_site_failed [OF assms(1,3)]
  have sites: "t_sites db1 = t_sites db" by (simp add: db1)
  from run_forecast_cases [OF assms(2,3), of fresh describe] assms(4)
  consider (finished) res where "ask_provider p (forecast_request_of order db1) = Inr res"
      "complete_run fresh run_id (ro_site_id order) res db1 = Inr db'"
      "out = (case fetch fr_id (t_forecast_runs db') run_id of
               None \<Rightarrow> Inl (NotFoundError ''FORECAST_RUN_NOT_FOUND'') | Some r \<Rightarrow> Inr r)"
    | (refused) res e where "ask_provider p (forecast_request_of order db1) = Inr res"
      "complete_run fresh run_id (ro_site_id order) res db1 = Inl e" "db' = db1" "out = Inl e"
    | (failed) reason c where "\<not> returns (ask_provider p (forecast_request_of order db1))"
      "db' = mark_failed run_id reason db1" "out = Inl (ForecastProviderError c)"
    by auto
  then show ?thesis
  proof cases
    case finished
    obtain rows where rows: "t_forecast_points db' = t_forecast_points db1 @ rows"
      "map fp_interval_start rows = map pp_interval_start (fz_points res)"
      "list_all (\<lambda>q. fp_forecast_run_id q = run_id \<and> fp_site_id q = ro_site_id order) rows"
      "fetch fr_id (t_forecast_runs db') run_id
        = Some (r\<lparr>fr_status := COMPLETED, fr_model_version := fz_model_version res\<rparr>)"
      by (rule complete_run_eq [OF finished(2) r(3)])
    with finished show ?thesis by (simp add: db1)
  next
    case refused
    have "get_surplus_for_site db' site s t = get_surplus_for_site db site s t" for site s t
      unfolding refused(3) by (rule surplus_reads_points [OF quiet(2) sites])
    with complete_run_refusal [OF refused(2)] refused r show ?thesis by simp
  next
    case failed
    have "get_surplus_for_site db' site s t = get_surplus_for_site db site s t" for site s t
      unfolding failed(2) using sites
      by (intro surplus_reads_points quiet(1)) (simp add: mark_failed_def update_run_def)
    moreover have "fetch fr_id (t_forecast_runs db') run_id
        = Some (r\<lparr>fr_status := FAILED, fr_error := Some (take 500 reason)\<rparr>)"
      unfolding failed(2) mark_failed_def by (subst fetch_update_run) (simp_all add: r(3))
    ultimately show ?thesis using failed by simp
  qed
qed

lemma unordered_refused:
  assumes "pp_lower_bound q = Some lo" and "pp_upper_bound q = Some hi"
    and "round_half_up 4 (val hi) < round_half_up 4 (val lo)"
  shows "insert_point (point_model i run_id site q) d \<noteq> Inr d'"
proof
  assume "insert_point (point_model i run_id site q) d = Inr d'"
  then obtain row where row: "stored_point (point_model i run_id site q) = Inr row"
    "list_all fst (point_checks d row)"
    by (auto elim: insert_point_extends)
  from row(1) obtain l h where "fp_lower_bound row = Some l" "fp_upper_bound row = Some h"
    "numeric 14 4 lo = Inr l" "numeric 14 4 hi = Inr h"
    by (auto simp: stored_point_def bindE_eq_Inr point_model_def assms(1,2) nullable_Inr)
  moreover from this have "val h < val l" using assms(3) by (simp add: numeric_val)
  ultimately show False using row(2) by (simp add: point_checks_def bounds_ordered_def less_eq_decimal_val)
qed

lemma unordered_points_refused:
  assumes "q \<in> set ps" and "pp_lower_bound q = Some lo" and "pp_upper_bound q = Some hi"
    and "round_half_up 4 (val hi) < round_half_up 4 (val lo)"
  shows "foldE insert_point (map (\<lambda>(k, p). point_model (fresh k) i site p) (enumerate n ps)) d \<noteq> Inr d'"
  using assms(1)
proof (induction ps arbitrary: n d)
  case (Cons x ps)
  show ?case
  proof (cases "x = q")
    case True
    then show ?thesis by (simp add: bindE_eq_Inr unordered_refused [OF assms(2-4)])
  next
    case False
    with Cons show ?thesis by (auto simp: bindE_eq_Inr)
  qed
qed simp

text \<open>C40. A result the service accepts can strand its run. The validation does not look at the bounds;
  when those of one point are the wrong way round as stored, the store refuses the points after
  the provider was called: the caller gets an error, no point is kept, and the run is RUNNING for
  good, with no reason on record.\<close>

theorem unordered_bounds_strand_run:
  assumes "resolve_provider providers configured choice = Inr p"
    and "start_run p order now run_id db = Inr db1"
    and "ask_provider p (forecast_request_of order db1) = Inr res"
    and "q \<in> set (fz_points res)" and "pp_lower_bound q = Some lo" and "pp_upper_bound q = Some hi"
    and "round_half_up 4 (val hi) < round_half_up 4 (val lo)"
  shows "\<exists>e r. run_forecast providers configured describe choice order now run_id fresh db = (db1, Inl e)
    \<and> store_refusal e \<and> fetch fr_id (t_forecast_runs db1) run_id = Some r
    \<and> fr_status r = RUNNING \<and> fr_error r = None \<and> t_forecast_points db1 = t_forecast_points db"
proof -
  obtain r where db1: "db1 = db\<lparr>t_forecast_runs := t_forecast_runs db @ [r]\<rparr>"
    and r: "fr_status r = RUNNING" "fr_error r = None" "fetch fr_id (t_forecast_runs db1) run_id = Some r"
    by (rule start_run_eq [OF assms(2)])
  from unordered_points_refused [OF assms(4-7), of fresh run_id "ro_site_id order" 0 db1] obtain e
    where e: "complete_run fresh run_id (ro_site_id order) res db1 = Inl e"
    by (cases "complete_run fresh run_id (ro_site_id order) res db1")
       (auto simp: complete_run_def bindE_eq_Inr)
  with run_forecast_cases [OF assms(1,2), of fresh describe] assms(3)
  have "run_forecast providers configured describe choice order now run_id fresh db = (db1, Inl e)" by auto
  with r complete_run_refusal [OF e] show ?thesis by (simp add: db1)
qed

section \<open>The surplus\<close>

text \<open>The completed predictions of a type for one interval start of a site, and the newest of them.\<close>

definition candidate ::
  "'a forecast_db_scheme \<Rightarrow> uuid \<Rightarrow> datetime \<Rightarrow> datetime \<Rightarrow> forecast_type \<Rightarrow> datetime \<Rightarrow> point_row \<Rightarrow> bool" where
  "candidate db site start stop ftype s p \<longleftrightarrow>
     p \<in> set (t_forecast_points db) \<and> fp_site_id p = site \<and> start \<le> s \<and> s < stop \<and> fp_interval_start p = s
     \<and> (\<exists>r. run_of_point db p = Some r \<and> fr_status r = COMPLETED \<and> fr_forecast_type r = ftype)"

definition made_at :: "'a forecast_db_scheme \<Rightarrow> point_row \<Rightarrow> datetime" where
  "made_at db p = (case run_of_point db p of None \<Rightarrow> 0 | Some r \<Rightarrow> fr_created_at r)"

definition newest_power ::
  "'a forecast_db_scheme \<Rightarrow> uuid \<Rightarrow> datetime \<Rightarrow> datetime \<Rightarrow> forecast_type \<Rightarrow> datetime \<Rightarrow> decimal option \<Rightarrow> bool" where
  "newest_power db site start stop ftype s kw \<longleftrightarrow>
     (\<exists>p. candidate db site start stop ftype s p \<and> kw = fp_predicted_kw p
        \<and> (\<forall>q. candidate db site start stop ftype s q \<longrightarrow> made_at db q \<le> made_at db p))
     \<or> kw = None \<and> (\<forall>q. \<not> candidate db site start stop ftype s q)"

lemma candidate_iff:
  "candidate db site start stop ftype s p \<longleftrightarrow>
   p \<in> set (points_for_site db site start stop (Some ftype) None) \<and> fp_interval_start p = s"
  by (auto simp: candidate_def points_for_site_def split: option.splits)

lemma last_entry:
  "map_of (rev (map (\<lambda>p. (f p, p)) ps)) s = Some p \<Longrightarrow>
   \<exists>ys zs. ps = ys @ p # zs \<and> f p = s \<and> s \<notin> f ` set zs"
proof (induction ps)
  case (Cons x ps)
  show ?case
  proof (cases "map_of (rev (map (\<lambda>p. (f p, p)) ps)) s")
    case None
    then have no: "s \<notin> f ` set ps" by (auto simp: map_of_eq_None_iff image_iff)
    from None Cons.prems have "x = p" "f x = s" by (auto simp: map_add_def split: if_splits)
    with no have "x # ps = [] @ p # ps \<and> f p = s \<and> s \<notin> f ` set ps" by simp
    then show ?thesis by blast
  next
    case (Some q)
    with Cons.prems have "q = p" by (simp add: map_add_def)
    from Cons.IH Some obtain ys zs where "ps = ys @ p # zs" "f p = s" "s \<notin> f ` set zs"
      by (auto simp: \<open>q = p\<close>)
    then have "x # ps = (x # ys) @ p # zs \<and> f p = s \<and> s \<notin> f ` set zs" by simp
    then show ?thesis by blast
  qed
qed simp

lemma last_is_newest:
  assumes "map_of (rev (map (\<lambda>p. (fp_interval_start p, p)) (points_for_site db site start stop (Some ftype) None))) s
      = Some p"
  shows "candidate db site start stop ftype s p
    \<and> (\<forall>q. candidate db site start stop ftype s q \<longrightarrow> made_at db q \<le> made_at db p)"
proof -
  let ?ps = "points_for_site db site start stop (Some ftype) None"
  from last_entry [OF assms] obtain ys zs where ps: "?ps = ys @ p # zs" "fp_interval_start p = s"
    "s \<notin> fp_interval_start ` set zs" by blast
  have "sorted (map (created_key db) ?ps)" by (simp add: points_for_site_def)
  then have le: "created_key db q \<le> created_key db p" if "q \<in> set ys" for q
    using that by (auto simp: ps(1) sorted_append)
  have "made_at db q \<le> made_at db p" if "candidate db site start stop ftype s q" for q
  proof -
    have q: "q \<in> set (ys @ p # zs)" "fp_interval_start q = s"
      using that unfolding candidate_iff ps(1) by auto
    then consider "q \<in> set ys" | "q = p" using ps(3) by auto
    then show ?thesis
    proof cases
      case 1
      from le [OF this] q(2) ps(2) show ?thesis by (simp add: created_key_def made_at_def)
    qed simp
  qed
  moreover have "candidate db site start stop ftype s p" unfolding candidate_iff ps(1) using ps(2) by simp
  ultimately show ?thesis by blast
qed

lemma latest_entries:
  "Option.bind (by_start (power_entries (latest_per_interval db site start stop ftype)) s) snd = kw \<Longrightarrow>
   newest_power db site start stop ftype s kw"
proof -
  define ps where "ps = points_for_site db site start stop (Some ftype) None"
  define newest where "newest = map_of (rev (map (\<lambda>p. (fp_interval_start p, p)) ps))"
  assume kw: "Option.bind (by_start (power_entries (latest_per_interval db site start stop ftype)) s) snd = kw"
  have none: "newest s = None \<longleftrightarrow> s \<notin> fp_interval_start ` set ps" for s
    by (auto simp: newest_def map_of_eq_None_iff image_iff)
  have entries: "power_entries (latest_per_interval db site start stop ftype)
      = map (\<lambda>s. (s, fp_interval_end (the (newest s)), fp_predicted_kw (the (newest s))))
          (sort (remdups (map fp_interval_start ps)))"
  proof -
    have "fp_interval_start (the (newest s)) = s" if s: "s \<in> fp_interval_start ` set ps" for s
    proof -
      obtain p where "newest s = Some p" using s none [of s] by blast
      then show ?thesis using last_entry [of fp_interval_start ps s p] by (auto simp: newest_def)
    qed
    then show ?thesis
      by (auto simp: power_entries_def latest_per_interval_def Let_def ps_def [symmetric] newest_def [symmetric])
  qed
  have look: "map_of (rev (map (\<lambda>s. (s, g s)) xs)) s = (if s \<in> set xs then Some (g s) else None)" for xs and g :: "datetime \<Rightarrow> 'c"
    by (induction xs) (auto simp: map_add_def)
  show ?thesis
  proof (cases "newest s")
    case None
    then have "kw = None" using kw by (simp add: entries by_start_def look none)
    moreover have "\<not> candidate db site start stop ftype s q" for q
      using None none [of s] unfolding candidate_iff ps_def [symmetric] by auto
    ultimately show ?thesis by (simp add: newest_power_def)
  next
    case (Some p)
    then have "s \<in> fp_interval_start ` set ps" using none [of s] by auto
    then have "kw = fp_predicted_kw p" using kw Some by (simp add: entries by_start_def look)
    moreover note last_is_newest [of db site start stop ftype s p, folded ps_def, folded newest_def, OF Some]
    ultimately show ?thesis by (auto simp: newest_power_def)
  qed
qed

text \<open>The surplus pairs the newest predictions that completed. For a known site it has one point per
  interval start, in order; its generation and its load are the predictions of completed solar and
  load runs for that start than which none was made later, null only if there is none or it
  predicted nothing; the surplus is their difference when both are known and unknown otherwise.\<close>

theorem surplus_pairs_newest:
  assumes "get_surplus_for_site db site start stop = Inr points"
  shows "sorted (map sp_interval_start points) \<and> distinct (map sp_interval_start points)
    \<and> list_all (\<lambda>w. newest_power db site start stop SOLAR (sp_interval_start w) (sp_generation_kw w)
        \<and> newest_power db site start stop LOAD (sp_interval_start w) (sp_load_kw w)
        \<and> sp_surplus_kw w = surplus_of (sp_generation_kw w) (sp_load_kw w)) points"
proof -
  have points: "points = calculate_surplus (power_entries (latest_per_interval db site start stop SOLAR))
                            (power_entries (latest_per_interval db site start stop LOAD))"
    using assms by (auto simp: get_surplus_for_site_def bindE_eq_Inr)
  have "newest_power db site start stop SOLAR (sp_interval_start w) (sp_generation_kw w)
        \<and> newest_power db site start stop LOAD (sp_interval_start w) (sp_load_kw w)
        \<and> sp_surplus_kw w = surplus_of (sp_generation_kw w) (sp_load_kw w)" if "w \<in> set points" for w
    using surplus_point_facts [OF that [unfolded points]] latest_entries by metis
  then show ?thesis
    unfolding list_all_iff using surplus_starts by (simp add: points)
qed

section \<open>Instances\<close>

definition demo_forecasts :: "run_row list \<Rightarrow> point_row list \<Rightarrow> forecast_db" where
  "demo_forecasts runs points = telemetry_db.extend (demo_telemetry []) (forecast_db.fields runs points)"

definition demo_point :: "decimal option \<Rightarrow> decimal option \<Rightarrow> predicted_point" where
  "demo_point lo hi =
     \<lparr>pp_interval_start = 0, pp_interval_end = 900000000, pp_predicted_kw = Some (Dec 2 0),
      pp_predicted_kwh = None, pp_confidence = None, pp_lower_bound = lo, pp_upper_bound = hi\<rparr>"

definition demo_provider :: "predicted_point list \<Rightarrow> provider" where
  "demo_provider points =
     \<lparr>pv_object = 0, pv_name = ''p'', pv_model_version = ''v'', pv_supports = (\<lambda>_. True),
      pv_predict = (\<lambda>request. Inr \<lparr>fz_forecast_type = fq_forecast_type request, fz_provider = ''p'',
        fz_model_version = ''v'', fz_generated_at = 0, fz_points = points\<rparr>)\<rparr>"

definition demo_order :: run_order where
  "demo_order = \<lparr>ro_site_id = 5, ro_forecast_type = SOLAR, ro_horizon_start = 0, ro_horizon_end = 900000000,
     ro_interval = DEFAULT_INTERVAL, ro_history_window = DEFAULT_HISTORY_WINDOW\<rparr>"

lemma demo_started: "returns (start_run (demo_provider ps) demo_order 0 30 (demo_forecasts [] []))"
  by (simp add: start_run_def demo_provider_def demo_order_def demo_forecasts_def demo_telemetry_defs
      telemetry_db.defs forecast_db.defs require_site_def known_def validate_horizon_def DEFAULT_INTERVAL_def
      insert_run_def varchar_def run_checks_def returns_bindE all_checks.simps constraint_def)

lemma demo_asked:
  "ask_provider (demo_provider [demo_point lo hi]) (forecast_request_of demo_order db)
   = Inr \<lparr>fz_forecast_type = SOLAR, fz_provider = ''p'', fz_model_version = ''v'', fz_generated_at = 0,
          fz_points = [demo_point lo hi]\<rparr>"
  by (simp add: ask_provider_def demo_provider_def forecast_request_of_def demo_order_def validate_result_def
      demo_point_def point_valid_def)

lemma run_forecast_leaves_record_witness:
  "\<exists>db1 r. run_forecast Map.empty '''' (\<lambda>_. ''e'')
      (Given_provider ((demo_provider [])\<lparr>pv_predict := \<lambda>_. Inl PyValueError\<rparr>)) demo_order 0 30 id
      (demo_forecasts [] []) = (db1, Inl (ForecastProviderError ''FORECAST_PROVIDER_FAILED''))
    \<and> fetch fr_id (t_forecast_runs db1) 30 = Some r \<and> fr_status r = FAILED"
proof -
  let ?p = "(demo_provider [])\<lparr>pv_predict := \<lambda>_. Inl PyValueError\<rparr>" and ?db = "demo_forecasts [] []"
  have res: "resolve_provider Map.empty '''' (Given_provider ?p) = Inr ?p" by simp
  have ok: "forecast_ok ?db" by (simp add: forecast_ok_def demo_forecasts_def forecast_db.defs telemetry_db.defs)
  have "start_run ?p demo_order 0 30 ?db = start_run (demo_provider []) demo_order 0 30 ?db"
    by (simp add: start_run_def)
  with demo_started obtain db1 where s: "start_run ?p demo_order 0 30 ?db = Inr db1"
    by (auto simp: returns_iff)
  have ask: "ask_provider ?p rq = Inl PyValueError" for rq by (simp add: ask_provider_def)
  obtain db' out where run: "run_forecast Map.empty '''' (\<lambda>_. ''e'') (Given_provider ?p) demo_order 0 30 id ?db
      = (db', out)" by (cases "run_forecast Map.empty '''' (\<lambda>_. ''e'') (Given_provider ?p) demo_order 0 30 id ?db")
  then have "out = Inl (ForecastProviderError ''FORECAST_PROVIDER_FAILED'')"
    using s ask by (auto simp: run_forecast_def)
  with run_forecast_leaves_record [OF ok res s run] ask run show ?thesis by auto
qed

lemma unordered_bounds_strand_run_witness:
  "\<exists>db1 e r. run_forecast Map.empty '''' (\<lambda>_. ''e'')
      (Given_provider (demo_provider [demo_point (Some (Dec 3 0)) (Some (Dec 1 0))])) demo_order 0 30 id
      (demo_forecasts [] []) = (db1, Inl e)
    \<and> fetch fr_id (t_forecast_runs db1) 30 = Some r \<and> fr_status r = RUNNING"
proof -
  let ?q = "demo_point (Some (Dec 3 0)) (Some (Dec 1 0))"
  have res: "resolve_provider Map.empty '''' (Given_provider (demo_provider [?q])) = Inr (demo_provider [?q])"
    by simp
  from demo_started obtain db1 where s: "start_run (demo_provider [?q]) demo_order 0 30 (demo_forecasts [] []) = Inr db1"
    by (auto simp: returns_iff)
  have "val (Dec 1 0) = 1" "val (Dec 3 0) = 3" by (simp_all add: val_def)
  moreover have "grid 4 (1::rat)" "grid 4 (3::rat)" by (simp_all add: grid_def)
  ultimately have lt: "round_half_up 4 (val (Dec 1 0)) < round_half_up 4 (val (Dec 3 0))"
    by (simp add: round_half_up_id)
  have q: "?q \<in> set (fz_points \<lparr>fz_forecast_type = SOLAR, fz_provider = ''p'', fz_model_version = ''v'',
      fz_generated_at = 0, fz_points = [?q]\<rparr>)"
    "pp_lower_bound ?q = Some (Dec 3 0)" "pp_upper_bound ?q = Some (Dec 1 0)"
    by (simp_all add: demo_point_def)
  from unordered_bounds_strand_run [OF res s demo_asked q lt] show ?thesis by blast
qed

lemma surplus_pairs_newest_witness:
  "\<exists>points. get_surplus_for_site (demo_forecasts [] []) 5 0 1 = Inr points \<and> distinct (map sp_interval_start points)"
proof -
  have "returns (get_surplus_for_site (demo_forecasts [] []) 5 0 1)"
    by (simp add: get_surplus_for_site_def require_site_def known_def demo_forecasts_def demo_telemetry_defs
        telemetry_db.defs forecast_db.defs)
  then obtain points where "get_surplus_for_site (demo_forecasts [] []) 5 0 1 = Inr points" by (auto simp: returns_iff)
  with surplus_pairs_newest [OF this] show ?thesis by blast
qed

section \<open>The contract of a provider\<close>

text \<open>
  What the forecasting service needs of a provider for a run to complete, as a locale: an answer
  that passes the service's validation and that the table of points can hold.
\<close>

definition held :: "decimal \<Rightarrow> bool" where
  "held d \<longleftrightarrow> grid 4 (val d) \<and> \<bar>val d\<bar> \<le> of_int (9 * 10 ^ 9)"

definition storable_point :: "predicted_point \<Rightarrow> bool" where
  "storable_point p \<longleftrightarrow>
     pp_interval_start p < pp_interval_end p
     \<and> list_all (pred_option held) [pp_predicted_kw p, pp_predicted_kwh p, pp_lower_bound p, pp_upper_bound p]
     \<and> pred_option (\<lambda>c. 0 \<le> val c \<and> val c \<le> 1) (pp_confidence p)
     \<and> bounds_ordered (pp_lower_bound p) (pp_upper_bound p)"

definition well_predicted :: "forecast_request \<Rightarrow> forecast_result \<Rightarrow> bool" where
  "well_predicted r res \<longleftrightarrow>
     fz_forecast_type res = fq_forecast_type r \<and> fz_points res \<noteq> [] \<and> length (fz_model_version res) \<le> 64
     \<and> sorted_wrt (<) (map pp_interval_start (fz_points res))
     \<and> (\<forall>p \<in> set (fz_points res). point_valid r p \<and> storable_point p)"

section \<open>Storing the points\<close>

lemma held_numeric: "held d \<Longrightarrow> \<exists>e. numeric 14 4 d = Inr e \<and> val e = val d"
  using numeric_fits [of d "9 * 10 ^ 9" 4 14] numeric_val [of 14 4 d] by (auto simp: held_def round_half_up_id)

lemma held_nullable:
  assumes "pred_option held v"
  shows "\<exists>w. nullable (numeric 14 4) v = Inr w \<and> map_option val w = map_option val v"
  using assms held_numeric by (cases v) (fastforce simp: nullable_def)+

lemma confidence_stored:
  assumes "pred_option (\<lambda>c. 0 \<le> val c \<and> val c \<le> 1) v"
  shows "\<exists>w. nullable (numeric 5 4) v = Inr w \<and> pred_option (\<lambda>c. 0 \<le> val c \<and> val c \<le> 1) w"
proof (cases v)
  case (Some c)
  with assms have c: "0 \<le> val c" "val c \<le> 1" by simp_all
  then obtain e where e: "numeric 5 4 c = Inr e" using numeric_fits [of c 1 4 5] by auto
  have "grid 4 (1::rat)" by (simp add: grid_def)
  then have "round_half_up 4 (val c) \<le> 1" using round_half_up_mono [OF c(2), of 4] by (simp add: round_half_up_id)
  with e c Some numeric_val [OF e] show ?thesis by (simp add: nullable_def round_half_up_nonneg)
qed (simp add: nullable_def)

lemma bounds_ordered_vals:
  "map_option val a = map_option val a' \<Longrightarrow> map_option val b = map_option val b' \<Longrightarrow> bounds_ordered a' b' \<Longrightarrow> bounds_ordered a b"
  by (auto simp: bounds_ordered_def less_eq_decimal_val split: option.splits)

lemma storable_stored:
  assumes "storable_point p"
  obtains row where "stored_point (point_model i run site p) = Inr row" "fp_id row = i" "point_key row = (run, site, pp_interval_start p)"
    "fp_interval_start row < fp_interval_end row" "pred_option (\<lambda>c. 0 \<le> c \<and> c \<le> 1) (fp_confidence row)"
    "bounds_ordered (fp_lower_bound row) (fp_upper_bound row)"
proof -
  from assms have h: "pred_option held (pp_predicted_kw p)" "pred_option held (pp_predicted_kwh p)"
    "pred_option held (pp_lower_bound p)" "pred_option held (pp_upper_bound p)"
    "pred_option (\<lambda>c. 0 \<le> val c \<and> val c \<le> 1) (pp_confidence p)" by (simp_all add: storable_point_def)
  from held_nullable [OF h(1)] held_nullable [OF h(2)] obtain kw kwh where v1:
    "nullable (numeric 14 4) (pp_predicted_kw p) = Inr kw" "nullable (numeric 14 4) (pp_predicted_kwh p) = Inr kwh" by blast
  from held_nullable [OF h(3)] obtain lo where v2: "nullable (numeric 14 4) (pp_lower_bound p) = Inr lo"
    "map_option val lo = map_option val (pp_lower_bound p)" by blast
  from held_nullable [OF h(4)] obtain hi where v3: "nullable (numeric 14 4) (pp_upper_bound p) = Inr hi"
    "map_option val hi = map_option val (pp_upper_bound p)" by blast
  from confidence_stored [OF h(5)] obtain c where v4: "nullable (numeric 5 4) (pp_confidence p) = Inr c"
    "pred_option (\<lambda>c. 0 \<le> val c \<and> val c \<le> 1) c" by blast
  have "bounds_ordered lo hi" using bounds_ordered_vals [OF v2(2) v3(2)] assms by (simp add: storable_point_def)
  with v1 v2(1) v3(1) v4 assms that show thesis
    by (simp add: stored_point_def point_model_def point_key_def storable_point_def val_simps)
qed

lemma points_inserted:
  assumes "\<forall>p \<in> set ps. storable_point p" "sorted_wrt (<) (map pp_interval_start ps)" "inj fresh"
    and "\<forall>k \<ge> n. \<not> known fp_id (t_forecast_points db) (fresh k)"
    and "\<forall>p \<in> set ps. (run, site, pp_interval_start p) \<notin> set (map point_key (t_forecast_points db))"
    and "known fr_id (t_forecast_runs db) run" "known si_id (t_sites db) site"
  shows "\<exists>db'. foldE insert_point (map (\<lambda>(k, p). point_model (fresh k) run site p) (enumerate n ps)) db = Inr db'"
  using assms
proof (induction ps arbitrary: n db)
  case (Cons p ps)
  from Cons.prems(1) obtain row where row: "stored_point (point_model (fresh n) run site p) = Inr row" "fp_id row = fresh n"
    "point_key row = (run, site, pp_interval_start p)" "fp_interval_start row < fp_interval_end row"
    "pred_option (\<lambda>c. 0 \<le> c \<and> c \<le> 1) (fp_confidence row)" "bounds_ordered (fp_lower_bound row) (fp_upper_bound row)"
    by (auto elim: storable_stored [of p "fresh n" run site])
  have ids: "fp_forecast_run_id row = run" "fp_site_id row = site" using row(3) by (simp_all add: point_key_def)
  let ?db = "db\<lparr>t_forecast_points := t_forecast_points db @ [row]\<rparr>"
  have "list_all fst (point_checks db row)"
    using Cons.prems(4-7) row(2-6) ids by (simp add: point_checks_def)
  then have "all_checks (point_checks db row) = Inr ()" by simp
  with row(1) have ins: "insert_point (point_model (fresh n) run site p) db = Inr ?db"
    by (simp add: insert_point_def del: all_checks_eq)
  have "\<exists>db'. foldE insert_point (map (\<lambda>(k, p). point_model (fresh k) run site p) (enumerate (Suc n) ps)) ?db = Inr db'"
  proof (rule Cons.IH)
    show "\<forall>k \<ge> Suc n. \<not> known fp_id (t_forecast_points ?db) (fresh k)"
      using Cons.prems(3,4) row(2) by (auto simp: known_def dest: injD)
    show "\<forall>p \<in> set ps. (run, site, pp_interval_start p) \<notin> set (map point_key (t_forecast_points ?db))"
      using Cons.prems(2,5) row(3) by auto
  qed (use Cons.prems in simp_all)
  with ins show ?case by simp
qed simp

section \<open>The contract\<close>

lemma validate_points_ok:
  assumes "\<forall>p \<in> set ps. pp_interval_start p < pp_interval_end p \<and> point_valid r p"
    and "sorted_wrt (<) (map pp_interval_start ps)" "\<forall>p \<in> set ps. pp_interval_start p \<notin> set seen"
  shows "validate_points r seen ps = Inr ()"
  using assms
proof (induction ps arbitrary: seen)
  case (Cons p ps)
  then have "validate_points r (pp_interval_start p # seen) ps = Inr ()" by (intro Cons.IH) auto
  with Cons.prems show ?case by (auto simp: not_le)
qed simp

locale sound_provider =
  fixes p :: provider and answers :: "forecast_request \<Rightarrow> bool"
  assumes predicts: "answers r \<Longrightarrow> \<exists>res. pv_predict p r = Inr res \<and> well_predicted r res"
begin

lemma asked:
  assumes "answers r"
  obtains res where "ask_provider p r = Inr res" "pv_predict p r = Inr res" "well_predicted r res"
proof -
  from predicts [OF assms] obtain res where res: "pv_predict p r = Inr res" "well_predicted r res" by blast
  have "validate_points r [] (fz_points res) = Inr ()"
    using res(2) by (intro validate_points_ok) (auto simp: well_predicted_def storable_point_def)
  then have "validate_result res r = Inr ()" using res(2) by (simp add: validate_result_def well_predicted_def)
  with res that show thesis by (simp add: ask_provider_def)
qed

lemma run_completes:
  assumes ok: "forecast_ok db" and p: "resolve_provider providers configured choice = Inr p"
    and s: "start_run p order now run_id db = Inr db1" and a: "answers (forecast_request_of order db1)"
    and f: "inj fresh" "\<forall>k. \<not> known fp_id (t_forecast_points db) (fresh k)"
  shows "\<exists>res db2 r rows. pv_predict p (forecast_request_of order db1) = Inr res
    \<and> run_forecast providers configured describe choice order now run_id fresh db = (db2, Inr r)
    \<and> fr_status r = COMPLETED \<and> fetch fr_id (t_forecast_runs db2) run_id = Some r
    \<and> t_forecast_points db2 = t_forecast_points db @ rows
    \<and> map fp_interval_start rows = map pp_interval_start (fz_points res)"
proof -
  from s obtain r where r: "db1 = db\<lparr>t_forecast_runs := t_forecast_runs db @ [r]\<rparr>" "fr_id r = run_id"
    "\<not> known fr_id (t_forecast_runs db) run_id" "fetch fr_id (t_forecast_runs db1) run_id = Some r"
    by (rule start_run_eq)
  from a obtain res where res: "ask_provider p (forecast_request_of order db1) = Inr res"
    "pv_predict p (forecast_request_of order db1) = Inr res" "well_predicted (forecast_request_of order db1) res"
    by (rule asked)
  have "known si_id (t_sites db) (ro_site_id order)"
    using s by (auto simp: start_run_def bindE_eq_Inr require_site_def split: if_splits)
  then have "\<exists>dbp. foldE insert_point
      (map (\<lambda>(k, p). point_model (fresh k) run_id (ro_site_id order) p) (enumerate 0 (fz_points res))) db1 = Inr dbp"
    using res(3) f ok r(1-3)
    by (intro points_inserted) (auto simp: well_predicted_def forecast_ok_def list_all_iff point_key_def known_def)
  then obtain db2 where db2: "complete_run fresh run_id (ro_site_id order) res db1 = Inr db2"
    using res(3) by (auto simp: complete_run_def well_predicted_def varchar_def)
  from complete_run_eq [OF db2 r(4)] obtain rows where rows: "t_forecast_points db2 = t_forecast_points db1 @ rows"
    "map fp_interval_start rows = map pp_interval_start (fz_points res)"
    "fetch fr_id (t_forecast_runs db2) run_id = Some (r\<lparr>fr_status := COMPLETED, fr_model_version := fz_model_version res\<rparr>)" .
  have "run_forecast providers configured describe choice order now run_id fresh db
      = (db2, Inr (r\<lparr>fr_status := COMPLETED, fr_model_version := fz_model_version res\<rparr>))"
    using p s res(1) db2 rows(3) by (simp add: run_forecast_def)
  with res(2) rows r(1) show ?thesis by auto
qed

end

end
