(* ===== verification/Market_Tables.thy ===== *)
theory Market_Tables
  imports Forecasting Market_Matching Audit_Log
begin

text \<open>
  The market's tables with their constraints (\<open>db/models/market.py\<close>) and the queries over them
  (\<open>repositories/market.py\<close>). The log of audit events is a table of the same database. A date is its
  proleptic ordinal. The reference of a trade to its grid validation is a key of another table and
  is null when a trade is inserted.
\<close>

record session_row =
  mk_id :: uuid
  mk_market_date :: int
  mk_market_type :: market_type
  mk_status :: market_session_status
  mk_opened_at :: "datetime option"
  mk_closed_at :: "datetime option"
  mk_cleared_at :: "datetime option"

record order_row =
  od_id :: uuid
  od_market_session_id :: uuid
  od_user_id :: uuid
  od_site_id :: uuid
  od_node_id :: "uuid option"
  od_side :: order_side
  od_energy_kwh :: decimal
  od_min_price :: "decimal option"
  od_max_price :: "decimal option"
  od_delivery_start :: datetime
  od_delivery_end :: datetime
  od_forecast_basis_id :: "uuid option"
  od_reliability :: "decimal option"
  od_status :: order_status
  od_matched_kwh :: decimal
  od_created_at :: datetime

record trade_row =
  td_id :: uuid
  td_fill_sequence :: int
  td_buy_order_id :: uuid
  td_sell_order_id :: uuid
  td_quantity_kwh :: decimal
  td_clearing_price :: decimal
  td_delivery_start :: datetime
  td_delivery_end :: datetime
  td_grid_validation_id :: "uuid option"
  td_status :: trade_status
  td_committed_at :: "datetime option"
  td_matching_engine :: "string option"
  td_matching_engine_version :: "string option"
  td_created_at :: datetime

record market_db = forecast_db +
  t_sessions :: "session_row list"
  t_orders :: "order_row list"
  t_trades :: "trade_row list"
  t_audit :: audit_log

definition remaining_kwh :: "order_row \<Rightarrow> decimal" where
  "remaining_kwh o1 = od_energy_kwh o1 - od_matched_kwh o1"

section \<open>Constraints\<close>

text \<open>\<open>a IS NULL OR b IS NULL OR a >= b\<close>\<close>

definition not_before :: "datetime option \<Rightarrow> datetime option \<Rightarrow> bool" where
  "not_before later earlier \<longleftrightarrow>
     (case (later, earlier) of (Some l, Some e) \<Rightarrow> e \<le> l | _ \<Rightarrow> True)"

definition session_checks :: "session_row list \<Rightarrow> session_row \<Rightarrow> (bool \<times> string) list" where
  "session_checks others s =
     [(not_before (mk_closed_at s) (mk_opened_at s), ''ck_market_sessions_closed_after_opened''),
      (not_before (mk_cleared_at s) (mk_closed_at s), ''ck_market_sessions_cleared_after_closed''),
      (\<not> known mk_id others (mk_id s), ''pk_market_sessions''),
      ((mk_market_date s, mk_market_type s) \<notin> set (map (\<lambda>q. (mk_market_date q, mk_market_type q)) others),
       ''uq_market_sessions_market_date_market_type'')]"

definition order_row_checks :: "order_row \<Rightarrow> (bool \<times> string) list" where
  "order_row_checks o1 =
     [(0 < od_energy_kwh o1, ''ck_orders_energy_positive''),
      (od_delivery_start o1 < od_delivery_end o1, ''ck_orders_delivery_end_after_start''),
      (0 \<le> od_matched_kwh o1 \<and> od_matched_kwh o1 \<le> od_energy_kwh o1, ''ck_orders_matched_within_energy''),
      (od_side o1 \<noteq> BUY \<or> od_max_price o1 \<noteq> None, ''ck_orders_buy_requires_max_price''),
      (od_side o1 \<noteq> SELL \<or> od_min_price o1 \<noteq> None, ''ck_orders_sell_requires_min_price''),
      (not_negative_check (od_min_price o1), ''ck_orders_min_price_not_negative''),
      (not_negative_check (od_max_price o1), ''ck_orders_max_price_not_negative''),
      (pred_option (\<lambda>r. 0 \<le> r \<and> r \<le> 1) (od_reliability o1), ''ck_orders_reliability_score_is_a_ratio'')]"

definition order_checks :: "'a market_db_scheme \<Rightarrow> order_row \<Rightarrow> (bool \<times> string) list" where
  "order_checks db o1 =
     order_row_checks o1 @
     [(\<not> known od_id (t_orders db) (od_id o1), ''pk_orders''),
      (known mk_id (t_sessions db) (od_market_session_id o1), ''fk_orders_market_session_id_market_sessions''),
      (known us_id (t_users db) (od_user_id o1), ''fk_orders_user_id_users''),
      (known si_id (t_sites db) (od_site_id o1), ''fk_orders_site_id_sites''),
      (pred_option (known gn_id (t_grid_nodes db)) (od_node_id o1), ''fk_orders_node_id_grid_nodes''),
      (pred_option (known fr_id (t_forecast_runs db)) (od_forecast_basis_id o1),
       ''fk_orders_forecast_basis_id_forecast_runs'')]"

definition trade_key :: "trade_row \<Rightarrow> uuid \<times> uuid \<times> datetime \<times> int" where
  "trade_key t = (td_buy_order_id t, td_sell_order_id t, td_delivery_start t, td_fill_sequence t)"

definition trade_checks :: "'a market_db_scheme \<Rightarrow> trade_row \<Rightarrow> (bool \<times> string) list" where
  "trade_checks db t =
     [(0 < td_quantity_kwh t, ''ck_trades_quantity_positive''),
      (0 \<le> td_clearing_price t, ''ck_trades_clearing_price_not_negative''),
      (td_delivery_start t < td_delivery_end t, ''ck_trades_delivery_end_after_start''),
      (td_buy_order_id t \<noteq> td_sell_order_id t, ''ck_trades_distinct_orders''),
      (\<not> known td_id (t_trades db) (td_id t), ''pk_trades''),
      (trade_key t \<notin> set (map trade_key (t_trades db)), ''uq_trades_buy_order_id_sell_order_id_delivery_start''),
      (known od_id (t_orders db) (td_buy_order_id t), ''fk_trades_buy_order_id_orders''),
      (known od_id (t_orders db) (td_sell_order_id t), ''fk_trades_sell_order_id_orders'')]"

text \<open>Energies are \<open>Numeric(14, 4)\<close>, prices \<open>Numeric(12, 4)\<close>, scores \<open>Numeric(5, 4)\<close>.\<close>

definition stored_order :: "order_row \<Rightarrow> order_row result" where
  "stored_order o1 =
     bindE (numeric 14 4 (od_energy_kwh o1)) (\<lambda>energy.
     bindE (nullable (numeric 12 4) (od_min_price o1)) (\<lambda>lo.
     bindE (nullable (numeric 12 4) (od_max_price o1)) (\<lambda>hi.
     bindE (nullable (numeric 5 4) (od_reliability o1)) (\<lambda>score.
     bindE (numeric 14 4 (od_matched_kwh o1)) (\<lambda>matched.
     Inr (o1\<lparr>od_energy_kwh := energy, od_min_price := lo, od_max_price := hi, od_reliability := score,
             od_matched_kwh := matched\<rparr>))))))"

definition pred_text :: "nat \<Rightarrow> string option \<Rightarrow> unit result" where
  "pred_text n v = (case v of None \<Rightarrow> Inr () | Some s \<Rightarrow> varchar n s)"

definition stored_trade :: "trade_row \<Rightarrow> trade_row result" where
  "stored_trade t =
     bindE (pred_text 64 (td_matching_engine t)) (\<lambda>_.
     bindE (pred_text 64 (td_matching_engine_version t)) (\<lambda>_.
     bindE (numeric 14 4 (td_quantity_kwh t)) (\<lambda>q.
     bindE (numeric 12 4 (td_clearing_price t)) (\<lambda>p.
     Inr (t\<lparr>td_quantity_kwh := q, td_clearing_price := p\<rparr>)))))"

definition insert_session :: "session_row \<Rightarrow> 'a market_db_scheme \<Rightarrow> 'a market_db_scheme result" where
  "insert_session s db =
     bindE (all_checks (session_checks (t_sessions db) s)) (\<lambda>_.
     Inr (db\<lparr>t_sessions := t_sessions db @ [s]\<rparr>))"

definition insert_order :: "order_row \<Rightarrow> 'a market_db_scheme \<Rightarrow> 'a market_db_scheme result" where
  "insert_order o1 db =
     bindE (stored_order o1) (\<lambda>row.
     bindE (all_checks (order_checks db row)) (\<lambda>_.
     Inr (db\<lparr>t_orders := t_orders db @ [row]\<rparr>)))"

definition insert_trade :: "trade_row \<Rightarrow> 'a market_db_scheme \<Rightarrow> 'a market_db_scheme result" where
  "insert_trade t db =
     bindE (stored_trade t) (\<lambda>row.
     bindE (all_checks (trade_checks db row)) (\<lambda>_.
     Inr (db\<lparr>t_trades := t_trades db @ [row]\<rparr>)))"

text \<open>Writing a changed row back: its checks, with the other rows as they are.\<close>

definition save_session :: "session_row \<Rightarrow> 'a market_db_scheme \<Rightarrow> 'a market_db_scheme result" where
  "save_session s db =
     bindE (all_checks (session_checks (filter (\<lambda>q. mk_id q \<noteq> mk_id s) (t_sessions db)) s)) (\<lambda>_.
     Inr (db\<lparr>t_sessions := modify mk_id (mk_id s) (\<lambda>_. s) (t_sessions db)\<rparr>))"

definition save_fill :: "order_row \<Rightarrow> 'a market_db_scheme \<Rightarrow> 'a market_db_scheme result" where
  "save_fill o1 db =
     bindE (numeric 14 4 (od_matched_kwh o1)) (\<lambda>matched.
     let row = o1\<lparr>od_matched_kwh := matched\<rparr>
     in bindE (all_checks (order_row_checks row)) (\<lambda>_.
        Inr (db\<lparr>t_orders := modify od_id (od_id o1) (\<lambda>_. row) (t_orders db)\<rparr>)))"

section \<open>Queries\<close>

definition ACTIVE_ORDER_STATUSES :: "order_status list" where
  "ACTIVE_ORDER_STATUSES = [Order_OPEN, PARTIALLY_FILLED]"

definition get_for_date :: "'a market_db_scheme \<Rightarrow> int \<Rightarrow> market_type \<Rightarrow> session_row option" where
  "get_for_date db day mtype =
     List.find (\<lambda>s. mk_market_date s = day \<and> mk_market_type s = mtype) (t_sessions db)"

definition sessions_by_status :: "'a market_db_scheme \<Rightarrow> market_session_status \<Rightarrow> session_row list" where
  "sessions_by_status db status =
     sort_key mk_market_date (filter (\<lambda>s. mk_status s = status) (t_sessions db))"

definition active_for_session ::
  "'a market_db_scheme \<Rightarrow> uuid \<Rightarrow> order_side option \<Rightarrow> order_row list" where
  "active_for_session db session_id side =
     sort_key (\<lambda>o1. (od_created_at o1, od_id o1))
       (filter (\<lambda>o1. od_market_session_id o1 = session_id \<and> od_status o1 \<in> set ACTIVE_ORDER_STATUSES
          \<and> pred_option (\<lambda>s. od_side o1 = s) side) (t_orders db))"

definition orders_for_user :: "'a market_db_scheme \<Rightarrow> uuid \<Rightarrow> order_row list" where
  "orders_for_user db user_id =
     sort_key (\<lambda>o1. - od_created_at o1) (filter (\<lambda>o1. od_user_id o1 = user_id) (t_orders db))"

definition orders_for_site :: "'a market_db_scheme \<Rightarrow> uuid \<Rightarrow> order_row list" where
  "orders_for_site db site_id =
     sort_key (\<lambda>o1. - od_created_at o1) (filter (\<lambda>o1. od_site_id o1 = site_id) (t_orders db))"

definition trades_for_session :: "'a market_db_scheme \<Rightarrow> uuid \<Rightarrow> trade_row list" where
  "trades_for_session db session_id =
     sort_key (\<lambda>t. (td_delivery_start t, td_created_at t))
       (filter (\<lambda>t. case fetch od_id (t_orders db) (td_buy_order_id t) of
                      None \<Rightarrow> False | Some o1 \<Rightarrow> od_market_session_id o1 = session_id) (t_trades db))"

definition trades_for_order :: "'a market_db_scheme \<Rightarrow> uuid \<Rightarrow> trade_row list" where
  "trades_for_order db order_id =
     sort_key td_created_at
       (filter (\<lambda>t. td_buy_order_id t = order_id \<or> td_sell_order_id t = order_id) (t_trades db))"

end
