(* ===== verification/Market_Service.thy ===== *)
theory Market_Service
  imports Market_Tables "HOL-Library.AList"
begin

text \<open>
  The market service (\<open>services/market_service.py\<close>): sessions, orders, the order book and clearing.
  Each operation is one transaction over the tables; identifiers, the clock and the instant of the
  transaction are arguments. The matching engine is an argument of clearing.
\<close>

section \<open>Sessions\<close>

definition instant :: "datetime option \<Rightarrow> datetime \<Rightarrow> datetime" where
  "instant given now = (case given of None \<Rightarrow> now | Some t \<Rightarrow> t)"

definition open_session ::
  "'a market_db_scheme \<Rightarrow> int \<Rightarrow> market_type \<Rightarrow> datetime option \<Rightarrow> datetime \<Rightarrow> uuid
   \<Rightarrow> ('a market_db_scheme \<times> session_row) result" where
  "open_session db day mtype given now new_id =
     (if get_for_date db day mtype \<noteq> None then Inl (MarketStateError ''MARKET_SESSION_ALREADY_EXISTS'')
      else
        (let s = \<lparr>mk_id = new_id, mk_market_date = day, mk_market_type = mtype, mk_status = Session_OPEN,
                  mk_opened_at = Some (instant given now), mk_closed_at = None, mk_cleared_at = None\<rparr>
         in bindE (insert_session s db) (\<lambda>db'. Inr (db', s))))"

definition get_session :: "'a market_db_scheme \<Rightarrow> uuid \<Rightarrow> session_row result" where
  "get_session db session_id =
     (case fetch mk_id (t_sessions db) session_id of
        None \<Rightarrow> Inl (NotFoundError ''MARKET_SESSION_NOT_FOUND'') | Some s \<Rightarrow> Inr s)"

definition close_session ::
  "'a market_db_scheme \<Rightarrow> uuid \<Rightarrow> datetime option \<Rightarrow> datetime \<Rightarrow> ('a market_db_scheme \<times> session_row) result" where
  "close_session db session_id given now =
     bindE (get_session db session_id) (\<lambda>s.
       if mk_status s \<noteq> Session_OPEN then Inl (MarketStateError ''MARKET_STATE_INVALID'')
       else (let s' = s\<lparr>mk_status := CLOSED, mk_closed_at := Some (instant given now)\<rparr>
             in bindE (save_session s' db) (\<lambda>db'. Inr (db', s'))))"

section \<open>Orders\<close>

record order_request =
  oq_market_session_id :: uuid
  oq_user_id :: uuid
  oq_site_id :: uuid
  oq_side :: order_side
  oq_energy_kwh :: decimal
  oq_delivery_start :: datetime
  oq_delivery_end :: datetime
  oq_max_price :: "decimal option"
  oq_min_price :: "decimal option"
  oq_node_id :: "uuid option"
  oq_forecast_basis_id :: "uuid option"
  oq_reliability :: "decimal option"

definition require_eligibility :: "'a market_db_scheme \<Rightarrow> uuid \<Rightarrow> order_side \<Rightarrow> datetime \<Rightarrow> unit result" where
  "require_eligibility db user_id side now =
     bindE (get_eligibility db user_id None now) (\<lambda>(decision, _).
     guardE (if side = SELL then ed_can_sell decision else ed_can_buy decision)
            (OrderValidationError ''USER_NOT_ELIGIBLE''))"

definition require_forecast_surplus ::
  "'a market_db_scheme \<Rightarrow> uuid \<Rightarrow> decimal \<Rightarrow> datetime \<Rightarrow> datetime \<Rightarrow> unit result" where
  "require_forecast_surplus db site_id energy start stop =
     bindE (get_surplus_for_site db site_id start stop) (\<lambda>window.
     bindE (total_exportable_kwh window) (\<lambda>available.
     guardE (\<not> available < energy) (OrderValidationError ''INSUFFICIENT_FORECAST_SURPLUS'')))"

definition validate_order_shape :: "order_request \<Rightarrow> unit result" where
  "validate_order_shape q =
     (if oq_energy_kwh q \<le> 0 then Inl (OrderValidationError ''ORDER_QUANTITY_INVALID'')
      else if oq_delivery_end q \<le> oq_delivery_start q then Inl (OrderValidationError ''ORDER_WINDOW_INVALID'')
      else if oq_side q = BUY \<and> oq_max_price q = None then Inl (OrderValidationError ''ORDER_PRICE_REQUIRED'')
      else if oq_side q = SELL \<and> oq_min_price q = None then Inl (OrderValidationError ''ORDER_PRICE_REQUIRED'')
      else Inr ())"

definition new_order :: "order_request \<Rightarrow> datetime \<Rightarrow> uuid \<Rightarrow> order_row" where
  "new_order q created new_id =
     \<lparr>od_id = new_id, od_market_session_id = oq_market_session_id q, od_user_id = oq_user_id q,
      od_site_id = oq_site_id q, od_node_id = oq_node_id q, od_side = oq_side q,
      od_energy_kwh = oq_energy_kwh q, od_min_price = oq_min_price q, od_max_price = oq_max_price q,
      od_delivery_start = oq_delivery_start q, od_delivery_end = oq_delivery_end q,
      od_forecast_basis_id = oq_forecast_basis_id q, od_reliability = oq_reliability q,
      od_status = Order_OPEN, od_matched_kwh = 0, od_created_at = created\<rparr>"

text \<open>The audit event is built from the object before it is read back from the store.\<close>

definition order_placed_event :: "order_row \<Rightarrow> uuid \<Rightarrow> datetime \<Rightarrow> audit_event" where
  "order_placed_event o1 event_id now =
     order_placed event_id now (od_id o1) (od_user_id o1) (od_site_id o1) (order_side_value (od_side o1))
       (od_energy_kwh o1) (if od_side o1 = BUY then od_max_price o1 else od_min_price o1)
       (od_delivery_start o1) (od_delivery_end o1) (od_created_at o1)"

definition record_event ::
  "audit_event \<Rightarrow> 'a market_db_scheme \<Rightarrow> 'a market_db_scheme result" where
  "record_event ev db =
     bindE (audit_record (set (map us_id (t_users db))) ev (t_audit db)) (\<lambda>tbl.
     Inr (db\<lparr>t_audit := tbl\<rparr>))"

definition order_accepted :: "order_row \<Rightarrow> notice" where
  "order_accepted o1 =
     \<lparr>re_event_type = ORDER_ACCEPTED, re_entity_type = ''order'', re_entity_id = Some (od_id o1),
      re_trade_id = None,
      re_payload = [(''market_session_id'', S_str (uuid_text (od_market_session_id o1))),
                    (''side'', S_str (order_side_value (od_side o1))),
                    (''energy_kwh'', S_str (format_f (od_energy_kwh o1))),
                    (''status'', S_str (order_status_value (od_status o1)))]\<rparr>"

definition admit_order :: "'a market_db_scheme \<Rightarrow> order_request \<Rightarrow> datetime \<Rightarrow> unit result" where
  "admit_order db q now =
     bindE (get_session db (oq_market_session_id q)) (\<lambda>s.
     bindE (guardE (accepts_orders (mk_status s)) (MarketStateError ''MARKET_STATE_INVALID'')) (\<lambda>_.
     bindE (require_site db (oq_site_id q)) (\<lambda>_.
     bindE (require_eligibility db (oq_user_id q) (oq_side q) now) (\<lambda>_.
     bindE (validate_order_shape q) (\<lambda>_.
     if oq_side q = SELL
     then require_forecast_surplus db (oq_site_id q) (oq_energy_kwh q) (oq_delivery_start q) (oq_delivery_end q)
     else Inr ())))))"

definition get_order :: "'a market_db_scheme \<Rightarrow> uuid \<Rightarrow> order_row result" where
  "get_order db order_id =
     (case fetch od_id (t_orders db) order_id of
        None \<Rightarrow> Inl (NotFoundError ''ORDER_NOT_FOUND'') | Some o1 \<Rightarrow> Inr o1)"

definition place_order ::
  "'a market_db_scheme \<Rightarrow> order_request \<Rightarrow> datetime option \<Rightarrow> datetime \<Rightarrow> uuid \<Rightarrow> uuid
   \<Rightarrow> ('a market_db_scheme \<times> order_row \<times> notice list) result" where
  "place_order db q given now new_id event_id =
     bindE (admit_order db q now) (\<lambda>_.
       let o1 = new_order q (instant given now) new_id
       in bindE (insert_order o1 db) (\<lambda>db1.
          bindE (record_event (order_placed_event o1 event_id now) db1) (\<lambda>db2.
          bindE (get_order db2 new_id) (\<lambda>row. Inr (db2, row, [order_accepted row])))))"

definition cancel_order :: "'a market_db_scheme \<Rightarrow> uuid \<Rightarrow> ('a market_db_scheme \<times> order_row) result" where
  "cancel_order db order_id =
     bindE (get_order db order_id) (\<lambda>o1.
       if \<not> order_is_active (od_status o1) then Inl (MarketStateError ''MARKET_STATE_INVALID'')
       else Inr (db\<lparr>t_orders := modify od_id order_id (\<lambda>o1. o1\<lparr>od_status := CANCELLED\<rparr>) (t_orders db)\<rparr>,
                 o1\<lparr>od_status := CANCELLED\<rparr>))"

section \<open>The order book\<close>

definition to_entry :: "order_row \<Rightarrow> order_book_entry" where
  "to_entry o1 =
     \<lparr>e_order_id = od_id o1, e_side = od_side o1, e_user_id = od_user_id o1, e_site_id = od_site_id o1,
      e_remaining_kwh = remaining_kwh o1, e_delivery_start = od_delivery_start o1,
      e_delivery_end = od_delivery_end o1, e_created_at = od_created_at o1, e_node_id = od_node_id o1,
      e_max_price = od_max_price o1, e_min_price = od_min_price o1, e_reliability = od_reliability o1\<rparr>"

definition build_order_book :: "'a market_db_scheme \<Rightarrow> uuid \<Rightarrow> order_book result" where
  "build_order_book db session_id =
     bindE (get_session db session_id) (\<lambda>s.
       let entries = map to_entry (active_for_session db session_id None)
       in Inr \<lparr>book_session_id = mk_id s, book_market_date = mk_market_date s,
               book_market_type = mk_market_type s,
               book_buys = filter (\<lambda>e. e_side e = BUY) entries,
               book_sells = filter (\<lambda>e. e_side e = SELL) entries\<rparr>)"

section \<open>Clearing\<close>

text \<open>The engine's output is checked before anything is written.\<close>

definition book_entry :: "order_book \<Rightarrow> uuid \<Rightarrow> order_book_entry option" where
  "book_entry book = map_of (rev (map (\<lambda>e. (e_order_id e, e)) (book_buys book @ book_sells book)))"

definition commit_side ::
  "order_book \<Rightarrow> proposed_trade \<Rightarrow> uuid \<times> order_side \<Rightarrow> (uuid \<times> decimal) list \<Rightarrow> (uuid \<times> decimal) list result" where
  "commit_side book t = (\<lambda>(order_id, expected_side) committed.
     (case book_entry book order_id of
        None \<Rightarrow> Inl MatchingEngineError
      | Some entry \<Rightarrow>
          if e_side entry \<noteq> expected_side then Inl MatchingEngineError
          else Inr (AList.update order_id
                 ((case map_of committed order_id of None \<Rightarrow> 0 | Some c \<Rightarrow> c) + pt_quantity_kwh t) committed)))"

definition validate_trade ::
  "order_book \<Rightarrow> proposed_trade \<Rightarrow> (uuid \<times> decimal) list \<Rightarrow> (uuid \<times> decimal) list result" where
  "validate_trade book t committed =
     bindE (foldE (commit_side book t) [(pt_buy_order_id t, BUY), (pt_sell_order_id t, SELL)] committed) (\<lambda>committed.
       if pt_quantity_kwh t \<le> 0 then Inl MatchingEngineError
       else if pt_clearing_price t < 0 then Inl MatchingEngineError
       else if pt_delivery_end t \<le> pt_delivery_start t then Inl MatchingEngineError
       else Inr committed)"

definition validate_matching :: "matching_result \<Rightarrow> order_book \<Rightarrow> unit result" where
  "validate_matching res book =
     bindE (foldE (validate_trade book) (mr_trades res) []) (\<lambda>committed.
       if list_ex (\<lambda>(order_id, amount). case book_entry book order_id of
            None \<Rightarrow> True | Some e \<Rightarrow> e_remaining_kwh e < amount) committed
       then Inl MatchingEngineError else Inr ())"

definition new_trade :: "matching_result \<Rightarrow> uuid \<Rightarrow> datetime \<Rightarrow> proposed_trade \<Rightarrow> trade_row" where
  "new_trade res new_id created t =
     \<lparr>td_id = new_id, td_fill_sequence = 1, td_buy_order_id = pt_buy_order_id t,
      td_sell_order_id = pt_sell_order_id t, td_quantity_kwh = pt_quantity_kwh t,
      td_clearing_price = pt_clearing_price t, td_delivery_start = pt_delivery_start t,
      td_delivery_end = pt_delivery_end t, td_grid_validation_id = None, td_status = PROPOSED,
      td_committed_at = None, td_matching_engine = Some (mr_engine res),
      td_matching_engine_version = Some (mr_engine_version res), td_created_at = created\<rparr>"

definition apply_fill :: "decimal \<Rightarrow> order_row \<Rightarrow> order_row" where
  "apply_fill quantity o1 =
     (let matched = od_matched_kwh o1 + quantity
      in o1\<lparr>od_matched_kwh := matched,
            od_status := (if od_energy_kwh o1 \<le> matched then FILLED else PARTIALLY_FILLED)\<rparr>)"

definition fill_order ::
  "proposed_trade \<Rightarrow> uuid \<Rightarrow> (uuid \<rightharpoonup> order_row) \<Rightarrow> (uuid \<rightharpoonup> order_row) result" where
  "fill_order t order_id orders =
     bindE (getitem orders order_id) (\<lambda>o1. Inr (orders(order_id \<mapsto> apply_fill (pt_quantity_kwh t) o1)))"

definition apply_trade :: "proposed_trade \<Rightarrow> (uuid \<rightharpoonup> order_row) \<Rightarrow> (uuid \<rightharpoonup> order_row) result" where
  "apply_trade t orders = bindE (fill_order t (pt_buy_order_id t) orders) (fill_order t (pt_sell_order_id t))"

text \<open>The flush writes the orders that changed; an unchanged order is not written.\<close>

definition save_changed :: "(uuid \<rightharpoonup> order_row) \<Rightarrow> order_row \<Rightarrow> 'a market_db_scheme \<Rightarrow> 'a market_db_scheme result" where
  "save_changed orders o1 db =
     (case orders (od_id o1) of
        None \<Rightarrow> Inr db
      | Some o2 \<Rightarrow> if o2 = o1 then Inr db else save_fill o2 db)"

definition date_text :: "int \<Rightarrow> string" where
  "date_text day = (case ord2ymd day of (y, m, d) \<Rightarrow> fixed 10 4 y @ ''-'' @ fixed 10 2 m @ ''-'' @ fixed 10 2 d)"

text \<open>What a clearing draws: identifiers and clocks of trades and of audit events.\<close>

record clearing_fresh =
  cf_trade_id :: "nat \<Rightarrow> uuid"
  cf_event_id :: "nat \<Rightarrow> uuid"
  cf_clock :: "nat \<Rightarrow> datetime"
  cf_transaction_now :: datetime

definition session_cleared_event ::
  "session_row \<Rightarrow> matching_result \<Rightarrow> datetime \<Rightarrow> clearing_fresh \<Rightarrow> audit_event" where
  "session_cleared_event s res cleared_at f =
     market_cleared (cf_event_id f 0) (cf_clock f 0) (mk_id s) (date_text (mk_market_date s))
       (length (mr_trades res)) (matched_kwh res) (Some (mr_engine res)) (Some (mr_engine_version res)) cleared_at"

definition trade_event :: "clearing_fresh \<Rightarrow> nat \<times> trade_row \<Rightarrow> audit_event" where
  "trade_event f = (\<lambda>(k, t).
     trade_proposed (cf_event_id f (Suc k)) (cf_clock f (Suc k)) (td_id t) (td_buy_order_id t) (td_sell_order_id t)
       (td_quantity_kwh t) (td_clearing_price t) (td_delivery_start t) (td_delivery_end t) (td_created_at t))"

definition clearing_started :: "session_row \<Rightarrow> string \<Rightarrow> notice" where
  "clearing_started s engine_name =
     \<lparr>re_event_type = CLEARING_STARTED, re_entity_type = ''market_session'', re_entity_id = Some (mk_id s),
      re_trade_id = None,
      re_payload = [(''market_date'', S_str (date_text (mk_market_date s))), (''engine'', S_str engine_name)]\<rparr>"

definition trade_notice :: "uuid \<Rightarrow> trade_row \<Rightarrow> notice" where
  "trade_notice session_id t =
     \<lparr>re_event_type = Realtime_TRADE_PROPOSED, re_entity_type = ''trade'', re_entity_id = Some (td_id t),
      re_trade_id = Some (td_id t),
      re_payload = [(''market_session_id'', S_str (uuid_text session_id)),
                    (''quantity_kwh'', S_str (format_f (td_quantity_kwh t))),
                    (''clearing_price_inr_per_kwh'', S_str (format_f (td_clearing_price t))),
                    (''status'', S_str (trade_status_value (td_status t)))]\<rparr>"

text \<open>The engine's failure is reported as an engine error, whatever it raised.\<close>

definition run_engine :: "(matching_request \<Rightarrow> matching_result result) \<Rightarrow> matching_request \<Rightarrow> matching_result result" where
  "run_engine engine request = (case engine request of Inl _ \<Rightarrow> Inl MatchingEngineError | Inr res \<Rightarrow> Inr res)"

definition new_trades :: "matching_result \<Rightarrow> clearing_fresh \<Rightarrow> trade_row list" where
  "new_trades res f =
     map (\<lambda>(k, t). new_trade res (cf_trade_id f k) (cf_transaction_now f) t) (enumerate 0 (mr_trades res))"

text \<open>What the clearing transaction writes before the audit events: trades, fills, the session.\<close>

definition commit_matching ::
  "session_row \<Rightarrow> matching_result \<Rightarrow> datetime \<Rightarrow> clearing_fresh \<Rightarrow> 'a market_db_scheme
   \<Rightarrow> 'a market_db_scheme result" where
  "commit_matching s res cleared_at f db =
     (let active = active_for_session db (mk_id s) None
      in bindE (foldE insert_trade (new_trades res f) db) (\<lambda>db1.
         bindE (foldE apply_trade (mr_trades res) (map_of (rev (map (\<lambda>o1. (od_id o1, o1)) active)))) (\<lambda>orders.
         bindE (save_session (s\<lparr>mk_status := CLEARED, mk_cleared_at := Some cleared_at\<rparr>) db1) (\<lambda>db2.
         foldE (save_changed orders) active db2))))"

definition clearing_events ::
  "session_row \<Rightarrow> matching_result \<Rightarrow> datetime \<Rightarrow> clearing_fresh \<Rightarrow> audit_event list" where
  "clearing_events s res cleared_at f =
     session_cleared_event s res cleared_at f # map (trade_event f) (enumerate 0 (new_trades res f))"

definition write_clearing ::
  "session_row \<Rightarrow> matching_result \<Rightarrow> datetime \<Rightarrow> clearing_fresh \<Rightarrow> 'a market_db_scheme
   \<Rightarrow> ('a market_db_scheme \<times> trade_row list) result" where
  "write_clearing s res cleared_at f db =
     bindE (commit_matching s res cleared_at f db) (\<lambda>db1.
     bindE (foldE record_event (clearing_events s res cleared_at f) db1) (\<lambda>db2.
     Inr (db2, new_trades res f)))"

definition clearing_result ::
  "'a market_db_scheme \<Rightarrow> session_row \<Rightarrow> (matching_request \<Rightarrow> matching_result result) \<Rightarrow> datetime
   \<Rightarrow> matching_result result" where
  "clearing_result db s engine cleared_at =
     bindE (build_order_book db (mk_id s)) (\<lambda>book.
     bindE (run_engine engine \<lparr>req_order_book = book, req_cleared_at = cleared_at\<rparr>) (\<lambda>res.
     bindE (validate_matching res book) (\<lambda>_. Inr res)))"

text \<open>The notification that clearing has begun goes out before the transaction, whatever follows.\<close>

definition clear_session ::
  "'a market_db_scheme \<Rightarrow> uuid \<Rightarrow> (matching_request \<Rightarrow> matching_result result) \<Rightarrow> string \<Rightarrow> datetime option \<Rightarrow> datetime
   \<Rightarrow> clearing_fresh \<Rightarrow> notice list \<times> ('a market_db_scheme \<times> trade_row list) result" where
  "clear_session db session_id engine engine_name given now f =
     (case get_session db session_id of
        Inl e \<Rightarrow> ([], Inl e)
      | Inr s \<Rightarrow>
          if \<not> can_clear (mk_status s) then ([], Inl (MarketStateError ''MARKET_STATE_INVALID''))
          else
            (let cleared_at = instant given now; started = clearing_started s engine_name
             in case bindE (clearing_result db s engine cleared_at) (\<lambda>res. write_clearing s res cleared_at f db) of
                  Inl e \<Rightarrow> ([started], Inl e)
                | Inr (db', rows) \<Rightarrow> (started # map (trade_notice session_id) rows, Inr (db', rows))))"

definition get_trade :: "'a market_db_scheme \<Rightarrow> uuid \<Rightarrow> trade_row result" where
  "get_trade db trade_id =
     (case fetch td_id (t_trades db) trade_id of
        None \<Rightarrow> Inl (NotFoundError ''TRADE_NOT_FOUND'') | Some t \<Rightarrow> Inr t)"

definition list_trades_for_session :: "'a market_db_scheme \<Rightarrow> uuid \<Rightarrow> trade_row list result" where
  "list_trades_for_session db session_id =
     bindE (get_session db session_id) (\<lambda>_. Inr (trades_for_session db session_id))"

end
