(* ===== verification/Matching_Contract.thy ===== *)
theory Matching_Contract
  imports Market_Matching_Props
begin

text \<open>
  What a matching engine owes the market service (the contract of
  \<open>backend/app/domain/interfaces/market.py\<close>, as the service's boundary check and the tables'
  constraints need it), as a locale, and the proof that the baseline engine meets it.
\<close>

section \<open>No pair of orders trades twice\<close>

definition traded_pair :: "proposed_trade \<Rightarrow> uuid \<times> uuid" where
  "traded_pair t = (pt_buy_order_id t, pt_sell_order_id t)"

lemma match_pair_adds:
  assumes "match_pair b s st = Inr (stop, st')"
  shows "trades st' = trades st \<or> (\<exists>t. trades st' = trades st @ [t] \<and> traded_pair t = (e_order_id b, e_order_id s))"
  using assms
  by (cases "e_max_price b"; cases "e_min_price s")
    (auto simp: match_pair_def bindE_eq_Inr traded_pair_def Let_def split: if_splits)

lemma match_sells_adds:
  assumes "match_sells b ss st = Inr st'" "distinct (map e_order_id ss)"
  shows "\<exists>new. trades st' = trades st @ new \<and> distinct (map traded_pair new)
    \<and> traded_pair ` set new \<subseteq> {e_order_id b} \<times> e_order_id ` set ss"
  using assms
proof (induction ss arbitrary: st)
  case (Cons s ss)
  obtain stop st1 where p: "match_pair b s st = Inr (stop, st1)"
    and r: "if stop then st' = st1 else match_sells b ss st1 = Inr st'"
    using Cons.prems(1) by (auto simp: bindE_eq_Inr split: if_splits)
  obtain new where n: "trades st' = trades st1 @ new" "distinct (map traded_pair new)"
    "traded_pair ` set new \<subseteq> {e_order_id b} \<times> e_order_id ` set ss"
  proof (cases stop)
    case True
    with r show ?thesis by (intro that [of "[]"]) simp_all
  next
    case False
    with r have "match_sells b ss st1 = Inr st'" by simp
    from Cons.IH [OF this] Cons.prems(2) that show ?thesis by auto
  qed
  from match_pair_adds [OF p] show ?case
  proof (elim disjE exE conjE)
    fix t assume t: "trades st1 = trades st @ [t]" "traded_pair t = (e_order_id b, e_order_id s)"
    have "(e_order_id b, e_order_id s) \<notin> traded_pair ` set new" using n(3) Cons.prems(2) by auto
    with n t show ?case by (intro exI [of _ "t # new"]) auto
  qed (use n in auto)
qed (auto intro: exI [of _ "[]"])

lemma match_buy_adds:
  assumes "match_buy ss b st = Inr st'" "distinct (map e_order_id ss)"
  shows "\<exists>new. trades st' = trades st @ new \<and> distinct (map traded_pair new)
    \<and> traded_pair ` set new \<subseteq> {e_order_id b} \<times> e_order_id ` set ss"
proof -
  from assms(1) have "st' = st \<or> match_sells b ss st = Inr st'"
    by (auto simp: match_buy_def bindE_eq_Inr split: if_splits)
  then show ?thesis
  proof
    assume "match_sells b ss st = Inr st'"
    then show ?thesis by (rule match_sells_adds [OF _ assms(2)])
  qed (auto intro: exI [of _ "[]"])
qed

lemma match_buys_adds:
  assumes "foldE (match_buy ss) bs st = Inr st'" "distinct (map e_order_id ss)" "distinct (map e_order_id bs)"
  shows "\<exists>new. trades st' = trades st @ new \<and> distinct (map traded_pair new)
    \<and> traded_pair ` set new \<subseteq> e_order_id ` set bs \<times> e_order_id ` set ss"
  using assms
proof (induction bs arbitrary: st)
  case (Cons b bs)
  obtain st1 where p: "match_buy ss b st = Inr st1" and r: "foldE (match_buy ss) bs st1 = Inr st'"
    using Cons.prems(1) by (auto simp: bindE_eq_Inr)
  obtain n1 where n1: "trades st1 = trades st @ n1" "distinct (map traded_pair n1)"
    "traded_pair ` set n1 \<subseteq> {e_order_id b} \<times> e_order_id ` set ss"
    using match_buy_adds [OF p Cons.prems(2)] by blast
  obtain n2 where n2: "trades st' = trades st1 @ n2" "distinct (map traded_pair n2)"
    "traded_pair ` set n2 \<subseteq> e_order_id ` set bs \<times> e_order_id ` set ss"
    using Cons.IH [OF r Cons.prems(2)] Cons.prems(3) by auto
  have "traded_pair ` set n1 \<inter> traded_pair ` set n2 = {}"
  proof (rule ccontr)
    assume "traded_pair ` set n1 \<inter> traded_pair ` set n2 \<noteq> {}"
    then obtain p where "p \<in> traded_pair ` set n1" "p \<in> traded_pair ` set n2" by blast
    with n1(3) n2(3) have "p \<in> {e_order_id b} \<times> e_order_id ` set ss" "p \<in> e_order_id ` set bs \<times> e_order_id ` set ss"
      by blast+
    with Cons.prems(3) show False by auto
  qed
  with n1 n2 show ?case by (intro exI [of _ "n1 @ n2"]) auto
qed (auto intro: exI [of _ "[]"])

lemma baseline_pairs_once:
  assumes "book_ok (req_order_book req)" "baseline_match req = Inr r"
  shows "distinct (map traded_pair (mr_trades r))"
proof -
  have d: "distinct (map e_order_id (sorted_sells (req_order_book req)))"
    "distinct (map e_order_id (sorted_buys (req_order_book req)))"
    using book_pools_ok [OF assms(1)] by (simp_all add: pools_ok_def)
  show ?thesis
  proof (cases "book_is_empty (req_order_book req)")
    case True
    with assms(2) show ?thesis by (auto simp: baseline_match_def match_book_def Let_def)
  next
    case False
    with assms(2) obtain st where "foldE (match_buy (sorted_sells (req_order_book req)))
        (sorted_buys (req_order_book req)) (start_state (sorted_buys (req_order_book req))
          (sorted_sells (req_order_book req))) = Inr st" "mr_trades r = trades st"
      by (auto simp: baseline_match_def match_book_def Let_def bindE_eq_Inr)
    with match_buys_adds [OF this(1) d] show ?thesis by (auto simp: start_state_def)
  qed
qed

section \<open>The contract\<close>

locale matching_engine =
  fixes engine :: "matching_request \<Rightarrow> matching_result result"
  assumes answers: "book_ok (req_order_book req) \<Longrightarrow> \<exists>r. engine req = Inr r"
    and trades_sound: "book_ok (req_order_book req) \<Longrightarrow> engine req = Inr r \<Longrightarrow> t \<in> set (mr_trades r) \<Longrightarrow>
      \<exists>b \<in> set (book_buys (req_order_book req)). \<exists>s \<in> set (book_sells (req_order_book req)). trade_between b s t"
    and within_remaining: "book_ok (req_order_book req) \<Longrightarrow> engine req = Inr r \<Longrightarrow>
      e \<in> set (book_buys (req_order_book req)) \<union> set (book_sells (req_order_book req)) \<Longrightarrow>
      committed_to (e_order_id e) (mr_trades r) \<le> val (e_remaining_kwh e)"
    and pairs_once: "book_ok (req_order_book req) \<Longrightarrow> engine req = Inr r \<Longrightarrow> distinct (map traded_pair (mr_trades r))"
    and labelled: "book_ok (req_order_book req) \<Longrightarrow> engine req = Inr r \<Longrightarrow>
      length (mr_engine r) \<le> 64 \<and> length (mr_engine_version r) \<le> 64"

lemma baseline_labels:
  assumes "baseline_match req = Inr r"
  shows "mr_engine r = baseline_name \<and> mr_engine_version r = baseline_version"
  using assms by (auto simp: baseline_match_def match_book_def Let_def bindE_eq_Inr split: if_splits)

lemma residuals_within: "residuals es rem ts \<Longrightarrow> e \<in> set es \<Longrightarrow> committed_to (e_order_id e) ts \<le> val (e_remaining_kwh e)"
  unfolding residuals_def by fastforce

interpretation baseline: matching_engine baseline_match
proof
  fix req :: matching_request and r :: matching_result and t :: proposed_trade
  assume ok: "book_ok (req_order_book req)" and r: "baseline_match req = Inr r" and t: "t \<in> set (mr_trades r)"
  show "\<exists>b \<in> set (book_buys (req_order_book req)). \<exists>s \<in> set (book_sells (req_order_book req)). trade_between b s t"
  proof (rule baseline_outcome [OF ok], goal_cases)
    case (1 st r')
    with r t show ?case by (auto elim!: visit_inv_trades)
  qed
next
  fix req :: matching_request and r :: matching_result and e :: order_book_entry
  assume ok: "book_ok (req_order_book req)" and r: "baseline_match req = Inr r"
    and e: "e \<in> set (book_buys (req_order_book req)) \<union> set (book_sells (req_order_book req))"
  show "committed_to (e_order_id e) (mr_trades r) \<le> val (e_remaining_kwh e)"
  proof (rule baseline_outcome [OF ok], goal_cases)
    case (1 st r')
    with r e residuals_within [OF 1(4)] residuals_within [OF 1(5)] show ?case by auto
  qed
next
  fix req :: matching_request
  assume "book_ok (req_order_book req)"
  then show "\<exists>r. baseline_match req = Inr r" by (rule baseline_outcome) blast
qed (simp_all add: baseline_pairs_once baseline_labels baseline_name_def baseline_version_def)

end
