(* ===== verification/Market_Clearing.thy ===== *)
theory Market_Clearing
  imports Market_Service Matching_Contract
begin

text \<open>
  The energy a matching commits, order by order. A list of trades is a list of fills, two for each
  trade; the service's boundary check sums the fills of each order, and the clearing writes them
  into the orders. Both are exact on quantities as stored.
\<close>

section \<open>Fills\<close>

definition fills :: "proposed_trade list \<Rightarrow> (uuid \<times> decimal) list" where
  "fills ts = concat (map (\<lambda>t. [(pt_buy_order_id t, pt_quantity_kwh t), (pt_sell_order_id t, pt_quantity_kwh t)]) ts)"

definition filled :: "uuid \<Rightarrow> (uuid \<times> decimal) list \<Rightarrow> rat" where
  "filled i fs = sum_list (map (\<lambda>f. val (snd f)) (filter (\<lambda>f. fst f = i) fs))"

lemma fills_simps [simp]:
  "fills [] = []"
  "fills (t # ts) = (pt_buy_order_id t, pt_quantity_kwh t) # (pt_sell_order_id t, pt_quantity_kwh t) # fills ts"
  by (simp_all add: fills_def)

lemma filled_simps [simp]:
  "filled i [] = 0"
  "filled i (f # fs) = (if fst f = i then val (snd f) else 0) + filled i fs"
  "filled i (fs @ gs) = filled i fs + filled i gs"
  by (simp_all add: filled_def)

lemma filled_committed:
  "\<forall>t \<in> set ts. pt_buy_order_id t \<noteq> pt_sell_order_id t \<Longrightarrow> filled i (fills ts) = committed_to i ts"
  by (induction ts) (auto simp: committed_to_def)

lemma filled_nonneg: "\<forall>f \<in> set fs. 0 \<le> val (snd f) \<Longrightarrow> 0 \<le> filled i fs"
  by (induction fs) simp_all

lemma filled_zero: "\<forall>f \<in> set fs. 0 < val (snd f) \<Longrightarrow> filled i fs = 0 \<longleftrightarrow> i \<notin> fst ` set fs"
proof (induction fs)
  case (Cons f fs)
  then have "0 \<le> filled i fs" by (intro filled_nonneg) (auto intro: less_imp_le)
  with Cons show ?case by (cases "fst f = i") auto
qed simp

lemma energy_plus:
  assumes "grid 4 (val x)" "0 \<le> val x" "grid 4 (val y)" "0 \<le> val y" "val x + val y < 10 ^ 10"
  shows "val (x + y) = val x + val y" "stored_energy (x + y)"
proof -
  have "(val x + val y) * 10 ^ 4 < 10 ^ 10 * 10 ^ 4" using assms(5) by (rule mult_strict_right_mono) simp
  moreover have "(10 ^ 10 * 10 ^ 4 :: rat) < 10 ^ 28" by simp
  ultimately have "\<bar>val x + val y\<bar> * 10 ^ 4 < 10 ^ 28" using assms(2,4) by linarith
  then show v: "val (x + y) = val x + val y"
    using assms by (intro val_plus rep28_grid [of 4] grid_plus) simp_all
  show "stored_energy (x + y)" using assms by (simp add: stored_energy_def v grid_plus)
qed

section \<open>The boundary check\<close>

text \<open>What \<open>committed\<close> holds after the fills \<open>fs\<close>.\<close>

definition tallied :: "order_book \<Rightarrow> uuid \<Rightarrow> rat \<Rightarrow> decimal option \<Rightarrow> bool" where
  "tallied book i x v \<longleftrightarrow> (case v of None \<Rightarrow> x = 0
     | Some c \<Rightarrow> val c = x \<and> grid 4 x \<and> 0 \<le> x \<and> book_entry book i \<noteq> None)"

definition commit_inv :: "order_book \<Rightarrow> (uuid \<times> decimal) list \<Rightarrow> (uuid \<times> decimal) list \<Rightarrow> bool" where
  "commit_inv book fs C \<longleftrightarrow> distinct (map fst C) \<and> (\<forall>i. tallied book i (filled i fs) (map_of C i))"

lemma book_entry_member:
  assumes "book_ok book" "e \<in> set (book_buys book) \<union> set (book_sells book)"
  shows "book_entry book (e_order_id e) = Some e"
  using map_of_rev_distinct [of e_order_id "book_buys book @ book_sells book" e "\<lambda>e. e"] assms
  by (simp add: book_entry_def book_ok_def)

lemma book_entry_SomeD:
  "book_entry book i = Some e \<Longrightarrow> e \<in> set (book_buys book) \<union> set (book_sells book) \<and> e_order_id e = i"
  unfolding book_entry_def by (drule map_of_SomeD) auto

lemma commit_side_ok:
  assumes inv: "commit_inv book fs C" and e: "book_entry book i = Some e" "e_side e = side"
    and q: "stored_energy (pt_quantity_kwh t)" and b: "filled i fs + val (pt_quantity_kwh t) < 10 ^ 10"
  shows "\<exists>C'. commit_side book t (i, side) C = Inr C' \<and> commit_inv book (fs @ [(i, pt_quantity_kwh t)]) C'"
proof -
  let ?old = "case map_of C i of None \<Rightarrow> 0 | Some c \<Rightarrow> c"
  have "tallied book i (filled i fs) (map_of C i)" using inv by (simp add: commit_inv_def)
  then have old: "val ?old = filled i fs" "grid 4 (val ?old)" "0 \<le> val ?old"
    by (auto simp: tallied_def split: option.splits)
  have new: "val (?old + pt_quantity_kwh t) = filled i fs + val (pt_quantity_kwh t)"
    "stored_energy (?old + pt_quantity_kwh t)"
    using energy_plus [of ?old "pt_quantity_kwh t"] old q b by (simp_all add: stored_energy_def)
  have "tallied book j (filled j (fs @ [(i, pt_quantity_kwh t)])) (map_of (AList.update i (?old + pt_quantity_kwh t) C) j)" for j
  proof (cases "j = i")
    case True
    with new e show ?thesis by (simp add: update_conv' tallied_def stored_energy_def)
  next
    case False
    with inv show ?thesis by (simp add: update_conv' commit_inv_def)
  qed
  with inv have "commit_inv book (fs @ [(i, pt_quantity_kwh t)]) (AList.update i (?old + pt_quantity_kwh t) C)"
    by (simp add: commit_inv_def distinct_update)
  with e show ?thesis by (simp add: commit_side_def)
qed

text \<open>Trades between orders of the book whose fills stay within what the orders have left.\<close>

definition matching_fits :: "order_book \<Rightarrow> proposed_trade list \<Rightarrow> bool" where
  "matching_fits book ts \<longleftrightarrow>
     (\<forall>t \<in> set ts. \<exists>b \<in> set (book_buys book). \<exists>s \<in> set (book_sells book). trade_between b s t)
     \<and> (\<forall>e \<in> set (book_buys book) \<union> set (book_sells book). filled (e_order_id e) (fills ts) \<le> val (e_remaining_kwh e))"

lemma trade_between_stored: "trade_between b s t \<Longrightarrow> stored_energy (pt_quantity_kwh t) \<and> stored_price (pt_clearing_price t)"
  by (auto simp: trade_between_def)

lemma fills_nonneg:
  "\<forall>t \<in> set ts. \<exists>b \<in> B. \<exists>s \<in> S. trade_between b s t \<Longrightarrow> \<forall>f \<in> set (fills ts). 0 < val (snd f) \<and> stored_energy (snd f)"
  by (induction ts) (auto dest: trade_between_stored trade_between_qty_pos)

lemma validate_trade_ok:
  assumes inv: "commit_inv book fs C" and ok: "book_ok book"
    and m: "b \<in> set (book_buys book)" "s \<in> set (book_sells book)" "trade_between b s t"
    and bounds: "filled (e_order_id b) fs + val (pt_quantity_kwh t) < 10 ^ 10"
      "filled (e_order_id s) fs + val (pt_quantity_kwh t) < 10 ^ 10"
  shows "\<exists>C'. validate_trade book t C = Inr C' \<and> commit_inv book (fs @ fills [t]) C'"
proof -
  have ids: "pt_buy_order_id t = e_order_id b" "pt_sell_order_id t = e_order_id s"
    and ne: "e_order_id b \<noteq> e_order_id s" and sides: "e_side b = BUY" "e_side s = SELL"
    using m ok by (auto simp: trade_between_def book_ok_def list_all_iff)
  note q = trade_between_stored [OF m(3), THEN conjunct1]
  obtain C1 where C1: "commit_side book t (e_order_id b, BUY) C = Inr C1"
    "commit_inv book (fs @ [(e_order_id b, pt_quantity_kwh t)]) C1"
    using commit_side_ok [OF inv book_entry_member [OF ok] sides(1) q bounds(1)] m(1) by blast
  have "filled (e_order_id s) (fs @ [(e_order_id b, pt_quantity_kwh t)]) + val (pt_quantity_kwh t) < 10 ^ 10"
    using bounds(2) ne by simp
  from commit_side_ok [OF C1(2) book_entry_member [OF ok] sides(2) q this] m(2)
  obtain C2 where C2: "commit_side book t (e_order_id s, SELL) C1 = Inr C2"
    "commit_inv book ((fs @ [(e_order_id b, pt_quantity_kwh t)]) @ [(e_order_id s, pt_quantity_kwh t)]) C2"
    by blast
  have "\<not> pt_quantity_kwh t \<le> 0" "\<not> pt_clearing_price t < 0" "\<not> pt_delivery_end t \<le> pt_delivery_start t"
    using m(3) by (auto simp: trade_between_def compatible_def val_simps stored_price_def)
  with C1(1) C2 ids show ?thesis by (simp add: validate_trade_def)
qed

lemma validate_trades_ok:
  assumes "commit_inv book fs C" "book_ok book"
    and "\<forall>t \<in> set ts. \<exists>b \<in> set (book_buys book). \<exists>s \<in> set (book_sells book). trade_between b s t"
    and "\<forall>e \<in> set (book_buys book) \<union> set (book_sells book). filled (e_order_id e) (fs @ fills ts) < 10 ^ 10"
  shows "\<exists>C'. foldE (validate_trade book) ts C = Inr C' \<and> commit_inv book (fs @ fills ts) C'"
  using assms
proof (induction ts arbitrary: fs C)
  case (Cons t ts)
  obtain b s where m: "b \<in> set (book_buys book)" "s \<in> set (book_sells book)" "trade_between b s t"
    using Cons.prems(3) by auto
  have ids: "pt_buy_order_id t = e_order_id b" "pt_sell_order_id t = e_order_id s"
    and ne: "e_order_id b \<noteq> e_order_id s"
    using m Cons.prems(2) by (auto simp: trade_between_def book_ok_def)
  have ts: "\<forall>t \<in> set ts. \<exists>b \<in> set (book_buys book). \<exists>s \<in> set (book_sells book). trade_between b s t"
    using Cons.prems(3) by simp
  have nn: "0 \<le> filled i (fills ts)" for i
    by (rule filled_nonneg) (use fills_nonneg [OF ts] in \<open>auto intro: less_imp_le\<close>)
  have bounds: "filled (e_order_id b) fs + val (pt_quantity_kwh t) < 10 ^ 10"
    "filled (e_order_id s) fs + val (pt_quantity_kwh t) < 10 ^ 10"
    using bspec [OF Cons.prems(4), of b] bspec [OF Cons.prems(4), of s] m(1,2)
      nn [of "e_order_id b"] nn [of "e_order_id s"] ids ne by simp_all
  obtain C1 where C1: "validate_trade book t C = Inr C1" "commit_inv book (fs @ fills [t]) C1"
    using validate_trade_ok [OF Cons.prems(1,2) m bounds] by blast
  have "\<exists>C'. foldE (validate_trade book) ts C1 = Inr C' \<and> commit_inv book ((fs @ fills [t]) @ fills ts) C'"
    by (rule Cons.IH [OF C1(2) Cons.prems(2) ts]) (use Cons.prems(4) in simp)
  with C1(1) show ?case by simp
qed simp

lemma validate_matching_ok:
  assumes "book_ok book" "matching_fits book (mr_trades res)"
  shows "validate_matching res book = Inr ()"
proof -
  have le: "filled (e_order_id e) (fills (mr_trades res)) \<le> val (e_remaining_kwh e)"
    if "e \<in> set (book_buys book) \<union> set (book_sells book)" for e
    using assms(2) that by (simp add: matching_fits_def)
  have lt: "val (e_remaining_kwh e) < 10 ^ 10" if "e \<in> set (book_buys book) \<union> set (book_sells book)" for e
    using assms(1) that by (auto simp: book_ok_def list_all_iff entry_ok_def stored_energy_def)
  have "commit_inv book [] []" by (simp add: commit_inv_def tallied_def)
  then have "\<exists>C'. foldE (validate_trade book) (mr_trades res) [] = Inr C'
      \<and> commit_inv book ([] @ fills (mr_trades res)) C'"
  proof (rule validate_trades_ok [OF _ assms(1)])
    show "\<forall>e \<in> set (book_buys book) \<union> set (book_sells book). filled (e_order_id e) ([] @ fills (mr_trades res)) < 10 ^ 10"
      using le_less_trans [OF le lt] by simp
  qed (use assms(2) in \<open>simp add: matching_fits_def\<close>)
  then obtain C where C: "foldE (validate_trade book) (mr_trades res) [] = Inr C"
    "commit_inv book (fills (mr_trades res)) C" by auto
  have "\<exists>e. book_entry book i = Some e \<and> \<not> e_remaining_kwh e < a" if "(i, a) \<in> set C" for i a
  proof -
    have "map_of C i = Some a" using C(2) that by (simp add: commit_inv_def)
    moreover have "tallied book i (filled i (fills (mr_trades res))) (map_of C i)"
      using C(2) by (simp add: commit_inv_def)
    ultimately have v: "val a = filled i (fills (mr_trades res))" "book_entry book i \<noteq> None"
      by (simp_all add: tallied_def)
    then obtain e where e: "book_entry book i = Some e" by blast
    with book_entry_SomeD [OF e] le v(1) show ?thesis by (fastforce simp: val_simps)
  qed
  then have "\<not> list_ex (\<lambda>(i, a). case book_entry book i of None \<Rightarrow> True | Some e \<Rightarrow> e_remaining_kwh e < a) C"
    by (fastforce simp: list_ex_iff)
  with C(1) show ?thesis by (simp add: validate_matching_def)
qed

section \<open>Clearing\<close>

text \<open>
  The writes of a clearing: trades, fills and the session, each as the change of its table.
\<close>

lemma numeric_grid:
  assumes "grid s (val d)" "\<bar>val d\<bar> < 10 ^ m" "m + s \<le> p"
  shows "\<exists>e. numeric p s d = Inr e \<and> val e = val d"
proof -
  from assms(1) obtain k where k: "val d * 10 ^ s = of_int k" by (auto simp: grid_def Ints_def)
  have "\<bar>val d\<bar> * 10 ^ s < 10 ^ m * 10 ^ s" using assms(2) by (intro mult_strict_right_mono) simp_all
  also have "(10 ^ m * 10 ^ s :: rat) \<le> 10 ^ p" using assms(3) by (simp add: power_add [symmetric])
  finally have "\<bar>(of_int k :: rat)\<bar> < of_int (10 ^ p)" by (simp add: k [symmetric] abs_mult)
  then have "\<bar>k\<bar> < 10 ^ p" by (simp only: of_int_abs [symmetric] of_int_less_iff)
  then have n: "numeric p s d = Inr (Dec k (- int s))"
    by (simp add: numeric_def Let_def quantized_rhu k)
  from numeric_val [OF n] have "val (Dec k (- int s)) = val d"
    using assms(1) by (simp add: round_half_up_id)
  with n show ?thesis by blast
qed

lemma numeric_energy: "stored_energy d \<Longrightarrow> \<exists>e. numeric 14 4 d = Inr e \<and> val e = val d"
  by (rule numeric_grid [where m = 10]) (simp_all add: stored_energy_def)

lemma numeric_price: "stored_price d \<Longrightarrow> \<exists>e. numeric 12 4 d = Inr e \<and> val e = val d"
  by (rule numeric_grid [where m = 8]) (simp_all add: stored_price_def)

lemma numeric_form: "numeric p 4 d = Inr e \<Longrightarrow> \<exists>c. e = Dec c (- 4) \<and> \<bar>c\<bar> < 10 ^ p"
  by (auto simp: numeric_def Let_def split: if_splits)

section \<open>Trades\<close>

lemma insert_trades_shape:
  assumes "foldE insert_trade rows db = Inr db'"
  shows "\<exists>stored. mapE stored_trade rows = Inr stored \<and> db' = db\<lparr>t_trades := t_trades db @ stored\<rparr>
    \<and> (distinct (map td_id (t_trades db)) \<longrightarrow> distinct (map td_id (t_trades db')))"
  using assms
proof (induction rows arbitrary: db)
  case (Cons t rows)
  obtain db1 where db1: "insert_trade t db = Inr db1" "foldE insert_trade rows db1 = Inr db'"
    using Cons.prems by (auto simp: bindE_eq_Inr)
  then obtain row where row: "stored_trade t = Inr row" "list_all fst (trade_checks db row)"
    "foldE insert_trade rows (db\<lparr>t_trades := t_trades db @ [row]\<rparr>) = Inr db'"
    by (auto simp: bindE_eq_Inr insert_trade_def)
  obtain stored where st: "mapE stored_trade rows = Inr stored"
    "db' = db\<lparr>t_trades := t_trades db @ [row]\<rparr>\<lparr>t_trades := t_trades (db\<lparr>t_trades := t_trades db @ [row]\<rparr>) @ stored\<rparr>"
    "distinct (map td_id (t_trades (db\<lparr>t_trades := t_trades db @ [row]\<rparr>))) \<longrightarrow> distinct (map td_id (t_trades db'))"
    using Cons.IH [OF row(3)] by blast
  from row(2) have new: "td_id row \<notin> td_id ` set (t_trades db)" by (simp add: trade_checks_def known_def)
  show ?case
    by (intro exI [of _ "row # stored"]) (use row(1) st new in simp)
qed simp

text \<open>What a trade row must satisfy to be accepted after the rows on file.\<close>

lemma insert_trades_succeed:
  assumes "\<forall>t \<in> set rows. \<exists>row. stored_trade t = Inr row"
    and "\<forall>t \<in> set rows. \<forall>row. stored_trade t = Inr row \<longrightarrow> 0 < td_quantity_kwh row \<and> 0 \<le> td_clearing_price row
      \<and> td_delivery_start row < td_delivery_end row \<and> td_buy_order_id row \<noteq> td_sell_order_id row
      \<and> known od_id (t_orders db) (td_buy_order_id row) \<and> known od_id (t_orders db) (td_sell_order_id row)"
    and "distinct (map td_id rows)" "td_id ` set rows \<inter> td_id ` set (t_trades db) = {}"
    and "distinct (map trade_key rows)" "trade_key ` set rows \<inter> trade_key ` set (t_trades db) = {}"
  shows "\<exists>db'. foldE insert_trade rows db = Inr db'"
  using assms
proof (induction rows arbitrary: db)
  case (Cons t rows)
  obtain row where row: "stored_trade t = Inr row" using Cons.prems(1) by auto
  have keys: "td_id row = td_id t" "trade_key row = trade_key t"
    using row by (auto simp: stored_trade_def bindE_eq_Inr trade_key_def)
  have "list_all fst (trade_checks db row)"
    using Cons.prems(2,4,6) row keys by (auto simp: trade_checks_def known_def)
  then have "all_checks (trade_checks db row) = Inr ()" by simp
  then have ins: "insert_trade t db = Inr (db\<lparr>t_trades := t_trades db @ [row]\<rparr>)"
    using row by (simp add: insert_trade_def del: all_checks_eq)
  have "\<exists>db'. foldE insert_trade rows (db\<lparr>t_trades := t_trades db @ [row]\<rparr>) = Inr db'"
    by (rule Cons.IH) (use Cons.prems keys in auto)
  with ins show ?case by simp
qed simp

section \<open>Fills\<close>

definition fill_rel :: "rat \<Rightarrow> order_row \<Rightarrow> order_row \<Rightarrow> bool" where
  "fill_rel x o1 o2 \<longleftrightarrow> (if x = 0 then o2 = o1
     else \<exists>m. val m = val (od_matched_kwh o1) + x \<and> stored_energy m
        \<and> o2 = o1\<lparr>od_matched_kwh := m,
                  od_status := (if od_energy_kwh o1 \<le> m then FILLED else PARTIALLY_FILLED)\<rparr>)"

lemma fill_relE:
  assumes "fill_rel x o1 o2"
  obtains m st where "o2 = o1\<lparr>od_matched_kwh := m, od_status := st\<rparr>" "val m = val (od_matched_kwh o1) + x"
    "stored_energy m \<or> o2 = o1"
proof (cases "x = 0")
  case True
  with assms show thesis
    by (intro that [where m = "od_matched_kwh o1" and st = "od_status o1"]) (simp_all add: fill_rel_def)
next
  case False
  from assms that show thesis unfolding fill_rel_def if_not_P [OF False] by blast
qed

definition fill1 :: "uuid \<times> decimal \<Rightarrow> (uuid \<rightharpoonup> order_row) \<Rightarrow> (uuid \<rightharpoonup> order_row) result" where
  "fill1 f orders = bindE (getitem orders (fst f)) (\<lambda>o1. Inr (orders(fst f \<mapsto> apply_fill (snd f) o1)))"

lemma apply_trades_fills: "foldE apply_trade ts orders = foldE fill1 (fills ts) orders"
  by (induction ts arbitrary: orders)
    (simp_all add: apply_trade_def fill_order_def fill1_def bindE_assoc)

lemma apply_fill_simps [simp]:
  "od_id (apply_fill q o1) = od_id o1" "od_energy_kwh (apply_fill q o1) = od_energy_kwh o1"
  "od_matched_kwh (apply_fill q o1) = od_matched_kwh o1 + q"
  "apply_fill q o1\<lparr>od_matched_kwh := m, od_status := st\<rparr> = o1\<lparr>od_matched_kwh := m, od_status := st\<rparr>"
  by (simp_all add: apply_fill_def Let_def)

lemma fill_rel_step:
  assumes "stored_energy q" "0 < val q" "stored_energy (od_matched_kwh o1)"
    and "val (od_matched_kwh o1) + val q < 10 ^ 10" "0 \<le> x" "fill_rel x (apply_fill q o1) o2"
  shows "fill_rel (val q + x) o1 o2"
proof -
  have m: "val (od_matched_kwh o1 + q) = val (od_matched_kwh o1) + val q" "stored_energy (od_matched_kwh o1 + q)"
    using energy_plus [of "od_matched_kwh o1" q] assms(1-4) by (simp_all add: stored_energy_def)
  have nz: "val q + x \<noteq> 0" using assms(2,5) by linarith
  show ?thesis
  proof (cases "x = 0")
    case True
    with assms(6) have o2: "o2 = apply_fill q o1" by (simp add: fill_rel_def)
    show ?thesis
      unfolding fill_rel_def if_not_P [OF nz]
      by (rule exI [of _ "od_matched_kwh o1 + q"]) (use m True in \<open>simp add: o2 apply_fill_def Let_def\<close>)
  next
    case False
    with assms(6) obtain k where k: "val k = val (od_matched_kwh o1 + q) + x" "stored_energy k"
      "o2 = o1\<lparr>od_matched_kwh := k, od_status := (if od_energy_kwh o1 \<le> k then FILLED else PARTIALLY_FILLED)\<rparr>"
      unfolding fill_rel_def if_not_P [OF False] apply_fill_simps by blast
    show ?thesis
      unfolding fill_rel_def if_not_P [OF nz] using k m(1) by (intro exI [of _ k]) simp
  qed
qed

lemma fills_applied:
  assumes "\<forall>f \<in> set fs. 0 < val (snd f) \<and> stored_energy (snd f) \<and> fst f \<in> dom orders"
    and "\<forall>i o1. orders i = Some o1 \<longrightarrow> stored_energy (od_matched_kwh o1)
      \<and> val (od_matched_kwh o1) + filled i fs < 10 ^ 10"
  shows "\<exists>orders'. foldE fill1 fs orders = Inr orders'
    \<and> (\<forall>i o1. orders i = Some o1 \<longrightarrow> (\<exists>o2. orders' i = Some o2 \<and> fill_rel (filled i fs) o1 o2))"
  using assms
proof (induction fs arbitrary: orders)
  case Nil
  then show ?case by (simp add: fill_rel_def)
next
  case (Cons f fs)
  obtain i q where f: "f = (i, q)" by (cases f)
  obtain o1 where o1: "orders i = Some o1" using Cons.prems(1) f by auto
  have nn: "0 \<le> filled j fs" for j
    by (rule filled_nonneg) (use Cons.prems(1) in \<open>auto intro: less_imp_le\<close>)
  have q: "stored_energy q" "0 < val q" using Cons.prems(1) f by simp_all
  have b: "stored_energy (od_matched_kwh o1)" "val (od_matched_kwh o1) + val q + filled i fs < 10 ^ 10"
    using spec [OF Cons.prems(2), of i] o1 f by (simp_all add: add.assoc)
  have b': "val (od_matched_kwh o1) + val q < 10 ^ 10" using b(2) nn [of i] by linarith
  let ?orders = "orders(i \<mapsto> apply_fill q o1)"
  have m: "val (od_matched_kwh (apply_fill q o1)) = val (od_matched_kwh o1) + val q"
    "stored_energy (od_matched_kwh (apply_fill q o1))"
    using energy_plus [of "od_matched_kwh o1" q] q b(1) b' by (simp_all add: stored_energy_def apply_fill_def Let_def)
  have "\<forall>j o2. ?orders j = Some o2 \<longrightarrow> stored_energy (od_matched_kwh o2)
      \<and> val (od_matched_kwh o2) + filled j fs < 10 ^ 10"
    using Cons.prems(2) m b(2) f by (auto split: if_splits)
  moreover have "\<forall>f \<in> set fs. 0 < val (snd f) \<and> stored_energy (snd f) \<and> fst f \<in> dom ?orders"
    using Cons.prems(1) by auto
  ultimately obtain orders' where o': "foldE fill1 fs ?orders = Inr orders'"
    "\<forall>j o1. ?orders j = Some o1 \<longrightarrow> (\<exists>o2. orders' j = Some o2 \<and> fill_rel (filled j fs) o1 o2)"
    using Cons.IH [of ?orders] by blast
  have "\<exists>o2. orders' j = Some o2 \<and> fill_rel (filled j (f # fs)) oj o2" if "orders j = Some oj" for j oj
  proof (cases "j = i")
    case True
    then obtain o2 where "orders' j = Some o2" "fill_rel (filled i fs) (apply_fill q o1) o2"
      using spec [OF spec [OF o'(2)], of i "apply_fill q o1"] by auto
    with fill_rel_step [OF q b(1) b' nn] True that o1 f show ?thesis by auto
  next
    case False
    with o'(2) that f show ?thesis by auto
  qed
  moreover have "fill1 f orders = Inr ?orders" by (simp add: fill1_def f o1)
  then have "foldE fill1 (f # fs) orders = Inr orders'" using o'(1) by simp
  ultimately show ?case by blast
qed

section \<open>Writing the orders back\<close>

lemma order_row_checks_fill:
  assumes "list_all fst (order_row_checks o1)" "0 \<le> m" "m \<le> od_energy_kwh o1"
  shows "list_all fst (order_row_checks (o1\<lparr>od_matched_kwh := m, od_status := st\<rparr>))"
  using assms by (simp add: order_row_checks_def)

lemma list_all2_map_self: "list_all2 P xs (map f xs) \<longleftrightarrow> (\<forall>x \<in> set xs. P x (f x))"
  by (induction xs) simp_all

text \<open>The rows after the rows in \<open>as\<close> have been written.\<close>

definition written :: "(uuid \<Rightarrow> rat) \<Rightarrow> order_row set \<Rightarrow> order_row \<Rightarrow> order_row \<Rightarrow> bool" where
  "written x as o1 o2 \<longleftrightarrow> (if o1 \<in> as then fill_rel (x (od_id o1)) o1 o2 else o2 = o1)"

lemma fill_rel_id: "fill_rel x o1 o2 \<Longrightarrow> od_id o2 = od_id o1"
  by (auto elim!: fill_relE)

lemma written_id: "written x as o1 o2 \<Longrightarrow> od_id o2 = od_id o1"
  by (auto simp: written_def fill_rel_id split: if_splits)

lemma save_changed_ok:
  assumes "orders (od_id o1) = Some o2" "fill_rel (x (od_id o1)) o1 o2" "list_all fst (order_row_checks o1)"
    and "0 \<le> val (od_matched_kwh o1) + x (od_id o1)" "val (od_matched_kwh o1) + x (od_id o1) \<le> val (od_energy_kwh o1)"
    and d: "distinct (map od_id (t_orders db))" and "o1 \<in> set (t_orders db)"
  shows "\<exists>os. save_changed orders o1 db = Inr (db\<lparr>t_orders := os\<rparr>) \<and> list_all2 (written x {o1}) (t_orders db) os"
proof (cases "o2 = o1")
  case True
  have "list_all2 (written x {o1}) (t_orders db) (t_orders db)"
    using assms(2) True by (auto simp: written_def intro!: list.rel_refl_strong)
  with assms(1) True show ?thesis by (intro exI [of _ "t_orders db"]) (simp add: save_changed_def)
next
  case False
  with assms(2) have x: "x (od_id o1) \<noteq> 0" by (auto simp: fill_rel_def)
  with assms(2) obtain m where m: "val m = val (od_matched_kwh o1) + x (od_id o1)" "stored_energy m"
    and o2: "o2 = o1\<lparr>od_matched_kwh := m, od_status := (if od_energy_kwh o1 \<le> m then FILLED else PARTIALLY_FILLED)\<rparr>"
    unfolding fill_rel_def if_not_P [OF x] by blast
  obtain e where e: "numeric 14 4 m = Inr e" "val e = val m" using numeric_energy [OF m(2)] by blast
  let ?row = "o2\<lparr>od_matched_kwh := e\<rparr>"
  have row: "?row = o1\<lparr>od_matched_kwh := e, od_status := (if od_energy_kwh o1 \<le> m then FILLED else PARTIALLY_FILLED)\<rparr>"
    by (simp add: o2)
  have st: "od_energy_kwh o1 \<le> m \<longleftrightarrow> od_energy_kwh o1 \<le> e" "stored_energy e"
    using e m(2) by (simp_all add: val_simps stored_energy_def)
  have "list_all fst (order_row_checks ?row)"
    unfolding row by (rule order_row_checks_fill [OF assms(3)]) (use assms(4,5) m e in \<open>simp_all add: val_simps\<close>)
  then have "all_checks (order_row_checks ?row) = Inr ()" by simp
  then have s: "save_changed orders o1 db = Inr (db\<lparr>t_orders := modify od_id (od_id o1) (\<lambda>_. ?row) (t_orders db)\<rparr>)"
    using assms(1) False e(1) by (simp add: save_changed_def save_fill_def o2 del: all_checks_eq)
  have same: "o3 = o1" if "o3 \<in> set (t_orders db)" "od_id o3 = od_id o1" for o3
    using d assms(7) that by (auto simp: distinct_map dest: inj_onD)
  have "fill_rel (x (od_id o1)) o1 ?row"
    using x m e st unfolding fill_rel_def row by (auto intro!: exI [of _ e])
  then have "list_all2 (written x {o1}) (t_orders db) (modify od_id (od_id o1) (\<lambda>_. ?row) (t_orders db))"
    unfolding modify_def list_all2_map_self using same by (auto simp: written_def)
  with s show ?thesis by blast
qed

lemma save_orders_ok:
  assumes "\<forall>o1 \<in> set as. \<exists>o2. orders (od_id o1) = Some o2 \<and> fill_rel (x (od_id o1)) o1 o2
      \<and> list_all fst (order_row_checks o1) \<and> 0 \<le> val (od_matched_kwh o1) + x (od_id o1)
      \<and> val (od_matched_kwh o1) + x (od_id o1) \<le> val (od_energy_kwh o1)"
    and "distinct (map od_id (t_orders db))" "set as \<subseteq> set (t_orders db)" "distinct as"
  shows "\<exists>os. foldE (save_changed orders) as db = Inr (db\<lparr>t_orders := os\<rparr>)
    \<and> list_all2 (written x (set as)) (t_orders db) os"
  using assms
proof (induction as arbitrary: db)
  case Nil
  have "list_all2 (written x {}) (t_orders db) (t_orders db)"
    by (auto simp: written_def intro!: list.rel_refl_strong)
  then show ?case by (intro exI [of _ "t_orders db"]) simp
next
  case (Cons a as)
  obtain os1 where s1: "save_changed orders a db = Inr (db\<lparr>t_orders := os1\<rparr>)"
    and w1: "list_all2 (written x {a}) (t_orders db) os1"
    using save_changed_ok [of orders a _ x db] Cons.prems by auto
  have ids: "map od_id os1 = map od_id (t_orders db)"
    using w1 by (induction rule: list_all2_induct) (auto dest: written_id)
  have kept: "o1 \<in> set os1" if "o1 \<in> set (t_orders db)" "o1 \<noteq> a" for o1
    using w1 that by (induction rule: list_all2_induct) (auto simp: written_def)
  have "set as \<subseteq> set os1" using Cons.prems(3,4) kept by auto
  then obtain os where s2: "foldE (save_changed orders) as (db\<lparr>t_orders := os1\<rparr>) = Inr (db\<lparr>t_orders := os1\<rparr>\<lparr>t_orders := os\<rparr>)"
    and w2: "list_all2 (written x (set as)) os1 os"
    using Cons.IH [of "db\<lparr>t_orders := os1\<rparr>"] Cons.prems ids by auto
  have a: "od_id o1 \<noteq> od_id a" if "o1 \<in> set as" for o1
    using Cons.prems(2-4) that by (auto simp: distinct_map dest!: inj_onD [where x = o1 and y = a])
  have "written x (set (a # as)) o1 o3" if "written x {a} o1 o2" "written x (set as) o2 o3" for o1 o2 o3
    using that a by (cases "o1 = a") (auto simp: written_def dest: fill_rel_id split: if_splits)
  then have "list_all2 (written x (set (a # as))) (t_orders db) os"
    using list_all2_trans [OF _ w1 w2] by blast
  with s1 s2 show ?case by auto
qed

end
