(* ===== verification/Market_State.thy ===== *)
theory Market_State
  imports Market_Clearing
begin

text \<open>
  What the market's tables hold at every moment: each trade on file is between a buy and a sell of
  one cleared session and keeps to the terms of both, and the energy an order counts as matched is
  the energy of the trades that cite it. Opening, closing, placing and cancelling keep it.
\<close>

section \<open>The invariant\<close>

definition session_ok :: "session_row \<Rightarrow> bool" where
  "session_ok k \<longleftrightarrow> mk_opened_at k \<noteq> None
     \<and> (mk_status k = Session_OPEN \<longleftrightarrow> mk_closed_at k = None)
     \<and> (mk_status k = CLEARED \<longleftrightarrow> mk_cleared_at k \<noteq> None)
     \<and> not_before (mk_closed_at k) (mk_opened_at k) \<and> not_before (mk_cleared_at k) (mk_closed_at k)"

definition traded_kwh :: "uuid \<Rightarrow> trade_row list \<Rightarrow> rat" where
  "traded_kwh i ts = sum_list (map (\<lambda>t. val (td_quantity_kwh t))
     (filter (\<lambda>t. td_buy_order_id t = i \<or> td_sell_order_id t = i) ts))"

definition fill_status_ok :: "order_row \<Rightarrow> bool" where
  "fill_status_ok o1 \<longleftrightarrow>
     (case od_status o1 of
        Order_OPEN \<Rightarrow> val (od_matched_kwh o1) = 0
      | PARTIALLY_FILLED \<Rightarrow> 0 < val (od_matched_kwh o1) \<and> val (od_matched_kwh o1) < val (od_energy_kwh o1)
      | FILLED \<Rightarrow> val (od_matched_kwh o1) = val (od_energy_kwh o1)
      | CANCELLED \<Rightarrow> val (od_matched_kwh o1) < val (od_energy_kwh o1)
      | Order_REJECTED \<Rightarrow> False)"

definition order_ok :: "session_row list \<Rightarrow> trade_row list \<Rightarrow> order_row \<Rightarrow> bool" where
  "order_ok ss ts o1 \<longleftrightarrow> list_all fst (order_row_checks o1)
     \<and> stored_energy (od_energy_kwh o1) \<and> stored_energy (od_matched_kwh o1)
     \<and> pred_option stored_price (od_max_price o1) \<and> pred_option stored_price (od_min_price o1)
     \<and> known mk_id ss (od_market_session_id o1)
     \<and> val (od_matched_kwh o1) = traded_kwh (od_id o1) ts \<and> fill_status_ok o1"

text \<open>A trade and the two orders it fills.\<close>

definition trade_of :: "order_row \<Rightarrow> order_row \<Rightarrow> trade_row \<Rightarrow> bool" where
  "trade_of b s t \<longleftrightarrow>
     td_buy_order_id t = od_id b \<and> td_sell_order_id t = od_id s \<and> od_id b \<noteq> od_id s
     \<and> od_side b = BUY \<and> od_side s = SELL
     \<and> od_market_session_id s = od_market_session_id b \<and> od_user_id s \<noteq> od_user_id b
     \<and> 0 < td_quantity_kwh t \<and> stored_energy (td_quantity_kwh t)
     \<and> (\<exists>hi lo. od_max_price b = Some hi \<and> od_min_price s = Some lo
          \<and> lo \<le> td_clearing_price t \<and> td_clearing_price t \<le> hi)
     \<and> td_delivery_start t = max (od_delivery_start b) (od_delivery_start s)
     \<and> td_delivery_end t = min (od_delivery_end b) (od_delivery_end s)
     \<and> td_delivery_start t < td_delivery_end t"

definition trade_ok :: "session_row list \<Rightarrow> order_row list \<Rightarrow> trade_row \<Rightarrow> bool" where
  "trade_ok ss os t \<longleftrightarrow>
     (\<exists>b \<in> set os. \<exists>s \<in> set os. trade_of b s t
        \<and> (\<exists>k \<in> set ss. mk_id k = od_market_session_id b \<and> mk_status k = CLEARED))"

definition book_state_ok :: "session_row list \<Rightarrow> order_row list \<Rightarrow> trade_row list \<Rightarrow> bool" where
  "book_state_ok ss os ts \<longleftrightarrow>
     distinct (map mk_id ss) \<and> distinct (map (\<lambda>k. (mk_market_date k, mk_market_type k)) ss)
     \<and> distinct (map od_id os) \<and> distinct (map td_id ts)
     \<and> (\<forall>k \<in> set ss. session_ok k) \<and> (\<forall>o1 \<in> set os. order_ok ss ts o1) \<and> (\<forall>t \<in> set ts. trade_ok ss os t)"

definition market_ok :: "'a market_db_scheme \<Rightarrow> bool" where
  "market_ok db \<longleftrightarrow> book_state_ok (t_sessions db) (t_orders db) (t_trades db)"

section \<open>What changes of one table leave to the others\<close>

definition same_terms :: "order_row \<Rightarrow> order_row \<Rightarrow> bool" where
  "same_terms o1 o2 \<longleftrightarrow> (\<exists>m st. o2 = o1\<lparr>od_matched_kwh := m, od_status := st\<rparr>)"

lemma same_terms_fields:
  assumes "same_terms o1 o2"
  shows "od_id o2 = od_id o1" "od_market_session_id o2 = od_market_session_id o1" "od_user_id o2 = od_user_id o1"
    "od_side o2 = od_side o1" "od_energy_kwh o2 = od_energy_kwh o1" "od_max_price o2 = od_max_price o1"
    "od_min_price o2 = od_min_price o1" "od_delivery_start o2 = od_delivery_start o1"
    "od_delivery_end o2 = od_delivery_end o1"
  using assms unfolding same_terms_def by (elim exE; simp)+

lemma same_terms_trade: "same_terms b b' \<Longrightarrow> same_terms s s' \<Longrightarrow> trade_of b s t \<Longrightarrow> trade_of b' s' t"
  unfolding trade_of_def by (auto simp: same_terms_fields)

lemma same_terms_refl [intro!, simp]: "same_terms o1 o1"
  unfolding same_terms_def by (intro exI [of _ "od_matched_kwh o1"] exI [of _ "od_status o1"]) simp

lemma same_terms_status: "same_terms o1 (o1\<lparr>od_status := st\<rparr>)"
  unfolding same_terms_def by (intro exI [of _ "od_matched_kwh o1"] exI [of _ st]) simp

text \<open>Sessions only go on: a cleared one stays cleared.\<close>

definition session_goes_on :: "session_row \<Rightarrow> session_row \<Rightarrow> bool" where
  "session_goes_on k k' \<longleftrightarrow> mk_id k' = mk_id k \<and> mk_market_date k' = mk_market_date k
     \<and> mk_market_type k' = mk_market_type k \<and> (mk_status k = CLEARED \<longrightarrow> mk_status k' = CLEARED)"

lemma list_all2_ex: "list_all2 P xs ys \<Longrightarrow> x \<in> set xs \<Longrightarrow> \<exists>y \<in> set ys. P x y"
  by (induction rule: list_all2_induct) auto

lemma list_all2_map_eq: "list_all2 P xs ys \<Longrightarrow> (\<And>x y. P x y \<Longrightarrow> f y = g x) \<Longrightarrow> map f ys = map g xs"
  by (induction rule: list_all2_induct) auto

lemma trade_ok_mono:
  assumes "trade_ok ss os t" "list_all2 session_goes_on ss ss'" "list_all2 same_terms os os'"
  shows "trade_ok ss' os' t"
proof -
  obtain b s k where m: "b \<in> set os" "s \<in> set os" "trade_of b s t" "k \<in> set ss"
    "mk_id k = od_market_session_id b" "mk_status k = CLEARED"
    using assms(1) by (auto simp: trade_ok_def)
  obtain b' where b': "b' \<in> set os'" "same_terms b b'" using list_all2_ex [OF assms(3) m(1)] by blast
  obtain s' where s': "s' \<in> set os'" "same_terms s s'" using list_all2_ex [OF assms(3) m(2)] by blast
  obtain k' where k': "k' \<in> set ss'" "session_goes_on k k'" using list_all2_ex [OF assms(2) m(4)] by blast
  have "trade_of b' s' t" by (rule same_terms_trade [OF b'(2) s'(2) m(3)])
  moreover have "mk_id k' = od_market_session_id b'" "mk_status k' = CLEARED"
    using k'(2) m(5,6) b'(2) by (simp_all add: session_goes_on_def same_terms_fields)
  ultimately show ?thesis unfolding trade_ok_def using b'(1) s'(1) k'(1) by blast
qed

lemma trade_ok_more: "trade_ok ss os t \<Longrightarrow> set ss \<subseteq> set ss' \<Longrightarrow> set os \<subseteq> set os' \<Longrightarrow> trade_ok ss' os' t"
  unfolding trade_ok_def by blast

lemma order_ok_sessions:
  assumes "order_ok ss ts o1" "mk_id ` set ss \<subseteq> mk_id ` set ss'"
  shows "order_ok ss' ts o1"
  using assms by (auto simp: order_ok_def known_def)

lemma order_in_range: "order_ok ss ts o1 \<Longrightarrow> 0 \<le> val (od_matched_kwh o1) \<and> val (od_matched_kwh o1) \<le> val (od_energy_kwh o1)
    \<and> 0 < val (od_energy_kwh o1)"
  by (simp add: order_ok_def order_row_checks_def val_simps)

section \<open>Sessions and orders\<close>

lemma open_session_ok:
  assumes "market_ok db" "open_session db day mtype given now i = Inr (db', k)"
  shows "market_ok db'"
proof -
  let ?k = "\<lparr>mk_id = i, mk_market_date = day, mk_market_type = mtype, mk_status = Session_OPEN,
    mk_opened_at = Some (instant given now), mk_closed_at = None, mk_cleared_at = None\<rparr>"
  have ins: "insert_session ?k db = Inr db'"
    using assms(2) by (auto simp: open_session_def bindE_eq_Inr Let_def split: if_splits)
  then have c: "list_all fst (session_checks (t_sessions db) ?k)" and db': "db' = db\<lparr>t_sessions := t_sessions db @ [?k]\<rparr>"
    by (auto simp: insert_session_def bindE_eq_Inr)
  have "session_ok ?k" by (simp add: session_ok_def not_before_def)
  with assms(1) c show ?thesis
    unfolding db' market_ok_def book_state_ok_def
    by (auto simp: session_checks_def known_def intro: order_ok_sessions trade_ok_more)
qed

lemma modify_unique_session:
  assumes "distinct (map mk_id ss)" "k \<in> set ss"
  shows "modify mk_id (mk_id k) (\<lambda>_. k') ss = map (\<lambda>q. if q = k then k' else q) ss"
  using assms by (auto simp: modify_def distinct_map dest: inj_onD)

lemma sessions_on:
  assumes "distinct (map mk_id ss)" "k \<in> set ss" "session_goes_on k k'"
  shows "list_all2 session_goes_on ss (modify mk_id (mk_id k) (\<lambda>_. k') ss)"
  unfolding modify_unique_session [OF assms(1,2)] list_all2_map_self
  using assms(3) by (simp add: session_goes_on_def)

lemma get_session_member: "get_session db i = Inr k \<Longrightarrow> k \<in> set (t_sessions db) \<and> mk_id k = i"
  by (auto simp: get_session_def split: option.splits dest: fetch_SomeD)

text \<open>Writing one session on keeps the rest.\<close>

lemma save_session_ok:
  assumes ok: "market_ok db" and k: "k \<in> set (t_sessions db)" "session_goes_on k k'" "session_ok k'"
    and save: "save_session k' db = Inr db'"
  shows "market_ok db' \<and> db' = db\<lparr>t_sessions := modify mk_id (mk_id k) (\<lambda>_. k') (t_sessions db)\<rparr>"
proof -
  have id: "mk_id k' = mk_id k" using k(2) by (simp add: session_goes_on_def)
  then have db': "db' = db\<lparr>t_sessions := modify mk_id (mk_id k) (\<lambda>_. k') (t_sessions db)\<rparr>"
    using save by (auto simp: save_session_def bindE_eq_Inr)
  have d: "distinct (map mk_id (t_sessions db))" using ok by (simp add: market_ok_def book_state_ok_def)
  let ?ss = "modify mk_id (mk_id k) (\<lambda>_. k') (t_sessions db)"
  have on: "list_all2 session_goes_on (t_sessions db) ?ss" by (rule sessions_on [OF d k(1,2)])
  have maps: "map mk_id ?ss = map mk_id (t_sessions db)"
    "map (\<lambda>k. (mk_market_date k, mk_market_type k)) ?ss = map (\<lambda>k. (mk_market_date k, mk_market_type k)) (t_sessions db)"
    using on by (auto intro!: list_all2_map_eq simp: session_goes_on_def)
  have s: "\<forall>q \<in> set ?ss. session_ok q"
    using ok k(3) by (auto simp: market_ok_def book_state_ok_def modify_def)
  have ids: "mk_id ` set ?ss = mk_id ` set (t_sessions db)" using maps(1) by (metis set_map)
  have "market_ok db'"
    using ok s trade_ok_mono [OF _ on] order_ok_sessions ids
    unfolding db' market_ok_def book_state_ok_def
    by (simp add: maps) (metis list_all2_refl same_terms_refl subset_refl)
  with db' show ?thesis by blast
qed

lemma close_session_ok:
  assumes "market_ok db" "close_session db i given now = Inr (db', k')"
  shows "market_ok db'"
proof -
  obtain k where k: "k \<in> set (t_sessions db)" "mk_status k = Session_OPEN"
    and k': "k' = k\<lparr>mk_status := CLOSED, mk_closed_at := Some (instant given now)\<rparr>" "save_session k' db = Inr db'"
    using assms(2) by (auto simp: close_session_def bindE_eq_Inr Let_def split: if_splits dest: get_session_member)
  have "session_ok k" using assms(1) k(1) by (simp add: market_ok_def book_state_ok_def)
  moreover have "not_before (mk_closed_at k') (mk_opened_at k')"
    using k'(2) by (auto simp: save_session_def bindE_eq_Inr session_checks_def)
  ultimately have "session_ok k'" using k by (simp add: session_ok_def k' not_before_def split: option.splits)
  moreover have "session_goes_on k k'" using k by (simp add: session_goes_on_def k')
  ultimately show ?thesis using save_session_ok [OF assms(1) k(1) _ _ k'(2)] by blast
qed

lemma traded_fresh:
  assumes "\<forall>t \<in> set ts. trade_ok ss os t" "i \<notin> od_id ` set os"
  shows "traded_kwh i ts = 0"
proof -
  have "td_buy_order_id t \<noteq> i \<and> td_sell_order_id t \<noteq> i" if "t \<in> set ts" for t
    using assms that unfolding trade_ok_def trade_of_def by (metis image_eqI)
  then have "filter (\<lambda>t. td_buy_order_id t = i \<or> td_sell_order_id t = i) ts = []" by (simp add: filter_empty_conv)
  then show ?thesis by (simp add: traded_kwh_def)
qed

lemma stored_energy_form: "numeric 14 4 d = Inr e \<Longrightarrow> 0 \<le> e \<Longrightarrow> stored_energy e"
  by (drule numeric_form) (auto simp: val_simps val_Dec4)

lemma stored_price_form:
  "nullable (numeric 12 4) v = Inr w \<Longrightarrow> not_negative_check w \<Longrightarrow> pred_option stored_price w"
  by (auto simp: nullable_Inr not_negative_check_def val_simps val_Dec4 split: option.splits dest!: numeric_form)

lemma stored_new_order:
  assumes "stored_order (new_order q created i) = Inr row" "list_all fst (order_checks db row)"
    and ok: "market_ok db"
  shows "order_ok (t_sessions db) (t_trades db) row" "od_id row = i" "i \<notin> od_id ` set (t_orders db)"
proof -
  obtain e lo hi r m where n: "numeric 14 4 (oq_energy_kwh q) = Inr e" "nullable (numeric 12 4) (oq_min_price q) = Inr lo"
    "nullable (numeric 12 4) (oq_max_price q) = Inr hi" "numeric 14 4 0 = Inr m"
    and row: "row = new_order q created i\<lparr>od_energy_kwh := e, od_min_price := lo, od_max_price := hi,
      od_reliability := r, od_matched_kwh := m\<rparr>"
    using assms(1) by (auto simp: stored_order_def bindE_eq_Inr new_order_def)
  have c: "list_all fst (order_row_checks row)" "known mk_id (t_sessions db) (od_market_session_id row)"
    using assms(2) by (simp_all add: order_checks_def)
  have v: "val m = 0" using numeric_val [OF n(4)] rhu_of_int [of 0] by (simp add: round_half_up_def)
  show id: "od_id row = i" by (simp add: row new_order_def)
  then show fresh: "i \<notin> od_id ` set (t_orders db)" using assms(2) by (simp add: order_checks_def known_def)
  have "traded_kwh i (t_trades db) = 0"
    by (rule traded_fresh [OF _ fresh, where ss = "t_sessions db"]) (use ok in \<open>simp add: market_ok_def book_state_ok_def\<close>)
  moreover have "stored_energy e" "stored_energy m"
    using c(1) by (auto simp: order_row_checks_def row val_simps intro!: stored_energy_form [OF n(1)] stored_energy_form [OF n(4)])
  moreover have "pred_option stored_price hi" "pred_option stored_price lo"
    using c(1) stored_price_form [OF n(3)] stored_price_form [OF n(2)] by (simp_all add: order_row_checks_def row)
  ultimately show "order_ok (t_sessions db) (t_trades db) row"
    unfolding order_ok_def using c v id by (simp add: row fill_status_ok_def new_order_def)
qed

lemma place_order_ok:
  assumes ok: "market_ok db" and place: "place_order db q given now i e = Inr (db', row, ns)"
  shows "market_ok db'"
proof -
  obtain db1 where ins: "insert_order (new_order q (instant given now) i) db = Inr db1"
    and same: "t_sessions db' = t_sessions db1" "t_orders db' = t_orders db1" "t_trades db' = t_trades db1"
    using place by (auto simp: place_order_def bindE_eq_Inr Let_def record_event_def)
  then obtain o1 where o1: "stored_order (new_order q (instant given now) i) = Inr o1"
    "list_all fst (order_checks db o1)" "db1 = db\<lparr>t_orders := t_orders db @ [o1]\<rparr>"
    by (auto simp: insert_order_def bindE_eq_Inr)
  from stored_new_order [OF o1(1,2) ok] ok show ?thesis
    by (auto simp: market_ok_def book_state_ok_def same o1(3) intro: trade_ok_more)
qed

text \<open>Changing orders without changing their terms.\<close>

lemma orders_ok:
  assumes ok: "market_ok db" and on: "list_all2 same_terms (t_orders db) os"
    and o1: "\<forall>o1 \<in> set os. order_ok (t_sessions db) (t_trades db) o1"
  shows "market_ok (db\<lparr>t_orders := os\<rparr>)"
proof -
  have "map od_id os = map od_id (t_orders db)"
    using on by (rule list_all2_map_eq) (simp add: same_terms_fields)
  moreover have "list_all2 session_goes_on (t_sessions db) (t_sessions db)"
    by (rule list.rel_refl) (simp add: session_goes_on_def)
  ultimately show ?thesis
    using ok o1 trade_ok_mono [OF _ _ on, where ss = "t_sessions db" and ss' = "t_sessions db"]
    by (simp add: market_ok_def book_state_ok_def)
qed

lemma cancel_order_ok:
  assumes ok: "market_ok db" and cancel: "cancel_order db i = Inr (db', row)"
  shows "market_ok db'"
proof -
  obtain o1 where o1: "o1 \<in> set (t_orders db)" "od_id o1 = i" "order_is_active (od_status o1)"
    and db': "db' = db\<lparr>t_orders := modify od_id i (\<lambda>o1. o1\<lparr>od_status := CANCELLED\<rparr>) (t_orders db)\<rparr>"
    using cancel by (auto simp: cancel_order_def get_order_def bindE_eq_Inr split: option.splits if_splits dest: fetch_SomeD)
  have d: "distinct (map od_id (t_orders db))" using ok by (simp add: market_ok_def book_state_ok_def)
  have "order_ok (t_sessions db) (t_trades db) (o2\<lparr>od_status := CANCELLED\<rparr>)" if "o2 \<in> set (t_orders db)" "od_id o2 = i" for o2
  proof -
    have "o2 = o1" using d that o1(1,2) by (auto simp: distinct_map dest: inj_onD)
    moreover have "order_ok (t_sessions db) (t_trades db) o1" using ok o1(1) by (simp add: market_ok_def book_state_ok_def)
    ultimately show ?thesis using order_in_range [of _ _ o1] o1(3)
      by (auto simp: order_ok_def fill_status_ok_def order_row_checks_def order_is_active_def)
  qed
  moreover have "list_all2 same_terms (t_orders db) (modify od_id i (\<lambda>o1. o1\<lparr>od_status := CANCELLED\<rparr>) (t_orders db))"
    unfolding modify_def list_all2_map_self by (simp add: same_terms_status)
  ultimately show ?thesis
    unfolding db' using ok by (intro orders_ok) (auto simp: market_ok_def book_state_ok_def modify_def)
qed

section \<open>Sessions\<close>

text \<open>
  Clearing a closed session whose engine keeps the contract: the book the service builds is one the
  engine accepts, its result passes the boundary check, and the writes do what they say.
\<close>

section \<open>The book\<close>

definition session_book :: "'a market_db_scheme \<Rightarrow> session_row \<Rightarrow> order_book" where
  "session_book db k =
     (let entries = map to_entry (active_for_session db (mk_id k) None)
      in \<lparr>book_session_id = mk_id k, book_market_date = mk_market_date k, book_market_type = mk_market_type k,
          book_buys = filter (\<lambda>e. e_side e = BUY) entries, book_sells = filter (\<lambda>e. e_side e = SELL) entries\<rparr>)"

lemma set_active: "set (active_for_session db i None) =
    {o1 \<in> set (t_orders db). od_market_session_id o1 = i \<and> order_is_active (od_status o1)}"
  by (auto simp: active_for_session_def ACTIVE_ORDER_STATUSES_def order_is_active_def)

lemma market_okD:
  assumes "market_ok db"
  shows "distinct (map mk_id (t_sessions db))" "distinct (map od_id (t_orders db))" "distinct (map td_id (t_trades db))"
    "k \<in> set (t_sessions db) \<Longrightarrow> session_ok k"
    "o1 \<in> set (t_orders db) \<Longrightarrow> order_ok (t_sessions db) (t_trades db) o1"
    "t \<in> set (t_trades db) \<Longrightarrow> trade_ok (t_sessions db) (t_orders db) t"
  using assms by (simp_all add: market_ok_def book_state_ok_def)

lemma distinct_active:
  assumes "market_ok db"
  shows "distinct (map od_id (active_for_session db i None))"
  using distinct_sort_filter [OF market_okD(2) [OF assms]] by (simp add: active_for_session_def)

lemma build_order_book_eq:
  assumes "market_ok db" "k \<in> set (t_sessions db)"
  shows "get_session db (mk_id k) = Inr k" "build_order_book db (mk_id k) = Inr (session_book db k)"
proof -
  have "fetch mk_id (t_sessions db) (mk_id k) = Some k"
    using fetch_member [OF market_okD(1) [OF assms(1)] assms(2)] .
  then show "get_session db (mk_id k) = Inr k" by (simp add: get_session_def)
  then show "build_order_book db (mk_id k) = Inr (session_book db k)"
    by (simp add: build_order_book_def session_book_def Let_def)
qed

lemma remaining_ok:
  assumes "order_ok ss ts o1"
  shows "val (remaining_kwh o1) = val (od_energy_kwh o1) - val (od_matched_kwh o1)" "stored_energy (remaining_kwh o1)"
proof -
  have o1: "stored_energy (od_energy_kwh o1)" "stored_energy (od_matched_kwh o1)"
    "val (od_matched_kwh o1) \<le> val (od_energy_kwh o1)"
    using assms order_in_range [OF assms] by (simp_all add: order_ok_def)
  then show v: "val (remaining_kwh o1) = val (od_energy_kwh o1) - val (od_matched_kwh o1)"
    unfolding remaining_kwh_def by (intro stored_energy_minus) (simp_all add: stored_energy_def)
  show "stored_energy (remaining_kwh o1)"
    using o1 unfolding stored_energy_def v by (auto intro: grid_minus)
qed

lemma to_entry_simps [simp]:
  "e_order_id (to_entry o1) = od_id o1" "e_side (to_entry o1) = od_side o1"
  "e_user_id (to_entry o1) = od_user_id o1" "e_remaining_kwh (to_entry o1) = remaining_kwh o1"
  "e_delivery_start (to_entry o1) = od_delivery_start o1" "e_delivery_end (to_entry o1) = od_delivery_end o1"
  "e_max_price (to_entry o1) = od_max_price o1" "e_min_price (to_entry o1) = od_min_price o1"
  by (simp_all add: to_entry_def)

lemma session_book_sides:
  "set (book_buys (session_book db k)) = to_entry ` {o1 \<in> set (active_for_session db (mk_id k) None). od_side o1 = BUY}"
  "set (book_sells (session_book db k)) = to_entry ` {o1 \<in> set (active_for_session db (mk_id k) None). od_side o1 = SELL}"
  by (auto simp: session_book_def Let_def)

lemma session_book_ok:
  assumes "market_ok db"
  shows "book_ok (session_book db k)"
proof -
  let ?as = "active_for_session db (mk_id k) None"
  have d: "distinct (map od_id ?as)" by (rule distinct_active [OF assms])
  have entry: "entry_ok (to_entry o1)" if "o1 \<in> set ?as" for o1
    using that market_okD(5) [OF assms, of o1] remaining_ok [of "t_sessions db" "t_trades db" o1]
    by (simp add: set_active entry_ok_def order_ok_def)
  have "distinct (map e_order_id (book_buys (session_book db k)))" "distinct (map e_order_id (book_sells (session_book db k)))"
    using d by (auto simp: session_book_def Let_def distinct_map filter_map comp_def inj_on_def)
  moreover have "e_order_id ` set (book_buys (session_book db k)) \<inter> e_order_id ` set (book_sells (session_book db k)) = {}"
    using inj_onD [OF d [unfolded distinct_map, THEN conjunct2]] by (fastforce simp: session_book_sides)
  ultimately show ?thesis
    using entry unfolding book_ok_def list_all_iff by (auto simp: session_book_sides)
qed

section \<open>The result of a sound engine\<close>

lemma trade_between_distinct: "book_ok book \<Longrightarrow> b \<in> set (book_buys book) \<Longrightarrow> s \<in> set (book_sells book) \<Longrightarrow>
    trade_between b s t \<Longrightarrow> pt_buy_order_id t \<noteq> pt_sell_order_id t"
  by (auto simp: trade_between_def book_ok_def)

context matching_engine
begin

lemma result_fits:
  assumes "book_ok (req_order_book req)" "engine req = Inr r"
  shows "matching_fits (req_order_book req) (mr_trades r)"
proof -
  have "\<forall>t \<in> set (mr_trades r). pt_buy_order_id t \<noteq> pt_sell_order_id t"
    using trades_sound [OF assms] trade_between_distinct [OF assms(1)] by blast
  then show ?thesis
    unfolding matching_fits_def using trades_sound [OF assms] within_remaining [OF assms] filled_committed by simp
qed

lemma clearing_result_returns:
  assumes "market_ok db" "k \<in> set (t_sessions db)"
  shows "\<exists>r. clearing_result db k engine now = Inr r"
    and "clearing_result db k engine now = Inr r \<Longrightarrow>
      matching_fits (session_book db k) (mr_trades r) \<and> distinct (map traded_pair (mr_trades r))
      \<and> length (mr_engine r) \<le> 64 \<and> length (mr_engine_version r) \<le> 64"
proof -
  let ?req = "\<lparr>req_order_book = session_book db k, req_cleared_at = now\<rparr>"
  have ok: "book_ok (req_order_book ?req)" by (simp add: session_book_ok [OF assms(1)])
  obtain r0 where r0: "engine ?req = Inr r0" using answers [OF ok] by blast
  note fits = result_fits [OF ok r0]
  have "clearing_result db k engine now = Inr r0"
    using r0 validate_matching_ok [OF ok fits]
    by (simp add: clearing_result_def build_order_book_eq [OF assms] run_engine_def)
  then show "\<exists>r. clearing_result db k engine now = Inr r"
    and "clearing_result db k engine now = Inr r \<Longrightarrow>
      matching_fits (session_book db k) (mr_trades r) \<and> distinct (map traded_pair (mr_trades r))
      \<and> length (mr_engine r) \<le> 64 \<and> length (mr_engine_version r) \<le> 64"
    using fits pairs_once [OF ok r0] labelled [OF ok r0] by auto
qed

end

section \<open>The fills of a closed session\<close>

lemma fits_orders:
  assumes "matching_fits (session_book db k) ts" "t \<in> set ts"
  obtains b s where "b \<in> set (active_for_session db (mk_id k) None)" "od_side b = BUY"
    "s \<in> set (active_for_session db (mk_id k) None)" "od_side s = SELL" "trade_between (to_entry b) (to_entry s) t"
  using assms unfolding matching_fits_def session_book_sides by fastforce

lemma fits_fills:
  assumes "matching_fits (session_book db k) ts" "f \<in> set (fills ts)"
  shows "0 < val (snd f) \<and> stored_energy (snd f) \<and> fst f \<in> od_id ` set (active_for_session db (mk_id k) None)"
proof -
  have "\<forall>t \<in> set ts. \<exists>b \<in> set (book_buys (session_book db k)). \<exists>s \<in> set (book_sells (session_book db k)). trade_between b s t"
    using assms(1) by (simp add: matching_fits_def)
  from fills_nonneg [OF this] assms(2) have "0 < val (snd f) \<and> stored_energy (snd f)" by blast
  moreover obtain t where t: "t \<in> set ts" "fst f = pt_buy_order_id t \<or> fst f = pt_sell_order_id t"
    using assms(2) by (auto simp: fills_def)
  from fits_orders [OF assms(1) t(1)] obtain b s where "b \<in> set (active_for_session db (mk_id k) None)"
    "s \<in> set (active_for_session db (mk_id k) None)" "trade_between (to_entry b) (to_entry s) t" by blast
  with t(2) have "fst f \<in> od_id ` set (active_for_session db (mk_id k) None)"
    by (elim disjE) (simp_all add: trade_between_def)
  ultimately show ?thesis by blast
qed

lemma fits_bound:
  assumes "market_ok db" "matching_fits (session_book db k) ts" "o1 \<in> set (active_for_session db (mk_id k) None)"
  shows "0 \<le> filled (od_id o1) (fills ts)"
    "val (od_matched_kwh o1) + filled (od_id o1) (fills ts) \<le> val (od_energy_kwh o1)"
proof -
  show "0 \<le> filled (od_id o1) (fills ts)"
    by (rule filled_nonneg) (use fits_fills [OF assms(2)] in \<open>auto intro: less_imp_le\<close>)
  have "to_entry o1 \<in> set (book_buys (session_book db k)) \<union> set (book_sells (session_book db k))"
    using assms(3) unfolding session_book_sides by (cases "od_side o1") auto
  then have "filled (od_id o1) (fills ts) \<le> val (remaining_kwh o1)"
    using bspec [OF conjunct2 [OF assms(2) [unfolded matching_fits_def]], of "to_entry o1"] by simp
  moreover have "order_ok (t_sessions db) (t_trades db) o1"
    using assms(3) market_okD(5) [OF assms(1)] by (simp add: set_active)
  ultimately show "val (od_matched_kwh o1) + filled (od_id o1) (fills ts) \<le> val (od_energy_kwh o1)"
    by (simp add: remaining_ok)
qed

lemma fills_of_session:
  assumes "market_ok db" "matching_fits (session_book db k) ts"
  defines "active \<equiv> active_for_session db (mk_id k) None"
  shows "\<exists>orders. foldE apply_trade ts (map_of (rev (map (\<lambda>o1. (od_id o1, o1)) active))) = Inr orders
    \<and> (\<forall>o1 \<in> set active. \<exists>o2. orders (od_id o1) = Some o2 \<and> fill_rel (filled (od_id o1) (fills ts)) o1 o2)"
proof -
  let ?m = "map_of (rev (map (\<lambda>o1. (od_id o1, o1)) active))"
  have m: "?m (od_id o1) = Some o1" if "o1 \<in> set active" for o1
    using map_of_rev_distinct [of od_id active o1 "\<lambda>o1. o1"] distinct_active [OF assms(1)] that
    by (simp add: active_def)
  have m': "o1 \<in> set active \<and> od_id o1 = i" if "?m i = Some o1" for i o1
    using map_of_SomeD [OF that] by auto
  have "\<forall>f \<in> set (fills ts). 0 < val (snd f) \<and> stored_energy (snd f) \<and> fst f \<in> dom ?m"
    using fits_fills [OF assms(2)] m unfolding active_def by fastforce
  moreover have "stored_energy (od_matched_kwh o1) \<and> val (od_matched_kwh o1) + filled i (fills ts) < 10 ^ 10"
    if "?m i = Some o1" for i o1
  proof -
    have o1: "o1 \<in> set active" "od_id o1 = i" using m' [OF that] by simp_all
    then have "order_ok (t_sessions db) (t_trades db) o1"
      using market_okD(5) [OF assms(1)] by (simp add: active_def set_active)
    with fits_bound(2) [OF assms(1,2), of o1] o1 show ?thesis
      by (auto simp: active_def order_ok_def stored_energy_def)
  qed
  ultimately obtain orders where "foldE fill1 (fills ts) ?m = Inr orders"
    "\<forall>i o1. ?m i = Some o1 \<longrightarrow> (\<exists>o2. orders i = Some o2 \<and> fill_rel (filled i (fills ts)) o1 o2)"
    using fills_applied [of "fills ts" ?m] by blast
  with m show ?thesis by (auto simp: apply_trades_fills)
qed

end
