(* ===== verification/Market_Props.thy ===== *)
theory Market_Props
  imports Market_State
begin

text \<open>
  The market's tables stay consistent under every operation, and a closed session always clears.
\<close>

section \<open>The writes of a clearing\<close>

abbreviation cleared :: "session_row \<Rightarrow> datetime \<Rightarrow> session_row" where
  "cleared k ct \<equiv> k\<lparr>mk_status := CLEARED, mk_cleared_at := Some ct\<rparr>"

text \<open>The tables after a clearing, given the stored trades and the written orders.\<close>

definition cleared_tables ::
  "session_row \<Rightarrow> datetime \<Rightarrow> trade_row list \<Rightarrow> order_row list \<Rightarrow> 'a market_db_scheme \<Rightarrow> 'a market_db_scheme" where
  "cleared_tables k ct stored os db =
     db\<lparr>t_trades := t_trades db @ stored,
        t_sessions := modify mk_id (mk_id k) (\<lambda>_. cleared k ct) (t_sessions db), t_orders := os\<rparr>"

abbreviation book_fills :: "'a market_db_scheme \<Rightarrow> session_row \<Rightarrow> proposed_trade list \<Rightarrow> order_row \<Rightarrow> order_row \<Rightarrow> bool" where
  "book_fills db k ts \<equiv> written (\<lambda>i. filled i (fills ts)) (set (active_for_session db (mk_id k) None))"

lemma new_trades_fields:
  "map td_buy_order_id (new_trades res f) = map pt_buy_order_id (mr_trades res)"
  "map td_sell_order_id (new_trades res f) = map pt_sell_order_id (mr_trades res)"
  by (simp_all add: list_eq_iff_nth_eq new_trades_def new_trade_def nth_enumerate_eq)

lemma orders_written:
  assumes ok: "market_ok db" and fits: "matching_fits (session_book db k) ts"
    and o2: "\<forall>o1 \<in> set (active_for_session db (mk_id k) None). \<exists>o2. orders (od_id o1) = Some o2
      \<and> fill_rel (filled (od_id o1) (fills ts)) o1 o2"
    and db2: "t_orders db2 = t_orders db"
  shows "\<exists>os. foldE (save_changed orders) (active_for_session db (mk_id k) None) db2 = Inr (db2\<lparr>t_orders := os\<rparr>)
    \<and> list_all2 (book_fills db k ts) (t_orders db2) os"
proof (rule save_orders_ok)
  let ?active = "active_for_session db (mk_id k) None"
  have row: "list_all fst (order_row_checks o1) \<and> 0 \<le> val (od_matched_kwh o1)" if "o1 \<in> set ?active" for o1
    using that market_okD(5) [OF ok, of o1] order_in_range by (auto simp: set_active order_ok_def)
  show "distinct (map od_id (t_orders db2))" "set ?active \<subseteq> set (t_orders db2)"
    using market_okD(2) [OF ok] by (auto simp: db2 set_active)
  show "distinct ?active" using distinct_active [OF ok] by (simp add: distinct_map)
  show "\<forall>o1 \<in> set ?active. \<exists>o2. orders (od_id o1) = Some o2 \<and> fill_rel (filled (od_id o1) (fills ts)) o1 o2
    \<and> list_all fst (order_row_checks o1) \<and> 0 \<le> val (od_matched_kwh o1) + filled (od_id o1) (fills ts)
    \<and> val (od_matched_kwh o1) + filled (od_id o1) (fills ts) \<le> val (od_energy_kwh o1)"
    using o2 row fits_bound [OF ok fits] by (meson add_nonneg_nonneg)
qed

lemma commit_matching_shape:
  assumes ok: "market_ok db" and fits: "matching_fits (session_book db k) (mr_trades res)"
    and commit: "commit_matching k res ct f db = Inr db'"
  shows "\<exists>stored os. mapE stored_trade (new_trades res f) = Inr stored \<and> db' = cleared_tables k ct stored os db
    \<and> list_all2 (book_fills db k (mr_trades res)) (t_orders db) os \<and> distinct (map td_id (t_trades db @ stored))
    \<and> save_session (cleared k ct) (db\<lparr>t_trades := t_trades db @ stored\<rparr>)
        = Inr (db\<lparr>t_trades := t_trades db @ stored,
                 t_sessions := modify mk_id (mk_id k) (\<lambda>_. cleared k ct) (t_sessions db)\<rparr>)"
proof -
  let ?active = "active_for_session db (mk_id k) None"
  obtain orders db1 db2 where c: "foldE insert_trade (new_trades res f) db = Inr db1"
    "foldE apply_trade (mr_trades res) (map_of (rev (map (\<lambda>o1. (od_id o1, o1)) ?active))) = Inr orders"
    "save_session (cleared k ct) db1 = Inr db2" "foldE (save_changed orders) ?active db2 = Inr db'"
    using commit by (auto simp: commit_matching_def Let_def bindE_eq_Inr)
  obtain stored where st: "mapE stored_trade (new_trades res f) = Inr stored" "db1 = db\<lparr>t_trades := t_trades db @ stored\<rparr>"
    "distinct (map td_id (t_trades db1))"
    using insert_trades_shape [OF c(1)] market_okD(3) [OF ok] by blast
  have db2: "db2 = db1\<lparr>t_sessions := modify mk_id (mk_id k) (\<lambda>_. cleared k ct) (t_sessions db1)\<rparr>"
    using c(3) by (auto simp: save_session_def bindE_eq_Inr)
  have o2: "\<forall>o1 \<in> set ?active. \<exists>o2. orders (od_id o1) = Some o2 \<and> fill_rel (filled (od_id o1) (fills (mr_trades res))) o1 o2"
    using fills_of_session [OF ok fits] c(2) by auto
  have "t_orders db2 = t_orders db" by (simp add: db2 st(2))
  note orders_written [OF ok fits o2 this]
  then obtain os where os: "db' = db2\<lparr>t_orders := os\<rparr>" "list_all2 (book_fills db k (mr_trades res)) (t_orders db) os"
    using c(4) by (auto simp: db2 st(2))
  show ?thesis
    using st os c(3) by (intro exI [of _ stored] exI [of _ os]) (simp add: db2 cleared_tables_def)
qed

text \<open>Stored trades carry what was proposed.\<close>

definition stored_as :: "proposed_trade \<Rightarrow> trade_row \<Rightarrow> bool" where
  "stored_as t row \<longleftrightarrow> td_buy_order_id row = pt_buy_order_id t \<and> td_sell_order_id row = pt_sell_order_id t
     \<and> val (td_quantity_kwh row) = val (pt_quantity_kwh t) \<and> val (td_clearing_price row) = val (pt_clearing_price t)
     \<and> td_delivery_start row = pt_delivery_start t \<and> td_delivery_end row = pt_delivery_end t"

lemma stored_new_trade:
  assumes "stored_energy (pt_quantity_kwh t)" "stored_price (pt_clearing_price t)"
    and "stored_trade (new_trade res i created t) = Inr row"
  shows "stored_as t row"
  using assms numeric_energy [OF assms(1)] numeric_price [OF assms(2)]
  by (auto simp: stored_trade_def new_trade_def bindE_eq_Inr stored_as_def)

lemma stored_new_trades:
  assumes "mapE stored_trade (new_trades res f) = Inr stored"
    and "\<forall>t \<in> set (mr_trades res). stored_energy (pt_quantity_kwh t) \<and> stored_price (pt_clearing_price t)"
  shows "list_all2 stored_as (mr_trades res) stored"
proof -
  have "length stored = length (mr_trades res)"
    using assms(1) by (auto simp: mapE_eq_Inr new_trades_def dest: list_all2_lengthD)
  moreover have "stored_as (mr_trades res ! i) (stored ! i)" if "i < length (mr_trades res)" for i
  proof -
    have "stored_trade (new_trades res f ! i) = Inr (stored ! i)"
      using assms(1) that by (auto simp: mapE_eq_Inr new_trades_def dest: list_all2_nthD)
    moreover have "new_trades res f ! i = new_trade res (cf_trade_id f i) (cf_transaction_now f) (mr_trades res ! i)"
      using that by (simp add: new_trades_def nth_enumerate_eq)
    ultimately show ?thesis using assms(2) that by (auto intro: stored_new_trade)
  qed
  ultimately show ?thesis by (simp add: list_all2_conv_all_nth)
qed

lemma traded_stored: "list_all2 stored_as ts stored \<Longrightarrow> traded_kwh i stored = committed_to i ts"
  by (induction rule: list_all2_induct) (auto simp: traded_kwh_def committed_to_def stored_as_def)

lemma traded_append: "traded_kwh i (ts @ us) = traded_kwh i ts + traded_kwh i us"
  by (simp add: traded_kwh_def)

section \<open>A clearing keeps the invariant\<close>

lemma list_all2_ex2: "list_all2 P xs ys \<Longrightarrow> y \<in> set ys \<Longrightarrow> \<exists>x \<in> set xs. P x y"
  by (induction rule: list_all2_induct) auto

lemma written_terms: "written x A o1 o2 \<Longrightarrow> same_terms o1 o2"
  unfolding written_def same_terms_def by (metis fill_relE same_terms_def same_terms_refl)

lemma fits_trades:
  assumes "matching_fits (session_book db k) ts" "market_ok db" "t \<in> set ts"
  shows "stored_energy (pt_quantity_kwh t) \<and> stored_price (pt_clearing_price t) \<and> pt_buy_order_id t \<noteq> pt_sell_order_id t"
  using assms(1,3) trade_between_distinct [OF session_book_ok [OF assms(2)]]
  unfolding matching_fits_def by (blast dest: trade_between_stored)

lemma filled_inactive:
  assumes "market_ok db" "matching_fits (session_book db k) ts" "o1 \<in> set (t_orders db)"
    and "o1 \<notin> set (active_for_session db (mk_id k) None)"
  shows "filled (od_id o1) (fills ts) = 0"
proof -
  have "od_id o1 \<notin> od_id ` set (active_for_session db (mk_id k) None)"
  proof
    assume "od_id o1 \<in> od_id ` set (active_for_session db (mk_id k) None)"
    then obtain o2 where o2: "o2 \<in> set (active_for_session db (mk_id k) None)" "od_id o1 = od_id o2" by blast
    then have "o2 \<in> set (t_orders db)" by (simp add: set_active)
    with market_okD(2) [OF assms(1)] assms(3) o2(2) have "o1 = o2" by (metis distinct_map inj_onD)
    with o2(1) assms(4) show False by simp
  qed
  moreover have "fst f \<in> od_id ` set (active_for_session db (mk_id k) None)" if "f \<in> set (fills ts)" for f
    using fits_fills [OF assms(2) that] by (elim conjE)
  ultimately have "od_id o1 \<notin> fst ` set (fills ts)" by (metis imageE)
  moreover have "\<forall>f \<in> set (fills ts). 0 < val (snd f)" using fits_fills [OF assms(2)] by simp
  ultimately show ?thesis using filled_zero [of "fills ts" "od_id o1"] by simp
qed

lemma fill_rel_matched: "fill_rel x o1 o2 \<Longrightarrow> val (od_matched_kwh o2) = val (od_matched_kwh o1) + x"
proof (erule fill_relE)
  fix m st
  assume "o2 = o1\<lparr>od_matched_kwh := m, od_status := st\<rparr>" "val m = val (od_matched_kwh o1) + x"
  then show ?thesis by simp
qed

lemma written_order_ok:
  assumes ok: "market_ok db" and fits: "matching_fits (session_book db k) ts"
    and o1: "o1 \<in> set (t_orders db)" and w: "book_fills db k ts o1 o2"
    and st: "list_all2 stored_as ts stored" and ids: "mk_id ` set (t_sessions db) \<subseteq> mk_id ` set ss"
  shows "order_ok ss (t_trades db @ stored) o2"
    "val (od_matched_kwh o2) = val (od_matched_kwh o1) + committed_to (od_id o1) ts"
proof -
  let ?x = "filled (od_id o1) (fills ts)"
  note ok1 = market_okD(5) [OF ok o1] and r = order_in_range [OF market_okD(5) [OF ok o1]]
  have x: "?x = committed_to (od_id o1) ts" using fits_trades [OF fits ok] by (intro filled_committed) blast
  have f: "fill_rel ?x o1 o2"
    using w filled_inactive [OF ok fits o1] by (auto simp: written_def fill_rel_def split: if_splits)
  then show m: "val (od_matched_kwh o2) = val (od_matched_kwh o1) + committed_to (od_id o1) ts"
    by (simp add: x fill_rel_matched)
  have b: "0 \<le> ?x" "val (od_matched_kwh o1) + ?x \<le> val (od_energy_kwh o1)"
    using fits_bound [OF ok fits, of o1] filled_inactive [OF ok fits o1] r by (cases "o1 \<in> set (active_for_session db (mk_id k) None)"; simp)+
  show "order_ok ss (t_trades db @ stored) o2"
  proof (cases "?x = 0")
    case True
    with f have "o2 = o1" by (simp add: fill_rel_def)
    moreover have "order_ok ss (t_trades db) o1" by (rule order_ok_sessions [OF ok1 ids])
    ultimately show ?thesis
      using True x by (simp add: order_ok_def traded_append traded_stored [OF st])
  next
    case False
    with f obtain e where e: "val e = val (od_matched_kwh o1) + ?x" "stored_energy e"
      "o2 = o1\<lparr>od_matched_kwh := e, od_status := (if od_energy_kwh o1 \<le> e then FILLED else PARTIALLY_FILLED)\<rparr>"
      unfolding fill_rel_def if_not_P [OF False] by blast
    have "fill_status_ok o2"
      using e(1) b r False unfolding e(3) fill_status_ok_def by (auto simp: val_simps)
    moreover have "list_all fst (order_row_checks o2)"
      unfolding e(3) by (rule order_row_checks_fill) (use ok1 e(1) b r in \<open>simp_all add: order_ok_def val_simps\<close>)
    moreover have "val e = traded_kwh (od_id o1) (t_trades db @ stored)"
      using ok1 e(1) x by (simp add: order_ok_def traded_append traded_stored [OF st])
    moreover have "order_ok ss (t_trades db) o1" by (rule order_ok_sessions [OF ok1 ids])
    ultimately show ?thesis using e(2) unfolding e(3) order_ok_def by simp
  qed
qed

lemma new_trade_ok:
  assumes fits: "matching_fits (session_book db k) ts" and ok: "market_ok db" and on: "list_all2 same_terms (t_orders db) os"
    and k': "k' \<in> set ss" "mk_id k' = mk_id k" "mk_status k' = CLEARED" and t: "t \<in> set ts" "stored_as t row"
  shows "trade_ok ss os row"
proof -
  obtain b s where m: "b \<in> set (active_for_session db (mk_id k) None)" "od_side b = BUY"
    "s \<in> set (active_for_session db (mk_id k) None)" "od_side s = SELL" "trade_between (to_entry b) (to_entry s) t"
    by (rule fits_orders [OF fits t(1)])
  obtain b' where b': "b' \<in> set os" "same_terms b b'" using list_all2_ex [OF on] m(1) by (auto simp: set_active)
  obtain s' where s': "s' \<in> set os" "same_terms s s'" using list_all2_ex [OF on] m(3) by (auto simp: set_active)
  have "trade_of b s row"
    using m t(2) fits_trades [OF fits ok t(1)]
    by (auto simp: trade_of_def trade_between_def stored_as_def compatible_def set_active val_simps stored_energy_def)
  then have "trade_of b' s' row" by (rule same_terms_trade [OF b'(2) s'(2)])
  moreover have "mk_id k' = od_market_session_id b'" using b'(2) k'(2) m(1) by (simp add: same_terms_fields set_active)
  ultimately show ?thesis unfolding trade_ok_def using b'(1) s'(1) k' by blast
qed

lemma cleared_tables_ok:
  assumes ok: "market_ok db" and k: "k \<in> set (t_sessions db)" "mk_status k = CLOSED"
    and fits: "matching_fits (session_book db k) ts" and st: "list_all2 stored_as ts stored"
    and d: "distinct (map td_id (t_trades db @ stored))" and w: "list_all2 (book_fills db k ts) (t_orders db) os"
    and time: "not_before (Some ct) (mk_closed_at k)"
  shows "market_ok (cleared_tables k ct stored os db)"
proof -
  let ?ss = "modify mk_id (mk_id k) (\<lambda>_. cleared k ct) (t_sessions db)"
  have goes: "session_goes_on k (cleared k ct)" by (simp add: session_goes_on_def)
  have on: "list_all2 session_goes_on (t_sessions db) ?ss"
    by (rule sessions_on [OF market_okD(1) [OF ok] k(1) goes])
  have terms: "list_all2 same_terms (t_orders db) os" by (rule list_all2_mono [OF w written_terms])
  have "session_ok (cleared k ct)"
    using market_okD(4) [OF ok k(1)] k(2) time by (simp add: session_ok_def)
  then have s: "\<forall>q \<in> set ?ss. session_ok q" using market_okD(4) [OF ok] by (auto simp: modify_def)
  have maps: "map mk_id ?ss = map mk_id (t_sessions db)"
    "map (\<lambda>k. (mk_market_date k, mk_market_type k)) ?ss = map (\<lambda>k. (mk_market_date k, mk_market_type k)) (t_sessions db)"
    "map od_id os = map od_id (t_orders db)"
    using on terms by (auto intro!: list_all2_map_eq simp: session_goes_on_def same_terms_fields)
  have ids: "mk_id ` set (t_sessions db) \<subseteq> mk_id ` set ?ss" using maps(1) by (metis set_map subset_refl)
  have orders: "\<forall>o2 \<in> set os. order_ok ?ss (t_trades db @ stored) o2"
    using list_all2_ex2 [OF w] written_order_ok(1) [OF ok fits _ _ st ids] by blast
  have k': "cleared k ct \<in> set ?ss" using k(1) by (force simp: modify_def)
  have "trade_ok ?ss os row" if "row \<in> set stored" for row
    using list_all2_ex2 [OF st that] new_trade_ok [OF fits ok terms k'] by auto
  moreover have "trade_ok ?ss os t" if "t \<in> set (t_trades db)" for t
    by (rule trade_ok_mono [OF market_okD(6) [OF ok that] on terms])
  ultimately show ?thesis
    using ok s orders d maps by (auto simp: market_ok_def book_state_ok_def cleared_tables_def)
qed

section \<open>When a clearing is written\<close>

definition fresh_trades :: "clearing_fresh \<Rightarrow> 'a market_db_scheme \<Rightarrow> bool" where
  "fresh_trades f db \<longleftrightarrow> inj (cf_trade_id f) \<and> range (cf_trade_id f) \<inter> td_id ` set (t_trades db) = {}"

lemma new_trades_accepted:
  assumes ok: "market_ok db" and k: "k \<in> set (t_sessions db)" "mk_status k = CLOSED"
    and fits: "matching_fits (session_book db k) (mr_trades res)" and pairs: "distinct (map traded_pair (mr_trades res))"
    and labels: "length (mr_engine res) \<le> 64" "length (mr_engine_version res) \<le> 64" and fresh: "fresh_trades f db"
  shows "\<exists>db'. foldE insert_trade (new_trades res f) db = Inr db'"
proof -
  have row: "\<exists>t \<in> set (mr_trades res). \<exists>i. row = new_trade res i (cf_transaction_now f) t"
    if "row \<in> set (new_trades res f)" for row
    using that unfolding new_trades_def by (auto simp: in_set_enumerate_eq)
  have stored: "\<exists>row'. stored_trade row = Inr row'" if "row \<in> set (new_trades res f)" for row
  proof -
    from row [OF that] obtain t i where t: "t \<in> set (mr_trades res)" "row = new_trade res i (cf_transaction_now f) t" by blast
    with fits_trades [OF fits ok t(1)] numeric_energy numeric_price labels show ?thesis
      by (fastforce simp: stored_trade_def new_trade_def pred_text_def varchar_def)
  qed
  have accepted: "0 < td_quantity_kwh row' \<and> 0 \<le> td_clearing_price row' \<and> td_delivery_start row' < td_delivery_end row'
      \<and> td_buy_order_id row' \<noteq> td_sell_order_id row' \<and> known od_id (t_orders db) (td_buy_order_id row')
      \<and> known od_id (t_orders db) (td_sell_order_id row')"
    if m: "row \<in> set (new_trades res f)" and s: "stored_trade row = Inr row'" for row row'
  proof -
    obtain t i where t: "t \<in> set (mr_trades res)" "row = new_trade res i (cf_transaction_now f) t" using row [OF m] by blast
    note e = fits_trades [OF fits ok t(1)]
    have as: "stored_as t row'" using stored_new_trade e s t(2) by blast
    obtain b s where bs: "b \<in> set (active_for_session db (mk_id k) None)" "s \<in> set (active_for_session db (mk_id k) None)"
      "trade_between (to_entry b) (to_entry s) t" by (rule fits_orders [OF fits t(1)])
    then have "known od_id (t_orders db) (pt_buy_order_id t)" "known od_id (t_orders db) (pt_sell_order_id t)"
      by (auto simp: trade_between_def known_def set_active)
    with as e bs(3) show ?thesis
      by (auto simp: stored_as_def trade_between_def compatible_def val_simps stored_price_def)
  qed
  have keys: "map (\<lambda>r. (td_buy_order_id r, td_sell_order_id r)) (new_trades res f) = map traded_pair (mr_trades res)"
    by (simp add: list_eq_iff_nth_eq new_trades_def new_trade_def nth_enumerate_eq traded_pair_def)
  have "distinct (map trade_key (new_trades res f))"
    using pairs unfolding keys [symmetric] by (auto simp: distinct_map trade_key_def inj_on_def)
  moreover have "distinct (map td_id (new_trades res f))"
  proof -
    have "map td_id (new_trades res f) = map (cf_trade_id f) [0..<length (mr_trades res)]"
      by (rule nth_equalityI) (simp_all add: new_trades_def new_trade_def nth_enumerate_eq)
    moreover have "inj_on (cf_trade_id f) {0..<length (mr_trades res)}"
      using fresh by (auto simp: fresh_trades_def intro: inj_on_subset)
    ultimately show ?thesis by (simp add: distinct_map)
  qed
  moreover have "td_id ` set (new_trades res f) \<inter> td_id ` set (t_trades db) = {}"
  proof -
    have "td_id ` set (new_trades res f) \<subseteq> range (cf_trade_id f)"
      by (auto simp: new_trades_def new_trade_def)
    then show ?thesis using fresh unfolding fresh_trades_def by blast
  qed
  moreover have "trade_key ` set (new_trades res f) \<inter> trade_key ` set (t_trades db) = {}"
  proof -
    have "td_buy_order_id row \<noteq> td_buy_order_id q" if m: "row \<in> set (new_trades res f)" "q \<in> set (t_trades db)" for row q
    proof
      assume eq: "td_buy_order_id row = td_buy_order_id q"
      obtain t i where t: "t \<in> set (mr_trades res)" "row = new_trade res i (cf_transaction_now f) t" using row [OF m(1)] by blast
      obtain b where b: "b \<in> set (active_for_session db (mk_id k) None)" "td_buy_order_id row = od_id b"
        by (rule fits_orders [OF fits t(1)]) (auto simp: trade_between_def t(2) new_trade_def)
      obtain b' k' where b': "b' \<in> set (t_orders db)" "td_buy_order_id q = od_id b'"
        "k' \<in> set (t_sessions db)" "mk_id k' = od_market_session_id b'" "mk_status k' = CLEARED"
        using market_okD(6) [OF ok m(2)] by (auto simp: trade_ok_def trade_of_def)
      have "b' = b" using market_okD(2) [OF ok] b b' eq by (metis (no_types, lifting) distinct_map inj_onD mem_Collect_eq set_active)
      then have "mk_id k' = mk_id k" using b b'(4) by (simp add: set_active)
      then have "k' = k" using market_okD(1) [OF ok] k(1) b'(3) by (metis distinct_map inj_onD)
      with b'(5) k(2) show False by simp
    qed
    then show ?thesis by (auto simp: trade_key_def)
  qed
  ultimately show ?thesis using stored accepted by (intro insert_trades_succeed) blast+
qed

lemma session_checks_cleared:
  assumes "market_ok db" "k \<in> set (t_sessions db)" "not_before (Some ct) (mk_closed_at k)"
  shows "list_all fst (session_checks (filter (\<lambda>q. mk_id q \<noteq> mk_id k) (t_sessions db)) (cleared k ct))"
proof -
  have "not_before (mk_closed_at k) (mk_opened_at k)"
    using market_okD(4) [OF assms(1,2)] by (simp add: session_ok_def)
  moreover have "(mk_market_date q, mk_market_type q) \<noteq> (mk_market_date k, mk_market_type k)"
    if "q \<in> set (t_sessions db)" "mk_id q \<noteq> mk_id k" for q
  proof
    assume eq: "(mk_market_date q, mk_market_type q) = (mk_market_date k, mk_market_type k)"
    have "inj_on (\<lambda>k. (mk_market_date k, mk_market_type k)) (set (t_sessions db))"
      using assms(1) by (simp add: market_ok_def book_state_ok_def distinct_map)
    from inj_onD [OF this eq that(1) assms(2)] that(2) show False by simp
  qed
  then have "(mk_market_date k, mk_market_type k)
      \<notin> (\<lambda>q. (mk_market_date q, mk_market_type q)) ` set (filter (\<lambda>q. mk_id q \<noteq> mk_id k) (t_sessions db))" by force
  moreover have "mk_id k \<notin> mk_id ` set (filter (\<lambda>q. mk_id q \<noteq> mk_id k) (t_sessions db))" by auto
  ultimately show ?thesis using assms(3) by (simp add: session_checks_def known_def)
qed

lemma commit_matching_succeeds:
  assumes ok: "market_ok db" and k: "k \<in> set (t_sessions db)" "mk_status k = CLOSED"
    and fits: "matching_fits (session_book db k) (mr_trades res)" and pairs: "distinct (map traded_pair (mr_trades res))"
    and labels: "length (mr_engine res) \<le> 64" "length (mr_engine_version res) \<le> 64" and fresh: "fresh_trades f db"
    and time: "not_before (Some ct) (mk_closed_at k)"
  shows "\<exists>db'. commit_matching k res ct f db = Inr db'"
proof -
  let ?active = "active_for_session db (mk_id k) None"
  obtain db1 where db1: "foldE insert_trade (new_trades res f) db = Inr db1"
    using new_trades_accepted [OF ok k fits pairs labels fresh] by blast
  then obtain stored where st: "db1 = db\<lparr>t_trades := t_trades db @ stored\<rparr>" using insert_trades_shape by blast
  obtain orders where o1: "foldE apply_trade (mr_trades res) (map_of (rev (map (\<lambda>o1. (od_id o1, o1)) ?active))) = Inr orders"
    "\<forall>o1 \<in> set ?active. \<exists>o2. orders (od_id o1) = Some o2 \<and> fill_rel (filled (od_id o1) (fills (mr_trades res))) o1 o2"
    using fills_of_session [OF ok fits] by blast
  have "all_checks (session_checks (filter (\<lambda>q. mk_id q \<noteq> mk_id k) (t_sessions db)) (cleared k ct)) = Inr ()"
    using session_checks_cleared [OF ok k(1) time] by simp
  then obtain db2 where db2: "save_session (cleared k ct) db1 = Inr db2" "t_orders db2 = t_orders db"
    by (simp add: save_session_def st del: all_checks_eq)
  note orders_written [OF ok fits o1(2) db2(2)]
  with db1 o1(1) db2(1) show ?thesis by (auto simp: commit_matching_def Let_def)
qed

section \<open>Every clearing, whatever the sound engine\<close>

lemma record_event_tables:
  assumes "foldE record_event evs db = Inr db'"
  shows "t_sessions db' = t_sessions db \<and> t_orders db' = t_orders db \<and> t_trades db' = t_trades db"
  by (rule foldE_invariant [OF assms]) (auto simp: record_event_def bindE_eq_Inr)

lemma market_ok_tables:
  assumes "market_ok db" "t_sessions db' = t_sessions db" "t_orders db' = t_orders db" "t_trades db' = t_trades db"
  shows "market_ok db'"
  using assms by (simp add: market_ok_def)

lemma committed_market_ok:
  assumes ok: "market_ok db" and k: "k \<in> set (t_sessions db)" "mk_status k = CLOSED"
    and fits: "matching_fits (session_book db k) (mr_trades res)" and commit: "commit_matching k res ct f db = Inr db'"
  shows "market_ok db' \<and> get_session db' (mk_id k) = Inr (cleared k ct)
    \<and> (\<exists>stored. t_trades db' = t_trades db @ stored \<and> list_all2 stored_as (mr_trades res) stored)
    \<and> list_all2 (\<lambda>o1 o2. same_terms o1 o2
        \<and> val (od_matched_kwh o2) = val (od_matched_kwh o1) + committed_to (od_id o1) (mr_trades res))
      (t_orders db) (t_orders db')"
proof -
  obtain stored os where sh: "mapE stored_trade (new_trades res f) = Inr stored" "db' = cleared_tables k ct stored os db"
    "list_all2 (book_fills db k (mr_trades res)) (t_orders db) os" "distinct (map td_id (t_trades db @ stored))"
    "save_session (cleared k ct) (db\<lparr>t_trades := t_trades db @ stored\<rparr>)
        = Inr (db\<lparr>t_trades := t_trades db @ stored,
                 t_sessions := modify mk_id (mk_id k) (\<lambda>_. cleared k ct) (t_sessions db)\<rparr>)"
    using commit_matching_shape [OF ok fits commit] by blast
  have st: "list_all2 stored_as (mr_trades res) stored"
    using fits_trades [OF fits ok] by (intro stored_new_trades [OF sh(1)]) blast
  have time: "not_before (Some ct) (mk_closed_at k)"
    using sh(5) by (auto simp: save_session_def bindE_eq_Inr session_checks_def)
  have ok': "market_ok db'"
    unfolding sh(2) by (rule cleared_tables_ok [OF ok k fits st sh(4,3) time])
  have "cleared k ct \<in> set (t_sessions db')" using k(1) by (force simp: sh(2) cleared_tables_def modify_def)
  from build_order_book_eq(1) [OF ok' this] have "get_session db' (mk_id k) = Inr (cleared k ct)" by simp
  moreover have "list_all2 (\<lambda>o1 o2. same_terms o1 o2
        \<and> val (od_matched_kwh o2) = val (od_matched_kwh o1) + committed_to (od_id o1) (mr_trades res)) (t_orders db) os"
    by (rule list.rel_mono_strong [OF sh(3)])
      (use written_terms written_order_ok(2) [OF ok fits _ _ st subset_refl] in blast)
  ultimately show ?thesis using ok' st by (auto simp: sh(2) cleared_tables_def)
qed

lemma clear_session_run:
  assumes "snd (clear_session db i engine name given now f) = Inr (db', rows)"
  obtains k res db1 where "k \<in> set (t_sessions db)" "mk_id k = i" "mk_status k = CLOSED"
    "clearing_result db k engine (instant given now) = Inr res"
    "commit_matching k res (instant given now) f db = Inr db1"
    "foldE record_event (clearing_events k res (instant given now) f) db1 = Inr db'"
proof -
  obtain k where k: "get_session db i = Inr k" using assms by (auto simp: clear_session_def split: sum.splits)
  with assms have c: "mk_status k = CLOSED"
    by (auto simp: clear_session_def can_clear_def split: if_splits)
  have "bindE (clearing_result db k engine (instant given now)) (\<lambda>res. write_clearing k res (instant given now) f db) = Inr (db', rows)"
    using assms k c by (auto simp: clear_session_def can_clear_def Let_def split: sum.splits)
  then obtain res db1 where "clearing_result db k engine (instant given now) = Inr res"
    "commit_matching k res (instant given now) f db = Inr db1"
    "foldE record_event (clearing_events k res (instant given now) f) db1 = Inr db'"
    by (auto simp: write_clearing_def bindE_eq_Inr)
  with that get_session_member [OF k] c show thesis by blast
qed

context matching_engine
begin

lemma clear_session_ok:
  assumes ok: "market_ok db" and clear: "snd (clear_session db i engine name given now f) = Inr (db', rows)"
  shows "market_ok db'"
proof -
  obtain k res db1 where c: "k \<in> set (t_sessions db)" "mk_id k = i" "mk_status k = CLOSED"
    "clearing_result db k engine (instant given now) = Inr res"
    "commit_matching k res (instant given now) f db = Inr db1"
    "foldE record_event (clearing_events k res (instant given now) f) db1 = Inr db'"
    by (rule clear_session_run [OF clear])
  note fits = clearing_result_returns(2) [OF ok c(1,4), THEN conjunct1]
  from committed_market_ok [OF ok c(1,3) fits c(5)] record_event_tables [OF c(6)] show ?thesis
    by (auto intro: market_ok_tables)
qed

lemma closed_session_commits:
  assumes ok: "market_ok db" and k: "k \<in> set (t_sessions db)" "mk_status k = CLOSED"
    and fresh: "fresh_trades f db" and time: "not_before (Some ct) (mk_closed_at k)"
  shows "\<exists>res db1. clearing_result db k engine ct = Inr res \<and> commit_matching k res ct f db = Inr db1
    \<and> matching_fits (session_book db k) (mr_trades res)
    \<and> snd (clear_session db (mk_id k) engine name (Some ct) now f)
        = bindE (foldE record_event (clearing_events k res ct f) db1) (\<lambda>db2. Inr (db2, new_trades res f))"
proof -
  obtain res where r: "clearing_result db k engine ct = Inr res" using clearing_result_returns(1) [OF ok k(1)] by blast
  note s = clearing_result_returns(2) [OF ok k(1) r]
  obtain db1 where db1: "commit_matching k res ct f db = Inr db1"
    using commit_matching_succeeds [OF ok k _ _ _ _ fresh time] s by blast
  have "snd (clear_session db (mk_id k) engine name (Some ct) now f) = write_clearing k res ct f db"
    using r k(2) by (auto simp: clear_session_def build_order_book_eq(1) [OF ok k(1)] can_clear_def instant_def Let_def
        split: sum.splits)
  with r s db1 show ?thesis by (simp add: write_clearing_def)
qed

end

section \<open>The properties\<close>

inductive market_step :: "(matching_request \<Rightarrow> matching_result result) \<Rightarrow> 'a market_db_scheme \<Rightarrow> 'a market_db_scheme \<Rightarrow> bool"
  for engine where
  session_opened: "open_session db day mtype given now i = Inr (db', k) \<Longrightarrow> market_step engine db db'"
| session_closed: "close_session db i given now = Inr (db', k) \<Longrightarrow> market_step engine db db'"
| order_placed: "place_order db q given now i e = Inr (db', row, ns) \<Longrightarrow> market_step engine db db'"
| order_cancelled: "cancel_order db i = Inr (db', row) \<Longrightarrow> market_step engine db db'"
| session_cleared: "snd (clear_session db i engine name given now f) = Inr (db', rows) \<Longrightarrow> market_step engine db db'"
| other_tables: "t_sessions db' = t_sessions db \<Longrightarrow> t_orders db' = t_orders db \<Longrightarrow> t_trades db' = t_trades db
    \<Longrightarrow> market_step engine db db'"

lemma market_step_ok: "market_step baseline_match db db' \<Longrightarrow> market_ok db \<Longrightarrow> market_ok db'"
proof (induction rule: market_step.induct)
  case (session_cleared db i name given now f db' rows)
  then show ?case by (blast intro: baseline.clear_session_ok)
qed (auto intro: open_session_ok close_session_ok place_order_ok cancel_order_ok market_ok_tables)

end
