(* ===== verification/Market_Claims.thy ===== *)
theory Market_Claims
  imports Market_Props Registry_Props Forecasting_Props Audit_Log_Props
begin

text \<open>
  The market service's properties, with the concrete market their witnesses use.
\<close>

section \<open>The properties\<close>

text \<open>C1. The market's books balance, whatever happens: after any run of openings, closings, placements,
  cancellations and clearings with the baseline engine, with any changes elsewhere in between, each
  trade on file is between a buy and a sell of one cleared session, of different users, inside both
  price limits and both delivery windows; each order counts as matched exactly the energy of the
  trades that cite it, never more than it asked for, and its status says so; and no date has two
  sessions of a type.\<close>

theorem market_books_balance:
  assumes "(market_step baseline_match)\<^sup>*\<^sup>* db db'" and "market_ok db"
  shows "market_ok db' \<and> (\<forall>o1 \<in> set (t_orders db'). traded_kwh (od_id o1) (t_trades db') = val (od_matched_kwh o1)
    \<and> traded_kwh (od_id o1) (t_trades db') \<le> val (od_energy_kwh o1))"
proof -
  from assms have ok: "market_ok db'"
    by (induction rule: rtranclp_induct) (auto intro: market_step_ok)
  moreover have "traded_kwh (od_id o1) (t_trades db') = val (od_matched_kwh o1)
      \<and> val (od_matched_kwh o1) \<le> val (od_energy_kwh o1)" if "o1 \<in> set (t_orders db')" for o1
    using market_okD(5) [OF ok that] order_in_range [OF market_okD(5) [OF ok that]] by (simp add: order_ok_def)
  ultimately show ?thesis by auto
qed

text \<open>C11. A closed session clears. On consistent tables, with fresh trade ids and a clearing instant not
  before the closing, the book is one the baseline engine answers, the service's boundary check
  accepts the answer, and every write succeeds: the session is cleared, one trade row is added for
  each proposed trade with its quantity, price and window, and each order's matched energy grows by
  exactly what the trades commit on it. Nothing but the audit log can still fail the operation.\<close>

theorem closed_session_clears:
  assumes "market_ok db" and "k \<in> set (t_sessions db)" and "mk_status k = CLOSED"
    and "fresh_trades f db" and "not_before (Some ct) (mk_closed_at k)"
  shows "\<exists>res db1. clearing_result db k baseline_match ct = Inr res \<and> commit_matching k res ct f db = Inr db1
    \<and> market_ok db1 \<and> get_session db1 (mk_id k) = Inr (k\<lparr>mk_status := CLEARED, mk_cleared_at := Some ct\<rparr>)
    \<and> (\<exists>rows. t_trades db1 = t_trades db @ rows \<and> list_all2 stored_as (mr_trades res) rows)
    \<and> list_all2 (\<lambda>o1 o2. same_terms o1 o2
        \<and> val (od_matched_kwh o2) = val (od_matched_kwh o1) + committed_to (od_id o1) (mr_trades res))
      (t_orders db) (t_orders db1)
    \<and> snd (clear_session db (mk_id k) baseline_match name (Some ct) now f)
        = bindE (foldE record_event (clearing_events k res ct f) db1) (\<lambda>db2. Inr (db2, new_trades res f))"
proof -
  obtain res db1 where r: "clearing_result db k baseline_match ct = Inr res" "commit_matching k res ct f db = Inr db1"
    "matching_fits (session_book db k) (mr_trades res)"
    "snd (clear_session db (mk_id k) baseline_match name (Some ct) now f)
        = bindE (foldE record_event (clearing_events k res ct f) db1) (\<lambda>db2. Inr (db2, new_trades res f))"
    using baseline.closed_session_commits [OF assms] by blast
  from committed_market_ok [OF assms(1-3) r(3,2)] r(1,2,4) show ?thesis by blast
qed

text \<open>Admission reads neither the orders on file nor the log.\<close>

lemma admission_elsewhere:
  assumes "admit_order db q now = Inr ()"
  shows "admit_order (db\<lparr>t_orders := os, t_audit := al\<rparr>) q now = Inr ()"
proof -
  have "require_eligibility (db\<lparr>t_orders := os, t_audit := al\<rparr>) u side now = require_eligibility db u side now" for u side
    by (simp add: require_eligibility_def get_eligibility_def get_user_def list_verifications_def
        utility_account_level_def meter_level_def has_active_scope_def has_active_generation_asset_def sites_of_def)
  moreover have "run_of_point (db\<lparr>t_orders := os, t_audit := al\<rparr>) = run_of_point db"
    "created_key (db\<lparr>t_orders := os, t_audit := al\<rparr>) = created_key db"
    by (simp_all add: fun_eq_iff run_of_point_def created_key_def)
  then have "require_forecast_surplus (db\<lparr>t_orders := os, t_audit := al\<rparr>) site e a b
      = require_forecast_surplus db site e a b" for site e a b
    by (simp add: require_forecast_surplus_def get_surplus_for_site_def latest_per_interval_def points_for_site_def require_site_def)
  ultimately have "admit_order (db\<lparr>t_orders := os, t_audit := al\<rparr>) q now = admit_order db q now"
    by (simp add: admit_order_def get_session_def require_site_def split del: if_split cong del: if_weak_cong)
  with assms show ?thesis by simp
qed

text \<open>A forecast surplus is not reserved by the order that uses it: once an order was placed, the very
  same order under another id passes every check of admission again and is stored beside it, so the
  sells on file for one site and window can exceed the surplus each of them was checked against.\<close>

theorem surplus_not_reserved:
  assumes "place_order db q given now i e = Inr (db1, row, ns)" and "\<not> known od_id (t_orders db1) j"
  shows "\<exists>db2. admit_order db1 q now = Inr () \<and> insert_order (new_order q (instant given now) j) db1 = Inr db2
    \<and> t_orders db2 = t_orders db @ [row, row\<lparr>od_id := j\<rparr>]"
proof -
  let ?o = "new_order q (instant given now)"
  obtain dba where p: "admit_order db q now = Inr ()" "insert_order (?o i) db = Inr dba"
    "record_event (order_placed_event (?o i) e now) dba = Inr db1" "get_order db1 i = Inr row"
    using assms(1) by (auto simp: place_order_def bindE_eq_Inr Let_def)
  obtain r where r: "stored_order (?o i) = Inr r" "list_all fst (order_checks db r)"
    "dba = db\<lparr>t_orders := t_orders db @ [r]\<rparr>"
    using p(2) by (auto simp: insert_order_def bindE_eq_Inr)
  obtain al where db1: "db1 = db\<lparr>t_orders := t_orders db @ [r], t_audit := al\<rparr>"
    using p(3) r(3) by (auto simp: record_event_def bindE_eq_Inr)
  have ri: "od_id r = i" using r(1) by (auto simp: stored_order_def bindE_eq_Inr new_order_def)
  have row: "row = r"
    using p(4) ri r(2) by (auto simp: db1 get_order_def fetch_append fetch_known order_checks_def split: option.splits)
  have rj: "stored_order (?o j) = Inr (r\<lparr>od_id := j\<rparr>)"
    using r(1) by (auto simp: stored_order_def bindE_eq_Inr new_order_def)
  have "list_all fst (order_checks db1 (r\<lparr>od_id := j\<rparr>))"
    using r(2) assms(2) by (simp add: order_checks_def order_row_checks_def db1)
  then have "all_checks (order_checks db1 (r\<lparr>od_id := j\<rparr>)) = Inr ()" by simp
  then have "insert_order (?o j) db1 = Inr (db1\<lparr>t_orders := t_orders db1 @ [r\<lparr>od_id := j\<rparr>]\<rparr>)"
    using rj by (simp add: insert_order_def del: all_checks_eq)
  moreover have "admit_order db1 q now = Inr ()" unfolding db1 by (rule admission_elsewhere [OF p(1)])
  ultimately show ?thesis by (auto simp: db1 row)
qed

section \<open>A concrete market\<close>

text \<open>A closed session with a buy of 5 kWh and a sell of 4 kWh over the same quarter hour.\<close>

definition demo_market ::
  "session_row list \<Rightarrow> order_row list \<Rightarrow> run_row list \<Rightarrow> point_row list \<Rightarrow> market_db" where
  "demo_market ss os runs points =
     forecast_db.extend (demo_forecasts runs points) (market_db.fields ss os [] [])"

definition demo_session :: "market_session_status \<Rightarrow> session_row" where
  "demo_session st =
     \<lparr>mk_id = 20, mk_market_date = 719163, mk_market_type = DAY_AHEAD, mk_status = st, mk_opened_at = Some 0,
      mk_closed_at = (if st = Session_OPEN then None else Some 1), mk_cleared_at = None\<rparr>"

definition demo_row :: "uuid \<Rightarrow> order_side \<Rightarrow> uuid \<Rightarrow> decimal \<Rightarrow> decimal \<Rightarrow> order_row" where
  "demo_row i side user energy price =
     \<lparr>od_id = i, od_market_session_id = 20, od_user_id = user, od_site_id = 5, od_node_id = None, od_side = side,
      od_energy_kwh = energy, od_min_price = (if side = SELL then Some price else None),
      od_max_price = (if side = BUY then Some price else None), od_delivery_start = 0,
      od_delivery_end = 900000000, od_forecast_basis_id = None, od_reliability = None, od_status = Order_OPEN,
      od_matched_kwh = Dec 0 (-4), od_created_at = 0\<rparr>"

definition demo_closed :: market_db where
  "demo_closed = demo_market [demo_session CLOSED]
     [demo_row 21 BUY 1 (Dec 50000 (-4)) (Dec 65000 (-4)), demo_row 22 SELL 2 (Dec 40000 (-4)) (Dec 52500 (-4))] [] []"

definition demo_fresh :: clearing_fresh where
  "demo_fresh = \<lparr>cf_trade_id = \<lambda>k. 100 + k, cf_event_id = \<lambda>k. 200 + k, cf_clock = \<lambda>_. 3, cf_transaction_now = 3\<rparr>"

lemmas demo_market_defs = demo_market_def demo_forecasts_def demo_telemetry_defs forecast_db.defs market_db.defs

lemma demo_closed_tables:
  "t_sessions demo_closed = [demo_session CLOSED]" "t_trades demo_closed = []"
  "t_orders demo_closed = [demo_row 21 BUY 1 (Dec 50000 (-4)) (Dec 65000 (-4)),
     demo_row 22 SELL 2 (Dec 40000 (-4)) (Dec 52500 (-4))]"
  by (simp_all add: demo_closed_def demo_market_defs)

lemma demo_closed_ok: "market_ok demo_closed"
  by (simp add: market_ok_def book_state_ok_def demo_closed_tables demo_session_def demo_row_def session_ok_def
      not_before_def order_ok_def order_row_checks_def not_negative_check_def known_def traded_kwh_def
      fill_status_ok_def val_simps val_Dec4)

lemma market_books_balance_witness:
  "\<exists>db' o1. cancel_order demo_closed 21 = Inr (db', o1) \<and> od_status o1 = CANCELLED \<and> market_ok db'"
proof -
  have "fetch od_id (t_orders demo_closed) 21 = Some (demo_row 21 BUY 1 (Dec 50000 (-4)) (Dec 65000 (-4)))"
    by (simp add: demo_closed_tables fetch_def demo_row_def)
  then obtain db' where c: "cancel_order demo_closed 21
      = Inr (db', demo_row 21 BUY 1 (Dec 50000 (-4)) (Dec 65000 (-4))\<lparr>od_status := CANCELLED\<rparr>)"
    by (simp add: cancel_order_def get_order_def demo_row_def)
  from market_books_balance [OF r_into_rtranclp [of "market_step baseline_match", OF order_cancelled [OF c]] demo_closed_ok] c show ?thesis by auto
qed

lemma closed_session_clears_witness:
  "\<exists>res db1. clearing_result demo_closed (demo_session CLOSED) baseline_match 2 = Inr res
    \<and> commit_matching (demo_session CLOSED) res 2 demo_fresh demo_closed = Inr db1 \<and> market_ok db1
    \<and> get_session db1 20 = Inr ((demo_session CLOSED)\<lparr>mk_status := CLEARED, mk_cleared_at := Some 2\<rparr>)"
proof -
  have fresh: "fresh_trades demo_fresh demo_closed"
    by (simp add: fresh_trades_def demo_fresh_def demo_closed_tables inj_def)
  have "demo_session CLOSED \<in> set (t_sessions demo_closed)" "mk_status (demo_session CLOSED) = CLOSED"
    "not_before (Some 2) (mk_closed_at (demo_session CLOSED))" "mk_id (demo_session CLOSED) = 20"
    by (simp_all add: demo_closed_tables demo_session_def not_before_def)
  from closed_session_clears [OF demo_closed_ok this(1,2) fresh this(3), of "[]" 0] this(4) show ?thesis by auto
qed

text \<open>An open session and a site whose forecasts leave 8 kW for a quarter of an hour, and a sell of
  those 2 kWh.\<close>

definition demo_run :: "uuid \<Rightarrow> forecast_type \<Rightarrow> run_row" where
  "demo_run i ftype =
     \<lparr>fr_id = i, fr_forecast_type = ftype, fr_provider = ''p'', fr_model_version = ''v'', fr_horizon_start = 0,
      fr_horizon_end = 900000000, fr_status = COMPLETED, fr_error = None, fr_created_at = 0\<rparr>"

definition demo_forecast_point :: "uuid \<Rightarrow> uuid \<Rightarrow> decimal \<Rightarrow> point_row" where
  "demo_forecast_point i run kw =
     \<lparr>fp_id = i, fp_forecast_run_id = run, fp_site_id = 5, fp_interval_start = 0, fp_interval_end = 900000000,
      fp_predicted_kw = Some kw, fp_predicted_kwh = None, fp_confidence = None, fp_lower_bound = None,
      fp_upper_bound = None\<rparr>"

definition demo_open :: market_db where
  "demo_open = demo_market [demo_session Session_OPEN] [] [demo_run 30 SOLAR, demo_run 31 LOAD]
     [demo_forecast_point 32 30 (Dec 90000 (-4)), demo_forecast_point 33 31 (Dec 10000 (-4))]"

definition demo_sell :: order_request where
  "demo_sell =
     \<lparr>oq_market_session_id = 20, oq_user_id = 1, oq_site_id = 5, oq_side = SELL, oq_energy_kwh = Dec 2 0,
      oq_delivery_start = 0, oq_delivery_end = 900000000, oq_max_price = None, oq_min_price = Some (Dec 5 0),
      oq_node_id = None, oq_forecast_basis_id = None, oq_reliability = None\<rparr>"

lemma demo_eligible: "require_eligibility demo_open 1 SELL 3 = Inr ()"
  by code_simp

lemma demo_net: "Dec 90000 (-4) - Dec 10000 (-4) = Dec 80000 (-4)"
  by code_simp

lemma demo_latest:
  "latest_per_interval demo_open 5 0 900000000 SOLAR = [demo_forecast_point 32 30 (Dec 90000 (-4))]"
  "latest_per_interval demo_open 5 0 900000000 LOAD = [demo_forecast_point 33 31 (Dec 10000 (-4))]"
  by (simp_all add: latest_per_interval_def points_for_site_def run_of_point_def demo_open_def demo_market_defs
      demo_run_def demo_forecast_point_def fetch_def)

lemma demo_window: "get_surplus_for_site demo_open 5 0 900000000 = Inr [\<lparr>sp_interval_start = 0, sp_interval_end = 900000000,
    sp_generation_kw = Some (Dec 90000 (-4)), sp_load_kw = Some (Dec 10000 (-4)), sp_surplus_kw = Some (Dec 80000 (-4))\<rparr>]"
  unfolding get_surplus_for_site_def demo_latest
  by (simp add: require_site_def known_def power_entries_def calculate_surplus_def
      by_start_def pair_point_def surplus_of_def Let_def demo_forecast_point_def demo_net demo_open_def demo_market_defs)

lemma demo_exportable: "total_exportable_kwh [\<lparr>sp_interval_start = 0, sp_interval_end = 900000000,
    sp_generation_kw = Some (Dec 90000 (-4)), sp_load_kw = Some (Dec 10000 (-4)), sp_surplus_kw = Some (Dec 80000 (-4))\<rparr>]
   = Inr (Dec 2000000 (-6))"
  by code_simp

lemma demo_admitted: "admit_order demo_open demo_sell 3 = Inr ()"
proof -
  have "get_session demo_open 20 = Inr (demo_session Session_OPEN)" "require_site demo_open 5 = Inr ()"
    by (simp_all add: get_session_def require_site_def fetch_def known_def demo_session_def demo_open_def demo_market_defs)
  moreover have "require_forecast_surplus demo_open 5 (Dec 2 0) 0 900000000 = Inr ()"
    by (simp add: require_forecast_surplus_def demo_window demo_exportable) code_simp
  moreover have "\<not> Dec 2 0 \<le> 0" by code_simp
  ultimately show ?thesis
    using demo_eligible by (simp add: admit_order_def demo_sell_def demo_session_def accepts_orders_def validate_order_shape_def)
qed

definition demo_stored :: order_row where
  "demo_stored = demo_row 21 SELL 1 (Dec 20000 (-4)) (Dec 50000 (-4))"

lemma demo_stored_order: "stored_order (new_order demo_sell 0 21) = Inr demo_stored"
  by code_simp

lemma demo_order_checks: "all_checks (order_checks demo_open demo_stored) = Inr ()"
  by (simp add: order_checks_def order_row_checks_def demo_stored_def demo_row_def not_negative_check_def known_def
      val_simps val_Dec4 demo_session_def demo_open_def demo_market_defs)

lemma demo_payload_returns:
  "returns (payload_json (order_placed_event (new_order demo_sell 0 21) 40 3))"
  by code_simp

lemma demo_placed:
  "\<exists>db1 ns. place_order demo_open demo_sell (Some 0) 3 21 40 = Inr (db1, demo_stored, ns) \<and> t_orders db1 = [demo_stored]"
proof -
  let ?ev = "order_placed_event (new_order demo_sell 0 21) 40 3"
  let ?db = "demo_open\<lparr>t_orders := [demo_stored]\<rparr>"
  obtain payload where "payload_json ?ev = Inr payload" using demo_payload_returns by (auto simp: returns_iff)
  moreover have "datetime_ok (ae_event_time ?ev)" "datetime_ok (ae_recorded_at ?ev)" "py_dict ?ev"
    "ae_event_id ?ev = 40" "ae_actor_user_id ?ev = Some 1"
    by (simp_all add: order_placed_event_def order_placed_def build_event_def datetime_ok_def py_dict_def new_order_def
        demo_sell_def)
  ultimately obtain h where h: "event_fingerprint ?ev (map_option ar_event_hash (latest [])) = Inr h"
    by (simp add: fingerprint_eq)
  have "table_ok {1} []" "intact_log []" by (simp_all add: table_ok_def intact_log_def list_chain_def)
  from audit_record_succeeds [OF this \<open>py_dict ?ev\<close> h] obtain row where "audit_record {1} ?ev [] = Inr [row]"
    using \<open>ae_event_id ?ev = 40\<close> \<open>ae_actor_user_id ?ev = Some 1\<close> by auto
  moreover have "t_orders demo_open = []" "t_audit demo_open = []" "us_id ` set (t_users demo_open) = {1}"
    by (simp_all add: demo_open_def demo_market_defs)
  ultimately have "record_event ?ev ?db = Inr (?db\<lparr>t_audit := [row]\<rparr>)" "insert_order (new_order demo_sell 0 21) demo_open = Inr ?db"
    using demo_stored_order demo_order_checks by (simp_all add: record_event_def insert_order_def del: all_checks_eq)
  moreover have "get_order (?db\<lparr>t_audit := [row]\<rparr>) 21 = Inr demo_stored"
    by (simp add: get_order_def fetch_def demo_stored_def demo_row_def)
  ultimately show ?thesis by (simp add: place_order_def demo_admitted instant_def Let_def)
qed

lemma surplus_not_reserved_witness:
  "\<exists>(db1 :: market_db) db2. t_orders db1 = [demo_stored] \<and> admit_order db1 demo_sell 3 = Inr () \<and> insert_order (new_order demo_sell 0 22) db1 = Inr db2
    \<and> t_orders db2 = [demo_stored, demo_stored\<lparr>od_id := 22\<rparr>]"
proof -
  obtain db1 ns where p: "place_order demo_open demo_sell (Some 0) 3 21 40 = Inr (db1, demo_stored, ns)"
    "t_orders db1 = [demo_stored]" using demo_placed by blast
  have "\<not> known od_id (t_orders db1) 22" "t_orders demo_open = []"
    by (simp_all add: p(2) known_def demo_stored_def demo_row_def demo_open_def demo_market_defs)
  from surplus_not_reserved [OF p(1) this(1)] this(2) p(2) show ?thesis by (auto simp: instant_def)
qed

end
