(* ===== verification/Grid_Contract.thy ===== *)
theory Grid_Contract
  imports Durations Domain_Enums
begin

text \<open>
  The grid validation contract (\<open>backend/app/domain/interfaces/grid.py\<close>) and the operating
  limits with the decision they imply (\<open>backend/app/domain/policies/grid_limits.py\<close>): the
  network, the injections and how energy becomes power, the request with its superposition
  of injections, the result with the violations a trade caused, and the status and decision
  recorded for a trade. The text of a violation (\<open>detail\<close>, never parsed) is not kept.
\<close>

section \<open>Network\<close>

record network_node =
  node_id :: uuid
  node_type :: grid_node_type
  nominal_voltage_kv :: decimal
  parent_node_id :: "uuid option"
  feeder_id :: "string option"

record network_line =
  line_id :: uuid
  line_from :: uuid
  line_to :: uuid
  line_rating_kw :: "decimal option"

record network_transformer =
  transformer_id :: uuid
  transformer_from :: uuid
  transformer_to :: uuid
  transformer_rating_kw :: "decimal option"

record network_model =
  net_version :: string
  net_nodes :: "network_node list"
  net_lines :: "network_line list"
  net_transformers :: "network_transformer list"

definition node_ids :: "network_model \<Rightarrow> uuid set" where
  "node_ids n = set (map node_id (net_nodes n))"

definition network_is_empty :: "network_model \<Rightarrow> bool" where
  "network_is_empty n \<longleftrightarrow> net_nodes n = []"

definition unrated_elements :: "network_model \<Rightarrow> uuid list" where
  "unrated_elements n =
     map line_id (filter (\<lambda>l. line_rating_kw l = None) (net_lines n))
     @ map transformer_id (filter (\<lambda>t. transformer_rating_kw t = None) (net_transformers n))"

definition has_complete_ratings :: "network_model \<Rightarrow> bool" where
  "has_complete_ratings n \<longleftrightarrow> unrated_elements n = []"

section \<open>Injections\<close>

record node_injection =
  inj_node_id :: uuid
  inj_active_power_kw :: decimal

definition from_energy :: "uuid \<Rightarrow> decimal \<Rightarrow> timedelta \<Rightarrow> node_injection result" where
  "from_energy node energy_kwh interval =
     bindE (ddiv (total_seconds interval) (Dec 3600 0)) (\<lambda>hours.
     bindE (guardE (\<not> hours \<le> 0) PyValueError) (\<lambda>_.
     bindE (ddiv energy_kwh hours) (\<lambda>p.
       Inr \<lparr>inj_node_id = node, inj_active_power_kw = p\<rparr>)))"

record grid_limits =
  lim_min_voltage_pu :: decimal
  lim_max_voltage_pu :: decimal
  lim_max_line_loading_pct :: decimal
  lim_max_transformer_loading_pct :: decimal

record grid_validation_request =
  gr_network :: network_model
  gr_limits :: grid_limits
  gr_interval_start :: datetime
  gr_interval_end :: datetime
  gr_baseline_injections :: "node_injection list"
  gr_proposed_injections :: "node_injection list"

definition gr_interval :: "grid_validation_request \<Rightarrow> timedelta" where
  "gr_interval r = gr_interval_end r - gr_interval_start r"

text \<open>
  The totals per node, accumulated in a dictionary over the baseline and then the proposal,
  listed by node id. (The code sorts by the id's text, which orders UUIDs as numbers.)
\<close>

definition accumulate :: "node_injection list \<Rightarrow> (uuid \<rightharpoonup> decimal) \<Rightarrow> (uuid \<rightharpoonup> decimal)" where
  "accumulate injections totals =
     foldl (\<lambda>d i. d(inj_node_id i \<mapsto> dict_get d (inj_node_id i) 0 + inj_active_power_kw i))
       totals injections"

definition superpose :: "node_injection list \<Rightarrow> node_injection list" where
  "superpose injections =
     (let totals = accumulate injections Map.empty
      in map (\<lambda>n. \<lparr>inj_node_id = n, inj_active_power_kw = the (totals n)\<rparr>)
           (sorted_list_of_set (set (map inj_node_id injections))))"

definition combined_injections :: "grid_validation_request \<Rightarrow> node_injection list" where
  "combined_injections r = superpose (gr_baseline_injections r @ gr_proposed_injections r)"

section \<open>Results\<close>

record grid_violation =
  violation_type :: grid_violation_type
  element_id :: "uuid option"
  observed :: decimal
  limit :: decimal

definition margin :: "grid_violation \<Rightarrow> decimal" where
  "margin v = (if violation_type v = UNDER_VOLTAGE then limit v - observed v
     else observed v - limit v)"

record grid_metrics =
  min_voltage_pu :: "decimal option"
  max_voltage_pu :: "decimal option"
  max_line_loading_pct :: "decimal option"
  max_transformer_loading_pct :: "decimal option"

record grid_validation_result =
  gv_engine :: string
  gv_engine_version :: string
  gv_status :: grid_validation_status
  gv_metrics :: grid_metrics
  gv_violations :: "grid_violation list"
  gv_baseline_violations :: "grid_violation list"

definition gv_safe :: "grid_validation_result \<Rightarrow> bool" where
  "gv_safe r \<longleftrightarrow> permits_trade (gv_status r)"

definition has_violations :: "grid_validation_result \<Rightarrow> bool" where
  "has_violations r \<longleftrightarrow> gv_violations r \<noteq> []"

definition caused_violations :: "grid_validation_result \<Rightarrow> grid_violation list" where
  "caused_violations r =
     (let already = set (map (\<lambda>v. (violation_type v, element_id v)) (gv_baseline_violations r))
      in filter (\<lambda>v. (violation_type v, element_id v) \<notin> already) (gv_violations r))"

section \<open>Operating limits\<close>

definition DEFAULT_LIMITS :: grid_limits where
  "DEFAULT_LIMITS = \<lparr>lim_min_voltage_pu = Dec 94 (-2), lim_max_voltage_pu = Dec 106 (-2),
     lim_max_line_loading_pct = Dec 100 0, lim_max_transformer_loading_pct = Dec 100 0\<rparr>"

definition evaluate_metrics :: "grid_metrics \<Rightarrow> grid_limits \<Rightarrow> grid_violation list" where
  "evaluate_metrics m l =
     (case min_voltage_pu m of
        Some v \<Rightarrow> if v < lim_min_voltage_pu l
          then [\<lparr>violation_type = UNDER_VOLTAGE, element_id = None, observed = v,
                 limit = lim_min_voltage_pu l\<rparr>] else []
      | None \<Rightarrow> [])
     @ (case max_voltage_pu m of
        Some v \<Rightarrow> if v > lim_max_voltage_pu l
          then [\<lparr>violation_type = OVER_VOLTAGE, element_id = None, observed = v,
                 limit = lim_max_voltage_pu l\<rparr>] else []
      | None \<Rightarrow> [])
     @ (case max_line_loading_pct m of
        Some v \<Rightarrow> if v > lim_max_line_loading_pct l
          then [\<lparr>violation_type = LINE_OVERLOAD, element_id = None, observed = v,
                 limit = lim_max_line_loading_pct l\<rparr>] else []
      | None \<Rightarrow> [])
     @ (case max_transformer_loading_pct m of
        Some v \<Rightarrow> if v > lim_max_transformer_loading_pct l
          then [\<lparr>violation_type = TRANSFORMER_OVERLOAD, element_id = None, observed = v,
                 limit = lim_max_transformer_loading_pct l\<rparr>] else []
      | None \<Rightarrow> [])"

definition resolve_status ::
  "grid_validation_status \<Rightarrow> uuid list \<Rightarrow> grid_validation_status" where
  "resolve_status reported unrated =
     (if reported = SAFE \<and> unrated \<noteq> [] then UNKNOWN else reported)"

definition effective_status ::
  "grid_validation_status \<Rightarrow> grid_violation list \<Rightarrow> grid_validation_status" where
  "effective_status status caused =
     (if status = UNKNOWN then UNKNOWN else if caused \<noteq> [] then UNSAFE else status)"

definition decide ::
  "grid_validation_status \<Rightarrow> grid_violation list \<Rightarrow> grid_validation_decision" where
  "decide status caused =
     (if permits_trade status \<and> caused = [] then ACCEPT else REJECT)"

section \<open>Facts\<close>

text \<open>The metrics are within limits exactly when no violation is derived from them.\<close>

definition within_limits :: "grid_metrics \<Rightarrow> grid_limits \<Rightarrow> bool" where
  "within_limits m l \<longleftrightarrow>
     pred_option (\<lambda>v. lim_min_voltage_pu l \<le> v) (min_voltage_pu m)
     \<and> pred_option (\<lambda>v. v \<le> lim_max_voltage_pu l) (max_voltage_pu m)
     \<and> pred_option (\<lambda>v. v \<le> lim_max_line_loading_pct l) (max_line_loading_pct m)
     \<and> pred_option (\<lambda>v. v \<le> lim_max_transformer_loading_pct l) (max_transformer_loading_pct m)"

lemma evaluate_metrics_Nil: "evaluate_metrics m l = [] \<longleftrightarrow> within_limits m l"
  by (auto simp: evaluate_metrics_def within_limits_def val_simps split: option.splits)

lemma margin_positive:
  assumes "v \<in> set (evaluate_metrics m l)"
  shows "if violation_type v = UNDER_VOLTAGE then val (observed v) < val (limit v)
    else val (limit v) < val (observed v)"
  using assms by (auto simp: evaluate_metrics_def val_simps split: option.splits if_splits)

lemma decide_accept:
  "decide status caused = ACCEPT \<longleftrightarrow> status = SAFE \<and> caused = []"
  by (simp add: decide_def permits_trade_def)

lemma decide_range: "decide status caused \<in> {ACCEPT, REJECT}"
  by (simp add: decide_def)

lemma status_SAFE_iff:
  "effective_status (resolve_status reported unrated) caused = SAFE
     \<longleftrightarrow> reported = SAFE \<and> unrated = [] \<and> caused = []"
  by (auto simp: effective_status_def resolve_status_def)

lemma caused_violations_set:
  "set (caused_violations r) = {v \<in> set (gv_violations r).
     \<not> (\<exists>b \<in> set (gv_baseline_violations r).
          violation_type b = violation_type v \<and> element_id b = element_id v)}"
  by (auto simp: caused_violations_def Let_def image_iff)

lemma rounds_to_pos:
  assumes "rounds_to v w" and "0 < v"
  shows "0 < w"
proof -
  obtain n where n: "1 / v < of_nat n" using reals_Archimedean2 by blast
  have "n < 10 ^ n" using power_gt_expt [of 10 n] by simp
  then have "(of_nat n :: rat) < 10 ^ n" by (metis of_nat_less_iff of_nat_numeral of_nat_power)
  with n have "1 / v < 10 ^ n" by linarith
  with assms(2) have "1 / 10 ^ n \<le> v" by (simp add: field_simps)
  moreover have "(10::rat) powi (- int n) = 1 / 10 ^ n"
    by (simp add: power_int_minus inverse_eq_divide)
  moreover have "rep28 (10 powi (- int n))" using rep28I [of 1 "- int n"] by simp
  ultimately have "1 / 10 ^ n \<le> w" using assms(1) by (metis rounds_to_ge)
  then show ?thesis by (meson less_le_trans zero_less_divide_1_iff zero_less_numeral zero_less_power)
qed

lemma hours_of:
  obtains h where "ddiv (total_seconds interval) (Dec 3600 0) = Inr h"
    "rounds_to (val (total_seconds interval) / 3600) (val h)"
    "h \<le> 0 \<longleftrightarrow> interval \<le> 0"
proof -
  have d: "val (Dec 3600 0) = 3600" by (simp add: val_def)
  have nz: "val (Dec 3600 0) \<noteq> 0" unfolding d by simp
  from ddiv_rounds [OF nz] obtain h where h: "ddiv (total_seconds interval) (Dec 3600 0) = Inr h"
    "rounds_to (val (total_seconds interval) / 3600) (val h)"
    unfolding d by blast
  have "h \<le> 0 \<longleftrightarrow> interval \<le> 0"
  proof (cases "interval \<le> 0")
    case True
    then have "val (total_seconds interval) \<le> 0" by simp
    then have "val (total_seconds interval) / 3600 \<le> 0" by simp
    with h(2) have "val h \<le> 0" by (rule rounds_to_nonpos)
    with True show ?thesis by (simp add: val_simps)
  next
    case False
    then have "0 < val (total_seconds interval)" by (simp add: total_seconds_pos)
    then have "0 < val (total_seconds interval) / 3600" by simp
    with h(2) have "0 < val h" by (rule rounds_to_pos)
    with False show ?thesis by (simp add: val_simps)
  qed
  with h that show thesis by blast
qed

lemma from_energy_raises: "interval \<le> 0 \<Longrightarrow> from_energy node e interval = Inl PyValueError"
  by (rule hours_of [of interval]) (simp add: from_energy_def)

lemma from_energy_returns:
  assumes "0 < interval"
  shows "\<exists>p. from_energy node e interval = Inr \<lparr>inj_node_id = node, inj_active_power_kw = p\<rparr>
    \<and> (0 \<le> val e \<longrightarrow> 0 \<le> val p)"
proof -
  obtain h where h: "ddiv (total_seconds interval) (Dec 3600 0) = Inr h" "h \<le> 0 \<longleftrightarrow> interval \<le> 0"
    by (rule hours_of [of interval]) blast
  with assms have pos: "0 < val h" by (simp add: val_simps)
  then obtain p where "ddiv e h = Inr p" "rounds_to (val e / val h) (val p)"
    using ddiv_rounds [of h e] by (metis less_irrefl)
  with h assms pos show ?thesis
    by (auto simp: from_energy_def intro: rounds_to_nonneg)
qed

lemma accumulate_lookup:
  "accumulate is d n =
     (let ps = map inj_active_power_kw (filter (\<lambda>i. inj_node_id i = n) is)
      in if ps = [] then d n else Some (foldl (+) (dict_get d n 0) ps))"
proof (induction "is" arbitrary: d)
  case Nil
  then show ?case by (simp add: accumulate_def)
next
  case (Cons i "is")
  let ?d = "d(inj_node_id i \<mapsto> dict_get d (inj_node_id i) 0 + inj_active_power_kw i)"
  have "accumulate (i # is) d n = accumulate is ?d n" by (simp add: accumulate_def)
  with Cons show ?case by (auto simp: Let_def dict_get_def split: option.splits)
qed

lemma superpose_nodes: "map inj_node_id (superpose is) = sorted_list_of_set (inj_node_id ` set is)"
  by (simp add: superpose_def Let_def comp_def)

lemma superpose_power:
  assumes "i \<in> set (superpose is)"
  shows "inj_active_power_kw i =
    dsum (map inj_active_power_kw (filter (\<lambda>j. inj_node_id j = inj_node_id i) is))"
proof -
  from assms obtain n where n: "n \<in> inj_node_id ` set is" "inj_node_id i = n"
    "inj_active_power_kw i = the (accumulate is Map.empty n)"
    unfolding superpose_def Let_def by fastforce
  then have "filter (\<lambda>j. inj_node_id j = n) is \<noteq> []" by (auto simp: filter_empty_conv)
  with n show ?thesis by (simp add: accumulate_lookup Let_def dsum_def)
qed

section \<open>The contract of an engine\<close>

text \<open>
  What the validation service relies on: a result names its engine, a network that is
  reported \<open>SAFE\<close> was cleared (its metrics are within the limits asked for and it lists no
  violation beyond the baseline's), and the same request yields the same result, which a
  function gives.
\<close>

locale grid_engine =
  fixes validate :: "grid_validation_request \<Rightarrow> grid_validation_result result"
    and engine_name :: string
    and engine_version :: string
  assumes names: "validate r = Inr x \<Longrightarrow> gv_engine x = engine_name \<and> gv_engine_version x = engine_version"
    and never_false_safe: "validate r = Inr x \<Longrightarrow> gv_status x = SAFE \<Longrightarrow>
      within_limits (gv_metrics x) (gr_limits r)"
begin

lemma accepted_is_cleared:
  assumes "validate r = Inr x"
    and "decide (effective_status (resolve_status (gv_status x) (unrated_elements (gr_network r)))
           (caused_violations x)) (caused_violations x) = ACCEPT"
  shows "within_limits (gv_metrics x) (gr_limits r) \<and> has_complete_ratings (gr_network r)
    \<and> caused_violations x = []"
  using assms never_false_safe
  by (auto simp: decide_accept status_SAFE_iff has_complete_ratings_def)

end

end
