(* ===== verification/Grid_Tables.thy ===== *)
theory Grid_Tables
  imports Market_Service Grid_Contract
begin

text \<open>
  The tables of the grid module with their constraints (\<open>db/models/grid.py\<close>) and the queries over
  them (\<open>repositories/grid.py\<close>): snapshots of the network as observed, and validation runs, the
  judgements about a proposed trade. A run names its trade without a reference; the trade's own
  column is the pointer the schema enforces.
\<close>

record snapshot_row =
  sn_id :: uuid
  sn_feeder_id :: "string option"
  sn_captured_at :: datetime
  sn_system_load_kw :: "decimal option"
  sn_generation_kw :: "decimal option"
  sn_transformer_loading_pct :: "decimal option"
  sn_max_line_loading_pct :: "decimal option"
  sn_min_voltage_pu :: "decimal option"
  sn_max_voltage_pu :: "decimal option"

record validation_row =
  vn_id :: uuid
  vn_trade_id :: "uuid option"
  vn_grid_snapshot_id :: "uuid option"
  vn_simulation_engine :: string
  vn_engine_version :: "string option"
  vn_input_hash :: string
  vn_status :: grid_validation_status
  vn_min_voltage_pu :: "decimal option"
  vn_max_voltage_pu :: "decimal option"
  vn_max_line_loading_pct :: "decimal option"
  vn_max_transformer_loading_pct :: "decimal option"
  vn_decision :: grid_validation_decision
  vn_reason :: "string option"
  vn_created_at :: datetime

record grid_db = market_db +
  t_grid_snapshots :: "snapshot_row list"
  t_validation_runs :: "validation_row list"

section \<open>Constraints\<close>

definition voltages_ordered :: "decimal option \<Rightarrow> decimal option \<Rightarrow> bool" where
  "voltages_ordered lo hi \<longleftrightarrow> (case (lo, hi) of (Some l, Some h) \<Rightarrow> l \<le> h | _ \<Rightarrow> True)"

definition snapshot_checks :: "'a grid_db_scheme \<Rightarrow> snapshot_row \<Rightarrow> (bool \<times> string) list" where
  "snapshot_checks db s =
     [(not_negative_check (sn_max_line_loading_pct s), ''ck_grid_snapshots_line_loading_not_negative''),
      (not_negative_check (sn_max_voltage_pu s), ''ck_grid_snapshots_max_voltage_not_negative''),
      (not_negative_check (sn_min_voltage_pu s), ''ck_grid_snapshots_min_voltage_not_negative''),
      (not_negative_check (sn_transformer_loading_pct s),
       ''ck_grid_snapshots_transformer_loading_not_negative''),
      (voltages_ordered (sn_min_voltage_pu s) (sn_max_voltage_pu s),
       ''ck_grid_snapshots_voltage_range_ordered''),
      (\<not> known sn_id (t_grid_snapshots db) (sn_id s), ''pk_grid_snapshots'')]"

definition validation_checks :: "'a grid_db_scheme \<Rightarrow> validation_row \<Rightarrow> (bool \<times> string) list" where
  "validation_checks db v =
     [((vn_status v = SAFE \<and> vn_decision v = ACCEPT) \<or> (vn_status v \<noteq> SAFE \<and> vn_decision v \<noteq> ACCEPT),
       ''ck_grid_validation_runs_decision_agrees_with_safety''),
      (voltages_ordered (vn_min_voltage_pu v) (vn_max_voltage_pu v),
       ''ck_grid_validation_runs_voltage_range_ordered''),
      (\<not> known vn_id (t_validation_runs db) (vn_id v), ''pk_grid_validation_runs''),
      (pred_option (known sn_id (t_grid_snapshots db)) (vn_grid_snapshot_id v),
       ''fk_grid_validation_runs_grid_snapshot_id_grid_snapshots'')]"

text \<open>Powers are \<open>Numeric(14, 4)\<close>, loadings \<open>Numeric(8, 3)\<close>, voltages \<open>Numeric(8, 4)\<close>.\<close>

definition stored_snapshot :: "snapshot_row \<Rightarrow> snapshot_row result" where
  "stored_snapshot s =
     bindE (pred_text 64 (sn_feeder_id s)) (\<lambda>_.
     bindE (nullable (numeric 14 4) (sn_system_load_kw s)) (\<lambda>l.
     bindE (nullable (numeric 14 4) (sn_generation_kw s)) (\<lambda>g.
     bindE (nullable (numeric 8 3) (sn_transformer_loading_pct s)) (\<lambda>tl.
     bindE (nullable (numeric 8 3) (sn_max_line_loading_pct s)) (\<lambda>ll.
     bindE (nullable (numeric 8 4) (sn_min_voltage_pu s)) (\<lambda>lo.
     bindE (nullable (numeric 8 4) (sn_max_voltage_pu s)) (\<lambda>hi.
     Inr (s\<lparr>sn_system_load_kw := l, sn_generation_kw := g, sn_transformer_loading_pct := tl,
            sn_max_line_loading_pct := ll, sn_min_voltage_pu := lo, sn_max_voltage_pu := hi\<rparr>))))))))"

definition stored_validation :: "validation_row \<Rightarrow> validation_row result" where
  "stored_validation v =
     bindE (varchar 64 (vn_simulation_engine v)) (\<lambda>_.
     bindE (pred_text 64 (vn_engine_version v)) (\<lambda>_.
     bindE (varchar 64 (vn_input_hash v)) (\<lambda>_.
     bindE (nullable (numeric 8 4) (vn_min_voltage_pu v)) (\<lambda>lo.
     bindE (nullable (numeric 8 4) (vn_max_voltage_pu v)) (\<lambda>hi.
     bindE (nullable (numeric 8 3) (vn_max_line_loading_pct v)) (\<lambda>ll.
     bindE (nullable (numeric 8 3) (vn_max_transformer_loading_pct v)) (\<lambda>tl.
     Inr (v\<lparr>vn_min_voltage_pu := lo, vn_max_voltage_pu := hi, vn_max_line_loading_pct := ll,
            vn_max_transformer_loading_pct := tl\<rparr>))))))))"

definition insert_snapshot :: "snapshot_row \<Rightarrow> 'a grid_db_scheme \<Rightarrow> 'a grid_db_scheme result" where
  "insert_snapshot s db =
     bindE (stored_snapshot s) (\<lambda>row.
     bindE (all_checks (snapshot_checks db row)) (\<lambda>_.
     Inr (db\<lparr>t_grid_snapshots := t_grid_snapshots db @ [row]\<rparr>)))"

definition insert_validation :: "validation_row \<Rightarrow> 'a grid_db_scheme \<Rightarrow> 'a grid_db_scheme result" where
  "insert_validation v db =
     bindE (stored_validation v) (\<lambda>row.
     bindE (all_checks (validation_checks db row)) (\<lambda>_.
     Inr (db\<lparr>t_validation_runs := t_validation_runs db @ [row]\<rparr>)))"

section \<open>Queries\<close>

definition head_row :: "'r list \<Rightarrow> 'r option" where
  "head_row rows = (case rows of [] \<Rightarrow> None | r # _ \<Rightarrow> Some r)"

definition latest_for_feeder :: "'a grid_db_scheme \<Rightarrow> string \<Rightarrow> snapshot_row option" where
  "latest_for_feeder db feeder =
     head_row (sort_key (\<lambda>s. - sn_captured_at s)
       (filter (\<lambda>s. sn_feeder_id s = Some feeder) (t_grid_snapshots db)))"

definition list_for_feeder ::
  "'a grid_db_scheme \<Rightarrow> string \<Rightarrow> datetime \<Rightarrow> datetime \<Rightarrow> snapshot_row list" where
  "list_for_feeder db feeder start stop =
     sort_key sn_captured_at
       (filter (\<lambda>s. sn_feeder_id s = Some feeder \<and> start \<le> sn_captured_at s \<and> sn_captured_at s \<le> stop)
         (t_grid_snapshots db))"

definition list_for_trade :: "'a grid_db_scheme \<Rightarrow> uuid \<Rightarrow> validation_row list" where
  "list_for_trade db trade_id =
     sort_key vn_created_at (filter (\<lambda>v. vn_trade_id v = Some trade_id) (t_validation_runs db))"

definition latest_for_trade :: "'a grid_db_scheme \<Rightarrow> uuid \<Rightarrow> validation_row option" where
  "latest_for_trade db trade_id =
     head_row (sort_key (\<lambda>v. - vn_created_at v)
       (filter (\<lambda>v. vn_trade_id v = Some trade_id) (t_validation_runs db)))"

definition find_by_input_hash :: "'a grid_db_scheme \<Rightarrow> string \<Rightarrow> validation_row option" where
  "find_by_input_hash db h =
     head_row (sort_key (\<lambda>v. - vn_created_at v)
       (filter (\<lambda>v. vn_input_hash v = h) (t_validation_runs db)))"

definition count_by_decision :: "'a grid_db_scheme \<Rightarrow> grid_validation_decision \<Rightarrow> nat option" where
  "count_by_decision db d =
     (let n = length (filter (\<lambda>v. vn_decision v = d) (t_validation_runs db))
      in if n = 0 then None else Some n)"

lemma head_row_SomeD: "head_row rows = Some r \<Longrightarrow> r \<in> set rows"
  by (auto simp: head_row_def split: list.splits)

lemma head_row_sorted:
  assumes "head_row (sort_key f rows) = Some r" "q \<in> set rows"
  shows "f r \<le> f q"
proof -
  obtain rs where rs: "sort_key f rows = r # rs"
    using assms(1) by (auto simp: head_row_def split: list.splits)
  have "sorted (map f (r # rs))" using sorted_sort_key [of f rows] by (simp add: rs)
  moreover have "q \<in> set (r # rs)" using assms(2) by (metis rs set_sort)
  ultimately show ?thesis by auto
qed

end
