(* ===== verification/Dynamic_Pricing.thy ===== *)
theory Dynamic_Pricing
  imports Grid_Contract Clearing_Price
begin

text \<open>
  The pricing contract (\<open>backend/app/domain/interfaces/pricing.py\<close>) and the component
  formula behind it (\<open>backend/app/domain/policies/dynamic_pricing.py\<close>): the parameter set
  with the checks its construction makes, the five components, the recommendation and the
  quote. The prose of a component's \<open>reason\<close> is not kept. A delivery start is an instant;
  its hour is read in UTC, the zone of every stored timestamp, plus the parameter's offset.
\<close>

section \<open>The contract's data\<close>

record price_component =
  pc_kind :: price_component_kind
  pc_amount :: decimal

record pricing_request =
  pr_base_price :: decimal
  pr_quantity_kwh :: decimal
  pr_delivery_start :: datetime
  pr_delivery_end :: datetime
  pr_grid_status :: grid_validation_status
  pr_grid_metrics :: "grid_metrics option"
  pr_caused_violations :: "grid_violation list"
  pr_forecast_confidence :: "decimal option"
  pr_local_renewable :: bool
  pr_trade_id :: "uuid option"
  pr_grid_validation_id :: "uuid option"
  pr_forecast_basis_id :: "uuid option"

definition pr_interval :: "pricing_request \<Rightarrow> timedelta" where
  "pr_interval r = pr_delivery_end r - pr_delivery_start r"

record pricing_result =
  px_formula_version :: string
  px_engine :: string
  px_base_market_price :: decimal
  px_time_component :: decimal
  px_congestion_component :: decimal
  px_imbalance_component :: decimal
  px_local_renewable_component :: decimal
  px_final_price :: decimal
  px_components :: "price_component list"
  px_recommended_decision :: grid_validation_decision
  px_grid_status :: grid_validation_status

definition adjustment :: "pricing_result \<Rightarrow> decimal" where
  "adjustment r = px_final_price r - px_base_market_price r"

definition components_sum :: "pricing_result \<Rightarrow> decimal" where
  "components_sum r = px_base_market_price r + px_time_component r + px_congestion_component r
     + px_imbalance_component r + px_local_renewable_component r"

definition is_repriced :: "pricing_result \<Rightarrow> bool" where
  "is_repriced r \<longleftrightarrow> px_recommended_decision r = REPRICE"

section \<open>Parameters\<close>

definition IST :: timedelta where
  "IST = 19800000000"

record tariff_band =
  tb_band :: time_of_day_band
  tb_start_hour :: int
  tb_end_hour :: int
  tb_fraction :: decimal

text \<open>\<open>TariffBand.__post_init__\<close>: a band is built or \<open>ValueError\<close> is raised.\<close>

definition tariff_band_init :: "tariff_band \<Rightarrow> tariff_band result" where
  "tariff_band_init b =
     (if \<not> (0 \<le> tb_start_hour b \<and> tb_start_hour b < 24)
         \<or> \<not> (0 < tb_end_hour b \<and> tb_end_hour b \<le> 24) then Inl PyValueError
      else if tb_start_hour b \<ge> tb_end_hour b then Inl PyValueError
      else Inr b)"

definition contains :: "tariff_band \<Rightarrow> int \<Rightarrow> bool" where
  "contains b hour \<longleftrightarrow> tb_start_hour b \<le> hour \<and> hour < tb_end_hour b"

record pricing_parameters =
  pp_formula_version :: string
  pp_engine_name :: string
  pp_local_utc_offset :: timedelta
  pp_tariff_bands :: "tariff_band list"
  pp_congestion_threshold_pct :: decimal
  pp_congestion_max_fraction :: decimal
  pp_imbalance_fraction_per_uncertainty :: decimal
  pp_unknown_confidence_fraction :: decimal
  pp_local_renewable_fraction :: decimal
  pp_reprice_threshold_fraction :: decimal

definition deepest_discount :: "pricing_parameters \<Rightarrow> decimal" where
  "deepest_discount p =
     pp_local_renewable_fraction p
     + (case pymax_of (map (\<lambda>b. - tb_fraction b)
          (filter (\<lambda>b. tb_fraction b < 0) (pp_tariff_bands p))) of
          None \<Rightarrow> 0 | Some m \<Rightarrow> m)"

text \<open>\<open>PricingParameters.__post_init__\<close>\<close>

definition pricing_parameters_init :: "pricing_parameters \<Rightarrow> pricing_parameters result" where
  "pricing_parameters_init p =
     (if pp_congestion_max_fraction p < 0 \<or> pp_imbalance_fraction_per_uncertainty p < 0
         \<or> pp_unknown_confidence_fraction p < 0 \<or> pp_local_renewable_fraction p < 0
         \<or> pp_reprice_threshold_fraction p < 0 then Inl PyValueError
      else if \<not> (0 < pp_congestion_threshold_pct p \<and> pp_congestion_threshold_pct p < Dec 100 0)
        then Inl PyValueError
      else if deepest_discount p \<ge> 1 then Inl PyValueError
      else if \<not> distinct (map tb_band (pp_tariff_bands p)) then Inl PyValueError
      else Inr p)"

definition DEFAULT_PARAMETERS :: pricing_parameters where
  "DEFAULT_PARAMETERS = \<lparr>
     pp_formula_version = ''1.0.0'',
     pp_engine_name = ''component_pricing'',
     pp_local_utc_offset = IST,
     pp_tariff_bands =
       [\<lparr>tb_band = PEAK, tb_start_hour = 18, tb_end_hour = 22, tb_fraction = Dec 10 (-2)\<rparr>,
        \<lparr>tb_band = Band_SOLAR, tb_start_hour = 9, tb_end_hour = 16, tb_fraction = Dec (-5) (-2)\<rparr>],
     pp_congestion_threshold_pct = Dec 70 0,
     pp_congestion_max_fraction = Dec 25 (-2),
     pp_imbalance_fraction_per_uncertainty = Dec 10 (-2),
     pp_unknown_confidence_fraction = Dec 5 (-2),
     pp_local_renewable_fraction = Dec 5 (-2),
     pp_reprice_threshold_fraction = Dec 2 (-2)\<rparr>"

section \<open>Components\<close>

definition local_hour :: "datetime \<Rightarrow> pricing_parameters \<Rightarrow> int" where
  "local_hour moment p = (moment + pp_local_utc_offset p) div 3600000000 mod 24"

definition band_for :: "datetime \<Rightarrow> pricing_parameters \<Rightarrow> time_of_day_band" where
  "band_for moment p =
     (case find (\<lambda>b. contains b (local_hour moment p)) (pp_tariff_bands p) of
        Some b \<Rightarrow> tb_band b
      | None \<Rightarrow> NORMAL)"

definition time_fraction :: "datetime \<Rightarrow> pricing_parameters \<Rightarrow> decimal" where
  "time_fraction moment p =
     (case find (\<lambda>b. tb_band b = band_for moment p) (pp_tariff_bands p) of
        Some b \<Rightarrow> tb_fraction b
      | None \<Rightarrow> 0)"

definition time_component :: "pricing_request \<Rightarrow> pricing_parameters \<Rightarrow> price_component result" where
  "time_component r p =
     bindE (quantize_price (pr_base_price r * time_fraction (pr_delivery_start r) p)) (\<lambda>a.
       Inr \<lparr>pc_kind = Kind_TIME, pc_amount = a\<rparr>)"

definition utilisation_pct :: "grid_metrics option \<Rightarrow> decimal option" where
  "utilisation_pct m =
     (case m of
        None \<Rightarrow> None
      | Some m \<Rightarrow>
          pymax_of (List.map_filter id [max_line_loading_pct m, max_transformer_loading_pct m]))"

definition congestion_fraction ::
  "grid_validation_status \<Rightarrow> grid_metrics option \<Rightarrow> pricing_parameters \<Rightarrow> decimal result" where
  "congestion_fraction status metrics p =
     (if status = UNSAFE then Inr (pp_congestion_max_fraction p)
      else if status = UNKNOWN then Inr (pp_congestion_max_fraction p)
      else
        (case utilisation_pct metrics of
           None \<Rightarrow> Inr (pp_congestion_max_fraction p)
         | Some loading \<Rightarrow>
             if loading \<le> pp_congestion_threshold_pct p then Inr 0
             else
               (let span = Dec 100 0 - pp_congestion_threshold_pct p;
                    over = pymin loading (Dec 100 0) - pp_congestion_threshold_pct p
                in bindE (ddiv over span) (\<lambda>q. Inr (pp_congestion_max_fraction p * q)))))"

definition congestion_component ::
  "pricing_request \<Rightarrow> pricing_parameters \<Rightarrow> price_component result" where
  "congestion_component r p =
     bindE (congestion_fraction (pr_grid_status r) (pr_grid_metrics r) p) (\<lambda>fraction.
     bindE (quantize_price (pr_base_price r * fraction)) (\<lambda>a.
       Inr \<lparr>pc_kind = Kind_CONGESTION, pc_amount = a\<rparr>))"

definition imbalance_fraction :: "decimal option \<Rightarrow> pricing_parameters \<Rightarrow> decimal" where
  "imbalance_fraction confidence p =
     (case confidence of
        None \<Rightarrow> pp_unknown_confidence_fraction p
      | Some c \<Rightarrow> (1 - pymin (pymax c 0) 1) * pp_imbalance_fraction_per_uncertainty p)"

definition imbalance_component ::
  "pricing_request \<Rightarrow> pricing_parameters \<Rightarrow> price_component result" where
  "imbalance_component r p =
     bindE (quantize_price (pr_base_price r * imbalance_fraction (pr_forecast_confidence r) p)) (\<lambda>a.
       Inr \<lparr>pc_kind = Kind_IMBALANCE, pc_amount = a\<rparr>)"

definition local_renewable_component ::
  "pricing_request \<Rightarrow> pricing_parameters \<Rightarrow> price_component result" where
  "local_renewable_component r p =
     (if \<not> pr_local_renewable r then
        bindE (quantize_price 0) (\<lambda>a. Inr \<lparr>pc_kind = Kind_LOCAL_RENEWABLE, pc_amount = a\<rparr>)
      else
        bindE (quantize_price (pr_base_price r * pp_local_renewable_fraction p)) (\<lambda>a.
          Inr \<lparr>pc_kind = Kind_LOCAL_RENEWABLE, pc_amount = - a\<rparr>))"

section \<open>Recommendation and quote\<close>

definition recommend ::
  "grid_validation_status \<Rightarrow> decimal \<Rightarrow> decimal \<Rightarrow> pricing_parameters
     \<Rightarrow> grid_validation_decision result" where
  "recommend status base_price congestion p =
     (if \<not> permits_trade status then Inr REJECT
      else if base_price \<le> 0 \<or> congestion \<le> 0 then Inr ACCEPT
      else bindE (ddiv congestion base_price) (\<lambda>q.
        if q > pp_reprice_threshold_fraction p then Inr REPRICE else Inr ACCEPT))"

definition quote :: "pricing_parameters \<Rightarrow> pricing_request \<Rightarrow> pricing_result result" where
  "quote p r =
     bindE (guardE (\<not> pr_base_price r < 0) PyValueError) (\<lambda>_.
     bindE (quantize_price (pr_base_price r)) (\<lambda>base.
     bindE (time_component r p) (\<lambda>time_part.
     bindE (congestion_component r p) (\<lambda>congestion_part.
     bindE (imbalance_component r p) (\<lambda>imbalance_part.
     bindE (local_renewable_component r p) (\<lambda>renewable_part.
     let final = base + pc_amount time_part + pc_amount congestion_part
           + pc_amount imbalance_part + pc_amount renewable_part;
         base_part = \<lparr>pc_kind = Kind_BASE, pc_amount = base\<rparr>
     in bindE (recommend (pr_grid_status r) base (pc_amount congestion_part) p) (\<lambda>decision.
       Inr \<lparr>px_formula_version = pp_formula_version p,
            px_engine = pp_engine_name p,
            px_base_market_price = base,
            px_time_component = pc_amount time_part,
            px_congestion_component = pc_amount congestion_part,
            px_imbalance_component = pc_amount imbalance_part,
            px_local_renewable_component = pc_amount renewable_part,
            px_final_price = final,
            px_components = [base_part, time_part, congestion_part, imbalance_part, renewable_part],
            px_recommended_decision = decision,
            px_grid_status = pr_grid_status r\<rparr>)))))))"

lemma default_parameters_valid:
  "pricing_parameters_init DEFAULT_PARAMETERS = Inr DEFAULT_PARAMETERS"
  by code_simp

section \<open>What the properties assume of parameters\<close>

text \<open>
  Parameters as a tariff schedule states them: the construction's checks pass, and the
  fractions have at most ten decimals and stay below a hundredfold. The default set does.
\<close>

definition fraction_ok :: "decimal \<Rightarrow> bool" where
  "fraction_ok f \<longleftrightarrow> grid 10 (val f) \<and> \<bar>val f\<bar> \<le> 100"

definition params_ok :: "pricing_parameters \<Rightarrow> bool" where
  "params_ok p \<longleftrightarrow> pricing_parameters_init p = Inr p
     \<and> list_all (\<lambda>b. fraction_ok (tb_fraction b)) (pp_tariff_bands p)
     \<and> fraction_ok (pp_congestion_threshold_pct p)
     \<and> fraction_ok (pp_congestion_max_fraction p)
     \<and> fraction_ok (pp_imbalance_fraction_per_uncertainty p)
     \<and> fraction_ok (pp_unknown_confidence_fraction p)
     \<and> fraction_ok (pp_local_renewable_fraction p)"

lemma fraction_ok_Dec [simp]:
  "fraction_ok (Dec c (- 2)) \<longleftrightarrow> \<bar>c\<bar> \<le> 10000" "fraction_ok (Dec c 0) \<longleftrightarrow> \<bar>c\<bar> \<le> 100"
proof -
  have v: "val (Dec c (- 2)) = of_int c / 10 ^ 2" "val (Dec c 0) = of_int c / 10 ^ 0"
    by (simp_all add: val_def power_int_def field_simps)
  have g: "grid 10 (val (Dec c (- 2)))" "grid 10 (val (Dec c 0))"
    using grid_weaken [OF grid_of_int [of 2 c], of 10] grid_weaken [OF grid_of_int [of 0 c], of 10]
    by (simp_all add: v)
  have "\<bar>of_int c / 10 ^ 2 :: rat\<bar> \<le> 100 \<longleftrightarrow> of_int \<bar>c\<bar> \<le> (of_int 10000 :: rat)"
    by (simp add: abs_divide)
  then show "fraction_ok (Dec c (- 2)) \<longleftrightarrow> \<bar>c\<bar> \<le> 10000"
    using g by (simp only: fraction_ok_def v of_int_le_iff simp_thms)
  have "\<bar>of_int c / 10 ^ 0 :: rat\<bar> \<le> 100 \<longleftrightarrow> of_int \<bar>c\<bar> \<le> (of_int 100 :: rat)"
    by simp
  then show "fraction_ok (Dec c 0) \<longleftrightarrow> \<bar>c\<bar> \<le> 100"
    using g by (simp only: fraction_ok_def v of_int_le_iff simp_thms)
qed

lemma default_params_ok: "params_ok DEFAULT_PARAMETERS"
  using default_parameters_valid by (simp add: params_ok_def) (simp add: DEFAULT_PARAMETERS_def)

lemma fraction_ok_rep28: "fraction_ok f \<Longrightarrow> rep28 (val f)"
  by (rule rep28_grid [of 10]) (auto simp: fraction_ok_def)

lemma params_okD:
  assumes "params_ok p"
  shows "0 \<le> val (pp_congestion_max_fraction p)" "0 \<le> val (pp_imbalance_fraction_per_uncertainty p)"
    "0 \<le> val (pp_unknown_confidence_fraction p)" "0 \<le> val (pp_local_renewable_fraction p)"
    "0 < val (pp_congestion_threshold_pct p)" "val (pp_congestion_threshold_pct p) < 100"
    "val (deepest_discount p) < 1"
  using assms by (auto simp: params_ok_def pricing_parameters_init_def val_simps not_less
      val_def [of "Dec _ _"] split: if_splits)

lemma fraction_ok_uminus: "fraction_ok f \<Longrightarrow> fraction_ok (- f) \<and> val (- f) = - val f"
  by (auto simp: fraction_ok_rep28 val_uminus rep28_uminus fraction_ok_def grid_uminus)

lemma fraction_ok_plus:
  assumes "fraction_ok f" "fraction_ok g"
  shows "val (f + g) = val f + val g"
proof (intro val_plus rep28_grid [of 10] grid_plus)
  have "\<bar>val f + val g\<bar> \<le> 200"
    using assms abs_triangle_ineq [of "val f" "val g"] by (simp add: fraction_ok_def)
  then show "\<bar>val f + val g\<bar> * 10 ^ 10 < 10 ^ 28" by simp
qed (use assms in \<open>simp_all add: fraction_ok_def\<close>)

lemma time_fraction_cases:
  "time_fraction moment p = 0 \<or> (\<exists>b \<in> set (pp_tariff_bands p). time_fraction moment p = tb_fraction b)"
  by (auto simp: time_fraction_def find_Some_iff split: option.splits)

lemma time_fraction_ok:
  assumes "params_ok p"
  shows "fraction_ok (time_fraction moment p)"
proof -
  have "fraction_ok 0" using fraction_ok_Dec(2) [of 0] by (simp add: zero_decimal_def)
  with time_fraction_cases [of moment p] assms show ?thesis
    by (auto simp: params_ok_def list_all_iff)
qed

text \<open>No combination of discounts is deeper than the one the construction checks.\<close>

lemma discounts_le:
  assumes "params_ok p"
  shows "val (pp_local_renewable_fraction p) - min 0 (val (time_fraction moment p))
    \<le> val (deepest_discount p)"
proof -
  let ?f = "time_fraction moment p" and ?l = "pp_local_renewable_fraction p"
  let ?ds = "map (\<lambda>b. - tb_fraction b) (filter (\<lambda>b. tb_fraction b < 0) (pp_tariff_bands p))"
  have l: "fraction_ok ?l" and bands: "\<forall>b \<in> set (pp_tariff_bands p). fraction_ok (tb_fraction b)"
    using assms by (simp_all add: params_ok_def list_all_iff)
  have ds: "fraction_ok d \<and> 0 \<le> val d" if "d \<in> set ?ds" for d
    using that bands fraction_ok_uminus by (auto simp: val_simps)
  show ?thesis
  proof (cases "pymax_of ?ds")
    case None
    then have "?ds = []" unfolding pymax_of_None .
    then have "\<not> val ?f < 0"
      using time_fraction_cases [of moment p] by (auto simp: filter_empty_conv val_simps)
    moreover have "val (deepest_discount p) = val ?l"
      using l fraction_ok_Dec(2) [of 0]
      by (simp add: deepest_discount_def None fraction_ok_plus flip: zero_decimal_def)
    ultimately show ?thesis by simp
  next
    case (Some m)
    note m = pymax_of_Some [OF Some]
    have "- min 0 (val ?f) \<le> val m"
    proof (cases "val ?f < 0")
      case True
      then obtain b where b: "b \<in> set (pp_tariff_bands p)" "?f = tb_fraction b"
        using time_fraction_cases [of moment p] by auto
      with True have "- ?f \<in> set ?ds" by (auto simp: val_simps)
      with m have "val (- ?f) \<le> val m" by blast
      then show ?thesis using True b bands fraction_ok_uminus by simp
    qed (use m ds in simp)
    moreover have "val (deepest_discount p) = val ?l + val m"
      using l m ds by (simp add: deepest_discount_def Some fraction_ok_plus)
    ultimately show ?thesis by simp
  qed
qed

lemma congestion_fraction_returns:
  assumes "params_ok p"
  obtains f where "congestion_fraction status metrics p = Inr f" "0 \<le> val f"
    "val f \<le> val (pp_congestion_max_fraction p)"
    "status \<noteq> SAFE \<Longrightarrow> f = pp_congestion_max_fraction p"
proof (cases "status = SAFE")
  case False
  with params_okD [OF assms] show thesis
    by (intro that [of "pp_congestion_max_fraction p"]) (cases status; simp add: congestion_fraction_def)+
next
  case True
  show thesis
  proof (cases "utilisation_pct metrics")
    case None
    with True params_okD [OF assms] show thesis
      by (intro that [of "pp_congestion_max_fraction p"]) (simp_all add: congestion_fraction_def)
  next
    case (Some l)
    show thesis
    proof (cases "l \<le> pp_congestion_threshold_pct p")
      case below: True
      with True Some params_okD [OF assms] show thesis
        by (intro that [of 0]) (simp_all add: congestion_fraction_def)
    next
      case False
      let ?t = "pp_congestion_threshold_pct p" and ?m = "pp_congestion_max_fraction p"
      let ?span = "Dec 100 0 - ?t" and ?over = "pymin l (Dec 100 0) - ?t"
      have h: "val (Dec 100 0) = 100" by (simp add: val_def)
      have ok: "fraction_ok ?t" "fraction_ok ?m" using assms by (simp_all add: params_ok_def)
      have "rep28 (100 - val ?t)"
        using ok(1) grid_of_int [of 10 "100 * 10 ^ 10"] params_okD(5,6) [OF assms]
        by (intro rep28_grid [of 10] grid_minus) (simp_all add: fraction_ok_def)
      then have span: "val ?span = 100 - val ?t" by (simp add: val_minus h)
      have "val ?t \<le> val (pymin l (Dec 100 0))" "val (pymin l (Dec 100 0)) \<le> 100"
        using False params_okD(6) [OF assms] by (simp_all add: val_simps h)
      then have over: "0 \<le> val ?over" "val ?over \<le> val ?span"
        using rounds_to_nonneg [OF minus_rounds] rounds_to_le [OF minus_rounds \<open>rep28 (100 - val ?t)\<close>]
        by (simp_all add: span)
      have pos: "0 < val ?span" using params_okD(6) [OF assms] by (simp add: span)
      then obtain q where q: "ddiv ?over ?span = Inr q" "rounds_to (val ?over / val ?span) (val q)"
        using ddiv_rounds by (metis less_irrefl)
      have "0 \<le> val ?over / val ?span" "val ?over / val ?span \<le> 1"
        using over pos by simp_all
      with q(2) have qb: "0 \<le> val q" "val q \<le> 1"
        by (auto intro: rounds_to_nonneg rounds_to_le)
      have m0: "0 \<le> val ?m" by (rule params_okD(1) [OF assms])
      have "val (?m * q) \<le> val ?m"
        using qb m0 by (intro rounds_to_le [OF times_rounds fraction_ok_rep28 [OF ok(2)]])
          (simp add: mult_left_le)
      moreover have "0 \<le> val (?m * q)" using m0 qb by (simp add: times_nonneg)
      ultimately show thesis
        using True Some False q(1)
        by (intro that [of "?m * q"]) (simp_all add: congestion_fraction_def)
    qed
  qed
qed

section \<open>The quote\<close>

lemma amount_returns:
  assumes "stored_price b" and "\<bar>val f\<bar> \<le> 100"
  obtains a where "quantize_price (b * f) = Inr a" "val a = round_half_up 4 (val (b * f))"
    "\<bar>val (b * f)\<bar> \<le> 10 ^ 10" "\<bar>val a\<bar> \<le> 10 ^ 10" "grid 4 (val a)"
    "0 \<le> val f \<Longrightarrow> 0 \<le> val a" "val f \<le> 0 \<Longrightarrow> val a \<le> 0"
proof -
  have b: "0 \<le> val b" "val b \<le> 10 ^ 8" using assms(1) by (simp_all add: stored_price_def)
  have "\<bar>val b * val f\<bar> \<le> 10 ^ 8 * 100"
    unfolding abs_mult using b assms(2) by (intro mult_mono) simp_all
  then have m: "val b * val f \<le> 10 ^ 10" "- (10 ^ 10) \<le> val b * val f" by (simp_all add: abs_le_iff)
  have rep: "rep28 (10 ^ 10)" "rep28 (- (10 ^ 10))"
    using rep28_int [of "10 ^ 10"] by (simp_all add: rep28_uminus)
  have le: "\<bar>val (b * f)\<bar> \<le> 10 ^ 10"
    using rounds_to_le [OF times_rounds rep(1) m(1)] rounds_to_ge [OF times_rounds rep(2) m(2)]
    by (simp add: abs_le_iff)
  then have "\<bar>val (b * f)\<bar> \<le> 10 ^ 20" by simp
  then obtain a where a: "quantize_price (b * f) = Inr a" "val a = round_half_up 4 (val (b * f))"
    by (rule quantize_price_total)
  have g: "grid 4 (10 ^ 10)" "grid 4 (- (10 ^ 10))"
    using grid_of_int [of 4 "10 ^ 14"] grid_uminus [of 4 "10 ^ 10"] by simp_all
  have "\<bar>val a\<bar> \<le> 10 ^ 10"
    using le round_half_up_mono [of "val (b * f)" "10 ^ 10" 4]
      round_half_up_mono [of "- (10 ^ 10)" "val (b * f)" 4] g
    by (simp add: a(2) abs_le_iff round_half_up_id)
  moreover have "0 \<le> val f \<Longrightarrow> 0 \<le> val a"
    using b by (simp add: a(2) round_half_up_nonneg times_nonneg)
  moreover have "val f \<le> 0 \<Longrightarrow> val a \<le> 0"
    using b by (simp add: a(2) round_half_up_nonpos times_nonpos)
  ultimately show thesis using a le by (intro that [of a]) simp_all
qed

lemma imbalance_fraction_bounds:
  assumes "params_ok p"
  shows "0 \<le> val (imbalance_fraction c p)" "val (imbalance_fraction c p) \<le> 100"
proof -
  have m: "fraction_ok (pp_imbalance_fraction_per_uncertainty p)"
    "fraction_ok (pp_unknown_confidence_fraction p)"
    using assms by (simp_all add: params_ok_def)
  have "0 \<le> val (imbalance_fraction c p) \<and> val (imbalance_fraction c p) \<le> 100"
  proof (cases c)
    case None
    then show ?thesis using m(2) params_okD(3) [OF assms]
      by (simp add: imbalance_fraction_def fraction_ok_def abs_le_iff)
  next
    case (Some x)
    let ?u = "1 - pymin (pymax x 0) 1" and ?k = "pp_imbalance_fraction_per_uncertainty p"
    have u: "0 \<le> val ?u" "val ?u \<le> 1"
      by (rule rounds_to_nonneg [OF minus_rounds], simp add: val_simps)
        (rule rounds_to_le [OF minus_rounds rep28_one], simp add: val_simps)
    have k: "0 \<le> val ?k" "val ?k \<le> 100"
      using m(1) params_okD(2) [OF assms] by (simp_all add: fraction_ok_def abs_le_iff)
    have "val ?u * val ?k \<le> 1 * 100" using u k by (intro mult_mono) simp_all
    then have "val (?u * ?k) \<le> 100"
      using rep28_int [of 100] by (intro rounds_to_le [OF times_rounds]) simp_all
    with u k show ?thesis by (simp add: Some imbalance_fraction_def times_nonneg)
  qed
  then show "0 \<le> val (imbalance_fraction c p)" "val (imbalance_fraction c p) \<le> 100" by simp_all
qed

text \<open>Every part of a quote, as numbers.\<close>

definition quote_parts :: "pricing_parameters \<Rightarrow> pricing_request \<Rightarrow> decimal \<Rightarrow> pricing_result \<Rightarrow> bool" where
  "quote_parts p r cf x \<longleftrightarrow>
     congestion_fraction (pr_grid_status r) (pr_grid_metrics r) p = Inr cf
     \<and> 0 \<le> val cf \<and> val cf \<le> val (pp_congestion_max_fraction p)
     \<and> (pr_grid_status r \<noteq> SAFE \<longrightarrow> cf = pp_congestion_max_fraction p)
     \<and> val (px_base_market_price x) = val (pr_base_price r)
     \<and> val (px_time_component x)
         = round_half_up 4 (val (pr_base_price r * time_fraction (pr_delivery_start r) p))
     \<and> val (px_congestion_component x) = round_half_up 4 (val (pr_base_price r * cf))
     \<and> val (px_imbalance_component x)
         = round_half_up 4 (val (pr_base_price r * imbalance_fraction (pr_forecast_confidence r) p))
     \<and> val (px_local_renewable_component x)
         = (if pr_local_renewable r
            then - round_half_up 4 (val (pr_base_price r * pp_local_renewable_fraction p)) else 0)
     \<and> val (px_final_price x) = val (px_base_market_price x) + val (px_time_component x)
         + val (px_congestion_component x) + val (px_imbalance_component x)
         + val (px_local_renewable_component x)
     \<and> recommend (pr_grid_status r) (px_base_market_price x) (px_congestion_component x) p
         = Inr (px_recommended_decision x)
     \<and> px_grid_status x = pr_grid_status r"

lemma recommend_returns: "\<exists>d. recommend status base congestion p = Inr d"
proof (cases "permits_trade status \<and> \<not> (base \<le> 0 \<or> congestion \<le> 0)")
  case True
  then have "0 < val base" by (simp add: val_simps not_le)
  then have "val base \<noteq> 0" by (rule less_imp_neq [THEN not_sym])
  then obtain q where "ddiv congestion base = Inr q" using ddiv_rounds by blast
  with True show ?thesis by (simp add: recommend_def)
qed (auto simp: recommend_def)

lemma exact_sum5:
  assumes "money 1 (val a)" "money 1 (val b)" "money 1 (val c)" "money 1 (val d)" "money 1 (val e)"
  shows "val (a + b + c + d + e) = val a + val b + val c + val d + val e"
proof -
  note b = money_plus [OF assms(1,2)]
  note c = money_plus [OF b(2) assms(3)]
  note d = money_plus [OF c(2) assms(4)]
  note e = money_plus [OF d(2) assms(5)]
  from b(1) c(1) d(1) e(1) show ?thesis by simp
qed

lemma quote_returns:
  assumes p: "params_ok p" and b: "stored_price (pr_base_price r)"
  obtains cf x where "quote p r = Inr x" "quote_parts p r cf x"
    "px_components x = [\<lparr>pc_kind = Kind_BASE, pc_amount = px_base_market_price x\<rparr>,
       \<lparr>pc_kind = Kind_TIME, pc_amount = px_time_component x\<rparr>,
       \<lparr>pc_kind = Kind_CONGESTION, pc_amount = px_congestion_component x\<rparr>,
       \<lparr>pc_kind = Kind_IMBALANCE, pc_amount = px_imbalance_component x\<rparr>,
       \<lparr>pc_kind = Kind_LOCAL_RENEWABLE, pc_amount = px_local_renewable_component x\<rparr>]"
proof -
  let ?b = "pr_base_price r"
  have nn: "\<not> ?b < 0" and bb: "\<bar>val ?b\<bar> \<le> 10 ^ 20" "\<bar>val ?b\<bar> \<le> 10 ^ 10" "grid 4 (val ?b)"
    using b by (simp_all add: stored_price_def val_simps)
  obtain base where base: "quantize_price ?b = Inr base" "val base = round_half_up 4 (val ?b)"
    using bb(1) by (rule quantize_price_total)
  have vb: "val base = val ?b" using bb(3) by (simp add: base(2) round_half_up_id)
  have tf: "\<bar>val (time_fraction (pr_delivery_start r) p)\<bar> \<le> 100"
    using time_fraction_ok [OF p] by (simp add: fraction_ok_def)
  obtain t where t: "quantize_price (?b * time_fraction (pr_delivery_start r) p) = Inr t"
    "val t = round_half_up 4 (val (?b * time_fraction (pr_delivery_start r) p))"
    "\<bar>val t\<bar> \<le> 10 ^ 10" "grid 4 (val t)"
    by (rule amount_returns [OF b tf]) blast
  obtain cf where cf: "congestion_fraction (pr_grid_status r) (pr_grid_metrics r) p = Inr cf"
    "0 \<le> val cf" "val cf \<le> val (pp_congestion_max_fraction p)"
    "pr_grid_status r \<noteq> SAFE \<Longrightarrow> cf = pp_congestion_max_fraction p"
    by (rule congestion_fraction_returns [OF p]) blast
  have "\<bar>val cf\<bar> \<le> 100" using cf(2,3) p by (simp add: params_ok_def fraction_ok_def abs_le_iff)
  then obtain c where c: "quantize_price (?b * cf) = Inr c" "val c = round_half_up 4 (val (?b * cf))"
    "\<bar>val c\<bar> \<le> 10 ^ 10" "grid 4 (val c)"
    by (rule amount_returns [OF b]) blast
  have "\<bar>val (imbalance_fraction (pr_forecast_confidence r) p)\<bar> \<le> 100"
    using imbalance_fraction_bounds [OF p] by (simp add: abs_le_iff)
  then obtain i where i: "quantize_price (?b * imbalance_fraction (pr_forecast_confidence r) p) = Inr i"
    "val i = round_half_up 4 (val (?b * imbalance_fraction (pr_forecast_confidence r) p))"
    "\<bar>val i\<bar> \<le> 10 ^ 10" "grid 4 (val i)"
    by (rule amount_returns [OF b]) blast
  have "\<bar>val (pp_local_renewable_fraction p)\<bar> \<le> 100" using p by (simp add: params_ok_def fraction_ok_def)
  then obtain l where l: "quantize_price (?b * pp_local_renewable_fraction p) = Inr l"
    "val l = round_half_up 4 (val (?b * pp_local_renewable_fraction p))"
    "\<bar>val l\<bar> \<le> 10 ^ 10" "grid 4 (val l)"
    by (rule amount_returns [OF b]) blast
  have "rep28 (- val l)"
    using l(3,4) by (intro rep28_grid [of 4] grid_uminus) simp_all
  then have ul: "val (- l) = - val l" by (rule val_uminus)
  obtain z where z: "quantize_price 0 = Inr z" "val z = 0"
    by (rule quantize_price_total [of 0]) simp_all
  define ren where "ren = (if pr_local_renewable r then - l else z)"
  have ren: "local_renewable_component r p = Inr \<lparr>pc_kind = Kind_LOCAL_RENEWABLE, pc_amount = ren\<rparr>"
    by (simp add: local_renewable_component_def l z ren_def)
  have vr: "val ren = (if pr_local_renewable r
      then - round_half_up 4 (val (?b * pp_local_renewable_fraction p)) else 0)"
    by (simp add: ren_def ul l(2) z(2))
  have rb: "grid 4 (val ren) \<and> \<bar>val ren\<bar> \<le> 10 ^ 10"
    using l(3,4) by (simp add: ren_def ul z(2) grid_uminus)
  obtain d where d: "recommend (pr_grid_status r) base c p = Inr d"
    using recommend_returns by blast
  have sum: "val (base + t + c + i + ren) = val base + val t + val c + val i + val ren"
    by (rule exact_sum5) (use vb bb t c i rb in \<open>simp_all add: money_def\<close>)
  show thesis
    by (rule that [of "\<lparr>px_formula_version = pp_formula_version p, px_engine = pp_engine_name p,
        px_base_market_price = base, px_time_component = t, px_congestion_component = c,
        px_imbalance_component = i, px_local_renewable_component = ren,
        px_final_price = base + t + c + i + ren,
        px_components = [\<lparr>pc_kind = Kind_BASE, pc_amount = base\<rparr>,
          \<lparr>pc_kind = Kind_TIME, pc_amount = t\<rparr>, \<lparr>pc_kind = Kind_CONGESTION, pc_amount = c\<rparr>,
          \<lparr>pc_kind = Kind_IMBALANCE, pc_amount = i\<rparr>,
          \<lparr>pc_kind = Kind_LOCAL_RENEWABLE, pc_amount = ren\<rparr>],
        px_recommended_decision = d, px_grid_status = pr_grid_status r\<rparr>" cf])
      (use nn base(1) t(1) cf(1) c(1) i(1) ren d in
        \<open>simp add: quote_def time_component_def congestion_component_def imbalance_component_def
          Let_def\<close>,
       use cf vb t(2) c(2) i(2) vr sum d in \<open>simp add: quote_parts_def\<close>, simp)
qed

section \<open>The contract of an engine\<close>

text \<open>
  What the pricing service relies on: a result names its engine and formula, echoes the grid
  status it priced, itemises a price that its components add up to, and never gives a trade
  whose grid state is not SAFE the recommendation of one that was cleared.
\<close>

locale pricing_engine =
  fixes quote_price :: "pricing_request \<Rightarrow> pricing_result result"
    and engine_name :: string
    and formula_version :: string
  assumes names: "quote_price r = Inr x \<Longrightarrow>
      px_engine x = engine_name \<and> px_formula_version x = formula_version"
    and adds_up: "quote_price r = Inr x \<Longrightarrow> px_final_price x = components_sum x"
    and echoes: "quote_price r = Inr x \<Longrightarrow> px_grid_status x = pr_grid_status r"
    and cautious: "quote_price r = Inr x \<Longrightarrow> pr_grid_status r \<noteq> SAFE \<Longrightarrow>
      px_recommended_decision x = REJECT"
begin

lemma safe_unless_rejected:
  "quote_price r = Inr x \<Longrightarrow> px_recommended_decision x \<noteq> REJECT \<Longrightarrow> px_grid_status x = SAFE"
  using cautious echoes by metis

lemma unknown_is_not_repriced:
  "quote_price r = Inr x \<Longrightarrow> pr_grid_status r = UNKNOWN \<Longrightarrow> \<not> is_repriced x"
  using cautious by (simp add: is_repriced_def)

end

lemma quoteE:
  assumes "quote p r = Inr x"
  obtains base t c i l where "quantize_price (pr_base_price r) = Inr base"
    "time_component r p = Inr t" "congestion_component r p = Inr c"
    "imbalance_component r p = Inr i" "local_renewable_component r p = Inr l"
    "px_final_price x = base + pc_amount t + pc_amount c + pc_amount i + pc_amount l"
    "recommend (pr_grid_status r) base (pc_amount c) p = Inr (px_recommended_decision x)"
    "px_base_market_price x = base" "px_time_component x = pc_amount t"
    "px_congestion_component x = pc_amount c" "px_imbalance_component x = pc_amount i"
    "px_local_renewable_component x = pc_amount l" "px_grid_status x = pr_grid_status r"
    "px_engine x = pp_engine_name p" "px_formula_version x = pp_formula_version p"
  using assms by (auto simp: quote_def Let_def elim!: bindE_InrE)

interpretation component: pricing_engine "quote p" "pp_engine_name p" "pp_formula_version p" for p
proof
  fix r x assume q: "quote p r = Inr x"
  show "px_engine x = pp_engine_name p \<and> px_formula_version x = pp_formula_version p"
    using q by (rule quoteE) simp
  show "px_final_price x = components_sum x"
    using q by (rule quoteE) (simp add: components_sum_def)
  show "px_grid_status x = pr_grid_status r"
    using q by (rule quoteE) simp
  show "px_recommended_decision x = REJECT" if "pr_grid_status r \<noteq> SAFE"
    using q that by (elim quoteE) (simp add: recommend_def permits_trade_def)
qed

section \<open>The properties\<close>

text \<open>A stored price can always be quoted, and the breakdown adds up exactly: the final price
  is the sum of base, time, congestion, imbalance and local-renewable parts as numbers, with
  no rounding lost, and the itemised components are those five in that order.\<close>

theorem quote_adds_up:
  assumes "params_ok p" and "stored_price (pr_base_price r)"
  shows "\<exists>x. quote p r = Inr x
    \<and> val (px_base_market_price x) = val (pr_base_price r)
    \<and> val (px_final_price x) = val (px_base_market_price x) + val (px_time_component x)
        + val (px_congestion_component x) + val (px_imbalance_component x)
        + val (px_local_renewable_component x)
    \<and> px_final_price x = components_sum x
    \<and> map pc_kind (px_components x)
        = [Kind_BASE, Kind_TIME, Kind_CONGESTION, Kind_IMBALANCE, Kind_LOCAL_RENEWABLE]
    \<and> map pc_amount (px_components x) = [px_base_market_price x, px_time_component x,
        px_congestion_component x, px_imbalance_component x, px_local_renewable_component x]"
proof (rule quote_returns [OF assms], goal_cases)
  case (1 cf x)
  then show ?case using component.adds_up [OF 1(1)] by (auto simp: quote_parts_def)
qed

lemma stored_times_fraction:
  assumes "stored_price b" "fraction_ok f"
  shows "rep28 (val b * val f)"
proof (rule rep28_grid [of "4 + 10"])
  show "grid (4 + 10) (val b * val f)"
    using assms by (intro grid_times) (simp_all add: stored_price_def fraction_ok_def)
  have "\<bar>val b * val f\<bar> \<le> 10 ^ 8 * 100"
    unfolding abs_mult using assms
    by (intro mult_mono) (simp_all add: stored_price_def fraction_ok_def)
  then show "\<bar>val b * val f\<bar> * 10 ^ (4 + 10) < 10 ^ 28" by simp
qed

text \<open>Two roundings of shares of a price that together stay below the price.\<close>

lemma two_shares:
  assumes "grid 4 v" "0 \<le> v" "0 \<le> f" "0 \<le> g" "f + g < 1"
  shows "round_half_up 4 (v * f) + round_half_up 4 (v * g) \<le> v"
    and "0 < v \<Longrightarrow> f + g \<le> 1 / 3 \<Longrightarrow> round_half_up 4 (v * f) + round_half_up 4 (v * g) < v"
proof -
  obtain n where n: "v = of_int n / 10 ^ 4" using assms(1) by (rule gridE)
  let ?R = "\<lambda>h. rhu (of_int n * h)"
  have r: "round_half_up 4 (v * h) = of_int (?R h) / 10 ^ 4" for h
    by (simp add: round_half_up_def n)
  have le: "of_int (?R h) \<le> of_int n * h + 1 / 2" for h
    using abs_le_iff [THEN iffD1, OF rhu_error [of "of_int n * h"]] by linarith
  have sum: "of_int (?R f + ?R g) \<le> of_int n * (f + g) + 1"
    using le [of f] le [of g] by (simp add: distrib_left)
  have n0: "0 \<le> n" using assms(2) by (simp add: n zero_le_divide_iff)
  have "?R f + ?R g \<le> n"
  proof (cases "n = 0")
    case False
    with n0 assms(5) have "of_int n * (f + g) < of_int n * 1" by (intro mult_strict_left_mono) simp_all
    with sum have "(of_int (?R f + ?R g) :: rat) < of_int (n + 1)" by simp
    then show ?thesis by (simp only: of_int_less_iff)
  qed (use rhu_of_int [of 0] in simp)
  then have "(of_int (?R f + ?R g) :: rat) \<le> of_int n" by (simp only: of_int_le_iff)
  then show "round_half_up 4 (v * f) + round_half_up 4 (v * g) \<le> v"
    unfolding r unfolding n by (simp add: divide_right_mono flip: add_divide_distrib)
  show "round_half_up 4 (v * f) + round_half_up 4 (v * g) < v" if "0 < v" "f + g \<le> 1 / 3"
  proof -
    have n1: "0 < n" using that(1) by (simp add: n zero_less_divide_iff)
    have "?R f + ?R g < n"
    proof (cases "n = 1")
      case True
      have "?R h = 0" if "0 \<le> h" "h \<le> 1 / 3" for h
        using that by (simp add: True rhu_def floor_eq_iff)
      with True assms(3,4) that(2) show ?thesis by simp
    next
      case False
      have "of_int n * (f + g) \<le> of_int n * (1 / 3)"
        using n1 that(2) by (intro mult_left_mono) simp_all
      with sum have "(of_int (3 * (?R f + ?R g)) :: rat) \<le> of_int (n + 3)" by simp
      then have "3 * (?R f + ?R g) \<le> n + 3" by (simp only: of_int_le_iff)
      moreover have "2 \<le> n" using False n1 by linarith
      moreover have "S < m" if "3 * S \<le> m + 3" "2 \<le> m" for S m :: int
        using that by linarith
      ultimately show ?thesis by blast
    qed
    then have "(of_int (?R f + ?R g) :: rat) < of_int n" by (simp only: of_int_less_iff)
    then show ?thesis
      unfolding r unfolding n by (simp add: divide_strict_right_mono flip: add_divide_distrib)
  qed
qed

text \<open>The discounts of a quote, as the two shares.\<close>

lemma quote_discounts:
  assumes p: "params_ok p" and b: "stored_price (pr_base_price r)" and q: "quote_parts p r cf x"
  shows "0 \<le> val (px_final_price x)"
    and "0 < val (pr_base_price r) \<Longrightarrow> val (deepest_discount p) \<le> 1 / 3 \<Longrightarrow> 0 < val (px_final_price x)"
proof -
  let ?B = "val (pr_base_price r)" and ?tf = "time_fraction (pr_delivery_start r) p"
    and ?lf = "pp_local_renewable_fraction p"
  define f where "f = - min 0 (val ?tf)"
  have B: "0 \<le> ?B" "grid 4 ?B" using b by (simp_all add: stored_price_def)
  have lf: "fraction_ok ?lf" "0 \<le> val ?lf"
    using p params_okD(4) by (simp_all add: params_ok_def)
  have ex: "val (pr_base_price r * g) = ?B * val g" if "fraction_ok g" for g
    using stored_times_fraction [OF b that] by (rule val_times)
  have deep: "f + val ?lf \<le> val (deepest_discount p)"
    using discounts_le [OF p] by (simp add: f_def)
  have small: "f + val ?lf < 1" using deep params_okD(7) [OF p] by simp
  have f0: "0 \<le> f" by (simp add: f_def)
  have T: "- round_half_up 4 (?B * f) \<le> val (px_time_component x)"
  proof (cases "val ?tf < 0")
    case True
    then show ?thesis
      using q ex [OF time_fraction_ok [OF p]]
      by (simp add: quote_parts_def f_def flip: round_half_up_uminus)
  next
    case False
    then have "f = 0" "0 \<le> round_half_up 4 (?B * val ?tf)"
      using B by (simp_all add: f_def round_half_up_nonneg)
    with q ex [OF time_fraction_ok [OF p]] show ?thesis by (simp add: quote_parts_def)
  qed
  have "0 \<le> round_half_up 4 (?B * val ?lf)" using B lf by (simp add: round_half_up_nonneg)
  then have L: "- round_half_up 4 (?B * val ?lf) \<le> val (px_local_renewable_component x)"
    using q by (simp add: quote_parts_def ex [OF lf(1)])
  have C: "0 \<le> val (px_congestion_component x)" "0 \<le> val (px_imbalance_component x)"
    using q imbalance_fraction_bounds(1) [OF p] B
    by (simp_all add: quote_parts_def round_half_up_nonneg times_nonneg)
  have F: "?B - (round_half_up 4 (?B * f) + round_half_up 4 (?B * val ?lf)) \<le> val (px_final_price x)"
    using q T L C by (simp add: quote_parts_def)
  show "0 \<le> val (px_final_price x)"
    using F two_shares(1) [OF B(2,1) f0 lf(2) small] by simp
  show "0 < val (px_final_price x)" if "0 < ?B" "val (deepest_discount p) \<le> 1 / 3"
    using F two_shares(2) [OF B(2,1) f0 lf(2) small that(1)] deep that(2) by simp
qed

lemma imbalance_fraction_most:
  assumes "params_ok p"
  shows "val (imbalance_fraction c p)
    \<le> (case c of None \<Rightarrow> val (pp_unknown_confidence_fraction p) | Some _ \<Rightarrow> val (pp_imbalance_fraction_per_uncertainty p))"
proof (cases c)
  case (Some x)
  let ?u = "1 - pymin (pymax x 0) 1" and ?k = "pp_imbalance_fraction_per_uncertainty p"
  have "val ?u \<le> 1" by (rule rounds_to_le [OF minus_rounds rep28_one]) (simp add: val_simps)
  then have "val ?u * val ?k \<le> val ?k" using params_okD(2) [OF assms] mult_right_mono [of "val ?u" 1 "val ?k"] by simp
  moreover have "rep28 (val ?k)" using assms by (simp add: params_ok_def fraction_ok_rep28)
  ultimately have "val (?u * ?k) \<le> val ?k" by (intro rounds_to_le [OF times_rounds])
  with Some show ?thesis by (simp add: imbalance_fraction_def)
qed (simp add: imbalance_fraction_def)

text \<open>C20. Each part of the quote for a base price as the tables store it has its sign and its bound.
  The base is the clearing price; the time part is the base times the fraction of a tariff band, or
  zero, to a ten-thousandth; congestion is between zero and the maximum fraction of the base;
  imbalance is between zero and the fraction of the base for an unknown confidence, or for full
  uncertainty when a confidence is given; the local-renewable part takes off its fraction of the base
  from a trade that qualifies and is zero otherwise; and the final price is never negative.\<close>

theorem quote_bounds:
  assumes p: "params_ok p" and b: "stored_price (pr_base_price r)"
  shows "\<exists>x. quote p r = Inr x
    \<and> val (px_base_market_price x) = val (pr_base_price r)
    \<and> (\<exists>f \<in> insert 0 ((\<lambda>band. val (tb_fraction band)) ` set (pp_tariff_bands p)).
         val (px_time_component x) = round_half_up 4 (val (pr_base_price r) * f))
    \<and> 0 \<le> px_congestion_component x
    \<and> val (px_congestion_component x)
        \<le> round_half_up 4 (val (pr_base_price r) * val (pp_congestion_max_fraction p))
    \<and> 0 \<le> px_imbalance_component x
    \<and> val (px_imbalance_component x)
        \<le> round_half_up 4 (val (pr_base_price r) *
             (case pr_forecast_confidence r of None \<Rightarrow> val (pp_unknown_confidence_fraction p)
              | Some _ \<Rightarrow> val (pp_imbalance_fraction_per_uncertainty p)))
    \<and> px_local_renewable_component x \<le> 0
    \<and> val (px_local_renewable_component x)
        = (if pr_local_renewable r then - round_half_up 4 (val (pr_base_price r) * val (pp_local_renewable_fraction p)) else 0)
    \<and> 0 \<le> px_final_price x"
proof (rule quote_returns [OF assms], goal_cases)
  case (1 cf x)
  let ?b = "pr_base_price r" and ?m = "pp_congestion_max_fraction p"
  let ?i = "imbalance_fraction (pr_forecast_confidence r) p" and ?tf = "time_fraction (pr_delivery_start r) p"
  let ?top = "case pr_forecast_confidence r of None \<Rightarrow> pp_unknown_confidence_fraction p
    | Some _ \<Rightarrow> pp_imbalance_fraction_per_uncertainty p"
  have b0: "0 \<le> val ?b" using b by (simp add: stored_price_def)
  have m: "fraction_ok ?m" "fraction_ok ?top" "fraction_ok (pp_local_renewable_fraction p)"
    using p by (simp_all add: params_ok_def split: option.split)
  have cf: "0 \<le> val cf" "val cf \<le> val ?m" using 1(2) by (simp_all add: quote_parts_def)
  have c: "val (?b * cf) \<le> val ?b * val ?m"
    using b0 cf by (intro rounds_to_le [OF times_rounds stored_times_fraction [OF b m(1)]] mult_left_mono)
  have "val ?i \<le> val ?top" using imbalance_fraction_most [OF p, of "pr_forecast_confidence r"] by (simp split: option.splits)
  with b0 have i: "val (?b * ?i) \<le> val ?b * val ?top"
    by (intro rounds_to_le [OF times_rounds stored_times_fraction [OF b m(2)]] mult_left_mono)
  have n: "0 \<le> val (?b * cf)" "0 \<le> val (?b * pp_local_renewable_fraction p)" "0 \<le> val (?b * ?i)"
    using b0 cf params_okD(4) [OF p] imbalance_fraction_bounds(1) [OF p] by (simp_all add: times_nonneg)
  have l: "val (?b * pp_local_renewable_fraction p) = val ?b * val (pp_local_renewable_fraction p)"
    using stored_times_fraction [OF b m(3)] by (rule val_times)
  have t: "val (?b * ?tf) = val ?b * val ?tf" using stored_times_fraction [OF b time_fraction_ok [OF p]] by (rule val_times)
  have "val (0 :: decimal) = 0" by (rule val_zero)
  then have "val ?tf \<in> insert 0 ((\<lambda>band. val (tb_fraction band)) ` set (pp_tariff_bands p))"
    using time_fraction_cases [of "pr_delivery_start r" p] by (metis (no_types, lifting) image_eqI insertCI)
  with 1(2) t have time: "\<exists>f \<in> insert 0 ((\<lambda>band. val (tb_fraction band)) ` set (pp_tariff_bands p)).
      val (px_time_component x) = round_half_up 4 (val ?b * f)"
    unfolding quote_parts_def by (intro bexI [of _ "val ?tf"]) simp_all
  have top: "val ?top = (case pr_forecast_confidence r of None \<Rightarrow> val (pp_unknown_confidence_fraction p)
              | Some _ \<Rightarrow> val (pp_imbalance_fraction_per_uncertainty p))" by (simp split: option.split)
  show ?case
    using 1(1,2) quote_discounts(1) [OF p b 1(2)] n time c i
    by (intro exI [of _ x]) (simp add: quote_parts_def less_eq_decimal_val val_zero l top round_half_up_mono round_half_up_nonneg)
qed

text \<open>With discounts of at most a third together (the default set's are a tenth), a positive
  price stays positive whatever the grid, the forecast and the delivery window.\<close>

theorem quote_positive:
  assumes "params_ok p" and "stored_price (pr_base_price r)" and "0 < pr_base_price r"
    and "val (deepest_discount p) \<le> 1 / 3"
  shows "\<exists>x. quote p r = Inr x \<and> 0 < px_final_price x"
proof (rule quote_returns [OF assms(1,2)], goal_cases)
  case (1 cf x)
  then show ?case using quote_discounts(2) [OF assms(1,2) 1(2)] assms(3,4) by (auto simp: val_simps)
qed

text \<open>C37. What is not known to be safe is never cheaper: the same trade priced with an UNKNOWN or
  UNSAFE grid state costs at least what it costs with a SAFE one, whatever was measured.\<close>

theorem quote_unknown_not_cheaper:
  assumes p: "params_ok p" and b: "stored_price (pr_base_price r)" and "status \<noteq> SAFE"
  shows "\<exists>x y. quote p (r\<lparr>pr_grid_status := SAFE, pr_grid_metrics := m\<rparr>) = Inr x
    \<and> quote p (r\<lparr>pr_grid_status := status, pr_grid_metrics := m'\<rparr>) = Inr y
    \<and> px_final_price x \<le> px_final_price y"
proof -
  let ?s = "r\<lparr>pr_grid_status := SAFE, pr_grid_metrics := m\<rparr>"
    and ?u = "r\<lparr>pr_grid_status := status, pr_grid_metrics := m'\<rparr>"
    and ?b = "pr_base_price r" and ?max = "pp_congestion_max_fraction p"
  obtain cs x where s: "quote p ?s = Inr x" "quote_parts p ?s cs x"
    by (rule quote_returns [OF p, of ?s]) (use b in auto)
  obtain cu y where u: "quote p ?u = Inr y" "quote_parts p ?u cu y"
    by (rule quote_returns [OF p, of ?u]) (use b in auto)
  have m: "fraction_ok ?max" using p by (simp add: params_ok_def)
  have rep: "rep28 (val ?b * val ?max)" by (rule stored_times_fraction [OF b m])
  have "cu = ?max" using u(2) assms(3) by (simp add: quote_parts_def)
  have "val ?b * val cs \<le> val ?b * val ?max"
    using s(2) b by (intro mult_left_mono) (simp_all add: quote_parts_def stored_price_def)
  then have "val (?b * cs) \<le> val (?b * cu)"
    by (simp add: \<open>cu = ?max\<close> val_times [OF rep] rounds_to_le [OF times_rounds rep])
  then have "val (px_congestion_component x) \<le> val (px_congestion_component y)"
    using s(2) u(2) by (simp add: quote_parts_def round_half_up_mono)
  then have "px_final_price x \<le> px_final_price y"
    using s(2) u(2) by (simp add: quote_parts_def val_simps)
  with s(1) u(1) show ?thesis by blast
qed

text \<open>The recommendation: a trade whose grid state is not SAFE is always REJECT, a SAFE one is
  ACCEPT or REPRICE, and REPRICE means that the congestion part exceeds the threshold share of
  the base price.\<close>

theorem quote_recommendation:
  assumes p: "params_ok p" and b: "stored_price (pr_base_price r)"
    and t: "fraction_ok (pp_reprice_threshold_fraction p)"
  shows "\<exists>x. quote p r = Inr x
    \<and> (pr_grid_status r \<noteq> SAFE \<longleftrightarrow> px_recommended_decision x = REJECT)
    \<and> px_recommended_decision x \<in> {ACCEPT, REPRICE, REJECT}
    \<and> (px_recommended_decision x = REPRICE \<longrightarrow>
         val (pp_reprice_threshold_fraction p) * val (px_base_market_price x)
           < val (px_congestion_component x))"
proof (rule quote_returns [OF p b], goal_cases)
  case (1 cf x)
  let ?t = "pp_reprice_threshold_fraction p" and ?B = "px_base_market_price x"
    and ?C = "px_congestion_component x"
  have rec: "recommend (pr_grid_status r) ?B ?C p = Inr (px_recommended_decision x)"
    using 1(2) by (simp add: quote_parts_def)
  have "val ?t * val ?B < val ?C" if re: "px_recommended_decision x = REPRICE"
  proof -
    from rec re obtain q where q: "ddiv ?C ?B = Inr q" "?t < q" "0 < val ?B"
      by (auto simp: recommend_def val_simps split: if_splits elim!: bindE_InrE)
    then have "rounds_to (val ?C / val ?B) (val q)" by (auto elim: ddivE)
    then have "\<not> val ?C / val ?B \<le> val ?t"
      using rounds_to_le [OF _ fraction_ok_rep28 [OF t]] q(2) by (force simp: val_simps)
    with q(3) show ?thesis by (simp add: field_simps)
  qed
  moreover have "pr_grid_status r \<noteq> SAFE \<longleftrightarrow> px_recommended_decision x = REJECT"
    "px_recommended_decision x \<in> {ACCEPT, REPRICE, REJECT}"
    using rec by (auto simp: recommend_def permits_trade_def split: if_splits elim!: bindE_InrE)
  ultimately show ?case using 1(1) by blast
qed

section \<open>Concrete quotes\<close>

definition demo_quote_request :: "grid_validation_status \<Rightarrow> decimal \<Rightarrow> pricing_request" where
  "demo_quote_request status base = \<lparr>pr_base_price = base, pr_quantity_kwh = Dec 2 0,
     pr_delivery_start = 50400000000, pr_delivery_end = 51300000000,
     pr_grid_status = status,
     pr_grid_metrics = Some \<lparr>min_voltage_pu = None, max_voltage_pu = None,
       max_line_loading_pct = Some (Dec 85 0), max_transformer_loading_pct = None\<rparr>,
     pr_caused_violations = [], pr_forecast_confidence = Some (Dec 85 (-2)),
     pr_local_renewable = True, pr_trade_id = None, pr_grid_validation_id = None,
     pr_forecast_basis_id = None\<rparr>"

definition demo_quote_result :: pricing_result where
  "demo_quote_result = \<lparr>px_formula_version = ''1.0.0'', px_engine = ''component_pricing'',
     px_base_market_price = Dec 50000 (-4), px_time_component = Dec 5000 (-4),
     px_congestion_component = Dec 6250 (-4), px_imbalance_component = Dec 750 (-4),
     px_local_renewable_component = Dec (-2500) (-4), px_final_price = Dec 59500 (-4),
     px_components = [\<lparr>pc_kind = Kind_BASE, pc_amount = Dec 50000 (-4)\<rparr>,
       \<lparr>pc_kind = Kind_TIME, pc_amount = Dec 5000 (-4)\<rparr>,
       \<lparr>pc_kind = Kind_CONGESTION, pc_amount = Dec 6250 (-4)\<rparr>,
       \<lparr>pc_kind = Kind_IMBALANCE, pc_amount = Dec 750 (-4)\<rparr>,
       \<lparr>pc_kind = Kind_LOCAL_RENEWABLE, pc_amount = Dec (-2500) (-4)\<rparr>],
     px_recommended_decision = REPRICE, px_grid_status = SAFE\<rparr>"

text \<open>A quote from its evaluated pieces; each piece evaluates by itself.\<close>

lemma quote_pieces:
  assumes "\<not> pr_base_price r < 0" "quantize_price (pr_base_price r) = Inr base"
    "time_component r p = Inr t" "congestion_component r p = Inr c"
    "imbalance_component r p = Inr i" "local_renewable_component r p = Inr l"
    "recommend (pr_grid_status r) base (pc_amount c) p = Inr d"
  shows "quote p r = Inr \<lparr>px_formula_version = pp_formula_version p, px_engine = pp_engine_name p,
    px_base_market_price = base, px_time_component = pc_amount t,
    px_congestion_component = pc_amount c, px_imbalance_component = pc_amount i,
    px_local_renewable_component = pc_amount l,
    px_final_price = base + pc_amount t + pc_amount c + pc_amount i + pc_amount l,
    px_components = [\<lparr>pc_kind = Kind_BASE, pc_amount = base\<rparr>, t, c, i, l],
    px_recommended_decision = d, px_grid_status = pr_grid_status r\<rparr>"
  using assms by (simp add: quote_def Let_def)

lemma demo_pieces:
  "\<not> pr_base_price (demo_quote_request SAFE (Dec 50000 (-4))) < 0"
  "quantize_price (pr_base_price (demo_quote_request SAFE (Dec 50000 (-4)))) = Inr (Dec 50000 (-4))"
  "time_component (demo_quote_request SAFE (Dec 50000 (-4))) DEFAULT_PARAMETERS
     = Inr \<lparr>pc_kind = Kind_TIME, pc_amount = Dec 5000 (-4)\<rparr>"
  "congestion_component (demo_quote_request SAFE (Dec 50000 (-4))) DEFAULT_PARAMETERS
     = Inr \<lparr>pc_kind = Kind_CONGESTION, pc_amount = Dec 6250 (-4)\<rparr>"
  "imbalance_component (demo_quote_request SAFE (Dec 50000 (-4))) DEFAULT_PARAMETERS
     = Inr \<lparr>pc_kind = Kind_IMBALANCE, pc_amount = Dec 750 (-4)\<rparr>"
  "local_renewable_component (demo_quote_request SAFE (Dec 50000 (-4))) DEFAULT_PARAMETERS
     = Inr \<lparr>pc_kind = Kind_LOCAL_RENEWABLE, pc_amount = Dec (-2500) (-4)\<rparr>"
  "recommend SAFE (Dec 50000 (-4)) (Dec 6250 (-4)) DEFAULT_PARAMETERS = Inr REPRICE"
  "Dec 50000 (-4) + Dec 5000 (-4) + Dec 6250 (-4) + Dec 750 (-4) + Dec (-2500) (-4)
     = Dec 59500 (-4)"
  by code_simp+

lemma demo_quote:
  "quote DEFAULT_PARAMETERS (demo_quote_request SAFE (Dec 50000 (-4))) = Inr demo_quote_result"
proof -
  have "pr_grid_status (demo_quote_request SAFE (Dec 50000 (-4))) = SAFE"
    by (simp add: demo_quote_request_def)
  with quote_pieces [OF demo_pieces(1-6)] demo_pieces(7,8) show ?thesis
    by (simp add: demo_quote_result_def DEFAULT_PARAMETERS_def)
qed

lemma demo_stored: "stored_price (pr_base_price (demo_quote_request s (Dec 50000 (-4))))"
  by (simp add: demo_quote_request_def)

theorem quote_adds_up_witness:
  "val (px_final_price demo_quote_result) = val (Dec 50000 (-4)) + val (Dec 5000 (-4))
     + val (Dec 6250 (-4)) + val (Dec 750 (-4)) + val (Dec (-2500) (-4))"
  using quote_adds_up [OF default_params_ok demo_stored [of SAFE]]
  by (simp add: demo_quote) (simp add: demo_quote_result_def)

theorem quote_bounds_witness:
  "0 \<le> px_final_price demo_quote_result \<and> val (px_imbalance_component demo_quote_result) \<le> 1 / 2"
proof -
  let ?r = "demo_quote_request SAFE (Dec 50000 (-4))"
  have r: "val (pr_base_price ?r) = 5" "pr_forecast_confidence ?r = Some (Dec 85 (-2))"
    "val (pp_imbalance_fraction_per_uncertainty DEFAULT_PARAMETERS) = 1 / 10"
    by (simp_all add: demo_quote_request_def DEFAULT_PARAMETERS_def val_def [of "Dec _ _"] power_int_minus)
  have "grid 4 (1 / 2 :: rat)" by (simp add: grid_def)
  with quote_bounds [OF default_params_ok demo_stored [of SAFE]] r show ?thesis
    by (auto simp: demo_quote round_half_up_id)
qed

theorem quote_positive_witness: "0 < px_final_price demo_quote_result"
proof -
  have "deepest_discount DEFAULT_PARAMETERS = Dec 10 (-2)" by code_simp
  then have "val (deepest_discount DEFAULT_PARAMETERS) \<le> 1 / 3"
    using val_def [of "Dec 10 (-2)"] by (simp add: power_int_def field_simps)
  moreover have "0 < pr_base_price (demo_quote_request SAFE (Dec 50000 (-4)))"
    by (simp add: demo_quote_request_def val_simps val_Dec4)
  ultimately show ?thesis
    using quote_positive [OF default_params_ok demo_stored [of SAFE]] by (simp add: demo_quote)
qed

theorem quote_unknown_not_cheaper_witness:
  "\<exists>y. quote DEFAULT_PARAMETERS (demo_quote_request UNKNOWN (Dec 50000 (-4))) = Inr y
     \<and> px_final_price demo_quote_result \<le> px_final_price y"
proof -
  let ?r = "demo_quote_request SAFE (Dec 50000 (-4))"
  have "?r\<lparr>pr_grid_status := UNKNOWN, pr_grid_metrics := pr_grid_metrics ?r\<rparr>
      = demo_quote_request UNKNOWN (Dec 50000 (-4))"
    "?r\<lparr>pr_grid_status := SAFE, pr_grid_metrics := pr_grid_metrics ?r\<rparr> = ?r"
    by (simp_all add: demo_quote_request_def)
  with quote_unknown_not_cheaper [OF default_params_ok demo_stored [of SAFE], of UNKNOWN
      "pr_grid_metrics ?r" "pr_grid_metrics ?r"]
  show ?thesis by (simp only: demo_quote sum.inject) auto
qed

theorem quote_recommendation_witness:
  "val (Dec 2 (-2)) * val (Dec 50000 (-4)) < val (Dec 6250 (-4))"
proof -
  have "fraction_ok (pp_reprice_threshold_fraction DEFAULT_PARAMETERS)"
    by (simp add: DEFAULT_PARAMETERS_def)
  from quote_recommendation [OF default_params_ok demo_stored [of SAFE] this] show ?thesis
    by (simp add: demo_quote) (simp add: demo_quote_result_def DEFAULT_PARAMETERS_def)
qed

definition steep_parameters :: "decimal \<Rightarrow> pricing_parameters" where
  "steep_parameters renewable = DEFAULT_PARAMETERS\<lparr>
     pp_tariff_bands := [\<lparr>tb_band = PEAK, tb_start_hour = 18, tb_end_hour = 22,
       tb_fraction = Dec (-5) (-1)\<rparr>],
     pp_congestion_max_fraction := 0, pp_imbalance_fraction_per_uncertainty := 0,
     pp_local_renewable_fraction := renewable\<rparr>"

lemma steep_pieces:
  fixes z :: price_component
  defines "z \<equiv> \<lparr>pc_kind = Kind_CONGESTION, pc_amount = Dec 0 (-4)\<rparr>"
  defines "P \<equiv> steep_parameters (Dec 4999 (-4))" and "R \<equiv> demo_quote_request SAFE (Dec 3 (-4))"
  shows "\<not> pr_base_price R < 0" "quantize_price (pr_base_price R) = Inr (Dec 3 (-4))"
    "time_component R P = Inr \<lparr>pc_kind = Kind_TIME, pc_amount = Dec (-2) (-4)\<rparr>"
    "congestion_component R P = Inr z"
    "imbalance_component R P = Inr \<lparr>pc_kind = Kind_IMBALANCE, pc_amount = Dec 0 (-4)\<rparr>"
    "local_renewable_component R P
       = Inr \<lparr>pc_kind = Kind_LOCAL_RENEWABLE, pc_amount = Dec (-1) (-4)\<rparr>"
    "recommend (pr_grid_status R) (Dec 3 (-4)) (pc_amount z) P = Inr ACCEPT"
  unfolding z_def P_def R_def by code_simp+

lemma steep_pieces_unrounded:
  fixes z :: price_component
  defines "z \<equiv> \<lparr>pc_kind = Kind_CONGESTION, pc_amount = Dec 0 (-4)\<rparr>"
  defines "P \<equiv> steep_parameters (Dec 49 (-2))" and "R \<equiv> demo_quote_request SAFE (Dec 149 (-6))"
  shows "\<not> pr_base_price R < 0" "quantize_price (pr_base_price R) = Inr (Dec 1 (-4))"
    "time_component R P = Inr \<lparr>pc_kind = Kind_TIME, pc_amount = Dec (-1) (-4)\<rparr>"
    "congestion_component R P = Inr z"
    "imbalance_component R P = Inr \<lparr>pc_kind = Kind_IMBALANCE, pc_amount = Dec 0 (-4)\<rparr>"
    "local_renewable_component R P
       = Inr \<lparr>pc_kind = Kind_LOCAL_RENEWABLE, pc_amount = Dec (-1) (-4)\<rparr>"
    "recommend (pr_grid_status R) (Dec 1 (-4)) (pc_amount z) P = Inr ACCEPT"
  unfolding z_def P_def R_def by code_simp+

text \<open>The construction's check alone does not keep a price positive: with a solar discount of
  one half and a renewable discount of 49.99 percent, which \<open>PricingParameters\<close> accepts, the
  stored price 0.0003 is quoted at exactly zero, and the price 0.000149, not rounded to four
  decimals before, at a negative price.\<close>

theorem quote_can_reach_zero:
  "pricing_parameters_init (steep_parameters (Dec 4999 (-4))) = Inr (steep_parameters (Dec 4999 (-4)))
   \<and> (\<exists>x. quote (steep_parameters (Dec 4999 (-4))) (demo_quote_request SAFE (Dec 3 (-4))) = Inr x
        \<and> px_final_price x = Dec 0 (-4))
   \<and> pricing_parameters_init (steep_parameters (Dec 49 (-2))) = Inr (steep_parameters (Dec 49 (-2)))
   \<and> (\<exists>y. quote (steep_parameters (Dec 49 (-2))) (demo_quote_request SAFE (Dec 149 (-6))) = Inr y
        \<and> px_final_price y = Dec (-1) (-4))"
proof -
  have "Dec 3 (-4) + Dec (-2) (-4) + Dec 0 (-4) + Dec 0 (-4) + Dec (-1) (-4) = Dec 0 (-4)"
    "Dec 1 (-4) + Dec (-1) (-4) + Dec 0 (-4) + Dec 0 (-4) + Dec (-1) (-4) = Dec (-1) (-4)"
    by code_simp+
  moreover have
    "pricing_parameters_init (steep_parameters (Dec 4999 (-4))) = Inr (steep_parameters (Dec 4999 (-4)))"
    "pricing_parameters_init (steep_parameters (Dec 49 (-2))) = Inr (steep_parameters (Dec 49 (-2)))"
    by code_simp+
  ultimately show ?thesis
    using quote_pieces [OF steep_pieces] quote_pieces [OF steep_pieces_unrounded] by simp
qed

end
