(* ===== verification/Pricing_Service.thy ===== *)
theory Pricing_Service
  imports Grid_Tables Dynamic_Pricing
begin

text \<open>
  Pricing: the table of breakdowns with its constraints (\<open>db/models/pricing.py\<close>), its queries
  (\<open>repositories/pricing.py\<close>) and the service (\<open>services/pricing_service.py\<close>), which assembles a
  pricing request from the tables that own each input, asks an engine, checks the answer and files
  the breakdown beside the trade it prices. The engine is an argument.
\<close>

section \<open>The table\<close>

record breakdown_row =
  bd_id :: uuid
  bd_trade_id :: uuid
  bd_base_market_price :: decimal
  bd_time_component :: decimal
  bd_congestion_component :: decimal
  bd_imbalance_component :: decimal
  bd_local_renewable_component :: decimal
  bd_final_price :: decimal
  bd_formula_version :: string
  bd_created_at :: datetime

record pricing_db = grid_db +
  t_price_components :: "breakdown_row list"

text \<open>PostgreSQL adds and compares \<open>numeric\<close> values exactly.\<close>

definition breakdown_checks :: "'a pricing_db_scheme \<Rightarrow> breakdown_row \<Rightarrow> (bool \<times> string) list" where
  "breakdown_checks db b =
     [(0 \<le> bd_base_market_price b, ''ck_price_components_base_price_not_negative''),
      (val (bd_base_market_price b) + val (bd_time_component b) + val (bd_congestion_component b)
         + val (bd_imbalance_component b) + val (bd_local_renewable_component b) = val (bd_final_price b),
       ''ck_price_components_components_sum_to_final_price''),
      (0 \<le> bd_congestion_component b, ''ck_price_components_congestion_is_a_charge''),
      (0 \<le> bd_final_price b, ''ck_price_components_final_price_not_negative''),
      (0 \<le> bd_imbalance_component b, ''ck_price_components_imbalance_is_a_charge''),
      (bd_local_renewable_component b \<le> 0, ''ck_price_components_local_renewable_is_an_incentive''),
      (\<not> known bd_id (t_price_components db) (bd_id b), ''pk_price_components''),
      (known td_id (t_trades db) (bd_trade_id b), ''fk_price_components_trade_id_trades'')]"

definition stored_breakdown :: "breakdown_row \<Rightarrow> breakdown_row result" where
  "stored_breakdown b =
     bindE (numeric 12 4 (bd_base_market_price b)) (\<lambda>base.
     bindE (numeric 12 4 (bd_time_component b)) (\<lambda>time.
     bindE (numeric 12 4 (bd_congestion_component b)) (\<lambda>congestion.
     bindE (numeric 12 4 (bd_imbalance_component b)) (\<lambda>imbalance.
     bindE (numeric 12 4 (bd_local_renewable_component b)) (\<lambda>renewable.
     bindE (numeric 12 4 (bd_final_price b)) (\<lambda>final.
     bindE (varchar 64 (bd_formula_version b)) (\<lambda>_.
     Inr (b\<lparr>bd_base_market_price := base, bd_time_component := time, bd_congestion_component := congestion,
            bd_imbalance_component := imbalance, bd_local_renewable_component := renewable,
            bd_final_price := final\<rparr>))))))))"

definition insert_breakdown :: "breakdown_row \<Rightarrow> 'a pricing_db_scheme \<Rightarrow> 'a pricing_db_scheme result" where
  "insert_breakdown b db =
     bindE (stored_breakdown b) (\<lambda>row.
     bindE (all_checks (breakdown_checks db row)) (\<lambda>_.
     Inr (db\<lparr>t_price_components := t_price_components db @ [row]\<rparr>)))"

definition breakdowns_for_trade :: "'a pricing_db_scheme \<Rightarrow> uuid \<Rightarrow> breakdown_row list" where
  "breakdowns_for_trade db trade_id =
     sort_key (\<lambda>b. (bd_created_at b, bd_id b))
       (filter (\<lambda>b. bd_trade_id b = trade_id) (t_price_components db))"

definition latest_breakdown :: "'a pricing_db_scheme \<Rightarrow> uuid \<Rightarrow> breakdown_row option" where
  "latest_breakdown db trade_id =
     head_row (sort_key (\<lambda>b. (- bd_created_at b, - int (bd_id b)))
       (filter (\<lambda>b. bd_trade_id b = trade_id) (t_price_components db)))"

section \<open>Assembling a request\<close>

definition cited_run :: "'a grid_db_scheme \<Rightarrow> trade_row \<Rightarrow> validation_row option" where
  "cited_run db t =
     (case td_grid_validation_id t of
        None \<Rightarrow> None | Some i \<Rightarrow> fetch vn_id (t_validation_runs db) i)"

definition run_in_force :: "'a grid_db_scheme \<Rightarrow> trade_row \<Rightarrow> validation_row option" where
  "run_in_force db t =
     (case cited_run db t of Some v \<Rightarrow> Some v | None \<Rightarrow> latest_for_trade db (td_id t))"

definition run_metrics :: "validation_row \<Rightarrow> grid_metrics" where
  "run_metrics v =
     \<lparr>min_voltage_pu = vn_min_voltage_pu v, max_voltage_pu = vn_max_voltage_pu v,
      max_line_loading_pct = vn_max_line_loading_pct v,
      max_transformer_loading_pct = vn_max_transformer_loading_pct v\<rparr>"

definition grid_state ::
  "'a grid_db_scheme \<Rightarrow> trade_row \<Rightarrow> grid_validation_status \<times> grid_metrics option \<times> grid_violation list \<times> uuid option" where
  "grid_state db t =
     (case run_in_force db t of
        None \<Rightarrow> (UNKNOWN, None, [], None)
      | Some v \<Rightarrow> (vn_status v, Some (run_metrics v), [], Some (vn_id v)))"

definition forecast_confidence :: "'a forecast_db_scheme \<Rightarrow> order_row option \<Rightarrow> trade_row \<Rightarrow> decimal option" where
  "forecast_confidence db sell t =
     (case sell of
        None \<Rightarrow> None
      | Some o1 \<Rightarrow>
          (case od_forecast_basis_id o1 of
             None \<Rightarrow> None
           | Some run_id \<Rightarrow>
               pymin_of (present (map fp_confidence
                 (filter (\<lambda>p. fp_interval_start p < td_delivery_end t \<and> td_delivery_start t < fp_interval_end p)
                   (points_for_run db run_id))))))"

definition same_feeder :: "'a registry_scheme \<Rightarrow> uuid option \<Rightarrow> uuid option \<Rightarrow> bool" where
  "same_feeder db buy_node sell_node \<longleftrightarrow>
     (case (buy_node, sell_node) of
        (Some b, Some s) \<Rightarrow>
          (case (fetch gn_id (t_grid_nodes db) b, fetch gn_id (t_grid_nodes db) s) of
             (Some gb, Some gs) \<Rightarrow> gn_feeder_id gb \<noteq> None \<and> gn_feeder_id gs \<noteq> None \<and> gn_feeder_id gb = gn_feeder_id gs
           | _ \<Rightarrow> False)
      | _ \<Rightarrow> False)"

definition is_local_renewable :: "'a registry_scheme \<Rightarrow> order_row option \<Rightarrow> order_row option \<Rightarrow> bool" where
  "is_local_renewable db buy sell \<longleftrightarrow>
     (case (buy, sell) of
        (Some b, Some s) \<Rightarrow>
          same_feeder db (od_node_id b) (od_node_id s)
          \<and> list_ex (\<lambda>a. as_asset_type a = PV \<and> as_status a = Asset_ACTIVE)
              (filter (\<lambda>a. as_site_id a = od_site_id s) (t_energy_assets db))
      | _ \<Rightarrow> False)"

definition build_request :: "'a grid_db_scheme \<Rightarrow> trade_row \<Rightarrow> pricing_request" where
  "build_request db t =
     (let (status, metrics, caused, validation_id) = grid_state db t;
          sell = fetch od_id (t_orders db) (td_sell_order_id t);
          buy = fetch od_id (t_orders db) (td_buy_order_id t)
      in \<lparr>pr_base_price = td_clearing_price t, pr_quantity_kwh = td_quantity_kwh t,
          pr_delivery_start = td_delivery_start t, pr_delivery_end = td_delivery_end t,
          pr_grid_status = status, pr_grid_metrics = metrics, pr_caused_violations = caused,
          pr_forecast_confidence = forecast_confidence db sell t,
          pr_local_renewable = is_local_renewable db buy sell, pr_trade_id = Some (td_id t),
          pr_grid_validation_id = validation_id,
          pr_forecast_basis_id = (case sell of None \<Rightarrow> None | Some o1 \<Rightarrow> od_forecast_basis_id o1)\<rparr>)"

section \<open>Quoting and pricing\<close>

type_synonym pricer = "pricing_request \<Rightarrow> pricing_result result"

definition check_quote :: "pricing_result \<Rightarrow> unit result" where
  "check_quote x =
     (if \<not> deq (components_sum x) (px_final_price x) then Inl PricingEngineError
      else if px_final_price x < 0 then Inl PricingEngineError
      else if px_congestion_component x < 0 \<or> px_imbalance_component x < 0 then Inl PricingEngineError
      else if 0 < px_local_renewable_component x then Inl PricingEngineError
      else if px_formula_version x = [] then Inl PricingEngineError
      else Inr ())"

definition checked_quote :: "pricer \<Rightarrow> pricing_request \<Rightarrow> pricing_result result" where
  "checked_quote engine r =
     (case engine r of
        Inl _ \<Rightarrow> Inl PricingEngineError
      | Inr x \<Rightarrow> bindE (check_quote x) (\<lambda>_. Inr x))"

definition quote_trade :: "'a grid_db_scheme \<Rightarrow> uuid \<Rightarrow> pricer \<Rightarrow> pricing_result result" where
  "quote_trade db trade_id engine =
     bindE (get_trade db trade_id) (\<lambda>t. checked_quote engine (build_request db t))"

text \<open>What pricing draws: the row's identifier, the clock, the audit event's identifier and clock.\<close>

record pricing_fresh =
  pf_row_id :: uuid
  pf_now :: datetime
  pf_event_id :: uuid
  pf_event_now :: datetime

definition breakdown_of :: "uuid \<Rightarrow> pricing_result \<Rightarrow> uuid \<Rightarrow> datetime \<Rightarrow> breakdown_row" where
  "breakdown_of trade_id x new_id created =
     \<lparr>bd_id = new_id, bd_trade_id = trade_id, bd_base_market_price = px_base_market_price x,
      bd_time_component = px_time_component x, bd_congestion_component = px_congestion_component x,
      bd_imbalance_component = px_imbalance_component x,
      bd_local_renewable_component = px_local_renewable_component x, bd_final_price = px_final_price x,
      bd_formula_version = px_formula_version x, bd_created_at = created\<rparr>"

definition breakdown_event :: "breakdown_row \<Rightarrow> pricing_fresh \<Rightarrow> audit_event" where
  "breakdown_event b f =
     price_calculated (pf_event_id f) (pf_event_now f) (bd_trade_id b) (bd_id b) (bd_base_market_price b)
       (bd_time_component b) (bd_congestion_component b) (bd_imbalance_component b)
       (bd_local_renewable_component b) (bd_final_price b) (bd_formula_version b) (bd_created_at b)"

definition breakdown_notice :: "breakdown_row \<Rightarrow> notice" where
  "breakdown_notice b =
     \<lparr>re_event_type = MARKET_PRICE_CHANGED, re_entity_type = ''price_components'', re_entity_id = Some (bd_id b),
      re_trade_id = Some (bd_trade_id b),
      re_payload = [(''base_market_price'', S_str (format_f (bd_base_market_price b))),
                    (''final_price'', S_str (format_f (bd_final_price b))),
                    (''formula_version'', S_str (bd_formula_version b))]\<rparr>"

definition reload_breakdown :: "'a pricing_db_scheme \<Rightarrow> uuid \<Rightarrow> breakdown_row result" where
  "reload_breakdown db i =
     (case fetch bd_id (t_price_components db) i of None \<Rightarrow> Inl DataError | Some b \<Rightarrow> Inr b)"

definition price_trade ::
  "'a pricing_db_scheme \<Rightarrow> uuid \<Rightarrow> pricer \<Rightarrow> datetime option \<Rightarrow> pricing_fresh
   \<Rightarrow> ('a pricing_db_scheme \<times> breakdown_row \<times> notice list) result" where
  "price_trade db trade_id engine given f =
     bindE (get_trade db trade_id) (\<lambda>t.
     bindE (checked_quote engine (build_request db t)) (\<lambda>x.
       let b = breakdown_of (td_id t) x (pf_row_id f) (instant given (pf_now f))
       in bindE (insert_breakdown b db) (\<lambda>db1.
          bindE (record_event (breakdown_event b f) db1) (\<lambda>db2.
          bindE (reload_breakdown db2 (pf_row_id f)) (\<lambda>row. Inr (db2, row, [breakdown_notice row]))))))"

definition get_breakdown :: "'a pricing_db_scheme \<Rightarrow> uuid \<Rightarrow> breakdown_row result" where
  "get_breakdown db trade_id =
     (case latest_breakdown db trade_id of
        None \<Rightarrow> Inl (NotFoundError ''PRICE_BREAKDOWN_NOT_FOUND'') | Some b \<Rightarrow> Inr b)"

end
