(* ===== verification/Grid_Service.thy ===== *)
theory Grid_Service
  imports Grid_Tables Canonical_Text
begin

text \<open>
  Grid validation (\<open>services/grid_validation_service.py\<close>): the network is projected from the
  registered grid nodes, the traded energy becomes power at the two nodes, the engine judges the
  request, and the judgement is stored, audited and announced. The engine is an argument; clocks
  and identifiers are drawn from outside. An operation gives the tables as they are committed
  beside its outcome, because a failing engine commits a row and raises.
\<close>

section \<open>The network of the twin\<close>

definition network_node_of :: "grid_node_row \<Rightarrow> network_node" where
  "network_node_of g =
     \<lparr>node_id = gn_id g, node_type = gn_node_type g, nominal_voltage_kv = gn_nominal_voltage_kv g,
      parent_node_id = gn_parent_node_id g, feeder_id = gn_feeder_id g\<rparr>"

fun build_edges ::
  "(uuid \<rightharpoonup> decimal option) \<Rightarrow> uuid set \<Rightarrow> network_node list
   \<Rightarrow> network_line list \<times> network_transformer list" where
  "build_edges ratings known_ids [] = ([], [])"
| "build_edges ratings known_ids (n # ns) =
     (let (ls, ts) = build_edges ratings known_ids ns
      in case parent_node_id n of
           None \<Rightarrow> (ls, ts)
         | Some p \<Rightarrow>
             if p \<notin> known_ids then (ls, ts)
             else if node_type n = TRANSFORMER
             then (ls, \<lparr>transformer_id = node_id n, transformer_from = p, transformer_to = node_id n,
                        transformer_rating_kw = dict_get ratings (node_id n) None\<rparr> # ts)
             else (\<lparr>line_id = node_id n, line_from = p, line_to = node_id n,
                    line_rating_kw = dict_get ratings (node_id n) None\<rparr> # ls, ts))"

definition on_feeder :: "string option \<Rightarrow> grid_node_row \<Rightarrow> bool" where
  "on_feeder feeder g \<longleftrightarrow> (case feeder of None \<Rightarrow> True | Some f \<Rightarrow> gn_feeder_id g = Some f)"

definition feeder_nodes :: "'a registry_scheme \<Rightarrow> string option \<Rightarrow> grid_node_row list" where
  "feeder_nodes db feeder = filter (on_feeder feeder) (take 10000 (t_grid_nodes db))"

definition build_network :: "'a registry_scheme \<Rightarrow> string option \<Rightarrow> network_model" where
  "build_network db feeder =
     (let rows = feeder_nodes db feeder;
          ratings = map_of (rev (map (\<lambda>g. (gn_id g, gn_rated_capacity_kw g)) rows));
          nodes = map network_node_of rows;
          edges = build_edges ratings (set (map node_id nodes)) nodes
      in \<lparr>net_version = ''phase-1-twin'', net_nodes = nodes, net_lines = fst edges,
          net_transformers = snd edges\<rparr>)"

section \<open>The fingerprint of a request\<close>

definition limit_texts :: "grid_limits \<Rightarrow> json list" where
  "limit_texts l =
     map (\<lambda>d. JStr (decimal_text d))
       [lim_min_voltage_pu l, lim_max_voltage_pu l, lim_max_line_loading_pct l,
        lim_max_transformer_loading_pct l]"

definition injection_text :: "node_injection \<Rightarrow> string" where
  "injection_text i = uuid_text (inj_node_id i) @ '':'' @ decimal_text (inj_active_power_kw i)"

definition fingerprint_payload :: "grid_validation_request \<Rightarrow> json" where
  "fingerprint_payload r =
     JObj [(''network_version'', JStr (net_version (gr_network r))),
           (''nodes'', JArr (map JStr (sort (map (\<lambda>n. uuid_text (node_id n)) (net_nodes (gr_network r)))))),
           (''limits'', JArr (limit_texts (gr_limits r))),
           (''interval'', JArr [JStr (isoformat (gr_interval_start r)), JStr (isoformat (gr_interval_end r))]),
           (''injections'', JArr (map JStr (sort (map injection_text (combined_injections r)))))]"

definition request_fingerprint :: "grid_validation_request \<Rightarrow> string" where
  "request_fingerprint r = sha256_hex (dumps (fingerprint_payload r))"

section \<open>Reasons\<close>

definition describe_missing_ratings :: "uuid list \<Rightarrow> string" where
  "describe_missing_ratings unrated =
     ''thermal limits not assessable: '' @ int_text (int (length unrated)) @ '' network ''
     @ (if length unrated = 1 then ''element has'' else ''elements have'') @ '' no recorded rating''"

definition violation_text :: "grid_violation \<Rightarrow> string" where
  "violation_text v =
     violation_value (violation_type v) @ '' ('' @ decimal_text (observed v) @ '' vs limit ''
     @ decimal_text (limit v) @ '')''"

definition summarise :: "grid_violation list \<Rightarrow> string" where
  "summarise vs =
     (if vs = [] then ''within all operating limits''
      else joined ''; '' (map violation_text (sort_key (\<lambda>v. violation_value (violation_type v)) vs)))"

text \<open>\<open>exc.__class__.__name__\<close>\<close>

fun exn_class :: "exn \<Rightarrow> string" where
  "exn_class InvalidOperation = ''InvalidOperation''"
| "exn_class DivisionByZero = ''DivisionByZero''"
| "exn_class KeyError = ''KeyError''"
| "exn_class AssertionError = ''AssertionError''"
| "exn_class PyTypeError = ''TypeError''"
| "exn_class PyValueError = ''ValueError''"
| "exn_class PyOverflowError = ''OverflowError''"
| "exn_class PriceCrossError = ''PriceCrossError''"
| "exn_class (IntegrityError _) = ''IntegrityError''"
| "exn_class DataError = ''DataError''"
| "exn_class (NotFoundError _) = ''NotFoundError''"
| "exn_class (ConflictError _) = ''ConflictError''"
| "exn_class (UnprocessableError _) = ''UnprocessableError''"
| "exn_class (MarketStateError _) = ''MarketStateError''"
| "exn_class (OrderValidationError _) = ''OrderValidationError''"
| "exn_class MatchingEngineError = ''MatchingEngineError''"
| "exn_class GridEngineError = ''GridEngineError''"
| "exn_class PricingEngineError = ''PricingEngineError''"
| "exn_class SettlementError = ''SettlementError''"
| "exn_class NotReconcilableError = ''NotReconcilableError''"
| "exn_class (ForecastProviderError _) = ''ForecastProviderError''"
| "exn_class AuditError = ''AuditError''"
| "exn_class PyOSError = ''OSError''"
| "exn_class AdapterParseError = ''AdapterParseError''"
| "exn_class (AdapterValidationError _ _) = ''AdapterValidationError''"
| "exn_class (HTTPException _) = ''HTTPException''"

section \<open>Recording a validation\<close>

record engine =
  eng_name :: string
  eng_version :: string
  eng_validate :: "grid_validation_request \<Rightarrow> grid_validation_result result"

text \<open>What a validation draws: the instant of the row, identifiers, the clock of the audit event.\<close>

record validation_fresh =
  vf_run_id :: uuid
  vf_now :: datetime
  vf_event_id :: uuid
  vf_event_now :: datetime

definition verdict_status :: "grid_validation_request \<Rightarrow> grid_validation_result \<Rightarrow> grid_validation_status" where
  "verdict_status r res =
     effective_status (resolve_status (gv_status res) (unrated_elements (gr_network r)))
       (caused_violations res)"

definition verdict_decision :: "grid_validation_request \<Rightarrow> grid_validation_result \<Rightarrow> grid_validation_decision" where
  "verdict_decision r res = decide (verdict_status r res) (caused_violations res)"

definition verdict_reason :: "grid_validation_request \<Rightarrow> grid_validation_result \<Rightarrow> string" where
  "verdict_reason r res =
     (let unrated = unrated_elements (gr_network r); caused = caused_violations res
      in if verdict_status r res = UNKNOWN \<and> unrated \<noteq> [] then describe_missing_ratings unrated
         else summarise (if caused \<noteq> [] then caused else gv_violations res))"

definition failure_row ::
  "engine \<Rightarrow> grid_validation_request \<Rightarrow> uuid option \<Rightarrow> uuid option \<Rightarrow> exn \<Rightarrow> uuid \<Rightarrow> datetime \<Rightarrow> validation_row" where
  "failure_row eng r trade snap exc new_id created =
     \<lparr>vn_id = new_id, vn_trade_id = trade, vn_grid_snapshot_id = snap, vn_simulation_engine = eng_name eng,
      vn_engine_version = Some (eng_version eng), vn_input_hash = request_fingerprint r, vn_status = UNKNOWN,
      vn_min_voltage_pu = None, vn_max_voltage_pu = None, vn_max_line_loading_pct = None,
      vn_max_transformer_loading_pct = None, vn_decision = REJECT,
      vn_reason = Some (''engine failure: '' @ exn_class exc), vn_created_at = created\<rparr>"

definition result_row ::
  "grid_validation_request \<Rightarrow> grid_validation_result \<Rightarrow> uuid option \<Rightarrow> uuid option \<Rightarrow> uuid \<Rightarrow> datetime
   \<Rightarrow> validation_row" where
  "result_row r res trade snap new_id created =
     \<lparr>vn_id = new_id, vn_trade_id = trade, vn_grid_snapshot_id = snap, vn_simulation_engine = gv_engine res,
      vn_engine_version = Some (gv_engine_version res), vn_input_hash = request_fingerprint r,
      vn_status = verdict_status r res,
      vn_min_voltage_pu = min_voltage_pu (gv_metrics res), vn_max_voltage_pu = max_voltage_pu (gv_metrics res),
      vn_max_line_loading_pct = max_line_loading_pct (gv_metrics res),
      vn_max_transformer_loading_pct = max_transformer_loading_pct (gv_metrics res),
      vn_decision = verdict_decision r res, vn_reason = Some (verdict_reason r res), vn_created_at = created\<rparr>"

definition validation_event :: "validation_row \<Rightarrow> uuid \<Rightarrow> validation_fresh \<Rightarrow> audit_event" where
  "validation_event v trade f =
     grid_validation_recorded (vf_event_id f) (vf_event_now f) trade (vn_id v) (vn_status v)
       (decision_value (vn_decision v)) (vn_simulation_engine v) (vn_engine_version v) (vn_input_hash v)
       (vn_min_voltage_pu v) (vn_max_voltage_pu v) (vn_max_line_loading_pct v)
       (vn_max_transformer_loading_pct v) (vn_reason v) (vn_created_at v)"

text \<open>The row and, for a trade, its audit event, which are committed together.\<close>

definition file_validation ::
  "validation_row \<Rightarrow> validation_fresh \<Rightarrow> 'a grid_db_scheme \<Rightarrow> 'a grid_db_scheme result" where
  "file_validation v f db =
     bindE (insert_validation v db) (\<lambda>db1.
       case vn_trade_id v of
         None \<Rightarrow> Inr db1
       | Some trade \<Rightarrow> record_event (validation_event v trade f) db1)"

definition check_result :: "grid_validation_result \<Rightarrow> unit result" where
  "check_result res =
     (if gv_engine res = [] then Inl GridEngineError
      else if list_ex (\<lambda>v. limit v < 0) (gv_violations res) then Inl GridEngineError
      else (case (min_voltage_pu (gv_metrics res), max_voltage_pu (gv_metrics res)) of
              (Some lo, Some hi) \<Rightarrow> if hi < lo then Inl GridEngineError else Inr ()
            | _ \<Rightarrow> Inr ()))"

definition optional_text :: "decimal option \<Rightarrow> scalar" where
  "optional_text v = (case v of None \<Rightarrow> S_none | Some d \<Rightarrow> S_str (format_f d))"

definition validation_notice :: "validation_row \<Rightarrow> notice" where
  "validation_notice v =
     \<lparr>re_event_type = GRID_VALIDATION_UPDATED, re_entity_type = ''grid_validation_run'',
      re_entity_id = Some (vn_id v), re_trade_id = vn_trade_id v,
      re_payload = [(''status'', S_str (grid_status_value (vn_status v))),
                    (''decision'', S_str (decision_value (vn_decision v))),
                    (''max_line_loading_pct'', optional_text (vn_max_line_loading_pct v)),
                    (''max_transformer_loading_pct'', optional_text (vn_max_transformer_loading_pct v)),
                    (''min_voltage_pu'', optional_text (vn_min_voltage_pu v)),
                    (''max_voltage_pu'', optional_text (vn_max_voltage_pu v))]\<rparr>"

definition get_validation_run :: "'a grid_db_scheme \<Rightarrow> uuid \<Rightarrow> validation_row result" where
  "get_validation_run db run_id =
     (case fetch vn_id (t_validation_runs db) run_id of
        None \<Rightarrow> Inl (NotFoundError ''GRID_VALIDATION_NOT_FOUND'') | Some v \<Rightarrow> Inr v)"

text \<open>The engine raised: the refusal is committed, then the failure is reported.\<close>

definition engine_failed ::
  "engine \<Rightarrow> grid_validation_request \<Rightarrow> uuid option \<Rightarrow> uuid option \<Rightarrow> datetime option \<Rightarrow> validation_fresh \<Rightarrow> exn
   \<Rightarrow> 'a grid_db_scheme \<Rightarrow> 'a grid_db_scheme \<times> (validation_row \<times> notice list) result" where
  "engine_failed eng r trade snap given f exc db =
     (case file_validation (failure_row eng r trade snap exc (vf_run_id f) (instant given (vf_now f))) f db of
        Inl e \<Rightarrow> (db, Inl e) | Inr db' \<Rightarrow> (db', Inl GridEngineError))"

definition engine_answered ::
  "grid_validation_request \<Rightarrow> uuid option \<Rightarrow> uuid option \<Rightarrow> datetime option \<Rightarrow> validation_fresh
   \<Rightarrow> grid_validation_result \<Rightarrow> 'a grid_db_scheme \<Rightarrow> ('a grid_db_scheme \<times> validation_row \<times> notice list) result" where
  "engine_answered r trade snap given f res db =
     bindE (check_result res) (\<lambda>_.
     bindE (file_validation (result_row r res trade snap (vf_run_id f) (instant given (vf_now f))) f db) (\<lambda>db'.
     bindE (get_validation_run db' (vf_run_id f)) (\<lambda>row. Inr (db', row, [validation_notice row]))))"

definition or_unchanged :: "'d \<Rightarrow> ('d \<times> 'b) result \<Rightarrow> 'd \<times> 'b result" where
  "or_unchanged db m = (case m of Inl e \<Rightarrow> (db, Inl e) | Inr (db', x) \<Rightarrow> (db', Inr x))"

definition validate_scenario ::
  "engine \<Rightarrow> grid_validation_request \<Rightarrow> uuid option \<Rightarrow> uuid option \<Rightarrow> datetime option \<Rightarrow> validation_fresh
   \<Rightarrow> 'a grid_db_scheme \<Rightarrow> 'a grid_db_scheme \<times> (validation_row \<times> notice list) result" where
  "validate_scenario eng r trade snap given f db =
     (if gr_interval_end r \<le> gr_interval_start r then (db, Inl (UnprocessableError ''GRID_INTERVAL_INVALID''))
      else if network_is_empty (gr_network r) then (db, Inl (UnprocessableError ''GRID_NETWORK_EMPTY''))
      else (case eng_validate eng r of
              Inl exc \<Rightarrow> engine_failed eng r trade snap given f exc db
            | Inr res \<Rightarrow> or_unchanged db (engine_answered r trade snap given f res db)))"

section \<open>Validating a trade\<close>

record trade_question =
  tq_trade_id :: uuid
  tq_seller_node_id :: uuid
  tq_buyer_node_id :: uuid
  tq_quantity_kwh :: decimal
  tq_delivery_start :: datetime
  tq_delivery_end :: datetime
  tq_feeder_id :: "string option"
  tq_baseline :: "node_injection list"
  tq_limits :: grid_limits

definition trade_injections :: "trade_question \<Rightarrow> node_injection list result" where
  "trade_injections q =
     bindE (guardE (0 < tq_delivery_end q - tq_delivery_start q) (UnprocessableError ''GRID_INTERVAL_INVALID'')) (\<lambda>_.
     bindE (guardE (\<not> tq_quantity_kwh q \<le> 0) (UnprocessableError ''GRID_QUANTITY_INVALID'')) (\<lambda>_.
     bindE (from_energy (tq_seller_node_id q) (tq_quantity_kwh q) (tq_delivery_end q - tq_delivery_start q)) (\<lambda>injection.
     Inr [injection, \<lparr>inj_node_id = tq_buyer_node_id q, inj_active_power_kw = - inj_active_power_kw injection\<rparr>])))"

definition trade_request :: "'a grid_db_scheme \<Rightarrow> trade_question \<Rightarrow> node_injection list \<Rightarrow> grid_validation_request" where
  "trade_request db q proposed =
     \<lparr>gr_network = build_network db (tq_feeder_id q), gr_limits = tq_limits q,
      gr_interval_start = tq_delivery_start q, gr_interval_end = tq_delivery_end q,
      gr_baseline_injections = tq_baseline q, gr_proposed_injections = proposed\<rparr>"

definition feeder_snapshot :: "'a grid_db_scheme \<Rightarrow> string option \<Rightarrow> uuid option" where
  "feeder_snapshot db feeder =
     (case feeder of
        None \<Rightarrow> None
      | Some f \<Rightarrow> if f = [] then None else map_option sn_id (latest_for_feeder db f))"

definition validate_grid_trade ::
  "engine \<Rightarrow> trade_question \<Rightarrow> datetime option \<Rightarrow> validation_fresh
   \<Rightarrow> 'a grid_db_scheme \<Rightarrow> 'a grid_db_scheme \<times> (validation_row \<times> notice list) result" where
  "validate_grid_trade eng q given f db =
     (case trade_injections q of
        Inl e \<Rightarrow> (db, Inl e)
      | Inr proposed \<Rightarrow>
          validate_scenario eng (trade_request db q proposed) (Some (tq_trade_id q))
            (feeder_snapshot db (tq_feeder_id q)) given f db)"

section \<open>Snapshots\<close>

definition snapshot_notice :: "snapshot_row \<Rightarrow> notice" where
  "snapshot_notice s =
     \<lparr>re_event_type = GRID_SNAPSHOT_UPDATED, re_entity_type = ''grid_snapshot'', re_entity_id = Some (sn_id s),
      re_trade_id = None,
      re_payload = [(''feeder_id'', case sn_feeder_id s of None \<Rightarrow> S_none | Some t \<Rightarrow> S_str t),
                    (''captured_at'', S_str (isoformat (sn_captured_at s))),
                    (''max_line_loading_pct'', optional_text (sn_max_line_loading_pct s)),
                    (''transformer_loading_pct'', optional_text (sn_transformer_loading_pct s))]\<rparr>"

definition record_snapshot ::
  "snapshot_row \<Rightarrow> 'a grid_db_scheme \<Rightarrow> ('a grid_db_scheme \<times> snapshot_row \<times> notice list) result" where
  "record_snapshot s db =
     bindE (insert_snapshot s db) (\<lambda>db'.
       case fetch sn_id (t_grid_snapshots db') (sn_id s) of
         None \<Rightarrow> Inl DataError
       | Some row \<Rightarrow> Inr (db', row, [snapshot_notice row]))"

section \<open>Cross-checking an engine\<close>

definition cross_check :: "grid_validation_result \<Rightarrow> grid_limits \<Rightarrow> string list" where
  "cross_check res limits =
     (let derived = evaluate_metrics (gv_metrics res) limits
      in if derived \<noteq> [] \<and> gv_status res = SAFE
         then map (\<lambda>v. ''engine reported safe but '' @ violation_text v) derived else [])"

end
