(* ===== verification/Settlement_Policy.thy ===== *)
theory Settlement_Policy
  imports Clearing_Price Domain_Enums
begin

text \<open>
  The settlement contract (\<open>backend/app/domain/interfaces/settlement.py\<close>) and the rules
  behind it (\<open>backend/app/domain/policies/settlement.py\<close>): reconciliation of what was
  measured with what was agreed, and the accounting of the settled energy. The prose of a
  \<open>reason\<close> is not kept.
\<close>

section \<open>The contract's data\<close>

record actual_energy =
  ae_window_start :: datetime
  ae_window_end :: datetime
  ae_quantity_kwh :: "decimal option"
  ae_reading_count :: nat
  ae_source :: string

definition is_measured :: "actual_energy \<Rightarrow> bool" where
  "is_measured a \<longleftrightarrow> ae_quantity_kwh a \<noteq> None"

record effective_price =
  ep_price :: decimal
  ep_source_id :: "uuid option"
  ep_formula_version :: "string option"

record reconciliation_outcome =
  ro_committed_kwh :: decimal
  ro_actual_kwh :: "decimal option"
  ro_deviation_kwh :: "decimal option"
  ro_deviation_pct :: "decimal option"
  ro_within_tolerance :: bool
  ro_balancing_kwh :: decimal
  ro_settled_kwh :: "decimal option"
  ro_status :: reconciliation_status
  ro_policy_version :: string

definition is_shortfall :: "reconciliation_outcome \<Rightarrow> bool" where
  "is_shortfall o1 = (case ro_deviation_kwh o1 of None \<Rightarrow> False | Some d \<Rightarrow> d < 0)"

definition ro_is_complete :: "reconciliation_outcome \<Rightarrow> bool" where
  "ro_is_complete o1 \<longleftrightarrow> reconciliation_is_complete (ro_status o1)"

record settlement_request =
  sr_trade_id :: uuid
  sr_buyer_user_id :: uuid
  sr_seller_user_id :: uuid
  sr_committed_kwh :: decimal
  sr_effective_price :: effective_price
  sr_delivery_start :: datetime
  sr_delivery_end :: datetime
  sr_actual :: actual_energy
  sr_forecast_kwh :: "decimal option"
  sr_forecast_basis_id :: "uuid option"
  sr_grid_validation_id :: "uuid option"

record settlement_line =
  sl_label :: string
  sl_quantity_kwh :: "decimal option"
  sl_price :: "decimal option"
  sl_amount_inr :: decimal

record settlement_result =
  st_trade_id :: uuid
  st_buyer_user_id :: uuid
  st_seller_user_id :: uuid
  st_settled_kwh :: decimal
  st_effective_price :: decimal
  st_gross_inr :: decimal
  st_platform_fee_inr :: decimal
  st_balancing_charge_inr :: decimal
  st_buyer_debit_inr :: decimal
  st_seller_credit_inr :: decimal
  st_status :: settlement_status
  st_policy_version :: string
  st_reconciliation :: reconciliation_outcome
  st_price_components_id :: "uuid option"
  st_forecast_basis_id :: "uuid option"
  st_grid_validation_id :: "uuid option"
  st_lines :: "settlement_line list"

definition platform_retained_inr :: "settlement_result \<Rightarrow> decimal" where
  "platform_retained_inr s = st_platform_fee_inr s + st_balancing_charge_inr s"

definition ledger_balances :: "settlement_result \<Rightarrow> bool" where
  "ledger_balances s \<longleftrightarrow>
     deq (st_buyer_debit_inr s) (st_seller_credit_inr s + platform_retained_inr s)"

section \<open>The policy\<close>

definition quantize_amount :: "decimal \<Rightarrow> decimal result" where
  "quantize_amount v = quantize 2 v"

definition quantize_energy :: "decimal \<Rightarrow> decimal result" where
  "quantize_energy v = quantize 4 v"

record settlement_policy =
  sp_policy_version :: string
  sp_calculator_name :: string
  sp_tolerance_fraction :: decimal
  sp_balancing_price_multiplier :: decimal
  sp_platform_fee_fraction :: decimal

definition settlement_policy_init :: "settlement_policy \<Rightarrow> settlement_policy result" where
  "settlement_policy_init p =
     (if \<not> (0 \<le> sp_tolerance_fraction p \<and> sp_tolerance_fraction p < 1) then Inl PyValueError
      else if sp_balancing_price_multiplier p < 0 then Inl PyValueError
      else if \<not> (0 \<le> sp_platform_fee_fraction p \<and> sp_platform_fee_fraction p < 1)
        then Inl PyValueError
      else Inr p)"

definition DEFAULT_POLICY :: settlement_policy where
  "DEFAULT_POLICY = \<lparr>sp_policy_version = ''1.0.0'', sp_calculator_name = ''standard_settlement'',
     sp_tolerance_fraction = Dec 5 (-2), sp_balancing_price_multiplier = 1,
     sp_platform_fee_fraction = 0\<rparr>"

section \<open>Reconciliation\<close>

definition reconcile ::
  "decimal \<Rightarrow> actual_energy \<Rightarrow> settlement_policy \<Rightarrow> reconciliation_outcome result" where
  "reconcile committed_quantity_kwh actual p =
     bindE (quantize_energy committed_quantity_kwh) (\<lambda>committed.
     (case ae_quantity_kwh actual of
        None \<Rightarrow>
          Inr \<lparr>ro_committed_kwh = committed, ro_actual_kwh = None, ro_deviation_kwh = None,
               ro_deviation_pct = None, ro_within_tolerance = False, ro_balancing_kwh = 0,
               ro_settled_kwh = None, ro_status = AWAITING_TELEMETRY,
               ro_policy_version = sp_policy_version p\<rparr>
      | Some quantity \<Rightarrow>
          bindE (quantize_energy quantity) (\<lambda>actual_kwh.
          bindE (quantize_energy (actual_kwh - committed)) (\<lambda>deviation.
          bindE (if committed > 0
                 then bindE (ddiv deviation committed) (\<lambda>q.
                      bindE (quantize_energy (q * Dec 100 0)) (\<lambda>pct. Inr (Some pct)))
                 else Inr None) (\<lambda>deviation_pct.
          let allowed = committed * sp_tolerance_fraction p;
              within_band = \<bar>deviation\<bar> \<le> allowed;
              settled = pymin committed actual_kwh;
              shortfall = pymax (committed - actual_kwh) 0
          in bindE (if within_band then Inr 0 else quantize_energy shortfall) (\<lambda>balancing.
             Inr \<lparr>ro_committed_kwh = committed, ro_actual_kwh = Some actual_kwh,
                  ro_deviation_kwh = Some deviation, ro_deviation_pct = deviation_pct,
                  ro_within_tolerance = within_band, ro_balancing_kwh = balancing,
                  ro_settled_kwh = Some settled, ro_status = RECONCILED,
                  ro_policy_version = sp_policy_version p\<rparr>))))))"

section \<open>Accounting\<close>

definition settlement_lines :: "settlement_policy \<Rightarrow> reconciliation_outcome \<Rightarrow> decimal \<Rightarrow> decimal
    \<Rightarrow> decimal \<Rightarrow> decimal \<Rightarrow> settlement_line list result" where
  "settlement_lines p outcome price gross fee balancing_charge =
     (let first = [\<lparr>sl_label = ''energy delivered'', sl_quantity_kwh = ro_settled_kwh outcome,
                    sl_price = Some price, sl_amount_inr = gross\<rparr>];
          fees = (if fee > 0
                  then [\<lparr>sl_label = ''platform fee'', sl_quantity_kwh = None, sl_price = None,
                         sl_amount_inr = fee\<rparr>] else [])
      in if balancing_charge > 0
         then bindE (quantize_amount (price * sp_balancing_price_multiplier p)) (\<lambda>rate.
           Inr (first @ fees @
             [\<lparr>sl_label = ''balancing charge'', sl_quantity_kwh = Some (ro_balancing_kwh outcome),
               sl_price = Some rate, sl_amount_inr = balancing_charge\<rparr>]))
         else Inr (first @ fees))"

definition empty_settlement :: "settlement_policy \<Rightarrow> settlement_request
    \<Rightarrow> reconciliation_outcome \<Rightarrow> decimal \<Rightarrow> settlement_result result" where
  "empty_settlement p r outcome price =
     bindE (quantize_amount 0) (\<lambda>nil. bindE (quantize_energy 0) (\<lambda>none.
       Inr \<lparr>st_trade_id = sr_trade_id r, st_buyer_user_id = sr_buyer_user_id r,
            st_seller_user_id = sr_seller_user_id r, st_settled_kwh = none,
            st_effective_price = price, st_gross_inr = nil, st_platform_fee_inr = nil,
            st_balancing_charge_inr = nil, st_buyer_debit_inr = nil, st_seller_credit_inr = nil,
            st_status = Settlement_PENDING, st_policy_version = sp_policy_version p,
            st_reconciliation = outcome,
            st_price_components_id = ep_source_id (sr_effective_price r),
            st_forecast_basis_id = sr_forecast_basis_id r,
            st_grid_validation_id = sr_grid_validation_id r, st_lines = []\<rparr>))"

definition settle :: "settlement_policy \<Rightarrow> settlement_request \<Rightarrow> settlement_result result" where
  "settle p r =
     bindE (reconcile (sr_committed_kwh r) (sr_actual r) p) (\<lambda>outcome.
     let price = ep_price (sr_effective_price r)
     in (case ro_settled_kwh outcome of
           None \<Rightarrow> empty_settlement p r outcome price
         | Some settled \<Rightarrow>
             bindE (quantize_amount (settled * price)) (\<lambda>gross.
             bindE (quantize_amount (gross * sp_platform_fee_fraction p)) (\<lambda>fee.
             bindE (quantize_amount
                 (ro_balancing_kwh outcome * price * sp_balancing_price_multiplier p))
               (\<lambda>balancing_charge.
             bindE (quantize_amount (gross - fee - balancing_charge)) (\<lambda>seller_credit.
             bindE (settlement_lines p outcome price gross fee balancing_charge) (\<lambda>lines.
               Inr \<lparr>st_trade_id = sr_trade_id r, st_buyer_user_id = sr_buyer_user_id r,
                    st_seller_user_id = sr_seller_user_id r, st_settled_kwh = settled,
                    st_effective_price = price, st_gross_inr = gross, st_platform_fee_inr = fee,
                    st_balancing_charge_inr = balancing_charge, st_buyer_debit_inr = gross,
                    st_seller_credit_inr = seller_credit, st_status = SETTLED,
                    st_policy_version = sp_policy_version p, st_reconciliation = outcome,
                    st_price_components_id = ep_source_id (sr_effective_price r),
                    st_forecast_basis_id = sr_forecast_basis_id r,
                    st_grid_validation_id = sr_grid_validation_id r, st_lines = lines\<rparr>)))))))"

section \<open>What the properties assume\<close>

text \<open>
  Inputs as the database stores them: a committed quantity that is positive with four
  decimals, an effective price that is a stored price, a measured quantity within a hundred
  billion kWh; and a policy whose construction passes, with at most ten decimals per rate and at most
  a hundredfold balancing price.
\<close>

definition policy_ok :: "settlement_policy \<Rightarrow> bool" where
  "policy_ok p \<longleftrightarrow> settlement_policy_init p = Inr p
     \<and> grid 10 (val (sp_tolerance_fraction p)) \<and> grid 10 (val (sp_platform_fee_fraction p))
     \<and> val (sp_balancing_price_multiplier p) \<le> 100"

definition request_ok :: "settlement_request \<Rightarrow> bool" where
  "request_ok r \<longleftrightarrow> stored_energy (sr_committed_kwh r) \<and> 0 < sr_committed_kwh r
     \<and> stored_price (ep_price (sr_effective_price r))
     \<and> pred_option (\<lambda>q. \<bar>val q\<bar> \<le> 10 ^ 11) (ae_quantity_kwh (sr_actual r))"

text \<open>What reconciliation means, in exact numbers.\<close>

definition reconciles ::
  "settlement_policy \<Rightarrow> rat \<Rightarrow> rat \<Rightarrow> reconciliation_outcome \<Rightarrow> bool" where
  "reconciles p c a o1 \<longleftrightarrow>
     val (ro_committed_kwh o1) = c
     \<and> map_option val (ro_actual_kwh o1) = Some a
     \<and> map_option val (ro_deviation_kwh o1) = Some (a - c)
     \<and> map_option val (ro_settled_kwh o1) = Some (min c a)
     \<and> (ro_within_tolerance o1 \<longleftrightarrow> \<bar>a - c\<bar> \<le> c * val (sp_tolerance_fraction p))
     \<and> val (ro_balancing_kwh o1) = (if ro_within_tolerance o1 then 0 else max (c - a) 0)
     \<and> ro_status o1 = RECONCILED"

section \<open>Reconciliation is exact\<close>

lemma grid_of_int_any [simp]: "grid p (of_int m)"
  using grid_of_int [of p "m * 10 ^ p"] by simp

lemma round_half_up_bound:
  assumes "\<bar>v\<bar> \<le> of_int m"
  shows "\<bar>round_half_up p v\<bar> \<le> of_int m"
proof -
  have "v \<le> of_int m" "of_int (- m) \<le> v" using assms by (simp_all add: abs_le_iff)
  then have "round_half_up p v \<le> of_int m" "of_int (- m) \<le> round_half_up p v"
    using round_half_up_mono round_half_up_id [OF grid_of_int_any] by metis+
  then show ?thesis by (simp add: abs_le_iff)
qed

lemma quantize_energy_total:
  assumes "\<bar>val v\<bar> \<le> 10 ^ 20"
  obtains z where "quantize_energy v = Inr z" "val z = round_half_up 4 (val v)"
proof -
  have "\<bar>val v\<bar> \<le> of_int (10 ^ 20)" "(10 ^ 20 :: int) * 10 ^ 4 < 10 ^ 28" using assms by simp_all
  then obtain z where "quantize 4 v = Inr z" "val z = round_half_up 4 (val v)" by (rule quantize_total)
  then show thesis by (intro that [of z]) (simp_all add: quantize_energy_def)
qed

lemma quantize_energy_exact:
  assumes "grid 4 (val v)" "\<bar>val v\<bar> \<le> 10 ^ 20"
  obtains z where "quantize_energy v = Inr z" "val z = val v"
  using assms(2) by (rule quantize_energy_total) (use assms(1) that round_half_up_id in auto)

lemma quantize_amount_total:
  assumes "\<bar>val v\<bar> \<le> 10 ^ 24"
  obtains z where "quantize_amount v = Inr z" "val z = round_half_up 2 (val v)"
proof -
  have "\<bar>val v\<bar> \<le> of_int (10 ^ 24)" "(10 ^ 24 :: int) * 10 ^ 2 < 10 ^ 28" using assms by simp_all
  then obtain z where "quantize 2 v = Inr z" "val z = round_half_up 2 (val v)" by (rule quantize_total)
  then show thesis by (intro that [of z]) (simp_all add: quantize_amount_def)
qed

text \<open>Rounded products stay within a bound that is a power of ten.\<close>

lemma rep28_pow10: "rep28 (10 ^ k)" "rep28 (- (10 ^ k))"
proof -
  have "(10::rat) powi int k = 10 ^ k" by (simp add: power_int_def)
  then show "rep28 (10 ^ k)" using rep28I [of 1 "int k"] by simp
  then show "rep28 (- (10 ^ k))" by (simp add: rep28_uminus)
qed

lemma rounds_to_pow10:
  assumes "rounds_to v w" "\<bar>v\<bar> \<le> 10 ^ k"
  shows "\<bar>w\<bar> \<le> 10 ^ k"
proof -
  have "v \<le> 10 ^ k" "- (10 ^ k) \<le> v" using assms(2) by (simp_all only: abs_le_iff minus_le_iff)
  then have "w \<le> 10 ^ k" "- (10 ^ k) \<le> w"
    using rounds_to_le [OF assms(1) rep28_pow10(1)] rounds_to_ge [OF assms(1) rep28_pow10(2)] by blast+
  then show ?thesis by (simp only: abs_le_iff minus_le_iff)
qed

lemma times_pow10:
  assumes "\<bar>val x\<bar> \<le> 10 ^ j" "\<bar>val y\<bar> \<le> 10 ^ k"
  shows "\<bar>val (x * y)\<bar> \<le> 10 ^ (j + k)"
proof (rule rounds_to_pow10 [OF times_rounds])
  show "\<bar>val x * val y\<bar> \<le> 10 ^ (j + k)"
    unfolding abs_mult power_add using assms by (intro mult_mono) simp_all
qed

lemma policy_okD:
  assumes "policy_ok p"
  shows "0 \<le> val (sp_tolerance_fraction p)" "val (sp_tolerance_fraction p) < 1"
    "0 \<le> val (sp_platform_fee_fraction p)" "val (sp_platform_fee_fraction p) < 1"
    "0 \<le> val (sp_balancing_price_multiplier p)" "val (sp_balancing_price_multiplier p) \<le> 100"
  using assms by (auto simp: policy_ok_def settlement_policy_init_def val_simps split: if_splits)

lemma default_policy_ok: "policy_ok DEFAULT_POLICY"
proof -
  have "settlement_policy_init DEFAULT_POLICY = Inr DEFAULT_POLICY" by code_simp
  moreover have "grid 10 (val (Dec 5 (-2)))"
    using grid_weaken [OF grid_of_int [of 2 5], of 10]
    by (simp add: val_def power_int_def field_simps)
  ultimately show ?thesis unfolding policy_ok_def by (simp add: DEFAULT_POLICY_def)
qed

text \<open>The pieces of a measured reconciliation.\<close>

lemma deviation_pct_returns:
  assumes "grid 4 (val c)" "0 < val c" "\<bar>val d\<bar> \<le> 10 ^ 13"
  shows "\<exists>pct. bindE (ddiv d c) (\<lambda>x. bindE (quantize_energy (x * Dec 100 0)) (\<lambda>pct. Inr (Some pct)))
    = Inr pct"
proof -
  have "val c \<noteq> 0" by (rule less_imp_neq [THEN not_sym, OF assms(2)])
  then obtain x where x: "ddiv d c = Inr x" "rounds_to (val d / val c) (val x)"
    using ddiv_rounds by blast
  have "1 / 10 ^ 4 \<le> val c" using assms by (intro grid_less_step)
  then have "10 ^ 17 * (1 / 10 ^ 4) \<le> 10 ^ 17 * val c" by (intro mult_left_mono) simp_all
  with assms(2,3) have "\<bar>val d / val c\<bar> \<le> 10 ^ 17"
    by (simp add: abs_divide pos_divide_le_eq)
  then have "\<bar>val x\<bar> \<le> 10 ^ 17" by (rule rounds_to_pow10 [OF x(2)])
  moreover have "\<bar>val (Dec 100 0)\<bar> \<le> 10 ^ 2" by (simp add: val_def)
  ultimately have "\<bar>val (x * Dec 100 0)\<bar> \<le> 10 ^ 20" using times_pow10 by fastforce
  then obtain z where "quantize_energy (x * Dec 100 0) = Inr z" by (rule quantize_energy_total)
  with x(1) show ?thesis by simp
qed

lemma allowed_exact:
  assumes "policy_ok p" "grid 4 (val c)" "0 \<le> val c" "val c \<le> 10 ^ 10"
  shows "val (c * sp_tolerance_fraction p) = val c * val (sp_tolerance_fraction p)"
proof -
  have t: "grid 10 (val (sp_tolerance_fraction p))" using assms(1) by (simp add: policy_ok_def)
  have "\<bar>val c * val (sp_tolerance_fraction p)\<bar> \<le> 10 ^ 10 * 1"
    unfolding abs_mult using assms policy_okD(1,2) [OF assms(1)] by (intro mult_mono) simp_all
  then have "rep28 (val c * val (sp_tolerance_fraction p))"
    using grid_times [OF assms(2) t] by (intro rep28_grid [of "4 + 10"]) simp_all
  then show ?thesis by (rule val_times)
qed

lemma minus_exact:
  assumes "grid 4 (val x)" "\<bar>val x\<bar> \<le> 10 ^ 12" "grid 4 (val y)" "\<bar>val y\<bar> \<le> 10 ^ 12"
  shows "val (x - y) = val x - val y \<and> grid 4 (val x - val y) \<and> \<bar>val x - val y\<bar> \<le> 10 ^ 13"
proof -
  have "\<bar>val x - val y\<bar> \<le> 2 * 10 ^ 12" using assms by (simp add: abs_le_iff)
  with assms have "rep28 (val x - val y)" by (intro rep28_grid [of 4] grid_minus) simp_all
  with assms \<open>\<bar>val x - val y\<bar> \<le> 2 * 10 ^ 12\<close> show ?thesis by (simp add: val_minus grid_minus)
qed

lemma abs_exact:
  assumes "grid 4 (val d)" "\<bar>val d\<bar> \<le> 10 ^ 13"
  shows "val \<bar>d\<bar> = \<bar>val d\<bar>"
proof (rule rounds_to_exact [OF abs_rounds])
  show "rep28 \<bar>val d\<bar>"
    using assms by (intro rep28_grid [of 4]) (simp_all add: abs_if grid_uminus)
qed

lemma reconcile_measured:
  assumes p: "policy_ok p" and c: "stored_energy committed" "0 < committed"
    and a: "ae_quantity_kwh actual = Some q" "\<bar>val q\<bar> \<le> 10 ^ 12"
  obtains o1 where "reconcile committed actual p = Inr o1"
    "reconciles p (val committed) (round_half_up 4 (val q)) o1"
    "ro_policy_version o1 = sp_policy_version p"
proof -
  let ?c = "val committed" and ?a = "round_half_up 4 (val q)"
  have cb: "grid 4 ?c" "0 < ?c" "?c \<le> 10 ^ 10" "\<bar>?c\<bar> \<le> 10 ^ 12" "\<bar>?c\<bar> \<le> 10 ^ 20"
    using c stored_energy_bounds [OF c(1)] by (simp_all add: val_simps)
  obtain cq where cq: "quantize_energy committed = Inr cq" "val cq = ?c"
    using cb(1,5) by (rule quantize_energy_exact)
  have "\<bar>val q\<bar> \<le> 10 ^ 20" using a(2) by simp
  then obtain aq where aq: "quantize_energy q = Inr aq" "val aq = ?a" by (rule quantize_energy_total)
  have ab: "grid 4 (val aq)" "\<bar>val aq\<bar> \<le> 10 ^ 12"
    using round_half_up_bound [of "val q" "10 ^ 12" 4] a(2) by (simp_all add: aq)
  have cqb: "grid 4 (val cq)" "\<bar>val cq\<bar> \<le> 10 ^ 12" using cb by (simp_all add: cq)
  note dv = minus_exact [OF ab cqb] and dv' = minus_exact [OF cqb ab]
  obtain d where d: "quantize_energy (aq - cq) = Inr d" "val d = ?a - ?c"
    by (rule quantize_energy_exact [of "aq - cq"]) (use dv aq cq in auto)
  have db: "grid 4 (val d)" "\<bar>val d\<bar> \<le> 10 ^ 13" using dv by (simp_all add: d aq cq)
  have cpos: "0 < cq" using cb by (simp add: val_simps cq)
  obtain pct where pct: "bindE (ddiv d cq) (\<lambda>x.
      bindE (quantize_energy (x * Dec 100 0)) (\<lambda>pct. Inr (Some pct))) = Inr pct"
    using deviation_pct_returns [OF cqb(1) _ db(2)] cb(2) cq(2) by auto
  define w where "w \<longleftrightarrow> \<bar>d\<bar> \<le> cq * sp_tolerance_fraction p"
  have w: "w \<longleftrightarrow> \<bar>?a - ?c\<bar> \<le> ?c * val (sp_tolerance_fraction p)"
    using allowed_exact [OF p cqb(1)] abs_exact [OF db] cb by (simp add: w_def val_simps cq d)
  have short: "val (pymax (cq - aq) 0) = max (?c - ?a) 0" by (simp add: val_simps dv' cq aq)
  obtain bl where bl: "quantize_energy (pymax (cq - aq) 0) = Inr bl" "val bl = max (?c - ?a) 0"
    by (rule quantize_energy_exact [of "pymax (cq - aq) 0"])
      (use short dv' cq aq in \<open>auto simp: grid_max abs_le_iff\<close>)
  have settled: "val (pymin cq aq) = min ?c ?a" by (simp add: val_simps cq aq)
  show thesis
    by (rule that [of "\<lparr>ro_committed_kwh = cq, ro_actual_kwh = Some aq, ro_deviation_kwh = Some d,
        ro_deviation_pct = pct, ro_within_tolerance = w, ro_balancing_kwh = (if w then 0 else bl),
        ro_settled_kwh = Some (pymin cq aq), ro_status = RECONCILED,
        ro_policy_version = sp_policy_version p\<rparr>"])
      (use cq(1) a(1) aq(1) d(1) pct bl(1) cpos in
        \<open>simp add: reconcile_def Let_def w_def [symmetric]\<close>,
       use w cq(2) aq(2) d(2) settled bl(2) in \<open>simp add: reconciles_def\<close>, simp)
qed

section \<open>Accounting is exact\<close>

lemma reconcile_unmeasured:
  assumes "stored_energy committed" "ae_quantity_kwh actual = None"
  obtains cq where "quantize_energy committed = Inr cq" "val cq = val committed"
    "reconcile committed actual p = Inr \<lparr>ro_committed_kwh = cq, ro_actual_kwh = None,
       ro_deviation_kwh = None, ro_deviation_pct = None, ro_within_tolerance = False,
       ro_balancing_kwh = 0, ro_settled_kwh = None, ro_status = AWAITING_TELEMETRY,
       ro_policy_version = sp_policy_version p\<rparr>"
proof -
  have "grid 4 (val committed)" "\<bar>val committed\<bar> \<le> 10 ^ 20"
    using stored_energy_bounds [OF assms(1)] by simp_all
  then obtain cq where "quantize_energy committed = Inr cq" "val cq = val committed"
    by (rule quantize_energy_exact)
  with assms(2) show thesis by (intro that [of cq]) (simp_all add: reconcile_def)
qed

text \<open>The accounting of a settlement, in exact numbers.\<close>

definition accounts :: "settlement_policy \<Rightarrow> rat \<Rightarrow> settlement_result \<Rightarrow> bool" where
  "accounts p price s \<longleftrightarrow>
     val (st_gross_inr s) = round_half_up 2 (val (st_settled_kwh s) * price)
     \<and> val (st_buyer_debit_inr s) = val (st_gross_inr s)
     \<and> val (st_buyer_debit_inr s)
         = val (st_seller_credit_inr s) + val (st_platform_fee_inr s) + val (st_balancing_charge_inr s)
     \<and> 0 \<le> val (st_balancing_charge_inr s)
     \<and> (0 \<le> val (st_settled_kwh s) \<longrightarrow> 0 \<le> val (st_platform_fee_inr s))
     \<and> (val (ro_balancing_kwh (st_reconciliation s)) = 0 \<longrightarrow> val (st_balancing_charge_inr s) = 0)
     \<and> sum_list (map (\<lambda>l. val (sl_amount_inr l)) (tl (st_lines s)))
         = max 0 (val (st_platform_fee_inr s)) + val (st_balancing_charge_inr s)
     \<and> ledger_balances s"

lemma settlement_lines_returns:
  assumes p: "policy_ok p" and price: "\<bar>val price\<bar> \<le> 10 ^ 8"
  shows "\<exists>ls. settlement_lines p o1 price gross fee bal = Inr ls
    \<and> sum_list (map (\<lambda>l. val (sl_amount_inr l)) (tl ls)) = max 0 (val fee) + max 0 (val bal)"
proof -
  have "\<bar>val (sp_balancing_price_multiplier p)\<bar> \<le> 10 ^ 2" using policy_okD(5,6) [OF p] by simp
  from times_pow10 [OF price this]
  have "\<bar>val (price * sp_balancing_price_multiplier p)\<bar> \<le> 10 ^ 24" by simp
  then obtain z where "quantize_amount (price * sp_balancing_price_multiplier p) = Inr z"
    by (rule quantize_amount_total)
  then show ?thesis by (auto simp: settlement_lines_def Let_def val_simps)
qed

text \<open>Sums of amounts with two decimals are exact.\<close>

definition rupees :: "nat \<Rightarrow> rat \<Rightarrow> bool" where
  "rupees k v \<longleftrightarrow> grid 2 v \<and> \<bar>v\<bar> \<le> of_nat k * 10 ^ 22"

lemma rupees_rep28:
  assumes "rupees k v" and "k \<le> 1000"
  shows "rep28 v"
proof (rule rep28_grid [of 2])
  have "of_nat k * 10 ^ 22 \<le> (1000 * 10 ^ 22 :: rat)"
    using assms(2) by (intro mult_right_mono) simp_all
  with assms(1) show "\<bar>v\<bar> * 10 ^ 2 < 10 ^ 28" by (simp add: rupees_def)
qed (use assms(1) in \<open>simp add: rupees_def\<close>)

lemma rupees_plus:
  assumes "rupees j (val x)" "rupees k (val y)" "j + k \<le> 1000"
  shows "val (x + y) = val x + val y" "rupees (j + k) (val (x + y))"
    "val (x - y) = val x - val y" "rupees (j + k) (val (x - y))"
proof -
  have m: "rupees (j + k) (val x + val y)" "rupees (j + k) (val x - val y)"
    using assms(1,2) abs_triangle_ineq [of "val x" "val y"] abs_triangle_ineq4 [of "val x" "val y"]
    by (auto simp: rupees_def grid_plus grid_minus distrib_right)
  then show "val (x + y) = val x + val y" "val (x - y) = val x - val y"
    using assms(3) by (auto intro: val_plus val_minus rupees_rep28)
  with m show "rupees (j + k) (val (x + y))" "rupees (j + k) (val (x - y))" by simp_all
qed

lemma quantize_rupees:
  assumes "\<bar>val v\<bar> \<le> 10 ^ 22"
  obtains z where "quantize_amount v = Inr z" "val z = round_half_up 2 (val v)" "rupees 1 (val z)"
proof -
  have "\<bar>val v\<bar> \<le> 10 ^ 24" using assms by simp
  then obtain z where z: "quantize_amount v = Inr z" "val z = round_half_up 2 (val v)"
    by (rule quantize_amount_total)
  moreover have "\<bar>round_half_up 2 (val v)\<bar> \<le> of_int (10 ^ 22)"
    using assms by (intro round_half_up_bound) simp
  then have "rupees 1 (val z)" by (simp add: rupees_def z(2))
  ultimately show thesis by (rule that)
qed

lemma accounting:
  assumes p: "policy_ok p" and s: "grid 4 (val settled)" "\<bar>val settled\<bar> \<le> 10 ^ 11"
    and pr: "stored_price price" and bl: "0 \<le> val bl" "val bl \<le> 10 ^ 12"
  obtains gross fee charge credit where
    "quantize_amount (settled * price) = Inr gross"
    "quantize_amount (gross * sp_platform_fee_fraction p) = Inr fee"
    "quantize_amount (bl * price * sp_balancing_price_multiplier p) = Inr charge"
    "quantize_amount (gross - fee - charge) = Inr credit"
    "val gross = round_half_up 2 (val settled * val price)"
    "val gross = val credit + val fee + val charge"
    "deq gross (credit + (fee + charge))"
    "0 \<le> val charge" "val bl = 0 \<Longrightarrow> val charge = 0" "0 \<le> val settled \<Longrightarrow> 0 \<le> val fee"
proof -
  have prb: "grid 4 (val price)" "0 \<le> val price" "\<bar>val price\<bar> \<le> 10 ^ 8"
    using pr by (simp_all add: stored_price_def)
  have "\<bar>val settled * val price\<bar> \<le> 10 ^ 11 * 10 ^ 8"
    unfolding abs_mult using s prb by (intro mult_mono) simp_all
  then have "rep28 (val settled * val price)" "\<bar>val settled * val price\<bar> \<le> 10 ^ 22"
    using grid_times [OF s(1) prb(1)] by (auto intro: rep28_grid [of "4 + 4"])
  then have sp: "val (settled * price) = val settled * val price" "\<bar>val (settled * price)\<bar> \<le> 10 ^ 22"
    by (simp_all add: val_times)
  obtain gross where g: "quantize_amount (settled * price) = Inr gross"
    "val gross = round_half_up 2 (val settled * val price)" "rupees 1 (val gross)"
    using quantize_rupees [OF sp(2)] by (metis sp(1))
  have "\<bar>val gross\<bar> \<le> 10 ^ 22" "\<bar>val (sp_platform_fee_fraction p)\<bar> \<le> 10 ^ 0"
    using g(3) policy_okD(3,4) [OF p] by (simp_all add: rupees_def)
  from times_pow10 [OF this]
  have "\<bar>val (gross * sp_platform_fee_fraction p)\<bar> \<le> 10 ^ 22" by simp
  then obtain fee where f: "quantize_amount (gross * sp_platform_fee_fraction p) = Inr fee"
    "val fee = round_half_up 2 (val (gross * sp_platform_fee_fraction p))" "rupees 1 (val fee)"
    by (rule quantize_rupees)
  have "\<bar>val bl\<bar> \<le> 10 ^ 12" "\<bar>val (sp_balancing_price_multiplier p)\<bar> \<le> 10 ^ 2"
    using bl policy_okD(5,6) [OF p] by simp_all
  from times_pow10 [OF times_pow10 [OF this(1) prb(3)] this(2)]
  have "\<bar>val (bl * price * sp_balancing_price_multiplier p)\<bar> \<le> 10 ^ 22" by simp
  then obtain charge where c: "quantize_amount (bl * price * sp_balancing_price_multiplier p) = Inr charge"
    "val charge = round_half_up 2 (val (bl * price * sp_balancing_price_multiplier p))"
    "rupees 1 (val charge)" by (rule quantize_rupees)
  note gf = rupees_plus(3,4) [OF g(3) f(3)]
  note gfc = rupees_plus(3,4) [OF gf(2) c(3)]
  note fc = rupees_plus(1,2) [OF f(3) c(3)]
  have net: "val (gross - fee - charge) = val gross - val fee - val charge"
    "rupees 3 (val (gross - fee - charge))" using gf gfc by (simp_all add: eval_nat_numeral)
  then have "\<bar>val (gross - fee - charge)\<bar> \<le> 10 ^ 24" by (simp add: rupees_def)
  then obtain credit where cr: "quantize_amount (gross - fee - charge) = Inr credit"
    "val credit = round_half_up 2 (val (gross - fee - charge))" by (rule quantize_amount_total)
  have vc: "val credit = val gross - val fee - val charge"
    using net(2) by (simp add: cr(2) rupees_def round_half_up_id net(1) [symmetric])
  have "rupees 3 (val credit)" using net vc by simp
  from rupees_plus(1) [OF this fc(2)] have bal: "deq gross (credit + (fee + charge))"
    using fc(1) by (simp add: val_simps vc)
  show thesis
  proof (rule that [OF g(1) f(1) c(1) cr(1) g(2) _ bal])
    show "val gross = val credit + val fee + val charge" by (simp add: vc)
    show "0 \<le> val charge"
      using bl prb policy_okD(5) [OF p] by (simp add: c(2) round_half_up_nonneg times_nonneg)
    show "val charge = 0" if z: "val bl = 0"
    proof -
      have "val (bl * price) = 0" "val (bl * price * sp_balancing_price_multiplier p) = 0"
        using z val_times by (metis mult_zero_left rep28_zero)+
      then show ?thesis by (simp only: c(2) round_half_up_zero)
    qed
    show "0 \<le> val fee" if "0 \<le> val settled"
      using that prb policy_okD(3) [OF p] g(2)
      by (simp add: f(2) round_half_up_nonneg times_nonneg)
  qed
qed

lemma settle_measured:
  assumes p: "policy_ok p" and r: "request_ok r" and a: "ae_quantity_kwh (sr_actual r) = Some q"
  obtains s where "settle p r = Inr s" "st_status s = SETTLED"
    "accounts p (val (ep_price (sr_effective_price r))) s"
    "reconciles p (val (sr_committed_kwh r)) (round_half_up 4 (val q)) (st_reconciliation s)"
    "val (st_settled_kwh s) = min (val (sr_committed_kwh r)) (round_half_up 4 (val q))"
    "st_trade_id s = sr_trade_id r" "st_buyer_user_id s = sr_buyer_user_id r"
    "st_seller_user_id s = sr_seller_user_id r"
proof -
  let ?price = "ep_price (sr_effective_price r)" and ?c = "val (sr_committed_kwh r)"
    and ?a = "round_half_up 4 (val q)"
  have c: "stored_energy (sr_committed_kwh r)" "0 < sr_committed_kwh r" "\<bar>val q\<bar> \<le> 10 ^ 11"
    and pr: "stored_price ?price" "\<bar>val ?price\<bar> \<le> 10 ^ 8"
    using r a by (auto simp: request_ok_def stored_price_def)
  have "\<bar>val q\<bar> \<le> 10 ^ 12" using c(3) by simp
  then obtain o1 where o1: "reconcile (sr_committed_kwh r) (sr_actual r) p = Inr o1"
    "reconciles p ?c ?a o1" "ro_policy_version o1 = sp_policy_version p"
    by (rule reconcile_measured [OF p c(1,2) a])
  from o1(2) obtain settled where st: "ro_settled_kwh o1 = Some settled" "val settled = min ?c ?a"
    by (auto simp: reconciles_def)
  have cb: "grid 4 ?c" "0 < ?c" "?c \<le> 10 ^ 10"
    using c stored_energy_bounds [OF c(1)] by (simp_all add: val_simps)
  have ab: "\<bar>?a\<bar> \<le> 10 ^ 11" using round_half_up_bound [of "val q" "10 ^ 11" 4] c(3) by simp
  have sb: "grid 4 (val settled)" "\<bar>val settled\<bar> \<le> 10 ^ 11"
    using cb ab by (auto simp: st(2) grid_min abs_le_iff min_le_iff_disj)
  have bl: "0 \<le> val (ro_balancing_kwh o1)" "val (ro_balancing_kwh o1) \<le> 10 ^ 12"
    using o1(2) cb ab by (auto simp: reconciles_def abs_le_iff)
  obtain gross fee charge credit where acc:
    "quantize_amount (settled * ?price) = Inr gross"
    "quantize_amount (gross * sp_platform_fee_fraction p) = Inr fee"
    "quantize_amount (ro_balancing_kwh o1 * ?price * sp_balancing_price_multiplier p) = Inr charge"
    "quantize_amount (gross - fee - charge) = Inr credit"
    "val gross = round_half_up 2 (val settled * val ?price)"
    "val gross = val credit + val fee + val charge" "deq gross (credit + (fee + charge))"
    "0 \<le> val charge" "val (ro_balancing_kwh o1) = 0 \<Longrightarrow> val charge = 0"
    "0 \<le> val settled \<Longrightarrow> 0 \<le> val fee"
    by (rule accounting [OF p sb pr(1) bl]) blast
  obtain ls where ls: "settlement_lines p o1 ?price gross fee charge = Inr ls"
    "sum_list (map (\<lambda>l. val (sl_amount_inr l)) (tl ls)) = max 0 (val fee) + max 0 (val charge)"
    using settlement_lines_returns [OF p pr(2)] by blast
  show thesis
    by (rule that [of "\<lparr>st_trade_id = sr_trade_id r, st_buyer_user_id = sr_buyer_user_id r,
        st_seller_user_id = sr_seller_user_id r, st_settled_kwh = settled,
        st_effective_price = ?price, st_gross_inr = gross, st_platform_fee_inr = fee,
        st_balancing_charge_inr = charge, st_buyer_debit_inr = gross,
        st_seller_credit_inr = credit, st_status = SETTLED,
        st_policy_version = sp_policy_version p, st_reconciliation = o1,
        st_price_components_id = ep_source_id (sr_effective_price r),
        st_forecast_basis_id = sr_forecast_basis_id r,
        st_grid_validation_id = sr_grid_validation_id r, st_lines = ls\<rparr>"])
      (use o1(1) st(1) acc(1-4) ls(1) in \<open>simp add: settle_def Let_def\<close>, simp,
       use acc(5-10) ls(2) in \<open>simp add: accounts_def ledger_balances_def platform_retained_inr_def\<close>,
       use o1(2) st(2) in simp_all)
qed

section \<open>The contract of a calculator\<close>

text \<open>
  What the settlement service relies on: a result is about the request's trade and parties,
  carries the version of the rules, and unmeasured telemetry is never settled.
\<close>

locale settlement_calculator =
  fixes settle_request :: "settlement_request \<Rightarrow> settlement_result result"
    and policy_version :: string
  assumes identity: "settle_request r = Inr s \<Longrightarrow>
      st_policy_version s = policy_version \<and> st_trade_id s = sr_trade_id r
      \<and> st_buyer_user_id s = sr_buyer_user_id r \<and> st_seller_user_id s = sr_seller_user_id r"
    and never_guesses: "settle_request r = Inr s \<Longrightarrow> \<not> is_measured (sr_actual r) \<Longrightarrow>
      st_status s = Settlement_PENDING \<and> \<not> ro_is_complete (st_reconciliation s)"
    and measured: "settle_request r = Inr s \<Longrightarrow> is_measured (sr_actual r) \<Longrightarrow>
      ro_is_complete (st_reconciliation s)"
begin

lemma final_is_measured:
  "settle_request r = Inr s \<Longrightarrow> settlement_is_final (st_status s) \<Longrightarrow> is_measured (sr_actual r)"
  using never_guesses by (fastforce simp: settlement_is_final_def)

lemma complete_iff_measured:
  "settle_request r = Inr s \<Longrightarrow>
     ro_is_complete (st_reconciliation s) \<longleftrightarrow> is_measured (sr_actual r)"
  using never_guesses measured by metis

end

lemma reconcile_shape:
  assumes "reconcile c a p = Inr o1"
  shows "(ae_quantity_kwh a = None \<longleftrightarrow> ro_settled_kwh o1 = None)
    \<and> ro_status o1 = (if ae_quantity_kwh a = None then AWAITING_TELEMETRY else RECONCILED)"
  using assms by (auto simp: reconcile_def Let_def elim!: bindE_InrE split: option.splits)

lemma settle_shape:
  assumes "settle p r = Inr s"
  obtains o1 where "reconcile (sr_committed_kwh r) (sr_actual r) p = Inr o1"
    "st_reconciliation s = o1" "st_policy_version s = sp_policy_version p"
    "st_trade_id s = sr_trade_id r" "st_buyer_user_id s = sr_buyer_user_id r"
    "st_seller_user_id s = sr_seller_user_id r"
    "st_status s = (if ro_settled_kwh o1 = None then Settlement_PENDING else SETTLED)"
  using assms
  by (auto simp: settle_def empty_settlement_def Let_def elim!: bindE_InrE split: option.splits)

interpretation standard: settlement_calculator "settle p" "sp_policy_version p" for p
proof
  fix r s assume s: "settle p r = Inr s"
  show "st_policy_version s = sp_policy_version p \<and> st_trade_id s = sr_trade_id r
      \<and> st_buyer_user_id s = sr_buyer_user_id r \<and> st_seller_user_id s = sr_seller_user_id r"
    using s by (rule settle_shape) simp
  show "st_status s = Settlement_PENDING \<and> \<not> ro_is_complete (st_reconciliation s)"
    if "\<not> is_measured (sr_actual r)"
    using s that by (elim settle_shape)
      (auto dest: reconcile_shape simp: is_measured_def ro_is_complete_def reconciliation_is_complete_def)
  show "ro_is_complete (st_reconciliation s)" if "is_measured (sr_actual r)"
    using s that by (elim settle_shape)
      (auto dest: reconcile_shape simp: is_measured_def ro_is_complete_def reconciliation_is_complete_def)
qed

section \<open>The properties\<close>

text \<open>C17. A measured delivery of stored inputs always settles, and the ledger balances to the
  paisa: the buyer is debited the settled energy at the effective price, rounded half up to
  two decimals, and that equals the seller's credit plus the platform fee plus the balancing
  charge; the itemised lines after the first carry exactly what the platform retained.\<close>

theorem settle_ledger_balances:
  assumes "policy_ok p" "request_ok r" "is_measured (sr_actual r)"
  shows "\<exists>s. settle p r = Inr s \<and> st_status s = SETTLED \<and> ledger_balances s
    \<and> val (st_buyer_debit_inr s)
        = round_half_up 2 (val (st_settled_kwh s) * val (ep_price (sr_effective_price r)))
    \<and> val (st_buyer_debit_inr s) = val (st_seller_credit_inr s) + val (st_platform_fee_inr s)
        + val (st_balancing_charge_inr s)
    \<and> (0 \<le> val (st_platform_fee_inr s) \<longrightarrow>
        sum_list (map (\<lambda>l. val (sl_amount_inr l)) (tl (st_lines s)))
          = val (st_platform_fee_inr s) + val (st_balancing_charge_inr s))"
proof -
  from assms(3) obtain q where "ae_quantity_kwh (sr_actual r) = Some q" by (auto simp: is_measured_def)
  then obtain s where "settle p r = Inr s" "st_status s = SETTLED"
    "accounts p (val (ep_price (sr_effective_price r))) s"
    by (rule settle_measured [OF assms(1,2)])
  then show ?thesis by (auto simp: accounts_def)
qed

text \<open>C18. Reconciliation: what is settled is the smaller of the committed and the measured
  energy; the delivery is within tolerance exactly when it differs from the commitment by at
  most the tolerated share of it; and the seller is charged balancing only for a shortfall
  outside the tolerance, for the whole of it, and never for over-delivery.\<close>

theorem settle_reconciles:
  assumes "policy_ok p" "request_ok r" "ae_quantity_kwh (sr_actual r) = Some q"
  shows "\<exists>s o1. settle p r = Inr s \<and> st_reconciliation s = o1
    \<and> val (st_settled_kwh s) = min (val (sr_committed_kwh r)) (round_half_up 4 (val q))
    \<and> (ro_within_tolerance o1 \<longleftrightarrow>
         \<bar>round_half_up 4 (val q) - val (sr_committed_kwh r)\<bar>
           \<le> val (sr_committed_kwh r) * val (sp_tolerance_fraction p))
    \<and> val (ro_balancing_kwh o1) = (if ro_within_tolerance o1 then 0
         else max (val (sr_committed_kwh r) - round_half_up 4 (val q)) 0)
    \<and> (val (ro_balancing_kwh o1) = 0 \<longrightarrow> val (st_balancing_charge_inr s) = 0)
    \<and> (is_shortfall o1 \<longleftrightarrow> round_half_up 4 (val q) < val (sr_committed_kwh r))"
proof -
  obtain s where s: "settle p r = Inr s"
    "accounts p (val (ep_price (sr_effective_price r))) s"
    "reconciles p (val (sr_committed_kwh r)) (round_half_up 4 (val q)) (st_reconciliation s)"
    "val (st_settled_kwh s) = min (val (sr_committed_kwh r)) (round_half_up 4 (val q))"
    by (rule settle_measured [OF assms])
  then show ?thesis
    by (auto simp: reconciles_def accounts_def is_shortfall_def val_simps simp del: min_def
        split: option.splits)
qed

text \<open>Unmeasured is not zero: without a usable reading the settlement is PENDING, settles
  nothing, moves no money and charges nobody; and a measured zero, which is different, is a
  shortfall of the whole commitment.\<close>

theorem settle_unmeasured:
  assumes "policy_ok p" "request_ok r"
  shows "(ae_quantity_kwh (sr_actual r) = None \<longrightarrow>
      (\<exists>s. settle p r = Inr s \<and> st_status s = Settlement_PENDING
        \<and> ro_settled_kwh (st_reconciliation s) = None \<and> \<not> ro_is_complete (st_reconciliation s)
        \<and> list_all (\<lambda>v. val v = 0) [st_settled_kwh s, st_gross_inr s, st_platform_fee_inr s,
            st_balancing_charge_inr s, st_buyer_debit_inr s, st_seller_credit_inr s]
        \<and> val (ro_balancing_kwh (st_reconciliation s)) = 0 \<and> st_lines s = []))
    \<and> (\<forall>q. ae_quantity_kwh (sr_actual r) = Some q \<longrightarrow> val q = 0 \<longrightarrow>
      (\<exists>s. settle p r = Inr s \<and> st_status s = SETTLED
        \<and> val (ro_balancing_kwh (st_reconciliation s)) = val (sr_committed_kwh r)))"
proof (intro conjI allI impI)
  assume none: "ae_quantity_kwh (sr_actual r) = None"
  have se: "stored_energy (sr_committed_kwh r)" using assms(2) by (simp add: request_ok_def)
  obtain cq where "reconcile (sr_committed_kwh r) (sr_actual r) p
      = Inr \<lparr>ro_committed_kwh = cq, ro_actual_kwh = None, ro_deviation_kwh = None,
       ro_deviation_pct = None, ro_within_tolerance = False, ro_balancing_kwh = 0,
       ro_settled_kwh = None, ro_status = AWAITING_TELEMETRY,
       ro_policy_version = sp_policy_version p\<rparr>"
    by (rule reconcile_unmeasured [OF se none]) blast
  moreover obtain z where "quantize_amount 0 = Inr z" "val z = 0"
    by (rule quantize_amount_total [of 0]) simp_all
  moreover obtain e where "quantize_energy 0 = Inr e" "val e = 0"
    by (rule quantize_energy_total [of 0]) simp_all
  ultimately show "\<exists>s. settle p r = Inr s \<and> st_status s = Settlement_PENDING
        \<and> ro_settled_kwh (st_reconciliation s) = None \<and> \<not> ro_is_complete (st_reconciliation s)
        \<and> list_all (\<lambda>v. val v = 0) [st_settled_kwh s, st_gross_inr s, st_platform_fee_inr s,
            st_balancing_charge_inr s, st_buyer_debit_inr s, st_seller_credit_inr s]
        \<and> val (ro_balancing_kwh (st_reconciliation s)) = 0 \<and> st_lines s = []"
    by (simp add: settle_def empty_settlement_def ro_is_complete_def reconciliation_is_complete_def
        zero_decimal_def)
next
  fix q assume q: "ae_quantity_kwh (sr_actual r) = Some q" "val q = 0"
  let ?c = "val (sr_committed_kwh r)"
  obtain s where s: "settle p r = Inr s" "st_status s = SETTLED"
    "reconciles p ?c (round_half_up 4 (val q)) (st_reconciliation s)"
    by (rule settle_measured [OF assms q(1)])
  have c: "0 < ?c" using assms(2) by (simp add: request_ok_def val_simps)
  then have "?c * val (sp_tolerance_fraction p) < ?c"
    using policy_okD(2) [OF assms(1)] by simp
  with s c q(2) show "\<exists>s. settle p r = Inr s \<and> st_status s = SETTLED
      \<and> val (ro_balancing_kwh (st_reconciliation s)) = ?c"
    by (auto simp: reconciles_def)
qed

text \<open>Neither side can lose what it did not agree to: the buyer never pays more than the
  committed energy at the effective price, and what the seller is credited never exceeds what
  the buyer is debited once something was delivered.\<close>

theorem settle_fair:
  assumes "policy_ok p" "request_ok r" "ae_quantity_kwh (sr_actual r) = Some q"
  shows "\<exists>s. settle p r = Inr s
    \<and> val (st_buyer_debit_inr s)
        \<le> round_half_up 2 (val (sr_committed_kwh r) * val (ep_price (sr_effective_price r)))
    \<and> (0 \<le> val q \<longrightarrow> val (st_seller_credit_inr s) \<le> val (st_buyer_debit_inr s))"
proof -
  let ?c = "val (sr_committed_kwh r)" and ?p = "val (ep_price (sr_effective_price r))"
  obtain s where s: "settle p r = Inr s" "accounts p ?p s"
    "val (st_settled_kwh s) = min ?c (round_half_up 4 (val q))"
    by (rule settle_measured [OF assms])
  have c: "0 < ?c" and pp: "0 \<le> ?p"
    using assms(2) by (simp_all add: request_ok_def val_simps stored_price_def)
  have "val (st_settled_kwh s) * ?p \<le> ?c * ?p" using pp by (intro mult_right_mono) (simp_all add: s(3))
  then have "round_half_up 2 (val (st_settled_kwh s) * ?p) \<le> round_half_up 2 (?c * ?p)"
    by (rule round_half_up_mono)
  moreover have "0 \<le> val (st_settled_kwh s)" if "0 \<le> val q"
    using that c by (simp add: s(3) round_half_up_nonneg)
  ultimately show ?thesis using s(1,2) by (auto simp: accounts_def)
qed

section \<open>A concrete settlement\<close>

definition demo_settlement :: "decimal option \<Rightarrow> settlement_request" where
  "demo_settlement quantity = \<lparr>sr_trade_id = 1, sr_buyer_user_id = 11, sr_seller_user_id = 12,
     sr_committed_kwh = Dec 100000 (-4),
     sr_effective_price = \<lparr>ep_price = Dec 59500 (-4), ep_source_id = Some 5,
       ep_formula_version = Some ''1.0.0''\<rparr>,
     sr_delivery_start = 0, sr_delivery_end = 900000000,
     sr_actual = \<lparr>ae_window_start = 0, ae_window_end = 900000000, ae_quantity_kwh = quantity,
       ae_reading_count = 3, ae_source = ''telemetry''\<rparr>,
     sr_forecast_kwh = None, sr_forecast_basis_id = None, sr_grid_validation_id = None\<rparr>"

lemma demo_settlement_ok: "request_ok (demo_settlement (Some (Dec 90000 (-4))))"
  by (simp add: request_ok_def demo_settlement_def val_simps val_Dec4)

lemma demo_settlement_none_ok: "request_ok (demo_settlement None)"
  by (simp add: request_ok_def demo_settlement_def val_simps val_Dec4)

lemma demo_actual:
  "ae_quantity_kwh (sr_actual (demo_settlement q)) = q"
  by (simp add: demo_settlement_def)

lemma demo_settlement_evaluates:
  "reconcile (Dec 100000 (-4)) (sr_actual (demo_settlement (Some (Dec 90000 (-4))))) DEFAULT_POLICY
     = Inr \<lparr>ro_committed_kwh = Dec 100000 (-4), ro_actual_kwh = Some (Dec 90000 (-4)),
       ro_deviation_kwh = Some (Dec (-10000) (-4)), ro_deviation_pct = Some (Dec (-100000) (-4)),
       ro_within_tolerance = False, ro_balancing_kwh = Dec 10000 (-4),
       ro_settled_kwh = Some (Dec 90000 (-4)), ro_status = RECONCILED,
       ro_policy_version = ''1.0.0''\<rparr>"
  by code_simp

theorem settle_ledger_balances_witness:
  "\<exists>s. settle DEFAULT_POLICY (demo_settlement (Some (Dec 90000 (-4)))) = Inr s
     \<and> st_status s = SETTLED \<and> ledger_balances s"
proof -
  have "is_measured (sr_actual (demo_settlement (Some (Dec 90000 (-4)))))"
    by (simp add: is_measured_def demo_actual)
  from settle_ledger_balances [OF default_policy_ok demo_settlement_ok this] show ?thesis by blast
qed

theorem settle_reconciles_witness:
  "\<exists>s. settle DEFAULT_POLICY (demo_settlement (Some (Dec 90000 (-4)))) = Inr s
     \<and> val (st_settled_kwh s) = 9 \<and> is_shortfall (st_reconciliation s)"
proof -
  have "round_half_up 4 (val (Dec 90000 (-4))) = 9"
    using round_half_up_id [of 4 "val (Dec 90000 (-4))"] grid_of_int [of 4 90000] by (simp add: val_Dec4)
  with settle_reconciles [OF default_policy_ok demo_settlement_ok demo_actual] show ?thesis
    by (auto simp: demo_settlement_def val_Dec4)
qed

theorem settle_unmeasured_witness:
  "\<exists>s. settle DEFAULT_POLICY (demo_settlement None) = Inr s \<and> st_status s = Settlement_PENDING"
  using settle_unmeasured [OF default_policy_ok demo_settlement_none_ok] by (auto simp: demo_actual)

theorem settle_fair_witness:
  "\<exists>s. settle DEFAULT_POLICY (demo_settlement (Some (Dec 90000 (-4)))) = Inr s
     \<and> val (st_seller_credit_inr s) \<le> val (st_buyer_debit_inr s)"
  using settle_fair [OF default_policy_ok demo_settlement_ok demo_actual] by (auto simp: val_Dec4)

end
