(* ===== verification/Settlement_Service.thy ===== *)
theory Settlement_Service
  imports Pricing_Service Grid_Service Settlement_Policy
begin

text \<open>
  Settlement: the tables of reconciliations and settlements with their constraints
  (\<open>db/models/settlement.py\<close>), their queries (\<open>repositories/settlement.py\<close>) and the service
  (\<open>services/settlement_service.py\<close>), which reads the price from the stored breakdown and the
  delivery from telemetry, asks a calculator, and files the reconciliation with the settlement. The
  resolvers and the calculator are arguments; the prose reason of a reconciliation is not kept. An
  operation that commits before it raises gives the tables beside its outcome.
\<close>

section \<open>The tables\<close>

record reconciliation_row =
  rc_id :: uuid
  rc_trade_id :: uuid
  rc_committed_kwh :: decimal
  rc_actual_kwh :: "decimal option"
  rc_deviation_kwh :: "decimal option"
  rc_within_tolerance :: bool
  rc_balancing_kwh :: decimal
  rc_status :: reconciliation_status
  rc_created_at :: datetime

record settlement_row =
  sm_id :: uuid
  sm_trade_id :: uuid
  sm_buyer_user_id :: uuid
  sm_seller_user_id :: uuid
  sm_settled_kwh :: decimal
  sm_gross_inr :: decimal
  sm_platform_fee_inr :: decimal
  sm_balancing_charge_inr :: decimal
  sm_seller_credit_inr :: decimal
  sm_buyer_debit_inr :: decimal
  sm_status :: settlement_status
  sm_settled_at :: datetime

record settlement_db = pricing_db +
  t_reconciliations :: "reconciliation_row list"
  t_settlements :: "settlement_row list"

definition reconciliation_checks :: "'a settlement_db_scheme \<Rightarrow> reconciliation_row \<Rightarrow> (bool \<times> string) list" where
  "reconciliation_checks db r =
     [(not_negative_check (rc_actual_kwh r), ''ck_meter_reconciliations_actual_not_negative''),
      (0 \<le> rc_balancing_kwh r, ''ck_meter_reconciliations_balancing_not_negative''),
      (0 < rc_committed_kwh r, ''ck_meter_reconciliations_committed_positive''),
      ((rc_actual_kwh r \<noteq> None \<and> rc_deviation_kwh r \<noteq> None)
         \<or> (rc_actual_kwh r = None \<and> rc_deviation_kwh r = None \<and> \<not> rc_within_tolerance r),
       ''ck_meter_reconciliations_measurement_agrees_with_verdict''),
      (\<not> known rc_id (t_reconciliations db) (rc_id r), ''pk_meter_reconciliations''),
      (known td_id (t_trades db) (rc_trade_id r), ''fk_meter_reconciliations_trade_id_trades'')]"

definition settlement_checks :: "'a settlement_db_scheme \<Rightarrow> settlement_row \<Rightarrow> (bool \<times> string) list" where
  "settlement_checks db s =
     [(0 \<le> sm_balancing_charge_inr s, ''ck_settlements_balancing_charge_not_negative''),
      (0 \<le> sm_buyer_debit_inr s, ''ck_settlements_buyer_debit_not_negative''),
      (0 \<le> sm_gross_inr s, ''ck_settlements_gross_not_negative''),
      (val (sm_buyer_debit_inr s)
         = val (sm_seller_credit_inr s) + val (sm_platform_fee_inr s) + val (sm_balancing_charge_inr s),
       ''ck_settlements_ledger_balances''),
      (0 \<le> sm_platform_fee_inr s, ''ck_settlements_platform_fee_not_negative''),
      (0 \<le> sm_settled_kwh s, ''ck_settlements_settled_not_negative''),
      (\<not> known sm_id (t_settlements db) (sm_id s), ''pk_settlements''),
      (known td_id (t_trades db) (sm_trade_id s), ''fk_settlements_trade_id_trades''),
      (known us_id (t_users db) (sm_buyer_user_id s), ''fk_settlements_buyer_user_id_users''),
      (known us_id (t_users db) (sm_seller_user_id s), ''fk_settlements_seller_user_id_users'')]"

text \<open>Energies are \<open>Numeric(14, 4)\<close>, amounts \<open>Numeric(16, 2)\<close>.\<close>

definition stored_reconciliation :: "reconciliation_row \<Rightarrow> reconciliation_row result" where
  "stored_reconciliation r =
     bindE (numeric 14 4 (rc_committed_kwh r)) (\<lambda>c.
     bindE (nullable (numeric 14 4) (rc_actual_kwh r)) (\<lambda>a.
     bindE (nullable (numeric 14 4) (rc_deviation_kwh r)) (\<lambda>d.
     bindE (numeric 14 4 (rc_balancing_kwh r)) (\<lambda>b.
     Inr (r\<lparr>rc_committed_kwh := c, rc_actual_kwh := a, rc_deviation_kwh := d, rc_balancing_kwh := b\<rparr>)))))"

definition stored_settlement :: "settlement_row \<Rightarrow> settlement_row result" where
  "stored_settlement s =
     bindE (numeric 14 4 (sm_settled_kwh s)) (\<lambda>k.
     bindE (numeric 16 2 (sm_gross_inr s)) (\<lambda>g.
     bindE (numeric 16 2 (sm_platform_fee_inr s)) (\<lambda>fee.
     bindE (numeric 16 2 (sm_balancing_charge_inr s)) (\<lambda>charge.
     bindE (numeric 16 2 (sm_seller_credit_inr s)) (\<lambda>credit.
     bindE (numeric 16 2 (sm_buyer_debit_inr s)) (\<lambda>debit.
     Inr (s\<lparr>sm_settled_kwh := k, sm_gross_inr := g, sm_platform_fee_inr := fee,
            sm_balancing_charge_inr := charge, sm_seller_credit_inr := credit, sm_buyer_debit_inr := debit\<rparr>)))))))"

definition insert_reconciliation :: "reconciliation_row \<Rightarrow> 'a settlement_db_scheme \<Rightarrow> 'a settlement_db_scheme result" where
  "insert_reconciliation r db =
     bindE (stored_reconciliation r) (\<lambda>row.
     bindE (all_checks (reconciliation_checks db row)) (\<lambda>_.
     Inr (db\<lparr>t_reconciliations := t_reconciliations db @ [row]\<rparr>)))"

definition insert_settlement :: "settlement_row \<Rightarrow> 'a settlement_db_scheme \<Rightarrow> 'a settlement_db_scheme result" where
  "insert_settlement s db =
     bindE (stored_settlement s) (\<lambda>row.
     bindE (all_checks (settlement_checks db row)) (\<lambda>_.
     Inr (db\<lparr>t_settlements := t_settlements db @ [row]\<rparr>)))"

section \<open>Queries\<close>

definition latest_reconciliation :: "'a settlement_db_scheme \<Rightarrow> uuid \<Rightarrow> reconciliation_row option" where
  "latest_reconciliation db trade_id =
     head_row (sort_key (\<lambda>r. (- rc_created_at r, - int (rc_id r)))
       (filter (\<lambda>r. rc_trade_id r = trade_id) (t_reconciliations db)))"

definition reconciliations_for_trade :: "'a settlement_db_scheme \<Rightarrow> uuid \<Rightarrow> reconciliation_row list" where
  "reconciliations_for_trade db trade_id =
     sort_key (\<lambda>r. (rc_created_at r, rc_id r)) (filter (\<lambda>r. rc_trade_id r = trade_id) (t_reconciliations db))"

definition active_for_trade :: "'a settlement_db_scheme \<Rightarrow> uuid \<Rightarrow> settlement_row option" where
  "active_for_trade db trade_id =
     head_row (sort_key (\<lambda>s. (- sm_settled_at s, - int (sm_id s)))
       (filter (\<lambda>s. sm_trade_id s = trade_id \<and> sm_status s \<noteq> SUPERSEDED) (t_settlements db)))"

definition settlements_for_trade :: "'a settlement_db_scheme \<Rightarrow> uuid \<Rightarrow> settlement_row list" where
  "settlements_for_trade db trade_id =
     sort_key sm_settled_at (filter (\<lambda>s. sm_trade_id s = trade_id) (t_settlements db))"

definition settlements_for_user :: "'a settlement_db_scheme \<Rightarrow> uuid \<Rightarrow> settlement_row list" where
  "settlements_for_user db user_id =
     sort_key (\<lambda>s. - sm_settled_at s)
       (filter (\<lambda>s. sm_buyer_user_id s = user_id \<or> sm_seller_user_id s = user_id) (t_settlements db))"

section \<open>Resolvers\<close>

type_synonym price_resolver = "uuid \<Rightarrow> effective_price result"
type_synonym energy_resolver = "uuid \<Rightarrow> datetime \<Rightarrow> datetime \<Rightarrow> actual_energy result"
type_synonym calculator = "settlement_request \<Rightarrow> settlement_result result"

definition breakdown_price :: "'a pricing_db_scheme \<Rightarrow> price_resolver" where
  "breakdown_price db trade_id =
     bindE (get_breakdown db trade_id) (\<lambda>b.
     Inr \<lparr>ep_price = bd_final_price b, ep_source_id = Some (bd_id b),
          ep_formula_version = Some (bd_formula_version b)\<rparr>)"

definition add_bucket :: "decimal option \<times> nat \<Rightarrow> aggregated_reading \<Rightarrow> decimal option \<times> nat" where
  "add_bucket = (\<lambda>(total, readings) b.
     ((case ag_energy_kwh b of
         None \<Rightarrow> total
       | Some e \<Rightarrow> Some (case total of None \<Rightarrow> e | Some t \<Rightarrow> t + e)),
      readings + ag_reading_count b))"

definition buckets_of :: "(reading_row list + aggregated_reading list) \<Rightarrow> aggregated_reading list" where
  "buckets_of r = (case r of Inl _ \<Rightarrow> [] | Inr bs \<Rightarrow> bs)"

definition telemetry_energy ::
  "(decimal list \<Rightarrow> decimal option) \<Rightarrow> 'a telemetry_db_scheme \<Rightarrow> energy_resolver" where
  "telemetry_energy avg db site_id start stop =
     bindE (get_interval_for_site avg db site_id start stop (Some (stop - start)) True 1000 0) (\<lambda>r.
       let (total, readings) = foldl add_bucket (None, 0) (buckets_of r)
       in Inr \<lparr>ae_window_start = start, ae_window_end = stop, ae_quantity_kwh = total,
               ae_reading_count = readings, ae_source = ''telemetry:valid-only''\<rparr>)"

section \<open>Assembling a request\<close>

definition forecast_quantity :: "'a forecast_db_scheme \<Rightarrow> order_row \<Rightarrow> trade_row \<Rightarrow> decimal option" where
  "forecast_quantity db sell t =
     (case od_forecast_basis_id sell of
        None \<Rightarrow> None
      | Some run_id \<Rightarrow>
          (let covering = present (map fp_predicted_kwh
                 (filter (\<lambda>p. fp_interval_start p < td_delivery_end t \<and> td_delivery_start t < fp_interval_end p)
                   (points_for_run db run_id)))
           in if covering = [] then None else Some (dsum covering)))"

definition build_settlement_request ::
  "'a market_db_scheme \<Rightarrow> trade_row \<Rightarrow> price_resolver \<Rightarrow> energy_resolver \<Rightarrow> settlement_request result" where
  "build_settlement_request db t price_of energy_of =
     (case (fetch od_id (t_orders db) (td_buy_order_id t), fetch od_id (t_orders db) (td_sell_order_id t)) of
        (Some buy, Some sell) \<Rightarrow>
          bindE (price_of (td_id t)) (\<lambda>price.
          bindE (energy_of (od_site_id sell) (td_delivery_start t) (td_delivery_end t)) (\<lambda>actual.
          Inr \<lparr>sr_trade_id = td_id t, sr_buyer_user_id = od_user_id buy, sr_seller_user_id = od_user_id sell,
               sr_committed_kwh = td_quantity_kwh t, sr_effective_price = price,
               sr_delivery_start = td_delivery_start t, sr_delivery_end = td_delivery_end t,
               sr_actual = actual, sr_forecast_kwh = forecast_quantity db sell t,
               sr_forecast_basis_id = od_forecast_basis_id sell,
               sr_grid_validation_id = td_grid_validation_id t\<rparr>))
      | _ \<Rightarrow> Inl SettlementError)"

definition calculate ::
  "'a market_db_scheme \<Rightarrow> uuid \<Rightarrow> calculator \<Rightarrow> price_resolver \<Rightarrow> energy_resolver \<Rightarrow> settlement_result result" where
  "calculate db trade_id calculator price_of energy_of =
     bindE (get_trade db trade_id) (\<lambda>t.
     bindE (build_settlement_request db t price_of energy_of) (\<lambda>r.
     case calculator r of Inl _ \<Rightarrow> Inl SettlementError | Inr s \<Rightarrow> Inr s))"

section \<open>Reconciling\<close>

text \<open>Identifiers and clocks of a reconciliation and of a settlement.\<close>

record reconciliation_fresh =
  rf_row_id :: uuid
  rf_now :: datetime
  rf_event_id :: uuid
  rf_event_now :: datetime

record settlement_fresh = reconciliation_fresh +
  sf_row_id :: uuid
  sf_now :: datetime
  sf_event_id :: uuid
  sf_event_now :: datetime

definition reconciliation_of :: "uuid \<Rightarrow> settlement_result \<Rightarrow> 'f reconciliation_fresh_scheme \<Rightarrow> reconciliation_row" where
  "reconciliation_of trade_id s f =
     (let o1 = st_reconciliation s
      in \<lparr>rc_id = rf_row_id f, rc_trade_id = trade_id, rc_committed_kwh = ro_committed_kwh o1,
          rc_actual_kwh = ro_actual_kwh o1, rc_deviation_kwh = ro_deviation_kwh o1,
          rc_within_tolerance = ro_within_tolerance o1, rc_balancing_kwh = ro_balancing_kwh o1,
          rc_status = ro_status o1, rc_created_at = rf_now f\<rparr>)"

definition reconciliation_event ::
  "reconciliation_row \<Rightarrow> settlement_result \<Rightarrow> 'f reconciliation_fresh_scheme \<Rightarrow> audit_event" where
  "reconciliation_event r s f =
     trade_reconciled (rf_event_id f) (rf_event_now f) (rc_trade_id r) (rc_id r) (rc_committed_kwh r)
       (rc_actual_kwh r) (rc_deviation_kwh r) (rc_within_tolerance r) (rc_balancing_kwh r)
       (reconciliation_status_value (rc_status r)) (Some (ro_policy_version (st_reconciliation s)))
       (st_forecast_basis_id s) (rc_created_at r)"

definition record_reconciliation ::
  "uuid \<Rightarrow> settlement_result \<Rightarrow> 'f reconciliation_fresh_scheme \<Rightarrow> 'a settlement_db_scheme \<Rightarrow> 'a settlement_db_scheme result" where
  "record_reconciliation trade_id s f db =
     (let r = reconciliation_of trade_id s f
      in bindE (insert_reconciliation r db) (record_event (reconciliation_event r s f)))"

definition reconciliation_notice :: "reconciliation_row \<Rightarrow> notice" where
  "reconciliation_notice r =
     \<lparr>re_event_type = SETTLEMENT_UPDATED, re_entity_type = ''meter_reconciliation'', re_entity_id = Some (rc_id r),
      re_trade_id = Some (rc_trade_id r),
      re_payload = [(''reconciliation_status'', S_str (reconciliation_status_value (rc_status r))),
                    (''within_tolerance'', S_bool (rc_within_tolerance r)),
                    (''actual_kwh'', optional_text (rc_actual_kwh r)),
                    (''committed_kwh'', S_str (format_f (rc_committed_kwh r)))]\<rparr>"

definition reload_reconciliation :: "'a settlement_db_scheme \<Rightarrow> uuid \<Rightarrow> reconciliation_row result" where
  "reload_reconciliation db i =
     (case fetch rc_id (t_reconciliations db) i of None \<Rightarrow> Inl DataError | Some r \<Rightarrow> Inr r)"

definition reconcile_trade ::
  "'a settlement_db_scheme \<Rightarrow> uuid \<Rightarrow> calculator \<Rightarrow> price_resolver \<Rightarrow> energy_resolver \<Rightarrow> 'f reconciliation_fresh_scheme
   \<Rightarrow> ('a settlement_db_scheme \<times> reconciliation_row \<times> notice list) result" where
  "reconcile_trade db trade_id calculator price_of energy_of f =
     bindE (calculate db trade_id calculator price_of energy_of) (\<lambda>s.
     bindE (record_reconciliation trade_id s f db) (\<lambda>db'.
     bindE (reload_reconciliation db' (rf_row_id f)) (\<lambda>row. Inr (db', row, [reconciliation_notice row]))))"

section \<open>Settling\<close>

definition check_settlement :: "settlement_result \<Rightarrow> unit result" where
  "check_settlement s =
     (if \<not> ledger_balances s then Inl SettlementError
      else if st_settled_kwh s < 0 \<or> st_gross_inr s < 0 then Inl SettlementError
      else if ro_status (st_reconciliation s) \<noteq> RECONCILED then Inl SettlementError
      else if st_policy_version s = [] then Inl SettlementError
      else Inr ())"

definition supersede :: "uuid \<Rightarrow> settlement_row \<Rightarrow> settlement_row" where
  "supersede trade_id s =
     (if sm_trade_id s = trade_id \<and> sm_status s = SETTLED then s\<lparr>sm_status := SUPERSEDED\<rparr> else s)"

definition settlement_of :: "settlement_result \<Rightarrow> uuid \<Rightarrow> datetime \<Rightarrow> settlement_row" where
  "settlement_of s new_id moment =
     \<lparr>sm_id = new_id, sm_trade_id = st_trade_id s, sm_buyer_user_id = st_buyer_user_id s,
      sm_seller_user_id = st_seller_user_id s, sm_settled_kwh = st_settled_kwh s, sm_gross_inr = st_gross_inr s,
      sm_platform_fee_inr = st_platform_fee_inr s, sm_balancing_charge_inr = st_balancing_charge_inr s,
      sm_seller_credit_inr = st_seller_credit_inr s, sm_buyer_debit_inr = st_buyer_debit_inr s,
      sm_status = SETTLED, sm_settled_at = moment\<rparr>"

definition settlement_event :: "settlement_row \<Rightarrow> settlement_result \<Rightarrow> settlement_fresh \<Rightarrow> audit_event" where
  "settlement_event row s f =
     trade_settled (sf_event_id f) (sf_event_now f) (st_trade_id s) (sm_id row) (st_buyer_user_id s)
       (st_seller_user_id s) (st_settled_kwh s) (st_gross_inr s) (st_platform_fee_inr s)
       (st_balancing_charge_inr s) (st_buyer_debit_inr s) (st_seller_credit_inr s) (Some (st_policy_version s))
       (st_price_components_id s) (st_grid_validation_id s) (st_forecast_basis_id s) (sm_settled_at row)"

definition settlement_notice :: "settlement_row \<Rightarrow> notice" where
  "settlement_notice s =
     \<lparr>re_event_type = SETTLEMENT_UPDATED, re_entity_type = ''settlement'', re_entity_id = Some (sm_id s),
      re_trade_id = Some (sm_trade_id s),
      re_payload = [(''status'', S_str (settlement_status_value (sm_status s))),
                    (''settled_kwh'', S_str (format_f (sm_settled_kwh s))),
                    (''buyer_debit_inr'', S_str (format_f (sm_buyer_debit_inr s))),
                    (''seller_credit_inr'', S_str (format_f (sm_seller_credit_inr s)))]\<rparr>"

definition get_settlement :: "'a settlement_db_scheme \<Rightarrow> uuid \<Rightarrow> settlement_row result" where
  "get_settlement db i =
     (case fetch sm_id (t_settlements db) i of
        None \<Rightarrow> Inl (NotFoundError ''SETTLEMENT_NOT_FOUND'') | Some s \<Rightarrow> Inr s)"

definition file_settlement ::
  "uuid \<Rightarrow> settlement_result \<Rightarrow> datetime \<Rightarrow> settlement_fresh \<Rightarrow> 'a settlement_db_scheme
   \<Rightarrow> ('a settlement_db_scheme \<times> settlement_row \<times> notice list) result" where
  "file_settlement trade_id s moment f db =
     (let db1 = db\<lparr>t_settlements := map (supersede trade_id) (t_settlements db)\<rparr>;
          row = settlement_of s (sf_row_id f) moment
      in bindE (insert_settlement row db1) (\<lambda>db2.
         bindE (record_event (settlement_event row s f) db2) (\<lambda>db3.
         bindE (get_settlement db3 (sf_row_id f)) (\<lambda>stored. Inr (db3, stored, [settlement_notice stored])))))"

text \<open>The clock of the moment is read before anything else.\<close>

definition settle_trade ::
  "'a settlement_db_scheme \<Rightarrow> uuid \<Rightarrow> calculator \<Rightarrow> price_resolver \<Rightarrow> energy_resolver \<Rightarrow> datetime option
   \<Rightarrow> settlement_fresh \<Rightarrow> 'a settlement_db_scheme \<times> (settlement_row \<times> notice list) result" where
  "settle_trade db trade_id calculator price_of energy_of given f =
     (let moment = instant given (sf_now f)
      in case bindE (calculate db trade_id calculator price_of energy_of) (\<lambda>s.
                bindE (record_reconciliation trade_id s f db) (\<lambda>db1. Inr (s, db1))) of
           Inl e \<Rightarrow> (db, Inl e)
         | Inr (s, db1) \<Rightarrow>
             if \<not> ro_is_complete (st_reconciliation s) then (db1, Inl NotReconcilableError)
             else (case bindE (check_settlement s) (\<lambda>_. file_settlement trade_id s moment f db1) of
                     Inl e \<Rightarrow> (db, Inl e) | Inr (db2, x) \<Rightarrow> (db2, Inr x)))"

text \<open>The default resolvers read the tables as they are when the trade is settled.\<close>

definition settle_from_tables ::
  "'a settlement_db_scheme \<Rightarrow> (decimal list \<Rightarrow> decimal option) \<Rightarrow> calculator \<Rightarrow> uuid \<Rightarrow> datetime option \<Rightarrow> settlement_fresh
   \<Rightarrow> 'a settlement_db_scheme \<times> (settlement_row \<times> notice list) result" where
  "settle_from_tables db avg calculator trade_id given f =
     settle_trade db trade_id calculator (breakdown_price db) (telemetry_energy avg db) given f"

end
