(* ===== verification/Audit_Write.thy ===== *)
theory Audit_Write
  imports Market_Service Audit_Log_Props
begin

text \<open>
  Appending an audit event inside a service's transaction: what it changes, what it and the other
  writes of a transaction can raise, and when it succeeds.
\<close>

section \<open>The effect\<close>

lemma record_event_effect:
  "record_event ev db = Inr db' \<longleftrightarrow>
     (\<exists>row. audit_record (set (map us_id (t_users db))) ev (t_audit db) = Inr (t_audit db @ [row])
        \<and> db' = db\<lparr>t_audit := t_audit db @ [row]\<rparr>)"
  unfolding record_event_def bindE_eq_Inr audit_record_def insert_row_def by auto

section \<open>What a write can raise\<close>

definition write_error :: "exn \<Rightarrow> bool" where
  "write_error e \<longleftrightarrow> e \<in> {PyTypeError, PyValueError, PyOverflowError, DataError} \<union> range IntegrityError"

lemma mapE_raises: "mapE f xs = Inl e \<Longrightarrow> \<exists>x \<in> set xs. f x = Inl e"
  by (induction xs) (auto simp: bindE_eq_Inl)

lemma canonicalise_raises: "canonicalise v = Inl e \<Longrightarrow> write_error e"
proof (induction v rule: canonicalise.induct)
  case (11 items)
  then show ?case by (fastforce simp: bindE_eq_Inl dest: mapE_raises)
next
  case (12 xs)
  then show ?case by (auto simp: bindE_eq_Inl dest: mapE_raises)
qed (auto simp: write_error_def split: if_splits)

lemma write_errors [simp]: "write_error PyTypeError" "write_error (IntegrityError c)" "write_error DataError"
  by (simp_all add: write_error_def)

lemma canonical_payload_raises: "canonical_payload v = Inl e \<Longrightarrow> write_error e"
proof (cases "canonicalise v")
  case (Inr j)
  then show "canonical_payload v = Inl e \<Longrightarrow> write_error e" by (cases j) (auto simp: canonical_payload_def)
qed (auto simp: canonical_payload_def intro: canonicalise_raises)

lemma new_row_raises: "new_row tbl ev = Inl e \<Longrightarrow> write_error e"
  by (auto simp: new_row_def seal_def event_fingerprint_def canonical_json_def bindE_eq_Inl
      simp del: canonicalise.simps intro: canonical_payload_raises canonicalise_raises)

lemma record_event_raises: "record_event ev db = Inl e \<Longrightarrow> write_error e"
  by (auto simp: record_event_def audit_record_def insert_row_def row_checks_def bindE_eq_Inl
      intro: new_row_raises)

lemma stored_raises: "numeric p s d = Inl e \<Longrightarrow> write_error e" "varchar n t = Inl e \<Longrightarrow> write_error e"
  "pred_text n v = Inl e \<Longrightarrow> write_error e" "nullable (numeric p s) w = Inl e \<Longrightarrow> write_error e"
  by (auto simp: write_error_def varchar_def pred_text_def dest: numeric_Inl nullable_Inl split: option.splits)

lemma checks_raise: "all_checks cs = Inl e \<Longrightarrow> write_error e"
  using all_checks_cases [of cs] by (auto simp: write_error_def)

lemma case_Inr_iff: "(case m of Inl e \<Rightarrow> Inl (g e) | Inr x \<Rightarrow> f x) = Inr y \<longleftrightarrow> (\<exists>x. m = Inr x \<and> f x = Inr y)"
  by (cases m) auto

section \<open>Success\<close>

lemma checks_pass: "list_all fst cs \<Longrightarrow> all_checks cs = Inr ()"
  by simp

lemma mapE_returns: "(\<And>x. x \<in> set xs \<Longrightarrow> returns (f x)) \<Longrightarrow> returns (mapE f xs)"
proof (induction xs)
  case (Cons x xs)
  have "returns (f x)" "returns (mapE f xs)" using Cons by simp_all
  then show ?case by (auto simp: returns_iff)
qed simp

lemma canonicalise_items_return:
  assumes "\<forall>item \<in> set items. returns (canonicalise (snd item))"
  shows "returns (canonical_payload (PDict items))"
proof -
  have "returns (mapE (\<lambda>item. bindE (canonicalise (snd item)) (\<lambda>v. Inr (fst item, v))) (sort_key fst items))"
    by (rule mapE_returns) (use assms in \<open>auto simp: returns_bindE returns_iff\<close>)
  then show ?thesis by (auto simp: canonical_payload_def returns_bindE returns_iff)
qed

lemma payload_returns:
  "list_all (\<lambda>item. returns (canonicalise (snd item))) (ae_payload ev) \<Longrightarrow> returns (payload_json ev)"
  unfolding payload_json_def
  by (rule canonicalise_items_return) (auto simp: with_payload_version_def list_all_iff dest!: map_of_SomeD split: option.splits)

lemma first_event_recorded:
  assumes "t_audit db = []" "datetime_ok (ae_event_time ev)" "datetime_ok (ae_recorded_at ev)" "py_dict ev"
    and "list_all (\<lambda>item. returns (canonicalise (snd item))) (ae_payload ev)" "ae_actor_user_id ev = None"
  shows "\<exists>row. record_event ev db = Inr (db\<lparr>t_audit := [row]\<rparr>)"
proof -
  obtain payload where "payload_json ev = Inr payload" using payload_returns [OF assms(5)] by (auto simp: returns_iff)
  with assms(2,3) obtain h where "event_fingerprint ev (map_option ar_event_hash (latest [])) = Inr h"
    by (simp add: fingerprint_eq)
  from audit_record_succeeds [OF _ _ assms(4) this, of "set (map us_id (t_users db))"]
  obtain row where "audit_record (set (map us_id (t_users db))) ev [] = Inr [row]"
    using assms(6) by (auto simp: table_ok_def intact_log_def list_chain_def)
  with assms(1) have "record_event ev db = Inr (db\<lparr>t_audit := [row]\<rparr>)" by (simp add: record_event_def)
  then show ?thesis ..
qed

end
