(* ===== verification/Grid_Adapter.thy ===== *)
theory Grid_Adapter
  imports Grid_Contract
begin

text \<open>
  The grid engine of the deployment
  (\<open>backend/app/adapters/grid/power_grid_model_adapter.py\<close>). Power Grid Model itself, a
  third-party solver, is the parameter \<open>solve\<close>: from a network and the injections at its
  nodes it gives the readings the adapter takes from the solver's arrays (per-node voltages,
  per-line and per-transformer loadings in percent, rounded as the adapter rounds them,
  \<open>None\<close> where the solver's number is not finite), or raises. What the adapter makes of them
  is modelled: which readings count, the metrics, the violations per element and in
  aggregate, the status, and the two solves of a validation.
\<close>

record flow_output =
  out_voltages :: "decimal option list"
  out_lines :: "(uuid \<times> decimal option) list"
  out_transformers :: "(uuid \<times> decimal option) list"

type_synonym solver = "network_model \<Rightarrow> node_injection list \<Rightarrow> flow_output result"

definition rated_lines :: "network_model \<Rightarrow> uuid set" where
  "rated_lines n = set (map line_id (filter (\<lambda>l. line_rating_kw l \<noteq> None) (net_lines n)))"

definition rated_transformers :: "network_model \<Rightarrow> uuid set" where
  "rated_transformers n =
     set (map transformer_id (filter (\<lambda>t. transformer_rating_kw t \<noteq> None) (net_transformers n)))"

fun loadings :: "uuid set \<Rightarrow> (uuid \<times> decimal option) list \<Rightarrow> (uuid \<times> decimal) list" where
  "loadings rated [] = []"
| "loadings rated ((u, None) # rows) = loadings rated rows"
| "loadings rated ((u, Some x) # rows) =
     (if u \<in> rated then (u, x) # loadings rated rows else loadings rated rows)"

definition overloads ::
  "grid_violation_type \<Rightarrow> (uuid \<times> decimal) list \<Rightarrow> grid_violation list" where
  "overloads kind ls =
     map (\<lambda>(u, x). \<lparr>violation_type = kind, element_id = Some u, observed = x,
                    limit = Dec 100 0\<rparr>)
       (filter (\<lambda>(u, x). x > Dec 100 0) ls)"

definition extract_metrics ::
  "flow_output \<Rightarrow> network_model \<Rightarrow> grid_metrics \<times> grid_violation list" where
  "extract_metrics out n =
     (let volts = List.map_filter id (out_voltages out);
          lines = loadings (rated_lines n) (out_lines out);
          txs = loadings (rated_transformers n) (out_transformers out)
      in (\<lparr>min_voltage_pu = pymin_of volts, max_voltage_pu = pymax_of volts,
           max_line_loading_pct = pymax_of (map snd lines),
           max_transformer_loading_pct = pymax_of (map snd txs)\<rparr>,
          overloads LINE_OVERLOAD lines @ overloads TRANSFORMER_OVERLOAD txs))"

definition determine_status ::
  "grid_metrics \<Rightarrow> grid_limits \<Rightarrow> grid_violation list \<Rightarrow> grid_validation_status" where
  "determine_status m l per_element =
     (if per_element \<noteq> [] then UNSAFE
      else if evaluate_metrics m l \<noteq> [] then UNSAFE
      else SAFE)"

text \<open>Violations per element, and the aggregate ones of the types they do not cover.\<close>

definition merge_violations ::
  "grid_violation list \<Rightarrow> grid_violation list \<Rightarrow> grid_violation list" where
  "merge_violations per_element agg =
     per_element
     @ filter (\<lambda>v. violation_type v \<notin> set (map violation_type per_element)) agg"

definition baseline_of :: "solver \<Rightarrow> grid_validation_request \<Rightarrow> grid_violation list" where
  "baseline_of solve r =
     (case solve (gr_network r) (gr_baseline_injections r) of
        Inl e \<Rightarrow> []
      | Inr out \<Rightarrow>
          (case extract_metrics out (gr_network r) of
             (m, per_element) \<Rightarrow> merge_violations per_element (evaluate_metrics m (gr_limits r))))"

definition pgm_name :: string where
  "pgm_name = ''power_grid_model''"

definition pgm_validate ::
  "solver \<Rightarrow> string \<Rightarrow> grid_validation_request \<Rightarrow> grid_validation_result result" where
  "pgm_validate solve version r =
     bindE (solve (gr_network r) (combined_injections r)) (\<lambda>out.
       (case extract_metrics out (gr_network r) of
          (m, per_element) \<Rightarrow>
            Inr \<lparr>gv_engine = pgm_name, gv_engine_version = version,
                 gv_status = determine_status m (gr_limits r) per_element, gv_metrics = m,
                 gv_violations = merge_violations per_element (evaluate_metrics m (gr_limits r)),
                 gv_baseline_violations = baseline_of solve r\<rparr>))"

section \<open>The adapter fulfils the contract\<close>

lemma determine_status_SAFE:
  "determine_status m l vs = SAFE \<longleftrightarrow> vs = [] \<and> within_limits m l"
  by (simp add: determine_status_def evaluate_metrics_Nil)

lemma determine_status_range: "determine_status m l vs \<noteq> UNKNOWN"
  by (simp add: determine_status_def)

lemma pgm_validateE:
  assumes "pgm_validate solve version r = Inr x"
  obtains out m vs where "solve (gr_network r) (combined_injections r) = Inr out"
    "extract_metrics out (gr_network r) = (m, vs)"
    "x = \<lparr>gv_engine = pgm_name, gv_engine_version = version,
       gv_status = determine_status m (gr_limits r) vs, gv_metrics = m,
       gv_violations = merge_violations vs (evaluate_metrics m (gr_limits r)),
       gv_baseline_violations = baseline_of solve r\<rparr>"
  using assms by (auto simp: pgm_validate_def elim!: bindE_InrE split: prod.splits)

interpretation pgm: grid_engine "pgm_validate solve version" pgm_name version
  for solve version
  by unfold_locales (auto elim!: pgm_validateE simp: determine_status_SAFE)

lemma set_loadings:
  "(u, x) \<in> set (loadings rated rows) \<longleftrightarrow> u \<in> rated \<and> (u, Some x) \<in> set rows"
  by (induction rated rows rule: loadings.induct) auto

lemma overloads_mem:
  "v \<in> set (overloads kind ls) \<longleftrightarrow>
     violation_type v = kind \<and> limit v = Dec 100 0 \<and> Dec 100 0 < observed v
     \<and> (\<exists>u. element_id v = Some u \<and> (u, observed v) \<in> set ls)"
  by (cases v) (auto simp: overloads_def)

text \<open>Every rated element above its rating in the solved network is a listed violation.\<close>

lemma extract_overloads:
  assumes "extract_metrics out n = (m, vs)"
  shows "(\<exists>v \<in> set vs. violation_type v = LINE_OVERLOAD \<and> element_id v = Some u)
      \<longleftrightarrow> (\<exists>x. u \<in> rated_lines n \<and> (u, Some x) \<in> set (out_lines out) \<and> Dec 100 0 < x)"
    and "(\<exists>v \<in> set vs. violation_type v = TRANSFORMER_OVERLOAD \<and> element_id v = Some u)
      \<longleftrightarrow> (\<exists>x. u \<in> rated_transformers n \<and> (u, Some x) \<in> set (out_transformers out)
            \<and> Dec 100 0 < x)"
proof -
  have ex: "(\<exists>v \<in> set (overloads k ls). violation_type v = k \<and> element_id v = Some u)
      \<longleftrightarrow> (\<exists>x. (u, x) \<in> set ls \<and> Dec 100 0 < x)" for k ls
    by (force simp: overloads_def)
  have no: "\<not> (\<exists>v \<in> set (overloads k ls). violation_type v = k' \<and> element_id v = Some u)"
    if "k \<noteq> k'" for k k' ls
    using that by (auto simp: overloads_mem)
  have vs: "vs = overloads LINE_OVERLOAD (loadings (rated_lines n) (out_lines out))
      @ overloads TRANSFORMER_OVERLOAD (loadings (rated_transformers n) (out_transformers out))"
    using assms by (simp add: extract_metrics_def Let_def)
  show "(\<exists>v \<in> set vs. violation_type v = LINE_OVERLOAD \<and> element_id v = Some u)
      \<longleftrightarrow> (\<exists>x. u \<in> rated_lines n \<and> (u, Some x) \<in> set (out_lines out) \<and> Dec 100 0 < x)"
    using no [of TRANSFORMER_OVERLOAD LINE_OVERLOAD] by (simp add: vs ex bex_Un set_loadings) blast
  show "(\<exists>v \<in> set vs. violation_type v = TRANSFORMER_OVERLOAD \<and> element_id v = Some u)
      \<longleftrightarrow> (\<exists>x. u \<in> rated_transformers n \<and> (u, Some x) \<in> set (out_transformers out)
            \<and> Dec 100 0 < x)"
    using no [of LINE_OVERLOAD TRANSFORMER_OVERLOAD] by (simp add: vs ex bex_Un set_loadings) blast
qed

lemma merge_violations_element:
  assumes "\<forall>v \<in> set agg. element_id v = None"
  shows "(\<exists>v \<in> set (merge_violations vs agg). violation_type v = k \<and> element_id v = Some u)
    \<longleftrightarrow> (\<exists>v \<in> set vs. violation_type v = k \<and> element_id v = Some u)"
  using assms by (auto simp: merge_violations_def)

lemma evaluate_metrics_element: "v \<in> set (evaluate_metrics m l) \<Longrightarrow> element_id v = None"
  by (auto simp: evaluate_metrics_def split: option.splits if_splits)

section \<open>The properties\<close>

text \<open>What the adapter reports SAFE was solved without a rated element above its rating.\<close>

lemma pgm_safe_loadings:
  assumes "pgm_validate solve version r = Inr x" "gv_status x = SAFE"
  shows "\<exists>out. solve (gr_network r) (combined_injections r) = Inr out
    \<and> (\<forall>(u, y) \<in> set (loadings (rated_lines (gr_network r)) (out_lines out)
           @ loadings (rated_transformers (gr_network r)) (out_transformers out)). val y \<le> 100)"
proof -
  from assms(1) obtain out m vs where o: "solve (gr_network r) (combined_injections r) = Inr out"
    "extract_metrics out (gr_network r) = (m, vs)" "gv_status x = determine_status m (gr_limits r) vs"
    by (rule pgm_validateE) simp
  from assms(2) o(3) have "vs = []" by (simp add: determine_status_SAFE)
  have h: "val (Dec 100 0) = 100" by (simp add: val_def)
  have "val y \<le> 100" if "(u, y) \<in> set (loadings (rated_lines (gr_network r)) (out_lines out)
      @ loadings (rated_transformers (gr_network r)) (out_transformers out))" for u y
    using that o(2) \<open>vs = []\<close>
    by (auto simp: extract_metrics_def Let_def overloads_def filter_empty_conv val_simps h not_less)
  with o(1) show ?thesis by blast
qed

text \<open>A trade is accepted only on a network that was shown safe: when the decision derived
  from the adapter's result is ACCEPT, the solved metrics are within the requested limits,
  every line and transformer of the network has a rating, no rated line or transformer of the
  solved network is above its rating, and the trade caused no violation.\<close>

theorem pgm_accept_is_safe:
  assumes "pgm_validate solve version r = Inr x"
    and "decide (effective_status (resolve_status (gv_status x) (unrated_elements (gr_network r)))
           (caused_violations x)) (caused_violations x) = ACCEPT"
  shows "within_limits (gv_metrics x) (gr_limits r) \<and> has_complete_ratings (gr_network r)
    \<and> caused_violations x = []
    \<and> (\<exists>out. solve (gr_network r) (combined_injections r) = Inr out
        \<and> (\<forall>(u, y) \<in> set (loadings (rated_lines (gr_network r)) (out_lines out)
               @ loadings (rated_transformers (gr_network r)) (out_transformers out)).
             val y \<le> 100))"
proof -
  from assms(2) have "gv_status x = SAFE" by (simp add: decide_accept status_SAFE_iff)
  from pgm_safe_loadings [OF assms(1) this] pgm.accepted_is_cleared [OF assms] show ?thesis by blast
qed

text \<open>A trade is blamed only for what it changes: an overload of a line that the result
  attributes to the trade is of a rated line that is above its rating with the trade, and was
  not above it in the solved baseline.\<close>

theorem pgm_caused_overloads:
  assumes "pgm_validate solve version r = Inr x"
    and "solve (gr_network r) (gr_baseline_injections r) = Inr base"
    and "v \<in> set (caused_violations x)" "violation_type v = LINE_OVERLOAD" "element_id v = Some u"
  shows "\<exists>out. solve (gr_network r) (combined_injections r) = Inr out
    \<and> u \<in> rated_lines (gr_network r)
    \<and> (\<exists>y. (u, Some y) \<in> set (out_lines out) \<and> 100 < val y)
    \<and> \<not> (\<exists>y. (u, Some y) \<in> set (out_lines base) \<and> 100 < val y)"
proof -
  have h: "val (Dec 100 0) = 100" by (simp add: val_def)
  from assms(1) obtain out m vs where o: "solve (gr_network r) (combined_injections r) = Inr out"
    "extract_metrics out (gr_network r) = (m, vs)"
    "gv_violations x = merge_violations vs (evaluate_metrics m (gr_limits r))"
    "gv_baseline_violations x = baseline_of solve r"
    by (rule pgm_validateE) simp
  obtain mb vb where b: "extract_metrics base (gr_network r) = (mb, vb)" by force
  have bl: "baseline_of solve r = merge_violations vb (evaluate_metrics mb (gr_limits r))"
    by (simp add: baseline_of_def assms(2) b)
  from assms(3-5) have
    "\<exists>v \<in> set (gv_violations x). violation_type v = LINE_OVERLOAD \<and> element_id v = Some u"
    "\<not> (\<exists>v \<in> set (baseline_of solve r). violation_type v = LINE_OVERLOAD \<and> element_id v = Some u)"
    by (auto simp: caused_violations_set o(4))
  then show ?thesis
    using o(1) extract_overloads(1) [OF o(2)] extract_overloads(1) [OF b]
    by (auto simp: o(3) bl merge_violations_element evaluate_metrics_element val_simps h)
qed

text \<open>The adapter reports SAFE for a network it has no reading of: when the solver returns
  and none of its numbers is finite (Power Grid Model reports NaN for what is not energised),
  the result is SAFE with empty metrics.\<close>

theorem pgm_unread_is_safe:
  assumes "solve (gr_network r) (combined_injections r) = Inr out"
    and "set (out_voltages out) \<subseteq> {None}"
    and "snd ` set (out_lines out) \<subseteq> {None}" "snd ` set (out_transformers out) \<subseteq> {None}"
  shows "\<exists>x. pgm_validate solve version r = Inr x \<and> gv_status x = SAFE
    \<and> gv_metrics x = \<lparr>min_voltage_pu = None, max_voltage_pu = None,
        max_line_loading_pct = None, max_transformer_loading_pct = None\<rparr>"
proof -
  have "List.map_filter id vs = []" if "set vs \<subseteq> {None}" for vs :: "decimal option list"
    using that by (induction vs) (auto simp: List.map_filter_def)
  moreover have "loadings rated rows = []" if "snd ` set rows \<subseteq> {None}" for rated rows
    using that by (induction rated rows rule: loadings.induct) auto
  ultimately show ?thesis
    using assms by (simp add: pgm_validate_def extract_metrics_def Let_def overloads_def
        determine_status_SAFE within_limits_def)
qed

text \<open>The ceiling on loading is the rating, whatever limit the request asks for: a rated line
  above 100 percent makes the result UNSAFE under every limits value.\<close>

theorem pgm_rating_is_the_ceiling:
  assumes "solve (gr_network r) (combined_injections r) = Inr out"
    and "u \<in> rated_lines (gr_network r)" "(u, Some y) \<in> set (out_lines out)" "100 < val y"
  shows "\<exists>x. pgm_validate solve version r = Inr x \<and> gv_status x = UNSAFE"
proof -
  have h: "val (Dec 100 0) = 100" by (simp add: val_def)
  obtain m vs where b: "extract_metrics out (gr_network r) = (m, vs)" by force
  have "vs \<noteq> []"
    using assms(2-4) extract_overloads(1) [OF b, of u] by (auto simp: val_simps h)
  with assms(1) b show ?thesis by (simp add: pgm_validate_def determine_status_def)
qed

section \<open>A concrete network\<close>

definition demo_network :: network_model where
  "demo_network = \<lparr>net_version = ''demo'',
     net_nodes = [\<lparr>node_id = 1, node_type = SUBSTATION, nominal_voltage_kv = Dec 11 0,
                   parent_node_id = None, feeder_id = None\<rparr>,
                  \<lparr>node_id = 2, node_type = CONNECTION_POINT, nominal_voltage_kv = Dec 4 (-1),
                   parent_node_id = Some 1, feeder_id = None\<rparr>],
     net_lines = [\<lparr>line_id = 2, line_from = 1, line_to = 2, line_rating_kw = Some (Dec 10 0)\<rparr>],
     net_transformers = []\<rparr>"

definition demo_grid_request :: "decimal \<Rightarrow> grid_validation_request" where
  "demo_grid_request kw = \<lparr>gr_network = demo_network, gr_limits = DEFAULT_LIMITS,
     gr_interval_start = 0, gr_interval_end = 900000000, gr_baseline_injections = [],
     gr_proposed_injections = [\<lparr>inj_node_id = 2, inj_active_power_kw = kw\<rparr>]\<rparr>"

text \<open>A solver for that network: the line carries what node 2 injects.\<close>

definition demo_solver :: solver where
  "demo_solver n is = Inr \<lparr>out_voltages = [Some (Dec 1 0), Some (Dec 99 (-2))],
     out_lines = map (\<lambda>i. (inj_node_id i, Some (\<bar>inj_active_power_kw i\<bar> * Dec 10 0))) is,
     out_transformers = []\<rparr>"

definition blind_solver :: solver where
  "blind_solver n is = Inr \<lparr>out_voltages = [None], out_lines = [], out_transformers = []\<rparr>"

lemma demo_injections:
  "combined_injections (demo_grid_request kw) = [\<lparr>inj_node_id = 2, inj_active_power_kw = 0 + kw\<rparr>]"
  by (simp add: combined_injections_def superpose_def demo_grid_request_def accumulate_def Let_def)

definition demo_verdict :: "decimal \<Rightarrow> grid_validation_status \<Rightarrow> grid_violation list
    \<Rightarrow> grid_validation_result" where
  "demo_verdict loading status vs = \<lparr>gv_engine = pgm_name, gv_engine_version = ''1'',
     gv_status = status,
     gv_metrics = \<lparr>min_voltage_pu = Some (Dec 99 (-2)), max_voltage_pu = Some (Dec 1 0),
       max_line_loading_pct = Some loading, max_transformer_loading_pct = None\<rparr>,
     gv_violations = vs, gv_baseline_violations = []\<rparr>"

definition demo_overload :: grid_violation where
  "demo_overload = \<lparr>violation_type = LINE_OVERLOAD, element_id = Some 2, observed = Dec 110 0,
     limit = Dec 100 0\<rparr>"

lemma demo_cleared:
  "pgm_validate demo_solver ''1'' (demo_grid_request (Dec 6 0))
     = Inr (demo_verdict (Dec 60 0) SAFE [])"
  by code_simp

lemma demo_overloaded:
  "pgm_validate demo_solver ''1'' (demo_grid_request (Dec 11 0))
     = Inr (demo_verdict (Dec 110 0) UNSAFE [demo_overload])"
  by code_simp

lemma demo_unrated: "unrated_elements demo_network = []"
  by (simp add: unrated_elements_def demo_network_def)

theorem pgm_accept_is_safe_witness:
  "within_limits (gv_metrics (demo_verdict (Dec 60 0) SAFE [])) DEFAULT_LIMITS
   \<and> has_complete_ratings demo_network"
proof -
  have "decide (effective_status (resolve_status SAFE (unrated_elements demo_network)) []) [] = ACCEPT"
    by (simp add: decide_accept status_SAFE_iff demo_unrated)
  with pgm_accept_is_safe [OF demo_cleared] show ?thesis
    by (simp add: demo_verdict_def caused_violations_def demo_grid_request_def)
qed

theorem pgm_caused_overloads_witness:
  "\<exists>out. demo_solver demo_network [\<lparr>inj_node_id = 2, inj_active_power_kw = 0 + Dec 11 0\<rparr>] = Inr out
    \<and> (\<exists>y. (2, Some y) \<in> set (out_lines out) \<and> 100 < val y)"
proof -
  have "demo_overload \<in> set (caused_violations (demo_verdict (Dec 110 0) UNSAFE [demo_overload]))"
    by (simp add: caused_violations_def demo_verdict_def)
  from pgm_caused_overloads [OF demo_overloaded demo_solver_def this, of 2] show ?thesis
    by (auto simp: demo_overload_def demo_injections) (auto simp: demo_grid_request_def)
qed

theorem pgm_unread_is_safe_witness:
  "\<exists>x. pgm_validate blind_solver ''1'' (demo_grid_request (Dec 11 0)) = Inr x \<and> gv_status x = SAFE"
  using pgm_unread_is_safe [where solve = blind_solver and r = "demo_grid_request (Dec 11 0)"
      and version = "''1''", OF blind_solver_def]
  by auto

theorem pgm_rating_is_the_ceiling_witness:
  "\<exists>x. pgm_validate demo_solver ''1'' ((demo_grid_request (Dec 11 0))
      \<lparr>gr_limits := DEFAULT_LIMITS\<lparr>lim_max_line_loading_pct := Dec 120 0\<rparr>\<rparr>) = Inr x
    \<and> gv_status x = UNSAFE"
proof -
  let ?r = "(demo_grid_request (Dec 11 0))\<lparr>gr_limits := DEFAULT_LIMITS\<lparr>lim_max_line_loading_pct := Dec 120 0\<rparr>\<rparr>"
  have inj: "combined_injections ?r = [\<lparr>inj_node_id = 2, inj_active_power_kw = 0 + Dec 11 0\<rparr>]"
    by (simp add: combined_injections_def superpose_def demo_grid_request_def accumulate_def Let_def)
  have "\<bar>0 + Dec 11 0\<bar> * Dec 10 0 = Dec 110 0" by code_simp
  then have out: "(2, Some (Dec 110 0)) \<in> set (out_lines (case demo_solver (gr_network ?r)
      (combined_injections ?r) of Inr out \<Rightarrow> out))"
    by (simp add: demo_solver_def inj)
  have rated: "2 \<in> rated_lines (gr_network ?r)"
    by (simp add: rated_lines_def demo_grid_request_def demo_network_def)
  show ?thesis
    by (rule pgm_rating_is_the_ceiling [OF _ rated out]) (simp_all add: demo_solver_def val_def)
qed

end
