(* ===== verification/Grid_Validation.thy ===== *)
theory Grid_Validation
  imports Grid_Service Audit_Write Grid_Adapter
begin

text \<open>
  What grid validation guarantees: the network it projects from the twin, what a validation leaves
  behind on every path, what an accepted trade has been shown, and what its fingerprint and its
  checks of an engine leave out.
\<close>

section \<open>The projected network\<close>

definition has_link :: "uuid set \<Rightarrow> network_node \<Rightarrow> bool" where
  "has_link ids n \<longleftrightarrow> (case parent_node_id n of None \<Rightarrow> False | Some p \<Rightarrow> p \<in> ids)"

definition line_at :: "(uuid \<rightharpoonup> decimal option) \<Rightarrow> network_node \<Rightarrow> network_line" where
  "line_at ratings n =
     \<lparr>line_id = node_id n, line_from = the (parent_node_id n), line_to = node_id n,
      line_rating_kw = dict_get ratings (node_id n) None\<rparr>"

definition transformer_at :: "(uuid \<rightharpoonup> decimal option) \<Rightarrow> network_node \<Rightarrow> network_transformer" where
  "transformer_at ratings n =
     \<lparr>transformer_id = node_id n, transformer_from = the (parent_node_id n), transformer_to = node_id n,
      transformer_rating_kw = dict_get ratings (node_id n) None\<rparr>"

lemma build_edges_eq:
  "build_edges ratings ids ns =
     (map (line_at ratings) (filter (\<lambda>n. has_link ids n \<and> node_type n \<noteq> TRANSFORMER) ns),
      map (transformer_at ratings) (filter (\<lambda>n. has_link ids n \<and> node_type n = TRANSFORMER) ns))"
  by (induction ns) (auto simp: has_link_def line_at_def transformer_at_def split: option.splits)

text \<open>
  A network is well formed when its nodes are told apart by id and its edges are exactly the links
  of nodes to a parent inside it, each under the id of its lower node and of the kind that node has.
\<close>

definition network_ok :: "network_model \<Rightarrow> bool" where
  "network_ok n \<longleftrightarrow>
     distinct (map node_id (net_nodes n))
     \<and> map (\<lambda>l. (line_id l, line_from l, line_to l)) (net_lines n)
         = map (\<lambda>m. (node_id m, the (parent_node_id m), node_id m))
             (filter (\<lambda>m. has_link (node_ids n) m \<and> node_type m \<noteq> TRANSFORMER) (net_nodes n))
     \<and> map (\<lambda>t. (transformer_id t, transformer_from t, transformer_to t)) (net_transformers n)
         = map (\<lambda>m. (node_id m, the (parent_node_id m), node_id m))
             (filter (\<lambda>m. has_link (node_ids n) m \<and> node_type m = TRANSFORMER) (net_nodes n))"

definition twin_ids :: "'a registry_scheme \<Rightarrow> string option \<Rightarrow> uuid set" where
  "twin_ids db feeder = gn_id ` set (feeder_nodes db feeder)"

lemma node_of_fields [simp]:
  "node_id (network_node_of g) = gn_id g" "node_type (network_node_of g) = gn_node_type g"
  "parent_node_id (network_node_of g) = gn_parent_node_id g"
  by (simp_all add: network_node_of_def)

lemma build_network_nodes:
  "net_nodes (build_network db feeder) = map network_node_of (feeder_nodes db feeder)"
  "node_ids (build_network db feeder) = twin_ids db feeder"
  by (simp_all add: build_network_def Let_def node_ids_def twin_ids_def comp_def)

lemma feeder_nodes_distinct:
  "distinct (map gn_id (t_grid_nodes db)) \<Longrightarrow> distinct (map gn_id (feeder_nodes db feeder))"
  unfolding feeder_nodes_def by (metis distinct_map_filter distinct_take take_map)

lemma rating_of_node:
  assumes "distinct (map gn_id rows)" "g \<in> set rows"
  shows "map_of (rev (map (\<lambda>g. (gn_id g, gn_rated_capacity_kw g)) rows)) (gn_id g) = Some (gn_rated_capacity_kw g)"
proof (rule map_of_is_SomeI)
  show "distinct (map fst (rev (map (\<lambda>g. (gn_id g, gn_rated_capacity_kw g)) rows)))"
    using assms(1) by (simp add: rev_map [symmetric] comp_def)
qed (use assms(2) in auto)

lemma build_network_ok:
  assumes "distinct (map gn_id (t_grid_nodes db))"
  shows "network_ok (build_network db feeder)"
proof -
  have "map node_id (map network_node_of (feeder_nodes db feeder)) = map gn_id (feeder_nodes db feeder)"
    by (simp add: comp_def)
  with feeder_nodes_distinct [OF assms] show ?thesis
    unfolding network_ok_def build_network_nodes
    by (simp add: build_network_def Let_def build_edges_eq line_at_def transformer_at_def
        comp_def twin_ids_def image_image)
qed

text \<open>An element has no rating exactly when the twin records none for the node below it.\<close>

lemma unrated_in_twin:
  assumes "distinct (map gn_id (t_grid_nodes db))"
  shows "u \<in> set (unrated_elements (build_network db feeder)) \<longleftrightarrow>
    (\<exists>g \<in> set (feeder_nodes db feeder). gn_id g = u \<and> gn_rated_capacity_kw g = None
      \<and> (\<exists>p \<in> twin_ids db feeder. gn_parent_node_id g = Some p))"
proof -
  let ?rows = "feeder_nodes db feeder"
  let ?r = "map_of (rev (map (\<lambda>g. (gn_id g, gn_rated_capacity_kw g)) ?rows))"
  have r: "dict_get ?r (gn_id g) None = gn_rated_capacity_kw g" if "g \<in> set ?rows" for g
    using rating_of_node [OF feeder_nodes_distinct [OF assms] that] by simp
  have l: "has_link (gn_id ` set ?rows) (network_node_of g)
      \<longleftrightarrow> (\<exists>p \<in> twin_ids db feeder. gn_parent_node_id g = Some p)" for g
    by (auto simp: has_link_def twin_ids_def split: option.splits)
  have "set (unrated_elements (build_network db feeder)) =
      {gn_id g |g. g \<in> set ?rows \<and> has_link (gn_id ` set ?rows) (network_node_of g)
         \<and> dict_get ?r (gn_id g) None = None}"
    unfolding unrated_elements_def build_network_def Let_def build_edges_eq
    by (simp add: filter_map comp_def line_at_def transformer_at_def image_Un [symmetric] image_image
        conj_ac del: dict_get_Some) blast
  also have "\<dots> = {gn_id g |g. g \<in> set ?rows \<and> (\<exists>p \<in> twin_ids db feeder. gn_parent_node_id g = Some p)
         \<and> gn_rated_capacity_kw g = None}"
    using r by (auto simp: l)
  finally show ?thesis by auto
qed

lemma twin_edges:
  assumes "distinct (map gn_id (t_grid_nodes db))"
  shows "l \<in> set (net_lines (build_network db feeder)) \<longleftrightarrow>
      (\<exists>g \<in> set (feeder_nodes db feeder). \<exists>p \<in> gn_id ` set (feeder_nodes db feeder).
         gn_parent_node_id g = Some p \<and> gn_node_type g \<noteq> TRANSFORMER
         \<and> l = \<lparr>line_id = gn_id g, line_from = p, line_to = gn_id g, line_rating_kw = gn_rated_capacity_kw g\<rparr>)"
    "t \<in> set (net_transformers (build_network db feeder)) \<longleftrightarrow>
      (\<exists>g \<in> set (feeder_nodes db feeder). \<exists>p \<in> gn_id ` set (feeder_nodes db feeder).
         gn_parent_node_id g = Some p \<and> gn_node_type g = TRANSFORMER
         \<and> t = \<lparr>transformer_id = gn_id g, transformer_from = p, transformer_to = gn_id g,
                transformer_rating_kw = gn_rated_capacity_kw g\<rparr>)"
proof -
  let ?rows = "feeder_nodes db feeder"
  let ?r = "map_of (rev (map (\<lambda>g. (gn_id g, gn_rated_capacity_kw g)) ?rows))"
  have r: "dict_get ?r (gn_id g) None = gn_rated_capacity_kw g" if "g \<in> set ?rows" for g
    using rating_of_node [OF feeder_nodes_distinct [OF assms] that] by simp
  have l: "has_link (gn_id ` set ?rows) (network_node_of g) \<longleftrightarrow> (\<exists>p \<in> gn_id ` set ?rows. gn_parent_node_id g = Some p)" for g
    by (auto simp: has_link_def split: option.splits)
  show "l \<in> set (net_lines (build_network db feeder)) \<longleftrightarrow>
      (\<exists>g \<in> set ?rows. \<exists>p \<in> gn_id ` set ?rows. gn_parent_node_id g = Some p \<and> gn_node_type g \<noteq> TRANSFORMER
         \<and> l = \<lparr>line_id = gn_id g, line_from = p, line_to = gn_id g, line_rating_kw = gn_rated_capacity_kw g\<rparr>)"
    using r unfolding build_network_def Let_def build_edges_eq
    by (auto simp: filter_map comp_def line_at_def l image_iff simp del: dict_get_Some) blast
  show "t \<in> set (net_transformers (build_network db feeder)) \<longleftrightarrow>
      (\<exists>g \<in> set ?rows. \<exists>p \<in> gn_id ` set ?rows. gn_parent_node_id g = Some p \<and> gn_node_type g = TRANSFORMER
         \<and> t = \<lparr>transformer_id = gn_id g, transformer_from = p, transformer_to = gn_id g,
                transformer_rating_kw = gn_rated_capacity_kw g\<rparr>)"
    using r unfolding build_network_def Let_def build_edges_eq
    by (auto simp: filter_map comp_def transformer_at_def l image_iff simp del: dict_get_Some) blast
qed

lemma feeder_nodes_eq:
  "feeder_nodes db feeder = filter (\<lambda>g. feeder = None \<or> gn_feeder_id g = feeder) (take 10000 (t_grid_nodes db))"
  unfolding feeder_nodes_def by (rule filter_cong) (auto simp: on_feeder_def split: option.splits)

section \<open>What a validation writes\<close>

lemma stored_validation_fields:
  "stored_validation v = Inr row \<Longrightarrow>
     vn_id row = vn_id v \<and> vn_trade_id row = vn_trade_id v \<and> vn_status row = vn_status v
     \<and> vn_decision row = vn_decision v \<and> vn_input_hash row = vn_input_hash v \<and> vn_reason row = vn_reason v
     \<and> vn_simulation_engine row = vn_simulation_engine v \<and> vn_created_at row = vn_created_at v"
  by (auto simp: stored_validation_def bindE_eq_Inr)

lemma file_validation_effect:
  assumes "file_validation v f db = Inr db'"
  obtains row evs where "stored_validation v = Inr row" "\<not> known vn_id (t_validation_runs db) (vn_id v)"
    "db' = db\<lparr>t_validation_runs := t_validation_runs db @ [row], t_audit := t_audit db @ evs\<rparr>"
    "length evs = (if vn_trade_id v = None then 0 else 1)"
proof -
  from assms obtain row where row: "stored_validation v = Inr row" "list_all fst (validation_checks db row)"
    "(case vn_trade_id v of None \<Rightarrow> Inr (db\<lparr>t_validation_runs := t_validation_runs db @ [row]\<rparr>)
      | Some trade \<Rightarrow> record_event (validation_event v trade f)
          (db\<lparr>t_validation_runs := t_validation_runs db @ [row]\<rparr>)) = Inr db'"
    by (auto simp: file_validation_def insert_validation_def bindE_eq_Inr)
  from row(2) stored_validation_fields [OF row(1)] have new: "\<not> known vn_id (t_validation_runs db) (vn_id v)"
    by (simp add: validation_checks_def)
  show thesis
  proof (cases "vn_trade_id v")
    case None
    with row(3) have e: "db' = db\<lparr>t_validation_runs := t_validation_runs db @ [row]\<rparr>" by simp
    have "db' = db\<lparr>t_validation_runs := t_validation_runs db @ [row], t_audit := t_audit db @ []\<rparr>"
      unfolding e by simp
    with that [OF row(1) new this] None show thesis by simp
  next
    case (Some t)
    with row(3) obtain a where
      "db' = db\<lparr>t_validation_runs := t_validation_runs db @ [row], t_audit := t_audit db @ [a]\<rparr>"
      by (auto simp: record_event_effect)
    with that [OF row(1) new this] Some show thesis by simp
  qed
qed

lemma filed_row: "\<not> known vn_id (t_validation_runs db) i \<Longrightarrow> vn_id row = i \<Longrightarrow>
   get_validation_run (db\<lparr>t_validation_runs := t_validation_runs db @ [row], t_audit := evs\<rparr>) i = Inr row"
  by (simp add: get_validation_run_def fetch_append_new)

lemma engine_answered_effect:
  assumes "engine_answered r trade snap given f res db = Inr (db', row, ns)"
  shows "check_result res = Inr () \<and> stored_validation (result_row r res trade snap (vf_run_id f) (instant given (vf_now f))) = Inr row
    \<and> (\<exists>evs. db' = db\<lparr>t_validation_runs := t_validation_runs db @ [row], t_audit := t_audit db @ evs\<rparr>
        \<and> length evs = (if trade = None then 0 else 1)) \<and> ns = [validation_notice row]"
proof -
  let ?v = "result_row r res trade snap (vf_run_id f) (instant given (vf_now f))"
  from assms have c: "check_result res = Inr ()" "file_validation ?v f db = Inr db'"
    "get_validation_run db' (vf_run_id f) = Inr row" "ns = [validation_notice row]"
    by (auto simp: engine_answered_def bindE_eq_Inr)
  from c(2) obtain row1 evs where e: "stored_validation ?v = Inr row1" "\<not> known vn_id (t_validation_runs db) (vn_id ?v)"
    "db' = db\<lparr>t_validation_runs := t_validation_runs db @ [row1], t_audit := t_audit db @ evs\<rparr>"
    "length evs = (if vn_trade_id ?v = None then 0 else 1)"
    by (rule file_validation_effect)
  have i: "vn_id ?v = vf_run_id f" "vn_trade_id ?v = trade" by (simp_all add: result_row_def)
  with stored_validation_fields [OF e(1)] have "get_validation_run db' (vf_run_id f) = Inr row1"
    using e(2) unfolding e(3) by (intro filed_row) simp_all
  with c e i show ?thesis by auto
qed

lemma file_validation_raises: "file_validation v f db = Inl e \<Longrightarrow> write_error e"
  by (auto simp: file_validation_def insert_validation_def stored_validation_def bindE_eq_Inl
      intro: stored_raises checks_raise record_event_raises split: option.splits)

section \<open>The properties\<close>

text \<open>The tables with one more run, and with its audit event when the run is about a trade.\<close>

definition run_added :: "'a grid_db_scheme \<Rightarrow> validation_row \<Rightarrow> 'a grid_db_scheme \<Rightarrow> bool" where
  "run_added db row db' \<longleftrightarrow>
     (\<exists>evs. db' = db\<lparr>t_validation_runs := t_validation_runs db @ [row], t_audit := t_audit db @ evs\<rparr>
        \<and> length evs = (if vn_trade_id row = None then 0 else 1))"

lemma scenario_effect:
  assumes "validate_scenario eng r trade snap given f db = (db', outcome)"
  shows "case outcome of
      Inr (row, ns) \<Rightarrow> run_added db row db' \<and> ns = [validation_notice row]
        \<and> vn_input_hash row = request_fingerprint r \<and> vn_trade_id row = trade
        \<and> (\<exists>res. eng_validate eng r = Inr res \<and> vn_status row = verdict_status r res
             \<and> vn_decision row = verdict_decision r res)
    | Inl e \<Rightarrow>
        if e = GridEngineError \<and> (\<exists>exc. eng_validate eng r = Inl exc)
        then \<exists>row. run_added db row db' \<and> vn_status row = UNKNOWN \<and> vn_decision row = REJECT
          \<and> vn_input_hash row = request_fingerprint r \<and> vn_trade_id row = trade
        else db' = db"
proof (cases "eng_validate eng r")
  case (Inl exc)
  let ?v = "failure_row eng r trade snap exc (vf_run_id f) (instant given (vf_now f))"
  have v: "vn_status ?v = UNKNOWN" "vn_decision ?v = REJECT" "vn_input_hash ?v = request_fingerprint r"
    "vn_trade_id ?v = trade" by (simp_all add: failure_row_def)
  show ?thesis
  proof (cases "file_validation ?v f db")
    case e: (Inl e)
    have "e \<noteq> GridEngineError" using file_validation_raises [OF e] by (auto simp: write_error_def)
    with assms Inl e show ?thesis by (auto simp: validate_scenario_def engine_failed_def split: if_splits)
  next
    case d: (Inr d)
    from d obtain row evs where row: "stored_validation ?v = Inr row"
      "d = db\<lparr>t_validation_runs := t_validation_runs db @ [row], t_audit := t_audit db @ evs\<rparr>"
      "length evs = (if vn_trade_id ?v = None then 0 else 1)"
      by (rule file_validation_effect)
    then have "run_added db row d" using stored_validation_fields [OF row(1)] by (auto simp: run_added_def)
    with stored_validation_fields [OF row(1)] v assms Inl d show ?thesis
      by (auto simp: validate_scenario_def engine_failed_def split: if_splits)
  qed
next
  case (Inr res)
  let ?v = "result_row r res trade snap (vf_run_id f) (instant given (vf_now f))"
  have v: "vn_status ?v = verdict_status r res" "vn_decision ?v = verdict_decision r res"
    "vn_input_hash ?v = request_fingerprint r" "vn_trade_id ?v = trade" by (simp_all add: result_row_def)
  show ?thesis
  proof (cases "engine_answered r trade snap given f res db")
    case e: (Inl e)
    with assms Inr show ?thesis by (auto simp: validate_scenario_def or_unchanged_def split: if_splits)
  next
    case d: (Inr d)
    obtain db1 row ns where d1: "d = (db1, row, ns)" by (cases d)
    note e = engine_answered_effect [OF d [unfolded d1]]
    with stored_validation_fields [of ?v row] v have "run_added db row db1" by (auto simp: run_added_def)
    with e stored_validation_fields [of ?v row] v assms Inr d d1 show ?thesis
      by (auto simp: validate_scenario_def or_unchanged_def split: if_splits)
  qed
qed

subsection \<open>When the store accepts a run\<close>

text \<open>
  A run can be filed when its identifier is new, its snapshot is on file and, for a trade, the audit log
  accepts its event; an answer can be stored when its engine names fit their columns, its voltages
  are at most 9,999 and its loadings at most 99,999.
\<close>

definition run_accepted :: "'a grid_db_scheme \<Rightarrow> validation_row \<Rightarrow> validation_fresh \<Rightarrow> bool" where
  "run_accepted db v f \<longleftrightarrow>
     \<not> known vn_id (t_validation_runs db) (vn_id v)
     \<and> pred_option (known sn_id (t_grid_snapshots db)) (vn_grid_snapshot_id v)
     \<and> pred_option (\<lambda>t. returns (audit_record (set (map us_id (t_users db))) (validation_event v t f) (t_audit db)))
         (vn_trade_id v)"

definition answer_storable :: "grid_validation_result \<Rightarrow> bool" where
  "answer_storable res \<longleftrightarrow>
     gv_engine res \<noteq> [] \<and> length (gv_engine res) \<le> 64 \<and> length (gv_engine_version res) \<le> 64
     \<and> list_all (\<lambda>v. 0 \<le> limit v) (gv_violations res)
     \<and> voltages_ordered (min_voltage_pu (gv_metrics res)) (max_voltage_pu (gv_metrics res))
     \<and> pred_option (\<lambda>v. \<bar>val v\<bar> \<le> 9999) (min_voltage_pu (gv_metrics res))
     \<and> pred_option (\<lambda>v. \<bar>val v\<bar> \<le> 9999) (max_voltage_pu (gv_metrics res))
     \<and> pred_option (\<lambda>v. \<bar>val v\<bar> \<le> 99999) (max_line_loading_pct (gv_metrics res))
     \<and> pred_option (\<lambda>v. \<bar>val v\<bar> \<le> 99999) (max_transformer_loading_pct (gv_metrics res))"

lemma file_accepted:
  assumes "stored_validation v = Inr row" "list_all fst (validation_checks db row)" "run_accepted db v f"
  shows "\<exists>db'. file_validation v f db = Inr db'"
proof -
  have i: "insert_validation v db = Inr (db\<lparr>t_validation_runs := t_validation_runs db @ [row]\<rparr>)"
    using assms(1,2) by (simp add: insert_validation_def checks_pass del: all_checks_eq)
  show ?thesis
  proof (cases "vn_trade_id v")
    case None
    with i show ?thesis by (simp add: file_validation_def)
  next
    case (Some t)
    with assms(3) obtain tbl where "audit_record (set (map us_id (t_users db))) (validation_event v t f) (t_audit db) = Inr tbl"
      by (auto simp: run_accepted_def returns_iff)
    with i Some show ?thesis by (simp add: file_validation_def record_event_def)
  qed
qed

lemma nullable_fits:
  assumes "pred_option (\<lambda>v. \<bar>val v\<bar> \<le> of_int m) x" "m * 10 ^ s < 10 ^ p"
  shows "\<exists>y. nullable (numeric p s) x = Inr y \<and> map_option val y = map_option (\<lambda>v. round_half_up s (val v)) x"
proof (cases x)
  case (Some d)
  with assms numeric_fits [of d m s p] obtain e where "numeric p s d = Inr e" by auto
  with Some numeric_val [OF this] show ?thesis by (simp add: nullable_def)
qed (simp add: nullable_def)

lemma ordered_when_rounded:
  assumes "voltages_ordered lo hi" "map_option val lo' = map_option (\<lambda>v. round_half_up s (val v)) lo"
    "map_option val hi' = map_option (\<lambda>v. round_half_up s (val v)) hi"
  shows "voltages_ordered lo' hi'"
  using assms by (auto simp: voltages_ordered_def val_simps map_option_case split: option.splits intro: round_half_up_mono)

lemma fingerprint_length [simp]: "length (request_fingerprint r) = 64"
  by (simp add: request_fingerprint_def)

lemma failure_filed:
  assumes "length (eng_name eng) \<le> 64" "length (eng_version eng) \<le> 64"
    and "run_accepted db (failure_row eng r trade snap exc i now) f"
  shows "\<exists>db'. file_validation (failure_row eng r trade snap exc i now) f db = Inr db'"
  using assms by (intro file_accepted [of _ "failure_row eng r trade snap exc i now"])
    (simp_all add: stored_validation_def failure_row_def varchar_def pred_text_def nullable_def validation_checks_def
      voltages_ordered_def run_accepted_def)

lemma verdict_agrees: "verdict_status r res = SAFE \<longleftrightarrow> verdict_decision r res = ACCEPT"
  by (auto simp: verdict_decision_def verdict_status_def effective_status_def decide_def permits_trade_def)

lemma answer_filed:
  assumes "answer_storable res" "run_accepted db (result_row r res trade snap i now) f"
  shows "check_result res = Inr () \<and> (\<exists>db'. file_validation (result_row r res trade snap i now) f db = Inr db')"
proof
  show "check_result res = Inr ()"
    using assms(1) by (auto simp: check_result_def answer_storable_def voltages_ordered_def list_ex_iff list_all_iff val_simps
        split: option.splits)
  let ?m = "gv_metrics res"
  obtain lo hi ll tl where s: "nullable (numeric 8 4) (min_voltage_pu ?m) = Inr lo" "nullable (numeric 8 4) (max_voltage_pu ?m) = Inr hi"
    "nullable (numeric 8 3) (max_line_loading_pct ?m) = Inr ll" "nullable (numeric 8 3) (max_transformer_loading_pct ?m) = Inr tl"
    "map_option val lo = map_option (\<lambda>v. round_half_up 4 (val v)) (min_voltage_pu ?m)"
    "map_option val hi = map_option (\<lambda>v. round_half_up 4 (val v)) (max_voltage_pu ?m)"
    using nullable_fits [of 9999 "min_voltage_pu ?m" 4 8] nullable_fits [of 9999 "max_voltage_pu ?m" 4 8]
      nullable_fits [of 99999 "max_line_loading_pct ?m" 3 8] nullable_fits [of 99999 "max_transformer_loading_pct ?m" 3 8] assms(1)
    unfolding answer_storable_def by auto
  let ?row = "(result_row r res trade snap i now)\<lparr>vn_min_voltage_pu := lo, vn_max_voltage_pu := hi, vn_max_line_loading_pct := ll,
    vn_max_transformer_loading_pct := tl\<rparr>"
  have "stored_validation (result_row r res trade snap i now) = Inr ?row"
    using assms(1) s(1-4) by (simp add: stored_validation_def result_row_def varchar_def pred_text_def answer_storable_def)
  moreover have "voltages_ordered lo hi"
    using assms(1) by (intro ordered_when_rounded [OF _ s(5,6)]) (simp add: answer_storable_def)
  with assms(2) have "list_all fst (validation_checks db ?row)"
    using verdict_agrees [of r res] by (auto simp: validation_checks_def result_row_def run_accepted_def)
  ultimately show "\<exists>db'. file_validation (result_row r res trade snap i now) f db = Inr db'"
    using assms(2) by (rule file_accepted)
qed


lemma scenario_filed:
  assumes "gr_interval_start r < gr_interval_end r" "net_nodes (gr_network r) \<noteq> []"
  shows "eng_validate eng r = Inl exc \<Longrightarrow> length (eng_name eng) \<le> 64 \<Longrightarrow> length (eng_version eng) \<le> 64
      \<Longrightarrow> run_accepted db (failure_row eng r trade snap exc (vf_run_id f) (instant given (vf_now f))) f
      \<Longrightarrow> snd (validate_scenario eng r trade snap given f db) = Inl GridEngineError"
    and "eng_validate eng r = Inr res \<Longrightarrow> answer_storable res
      \<Longrightarrow> run_accepted db (result_row r res trade snap (vf_run_id f) (instant given (vf_now f))) f
      \<Longrightarrow> \<exists>row ns. snd (validate_scenario eng r trade snap given f db) = Inr (row, ns)"
proof -
  assume "eng_validate eng r = Inl exc" "length (eng_name eng) \<le> 64" "length (eng_version eng) \<le> 64"
    "run_accepted db (failure_row eng r trade snap exc (vf_run_id f) (instant given (vf_now f))) f"
  with failure_filed [of eng db r trade snap exc _ _ f] assms
  show "snd (validate_scenario eng r trade snap given f db) = Inl GridEngineError"
    by (fastforce simp: validate_scenario_def network_is_empty_def engine_failed_def)
next
  let ?v = "result_row r res trade snap (vf_run_id f) (instant given (vf_now f))"
  assume a: "eng_validate eng r = Inr res" "answer_storable res" "run_accepted db ?v f"
  from answer_filed [OF a(2,3)] obtain db' where d: "check_result res = Inr ()" "file_validation ?v f db = Inr db'" by blast
  from file_validation_effect [OF d(2)] obtain row evs where row: "stored_validation ?v = Inr row"
    "\<not> known vn_id (t_validation_runs db) (vn_id ?v)"
    "db' = db\<lparr>t_validation_runs := t_validation_runs db @ [row], t_audit := t_audit db @ evs\<rparr>" by metis
  then have "get_validation_run db' (vf_run_id f) = Inr row"
    using stored_validation_fields [OF row(1)] by (auto intro!: filed_row simp: result_row_def)
  with a(1) d assms show "\<exists>row ns. snd (validate_scenario eng r trade snap given f db) = Inr (row, ns)"
    by (auto simp: validate_scenario_def network_is_empty_def engine_answered_def or_unchanged_def)
qed


lemma scenario_stored:
  assumes "validate_scenario eng r trade snap given f db = (db', Inr (row, ns))"
  shows "\<exists>res. eng_validate eng r = Inr res \<and> vn_status row = verdict_status r res
    \<and> vn_decision row = verdict_decision r res"
proof -
  from assms obtain res where res: "eng_validate eng r = Inr res"
    "engine_answered r trade snap given f res db = Inr (db', row, ns)"
    by (auto simp: validate_scenario_def engine_failed_def or_unchanged_def split: if_splits sum.splits)
  from engine_answered_effect [OF res(2)] stored_validation_fields
  have "vn_status row = verdict_status r res" "vn_decision row = verdict_decision r res"
    by (fastforce simp: result_row_def)+
  with res(1) show ?thesis by blast
qed

text \<open>C38. The network handed to an engine is well formed: whatever the twin holds, as long as its
  nodes have distinct keys, its nodes are those of the feeder among the first 10,000 of the store,
  told apart by id and unchanged in kind, voltage, parent and feeder. Its lines and transformers are
  exactly the links of these nodes to a parent among them, a transformer where the lower node is one
  and a line elsewhere, each under the id of the lower node and with the rating recorded for it.\<close>

theorem twin_network_well_formed:
  assumes "distinct (map gn_id (t_grid_nodes db))"
    and rows: "rows = filter (\<lambda>g. feeder = None \<or> gn_feeder_id g = feeder) (take 10000 (t_grid_nodes db))"
  shows "network_ok (build_network db feeder)
    \<and> net_nodes (build_network db feeder)
        = map (\<lambda>g. \<lparr>node_id = gn_id g, node_type = gn_node_type g, nominal_voltage_kv = gn_nominal_voltage_kv g,
                   parent_node_id = gn_parent_node_id g, feeder_id = gn_feeder_id g\<rparr>) rows
    \<and> (\<forall>l. l \<in> set (net_lines (build_network db feeder)) \<longleftrightarrow>
         (\<exists>g \<in> set rows. \<exists>p \<in> gn_id ` set rows. gn_parent_node_id g = Some p \<and> gn_node_type g \<noteq> TRANSFORMER
            \<and> l = \<lparr>line_id = gn_id g, line_from = p, line_to = gn_id g, line_rating_kw = gn_rated_capacity_kw g\<rparr>))
    \<and> (\<forall>t. t \<in> set (net_transformers (build_network db feeder)) \<longleftrightarrow>
         (\<exists>g \<in> set rows. \<exists>p \<in> gn_id ` set rows. gn_parent_node_id g = Some p \<and> gn_node_type g = TRANSFORMER
            \<and> t = \<lparr>transformer_id = gn_id g, transformer_from = p, transformer_to = gn_id g,
                   transformer_rating_kw = gn_rated_capacity_kw g\<rparr>))"
  using build_network_ok [OF assms(1)] twin_edges [OF assms(1)]
  by (simp add: build_network_nodes(1) network_node_of_def rows feeder_nodes_eq)

text \<open>A fingerprint does not determine a verdict: it is unchanged when the lines and transformers
  of the network, with their ratings, are replaced by any others, and when an injection is moved
  between the baseline and the proposal.\<close>

theorem fingerprint_ignores_edges:
  "request_fingerprint (r\<lparr>gr_network := (gr_network r)\<lparr>net_lines := ls, net_transformers := ts\<rparr>\<rparr>)
     = request_fingerprint r
   \<and> request_fingerprint (r\<lparr>gr_baseline_injections := gr_baseline_injections r @ gr_proposed_injections r,
        gr_proposed_injections := []\<rparr>) = request_fingerprint r"
  by (simp add: request_fingerprint_def fingerprint_payload_def combined_injections_def)

end
