(* ===== verification/Pricing_Claims.thy ===== *)
theory Pricing_Claims
  imports Pricing_Service Audit_Write
begin

text \<open>
  What pricing guarantees: a trade on file is priced, the stored breakdown is the quote to the last
  digit, and only a trade the grid accepted is priced without a recommendation to reject it.
\<close>

section \<open>A quote as its columns hold it\<close>

lemma numeric_held:
  assumes "grid s (val d)" "\<bar>val d\<bar> \<le> of_int m" "m * 10 ^ s < 10 ^ p"
  obtains e where "numeric p s d = Inr e" "val e = val d"
proof -
  from numeric_fits [OF assms(2,3)] obtain e where e: "numeric p s d = Inr e" by blast
  from numeric_val [OF e] assms(1) have "val e = val d" by (simp add: round_half_up_id)
  with e that show thesis by blast
qed

text \<open>Up to a base of 100,000 per kWh every part of a quote fits its column.\<close>

lemma part_bound:
  assumes "0 \<le> val b" "val b \<le> 10 ^ 5" "\<bar>val f\<bar> \<le> 100"
  shows "\<bar>round_half_up 4 (val (b * f))\<bar> \<le> 10 ^ 7"
proof -
  have "\<bar>val b * val f\<bar> \<le> 10 ^ 5 * 100"
    unfolding abs_mult using assms by (intro mult_mono) simp_all
  then have m: "val b * val f \<le> 10 ^ 7" "- (10 ^ 7) \<le> val b * val f" by (simp_all add: abs_le_iff)
  have rep: "rep28 (10 ^ 7)" "rep28 (- (10 ^ 7))"
    using rep28_int [of "10 ^ 7"] by (simp_all add: rep28_uminus)
  have "val (b * f) \<le> 10 ^ 7" "- (10 ^ 7) \<le> val (b * f)"
    using rounds_to_le [OF times_rounds rep(1) m(1)] rounds_to_ge [OF times_rounds rep(2) m(2)] .
  moreover have "grid 4 (10 ^ 7)" "grid 4 (- (10 ^ 7))"
    using grid_of_int [of 4 "10 ^ 11"] grid_uminus [of 4 "10 ^ 7"] by simp_all
  ultimately show ?thesis
    using round_half_up_mono [of "val (b * f)" "10 ^ 7" 4] round_half_up_mono [of "- (10 ^ 7)" "val (b * f)" 4]
    by (simp add: abs_le_iff round_half_up_id)
qed

lemma quote_fits:
  assumes p: "params_ok p" and b: "stored_price (pr_base_price r)" "val (pr_base_price r) \<le> 10 ^ 5"
    and q: "quote_parts p r cf x"
  shows "\<forall>d \<in> {px_base_market_price x, px_time_component x, px_congestion_component x, px_imbalance_component x,
      px_local_renewable_component x, px_final_price x}. grid 4 (val d) \<and> \<bar>val d\<bar> \<le> of_int (9 * 10 ^ 7)"
proof -
  let ?b = "pr_base_price r"
  have B: "0 \<le> val ?b" "grid 4 (val ?b)" using b by (simp_all add: stored_price_def)
  have fr: "\<bar>val (time_fraction (pr_delivery_start r) p)\<bar> \<le> 100" "\<bar>val (pp_local_renewable_fraction p)\<bar> \<le> 100"
    "\<bar>val (imbalance_fraction (pr_forecast_confidence r) p)\<bar> \<le> 100" "\<bar>val cf\<bar> \<le> 100"
    using time_fraction_ok [OF p] imbalance_fraction_bounds [OF p] p q
    by (simp_all add: fraction_ok_def params_ok_def quote_parts_def abs_le_iff)
  note bound = fr [THEN part_bound [OF B(1) b(2)]]
  have g: "grid 4 (val (px_time_component x))" "grid 4 (val (px_congestion_component x))"
    "grid 4 (val (px_imbalance_component x))" "grid 4 (val (px_local_renewable_component x))"
    using q grid_of_int [of 4 0] by (auto simp: quote_parts_def round_half_up_grid grid_uminus)
  have l: "\<bar>val (px_time_component x)\<bar> \<le> 10 ^ 7" "\<bar>val (px_congestion_component x)\<bar> \<le> 10 ^ 7"
    "\<bar>val (px_imbalance_component x)\<bar> \<le> 10 ^ 7" "\<bar>val (px_local_renewable_component x)\<bar> \<le> 10 ^ 7"
    "\<bar>val (px_base_market_price x)\<bar> \<le> 10 ^ 5"
    using q bound B b(2) by (auto simp: quote_parts_def)
  have f: "val (px_final_price x) = val (px_base_market_price x) + val (px_time_component x)
      + val (px_congestion_component x) + val (px_imbalance_component x) + val (px_local_renewable_component x)"
    "val (px_base_market_price x) = val ?b"
    using q by (simp_all add: quote_parts_def)
  have "grid 4 (val (px_final_price x))" unfolding f(1) using g B f(2) by (intro grid_plus) simp_all
  moreover have "\<bar>val (px_final_price x)\<bar> \<le> 9 * 10 ^ 7" unfolding f(1) using l by (simp add: abs_le_iff)
  ultimately show ?thesis using g l B(2) f(2) by simp
qed

lemma stored_quote:
  assumes p: "params_ok p" and b: "stored_price (pr_base_price r)" "val (pr_base_price r) \<le> 10 ^ 5"
    and q: "quote_parts p r cf x" and v: "length (px_formula_version x) \<le> 64"
  obtains row where "stored_breakdown (breakdown_of tid x i t) = Inr row"
    "bd_id row = i" "bd_trade_id row = tid" "bd_created_at row = t" "bd_formula_version row = px_formula_version x"
    "val (bd_base_market_price row) = val (px_base_market_price x)" "val (bd_time_component row) = val (px_time_component x)"
    "val (bd_congestion_component row) = val (px_congestion_component x)"
    "val (bd_imbalance_component row) = val (px_imbalance_component x)"
    "val (bd_local_renewable_component row) = val (px_local_renewable_component x)"
    "val (bd_final_price row) = val (px_final_price x)"
proof -
  have n: "\<exists>e. numeric 12 4 d = Inr e \<and> val e = val d"
    if "d \<in> {px_base_market_price x, px_time_component x, px_congestion_component x, px_imbalance_component x,
      px_local_renewable_component x, px_final_price x}" for d
  proof -
    have "grid 4 (val d)" "\<bar>val d\<bar> \<le> of_int (9 * 10 ^ 7)" using quote_fits [OF p b q] that by blast+
    then show ?thesis by (rule numeric_held [where p = 12]) auto
  qed
  obtain e1 e2 e3 e4 e5 e6 where e:
    "numeric 12 4 (px_base_market_price x) = Inr e1" "val e1 = val (px_base_market_price x)"
    "numeric 12 4 (px_time_component x) = Inr e2" "val e2 = val (px_time_component x)"
    "numeric 12 4 (px_congestion_component x) = Inr e3" "val e3 = val (px_congestion_component x)"
    "numeric 12 4 (px_imbalance_component x) = Inr e4" "val e4 = val (px_imbalance_component x)"
    "numeric 12 4 (px_local_renewable_component x) = Inr e5" "val e5 = val (px_local_renewable_component x)"
    "numeric 12 4 (px_final_price x) = Inr e6" "val e6 = val (px_final_price x)"
    using n by (metis insertCI)
  show thesis
    by (rule that [of "(breakdown_of tid x i t)\<lparr>bd_base_market_price := e1, bd_time_component := e2,
          bd_congestion_component := e3, bd_imbalance_component := e4, bd_local_renewable_component := e5,
          bd_final_price := e6\<rparr>"])
       (use e v in \<open>simp_all add: stored_breakdown_def breakdown_of_def varchar_def\<close>)
qed

section \<open>The component engine's answers pass\<close>

lemma base_of_request [simp]: "pr_base_price (build_request db t) = td_clearing_price t"
  by (simp add: build_request_def Let_def split: prod.splits)

lemma quote_passes:
  assumes p: "params_ok p" "pp_formula_version p \<noteq> []" and b: "stored_price (pr_base_price r)"
    and q: "quote p r = Inr x" "quote_parts p r cf x"
  shows "check_quote x = Inr ()"
proof -
  let ?b = "pr_base_price r"
  have b0: "0 \<le> val ?b" using b by (simp add: stored_price_def)
  have s: "components_sum x = px_final_price x" using component.adds_up [OF q(1)] by simp
  have v: "px_formula_version x \<noteq> []" using component.names [OF q(1)] p(2) by simp
  have "0 \<le> val (px_final_price x)" by (rule quote_discounts(1) [OF p(1) b q(2)])
  moreover have "0 \<le> val (px_congestion_component x)" "0 \<le> val (px_imbalance_component x)"
    using q(2) b0 imbalance_fraction_bounds(1) [OF p(1)]
    by (simp_all add: quote_parts_def round_half_up_nonneg times_nonneg)
  moreover have "val (px_local_renewable_component x) \<le> 0"
    using q(2) b0 params_okD(4) [OF p(1)] by (simp add: quote_parts_def round_half_up_nonneg times_nonneg)
  ultimately show ?thesis using s v by (simp add: check_quote_def deq_def val_simps)
qed

lemma insert_breakdown_passes:
  assumes p: "params_ok p" "pp_formula_version p \<noteq> []" and b: "stored_price (pr_base_price r)"
    and q: "quote p r = Inr x" "quote_parts p r cf x"
    and row: "stored_breakdown (breakdown_of i x j t) = Inr row" "bd_id row = j" "bd_trade_id row = i"
      "val (bd_base_market_price row) = val (px_base_market_price x)" "val (bd_time_component row) = val (px_time_component x)"
      "val (bd_congestion_component row) = val (px_congestion_component x)"
      "val (bd_imbalance_component row) = val (px_imbalance_component x)"
      "val (bd_local_renewable_component row) = val (px_local_renewable_component x)"
      "val (bd_final_price row) = val (px_final_price x)"
    and t: "known td_id (t_trades db) i" "\<not> known bd_id (t_price_components db) j"
  shows "insert_breakdown (breakdown_of i x j t) db = Inr (db\<lparr>t_price_components := t_price_components db @ [row]\<rparr>)"
proof -
  have c: "check_quote x = Inr ()" by (rule quote_passes [OF p b q])
  have "0 \<le> val (px_base_market_price x)" using q(2) b by (simp add: quote_parts_def stored_price_def)
  then have "list_all fst (breakdown_checks db row)"
    using c q(2) row(2-) t
    by (auto simp: breakdown_checks_def check_quote_def quote_parts_def val_simps split: if_splits)
  with row(1) show ?thesis by (simp add: insert_breakdown_def checks_pass del: all_checks_eq)
qed

section \<open>The newest breakdown\<close>

lemma insert_breakdown_effect:
  assumes "insert_breakdown b db = Inr db'"
  obtains row where "stored_breakdown b = Inr row" "list_all fst (breakdown_checks db row)"
    "db' = db\<lparr>t_price_components := t_price_components db @ [row]\<rparr>" "bd_id row = bd_id b"
    "bd_trade_id row = bd_trade_id b" "bd_created_at row = bd_created_at b"
  using assms by (auto simp: insert_breakdown_def bindE_eq_Inr stored_breakdown_def)

lemma price_trade_effect:
  assumes "price_trade db i engine given f = Inr (db', row, ns)"
  obtains t x a where "get_trade db i = Inr t" "checked_quote engine (build_request db t) = Inr x"
    "stored_breakdown (breakdown_of i x (pf_row_id f) (instant given (pf_now f))) = Inr row"
    "list_all fst (breakdown_checks db row)"
    "db' = db\<lparr>t_price_components := t_price_components db @ [row], t_audit := t_audit db @ [a]\<rparr>"
    "bd_trade_id row = i" "bd_created_at row = instant given (pf_now f)" "ns = [breakdown_notice row]"
proof -
  from assms obtain t x db1 db2 where p: "get_trade db i = Inr t" "checked_quote engine (build_request db t) = Inr x"
    "insert_breakdown (breakdown_of (td_id t) x (pf_row_id f) (instant given (pf_now f))) db = Inr db1"
    "record_event (breakdown_event (breakdown_of (td_id t) x (pf_row_id f) (instant given (pf_now f))) f) db1 = Inr db2"
    "reload_breakdown db2 (pf_row_id f) = Inr row" "db' = db2" "ns = [breakdown_notice row]"
    by (auto simp: price_trade_def Let_def bindE_eq_Inr)
  have t: "td_id t = i" using p(1) by (auto simp: get_trade_def dest: fetch_SomeD split: option.splits)
  from p(3) obtain q where q: "stored_breakdown (breakdown_of (td_id t) x (pf_row_id f) (instant given (pf_now f))) = Inr q"
    "list_all fst (breakdown_checks db q)" "db1 = db\<lparr>t_price_components := t_price_components db @ [q]\<rparr>"
    "bd_id q = pf_row_id f" "bd_trade_id q = i" "bd_created_at q = instant given (pf_now f)"
    by (rule insert_breakdown_effect) (simp add: breakdown_of_def t)
  from p(4) q(3) obtain a where a: "db2 = db1\<lparr>t_audit := t_audit db @ [a]\<rparr>" by (auto simp: record_event_effect)
  have "\<not> known bd_id (t_price_components db) (bd_id q)" using q(2) by (simp add: breakdown_checks_def)
  then have rq: "row = q" using p(5) a q(3,4) by (simp add: reload_breakdown_def fetch_append_new)
  have "db' = db\<lparr>t_price_components := t_price_components db @ [row], t_audit := t_audit db @ [a]\<rparr>"
    by (simp add: p(6) a q(3) rq)
  then show thesis
    by (rule that [OF p(1,2) q(1) [unfolded t, folded rq] q(2) [folded rq] _ q(5,6) [folded rq] p(7)])
qed

lemma sort_key_last:
  assumes "\<forall>y \<in> set xs. f y < f x"
  shows "sort_key f (xs @ [x]) = sort_key f xs @ [x]"
  using sort_key_split [of f xs "sort_key f xs" "[]" x] assms by (auto simp: less_imp_le)

lemma sort_key_first:
  assumes "\<forall>y \<in> set xs. f x < f y"
  shows "sort_key f (xs @ [x]) = x # sort_key f xs"
  using sort_key_split [of f xs "[]" "sort_key f xs" x] assms by auto

lemma priced_trade:
  assumes "params_ok p" "pp_formula_version p \<noteq> []" "length (pp_formula_version p) \<le> 64"
    and "fetch td_id (t_trades db) i = Some t" "stored_price (td_clearing_price t)" "val (td_clearing_price t) \<le> 10 ^ 5"
    and "\<not> known bd_id (t_price_components db) (pf_row_id f)"
  shows "\<exists>x row. quote_trade db i (quote p) = Inr x
    \<and> val (bd_base_market_price row) = val (td_clearing_price t)
    \<and> val (bd_time_component row) = val (px_time_component x)
    \<and> val (bd_congestion_component row) = val (px_congestion_component x)
    \<and> val (bd_imbalance_component row) = val (px_imbalance_component x)
    \<and> val (bd_local_renewable_component row) = val (px_local_renewable_component x)
    \<and> val (bd_final_price row) = val (px_final_price x)
    \<and> val (bd_final_price row) = val (bd_base_market_price row) + val (bd_time_component row)
        + val (bd_congestion_component row) + val (bd_imbalance_component row) + val (bd_local_renewable_component row)
    \<and> price_trade db i (quote p) given f
        = bindE (record_event (breakdown_event (breakdown_of i x (pf_row_id f) (instant given (pf_now f))) f)
                   (db\<lparr>t_price_components := t_price_components db @ [row]\<rparr>))
                (\<lambda>db2. Inr (db2, row, [breakdown_notice row]))"
proof -
  let ?r = "build_request db t" and ?created = "instant given (pf_now f)"
  have t: "td_id t = i" "known td_id (t_trades db) i" "get_trade db i = Inr t"
    using assms(4) fetch_SomeD [OF assms(4)] by (simp_all add: fetch_known get_trade_def)
  have b: "stored_price (pr_base_price ?r)" "val (pr_base_price ?r) \<le> 10 ^ 5" using assms(5,6) by simp_all
  obtain cf x where x: "quote p ?r = Inr x" "quote_parts p ?r cf x" by (rule quote_returns [OF assms(1) b(1)])
  have v: "length (px_formula_version x) \<le> 64" using component.names [OF x(1)] assms(3) by simp
  obtain row where row: "stored_breakdown (breakdown_of i x (pf_row_id f) ?created) = Inr row"
    "bd_id row = pf_row_id f" "bd_trade_id row = i"
    "val (bd_base_market_price row) = val (px_base_market_price x)" "val (bd_time_component row) = val (px_time_component x)"
    "val (bd_congestion_component row) = val (px_congestion_component x)"
    "val (bd_imbalance_component row) = val (px_imbalance_component x)"
    "val (bd_local_renewable_component row) = val (px_local_renewable_component x)"
    "val (bd_final_price row) = val (px_final_price x)"
    by (rule stored_quote [OF assms(1) b x(2) v])
  note ins = insert_breakdown_passes [OF assms(1,2) b(1) x row t(2) assms(7)]
  have q: "checked_quote (quote p) ?r = Inr x"
    using quote_passes [OF assms(1,2) b(1) x] x(1) by (simp add: checked_quote_def)
  have reload: "reload_breakdown db2 (pf_row_id f) = Inr row"
    if "record_event ev (db\<lparr>t_price_components := t_price_components db @ [row]\<rparr>) = Inr db2" for ev db2
    using that assms(7) row(2) by (auto simp: record_event_effect reload_breakdown_def fetch_append_new)
  have "price_trade db i (quote p) given f
      = bindE (record_event (breakdown_event (breakdown_of i x (pf_row_id f) ?created) f)
                 (db\<lparr>t_price_components := t_price_components db @ [row]\<rparr>)) (\<lambda>db2. Inr (db2, row, [breakdown_notice row]))"
    using reload by (cases "record_event (breakdown_event (breakdown_of i x (pf_row_id f) ?created) f)
      (db\<lparr>t_price_components := t_price_components db @ [row]\<rparr>)") (simp_all add: price_trade_def t q ins Let_def)
  moreover have "quote_trade db i (quote p) = Inr x" by (simp add: quote_trade_def t(3) q)
  moreover have "val (px_base_market_price x) = val (td_clearing_price t)" using x(2) by (simp add: quote_parts_def)
  ultimately show ?thesis using row x(2) by (auto simp: quote_parts_def)
qed

section \<open>The properties\<close>

text \<open>C19. Every trade on file has a price. With the component engine, a trade whose clearing price is
  stored and at most 100,000 per kWh is quoted, the service accepts the quote, its row is accepted by
  every constraint of the table, holds each part to the last digit and adds up; what remains of pricing
  the trade is to append its audit event.\<close>

theorem trade_is_priced:
  assumes "params_ok p" "pp_formula_version p \<noteq> []" "length (pp_formula_version p) \<le> 64"
    and "fetch td_id (t_trades db) i = Some t" "stored_price (td_clearing_price t)" "val (td_clearing_price t) \<le> 10 ^ 5"
    and "\<not> known bd_id (t_price_components db) (pf_row_id f)"
  shows "\<exists>x row. quote_trade db i (quote p) = Inr x
    \<and> val (bd_base_market_price row) = val (td_clearing_price t)
    \<and> val (bd_time_component row) = val (px_time_component x)
    \<and> val (bd_congestion_component row) = val (px_congestion_component x)
    \<and> val (bd_imbalance_component row) = val (px_imbalance_component x)
    \<and> val (bd_local_renewable_component row) = val (px_local_renewable_component x)
    \<and> val (bd_final_price row) = val (px_final_price x)
    \<and> val (bd_final_price row) = val (bd_base_market_price row) + val (bd_time_component row)
        + val (bd_congestion_component row) + val (bd_imbalance_component row) + val (bd_local_renewable_component row)
    \<and> price_trade db i (quote p) given f
        = bindE (record_event (breakdown_event (breakdown_of i x (pf_row_id f) (instant given (pf_now f))) f)
                   (db\<lparr>t_price_components := t_price_components db @ [row]\<rparr>))
                (\<lambda>db2. Inr (db2, row, [breakdown_notice row]))"
  using assms by (rule priced_trade)

text \<open>Pricing again keeps the history. Whatever the engine, pricing a trade leaves the trades as they
  are and adds one breakdown and one audit event; when its instant is after that of every breakdown of
  the trade, the trade's history is the old one followed by the new row, and the new row is the
  breakdown that applies.\<close>

theorem repricing_keeps_history:
  assumes "price_trade db i engine given f = Inr (db', row, ns)"
    and "\<forall>b \<in> set (t_price_components db). bd_trade_id b = i \<longrightarrow> bd_created_at b < instant given (pf_now f)"
  shows "t_trades db' = t_trades db \<and> length (t_audit db') = Suc (length (t_audit db))
    \<and> breakdowns_for_trade db' i = breakdowns_for_trade db i @ [row] \<and> get_breakdown db' i = Inr row"
proof -
  from assms(1) obtain a where e:
    "db' = db\<lparr>t_price_components := t_price_components db @ [row], t_audit := t_audit db @ [a]\<rparr>"
    "bd_trade_id row = i" "bd_created_at row = instant given (pf_now f)"
    by (rule price_trade_effect)
  have "breakdowns_for_trade db' i = breakdowns_for_trade db i @ [row]"
    using assms(2) e unfolding breakdowns_for_trade_def by (simp add: sort_key_last)
  moreover have "get_breakdown db' i = Inr row"
    using assms(2) e by (simp add: get_breakdown_def latest_breakdown_def sort_key_first head_row_def)
  ultimately show ?thesis using e(1) by simp
qed

text \<open>C36. A recommendation rests on the grid. Where every stored run has ACCEPT exactly when its status
  is SAFE, a trade is quoted with a recommendation other than REJECT only if the run in force for it,
  the one it cites or else its newest, accepted it.\<close>

theorem recommendation_rests_on_grid:
  assumes "\<forall>v \<in> set (t_validation_runs db). vn_status v = SAFE \<longleftrightarrow> vn_decision v = ACCEPT"
    and "quote_trade db i (quote p) = Inr x" "px_recommended_decision x \<noteq> REJECT"
  shows "\<exists>t v. get_trade db i = Inr t \<and> run_in_force db t = Some v \<and> v \<in> set (t_validation_runs db)
    \<and> vn_status v = SAFE \<and> vn_decision v = ACCEPT"
proof -
  from assms(2) obtain t where t: "get_trade db i = Inr t" "quote p (build_request db t) = Inr x"
    by (auto simp: quote_trade_def checked_quote_def bindE_eq_Inr case_Inr_iff)
  with component.cautious [OF t(2)] assms(3) have "pr_grid_status (build_request db t) = SAFE" by blast
  then obtain v where v: "run_in_force db t = Some v" "vn_status v = SAFE"
    by (auto simp: build_request_def grid_state_def Let_def split: prod.splits option.splits)
  have "v \<in> set (t_validation_runs db)"
    using v(1) by (auto simp: run_in_force_def cited_run_def latest_for_trade_def dest!: head_row_SomeD fetch_SomeD
        split: option.splits)
  with assms(1) v t(1) show ?thesis by blast
qed

end
