(* ===== verification/Settlement_Records.thy ===== *)
theory Settlement_Records
  imports Settlement_Service Grid_Validation Pricing_Claims
begin

text \<open>
  What settling writes on each of its paths, and the invariant of the tables of record under every
  operation of the grid, pricing and settlement services.
\<close>

section \<open>The effect of each write\<close>

lemma stored_reconciliation_fields:
  "stored_reconciliation r = Inr row \<Longrightarrow> rc_id row = rc_id r \<and> rc_trade_id row = rc_trade_id r
     \<and> rc_status row = rc_status r \<and> rc_within_tolerance row = rc_within_tolerance r \<and> rc_created_at row = rc_created_at r"
  by (auto simp: stored_reconciliation_def bindE_eq_Inr)

lemma stored_settlement_fields:
  "stored_settlement s = Inr row \<Longrightarrow> sm_id row = sm_id s \<and> sm_trade_id row = sm_trade_id s
     \<and> sm_status row = sm_status s \<and> sm_buyer_user_id row = sm_buyer_user_id s
     \<and> sm_seller_user_id row = sm_seller_user_id s \<and> sm_settled_at row = sm_settled_at s"
  by (auto simp: stored_settlement_def bindE_eq_Inr)

lemma record_reconciliation_effect:
  assumes "record_reconciliation i s f db = Inr db'"
  obtains row a where "stored_reconciliation (reconciliation_of i s f) = Inr row"
    "list_all fst (reconciliation_checks db row)"
    "db' = db\<lparr>t_reconciliations := t_reconciliations db @ [row], t_audit := t_audit db @ [a]\<rparr>"
    "rc_trade_id row = i" "rc_status row = ro_status (st_reconciliation s)"
proof -
  from assms obtain row where row: "stored_reconciliation (reconciliation_of i s f) = Inr row"
    "list_all fst (reconciliation_checks db row)"
    "record_event (reconciliation_event (reconciliation_of i s f) s f)
       (db\<lparr>t_reconciliations := t_reconciliations db @ [row]\<rparr>) = Inr db'"
    by (auto simp: record_reconciliation_def insert_reconciliation_def Let_def bindE_eq_Inr)
  from row(3) obtain a where a: "db' = db\<lparr>t_reconciliations := t_reconciliations db @ [row], t_audit := t_audit db @ [a]\<rparr>"
    by (auto simp: record_event_effect)
  have "rc_trade_id row = i" "rc_status row = ro_status (st_reconciliation s)"
    using stored_reconciliation_fields [OF row(1)] by (simp_all add: reconciliation_of_def Let_def)
  with that [OF row(1,2) a] show thesis by blast
qed

lemma file_settlement_effect:
  assumes "file_settlement i s moment f db = Inr (db', row, ns)"
  obtains a where "stored_settlement (settlement_of s (sf_row_id f) moment) = Inr row"
    "list_all fst (settlement_checks (db\<lparr>t_settlements := map (supersede i) (t_settlements db)\<rparr>) row)"
    "db' = db\<lparr>t_settlements := map (supersede i) (t_settlements db) @ [row], t_audit := t_audit db @ [a]\<rparr>"
    "ns = [settlement_notice row]" "sm_status row = SETTLED" "sm_trade_id row = st_trade_id s"
proof -
  let ?db1 = "db\<lparr>t_settlements := map (supersede i) (t_settlements db)\<rparr>" and ?s = "settlement_of s (sf_row_id f) moment"
  from assms obtain q db3 where q: "stored_settlement ?s = Inr q" "list_all fst (settlement_checks ?db1 q)"
    "record_event (settlement_event ?s s f) (?db1\<lparr>t_settlements := t_settlements ?db1 @ [q]\<rparr>) = Inr db3"
    "get_settlement db3 (sf_row_id f) = Inr row" "db' = db3" "ns = [settlement_notice row]"
    by (auto simp: file_settlement_def insert_settlement_def Let_def bindE_eq_Inr)
  have f: "sm_id q = sf_row_id f" "sm_status q = SETTLED" "sm_trade_id q = st_trade_id s"
    using stored_settlement_fields [OF q(1)] by (simp_all add: settlement_of_def)
  from q(3) obtain a where a: "db3 = db\<lparr>t_settlements := map (supersede i) (t_settlements db) @ [q], t_audit := t_audit db @ [a]\<rparr>"
    by (auto simp: record_event_effect)
  have "\<not> known sm_id (map (supersede i) (t_settlements db)) (sm_id q)"
    using q(2) by (simp add: settlement_checks_def)
  then have "row = q" using q(4) a f(1) by (simp add: get_settlement_def fetch_append_new)
  with that [of a] q a f show thesis by simp
qed

lemma record_reconciliation_raises: "record_reconciliation i s f db = Inl e \<Longrightarrow> write_error e"
  by (auto simp: record_reconciliation_def insert_reconciliation_def stored_reconciliation_def Let_def bindE_eq_Inl
      intro: stored_raises checks_raise record_event_raises)

lemma file_settlement_raises:
  "file_settlement i s moment f db = Inl e \<Longrightarrow> write_error e \<or> e = NotFoundError ''SETTLEMENT_NOT_FOUND''"
  by (auto simp: file_settlement_def insert_settlement_def stored_settlement_def get_settlement_def Let_def bindE_eq_Inl
      intro: stored_raises checks_raise record_event_raises split: option.splits)

lemma check_settlement_raises: "check_settlement s = Inl e \<Longrightarrow> e = SettlementError"
  by (auto simp: check_settlement_def split: if_splits)

section \<open>The paths of settling\<close>

lemma calculate_names_trade:
  assumes "calculate db i (settle p) price_of energy_of = Inr s"
  shows "st_trade_id s = i"
proof -
  from assms obtain t r where t: "get_trade db i = Inr t" "build_settlement_request db t price_of energy_of = Inr r"
    "settle p r = Inr s" by (auto simp: calculate_def bindE_eq_Inr case_Inr_iff)
  have "td_id t = i" using t(1) by (auto simp: get_trade_def dest: fetch_SomeD split: option.splits)
  moreover have "sr_trade_id r = td_id t"
    using t(2) by (auto simp: build_settlement_request_def bindE_eq_Inr split: option.splits)
  ultimately show ?thesis using standard.identity [OF t(3)] by simp
qed

text \<open>The tables with a reconciliation and \<open>n\<close> audit events more.\<close>

definition evidence_added :: "'a settlement_db_scheme \<Rightarrow> reconciliation_row \<Rightarrow> nat \<Rightarrow> 'a settlement_db_scheme \<Rightarrow> bool" where
  "evidence_added db r n db' \<longleftrightarrow>
     t_reconciliations db' = t_reconciliations db @ [r] \<and> (\<exists>evs. t_audit db' = t_audit db @ evs \<and> length evs = n)"

lemma settle_trade_cases:
  assumes "settle_trade db i calculator price_of energy_of given f = (db', outcome)"
  obtains
    (refused) e where "outcome = Inl e" "db' = db" "e \<noteq> NotReconcilableError \<or> (\<forall>s. calculate db i calculator price_of energy_of \<noteq> Inr s)"
  | (unmeasured) s where "outcome = Inl NotReconcilableError" "calculate db i calculator price_of energy_of = Inr s"
      "\<not> ro_is_complete (st_reconciliation s)" "record_reconciliation i s f db = Inr db'"
  | (filed) s db1 row ns where "outcome = Inr (row, ns)" "calculate db i calculator price_of energy_of = Inr s"
      "ro_is_complete (st_reconciliation s)" "record_reconciliation i s f db = Inr db1" "check_settlement s = Inr ()"
      "file_settlement i s (instant given (sf_now f)) f db1 = Inr (db', row, ns)"
proof (cases "calculate db i calculator price_of energy_of")
  case (Inl e)
  with assms show thesis by (intro refused [of e]) (auto simp: settle_trade_def)
next
  case s: (Inr s)
  show thesis
  proof (cases "record_reconciliation i s f db")
    case (Inl e)
    with record_reconciliation_raises [OF Inl] s assms show thesis
      by (intro refused [of e]) (auto simp: settle_trade_def write_error_def)
  next
    case db1: (Inr db1)
    show thesis
    proof (cases "ro_is_complete (st_reconciliation s)")
      case False
      with s db1 assms show thesis by (intro unmeasured [of s]) (auto simp: settle_trade_def)
    next
      case True
      show thesis
      proof (cases "bindE (check_settlement s) (\<lambda>_. file_settlement i s (instant given (sf_now f)) f db1)")
        case (Inl e)
        then have "e \<noteq> NotReconcilableError"
          by (auto simp: bindE_eq_Inl write_error_def dest: check_settlement_raises file_settlement_raises)
        with Inl s db1 True assms show thesis by (intro refused [of e]) (auto simp: settle_trade_def)
      next
        case (Inr x)
        obtain db2 row ns where x: "x = (db2, row, ns)" by (cases x)
        with Inr s db1 True assms show thesis
          by (intro filed [of row ns s db1]) (auto simp: settle_trade_def bindE_eq_Inr)
      qed
    qed
  qed
qed

section \<open>The tables of record\<close>

definition standing :: "uuid \<Rightarrow> settlement_row \<Rightarrow> bool" where
  "standing i s \<longleftrightarrow> sm_trade_id s = i \<and> sm_status s = SETTLED"

text \<open>
  A run accepts exactly when it found the network safe; a breakdown adds up; the ledger of a
  settlement balances and rests on a completed reconciliation; one settlement of a trade stands.
\<close>

definition records_ok :: "'a settlement_db_scheme \<Rightarrow> bool" where
  "records_ok db \<longleftrightarrow>
     (\<forall>v \<in> set (t_validation_runs db). vn_status v = SAFE \<longleftrightarrow> vn_decision v = ACCEPT)
     \<and> (\<forall>b \<in> set (t_price_components db). 0 \<le> bd_final_price b
          \<and> val (bd_final_price b) = val (bd_base_market_price b) + val (bd_time_component b)
              + val (bd_congestion_component b) + val (bd_imbalance_component b) + val (bd_local_renewable_component b))
     \<and> (\<forall>s \<in> set (t_settlements db).
          val (sm_buyer_debit_inr s) = val (sm_seller_credit_inr s) + val (sm_platform_fee_inr s) + val (sm_balancing_charge_inr s)
          \<and> (\<exists>r \<in> set (t_reconciliations db). rc_trade_id r = sm_trade_id s \<and> rc_status r = RECONCILED))
     \<and> (\<forall>i. length (filter (standing i) (t_settlements db)) \<le> 1)"

lemma supersede_fields [simp]:
  "sm_trade_id (supersede i s) = sm_trade_id s" "sm_buyer_debit_inr (supersede i s) = sm_buyer_debit_inr s"
  "sm_seller_credit_inr (supersede i s) = sm_seller_credit_inr s" "sm_platform_fee_inr (supersede i s) = sm_platform_fee_inr s"
  "sm_balancing_charge_inr (supersede i s) = sm_balancing_charge_inr s" "sm_id (supersede i s) = sm_id s"
  by (simp_all add: supersede_def)

lemma standing_superseded: "standing j (supersede i s) \<longleftrightarrow> standing j s \<and> j \<noteq> i"
  by (auto simp: standing_def supersede_def)

lemma filed_standing:
  assumes "length (filter (standing j) ss) \<le> 1" "sm_trade_id row = i"
  shows "length (filter (standing j) (map (supersede i) ss @ [row])) \<le> 1"
proof (cases "j = i")
  case True
  then show ?thesis by (simp add: filter_map comp_def standing_superseded)
next
  case False
  with assms(2) have "\<not> standing j row" by (simp add: standing_def)
  with False assms(1) show ?thesis by (simp add: filter_map comp_def standing_superseded)
qed

inductive account_step :: "settlement_policy \<Rightarrow> settlement_db \<Rightarrow> settlement_db \<Rightarrow> bool" for p where
  validated: "validate_scenario eng r trade snap given f db = (db', outcome) \<Longrightarrow> account_step p db db'"
| observed: "record_snapshot s db = Inr (db', row, ns) \<Longrightarrow> account_step p db db'"
| priced: "price_trade db i pricer given f = Inr (db', row, ns) \<Longrightarrow> account_step p db db'"
| reconciled: "reconcile_trade db i calculator price_of energy_of (f :: reconciliation_fresh) = Inr (db', row, ns) \<Longrightarrow> account_step p db db'"
| settled: "settle_trade db i (settle p) price_of energy_of given f = (db', outcome) \<Longrightarrow> account_step p db db'"

lemma observed_effect:
  assumes "record_snapshot s db = Inr (db', row, ns)"
  obtains q where "db' = db\<lparr>t_grid_snapshots := t_grid_snapshots db @ [q]\<rparr>"
  using assms by (auto simp: record_snapshot_def insert_snapshot_def bindE_eq_Inr split: option.splits)

lemma validated_records:
  assumes "records_ok db" "validate_scenario eng r trade snap given f db = (db', outcome)"
  shows "records_ok db'"
proof -
  from scenario_effect [OF assms(2)] consider "db' = db"
    | row where "run_added db row db'" "vn_status row = SAFE \<longleftrightarrow> vn_decision row = ACCEPT"
    by (auto simp: verdict_agrees split: sum.splits if_splits)
  then show ?thesis
    by cases (use assms(1) in \<open>auto simp: records_ok_def run_added_def\<close>)
qed

lemma reconciliation_keeps:
  assumes "records_ok db"
  shows "records_ok (db\<lparr>t_reconciliations := t_reconciliations db @ [row], t_audit := evs\<rparr>)"
  using assms by (auto simp: records_ok_def)

lemma reconciled_effect:
  assumes "reconcile_trade db i calculator price_of energy_of f = Inr (db', row, ns)"
  obtains q a where "db' = db\<lparr>t_reconciliations := t_reconciliations db @ [q], t_audit := t_audit db @ [a]\<rparr>"
proof -
  from assms obtain s where "record_reconciliation i s f db = Inr db'"
    by (auto simp: reconcile_trade_def bindE_eq_Inr)
  then show thesis by (rule record_reconciliation_effect) (rule that)
qed

lemma priced_records:
  assumes "records_ok db" "price_trade db i engine given f = Inr (db', row, ns)"
  shows "records_ok db'"
proof -
  from assms(2) obtain a where e: "list_all fst (breakdown_checks db row)"
    "db' = db\<lparr>t_price_components := t_price_components db @ [row], t_audit := t_audit db @ [a]\<rparr>"
    by (rule price_trade_effect)
  from e(1) have "0 \<le> bd_final_price row" "val (bd_final_price row) = val (bd_base_market_price row) + val (bd_time_component row)
      + val (bd_congestion_component row) + val (bd_imbalance_component row) + val (bd_local_renewable_component row)"
    by (simp_all add: breakdown_checks_def)
  with assms(1) show ?thesis by (auto simp: records_ok_def e(2))
qed

lemma filed_records:
  assumes ok: "records_ok db" and r: "record_reconciliation i s g db = Inr db1" "ro_is_complete (st_reconciliation s)"
    and f: "file_settlement i s moment f db1 = Inr (db', row, ns)" and t: "st_trade_id s = i"
  shows "records_ok db'"
proof -
  from r(1) obtain q b where q: "db1 = db\<lparr>t_reconciliations := t_reconciliations db @ [q], t_audit := t_audit db @ [b]\<rparr>"
    "rc_trade_id q = i" "rc_status q = ro_status (st_reconciliation s)" by (rule record_reconciliation_effect)
  from f obtain a where a: "list_all fst (settlement_checks (db1\<lparr>t_settlements := map (supersede i) (t_settlements db1)\<rparr>) row)"
    "db' = db1\<lparr>t_settlements := map (supersede i) (t_settlements db1) @ [row], t_audit := t_audit db1 @ [a]\<rparr>"
    "sm_trade_id row = st_trade_id s" by (rule file_settlement_effect) (rule that)
  have i: "sm_trade_id row = i" using a(3) t by simp
  have st: "rc_status q = RECONCILED"
    using r(2) q(3) by (simp add: ro_is_complete_def reconciliation_is_complete_def)
  have led: "val (sm_buyer_debit_inr row) = val (sm_seller_credit_inr row) + val (sm_platform_fee_inr row) + val (sm_balancing_charge_inr row)"
    using a(1) by (simp add: settlement_checks_def)
  have "length (filter (standing j) (map (supersede i) (t_settlements db) @ [row])) \<le> 1" for j
    using ok by (intro filed_standing i) (simp add: records_ok_def)
  moreover have t: "t_settlements db' = map (supersede i) (t_settlements db) @ [row]"
    "t_reconciliations db' = t_reconciliations db @ [q]" "t_validation_runs db' = t_validation_runs db"
    "t_price_components db' = t_price_components db" by (simp_all add: a(2) q(1))
  moreover have "\<forall>s \<in> set (t_settlements db').
      val (sm_buyer_debit_inr s) = val (sm_seller_credit_inr s) + val (sm_platform_fee_inr s) + val (sm_balancing_charge_inr s)
      \<and> (\<exists>r \<in> set (t_reconciliations db'). rc_trade_id r = sm_trade_id s \<and> rc_status r = RECONCILED)"
  proof
    fix x assume "x \<in> set (t_settlements db')"
    then consider y where "y \<in> set (t_settlements db)" "x = supersede i y" | "x = row" by (auto simp: t)
    then show "val (sm_buyer_debit_inr x) = val (sm_seller_credit_inr x) + val (sm_platform_fee_inr x) + val (sm_balancing_charge_inr x)
      \<and> (\<exists>r \<in> set (t_reconciliations db'). rc_trade_id r = sm_trade_id x \<and> rc_status r = RECONCILED)"
      by cases (use ok led st q(2) i in \<open>auto simp: records_ok_def t\<close>)
  qed
  ultimately show ?thesis using ok by (simp add: records_ok_def)
qed

lemma settled_records:
  assumes ok: "records_ok db" and s: "settle_trade db i (settle p) price_of energy_of given f = (db', outcome)"
  shows "records_ok db'"
  using s
proof (cases rule: settle_trade_cases)
  case (refused e)
  with ok show ?thesis by simp
next
  case (unmeasured r)
  from unmeasured(4) show ?thesis
    by (rule record_reconciliation_effect) (simp add: reconciliation_keeps [OF ok])
next
  case (filed r db1 row ns)
  from filed_records [OF ok filed(4,3,6) calculate_names_trade [OF filed(2)]] show ?thesis .
qed

lemma account_step_records: "account_step p db db' \<Longrightarrow> records_ok db \<Longrightarrow> records_ok db'"
proof (induction rule: account_step.induct)
  case (observed s db db' row ns)
  from observed(1) show ?case
    by (rule observed_effect) (use observed(2) in \<open>auto simp: records_ok_def\<close>)
next
  case (reconciled db i calculator price_of energy_of f db' row ns)
  from reconciled(1) show ?case by (rule reconciled_effect) (simp add: reconciliation_keeps [OF reconciled(2)])
qed (blast intro: validated_records priced_records settled_records)+

section \<open>The properties\<close>

text \<open>C2. The tables of record stay sound. From empty tables of runs, breakdowns and settlements, or any
  sound ones, whatever validations, snapshots, pricings, reconciliations and settlements follow, with any
  grid engine, pricing engine and resolvers: a run accepts exactly when it found the network safe, every
  breakdown adds up to a price that is not negative, every settlement balances and has a completed
  reconciliation of its trade, and at most one settlement of a trade stands.\<close>

theorem records_stay_sound:
  assumes "(account_step p)\<^sup>*\<^sup>* db db'" "records_ok db"
  shows "records_ok db'"
  using assms by (induction rule: rtranclp_induct) (auto intro: account_step_records)

text \<open>C9. Refusing to settle is on record. Settling a trade has three outcomes whatever the calculator and
  the resolvers. A settlement is filed with a completed reconciliation, behind those it supersedes, and
  two audit events. A trade whose delivery is not known is refused with one reconciliation that is not
  completed and one audit event, and no settlement changes. Every other error leaves the tables alone.\<close>

theorem settling_leaves_evidence:
  assumes "settle_trade db i calculator price_of energy_of given f = (db', outcome)"
  shows "case outcome of
      Inr (row, ns) \<Rightarrow> t_settlements db' = map (supersede i) (t_settlements db) @ [row] \<and> sm_status row = SETTLED
        \<and> (\<exists>r. evidence_added db r 2 db' \<and> rc_trade_id r = i \<and> rc_status r = RECONCILED)
    | Inl e \<Rightarrow>
        if e = NotReconcilableError \<and> (\<exists>s. calculate db i calculator price_of energy_of = Inr s)
        then t_settlements db' = t_settlements db
          \<and> (\<exists>r. evidence_added db r 1 db' \<and> rc_trade_id r = i \<and> rc_status r = AWAITING_TELEMETRY)
        else db' = db"
  using assms
proof (cases rule: settle_trade_cases)
  case (refused e)
  then show ?thesis by auto
next
  case (unmeasured s)
  from unmeasured(4) obtain q a where q: "db' = db\<lparr>t_reconciliations := t_reconciliations db @ [q], t_audit := t_audit db @ [a]\<rparr>"
    "rc_trade_id q = i" "rc_status q = ro_status (st_reconciliation s)" by (rule record_reconciliation_effect)
  have "rc_status q = AWAITING_TELEMETRY"
    using unmeasured(3) q(3) by (cases "rc_status q") (auto simp: ro_is_complete_def reconciliation_is_complete_def)
  with unmeasured(1,2) q(1,2) show ?thesis by (auto simp: evidence_added_def)
next
  case (filed s db1 row ns)
  from filed(4) obtain q b where q: "db1 = db\<lparr>t_reconciliations := t_reconciliations db @ [q], t_audit := t_audit db @ [b]\<rparr>"
    "rc_trade_id q = i" "rc_status q = ro_status (st_reconciliation s)" by (rule record_reconciliation_effect)
  from filed(6) obtain a where a: "sm_status row = SETTLED"
    "db' = db1\<lparr>t_settlements := map (supersede i) (t_settlements db1) @ [row], t_audit := t_audit db1 @ [a]\<rparr>"
    by (rule file_settlement_effect)
  have "rc_status q = RECONCILED" using filed(3) q(3) by (simp add: ro_is_complete_def reconciliation_is_complete_def)
  moreover have "evidence_added db q 2 db'" by (simp add: evidence_added_def a(2) q(1))
  ultimately show ?thesis using filed(1) a q(1,2) by auto
qed

end
