(* ===== verification/Settlement_Claims.thy ===== *)
theory Settlement_Claims
  imports Settlement_Records
begin

text \<open>
  Settlement from the tables: the delivery as telemetry is asked for it, and the amounts of a
  settlement as its columns hold them.
\<close>

section \<open>Delivery\<close>

lemma sql_sum_one: "\<exists>x. sql_sum [e] = Some x \<and> val x = val e"
  by (simp add: sql_sum_def Let_def val_def [of "Dec _ _"] aligned_val_mult min.commute)

lemma single_bucket:
  assumes "site_window db site a b True = [r]" "rd_timestamp r = m" "date_bin (b - a) m a = m" "a < b"
    and "rd_energy_kwh r = Some e" "known si_id (t_sites db) site"
  shows "\<exists>act x. telemetry_energy avg db site a b = Inr act \<and> ae_quantity_kwh act = Some x \<and> val x = val e
    \<and> ae_reading_count act = 1"
proof -
  obtain x where x: "sql_sum [e] = Some x" "val x = val e" using sql_sum_one by blast
  have "aggregate_for_site avg db site a b (b - a) True = Inr [aggregate_bucket avg m [r]]"
    using assms(1-4) by (simp add: aggregate_for_site_def Let_def)
  then have "telemetry_energy avg db site a b = Inr \<lparr>ae_window_start = a, ae_window_end = b, ae_quantity_kwh = Some x,
      ae_reading_count = 1, ae_source = ''telemetry:valid-only''\<rparr>"
    using assms(5,6) x(1)
    by (simp add: telemetry_energy_def get_interval_for_site_def require_site_def buckets_of_def add_bucket_def
        aggregate_bucket_def present_def)
  with x(2) show ?thesis by simp
qed

lemma subwindow:
  assumes "site_window db site a b True = [r]" "rd_timestamp r = m" "a \<le> a'" "b' \<le> b" "a' \<le> m" "m \<le> b'"
  shows "site_window db site a' b' True = [r]"
proof -
  have "site_window db site a' b' True
      = filter (\<lambda>q. a' \<le> rd_timestamp q \<and> rd_timestamp q \<le> b') (site_window db site a b True)"
    using assms(3,4) by (auto simp: site_window_def valid_only_def intro!: filter_cong)
  with assms show ?thesis by simp
qed

section \<open>Amounts\<close>

lemma quantize_amount_val: "quantize_amount v = Inr z \<Longrightarrow> val z = round_half_up 2 (val v)"
  by (simp add: quantize_amount_def quantize_val)

lemma amount_of_product:
  assumes "quantize_amount v = Inr z" "\<bar>val v\<bar> \<le> 10 ^ k"
  shows "grid 2 (val z) \<and> \<bar>val z\<bar> \<le> 10 ^ k"
  using round_half_up_bound [of "val v" "10 ^ k" 2] assms(2)
  by (simp add: quantize_amount_val [OF assms(1)] round_half_up_grid)

lemma settle_amounts:
  assumes "settle p r = Inr s" "ro_settled_kwh (st_reconciliation s) = Some k"
  obtains "quantize_amount (k * ep_price (sr_effective_price r)) = Inr (st_gross_inr s)"
    "quantize_amount (st_gross_inr s * sp_platform_fee_fraction p) = Inr (st_platform_fee_inr s)"
    "quantize_amount (ro_balancing_kwh (st_reconciliation s) * ep_price (sr_effective_price r)
        * sp_balancing_price_multiplier p) = Inr (st_balancing_charge_inr s)"
    "st_buyer_debit_inr s = st_gross_inr s" "st_settled_kwh s = k"
  using assms by (auto simp: settle_def empty_settlement_def Let_def elim!: bindE_InrE split: option.splits)

lemma amounts_fit:
  assumes p: "policy_ok p" and s: "settle p r = Inr s" "ro_settled_kwh (st_reconciliation s) = Some k"
    and b: "\<bar>val k\<bar> \<le> 10 ^ 5" "\<bar>val (ep_price (sr_effective_price r))\<bar> \<le> 10 ^ 5"
      "\<bar>val (ro_balancing_kwh (st_reconciliation s))\<bar> \<le> 10 ^ 5"
    and acc: "val (st_buyer_debit_inr s)
        = val (st_seller_credit_inr s) + val (st_platform_fee_inr s) + val (st_balancing_charge_inr s)"
  shows "\<forall>d \<in> {st_gross_inr s, st_platform_fee_inr s, st_balancing_charge_inr s, st_seller_credit_inr s, st_buyer_debit_inr s}.
    grid 2 (val d) \<and> \<bar>val d\<bar> \<le> of_int (10 ^ 13)"
proof -
  from settle_amounts [OF s] obtain
    g: "quantize_amount (k * ep_price (sr_effective_price r)) = Inr (st_gross_inr s)" and
    f: "quantize_amount (st_gross_inr s * sp_platform_fee_fraction p) = Inr (st_platform_fee_inr s)" and
    c: "quantize_amount (ro_balancing_kwh (st_reconciliation s) * ep_price (sr_effective_price r)
        * sp_balancing_price_multiplier p) = Inr (st_balancing_charge_inr s)" and
    d: "st_buyer_debit_inr s = st_gross_inr s" by blast
  note gb = amount_of_product [OF g times_pow10 [OF b(1,2)]]
  have "\<bar>val (sp_platform_fee_fraction p)\<bar> \<le> 10 ^ 0" using policy_okD(3,4) [OF p] by simp
  note fb = amount_of_product [OF f times_pow10 [OF gb [THEN conjunct2] this]]
  have "\<bar>val (sp_balancing_price_multiplier p)\<bar> \<le> 10 ^ 2" using policy_okD(5,6) [OF p] by simp
  note cb = amount_of_product [OF c times_pow10 [OF times_pow10 [OF b(3,2)] this]]
  have cr: "val (st_seller_credit_inr s) = val (st_gross_inr s) - val (st_platform_fee_inr s) - val (st_balancing_charge_inr s)"
    using acc d by simp
  have "grid 2 (val (st_seller_credit_inr s))" unfolding cr using gb fb cb by (intro grid_minus) simp_all
  moreover have "\<bar>val (st_seller_credit_inr s)\<bar> \<le> 10 ^ 13" unfolding cr using gb fb cb by (simp add: abs_le_iff)
  ultimately show ?thesis using gb fb cb d by (simp add: abs_le_iff)
qed

lemma numeric_within:
  assumes "grid s (val d)" "\<bar>val d\<bar> \<le> of_int m" "m * 10 ^ s < 10 ^ p"
  shows "\<exists>e. numeric p s d = Inr e \<and> val e = val d"
  using assms by (rule numeric_held) blast

lemma stored_amounts:
  assumes fit: "\<forall>d \<in> {st_gross_inr s, st_platform_fee_inr s, st_balancing_charge_inr s, st_seller_credit_inr s, st_buyer_debit_inr s}.
      grid 2 (val d) \<and> \<bar>val d\<bar> \<le> of_int (10 ^ 13)"
    and k: "grid 4 (val (st_settled_kwh s))" "\<bar>val (st_settled_kwh s)\<bar> \<le> 10 ^ 5"
  obtains row where "stored_settlement (settlement_of s j m) = Inr row" "val (sm_settled_kwh row) = val (st_settled_kwh s)"
    "val (sm_gross_inr row) = val (st_gross_inr s)" "val (sm_platform_fee_inr row) = val (st_platform_fee_inr s)"
    "val (sm_balancing_charge_inr row) = val (st_balancing_charge_inr s)"
    "val (sm_seller_credit_inr row) = val (st_seller_credit_inr s)" "val (sm_buyer_debit_inr row) = val (st_buyer_debit_inr s)"
proof -
  have "\<bar>val (st_settled_kwh s)\<bar> \<le> of_int (10 ^ 5)" using k(2) by simp
  from numeric_within [OF k(1) this, of 14] obtain e0 where e0: "numeric 14 4 (st_settled_kwh s) = Inr e0" "val e0 = val (st_settled_kwh s)"
    by auto
  have n: "\<exists>e. numeric 16 2 d = Inr e \<and> val e = val d"
    if "d \<in> {st_gross_inr s, st_platform_fee_inr s, st_balancing_charge_inr s, st_seller_credit_inr s, st_buyer_debit_inr s}" for d
    by (rule numeric_within [where m = "10 ^ 13"]) (use fit that in \<open>blast, blast, simp\<close>)
  obtain e1 e2 e3 e4 e5 where e:
    "numeric 16 2 (st_gross_inr s) = Inr e1" "val e1 = val (st_gross_inr s)"
    "numeric 16 2 (st_platform_fee_inr s) = Inr e2" "val e2 = val (st_platform_fee_inr s)"
    "numeric 16 2 (st_balancing_charge_inr s) = Inr e3" "val e3 = val (st_balancing_charge_inr s)"
    "numeric 16 2 (st_seller_credit_inr s) = Inr e4" "val e4 = val (st_seller_credit_inr s)"
    "numeric 16 2 (st_buyer_debit_inr s) = Inr e5" "val e5 = val (st_buyer_debit_inr s)"
    using n by (metis insertCI)
  show thesis
    by (rule that [of "(settlement_of s j m)\<lparr>sm_settled_kwh := e0, sm_gross_inr := e1, sm_platform_fee_inr := e2,
          sm_balancing_charge_inr := e3, sm_seller_credit_inr := e4, sm_buyer_debit_inr := e5\<rparr>"])
       (use e0 e in \<open>simp_all add: stored_settlement_def settlement_of_def\<close>)
qed

lemma stored_outcome:
  assumes "reconciles p c a (st_reconciliation s)" "grid 4 c" "0 < c" "c \<le> 10 ^ 5" "grid 4 a" "0 \<le> a" "a \<le> 10 ^ 9"
  obtains row where "stored_reconciliation (reconciliation_of i s f) = Inr row"
    "val (rc_committed_kwh row) = c" "map_option val (rc_actual_kwh row) = Some a" "rc_deviation_kwh row \<noteq> None"
    "0 \<le> val (rc_balancing_kwh row)"
proof -
  let ?o = "st_reconciliation s"
  from assms(1) obtain av dv where o1: "ro_actual_kwh ?o = Some av" "val av = a" "ro_deviation_kwh ?o = Some dv" "val dv = a - c"
    "val (ro_committed_kwh ?o) = c" "val (ro_balancing_kwh ?o) = (if ro_within_tolerance ?o then 0 else max (c - a) 0)"
    by (auto simp: reconciles_def)
  have g: "grid 4 (a - c)" "grid 4 (val (ro_balancing_kwh ?o))" using assms by (auto simp: o1(6) grid_minus grid_max)
  have b: "\<bar>a - c\<bar> \<le> of_int (2 * 10 ^ 9)" "\<bar>val (ro_balancing_kwh ?o)\<bar> \<le> of_int (2 * 10 ^ 9)"
    "\<bar>a\<bar> \<le> of_int (2 * 10 ^ 9)" "\<bar>c\<bar> \<le> of_int (2 * 10 ^ 9)" using assms by (auto simp: o1(6))
  have n: "\<exists>e. numeric 14 4 d = Inr e \<and> val e = val d" if "grid 4 (val d)" "\<bar>val d\<bar> \<le> of_int (2 * 10 ^ 9)" for d
    using that by (rule numeric_within) simp
  obtain e1 e2 e3 e4 where e:
    "numeric 14 4 (ro_committed_kwh ?o) = Inr e1" "val e1 = c" "numeric 14 4 av = Inr e2" "val e2 = a"
    "numeric 14 4 dv = Inr e3" "numeric 14 4 (ro_balancing_kwh ?o) = Inr e4" "val e4 = val (ro_balancing_kwh ?o)"
    using n [of "ro_committed_kwh ?o"] n [of av] n [of dv] n [of "ro_balancing_kwh ?o"] o1 g b assms(2,5) by auto
  show thesis
    by (rule that [of "(reconciliation_of i s f)\<lparr>rc_committed_kwh := e1, rc_actual_kwh := Some e2,
          rc_deviation_kwh := Some e3, rc_balancing_kwh := e4\<rparr>"])
       (use e o1 in \<open>simp_all add: stored_reconciliation_def reconciliation_of_def Let_def nullable_def\<close>)
qed

text \<open>The rows of a settlement from the tables.\<close>

lemma settlement_rows:
  assumes p: "policy_ok p" "sp_policy_version p \<noteq> []"
    and t: "fetch td_id (t_trades db) i = Some t" "stored_energy (td_quantity_kwh t)" "0 < td_quantity_kwh t"
      "val (td_quantity_kwh t) \<le> 10 ^ 5"
    and os: "fetch od_id (t_orders db) (td_buy_order_id t) = Some buy" "fetch od_id (t_orders db) (td_sell_order_id t) = Some sell"
      "known us_id (t_users db) (od_user_id buy)" "known us_id (t_users db) (od_user_id sell)"
    and b: "get_breakdown db i = Inr b" "stored_price (bd_final_price b)" "val (bd_final_price b) \<le> 10 ^ 5"
    and e: "telemetry_energy avg db (od_site_id sell) (td_delivery_start t) (td_delivery_end t) = Inr act"
      "ae_quantity_kwh act = Some q" "0 \<le> val q" "val q \<le> 10 ^ 9"
  obtains s rec row where "calculate db i (settle p) (breakdown_price db) (telemetry_energy avg db) = Inr s"
    "check_settlement s = Inr ()" "ro_is_complete (st_reconciliation s)"
    "stored_reconciliation (reconciliation_of i s f) = Inr rec" "not_negative_check (rc_actual_kwh rec)"
    "rc_actual_kwh rec \<noteq> None" "rc_deviation_kwh rec \<noteq> None" "0 \<le> rc_balancing_kwh rec" "0 < rc_committed_kwh rec"
    "stored_settlement (settlement_of s (sf_row_id f) m) = Inr row"
    "val (sm_settled_kwh row) = min (val (td_quantity_kwh t)) (round_half_up 4 (val q))"
    "val (sm_buyer_debit_inr row) = round_half_up 2 (val (sm_settled_kwh row) * val (bd_final_price b))"
    "val (sm_buyer_debit_inr row)
        = val (sm_seller_credit_inr row) + val (sm_platform_fee_inr row) + val (sm_balancing_charge_inr row)"
    "0 \<le> sm_settled_kwh row" "0 \<le> sm_gross_inr row" "0 \<le> sm_platform_fee_inr row" "0 \<le> sm_balancing_charge_inr row"
    "0 \<le> sm_buyer_debit_inr row" "st_trade_id s = i" "st_buyer_user_id s = od_user_id buy" "st_seller_user_id s = od_user_id sell"
proof -
  define price where "price = \<lparr>ep_price = bd_final_price b, ep_source_id = Some (bd_id b),
     ep_formula_version = Some (bd_formula_version b)\<rparr>"
  define r where "r = \<lparr>sr_trade_id = i, sr_buyer_user_id = od_user_id buy, sr_seller_user_id = od_user_id sell,
     sr_committed_kwh = td_quantity_kwh t, sr_effective_price = price, sr_delivery_start = td_delivery_start t,
     sr_delivery_end = td_delivery_end t, sr_actual = act, sr_forecast_kwh = forecast_quantity db sell t,
     sr_forecast_basis_id = od_forecast_basis_id sell, sr_grid_validation_id = td_grid_validation_id t\<rparr>"
  let ?c = "val (td_quantity_kwh t)" and ?a = "round_half_up 4 (val q)"
  have ti: "td_id t = i" "get_trade db i = Inr t"
    using t(1) fetch_SomeD [OF t(1)] by (simp_all add: get_trade_def)
  have req: "build_settlement_request db t (breakdown_price db) (telemetry_energy avg db) = Inr r"
    using os(1,2) b(1) e(1) by (simp add: build_settlement_request_def breakdown_price_def ti(1) r_def price_def)
  have rf: "sr_actual r = act" "sr_committed_kwh r = td_quantity_kwh t" "sr_effective_price r = price" "sr_trade_id r = i"
    "sr_buyer_user_id r = od_user_id buy" "sr_seller_user_id r = od_user_id sell" "ep_price price = bd_final_price b"
    by (simp_all add: r_def price_def)
  have rok: "request_ok r" using t(2,3) b(2) e(2-4) by (simp add: request_ok_def rf)
  have "ae_quantity_kwh (sr_actual r) = Some q" by (simp add: rf e(2))
  from settle_measured [OF p(1) rok this] obtain s where s: "settle p r = Inr s"
    "accounts p (val (bd_final_price b)) s" "reconciles p ?c ?a (st_reconciliation s)"
    "val (st_settled_kwh s) = min ?c ?a" "st_trade_id s = i" "st_buyer_user_id s = od_user_id buy"
    "st_seller_user_id s = od_user_id sell" unfolding rf by metis
  have calc: "calculate db i (settle p) (breakdown_price db) (telemetry_energy avg db) = Inr s"
    by (simp add: calculate_def ti(2) req s(1))
  have c: "grid 4 ?c" "0 < ?c" using stored_energy_bounds [OF t(2)] t(3) by (simp_all add: val_simps)
  have a: "grid 4 ?a" "0 \<le> ?a" "?a \<le> 10 ^ 9"
    using e(3,4) round_half_up_bound [of "val q" "10 ^ 9" 4] by (simp_all add: round_half_up_grid round_half_up_nonneg)
  obtain k where k: "ro_settled_kwh (st_reconciliation s) = Some k" "val k = min ?c ?a"
    using s(3) by (auto simp: reconciles_def)
  have bal: "0 \<le> val (ro_balancing_kwh (st_reconciliation s))" "\<bar>val (ro_balancing_kwh (st_reconciliation s))\<bar> \<le> 10 ^ 5"
    using s(3) c a(2) t(4) by (auto simp: reconciles_def)
  have acc: "val (st_buyer_debit_inr s) = val (st_seller_credit_inr s) + val (st_platform_fee_inr s) + val (st_balancing_charge_inr s)"
    "0 \<le> val (st_balancing_charge_inr s)" "0 \<le> val (st_platform_fee_inr s)" "ledger_balances s"
    "val (st_buyer_debit_inr s) = round_half_up 2 (val (st_settled_kwh s) * val (bd_final_price b))"
    "val (st_buyer_debit_inr s) = val (st_gross_inr s)"
    using s(2,4) c a by (auto simp: accounts_def)
  have pr: "0 \<le> val (bd_final_price b)" using b(2) by (simp add: stored_price_def)
  have pos: "0 \<le> val (st_settled_kwh s)" "0 \<le> val (st_buyer_debit_inr s)"
    using s(4) c a pr by (simp_all add: acc(5) round_half_up_nonneg)
  have "\<bar>val k\<bar> \<le> 10 ^ 5" "\<bar>val (ep_price (sr_effective_price r))\<bar> \<le> 10 ^ 5"
    using k(2) c a(2) t(4) pr b(3) by (auto simp: rf)
  note fit = amounts_fit [OF p(1) s(1) k(1) this bal(2) acc(1)]
  have "grid 4 (val (st_settled_kwh s))" "\<bar>val (st_settled_kwh s)\<bar> \<le> 10 ^ 5"
    using c a t(4) by (auto simp: s(4) grid_min)
  from stored_amounts [OF fit this] obtain row where row:
    "stored_settlement (settlement_of s (sf_row_id f) m) = Inr row"
    "val (sm_settled_kwh row) = val (st_settled_kwh s)" "val (sm_gross_inr row) = val (st_gross_inr s)"
    "val (sm_platform_fee_inr row) = val (st_platform_fee_inr s)"
    "val (sm_balancing_charge_inr row) = val (st_balancing_charge_inr s)"
    "val (sm_seller_credit_inr row) = val (st_seller_credit_inr s)" "val (sm_buyer_debit_inr row) = val (st_buyer_debit_inr s)" .
  from stored_outcome [OF s(3) c t(4) a, of i f] obtain rec where rec:
    "stored_reconciliation (reconciliation_of i s f) = Inr rec" "val (rc_committed_kwh rec) = ?c"
    "map_option val (rc_actual_kwh rec) = Some ?a" "rc_deviation_kwh rec \<noteq> None" "0 \<le> val (rc_balancing_kwh rec)" .
  have "ro_is_complete (st_reconciliation s)"
    using s(3) by (simp add: reconciles_def ro_is_complete_def reconciliation_is_complete_def)
  moreover have "check_settlement s = Inr ()"
    using acc pos s(3) p(2) standard.identity [OF s(1)] by (simp add: check_settlement_def reconciles_def val_simps)
  ultimately show thesis
    using calc rec row s(4-) acc pos c(2) a(2)
    by (intro that [of s rec row]) (auto simp: val_simps not_negative_check_def)
qed

lemma file_settlement_eq:
  assumes "stored_settlement (settlement_of s (sf_row_id f) m) = Inr row"
    and "list_all fst (settlement_checks (db\<lparr>t_settlements := map (supersede i) (t_settlements db)\<rparr>) row)"
  shows "file_settlement i s m f db
    = bindE (record_event (settlement_event (settlement_of s (sf_row_id f) m) s f)
               (db\<lparr>t_settlements := map (supersede i) (t_settlements db) @ [row]\<rparr>))
            (\<lambda>db2. Inr (db2, row, [settlement_notice row]))"
proof -
  let ?d = "db\<lparr>t_settlements := map (supersede i) (t_settlements db) @ [row]\<rparr>"
  have i: "sm_id row = sf_row_id f" using stored_settlement_fields [OF assms(1)] by (simp add: settlement_of_def)
  have "\<not> known sm_id (map (supersede i) (t_settlements db)) (sf_row_id f)"
    using assms(2) i by (simp add: settlement_checks_def)
  then have "get_settlement db2 (sf_row_id f) = Inr row" if "record_event ev ?d = Inr db2" for ev db2
    using that i by (auto simp: record_event_effect get_settlement_def fetch_append_new)
  with assms show ?thesis
    by (cases "record_event (settlement_event (settlement_of s (sf_row_id f) m) s f) ?d")
       (simp_all add: file_settlement_def insert_settlement_def checks_pass Let_def del: all_checks_eq)
qed

lemma settle_trade_eq:
  assumes "calculate db i calculator price_of energy_of = Inr s" "ro_is_complete (st_reconciliation s)"
    and "check_settlement s = Inr ()" "stored_reconciliation (reconciliation_of i s f) = Inr rec"
    and "list_all fst (reconciliation_checks db rec)"
    and "\<And>db1. record_event (reconciliation_event (reconciliation_of i s f) s f)
        (db\<lparr>t_reconciliations := t_reconciliations db @ [rec]\<rparr>) = Inr db1
      \<Longrightarrow> file_settlement i s (instant given (sf_now f)) f db1
            = bindE (record_event ev (db1\<lparr>t_settlements := ss\<rparr>)) (\<lambda>db2. Inr (db2, row, ns))"
  shows "settle_trade db i calculator price_of energy_of given f =
        (case record_event (reconciliation_event (reconciliation_of i s f) s f)
                (db\<lparr>t_reconciliations := t_reconciliations db @ [rec]\<rparr>) of
           Inl e \<Rightarrow> (db, Inl e)
         | Inr db1 \<Rightarrow>
             (case record_event ev (db1\<lparr>t_settlements := ss\<rparr>) of
                Inl e \<Rightarrow> (db, Inl e) | Inr db2 \<Rightarrow> (db2, Inr (row, ns))))"
proof -
  have r: "record_reconciliation i s f db = record_event (reconciliation_event (reconciliation_of i s f) s f)
      (db\<lparr>t_reconciliations := t_reconciliations db @ [rec]\<rparr>)"
    using assms(4,5) by (simp add: record_reconciliation_def insert_reconciliation_def checks_pass Let_def del: all_checks_eq)
  show ?thesis
  proof (cases "record_reconciliation i s f db")
    case (Inl e)
    with r have "record_event (reconciliation_event (reconciliation_of i s f) s f)
      (db\<lparr>t_reconciliations := t_reconciliations db @ [rec]\<rparr>) = Inl e" by simp
    with Inl assms(1) show ?thesis by (simp add: settle_trade_def)
  next
    case (Inr db1)
    with r assms(6) have "file_settlement i s (instant given (sf_now f)) f db1
        = bindE (record_event ev (db1\<lparr>t_settlements := ss\<rparr>)) (\<lambda>db2. Inr (db2, row, ns))" by simp
    moreover from Inr r have "record_event (reconciliation_event (reconciliation_of i s f) s f)
      (db\<lparr>t_reconciliations := t_reconciliations db @ [rec]\<rparr>) = Inr db1" by simp
    ultimately show ?thesis using Inr assms(1-3)
      by (cases "record_event ev (db1\<lparr>t_settlements := ss\<rparr>)") (simp_all add: settle_trade_def Let_def)
  qed
qed

section \<open>The properties\<close>

text \<open>A reading on a delivery boundary is delivered twice. Where a site has one valid reading between
  the start of one delivery window and the end of the next, stamped at the instant they share, the whole
  of its energy is measured as delivered in the first window and again in the second.\<close>

theorem boundary_reading_counts_twice:
  assumes "known si_id (t_sites db) site" "start < m" "m < stop"
    and "site_window db site start stop True = [r]" "rd_timestamp r = m" "rd_energy_kwh r = Some e"
  shows "\<exists>a x b y. telemetry_energy avg db site start m = Inr a \<and> ae_quantity_kwh a = Some x \<and> val x = val e
    \<and> telemetry_energy avg db site m stop = Inr b \<and> ae_quantity_kwh b = Some y \<and> val y = val e"
proof -
  have w: "site_window db site start m True = [r]" "site_window db site m stop True = [r]"
    using subwindow [OF assms(4,5), of start m] subwindow [OF assms(4,5), of m stop] assms(2,3) by simp_all
  have "date_bin (m - start) m start = m" "date_bin (stop - m) m m = m" using assms(2) by (simp_all add: date_bin_def)
  with single_bucket [OF w(1) assms(5) _ assms(2,6,1), of avg] single_bucket [OF w(2) assms(5) _ assms(3,6,1), of avg]
  show ?thesis by blast
qed

text \<open>C10. A measured, priced trade is settled from the tables. When a trade of up to 100,000 kWh has its
  orders and parties on file, a newest breakdown of up to 100,000 per kWh, and telemetry that measures a
  delivery, the standard calculator settles it: the settled energy is the smaller of the commitment and
  the delivery, the buyer owes it at that breakdown's final price to the paisa, the ledger balances, both
  rows pass every constraint, and only the audit log can still refuse the transaction.\<close>

theorem measured_trade_settles:
  assumes p: "policy_ok p" "sp_policy_version p \<noteq> []"
    and t: "fetch td_id (t_trades db) i = Some t" "stored_energy (td_quantity_kwh t)" "0 < td_quantity_kwh t"
      "val (td_quantity_kwh t) \<le> 10 ^ 5"
    and os: "fetch od_id (t_orders db) (td_buy_order_id t) = Some buy" "fetch od_id (t_orders db) (td_sell_order_id t) = Some sell"
      "known us_id (t_users db) (od_user_id buy)" "known us_id (t_users db) (od_user_id sell)"
    and b: "get_breakdown db i = Inr b" "stored_price (bd_final_price b)" "val (bd_final_price b) \<le> 10 ^ 5"
    and e: "telemetry_energy avg db (od_site_id sell) (td_delivery_start t) (td_delivery_end t) = Inr act"
      "ae_quantity_kwh act = Some q" "0 \<le> val q" "val q \<le> 10 ^ 9"
    and new: "\<not> known rc_id (t_reconciliations db) (rf_row_id f)" "\<not> known sm_id (t_settlements db) (sf_row_id f)"
  shows "\<exists>s rec row. calculate db i (settle p) (breakdown_price db) (telemetry_energy avg db) = Inr s
    \<and> val (sm_settled_kwh row) = min (val (td_quantity_kwh t)) (round_half_up 4 (val q))
    \<and> val (sm_buyer_debit_inr row) = round_half_up 2 (val (sm_settled_kwh row) * val (bd_final_price b))
    \<and> val (sm_buyer_debit_inr row)
        = val (sm_seller_credit_inr row) + val (sm_platform_fee_inr row) + val (sm_balancing_charge_inr row)
    \<and> sm_buyer_user_id row = od_user_id buy \<and> sm_seller_user_id row = od_user_id sell
    \<and> settle_from_tables db avg (settle p) i given f =
        (case record_event (reconciliation_event (reconciliation_of i s f) s f)
                (db\<lparr>t_reconciliations := t_reconciliations db @ [rec]\<rparr>) of
           Inl e \<Rightarrow> (db, Inl e)
         | Inr db1 \<Rightarrow>
             (case record_event (settlement_event (settlement_of s (sf_row_id f) (instant given (sf_now f))) s f)
                     (db1\<lparr>t_settlements := map (supersede i) (t_settlements db) @ [row]\<rparr>) of
                Inl e \<Rightarrow> (db, Inl e)
              | Inr db2 \<Rightarrow> (db2, Inr (row, [settlement_notice row]))))"
proof -
  from settlement_rows [OF p t os b e, of f "instant given (sf_now f)"]
  obtain s rec row where r: "calculate db i (settle p) (breakdown_price db) (telemetry_energy avg db) = Inr s"
    "check_settlement s = Inr ()" "ro_is_complete (st_reconciliation s)"
    "stored_reconciliation (reconciliation_of i s f) = Inr rec" "not_negative_check (rc_actual_kwh rec)"
    "rc_actual_kwh rec \<noteq> None" "rc_deviation_kwh rec \<noteq> None" "0 \<le> rc_balancing_kwh rec" "0 < rc_committed_kwh rec"
    and w: "stored_settlement (settlement_of s (sf_row_id f) (instant given (sf_now f))) = Inr row"
    "val (sm_settled_kwh row) = min (val (td_quantity_kwh t)) (round_half_up 4 (val q))"
    "val (sm_buyer_debit_inr row) = round_half_up 2 (val (sm_settled_kwh row) * val (bd_final_price b))"
    "val (sm_buyer_debit_inr row)
        = val (sm_seller_credit_inr row) + val (sm_platform_fee_inr row) + val (sm_balancing_charge_inr row)"
    "0 \<le> sm_settled_kwh row" "0 \<le> sm_gross_inr row" "0 \<le> sm_platform_fee_inr row" "0 \<le> sm_balancing_charge_inr row"
    "0 \<le> sm_buyer_debit_inr row" "st_trade_id s = i" "st_buyer_user_id s = od_user_id buy" "st_seller_user_id s = od_user_id sell" .
  have ti: "known td_id (t_trades db) i" using t(1) by (simp add: fetch_known)
  have f: "rc_id rec = rf_row_id f" "rc_trade_id rec = i" "sm_id row = sf_row_id f" "sm_trade_id row = i"
    "sm_buyer_user_id row = od_user_id buy" "sm_seller_user_id row = od_user_id sell"
    using stored_reconciliation_fields [OF r(4)] stored_settlement_fields [OF w(1)] w(10-12)
    by (simp_all add: reconciliation_of_def settlement_of_def Let_def)
  have rc: "list_all fst (reconciliation_checks db rec)"
    using r(5-9) f(1,2) ti new(1) by (simp add: reconciliation_checks_def)
  have sc: "list_all fst (settlement_checks (db1\<lparr>t_settlements := map (supersede i) (t_settlements db1)\<rparr>) row)"
    if "t_trades db1 = t_trades db" "t_users db1 = t_users db" "t_settlements db1 = t_settlements db" for db1 :: "'a settlement_db_scheme"
    using that w(4-9) f(3-6) ti os(3,4) new(2) by (simp add: settlement_checks_def known_def comp_def)
  have filing: "file_settlement i s (instant given (sf_now f)) f db1
      = bindE (record_event (settlement_event (settlement_of s (sf_row_id f) (instant given (sf_now f))) s f)
                 (db1\<lparr>t_settlements := map (supersede i) (t_settlements db) @ [row]\<rparr>))
              (\<lambda>db2. Inr (db2, row, [settlement_notice row]))"
    if "record_event (reconciliation_event (reconciliation_of i s f) s f)
          (db\<lparr>t_reconciliations := t_reconciliations db @ [rec]\<rparr>) = Inr db1" for db1
    using that file_settlement_eq [OF w(1), where db = db1 and i = i] sc [of db1] by (auto simp: record_event_effect)
  from settle_trade_eq [OF r(1,3,2,4) rc filing] r(1) w(2-4) f(5,6) show ?thesis
    unfolding settle_from_tables_def by blast
qed

end
