(* ===== verification/Grid_Claims.thy ===== *)
theory Grid_Claims
  imports Grid_Validation Market_Claims
begin

text \<open>
  Grid validation with the deployment's engine: what an accepted trade has been shown from the twin
  to the solved network, and what the service lets pass; then a concrete twin for the witnesses.
\<close>

definition pgm_engine :: "solver \<Rightarrow> string \<Rightarrow> engine" where
  "pgm_engine solve version =
     \<lparr>eng_name = pgm_name, eng_version = version, eng_validate = pgm_validate solve version\<rparr>"

definition power_swap :: "trade_question \<Rightarrow> node_injection \<Rightarrow> node_injection list" where
  "power_swap q injection =
     [injection, \<lparr>inj_node_id = tq_buyer_node_id q, inj_active_power_kw = - inj_active_power_kw injection\<rparr>]"

lemma trade_injectionsE:
  assumes "trade_injections q = Inr proposed"
  obtains injection where
    "from_energy (tq_seller_node_id q) (tq_quantity_kwh q) (tq_delivery_end q - tq_delivery_start q) = Inr injection"
    "proposed = power_swap q injection"
  using assms by (auto simp: trade_injections_def bindE_eq_Inr power_swap_def)

text \<open>C8. An accepted trade was shown safe on the network the solver saw. When validating a trade with
  the Power Grid Model adapter stores ACCEPT, the solver was asked for the twin's network with the
  seller injecting and the buyer withdrawing the trade's power on top of the baseline. Among the nodes
  of the feeder, taken from the first 10,000 of the twin, every node below another has a recorded
  rating; no loading the solver gave as a number for a rated line or transformer is above 100 percent;
  the metrics reported are within the limits asked for; and the trade caused no violation. Readings
  that are no numbers are skipped, as lemma \<open>pgm_unread_is_safe\<close> shows.\<close>

theorem accepted_trade_is_safe:
  assumes "validate_grid_trade (pgm_engine solve version) q given f db = (db', Inr (row, ns))"
    and "vn_decision row = ACCEPT" and "distinct (map gn_id (t_grid_nodes db))"
  shows "\<exists>injection out x.
      from_energy (tq_seller_node_id q) (tq_quantity_kwh q) (tq_delivery_end q - tq_delivery_start q) = Inr injection
      \<and> solve (build_network db (tq_feeder_id q)) (superpose (tq_baseline q @ power_swap q injection)) = Inr out
      \<and> (\<forall>g \<in> set (feeder_nodes db (tq_feeder_id q)).
           (\<exists>p \<in> gn_id ` set (feeder_nodes db (tq_feeder_id q)). gn_parent_node_id g = Some p)
             \<longrightarrow> gn_rated_capacity_kw g \<noteq> None)
      \<and> (\<forall>(u, y) \<in> set (loadings (rated_lines (build_network db (tq_feeder_id q))) (out_lines out)
             @ loadings (rated_transformers (build_network db (tq_feeder_id q))) (out_transformers out)).
           val y \<le> 100)
      \<and> pgm_validate solve version (trade_request db q (power_swap q injection)) = Inr x
      \<and> within_limits (gv_metrics x) (tq_limits q) \<and> caused_violations x = []"
proof -
  from assms(1) obtain proposed where p: "trade_injections q = Inr proposed"
    "validate_scenario (pgm_engine solve version) (trade_request db q proposed) (Some (tq_trade_id q))
       (feeder_snapshot db (tq_feeder_id q)) given f db = (db', Inr (row, ns))"
    by (auto simp: validate_grid_trade_def split: sum.splits)
  from p(1) obtain injection where i:
    "from_energy (tq_seller_node_id q) (tq_quantity_kwh q) (tq_delivery_end q - tq_delivery_start q) = Inr injection"
    "proposed = power_swap q injection" by (rule trade_injectionsE)
  let ?r = "trade_request db q (power_swap q injection)"
  from scenario_stored [OF p(2)] obtain x where x: "pgm_validate solve version ?r = Inr x"
    "verdict_decision ?r x = ACCEPT"
    using assms(2) by (auto simp: pgm_engine_def i(2))
  note safe = pgm_accept_is_safe [OF x(1) x(2) [unfolded verdict_decision_def verdict_status_def]]
  have "\<forall>g \<in> set (feeder_nodes db (tq_feeder_id q)).
      (\<exists>p \<in> gn_id ` set (feeder_nodes db (tq_feeder_id q)). gn_parent_node_id g = Some p)
        \<longrightarrow> gn_rated_capacity_kw g \<noteq> None"
    using safe unrated_in_twin [OF assms(3), of _ "tq_feeder_id q"]
    by (fastforce simp: trade_request_def has_complete_ratings_def twin_ids_def)
  with safe x(1) i(1) show ?thesis
    by (auto simp: trade_request_def combined_injections_def)
qed

text \<open>An engine that contradicts itself is believed: when it reports SAFE with metrics outside the
  limits it was given and lists no violation, on a network with complete ratings, the stored decision
  is ACCEPT, although the cross-check the service offers names the disagreement.\<close>

theorem contradiction_is_accepted:
  assumes "validate_scenario eng r trade snap given f db = (db', Inr (row, ns))"
    and "eng_validate eng r = Inr res" "gv_status res = SAFE" "gv_violations res = []"
    and "\<not> within_limits (gv_metrics res) (gr_limits r)" "unrated_elements (gr_network r) = []"
  shows "vn_status row = SAFE \<and> vn_decision row = ACCEPT \<and> cross_check res (gr_limits r) \<noteq> []"
proof -
  have c: "caused_violations res = []" using assms(4) by (simp add: caused_violations_def)
  from scenario_stored [OF assms(1)] assms(2) c assms(3,6)
  have "vn_status row = SAFE" "vn_decision row = ACCEPT"
    by (simp_all add: verdict_decision_def verdict_status_def decide_accept status_SAFE_iff)
  moreover have "evaluate_metrics (gv_metrics res) (gr_limits r) \<noteq> []"
    using assms(5) by (simp add: evaluate_metrics_Nil)
  ultimately show ?thesis using assms(3) by (simp add: cross_check_def Let_def)
qed

section \<open>A concrete twin\<close>

text \<open>A substation and a rated connection point under it, and a trade of 1.5 kWh in a quarter hour.\<close>

definition demo_twin :: grid_db where
  "demo_twin = (market_db.extend demo_closed (grid_db.fields [] []))
     \<lparr>t_grid_nodes :=
        [\<lparr>gn_id = 1, gn_external_ref = ''s'', gn_node_type = SUBSTATION, gn_nominal_voltage_kv = Dec 11 0,
          gn_parent_node_id = None, gn_feeder_id = None, gn_rated_capacity_kw = None\<rparr>,
         \<lparr>gn_id = 2, gn_external_ref = ''c'', gn_node_type = CONNECTION_POINT, gn_nominal_voltage_kv = Dec 4 (-1),
          gn_parent_node_id = Some 1, gn_feeder_id = None, gn_rated_capacity_kw = Some (Dec 10 0)\<rparr>]\<rparr>"

definition demo_question :: trade_question where
  "demo_question =
     \<lparr>tq_trade_id = 70, tq_seller_node_id = 2, tq_buyer_node_id = 1, tq_quantity_kwh = Dec 15 (-1),
      tq_delivery_start = 0, tq_delivery_end = 900000000, tq_feeder_id = None, tq_baseline = [],
      tq_limits = DEFAULT_LIMITS\<rparr>"

definition demo_draw :: validation_fresh where
  "demo_draw = \<lparr>vf_run_id = 80, vf_now = 3, vf_event_id = 81, vf_event_now = 4\<rparr>"

definition demo_asked_request :: grid_validation_request where
  "demo_asked_request = trade_request demo_twin demo_question
     [\<lparr>inj_node_id = 2, inj_active_power_kw = Dec 6 0\<rparr>, \<lparr>inj_node_id = 1, inj_active_power_kw = Dec (-6) 0\<rparr>]"

lemma demo_twin_tables:
  "t_validation_runs demo_twin = []" "t_grid_snapshots demo_twin = []" "t_audit demo_twin = []"
  "map gn_id (t_grid_nodes demo_twin) = [1, 2]"
  by (simp_all add: demo_twin_def demo_closed_def demo_market_defs grid_db.defs)

lemma demo_twin_network: "build_network demo_twin None = demo_network\<lparr>net_version := ''phase-1-twin''\<rparr>"
  by (simp add: build_network_def feeder_nodes_def on_feeder_def demo_twin_def demo_closed_def demo_market_defs
      grid_db.defs demo_network_def network_node_of_def dict_get_def)

lemma demo_power: "trade_injections demo_question
   = Inr [\<lparr>inj_node_id = 2, inj_active_power_kw = Dec 6 0\<rparr>, \<lparr>inj_node_id = 1, inj_active_power_kw = Dec (-6) 0\<rparr>]"
  by code_simp

lemma demo_answer: "pgm_validate demo_solver ''1'' demo_asked_request = Inr (demo_verdict (Dec 60 0) SAFE [])"
  unfolding demo_asked_request_def trade_request_def demo_question_def
  by (simp only: trade_question.simps demo_twin_network) code_simp

lemma demo_request_fields:
  "gr_network demo_asked_request = demo_network\<lparr>net_version := ''phase-1-twin''\<rparr>"
  "gr_interval_end demo_asked_request = 900000000" "gr_interval_start demo_asked_request = 0"
  "gr_limits demo_asked_request = DEFAULT_LIMITS"
  by (simp_all add: demo_asked_request_def trade_request_def demo_question_def demo_twin_network)

lemma validation_event_recorded:
  assumes "t_audit db = []" "datetime_ok (vn_created_at v)" "datetime_ok (vf_event_now f)"
  shows "\<exists>row. record_event (validation_event v trade f) db = Inr (db\<lparr>t_audit := [row]\<rparr>)"
  by (rule first_event_recorded [OF assms(1)])
     (simp_all add: assms validation_event_def grid_validation_recorded_def build_event_def py_dict_def
        optional_def split: option.split)

lemma file_validation_succeeds:
  assumes "stored_validation v = Inr row" "list_all fst (validation_checks db row)"
    and "t_audit db = []" "datetime_ok (vn_created_at v)" "datetime_ok (vf_event_now f)"
  shows "\<exists>evs. file_validation v f db = Inr (db\<lparr>t_validation_runs := t_validation_runs db @ [row], t_audit := evs\<rparr>)"
proof -
  have i: "insert_validation v db = Inr (db\<lparr>t_validation_runs := t_validation_runs db @ [row]\<rparr>)"
    using assms(1,2) by (simp add: insert_validation_def checks_pass del: all_checks_eq)
  show ?thesis
  proof (cases "vn_trade_id v")
    case None
    with i have "file_validation v f db = Inr (db\<lparr>t_validation_runs := t_validation_runs db @ [row], t_audit := t_audit db\<rparr>)"
      by (simp add: file_validation_def)
    then show ?thesis by blast
  next
    case (Some t)
    obtain a where "record_event (validation_event v t f) (db\<lparr>t_validation_runs := t_validation_runs db @ [row]\<rparr>)
        = Inr (db\<lparr>t_validation_runs := t_validation_runs db @ [row], t_audit := [a]\<rparr>)"
      using validation_event_recorded [of "db\<lparr>t_validation_runs := t_validation_runs db @ [row]\<rparr>" v f t] assms(3-5) by auto
    with i Some show ?thesis by (auto simp: file_validation_def)
  qed
qed

lemma scenario_succeeds:
  assumes "gr_interval_start r < gr_interval_end r" "\<not> network_is_empty (gr_network r)"
    and "eng_validate eng r = Inr res" "check_result res = Inr ()"
    and "stored_validation (result_row r res trade snap (vf_run_id f) (instant given (vf_now f))) = Inr row"
    and "list_all fst (validation_checks db row)"
    and "t_audit db = []" "datetime_ok (instant given (vf_now f))" "datetime_ok (vf_event_now f)"
  shows "\<exists>db'. validate_scenario eng r trade snap given f db = (db', Inr (row, [validation_notice row]))"
proof -
  let ?v = "result_row r res trade snap (vf_run_id f) (instant given (vf_now f))"
  have v: "vn_created_at ?v = instant given (vf_now f)" "vn_id ?v = vf_run_id f" by (simp_all add: result_row_def)
  from file_validation_succeeds [OF assms(5-7), of f] assms(8,9) v(1) obtain evs where
    "file_validation ?v f db = Inr (db\<lparr>t_validation_runs := t_validation_runs db @ [row], t_audit := evs\<rparr>)" by auto
  moreover have "get_validation_run (db\<lparr>t_validation_runs := t_validation_runs db @ [row], t_audit := evs\<rparr>) (vf_run_id f) = Inr row"
    using assms(6) stored_validation_fields [OF assms(5)] v(2) by (intro filed_row) (simp_all add: validation_checks_def)
  ultimately show ?thesis
    using assms(1-4) by (simp add: validate_scenario_def engine_answered_def or_unchanged_def)
qed

definition demo_run_row :: validation_row where
  "demo_run_row =
     \<lparr>vn_id = 80, vn_trade_id = Some 70, vn_grid_snapshot_id = None, vn_simulation_engine = pgm_name,
      vn_engine_version = Some ''1'', vn_input_hash = request_fingerprint demo_asked_request, vn_status = SAFE,
      vn_min_voltage_pu = Some (Dec 9900 (-4)), vn_max_voltage_pu = Some (Dec 10000 (-4)),
      vn_max_line_loading_pct = Some (Dec 60000 (-3)), vn_max_transformer_loading_pct = None, vn_decision = ACCEPT,
      vn_reason = Some ''within all operating limits'', vn_created_at = 3\<rparr>"

lemma demo_numerics:
  "numeric 8 4 (Dec 99 (-2)) = Inr (Dec 9900 (-4))" "numeric 8 4 (Dec 1 0) = Inr (Dec 10000 (-4))"
  "numeric 8 3 (Dec 60 0) = Inr (Dec 60000 (-3))"
  by code_simp+

lemma demo_verdicts:
  "verdict_status demo_asked_request (demo_verdict (Dec 60 0) SAFE []) = SAFE"
  "verdict_decision demo_asked_request (demo_verdict (Dec 60 0) SAFE []) = ACCEPT"
  "verdict_reason demo_asked_request (demo_verdict (Dec 60 0) SAFE []) = ''within all operating limits''"
  by (simp_all add: verdict_decision_def verdict_status_def verdict_reason_def demo_request_fields demo_verdict_def
      demo_network_def unrated_elements_def caused_violations_def effective_status_def resolve_status_def decide_def
      summarise_def Let_def)

lemma demo_run_stored:
  "stored_validation (result_row demo_asked_request (demo_verdict (Dec 60 0) SAFE []) (Some 70) None 80 3) = Inr demo_run_row"
  by (simp add: stored_validation_def result_row_def demo_verdicts demo_run_row_def varchar_def pred_text_def
      nullable_def demo_numerics request_fingerprint_def) (simp add: demo_verdict_def pgm_name_def demo_numerics)

lemma demo_run_checks: "list_all fst (validation_checks demo_twin demo_run_row)"
  by (simp add: validation_checks_def demo_run_row_def demo_twin_tables known_def voltages_ordered_def val_simps val_def)

lemma demo_trade_validated:
  "\<exists>db'. validate_grid_trade (pgm_engine demo_solver ''1'') demo_question None demo_draw demo_twin
     = (db', Inr (demo_run_row, [validation_notice demo_run_row]))"
proof -
  let ?q = "trade_request demo_twin demo_question
     [\<lparr>inj_node_id = 2, inj_active_power_kw = Dec 6 0\<rparr>, \<lparr>inj_node_id = 1, inj_active_power_kw = Dec (-6) 0\<rparr>]"
  have "check_result (demo_verdict (Dec 60 0) SAFE []) = Inr ()" by code_simp
  from scenario_succeeds [OF _ _ _ this _ demo_run_checks, of demo_asked_request "pgm_engine demo_solver ''1''" "Some 70" None demo_draw None]
  obtain db' where "validate_scenario (pgm_engine demo_solver ''1'') demo_asked_request (Some 70) None None demo_draw demo_twin
      = (db', Inr (demo_run_row, [validation_notice demo_run_row]))"
    using demo_run_stored demo_answer
    by (auto simp: demo_request_fields network_is_empty_def demo_network_def pgm_engine_def demo_draw_def instant_def
        demo_twin_tables datetime_ok_def)
  moreover have "?q = demo_asked_request" by (simp add: demo_asked_request_def)
  ultimately show ?thesis
    by (simp add: validate_grid_trade_def demo_power) (simp add: demo_question_def feeder_snapshot_def)
qed

section \<open>The properties at concrete inputs\<close>

lemma accepted_trade_is_safe_witness:
  "\<exists>injection out. from_energy 2 (Dec 15 (-1)) 900000000 = Inr injection
     \<and> demo_solver (build_network demo_twin None) (superpose (power_swap demo_question injection)) = Inr out"
proof -
  obtain db' where v: "validate_grid_trade (pgm_engine demo_solver ''1'') demo_question None demo_draw demo_twin
     = (db', Inr (demo_run_row, [validation_notice demo_run_row]))" using demo_trade_validated by blast
  have "vn_decision demo_run_row = ACCEPT" "distinct (map gn_id (t_grid_nodes demo_twin))"
    by (simp_all add: demo_run_row_def demo_twin_tables)
  from accepted_trade_is_safe [OF v this] show ?thesis
    by (auto simp: demo_question_def)
qed

lemma twin_network_well_formed_witness:
  "network_ok (build_network demo_twin None)
   \<and> (\<exists>g \<in> set (t_grid_nodes demo_twin). gn_id g = 2 \<and> gn_rated_capacity_kw g = Some (Dec 10 0))"
proof -
  have "\<lparr>line_id = 2, line_from = 1, line_to = 2, line_rating_kw = Some (Dec 10 0)\<rparr> \<in> set (net_lines (build_network demo_twin None))"
    by (simp add: demo_twin_network demo_network_def)
  with twin_network_well_formed [of demo_twin "take 10000 (t_grid_nodes demo_twin)" None] show ?thesis
    by (auto simp: demo_twin_tables dest: in_set_takeD)
qed

definition broken_engine :: engine where
  "broken_engine = \<lparr>eng_name = ''broken'', eng_version = ''0'', eng_validate = (\<lambda>_. Inl PyValueError)\<rparr>"


text \<open>An engine that reports SAFE with a voltage of 1.2 per unit.\<close>

definition careless_answer :: grid_validation_result where
  "careless_answer = (demo_verdict (Dec 60 0) SAFE [])
     \<lparr>gv_metrics := \<lparr>min_voltage_pu = Some (Dec 99 (-2)), max_voltage_pu = Some (Dec 12 (-1)),
        max_line_loading_pct = None, max_transformer_loading_pct = None\<rparr>\<rparr>"

definition careless_engine :: engine where
  "careless_engine = \<lparr>eng_name = pgm_name, eng_version = ''1'', eng_validate = (\<lambda>_. Inr careless_answer)\<rparr>"

lemma contradiction_is_accepted_witness:
  "\<exists>db' row ns. validate_scenario careless_engine demo_asked_request None None None demo_draw demo_twin = (db', Inr (row, ns))
     \<and> vn_decision row = ACCEPT \<and> cross_check careless_answer DEFAULT_LIMITS \<noteq> []"
proof -
  let ?v = "result_row demo_asked_request careless_answer None None 80 3"
  have e: "eng_validate careless_engine demo_asked_request = Inr careless_answer" by (simp add: careless_engine_def)
  have m: "gv_status careless_answer = SAFE" "gv_violations careless_answer = []" "gv_baseline_violations careless_answer = []"
    "gv_metrics careless_answer = \<lparr>min_voltage_pu = Some (Dec 99 (-2)), max_voltage_pu = Some (Dec 12 (-1)),
        max_line_loading_pct = None, max_transformer_loading_pct = None\<rparr>" "gv_engine careless_answer = pgm_name"
    "gv_engine_version careless_answer = ''1''"
    by (simp_all add: careless_answer_def demo_verdict_def)
  have u: "unrated_elements (gr_network demo_asked_request) = []"
    by (simp add: demo_request_fields demo_network_def unrated_elements_def)
  have d: "verdict_status demo_asked_request careless_answer = SAFE" "verdict_decision demo_asked_request careless_answer = ACCEPT"
    using m u by (simp_all add: verdict_decision_def verdict_status_def decide_accept status_SAFE_iff caused_violations_def)
  have "numeric 8 4 (Dec 12 (-1)) = Inr (Dec 12000 (-4))" by code_simp
  with m d obtain row where row: "stored_validation ?v = Inr row" "vn_status row = SAFE" "vn_decision row = ACCEPT"
    "vn_min_voltage_pu row = Some (Dec 9900 (-4))" "vn_max_voltage_pu row = Some (Dec 12000 (-4))" "vn_grid_snapshot_id row = None"
    by (simp add: stored_validation_def result_row_def varchar_def pred_text_def nullable_def demo_numerics
        request_fingerprint_def pgm_name_def)
  then have checks: "list_all fst (validation_checks demo_twin row)"
    by (simp add: validation_checks_def demo_twin_tables known_def voltages_ordered_def val_simps val_def)
  have "check_result careless_answer = Inr ()" by code_simp
  from scenario_succeeds [OF _ _ e this _ checks, of None None demo_draw None] row(1)
  obtain db' where v: "validate_scenario careless_engine demo_asked_request None None None demo_draw demo_twin
      = (db', Inr (row, [validation_notice row]))"
    by (auto simp: demo_request_fields network_is_empty_def demo_network_def demo_draw_def instant_def
        demo_twin_tables datetime_ok_def)
  have "\<not> within_limits (gv_metrics careless_answer) (gr_limits demo_asked_request)"
    by (simp add: m demo_request_fields within_limits_def DEFAULT_LIMITS_def val_simps val_def)
  from contradiction_is_accepted [OF v e m(1,2) this u] v show ?thesis by (auto simp: demo_request_fields)
qed

end
