(* ===== verification/Account_Demo.thy ===== *)
theory Account_Demo
  imports Settlement_Claims Grid_Claims
begin

text \<open>
  A trade of 4 kWh with its orders, parties, meter and an accepting validation run, on which the
  properties of pricing and settlement are applied.
\<close>

definition demo_trade :: trade_row where
  "demo_trade =
     \<lparr>td_id = 70, td_fill_sequence = 1, td_buy_order_id = 21, td_sell_order_id = 22, td_quantity_kwh = Dec 40000 (-4),
      td_clearing_price = Dec 58750 (-4), td_delivery_start = 0, td_delivery_end = 900000000,
      td_grid_validation_id = None, td_status = PROPOSED, td_committed_at = None, td_matching_engine = None,
      td_matching_engine_version = None, td_created_at = 2\<rparr>"

definition demo_boundary_reading :: reading_row where
  "demo_boundary_reading = to_model 60 (demo_reading (Some (Dec 35000 (-4)))) VALID"

definition demo_breakdown :: breakdown_row where
  "demo_breakdown =
     \<lparr>bd_id = 90, bd_trade_id = 70, bd_base_market_price = Dec 58750 (-4), bd_time_component = Dec 0 (-4),
      bd_congestion_component = Dec 0 (-4), bd_imbalance_component = Dec 0 (-4),
      bd_local_renewable_component = Dec 0 (-4), bd_final_price = Dec 58750 (-4), bd_formula_version = ''1.0.0'',
      bd_created_at = 5\<rparr>"

definition demo_accounts :: "breakdown_row list \<Rightarrow> settlement_db" where
  "demo_accounts bs =
     pricing_db.extend
       (grid_db.extend
         (market_db.extend
           (demo_closed\<lparr>t_trades := [demo_trade], t_readings := [demo_boundary_reading],
              t_users := [\<lparr>us_id = 1, us_email = None, us_display_name = ''A'', us_role = PROSUMER, us_status = User_ACTIVE\<rparr>,
                          \<lparr>us_id = 2, us_email = None, us_display_name = ''B'', us_role = PROSUMER, us_status = User_ACTIVE\<rparr>]\<rparr>)
           (grid_db.fields [] [demo_run_row]))
         (pricing_db.fields bs))
       (settlement_db.fields [] [])"

lemma demo_accounts_tables:
  "t_trades (demo_accounts bs) = [demo_trade]" "t_readings (demo_accounts bs) = [demo_boundary_reading]"
  "map us_id (t_users (demo_accounts bs)) = [1, 2]" "t_validation_runs (demo_accounts bs) = [demo_run_row]"
  "t_price_components (demo_accounts bs) = bs" "t_reconciliations (demo_accounts bs) = []"
  "t_settlements (demo_accounts bs) = []" "t_audit (demo_accounts bs) = []"
  "t_orders (demo_accounts bs) = t_orders demo_closed" "t_sites (demo_accounts bs) = t_sites demo_closed"
  "t_meters (demo_accounts bs) = t_meters demo_closed" "t_grid_nodes (demo_accounts bs) = t_grid_nodes demo_closed"
  "t_energy_assets (demo_accounts bs) = t_energy_assets demo_closed"
  by (simp_all add: demo_accounts_def demo_closed_def demo_market_defs grid_db.defs pricing_db.defs settlement_db.defs)

lemma demo_trade_on_file: "fetch td_id (t_trades (demo_accounts bs)) 70 = Some demo_trade"
  by (simp add: demo_accounts_tables fetch_def demo_trade_def)

lemma demo_orders_on_file:
  "fetch od_id (t_orders (demo_accounts bs)) 21 = Some (demo_row 21 BUY 1 (Dec 50000 (-4)) (Dec 65000 (-4)))"
  "fetch od_id (t_orders (demo_accounts bs)) 22 = Some (demo_row 22 SELL 2 (Dec 40000 (-4)) (Dec 52500 (-4)))"
  by (simp_all add: demo_accounts_tables demo_closed_tables fetch_def demo_row_def)

lemma demo_site_on_file: "known si_id (t_sites (demo_accounts bs)) 5"
  "fetch me_id (t_meters (demo_accounts bs)) 6 \<noteq> None \<and> me_site_id (the (fetch me_id (t_meters (demo_accounts bs)) 6)) = 5"
  by (simp_all add: demo_accounts_tables demo_closed_def demo_market_defs known_def fetch_def)

lemma demo_window_reading: "site_window (demo_accounts bs) 5 0 1800000000 True = [demo_boundary_reading]"
proof -
  have "rd_meter_id demo_boundary_reading = 6" "rd_timestamp demo_boundary_reading = 900000000"
    "rd_quality_status demo_boundary_reading = VALID"
    by (simp_all add: demo_boundary_reading_def to_model_def demo_reading_def)
  with demo_site_on_file(2) [of bs] show ?thesis
    by (auto simp: site_window_def valid_only_def site_scoped_def demo_accounts_tables split: option.splits)
qed

lemma demo_reading_fields: "rd_timestamp demo_boundary_reading = 900000000" "rd_energy_kwh demo_boundary_reading = Some (Dec 35000 (-4))"
  by (simp_all add: demo_boundary_reading_def to_model_def demo_reading_def)

lemma demo_round: "round_half_up 4 (val (Dec c (-4))) = val (Dec c (-4))"
  using round_half_up_id [OF grid_of_int [of 4 c]] by (simp add: val_Dec4)

section \<open>Pricing\<close>

definition demo_pricing_draw :: pricing_fresh where
  "demo_pricing_draw = \<lparr>pf_row_id = 91, pf_now = 6, pf_event_id = 92, pf_event_now = 7\<rparr>"

lemma demo_trade_price:
  "stored_price (td_clearing_price demo_trade)" "val (td_clearing_price demo_trade) \<le> 10 ^ 5"
  by (simp_all add: demo_trade_def val_Dec4)

lemma trade_is_priced_witness:
  "\<exists>x. quote_trade (demo_accounts []) 70 (quote DEFAULT_PARAMETERS) = Inr x
     \<and> (\<exists>row :: breakdown_row. val (bd_base_market_price row) = 47 / 8 \<and> val (bd_final_price row) = val (px_final_price x))"
proof -
  have v: "pp_formula_version DEFAULT_PARAMETERS \<noteq> []" "length (pp_formula_version DEFAULT_PARAMETERS) \<le> 64"
    "\<not> known bd_id (t_price_components (demo_accounts [])) (pf_row_id demo_pricing_draw)"
    by (simp_all add: DEFAULT_PARAMETERS_def demo_accounts_tables known_def)
  have "val (td_clearing_price demo_trade) = 47 / 8" by (simp add: demo_trade_def val_Dec4)
  moreover note trade_is_priced [OF default_params_ok v(1,2) demo_trade_on_file demo_trade_price v(3), of None]
  ultimately show ?thesis by metis
qed

lemma demo_priced:
  "\<exists>db' row ns. price_trade (demo_accounts []) 70 (quote DEFAULT_PARAMETERS) None demo_pricing_draw = Inr (db', row, ns)"
proof -
  have v: "pp_formula_version DEFAULT_PARAMETERS \<noteq> []" "length (pp_formula_version DEFAULT_PARAMETERS) \<le> 64"
    "\<not> known bd_id (t_price_components (demo_accounts [])) (pf_row_id demo_pricing_draw)"
    by (simp_all add: DEFAULT_PARAMETERS_def demo_accounts_tables known_def)
  from priced_trade [OF default_params_ok v(1,2) demo_trade_on_file demo_trade_price v(3), of None] obtain x row where
    p: "price_trade (demo_accounts []) 70 (quote DEFAULT_PARAMETERS) None demo_pricing_draw
      = bindE (record_event (breakdown_event (breakdown_of 70 x 91 6) demo_pricing_draw)
                 ((demo_accounts [])\<lparr>t_price_components := [row]\<rparr>)) (\<lambda>db2. Inr (db2, row, [breakdown_notice row]))"
    by (auto simp: demo_pricing_draw_def instant_def demo_accounts_tables)
  have "\<exists>a. record_event (breakdown_event (breakdown_of 70 x 91 6) demo_pricing_draw)
      ((demo_accounts [])\<lparr>t_price_components := [row]\<rparr>) = Inr ((demo_accounts [])\<lparr>t_price_components := [row], t_audit := [a]\<rparr>)"
    using first_event_recorded [of "(demo_accounts [])\<lparr>t_price_components := [row]\<rparr>"
        "breakdown_event (breakdown_of 70 x 91 6) demo_pricing_draw"]
    by (simp add: demo_accounts_tables breakdown_event_def breakdown_of_def price_calculated_def build_event_def
        datetime_ok_def demo_pricing_draw_def py_dict_def)
  with p show ?thesis by auto
qed

lemma repricing_keeps_history_witness:
  "\<exists>db' row. breakdowns_for_trade db' 70 = [row] \<and> get_breakdown (db' :: settlement_db) 70 = Inr row"
proof -
  from demo_priced obtain db' row ns where
    p: "price_trade (demo_accounts []) 70 (quote DEFAULT_PARAMETERS) None demo_pricing_draw = Inr (db', row, ns)" by blast
  have "breakdowns_for_trade (demo_accounts []) 70 = []" by (simp add: breakdowns_for_trade_def demo_accounts_tables)
  with repricing_keeps_history [OF p] show ?thesis by (auto simp: demo_accounts_tables)
qed

text \<open>The accepting run is in force for the trade, so it is quoted without a surcharge.\<close>

lemma demo_run_in_force: "run_in_force (demo_accounts bs) demo_trade = Some demo_run_row"
  by (simp add: run_in_force_def cited_run_def latest_for_trade_def demo_trade_def demo_accounts_tables demo_run_row_def
      head_row_def)

lemma demo_request: "build_request (demo_accounts bs) demo_trade =
  \<lparr>pr_base_price = Dec 58750 (-4), pr_quantity_kwh = Dec 40000 (-4), pr_delivery_start = 0, pr_delivery_end = 900000000,
   pr_grid_status = SAFE,
   pr_grid_metrics = Some \<lparr>min_voltage_pu = Some (Dec 9900 (-4)), max_voltage_pu = Some (Dec 10000 (-4)),
      max_line_loading_pct = Some (Dec 60000 (-3)), max_transformer_loading_pct = None\<rparr>,
   pr_caused_violations = [], pr_forecast_confidence = None, pr_local_renewable = False, pr_trade_id = Some 70,
   pr_grid_validation_id = Some 80, pr_forecast_basis_id = None\<rparr>"
proof -
  have t: "td_buy_order_id demo_trade = 21" "td_sell_order_id demo_trade = 22" by (simp_all add: demo_trade_def)
  show ?thesis
    by (simp add: build_request_def grid_state_def demo_run_in_force t demo_orders_on_file Let_def)
       (simp add: demo_trade_def demo_run_row_def run_metrics_def demo_row_def forecast_confidence_def
          is_local_renewable_def same_feeder_def)
qed

lemma recommend_safe: "recommend SAFE base c p = Inr d \<Longrightarrow> d \<noteq> REJECT"
  by (auto simp: recommend_def bindE_eq_Inr split: if_splits)

lemma demo_quoted: "\<exists>x. quote_trade (demo_accounts []) 70 (quote DEFAULT_PARAMETERS) = Inr x \<and> px_recommended_decision x \<noteq> REJECT"
proof -
  have v: "pp_formula_version DEFAULT_PARAMETERS \<noteq> []" "length (pp_formula_version DEFAULT_PARAMETERS) \<le> 64"
    "\<not> known bd_id (t_price_components (demo_accounts [])) (pf_row_id demo_pricing_draw)"
    by (simp_all add: DEFAULT_PARAMETERS_def demo_accounts_tables known_def)
  from priced_trade [OF default_params_ok v(1,2) demo_trade_on_file demo_trade_price v(3), of None] obtain x where
    x: "quote_trade (demo_accounts []) 70 (quote DEFAULT_PARAMETERS) = Inr x" by blast
  then have "quote DEFAULT_PARAMETERS (build_request (demo_accounts []) demo_trade) = Inr x"
    by (auto simp: quote_trade_def get_trade_def demo_trade_on_file checked_quote_def bindE_eq_Inr case_Inr_iff)
  then have "px_recommended_decision x \<noteq> REJECT"
    by (rule quoteE) (simp add: demo_request recommend_safe)
  with x show ?thesis by blast
qed

lemma recommendation_rests_on_grid_witness:
  "\<exists>v. run_in_force (demo_accounts []) demo_trade = Some v \<and> vn_decision v = ACCEPT"
proof -
  have "\<forall>v \<in> set (t_validation_runs (demo_accounts [])). vn_status v = SAFE \<longleftrightarrow> vn_decision v = ACCEPT"
    by (simp add: demo_accounts_tables demo_run_row_def)
  moreover obtain x where "quote_trade (demo_accounts []) 70 (quote DEFAULT_PARAMETERS) = Inr x" "px_recommended_decision x \<noteq> REJECT"
    using demo_quoted by blast
  ultimately show ?thesis
    using recommendation_rests_on_grid by (fastforce simp: get_trade_def demo_trade_on_file)
qed

section \<open>Settlement\<close>

definition demo_settlement_draw :: settlement_fresh where
  "demo_settlement_draw =
     \<lparr>rf_row_id = 93, rf_now = 8, rf_event_id = 94, rf_event_now = 9,
      sf_row_id = 95, sf_now = 10, sf_event_id = 96, sf_event_now = 11\<rparr>"

text \<open>The database's average, on the windows of at most one reading used here.\<close>

definition demo_average :: "decimal list \<Rightarrow> decimal option" where
  "demo_average es = (case es of [] \<Rightarrow> None | e # _ \<Rightarrow> Some e)"

lemma boundary_reading_counts_twice_witness:
  "\<exists>a b x y. telemetry_energy demo_average (demo_accounts []) 5 0 900000000 = Inr a \<and> ae_quantity_kwh a = Some x \<and> val x = 7 / 2
     \<and> telemetry_energy demo_average (demo_accounts []) 5 900000000 1800000000 = Inr b \<and> ae_quantity_kwh b = Some y \<and> val y = 7 / 2"
proof -
  have "val (Dec 35000 (-4)) = 7 / 2" by (simp add: val_Dec4)
  with boundary_reading_counts_twice [OF demo_site_on_file(1) _ _ demo_window_reading demo_reading_fields, of demo_average]
  show ?thesis by fastforce
qed

lemma measured_trade_settles_witness:
  "\<exists>s row. calculate (demo_accounts [demo_breakdown]) 70 (settle DEFAULT_POLICY)
       (breakdown_price (demo_accounts [demo_breakdown])) (telemetry_energy demo_average (demo_accounts [demo_breakdown])) = Inr s
     \<and> val (sm_settled_kwh (row :: settlement_row)) = 7 / 2"
proof -
  let ?db = "demo_accounts [demo_breakdown]"
  have w: "site_window ?db 5 0 900000000 True = [demo_boundary_reading]"
    by (rule subwindow [OF demo_window_reading demo_reading_fields(1)]) simp_all
  obtain act q where e: "telemetry_energy demo_average ?db 5 0 900000000 = Inr act" "ae_quantity_kwh act = Some q" "val q = val (Dec 35000 (-4))"
    using single_bucket [OF w demo_reading_fields(1) _ _ demo_reading_fields(2) demo_site_on_file(1), of demo_average]
    by (auto simp: date_bin_def)
  have b: "get_breakdown ?db 70 = Inr demo_breakdown"
    by (simp add: get_breakdown_def latest_breakdown_def demo_accounts_tables head_row_def demo_breakdown_def)
  have us: "known us_id (t_users ?db) 1" "known us_id (t_users ?db) 2" by (simp_all add: known_def demo_accounts_tables)
  have t: "td_buy_order_id demo_trade = 21" "td_sell_order_id demo_trade = 22" "td_delivery_start demo_trade = 0"
    "td_delivery_end demo_trade = 900000000" "td_quantity_kwh demo_trade = Dec 40000 (-4)" by (simp_all add: demo_trade_def)
  have o1: "od_user_id (demo_row i side u en pr) = u" "od_site_id (demo_row i side u en pr) = 5" for i side u en pr
    by (simp_all add: demo_row_def)
  have "\<exists>s rec row. calculate ?db 70 (settle DEFAULT_POLICY) (breakdown_price ?db) (telemetry_energy demo_average ?db) = Inr s
      \<and> val (sm_settled_kwh (row :: settlement_row)) = min (val (td_quantity_kwh demo_trade)) (round_half_up 4 (val q))"
  proof -
    note m = measured_trade_settles [where p = DEFAULT_POLICY and db = ?db and i = 70 and t = demo_trade
        and buy = "demo_row 21 BUY 1 (Dec 50000 (-4)) (Dec 65000 (-4))" and sell = "demo_row 22 SELL 2 (Dec 40000 (-4)) (Dec 52500 (-4))"
        and b = demo_breakdown and avg = demo_average and act = act and q = q and f = demo_settlement_draw and given = None]
    have "sp_policy_version DEFAULT_POLICY \<noteq> []" "stored_energy (td_quantity_kwh demo_trade)" "0 < td_quantity_kwh demo_trade"
      "val (td_quantity_kwh demo_trade) \<le> 10 ^ 5" "stored_price (bd_final_price demo_breakdown)"
      "val (bd_final_price demo_breakdown) \<le> 10 ^ 5" "0 \<le> val q" "val q \<le> 10 ^ 9"
      "\<not> known rc_id (t_reconciliations ?db) (rf_row_id demo_settlement_draw)"
      "\<not> known sm_id (t_settlements ?db) (sf_row_id demo_settlement_draw)"
      by (simp_all add: DEFAULT_POLICY_def t e(3) val_Dec4 val_simps demo_breakdown_def known_def demo_accounts_tables)
    with m default_policy_ok demo_trade_on_file demo_orders_on_file us b e(1,2) show ?thesis
      unfolding t o1 by metis
  qed
  then show ?thesis by (simp add: t e(3) demo_round) (auto simp: val_Dec4)
qed

text \<open>A site whose meter sent nothing: the delivery is not known.\<close>

definition demo_unread :: energy_resolver where
  "demo_unread site start stop =
     Inr \<lparr>ae_window_start = start, ae_window_end = stop, ae_quantity_kwh = None, ae_reading_count = 0, ae_source = ''telemetry''\<rparr>"

definition demo_price :: price_resolver where
  "demo_price i = Inr \<lparr>ep_price = Dec 58750 (-4), ep_source_id = None, ep_formula_version = None\<rparr>"

lemma demo_unread_settles:
  "case settle DEFAULT_POLICY
     \<lparr>sr_trade_id = 70, sr_buyer_user_id = 1, sr_seller_user_id = 2, sr_committed_kwh = Dec 40000 (-4),
      sr_effective_price = \<lparr>ep_price = Dec 58750 (-4), ep_source_id = None, ep_formula_version = None\<rparr>,
      sr_delivery_start = 0, sr_delivery_end = 900000000,
      sr_actual = \<lparr>ae_window_start = 0, ae_window_end = 900000000, ae_quantity_kwh = None, ae_reading_count = 0,
        ae_source = ''telemetry''\<rparr>,
      sr_forecast_kwh = None, sr_forecast_basis_id = None, sr_grid_validation_id = None\<rparr> of
     Inl _ \<Rightarrow> False
   | Inr s \<Rightarrow> st_reconciliation s =
         \<lparr>ro_committed_kwh = Dec 40000 (-4), ro_actual_kwh = None, ro_deviation_kwh = None, ro_deviation_pct = None,
          ro_within_tolerance = False, ro_balancing_kwh = 0, ro_settled_kwh = None, ro_status = AWAITING_TELEMETRY,
          ro_policy_version = ''1.0.0''\<rparr>
       \<and> st_forecast_basis_id s = None"
  by code_simp

lemma demo_unmeasured:
  "\<exists>s. calculate (demo_accounts bs) 70 (settle DEFAULT_POLICY) demo_price demo_unread = Inr s
     \<and> st_reconciliation s =
         \<lparr>ro_committed_kwh = Dec 40000 (-4), ro_actual_kwh = None, ro_deviation_kwh = None, ro_deviation_pct = None,
          ro_within_tolerance = False, ro_balancing_kwh = 0, ro_settled_kwh = None, ro_status = AWAITING_TELEMETRY,
          ro_policy_version = ''1.0.0''\<rparr>
     \<and> st_forecast_basis_id s = None"
proof -
  have t: "td_buy_order_id demo_trade = 21" "td_sell_order_id demo_trade = 22" by (simp_all add: demo_trade_def)
  have "calculate (demo_accounts bs) 70 (settle DEFAULT_POLICY) demo_price demo_unread = (case settle DEFAULT_POLICY
     \<lparr>sr_trade_id = 70, sr_buyer_user_id = 1, sr_seller_user_id = 2, sr_committed_kwh = Dec 40000 (-4),
      sr_effective_price = \<lparr>ep_price = Dec 58750 (-4), ep_source_id = None, ep_formula_version = None\<rparr>,
      sr_delivery_start = 0, sr_delivery_end = 900000000,
      sr_actual = \<lparr>ae_window_start = 0, ae_window_end = 900000000, ae_quantity_kwh = None, ae_reading_count = 0,
        ae_source = ''telemetry''\<rparr>,
      sr_forecast_kwh = None, sr_forecast_basis_id = None, sr_grid_validation_id = None\<rparr> of
      Inl _ \<Rightarrow> Inl SettlementError | Inr s \<Rightarrow> Inr s)"
    by (simp add: calculate_def get_trade_def demo_trade_on_file build_settlement_request_def t demo_orders_on_file
        demo_price_def demo_unread_def)
       (simp add: demo_trade_def demo_row_def forecast_quantity_def)
  with demo_unread_settles show ?thesis by (auto split: sum.splits)
qed

lemma demo_refusal_recorded:
  assumes "st_reconciliation s =
         \<lparr>ro_committed_kwh = Dec 40000 (-4), ro_actual_kwh = None, ro_deviation_kwh = None, ro_deviation_pct = None,
          ro_within_tolerance = False, ro_balancing_kwh = 0, ro_settled_kwh = None, ro_status = AWAITING_TELEMETRY,
          ro_policy_version = ''1.0.0''\<rparr>" "st_forecast_basis_id s = None"
  shows "\<exists>db'. record_reconciliation 70 s demo_settlement_draw (demo_accounts []) = Inr db'"
proof -
  let ?r = "reconciliation_of 70 s demo_settlement_draw" and ?db = "demo_accounts []"
  have r: "?r = \<lparr>rc_id = 93, rc_trade_id = 70, rc_committed_kwh = Dec 40000 (-4), rc_actual_kwh = None, rc_deviation_kwh = None,
      rc_within_tolerance = False, rc_balancing_kwh = 0, rc_status = AWAITING_TELEMETRY, rc_created_at = 8\<rparr>"
    by (simp add: reconciliation_of_def assms demo_settlement_draw_def Let_def)
  obtain c where c: "numeric 14 4 (Dec 40000 (-4)) = Inr c" "val c = 4"
    using numeric_within [of 4 "Dec 40000 (-4)" 4 14] grid_of_int [of 4 40000] by (auto simp: val_Dec4)
  obtain z where z: "numeric 14 4 0 = Inr z" "val z = 0"
    using numeric_within [of 4 0 0 14] by auto
  obtain row where row: "stored_reconciliation ?r = Inr row" "list_all fst (reconciliation_checks ?db row)"
    using c z by (auto simp: stored_reconciliation_def nullable_def r reconciliation_checks_def not_negative_check_def val_simps
        demo_accounts_tables known_def demo_trade_def)
  have d: "rf_event_id demo_settlement_draw = 94" "rf_event_now demo_settlement_draw = 9"
    by (simp_all add: demo_settlement_draw_def)
  let ?ev = "reconciliation_event ?r s demo_settlement_draw"
  have "\<exists>a. record_event ?ev (?db\<lparr>t_reconciliations := [row]\<rparr>) = Inr (?db\<lparr>t_reconciliations := [row], t_audit := [a]\<rparr>)"
    using first_event_recorded [of "?db\<lparr>t_reconciliations := [row]\<rparr>" ?ev]
    by (simp add: demo_accounts_tables r d assms reconciliation_event_def trade_reconciled_def build_event_def datetime_ok_def
        py_dict_def optional_def)
  with row show ?thesis
    by (auto simp: record_reconciliation_def insert_reconciliation_def checks_pass demo_accounts_tables Let_def simp del: all_checks_eq)
qed

lemma settling_leaves_evidence_witness:
  "\<exists>db'. settle_trade (demo_accounts []) 70 (settle DEFAULT_POLICY) demo_price demo_unread None demo_settlement_draw
         = (db', Inl NotReconcilableError)
     \<and> (\<exists>r. evidence_added (demo_accounts []) r 1 db' \<and> rc_status r = AWAITING_TELEMETRY)"
proof -
  from demo_unmeasured [of "[]"] obtain s where s: "calculate (demo_accounts []) 70 (settle DEFAULT_POLICY) demo_price demo_unread = Inr s"
    "st_reconciliation s =
         \<lparr>ro_committed_kwh = Dec 40000 (-4), ro_actual_kwh = None, ro_deviation_kwh = None, ro_deviation_pct = None,
          ro_within_tolerance = False, ro_balancing_kwh = 0, ro_settled_kwh = None, ro_status = AWAITING_TELEMETRY,
          ro_policy_version = ''1.0.0''\<rparr>" "st_forecast_basis_id s = None"
    by blast
  from demo_refusal_recorded [OF s(2,3)] obtain db' where
    db': "record_reconciliation 70 s demo_settlement_draw (demo_accounts []) = Inr db'" ..
  have "settle_trade (demo_accounts []) 70 (settle DEFAULT_POLICY) demo_price demo_unread None demo_settlement_draw
      = (db', Inl NotReconcilableError)"
    by (simp add: settle_trade_def s(1) db') (simp add: s(2) ro_is_complete_def reconciliation_is_complete_def)
  with settling_leaves_evidence [OF this] s(1) show ?thesis by auto
qed

lemma records_stay_sound_witness:
  "\<exists>db'. price_trade (demo_accounts []) 70 (quote DEFAULT_PARAMETERS) None demo_pricing_draw = Inr db'
     \<and> records_ok (fst db')"
proof -
  from demo_priced obtain db' row ns where
    p: "price_trade (demo_accounts []) 70 (quote DEFAULT_PARAMETERS) None demo_pricing_draw = Inr (db', row, ns)" by blast
  have "records_ok (demo_accounts [])" by (simp add: records_ok_def demo_accounts_tables demo_run_row_def)
  from priced [OF p] have "(account_step DEFAULT_POLICY)\<^sup>*\<^sup>* (demo_accounts []) db'" by (rule r_into_rtranclp)
  from records_stay_sound [OF this] \<open>records_ok (demo_accounts [])\<close> p show ?thesis by simp
qed

end
