(* ===== verification/Doubles.thy ===== *)
theory Doubles
  imports Durations
begin

text \<open>
  Binary floating point as Python uses it between decimals: a double is the decimal it is exactly
  equal to, every operation is the exact one rounded to 53 significant bits with ties to even, and
  \<open>str\<close> of a double is the shortest text that reads back as the same double. The exponent is not
  bounded: the quantities of the program are far from overflow and underflow.
\<close>

section \<open>Operations\<close>

text \<open>\<open>float(x)\<close> of a decimal\<close>

definition to_double :: "decimal \<Rightarrow> decimal" where
  "to_double x =
     (let q = float_quotient (\<bar>coeff x\<bar> * 10 ^ nat (dexp x)) (10 ^ nat (- dexp x))
      in Dec (sgn (coeff x) * coeff q) (dexp q))"

definition float_add :: "decimal \<Rightarrow> decimal \<Rightarrow> decimal" where
  "float_add x y = (let e = min (dexp x) (dexp y) in to_double (Dec (aligned x e + aligned y e) e))"

definition float_mult :: "decimal \<Rightarrow> decimal \<Rightarrow> decimal" where
  "float_mult x y = to_double (Dec (coeff x * coeff y) (dexp x + dexp y))"

definition float_div :: "decimal \<Rightarrow> decimal \<Rightarrow> decimal result" where
  "float_div x y =
     (if coeff y = 0 then Inl DivisionByZero
      else let e = dexp x - dexp y;
               q = float_quotient (\<bar>coeff x\<bar> * 10 ^ nat e) (\<bar>coeff y\<bar> * 10 ^ nat (- e))
           in Inr (Dec (sgn (coeff x) * sgn (coeff y) * coeff q) (dexp q)))"

text \<open>
  \<open>math.sqrt\<close> of a double that is not negative. The integer root is taken with more than 53 bits
  and a last bit that says whether anything is left, so that one rounding is enough.
\<close>

function isqrt :: "int \<Rightarrow> int" where
  "isqrt n = (if n < 1 then 0 else let r = 2 * isqrt (n div 4) in if (r + 1) * (r + 1) \<le> n then r + 1 else r)"
  by pat_completeness auto
termination
  by (relation "measure nat") auto

declare isqrt.simps [simp del]

definition float_sqrt :: "decimal \<Rightarrow> decimal" where
  "float_sqrt x =
     (let n = coeff x * 10 ^ nat (dexp x); d = 10 ^ nat (- dexp x); s = 55 + blen d;
          m = isqrt (n * 4 ^ s div d)
      in float_quotient (2 * m + (if m * m * d = n * 4 ^ s then 0 else 1)) (2 ^ Suc s))"

text \<open>\<open>round(x, p)\<close> of a double\<close>

definition quantized_even :: "nat \<Rightarrow> decimal \<Rightarrow> int" where
  "quantized_even p x =
     (if - int p \<le> dexp x then coeff x * 10 ^ nat (dexp x + int p)
      else sgn (coeff x) * half_even \<bar>coeff x\<bar> (10 ^ nat (- int p - dexp x)))"

definition float_round :: "nat \<Rightarrow> decimal \<Rightarrow> decimal" where
  "float_round p x = to_double (Dec (quantized_even p x) (- int p))"

text \<open>\<open>x.quantize(Decimal("0.001"))\<close> of a decimal, ties to even\<close>

definition milli :: "decimal \<Rightarrow> decimal result" where
  "milli x =
     (let c = quantized_even 3 x
      in if dlen \<bar>c\<bar> \<le> PREC then Inr (Dec c (- 3)) else Inl InvalidOperation)"

section \<open>The shortest text\<close>

text \<open>
  The decimals of \<open>k\<close> digits next to a positive double, the nearer one first, of which the first
  that reads back as the double is taken; 17 digits always suffice.
\<close>

definition neighbours :: "nat \<Rightarrow> decimal \<Rightarrow> decimal list" where
  "neighbours k x =
     (let l = dlen (coeff x)
      in if l \<le> k then [x]
         else let unit = 10 ^ (l - k); e = dexp x + int (l - k); lo = coeff x div unit;
                  near = half_even (coeff x) unit
              in [Dec near e, Dec (if near = lo then lo + 1 else lo) e])"

text \<open>From \<open>k\<close> digits on, with \<open>n\<close> lengths left to try.\<close>

fun shortest_from :: "nat \<Rightarrow> nat \<Rightarrow> decimal \<Rightarrow> decimal" where
  "shortest_from 0 k x = x"
| "shortest_from (Suc n) k x =
     (case List.find (\<lambda>d. deq (to_double d) x) (neighbours k x) of
        None \<Rightarrow> shortest_from n (Suc k) x | Some d \<Rightarrow> d)"

definition shortest :: "decimal \<Rightarrow> decimal" where
  "shortest x = shortest_from 17 1 x"

fun drop_zeros :: "nat \<Rightarrow> decimal \<Rightarrow> decimal" where
  "drop_zeros 0 d = d"
| "drop_zeros (Suc k) d = (if coeff d mod 10 = 0 then drop_zeros k (Dec (coeff d div 10) (dexp d + 1)) else d)"

text \<open>
  \<open>Decimal(str(x))\<close> of a double: a whole number below ten to the sixteenth is written with a
  fraction of one zero.
\<close>

definition decimal_of_float :: "decimal \<Rightarrow> decimal" where
  "decimal_of_float x =
     (if coeff x = 0 then Dec 0 (-1)
      else let d = shortest (Dec \<bar>coeff x\<bar> (dexp x)); r = drop_zeros (dlen (coeff d)) d;
               t = (if 0 \<le> dexp r \<and> int (dlen (coeff r)) + dexp r \<le> 16
                    then Dec (coeff r * 10 ^ nat (dexp r + 1)) (-1) else r)
           in Dec (sgn (coeff x) * coeff t) (dexp t))"

text \<open>What the interpreter computes and prints for the same expressions.\<close>

lemma double_examples:
  "float_sqrt (Dec 2 0) = Dec 14142135623730951454746218587388284504413604736328125 (-52)"
  "float_div (Dec 2 0) (Dec 3 0) = Inr (Dec 66666666666666662965923251249478198587894439697265625 (-53))"
  "float_add (to_double (Dec 1 (-1))) (to_double (Dec 2 (-1))) = Dec 3000000000000000444089209850062616169452667236328125 (-52)"
  by code_simp+

lemma text_examples:
  "decimal_of_float (to_double (Dec 1 (-1))) = Dec 1 (-1)"
  "decimal_of_float (Dec (-3) 0) = Dec (-30) (-1)"
  "decimal_of_float (to_double (Dec 1 22)) = Dec 1 22"
  "float_round 3 (to_double (Dec 26675 (-4))) = to_double (Dec 2667 (-3))"
  by code_simp+

end
