(* ===== verification/Baseline_Forecast.thy ===== *)
theory Baseline_Forecast
  imports Doubles Canonical_Text Forecasting
begin

text \<open>
  The baseline forecast provider (\<open>adapters/forecast/baseline.py\<close>): every interval of the horizon is
  predicted as the mean of what the site did at the same time of day in its history, with the sample
  deviation as its bounds and a heuristic confidence computed in floating point. The loop over the
  horizon does not end for an interval of no length, so it is a partial function; a step past the years
  1 to 9999 raises.
\<close>

record baseline_config =
  bc_name :: string
  bc_model_version :: string
  bc_reference_days :: int
  bc_min_required_samples :: int
  bc_pv_capacity_kw :: "decimal option"

text \<open>The constructor clamps what it is given.\<close>

definition baseline_init :: "string \<Rightarrow> string \<Rightarrow> int \<Rightarrow> int \<Rightarrow> decimal option \<Rightarrow> baseline_config" where
  "baseline_init name version days samples capacity =
     \<lparr>bc_name = name, bc_model_version = version, bc_reference_days = max 1 days,
      bc_min_required_samples = max 0 samples, bc_pv_capacity_kw = capacity\<rparr>"

definition baseline_supports :: "forecast_type \<Rightarrow> bool" where
  "baseline_supports t \<longleftrightarrow> t \<in> {SOLAR, LOAD}"

fun channel_of :: "historical_observation \<Rightarrow> forecast_type \<Rightarrow> decimal option" where
  "channel_of ob SOLAR = ho_generation_kw ob"
| "channel_of ob LOAD = ho_load_kw ob"
| "channel_of ob SURPLUS =
     (case (ho_generation_kw ob, ho_load_kw ob) of
        (Some g, Some l) \<Rightarrow> Some (pymax 0 (g - l)) | _ \<Rightarrow> None)"

text \<open>\<open>(moment.hour, moment.minute)\<close> in UTC\<close>

definition time_of_day :: "datetime \<Rightarrow> int \<times> int" where
  "time_of_day us = (us div 3600000000 mod 24, us div 60000000 mod 60)"

definition group_sample ::
  "forecast_type \<Rightarrow> historical_observation \<Rightarrow> (int \<times> int \<Rightarrow> decimal list) \<Rightarrow> int \<times> int \<Rightarrow> decimal list" where
  "group_sample t ob grouped =
     (case channel_of ob t of
        None \<Rightarrow> grouped
      | Some v \<Rightarrow>
          (let k = time_of_day (ho_interval_start ob) in grouped(k := grouped k @ [v])))"

definition group_by_time_of_day :: "forecast_request \<Rightarrow> int \<times> int \<Rightarrow> decimal list" where
  "group_by_time_of_day r = fold (group_sample (fq_forecast_type r)) (fq_history r) (\<lambda>_. [])"

text \<open>\<open>sum(len(v) for v in samples.values())\<close>: every value grouped is in one bucket.\<close>

definition usable_samples :: "forecast_request \<Rightarrow> int" where
  "usable_samples r = int (length (filter (\<lambda>ob. channel_of ob (fq_forecast_type r) \<noteq> None) (fq_history r)))"

section \<open>One interval\<close>

definition cap :: "decimal option \<Rightarrow> decimal \<Rightarrow> decimal" where
  "cap capacity v = (case capacity of None \<Rightarrow> v | Some c \<Rightarrow> pymin v c)"

text \<open>
  \<open>x ** 2\<close>: the product to 31 digits, then to 28, as \<open>libmpdec\<close> rounds an integer power.
\<close>

definition square :: "decimal \<Rightarrow> decimal" where
  "square x =
     (let c = coeff x * coeff x; e = 2 * dexp x; l = dlen c
      in if l \<le> 31 then fix28 (Dec c e)
         else fix28 (Dec (half_even c (10 ^ (l - 31))) (e + int (l - 31))))"

definition sample_mean :: "decimal option \<Rightarrow> decimal list \<Rightarrow> decimal result" where
  "sample_mean capacity samples =
     bindE (ddiv (dsum samples) (Dec (int (length samples)) 0)) (\<lambda>m. Inr (cap capacity (pymax 0 m)))"

definition sample_deviation :: "decimal \<Rightarrow> decimal list \<Rightarrow> decimal result" where
  "sample_deviation mean samples =
     (if length samples \<le> 1 then Inr 0
      else bindE (ddiv (dsum (map (\<lambda>s. square (s - mean)) samples)) (Dec (int (length samples) - 1) 0))
             (\<lambda>variance. Inr (decimal_of_float (float_sqrt (to_double variance)))))"

definition stability :: "decimal \<Rightarrow> decimal \<Rightarrow> decimal result" where
  "stability mean deviation =
     bindE (float_div (to_double deviation) (float_add (to_double mean) (Dec 1 0))) (\<lambda>q.
     float_div (Dec 1 0) (float_add (Dec 1 0) q))"

definition sample_confidence :: "int \<Rightarrow> int \<Rightarrow> decimal \<Rightarrow> decimal \<Rightarrow> decimal result" where
  "sample_confidence n days mean deviation =
     bindE (float_div (Dec n 0) (Dec days 0)) (\<lambda>q.
     bindE (stability mean deviation) (\<lambda>steady.
     let confidence = decimal_of_float (float_round 3 (float_mult (pymin (Dec 1 0) q) steady))
     in Inr (pymax (Dec 5 (-2)) (pymin (Dec 10 (-1)) confidence))))"

definition unobserved_point :: "datetime \<Rightarrow> datetime \<Rightarrow> predicted_point" where
  "unobserved_point start stop =
     \<lparr>pp_interval_start = start, pp_interval_end = stop, pp_predicted_kw = Some 0, pp_predicted_kwh = Some 0,
      pp_confidence = Some 0, pp_lower_bound = Some 0, pp_upper_bound = Some 0\<rparr>"

definition observed_point ::
  "baseline_config \<Rightarrow> datetime \<Rightarrow> datetime \<Rightarrow> decimal list \<Rightarrow> decimal \<Rightarrow> predicted_point result" where
  "observed_point cfg start stop samples hours =
     bindE (sample_mean (bc_pv_capacity_kw cfg) samples) (\<lambda>mean.
     bindE (sample_deviation mean samples) (\<lambda>deviation.
     bindE (milli (pymax 0 (mean - deviation))) (\<lambda>lower.
     bindE (milli (cap (bc_pv_capacity_kw cfg) (mean + deviation))) (\<lambda>upper.
     bindE (sample_confidence (int (length samples)) (bc_reference_days cfg) mean deviation) (\<lambda>confidence.
     bindE (milli mean) (\<lambda>kw.
     bindE (milli (kw * hours)) (\<lambda>kwh.
     Inr \<lparr>pp_interval_start = start, pp_interval_end = stop, pp_predicted_kw = Some kw, pp_predicted_kwh = Some kwh,
          pp_confidence = Some confidence, pp_lower_bound = Some lower, pp_upper_bound = Some upper\<rparr>)))))))"

definition point_for ::
  "baseline_config \<Rightarrow> datetime \<Rightarrow> datetime \<Rightarrow> decimal list \<Rightarrow> decimal \<Rightarrow> predicted_point result" where
  "point_for cfg start stop samples hours =
     (if samples = [] then Inr (unobserved_point start stop) else observed_point cfg start stop samples hours)"

text \<open>\<open>Decimal(str((end - start).total_seconds())) / Decimal(3600)\<close>\<close>

definition hours_between :: "datetime \<Rightarrow> datetime \<Rightarrow> decimal result" where
  "hours_between start stop = ddiv (decimal_of_float (total_seconds (stop - start))) (Dec 3600 0)"

definition interval_point ::
  "baseline_config \<Rightarrow> (int \<times> int \<Rightarrow> decimal list) \<Rightarrow> datetime \<Rightarrow> datetime \<Rightarrow> predicted_point result" where
  "interval_point cfg grouped start stop =
     bindE (hours_between start stop) (point_for cfg start stop (grouped (time_of_day start)))"

section \<open>The horizon\<close>

partial_function (option) horizon_points ::
  "(datetime \<Rightarrow> datetime \<Rightarrow> predicted_point result) \<Rightarrow> datetime \<Rightarrow> datetime \<Rightarrow> timedelta
   \<Rightarrow> predicted_point list result option" where
  [code]: "horizon_points body start stop interval =
     (if \<not> start < stop then Some (Inr [])
      else case datetime_plus start interval of
             Inl e \<Rightarrow> Some (Inl e)
           | Inr later \<Rightarrow>
               let next = min later stop
               in case body start next of
                    Inl e \<Rightarrow> Some (Inl e)
                  | Inr p \<Rightarrow>
                      Option.bind (horizon_points body next stop interval)
                        (\<lambda>rest. Some (bindE rest (\<lambda>ps. Inr (p # ps)))))"

definition baseline_predict :: "baseline_config \<Rightarrow> forecast_request \<Rightarrow> forecast_result result option" where
  "baseline_predict cfg r =
     (if usable_samples r < bc_min_required_samples cfg then Some (Inl PyValueError)
      else Option.bind
             (horizon_points (interval_point cfg (group_by_time_of_day r)) (fq_horizon_start r) (fq_horizon_end r) (fq_interval r))
             (\<lambda>points. Some (bindE points (\<lambda>ps.
                Inr \<lparr>fz_forecast_type = fq_forecast_type r, fz_provider = bc_name cfg,
                     fz_model_version = bc_model_version cfg, fz_generated_at = fq_horizon_start r, fz_points = ps\<rparr>))))"

text \<open>
  The provider as the forecasting service calls it, which it only does with a positive interval, for
  which the call returns; a call with an interval of no length has the value \<open>PyValueError\<close> here.
\<close>

definition baseline_provider :: "nat \<Rightarrow> baseline_config \<Rightarrow> provider" where
  "baseline_provider obj cfg =
     \<lparr>pv_object = obj, pv_name = bc_name cfg, pv_model_version = bc_model_version cfg,
      pv_supports = baseline_supports,
      pv_predict = (\<lambda>r. case baseline_predict cfg r of None \<Rightarrow> Inl PyValueError | Some x \<Rightarrow> x)\<rparr>"

end
