(* ===== verification/Double_Laws.thy ===== *)
theory Double_Laws
  imports Doubles
begin

text \<open>
  What the forecast needs of doubles: a double and its text are not negative and not larger than
  twice the number, a power of two bounds what it bounded before rounding.
\<close>

section \<open>Division\<close>

lemma half_even_nonneg: "0 \<le> n \<Longrightarrow> 0 < d \<Longrightarrow> 0 \<le> half_even n d"
  by (rule half_even_ge) simp_all

lemma float_quotient_nonneg:
  assumes "0 \<le> n" "0 < d"
  shows "0 \<le> val (float_quotient n d)"
  using assms float_quotient_pos [of n d] by (cases "n = 0") (simp_all add: float_quotient_def val_def)

lemma pow_blen_le: "0 < n \<Longrightarrow> 2 ^ (blen n - 1) \<le> n"
  using blen_le_iff [of "blen n - 1" n] blen_pos [of n] by (cases "blen n = 1") (auto simp: not_less)

text \<open>Where the quotient is below a power of two, so is the double.\<close>

lemma float_scale_bound:
  assumes "0 < n" "0 < d" "n \<le> d * 2 ^ j"
  shows "0 \<le> int j + float_scale n d"
proof -
  have "2 ^ (blen n - 1) \<le> n" by (rule pow_blen_le [OF assms(1)])
  also have "\<dots> \<le> d * 2 ^ j" by (rule assms(3))
  also have "\<dots> < 2 ^ blen d * 2 ^ j" using less_pow_blen [of d] by simp
  finally have "(2::int) ^ (blen n - 1) < 2 ^ (blen d + j)" by (simp add: power_add)
  then have "blen n - 1 < blen d + j" by (simp only: power_strict_increasing_iff)
  then have "52 \<le> int j + (53 + int (blen d) - int (blen n))" using blen_pos [of n] by linarith
  then show ?thesis unfolding float_scale_def Let_def by (simp split: if_split)
qed

lemma float_quotient_le_pow:
  assumes n: "0 \<le> n" and d: "0 < d" and le: "n \<le> d * 2 ^ j"
  shows "val (float_quotient n d) \<le> 2 ^ j"
proof (cases "n = 0")
  case True
  then show ?thesis by (simp add: float_quotient_def val_def)
next
  case False
  define s where "s = float_scale n d"
  have s: "0 \<le> int j + s" using float_scale_bound False assms by (simp add: s_def)
  show ?thesis
  proof (cases "s \<le> 0")
    case True
    define k where "k = j - nat (- s)"
    have j: "j = k + nat (- s)" using s True by (simp add: k_def)
    have "n * 2 ^ nat s \<le> 2 ^ k * (d * 2 ^ nat (- s))"
      using le True by (simp add: j power_add ac_simps)
    then have "half_even (n * 2 ^ nat s) (d * 2 ^ nat (- s)) \<le> 2 ^ k" using d by (intro half_even_le) simp_all
    then have "half_even (n * 2 ^ nat s) (d * 2 ^ nat (- s)) * 2 ^ nat (- s) \<le> 2 ^ k * 2 ^ nat (- s)" by simp
    then have "(of_int (half_even (n * 2 ^ nat s) (d * 2 ^ nat (- s)) * 2 ^ nat (- s)) :: rat) \<le> of_int (2 ^ j)"
      unfolding of_int_le_iff by (simp add: j power_add)
    with False True show ?thesis
      unfolding float_quotient_def Let_def s_def [symmetric] by (simp add: val_def)
  next
    case pos: False
    have "n * 2 ^ nat s \<le> 2 ^ (j + nat s) * (d * 2 ^ nat (- s))"
      using le pos by (simp add: power_add ac_simps)
    then have "half_even (n * 2 ^ nat s) (d * 2 ^ nat (- s)) \<le> 2 ^ (j + nat s)" using d by (intro half_even_le) simp_all
    then have "(of_int (half_even (n * 2 ^ nat s) (d * 2 ^ nat (- s))) :: rat) \<le> of_int (2 ^ (j + nat s))"
      by (simp only: of_int_le_iff)
    then have "of_int (half_even (n * 2 ^ nat s) (d * 2 ^ nat (- s))) / 2 ^ nat s \<le> (2 ^ j :: rat)"
      by (simp add: power_add divide_le_eq)
    with False pos show ?thesis
      unfolding float_quotient_def Let_def s_def [symmetric] by (simp add: from_binary_val)
  qed
qed

lemma to_double_val: "val (to_double x) = of_int (sgn (coeff x)) * val (float_quotient (\<bar>coeff x\<bar> * 10 ^ nat (dexp x)) (10 ^ nat (- dexp x)))"
  by (simp add: to_double_def Let_def val_def)

lemma val_ratio: "val x * of_int (10 ^ nat (- dexp x)) = of_int (coeff x * 10 ^ nat (dexp x))"
proof (cases "0 \<le> dexp x")
  case True
  then show ?thesis by (simp add: val_def power_int_def)
next
  case False
  then have "(10::rat) powi dexp x * 10 ^ nat (- dexp x) = 1"
    by (simp add: power_int_def power_one_over)
  with False show ?thesis by (simp add: val_def)
qed

lemma val_nonneg_iff: "0 \<le> val x \<longleftrightarrow> 0 \<le> coeff x"
  using powi_pos [of "dexp x"] by (simp add: val_def zero_le_mult_iff not_le [symmetric] del: powi_pos)

lemma to_double_nonneg: "0 \<le> val x \<Longrightarrow> 0 \<le> val (to_double x)"
  unfolding to_double_val val_nonneg_iff
  by (intro mult_nonneg_nonneg float_quotient_nonneg) (simp_all add: sgn_if)

lemma val_pos_iff: "0 < val x \<longleftrightarrow> 0 < coeff x"
  using val_nonneg_iff [of x] val_eq_0_iff [of x] by (auto simp: less_le)

lemma to_double_pos: "0 < val x \<Longrightarrow> 0 < val (to_double x)"
  unfolding to_double_val val_pos_iff [of x]
  by (intro mult_pos_pos float_quotient_pos) simp_all

lemma float_add_pos:
  assumes "0 < val x + val y"
  shows "0 < val (float_add x y)"
proof -
  let ?e = "min (dexp x) (dexp y)"
  have "val (Dec (aligned x ?e + aligned y ?e) ?e) = val x + val y"
    by (simp add: val_def [of "Dec _ _"] aligned_val distrib_right)
  with assms show ?thesis by (simp add: float_add_def Let_def to_double_pos)
qed

lemma float_div_nonneg:
  assumes "0 \<le> val x" "0 < val y"
  obtains z where "float_div x y = Inr z" "0 \<le> val z"
proof -
  have c: "0 \<le> coeff x" "0 < coeff y" using assms by (simp_all add: val_nonneg_iff val_pos_iff)
  define q where "q = float_quotient (\<bar>coeff x\<bar> * 10 ^ nat (dexp x - dexp y)) (\<bar>coeff y\<bar> * 10 ^ nat (- (dexp x - dexp y)))"
  have "0 \<le> val q" unfolding q_def using c by (intro float_quotient_nonneg) simp_all
  then have "0 \<le> coeff q" by (simp add: val_nonneg_iff)
  then have "0 \<le> val (Dec (sgn (coeff x) * sgn (coeff y) * coeff q) (dexp q))" using c by (simp add: val_nonneg_iff sgn_if)
  moreover have "float_div x y = Inr (Dec (sgn (coeff x) * sgn (coeff y) * coeff q) (dexp q))"
    using c(2) by (simp add: float_div_def Let_def q_def)
  ultimately show thesis by (intro that)
qed

lemma to_double_le_pow:
  assumes "0 \<le> val x" "val x \<le> 2 ^ j"
  shows "val (to_double x) \<le> 2 ^ j"
proof -
  have c: "0 \<le> coeff x" using assms(1) by (simp add: val_nonneg_iff)
  have "val x * of_int (10 ^ nat (- dexp x)) \<le> 2 ^ j * of_int (10 ^ nat (- dexp x))"
    using assms(2) by (intro mult_right_mono) simp_all
  then have "(of_int (coeff x * 10 ^ nat (dexp x)) :: rat) \<le> of_int (10 ^ nat (- dexp x) * 2 ^ j)"
    unfolding val_ratio by (simp add: mult.commute)
  then have "coeff x * 10 ^ nat (dexp x) \<le> 10 ^ nat (- dexp x) * 2 ^ j" by (simp only: of_int_le_iff)
  then have "val (float_quotient (\<bar>coeff x\<bar> * 10 ^ nat (dexp x)) (10 ^ nat (- dexp x))) \<le> 2 ^ j"
    using c by (intro float_quotient_le_pow) simp_all
  moreover have "0 \<le> val (float_quotient (\<bar>coeff x\<bar> * 10 ^ nat (dexp x)) (10 ^ nat (- dexp x)))"
    by (intro float_quotient_nonneg) simp_all
  ultimately show ?thesis using c by (simp add: to_double_val sgn_if)
qed

section \<open>Roots\<close>

lemma isqrt_bounds: "0 \<le> isqrt n \<and> (0 \<le> n \<longrightarrow> isqrt n * isqrt n \<le> n \<and> n < (isqrt n + 1) * (isqrt n + 1))"
proof (induction n rule: isqrt.induct)
  case (1 n)
  show ?case
  proof (cases "n < 1")
    case True
    then show ?thesis by (subst (1 2 3 4 5) isqrt.simps) simp
  next
    case False
    define r where "r = isqrt (n div 4)"
    have r: "0 \<le> r" "r * r \<le> n div 4" "n div 4 < (r + 1) * (r + 1)" using "1.IH" [OF False] False by (simp_all add: r_def)
    have n: "isqrt n = (if (2 * r + 1) * (2 * r + 1) \<le> n then 2 * r + 1 else 2 * r)"
      using False by (subst isqrt.simps) (simp add: Let_def r_def)
    have "4 * (r * r) \<le> n" using r(2) by linarith
    moreover have "n < 4 * ((r + 1) * (r + 1))" using r(3) by linarith
    ultimately show ?thesis using r(1) unfolding n by (auto simp: algebra_simps)
  qed
qed

lemma float_sqrt_nonneg: "0 \<le> val x \<Longrightarrow> 0 \<le> val (float_sqrt x)"
  unfolding float_sqrt_def Let_def val_nonneg_iff [of x]
  by (rule float_quotient_nonneg) (use isqrt_bounds in \<open>simp_all add: add_nonneg_nonneg\<close>)

lemma float_sqrt_le_pow:
  assumes "0 \<le> val x" "val x \<le> 2 ^ (2 * j)"
  shows "val (float_sqrt x) \<le> 2 ^ j"
proof -
  define n where "n = coeff x * 10 ^ nat (dexp x)"
  define d :: int where "d = 10 ^ nat (- dexp x)"
  define s where "s = 55 + blen d"
  define m where "m = isqrt (n * 4 ^ s div d)"
  have n: "0 \<le> n" and d: "0 < d" using assms(1) by (simp_all add: n_def d_def val_nonneg_iff)
  have four: "(4::int) ^ k = 2 ^ k * 2 ^ k" for k by (simp flip: power_mult_distrib)
  have "val x * of_int d \<le> 2 ^ (2 * j) * of_int d"
    using assms(2) d by (intro mult_right_mono) simp_all
  then have "(of_int n :: rat) \<le> 2 ^ (2 * j) * of_int d" unfolding n_def d_def val_ratio .
  then have "(of_int n :: rat) \<le> of_int (d * 2 ^ (2 * j))" by (simp add: mult.commute)
  then have "n \<le> d * 2 ^ (2 * j)" by (simp only: of_int_le_iff)
  then have "n * 4 ^ s \<le> d * (2 ^ (2 * j) * 4 ^ s)" by simp
  also have "(2::int) ^ (2 * j) * 4 ^ s = 2 ^ (j + s) * 2 ^ (j + s)"
    using four [of j] four [of s] by (simp add: power_add power_mult)
  finally have nd: "n * 4 ^ s \<le> d * (2 ^ (j + s) * 2 ^ (j + s))" by (simp add: mult.assoc)
  have q0: "0 \<le> n * 4 ^ s div d" using n d by (simp add: pos_imp_zdiv_nonneg_iff)
  have "n * 4 ^ s div d \<le> 2 ^ (j + s) * 2 ^ (j + s)"
    using nd d by (metis div_le_mono zdiv_mono1 nonzero_mult_div_cancel_left less_irrefl)
  moreover have m: "0 \<le> m" "m * m \<le> n * 4 ^ s div d" using isqrt_bounds [of "n * 4 ^ s div d"] q0 by (simp_all add: m_def)
  ultimately have mm: "m * m \<le> 2 ^ (j + s) * 2 ^ (j + s)" by linarith
  have mle: "m \<le> 2 ^ (j + s)"
  proof (rule ccontr)
    assume "\<not> m \<le> 2 ^ (j + s)"
    then have lt: "2 ^ (j + s) < m" by simp
    moreover have "(0::int) < 2 ^ (j + s)" by simp
    ultimately have "0 < m" by (rule order.strict_trans [rotated])
    with mult_strict_mono [OF lt lt] have "2 ^ (j + s) * 2 ^ (j + s) < m * m" by simp
    with mm show False by simp
  qed
  have "2 * m + (if m * m * d = n * 4 ^ s then 0 else 1) \<le> 2 ^ Suc s * 2 ^ j"
  proof (cases "m = 2 ^ (j + s)")
    case True
    have "m * m * d \<le> n * 4 ^ s"
      using m(2) d by (metis le_div_int)
    with nd True have "m * m * d = n * 4 ^ s" by (simp add: ac_simps)
    with True show ?thesis by (simp add: power_add ac_simps)
  next
    case False
    with mle have "m + 1 \<le> 2 ^ (j + s)" by linarith
    then show ?thesis by (simp add: power_add ac_simps)
  qed
  moreover have "0 \<le> 2 * m + (if m * m * d = n * 4 ^ s then 0 else 1)" using m(1) by simp
  ultimately have "val (float_quotient (2 * m + (if m * m * d = n * 4 ^ s then 0 else 1)) (2 ^ Suc s)) \<le> 2 ^ j"
    by (intro float_quotient_le_pow) simp_all
  then show ?thesis unfolding float_sqrt_def Let_def n_def d_def s_def m_def .
qed

section \<open>Texts\<close>

lemma neighbours_bound:
  assumes "0 < coeff x" "0 < k" "d \<in> set (neighbours k x)"
  shows "0 < coeff d \<and> val d \<le> 2 * val x"
proof (cases "dlen (coeff x) \<le> k")
  case True
  moreover have "0 \<le> val x" using assms(1) by (simp add: val_nonneg_iff)
  ultimately show ?thesis using assms by (simp add: neighbours_def)
next
  case False
  define l where "l = dlen (coeff x) - k"
  define u :: int where "u = 10 ^ l"
  have u: "0 < u" by (simp add: u_def)
  have "10 ^ l \<le> (10::int) ^ (dlen (coeff x) - 1)" using assms(2) False by (intro power_increasing) (auto simp: l_def)
  also have "\<dots> \<le> coeff x" by (rule pow_dlen_le [OF assms(1)])
  finally have "u \<le> coeff x" by (simp add: u_def)
  then have lo: "1 \<le> coeff x div u" using u by (simp add: le_div_int)
  have near: "coeff x div u \<le> half_even (coeff x) u" "half_even (coeff x) u \<le> coeff x div u + 1"
    by (simp_all add: half_even_def Let_def)
  from assms(3) False have d: "dexp d = dexp x + int l" "coeff d = half_even (coeff x) u \<or> coeff d = coeff x div u + 1 \<or> coeff d = coeff x div u"
    by (auto simp: neighbours_def Let_def l_def u_def split: if_splits)
  then have c: "0 < coeff d" "coeff d \<le> 2 * (coeff x div u)" using lo near by linarith+
  have "coeff d * u \<le> 2 * (coeff x div u) * u" using c(2) u by (intro mult_right_mono) simp_all
  also have "\<dots> \<le> 2 * coeff x" using u by (simp add: mult.assoc) (metis div_mult_mod_eq le_add_same_cancel1 pos_mod_sign)
  finally have "(of_int (coeff d * u) :: rat) \<le> of_int (2 * coeff x)" by (simp only: of_int_le_iff)
  then have "of_int (coeff d) * 10 ^ l * 10 powi dexp x \<le> (2 * of_int (coeff x) * 10 powi dexp x :: rat)"
    by (intro mult_right_mono) (simp_all add: u_def powi_pos [THEN less_imp_le])
  with c(1) show ?thesis by (simp add: val_def d(1) power_int_add mult.assoc)
qed

lemma shortest_bound: "0 < coeff x \<Longrightarrow> 0 < k \<Longrightarrow> 0 < coeff (shortest_from n k x) \<and> val (shortest_from n k x) \<le> 2 * val x"
proof (induction n k x rule: shortest_from.induct)
  case (2 n k x)
  show ?case
  proof (cases "List.find (\<lambda>d. deq (to_double d) x) (neighbours k x)")
    case None
    with 2 show ?thesis by simp
  next
    case (Some d)
    then have "d \<in> set (neighbours k x)" by (auto simp: find_Some_iff)
    with neighbours_bound [OF "2.prems"] Some show ?thesis by simp
  qed
next
  case (1 k x)
  then have "0 \<le> val x" by (simp add: val_nonneg_iff)
  with 1 show ?case by simp
qed

lemma drop_zeros_val: "val (drop_zeros k d) = val d"
proof (induction k d rule: drop_zeros.induct)
  case (2 k d)
  show ?case
  proof (cases "coeff d mod 10 = 0")
    case True
    then have "(of_int (coeff d) :: rat) = of_int (coeff d div 10) * 10"
      by (metis add.right_neutral div_mult_mod_eq of_int_mult of_int_numeral)
    with 2 True show ?thesis by (simp add: val_def power_int_add ac_simps)
  qed simp
qed simp

lemma decimal_of_float_bound:
  assumes "0 \<le> val x"
  shows "0 \<le> val (decimal_of_float x) \<and> val (decimal_of_float x) \<le> 2 * val x"
proof (cases "coeff x = 0")
  case True
  then show ?thesis by (simp add: decimal_of_float_def val_def)
next
  case False
  with assms have c: "0 < coeff x" by (simp add: val_nonneg_iff)
  let ?d = "shortest x"
  let ?r = "drop_zeros (dlen (coeff ?d)) ?d"
  have "val (decimal_of_float x) = val ?r"
    using c by (simp add: decimal_of_float_def Let_def val_def power_int_def nat_add_distrib split: if_split)
  then have "val (decimal_of_float x) = val ?d" by (simp add: drop_zeros_val)
  with shortest_bound [OF c, of 1 17] show ?thesis by (auto simp: shortest_def val_nonneg_iff)
qed

end
