(* ===== verification/Baseline_Forecast_Props.thy ===== *)
theory Baseline_Forecast_Props
  imports Baseline_Forecast Double_Laws Forecasting_Props
begin

section \<open>Rounding to a thousandth\<close>

text \<open>Rounding a number that is not negative to the nearest integer, ties to even.\<close>

definition rhe :: "rat \<Rightarrow> int" where
  "rhe r = (let q = \<lfloor>r\<rfloor>; f = r - of_int q in if f < 1 / 2 then q else if 1 / 2 < f then q + 1 else if even q then q else q + 1)"

lemma rhe_of_int [simp]: "rhe (of_int n) = n"
  by (simp add: rhe_def)

lemma rhe_error: "\<bar>of_int (rhe r) - r\<bar> \<le> 1 / 2"
proof -
  have "of_int \<lfloor>r\<rfloor> \<le> r" "r < of_int \<lfloor>r\<rfloor> + 1" using floor_correct [of r] by simp_all
  then show ?thesis unfolding rhe_def Let_def by (auto simp: abs_le_iff)
qed

lemma rhe_mono:
  assumes "r \<le> s"
  shows "rhe r \<le> rhe s"
proof (rule ccontr)
  assume "\<not> rhe r \<le> rhe s"
  then have "rhe s + 1 \<le> rhe r" by simp
  then have "(of_int (rhe s + 1) :: rat) \<le> of_int (rhe r)" by (simp only: of_int_le_iff)
  with rhe_error [of r] rhe_error [of s] assms have "s = r" by (auto simp: abs_le_iff)
  with \<open>rhe s + 1 \<le> rhe r\<close> show False by simp
qed

lemma half_even_rhe:
  assumes "0 < d"
  shows "half_even n d = rhe (of_int n / of_int d)"
proof -
  have q: "\<lfloor>of_int n / of_int d :: rat\<rfloor> = n div d" by (rule floor_divide_of_int_eq)
  have "(of_int n :: rat) = of_int (n div d) * of_int d + of_int (n mod d)"
    by (metis div_mult_mod_eq of_int_add of_int_mult)
  then have f: "of_int n / of_int d - of_int (n div d) = (of_int (n mod d) / of_int d :: rat)"
    using assms by (simp add: field_simps)
  have "(of_int (n mod d) / of_int d < (1 / 2 :: rat)) \<longleftrightarrow> (of_int (2 * (n mod d)) :: rat) < of_int d"
    using assms by (simp add: field_simps)
  moreover have "((1 / 2 :: rat) < of_int (n mod d) / of_int d) \<longleftrightarrow> (of_int d :: rat) < of_int (2 * (n mod d))"
    using assms by (simp add: field_simps)
  ultimately show ?thesis
    unfolding rhe_def half_even_def Let_def q f of_int_less_iff by simp
qed

lemma quantized_even_rhe:
  assumes "0 \<le> val x"
  shows "quantized_even p x = rhe (val x * 10 ^ p)"
proof (cases "- int p \<le> dexp x")
  case True
  have "(10::rat) powi dexp x * 10 ^ p = 10 powi (dexp x + int p)" by (simp add: power_int_add)
  also have "\<dots> = 10 ^ nat (dexp x + int p)" using True by (simp add: power_int_def)
  finally have "val x * 10 ^ p = of_int (coeff x * 10 ^ nat (dexp x + int p))" by (simp add: val_def)
  then have "rhe (val x * 10 ^ p) = coeff x * 10 ^ nat (dexp x + int p)" by (simp only: rhe_of_int)
  with True show ?thesis by (simp add: quantized_even_def)
next
  case False
  define k where "k = nat (- int p - dexp x)"
  have e: "dexp x = - int (p + k)" using False by (simp add: k_def)
  have "val x * 10 ^ p = of_int (coeff x) / of_int (10 ^ k)"
    by (simp add: val_def e power_int_minus power_int_of_nat power_add field_simps del: of_nat_add)
  moreover have "0 \<le> coeff x" using assms by (simp add: val_nonneg_iff)
  ultimately show ?thesis
    using False half_even_rhe [of "10 ^ k" "coeff x"] rhe_of_int [of 0]
    by (cases "coeff x = 0") (simp_all add: quantized_even_def k_def [symmetric] val_def)
qed

definition thousandths :: "rat \<Rightarrow> rat" where
  "thousandths r = of_int (rhe (r * 10 ^ 3)) / 10 ^ 3"

lemma thousandths_mono: "r \<le> s \<Longrightarrow> thousandths r \<le> thousandths s"
  unfolding thousandths_def by (intro divide_right_mono) (simp_all add: rhe_mono)

lemma thousandths_of_int [simp]: "thousandths (of_int n) = of_int n"
proof -
  have "(of_int n :: rat) * 10 ^ 3 = of_int (n * 1000)" by simp
  then show ?thesis unfolding thousandths_def by (simp only: rhe_of_int) simp
qed

lemma thousandths_0 [simp]: "thousandths 0 = 0"
  using thousandths_of_int [of 0] by simp

lemma thousandths_grid: "grid 4 (thousandths r)"
  by (rule gridI [of _ "rhe (r * 10 ^ 3) * 10"]) (simp add: thousandths_def)

lemma milli_total:
  assumes "0 \<le> val x" "val x \<le> 10 ^ 24"
  obtains z where "milli x = Inr z" "val z = thousandths (val x)"
proof -
  have c: "quantized_even 3 x = rhe (val x * 10 ^ 3)" by (rule quantized_even_rhe [OF assms(1)])
  have "val x * 10 ^ 3 \<le> of_int (10 ^ 27)" using assms(2) by simp
  from rhe_mono [OF this] have "rhe (val x * 10 ^ 3) \<le> 10 ^ 27" by (simp only: rhe_of_int)
  moreover have "rhe (of_int 0) \<le> rhe (val x * 10 ^ 3)" using assms(1) by (intro rhe_mono) simp
  ultimately have b: "\<bar>quantized_even 3 x\<bar> \<le> 10 ^ 27" by (simp only: c rhe_of_int)
  then have "dlen \<bar>quantized_even 3 x\<bar> \<le> PREC" by (simp add: PREC_def dlen_le_iff)
  then have "milli x = Inr (Dec (quantized_even 3 x) (- 3))" by (simp add: milli_def Let_def)
  moreover have "val (Dec (quantized_even 3 x) (- 3)) = thousandths (val x)"
    unfolding c by (simp add: val_def thousandths_def power_int_def field_simps)
  ultimately show thesis by (rule that)
qed

section \<open>The horizon\<close>

text \<open>The intervals the loop visits, when the interval is positive.\<close>

function horizon_slots :: "datetime \<Rightarrow> datetime \<Rightarrow> timedelta \<Rightarrow> (datetime \<times> datetime) list" where
  "horizon_slots start stop interval =
     (if start < stop \<and> 0 < interval
      then (start, min (start + interval) stop) # horizon_slots (min (start + interval) stop) stop interval
      else [])"
  by pat_completeness auto
termination
  by (relation "measure (\<lambda>(start, stop, interval). nat (stop - start))") auto

declare horizon_slots.simps [simp del]

fun tiles :: "datetime \<Rightarrow> datetime \<Rightarrow> timedelta \<Rightarrow> (datetime \<times> datetime) list \<Rightarrow> bool" where
  "tiles start stop interval [] \<longleftrightarrow> stop \<le> start"
| "tiles start stop interval ((a, b) # slots) \<longleftrightarrow>
     a = start \<and> a < b \<and> b \<le> stop \<and> b \<le> a + interval \<and> (slots \<noteq> [] \<longrightarrow> b = a + interval)
     \<and> tiles b stop interval slots"

lemma horizon_slots_tile: "0 < interval \<Longrightarrow> tiles start stop interval (horizon_slots start stop interval)"
proof (induction start stop interval rule: horizon_slots.induct)
  case (1 start stop interval)
  show ?case
  proof (cases "start < stop")
    case True
    have "horizon_slots stop stop interval = []" by (subst horizon_slots.simps) simp
    with 1 True show ?thesis by (subst horizon_slots.simps) (auto simp: min_def)
  next
    case False
    then show ?thesis by (subst horizon_slots.simps) simp
  qed
qed

definition interval_at ::
  "(datetime \<Rightarrow> datetime \<Rightarrow> predicted_point result) \<Rightarrow> timedelta \<Rightarrow> datetime \<times> datetime \<Rightarrow> predicted_point result" where
  "interval_at body interval slot = bindE (datetime_plus (fst slot) interval) (\<lambda>_. body (fst slot) (snd slot))"

lemma horizon_points_eq:
  "0 < interval \<Longrightarrow>
   horizon_points body start stop interval = Some (mapE (interval_at body interval) (horizon_slots start stop interval))"
proof (induction start stop interval rule: horizon_slots.induct)
  case (1 start stop interval)
  show ?case
  proof (cases "start < stop")
    case True
    show ?thesis
    proof (cases "datetime_ok (start + interval)")
      case ok: True
      then have "datetime_plus start interval = Inr (start + interval)"
        "interval_at body interval (start, x) = body start x" for x
        by (simp_all add: interval_at_def datetime_plus_def)
      with 1 True show ?thesis
        by (subst horizon_points.simps, subst horizon_slots.simps)
          (cases "body start (min (start + interval) stop)"; simp add: Let_def)
    next
      case False
      with 1 True show ?thesis
        by (subst horizon_points.simps, subst horizon_slots.simps) (simp add: interval_at_def datetime_plus_def)
    qed
  next
    case False
    then show ?thesis by (subst horizon_points.simps, subst horizon_slots.simps) simp
  qed
qed

text \<open>An interval of no length makes no progress, as long as it predicts.\<close>

lemma horizon_points_endless:
  assumes "horizon_points body start stop interval = Some r"
  shows "interval = 0 \<longrightarrow> (\<forall>a b. returns (body a b)) \<longrightarrow> datetime_ok start \<longrightarrow> stop \<le> start"
  using assms
proof (induction rule: horizon_points.raw_induct [rotated, consumes 1])
  case (1 horizon_points body start stop interval r)
  show ?case
  proof (intro impI)
    assume i: "interval = 0" and ret: "\<forall>a b. returns (body a b)" and ok: "datetime_ok start"
    show "stop \<le> start"
    proof (rule ccontr)
      assume lt: "\<not> stop \<le> start"
      obtain p where p: "body start start = Inr p" using ret by (auto simp: returns_iff)
      with 1(2) lt i ok obtain q where "horizon_points body start stop interval = Some q"
        by (auto simp: Let_def bind_eq_Some_conv datetime_plus_def)
      from 1(1) [OF this] i ret ok lt show False by blast
    qed
  qed
qed

text \<open>A negative interval walks back until the calendar ends.\<close>

lemma horizon_points_backwards:
  assumes "interval < 0" "start < stop"
  shows "\<exists>e. horizon_points body start stop interval = Some (Inl e) \<and> ((\<forall>a b. returns (body a b)) \<longrightarrow> e = PyOverflowError)"
  using assms(2)
proof (induction "nat (start + 719162 * 86400000000)" arbitrary: start rule: less_induct)
  case less
  let ?next = "start + interval"
  show ?case
  proof (cases "datetime_ok ?next")
    case False
    with less(2) show ?thesis by (subst horizon_points.simps) (simp add: datetime_plus_def)
  next
    case True
    show ?thesis
    proof (cases "body start ?next")
      case (Inl e)
      then have "\<not> returns (body start ?next)" by (simp add: returns_iff)
      then have "\<not> (\<forall>a b. returns (body a b))" by blast
      with less(2) True assms(1) Inl show ?thesis by (subst horizon_points.simps) (simp add: datetime_plus_def Let_def, blast)
    next
      case (Inr p)
      have "\<exists>e. horizon_points body ?next stop interval = Some (Inl e) \<and> ((\<forall>a b. returns (body a b)) \<longrightarrow> e = PyOverflowError)"
        using True less(2) assms(1) by (intro less(1)) (auto simp: datetime_ok_def)
      then obtain e where "horizon_points body ?next stop interval = Some (Inl e)"
        "(\<forall>a b. returns (body a b)) \<longrightarrow> e = PyOverflowError" by blast
      with less(2) True assms(1) Inr show ?thesis
        by (subst horizon_points.simps) (simp add: datetime_plus_def Let_def)
    qed
  qed
qed

lemma tiles_starts:
  "tiles start stop interval slots \<Longrightarrow>
   sorted_wrt (<) (map fst slots) \<and> (\<forall>(a, b) \<in> set slots. start \<le> a \<and> a < b \<and> b \<le> stop \<and> b \<le> a + interval)"
proof (induction start stop interval slots rule: tiles.induct)
  case (2 start stop interval a b slots)
  then show ?case by fastforce
qed simp

lemma interval_in_range:
  assumes "tiles start stop interval slots" "0 < interval" "datetime_ok start" "datetime_ok (stop + interval)" "s \<in> set slots"
  shows "interval_at body interval s = body (fst s) (snd s)"
  using tiles_starts [OF assms(1)] assms(2-5) by (cases s) (fastforce simp: interval_at_def datetime_plus_def datetime_ok_def)

section \<open>Numbers of 28 digits\<close>

lemma rounds_to_abs:
  assumes "rounds_to v w" "\<bar>v\<bar> \<le> of_int b" "\<bar>b\<bar> < 10 ^ 28"
  shows "\<bar>w\<bar> \<le> of_int b"
proof -
  have "rep28 (of_int b)" "rep28 (of_int (- b))" using assms(3) by (intro rep28_int; simp)+
  with rounds_to_le [OF assms(1), of "of_int b"] rounds_to_ge [OF assms(1), of "of_int (- b)"] assms(2)
  show ?thesis by (auto simp: abs_le_iff)
qed

lemma rep28_signed:
  assumes "0 < d" "n \<le> 10 ^ 28 * d" "0 \<le> n"
  shows "rep28 (val (Decimals.signed c (round_mag n d e)))"
proof -
  have "half_even n d \<le> 10 ^ 28" "0 \<le> half_even n d"
    using half_even_le [OF assms(1,2)] half_even_ge [OF assms(1), of 0] assms(3) by simp_all
  then have "0 \<le> fst (round_mag n d e)" "fst (round_mag n d e) < 10 ^ 28"
    by (auto simp: round_mag_def Let_def)
  then have "\<bar>sgn c * fst (round_mag n d e)\<bar> < 10 ^ 28" by (simp add: abs_mult sgn_if)
  then show ?thesis unfolding val_def Decimals.signed_def decimal.sel by (rule rep28I)
qed

lemma div_scale_upper:
  assumes n: "0 < n" and d: "0 < d"
  shows "n * 10 ^ nat (div_scale n d) \<le> 10 ^ 28 * (d * 10 ^ nat (- div_scale n d))"
proof -
  define s where "s = 28 + int (dlen d) - int (dlen n)"
  have top: "n * 10 ^ nat t * 10 \<le> 10 ^ 29 * (d * 10 ^ nat (- t)) * 10" if t: "t = s" for t
  proof -
    have "n \<le> 10 ^ dlen n" using less_pow_dlen [of n] by simp
    then have "n * 10 ^ nat s \<le> 10 ^ (dlen n + nat s)" by (simp add: power_add)
    also have "dlen n + nat s = 29 + (dlen d - 1) + nat (- s)" using dlen_pos [of d] unfolding s_def by linarith
    also have "(10::int) ^ (29 + (dlen d - 1) + nat (- s)) = 10 ^ 29 * (10 ^ (dlen d - 1) * 10 ^ nat (- s))"
      by (simp only: power_add mult.assoc)
    also have "\<dots> \<le> 10 ^ 29 * (d * 10 ^ nat (- s))" using pow_dlen_le [OF d] by simp
    finally show ?thesis using t by simp
  qed
  show ?thesis
  proof (cases "10 ^ 28 \<le> n * 10 ^ nat s div (d * 10 ^ nat (- s))")
    case True
    then have s': "div_scale n d = s - 1" by (simp add: div_scale_def Let_def s_def)
    show ?thesis
    proof (cases "0 < s")
      case True
      then have "nat s = Suc (nat (s - 1))" "nat (- s) = 0" "nat (- (s - 1)) = 0" by simp_all
      with top [of s] show ?thesis by (simp add: s')
    next
      case False
      then have "nat s = 0" "nat (s - 1) = 0" "nat (- (s - 1)) = Suc (nat (- s))" by simp_all
      with top [of s] show ?thesis by (simp add: s')
    qed
  next
    case False
    then have s': "div_scale n d = s" by (simp add: div_scale_def Let_def s_def)
    have "0 < d * 10 ^ nat (- s)" using d by simp
    with False have "n * 10 ^ nat s < 10 ^ 28 * (d * 10 ^ nat (- s))" by (simp only: not_le div_less_int)
    then show ?thesis by (simp add: s')
  qed
qed

lemma ddiv_rep28:
  assumes "ddiv x y = Inr z"
  shows "rep28 (val z)"
proof (cases "coeff x = 0")
  case True
  with assms show ?thesis by (auto simp: ddiv_def val_def split: if_splits)
next
  case False
  define s n d where "s = div_scale \<bar>coeff x\<bar> \<bar>coeff y\<bar>" and "n = \<bar>coeff x\<bar> * 10 ^ nat s" and "d = \<bar>coeff y\<bar> * 10 ^ nat (- s)"
  have y: "coeff y \<noteq> 0" using assms by (auto simp: ddiv_def)
  have d: "0 < d" and n: "0 \<le> n" using y by (simp_all add: d_def n_def)
  have le: "n \<le> 10 ^ 28 * d" using div_scale_upper [of "\<bar>coeff x\<bar>" "\<bar>coeff y\<bar>"] False y by (simp add: n_def d_def s_def)
  let ?sg = "sgn (coeff x) * sgn (coeff y)"
  have dv: "ddiv x y = (if n mod d = 0 then Inr (strip10 (?sg * (n div d)) (dexp x - dexp y - s) (dexp x - dexp y)) :: decimal result
      else Inr (Decimals.signed ?sg (round_mag n d (dexp x - dexp y - s))))"
    using False y by (simp add: ddiv_def Let_def n_def d_def s_def)
  note z = dv [unfolded assms]
  show ?thesis
  proof (cases "n mod d = 0")
    case True
    show ?thesis
    proof (cases "n div d = 10 ^ 28")
      case True
      have "val z = of_int (?sg * 1) * 10 powi (28 + (dexp x - dexp y - s))"
        using z \<open>n mod d = 0\<close> True by (simp add: strip10_val power_int_add)
      moreover have "\<bar>?sg * 1\<bar> < 10 ^ 28" by (simp add: abs_mult sgn_if)
      ultimately show ?thesis by (simp only: rep28I)
    next
      case False
      have "n div d \<le> 10 ^ 28" using le d by (metis div_by_0 nonzero_mult_div_cancel_right order_less_irrefl zdiv_mono1)
      moreover have "0 \<le> n div d" using n d by (simp add: pos_imp_zdiv_nonneg_iff)
      ultimately have "\<bar>?sg * (n div d)\<bar> < 10 ^ 28" using False by (simp add: abs_mult sgn_if)
      moreover have "val z = of_int (?sg * (n div d)) * 10 powi (dexp x - dexp y - s)"
        using z True by (simp add: strip10_val)
      ultimately show ?thesis by (simp only: rep28I)
    qed
  next
    case False
    with z rep28_signed [OF d le n] show ?thesis by simp
  qed
qed

lemma dsum_bound:
  assumes "\<forall>x \<in> set xs. \<bar>val x\<bar> \<le> of_int b" "0 \<le> b" "int (length xs) * b < 10 ^ 28"
  shows "\<bar>val (dsum xs)\<bar> \<le> of_int (int (length xs) * b)"
  using assms
proof (induction xs rule: rev_induct)
  case (snoc x xs)
  have "int (length xs) * b \<le> int (length (xs @ [x])) * b" using snoc.prems(2) by (intro mult_right_mono) simp_all
  with snoc have ih: "\<bar>val (dsum xs)\<bar> \<le> of_int (int (length xs) * b)" by simp
  have "\<bar>val (dsum xs) + val x\<bar> \<le> \<bar>val (dsum xs)\<bar> + \<bar>val x\<bar>" by (rule abs_triangle_ineq)
  also have "\<dots> \<le> of_int (int (length xs) * b) + of_int b" using ih snoc.prems(1) by (intro add_mono) simp_all
  also have "\<dots> = of_int (int (length (xs @ [x])) * b)" by (simp add: algebra_simps)
  finally show ?case
    using snoc.prems(2,3) by (simp only: dsum_def foldl_append foldl.simps) (rule rounds_to_abs [OF plus_rounds]; simp add: dsum_def)
qed (simp add: dsum_def)

lemma dsum_nonneg: "\<forall>x \<in> set xs. 0 \<le> val x \<Longrightarrow> 0 \<le> val (dsum xs)"
proof (induction xs rule: rev_induct)
  case (snoc x xs)
  then have "0 \<le> val (dsum xs) + val x" by simp
  then show ?case by (simp only: dsum_def foldl_append foldl.simps) (rule rounds_to_nonneg [OF plus_rounds])
qed (simp add: dsum_def)

lemma square_bound:
  assumes "\<bar>val x\<bar> \<le> of_int b" "0 \<le> b" "2 * (b * b) < 10 ^ 28"
  shows "0 \<le> val (square x) \<and> val (square x) \<le> of_int (2 * (b * b))"
proof -
  define c where "c = coeff x * coeff x"
  define l where "l = dlen c"
  define v where "v = (if l \<le> 31 then Dec c (2 * dexp x) else Dec (half_even c (10 ^ (l - 31))) (2 * dexp x + int (l - 31)))"
  have sq: "square x = fix28 v" by (simp add: square_def Let_def c_def l_def v_def)
  have c: "0 \<le> c" by (simp add: c_def)
  have pp: "(10::rat) powi (2 * dexp x) = 10 powi dexp x * 10 powi dexp x"
    unfolding mult_2 by (rule power_int_add) simp
  have e: "of_int c * 10 powi (2 * dexp x) = val x * val x"
    by (simp add: c_def val_def pp)
  have vx: "val x * val x \<le> of_int (b * b)"
  proof -
    have "\<bar>val x\<bar> * \<bar>val x\<bar> \<le> of_int b * of_int b" using assms(1) by (intro mult_mono) simp_all
    then show ?thesis by simp
  qed
  have "0 \<le> val v \<and> val v \<le> 2 * (val x * val x)"
  proof (cases "l \<le> 31")
    case True
    then show ?thesis by (simp add: v_def val_def [of "Dec _ _"] e)
  next
    case False
    define u :: int where "u = 10 ^ (l - 31)"
    have u: "0 < u" by (simp add: u_def)
    have c1: "0 < c" using False c dlen_le_iff [of 1 0] by (cases "c = 0") (auto simp: l_def)
    have "u \<le> 10 ^ (l - 1)" using False unfolding u_def by (intro power_increasing) simp_all
    also have "\<dots> \<le> c" unfolding l_def by (rule pow_dlen_le [OF c1])
    finally have "1 \<le> c div u" using u by (simp add: le_div_int)
    moreover have "half_even c u \<le> c div u + 1" by (simp add: half_even_def Let_def)
    ultimately have "half_even c u * u \<le> 2 * (c div u) * u" using u by (intro mult_right_mono) simp_all
    also have "\<dots> \<le> 2 * c" using u by (simp add: mult.assoc) (metis div_mult_mod_eq le_add_same_cancel1 pos_mod_sign)
    finally have "(of_int (half_even c u * u) :: rat) \<le> of_int (2 * c)" by (simp only: of_int_le_iff)
    then have "of_int (half_even c u * u) * 10 powi (2 * dexp x) \<le> (of_int (2 * c) * 10 powi (2 * dexp x) :: rat)"
      by (intro mult_right_mono) (simp_all add: powi_pos [THEN less_imp_le])
    moreover have "val v = of_int (half_even c u * u) * 10 powi (2 * dexp x)"
    proof -
      have "(10::rat) powi (2 * dexp x + int (l - 31)) = 10 powi (2 * dexp x) * 10 ^ (l - 31)"
        by (simp add: power_int_add del: of_nat_diff)
      with False show ?thesis by (simp add: v_def val_def u_def del: of_nat_diff)
    qed
    moreover have "0 \<le> half_even c u" by (rule half_even_nonneg [OF c u])
    ultimately show ?thesis using e u by (simp add: powi_pos [THEN less_imp_le] mult.assoc)
  qed
  then have "\<bar>val v\<bar> \<le> of_int (2 * (b * b))" "0 \<le> val v" using vx by simp_all
  with rounds_to_abs [OF fix28_rounds this(1)] rounds_to_nonneg [OF fix28_rounds this(2)] assms(2,3)
  show ?thesis by (simp add: sq)
qed

section \<open>One interval\<close>

text \<open>Powers of up to 100,000 MW, up to ten thousand million samples of a time of day.\<close>

definition samples_ok :: "decimal list \<Rightarrow> bool" where
  "samples_ok xs \<longleftrightarrow> (\<forall>x \<in> set xs. \<bar>val x\<bar> \<le> 10 ^ 8) \<and> length xs \<le> 10 ^ 10"

text \<open>A capacity is a decimal of at most 28 digits that is not negative.\<close>

definition capacity_ok :: "decimal option \<Rightarrow> bool" where
  "capacity_ok c = pred_option (\<lambda>c. 0 \<le> val c \<and> rep28 (val c)) c"

definition under_cap :: "decimal option \<Rightarrow> rat \<Rightarrow> bool" where
  "under_cap c r = pred_option (\<lambda>c. r \<le> val c) c"

lemma val_cap: "val (cap c v) = (case c of None \<Rightarrow> val v | Some m \<Rightarrow> min (val v) (val m))"
  by (auto simp: cap_def val_simps split: option.splits)

lemma sample_mean_bounds:
  assumes "samples_ok xs" "xs \<noteq> []" "capacity_ok c"
  obtains m where "sample_mean c xs = Inr m" "0 \<le> val m" "val m \<le> 10 ^ 8" "rep28 (val m)" "under_cap c (val m)"
proof -
  define n where "n = int (length xs)"
  have n: "1 \<le> n" "n \<le> 10 ^ 10" using assms(1,2) by (simp_all add: n_def samples_ok_def Suc_le_eq)
  have vn: "val (Dec n 0) = of_int n" by (simp add: val_def)
  have "n * 10 ^ 8 < 10 ^ 28" using n by simp
  with assms(1) have "\<bar>val (dsum xs)\<bar> \<le> of_int (n * 10 ^ 8)"
    unfolding n_def by (intro dsum_bound) (simp_all add: samples_ok_def)
  then have "\<bar>val (dsum xs) / of_int n\<bar> \<le> of_int (10 ^ 8)" using n(1) by (simp add: divide_le_eq mult.commute)
  moreover obtain m where m: "ddiv (dsum xs) (Dec n 0) = Inr m" "rounds_to (val (dsum xs) / of_int n) (val m)"
    using ddiv_rounds [of "Dec n 0" "dsum xs"] n(1) by (auto simp: vn)
  ultimately have mb: "\<bar>val m\<bar> \<le> of_int (10 ^ 8)" by (intro rounds_to_abs [OF m(2)]) simp_all
  let ?m = "cap c (pymax 0 m)"
  have v: "val ?m = (case c of None \<Rightarrow> max 0 (val m) | Some k \<Rightarrow> min (max 0 (val m)) (val k))"
    by (simp add: val_cap val_simps split: option.splits)
  have "rep28 (max 0 (val m))" using ddiv_rep28 [OF m(1)] by (simp add: max_def)
  then have "rep28 (val ?m)" using assms(3) by (auto simp: v capacity_ok_def min_def split: option.splits)
  moreover have "0 \<le> val ?m" "val ?m \<le> 10 ^ 8" "under_cap c (val ?m)"
    using assms(3) mb by (auto simp: v capacity_ok_def under_cap_def split: option.splits)
  moreover have "sample_mean c xs = Inr ?m" using m(1) by (simp add: sample_mean_def n_def)
  ultimately show thesis using that by blast
qed

lemma sample_deviation_bounds:
  assumes "samples_ok xs" "0 \<le> val m" "val m \<le> 10 ^ 8"
  obtains d where "sample_deviation m xs = Inr d" "0 \<le> val d" "val d \<le> 2 ^ 31"
proof (cases "length xs \<le> 1")
  case True
  then show thesis by (intro that [of 0]) (simp_all add: sample_deviation_def)
next
  case False
  define n where "n = int (length xs)"
  have n: "2 \<le> n" "n \<le> 10 ^ 10" using assms(1) False by (simp_all add: n_def samples_ok_def)
  let ?ds = "map (\<lambda>s. square (s - m)) xs"
  have sq: "0 \<le> val (square (x - m)) \<and> val (square (x - m)) \<le> of_int (8 * 10 ^ 16)" if "x \<in> set xs" for x
  proof -
    have "\<bar>val x\<bar> \<le> 10 ^ 8" using assms(1) that by (simp add: samples_ok_def)
    then have "\<bar>val x - val m\<bar> \<le> of_int (2 * 10 ^ 8)" using assms(2,3) by (auto simp: abs_le_iff)
    then have "\<bar>val (x - m)\<bar> \<le> of_int (2 * 10 ^ 8)" by (rule rounds_to_abs [OF minus_rounds]) simp
    from square_bound [OF this] show ?thesis by simp
  qed
  have "n * (8 * 10 ^ 16) < 10 ^ 28" using n(2) by simp
  moreover have "\<forall>x \<in> set ?ds. \<bar>val x\<bar> \<le> of_int (8 * 10 ^ 16)" using sq by auto
  ultimately have "\<bar>val (dsum ?ds)\<bar> \<le> of_int (n * (8 * 10 ^ 16))"
    using dsum_bound [of ?ds "8 * 10 ^ 16"] by (simp add: n_def)
  moreover have "0 \<le> val (dsum ?ds)" using sq by (intro dsum_nonneg) auto
  moreover have vn: "val (Dec (n - 1) 0) = of_int (n - 1)" by (simp add: val_def)
  obtain q where q: "ddiv (dsum ?ds) (Dec (n - 1) 0) = Inr q" "rounds_to (val (dsum ?ds) / of_int (n - 1)) (val q)"
    using ddiv_rounds [of "Dec (n - 1) 0" "dsum ?ds"] n(1) unfolding vn by auto
  ultimately have s: "0 \<le> val (dsum ?ds) / of_int (n - 1)" "val (dsum ?ds) \<le> of_int (n * (8 * 10 ^ 16))"
    using n(1) by (simp_all add: abs_le_iff)
  have "n * (8 * 10 ^ 16) \<le> (2 ^ 58) * (n - 1)" using n(1) by simp
  then have "(of_int (n * (8 * 10 ^ 16)) :: rat) \<le> of_int (2 ^ 58 * (n - 1))" by (simp only: of_int_le_iff)
  with s(2) have "val (dsum ?ds) \<le> of_int (2 ^ 58) * of_int (n - 1)" by simp
  then have "val (dsum ?ds) / of_int (n - 1) \<le> of_int (2 ^ 58)" using n(1) by (simp add: divide_le_eq)
  with s(1) have "\<bar>val (dsum ?ds) / of_int (n - 1)\<bar> \<le> of_int (2 ^ 58)" by (simp only: abs_of_nonneg)
  from rounds_to_abs [OF q(2) this] rounds_to_nonneg [OF q(2) s(1)]
  have v: "0 \<le> val q" "val q \<le> 2 ^ 60" by simp_all
  have td: "0 \<le> val (to_double q)" "val (to_double q) \<le> 2 ^ (2 * 30)"
    using to_double_nonneg [OF v(1)] to_double_le_pow [OF v] by simp_all
  note float_sqrt_nonneg [OF td(1)] float_sqrt_le_pow [OF td]
  with decimal_of_float_bound [of "float_sqrt (to_double q)"]
  have "0 \<le> val (decimal_of_float (float_sqrt (to_double q)))" "val (decimal_of_float (float_sqrt (to_double q))) \<le> 2 ^ 31"
    by simp_all
  with that False q(1) show thesis by (simp add: sample_deviation_def n_def)
qed

lemma sample_confidence_returns:
  assumes "0 < days" "0 \<le> n" "0 \<le> val m" "0 \<le> val d"
  obtains c where "sample_confidence n days m d = Inr c" "1 / 20 \<le> val c" "val c \<le> 1"
proof -
  have k: "val (Dec 5 (-2)) = 1 / 20" "val (Dec 10 (-1)) = 1" "val (Dec 1 0) = 1" "val (Dec n 0) = of_int n" "val (Dec days 0) = of_int days"
    by (simp_all add: val_def power_int_def power2_eq_square)
  obtain q where q: "float_div (Dec n 0) (Dec days 0) = Inr q"
    by (rule float_div_nonneg [of "Dec n 0" "Dec days 0"]) (use assms(1,2) in \<open>simp_all add: k\<close>)
  have "0 < val (float_add (to_double m) (Dec 1 0))"
    using to_double_nonneg [OF assms(3)] by (intro float_add_pos) (simp add: k)
  then obtain s where s: "float_div (to_double d) (float_add (to_double m) (Dec 1 0)) = Inr s" "0 \<le> val s"
    using float_div_nonneg [OF to_double_nonneg [OF assms(4)]] by blast
  have "0 < val (float_add (Dec 1 0) s)" using s(2) by (intro float_add_pos) (simp add: k)
  then obtain t where t: "float_div (Dec 1 0) (float_add (Dec 1 0) s) = Inr t"
    using float_div_nonneg [of "Dec 1 0"] k(3) by auto
  let ?c = "pymax (Dec 5 (-2)) (pymin (Dec 10 (-1)) (decimal_of_float (float_round 3 (float_mult (pymin (Dec 1 0) q) t))))"
  have "sample_confidence n days m d = Inr ?c" by (simp add: sample_confidence_def stability_def q s(1) t Let_def)
  moreover have "1 / 20 \<le> val ?c" "val ?c \<le> 1" by (simp_all add: val_pymax val_pymin k(1,2))
  ultimately show thesis by (rule that)
qed

lemma hours_bounds:
  assumes "start < stop" "stop \<le> start + 86400000000"
  obtains h where "hours_between start stop = Inr h" "0 \<le> val h" "val h \<le> 73"
proof -
  let ?us = "stop - start"
  have ts: "val (total_seconds ?us) = val (float_quotient ?us 1000000)" using assms(1) by (simp add: total_seconds_float)
  have "?us \<le> 1000000 * 2 ^ 17" using assms(2) by simp
  then have "val (total_seconds ?us) \<le> 2 ^ 17" unfolding ts using assms(1) by (intro float_quotient_le_pow) simp_all
  moreover have "0 \<le> val (total_seconds ?us)" using total_seconds_pos [of ?us] assms(1) by simp
  ultimately have t: "0 \<le> val (decimal_of_float (total_seconds ?us))" "val (decimal_of_float (total_seconds ?us)) \<le> 2 ^ 18"
    using decimal_of_float_bound [of "total_seconds ?us"] by simp_all
  have v: "val (Dec 3600 0) = 3600" by (simp add: val_def)
  obtain h where h: "hours_between start stop = Inr h" "rounds_to (val (decimal_of_float (total_seconds ?us)) / 3600) (val h)"
    using ddiv_rounds [of "Dec 3600 0" "decimal_of_float (total_seconds ?us)"] unfolding v hours_between_def by auto
  have "rep28 73" using rep28_int [of 73] by simp
  from rounds_to_le [OF h(2) this] rounds_to_nonneg [OF h(2)] t that [OF h(1)] show thesis by simp
qed

lemma sum_on_grid:
  assumes "\<forall>x \<in> set xs. grid 4 (val x) \<and> \<bar>val x\<bar> \<le> 10 ^ 8"
  shows "grid 4 (sum_list (map val xs)) \<and> \<bar>sum_list (map val xs)\<bar> \<le> of_nat (length xs) * 10 ^ 8"
  using assms
proof (induction xs)
  case (Cons x xs)
  then show ?case by (auto simp: grid_plus algebra_simps intro: order_trans [OF abs_triangle_ineq])
qed simp

lemma dsum_on_grid:
  assumes "\<forall>x \<in> set xs. grid 4 (val x) \<and> \<bar>val x\<bar> \<le> 10 ^ 8" "length xs \<le> 10 ^ 10"
  shows "val (dsum xs) = sum_list (map val xs)"
  using assms
proof (induction xs rule: rev_induct)
  case (snoc x xs)
  have b: "grid 4 (sum_list (map val (xs @ [x])))" "\<bar>sum_list (map val (xs @ [x]))\<bar> \<le> of_nat (length (xs @ [x])) * 10 ^ 8"
    using sum_on_grid [OF snoc.prems(1)] by blast+
  have "(of_nat (length (xs @ [x])) :: rat) * 10 ^ 8 \<le> of_nat (10 ^ 10) * 10 ^ 8"
    using snoc.prems(2) by (intro mult_right_mono of_nat_mono) simp_all
  with b(2) have "\<bar>sum_list (map val (xs @ [x]))\<bar> * 10 ^ 4 < 10 ^ 28" by simp
  from rep28_grid [OF b(1) this] have r: "rep28 (sum_list (map val xs) + val x)" by simp
  from snoc have "val (dsum xs) = sum_list (map val xs)" by simp
  with r val_plus [of "dsum xs" x] show ?case by (simp add: dsum_snoc)
qed (simp add: dsum_def val_zero)

text \<open>The mean of samples as the tables store them, rounded once, not negative and cut to the capacity.\<close>

definition mean_of :: "decimal option \<Rightarrow> decimal list \<Rightarrow> decimal \<Rightarrow> bool" where
  "mean_of c xs mean \<longleftrightarrow>
     (\<exists>q. rounds_to (sum_list (map val xs) / of_nat (length xs)) q
        \<and> val mean = (case c of None \<Rightarrow> max 0 q | Some k \<Rightarrow> min (max 0 q) (val k)))"

lemma sample_mean_average:
  assumes "samples_ok xs" "xs \<noteq> []" "\<forall>x \<in> set xs. grid 4 (val x)" "sample_mean c xs = Inr mean"
  shows "mean_of c xs mean"
proof -
  have v: "val (Dec (int (length xs)) 0) = of_nat (length xs)" by (simp add: val_def)
  have "val (dsum xs) = sum_list (map val xs)"
    using assms(1,3) by (intro dsum_on_grid) (simp_all add: samples_ok_def)
  moreover obtain m where m: "ddiv (dsum xs) (Dec (int (length xs)) 0) = Inr m"
    "rounds_to (val (dsum xs) / of_nat (length xs)) (val m)"
    using ddiv_rounds [of "Dec (int (length xs)) 0" "dsum xs"] assms(2) by (auto simp: v)
  moreover have "val mean = (case c of None \<Rightarrow> max 0 (val m) | Some k \<Rightarrow> min (max 0 (val m)) (val k))"
    using assms(4) m(1) by (auto simp: sample_mean_def val_cap val_simps split: option.splits)
  ultimately show ?thesis by (auto simp: mean_of_def)
qed

text \<open>
  What a point over an observed time of day says: its power is the mean of the samples, limited by the
  capacity and rounded to a thousandth, between its bounds.
\<close>

definition point_sound :: "baseline_config \<Rightarrow> decimal list \<Rightarrow> predicted_point \<Rightarrow> bool" where
  "point_sound cfg xs p \<longleftrightarrow>
     (\<exists>mean lower kw kwh upper c.
        ((\<forall>x \<in> set xs. grid 4 (val x)) \<longrightarrow> mean_of (bc_pv_capacity_kw cfg) xs mean)
        \<and> sample_mean (bc_pv_capacity_kw cfg) xs = Inr mean \<and> under_cap (bc_pv_capacity_kw cfg) (val mean)
        \<and> pp_lower_bound p = Some lower \<and> pp_predicted_kw p = Some kw \<and> pp_upper_bound p = Some upper
        \<and> pp_predicted_kwh p = Some kwh \<and> pp_confidence p = Some c
        \<and> val kw = thousandths (val mean) \<and> 0 \<le> val lower \<and> val lower \<le> val kw \<and> val kw \<le> val upper
        \<and> (\<forall>m. bc_pv_capacity_kw cfg = Some m \<longrightarrow> val upper \<le> thousandths (val m))
        \<and> 0 \<le> val kwh \<and> 1 / 20 \<le> val c \<and> val c \<le> 1)"

lemma held_thousandths:
  assumes "0 \<le> r" "r \<le> of_int (9 * 10 ^ 9)" "val d = thousandths r"
  shows "held d"
proof -
  have "0 \<le> thousandths r" using thousandths_mono [OF assms(1)] by simp
  moreover have "thousandths r \<le> of_int (9 * 10 ^ 9)" using thousandths_mono [OF assms(2)] by (simp only: thousandths_of_int)
  ultimately show ?thesis by (simp add: held_def assms(3) thousandths_grid)
qed

lemma observed_point_sound:
  assumes x: "samples_ok xs" "xs \<noteq> []" and c: "capacity_ok (bc_pv_capacity_kw cfg)" "0 < bc_reference_days cfg"
    and h: "0 \<le> val h" "val h \<le> 73" and lt: "start < stop"
  obtains p where "observed_point cfg start stop xs h = Inr p" "point_sound cfg xs p" "storable_point p"
    "pp_interval_start p = start" "pp_interval_end p = stop"
proof -
  let ?cap = "bc_pv_capacity_kw cfg"
  from sample_mean_bounds [OF x c(1)] obtain m where m: "sample_mean ?cap xs = Inr m" "0 \<le> val m" "val m \<le> 10 ^ 8"
    "rep28 (val m)" "under_cap ?cap (val m)" .
  from sample_deviation_bounds [OF x(1) m(2,3)] obtain d where d: "sample_deviation m xs = Inr d" "0 \<le> val d" "val d \<le> 2 ^ 31" .
  from sample_confidence_returns [OF c(2) _ m(2) d(2)] obtain k1 where
    k1: "sample_confidence (int (length xs)) (bc_reference_days cfg) m d = Inr k1" "1 / 20 \<le> val k1" "val k1 \<le> 1"
    by (metis of_nat_0_le_iff)
  have lo: "val (m - d) \<le> val m" by (rule rounds_to_le [OF minus_rounds m(4)]) (use d in simp)
  have hi: "val m \<le> val (m + d)" by (rule rounds_to_ge [OF plus_rounds m(4)]) (use d in simp)
  have "\<bar>val m + val d\<bar> \<le> of_int (9 * 10 ^ 9)" using m(2,3) d(2,3) by simp
  then have top: "\<bar>val (m + d)\<bar> \<le> of_int (9 * 10 ^ 9)" by (rule rounds_to_abs [OF plus_rounds]) simp
  have l: "0 \<le> val (pymax 0 (m - d))" "val (pymax 0 (m - d)) \<le> val m" using lo m(2) by (simp_all add: val_simps)
  have u: "val m \<le> val (cap ?cap (m + d))" "val (cap ?cap (m + d)) \<le> of_int (9 * 10 ^ 9)"
    "\<forall>k. ?cap = Some k \<longrightarrow> val (cap ?cap (m + d)) \<le> val k"
    using hi m(5) top by (auto simp: val_cap under_cap_def split: option.splits)
  from milli_total [of "pymax 0 (m - d)"] l m(3) obtain lower where
    lower: "milli (pymax 0 (m - d)) = Inr lower" "val lower = thousandths (val (pymax 0 (m - d)))" by auto
  from milli_total [of "cap ?cap (m + d)"] u(1,2) m(2) obtain upper where
    upper: "milli (cap ?cap (m + d)) = Inr upper" "val upper = thousandths (val (cap ?cap (m + d)))" by auto
  from milli_total [of m] m(2,3) obtain kw where kw: "milli m = Inr kw" "val kw = thousandths (val m)" by auto
  have k: "0 \<le> val kw" "val kw \<le> 10 ^ 8"
    using thousandths_mono [OF m(2)] thousandths_mono [of "val m" "of_int (10 ^ 8)"] m(3) unfolding kw(2)
    by (simp_all only: thousandths_of_int) simp_all
  have "val kw * val h \<le> 10 ^ 8 * 73" using k h by (intro mult_mono) simp_all
  then have "\<bar>val kw * val h\<bar> \<le> of_int (9 * 10 ^ 9)" using k h by simp
  from rounds_to_abs [OF times_rounds this] have e: "0 \<le> val (kw * h)" "val (kw * h) \<le> of_int (9 * 10 ^ 9)"
    using times_nonneg [OF k(1) h(1)] by simp_all
  from milli_total [of "kw * h"] e obtain kwh where kwh: "milli (kw * h) = Inr kwh" "val kwh = thousandths (val (kw * h))" by auto
  have ord: "0 \<le> val lower" "val lower \<le> val kw" "val kw \<le> val upper" "0 \<le> val kwh"
    using thousandths_mono [OF l(1)] thousandths_mono [OF l(2)] thousandths_mono [OF u(1)] thousandths_mono [OF e(1)]
    by (simp_all add: lower(2) upper(2) kw(2) kwh(2))
  have hold: "held lower" "held kw" "held upper" "held kwh"
    using held_thousandths [OF l(1) _ lower(2)] held_thousandths [OF m(2) _ kw(2)] held_thousandths [OF _ u(2) upper(2)]
      held_thousandths [OF e kwh(2)] l m(2,3) u(1) by simp_all
  let ?p = "\<lparr>pp_interval_start = start, pp_interval_end = stop, pp_predicted_kw = Some kw, pp_predicted_kwh = Some kwh,
          pp_confidence = Some k1,
          pp_lower_bound = Some lower, pp_upper_bound = Some upper\<rparr>"
  have "observed_point cfg start stop xs h = Inr ?p"
    by (simp add: observed_point_def m(1) d(1) lower(1) upper(1) kw(1) kwh(1) k1(1))
  moreover have "storable_point ?p"
    using hold ord lt k1(2,3) by (simp add: storable_point_def bounds_ordered_def less_eq_decimal_val)
  moreover have "point_sound cfg xs ?p"
    using m(1,5) ord kw(2) u(3) upper(2) k1(2,3) sample_mean_average [OF x _ m(1)] by (auto simp: point_sound_def intro: thousandths_mono)
  ultimately show thesis by - (rule that, assumption, assumption, assumption, simp_all)
qed

lemma unobserved_storable: "start < stop \<Longrightarrow> storable_point (unobserved_point start stop)"
  by (simp add: storable_point_def unobserved_point_def held_def bounds_ordered_def)

section \<open>A prediction\<close>

definition history_at :: "forecast_request \<Rightarrow> int \<times> int \<Rightarrow> decimal list" where
  "history_at r k =
     map (\<lambda>ob. the (channel_of ob (fq_forecast_type r)))
       (filter (\<lambda>ob. channel_of ob (fq_forecast_type r) \<noteq> None \<and> time_of_day (ho_interval_start ob) = k) (fq_history r))"

lemma fold_group:
  "fold (group_sample t) obs g k = g k @
     map (\<lambda>ob. the (channel_of ob t)) (filter (\<lambda>ob. channel_of ob t \<noteq> None \<and> time_of_day (ho_interval_start ob) = k) obs)"
  by (induction obs arbitrary: g) (auto simp: group_sample_def Let_def split: option.splits)

lemma group_by_time_of_day_eq: "group_by_time_of_day r = history_at r"
  by (rule ext) (simp add: group_by_time_of_day_def history_at_def fold_group)

text \<open>The configurations and requests the provider answers.\<close>

definition config_ok :: "baseline_config \<Rightarrow> bool" where
  "config_ok cfg \<longleftrightarrow> capacity_ok (bc_pv_capacity_kw cfg) \<and> 0 < bc_reference_days cfg \<and> length (bc_model_version cfg) \<le> 64"

definition answerable :: "baseline_config \<Rightarrow> forecast_request \<Rightarrow> bool" where
  "answerable cfg r \<longleftrightarrow>
     config_ok cfg \<and> fq_horizon_start r < fq_horizon_end r \<and> 0 < fq_interval r \<and> fq_interval r \<le> 86400000000
     \<and> datetime_ok (fq_horizon_start r) \<and> datetime_ok (fq_horizon_end r + fq_interval r)
     \<and> bc_min_required_samples cfg \<le> usable_samples r \<and> length (fq_history r) \<le> 10 ^ 10
     \<and> (\<forall>ob \<in> set (fq_history r). pred_option (\<lambda>v. \<bar>val v\<bar> \<le> 10 ^ 8) (channel_of ob (fq_forecast_type r)))"

lemma history_samples:
  assumes "answerable cfg r"
  shows "samples_ok (history_at r k)"
proof -
  have "length (history_at r k) \<le> length (fq_history r)" by (simp add: history_at_def)
  with assms have "length (history_at r k) \<le> 10 ^ 10" by (simp add: answerable_def)
  moreover have "\<forall>x \<in> set (history_at r k). \<bar>val x\<bar> \<le> 10 ^ 8"
  proof
    fix x assume "x \<in> set (history_at r k)"
    then obtain ob where "ob \<in> set (fq_history r)" "channel_of ob (fq_forecast_type r) = Some x" by (auto simp: history_at_def)
    with assms show "\<bar>val x\<bar> \<le> 10 ^ 8" unfolding answerable_def by fastforce
  qed
  ultimately show ?thesis by (simp add: samples_ok_def)
qed

lemma interval_point_sound:
  assumes a: "answerable cfg r" and s: "start < stop" "stop \<le> start + fq_interval r"
  shows "\<exists>p. interval_point cfg (history_at r) start stop = Inr p \<and> storable_point p
    \<and> pp_interval_start p = start \<and> pp_interval_end p = stop
    \<and> (if history_at r (time_of_day start) = [] then p = unobserved_point start stop
       else point_sound cfg (history_at r (time_of_day start)) p)"
proof -
  have "stop \<le> start + 86400000000" using s(2) a by (simp add: answerable_def)
  from hours_bounds [OF s(1) this] obtain h where h: "hours_between start stop = Inr h" "0 \<le> val h" "val h \<le> 73" .
  show ?thesis
  proof (cases "history_at r (time_of_day start) = []")
    case True
    with h(1) unobserved_storable [OF s(1)] show ?thesis
      by (simp add: interval_point_def point_for_def) (simp add: unobserved_point_def)
  next
    case False
    have "capacity_ok (bc_pv_capacity_kw cfg)" "0 < bc_reference_days cfg" using a by (simp_all add: answerable_def config_ok_def)
    from observed_point_sound [OF history_samples [OF a] False this h(2,3) s(1)] show ?thesis
      using False h(1) by (auto simp: interval_point_def point_for_def)
  qed
qed

lemma baseline_answers:
  assumes a: "answerable cfg r"
  obtains ps where "baseline_predict cfg r = Some (Inr \<lparr>fz_forecast_type = fq_forecast_type r, fz_provider = bc_name cfg,
      fz_model_version = bc_model_version cfg, fz_generated_at = fq_horizon_start r, fz_points = ps\<rparr>)"
    "tiles (fq_horizon_start r) (fq_horizon_end r) (fq_interval r) (map (\<lambda>p. (pp_interval_start p, pp_interval_end p)) ps)"
    "\<forall>p \<in> set ps. storable_point p
      \<and> (let xs = history_at r (time_of_day (pp_interval_start p))
         in if xs = [] then p = unobserved_point (pp_interval_start p) (pp_interval_end p) else point_sound cfg xs p)"
proof -
  let ?slots = "horizon_slots (fq_horizon_start r) (fq_horizon_end r) (fq_interval r)"
  have i: "0 < fq_interval r" using a by (simp add: answerable_def)
  have t: "tiles (fq_horizon_start r) (fq_horizon_end r) (fq_interval r) ?slots" by (rule horizon_slots_tile [OF i])
  define f where "f = (\<lambda>(x, y). SOME p. interval_point cfg (history_at r) x y = Inr p)"
  have ok: "datetime_ok (fq_horizon_start r)" "datetime_ok (fq_horizon_end r + fq_interval r)" using a by (simp_all add: answerable_def)
  have f: "interval_at (interval_point cfg (history_at r)) (fq_interval r) s = Inr (f s) \<and> storable_point (f s)
    \<and> pp_interval_start (f s) = fst s \<and> pp_interval_end (f s) = snd s
    \<and> (if history_at r (time_of_day (fst s)) = [] then f s = unobserved_point (fst s) (snd s)
       else point_sound cfg (history_at r (time_of_day (fst s))) (f s))" if "s \<in> set ?slots" for s
  proof -
    from tiles_starts [OF t] that have "fst s < snd s" "snd s \<le> fst s + fq_interval r" by (auto simp: case_prod_beta)
    from interval_point_sound [OF a this] interval_in_range [OF t i ok that] show ?thesis by (cases s) (auto simp: f_def)
  qed
  have "mapE (interval_at (interval_point cfg (history_at r)) (fq_interval r)) ?slots = Inr (map f ?slots)"
    by (rule mapE_Inr) (use f in blast)
  then have "baseline_predict cfg r = Some (Inr \<lparr>fz_forecast_type = fq_forecast_type r, fz_provider = bc_name cfg,
      fz_model_version = bc_model_version cfg, fz_generated_at = fq_horizon_start r, fz_points = map f ?slots\<rparr>)"
    using a by (simp add: baseline_predict_def horizon_points_eq [OF i] group_by_time_of_day_eq answerable_def)
  moreover have "map (\<lambda>p. (pp_interval_start p, pp_interval_end p)) (map f ?slots) = ?slots"
  proof -
    have "(pp_interval_start (f s), pp_interval_end (f s)) = s" if "s \<in> set ?slots" for s
      using f [OF that] by (simp add: prod_eq_iff)
    then show ?thesis unfolding map_map comp_def by (intro map_idI)
  qed
  moreover have "\<forall>p \<in> set (map f ?slots). storable_point p
      \<and> (let xs = history_at r (time_of_day (pp_interval_start p))
         in if xs = [] then p = unobserved_point (pp_interval_start p) (pp_interval_end p) else point_sound cfg xs p)"
  proof
    fix p assume "p \<in> set (map f ?slots)"
    then obtain s where s: "s \<in> set ?slots" "p = f s" by auto
    from f [OF s(1)] show "storable_point p
      \<and> (let xs = history_at r (time_of_day (pp_interval_start p))
         in if xs = [] then p = unobserved_point (pp_interval_start p) (pp_interval_end p) else point_sound cfg xs p)"
      by (simp add: s(2) Let_def unobserved_point_def split: if_splits)
  qed
  ultimately show thesis using t by (intro that [of "map f ?slots"]) simp_all
qed

lemma tiles_nonempty: "tiles start stop interval slots \<Longrightarrow> start < stop \<Longrightarrow> slots \<noteq> []"
  by auto

interpretation same_period: sound_provider "baseline_provider obj cfg" "answerable cfg"
proof
  fix r assume a: "answerable cfg r"
  from baseline_answers [OF a] obtain ps where ps: "baseline_predict cfg r = Some (Inr \<lparr>fz_forecast_type = fq_forecast_type r,
      fz_provider = bc_name cfg, fz_model_version = bc_model_version cfg, fz_generated_at = fq_horizon_start r, fz_points = ps\<rparr>)"
    "tiles (fq_horizon_start r) (fq_horizon_end r) (fq_interval r) (map (\<lambda>p. (pp_interval_start p, pp_interval_end p)) ps)"
    "\<forall>p \<in> set ps. storable_point p" by metis
  from tiles_starts [OF ps(2)] have st: "sorted_wrt (<) (map pp_interval_start ps)"
    "\<forall>p \<in> set ps. fq_horizon_start r \<le> pp_interval_start p \<and> pp_interval_start p < pp_interval_end p
      \<and> pp_interval_end p \<le> fq_horizon_end r" by (simp_all add: comp_def)
  have "ps \<noteq> []" using tiles_nonempty [OF ps(2)] a by (auto simp: answerable_def)
  moreover have "\<forall>p \<in> set ps. point_valid r p"
    using st(2) ps(3) by (auto simp: point_valid_def storable_point_def val_simps split: option.splits)
  ultimately show "\<exists>res. pv_predict (baseline_provider obj cfg) r = Inr res \<and> well_predicted r res"
    using ps(1,3) st(1) a by (simp add: baseline_provider_def well_predicted_def answerable_def config_ok_def)
qed

section \<open>The properties\<close>

text \<open>C31. The loop over the horizon ends exactly when it should. With a positive interval it returns for
  every horizon, having made one prediction per interval, and the intervals tile the horizon: they
  start where the horizon starts, follow one another without gap or overlap, are all of the requested
  length but the last, which ends with the horizon; an interval from which one more length leaves the
  years 1 to 9999 raises \<open>OverflowError\<close> instead, and none does when the end of the horizon plus one
  length is an instant. With an interval of no length and a prediction that never raises it returns on
  no horizon that is not over. With a negative interval it always raises on such a horizon, with
  \<open>OverflowError\<close> before year 1 when no prediction raises first.\<close>

theorem horizon_loop_returns:
  assumes "datetime_ok start"
  shows "(0 < interval \<longrightarrow> (\<exists>slots. tiles start stop interval slots
        \<and> horizon_points body start stop interval
            = Some (mapE (\<lambda>(a, b). if datetime_ok (a + interval) then body a b else Inl PyOverflowError) slots)
        \<and> (datetime_ok (stop + interval) \<longrightarrow>
             horizon_points body start stop interval = Some (mapE (\<lambda>(a, b). body a b) slots))))
   \<and> (interval = 0 \<longrightarrow> start < stop \<longrightarrow> (\<forall>a b. returns (body a b)) \<longrightarrow> horizon_points body start stop interval = None)
   \<and> (interval < 0 \<longrightarrow> start < stop \<longrightarrow>
        (\<exists>e. horizon_points body start stop interval = Some (Inl e) \<and> ((\<forall>a b. returns (body a b)) \<longrightarrow> e = PyOverflowError)))"
proof (intro conjI impI)
  let ?slots = "horizon_slots start stop interval"
  assume i: "0 < interval"
  note t = horizon_slots_tile [OF i, of start stop]
  have "interval_at body interval = (\<lambda>(a, b). if datetime_ok (a + interval) then body a b else Inl PyOverflowError)"
    by (auto simp: interval_at_def datetime_plus_def)
  moreover have "mapE (interval_at body interval) ?slots = mapE (\<lambda>(a, b). body a b) ?slots" if "datetime_ok (stop + interval)"
    using interval_in_range [OF t i assms that] by (intro mapE_cong) auto
  ultimately show "\<exists>slots. tiles start stop interval slots
        \<and> horizon_points body start stop interval
            = Some (mapE (\<lambda>(a, b). if datetime_ok (a + interval) then body a b else Inl PyOverflowError) slots)
        \<and> (datetime_ok (stop + interval) \<longrightarrow>
             horizon_points body start stop interval = Some (mapE (\<lambda>(a, b). body a b) slots))"
    using t horizon_points_eq [OF i, of body start stop] by auto
qed (use horizon_points_endless [of body start stop interval] assms horizon_points_backwards in fastforce)+

text \<open>C30. What the baseline predicts. Asked with a positive interval of up to a day over a horizon within
  the calendar, a history of powers of up to 100,000 MW that has the samples it wants, and a capacity
  that is not negative, the provider returns a prediction of the requested type whose points tile the
  horizon. Each point rests on the history of its own time of day alone: with none it expects no power
  with a confidence of zero; otherwise its power is their mean, for samples with the four decimals the tables
  store rounded once to 28 digits, not negative and within the capacity, to a thousandth, its bounds enclose the power, are not negative and stay under the capacity, and its confidence is
  between 0.05 and 1.\<close>

theorem baseline_predicts:
  assumes "answerable cfg r"
  shows "\<exists>res. baseline_predict cfg r = Some (Inr res) \<and> fz_forecast_type res = fq_forecast_type r
    \<and> tiles (fq_horizon_start r) (fq_horizon_end r) (fq_interval r)
        (map (\<lambda>p. (pp_interval_start p, pp_interval_end p)) (fz_points res))
    \<and> (\<forall>p \<in> set (fz_points res).
         let xs = history_at r (time_of_day (pp_interval_start p))
         in if xs = [] then p = unobserved_point (pp_interval_start p) (pp_interval_end p) else point_sound cfg xs p)"
proof -
  from baseline_answers [OF assms] obtain ps where ps: "baseline_predict cfg r = Some (Inr \<lparr>fz_forecast_type = fq_forecast_type r,
      fz_provider = bc_name cfg, fz_model_version = bc_model_version cfg, fz_generated_at = fq_horizon_start r, fz_points = ps\<rparr>)"
    "tiles (fq_horizon_start r) (fq_horizon_end r) (fq_interval r) (map (\<lambda>p. (pp_interval_start p, pp_interval_end p)) ps)"
    "\<forall>p \<in> set ps. storable_point p
      \<and> (let xs = history_at r (time_of_day (pp_interval_start p))
         in if xs = [] then p = unobserved_point (pp_interval_start p) (pp_interval_end p) else point_sound cfg xs p)" .
  then show ?thesis by (intro exI [of _ "\<lparr>fz_forecast_type = fq_forecast_type r, fz_provider = bc_name cfg,
      fz_model_version = bc_model_version cfg, fz_generated_at = fq_horizon_start r, fz_points = ps\<rparr>"]) simp
qed

text \<open>C29. A baseline run completes. Whenever the forecasting service accepts a run of the baseline provider
  over such a request, with fresh identifiers for its points, the run ends COMPLETED: the prediction
  passes the service's validation, every point passes every constraint of the table, and the points
  are stored behind the old ones with the intervals of the prediction.\<close>

theorem baseline_run_completes:
  assumes "forecast_ok db" and "resolve_provider providers configured choice = Inr (baseline_provider obj cfg)"
    and "start_run (baseline_provider obj cfg) order now run_id db = Inr db1"
    and "answerable cfg (forecast_request_of order db1)"
    and "inj fresh" and "\<forall>k. \<not> known fp_id (t_forecast_points db) (fresh k)"
  shows "\<exists>res db2 r rows. pv_predict (baseline_provider obj cfg) (forecast_request_of order db1) = Inr res
    \<and> run_forecast providers configured describe choice order now run_id fresh db = (db2, Inr r)
    \<and> fr_status r = COMPLETED \<and> fetch fr_id (t_forecast_runs db2) run_id = Some r
    \<and> t_forecast_points db2 = t_forecast_points db @ rows
    \<and> map fp_interval_start rows = map pp_interval_start (fz_points res)"
  using assms by (rule same_period.run_completes)

section \<open>Instances\<close>

definition demo_baseline :: baseline_config where
  "demo_baseline = baseline_init ''baseline'' ''1.0.0'' 7 0 (Some (Dec 5 0))"

definition demo_forecast_request :: forecast_request where
  "demo_forecast_request =
     \<lparr>fq_site_id = 5, fq_forecast_type = SOLAR, fq_horizon_start = 86400000000, fq_horizon_end = 88000000000,
      fq_interval = 900000000,
      fq_history = [\<lparr>ho_interval_start = 0, ho_interval_end = 900000000, ho_generation_kw = Some (Dec 30 (-1)),
                     ho_load_kw = None, ho_energy_kwh = None\<rparr>]\<rparr>"

lemma horizon_loop_returns_witness:
  "horizon_points (\<lambda>a b. Inr (unobserved_point a b)) 0 1 0 = None
   \<and> horizon_points (\<lambda>a b. Inr (unobserved_point a b)) 0 1 (- 86400000000) = Some (Inl PyOverflowError)
   \<and> (\<exists>slots. tiles 0 2000000000 900000000 slots
       \<and> horizon_points (\<lambda>a b. Inr (unobserved_point a b)) 0 2000000000 900000000
           = Some (mapE (\<lambda>(a, b). Inr (unobserved_point a b)) slots))"
proof -
  have "datetime_ok 0" "datetime_ok (2000000000 + 900000000)" by (simp_all add: datetime_ok_def)
  with horizon_loop_returns [where start = 0 and interval = 0 and body = "\<lambda>a b. Inr (unobserved_point a b)" and stop = 1]
    horizon_loop_returns [where start = 0 and interval = "- 86400000000" and body = "\<lambda>a b. Inr (unobserved_point a b)" and stop = 1]
    horizon_loop_returns [where start = 0 and interval = 900000000 and body = "\<lambda>a b. Inr (unobserved_point a b)" and stop = 2000000000]
  show ?thesis by auto
qed

lemma demo_answerable: "answerable demo_baseline demo_forecast_request"
proof -
  have "rep28 5" using rep28_int [of 5] by simp
  then show ?thesis
    by (simp add: answerable_def config_ok_def capacity_ok_def demo_baseline_def baseline_init_def demo_forecast_request_def
        usable_samples_def val_def power_int_def datetime_ok_def)
qed

lemma baseline_predicts_witness:
  "\<exists>res. baseline_predict demo_baseline demo_forecast_request = Some (Inr res) \<and> fz_points res \<noteq> []"
proof -
  from baseline_predicts [OF demo_answerable] obtain res where res: "baseline_predict demo_baseline demo_forecast_request = Some (Inr res)"
    "tiles 86400000000 88000000000 900000000 (map (\<lambda>p. (pp_interval_start p, pp_interval_end p)) (fz_points res))"
    by (auto simp: demo_forecast_request_def)
  with tiles_nonempty [OF res(2)] show ?thesis by auto
qed

lemma baseline_run_completes_witness:
  "\<exists>db2 r. run_forecast Map.empty '''' (\<lambda>_. ''e'') (Given_provider (baseline_provider 0 demo_baseline)) demo_order 0 30 id
      (demo_forecasts [] []) = (db2, Inr r) \<and> fr_status r = COMPLETED"
proof -
  let ?p = "baseline_provider 0 demo_baseline" and ?db = "demo_forecasts [] []"
  have "returns (start_run ?p demo_order 0 30 ?db)"
    using demo_started [of "[]"]
    by (simp add: start_run_def baseline_provider_def demo_provider_def demo_baseline_def baseline_init_def baseline_supports_def
        demo_order_def returns_bindE insert_run_def varchar_def run_checks_def)
  then obtain db1 where s: "start_run ?p demo_order 0 30 ?db = Inr db1" by (auto simp: returns_iff)
  then have "t_readings db1 = []" "t_meters db1 = t_meters ?db"
    by (auto elim!: start_run_eq simp: demo_forecasts_def demo_telemetry_defs telemetry_db.defs forecast_db.defs)
  then have "gather_history db1 5 0 DEFAULT_HISTORY_WINDOW = []"
    by (simp add: gather_history_def list_for_site_def site_window_def site_scoped_def valid_only_def)
  moreover have "rep28 5" using rep28_int [of 5] by simp
  ultimately have "answerable demo_baseline (forecast_request_of demo_order db1)"
    by (simp add: answerable_def config_ok_def capacity_ok_def demo_baseline_def baseline_init_def forecast_request_of_def
        usable_samples_def val_def power_int_def demo_order_def DEFAULT_INTERVAL_def datetime_ok_def)
  from baseline_run_completes [OF _ _ s this, of Map.empty "''''" "Given_provider ?p" id "\<lambda>_. ''e''"] show ?thesis
    by (auto simp: forecast_ok_def demo_forecasts_def forecast_db.defs telemetry_db.defs known_def)
qed

end
