(* ===== verification/Csv_Reader.thy ===== *)
theory Csv_Reader
  imports Canonical_Text
begin

text \<open>
  Python's \<open>csv\<close> module as the meter adapter uses it: the reader's automaton for the excel dialect
  (comma, double quotes doubled inside quotes, not strict), which consumes as many lines as a record
  has, and \<open>DictReader\<close> over it. A text stream is its list of lines; the only error of this dialect
  is a stray carriage return or a field beyond the limit.
\<close>

section \<open>Lines\<close>

text \<open>The lines of a stream without newline translation, each with the newline that ends it.\<close>

fun text_lines :: "string \<Rightarrow> string list" where
  "text_lines [] = []"
| "text_lines (c # t) =
     (if c = CHR 0x0A then [c] # text_lines t
      else (case text_lines t of [] \<Rightarrow> [[c]] | l # ls \<Rightarrow> (c # l) # ls))"

section \<open>The automaton\<close>

datatype csv_state = START_RECORD | START_FIELD | IN_FIELD | IN_QUOTED_FIELD | QUOTE_IN_QUOTED_FIELD | EAT_CRNL

text \<open>The state, the field being read (latest character first) and the fields read (latest first).\<close>

type_synonym csv_parser = "csv_state \<times> string \<times> string list"

definition csv_start :: csv_parser where
  "csv_start = (START_RECORD, [], [])"

definition csv_field_limit :: int where
  "csv_field_limit = 131072"

definition csv_add :: "char \<Rightarrow> csv_state \<Rightarrow> csv_parser \<Rightarrow> csv_parser result" where
  "csv_add c s = (\<lambda>(_, field, fields).
     if csv_field_limit \<le> int (length field) then Inl AdapterParseError else Inr (s, c # field, fields))"

definition csv_save :: "csv_state \<Rightarrow> csv_parser \<Rightarrow> csv_parser" where
  "csv_save s = (\<lambda>(_, field, fields). (s, [], rev field # fields))"

text \<open>The end of a line is passed as \<open>None\<close>.\<close>

definition is_newline :: "char option \<Rightarrow> bool" where
  "is_newline c \<longleftrightarrow> c = Some (CHR 0x0A) \<or> c = Some (CHR 0x0D)"

definition line_ended :: "char option \<Rightarrow> csv_parser \<Rightarrow> csv_parser" where
  "line_ended c = csv_save (if c = None then START_RECORD else EAT_CRNL)"

definition start_field :: "char option \<Rightarrow> csv_parser \<Rightarrow> csv_parser result" where
  "start_field c p =
     (case c of
        None \<Rightarrow> Inr (line_ended c p)
      | Some ch \<Rightarrow>
          if is_newline c then Inr (line_ended c p)
          else if ch = CHR 0x22 then Inr (IN_QUOTED_FIELD, snd p)
          else if ch = CHR '','' then Inr (csv_save START_FIELD p)
          else csv_add ch IN_FIELD p)"

definition csv_step :: "char option \<Rightarrow> csv_parser \<Rightarrow> csv_parser result" where
  "csv_step c p =
     (case fst p of
        START_RECORD \<Rightarrow>
          if c = None then Inr p
          else if is_newline c then Inr (EAT_CRNL, snd p)
          else start_field c p
      | START_FIELD \<Rightarrow> start_field c p
      | IN_FIELD \<Rightarrow>
          (case c of
             None \<Rightarrow> Inr (line_ended c p)
           | Some ch \<Rightarrow>
               if is_newline c then Inr (line_ended c p)
               else if ch = CHR '','' then Inr (csv_save START_FIELD p)
               else csv_add ch IN_FIELD p)
      | IN_QUOTED_FIELD \<Rightarrow>
          (case c of
             None \<Rightarrow> Inr p
           | Some ch \<Rightarrow> if ch = CHR 0x22 then Inr (QUOTE_IN_QUOTED_FIELD, snd p) else csv_add ch IN_QUOTED_FIELD p)
      | QUOTE_IN_QUOTED_FIELD \<Rightarrow>
          (case c of
             None \<Rightarrow> Inr (line_ended c p)
           | Some ch \<Rightarrow>
               if ch = CHR 0x22 then csv_add ch IN_QUOTED_FIELD p
               else if ch = CHR '','' then Inr (csv_save START_FIELD p)
               else if is_newline c then Inr (line_ended c p)
               else csv_add ch IN_FIELD p)
      | EAT_CRNL \<Rightarrow>
          if c = None then Inr (START_RECORD, snd p)
          else if is_newline c then Inr p
          else Inl AdapterParseError)"

definition csv_line :: "string \<Rightarrow> csv_parser \<Rightarrow> csv_parser result" where
  "csv_line l p = foldE csv_step (map Some l @ [None]) p"

text \<open>
  \<open>next(reader)\<close>: the fields of the next record with the lines left over, \<open>None\<close> at the end of
  the stream. A quoted field the stream ends in is closed there.
\<close>

fun csv_record_from :: "csv_parser \<Rightarrow> string list \<Rightarrow> (string list option \<times> string list) result" where
  "csv_record_from p [] =
     (if fst (snd p) \<noteq> [] \<or> fst p = IN_QUOTED_FIELD
      then Inr (Some (rev (rev (fst (snd p)) # snd (snd p))), []) else Inr (None, []))"
| "csv_record_from p (l # ls) =
     (case csv_line l p of
        Inl e \<Rightarrow> Inl e
      | Inr q \<Rightarrow> if fst q = START_RECORD then Inr (Some (rev (snd (snd q))), ls) else csv_record_from q ls)"

definition csv_record :: "string list \<Rightarrow> (string list option \<times> string list) result" where
  "csv_record = csv_record_from csv_start"

section \<open>Rows as dictionaries\<close>

text \<open>
  A row: its value under every field name (\<open>None\<close> where the record was short; of two columns of
  one name the later counts) and, under the key \<open>None\<close>, the fields the record had beyond the names.
\<close>

record csv_row =
  cr_cells :: "(string \<times> string option) list"
  cr_rest :: "string list"

definition dict_row :: "string list \<Rightarrow> string list \<Rightarrow> csv_row" where
  "dict_row names fs =
     \<lparr>cr_cells = zip names (map Some fs @ replicate (length names - length fs) None),
      cr_rest = drop (length names) fs\<rparr>"

text \<open>\<open>row.get(column)\<close>, and \<open>any(row.values())\<close>\<close>

definition cell :: "csv_row \<Rightarrow> string \<Rightarrow> string option" where
  "cell row column =
     (case map_of (rev (cr_cells row)) column of None \<Rightarrow> None | Some v \<Rightarrow> v)"

definition has_content :: "csv_row \<Rightarrow> bool" where
  "has_content row \<longleftrightarrow>
     list_ex (\<lambda>name. cell row name \<noteq> None \<and> cell row name \<noteq> Some []) (map fst (cr_cells row)) \<or> cr_rest row \<noteq> []"

text \<open>What the loop over the reader meets: the rows, and the error that ends them early, if any.\<close>

lemma csv_record_from_shorter:
  "csv_record_from p ls = Inr (Some fs, ls') \<Longrightarrow> length ls' < length ls \<or> ls = []"
  by (induction p ls rule: csv_record_from.induct) (auto split: sum.splits if_splits)

lemma csv_record_shorter: "csv_record (l # ls) = Inr (Some fs, ls') \<Longrightarrow> length ls' < Suc (length ls)"
  unfolding csv_record_def by (drule csv_record_from_shorter) simp

function csv_rows :: "string list \<Rightarrow> string list \<Rightarrow> csv_row list \<times> exn option" where
  "csv_rows names [] = ([], None)"
| "csv_rows names (l # ls) =
     (case csv_record (l # ls) of
        Inl e \<Rightarrow> ([], Some e)
      | Inr (None, _) \<Rightarrow> ([], None)
      | Inr (Some fs, ls') \<Rightarrow>
          if fs = [] then csv_rows names ls'
          else (case csv_rows names ls' of (rows, e) \<Rightarrow> (dict_row names fs # rows, e)))"
  by pat_completeness auto
termination
  by (relation "measure (\<lambda>(names, ls). length ls)") (auto dest: csv_record_shorter)

declare csv_rows.simps(2) [simp del]

text \<open>What the interpreter reads from the same texts.\<close>

lemma csv_examples:
  "csv_record (text_lines ''a,b'') = Inr (Some [''a'', ''b''], [])"
  "csv_record [''a,'' @ [CHR 0x22] @ ''x,y'' @ [CHR 0x22, CHR 0x22] @ ''z'' @ [CHR 0x22, CHR 0x0A], ''1''] =
     Inr (Some [''a'', ''x,y'' @ [CHR 0x22] @ ''z''], [''1''])"
  "csv_record [''a'' @ [CHR 0x0D] @ ''b''] = Inl AdapterParseError"
  by code_simp+

end
