(* ===== verification/Python_Parsing.thy ===== *)
theory Python_Parsing
  imports Canonical_Text Doubles
begin

text \<open>
  How Python reads values from text: \<open>str\<close> methods, \<open>Decimal\<close>, \<open>float\<close>, \<open>UUID\<close>,
  \<open>datetime.fromisoformat\<close>, \<open>strptime\<close> and \<open>fromtimestamp\<close>, as CPython 3.12 implements them. A text
  is a list of characters of code below 256. \<open>None\<close> is the \<open>ValueError\<close> of the function.
\<close>

section \<open>Characters and texts\<close>

definition char_code :: "char \<Rightarrow> int" where
  "char_code c = of_char c"

definition is_space :: "char \<Rightarrow> bool" where
  "is_space c \<longleftrightarrow>
     (let n = char_code c in 9 \<le> n \<and> n \<le> 13 \<or> 28 \<le> n \<and> n \<le> 32 \<or> n = 133 \<or> n = 160)"

definition is_digit :: "char \<Rightarrow> bool" where
  "is_digit c \<longleftrightarrow> 48 \<le> char_code c \<and> char_code c \<le> 57"

definition lower_char :: "char \<Rightarrow> char" where
  "lower_char c =
     (let n = char_code c
      in if 65 \<le> n \<and> n \<le> 90 \<or> 192 \<le> n \<and> n \<le> 222 \<and> n \<noteq> 215 then char_of (n + 32) else c)"

definition strip_where :: "(char \<Rightarrow> bool) \<Rightarrow> string \<Rightarrow> string" where
  "strip_where p t = rev (dropWhile p (rev (dropWhile p t)))"

definition strip :: "string \<Rightarrow> string" where
  "strip = strip_where is_space"

text \<open>\<open>text.replace(old, new)\<close> for an \<open>old\<close> that is not empty\<close>

fun replace_text :: "string \<Rightarrow> string \<Rightarrow> string \<Rightarrow> string" where
  "replace_text old new [] = []"
| "replace_text old new (c # t) =
     (if old \<noteq> [] \<and> take (length old) (c # t) = old
      then new @ replace_text old new (drop (length old) (c # t))
      else c # replace_text old new t)"

section \<open>Numbers\<close>

definition digits_value :: "string \<Rightarrow> int" where
  "digits_value t = foldl (\<lambda>n c. 10 * n + (char_code c - 48)) 0 t"

definition signed_text :: "string \<Rightarrow> int \<times> string" where
  "signed_text t =
     (case t of [] \<Rightarrow> (1, [])
      | c # u \<Rightarrow> if c = CHR ''-'' then (-1, u) else if c = CHR ''+'' then (1, u) else (1, t))"

definition exponent_text :: "string \<Rightarrow> int option" where
  "exponent_text t =
     (case t of [] \<Rightarrow> Some 0
      | c # u \<Rightarrow>
          (case signed_text u of (sg, ds) \<Rightarrow>
             if (c = CHR ''e'' \<or> c = CHR ''E'') \<and> ds \<noteq> [] \<and> list_all is_digit ds
             then Some (sg * digits_value ds) else None))"

definition fraction_text :: "string \<Rightarrow> string \<times> string" where
  "fraction_text t =
     (case t of [] \<Rightarrow> ([], [])
      | c # u \<Rightarrow> if c = CHR ''.'' then (takeWhile is_digit u, dropWhile is_digit u) else ([], t))"

text \<open>Digits with an optional sign, point and exponent.\<close>

definition numeral_text :: "string \<Rightarrow> decimal option" where
  "numeral_text t =
     (case signed_text t of (sg, u) \<Rightarrow>
        (case fraction_text (dropWhile is_digit u) of (places, rest) \<Rightarrow>
           let ds = takeWhile is_digit u @ places
           in if ds = [] then None
              else (case exponent_text rest of
                      None \<Rightarrow> None
                    | Some e \<Rightarrow> Some (Dec (sg * digits_value ds) (e - int (length places))))))"

text \<open>
  \<open>Decimal(text)\<close> of a stripped text, where it is a finite number: underscores are ignored, and the
  exponent is limited as on a 64-bit machine.
\<close>

definition decimal_of_text :: "string \<Rightarrow> decimal option" where
  "decimal_of_text t =
     (case numeral_text (filter (\<lambda>c. c \<noteq> CHR ''_'') t) of
        None \<Rightarrow> None
      | Some d \<Rightarrow>
          if - 1999999999999999997 \<le> dexp d \<and> dexp d + int (dlen \<bar>coeff d\<bar>) - 1 \<le> 999999999999999999
          then Some d else None)"

text \<open>An underscore stands between two digits.\<close>

fun underscores_ok :: "bool \<Rightarrow> string \<Rightarrow> bool" where
  "underscores_ok after_digit [] \<longleftrightarrow> True"
| "underscores_ok after_digit (c # t) \<longleftrightarrow>
     (c = CHR ''_'' \<longrightarrow> after_digit \<and> t \<noteq> [] \<and> is_digit (hd t)) \<and> underscores_ok (is_digit c) t"

text \<open>\<open>float(text)\<close> of a stripped text, where it is finite\<close>

definition finite_float :: "string \<Rightarrow> decimal option" where
  "finite_float t =
     (if \<not> underscores_ok False t then None
      else (case numeral_text (filter (\<lambda>c. c \<noteq> CHR ''_'') t) of
              None \<Rightarrow> None
            | Some d \<Rightarrow> let x = to_double d in if Dec \<bar>coeff x\<bar> (dexp x) < Dec (2 ^ 1024) 0 then Some x else None))"

section \<open>UUIDs\<close>

definition hex_value :: "char \<Rightarrow> int option" where
  "hex_value c =
     (let n = char_code c
      in if is_digit c then Some (n - 48)
         else if 97 \<le> n \<and> n \<le> 102 then Some (n - 87)
         else if 65 \<le> n \<and> n \<le> 70 then Some (n - 55) else None)"

text \<open>The digits of \<open>int(text, 16)\<close>, which single underscores may separate.\<close>

fun hex_digits :: "bool \<Rightarrow> int \<Rightarrow> string \<Rightarrow> int option" where
  "hex_digits after_digit n [] = (if after_digit then Some n else None)"
| "hex_digits after_digit n (c # t) =
     (if c = CHR ''_'' then (if after_digit then hex_digits False n t else None)
      else (case hex_value c of None \<Rightarrow> None | Some v \<Rightarrow> hex_digits True (16 * n + v) t))"

definition drop_underscore :: "string \<Rightarrow> string" where
  "drop_underscore t = (case t of c # u \<Rightarrow> if c = CHR ''_'' then u else t | [] \<Rightarrow> [])"

definition hex_int :: "string \<Rightarrow> int option" where
  "hex_int t =
     (case signed_text (strip t) of (sg, u) \<Rightarrow>
        let ds = (if take 2 u = ''0x'' \<or> take 2 u = ''0X'' then drop_underscore (drop 2 u) else u)
        in map_option (\<lambda>n. sg * n) (hex_digits False 0 ds))"

definition uuid_of_text :: "string \<Rightarrow> uuid option" where
  "uuid_of_text t =
     (let u = replace_text ''uuid:'' [] (replace_text ''urn:'' [] t);
          h = replace_text ''-'' [] (strip_where (\<lambda>c. c = CHR ''{'' \<or> c = CHR ''}'') u)
      in if length h \<noteq> 32 then None
         else (case hex_int h of
                 None \<Rightarrow> None
               | Some n \<Rightarrow> if 0 \<le> n \<and> n < 16 ^ 32 then Some (nat n) else None))"

section \<open>Dates\<close>

fun read_digits :: "nat \<Rightarrow> int \<Rightarrow> string \<Rightarrow> (int \<times> string) option" where
  "read_digits 0 n t = Some (n, t)"
| "read_digits (Suc k) n [] = None"
| "read_digits (Suc k) n (c # t) =
     (if is_digit c then read_digits k (10 * n + (char_code c - 48)) t else None)"

definition date_ok :: "int \<times> int \<times> int \<Rightarrow> bool" where
  "date_ok = (\<lambda>(y, m, d). 1 \<le> y \<and> y \<le> 9999 \<and> 1 \<le> m \<and> m \<le> 12 \<and> 1 \<le> d \<and> d \<le> days_in_month (is_leap y) m)"

definition day_of_date :: "int \<times> int \<times> int \<Rightarrow> int option" where
  "day_of_date ymd = (if date_ok ymd then Some (ymd2ord ymd) else None)"

text \<open>The Monday of the first ISO week of a year, and the day of an ISO date.\<close>

definition first_monday :: "int \<Rightarrow> int" where
  "first_monday y =
     (let first = ymd2ord (y, 1, 1); weekday = (first + 6) mod 7; monday = first - weekday
      in if 3 < weekday then monday + 7 else monday)"

definition day_of_iso_week :: "int \<Rightarrow> int \<Rightarrow> int \<Rightarrow> int option" where
  "day_of_iso_week y w d =
     (let first = ymd2ord (y, 1, 1) mod 7;
          long = first = 4 \<or> first = 3 \<and> is_leap y;
          n = first_monday y + (w - 1) * 7 + d - 1
      in if 1 \<le> y \<and> y \<le> 9999 \<and> 1 \<le> w \<and> (w \<le> 52 \<or> w = 53 \<and> long) \<and> 1 \<le> d \<and> d \<le> 7
            \<and> 1 \<le> n \<and> n \<le> 3652059
         then Some n else None)"

definition head :: "string \<Rightarrow> char" where
  "head t = (case t of [] \<Rightarrow> CHR 0x00 | c # _ \<Rightarrow> c)"

text \<open>
  A dash, where the date has dashes, and the text after it.
\<close>

definition dash :: "bool \<Rightarrow> string \<Rightarrow> string option" where
  "dash dashes t = (if \<not> dashes then Some t else if head t = CHR ''-'' then Some (tl t) else None)"

definition week_date :: "bool \<Rightarrow> int \<Rightarrow> nat \<Rightarrow> string \<Rightarrow> int option" where
  "week_date dashes y left t =
     (case read_digits 2 0 t of
        None \<Rightarrow> None
      | Some (w, u) \<Rightarrow>
          if left \<le> 2 then day_of_iso_week y w 1
          else Option.bind (dash dashes u) (\<lambda>u.
               Option.bind (read_digits 1 0 u) (\<lambda>(d, _). day_of_iso_week y w d)))"

definition month_date :: "bool \<Rightarrow> int \<Rightarrow> string \<Rightarrow> int option" where
  "month_date dashes y t =
     Option.bind (read_digits 2 0 t) (\<lambda>(m, u).
     Option.bind (dash dashes u) (\<lambda>u.
     Option.bind (read_digits 2 0 u) (\<lambda>(d, _). day_of_date (y, m, d))))"

text \<open>The date in the first \<open>n\<close> characters.\<close>

definition iso_date :: "nat \<Rightarrow> string \<Rightarrow> int option" where
  "iso_date n t =
     Option.bind (read_digits 4 0 t) (\<lambda>(y, u).
       let dashes = head u = CHR ''-'';
           u = (if dashes then tl u else u)
       in if head u = CHR ''W'' then week_date dashes y (n - (length t - length (tl u))) (tl u)
          else month_date dashes y u)"

text \<open>Where the date ends, for a text of at least seven characters.\<close>

definition separator_at :: "string \<Rightarrow> nat option" where
  "separator_at t =
     (let n = length t
      in if n = 7 then Some 7
         else if t ! 4 = CHR ''-'' then
           (if t ! 5 = CHR ''W'' then
              (if 8 < n \<and> t ! 8 = CHR ''-'' then
                 (if n = 9 then None else if 10 < n \<and> is_digit (t ! 10) then Some 8 else Some 10)
               else Some 8)
            else Some 10)
         else if t ! 4 = CHR ''W'' then
           (let p = 7 + length (takeWhile is_digit (drop 7 t))
            in if p < 9 then Some p else if even p then Some 7 else Some 8)
         else Some 8)"

section \<open>Times\<close>

text \<open>
  The clock \<open>HH[:MM[:SS[.ffffff]]]\<close> in the first \<open>n\<close> characters: its numbers, the microseconds, and
  whether text follows. Characters beyond the window are looked at as the code does.
\<close>

definition second_fraction :: "string \<Rightarrow> int \<Rightarrow> (int \<times> bool) option" where
  "second_fraction t n =
     (let k = nat (min n 6)
      in case read_digits k 0 t of
           None \<Rightarrow> None
         | Some (v, u) \<Rightarrow> Some (v * 10 ^ (6 - k), head (dropWhile is_digit u) \<noteq> CHR 0x00))"

definition then_fraction :: "int \<Rightarrow> string \<Rightarrow> int \<Rightarrow> (int list \<times> int \<times> bool) option" where
  "then_fraction v t n = map_option (\<lambda>(us, more). ([v], us, more)) (second_fraction t n)"

fun clock_from :: "nat \<Rightarrow> bool option \<Rightarrow> string \<Rightarrow> int \<Rightarrow> (int list \<times> int \<times> bool) option" where
  "clock_from left colons t n =
     (case read_digits 2 0 t of
        None \<Rightarrow> None
      | Some (v, u) \<Rightarrow>
          let c = head u; m = n - 3;
              sep = (case colons of None \<Rightarrow> c = CHR '':'' | Some b \<Rightarrow> b);
              next = (\<lambda>w k. case left of
                        0 \<Rightarrow> then_fraction v w k
                      | Suc l \<Rightarrow> map_option (\<lambda>(vs, us, more). (v # vs, us, more)) (clock_from l (Some sep) w k))
          in if m \<le> 0 then Some ([v], 0, c \<noteq> CHR 0x00)
             else if sep \<and> c = CHR '':'' then next (tl u) m
             else if c = CHR ''.'' \<or> c = CHR '','' then then_fraction v (tl u) m
             else if \<not> sep then next u (m + 1)
             else None)"

declare clock_from.simps [simp del]

text \<open>Hours, minutes, seconds and microseconds as microseconds.\<close>

definition clock_micros :: "int list \<Rightarrow> int \<Rightarrow> int" where
  "clock_micros vs us =
     (case vs @ [0, 0] of h # m # s # _ \<Rightarrow> ((h * 60 + m) * 60 + s) * 1000000 + us | _ \<Rightarrow> 0)"

definition clock_ok :: "int list \<Rightarrow> bool" where
  "clock_ok vs \<longleftrightarrow> hd vs < 24 \<and> list_all (\<lambda>v. v < 60) (tl vs)"

text \<open>An offset of no seconds is UTC, whatever its fraction.\<close>

definition offset_micros :: "bool \<Rightarrow> int list \<Rightarrow> int \<Rightarrow> int" where
  "offset_micros negative vs us =
     (if clock_micros vs 0 = 0 then 0 else (if negative then - 1 else 1) * clock_micros vs us)"

text \<open>A time with the offset of its zone, \<open>None\<close> for a time without one.\<close>

definition iso_time :: "string \<Rightarrow> (int \<times> int option) option" where
  "iso_time t =
     (let p = length (takeWhile (\<lambda>c. c \<noteq> CHR ''+'' \<and> c \<noteq> CHR ''-'' \<and> c \<noteq> CHR ''Z'') t); rest = drop p t
      in Option.bind (clock_from 2 None t (int p)) (\<lambda>(vs, us, more).
           let time = clock_micros vs us
           in if \<not> clock_ok vs then None
              else if rest = [] then (if more then None else Some (time, None))
              else if head rest = CHR ''Z'' then (if head (tl rest) \<noteq> CHR 0x00 then None else Some (time, Some 0))
              else Option.bind (clock_from 2 None (tl rest) (int (length (tl rest)))) (\<lambda>(zs, zus, zmore).
                   let offset = offset_micros (head rest = CHR ''-'') zs zus
                   in if zmore \<or> 86400000000 \<le> \<bar>offset\<bar> then None else Some (time, Some offset))))"

text \<open>
  \<open>datetime.fromisoformat\<close> looks at the UTF-8 bytes, the separator may be any character. The instant
  is given as if in UTC, with the offset of its zone if it has one.
\<close>

definition utf8_text :: "char \<Rightarrow> string" where
  "utf8_text c =
     (let n = char_code c in if n < 128 then [c] else [char_of (192 + n div 64), char_of (128 + n mod 64)])"

definition fromisoformat :: "string \<Rightarrow> (datetime \<times> timedelta option) option" where
  "fromisoformat text =
     (let t = concat (map utf8_text text)
      in if length t < 7 then None
         else
           Option.bind (separator_at t) (\<lambda>s.
           Option.bind (iso_date s t) (\<lambda>day.
             let midnight = (day - epoch_ordinal) * 86400000000
             in if length t \<le> s then Some (midnight, None)
                else Option.bind (iso_time (drop (if char_code (t ! s) < 128 then s + 1 else s + 2) t))
                       (\<lambda>(time, offset). Some (midnight + time, offset)))))"

section \<open>Patterns\<close>

text \<open>
  What a directive of \<open>strptime\<close> matches at the start of a text: the alternatives of its regular
  expression in their order, each with the text left over.
\<close>

definition two_digits :: "int \<Rightarrow> int \<Rightarrow> string \<Rightarrow> (int \<times> string) list" where
  "two_digits lo hi t =
     (case read_digits 2 0 t of None \<Rightarrow> [] | Some (v, u) \<Rightarrow> if lo \<le> v \<and> v \<le> hi then [(v, u)] else [])"

definition one_digit :: "int \<Rightarrow> string \<Rightarrow> (int \<times> string) list" where
  "one_digit lo t =
     (case read_digits 1 0 t of None \<Rightarrow> [] | Some (v, u) \<Rightarrow> if lo \<le> v then [(v, u)] else [])"

definition directive :: "char \<Rightarrow> string \<Rightarrow> (int \<times> string) list" where
  "directive f t =
     (if f = CHR ''Y'' then (case read_digits 4 0 t of None \<Rightarrow> [] | Some r \<Rightarrow> [r])
      else if f = CHR ''m'' then two_digits 10 12 t @ two_digits 1 9 t @ one_digit 1 t
      else if f = CHR ''d'' then
        two_digits 30 31 t @ two_digits 10 29 t @ two_digits 1 9 t @ one_digit 1 t
        @ (if head t = CHR '' '' then one_digit 1 (tl t) else [])
      else if f = CHR ''H'' then two_digits 20 23 t @ two_digits 0 19 t @ one_digit 0 t
      else if f = CHR ''M'' then two_digits 0 59 t @ one_digit 0 t
      else if f = CHR ''S'' then two_digits 60 61 t @ two_digits 0 59 t @ one_digit 0 t
      else [])"

text \<open>A blank of the format matches white space, as much of it as possible.\<close>

definition blanks :: "string \<Rightarrow> string list" where
  "blanks t = map (\<lambda>k. drop k t) (rev [1 ..< Suc (length (takeWhile is_space t))])"

fun pattern_matches :: "string \<Rightarrow> string \<Rightarrow> ((char \<times> int) list \<times> string) list" where
  "pattern_matches [] t = [([], t)]"
| "pattern_matches [f] t =
     (if f = CHR '' '' then map (Pair []) (blanks t)
      else if t \<noteq> [] \<and> lower_char (hd t) = lower_char f then [([], tl t)] else [])"
| "pattern_matches (f # g # fs) t =
     (if f = CHR ''%'' then
        concat (map (\<lambda>(v, u). map (\<lambda>(vs, r). ((g, v) # vs, r)) (pattern_matches fs u)) (directive g t))
      else if f = CHR '' '' then concat (map (pattern_matches (g # fs)) (blanks t))
      else if t \<noteq> [] \<and> lower_char (hd t) = lower_char f then pattern_matches (g # fs) (tl t)
      else [])"

text \<open>\<open>datetime.strptime\<close>: the first match has to be the whole text. The zone is left open.\<close>

definition strptime :: "string \<Rightarrow> string \<Rightarrow> datetime option" where
  "strptime fmt t =
     (case pattern_matches fmt t of
        [] \<Rightarrow> None
      | (vs, rest) # _ \<Rightarrow>
          let field = (\<lambda>f. case map_of vs f of None \<Rightarrow> 0 | Some v \<Rightarrow> v)
          in if rest \<noteq> [] \<or> 60 \<le> field (CHR ''S'') then None
             else map_option
                    (\<lambda>day. (day - epoch_ordinal) * 86400000000
                       + clock_micros [field (CHR ''H''), field (CHR ''M''), field (CHR ''S'')] 0)
                    (day_of_date (field (CHR ''Y''), field (CHR ''m''), field (CHR ''d''))))"

section \<open>Epochs\<close>

text \<open>
  \<open>datetime.fromtimestamp(x, tz=UTC)\<close> of a double: whole seconds, and the fraction in microseconds
  rounded half to even. Beyond 64 bits the number overflows, beyond a year of 32 bits \<open>gmtime\<close> fails.
\<close>

definition fromtimestamp :: "decimal \<Rightarrow> datetime result" where
  "fromtimestamp x =
     (let d = 10 ^ nat (- dexp x); n = coeff x * 10 ^ nat (dexp x);
          whole = sgn n * (\<bar>n\<bar> div d);
          us = quantized_even 0 (float_mult (Dec (n - whole * d) (min 0 (dexp x))) (Dec 1000000 0));
          seconds = (if 1000000 \<le> us then whole + 1 else if us < 0 then whole - 1 else whole);
          instant = seconds * 1000000 + us mod 1000000
      in if \<not> (- (2 ^ 63) \<le> seconds \<and> seconds < 2 ^ 63) then Inl PyOverflowError
         else if \<not> (- 67768040609740800 \<le> seconds \<and> seconds \<le> 67768036191676799) then Inl PyOSError
         else if \<not> datetime_ok instant then Inl PyValueError
         else Inr instant)"

end
