(* ===== verification/Csv_Adapter.thy ===== *)
theory Csv_Adapter
  imports Csv_Reader Python_Parsing Telemetry_Quality
begin

text \<open>
  The CSV telemetry adapter (\<open>adapters/meter/csv_adapter.py\<close>, with the failures and the batch of
  \<open>adapters/meter/contracts.py\<close>): headers are matched through synonyms, every row becomes one
  normalized reading or an error, which a strict run raises and a lenient run records with its line.
  Columns the reading does not carry (site and voltage) are looked up by the code and not used.
\<close>

section \<open>Headers\<close>

definition column_synonyms :: "string \<Rightarrow> string list" where
  "column_synonyms key =
     (case map_of
       [(''timestamp'', [''timestamp'', ''datetime'', ''date_time'', ''time'', ''ts'', ''reading_time'', ''interval_start'']),
        (''interval_start'', [''interval_start'', ''start_time'', ''start'']),
        (''interval_end'', [''interval_end'', ''end_time'', ''end'']),
        (''meter_id'', [''meter_id'', ''meter_uuid'', ''meter'', ''meter_id_ref'']),
        (''site_id'', [''site_id'', ''site_uuid'', ''site'']),
        (''energy_asset_id'', [''energy_asset_id'', ''asset_id'', ''asset_uuid'', ''pv_id'', ''solar_asset_id'']),
        (''generation_kw'', [''generation_kw'', ''gen_kw'', ''solar_kw'', ''pv_kw'', ''generation'', ''solar_generation_kw'']),
        (''load_kw'', [''load_kw'', ''demand_kw'', ''consumption_kw'', ''load'', ''power_demand_kw'']),
        (''grid_import_kw'', [''grid_import_kw'', ''import_kw'', ''grid_import'', ''imported_kw'']),
        (''grid_export_kw'', [''grid_export_kw'', ''export_kw'', ''grid_export'', ''exported_kw'']),
        (''energy_kwh'', [''energy_kwh'', ''kwh'', ''energy'', ''active_energy_kwh'']),
        (''voltage_pu'', [''voltage_pu'', ''v_pu'', ''voltage'']),
        (''battery_soc'', [''battery_soc'', ''soc'', ''battery_percentage'', ''state_of_charge''])] key of
        None \<Rightarrow> [key] | Some names \<Rightarrow> names)"

definition normalize_header :: "string \<Rightarrow> string" where
  "normalize_header raw =
     replace_text '' '' ''_'' (replace_text ''-'' ''_'' (map lower_char (strip raw)))"

text \<open>Of two headers of one normal form the later counts.\<close>

definition header_map :: "string list \<Rightarrow> string \<Rightarrow> string option" where
  "header_map names = map_of (rev (map (\<lambda>n. (normalize_header n, n)) names))"

definition find_column :: "string \<Rightarrow> (string \<Rightarrow> string option) \<Rightarrow> string option" where
  "find_column key headers =
     Option.bind (List.find (\<lambda>s. headers s \<noteq> None) (column_synonyms key)) headers"

section \<open>Values\<close>

definition invalid_at :: "nat \<Rightarrow> string \<Rightarrow> exn" where
  "invalid_at line field = AdapterValidationError (Some line) (Some field)"

definition common_formats :: "string list" where
  "common_formats =
     [''%Y-%m-%d %H:%M:%S'', ''%Y-%m-%d %H:%M'', ''%d/%m/%Y %H:%M:%S'', ''%d/%m/%Y %H:%M'',
      ''%Y/%m/%d %H:%M:%S'', ''%Y/%m/%d %H:%M'', ''%Y-%m-%dT%H:%M:%S'']"

fun first_format :: "string list \<Rightarrow> string \<Rightarrow> datetime option" where
  "first_format [] t = None"
| "first_format (f # fs) t = (case strptime f t of None \<Rightarrow> first_format fs t | Some v \<Rightarrow> Some v)"

definition parse_epoch :: "string \<Rightarrow> nat \<Rightarrow> datetime result" where
  "parse_epoch v line =
     (case finite_float v of
        None \<Rightarrow> Inl (invalid_at line ''timestamp'')
      | Some x \<Rightarrow>
          (case (if Dec 100000000000 0 < x then bindE (float_div x (Dec 1000 0)) fromtimestamp
                 else fromtimestamp x) of
             Inr t \<Rightarrow> Inr t
           | Inl e \<Rightarrow> Inl (if e = PyValueError \<or> e = PyOverflowError then invalid_at line ''timestamp'' else e)))"

definition parse_timestamp :: "string \<Rightarrow> nat \<Rightarrow> datetime result" where
  "parse_timestamp raw line =
     (let v = strip raw
      in if v = [] then Inl (invalid_at line ''timestamp'')
         else (case fromisoformat (replace_text ''Z'' ''+00:00'' v) of
                 Some (t, None) \<Rightarrow> Inr t
               | Some (t, Some offset) \<Rightarrow> datetime_plus t (- offset)
               | None \<Rightarrow>
                   (case first_format common_formats v of
                      Some t \<Rightarrow> Inr t | None \<Rightarrow> parse_epoch v line)))"

definition blank_value :: "string option \<Rightarrow> bool" where
  "blank_value raw \<longleftrightarrow> (case raw of None \<Rightarrow> True | Some t \<Rightarrow> strip t = [])"

text \<open>What a blank value stands for: the default, nothing where that is allowed, or an error.\<close>

definition when_blank :: "string \<Rightarrow> nat \<Rightarrow> 'a option \<Rightarrow> bool \<Rightarrow> 'a option result" where
  "when_blank field line fallback allow_none =
     (if fallback \<noteq> None then Inr fallback
      else if allow_none then Inr None else Inl (invalid_at line field))"

definition parse_decimal ::
  "string option \<Rightarrow> string \<Rightarrow> nat \<Rightarrow> decimal option \<Rightarrow> bool \<Rightarrow> bool \<Rightarrow> decimal option result" where
  "parse_decimal raw field line fallback allow_none non_negative =
     (if blank_value raw then when_blank field line fallback allow_none
      else (case decimal_of_text (strip (the raw)) of
              None \<Rightarrow> Inl (invalid_at line field)
            | Some d \<Rightarrow>
                if non_negative \<and> d < Dec 0 (-1) then Inl (invalid_at line field) else Inr (Some d)))"

definition parse_uuid :: "string option \<Rightarrow> string \<Rightarrow> nat \<Rightarrow> uuid option \<Rightarrow> bool \<Rightarrow> uuid option result" where
  "parse_uuid raw field line fallback allow_none =
     (if blank_value raw then when_blank field line fallback allow_none
      else (case uuid_of_text (strip (the raw)) of
              None \<Rightarrow> Inl (invalid_at line field) | Some u \<Rightarrow> Inr (Some u)))"

section \<open>The adapter\<close>

record telemetry_batch =
  nb_source_name :: string
  nb_readings :: "normalized_reading list"
  nb_total_records :: nat
  nb_errors :: "(nat \<times> exn) list"

definition normalized_count :: "telemetry_batch \<Rightarrow> nat" where
  "normalized_count b = length (nb_readings b)"

definition error_count :: "telemetry_batch \<Rightarrow> nat" where
  "error_count b = length (nb_errors b)"

record csv_adapter =
  ca_default_meter_id :: "uuid option"
  ca_default_site_id :: "uuid option"
  ca_default_energy_asset_id :: "uuid option"
  ca_default_interval_minutes :: int
  ca_source_name :: string
  ca_strict :: bool
  ca_last_batch :: telemetry_batch

definition csv_adapter_init :: "uuid option \<Rightarrow> uuid option \<Rightarrow> uuid option \<Rightarrow> int \<Rightarrow> string \<Rightarrow> bool \<Rightarrow> csv_adapter" where
  "csv_adapter_init meter site asset minutes source strict =
     \<lparr>ca_default_meter_id = meter, ca_default_site_id = site, ca_default_energy_asset_id = asset,
      ca_default_interval_minutes = minutes, ca_source_name = source, ca_strict = strict,
      ca_last_batch = \<lparr>nb_source_name = source, nb_readings = [], nb_total_records = 0, nb_errors = []\<rparr>\<rparr>"

text \<open>\<open>MeterReadingSource.read\<close>\<close>

definition csv_read :: "csv_adapter \<Rightarrow> datetime option \<Rightarrow> normalized_reading list" where
  "csv_read ad since =
     (let readings = sort_key nr_interval_start (nb_readings (ca_last_batch ad))
      in case since of None \<Rightarrow> readings | Some t \<Rightarrow> filter (\<lambda>r. t \<le> nr_interval_start r) readings)"

section \<open>A row\<close>

record csv_columns =
  cc_ts :: string
  cc_int_start :: "string option"
  cc_int_end :: "string option"
  cc_meter :: "string option"
  cc_asset :: "string option"
  cc_gen :: "string option"
  cc_load :: "string option"
  cc_import :: "string option"
  cc_export :: "string option"
  cc_energy :: "string option"
  cc_soc :: "string option"

definition map_columns :: "string \<Rightarrow> (string \<Rightarrow> string option) \<Rightarrow> csv_columns" where
  "map_columns ts headers =
     \<lparr>cc_ts = ts, cc_int_start = find_column ''interval_start'' headers,
      cc_int_end = find_column ''interval_end'' headers, cc_meter = find_column ''meter_id'' headers,
      cc_asset = find_column ''energy_asset_id'' headers, cc_gen = find_column ''generation_kw'' headers,
      cc_load = find_column ''load_kw'' headers, cc_import = find_column ''grid_import_kw'' headers,
      cc_export = find_column ''grid_export_kw'' headers, cc_energy = find_column ''energy_kwh'' headers,
      cc_soc = find_column ''battery_soc'' headers\<rparr>"

text \<open>\<open>row.get(column) if column else None\<close>, and the value where it is not empty.\<close>

definition raw_value :: "csv_row \<Rightarrow> string option \<Rightarrow> string option" where
  "raw_value row column = (case column of None \<Rightarrow> None | Some c \<Rightarrow> if c = [] then None else cell row c)"

definition given_value :: "csv_row \<Rightarrow> string option \<Rightarrow> string option" where
  "given_value row column =
     (case raw_value row column of None \<Rightarrow> None | Some t \<Rightarrow> if t = [] then None else Some t)"

definition row_interval :: "csv_adapter \<Rightarrow> csv_row \<Rightarrow> nat \<Rightarrow> csv_columns \<Rightarrow> datetime \<Rightarrow> (datetime \<times> datetime) result" where
  "row_interval ad row line cols ts =
     bindE (case given_value row (cc_int_start cols) of
              Some raw \<Rightarrow> parse_timestamp raw line | None \<Rightarrow> Inr ts) (\<lambda>start.
     bindE (case given_value row (cc_int_end cols) of
              Some raw \<Rightarrow> parse_timestamp raw line
            | None \<Rightarrow> datetime_plus start (ca_default_interval_minutes ad * 60000000)) (\<lambda>stop.
     if stop \<le> start then Inl (invalid_at line ''interval_end'') else Inr (start, stop)))"

text \<open>\<open>value or Decimal("0.0")\<close>\<close>

definition or_zero :: "decimal option \<Rightarrow> decimal" where
  "or_zero v = (case v of None \<Rightarrow> Dec 0 (-1) | Some d \<Rightarrow> if coeff d = 0 then Dec 0 (-1) else d)"

definition power_value :: "csv_row \<Rightarrow> nat \<Rightarrow> string option \<Rightarrow> string \<Rightarrow> decimal result" where
  "power_value row line column field =
     bindE (parse_decimal (raw_value row column) field line (Some (Dec 0 (-1))) False True) (\<lambda>v. Inr (or_zero v))"

text \<open>
  The difference of two powers read from text. \<open>decimal.Overflow\<close> is met like any other exception
  that is not the adapter's own.
\<close>

definition net_demand :: "decimal \<Rightarrow> decimal \<Rightarrow> decimal result" where
  "net_demand load gen =
     (let d = load - gen
      in if coeff d \<noteq> 0 \<and> 999999 < dexp d + int (dlen \<bar>coeff d\<bar>) - 1 then Inl PyOverflowError else Inr d)"

definition grid_flows :: "csv_row \<Rightarrow> nat \<Rightarrow> csv_columns \<Rightarrow> decimal \<Rightarrow> decimal \<Rightarrow> (decimal \<times> decimal) result" where
  "grid_flows row line cols gen load =
     (if raw_value row (cc_import cols) \<noteq> None \<or> raw_value row (cc_export cols) \<noteq> None
      then bindE (power_value row line (cc_import cols) ''grid_import_kw'') (\<lambda>i.
           bindE (power_value row line (cc_export cols) ''grid_export_kw'') (\<lambda>x. Inr (i, x)))
      else bindE (net_demand load gen) (\<lambda>net.
           Inr (if Dec 0 (-1) \<le> net then (net, Dec 0 (-1)) else (Dec 0 (-1), \<bar>net\<bar>))))"

definition soc_value :: "csv_row \<Rightarrow> nat \<Rightarrow> csv_columns \<Rightarrow> decimal option result" where
  "soc_value row line cols =
     bindE (parse_decimal (raw_value row (cc_soc cols)) ''battery_soc'' line None True True) (\<lambda>soc.
     if soc \<noteq> None \<and> \<not> (Dec 0 (-1) \<le> the soc \<and> the soc \<le> Dec 1000 (-1))
     then Inl (invalid_at line ''battery_soc'') else Inr soc)"

definition parse_row :: "csv_adapter \<Rightarrow> csv_row \<Rightarrow> nat \<Rightarrow> csv_columns \<Rightarrow> normalized_reading result" where
  "parse_row ad row line cols =
     (case cell row (cc_ts cols) of
        None \<Rightarrow> Inl (invalid_at line ''timestamp'')
      | Some raw_ts \<Rightarrow>
          if raw_ts = [] then Inl (invalid_at line ''timestamp'')
          else
            bindE (parse_timestamp raw_ts line) (\<lambda>ts.
            bindE (row_interval ad row line cols ts) (\<lambda>(start, stop).
            bindE (parse_uuid (raw_value row (cc_meter cols)) ''meter_id'' line (ca_default_meter_id ad) False) (\<lambda>meter.
            bindE (guardE (meter \<noteq> None) AssertionError) (\<lambda>_.
            bindE (parse_uuid (raw_value row (cc_asset cols)) ''energy_asset_id'' line
                     (ca_default_energy_asset_id ad) True) (\<lambda>asset.
            bindE (power_value row line (cc_gen cols) ''generation_kw'') (\<lambda>gen.
            bindE (power_value row line (cc_load cols) ''load_kw'') (\<lambda>load.
            bindE (grid_flows row line cols gen load) (\<lambda>(imp, exp).
            bindE (parse_decimal (raw_value row (cc_energy cols)) ''energy_kwh'' line None True True) (\<lambda>energy.
            bindE (soc_value row line cols) (\<lambda>soc.
            Inr \<lparr>nr_meter_id = the meter, nr_timestamp = ts, nr_interval_start = start, nr_interval_end = stop,
                 nr_source = IMPORT, nr_energy_asset_id = asset, nr_generation_kw = Some gen,
                 nr_load_kw = Some load, nr_grid_import_kw = Some imp, nr_grid_export_kw = Some exp,
                 nr_energy_kwh = energy, nr_battery_soc = soc, nr_source_unavailable = False\<rparr>)))))))))))"

section \<open>A stream\<close>

text \<open>An exception of a row as a strict run raises it.\<close>

definition raised_at :: "nat \<Rightarrow> exn \<Rightarrow> exn" where
  "raised_at line e =
     (case e of
        AdapterValidationError _ _ \<Rightarrow> e
      | AdapterParseError \<Rightarrow> e
      | _ \<Rightarrow> AdapterValidationError (Some line) None)"

record csv_progress =
  cp_readings :: "normalized_reading list"
  cp_errors :: "(nat \<times> exn) list"
  cp_total :: nat

definition row_step :: "csv_adapter \<Rightarrow> csv_columns \<Rightarrow> nat \<times> csv_row \<Rightarrow> csv_progress \<Rightarrow> csv_progress result" where
  "row_step ad cols = (\<lambda>(line, row) p.
     if \<not> has_content row then Inr p
     else
       let p = p\<lparr>cp_total := cp_total p + 1\<rparr>
       in (case parse_row ad row line cols of
             Inr r \<Rightarrow> Inr (p\<lparr>cp_readings := cp_readings p @ [r]\<rparr>)
           | Inl e \<Rightarrow> if ca_strict ad then Inl (raised_at line e)
                      else Inr (p\<lparr>cp_errors := cp_errors p @ [(line, e)]\<rparr>)))"

definition parse_rows ::
  "csv_adapter \<Rightarrow> csv_columns \<Rightarrow> csv_row list \<times> exn option \<Rightarrow> csv_progress result" where
  "parse_rows ad cols = (\<lambda>(rows, failure).
     bindE (foldE (row_step ad cols) (enumerate 2 rows) \<lparr>cp_readings = [], cp_errors = [], cp_total = 0\<rparr>) (\<lambda>p.
     case failure of Some e \<Rightarrow> Inl e | None \<Rightarrow> Inr p))"

definition input_error :: exn where
  "input_error = AdapterValidationError None None"

definition parse_body :: "csv_adapter \<Rightarrow> string list \<Rightarrow> string list \<Rightarrow> csv_progress result" where
  "parse_body ad names lines =
     (let headers = header_map names
      in case find_column ''timestamp'' headers of
           None \<Rightarrow> Inl input_error
         | Some ts \<Rightarrow>
             if ts = [] then Inl input_error
             else parse_rows ad (map_columns ts headers) (csv_rows names lines))"

definition parse_stream ::
  "csv_adapter \<Rightarrow> string list \<Rightarrow> string option \<Rightarrow> (csv_adapter \<times> telemetry_batch) result" where
  "parse_stream ad lines source =
     bindE (csv_record lines) (\<lambda>(names, rest).
     bindE (guardE (names \<noteq> None \<and> names \<noteq> Some []) input_error) (\<lambda>_.
     bindE (parse_body ad (the names) rest) (\<lambda>p.
     if cp_total p = 0 \<and> cp_readings p = [] then Inl input_error
     else
       let batch = \<lparr>nb_source_name = (case source of None \<Rightarrow> ca_source_name ad
                                      | Some s \<Rightarrow> if s = [] then ca_source_name ad else s),
                    nb_readings = cp_readings p, nb_total_records = cp_total p, nb_errors = cp_errors p\<rparr>
       in Inr (ad\<lparr>ca_last_batch := batch\<rparr>, batch))))"

definition parse_string ::
  "csv_adapter \<Rightarrow> string \<Rightarrow> string option \<Rightarrow> (csv_adapter \<times> telemetry_batch) result" where
  "parse_string ad content source =
     (if strip content = [] then Inl input_error
      else parse_stream ad (text_lines content)
             (case source of None \<Rightarrow> Some (ca_source_name ad)
              | Some s \<Rightarrow> Some (if s = [] then ca_source_name ad else s)))"

text \<open>
  A file is its name with its decoded text, nothing where there is no file. Opening it for reading
  turns the line ends of other systems into newlines.
\<close>

fun universal_newlines :: "string \<Rightarrow> string" where
  "universal_newlines [] = []"
| "universal_newlines (c # t) =
     (if c = CHR 0x0D then CHR 0x0A # (if head t = CHR 0x0A then tl (universal_newlines t) else universal_newlines t)
      else c # universal_newlines t)"

definition parse_file ::
  "csv_adapter \<Rightarrow> string \<Rightarrow> string option \<Rightarrow> (csv_adapter \<times> telemetry_batch) result" where
  "parse_file ad name content =
     (case content of
        None \<Rightarrow> Inl AdapterParseError
      | Some text \<Rightarrow> parse_stream ad (text_lines (universal_newlines text)) (Some name))"

end
