(* ===== verification/Python_Parsing_Laws.thy ===== *)
theory Python_Parsing_Laws
  imports Python_Parsing Canonical_Text
begin

text \<open>
  What Python renders, Python reads back: decimals from \<open>str(Decimal)\<close>, identifiers from
  \<open>str(UUID)\<close> and instants from \<open>isoformat()\<close>.
\<close>

section \<open>Digits\<close>

lemma char_code_dig: "0 \<le> n \<Longrightarrow> n < 16 \<Longrightarrow> char_code (dig n) = (if n < 10 then 48 + n else 87 + n)"
  by (simp add: char_code_def dig_def take_bit_eq_mod of_char_of)

lemma is_digit_dig: "0 \<le> n \<Longrightarrow> n < 10 \<Longrightarrow> is_digit (dig n)"
  by (simp add: is_digit_def char_code_dig)

lemma hex_value_dig: "0 \<le> n \<Longrightarrow> n < 16 \<Longrightarrow> hex_value (dig n) = Some n"
  by (simp add: hex_value_def is_digit_def char_code_dig Let_def)

lemma digits_are_digits: "0 \<le> n \<Longrightarrow> c \<in> set (digits n) \<Longrightarrow> is_digit c"
  by (drule (1) digits_digit) (auto intro: is_digit_dig)

lemma digits_value_append: "digits_value (s @ t) = foldl (\<lambda>n c. 10 * n + (char_code c - 48)) (digits_value s) t"
  by (simp add: digits_value_def)

lemma digits_value_digits [simp]: "0 \<le> n \<Longrightarrow> digits_value (digits n) = n"
proof (induction n rule: digits.induct)
  case (1 n)
  have dm: "digits n = (if n < 10 then [dig n] else digits (n div 10) @ [dig (n mod 10)])"
    by (rule digits.simps)
  show ?case
  proof (cases "n < 10")
    case True
    with "1.prems" dm show ?thesis by (simp add: digits_value_def char_code_dig)
  next
    case False
    then have "digits_value (digits (n div 10)) = n div 10"
      using "1.IH" "1.prems" by (simp add: pos_imp_zdiv_nonneg_iff)
    with False dm show ?thesis by (simp add: digits_value_append char_code_dig)
  qed
qed

lemma digits_value_zeros: "digits_value (replicate k (CHR ''0'') @ t) = digits_value t"
  by (induction k) (simp_all add: digits_value_def char_code_def)

lemma digits_value_more_zeros: "digits_value (t @ replicate k (CHR ''0'')) = digits_value t * 10 ^ k"
proof (induction k arbitrary: t)
  case (Suc k)
  from Suc [of "t @ ''0''"] show ?case
    by (simp add: digits_value_append char_code_def)
qed simp

section \<open>Numbers of a fixed width\<close>

lemma fixed_digit: "c \<in> set (fixed b k n) \<Longrightarrow> 0 < b \<Longrightarrow> \<exists>v. 0 \<le> v \<and> v < b \<and> c = dig v"
  by (induction k arbitrary: n) (auto intro: pos_mod_bound pos_mod_sign)

lemma read_digits_snoc:
  "read_digits (Suc k) n (xs @ [c] @ t) =
     (case read_digits k n (xs @ [c] @ t) of
        Some (v, u) \<Rightarrow> read_digits 1 v u | None \<Rightarrow> None)" if "length xs = k" for xs
  using that by (induction k arbitrary: n xs) (auto simp: length_Suc_conv)

lemma read_digits_fixed:
  "read_digits k n (fixed 10 k m @ t) = Some (n * 10 ^ k + m mod 10 ^ k, t)"
proof (induction k arbitrary: m t)
  case (Suc k)
  have "read_digits (Suc k) n (fixed 10 k (m div 10) @ [dig (m mod 10)] @ t)
      = read_digits 1 (n * 10 ^ k + (m div 10) mod 10 ^ k) ([dig (m mod 10)] @ t)"
    using read_digits_snoc [of "fixed 10 k (m div 10)" k] Suc by simp
  also have "\<dots> = Some (10 * (n * 10 ^ k + (m div 10) mod 10 ^ k) + m mod 10, t)"
    by (simp add: is_digit_dig char_code_dig)
  also have "10 * (n * 10 ^ k + (m div 10) mod 10 ^ k) + m mod 10 = n * 10 ^ Suc k + m mod 10 ^ Suc k"
    by (simp add: mod_mult2_eq' zmod_zmult2_eq algebra_simps)
  finally show ?case by simp
qed simp

lemma read_fixed: "0 \<le> m \<Longrightarrow> m < 10 ^ k \<Longrightarrow> read_digits k 0 (fixed 10 k m @ t) = Some (m, t)"
  by (simp add: read_digits_fixed)

section \<open>Decimals\<close>

lemma takeWhile_number:
  assumes "\<And>c. c \<in> set ds \<Longrightarrow> is_digit c" and "rest = [] \<or> \<not> is_digit (hd rest)"
  shows "takeWhile is_digit (ds @ rest) = ds" "dropWhile is_digit (ds @ rest) = rest"
  using assms by (induction ds) (cases rest; simp)+

lemma numeral_text_parts:
  assumes "\<And>c. c \<in> set whole \<Longrightarrow> is_digit c" "\<And>c. c \<in> set places \<Longrightarrow> is_digit c"
    and "whole @ places \<noteq> []" and "whole \<noteq> []"
    and "exponent_text rest = Some e" and "rest = [] \<or> hd rest = CHR ''E''"
    and sg: "sg = (if neg then - 1 else 1)"
  shows "numeral_text ((if neg then ''-'' else []) @ whole @ (if places = [] then [] else CHR ''.'' # places) @ rest)
           = Some (Dec (sg * digits_value (whole @ places)) (e - int (length places)))"
proof -
  let ?tail = "(if places = [] then [] else CHR ''.'' # places) @ rest"
  obtain w ws where w: "whole = w # ws" using assms(4) by (cases whole) auto
  then have "is_digit w" using assms(1) by simp
  then have ws: "w \<noteq> CHR ''-''" "w \<noteq> CHR ''+''" by (auto simp: is_digit_def char_code_def)
  have s: "signed_text ((if neg then ''-'' else []) @ whole @ ?tail) = (sg, whole @ ?tail)"
    using ws by (simp add: signed_text_def w sg)
  have nd: "?tail = [] \<or> \<not> is_digit (hd ?tail)" "rest = [] \<or> \<not> is_digit (hd rest)"
    using assms(6) by (cases rest; auto simp: is_digit_def char_code_def)+
  have t: "takeWhile is_digit (whole @ ?tail) = whole" "dropWhile is_digit (whole @ ?tail) = ?tail"
    using takeWhile_number [OF assms(1) nd(1)] by blast+
  have f: "fraction_text ?tail = (places, rest)"
  proof (cases "places = []")
    case True
    with assms(6) show ?thesis by (cases rest) (auto simp: fraction_text_def)
  next
    case False
    with takeWhile_number [OF assms(2) nd(2)] show ?thesis by (simp add: fraction_text_def)
  qed
  from assms(3,5) show ?thesis unfolding numeral_text_def by (simp only: s t f split Let_def) simp
qed

lemma digits_abs: "list_all is_digit (digits \<bar>x\<bar>)"
  by (auto simp: list_all_iff intro: digits_are_digits [OF abs_ge_zero])

lemma exponent_text_E:
  "exponent_text (CHR ''E'' # (if x < 0 then ''-'' else ''+'') @ digits \<bar>x\<bar>) = Some x"
  using digits_abs [of x] digits_value_digits [of "\<bar>x\<bar>"]
  by (cases "x < 0") (auto simp: exponent_text_def signed_text_def)

lemma signed_coefficient: "(if c < 0 then - 1 else 1) * \<bar>c\<bar> = (c :: int)"
  by simp

theorem numeral_of_decimal_text: "numeral_text (decimal_text d) = Some d"
proof -
  let ?c = "coeff d" and ?e = "dexp d" and ?ds = "digits \<bar>coeff d\<bar>" and ?n = "int (length (digits \<bar>coeff d\<bar>))"
  have dg: "is_digit x" if "x \<in> set ?ds" for x using that digits_abs [of ?c] by (auto simp: list_all_iff)
  have n: "1 \<le> ?n" by (cases ?ds) (simp_all add: digits_not_Nil [of "\<bar>?c\<bar>", simplified])
  have zero: "is_digit (CHR ''0'')" by (simp add: is_digit_def char_code_def)
  define sg :: string where "sg = (if ?c < 0 then ''-'' else [])"
  note parts = numeral_text_parts [where neg = "?c < 0", OF _ _ _ _ _ _ refl, folded sg_def]
  have whole: "numeral_text (sg @ whole @ (if places = [] then [] else CHR ''.'' # places) @ rest) = Some d"
    if "set whole \<subseteq> {CHR ''0''} \<union> set ?ds" "set places \<subseteq> {CHR ''0''} \<union> set ?ds" "whole \<noteq> []"
      "exponent_text rest = Some x" "rest = [] \<or> hd rest = CHR ''E''"
      "digits_value (whole @ places) = \<bar>?c\<bar>" "x - int (length places) = ?e" for whole places rest x
  proof -
    have "is_digit y" if "y \<in> set whole \<union> set places" for y
      using that \<open>set whole \<subseteq> _\<close> \<open>set places \<subseteq> _\<close> dg zero by blast
    with parts [of whole places rest x] that(3-7) show ?thesis
      by (cases d) (simp add: signed_coefficient)
  qed
  have d: "decimal_text d = sg @ body @ rest"
    if "body = (if (if ?e \<le> 0 \<and> - 6 < ?e + ?n then ?e + ?n else 1) \<le> 0
          then ''0.'' @ replicate (nat (- (?e + ?n))) (CHR ''0'') @ ?ds
          else if ?n \<le> (if ?e \<le> 0 \<and> - 6 < ?e + ?n then ?e + ?n else 1)
          then ?ds @ replicate (nat ((if ?e \<le> 0 \<and> - 6 < ?e + ?n then ?e + ?n else 1) - ?n)) (CHR ''0'')
          else take (nat (if ?e \<le> 0 \<and> - 6 < ?e + ?n then ?e + ?n else 1)) ?ds @ ''.''
            @ drop (nat (if ?e \<le> 0 \<and> - 6 < ?e + ?n then ?e + ?n else 1)) ?ds)"
      "rest = (let x = ?e + ?n - (if ?e \<le> 0 \<and> - 6 < ?e + ?n then ?e + ?n else 1)
               in if x = 0 then [] else CHR ''E'' # (if x < 0 then ''-'' else ''+'') @ digits \<bar>x\<bar>)" for body rest
    using that unfolding decimal_text_def sg_def Let_def by (simp split: if_splits)
  consider (small) "?e \<le> 0" "- 6 < ?e + ?n" "?e + ?n \<le> 0" | (int) "?e = 0"
    | (point) "?e < 0" "0 < ?e + ?n" | (sci) "\<not> (?e \<le> 0 \<and> - 6 < ?e + ?n)"
    using n by linarith
  then show ?thesis
  proof cases
    case small
    have "?ds \<noteq> []" by simp
    with small have "decimal_text d = sg @ ''0'' @ (CHR ''.'' # replicate (nat (- (?e + ?n))) (CHR ''0'') @ ?ds) @ []"
      by (subst d [OF refl refl]) (simp add: Let_def)
    moreover have "set (replicate (nat (- (?e + ?n))) (CHR ''0'') @ ?ds) \<subseteq> {CHR ''0''} \<union> set ?ds"
      by auto
    ultimately show ?thesis
      using whole [of "''0''" "replicate (nat (- (?e + ?n))) (CHR ''0'') @ ?ds" "[]" 0] small
        digits_value_zeros [of "Suc (nat (- (?e + ?n)))" ?ds]
      by (simp add: exponent_text_def del: set_append)
  next
    case int
    with n have "decimal_text d = sg @ ?ds @ [] @ []" by (subst d [OF refl refl]) (simp add: Let_def)
    with int show ?thesis using whole [of ?ds "[]" "[]" 0] by (auto simp: exponent_text_def)
  next
    case point
    let ?k = "nat (?e + ?n)"
    have k: "take ?k ?ds \<noteq> []" "drop ?k ?ds \<noteq> []" using point n by auto
    have "set (take ?k ?ds) \<subseteq> set ?ds" "set (drop ?k ?ds) \<subseteq> set ?ds" by (rule set_take_subset set_drop_subset)+
    moreover have "decimal_text d = sg @ take ?k ?ds @ (CHR ''.'' # drop ?k ?ds) @ []"
      using point n by (subst d [OF refl refl]) (simp add: Let_def)
    ultimately show ?thesis using whole [of "take ?k ?ds" "drop ?k ?ds" "[]" 0] point k
      by (auto simp: exponent_text_def)
  next
    case sci
    let ?x = "?e + ?n - 1"
    have x: "?x \<noteq> 0" using sci n by auto
    have "decimal_text d = sg @ take 1 ?ds @ (if drop 1 ?ds = [] then [] else CHR ''.'' # drop 1 ?ds)
        @ CHR ''E'' # (if ?x < 0 then ''-'' else ''+'') @ digits \<bar>?x\<bar>"
      using sci n x by (subst d [OF refl refl]) (auto simp: Let_def)
    moreover have "set (take 1 ?ds) \<subseteq> {CHR ''0''} \<union> set ?ds" "set (drop 1 ?ds) \<subseteq> {CHR ''0''} \<union> set ?ds"
      by (auto dest: in_set_takeD in_set_dropD)
    moreover have "?x - int (length (drop 1 ?ds)) = ?e" using n by simp
    moreover have "take 1 ?ds \<noteq> []" by simp
    ultimately show ?thesis using exponent_text_E [of ?x] by (simp only: whole append_take_drop_id
          digits_value_digits abs_ge_zero list.sel simp_thms append_Cons)
  qed
qed

definition decimal_limits :: "decimal \<Rightarrow> bool" where
  "decimal_limits d \<longleftrightarrow>
     - 1999999999999999997 \<le> dexp d \<and> dexp d + int (dlen \<bar>coeff d\<bar>) - 1 \<le> 999999999999999999"

definition plain_char :: "char \<Rightarrow> bool" where
  "plain_char c \<longleftrightarrow> is_digit c \<or> c \<in> set ''+-.:ET'' \<or> 97 \<le> char_code c \<and> char_code c \<le> 102"

lemma plain_digit [simp]: "is_digit c \<Longrightarrow> plain_char c"
  by (simp add: plain_char_def)

lemma plain_dig: "0 \<le> n \<Longrightarrow> n < 16 \<Longrightarrow> plain_char (dig n)"
  by (cases "n < 10") (auto simp: plain_char_def is_digit_dig char_code_dig)

lemma plain_fixed: "1 < b \<Longrightarrow> b \<le> 16 \<Longrightarrow> c \<in> set (fixed b k n) \<Longrightarrow> plain_char c"
  by (drule fixed_digit) (auto intro: plain_dig)

lemma plain_digits: "c \<in> set (digits \<bar>n\<bar>) \<Longrightarrow> plain_char c"
  using digits_abs [of n] by (auto simp: list_all_iff)

lemma plain_digits': "c \<in> set (digits n) \<Longrightarrow> 0 \<le> n \<Longrightarrow> plain_char c"
  using plain_digits [of c n] by simp

lemma plain_codes: "plain_char c \<Longrightarrow> 43 \<le> char_code c \<and> char_code c \<le> 102 \<and> c \<noteq> CHR '','' \<and> c \<noteq> CHR ''_''
    \<and> c \<noteq> CHR ''Z'' \<and> \<not> is_space c"
  by (auto simp: plain_char_def is_digit_def is_space_def char_code_def Let_def)

lemma plain_decimal_text: "c \<in> set (decimal_text d) \<Longrightarrow> plain_char c"
proof -
  have p: "plain_char (CHR ''-'')" "plain_char (CHR ''+'')" "plain_char (CHR ''.'')" "plain_char (CHR ''E'')"
    "plain_char (CHR ''0'')"
    by (simp_all add: plain_char_def is_digit_def char_code_def)
  assume "c \<in> set (decimal_text d)"
  then show ?thesis unfolding decimal_text_def Let_def
    by (auto simp: p split: if_splits dest: in_set_takeD in_set_dropD intro: plain_digits' plain_digits)
qed

lemma decimal_of_decimal_text: "decimal_limits d \<Longrightarrow> decimal_of_text (decimal_text d) = Some d"
proof -
  have "filter (\<lambda>c. c \<noteq> CHR ''_'') (decimal_text d) = decimal_text d"
    using plain_codes plain_decimal_text by (auto simp: filter_id_conv)
  then show "decimal_limits d \<Longrightarrow> ?thesis"
    by (simp add: decimal_of_text_def numeral_of_decimal_text decimal_limits_def)
qed

section \<open>Identifiers\<close>

lemma replace_absent: "hd old \<notin> set t \<Longrightarrow> replace_text old new t = t"
proof (induction t)
  case (Cons c t)
  have "take (length old) (c # t) \<noteq> old \<or> old = []"
    using Cons.prems by (cases old) auto
  with Cons show ?case by auto
qed simp

lemma replace_char: "replace_text [x] [] t = filter (\<lambda>c. c \<noteq> x) t"
  by (induction t) auto

lemma strip_where_id:
  assumes "\<And>c. c \<in> set t \<Longrightarrow> \<not> p c"
  shows "strip_where p t = t"
proof -
  have "dropWhile p u = u" if "set u \<subseteq> set t" for u
    using assms that by (cases u) auto
  then show ?thesis by (simp add: strip_where_def)
qed

lemma strip_plain: "(\<And>c. c \<in> set t \<Longrightarrow> plain_char c) \<Longrightarrow> strip t = t"
  unfolding strip_def using plain_codes by (intro strip_where_id) blast

lemma hex_digits_snoc:
  "hex_digits a n (t @ [dig v]) = map_option (\<lambda>m. 16 * m + v) (if t = [] then Some n else hex_digits a n t)"
  if "0 \<le> v" "v < 16" "\<And>c. c \<in> set t \<Longrightarrow> \<exists>v. 0 \<le> v \<and> v < 16 \<and> c = dig v" for t
  using that(3)
proof (induction t arbitrary: a n)
  case Nil
  have "dig v \<noteq> CHR ''_''" using plain_codes [OF plain_dig [OF that(1,2)]] by blast
  with that show ?case by (simp add: hex_value_dig)
next
  case (Cons c t)
  from Cons.prems [of c] obtain w where w: "0 \<le> w" "w < 16" "c = dig w" by auto
  then have "c \<noteq> CHR ''_''" using plain_codes [OF plain_dig [OF w(1,2)]] by simp
  with Cons w show ?case by (cases t) (simp_all add: hex_value_dig)
qed

lemma hex_digits_fixed: "hex_digits False 0 (fixed 16 (Suc k) n) = Some (n mod 16 ^ Suc k)"
proof (induction k arbitrary: n)
  case 0
  have "dig (n mod 16) \<noteq> CHR ''_''" using plain_codes [OF plain_dig [of "n mod 16"]] by simp
  then show ?case by (simp add: hex_value_dig)
next
  case (Suc k)
  have "hex_digits False 0 (fixed 16 (Suc k) (n div 16) @ [dig (n mod 16)]) =
      Some (16 * ((n div 16) mod 16 ^ Suc k) + n mod 16)"
    using Suc fixed_digit [of _ 16 "Suc k" "n div 16"] length_fixed [of 16 "Suc k" "n div 16"]
    by (subst hex_digits_snoc) (auto simp del: fixed.simps length_fixed)
  moreover have "fixed 16 (Suc (Suc k)) n = fixed 16 (Suc k) (n div 16) @ [dig (n mod 16)]"
    by (rule fixed.simps(2))
  moreover have "16 * ((n div 16) mod m) + n mod 16 = n mod (16 * m)" if "0 < m" for m
    using that by (simp add: zmod_zmult2_eq)
  ultimately show ?case by (simp only: power_Suc zero_less_power zero_less_numeral mult_pos_pos)
qed

lemma uuid_of_uuid_text:
  assumes "uuid_ok u"
  shows "uuid_of_text (uuid_text u) = Some u"
proof -
  let ?h = "fixed 16 32 (int u)"
  have hex: "\<exists>v. 0 \<le> v \<and> v < 16 \<and> c = dig v" if "c \<in> set ?h" for c
    using that by (rule fixed_digit) simp
  then have plain: "plain_char c" if "c \<in> set ?h" for c using that plain_dig by blast
  have chars: "c \<in> set ?h \<or> c = CHR ''-''" if "c \<in> set (uuid_text u)" for c
    using that by (auto simp: uuid_text_def Let_def dest: in_set_takeD in_set_dropD)
  have codes: "43 \<le> char_code c \<and> char_code c \<le> 102" if "c \<in> set ?h" for c
    using plain_codes [OF plain [OF that]] by simp
  have nothex: "CHR ''u'' \<notin> set ?h" "CHR ''x'' \<notin> set ?h" "CHR ''{'' \<notin> set ?h" "CHR ''}'' \<notin> set ?h"
    using codes by (force simp: char_code_def)+
  have upper: "x \<notin> set ?h" if "char_code x < 48 \<or> 57 < char_code x \<and> char_code x < 97" for x
    using hex [of x] that by (auto simp: char_code_dig split: if_splits)
  have no: "CHR ''-'' \<notin> set ?h" "CHR ''+'' \<notin> set ?h" "CHR ''X'' \<notin> set ?h"
    by (rule upper; simp add: char_code_def)+
  have "filter (\<lambda>c. c \<noteq> CHR ''-'') (uuid_text u) = ?h"
  proof -
    have "filter (\<lambda>c. c \<noteq> CHR ''-'') s = s" if "set s \<subseteq> set ?h" for s
      using that no(1) by (auto simp: filter_id_conv)
    moreover have "set (take i ?h) \<subseteq> set ?h" "set (drop i ?h) \<subseteq> set ?h" "set (take i (drop j ?h)) \<subseteq> set ?h" for i j
      by (auto dest: in_set_takeD in_set_dropD)
    ultimately show ?thesis using uuid_pieces [of ?h] by (simp add: uuid_text_def Let_def)
  qed
  moreover have "replace_text ''uuid:'' [] (replace_text ''urn:'' [] (uuid_text u)) = uuid_text u"
  proof -
    have "CHR ''u'' \<notin> set (uuid_text u)" using nothex(1) chars [of "CHR ''u''"] by auto
    then show ?thesis by (simp add: replace_absent)
  qed
  moreover have "strip_where (\<lambda>c. c = CHR ''{'' \<or> c = CHR ''}'') (uuid_text u) = uuid_text u"
    using nothex(3,4) chars by (intro strip_where_id) auto
  moreover have "hex_int ?h = Some (int u)"
  proof -
    have st: "strip ?h = ?h" using plain by (rule strip_plain)
    obtain c t where c: "?h = c # t" using length_fixed [of 16 32 "int u"] by (cases ?h) simp_all
    then have "c \<noteq> CHR ''-''" "c \<noteq> CHR ''+''" using no by auto
    then have sg: "signed_text ?h = (1, ?h)" by (simp add: signed_text_def c)
    have "\<not> (take 2 ?h = ''0x'' \<or> take 2 ?h = ''0X'')"
    proof
      assume "take 2 ?h = ''0x'' \<or> take 2 ?h = ''0X''"
      then have "CHR ''x'' \<in> set (take 2 ?h) \<or> CHR ''X'' \<in> set (take 2 ?h)" by auto
      with nothex(2) no(3) show False by (blast dest: in_set_takeD)
    qed
    moreover have "hex_digits False 0 ?h = Some (int u)"
    proof -
      have "Suc 31 = 32" "int u < 16 ^ 32" using assms by (simp_all add: uuid_ok_def)
      then show ?thesis using hex_digits_fixed [of 31 "int u"] by (simp only: mod_pos_pos_trivial of_nat_0_le_iff)
    qed
    ultimately show ?thesis by (simp add: hex_int_def st sg)
  qed
  ultimately show ?thesis using assms
    by (simp add: uuid_of_text_def replace_char uuid_ok_def Let_def)
qed

section \<open>Instants\<close>

section \<open>Instants\<close>

lemma head_fixed: "0 < k \<Longrightarrow> is_digit (head (fixed 10 k n @ w))"
proof -
  assume "0 < k"
  then obtain c u where "fixed 10 k n = c # u" using length_fixed [of 10 k n] by (cases "fixed 10 k n") simp_all
  moreover from this obtain v where "0 \<le> v" "v < 10" "c = dig v" using fixed_digit [of c 10 k n] by auto
  ultimately show ?thesis by (simp add: head_def is_digit_dig)
qed

lemma not_digit: "is_digit c \<Longrightarrow> c \<notin> set ''W-:.,+Z''"
  by (auto simp: is_digit_def char_code_def)

lemma head_fixed_not: "0 < k \<Longrightarrow> x \<in> set ''W-:.,+Z'' \<Longrightarrow> head (fixed 10 k n @ w) \<noteq> x"
  using head_fixed not_digit by blast

lemma head_Cons [simp]: "head (c # t) = c"
  by (simp add: head_def)

lemma head_Nil [simp]: "head [] = CHR 0x00"
  by (simp add: head_def)

lemma utf8_plain: "(\<And>c. c \<in> set t \<Longrightarrow> char_code c < 128) \<Longrightarrow> concat (map utf8_text t) = t"
  by (induction t) (simp_all add: utf8_text_def)

lemma iso_date_text:
  assumes "date_ok (y, m, d)"
  shows "iso_date 10 (fixed 10 4 y @ ''-'' @ fixed 10 2 m @ ''-'' @ fixed 10 2 d @ w) = Some (ymd2ord (y, m, d))"
proof -
  have b: "0 \<le> y" "y < 10 ^ 4" "0 \<le> m" "m < 10 ^ 2" "0 \<le> d" "d < 10 ^ 2"
    using assms by (auto simp: date_ok_def days_in_month_def nth_Cons' split: if_splits)
  have w: "head (fixed 10 2 m @ v) \<noteq> CHR ''W''" for v by (rule head_fixed_not) simp_all
  show ?thesis using assms
    by (simp add: iso_date_def read_fixed [OF b(1,2)] month_date_def read_fixed [OF b(3,4)] dash_def
        read_fixed [OF b(5,6)] w day_of_date_def)
qed

lemma separator_text: "separator_at (fixed 10 4 y @ ''-'' @ fixed 10 2 m @ ''-'' @ fixed 10 2 d @ w) = Some 10"
proof -
  let ?t = "fixed 10 4 y @ ''-'' @ fixed 10 2 m @ ''-'' @ fixed 10 2 d @ w"
  obtain c v where "fixed 10 2 m = c # v" using length_fixed [of 10 2 m] by (cases "fixed 10 2 m") simp_all
  then have "?t ! 5 = head (fixed 10 2 m @ ''-'' @ fixed 10 2 d @ w)"
    by (simp add: nth_append)
  then have "?t ! 5 \<noteq> CHR ''W''" using head_fixed_not [of 2 "CHR ''W''" m] by simp
  then show ?thesis by (simp add: separator_at_def Let_def nth_append)
qed

text \<open>A clock time of two digits each.\<close>

lemma clock_two:
  assumes "0 \<le> v" "v < 100"
  shows "clock_from left colons (fixed 10 2 v @ u) n =
     (let c = head u; m = n - 3; sep = (case colons of None \<Rightarrow> c = CHR '':'' | Some b \<Rightarrow> b);
          next = (\<lambda>w k. case left of 0 \<Rightarrow> then_fraction v w k
                    | Suc l \<Rightarrow> map_option (\<lambda>(vs, us, more). (v # vs, us, more)) (clock_from l (Some sep) w k))
      in if m \<le> 0 then Some ([v], 0, c \<noteq> CHR 0x00)
         else if sep \<and> c = CHR '':'' then next (tl u) m
         else if c = CHR ''.'' \<or> c = CHR '','' then then_fraction v (tl u) m
         else if \<not> sep then next u (m + 1) else None)"
  using assms by (subst clock_from.simps) (simp add: read_fixed)

lemma clock_plain_Suc:
  assumes "0 \<le> h" "h < 24" "0 \<le> m" "m < 60" "0 \<le> s" "s < 60"
  shows "clock_from (Suc (Suc 0)) None (fixed 10 2 h @ '':'' @ fixed 10 2 m @ '':'' @ fixed 10 2 s @ ''+00:00'') 8
      = Some ([h, m, s], 0, True)"
    and "0 \<le> us \<Longrightarrow> us < 1000000 \<Longrightarrow>
      clock_from (Suc (Suc 0)) None
        (fixed 10 2 h @ '':'' @ fixed 10 2 m @ '':'' @ fixed 10 2 s @ ''.'' @ fixed 10 6 us @ ''+00:00'') 15
        = Some ([h, m, s], us, True)"
  using assms
  by (simp_all add: clock_two Let_def then_fraction_def second_fraction_def read_fixed
      is_digit_def char_code_def)

lemmas clock_plain = clock_plain_Suc [folded numeral_2_eq_2]

text \<open>The zone \<open>+00:00\<close> after a clock of plain characters.\<close>

lemma zone_zero: "clock_from 2 None ''00:00'' 5 = Some ([0, 0], 0, False)"
  by code_simp

lemma iso_time_utc:
  assumes "\<And>c. c \<in> set t \<Longrightarrow> c \<notin> set ''+-Z''" and "clock_from 2 None (t @ ''+00:00'') (int (length t)) = Some (vs, us, more)"
    and "clock_ok vs"
  shows "iso_time (t @ ''+00:00'') = Some (clock_micros vs us, Some 0)"
proof -
  let ?P = "\<lambda>c. c \<noteq> CHR ''+'' \<and> c \<noteq> CHR ''-'' \<and> c \<noteq> CHR ''Z''"
  have "takeWhile ?P (t @ ''+00:00'') = t" using assms(1) by (subst takeWhile_append2) auto
  then show ?thesis using assms(2,3)
    by (simp add: iso_time_def Let_def zone_zero offset_micros_def clock_micros_def)
qed

lemma fixed_no_sign: "c \<in> set (fixed 10 k n) \<Longrightarrow> c \<notin> set ''W-:.,+Z''"
  using fixed_digit [of c 10 k n] by (auto dest!: is_digit_dig not_digit)

lemma clock_total:
  fixes r :: int
  assumes "0 \<le> r" "r < 86400000000"
  shows "((r div 3600000000 * 60 + r div 60000000 mod 60) * 60 + r div 1000000 mod 60) * 1000000 + r mod 1000000 = r"
proof -
  have "r div 60000000 div 60 = r div 3600000000" "r div 1000000 div 60 = r div 60000000"
    by (simp_all add: zdiv_zmult2_eq [symmetric])
  then have "r div 60000000 = r div 3600000000 * 60 + r div 60000000 mod 60"
    "r div 1000000 = r div 60000000 * 60 + r div 1000000 mod 60"
    by (metis div_mult_mod_eq)+
  then show ?thesis by (metis div_mult_mod_eq)
qed

lemma plain_iso_text: "c \<in> set (iso_text us) \<Longrightarrow> plain_char c"
proof -
  have p: "plain_char (CHR ''-'')" "plain_char (CHR ''+'')" "plain_char (CHR ''.'')" "plain_char (CHR ''T'')"
    "plain_char (CHR ''0'')" "plain_char (CHR '':'')"
    by (simp_all add: plain_char_def is_digit_def char_code_def)
  have f: "c \<in> set (fixed 10 k n) \<Longrightarrow> plain_char c" for k n by (rule plain_fixed [of 10]) simp_all
  assume "c \<in> set (iso_text us)"
  then show ?thesis unfolding iso_text_def Let_def by (auto simp: p f split: prod.splits)
qed

lemma plain_isoformat: "c \<in> set (isoformat us) \<Longrightarrow> plain_char c"
  by (auto simp: isoformat_def Let_def split: if_splits dest: plain_iso_text in_set_takeD in_set_dropD)

lemma utf8_isoformat: "concat (map utf8_text (isoformat us)) = isoformat us"
  using plain_codes plain_isoformat by (intro utf8_plain) fastforce

theorem fromisoformat_isoformat:
  assumes "datetime_ok us"
  shows "fromisoformat (isoformat us) = Some (us, Some 0)"
proof -
  let ?D = "86400000000 :: int"
  define n r where "n = us div ?D + epoch_ordinal" and "r = us mod ?D"
  obtain y m d where ymd: "ord2ymd n = (y, m, d)" by (metis prod_cases3)
  have n: "1 \<le> n" "n \<le> 3652059" using assms by (auto simp: n_def epoch_ordinal_def datetime_ok_def)
  from ord2ymd_inverse [OF n ymd] have ok: "date_ok (y, m, d)" "ymd2ord (y, m, d) = n" by (auto simp: date_ok_def)
  have r: "0 \<le> r" "r < ?D" by (simp_all add: r_def)
  define h mi s u where "h = r div 3600000000" and "mi = r div 60000000 mod 60"
    and "s = r div 1000000 mod 60" and "u = r mod 1000000"
  have b: "0 \<le> h" "h < 24" "0 \<le> mi" "mi < 60" "0 \<le> s" "s < 60" "0 \<le> u" "u < 1000000"
    using r by (auto simp: h_def mi_def s_def u_def)
  define body where "body = fixed 10 2 h @ '':'' @ fixed 10 2 mi @ '':'' @ fixed 10 2 s
    @ (if u = 0 then [] else ''.'' @ fixed 10 6 u)"
  have u: "us mod 1000000 = u" unfolding u_def r_def by (simp add: mod_mod_cancel)
  have iso: "isoformat us = fixed 10 4 y @ ''-'' @ fixed 10 2 m @ ''-'' @ fixed 10 2 d @ ''T'' @ body @ ''+00:00''"
    by (simp add: isoformat_def iso_text_def Let_def n_def [symmetric] r_def [symmetric] ymd u
        h_def [symmetric] mi_def [symmetric] s_def [symmetric] u_def [symmetric] body_def)
  have "c \<notin> set ''+-Z''" if "c \<in> set body" for c
    using that by (auto simp: body_def dest: fixed_no_sign split: if_splits)
  moreover have "clock_from 2 None (body @ ''+00:00'') (int (length body)) = Some ([h, mi, s], u, True)"
    using clock_plain b by (simp add: body_def)
  moreover have "clock_ok [h, mi, s]" using b by (simp add: clock_ok_def)
  ultimately have "iso_time (body @ ''+00:00'') = Some (clock_micros [h, mi, s] u, Some 0)"
    by (rule iso_time_utc)
  moreover have "clock_micros [h, mi, s] u = r"
    unfolding clock_micros_def append_Cons list.case h_def mi_def s_def u_def by (rule clock_total [OF r])
  moreover have "(n - epoch_ordinal) * ?D + r = us" by (simp add: n_def r_def)
  ultimately have time: "iso_time (body @ ''+00:00'') = Some (r, Some 0)" "(n - epoch_ordinal) * ?D + r = us"
    by simp_all
  have "isoformat us ! 10 = CHR ''T''" "drop 11 (isoformat us) = body @ ''+00:00''"
    "\<not> length (isoformat us) < 7" "\<not> length (isoformat us) \<le> 10"
    by (simp_all add: iso nth_append)
  moreover have "separator_at (isoformat us) = Some 10" "iso_date 10 (isoformat us) = Some n"
    unfolding iso by (rule separator_text) (simp only: iso_date_text [OF ok(1)] ok(2))
  ultimately show ?thesis using time
    by (simp add: fromisoformat_def utf8_isoformat Let_def char_code_def)
qed

end
