(* ===== verification/Csv_Round_Trip.thy ===== *)
theory Csv_Round_Trip
  imports Csv_Adapter Python_Parsing_Laws
begin

text \<open>
  Readings written out as a CSV text, one line each under the canonical headers, and that the adapter
  reads them back.
\<close>

section \<open>Lines of plain fields\<close>

definition plain_field :: "string \<Rightarrow> bool" where
  "plain_field t \<longleftrightarrow> int (length t) < csv_field_limit \<and> (\<forall>c \<in> set t. c \<notin> {CHR '','', CHR 0x22, CHR 0x0A, CHR 0x0D})"

definition csv_line_of :: "string list \<Rightarrow> string" where
  "csv_line_of ts = joined '','' ts @ [CHR 0x0A]"

lemma in_field:
  assumes "\<forall>c \<in> set t. c \<notin> {CHR '','', CHR 0x22, CHR 0x0A, CHR 0x0D}" "int (length t + length f) < csv_field_limit"
  shows "foldE csv_step (map Some t) (IN_FIELD, f, fs) = Inr (IN_FIELD, rev t @ f, fs)"
  using assms
proof (induction t arbitrary: f)
  case (Cons c t)
  from Cons.IH [of "c # f"] Cons.prems show ?case
    by (simp add: csv_step_def is_newline_def csv_add_def)
qed simp

lemma whole_field:
  assumes "plain_field t" and "s = START_FIELD \<or> s = START_RECORD \<and> t \<noteq> []"
  shows "foldE csv_step (map Some t) (s, [], fs) = Inr (if t = [] then s else IN_FIELD, rev t, fs)"
proof (cases t)
  case (Cons c u)
  with assms(1) have u: "\<forall>c \<in> set u. c \<notin> {CHR '','', CHR 0x22, CHR 0x0A, CHR 0x0D}"
    "int (length u + length [c]) < csv_field_limit" by (simp_all add: plain_field_def)
  have c: "c \<noteq> CHR '',''" "c \<noteq> CHR 0x22" "c \<noteq> CHR 0x0A" "c \<noteq> CHR 0x0D" "\<not> csv_field_limit \<le> 0"
    using assms(1) Cons by (simp_all add: plain_field_def)
  then have "start_field (Some c) (s, [], fs) = Inr (IN_FIELD, [c], fs)"
    by (simp add: start_field_def is_newline_def csv_add_def)
  moreover have "csv_step (Some c) (s, [], fs) = start_field (Some c) (s, [], fs)"
    using assms(2) c by (elim disjE) (simp_all add: csv_step_def is_newline_def)
  ultimately show ?thesis using in_field [OF u] Cons by simp
qed simp

lemma field_end:
  "s \<in> {START_FIELD, IN_FIELD} \<Longrightarrow> csv_step (Some (CHR '','')) (s, f, fs) = Inr (START_FIELD, [], rev f # fs)"
  "s \<in> {START_FIELD, IN_FIELD} \<Longrightarrow> csv_step (Some (CHR 0x0A)) (s, f, fs) = Inr (EAT_CRNL, [], rev f # fs)"
  "csv_step (Some (CHR '','')) (START_RECORD, f, fs) = Inr (START_FIELD, [], rev f # fs)"
  "csv_step None (EAT_CRNL, f, fs) = Inr (START_RECORD, f, fs)"
  by (auto simp: csv_step_def start_field_def is_newline_def csv_save_def line_ended_def)

lemma fields_from_start:
  assumes "\<forall>t \<in> set ts. plain_field t" "ts \<noteq> []"
  shows "foldE csv_step (map Some (joined '','' ts) @ [Some (CHR 0x0A), None]) (START_FIELD, [], fs)
    = Inr (START_RECORD, [], rev ts @ fs)"
  using assms
proof (induction "'',''" ts arbitrary: fs rule: joined.induct)
  case (2 t)
  then show ?case by (simp add: foldE_append whole_field field_end)
next
  case (3 t u ts)
  then show ?case by (simp add: foldE_append whole_field field_end)
qed simp

lemma csv_line_plain:
  assumes "\<forall>t \<in> set ts. plain_field t" "hd ts \<noteq> []" "ts \<noteq> []"
  shows "csv_line (csv_line_of ts) csv_start = Inr (START_RECORD, [], rev ts)"
proof -
  obtain t us where ts: "ts = t # us" using assms(3) by (cases ts) auto
  have t: "plain_field t" "t \<noteq> []" using assms ts by auto
  show ?thesis
  proof (cases us)
    case Nil
    then show ?thesis using t
      by (simp add: csv_line_def csv_line_of_def csv_start_def ts foldE_append whole_field field_end)
  next
    case (Cons u vs)
    with assms(1) ts have "\<forall>x \<in> set us. plain_field x" "us \<noteq> []" by auto
    from fields_from_start [OF this, of "[t]"] t Cons show ?thesis
      by (simp add: csv_line_def csv_line_of_def csv_start_def ts foldE_append whole_field field_end)
  qed
qed

definition plain_line :: "string list \<Rightarrow> bool" where
  "plain_line ts \<longleftrightarrow> (\<forall>t \<in> set ts. plain_field t) \<and> ts \<noteq> [] \<and> hd ts \<noteq> []"

lemma csv_record_plain: "plain_line ts \<Longrightarrow> csv_record (csv_line_of ts # ls) = Inr (Some ts, ls)"
  by (simp add: csv_record_def csv_line_plain plain_line_def)

lemma csv_rows_plain:
  "\<forall>ts \<in> set rows. plain_line ts \<Longrightarrow> csv_rows names (map csv_line_of rows) = (map (dict_row names) rows, None)"
  by (induction rows) (auto simp: csv_rows.simps(2) csv_record_plain plain_line_def)

lemma text_lines_line: "CHR 0x0A \<notin> set l \<Longrightarrow> text_lines (l @ CHR 0x0A # t) = (l @ [CHR 0x0A]) # text_lines t"
  by (induction l) auto

lemma joined_chars: "c \<in> set (joined sep ts) \<Longrightarrow> c \<in> set sep \<or> (\<exists>t \<in> set ts. c \<in> set t)"
  by (induction sep ts rule: joined.induct) auto

lemma plain_no_newline: "plain_line ts \<Longrightarrow> \<forall>t \<in> set ts. CHR 0x0A \<notin> set t"
  unfolding plain_line_def plain_field_def by blast

lemma text_lines_plain:
  "\<forall>ts \<in> set rows. plain_line ts \<Longrightarrow> text_lines (concat (map csv_line_of rows)) = map csv_line_of rows"
proof (induction rows)
  case (Cons ts rows)
  from Cons.prems have "\<forall>t \<in> set ts. CHR 0x0A \<notin> set t" by (intro plain_no_newline) simp
  then have "CHR 0x0A \<notin> set (joined '','' ts)"
    using joined_chars [of "CHR 0x0A" "'',''" ts] by auto
  with Cons show ?case by (simp add: csv_line_of_def text_lines_line)
qed simp

section \<open>Readings as lines\<close>

definition canonical_headers :: "string list" where
  "canonical_headers =
     [''timestamp'', ''interval_start'', ''interval_end'', ''meter_id'', ''energy_asset_id'', ''generation_kw'',
      ''load_kw'', ''grid_import_kw'', ''grid_export_kw'', ''energy_kwh'', ''battery_soc'']"

definition number_field :: "decimal option \<Rightarrow> string" where
  "number_field v = (case v of None \<Rightarrow> [] | Some d \<Rightarrow> decimal_text d)"

definition asset_field :: "uuid option \<Rightarrow> string" where
  "asset_field v = (case v of None \<Rightarrow> [] | Some u \<Rightarrow> uuid_text u)"

definition reading_fields :: "normalized_reading \<Rightarrow> string list" where
  "reading_fields r =
     [isoformat (nr_timestamp r), isoformat (nr_interval_start r), isoformat (nr_interval_end r),
      uuid_text (nr_meter_id r), asset_field (nr_energy_asset_id r), number_field (nr_generation_kw r),
      number_field (nr_load_kw r), number_field (nr_grid_import_kw r), number_field (nr_grid_export_kw r),
      number_field (nr_energy_kwh r), number_field (nr_battery_soc r)]"

definition csv_text :: "normalized_reading list \<Rightarrow> string" where
  "csv_text rs = concat (map csv_line_of (canonical_headers # map reading_fields rs))"

text \<open>
  The readings the format carries: measured powers in the adapter's form of zero, numbers in the range
  of the adapter and short enough for a field, and an asset unless the adapter would fill one in.
\<close>

definition plain_number :: "decimal \<Rightarrow> bool" where
  "plain_number d \<longleftrightarrow> 0 \<le> val d \<and> decimal_limits d \<and> int (length (decimal_text d)) < csv_field_limit"

definition plain_power :: "decimal option \<Rightarrow> bool" where
  "plain_power v \<longleftrightarrow> (\<exists>d. v = Some d \<and> plain_number d \<and> (coeff d = 0 \<longrightarrow> d = Dec 0 (-1)))"

definition writable :: "csv_adapter \<Rightarrow> normalized_reading \<Rightarrow> bool" where
  "writable ad r \<longleftrightarrow>
     datetime_ok (nr_timestamp r) \<and> datetime_ok (nr_interval_start r) \<and> datetime_ok (nr_interval_end r)
     \<and> nr_interval_start r < nr_interval_end r \<and> uuid_ok (nr_meter_id r)
     \<and> pred_option uuid_ok (nr_energy_asset_id r)
     \<and> (nr_energy_asset_id r = None \<longrightarrow> ca_default_energy_asset_id ad = None)
     \<and> nr_source r = IMPORT \<and> \<not> nr_source_unavailable r
     \<and> plain_power (nr_generation_kw r) \<and> plain_power (nr_load_kw r)
     \<and> plain_power (nr_grid_import_kw r) \<and> plain_power (nr_grid_export_kw r)
     \<and> pred_option plain_number (nr_energy_kwh r)
     \<and> pred_option (\<lambda>d. plain_number d \<and> val d \<le> 100) (nr_battery_soc r)"

lemma parse_timestamp_text:
  assumes "datetime_ok t"
  shows "parse_timestamp (isoformat t) line = Inr t"
proof -
  have "isoformat t \<noteq> []" by (simp add: isoformat_def iso_text_def Let_def split: prod.split)
  moreover have "CHR ''Z'' \<notin> set (isoformat t)" using plain_isoformat plain_codes by blast
  ultimately show ?thesis using assms
    by (simp add: parse_timestamp_def strip_plain plain_isoformat replace_absent fromisoformat_isoformat
        datetime_plus_def)
qed

lemma blank_text: "(\<And>c. c \<in> set t \<Longrightarrow> plain_char c) \<Longrightarrow> blank_value (Some t) \<longleftrightarrow> t = []"
  by (simp add: blank_value_def strip_plain)

lemma decimal_text_not_Nil: "decimal_text d \<noteq> []"
  using numeral_of_decimal_text [of d] by (auto simp: numeral_text_def signed_text_def fraction_text_def)

lemma parse_decimal_text:
  assumes "plain_number d"
  shows "parse_decimal (Some (decimal_text d)) field line fb an True = Inr (Some d)"
  using assms decimal_text_not_Nil [of d]
  by (simp add: parse_decimal_def blank_text plain_decimal_text strip_plain decimal_of_decimal_text
      plain_number_def less_decimal_val val_def)

lemma blank_Nil [simp]: "blank_value (Some [])"
  by (simp add: blank_value_def strip_def strip_where_def)

lemma parse_decimal_blank: "parse_decimal (Some []) field line None True b = Inr None"
  by (simp add: parse_decimal_def when_blank_def)

lemma plain_uuid_text: "c \<in> set (uuid_text u) \<Longrightarrow> plain_char c"
proof -
  assume "c \<in> set (uuid_text u)"
  then have "c \<in> set (fixed 16 32 (int u)) \<or> c = CHR ''-''"
    by (auto simp: uuid_text_def Let_def dest: in_set_takeD in_set_dropD)
  then show ?thesis using plain_fixed [of 16 c 32 "int u"] by (auto simp: plain_char_def)
qed

lemma parse_uuid_text: "uuid_ok u \<Longrightarrow> parse_uuid (Some (uuid_text u)) field line fb an = Inr (Some u)"
proof -
  have "uuid_text u \<noteq> []" by (simp add: uuid_text_def Let_def)
  moreover assume "uuid_ok u"
  ultimately show ?thesis
    by (simp add: parse_uuid_def blank_text plain_uuid_text strip_plain uuid_of_uuid_text)
qed

lemma parse_uuid_blank: "parse_uuid (Some []) field line None True = Inr None"
  by (simp add: parse_uuid_def when_blank_def)

section \<open>The canonical file reads back\<close>

definition canonical_columns :: csv_columns where
  "canonical_columns =
     \<lparr>cc_ts = ''timestamp'', cc_int_start = Some ''interval_start'', cc_int_end = Some ''interval_end'',
      cc_meter = Some ''meter_id'', cc_asset = Some ''energy_asset_id'', cc_gen = Some ''generation_kw'',
      cc_load = Some ''load_kw'', cc_import = Some ''grid_import_kw'', cc_export = Some ''grid_export_kw'',
      cc_energy = Some ''energy_kwh'', cc_soc = Some ''battery_soc''\<rparr>"

lemma canonical_map:
  "find_column ''timestamp'' (header_map canonical_headers) = Some ''timestamp''"
  "map_columns ''timestamp'' (header_map canonical_headers) = canonical_columns"
  by code_simp+

lemma canonical_plain: "plain_line canonical_headers"
  unfolding plain_line_def plain_field_def by code_simp

lemma canonical_cells:
  assumes "row = dict_row canonical_headers [a, b, c, d, e, f, g, h, i, j, k]"
  shows "cell row ''timestamp'' = Some a" "raw_value row (Some ''interval_start'') = Some b"
    "raw_value row (Some ''interval_end'') = Some c" "raw_value row (Some ''meter_id'') = Some d"
    "raw_value row (Some ''energy_asset_id'') = Some e" "raw_value row (Some ''generation_kw'') = Some f"
    "raw_value row (Some ''load_kw'') = Some g" "raw_value row (Some ''grid_import_kw'') = Some h"
    "raw_value row (Some ''grid_export_kw'') = Some i" "raw_value row (Some ''energy_kwh'') = Some j"
    "raw_value row (Some ''battery_soc'') = Some k"
  unfolding assms raw_value_def cell_def dict_row_def canonical_headers_def by simp_all

lemma power_text:
  assumes "plain_power v" "raw_value row col = Some (number_field v)"
  shows "power_value row line col field = Inr (the v)"
proof -
  from assms(1) obtain d where "v = Some d" "plain_number d" "coeff d = 0 \<longrightarrow> d = Dec 0 (-1)"
    by (auto simp: plain_power_def)
  with assms(2) show ?thesis
    by (simp add: power_value_def number_field_def parse_decimal_text or_zero_def)
qed

lemma isoformat_not_Nil: "isoformat t \<noteq> []"
  by (simp add: isoformat_def iso_text_def Let_def split: prod.split)

lemma reading_row:
  assumes "writable ad r"
  shows "parse_row ad (dict_row canonical_headers (reading_fields r)) line canonical_columns = Inr r"
proof -
  let ?row = "dict_row canonical_headers (reading_fields r)"
  note w = assms [unfolded writable_def]
  note cells = canonical_cells [OF reading_fields_def [of r, THEN arg_cong [of _ _ "dict_row canonical_headers"]]]
  have interval: "row_interval ad ?row line canonical_columns (nr_timestamp r) = Inr (nr_interval_start r, nr_interval_end r)"
    using w by (simp add: row_interval_def canonical_columns_def given_value_def cells isoformat_not_Nil
        parse_timestamp_text not_le)
  have asset: "parse_uuid (Some (asset_field (nr_energy_asset_id r))) ''energy_asset_id'' line
      (ca_default_energy_asset_id ad) True = Inr (nr_energy_asset_id r)"
    using w by (cases "nr_energy_asset_id r") (simp_all add: asset_field_def parse_uuid_blank parse_uuid_text)
  have numbers: "parse_decimal (Some (number_field v)) field line None True True = Inr v"
    if "pred_option plain_number v" for v field
    using that by (cases v) (simp_all add: number_field_def parse_decimal_blank parse_decimal_text)
  have soc: "soc_value ?row line canonical_columns = Inr (nr_battery_soc r)"
  proof (cases "nr_battery_soc r")
    case None
    then show ?thesis by (simp add: soc_value_def canonical_columns_def cells numbers)
  next
    case (Some d)
    with w have "plain_number d" "val d \<le> 100" "0 \<le> val d" by (simp_all add: plain_number_def)
    with Some show ?thesis
      by (simp add: soc_value_def canonical_columns_def cells numbers less_eq_decimal_val val_def [of "Dec _ _"])
  qed
  have pw: "power_value ?row line (Some ''generation_kw'') f = Inr (the (nr_generation_kw r))"
    "power_value ?row line (Some ''load_kw'') f = Inr (the (nr_load_kw r))"
    "power_value ?row line (Some ''grid_import_kw'') f = Inr (the (nr_grid_import_kw r))"
    "power_value ?row line (Some ''grid_export_kw'') f = Inr (the (nr_grid_export_kw r))" for f
    by (rule power_text [OF _ cells(6)] power_text [OF _ cells(7)] power_text [OF _ cells(8)]
        power_text [OF _ cells(9)]; use w in simp)+
  have flows: "grid_flows ?row line canonical_columns gen load = Inr (the (nr_grid_import_kw r), the (nr_grid_export_kw r))" for gen load
    by (simp add: grid_flows_def canonical_columns_def cells pw)
  have some: "\<exists>d. v = Some d" if "plain_power v" for v using that by (auto simp: plain_power_def)
  have powers: "nr_generation_kw r = Some (the (nr_generation_kw r))" "nr_load_kw r = Some (the (nr_load_kw r))"
    "nr_grid_import_kw r = Some (the (nr_grid_import_kw r))" "nr_grid_export_kw r = Some (the (nr_grid_export_kw r))"
    using w some by force+
  have "parse_row ad ?row line canonical_columns =
      Inr \<lparr>nr_meter_id = nr_meter_id r, nr_timestamp = nr_timestamp r, nr_interval_start = nr_interval_start r,
        nr_interval_end = nr_interval_end r, nr_source = IMPORT, nr_energy_asset_id = nr_energy_asset_id r,
        nr_generation_kw = Some (the (nr_generation_kw r)), nr_load_kw = Some (the (nr_load_kw r)),
        nr_grid_import_kw = Some (the (nr_grid_import_kw r)), nr_grid_export_kw = Some (the (nr_grid_export_kw r)),
        nr_energy_kwh = nr_energy_kwh r, nr_battery_soc = nr_battery_soc r, nr_source_unavailable = False\<rparr>"
    using w interval asset numbers soc flows
    by (simp add: parse_row_def canonical_columns_def cells isoformat_not_Nil parse_timestamp_text
        parse_uuid_text pw)
  also have "\<dots> = Inr r" using w powers by (cases r) simp
  finally show ?thesis .
qed

lemma plain_fieldI:
  assumes "\<And>c. c \<in> set t \<Longrightarrow> plain_char c" "int (length t) < csv_field_limit"
  shows "plain_field t"
proof -
  have "c \<notin> {CHR '','', CHR 0x22, CHR 0x0A, CHR 0x0D}" if "c \<in> set t" for c
  proof -
    from plain_codes [OF assms(1) [OF that]] have "43 \<le> char_code c" "c \<noteq> CHR '',''" by auto
    then show ?thesis by (auto simp: char_code_def)
  qed
  with assms(2) show ?thesis unfolding plain_field_def by blast
qed

lemma plain_field_Nil [simp]: "plain_field []"
  by (simp add: plain_field_def csv_field_limit_def)

lemma plain_number_field: "pred_option plain_number v \<Longrightarrow> plain_field (number_field v)"
proof (cases v)
  case (Some d)
  moreover assume "pred_option plain_number v"
  ultimately have "int (length (decimal_text d)) < csv_field_limit" by (simp add: plain_number_def)
  then have "plain_field (decimal_text d)" by (intro plain_fieldI plain_decimal_text)
  with Some show ?thesis by (simp add: number_field_def)
qed (simp add: number_field_def)

lemma plain_isoformat_field: "plain_field (isoformat t)"
proof (rule plain_fieldI [OF plain_isoformat])
  show "int (length (isoformat t)) < csv_field_limit"
    by (simp add: isoformat_def iso_text_def Let_def csv_field_limit_def split: prod.split)
qed

lemma plain_uuid_field: "plain_field (uuid_text u)"
  by (rule plain_fieldI [OF plain_uuid_text]) (simp_all add: uuid_text_def Let_def csv_field_limit_def)

lemma plain_reading: "writable ad r \<Longrightarrow> plain_line (reading_fields r)"
proof -
  assume w: "writable ad r"
  have p: "plain_power v \<Longrightarrow> plain_field (number_field v)" for v
    by (rule plain_number_field) (auto simp: plain_power_def)
  have s: "plain_field (number_field (nr_battery_soc r))"
    using w by (intro plain_number_field) (auto simp: writable_def option.pred_True elim: option.pred_mono_strong)
  have a: "plain_field (asset_field v)" for v
    by (cases v) (simp_all add: asset_field_def plain_uuid_field)
  show ?thesis using w s
    by (simp add: plain_line_def reading_fields_def plain_isoformat_field plain_uuid_field a p plain_number_field
        isoformat_not_Nil writable_def)
qed

lemma reading_has_content: "has_content (dict_row canonical_headers (reading_fields r))"
proof -
  note cells = canonical_cells [OF reading_fields_def [of r, THEN arg_cong [of _ _ "dict_row canonical_headers"]]]
  have "''timestamp'' \<in> set (map fst (cr_cells (dict_row canonical_headers (reading_fields r))))"
    by (simp add: dict_row_def canonical_headers_def reading_fields_def)
  moreover have "cell (dict_row canonical_headers (reading_fields r)) ''timestamp'' \<noteq> None"
    "cell (dict_row canonical_headers (reading_fields r)) ''timestamp'' \<noteq> Some []"
    using cells(1) by (simp_all add: isoformat_not_Nil)
  ultimately show ?thesis unfolding has_content_def list_ex_iff by blast
qed

lemma readings_rows:
  assumes "\<forall>r \<in> set rs. writable ad r"
  shows "foldE (row_step ad canonical_columns)
      (enumerate n (map (dict_row canonical_headers) (map reading_fields rs))) p
    = Inr (p\<lparr>cp_readings := cp_readings p @ rs, cp_total := cp_total p + length rs\<rparr>)"
  using assms
  by (induction rs arbitrary: n p) (simp_all add: row_step_def reading_has_content reading_row)

lemma csv_text_parses:
  assumes "rs \<noteq> []" "\<forall>r \<in> set rs. writable ad r" "name \<noteq> []"
    and b: "b = \<lparr>nb_source_name = name, nb_readings = rs, nb_total_records = length rs, nb_errors = []\<rparr>"
  shows "parse_string ad (csv_text rs) (Some name) = Inr (ad\<lparr>ca_last_batch := b\<rparr>, b)"
proof -
  let ?lines = "canonical_headers # map reading_fields rs"
  have plain: "\<forall>ts \<in> set ?lines. plain_line ts" using assms(2) canonical_plain plain_reading by auto
  have lines: "text_lines (csv_text rs) = csv_line_of canonical_headers # map csv_line_of (map reading_fields rs)"
    unfolding csv_text_def text_lines_plain [OF plain] by simp
  have rows: "csv_rows canonical_headers (map csv_line_of (map reading_fields rs))
      = (map (dict_row canonical_headers) (map reading_fields rs), None)"
    using plain by (intro csv_rows_plain) simp
  have body: "parse_body ad canonical_headers (map csv_line_of (map reading_fields rs))
      = Inr \<lparr>cp_readings = rs, cp_errors = [], cp_total = length rs\<rparr>"
    using readings_rows [OF assms(2)] by (simp add: parse_body_def canonical_map rows parse_rows_def del: map_map)
  have "canonical_headers \<noteq> []" by (simp add: canonical_headers_def)
  moreover have "strip (csv_text rs) \<noteq> []"
  proof -
    have "\<exists>t. csv_text rs = CHR ''t'' # t"
      by (simp add: csv_text_def csv_line_of_def canonical_headers_def)
    moreover have "\<not> is_space (CHR ''t'')" by (simp add: is_space_def char_code_def)
    ultimately show ?thesis by (auto simp: strip_def strip_where_def dropWhile_eq_Nil_conv)
  qed
  ultimately show ?thesis using assms(1,3)
    by (simp add: parse_string_def parse_stream_def lines csv_record_plain [OF canonical_plain] body b Let_def
        del: map_map)
qed

end
