(* ===== verification/Meter_Source.thy ===== *)
theory Meter_Source
  imports Telemetry_Props
begin

text \<open>
  The contract of a meter adapter (\<open>MeterReadingSource\<close> of \<open>domain/interfaces/telemetry.py\<close>) as a
  locale, and what the telemetry service does with readings that keep it: read oldest first into
  series that hold nothing newer, none is out of order and none is impossible.
\<close>

text \<open>An outcome of a fed reading: accepted, late for the clock, or a duplicate.\<close>

definition fed :: "ingestion_outcome \<Rightarrow> bool" where
  "fed o1 \<longleftrightarrow> io_status o1 \<in> {VALID, STALE, DUPLICATE} \<and> (io_reading o1 = None \<longleftrightarrow> io_status o1 = DUPLICATE)"

text \<open>The readings left to feed are not older than anything stored or staged in their series.\<close>

definition nothing_newer :: "'a telemetry_db_scheme \<Rightarrow> batch_state \<Rightarrow> normalized_reading list \<Rightarrow> bool" where
  "nothing_newer db bs rs \<longleftrightarrow>
     (\<forall>r \<in> set rs. pred_option (\<lambda>t. t \<le> nr_interval_start r)
                      (latest_interval_start db (nr_meter_id r) (nr_energy_asset_id r))
                    \<and> (\<forall>ser. pred_option (\<lambda>t. t \<le> nr_interval_start r) (bs_staged_latest bs ser)))"

lemma verify_staged:
  "verify_meter db m bs = Inr bs' \<Longrightarrow> bs_staged_latest bs' = bs_staged_latest bs"
  "verify_asset db a bs = Inr bs' \<Longrightarrow> bs_staged_latest bs' = bs_staged_latest bs"
  by (auto simp: verify_meter_def verify_asset_def bindE_eq_Inr split: if_splits option.splits)

lemma max_of_two_le:
  "pred_option (\<lambda>t. t \<le> s) a \<Longrightarrow> pred_option (\<lambda>t. t \<le> s) b \<Longrightarrow> pred_option (\<lambda>t. t \<le> s) (max_of (present [a, b]))"
  by (cases a; cases b) (simp_all add: present_def)

lemma classify_fed:
  assumes "sound_reading r" "\<not> nr_source_unavailable r"
    and "pred_option (\<lambda>t. t \<le> nr_interval_start r) (latest_interval_start db (nr_meter_id r) (nr_energy_asset_id r))"
    and "pred_option (\<lambda>t. t \<le> nr_interval_start r) extra"
  shows "fed (classify_and_build db i r t thr extra dup)"
proof -
  define c where "c = \<lparr>sc_latest_interval_start =
      max_of (present [latest_interval_start db (nr_meter_id r) (nr_energy_asset_id r), extra]),
      sc_duplicate_exists = dup \<or> exists_for_interval db (nr_meter_id r) (nr_energy_asset_id r) (nr_interval_start r)\<rparr>"
  have "pred_option (\<lambda>t. t \<le> nr_interval_start r) (sc_latest_interval_start c)"
    unfolding c_def using max_of_two_le [OF assms(3,4)] by simp
  then have "classify_reading r t (Some c) thr \<in> {VALID, STALE, DUPLICATE}"
    using assms(1,2)
    by (auto simp: classify_reading_def Let_def sound_reading_iff split: option.splits)
  moreover have "io_status (classify_and_build db i r t thr extra dup) = classify_reading r t (Some c) thr"
    by (simp add: classify_and_build_def Let_def c_def)
  ultimately show ?thesis by (auto simp: fed_def built_reading Let_def)
qed

lemma batch_step_fed:
  assumes "batch_step db t thr (i, r) bs = Inr bs'" and "sound_reading r" "\<not> nr_source_unavailable r"
    and "nothing_newer db bs (r # rs)" "\<forall>q \<in> set rs. nr_interval_start r \<le> nr_interval_start q"
    and "\<forall>o1 \<in> set (bs_outcomes bs). fed o1"
  shows "nothing_newer db bs' rs \<and> (\<forall>o1 \<in> set (bs_outcomes bs'). fed o1)"
proof -
  from assms(1) obtain bs1 bs2 where v: "verify_meter db (nr_meter_id r) bs = Inr bs1"
    "verify_asset db (nr_energy_asset_id r) bs1 = Inr bs2" and s: "bs' = advance db t thr i r bs2"
    by (auto simp: batch_step_def bindE_eq_Inr advance_def Let_def)
  have same: "bs_outcomes bs2 = bs_outcomes bs" "bs_staged_latest bs2 = bs_staged_latest bs"
    using verify_outcomes(1) [OF v(1)] verify_outcomes(2) [OF v(2)] verify_staged(1) [OF v(1)] verify_staged(2) [OF v(2)]
    by simp_all
  define o1 where "o1 = classify_and_build db i r t thr (bs_staged_latest bs (nr_meter_id r, nr_energy_asset_id r))
      ((nr_meter_id r, nr_energy_asset_id r, nr_interval_start r) \<in> set (bs_staged_intervals bs2))"
  have new: "fed o1"
    unfolding o1_def using assms(2,3,4) by (intro classify_fed) (simp_all add: nothing_newer_def)
  have "bs_outcomes bs' = bs_outcomes bs @ [o1]"
    by (simp add: s advance_def Let_def same o1_def)
  moreover have "bs_staged_latest bs' ser = bs_staged_latest bs ser \<or> bs_staged_latest bs' ser = Some (nr_interval_start r)" for ser
    by (simp add: s advance_def Let_def same stage_def split: option.splits)
  then have "nothing_newer db bs' rs"
    using assms(4,5) unfolding nothing_newer_def by (metis list.set_intros(2) option.pred_inject(2))
  ultimately show ?thesis using new assms(6) by auto
qed

lemma batch_fed:
  assumes "foldE (batch_step db t thr) xs bs = Inr bs'" "sorted (map (\<lambda>x. nr_interval_start (snd x)) xs)"
    and "\<forall>x \<in> set xs. sound_reading (snd x) \<and> \<not> nr_source_unavailable (snd x)"
    and "nothing_newer db bs (map snd xs)" "\<forall>o1 \<in> set (bs_outcomes bs). fed o1"
  shows "(\<forall>o1 \<in> set (bs_outcomes bs'). fed o1) \<and> length (bs_outcomes bs') = length (bs_outcomes bs) + length xs"
  using assms
proof (induction xs arbitrary: bs)
  case (Cons x xs)
  obtain i r where x: "x = (i, r)" by (cases x)
  from Cons.prems(1) obtain bs1 where s: "batch_step db t thr (i, r) bs = Inr bs1"
    "foldE (batch_step db t thr) xs bs1 = Inr bs'" by (auto simp: x bindE_eq_Inr)
  have "nothing_newer db bs1 (map snd xs) \<and> (\<forall>o1 \<in> set (bs_outcomes bs1). fed o1)"
    using Cons.prems by (intro batch_step_fed [OF s(1)]) (auto simp: x)
  moreover have "length (bs_outcomes bs1) = length (bs_outcomes bs) + 1"
    using batch_step_outcome [OF s(1)] by (metis length_append_singleton Suc_eq_plus1)
  ultimately show ?case using Cons.IH [OF s(2)] Cons.prems by simp
qed simp

lemma insert_readings_length:
  "foldE insert_reading rows db = Inr db' \<Longrightarrow> length (t_readings db') = length (t_readings db) + length rows"
proof (induction rows arbitrary: db)
  case (Cons r rows)
  from Cons.prems obtain db1 where s: "insert_reading r db = Inr db1" "foldE insert_reading rows db1 = Inr db'"
    by (auto simp: bindE_eq_Inr)
  obtain row where "db1 = db\<lparr>t_readings := t_readings db @ [row]\<rparr>"
    using s(1) by (elim insert_reading_extends) blast
  with Cons.IH [OF s(2)] show ?case by simp
qed simp

lemma storable_fed:
  "\<forall>o1 \<in> set os. fed o1 \<Longrightarrow> length (storable_rows os) = length (filter (\<lambda>o1. io_status o1 \<noteq> DUPLICATE) os)"
proof -
  assume "\<forall>o1 \<in> set os. fed o1"
  then have "filter (\<lambda>o1. io_reading o1 \<noteq> None) os = filter (\<lambda>o1. io_status o1 \<noteq> DUPLICATE) os"
    by (intro filter_cong refl) (simp add: fed_def)
  moreover have "length (storable_rows os) = length (filter (\<lambda>o1. io_reading o1 \<noteq> None) os)"
    by (simp add: storable_rows_def present_def filter_map comp_def)
  ultimately show ?thesis by simp
qed

text \<open>The contract.\<close>

locale meter_source =
  fixes read :: "'s \<Rightarrow> datetime option \<Rightarrow> normalized_reading list" and ready :: "'s \<Rightarrow> bool"
  assumes oldest_first: "sorted (map nr_interval_start (read s since))"
    and not_before: "r \<in> set (read s (Some t)) \<Longrightarrow> t \<le> nr_interval_start r"
    and measured: "ready s \<Longrightarrow> r \<in> set (read s since) \<Longrightarrow> sound_reading r \<and> \<not> nr_source_unavailable r"
begin

lemma feed:
  assumes "ready s" "length ids = length (read s since)"
    and "ingest_batch thr given now (zip ids (read s since)) db = Inr (db', os, ns)"
    and "\<forall>r \<in> set (read s since). \<forall>q \<in> set (series db (nr_meter_id r) (nr_energy_asset_id r)).
           rd_interval_start q \<le> nr_interval_start r"
  shows "length os = length (read s since) \<and> (\<forall>o1 \<in> set os. io_status o1 \<in> {VALID, STALE, DUPLICATE})
    \<and> length (t_readings db') = length (t_readings db) + length (filter (\<lambda>o1. io_status o1 \<noteq> DUPLICATE) os)"
proof -
  let ?xs = "zip ids (read s since)"
  define t where "t = (case given of None \<Rightarrow> now | Some t \<Rightarrow> t)"
  from assms(3) obtain bs' where b: "foldE (batch_step db t thr) ?xs empty_batch = Inr bs'"
    "foldE insert_reading (storable_rows (bs_outcomes bs')) db = Inr db'"
    "os = map (refreshed db') (bs_outcomes bs')"
    by (auto simp: ingest_batch_def bindE_eq_Inr Let_def t_def)
  have snds: "map snd ?xs = read s since" using assms(2) by simp
  then have starts: "map (\<lambda>x. nr_interval_start (snd x)) ?xs = map nr_interval_start (read s since)"
    by (metis (no_types, lifting) list.map_comp comp_apply map_eq_conv)
  have "nothing_newer db empty_batch (map snd ?xs)"
    unfolding snds using assms(4) by (simp add: nothing_newer_def empty_batch_def latest_before)
  moreover have "\<forall>x \<in> set ?xs. sound_reading (snd x) \<and> \<not> nr_source_unavailable (snd x)"
    using measured [OF assms(1)] by (auto dest: set_zip_rightD)
  ultimately have fed: "\<forall>o1 \<in> set (bs_outcomes bs'). fed o1" "length (bs_outcomes bs') = length ?xs"
    using batch_fed [OF b(1)] oldest_first by (simp_all add: starts empty_batch_def)
  have same: "io_status (refreshed db' o1) = io_status o1" for o1 by (simp add: refreshed_def)
  have "filter (\<lambda>o1. io_status o1 \<noteq> DUPLICATE) os = map (refreshed db') (filter (\<lambda>o1. io_status o1 \<noteq> DUPLICATE) (bs_outcomes bs'))"
    by (simp add: b(3) filter_map comp_def same)
  with fed insert_readings_length [OF b(2)] storable_fed [OF fed(1)] assms(2) show ?thesis
    by (auto simp: b(3) same fed_def)
qed

end

end
