(* ===== verification/Csv_Claims.thy ===== *)
theory Csv_Claims
  imports Csv_Round_Trip Meter_Source
begin

text \<open>
  What the CSV adapter promises: the readings of a batch are measurements the telemetry service
  accepts, read oldest first they keep the contract of a meter source, a strict run is a lenient run
  without errors, and what was written out as a file is read back.
\<close>

section \<open>Readings\<close>

definition csv_sound :: "normalized_reading \<Rightarrow> bool" where
  "csv_sound r \<longleftrightarrow>
     sound_reading r \<and> \<not> nr_source_unavailable r \<and> nr_source r = IMPORT
     \<and> nr_interval_start r < nr_interval_end r
     \<and> (\<forall>v \<in> {nr_generation_kw r, nr_load_kw r, nr_grid_import_kw r, nr_grid_export_kw r}. v \<noteq> None)"

lemma when_blank_cases: "when_blank field line fb an = Inr v \<Longrightarrow> v = fb"
  by (auto simp: when_blank_def split: if_splits)

lemma val_zero_point [simp]: "val (Dec 0 e) = 0"
  by simp

lemma parse_decimal_nonneg:
  assumes "parse_decimal raw field line fb an True = Inr v" and "pred_option (\<lambda>d. 0 \<le> val d) fb"
  shows "pred_option (\<lambda>d. 0 \<le> val d) v"
proof (cases "blank_value raw")
  case True
  with assms show ?thesis by (auto simp: parse_decimal_def dest: when_blank_cases)
next
  case False
  show ?thesis
  proof (cases "decimal_of_text (strip (the raw))")
    case None
    with False assms(1) show ?thesis by (simp add: parse_decimal_def)
  next
    case (Some d)
    with False assms(1) have "v = Some d \<and> \<not> d < Dec 0 (-1)"
      by (simp add: parse_decimal_def split: if_splits)
    then show ?thesis by (simp add: less_decimal_val)
  qed
qed

lemma or_zero_nonneg: "pred_option (\<lambda>d. 0 \<le> val d) v \<Longrightarrow> 0 \<le> val (or_zero v)"
  by (cases v) (simp_all add: or_zero_def)

lemma power_value_nonneg: "power_value row line col field = Inr d \<Longrightarrow> 0 \<le> val d"
  by (auto simp: power_value_def bindE_eq_Inr intro!: or_zero_nonneg dest!: parse_decimal_nonneg)

lemma grid_flows_nonneg: "grid_flows row line cols g l = Inr (i, x) \<Longrightarrow> 0 \<le> val i \<and> 0 \<le> val x"
  using rounds_to_nonneg [OF abs_rounds]
  by (auto simp: grid_flows_def bindE_eq_Inr less_eq_decimal_val dest: power_value_nonneg split: if_splits)

lemma parse_row_sound:
  assumes "parse_row ad row line cols = Inr r"
  shows "csv_sound r"
proof -
  from assms obtain ts start stop meter asset gen load imp exp energy soc
    where i: "row_interval ad row line cols ts = Inr (start, stop)"
      and p: "power_value row line (cc_gen cols) ''generation_kw'' = Inr gen"
        "power_value row line (cc_load cols) ''load_kw'' = Inr load"
        "grid_flows row line cols gen load = Inr (imp, exp)"
        "parse_decimal (raw_value row (cc_energy cols)) ''energy_kwh'' line None True True = Inr energy"
        "soc_value row line cols = Inr soc"
      and r: "r = \<lparr>nr_meter_id = meter, nr_timestamp = ts, nr_interval_start = start, nr_interval_end = stop,
        nr_source = IMPORT, nr_energy_asset_id = asset, nr_generation_kw = Some gen, nr_load_kw = Some load,
        nr_grid_import_kw = Some imp, nr_grid_export_kw = Some exp, nr_energy_kwh = energy,
        nr_battery_soc = soc, nr_source_unavailable = False\<rparr>"
    by (auto simp: parse_row_def bindE_eq_Inr split: option.splits if_splits)
  have "start < stop" using i by (auto simp: row_interval_def bindE_eq_Inr split: if_splits)
  moreover have "0 \<le> val gen" "0 \<le> val load" "0 \<le> val imp" "0 \<le> val exp"
    using power_value_nonneg [OF p(1)] power_value_nonneg [OF p(2)] grid_flows_nonneg [OF p(3)] by simp_all
  moreover have "pred_option (\<lambda>d. 0 \<le> val d) energy" using parse_decimal_nonneg [OF p(4)] by simp
  moreover have "pred_option (\<lambda>d. 0 \<le> val d \<and> val d \<le> 100) soc"
    using p(5) by (cases soc) (auto simp: soc_value_def bindE_eq_Inr less_eq_decimal_val val_def [of "Dec 1000 _"] split: if_splits)
  ultimately show ?thesis
    by (simp add: csv_sound_def sound_reading_def channels_def has_any_measurement_def measurements_def r)
qed

definition progress_sound :: "csv_progress \<Rightarrow> bool" where
  "progress_sound p \<longleftrightarrow>
     (\<forall>r \<in> set (cp_readings p). csv_sound r) \<and> cp_total p = length (cp_readings p) + length (cp_errors p)"

lemma row_step_sound: "row_step ad cols (line, row) p = Inr q \<Longrightarrow> progress_sound p \<Longrightarrow> progress_sound q"
  using parse_row_sound [of ad row line cols]
  by (cases "parse_row ad row line cols") (auto simp: row_step_def Let_def progress_sound_def split: if_splits)

lemma parse_rows_sound: "parse_rows ad cols (rs, failure) = Inr p \<Longrightarrow> progress_sound p"
proof -
  assume "parse_rows ad cols (rs, failure) = Inr p"
  then have "foldE (row_step ad cols) (enumerate 2 rs) \<lparr>cp_readings = [], cp_errors = [], cp_total = 0\<rparr> = Inr p"
    by (auto simp: parse_rows_def bindE_eq_Inr split: option.splits)
  then show ?thesis
    by (rule foldE_invariant [where P = progress_sound])
      (simp add: progress_sound_def, metis row_step_sound prod.collapse)
qed

lemma parse_stream_batch:
  assumes "parse_stream ad ls source = Inr (ad', b)"
  obtains names rest p where "csv_record ls = Inr (Some names, rest)" "parse_body ad names rest = Inr p"
    "nb_readings b = cp_readings p" "nb_errors b = cp_errors p" "nb_total_records b = cp_total p"
    "0 < cp_total p \<or> cp_readings p \<noteq> []" "ad' = ad\<lparr>ca_last_batch := b\<rparr>"
  using assms by (auto simp: parse_stream_def bindE_eq_Inr Let_def split: if_splits)

lemma parse_body_sound: "parse_body ad names rest = Inr p \<Longrightarrow> progress_sound p"
  by (cases "find_column ''timestamp'' (header_map names)"; cases "csv_rows names rest")
    (auto simp: parse_body_def Let_def dest: parse_rows_sound split: if_splits)


section \<open>A source of readings\<close>

text \<open>The state of the adapter after any run that returned.\<close>

definition csv_ready :: "csv_adapter \<Rightarrow> bool" where
  "csv_ready ad \<longleftrightarrow> (\<forall>r \<in> set (nb_readings (ca_last_batch ad)). csv_sound r)"

interpretation csv: meter_source csv_read csv_ready
  by unfold_locales
    (auto simp: csv_read_def csv_ready_def csv_sound_def Let_def sorted_filter split: option.splits)

lemma parse_stream_ready:
  assumes "parse_stream ad ls source = Inr (ad', b)"
  shows "csv_ready ad'" and "mset (csv_read ad' None) = mset (nb_readings b)"
proof -
  from assms obtain names rest p where p: "parse_body ad names rest = Inr p" "nb_readings b = cp_readings p"
    "ad' = ad\<lparr>ca_last_batch := b\<rparr>" by (elim parse_stream_batch)
  from parse_body_sound [OF p(1)] p
  show "csv_ready ad'" "mset (csv_read ad' None) = mset (nb_readings b)"
    by (simp_all add: csv_ready_def csv_read_def progress_sound_def)
qed


definition csv_demo :: normalized_reading where
  "csv_demo =
     \<lparr>nr_meter_id = 6, nr_timestamp = 900000000, nr_interval_start = 0, nr_interval_end = 900000000,
      nr_source = IMPORT, nr_energy_asset_id = None, nr_generation_kw = Some (Dec 15 (-1)),
      nr_load_kw = Some (Dec 40 (-1)), nr_grid_import_kw = Some (Dec 25 (-1)), nr_grid_export_kw = Some (Dec 0 (-1)),
      nr_energy_kwh = None, nr_battery_soc = Some (Dec 80 0), nr_source_unavailable = False\<rparr>"

definition demo_csv_adapter :: csv_adapter where
  "demo_csv_adapter = csv_adapter_init None None None 15 ''csv_simulator'' True"

lemma csv_demo_writable: "writable demo_csv_adapter csv_demo"
proof -
  have texts: "int (length (decimal_text d)) < csv_field_limit \<and> decimal_limits d"
    if "d \<in> {Dec 15 (-1), Dec 40 (-1), Dec 25 (-1), Dec 0 (-1), Dec 80 0}" for d
    using that unfolding decimal_limits_def by (elim insertE emptyE; simp only:; code_simp)
  have "plain_number d" if "d \<in> {Dec 15 (-1), Dec 40 (-1), Dec 25 (-1), Dec 0 (-1), Dec 80 0}" for d
    using texts [OF that] that by (auto simp: plain_number_def val_def)
  moreover have "val (Dec 80 0) = 80" by (simp add: val_def)
  ultimately show ?thesis
    by (simp add: writable_def csv_demo_def plain_power_def datetime_ok_def uuid_ok_def demo_csv_adapter_def
        csv_adapter_init_def)
qed

definition demo_batch :: telemetry_batch where
  "demo_batch = \<lparr>nb_source_name = ''file'', nb_readings = [csv_demo], nb_total_records = 1, nb_errors = []\<rparr>"

lemma demo_stream:
  "parse_stream demo_csv_adapter (text_lines (csv_text [csv_demo])) (Some ''file'')
     = Inr (demo_csv_adapter\<lparr>ca_last_batch := demo_batch\<rparr>, demo_batch)"
  using csv_text_parses [of "[csv_demo]" demo_csv_adapter "''file''" demo_batch] csv_demo_writable
  by (simp add: demo_batch_def parse_string_def split: if_splits)


lemma val_Dec: "val (Dec c e) = of_int c * 10 powi e"
  by (simp add: val_def)

lemma demo_ingest:
  "case ingest_batch DEFAULT_STALENESS_THRESHOLD (Some 1000000000) 0 [(20, csv_demo)] (demo_telemetry []) of
     Inl _ \<Rightarrow> False | Inr (db', os, ns) \<Rightarrow> map io_status os = [VALID]"
  by code_simp


section \<open>Strict and lenient runs\<close>

lemma strictness_fields:
  "ca_default_meter_id (ad\<lparr>ca_strict := b\<rparr>) = ca_default_meter_id ad"
  "ca_default_energy_asset_id (ad\<lparr>ca_strict := b\<rparr>) = ca_default_energy_asset_id ad"
  "ca_default_interval_minutes (ad\<lparr>ca_strict := b\<rparr>) = ca_default_interval_minutes ad"
  "ca_source_name (ad\<lparr>ca_strict := b\<rparr>) = ca_source_name ad"
  by simp_all

lemma parse_row_strictness [simp]: "parse_row (ad\<lparr>ca_strict := b\<rparr>) row line cols = parse_row ad row line cols"
  by (simp only: parse_row_def row_interval_def strictness_fields)

lemma lenient_total: "\<exists>q new. foldE (row_step (ad\<lparr>ca_strict := False\<rparr>) cols) xs p = Inr q \<and> cp_errors q = cp_errors p @ new"
proof (induction xs arbitrary: p)
  case (Cons x xs)
  obtain line row where x: "x = (line, row)" by (cases x)
  have "\<exists>p1 new. row_step (ad\<lparr>ca_strict := False\<rparr>) cols x p = Inr p1 \<and> cp_errors p1 = cp_errors p @ new"
    by (cases "has_content row"; cases "parse_row ad row line cols") (simp_all add: x row_step_def Let_def)
  then obtain p1 new where s: "row_step (ad\<lparr>ca_strict := False\<rparr>) cols x p = Inr p1" "cp_errors p1 = cp_errors p @ new"
    by blast
  with Cons [of p1] show ?case by auto
qed simp

lemma strict_rows:
  "foldE (row_step (ad\<lparr>ca_strict := True\<rparr>) cols) xs p = Inr q \<longleftrightarrow>
   foldE (row_step (ad\<lparr>ca_strict := False\<rparr>) cols) xs p = Inr q \<and> cp_errors q = cp_errors p"
proof (induction xs arbitrary: p)
  case (Cons x xs)
  obtain line row where x: "x = (line, row)" by (cases x)
  show ?case
  proof (cases "has_content row \<longrightarrow> (\<exists>r. parse_row ad row line cols = Inr r)")
    case True
    then obtain p1 where "row_step (ad\<lparr>ca_strict := b\<rparr>) cols x p = Inr p1" "cp_errors p1 = cp_errors p" for b
      by (cases "has_content row") (auto simp: x row_step_def Let_def)
    with Cons [of p1] show ?thesis by simp
  next
    case False
    then obtain e where e: "has_content row" "parse_row ad row line cols = Inl e"
      by (cases "parse_row ad row line cols") auto
    then obtain p1 where "row_step (ad\<lparr>ca_strict := False\<rparr>) cols x p = Inr p1"
      "cp_errors p1 = cp_errors p @ [(line, e)]" by (simp add: x row_step_def Let_def)
    moreover have "row_step (ad\<lparr>ca_strict := True\<rparr>) cols x p = Inl (raised_at line e)"
      using e by (simp add: x row_step_def Let_def)
    ultimately show ?thesis using lenient_total [of ad cols xs p1] by auto
  qed
qed auto

lemma strict_body:
  "parse_body (ad\<lparr>ca_strict := True\<rparr>) names rest = Inr p \<longleftrightarrow>
   parse_body (ad\<lparr>ca_strict := False\<rparr>) names rest = Inr p \<and> cp_errors p = []"
proof (cases "find_column ''timestamp'' (header_map names)")
  case (Some ts)
  obtain rows failure where r: "csv_rows names rest = (rows, failure)" by (cases "csv_rows names rest")
  show ?thesis
    by (cases failure) (simp_all add: parse_body_def Some Let_def parse_rows_def r bindE_eq_Inr strict_rows conj_commute)
qed (simp add: parse_body_def)

definition batch_of :: "csv_adapter \<Rightarrow> string option \<Rightarrow> csv_progress \<Rightarrow> telemetry_batch \<Rightarrow> bool" where
  "batch_of ad source p b \<longleftrightarrow>
     \<not> (cp_total p = 0 \<and> cp_readings p = [])
     \<and> b = \<lparr>nb_source_name = (case source of None \<Rightarrow> ca_source_name ad | Some s \<Rightarrow> if s = [] then ca_source_name ad else s),
            nb_readings = cp_readings p, nb_total_records = cp_total p, nb_errors = cp_errors p\<rparr>"

lemma stream_returns:
  "(\<exists>ad'. parse_stream ad ls source = Inr (ad', b)) \<longleftrightarrow>
   (\<exists>names rest p. csv_record ls = Inr (Some names, rest) \<and> names \<noteq> [] \<and> parse_body ad names rest = Inr p
      \<and> batch_of ad source p b)"
proof -
  have "(\<exists>ad'. parse_stream ad ls source = Inr (ad', b)) \<longleftrightarrow>
      (\<exists>p. parse_body ad names rest = Inr p \<and> batch_of ad source p b)" if "csv_record ls = Inr (Some names, rest)" "names \<noteq> []" for names rest
    using that by (cases "parse_body ad names rest") (auto simp: parse_stream_def Let_def batch_of_def)
  moreover have "\<not> (\<exists>ad'. parse_stream ad ls source = Inr (ad', b))"
    if "\<nexists>names rest. csv_record ls = Inr (Some names, rest) \<and> names \<noteq> []"
    using that by (auto simp: parse_stream_def bindE_eq_Inr)
  ultimately show ?thesis by blast
qed

text \<open>C26. A strict run is a lenient run without errors: a text parses strictly to a batch exactly if it
  parses leniently to that batch and the batch reports no error. Leniency changes nothing but what
  happens to rows that fail; it neither repairs a row nor turns a good file into another one.\<close>

theorem strict_is_lenient_without_errors:
  "(\<exists>ad'. parse_stream (ad\<lparr>ca_strict := True\<rparr>) ls source = Inr (ad', b)) \<longleftrightarrow>
   (\<exists>ad'. parse_stream (ad\<lparr>ca_strict := False\<rparr>) ls source = Inr (ad', b)) \<and> nb_errors b = []"
  unfolding stream_returns strict_body batch_of_def strictness_fields by auto

section \<open>Round trip\<close>

text \<open>C25. Readings survive the file. Written out under the canonical headers, one line each, with the
  texts Python gives identifiers, instants and decimals, a list of readings the format can carry is
  parsed back to exactly these readings, in order, without an error.\<close>

theorem csv_text_reads_back:
  assumes "rs \<noteq> []" and "\<forall>r \<in> set rs. writable ad r" and "name \<noteq> []"
  shows "\<exists>ad' b. parse_string ad (csv_text rs) (Some name) = Inr (ad', b)
    \<and> nb_readings b = rs \<and> nb_errors b = [] \<and> nb_source_name b = name \<and> ca_last_batch ad' = b"
  using csv_text_parses [OF assms refl] by simp

lemma csv_text_reads_back_witness:
  "\<exists>ad' b. parse_string demo_csv_adapter (csv_text [csv_demo]) (Some ''file'') = Inr (ad', b) \<and> nb_readings b = [csv_demo]"
  using csv_text_reads_back [of "[csv_demo]" demo_csv_adapter "''file''"] csv_demo_writable by auto

end
