(* ===== verification/Simulator_Adapter.thy ===== *)
theory Simulator_Adapter
  imports Csv_Adapter
begin

text \<open>
  The meter simulator (\<open>adapters/meter/simulator_adapter.py\<close>): the facade over the CSV adapter, the
  batches it streams, and the synthetic generator. What the generator takes from outside - the sine
  of the C library, the draws of \<open>random.Random\<close> for a seed and \<open>uuid5\<close> - are arguments; its own
  arithmetic is that of doubles. India has kept an offset of five and a half hours since 1945. The
  loop over the window does not end for a step that is not positive.
\<close>

section \<open>Doubles of the generator\<close>

definition dbl :: "int \<Rightarrow> int \<Rightarrow> decimal" where
  "dbl c e = to_double (Dec c e)"

definition float_sub :: "decimal \<Rightarrow> decimal \<Rightarrow> decimal" where
  "float_sub x y = float_add x (Dec (- coeff y) (dexp y))"

definition math_pi :: decimal where
  "math_pi = dbl 3141592653589793 (-15)"

text \<open>Division by a literal that is not zero.\<close>

definition float_ratio :: "decimal \<Rightarrow> decimal \<Rightarrow> decimal" where
  "float_ratio x y = (case float_div x y of Inl _ \<Rightarrow> 0 | Inr q \<Rightarrow> q)"

section \<open>The synthetic generator\<close>

datatype profile_type = Residential_prosumer | Residential_consumer | Commercial

record synthetic_site =
  sy_meter_id :: uuid
  sy_energy_asset_id :: "uuid option"
  sy_interval_minutes :: int
  sy_profile :: profile_type
  sy_pv_capacity_kw :: decimal
  sy_base_load_kw :: decimal
  sy_peak_load_kw :: decimal

text \<open>The hour of the day in India, with its minutes.\<close>

definition hour_of_day :: "datetime \<Rightarrow> decimal" where
  "hour_of_day t =
     (let us = (t + 19800000000) mod 86400000000
      in float_add (Dec (us div 3600000000) 0) (float_ratio (Dec (us div 60000000 mod 60) 0) (Dec 60 0)))"

definition solar_kw :: "(decimal \<Rightarrow> decimal) \<Rightarrow> (nat \<Rightarrow> decimal) \<Rightarrow> nat \<Rightarrow> synthetic_site \<Rightarrow> decimal \<Rightarrow> decimal \<times> nat" where
  "solar_kw sine draw k s hour =
     (if sy_profile s \<in> {Residential_prosumer, Commercial} \<and> sy_energy_asset_id s \<noteq> None
         \<and> Dec 6 0 \<le> hour \<and> hour \<le> Dec 18 0
      then
        let angle = float_mult (float_ratio (float_sub hour (Dec 6 0)) (Dec 12 0)) math_pi;
            weather = float_add (dbl 9 (-1)) (float_mult (draw k) (dbl 15 (-2)));
            gen = float_mult (float_mult (to_double (sy_pv_capacity_kw s)) (sine angle)) weather
        in (decimal_of_float (float_round 3 (pymax (Dec 0 0) gen)), k + 1)
      else (Dec 0 (-1), k))"

definition base_factor :: "(decimal \<Rightarrow> decimal) \<Rightarrow> decimal \<Rightarrow> profile_type \<Rightarrow> decimal" where
  "base_factor sine hour profile =
     (if profile = Commercial then
        (if Dec 9 0 \<le> hour \<and> hour \<le> Dec 19 0 then dbl 85 (-2)
         else if Dec 7 0 \<le> hour \<and> hour < Dec 9 0 \<or> Dec 19 0 < hour \<and> hour \<le> Dec 21 0 then dbl 4 (-1)
         else dbl 15 (-2))
      else
        (if Dec 65 (-1) \<le> hour \<and> hour \<le> Dec 10 0 then
           float_add (dbl 4 (-1))
             (float_mult (dbl 5 (-1))
               (sine (float_mult (float_ratio (float_sub hour (Dec 65 (-1))) (Dec 35 (-1))) math_pi)))
         else if Dec 175 (-1) \<le> hour \<and> hour \<le> Dec 225 (-1) then
           float_add (dbl 5 (-1))
             (float_mult (dbl 5 (-1))
               (sine (float_mult (float_ratio (float_sub hour (Dec 175 (-1))) (Dec 5 0)) math_pi)))
         else if Dec 10 0 < hour \<and> hour < Dec 175 (-1) then dbl 35 (-2)
         else dbl 1 (-1)))"

definition load_factor ::
  "(decimal \<Rightarrow> decimal) \<Rightarrow> (nat \<Rightarrow> decimal) \<Rightarrow> nat \<Rightarrow> decimal \<Rightarrow> profile_type \<Rightarrow> decimal \<times> nat" where
  "load_factor sine draw k hour profile =
     (let noise = float_mult (float_sub (draw k) (dbl 5 (-1))) (dbl 10 (-2))
      in (pymax (Dec 0 0) (pymin (Dec 1 0) (float_add (base_factor sine hour profile) noise)), k + 1))"

definition synthetic_load :: "synthetic_site \<Rightarrow> decimal \<Rightarrow> decimal" where
  "synthetic_load s factor =
     decimal_of_float (float_round 3 (pymax (dbl 1 (-1))
       (float_add (to_double (sy_base_load_kw s))
          (float_mult (to_double (sy_peak_load_kw s - sy_base_load_kw s)) factor))))"

definition simulated_soc :: "profile_type \<Rightarrow> decimal \<Rightarrow> decimal option" where
  "simulated_soc profile hour =
     (if profile \<noteq> Commercial then None
      else if Dec 10 0 \<le> hour \<and> hour \<le> Dec 15 0 then Some (Dec 850 (-1))
      else if Dec 18 0 \<le> hour \<and> hour \<le> Dec 22 0 then Some (Dec 350 (-1))
      else Some (Dec 600 (-1)))"

definition balanced_flows :: "decimal \<Rightarrow> decimal \<Rightarrow> decimal \<times> decimal" where
  "balanced_flows load gen =
     (let net = load - gen in if Dec 0 (-1) \<le> net then (net, Dec 0 (-1)) else (Dec 0 (-1), \<bar>net\<bar>))"

text \<open>One interval, with the number of draws taken so far.\<close>

definition synthetic_reading ::
  "(decimal \<Rightarrow> decimal) \<Rightarrow> (nat \<Rightarrow> decimal) \<Rightarrow> synthetic_site \<Rightarrow> datetime \<Rightarrow> nat
   \<Rightarrow> (normalized_reading \<times> nat) result" where
  "synthetic_reading sine draw s current k =
     bindE (datetime_plus current (sy_interval_minutes s * 60000000)) (\<lambda>stop.
     bindE (datetime_plus current 19800000000) (\<lambda>_.
     let hour = hour_of_day current;
         (gen, k) = solar_kw sine draw k s hour;
         (factor, k) = load_factor sine draw k hour (sy_profile s);
         load = synthetic_load s factor;
         (imp, exp) = balanced_flows load gen;
         ratio = decimal_of_float (float_ratio (Dec (sy_interval_minutes s) 0) (Dec 60 0))
     in bindE (milli (load * ratio)) (\<lambda>energy.
        Inr (\<lparr>nr_meter_id = sy_meter_id s, nr_timestamp = current, nr_interval_start = current,
              nr_interval_end = stop, nr_source = SIMULATOR, nr_energy_asset_id = sy_energy_asset_id s,
              nr_generation_kw = Some gen, nr_load_kw = Some load, nr_grid_import_kw = Some imp,
              nr_grid_export_kw = Some exp, nr_energy_kwh = Some energy,
              nr_battery_soc = simulated_soc (sy_profile s) hour, nr_source_unavailable = False\<rparr>, k))))"

partial_function (option) synthetic_loop ::
  "(datetime \<Rightarrow> nat \<Rightarrow> (normalized_reading \<times> nat) result) \<Rightarrow> timedelta \<Rightarrow> datetime \<Rightarrow> datetime \<Rightarrow> nat
   \<Rightarrow> normalized_reading list result option" where
  [code]: "synthetic_loop body step current stop k =
     (if \<not> current < stop then Some (Inr [])
      else (case body current k of
              Inl e \<Rightarrow> Some (Inl e)
            | Inr (r, k') \<Rightarrow>
                (case datetime_plus current step of
                   Inl e \<Rightarrow> Some (Inl e)
                 | Inr next \<Rightarrow>
                     Option.bind (synthetic_loop body step next stop k')
                       (\<lambda>rest. Some (bindE rest (\<lambda>rs. Inr (r # rs)))))))"

text \<open>The seed of the run: the generator's and the whole seconds of the start.\<close>

definition run_seed :: "int \<Rightarrow> datetime \<Rightarrow> int" where
  "run_seed seed start =
     (let d = total_seconds start
      in seed + sgn (coeff d) * (\<bar>coeff d\<bar> * 10 ^ nat (dexp d) div 10 ^ nat (- dexp d)))"

definition generate_site_telemetry ::
  "(decimal \<Rightarrow> decimal) \<Rightarrow> (int \<Rightarrow> nat \<Rightarrow> decimal) \<Rightarrow> int \<Rightarrow> datetime \<Rightarrow> synthetic_site
   \<Rightarrow> datetime option \<Rightarrow> datetime option \<Rightarrow> normalized_reading list result option" where
  "generate_site_telemetry sine draws seed now s start_time end_time =
     (let start = (case start_time of None \<Rightarrow> now - now mod 86400000000 | Some t \<Rightarrow> t)
      in case (case end_time of None \<Rightarrow> datetime_plus start 86400000000 | Some t \<Rightarrow> Inr t) of
           Inl e \<Rightarrow> Some (Inl e)
         | Inr stop \<Rightarrow>
             synthetic_loop (synthetic_reading sine (draws (run_seed seed start)) s)
               (sy_interval_minutes s * 60000000) start stop 0)"

section \<open>The adapter\<close>

record meter_simulator =
  ms_default_meter_id :: "uuid option"
  ms_default_site_id :: "uuid option"
  ms_default_energy_asset_id :: "uuid option"
  ms_csv_adapter :: csv_adapter
  ms_seed :: int
  ms_last_batch :: telemetry_batch

definition simulator_init :: "uuid option \<Rightarrow> uuid option \<Rightarrow> uuid option \<Rightarrow> int \<Rightarrow> meter_simulator" where
  "simulator_init meter site asset seed =
     \<lparr>ms_default_meter_id = meter, ms_default_site_id = site, ms_default_energy_asset_id = asset,
      ms_csv_adapter = csv_adapter_init meter site asset 15 ''meter_simulator'' True, ms_seed = seed,
      ms_last_batch = \<lparr>nb_source_name = ''meter_simulator'', nb_readings = [], nb_total_records = 0, nb_errors = []\<rparr>\<rparr>"

definition simulator_read :: "meter_simulator \<Rightarrow> datetime option \<Rightarrow> normalized_reading list" where
  "simulator_read sim since =
     (let readings = sort_key nr_interval_start (nb_readings (ms_last_batch sim))
      in case since of None \<Rightarrow> readings | Some t \<Rightarrow> filter (\<lambda>r. t \<le> nr_interval_start r) readings)"

text \<open>
  Loading sets the strictness of the CSV adapter first, so a failed load keeps it; the last batch
  changes only when the load succeeds.
\<close>

definition load_with ::
  "(csv_adapter \<Rightarrow> (csv_adapter \<times> telemetry_batch) result) \<Rightarrow> bool \<Rightarrow> meter_simulator
   \<Rightarrow> meter_simulator \<times> telemetry_batch result" where
  "load_with parse strict sim =
     (let ad = (ms_csv_adapter sim)\<lparr>ca_strict := strict\<rparr>
      in case parse ad of
           Inl e \<Rightarrow> (sim\<lparr>ms_csv_adapter := ad\<rparr>, Inl e)
         | Inr (ad', batch) \<Rightarrow> (sim\<lparr>ms_csv_adapter := ad', ms_last_batch := batch\<rparr>, Inr batch))"

definition load_from_csv_file ::
  "string \<Rightarrow> string option \<Rightarrow> bool \<Rightarrow> meter_simulator \<Rightarrow> meter_simulator \<times> telemetry_batch result" where
  "load_from_csv_file name content = load_with (\<lambda>ad. parse_file ad name content)"

definition load_from_csv_string :: "string \<Rightarrow> bool \<Rightarrow> meter_simulator \<Rightarrow> meter_simulator \<times> telemetry_batch result" where
  "load_from_csv_string content = load_with (\<lambda>ad. parse_string ad content None)"

definition make_deterministic_uuid :: "(string \<Rightarrow> uuid) \<Rightarrow> string \<Rightarrow> nat \<Rightarrow> uuid" where
  "make_deterministic_uuid uuid5 entity index =
     uuid5 (''urjasetu.synthetic.'' @ entity @ ''.'' @ digits (int index))"

fun first_given :: "'a option list \<Rightarrow> 'a option" where
  "first_given [] = None"
| "first_given (v # vs) = (case v of None \<Rightarrow> first_given vs | Some x \<Rightarrow> Some x)"

definition synthetic_target ::
  "(string \<Rightarrow> uuid) \<Rightarrow> meter_simulator \<Rightarrow> uuid option \<Rightarrow> uuid option \<Rightarrow> int \<Rightarrow> profile_type \<Rightarrow> decimal \<Rightarrow> synthetic_site" where
  "synthetic_target uuid5 sim meter asset minutes profile capacity =
     \<lparr>sy_meter_id = (case first_given [meter, ms_default_meter_id sim] of
                       None \<Rightarrow> make_deterministic_uuid uuid5 ''meter'' 1 | Some m \<Rightarrow> m),
      sy_energy_asset_id = first_given [asset, ms_default_energy_asset_id sim],
      sy_interval_minutes = minutes, sy_profile = profile, sy_pv_capacity_kw = capacity,
      sy_base_load_kw = Dec 12 (-1), sy_peak_load_kw = Dec 45 (-1)\<rparr>"

definition generate_synthetic ::
  "(string \<Rightarrow> uuid) \<Rightarrow> (decimal \<Rightarrow> decimal) \<Rightarrow> (int \<Rightarrow> nat \<Rightarrow> decimal) \<Rightarrow> datetime \<Rightarrow> uuid option \<Rightarrow> uuid option
   \<Rightarrow> datetime option \<Rightarrow> datetime option \<Rightarrow> int \<Rightarrow> profile_type \<Rightarrow> decimal \<Rightarrow> meter_simulator
   \<Rightarrow> (meter_simulator \<times> telemetry_batch) result option" where
  "generate_synthetic uuid5 sine draws now meter asset start stop minutes profile capacity sim =
     Option.bind
       (generate_site_telemetry sine draws (ms_seed sim) now
          (synthetic_target uuid5 sim meter asset minutes profile capacity) start stop)
       (\<lambda>readings. Some (bindE readings (\<lambda>rs.
          let batch = \<lparr>nb_source_name = ''synthetic_simulator'', nb_readings = rs,
                       nb_total_records = length rs, nb_errors = []\<rparr>
          in Inr (sim\<lparr>ms_last_batch := batch\<rparr>, batch))))"

text \<open>\<open>stream_batches\<close>\<close>

function chunks :: "nat \<Rightarrow> 'a list \<Rightarrow> 'a list list" where
  "chunks n xs = (if n = 0 \<or> xs = [] then [] else take n xs # chunks n (drop n xs))"
  by pat_completeness auto
termination
  by (relation "measure (\<lambda>(n, xs). length xs)") auto

declare chunks.simps [simp del]

definition stream_batches :: "normalized_reading list \<Rightarrow> int \<Rightarrow> normalized_reading list list result" where
  "stream_batches readings batch_size =
     (if batch_size \<le> 0 then Inl PyValueError else Inr (chunks (nat batch_size) readings))"

end
