(* ===== verification/Simulator_Claims.thy ===== *)
theory Simulator_Claims
  imports Simulator_Adapter Csv_Claims Baseline_Forecast_Props
begin

text \<open>
  What the meter simulator promises: its readings keep the contract of a meter source, whatever was
  loaded or generated last, and the generator covers its window interval by interval with readings
  whose flows balance.
\<close>

section \<open>Doubles and flows\<close>

lemma val_pymax_ge: "val x \<le> val (pymax x y)" "val y \<le> val (pymax x y)"
  by (auto simp: pymax_def less_decimal_val)

lemma val_pymin_le: "val (pymin x y) \<le> val x" "val (pymin x y) \<le> val y"
  by (auto simp: pymin_def less_decimal_val)

lemma val_pymax_le: "val x \<le> r \<Longrightarrow> val y \<le> r \<Longrightarrow> val (pymax x y) \<le> r"
  by (simp add: pymax_def)

lemma quantized_even_nonneg: "0 \<le> val x \<Longrightarrow> 0 \<le> quantized_even p x"
  by (auto simp: quantized_even_def val_nonneg_iff sgn_if intro!: mult_nonneg_nonneg half_even_nonneg)

lemma float_round_nonneg: "0 \<le> val x \<Longrightarrow> 0 \<le> val (float_round p x)"
  unfolding float_round_def by (intro to_double_nonneg) (simp add: val_nonneg_iff quantized_even_nonneg)

lemma decimal_of_round_nonneg: "0 \<le> val x \<Longrightarrow> 0 \<le> val (decimal_of_float (float_round p x))"
  using decimal_of_float_bound float_round_nonneg by blast

lemma milli_nonneg: "milli x = Inr y \<Longrightarrow> 0 \<le> val x \<Longrightarrow> 0 \<le> val y"
  by (auto simp: milli_def Let_def val_nonneg_iff quantized_even_nonneg split: if_splits)

lemma rounds_to_trans: "rounds_to u v \<Longrightarrow> rounds_to v w \<Longrightarrow> rounds_to u w"
  by (simp add: rounds_to_def)

text \<open>The flows are not negative, one of them is nothing, and their balance is the net load rounded once.\<close>

definition flows_balance :: "decimal \<Rightarrow> decimal \<Rightarrow> decimal \<Rightarrow> decimal \<Rightarrow> bool" where
  "flows_balance load gen inn out \<longleftrightarrow>
     0 \<le> val inn \<and> 0 \<le> val out \<and> (val inn = 0 \<or> val out = 0)
     \<and> rounds_to (val load - val gen) (val inn - val out)"

lemma balanced_flows_balance: "balanced_flows load gen = (inn, out) \<Longrightarrow> flows_balance load gen inn out"
proof (cases "0 \<le> val (load - gen)")
  case True
  moreover assume "balanced_flows load gen = (inn, out)"
  ultimately have "inn = load - gen" "out = Dec 0 (-1)"
    by (auto simp: balanced_flows_def Let_def less_eq_decimal_val split: if_splits)
  with True minus_rounds [of load gen] show ?thesis by (simp add: flows_balance_def)
next
  case False
  moreover assume "balanced_flows load gen = (inn, out)"
  ultimately have e: "out = \<bar>load - gen\<bar>" "inn = Dec 0 (-1)"
    by (auto simp: balanced_flows_def Let_def less_eq_decimal_val split: if_splits)
  have "rounds_to (- val (load - gen)) (val \<bar>load - gen\<bar>)"
    using abs_rounds [of "load - gen"] False by simp
  from rounds_to_trans [OF minus_rounds rounds_to_uminus [OF this, simplified]] False e
  show ?thesis using rounds_to_nonneg [OF abs_rounds [of "load - gen"]] by (simp add: flows_balance_def)
qed

section \<open>One interval\<close>

definition synthetic_sound :: "synthetic_site \<Rightarrow> normalized_reading \<Rightarrow> bool" where
  "synthetic_sound s r \<longleftrightarrow>
     sound_reading r \<and> \<not> nr_source_unavailable r \<and> nr_source r = SIMULATOR
     \<and> nr_meter_id r = sy_meter_id s \<and> nr_energy_asset_id r = sy_energy_asset_id s
     \<and> nr_timestamp r = nr_interval_start r
     \<and> nr_interval_end r = nr_interval_start r + sy_interval_minutes s * 60000000
     \<and> (\<exists>gen load inn out. nr_generation_kw r = Some gen \<and> nr_load_kw r = Some load \<and> nr_grid_import_kw r = Some inn
          \<and> nr_grid_export_kw r = Some out \<and> flows_balance load gen inn out
          \<and> (sy_energy_asset_id s = None \<or> sy_profile s = Residential_consumer \<longrightarrow> val gen = 0))"

lemma solar_nonneg: "solar_kw sine draw k s hour = (gen, k') \<Longrightarrow> 0 \<le> val gen"
  by (auto simp: solar_kw_def Let_def val_pymax_ge(1) [of "Dec 0 0", simplified] intro!: decimal_of_round_nonneg split: if_splits)

lemma solar_none:
  "solar_kw sine draw k s hour = (gen, k') \<Longrightarrow> sy_energy_asset_id s = None \<or> sy_profile s = Residential_consumer \<Longrightarrow> val gen = 0"
  by (auto simp: solar_kw_def split: if_splits)

lemma tenth_nonneg: "0 \<le> val (dbl 1 (-1))"
  unfolding dbl_def by (intro to_double_nonneg) (simp add: val_nonneg_iff)

lemma load_nonneg: "0 \<le> val (synthetic_load s factor)"
  unfolding synthetic_load_def
  by (intro decimal_of_round_nonneg order.trans [OF tenth_nonneg val_pymax_ge(1)])

lemma ratio_nonneg: "0 \<le> m \<Longrightarrow> 0 \<le> val (decimal_of_float (float_ratio (Dec m 0) (Dec 60 0)))"
proof -
  assume "0 \<le> m"
  then obtain z where "float_div (Dec m 0) (Dec 60 0) = Inr z" "0 \<le> val z"
    by (elim float_div_nonneg [rotated 2]) (simp_all add: val_def)
  then show ?thesis using decimal_of_float_bound [of z] by (simp add: float_ratio_def)
qed

lemma soc_in_range: "pred_option (\<lambda>d. 0 \<le> val d \<and> val d \<le> 100) (simulated_soc profile hour)"
  by (simp add: simulated_soc_def val_def power_int_minus)

lemma synthetic_reading_sound:
  assumes "synthetic_reading sine draw s current k = Inr (r, k')" "0 < sy_interval_minutes s"
  shows "synthetic_sound s r \<and> nr_interval_start r = current"
proof -
  let ?hour = "hour_of_day current"
  obtain gen k1 where g: "solar_kw sine draw k s ?hour = (gen, k1)" by fastforce
  obtain f k2 where f: "load_factor sine draw k1 ?hour (sy_profile s) = (f, k2)" by fastforce
  define load where "load = synthetic_load s f"
  obtain inn out where b: "balanced_flows load gen = (inn, out)" by fastforce
  define ratio where "ratio = decimal_of_float (float_ratio (Dec (sy_interval_minutes s) 0) (Dec 60 0))"
  obtain energy where e: "milli (load * ratio) = Inr energy"
    and r: "r = \<lparr>nr_meter_id = sy_meter_id s, nr_timestamp = current, nr_interval_start = current,
      nr_interval_end = current + sy_interval_minutes s * 60000000, nr_source = SIMULATOR,
      nr_energy_asset_id = sy_energy_asset_id s, nr_generation_kw = Some gen, nr_load_kw = Some load,
      nr_grid_import_kw = Some inn, nr_grid_export_kw = Some out, nr_energy_kwh = Some energy,
      nr_battery_soc = simulated_soc (sy_profile s) ?hour, nr_source_unavailable = False\<rparr>"
    using assms(1)
    by (auto simp: synthetic_reading_def bindE_eq_Inr Let_def g f b load_def [symmetric] ratio_def [symmetric] datetime_plus_def
        split: if_splits)
  have "0 \<le> val load" by (simp add: load_def load_nonneg)
  then have "0 \<le> val energy"
    using milli_nonneg [OF e] times_nonneg ratio_nonneg [of "sy_interval_minutes s"] assms(2) by (simp add: ratio_def)
  with balanced_flows_balance [OF b] solar_nonneg [OF g] solar_none [OF g] \<open>0 \<le> val load\<close> soc_in_range assms(2)
  show ?thesis
    by (simp add: r synthetic_sound_def sound_reading_def channels_def has_any_measurement_def measurements_def flows_balance_def)
qed


section \<open>The loop over the window\<close>

text \<open>The number of intervals that start in a window: its length over the step, rounded up.\<close>

definition interval_count :: "timedelta \<Rightarrow> datetime \<Rightarrow> datetime \<Rightarrow> nat" where
  "interval_count step start stop = nat (- ((start - stop) div step))"

lemma interval_count_step:
  assumes "0 < step" "start < stop"
  shows "interval_count step start stop = Suc (interval_count step (start + step) stop)"
proof -
  have "(start + step - stop) div step = (start - stop) div step + 1"
    using div_add_self2 [of step "start - stop"] assms(1) by (simp add: algebra_simps)
  moreover have "(start - stop) div step < 0" using assms by (simp add: div_neg_pos_less0)
  ultimately show ?thesis by (simp add: interval_count_def)
qed

lemma interval_count_done: "0 < step \<Longrightarrow> stop \<le> start \<Longrightarrow> interval_count step start stop = 0"
  by (simp add: interval_count_def pos_imp_zdiv_nonneg_iff)

lemma synthetic_loop_covers:
  assumes "0 < step"
  shows "\<exists>res. synthetic_loop body step start stop k = Some res
    \<and> (\<forall>rs. res = Inr rs \<longrightarrow> length rs = interval_count step start stop
         \<and> (\<forall>j < length rs. \<exists>i i'. body (start + int j * step) i = Inr (rs ! j, i')))"
proof (induction "interval_count step start stop" arbitrary: start k)
  case 0
  then have "\<not> start < stop" using interval_count_step [OF assms] by fastforce
  then show ?case using assms by (simp add: synthetic_loop.simps [of body] interval_count_done)
next
  case (Suc n)
  have lt: "start < stop" using interval_count_done [OF assms, of stop start] Suc.hyps(2) by (cases "start < stop") simp_all
  show ?case
  proof (cases "body start k")
    case (Inl e)
    with lt show ?thesis by (subst synthetic_loop.simps) simp
  next
    case (Inr p)
    obtain r k' where p: "p = (r, k')" by (cases p)
    show ?thesis
    proof (cases "datetime_plus start step")
      case (Inl e)
      with lt Inr p show ?thesis by (subst synthetic_loop.simps) simp
    next
      case moved: (Inr later)
      from moved have n: "later = start + step" by (simp add: datetime_plus_def split: if_splits)
      from Suc.hyps(2) interval_count_step [OF assms lt] have "n = interval_count step later stop" by (simp add: n)
      from Suc.hyps(1) [OF this, of k'] obtain res where res: "synthetic_loop body step later stop k' = Some res"
        "\<forall>rs. res = Inr rs \<longrightarrow> length rs = interval_count step later stop
           \<and> (\<forall>j < length rs. \<exists>i i'. body (later + int j * step) i = Inr (rs ! j, i'))" by blast
      have "synthetic_loop body step start stop k = Some (bindE res (\<lambda>rs. Inr (r # rs)))"
        using lt Inr p moved res(1) by (subst synthetic_loop.simps) simp
      moreover have "length rs = interval_count step start stop
          \<and> (\<forall>j < length rs. \<exists>i i'. body (start + int j * step) i = Inr (rs ! j, i'))"
        if "bindE res (\<lambda>rs. Inr (r # rs)) = Inr rs" for rs
      proof -
        from that obtain rs0 where r0: "res = Inr rs0" "rs = r # rs0" by (auto simp: bindE_eq_Inr)
        have "\<exists>i i'. body (start + int j * step) i = Inr (rs ! j, i')" if "j < length rs" for j
          using that res(2) r0 Inr p n by (cases j) (auto simp: algebra_simps)
        with r0 res(2) interval_count_step [OF assms lt] show ?thesis by (simp add: n)
      qed
      ultimately show ?thesis by blast
    qed
  qed
qed

lemma synthetic_loop_endless:
  assumes "synthetic_loop body step start stop k = Some res"
  shows "step = 0 \<longrightarrow> (\<forall>t i. returns (body t i)) \<longrightarrow> datetime_ok start \<longrightarrow> stop \<le> start"
  using assms
proof (induction rule: synthetic_loop.raw_induct [rotated, consumes 1])
  case (1 loop body step start stop k res)
  show ?case
  proof (intro impI)
    assume a: "step = 0" "\<forall>t i. returns (body t i)" "datetime_ok start"
    show "stop \<le> start"
    proof (rule ccontr)
      assume lt: "\<not> stop \<le> start"
      have "returns (body start k)" using a(2) by blast
      then obtain r k' where "body start k = Inr (r, k')" by (cases "body start k") auto
      with 1(2) lt a(1,3) obtain q where "loop body step start stop k' = Some q"
        by (auto simp: datetime_plus_def bind_eq_Some_conv)
      from 1(1) [OF this] a lt show False by simp
    qed
  qed
qed

section \<open>The simulator as a source\<close>

definition sim_ready :: "meter_simulator \<Rightarrow> bool" where
  "sim_ready sim \<longleftrightarrow> (\<forall>r \<in> set (nb_readings (ms_last_batch sim)). sound_reading r \<and> \<not> nr_source_unavailable r)"

interpretation simulator: meter_source simulator_read sim_ready
  by unfold_locales
    (auto simp: simulator_read_def sim_ready_def Let_def sorted_filter split: option.splits)

lemma load_with_ready:
  assumes "load_with parse strict sim = (sim', out)" "sim_ready sim"
    and "\<And>ad ad' b. parse ad = Inr (ad', b) \<Longrightarrow> \<forall>r \<in> set (nb_readings b). csv_sound r"
  shows "sim_ready sim'"
  using assms by (auto simp: load_with_def Let_def sim_ready_def csv_sound_def split: sum.splits)

lemma parse_stream_sound: "parse_stream ad ls source = Inr (ad', b) \<Longrightarrow> \<forall>r \<in> set (nb_readings b). csv_sound r"
  by (elim parse_stream_batch) (auto dest: parse_body_sound simp: progress_sound_def)

lemma generate_covers:
  assumes "0 < sy_interval_minutes s"
    and "start = (case start_time of None \<Rightarrow> now - now mod 86400000000 | Some t \<Rightarrow> t)"
    and "stop = (case end_time of None \<Rightarrow> start + 86400000000 | Some t \<Rightarrow> t)"
  shows "\<exists>res. generate_site_telemetry sine draws seed now s start_time end_time = Some res
    \<and> (\<forall>rs. res = Inr rs \<longrightarrow>
         length rs = interval_count (sy_interval_minutes s * 60000000) start stop
         \<and> (\<forall>j < length rs. synthetic_sound s (rs ! j)
              \<and> nr_interval_start (rs ! j) = start + int j * (sy_interval_minutes s * 60000000)))"
proof -
  define step where "step = sy_interval_minutes s * 60000000"
  define body where "body = synthetic_reading sine (draws (run_seed seed start)) s"
  define final where "final = (case end_time of None \<Rightarrow> datetime_plus start 86400000000 | Some t \<Rightarrow> Inr t)"
  have g: "generate_site_telemetry sine draws seed now s start_time end_time
      = (case final of Inl e \<Rightarrow> Some (Inl e) | Inr stop' \<Rightarrow> synthetic_loop body step start stop' 0)"
    unfolding generate_site_telemetry_def Let_def final_def body_def step_def assms(2) ..
  show ?thesis
  proof (cases final)
    case (Inr stop')
    then have "stop' = stop" by (auto simp: final_def assms(3) datetime_plus_def split: option.splits if_splits)
    moreover have "0 < step" using assms(1) by (simp add: step_def)
    moreover have "synthetic_sound s r \<and> nr_interval_start r = t" if "body t i = Inr (r, i')" for t i r i'
      using synthetic_reading_sound [of sine] that assms(1) by (simp add: body_def)
    ultimately show ?thesis
      using synthetic_loop_covers [of step body start stop 0] unfolding g Inr step_def [symmetric] by fastforce
  qed (simp add: g)
qed

text \<open>C27. What the simulator generates. With a positive interval the generator ends, and unless it
  raises what it returns covers the window: one reading at every step from its start up to its end,
  each of them possible - powers not negative, a charge between 0 and 100 -, of the simulator, of the
  meter and asset asked for, with flows that balance load against generation, one way at a time, and
  with no generation where there is no asset or only a consumer. How large the powers are follows the
  capacity given. The adapter then replays exactly this batch.\<close>

theorem synthetic_batch_is_sound:
  assumes "0 < minutes"
    and "start = (case start_time of None \<Rightarrow> now - now mod 86400000000 | Some t \<Rightarrow> t)"
    and "stop = (case end_time of None \<Rightarrow> start + 86400000000 | Some t \<Rightarrow> t)"
  shows "\<exists>res. generate_synthetic uuid5 sine draws now meter asset start_time end_time minutes profile kw sim = Some res
    \<and> (\<forall>sim' b. res = Inr (sim', b) \<longrightarrow>
         nb_total_records b = interval_count (minutes * 60000000) start stop \<and> normalized_count b = nb_total_records b
         \<and> (\<forall>j < normalized_count b.
              synthetic_sound (synthetic_target uuid5 sim meter asset minutes profile kw) (nb_readings b ! j)
              \<and> nr_interval_start (nb_readings b ! j) = start + int j * (minutes * 60000000))
         \<and> sim_ready sim' \<and> mset (simulator_read sim' None) = mset (nb_readings b))"
proof -
  let ?s = "synthetic_target uuid5 sim meter asset minutes profile kw"
  have m: "sy_interval_minutes ?s = minutes" by (simp add: synthetic_target_def)
  obtain res where res: "generate_site_telemetry sine draws (ms_seed sim) now ?s start_time end_time = Some res"
    "\<And>rs. res = Inr rs \<Longrightarrow> length rs = interval_count (minutes * 60000000) start stop
       \<and> (\<forall>j < length rs. synthetic_sound ?s (rs ! j) \<and> nr_interval_start (rs ! j) = start + int j * (minutes * 60000000))"
    using generate_covers [of ?s start now start_time stop end_time sine draws "ms_seed sim"] assms unfolding m by blast
  have "sim_ready (sim\<lparr>ms_last_batch := b\<rparr>)" if "res = Inr rs" "nb_readings b = rs" for b rs
    using res(2) [OF that(1)] that(2) by (auto simp: sim_ready_def synthetic_sound_def in_set_conv_nth)
  with res(2) show ?thesis
    by (cases res) (simp_all add: generate_synthetic_def res(1) Let_def normalized_count_def simulator_read_def)
qed

text \<open>A consumer at six in the evening: the sine at its crest and a draw in the middle give the peak load.\<close>

definition demo_simulator :: meter_simulator where
  "demo_simulator = simulator_init (Some 6) None None 42"

lemma evening_generated:
  "case generate_site_telemetry (\<lambda>_. 1) (\<lambda>_ _. Dec 5 (-1)) 42 0
     (synthetic_target (\<lambda>_. 7) demo_simulator None None 60 Residential_consumer (Dec 50 (-1)))
     (Some 45000000000) (Some 48600000000) of
     Some (Inr rs) \<Rightarrow> map nr_load_kw rs = [Some (Dec 45 (-1))] | _ \<Rightarrow> False"
  by code_simp

lemma synthetic_batch_is_sound_witness:
  "\<exists>sim' b. generate_synthetic (\<lambda>_. 7) (\<lambda>_. 1) (\<lambda>_ _. Dec 5 (-1)) 0 None None (Some 45000000000) (Some 48600000000)
       60 Residential_consumer (Dec 50 (-1)) demo_simulator = Some (Inr (sim', b))
     \<and> nb_total_records b = 1 \<and> sim_ready sim' \<and> mset (simulator_read sim' None) = mset (nb_readings b)"
proof -
  obtain res where r: "generate_synthetic (\<lambda>_. 7) (\<lambda>_. 1) (\<lambda>_ _. Dec 5 (-1)) 0 None None (Some 45000000000)
      (Some 48600000000) 60 Residential_consumer (Dec 50 (-1)) demo_simulator = Some res"
    and s: "\<And>sim' b. res = Inr (sim', b) \<Longrightarrow> nb_total_records b = 1 \<and> sim_ready sim'
       \<and> mset (simulator_read sim' None) = mset (nb_readings b)"
    using synthetic_batch_is_sound [where minutes = 60 and start_time = "Some 45000000000" and start = 45000000000
        and stop = 48600000000 and end_time = "Some 48600000000" and now = 0]
    by (fastforce simp: interval_count_def)
  have "returns res"
    using r evening_generated
    by (auto simp: generate_synthetic_def demo_simulator_def simulator_init_def Let_def split: option.splits sum.splits)
  with s r show ?thesis by (cases res) auto
qed

end
