(* ===== verification/Workspace_Tables.thy ===== *)
theory Workspace_Tables
  imports Settlement_Service Grid_Adapter Baseline_Forecast
begin

text \<open>
  The tables of the connected marketplace (\<open>db/models/workspace.py\<close>) beside those of the other
  services, and the reads and writes every operation of \<open>services/workspace_service.py\<close> shares: the
  clock of the simulation, its revision, the audit event of a change, the sites of the feeder and
  the forecast of an interval. An operation runs under a lock on the single row of the simulation
  and is one transaction. Weather, avatars and columns no operation reads are left out.
\<close>

section \<open>Tables\<close>

record simulation_row =
  sim_clock :: datetime
  sim_running :: bool
  sim_scenario :: string
  sim_revision :: int
  sim_live_mode :: bool

record action_row =
  ac_user_id :: uuid
  ac_request_id :: uuid
  ac_body_hash :: string
  ac_trade_id :: uuid

record allocation_row =
  al_id :: uuid
  al_trade_id :: uuid
  al_seller_reading_id :: uuid
  al_buyer_reading_id :: uuid
  al_energy_kwh :: decimal

record journal_row =
  jn_id :: uuid
  jn_settlement_id :: uuid
  jn_account :: string
  jn_amount_inr :: decimal

record receipt_row =
  rp_id :: uuid
  rp_trade_id :: uuid
  rp_payload :: json
  rp_payload_hash :: string
  rp_status :: string

record workspace_db = settlement_db +
  t_simulation :: "simulation_row option"
  t_actions :: "action_row list"
  t_allocations :: "allocation_row list"
  t_journal :: "journal_row list"
  t_receipts :: "receipt_row list"

definition action_key :: "action_row \<Rightarrow> uuid \<times> uuid" where
  "action_key a = (ac_user_id a, ac_request_id a)"

definition insert_action :: "action_row \<Rightarrow> 'a workspace_db_scheme \<Rightarrow> 'a workspace_db_scheme result" where
  "insert_action a db =
     bindE (varchar 64 (ac_body_hash a)) (\<lambda>_.
     bindE (all_checks
       [(action_key a \<notin> set (map action_key (t_actions db)), ''pk_marketplace_actions''),
        (known us_id (t_users db) (ac_user_id a), ''fk_marketplace_actions_user_id_users''),
        (known td_id (t_trades db) (ac_trade_id a), ''fk_marketplace_actions_trade_id_trades'')]) (\<lambda>_.
     Inr (db\<lparr>t_actions := t_actions db @ [a]\<rparr>)))"

definition insert_allocation :: "allocation_row \<Rightarrow> 'a workspace_db_scheme \<Rightarrow> 'a workspace_db_scheme result" where
  "insert_allocation a db =
     bindE (numeric 14 4 (al_energy_kwh a)) (\<lambda>energy.
     let row = a\<lparr>al_energy_kwh := energy\<rparr>
     in bindE (all_checks
       [(\<not> known al_id (t_allocations db) (al_id row), ''pk_trade_allocations''),
        (\<not> known al_trade_id (t_allocations db) (al_trade_id row), ''uq_trade_allocations_trade_id''),
        (known td_id (t_trades db) (al_trade_id row), ''fk_trade_allocations_trade_id_trades''),
        (known rd_id (t_readings db) (al_seller_reading_id row), ''fk_trade_allocations_seller_reading_id''),
        (known rd_id (t_readings db) (al_buyer_reading_id row), ''fk_trade_allocations_buyer_reading_id'')]) (\<lambda>_.
     Inr (db\<lparr>t_allocations := t_allocations db @ [row]\<rparr>)))"

definition insert_journal :: "journal_row \<Rightarrow> 'a workspace_db_scheme \<Rightarrow> 'a workspace_db_scheme result" where
  "insert_journal j db =
     bindE (varchar 100 (jn_account j)) (\<lambda>_.
     bindE (numeric 16 2 (jn_amount_inr j)) (\<lambda>amount.
     let row = j\<lparr>jn_amount_inr := amount\<rparr>
     in bindE (all_checks
       [(\<not> known jn_id (t_journal db) (jn_id row), ''pk_journal_entries''),
        ((jn_settlement_id row, jn_account row) \<notin> set (map (\<lambda>q. (jn_settlement_id q, jn_account q)) (t_journal db)),
         ''uq_journal_entries_settlement_id''),
        (known sm_id (t_settlements db) (jn_settlement_id row), ''fk_journal_entries_settlement_id_settlements'')]) (\<lambda>_.
     Inr (db\<lparr>t_journal := t_journal db @ [row]\<rparr>))))"

definition insert_receipt :: "receipt_row \<Rightarrow> 'a workspace_db_scheme \<Rightarrow> 'a workspace_db_scheme result" where
  "insert_receipt r db =
     bindE (varchar 64 (rp_payload_hash r)) (\<lambda>_.
     bindE (varchar 32 (rp_status r)) (\<lambda>_.
     bindE (all_checks
       [(\<not> known rp_id (t_receipts db) (rp_id r), ''pk_blockchain_receipts''),
        (\<not> known rp_trade_id (t_receipts db) (rp_trade_id r), ''uq_blockchain_receipts_trade_id''),
        (known td_id (t_trades db) (rp_trade_id r), ''fk_blockchain_receipts_trade_id_trades'')]) (\<lambda>_.
     Inr (db\<lparr>t_receipts := t_receipts db @ [r]\<rparr>))))"

section \<open>Shared steps\<close>

definition FEEDER :: string where
  "FEEDER = ''AHMEDABAD-SIMULATION''"

definition INTERVAL :: timedelta where
  "INTERVAL = 15 * 60 * 1000000"

definition PROFILE_VERSION :: string where
  "PROFILE_VERSION = ''gujarat-household-1''"

text \<open>\<open>state\<close>, \<open>bump\<close>, \<open>add_audit\<close>\<close>

definition simulation_state :: "'a workspace_db_scheme \<Rightarrow> simulation_row result" where
  "simulation_state db = (case t_simulation db of None \<Rightarrow> Inl (HTTPException 503) | Some s \<Rightarrow> Inr s)"

definition bump :: "'a workspace_db_scheme \<Rightarrow> 'a workspace_db_scheme" where
  "bump db = db\<lparr>t_simulation := map_option (\<lambda>s. s\<lparr>sim_revision := sim_revision s + 1\<rparr>) (t_simulation db)\<rparr>"

definition add_audit ::
  "simulation_row \<Rightarrow> audit_event_type \<Rightarrow> audit_entity_type \<Rightarrow> uuid \<Rightarrow> (string \<times> pyval) list \<Rightarrow> uuid option
   \<Rightarrow> uuid \<Rightarrow> datetime \<Rightarrow> 'a workspace_db_scheme \<Rightarrow> 'a workspace_db_scheme result" where
  "add_audit sim kind entity entity_id payload actor event_id now db =
     record_event \<lparr>ae_event_id = event_id, ae_event_type = kind, ae_entity_type = entity, ae_entity_id = entity_id,
       ae_event_time = sim_clock sim, ae_recorded_at = now, ae_actor_user_id = actor, ae_payload = payload\<rparr> db"

definition capacity :: "'a registry_scheme \<Rightarrow> site_row \<Rightarrow> decimal" where
  "capacity db s = dsum (map as_capacity_kw (filter (\<lambda>a. as_site_id a = si_id s) (t_energy_assets db)))"

definition feeder_sites :: "'a registry_scheme \<Rightarrow> site_row list" where
  "feeder_sites db =
     filter (\<lambda>s. case si_grid_node_id s of
                   None \<Rightarrow> False
                 | Some n \<Rightarrow> list_ex (\<lambda>g. gn_id g = n \<and> gn_feeder_id g = Some FEEDER) (t_grid_nodes db))
       (t_sites db)"

text \<open>The newest forecast point of each kind; both kinds are required.\<close>

definition newest_point :: "'a forecast_db_scheme \<Rightarrow> uuid \<Rightarrow> datetime \<Rightarrow> forecast_type \<Rightarrow> point_row option" where
  "newest_point db site start kind =
     head_row (sort_key (\<lambda>p. - (case run_of_point db p of None \<Rightarrow> 0 | Some r \<Rightarrow> fr_created_at r))
       (filter (\<lambda>p. fp_site_id p = site \<and> fp_interval_start p = start
                  \<and> (case run_of_point db p of None \<Rightarrow> False | Some r \<Rightarrow> fr_forecast_type r = kind))
         (t_forecast_points db)))"

definition prediction :: "'a forecast_db_scheme \<Rightarrow> uuid \<Rightarrow> datetime \<Rightarrow> (point_row \<times> point_row) result" where
  "prediction db site start =
     (case (newest_point db site start SOLAR, newest_point db site start LOAD) of
        (Some solar, Some load) \<Rightarrow> Inr (solar, load) | _ \<Rightarrow> Inl (HTTPException 409))"

text \<open>The calendar day in India, as an ordinal.\<close>

definition ist_day :: "datetime \<Rightarrow> int" where
  "ist_day t = (t + IST) div 86400000000 + epoch_ordinal"

end
