(* ===== verification/Workspace_Market.thy ===== *)
theory Workspace_Market
  imports Workspace_Tables
begin

text \<open>
  Trading in the connected marketplace (\<open>place_order\<close>, \<open>cancel_order\<close>, \<open>accept_offer\<close>,
  \<open>validate_grid\<close> and \<open>clear_market\<close> of \<open>services/workspace_service.py\<close>): a sell is admitted only
  against the forecast surplus that is not yet reserved, a slot is matched by the baseline engine,
  judged once by the power grid adapter, and every proposal is committed or rejected at its final
  price. The solver, the prose of violations and the hash of a request are arguments, as are
  identifiers and clocks. A quantity or price of a request has at most four decimals (\<open>OrderInput\<close> of
  \<open>api/v1/workspace.py\<close>), so that a row in memory is the row stored.
\<close>

section \<open>Orders\<close>

text \<open>What placing draws: identifiers, the clock of the audit event and the instant of the transaction.\<close>

record order_fresh =
  of_session_id :: uuid
  of_order_id :: uuid
  of_event_id :: uuid
  of_event_now :: datetime
  of_now :: datetime

definition slot_open :: "simulation_row \<Rightarrow> datetime \<Rightarrow> unit result" where
  "slot_open sim start =
     (if start mod INTERVAL \<noteq> 0 then Inl (HTTPException 422)
      else guardE (ist_day start = ist_day (sim_clock sim) + 1) (HTTPException 422))"

definition seller_site :: "'a registry_scheme \<Rightarrow> user_row \<Rightarrow> order_side \<Rightarrow> site_row result" where
  "seller_site db user side =
     (case List.find (\<lambda>s. si_owner_user_id s = us_id user) (t_sites db) of
        None \<Rightarrow> Inl (HTTPException 403)
      | Some s \<Rightarrow> if side = SELL \<and> us_role user \<noteq> PROSUMER then Inl (HTTPException 403) else Inr s)"

definition reserved_kwh :: "'a market_db_scheme \<Rightarrow> uuid \<Rightarrow> datetime \<Rightarrow> decimal" where
  "reserved_kwh db site start =
     dsum (map (\<lambda>o1. od_matched_kwh o1 + (if order_is_active (od_status o1) then remaining_kwh o1 else 0))
       (filter (\<lambda>o1. od_site_id o1 = site \<and> od_delivery_start o1 = start \<and> od_side o1 = SELL) (t_orders db)))"

definition unreserved :: "'a market_db_scheme \<Rightarrow> uuid \<Rightarrow> datetime \<Rightarrow> decimal \<Rightarrow> decimal \<Rightarrow> decimal" where
  "unreserved db site start solar load = pymax 0 (solar - load) - reserved_kwh db site start"

definition session_for :: "simulation_row \<Rightarrow> int \<Rightarrow> uuid \<Rightarrow> 'a market_db_scheme \<Rightarrow> ('a market_db_scheme \<times> uuid) result" where
  "session_for sim day new_id db =
     (case List.find (\<lambda>s. mk_market_date s = day) (t_sessions db) of
        Some s \<Rightarrow> Inr (db, mk_id s)
      | None \<Rightarrow>
          bindE (insert_session \<lparr>mk_id = new_id, mk_market_date = day, mk_market_type = DAY_AHEAD,
              mk_status = Session_OPEN, mk_opened_at = Some (sim_clock sim), mk_closed_at = None,
              mk_cleared_at = None\<rparr> db) (\<lambda>db'. Inr (db', new_id)))"

definition workspace_order ::
  "user_row \<Rightarrow> site_row \<Rightarrow> uuid \<Rightarrow> uuid \<Rightarrow> datetime \<Rightarrow> order_side \<Rightarrow> decimal \<Rightarrow> decimal \<Rightarrow> order_fresh \<Rightarrow> order_row" where
  "workspace_order user site session_id run_id start side quantity price f =
     \<lparr>od_id = of_order_id f, od_market_session_id = session_id, od_user_id = us_id user, od_site_id = si_id site,
      od_node_id = si_grid_node_id site, od_side = side, od_energy_kwh = quantity,
      od_min_price = (if side = SELL then Some price else None),
      od_max_price = (if side = BUY then Some price else None),
      od_delivery_start = start, od_delivery_end = start + INTERVAL,
      od_forecast_basis_id = (if side = SELL then Some run_id else None), od_reliability = None,
      od_status = Order_OPEN, od_matched_kwh = 0, od_created_at = of_now f\<rparr>"

definition forecast_energies :: "point_row \<times> point_row \<Rightarrow> (decimal \<times> decimal) result" where
  "forecast_energies basis =
     (case (fp_predicted_kwh (fst basis), fp_predicted_kwh (snd basis)) of
        (Some solar, Some load) \<Rightarrow> Inr (solar, load) | _ \<Rightarrow> Inl (HTTPException 409))"

definition order_placed_payload :: "order_side \<Rightarrow> decimal \<Rightarrow> decimal \<Rightarrow> (string \<times> pyval) list" where
  "order_placed_payload side quantity price =
     [(''side'', PStr (order_side_value side)), (''energy_kwh'', PStr (decimal_text quantity)),
      (''limit_price'', PStr (decimal_text price)), (''source'', PStr ''simulation'')]"

text \<open>What is checked before anything is written, with the site and the forecast found on the way.\<close>

definition admit_slot ::
  "'a workspace_db_scheme \<Rightarrow> simulation_row \<Rightarrow> user_row \<Rightarrow> datetime \<Rightarrow> order_side \<Rightarrow> decimal
   \<Rightarrow> (site_row \<times> point_row) result" where
  "admit_slot db sim user start side quantity =
     bindE (slot_open sim start) (\<lambda>_.
     bindE (seller_site db user side) (\<lambda>site.
     bindE (prediction db (si_id site) start) (\<lambda>basis.
     bindE (forecast_energies basis) (\<lambda>(solar, load).
     bindE (guardE (\<not> (side = SELL \<and> unreserved db (si_id site) start solar load < quantity))
              (HTTPException 409)) (\<lambda>_.
     Inr (site, fst basis))))))"

definition place_workspace_order ::
  "user_row \<Rightarrow> datetime \<Rightarrow> order_side \<Rightarrow> decimal \<Rightarrow> decimal \<Rightarrow> order_fresh \<Rightarrow> 'a workspace_db_scheme
   \<Rightarrow> ('a workspace_db_scheme \<times> uuid) result" where
  "place_workspace_order user start side quantity price f db =
     bindE (simulation_state db) (\<lambda>sim.
     bindE (admit_slot db sim user start side quantity) (\<lambda>(site, solar).
     bindE (session_for sim (ist_day start) (of_session_id f) db) (\<lambda>(db1, session_id).
     bindE (insert_order (workspace_order user site session_id (fp_forecast_run_id solar) start side quantity price f) db1) (\<lambda>db2.
     bindE (add_audit sim ORDER_PLACED Entity_ORDER (of_order_id f) (order_placed_payload side quantity price)
              (Some (us_id user)) (of_event_id f) (of_event_now f) db2) (\<lambda>db3.
     Inr (bump db3, of_order_id f))))))"

definition cancel_workspace_order ::
  "user_row \<Rightarrow> uuid \<Rightarrow> uuid \<Rightarrow> datetime \<Rightarrow> 'a workspace_db_scheme \<Rightarrow> 'a workspace_db_scheme result" where
  "cancel_workspace_order user order_id event_id now db =
     bindE (simulation_state db) (\<lambda>sim.
     case fetch od_id (t_orders db) order_id of
       None \<Rightarrow> Inl (HTTPException 404)
     | Some o1 \<Rightarrow>
         if od_user_id o1 \<noteq> us_id user then Inl (HTTPException 404)
         else if od_status o1 \<noteq> Order_OPEN \<or> coeff (od_matched_kwh o1) \<noteq> 0 then Inl (HTTPException 409)
         else
           bindE (add_audit sim ORDER_CANCELLED Entity_ORDER order_id [] (Some (us_id user)) event_id now
             (db\<lparr>t_orders := modify od_id order_id (\<lambda>o1. o1\<lparr>od_status := CANCELLED\<rparr>) (t_orders db)\<rparr>)) (\<lambda>db'.
           Inr (bump db')))"

section \<open>The grid\<close>

text \<open>What the validation of a slot asks of outside: the solver with its version, texts and the hash.\<close>

record grid_tools =
  gt_solver :: solver
  gt_version :: string
  gt_detail :: "grid_violation \<Rightarrow> string"
  gt_hash :: "grid_validation_request \<Rightarrow> string"

definition site_injection ::
  "'a forecast_db_scheme \<Rightarrow> simulation_row \<Rightarrow> datetime \<Rightarrow> site_row \<Rightarrow> node_injection result" where
  "site_injection db sim start site =
     bindE (prediction db (si_id site) start) (\<lambda>(solar, load).
     case (fp_predicted_kw solar, fp_predicted_kw load, si_grid_node_id site) of
       (Some s, Some l, Some node) \<Rightarrow>
         Inr \<lparr>inj_node_id = node,
              inj_active_power_kw = (if sim_scenario sim = ''congestion'' then (s - l) - Dec 65 0 else s - l)\<rparr>
     | _ \<Rightarrow> Inl (HTTPException 409))"

definition schedule_request ::
  "'a grid_db_scheme \<Rightarrow> datetime \<Rightarrow> node_injection list \<Rightarrow> grid_validation_request" where
  "schedule_request db start injections =
     \<lparr>gr_network = (build_network db (Some FEEDER))\<lparr>net_version := PROFILE_VERSION\<rparr>, gr_limits = DEFAULT_LIMITS,
      gr_interval_start = start, gr_interval_end = start + INTERVAL,
      gr_baseline_injections = injections, gr_proposed_injections = []\<rparr>"

definition no_metrics :: grid_metrics where
  "no_metrics = \<lparr>min_voltage_pu = None, max_voltage_pu = None, max_line_loading_pct = None,
                 max_transformer_loading_pct = None\<rparr>"

definition schedule_verdict ::
  "grid_tools \<Rightarrow> grid_validation_request \<Rightarrow> grid_metrics \<times> grid_validation_status \<times> string" where
  "schedule_verdict tools r =
     (case pgm_validate (gt_solver tools) (gt_version tools) r of
        Inl e \<Rightarrow> (no_metrics, UNKNOWN, ''Solver unavailable: '' @ exn_class e)
      | Inr res \<Rightarrow>
          (gv_metrics res, gv_status res,
           let t = joined ''; '' (map (gt_detail tools) (gv_violations res))
           in if t = [] then ''Forecast schedule is within the modelled feeder limits.'' else t))"

definition schedule_row :: "grid_tools \<Rightarrow> grid_validation_request \<Rightarrow> uuid \<Rightarrow> datetime \<Rightarrow> validation_row" where
  "schedule_row tools r new_id now =
     (case schedule_verdict tools r of (m, status, reason) \<Rightarrow>
       \<lparr>vn_id = new_id, vn_trade_id = None, vn_grid_snapshot_id = None, vn_simulation_engine = pgm_name,
        vn_engine_version = Some (gt_version tools), vn_input_hash = gt_hash tools r, vn_status = status,
        vn_min_voltage_pu = min_voltage_pu m, vn_max_voltage_pu = max_voltage_pu m,
        vn_max_line_loading_pct = max_line_loading_pct m,
        vn_max_transformer_loading_pct = max_transformer_loading_pct m,
        vn_decision = (if status = SAFE then ACCEPT else REJECT), vn_reason = Some reason, vn_created_at = now\<rparr>)"

text \<open>The row is used as it was built, not as it was stored.\<close>

definition validate_slot ::
  "grid_tools \<Rightarrow> simulation_row \<Rightarrow> datetime \<Rightarrow> uuid \<Rightarrow> datetime \<Rightarrow> 'a grid_db_scheme
   \<Rightarrow> ('a grid_db_scheme \<times> validation_row) result" where
  "validate_slot tools sim start new_id now db =
     bindE (mapE (site_injection db sim start) (feeder_sites db)) (\<lambda>injections.
     let row = schedule_row tools (schedule_request db start injections) new_id now
     in bindE (insert_validation row db) (\<lambda>db'. Inr (db', row)))"

section \<open>Clearing\<close>

text \<open>
  What clearing draws: a validation run per slot, and for every proposal that is decided the rows of
  the trade and its price, the audit event and its clock.
\<close>

record slot_fresh =
  sl_run_id :: "datetime \<Rightarrow> uuid"
  sl_trade_id :: "nat \<Rightarrow> uuid"
  sl_breakdown_id :: "nat \<Rightarrow> uuid"
  sl_event_id :: "nat \<Rightarrow> uuid"
  sl_clock :: "nat \<Rightarrow> datetime"
  sl_now :: datetime

definition open_orders :: "'a market_db_scheme \<Rightarrow> simulation_row \<Rightarrow> uuid set option \<Rightarrow> order_row list" where
  "open_orders db sim ids =
     filter (\<lambda>o1. pred_option (\<lambda>s. od_id o1 \<in> s) ids)
       (filter (\<lambda>o1. od_status o1 \<in> set ACTIVE_ORDER_STATUSES \<and> sim_clock sim < od_delivery_start o1) (t_orders db))"

definition capped_entry :: "decimal option \<Rightarrow> order_row \<Rightarrow> order_book_entry" where
  "capped_entry most o1 =
     (to_entry o1)\<lparr>e_remaining_kwh := (case most of None \<Rightarrow> remaining_kwh o1 | Some c \<Rightarrow> pymin (remaining_kwh o1) c),
                   e_reliability := None\<rparr>"

definition slot_book :: "decimal option \<Rightarrow> datetime \<Rightarrow> order_row list \<Rightarrow> order_book" where
  "slot_book most start slot =
     (let entries = map (capped_entry most) slot
      in \<lparr>book_session_id = od_market_session_id (hd slot),
          book_market_date = start div 86400000000 + epoch_ordinal, book_market_type = DAY_AHEAD,
          book_buys = filter (\<lambda>e. e_side e = BUY) entries, book_sells = filter (\<lambda>e. e_side e = SELL) entries\<rparr>)"

definition slot_quote_request ::
  "validation_row \<Rightarrow> point_row \<Rightarrow> proposed_trade \<Rightarrow> datetime \<Rightarrow> pricing_request" where
  "slot_quote_request run solar p start =
     \<lparr>pr_base_price = pt_clearing_price p, pr_quantity_kwh = pt_quantity_kwh p, pr_delivery_start = start,
      pr_delivery_end = start + INTERVAL, pr_grid_status = vn_status run, pr_grid_metrics = Some (run_metrics run),
      pr_caused_violations = [], pr_forecast_confidence = fp_confidence solar, pr_local_renewable = True,
      pr_trade_id = None, pr_grid_validation_id = None, pr_forecast_basis_id = None\<rparr>"

definition price_accepted :: "validation_row \<Rightarrow> order_row \<Rightarrow> order_row \<Rightarrow> decimal \<Rightarrow> bool" where
  "price_accepted run buy sell price \<longleftrightarrow>
     vn_status run = SAFE
     \<and> (case (od_min_price sell, od_max_price buy) of
          (Some lo, Some hi) \<Rightarrow> lo \<le> price \<and> price \<le> hi | _ \<Rightarrow> False)"

definition next_fill :: "'a market_db_scheme \<Rightarrow> uuid \<Rightarrow> uuid \<Rightarrow> datetime \<Rightarrow> int" where
  "next_fill db buy sell start =
     (let fills = map td_fill_sequence (filter (\<lambda>t. td_buy_order_id t = buy \<and> td_sell_order_id t = sell
                    \<and> td_delivery_start t = start) (t_trades db))
      in 1 + (if fills = [] then 0 else Max (set fills)))"

definition slot_trade ::
  "matching_result \<Rightarrow> validation_row \<Rightarrow> simulation_row \<Rightarrow> datetime \<Rightarrow> bool \<Rightarrow> proposed_trade \<Rightarrow> int \<Rightarrow> uuid \<Rightarrow> datetime
   \<Rightarrow> trade_row" where
  "slot_trade res run sim start accepted p fill new_id now =
     \<lparr>td_id = new_id, td_fill_sequence = fill, td_buy_order_id = pt_buy_order_id p,
      td_sell_order_id = pt_sell_order_id p, td_quantity_kwh = pt_quantity_kwh p,
      td_clearing_price = pt_clearing_price p, td_delivery_start = start, td_delivery_end = start + INTERVAL,
      td_grid_validation_id = Some (vn_id run), td_status = (if accepted then COMMITTED else Trade_REJECTED),
      td_committed_at = (if accepted then Some (sim_clock sim) else None),
      td_matching_engine = Some (mr_engine res), td_matching_engine_version = Some (mr_engine_version res),
      td_created_at = now\<rparr>"

definition insert_judged_trade :: "trade_row \<Rightarrow> 'a grid_db_scheme \<Rightarrow> 'a grid_db_scheme result" where
  "insert_judged_trade t db =
     bindE (insert_trade t db) (\<lambda>db'.
     bindE (constraint (pred_option (known vn_id (t_validation_runs db)) (td_grid_validation_id t))
              ''fk_trades_grid_validation_id_grid_validation_runs'') (\<lambda>_. Inr db'))"

definition trade_decided_payload :: "trade_row \<Rightarrow> validation_row \<Rightarrow> decimal \<Rightarrow> (string \<times> pyval) list" where
  "trade_decided_payload t run price =
     [(''outcome'', PStr (trade_status_value (td_status t))), (''grid'', PStr (grid_status_value (vn_status run))),
      (''final_price'', PStr (decimal_text price)),
      (''reason'', if vn_status run \<noteq> SAFE then optional PStr (vn_reason run)
                   else PStr ''Final price checked against both order limits.'')]"

definition fill_workspace_order :: "decimal \<Rightarrow> order_row \<Rightarrow> order_row" where
  "fill_workspace_order quantity o1 =
     (let o2 = o1\<lparr>od_matched_kwh := od_matched_kwh o1 + quantity\<rparr>
      in o2\<lparr>od_status := (if deq (remaining_kwh o2) 0 then FILLED else PARTIALLY_FILLED)\<rparr>)"

definition settle_orders ::
  "bool \<Rightarrow> decimal \<Rightarrow> order_row list \<Rightarrow> 'a market_db_scheme \<Rightarrow> 'a market_db_scheme result" where
  "settle_orders accepted quantity orders db =
     (if accepted then foldE (\<lambda>o1. save_fill (fill_workspace_order quantity o1)) orders db
      else Inr (foldl (\<lambda>db o1. db\<lparr>t_orders := modify od_id (od_id o1) (\<lambda>q. q\<lparr>od_status := Order_REJECTED\<rparr>) (t_orders db)\<rparr>)
                  db orders))"

text \<open>The rows of a decided proposal: the trade, its price, the audit event, the two orders.\<close>

definition file_decision ::
  "matching_result \<Rightarrow> validation_row \<Rightarrow> simulation_row \<Rightarrow> datetime \<Rightarrow> slot_fresh \<Rightarrow> nat \<Rightarrow> order_row \<Rightarrow> order_row
   \<Rightarrow> proposed_trade \<Rightarrow> pricing_result \<Rightarrow> 'a workspace_db_scheme \<Rightarrow> ('a workspace_db_scheme \<times> trade_row) result" where
  "file_decision res run sim start f k buy sell p x db =
     (let accepted = price_accepted run buy sell (px_final_price x);
          t = slot_trade res run sim start accepted p (next_fill db (od_id buy) (od_id sell) start) (sl_trade_id f k) (sl_now f)
      in bindE (insert_judged_trade t db) (\<lambda>db1.
         bindE (insert_breakdown (breakdown_of (td_id t) x (sl_breakdown_id f k) (sl_now f)) db1) (\<lambda>db2.
         bindE (add_audit sim TRADE_PROPOSED Entity_TRADE (td_id t) (trade_decided_payload t run (px_final_price x))
                  None (sl_event_id f k) (sl_clock f k) db2) (\<lambda>db3.
         bindE (settle_orders accepted (pt_quantity_kwh p) [buy, sell] db3) (\<lambda>db4. Inr (db4, t))))))"

text \<open>The orders of a proposal as they are by now.\<close>

definition current_order :: "order_row list \<Rightarrow> 'a market_db_scheme \<Rightarrow> uuid \<Rightarrow> order_row result" where
  "current_order slot db i =
     (if i \<notin> od_id ` set slot then Inl KeyError
      else (case fetch od_id (t_orders db) i of None \<Rightarrow> Inl KeyError | Some o1 \<Rightarrow> Inr o1))"

definition decide_proposal ::
  "matching_result \<Rightarrow> validation_row \<Rightarrow> simulation_row \<Rightarrow> datetime \<Rightarrow> order_row list \<Rightarrow> slot_fresh \<Rightarrow> proposed_trade
   \<Rightarrow> 'a workspace_db_scheme \<times> trade_row list \<Rightarrow> ('a workspace_db_scheme \<times> trade_row list) result" where
  "decide_proposal res run sim start slot f p = (\<lambda>(db, trades).
     bindE (current_order slot db (pt_buy_order_id p)) (\<lambda>buy.
     bindE (current_order slot db (pt_sell_order_id p)) (\<lambda>sell.
     if od_status buy = Order_REJECTED \<or> od_status sell = Order_REJECTED then Inr (db, trades)
     else if od_user_id buy = od_user_id sell then Inr (db, trades)
     else
       bindE (prediction db (od_site_id sell) start) (\<lambda>(solar, _).
       bindE (quote DEFAULT_PARAMETERS (slot_quote_request run solar p start)) (\<lambda>x.
       bindE (file_decision res run sim start f (length trades) buy sell p x db) (\<lambda>(db', t).
       Inr (db', trades @ [t])))))))"

definition clear_slot ::
  "grid_tools \<Rightarrow> simulation_row \<Rightarrow> order_row list \<Rightarrow> decimal option \<Rightarrow> slot_fresh \<Rightarrow> datetime
   \<Rightarrow> 'a workspace_db_scheme \<times> trade_row list \<Rightarrow> ('a workspace_db_scheme \<times> trade_row list) result" where
  "clear_slot tools sim orders most f start = (\<lambda>(db, trades).
     let slot = filter (\<lambda>o1. od_delivery_start o1 = start) orders
     in bindE (baseline_match \<lparr>req_order_book = slot_book most start slot, req_cleared_at = sim_clock sim\<rparr>) (\<lambda>res.
        if mr_trades res = [] then Inr (db, trades)
        else
          bindE (validate_slot tools sim start (sl_run_id f start) (sl_now f) db) (\<lambda>(db1, run).
          foldE (decide_proposal res run sim start slot f) (mr_trades res) (db1, trades))))"

definition clear_market ::
  "grid_tools \<Rightarrow> uuid set option \<Rightarrow> decimal option \<Rightarrow> slot_fresh \<Rightarrow> 'a workspace_db_scheme
   \<Rightarrow> ('a workspace_db_scheme \<times> trade_row list) result" where
  "clear_market tools ids most f db =
     bindE (simulation_state db) (\<lambda>sim.
     let orders = open_orders db sim ids
     in bindE (foldE (clear_slot tools sim orders most f) (sort (remdups (map od_delivery_start orders))) (db, []))
          (\<lambda>(db', trades). Inr (bump db', trades)))"

section \<open>Accepting an offer\<close>

text \<open>\<open>Decimal.normalize\<close>: rounded to the context, without the zeros at the end.\<close>

definition normalize :: "decimal \<Rightarrow> decimal" where
  "normalize x =
     (let d = fix28 x in if coeff d = 0 then Dec 0 0 else drop_zeros (dlen \<bar>coeff d\<bar>) d)"

definition purchase_hash :: "uuid \<Rightarrow> decimal \<Rightarrow> decimal \<Rightarrow> uuid option \<Rightarrow> string" where
  "purchase_hash offer_id quantity price own =
     sha256_hex (uuid_text offer_id @ ''|'' @ decimal_text (normalize quantity) @ ''|''
       @ decimal_text (normalize price) @ ''|'' @ (case own of None \<Rightarrow> ''None'' | Some i \<Rightarrow> uuid_text i))"

record offer_request =
  or_offer_id :: uuid
  or_quantity :: decimal
  or_price :: decimal
  or_request_id :: uuid
  or_own_order_id :: "uuid option"

definition available_offer :: "'a workspace_db_scheme \<Rightarrow> simulation_row \<Rightarrow> user_row \<Rightarrow> offer_request \<Rightarrow> order_row result" where
  "available_offer db sim user q =
     (case fetch od_id (t_orders db) (or_offer_id q) of
        None \<Rightarrow> Inl (HTTPException 409)
      | Some offer \<Rightarrow>
          if \<not> order_is_active (od_status offer) \<or> od_delivery_start offer \<le> sim_clock sim then Inl (HTTPException 409)
          else if od_user_id offer = us_id user then Inl (HTTPException 409)
          else if remaining_kwh offer < or_quantity q then Inl (HTTPException 409)
          else Inr offer)"

definition own_side :: "'a workspace_db_scheme \<Rightarrow> user_row \<Rightarrow> offer_request \<Rightarrow> order_row \<Rightarrow> order_fresh
  \<Rightarrow> ('a workspace_db_scheme \<times> uuid) result" where
  "own_side db user q offer f =
     (case or_own_order_id q of
        None \<Rightarrow> place_workspace_order user (od_delivery_start offer) (opposite (od_side offer)) (or_quantity q) (or_price q) f db
      | Some i \<Rightarrow>
          (case fetch od_id (t_orders db) i of
             None \<Rightarrow> Inl (HTTPException 404)
           | Some own \<Rightarrow>
               if od_user_id own \<noteq> us_id user then Inl (HTTPException 404)
               else if \<not> order_is_active (od_status own) \<or> od_side own \<noteq> opposite (od_side offer)
                 \<or> od_delivery_start own \<noteq> od_delivery_start offer \<or> remaining_kwh own < or_quantity q
               then Inl (HTTPException 409)
               else Inr (db, od_id own)))"

definition purchase ::
  "grid_tools \<Rightarrow> user_row \<Rightarrow> offer_request \<Rightarrow> order_row \<Rightarrow> order_fresh \<Rightarrow> slot_fresh \<Rightarrow> 'a workspace_db_scheme
   \<Rightarrow> ('a workspace_db_scheme \<times> trade_row) result" where
  "purchase tools user q offer f g db =
     bindE (own_side db user q offer f) (\<lambda>(db1, own).
     bindE (clear_market tools (Some {own, od_id offer}) (Some (or_quantity q)) g db1) (\<lambda>(db2, trades).
     case trades of
       [] \<Rightarrow> Inl (HTTPException 409)
     | t # _ \<Rightarrow>
         if td_status t \<noteq> COMMITTED then Inl (HTTPException 409)
         else
           bindE (insert_action \<lparr>ac_user_id = us_id user, ac_request_id = or_request_id q,
               ac_body_hash = purchase_hash (or_offer_id q) (or_quantity q) (or_price q) (or_own_order_id q),
               ac_trade_id = td_id t\<rparr> db2) (\<lambda>db3. Inr (db3, t))))"

text \<open>A request seen before answers with its trade and writes nothing.\<close>

definition accept_offer ::
  "grid_tools \<Rightarrow> user_row \<Rightarrow> offer_request \<Rightarrow> order_fresh \<Rightarrow> slot_fresh \<Rightarrow> 'a workspace_db_scheme
   \<Rightarrow> ('a workspace_db_scheme \<times> trade_row) result" where
  "accept_offer tools user q f g db =
     bindE (simulation_state db) (\<lambda>sim.
     case List.find (\<lambda>a. action_key a = (us_id user, or_request_id q)) (t_actions db) of
       Some previous \<Rightarrow>
         if ac_body_hash previous \<noteq> purchase_hash (or_offer_id q) (or_quantity q) (or_price q) (or_own_order_id q)
         then Inl (HTTPException 409)
         else (case fetch td_id (t_trades db) (ac_trade_id previous) of
                 None \<Rightarrow> Inl AssertionError | Some t \<Rightarrow> Inr (db, t))
     | None \<Rightarrow>
         bindE (available_offer db sim user q) (\<lambda>offer. purchase tools user q offer f g db))"

end
