(* ===== verification/Workspace_Delivery.thy ===== *)
theory Workspace_Delivery
  imports Workspace_Market
begin

text \<open>
  Delivery in the connected marketplace (\<open>add_reading\<close>, \<open>add_readings\<close>, \<open>forecast\<close>,
  \<open>reconcile_due\<close>, \<open>advance\<close> and \<open>recover_missing\<close> of \<open>services/workspace_service.py\<close>): the clock
  moves in steps of a quarter of an hour, every site gets a reading per step, and each committed
  trade whose slot is over is settled for what its seller exported and its buyer imported and no
  earlier trade has been given. The profile of a household is an argument.
\<close>

section \<open>Readings\<close>

record interval_values =
  iv_generation_kw :: decimal
  iv_load_kw :: decimal
  iv_grid_import_kw :: decimal
  iv_grid_export_kw :: decimal
  iv_generation_kwh :: decimal
  iv_load_kwh :: decimal
  iv_grid_import_kwh :: decimal
  iv_grid_export_kwh :: decimal

text \<open>The profile of a site: the instant, its capacity and the scenario.\<close>

type_synonym site_profile = "site_row \<Rightarrow> datetime \<Rightarrow> decimal \<Rightarrow> string \<Rightarrow> interval_values result"

definition site_meter :: "'a registry_scheme \<Rightarrow> site_row \<Rightarrow> meter_row result" where
  "site_meter db s =
     (case List.find (\<lambda>m. me_site_id m = si_id s) (t_meters db) of
        None \<Rightarrow> Inl (HTTPException 409) | Some m \<Rightarrow> Inr m)"

definition profile_reading :: "uuid \<Rightarrow> uuid \<Rightarrow> datetime \<Rightarrow> interval_values \<Rightarrow> reading_row" where
  "profile_reading new_id meter moment v =
     \<lparr>rd_id = new_id, rd_meter_id = meter, rd_energy_asset_id = None, rd_timestamp = moment + INTERVAL,
      rd_interval_start = moment, rd_interval_end = moment + INTERVAL,
      rd_generation_kw = Some (iv_generation_kw v), rd_load_kw = Some (iv_load_kw v),
      rd_grid_import_kw = Some (iv_grid_import_kw v), rd_grid_export_kw = Some (iv_grid_export_kw v),
      rd_energy_kwh = Some (iv_load_kwh v), rd_battery_soc = None,
      rd_generation_kwh = Some (iv_generation_kwh v), rd_load_kwh = Some (iv_load_kwh v),
      rd_grid_import_kwh = Some (iv_grid_import_kwh v), rd_grid_export_kwh = Some (iv_grid_export_kwh v),
      rd_quality_status = VALID, rd_source = SIMULATOR\<rparr>"

definition has_reading :: "'a telemetry_db_scheme \<Rightarrow> uuid \<Rightarrow> datetime \<Rightarrow> bool" where
  "has_reading db meter moment =
     list_ex (\<lambda>r. rd_meter_id r = meter \<and> rd_interval_start r = moment) (t_readings db)"

text \<open>The energies of the channels are \<open>Numeric(14, 4)\<close> as well.\<close>

definition insert_profile_reading :: "reading_row \<Rightarrow> 'a telemetry_db_scheme \<Rightarrow> 'a telemetry_db_scheme result" where
  "insert_profile_reading r db =
     bindE (nullable (numeric 14 4) (rd_generation_kwh r)) (\<lambda>g.
     bindE (nullable (numeric 14 4) (rd_load_kwh r)) (\<lambda>l.
     bindE (nullable (numeric 14 4) (rd_grid_import_kwh r)) (\<lambda>i.
     bindE (nullable (numeric 14 4) (rd_grid_export_kwh r)) (\<lambda>x.
     insert_reading (r\<lparr>rd_generation_kwh := g, rd_load_kwh := l, rd_grid_import_kwh := i, rd_grid_export_kwh := x\<rparr>) db))))"

definition add_reading ::
  "site_profile \<Rightarrow> site_row \<Rightarrow> string \<Rightarrow> datetime \<Rightarrow> uuid \<Rightarrow> 'a telemetry_db_scheme \<Rightarrow> 'a telemetry_db_scheme result" where
  "add_reading profile s scenario moment new_id db =
     bindE (site_meter db s) (\<lambda>m.
     if has_reading db (me_id m) moment \<or> scenario = ''missing'' then Inr db
     else
       bindE (profile s moment (capacity db s) scenario) (\<lambda>v.
       insert_profile_reading (profile_reading new_id (me_id m) moment v) db))"

text \<open>
  The batch skips the moments that had a reading before it; a batch without moments, or of the
  scenario without data, asks for no meter.
\<close>

definition add_readings ::
  "site_profile \<Rightarrow> site_row \<Rightarrow> string \<Rightarrow> datetime list \<Rightarrow> (nat \<Rightarrow> uuid) \<Rightarrow> 'a telemetry_db_scheme
   \<Rightarrow> 'a telemetry_db_scheme result" where
  "add_readings profile s scenario moments new_id db =
     (if moments = [] \<or> scenario = ''missing'' then Inr db
      else
        bindE (site_meter db s) (\<lambda>m.
        foldE (\<lambda>(k, moment) db'.
            if has_reading db (me_id m) moment then Inr db'
            else
              bindE (profile s moment (capacity db s) scenario) (\<lambda>v.
              insert_profile_reading (profile_reading (new_id k) (me_id m) moment v) db'))
          (enumerate 0 moments) db))"

section \<open>Forecasts\<close>

text \<open>Midnight in India after the clock.\<close>

definition next_midnight :: "datetime \<Rightarrow> datetime" where
  "next_midnight t = ((t + IST) div 86400000000 + 1) * 86400000000 - IST"

record forecast_fresh =
  ff_run_id :: "forecast_type \<Rightarrow> uuid"
  ff_point_id :: "forecast_type \<Rightarrow> nat \<Rightarrow> uuid"
  ff_now :: datetime

definition site_history :: "'a telemetry_db_scheme \<Rightarrow> site_row \<Rightarrow> datetime \<Rightarrow> historical_observation list" where
  "site_history db s clock =
     map (\<lambda>r. \<lparr>ho_interval_start = rd_interval_start r, ho_interval_end = rd_interval_end r,
               ho_generation_kw = rd_generation_kw r, ho_load_kw = rd_load_kw r, ho_energy_kwh = None\<rparr>)
       (filter (\<lambda>r. list_ex (\<lambda>m. me_id m = rd_meter_id r \<and> me_site_id m = si_id s) (t_meters db)
                  \<and> rd_interval_end r \<le> clock \<and> clock - 8 * 86400000000 \<le> rd_interval_start r) (t_readings db))"

definition tomorrow_request :: "site_row \<Rightarrow> datetime \<Rightarrow> historical_observation list \<Rightarrow> forecast_type \<Rightarrow> forecast_request" where
  "tomorrow_request s tomorrow history kind =
     \<lparr>fq_site_id = si_id s, fq_forecast_type = kind, fq_horizon_start = tomorrow,
      fq_horizon_end = tomorrow + 86400000000, fq_interval = INTERVAL, fq_history = history\<rparr>"

definition file_forecast ::
  "baseline_config \<Rightarrow> forecast_fresh \<Rightarrow> site_row \<Rightarrow> datetime \<Rightarrow> historical_observation list \<Rightarrow> forecast_type
   \<Rightarrow> 'a forecast_db_scheme \<Rightarrow> 'a forecast_db_scheme result" where
  "file_forecast cfg f s tomorrow history kind db =
     bindE (pv_predict (baseline_provider 0 cfg) (tomorrow_request s tomorrow history kind)) (\<lambda>res.
     bindE (insert_run \<lparr>fr_id = ff_run_id f kind, fr_forecast_type = kind, fr_provider = fz_provider res,
         fr_model_version = fz_model_version res, fr_horizon_start = tomorrow,
         fr_horizon_end = tomorrow + 86400000000, fr_status = COMPLETED, fr_error = None,
         fr_created_at = ff_now f\<rparr> db) (\<lambda>db1.
     foldE (\<lambda>(k, p). insert_point
         \<lparr>fp_id = ff_point_id f kind k, fp_forecast_run_id = ff_run_id f kind, fp_site_id = si_id s,
          fp_interval_start = pp_interval_start p, fp_interval_end = pp_interval_end p,
          fp_predicted_kw = pp_predicted_kw p, fp_predicted_kwh = pp_predicted_kwh p,
          fp_confidence = pp_confidence p, fp_lower_bound = pp_lower_bound p, fp_upper_bound = pp_upper_bound p\<rparr>)
       (enumerate 0 (fz_points res)) db1))"

definition forecast_tomorrow ::
  "baseline_config \<Rightarrow> forecast_fresh \<Rightarrow> simulation_row \<Rightarrow> site_row \<Rightarrow> 'a forecast_db_scheme
   \<Rightarrow> 'a forecast_db_scheme result" where
  "forecast_tomorrow cfg f sim s db =
     (let tomorrow = next_midnight (sim_clock sim)
      in if list_ex (\<lambda>p. fp_site_id p = si_id s \<and>
              (case run_of_point db p of None \<Rightarrow> False | Some r \<Rightarrow> fr_horizon_start r = tomorrow)) (t_forecast_points db)
         then Inr db
         else foldE (file_forecast cfg f s tomorrow (site_history db s (sim_clock sim))) [SOLAR, LOAD] db)"

section \<open>Reconciliation and settlement\<close>

record delivery_fresh =
  df_allocation_id :: uuid
  df_reconciliation_id :: uuid
  df_settlement_id :: uuid
  df_buyer_journal_id :: uuid
  df_seller_journal_id :: uuid
  df_receipt_id :: uuid
  df_event_id :: uuid
  df_clock :: datetime
  df_now :: datetime

definition due_trades :: "'a market_db_scheme \<Rightarrow> simulation_row \<Rightarrow> trade_row list" where
  "due_trades db sim =
     sort_key (\<lambda>t. (td_delivery_start t, td_created_at t, td_id t))
       (filter (\<lambda>t. td_status t = COMMITTED \<and> td_delivery_end t \<le> sim_clock sim) (t_trades db))"

text \<open>
  The reading of an order's meter over the slot of the trade and what is left of the channel after
  the trades allocated to it, if it was measured.
\<close>

definition slot_reading :: "'a telemetry_db_scheme \<Rightarrow> order_row \<Rightarrow> trade_row \<Rightarrow> reading_row option" where
  "slot_reading db o1 t =
     (case List.find (\<lambda>m. me_site_id m = od_site_id o1) (t_meters db) of
        None \<Rightarrow> None
      | Some m \<Rightarrow>
          List.find (\<lambda>r. rd_meter_id r = me_id m \<and> rd_interval_start r = td_delivery_start t
             \<and> rd_interval_end r = td_delivery_end t \<and> rd_quality_status r = VALID) (t_readings db))"

definition allocated :: "'a workspace_db_scheme \<Rightarrow> (allocation_row \<Rightarrow> uuid) \<Rightarrow> uuid \<Rightarrow> decimal" where
  "allocated db side i = dsum (map al_energy_kwh (filter (\<lambda>a. side a = i) (t_allocations db)))"

definition unallocated ::
  "'a workspace_db_scheme \<Rightarrow> order_row \<Rightarrow> trade_row \<Rightarrow> (reading_row \<Rightarrow> decimal option) \<Rightarrow> (allocation_row \<Rightarrow> uuid)
   \<Rightarrow> (reading_row \<times> decimal) option" where
  "unallocated db o1 t column side =
     (case slot_reading db o1 t of
        None \<Rightarrow> None
      | Some r \<Rightarrow>
          (case column r of
             None \<Rightarrow> None
           | Some energy \<Rightarrow> Some (r, pymax 0 (energy - allocated db side (rd_id r)))))"

text \<open>\<open>quantize\<close> with \<open>ROUND_DOWN\<close>, and with the default rounding, half to even.\<close>

definition checked_quantum :: "nat \<Rightarrow> int \<Rightarrow> decimal result" where
  "checked_quantum p c = (if dlen \<bar>c\<bar> \<le> PREC then Inr (Dec c (- int p)) else Inl InvalidOperation)"

definition quantize_down :: "nat \<Rightarrow> decimal \<Rightarrow> decimal result" where
  "quantize_down p x =
     checked_quantum p
       (if - int p \<le> dexp x then coeff x * 10 ^ nat (dexp x + int p)
        else sgn (coeff x) * (\<bar>coeff x\<bar> div 10 ^ nat (- int p - dexp x)))"

definition quantize_half_even :: "nat \<Rightarrow> decimal \<Rightarrow> decimal result" where
  "quantize_half_even p x = checked_quantum p (quantized_even p x)"

definition delivery_reconciliation ::
  "trade_row \<Rightarrow> decimal \<Rightarrow> delivery_fresh \<Rightarrow> reconciliation_row" where
  "delivery_reconciliation t delivered f =
     (let deviation = delivered - td_quantity_kwh t
      in \<lparr>rc_id = df_reconciliation_id f, rc_trade_id = td_id t, rc_committed_kwh = td_quantity_kwh t,
          rc_actual_kwh = Some delivered, rc_deviation_kwh = Some deviation,
          rc_within_tolerance = (\<bar>deviation\<bar> \<le> td_quantity_kwh t * Dec 5 (-2)), rc_balancing_kwh = - deviation,
          rc_status = RECONCILED, rc_created_at = df_now f\<rparr>)"

definition delivery_settlement ::
  "trade_row \<Rightarrow> order_row \<Rightarrow> order_row \<Rightarrow> decimal \<Rightarrow> decimal \<Rightarrow> simulation_row \<Rightarrow> delivery_fresh \<Rightarrow> settlement_row" where
  "delivery_settlement t buy sell delivered gross sim f =
     \<lparr>sm_id = df_settlement_id f, sm_trade_id = td_id t, sm_buyer_user_id = od_user_id buy,
      sm_seller_user_id = od_user_id sell, sm_settled_kwh = delivered, sm_gross_inr = gross,
      sm_platform_fee_inr = 0, sm_balancing_charge_inr = 0, sm_seller_credit_inr = gross, sm_buyer_debit_inr = gross,
      sm_status = SETTLED, sm_settled_at = sim_clock sim\<rparr>"

definition receipt_payload ::
  "trade_row \<Rightarrow> decimal \<Rightarrow> decimal \<Rightarrow> decimal \<Rightarrow> validation_row \<Rightarrow> delivery_fresh \<Rightarrow> json" where
  "receipt_payload t delivered price gross run f =
     JObj [(''schema'', JStr ''urjasetu-receipt-1''), (''trade_id'', JStr (uuid_text (td_id t))),
           (''settlement_id'', JStr (uuid_text (df_settlement_id f))),
           (''agreed_kwh'', JStr (decimal_text (td_quantity_kwh t))), (''delivered_kwh'', JStr (decimal_text delivered)),
           (''price_inr_per_kwh'', JStr (decimal_text price)), (''gross_inr'', JStr (decimal_text gross)),
           (''delivery_start'', JStr (isoformat (td_delivery_start t))), (''grid_input_hash'', JStr (vn_input_hash run)),
           (''source'', JStr ''synthetic''), (''model_version'', JStr PROFILE_VERSION)]"

definition post_journal ::
  "uuid \<Rightarrow> (uuid \<times> uuid \<times> decimal) list \<Rightarrow> 'a workspace_db_scheme \<Rightarrow> 'a workspace_db_scheme result" where
  "post_journal settlement entries =
     foldE (\<lambda>(new_id, account, amount).
       insert_journal \<lparr>jn_id = new_id, jn_settlement_id = settlement, jn_account = uuid_text account,
         jn_amount_inr = amount\<rparr>) entries"

text \<open>What delivery writes for a measured trade.\<close>

definition file_delivery ::
  "simulation_row \<Rightarrow> delivery_fresh \<Rightarrow> trade_row \<Rightarrow> order_row \<Rightarrow> order_row \<Rightarrow> reading_row \<Rightarrow> reading_row \<Rightarrow> decimal
   \<Rightarrow> 'a workspace_db_scheme \<Rightarrow> 'a workspace_db_scheme result" where
  "file_delivery sim f t buy sell seller_reading buyer_reading delivered db =
     bindE (insert_allocation \<lparr>al_id = df_allocation_id f, al_trade_id = td_id t,
         al_seller_reading_id = rd_id seller_reading, al_buyer_reading_id = rd_id buyer_reading,
         al_energy_kwh = delivered\<rparr> db) (\<lambda>db1.
     bindE (insert_reconciliation (delivery_reconciliation t delivered f) db1) (\<lambda>db2.
     case (List.find (\<lambda>b. bd_trade_id b = td_id t) (t_price_components db2),
           Option.bind (td_grid_validation_id t) (fetch vn_id (t_validation_runs db2))) of
       (Some price, Some run) \<Rightarrow>
         bindE (quantize_half_even 2 (delivered * bd_final_price price)) (\<lambda>gross.
         bindE (insert_settlement (delivery_settlement t buy sell delivered gross sim f) db2) (\<lambda>db3.
         bindE (post_journal (df_settlement_id f)
                  [(df_buyer_journal_id f, od_user_id buy, - gross), (df_seller_journal_id f, od_user_id sell, gross)]
                  db3) (\<lambda>db4.
         let db5 = db4\<lparr>t_trades := modify td_id (td_id t) (\<lambda>q. q\<lparr>td_status := Trade_SETTLED\<rparr>) (t_trades db4)\<rparr>;
             payload = receipt_payload t delivered (bd_final_price price) gross run f;
             digest = sha256_hex (dumps payload)
         in bindE (insert_receipt \<lparr>rp_id = df_receipt_id f, rp_trade_id = td_id t, rp_payload = payload,
                rp_payload_hash = digest, rp_status = ''pending''\<rparr> db5)
              (add_audit sim TRADE_SETTLED Entity_TRADE (td_id t)
                [(''delivered_kwh'', PStr (decimal_text delivered)), (''gross_inr'', PStr (decimal_text gross)),
                 (''receipt_hash'', PStr digest)] None (df_event_id f) (df_clock f)))))
     | _ \<Rightarrow> Inl (HTTPException 409)))"

definition deliver_trade ::
  "simulation_row \<Rightarrow> delivery_fresh \<Rightarrow> trade_row \<Rightarrow> 'a workspace_db_scheme \<Rightarrow> 'a workspace_db_scheme result" where
  "deliver_trade sim f t db =
     (case (fetch od_id (t_orders db) (td_buy_order_id t), fetch od_id (t_orders db) (td_sell_order_id t)) of
        (Some buy, Some sell) \<Rightarrow>
          (case (unallocated db sell t rd_grid_export_kwh al_seller_reading_id,
                 unallocated db buy t rd_grid_import_kwh al_buyer_reading_id) of
             (Some (seller_reading, exported), Some (buyer_reading, imported)) \<Rightarrow>
               bindE (quantize_down 4 (pymin (pymin (td_quantity_kwh t) exported) imported)) (\<lambda>delivered.
               file_delivery sim f t buy sell seller_reading buyer_reading delivered db)
           | _ \<Rightarrow> Inr db)
      | _ \<Rightarrow> Inl (HTTPException 409))"

definition reconcile_due ::
  "simulation_row \<Rightarrow> (uuid \<Rightarrow> delivery_fresh) \<Rightarrow> 'a workspace_db_scheme \<Rightarrow> 'a workspace_db_scheme result" where
  "reconcile_due sim f db = foldE (\<lambda>t. deliver_trade sim (f (td_id t)) t) (due_trades db sim) db"

section \<open>The clock\<close>

function quarter_hours :: "datetime \<Rightarrow> datetime \<Rightarrow> datetime list \<times> datetime" where
  "quarter_hours clock target =
     (if clock < target then (case quarter_hours (clock + INTERVAL) target of (ms, c) \<Rightarrow> (clock # ms, c))
      else ([], clock))"
  by pat_completeness auto
termination
  by (relation "measure (\<lambda>(clock, target). nat (target - clock))") (auto simp: INTERVAL_def)

declare quarter_hours.simps [simp del]

record advance_fresh =
  av_reading_id :: "uuid \<Rightarrow> nat \<Rightarrow> uuid"
  av_delivery :: "uuid \<Rightarrow> delivery_fresh"
  av_forecast :: "uuid \<Rightarrow> forecast_fresh"

definition advance_target :: "simulation_row \<Rightarrow> int \<Rightarrow> bool \<Rightarrow> 'a market_db_scheme \<Rightarrow> datetime result" where
  "advance_target sim intervals to_delivery db =
     bindE (if to_delivery
            then (let ends = map td_delivery_end (filter (\<lambda>t. td_status t = COMMITTED) (t_trades db))
                  in if ends = [] then Inl (HTTPException 409) else Inr (Max (set ends)))
            else Inr (sim_clock sim + INTERVAL * intervals)) (\<lambda>target.
     if sim_clock sim + 2 * 86400000000 < target then Inl (HTTPException 422) else Inr target)"

definition advance_clock ::
  "site_profile \<Rightarrow> baseline_config \<Rightarrow> int \<Rightarrow> bool \<Rightarrow> advance_fresh \<Rightarrow> 'a workspace_db_scheme
   \<Rightarrow> 'a workspace_db_scheme result" where
  "advance_clock profile cfg intervals to_delivery f db =
     bindE (simulation_state db) (\<lambda>sim0.
     bindE (advance_target sim0 intervals to_delivery db) (\<lambda>target.
     let (moments, clock) = quarter_hours (sim_clock sim0) target;
         sim = sim0\<lparr>sim_clock := clock\<rparr>; sites = feeder_sites db
     in bindE (foldE (\<lambda>s. add_readings profile s (sim_scenario sim) moments (av_reading_id f (si_id s))) sites
                 (db\<lparr>t_simulation := Some sim\<rparr>)) (\<lambda>db1.
        bindE (reconcile_due sim (av_delivery f) db1) (\<lambda>db2.
        bindE (foldE (\<lambda>s. forecast_tomorrow cfg (av_forecast f (si_id s)) sim s) sites db2) (\<lambda>db3.
        Inr (bump db3))))))"

definition replay_order ::
  "site_profile \<Rightarrow> trade_row \<Rightarrow> uuid \<times> uuid \<Rightarrow> 'a market_db_scheme \<Rightarrow> 'a market_db_scheme result" where
  "replay_order profile t = (\<lambda>(order_id, new_id) db.
     (case fetch od_id (t_orders db) order_id of
        None \<Rightarrow> Inr db
      | Some o1 \<Rightarrow>
          (case fetch si_id (t_sites db) (od_site_id o1) of
             None \<Rightarrow> Inr db
           | Some s \<Rightarrow> add_reading profile s ''normal'' (td_delivery_start t) new_id db)))"

definition recover_missing ::
  "site_profile \<Rightarrow> (uuid \<Rightarrow> order_side \<Rightarrow> uuid) \<Rightarrow> (uuid \<Rightarrow> delivery_fresh) \<Rightarrow> 'a workspace_db_scheme
   \<Rightarrow> 'a workspace_db_scheme result" where
  "recover_missing profile reading_id f db =
     bindE (simulation_state db) (\<lambda>sim.
     bindE (foldE (\<lambda>t. foldE (replay_order profile t)
               [(td_buy_order_id t, reading_id (td_id t) BUY), (td_sell_order_id t, reading_id (td_id t) SELL)])
              (filter (\<lambda>t. td_status t = COMMITTED \<and> td_delivery_end t \<le> sim_clock sim) (t_trades db)) db) (\<lambda>db1.
     bindE (reconcile_due sim f db1) (\<lambda>db2. Inr (bump db2))))"

end
