(* ===== verification/Workspace_Deliveries.thy ===== *)
theory Workspace_Deliveries
  imports Workspace_Delivery Market_Props Audit_Write Double_Laws
begin

text \<open>
  What the writes of the connected marketplace change: each insert appends one row to its own table,
  and sums of stored energies that stay below a stored energy are exact.
\<close>

section \<open>Writes\<close>

lemma insert_rows:
  "insert_session k mdb = Inr mdb' \<Longrightarrow> mdb' = mdb\<lparr>t_sessions := t_sessions mdb @ [k]\<rparr>"
  "insert_order o1 mdb = Inr mdb' \<Longrightarrow> \<exists>row. stored_order o1 = Inr row \<and> list_all fst (order_checks mdb row)
     \<and> mdb' = mdb\<lparr>t_orders := t_orders mdb @ [row]\<rparr>"
  "insert_trade t mdb = Inr mdb' \<Longrightarrow> \<exists>row. stored_trade t = Inr row \<and> list_all fst (trade_checks mdb row)
     \<and> mdb' = mdb\<lparr>t_trades := t_trades mdb @ [row]\<rparr>"
  "save_fill o1 mdb = Inr mdb' \<Longrightarrow> \<exists>m. numeric 14 4 (od_matched_kwh o1) = Inr m
     \<and> list_all fst (order_row_checks (o1\<lparr>od_matched_kwh := m\<rparr>))
     \<and> mdb' = mdb\<lparr>t_orders := modify od_id (od_id o1) (\<lambda>_. o1\<lparr>od_matched_kwh := m\<rparr>) (t_orders mdb)\<rparr>"
  "record_event ev mdb = Inr mdb' \<Longrightarrow> \<exists>log. mdb' = mdb\<lparr>t_audit := log\<rparr>"
  by (auto simp: insert_session_def insert_order_def insert_trade_def save_fill_def record_event_def
      bindE_eq_Inr Let_def)

lemma insert_grid_rows:
  "insert_validation v gdb = Inr gdb' \<Longrightarrow> \<exists>row. stored_validation v = Inr row \<and> list_all fst (validation_checks gdb row)
     \<and> gdb' = gdb\<lparr>t_validation_runs := t_validation_runs gdb @ [row]\<rparr>"
  "insert_judged_trade t gdb = Inr gdb' \<Longrightarrow> \<exists>row. stored_trade t = Inr row \<and> list_all fst (trade_checks gdb row)
     \<and> pred_option (known vn_id (t_validation_runs gdb)) (td_grid_validation_id t)
     \<and> gdb' = gdb\<lparr>t_trades := t_trades gdb @ [row]\<rparr>"
  by (auto simp: insert_validation_def insert_judged_trade_def bindE_eq_Inr constraint_def dest!: insert_rows(3))

lemma insert_price_rows:
  "insert_breakdown b pdb = Inr pdb' \<Longrightarrow> \<exists>row. stored_breakdown b = Inr row \<and> list_all fst (breakdown_checks pdb row)
     \<and> pdb' = pdb\<lparr>t_price_components := t_price_components pdb @ [row]\<rparr>"
  by (auto simp: insert_breakdown_def bindE_eq_Inr)

lemma insert_settlement_rows:
  "insert_reconciliation r sdb = Inr sdb' \<Longrightarrow> \<exists>row. stored_reconciliation r = Inr row
     \<and> list_all fst (reconciliation_checks sdb row) \<and> sdb' = sdb\<lparr>t_reconciliations := t_reconciliations sdb @ [row]\<rparr>"
  "insert_settlement s sdb = Inr sdb' \<Longrightarrow> \<exists>row. stored_settlement s = Inr row
     \<and> list_all fst (settlement_checks sdb row) \<and> sdb' = sdb\<lparr>t_settlements := t_settlements sdb @ [row]\<rparr>"
  by (auto simp: insert_reconciliation_def insert_settlement_def bindE_eq_Inr)

lemma insert_workspace_rows:
  "insert_allocation a wdb = Inr wdb' \<Longrightarrow> \<exists>e. numeric 14 4 (al_energy_kwh a) = Inr e
     \<and> \<not> known al_trade_id (t_allocations wdb) (al_trade_id a)
     \<and> wdb' = wdb\<lparr>t_allocations := t_allocations wdb @ [a\<lparr>al_energy_kwh := e\<rparr>]\<rparr>"
  "insert_journal j wdb = Inr wdb' \<Longrightarrow> \<exists>x. numeric 16 2 (jn_amount_inr j) = Inr x
     \<and> wdb' = wdb\<lparr>t_journal := t_journal wdb @ [j\<lparr>jn_amount_inr := x\<rparr>]\<rparr>"
  "insert_receipt r wdb = Inr wdb' \<Longrightarrow> wdb' = wdb\<lparr>t_receipts := t_receipts wdb @ [r]\<rparr>"
  "insert_action c wdb = Inr wdb' \<Longrightarrow> action_key c \<notin> action_key ` set (t_actions wdb)
     \<and> wdb' = wdb\<lparr>t_actions := t_actions wdb @ [c]\<rparr>"
  "add_audit sim kind entity i payload actor ev now wdb = Inr wdb' \<Longrightarrow> \<exists>log. wdb' = wdb\<lparr>t_audit := log\<rparr>"
  by (auto simp: insert_allocation_def insert_journal_def insert_receipt_def insert_action_def add_audit_def
      bindE_eq_Inr Let_def dest: insert_rows(5))

lemmas write_shapes = insert_rows insert_grid_rows insert_price_rows insert_settlement_rows insert_workspace_rows

section \<open>Sums of energies\<close>

lemma sum_nonneg_prefix: "\<forall>x \<in> set xs. 0 \<le> val x \<Longrightarrow> 0 \<le> sum_list (map val xs)"
  by (induction xs) simp_all

lemma energy_sum:
  assumes "\<forall>x \<in> set xs. grid 4 (val x) \<and> 0 \<le> val x" "sum_list (map val xs) < 10 ^ 10"
  shows "val (dsum xs) = sum_list (map val xs) \<and> grid 4 (sum_list (map val xs))"
  using assms
proof (induction xs rule: rev_induct)
  case (snoc x xs)
  have s: "0 \<le> sum_list (map val xs)" using snoc.prems(1) by (intro sum_nonneg_prefix) simp
  have x: "grid 4 (val x)" "0 \<le> val x" using snoc.prems(1) by simp_all
  have xs: "val (dsum xs) = sum_list (map val xs) \<and> grid 4 (sum_list (map val xs))"
    using x(2) snoc.prems by (intro snoc.IH) simp_all
  then have "val (dsum xs + x) = val (dsum xs) + val x"
    using energy_plus(1) [of "dsum xs" x] x s snoc.prems(2) by simp
  with xs x show ?case by (simp add: dsum_snoc grid_plus)
qed (simp add: dsum_def)

lemma energy_minus:
  assumes "grid 4 (val x)" "grid 4 (val y)" "\<bar>val x\<bar> < 10 ^ 10" "\<bar>val y\<bar> < 10 ^ 10"
  shows "val (x - y) = val x - val y"
proof (intro val_minus rep28_grid [of 4] grid_minus assms(1,2))
  have "\<bar>val x - val y\<bar> * 10 ^ 4 \<le> (\<bar>val x\<bar> + \<bar>val y\<bar>) * 10 ^ 4" by (intro mult_right_mono abs_triangle_ineq4) simp
  also have "\<dots> < 2 * 10 ^ 14" using assms(3,4) by simp
  finally show "\<bar>val x - val y\<bar> * 10 ^ 4 < 10 ^ 28" by simp
qed

section \<open>Deliveries\<close>

text \<open>
  Delivery keeps what was measured: the energy allocated to trades never exceeds what a reading
  exported or imported, and what a delivered trade leaves behind adds up.
\<close>

section \<open>The invariant\<close>

definition allocated_kwh :: "allocation_row list \<Rightarrow> (allocation_row \<Rightarrow> uuid) \<Rightarrow> uuid \<Rightarrow> rat" where
  "allocated_kwh as side i = sum_list (map (\<lambda>a. val (al_energy_kwh a)) (filter (\<lambda>a. side a = i) as))"

definition channel_kwh :: "decimal option \<Rightarrow> rat" where
  "channel_kwh v = (case v of None \<Rightarrow> 0 | Some e \<Rightarrow> max 0 (val e))"

definition measured_energy :: "decimal option \<Rightarrow> bool" where
  "measured_energy v = pred_option (\<lambda>e. grid 4 (val e) \<and> \<bar>val e\<bar> < 10 ^ 10) v"

definition allocations_fit :: "reading_row list \<Rightarrow> allocation_row list \<Rightarrow> bool" where
  "allocations_fit rs as \<longleftrightarrow>
     distinct (map rd_id rs) \<and> (\<forall>a \<in> set as. stored_energy (al_energy_kwh a))
     \<and> (\<forall>a \<in> set as. known rd_id rs (al_seller_reading_id a) \<and> known rd_id rs (al_buyer_reading_id a))
     \<and> (\<forall>r \<in> set rs. measured_energy (rd_grid_export_kwh r) \<and> measured_energy (rd_grid_import_kwh r)
          \<and> allocated_kwh as al_seller_reading_id (rd_id r) \<le> channel_kwh (rd_grid_export_kwh r)
          \<and> allocated_kwh as al_buyer_reading_id (rd_id r) \<le> channel_kwh (rd_grid_import_kwh r))"

definition deliveries_ok :: "'a workspace_db_scheme \<Rightarrow> bool" where
  "deliveries_ok db \<longleftrightarrow> allocations_fit (t_readings db) (t_allocations db)"

section \<open>What is left of a reading\<close>

lemma allocated_exact:
  assumes "\<forall>a \<in> set (t_allocations db). stored_energy (al_energy_kwh a)"
    and "allocated_kwh (t_allocations db) side i < 10 ^ 10"
  shows "val (allocated db side i) = allocated_kwh (t_allocations db) side i \<and> grid 4 (val (allocated db side i))
    \<and> 0 \<le> val (allocated db side i)"
proof -
  let ?xs = "map al_energy_kwh (filter (\<lambda>a. side a = i) (t_allocations db))"
  have "val (dsum ?xs) = sum_list (map val ?xs) \<and> grid 4 (sum_list (map val ?xs))"
    using assms by (intro energy_sum) (auto simp: stored_energy_def allocated_kwh_def comp_def)
  moreover have "0 \<le> sum_list (map val ?xs)" using assms(1) by (intro sum_nonneg_prefix) (auto simp: stored_energy_def)
  ultimately show ?thesis by (simp add: allocated_def allocated_kwh_def comp_def)
qed

lemma unallocated_left:
  assumes "unallocated db o1 t column side = Some (r, left)"
    and "\<forall>a \<in> set (t_allocations db). stored_energy (al_energy_kwh a)"
    and "\<forall>r \<in> set (t_readings db). measured_energy (column r)
           \<and> allocated_kwh (t_allocations db) side (rd_id r) \<le> channel_kwh (column r)"
  shows "r \<in> set (t_readings db) \<and> slot_reading db o1 t = Some r
    \<and> val left = channel_kwh (column r) - allocated_kwh (t_allocations db) side (rd_id r)
    \<and> grid 4 (val left) \<and> 0 \<le> val left \<and> val left < 10 ^ 10"
proof -
  from assms(1) obtain e where r: "slot_reading db o1 t = Some r" "column r = Some e"
    and left: "left = pymax 0 (e - allocated db side (rd_id r))"
    by (auto simp: unallocated_def split: option.splits)
  have mem: "r \<in> set (t_readings db)" using r(1) by (auto simp: slot_reading_def find_Some_iff split: option.splits)
  with assms(3) r(2) have e: "grid 4 (val e)" "\<bar>val e\<bar> < 10 ^ 10"
    and le: "allocated_kwh (t_allocations db) side (rd_id r) \<le> max 0 (val e)"
    by (auto simp: measured_energy_def channel_kwh_def)
  have "allocated_kwh (t_allocations db) side (rd_id r) < 10 ^ 10" using le e(2) by (simp add: max_def split: if_splits)
  note used = allocated_exact [OF assms(2) this]
  have "val (e - allocated db side (rd_id r)) = val e - allocated_kwh (t_allocations db) side (rd_id r)"
    using used e le by (subst energy_minus) (auto simp: max_def split: if_splits)
  then have v: "val left = max 0 (val e - allocated_kwh (t_allocations db) side (rd_id r))"
    by (simp add: left val_pymax)
  also have "\<dots> = max 0 (val e) - allocated_kwh (t_allocations db) side (rd_id r)"
    using le used by (simp add: max_def split: if_splits)
  finally have left: "val left = max 0 (val e) - allocated_kwh (t_allocations db) side (rd_id r)" .
  have "grid 4 (val left)" unfolding left using e(1) used by (metis grid_max grid_minus grid_zero)
  moreover have "0 \<le> val left" "val left < 10 ^ 10" using v used e(2) by (auto simp: left max_def split: if_splits)
  ultimately show ?thesis using mem r left by (simp add: channel_kwh_def)
qed

text \<open>Rounding down to a ten-thousandth leaves a stored energy alone.\<close>

lemma quantize_down_energy:
  assumes "quantize_down 4 x = Inr d" "grid 4 (val x)" "0 \<le> val x"
  shows "val d = val x"
proof (cases "- 4 \<le> dexp x")
  case True
  have "(10 :: rat) ^ nat (dexp x + 4) = 10 powi (dexp x + 4)" using True by (simp add: power_int_def)
  then have "of_int (coeff x) * 10 ^ nat (dexp x + 4) * 10 powi (- 4) = (of_int (coeff x) * 10 powi dexp x :: rat)"
    by (simp add: power_int_add)
  with True assms(1) show ?thesis
    by (auto simp: quantize_down_def checked_quantum_def val_def split: if_splits)
next
  case False
  define k where "k = nat (- 4 - dexp x)"
  have k: "dexp x = - 4 - int k" using False by (simp add: k_def)
  have c: "0 \<le> coeff x" using assms(3) by (simp add: val_nonneg_iff)
  have v: "val x * 10 ^ 4 = of_int (coeff x) / 10 ^ k"
    by (simp add: val_def k power_int_diff power_int_minus)
  with assms(2) have "of_int \<lfloor>of_int (coeff x) / (10 ^ k :: rat)\<rfloor> = of_int (coeff x) / (10 ^ k :: rat)"
    by (simp add: grid_def)
  moreover have "\<lfloor>of_int (coeff x) / (10 ^ k :: rat)\<rfloor> = coeff x div 10 ^ k"
    using floor_divide_of_int_eq [of "coeff x" "10 ^ k"] by simp
  ultimately have "of_int (coeff x div 10 ^ k) = val x * 10 ^ 4" using v by simp
  moreover have "d = Dec (coeff x div 10 ^ k) (- 4)"
    using assms(1) False c by (auto simp: quantize_down_def checked_quantum_def k_def sgn_if split: if_splits)
  ultimately show ?thesis by (simp add: val_def power_int_minus)
qed

section \<open>What a delivered trade leaves behind\<close>

lemma post_journal_two:
  assumes "post_journal sid [(i, a, x), (j, b, y)] db = Inr db'"
  obtains u v where "numeric 16 2 x = Inr u" "numeric 16 2 y = Inr v"
    "db' = db\<lparr>t_journal := t_journal db @
       [\<lparr>jn_id = i, jn_settlement_id = sid, jn_account = uuid_text a, jn_amount_inr = u\<rparr>,
        \<lparr>jn_id = j, jn_settlement_id = sid, jn_account = uuid_text b, jn_amount_inr = v\<rparr>]\<rparr>"
  using assms by (auto simp: post_journal_def bindE_eq_Inr dest!: insert_workspace_rows(2))

text \<open>The event of a settled trade carries the hash of its receipt.\<close>

lemma settled_event:
  assumes "add_audit sim TRADE_SETTLED Entity_TRADE i
      [(''delivered_kwh'', PStr a), (''gross_inr'', PStr b), (''receipt_hash'', PStr h)] None k now db = Inr db'"
  obtains ev where "db' = db\<lparr>t_audit := t_audit db @ [ev]\<rparr>" "ar_event_type ev = TRADE_SETTLED"
    "ar_entity_type ev = Entity_TRADE" "ar_entity_id ev = i" "ar_event_time ev = sim_clock sim"
    "map_of (ar_payload_json ev) ''receipt_hash'' = Some (JStr h)"
proof -
  from assms obtain ev where ev: "db' = db\<lparr>t_audit := t_audit db @ [ev]\<rparr>"
    "new_row (t_audit db) \<lparr>ae_event_id = k, ae_event_type = TRADE_SETTLED, ae_entity_type = Entity_TRADE, ae_entity_id = i,
       ae_event_time = sim_clock sim, ae_recorded_at = now, ae_actor_user_id = None,
       ae_payload = [(''delivered_kwh'', PStr a), (''gross_inr'', PStr b), (''receipt_hash'', PStr h)]\<rparr> = Inr ev"
    unfolding add_audit_def record_event_effect audit_record_def insert_row_def by (auto simp: bindE_eq_Inr)
  from ev(2) have "ar_payload_json ev = [(''delivered_kwh'', JStr a), (''gross_inr'', JStr b),
      (PAYLOAD_VERSION_KEY, JStr PAYLOAD_VERSION), (''receipt_hash'', JStr h)]"
    by (auto simp: new_row_def bindE_eq_Inr canonical_payload_def with_payload_version_def PAYLOAD_VERSION_KEY_def)
  with ev show thesis by (intro that [of ev]) (auto simp: new_row_def bindE_eq_Inr PAYLOAD_VERSION_KEY_def)
qed

lemma file_delivery_effect:
  assumes "file_delivery sim f t buy sell sr br delivered db = Inr db'"
  obtains e price run gross s u v ev rc rp where "numeric 14 4 delivered = Inr e"
    "\<not> known al_trade_id (t_allocations db) (td_id t)"
    "List.find (\<lambda>b. bd_trade_id b = td_id t) (t_price_components db) = Some price"
    "Option.bind (td_grid_validation_id t) (fetch vn_id (t_validation_runs db)) = Some run"
    "quantize_half_even 2 (delivered * bd_final_price price) = Inr gross"
    "stored_settlement (delivery_settlement t buy sell delivered gross sim f) = Inr s"
    "numeric 16 2 (- gross) = Inr u" "numeric 16 2 gross = Inr v"
    "stored_reconciliation (delivery_reconciliation t delivered f) = Inr rc"
    "rp = (let payload = receipt_payload t delivered (bd_final_price price) gross run f
           in \<lparr>rp_id = df_receipt_id f, rp_trade_id = td_id t, rp_payload = payload,
               rp_payload_hash = sha256_hex (dumps payload), rp_status = ''pending''\<rparr>)"
    "ar_event_type ev = TRADE_SETTLED" "ar_entity_type ev = Entity_TRADE" "ar_entity_id ev = td_id t"
    "ar_event_time ev = sim_clock sim" "map_of (ar_payload_json ev) ''receipt_hash'' = Some (JStr (rp_payload_hash rp))"
    "db' = db\<lparr>t_allocations := t_allocations db @ [\<lparr>al_id = df_allocation_id f, al_trade_id = td_id t,
           al_seller_reading_id = rd_id sr, al_buyer_reading_id = rd_id br, al_energy_kwh = e\<rparr>],
         t_reconciliations := t_reconciliations db @ [rc], t_settlements := t_settlements db @ [s],
         t_journal := t_journal db @
           [\<lparr>jn_id = df_buyer_journal_id f, jn_settlement_id = df_settlement_id f,
             jn_account = uuid_text (od_user_id buy), jn_amount_inr = u\<rparr>,
            \<lparr>jn_id = df_seller_journal_id f, jn_settlement_id = df_settlement_id f,
             jn_account = uuid_text (od_user_id sell), jn_amount_inr = v\<rparr>],
         t_trades := modify td_id (td_id t) (\<lambda>q. q\<lparr>td_status := Trade_SETTLED\<rparr>) (t_trades db),
         t_receipts := t_receipts db @ [rp], t_audit := t_audit db @ [ev]\<rparr>"
proof -
  let ?a = "\<lparr>al_id = df_allocation_id f, al_trade_id = td_id t, al_seller_reading_id = rd_id sr,
    al_buyer_reading_id = rd_id br, al_energy_kwh = delivered\<rparr>"
  from assms obtain db1 db2 where d: "insert_allocation ?a db = Inr db1"
    "insert_reconciliation (delivery_reconciliation t delivered f) db1 = Inr db2"
    by (auto simp: file_delivery_def bindE_eq_Inr)
  from insert_workspace_rows(1) [OF d(1)] obtain e where e: "numeric 14 4 delivered = Inr e"
    "\<not> known al_trade_id (t_allocations db) (td_id t)"
    "db1 = db\<lparr>t_allocations := t_allocations db @ [?a\<lparr>al_energy_kwh := e\<rparr>]\<rparr>" by auto
  from insert_settlement_rows(1) [OF d(2)] obtain rc where rc: "stored_reconciliation (delivery_reconciliation t delivered f) = Inr rc"
    "db2 = db1\<lparr>t_reconciliations := t_reconciliations db1 @ [rc]\<rparr>"
    by blast
  from assms d obtain price run where p: "List.find (\<lambda>b. bd_trade_id b = td_id t) (t_price_components db2) = Some price"
    "Option.bind (td_grid_validation_id t) (fetch vn_id (t_validation_runs db2)) = Some run"
    by (auto simp: file_delivery_def split: option.splits)
  let ?payload = "\<lambda>gross. receipt_payload t delivered (bd_final_price price) gross run f"
  let ?rp = "\<lambda>gross. \<lparr>rp_id = df_receipt_id f, rp_trade_id = td_id t, rp_payload = ?payload gross,
    rp_payload_hash = sha256_hex (dumps (?payload gross)), rp_status = ''pending''\<rparr>"
  from assms d obtain gross db3 db4 db6 where m: "quantize_half_even 2 (delivered * bd_final_price price) = Inr gross"
    "insert_settlement (delivery_settlement t buy sell delivered gross sim f) db2 = Inr db3"
    "post_journal (df_settlement_id f)
       [(df_buyer_journal_id f, od_user_id buy, - gross), (df_seller_journal_id f, od_user_id sell, gross)] db3 = Inr db4"
    "insert_receipt (?rp gross) (db4\<lparr>t_trades := modify td_id (td_id t) (\<lambda>q. q\<lparr>td_status := Trade_SETTLED\<rparr>) (t_trades db4)\<rparr>) = Inr db6"
    and audit: "add_audit sim TRADE_SETTLED Entity_TRADE (td_id t)
      [(''delivered_kwh'', PStr (decimal_text delivered)), (''gross_inr'', PStr (decimal_text gross)),
       (''receipt_hash'', PStr (sha256_hex (dumps (?payload gross))))] None (df_event_id f) (df_clock f) db6 = Inr db'"
    unfolding file_delivery_def Let_def by (simp add: p bindE_eq_Inr) (elim exE conjE, rule that; assumption)
  from insert_settlement_rows(2) [OF m(2)] obtain s where s: "stored_settlement (delivery_settlement t buy sell delivered gross sim f) = Inr s"
    "db3 = db2\<lparr>t_settlements := t_settlements db2 @ [s]\<rparr>" by blast
  from post_journal_two [OF m(3)] obtain u v where j: "numeric 16 2 (- gross) = Inr u" "numeric 16 2 gross = Inr v"
    "db4 = db3\<lparr>t_journal := t_journal db3 @
       [\<lparr>jn_id = df_buyer_journal_id f, jn_settlement_id = df_settlement_id f, jn_account = uuid_text (od_user_id buy), jn_amount_inr = u\<rparr>,
        \<lparr>jn_id = df_seller_journal_id f, jn_settlement_id = df_settlement_id f, jn_account = uuid_text (od_user_id sell), jn_amount_inr = v\<rparr>]\<rparr>"
    by blast
  note r = insert_workspace_rows(3) [OF m(4)]
  from audit obtain ev where a: "db' = db6\<lparr>t_audit := t_audit db6 @ [ev]\<rparr>" "ar_event_type ev = TRADE_SETTLED"
    "ar_entity_type ev = Entity_TRADE" "ar_entity_id ev = td_id t" "ar_event_time ev = sim_clock sim"
    "map_of (ar_payload_json ev) ''receipt_hash'' = Some (JStr (sha256_hex (dumps (?payload gross))))"
    by (rule settled_event)
  show thesis
    by (rule that [of e price run gross s u v rc "?rp gross" ev])
      (use e(1,2) p m(1) s(1) j(1,2) rc(1) a(2-6) in \<open>simp_all add: a(1) r j(3) s(2) rc(2) e(3) Let_def\<close>)
qed

lemma allocated_append [simp]:
  "allocated_kwh (as @ [a]) side i = allocated_kwh as side i + (if side a = i then val (al_energy_kwh a) else 0)"
  by (simp add: allocated_kwh_def)

lemma deliver_trade_cases:
  assumes "deliver_trade sim f t db = Inr db'"
  obtains "db' = db"
  | buy sell sr br exported imported delivered where
      "fetch od_id (t_orders db) (td_buy_order_id t) = Some buy" "fetch od_id (t_orders db) (td_sell_order_id t) = Some sell"
      "unallocated db sell t rd_grid_export_kwh al_seller_reading_id = Some (sr, exported)"
      "unallocated db buy t rd_grid_import_kwh al_buyer_reading_id = Some (br, imported)"
      "quantize_down 4 (pymin (pymin (td_quantity_kwh t) exported) imported) = Inr delivered"
      "file_delivery sim f t buy sell sr br delivered db = Inr db'"
  using assms by (auto simp: deliver_trade_def bindE_eq_Inr split: option.splits)

lemma deliver_keeps:
  assumes "deliver_trade sim f t db = Inr db'" "deliveries_ok db" "stored_energy (td_quantity_kwh t)"
  shows "deliveries_ok db'"
  using assms(1)
proof (cases rule: deliver_trade_cases)
  case 1
  with assms(2) show ?thesis by simp
next
  case (2 buy sell sr br exported imported delivered)
  let ?as = "t_allocations db"
  have ok: "\<forall>a \<in> set ?as. stored_energy (al_energy_kwh a)" "distinct (map rd_id (t_readings db))"
    "\<forall>r \<in> set (t_readings db). measured_energy (rd_grid_export_kwh r)
       \<and> allocated_kwh ?as al_seller_reading_id (rd_id r) \<le> channel_kwh (rd_grid_export_kwh r)"
    "\<forall>r \<in> set (t_readings db). measured_energy (rd_grid_import_kwh r)
       \<and> allocated_kwh ?as al_buyer_reading_id (rd_id r) \<le> channel_kwh (rd_grid_import_kwh r)"
    using assms(2) by (auto simp: deliveries_ok_def allocations_fit_def)
  note s = unallocated_left [OF 2(3) ok(1,3)] and b = unallocated_left [OF 2(4) ok(1,4)]
  have v: "val (pymin (pymin (td_quantity_kwh t) exported) imported)
      = min (min (val (td_quantity_kwh t)) (val exported)) (val imported)" by (simp add: val_pymin)
  have m: "grid 4 \<dots>" "0 \<le> \<dots>" "\<dots> < 10 ^ 10"
    using s b assms(3) by (auto simp: stored_energy_def intro!: grid_min)
  with quantize_down_energy [OF 2(5)] v have d: "val delivered = min (min (val (td_quantity_kwh t)) (val exported)) (val imported)"
    "stored_energy delivered" by (simp_all add: stored_energy_def)
  from 2(6) obtain e where e: "numeric 14 4 delivered = Inr e" "t_readings db' = t_readings db"
    "t_allocations db' = ?as @ [\<lparr>al_id = df_allocation_id f, al_trade_id = td_id t,
       al_seller_reading_id = rd_id sr, al_buyer_reading_id = rd_id br, al_energy_kwh = e\<rparr>]"
    by (rule file_delivery_effect) simp
  have ev: "val e = val delivered" "stored_energy e" using numeric_energy [OF d(2)] e(1) d(2) by (auto simp: stored_energy_def)
  have same: "q = r" if "q \<in> set (t_readings db)" "r \<in> set (t_readings db)" "rd_id q = rd_id r" for q r
    using ok(2) that by (auto simp: distinct_map dest: inj_onD)
  have fit: "\<forall>r \<in> set (t_readings db).
      allocated_kwh ?as al_seller_reading_id (rd_id r) + (if rd_id sr = rd_id r then val e else 0) \<le> channel_kwh (rd_grid_export_kwh r)
      \<and> allocated_kwh ?as al_buyer_reading_id (rd_id r) + (if rd_id br = rd_id r then val e else 0) \<le> channel_kwh (rd_grid_import_kwh r)"
  proof (intro ballI conjI)
    fix r assume r: "r \<in> set (t_readings db)"
    show "allocated_kwh ?as al_seller_reading_id (rd_id r) + (if rd_id sr = rd_id r then val e else 0) \<le> channel_kwh (rd_grid_export_kwh r)"
      using r ok(3) same [of sr r] s d(1) ev(1) by (auto simp: min_le_iff_disj)
    show "allocated_kwh ?as al_buyer_reading_id (rd_id r) + (if rd_id br = rd_id r then val e else 0) \<le> channel_kwh (rd_grid_import_kwh r)"
      using r ok(4) same [of br r] b d(1) ev(1) by (auto simp: min_le_iff_disj)
  qed
  have known: "known rd_id (t_readings db) (rd_id sr)" "known rd_id (t_readings db) (rd_id br)"
    using s b by (simp_all add: known_def)
  show ?thesis
    using assms(2) ev(2) fit known by (simp add: deliveries_ok_def allocations_fit_def e(2,3) cong: if_cong split del: if_split)
qed

end
