(* ===== verification/Workspace_Measured.thy ===== *)
theory Workspace_Measured
  imports Workspace_Deliveries
begin

text \<open>
  The operations of the connected marketplace as steps, and which tables each leaves alone.
\<close>

inductive workspace_step ::
  "grid_tools \<Rightarrow> site_profile \<Rightarrow> baseline_config \<Rightarrow> 'a workspace_db_scheme \<Rightarrow> 'a workspace_db_scheme \<Rightarrow> bool"
  for tools :: grid_tools and profile :: site_profile and cfg :: baseline_config where
  Placed: "place_workspace_order user start side quantity price f db = Inr (db', i) \<Longrightarrow> workspace_step tools profile cfg db db'"
| Cancelled: "cancel_workspace_order user i event now db = Inr db' \<Longrightarrow> workspace_step tools profile cfg db db'"
| Accepted: "accept_offer tools user q f g db = Inr (db', t) \<Longrightarrow> workspace_step tools profile cfg db db'"
| Cleared: "clear_market tools None None g db = Inr (db', ts) \<Longrightarrow> workspace_step tools profile cfg db db'"
| Advanced: "advance_clock profile cfg n deliver_all h db = Inr db' \<Longrightarrow> workspace_step tools profile cfg db db'"
| Recovered: "recover_missing profile ids d db = Inr db' \<Longrightarrow> workspace_step tools profile cfg db db'"

section \<open>What trading leaves alone\<close>

text \<open>
  Trading appends to the tables of trades and writes orders; the registry, telemetry, forecasts,
  allocations, journal and receipts stay as they are.
\<close>

definition untouched :: "'a workspace_db_scheme \<Rightarrow> 'a workspace_db_scheme \<Rightarrow> bool" where
  "untouched db db' \<longleftrightarrow>
     t_users db' = t_users db \<and> t_sites db' = t_sites db \<and> t_meters db' = t_meters db \<and> t_grid_nodes db' = t_grid_nodes db
     \<and> t_readings db' = t_readings db
     \<and> t_forecast_runs db' = t_forecast_runs db \<and> t_forecast_points db' = t_forecast_points db
     \<and> t_allocations db' = t_allocations db \<and> t_journal db' = t_journal db \<and> t_settlements db' = t_settlements db"

definition trades_stored :: "'a market_db_scheme \<Rightarrow> bool" where
  "trades_stored db \<longleftrightarrow> (\<forall>t \<in> set (t_trades db). stored_energy (td_quantity_kwh t))"

lemma untouched_refl [simp]: "untouched db db"
  by (simp add: untouched_def)

lemma untouched_trans: "untouched db1 db2 \<Longrightarrow> untouched db2 db3 \<Longrightarrow> untouched db1 db3"
  by (simp add: untouched_def)

lemma stored_trade_energy: "stored_trade t = Inr row \<Longrightarrow> list_all fst (trade_checks db row) \<Longrightarrow> stored_energy (td_quantity_kwh row)"
  by (auto simp: stored_trade_def trade_checks_def bindE_eq_Inr val_simps intro!: stored_energy_form less_imp_le)

lemma session_for_frame:
  assumes "session_for sim day i db = Inr (db', j)"
  shows "\<exists>ss. db' = db\<lparr>t_sessions := ss\<rparr>"
proof (cases "List.find (\<lambda>s. mk_market_date s = day) (t_sessions db)")
  case None
  with assms show ?thesis by (auto simp: session_for_def bindE_eq_Inr dest!: insert_rows(1))
next
  case (Some s)
  with assms show ?thesis by (intro exI [of _ "t_sessions db"]) (simp add: session_for_def)
qed

lemma place_frame:
  assumes "place_workspace_order user start side quantity price f db = Inr (db', i)"
  obtains sim site solar ss row log session_id where "t_simulation db = Some sim"
    "admit_slot db sim user start side quantity = Inr (site, solar)"
    "stored_order (workspace_order user site session_id (fp_forecast_run_id solar) start side quantity price f) = Inr row"
    "list_all fst (order_checks (db\<lparr>t_sessions := ss\<rparr>) row)" "i = of_order_id f"
    "db' = bump (db\<lparr>t_sessions := ss, t_orders := t_orders db @ [row], t_audit := log\<rparr>)"
proof -
  from assms obtain sim site solar db1 session_id db2 db3 where p: "simulation_state db = Inr sim"
    "admit_slot db sim user start side quantity = Inr (site, solar)"
    "session_for sim (ist_day start) (of_session_id f) db = Inr (db1, session_id)"
    "insert_order (workspace_order user site session_id (fp_forecast_run_id solar) start side quantity price f) db1 = Inr db2"
    "add_audit sim ORDER_PLACED Entity_ORDER (of_order_id f) (order_placed_payload side quantity price)
       (Some (us_id user)) (of_event_id f) (of_event_now f) db2 = Inr db3"
    "i = of_order_id f" "db' = bump db3"
    by (auto simp: place_workspace_order_def bindE_eq_Inr)
  obtain ss where ss: "db1 = db\<lparr>t_sessions := ss\<rparr>" using session_for_frame [OF p(3)] by blast
  obtain row where row: "stored_order (workspace_order user site session_id (fp_forecast_run_id solar) start side quantity price f) = Inr row"
    "list_all fst (order_checks db1 row)" "db2 = db1\<lparr>t_orders := t_orders db1 @ [row]\<rparr>"
    using insert_rows(2) [OF p(4)] by blast
  obtain log where log: "db3 = db2\<lparr>t_audit := log\<rparr>" using insert_workspace_rows(5) [OF p(5)] by blast
  have "t_simulation db = Some sim" using p(1) by (simp add: simulation_state_def split: option.splits)
  then show thesis
    by (rule that [OF _ p(2) row(1)]) (use row(2) p(6) in \<open>simp_all add: p(7) log row(3) ss\<close>)
qed

lemma cancel_frame:
  assumes "cancel_workspace_order user i event now db = Inr db'"
  obtains o1 log where "fetch od_id (t_orders db) i = Some o1" "od_status o1 = Order_OPEN" "coeff (od_matched_kwh o1) = 0"
    "db' = bump (db\<lparr>t_orders := modify od_id i (\<lambda>o1. o1\<lparr>od_status := CANCELLED\<rparr>) (t_orders db), t_audit := log\<rparr>)"
  using assms
  by (auto simp: cancel_workspace_order_def bindE_eq_Inr split: option.splits if_splits dest!: insert_workspace_rows(5))

lemma validate_slot_frame:
  assumes "validate_slot tools sim start i now db = Inr (db', run)"
  obtains injections row where "mapE (site_injection db sim start) (feeder_sites db) = Inr injections"
    "run = schedule_row tools (schedule_request db start injections) i now"
    "stored_validation run = Inr row" "db' = db\<lparr>t_validation_runs := t_validation_runs db @ [row]\<rparr>"
  using assms by (auto simp: validate_slot_def bindE_eq_Inr Let_def dest!: insert_grid_rows(1))

text \<open>The rows of a decided proposal.\<close>

lemma file_decision_frame:
  assumes "file_decision res run sim start f k buy sell p x db = Inr (db', t)"
  defines "accepted \<equiv> price_accepted run buy sell (px_final_price x)"
  obtains row b log where
    "t = slot_trade res run sim start accepted p (next_fill db (od_id buy) (od_id sell) start) (sl_trade_id f k) (sl_now f)"
    "stored_trade t = Inr row" "list_all fst (trade_checks db row)"
    "stored_breakdown (breakdown_of (td_id t) x (sl_breakdown_id f k) (sl_now f)) = Inr b"
    "settle_orders accepted (pt_quantity_kwh p) [buy, sell]
       (db\<lparr>t_trades := t_trades db @ [row], t_price_components := t_price_components db @ [b], t_audit := log\<rparr>) = Inr db'"
proof -
  let ?t = "slot_trade res run sim start accepted p (next_fill db (od_id buy) (od_id sell) start) (sl_trade_id f k) (sl_now f)"
  from assms obtain db1 db2 db3 where d: "insert_judged_trade ?t db = Inr db1"
    "insert_breakdown (breakdown_of (td_id ?t) x (sl_breakdown_id f k) (sl_now f)) db1 = Inr db2"
    "add_audit sim TRADE_PROPOSED Entity_TRADE (td_id ?t) (trade_decided_payload ?t run (px_final_price x))
       None (sl_event_id f k) (sl_clock f k) db2 = Inr db3"
    "settle_orders accepted (pt_quantity_kwh p) [buy, sell] db3 = Inr db'" "t = ?t"
    by (auto simp: file_decision_def Let_def bindE_eq_Inr)
  from insert_grid_rows(2) [OF d(1)] obtain row where row: "stored_trade ?t = Inr row" "list_all fst (trade_checks db row)"
    "db1 = db\<lparr>t_trades := t_trades db @ [row]\<rparr>" by blast
  from insert_price_rows [OF d(2)] obtain b where b: "stored_breakdown (breakdown_of (td_id ?t) x (sl_breakdown_id f k) (sl_now f)) = Inr b"
    "db2 = db1\<lparr>t_price_components := t_price_components db1 @ [b]\<rparr>" by blast
  from insert_workspace_rows(5) [OF d(3)] obtain log where log: "db3 = db2\<lparr>t_audit := log\<rparr>" by blast
  have "settle_orders accepted (pt_quantity_kwh p) [buy, sell]
      (db\<lparr>t_trades := t_trades db @ [row], t_price_components := t_price_components db @ [b], t_audit := log\<rparr>) = Inr db'"
    using d(4) by (simp add: log b(2) row(3))
  from that [OF d(5) _ row(2) _ this] row(1) b(1) show thesis by (simp add: d(5))
qed

lemma fill_orders_frame:
  "foldE (\<lambda>o1. save_fill (fill_workspace_order q o1)) os db = Inr db' \<Longrightarrow> \<exists>os'. db' = db\<lparr>t_orders := os'\<rparr>"
proof (induction os arbitrary: db)
  case (Cons o1 os)
  then obtain db1 where d: "save_fill (fill_workspace_order q o1) db = Inr db1"
    "foldE (\<lambda>o1. save_fill (fill_workspace_order q o1)) os db1 = Inr db'" by (auto simp: bindE_eq_Inr)
  obtain os1 where "db1 = db\<lparr>t_orders := os1\<rparr>" using insert_rows(4) [OF d(1)] by blast
  with Cons.IH [OF d(2)] show ?case by auto
next
  case Nil
  then show ?case by (intro exI [of _ "t_orders db"]) simp
qed

lemma reject_orders_frame:
  "foldl (\<lambda>db o1. db\<lparr>t_orders := modify od_id (od_id o1) (\<lambda>q. q\<lparr>od_status := Order_REJECTED\<rparr>) (t_orders db)\<rparr>) db os
     = db\<lparr>t_orders := foldl (\<lambda>rows o1. modify od_id (od_id o1) (\<lambda>q. q\<lparr>od_status := Order_REJECTED\<rparr>) rows) (t_orders db) os\<rparr>"
  by (induction os arbitrary: db) simp_all

lemma settle_orders_frame: "settle_orders accepted q os db = Inr db' \<Longrightarrow> \<exists>os'. db' = db\<lparr>t_orders := os'\<rparr>"
  by (cases accepted) (auto simp: settle_orders_def reject_orders_frame dest: fill_orders_frame)

text \<open>What no operation forgets: the purchases on record, the trades by their identifiers, the clock.\<close>

definition remembers :: "'a workspace_db_scheme \<Rightarrow> 'a workspace_db_scheme \<Rightarrow> bool" where
  "remembers db db' \<longleftrightarrow>
     (\<exists>more. t_actions db' = t_actions db @ more) \<and> td_id ` set (t_trades db) \<subseteq> td_id ` set (t_trades db')
     \<and> (t_simulation db \<noteq> None \<longrightarrow> t_simulation db' \<noteq> None)"

lemma remembers_refl [simp]: "remembers db db"
  by (simp add: remembers_def)

lemma remembers_trans: "remembers db1 db2 \<Longrightarrow> remembers db2 db3 \<Longrightarrow> remembers db1 db3"
  by (fastforce simp: remembers_def)

lemma remembers_bump [simp]: "remembers db (bump db') \<longleftrightarrow> remembers db db'"
  by (simp add: remembers_def bump_def)

text \<open>A step that leaves the measured tables alone and keeps the trades as stored.\<close>

definition trading :: "'a workspace_db_scheme \<Rightarrow> 'a workspace_db_scheme \<Rightarrow> bool" where
  "trading db db' \<longleftrightarrow> untouched db db' \<and> (trades_stored db \<longrightarrow> trades_stored db') \<and> remembers db db'"

lemma trading_refl [simp]: "trading db db"
  by (simp add: trading_def)

lemma trading_trans: "trading db1 db2 \<Longrightarrow> trading db2 db3 \<Longrightarrow> trading db1 db3"
  unfolding trading_def by (metis untouched_trans remembers_trans)

lemma trading_bump [simp]: "trading db (bump db') \<longleftrightarrow> trading db db'"
  unfolding trading_def remembers_bump by (simp add: untouched_def trades_stored_def bump_def)

lemma file_decision_trading: "file_decision res run sim start f k buy sell p x db = Inr (db', t) \<Longrightarrow> trading db db'"
proof (erule file_decision_frame)
  fix row b log
  assume r: "stored_trade t = Inr row" "list_all fst (trade_checks db row)"
    and "settle_orders (price_accepted run buy sell (px_final_price x)) (pt_quantity_kwh p) [buy, sell]
       (db\<lparr>t_trades := t_trades db @ [row], t_price_components := t_price_components db @ [b], t_audit := log\<rparr>) = Inr db'"
  then obtain os where "db' = db\<lparr>t_trades := t_trades db @ [row], t_price_components := t_price_components db @ [b],
      t_audit := log\<rparr>\<lparr>t_orders := os\<rparr>" using settle_orders_frame by blast
  with stored_trade_energy [OF r] show "trading db db'"
    by (auto simp: trading_def untouched_def trades_stored_def remembers_def)
qed

lemma decide_proposal_cases:
  assumes "decide_proposal res run sim start slot f p (db, ts) = Inr (db', ts')"
  obtains "db' = db" "ts' = ts"
  | buy sell solar load x t where "current_order slot db (pt_buy_order_id p) = Inr buy"
      "current_order slot db (pt_sell_order_id p) = Inr sell" "od_status buy \<noteq> Order_REJECTED" "od_status sell \<noteq> Order_REJECTED"
      "od_user_id buy \<noteq> od_user_id sell" "prediction db (od_site_id sell) start = Inr (solar, load)"
      "quote DEFAULT_PARAMETERS (slot_quote_request run solar p start) = Inr x"
      "file_decision res run sim start f (length ts) buy sell p x db = Inr (db', t)" "ts' = ts @ [t]"
  using assms by (auto simp: decide_proposal_def bindE_eq_Inr split: if_splits)

lemma decide_proposal_trading: "decide_proposal res run sim start slot f p (db, ts) = Inr (db', ts') \<Longrightarrow> trading db db'"
  by (erule decide_proposal_cases) (auto dest: file_decision_trading)

lemma clear_slot_cases:
  assumes "clear_slot tools sim orders most f start (db, ts) = Inr (db', ts')"
  obtains "db' = db" "ts' = ts"
  | res db1 run where
      "baseline_match \<lparr>req_order_book = slot_book most start (filter (\<lambda>o1. od_delivery_start o1 = start) orders),
         req_cleared_at = sim_clock sim\<rparr> = Inr res"
      "validate_slot tools sim start (sl_run_id f start) (sl_now f) db = Inr (db1, run)"
      "foldE (decide_proposal res run sim start (filter (\<lambda>o1. od_delivery_start o1 = start) orders) f)
         (mr_trades res) (db1, ts) = Inr (db', ts')"
  using assms by (auto simp: clear_slot_def Let_def bindE_eq_Inr split: if_splits)

lemma validate_slot_trading: "validate_slot tools sim start i now db = Inr (db', run) \<Longrightarrow> trading db db'"
  by (erule validate_slot_frame) (simp add: trading_def untouched_def trades_stored_def remembers_def)

lemma decisions_trading:
  "foldE (decide_proposal res run sim start slot f) ps (db, ts) = Inr (db', ts') \<Longrightarrow> trading db db'"
  by (drule foldE_invariant [where P = "\<lambda>s. trading db (fst s)"])
    (auto intro: trading_trans [OF _ decide_proposal_trading])

lemma clear_slot_trading: "clear_slot tools sim orders most f start (db, ts) = Inr (db', ts') \<Longrightarrow> trading db db'"
  by (erule clear_slot_cases) (auto dest: validate_slot_trading decisions_trading intro: trading_trans)

lemma clear_market_cases:
  assumes "clear_market tools ids most f db = Inr (db', ts)"
  obtains sim db1 where "t_simulation db = Some sim"
    "foldE (clear_slot tools sim (open_orders db sim ids) most f)
       (sort (remdups (map od_delivery_start (open_orders db sim ids)))) (db, []) = Inr (db1, ts)" "db' = bump db1"
  using assms by (auto simp: clear_market_def bindE_eq_Inr Let_def simulation_state_def split: option.splits)

lemma clear_market_trading: "clear_market tools ids most f db = Inr (db', ts) \<Longrightarrow> trading db db'"
proof (erule clear_market_cases)
  fix sim db1
  assume f: "foldE (clear_slot tools sim (open_orders db sim ids) most f)
      (sort (remdups (map od_delivery_start (open_orders db sim ids)))) (db, []) = Inr (db1, ts)" and "db' = bump db1"
  moreover from f have "trading db (fst (db1, ts))"
    by (rule foldE_invariant [where P = "\<lambda>s. trading db (fst s)"]) (auto intro: trading_trans [OF _ clear_slot_trading])
  ultimately show "trading db db'" by simp
qed

lemma place_trading: "place_workspace_order user start side quantity price f db = Inr (db', i) \<Longrightarrow> trading db db'"
  by (erule place_frame) (simp add: trading_def, simp add: untouched_def trades_stored_def remembers_def bump_def)

lemma own_side_cases:
  assumes "own_side db user q offer f = Inr (db', own)"
  obtains (Placed) "or_own_order_id q = None"
      "place_workspace_order user (od_delivery_start offer) (opposite (od_side offer)) (or_quantity q) (or_price q) f db
         = Inr (db', own)"
  | (Given) row where "db' = db" "or_own_order_id q = Some own" "fetch od_id (t_orders db) own = Some row"
      "od_user_id row = us_id user" "order_is_active (od_status row)" "od_side row = opposite (od_side offer)"
      "od_delivery_start row = od_delivery_start offer" "\<not> remaining_kwh row < or_quantity q"
  using assms by (auto simp: own_side_def split: option.splits if_splits dest: fetch_SomeD)

lemma accept_offer_cases:
  assumes "accept_offer tools user q f g db = Inr (db', t)"
  obtains (Again) a where "List.find (\<lambda>a. action_key a = (us_id user, or_request_id q)) (t_actions db) = Some a"
      "ac_body_hash a = purchase_hash (or_offer_id q) (or_quantity q) (or_price q) (or_own_order_id q)"
      "fetch td_id (t_trades db) (ac_trade_id a) = Some t" "db' = db"
  | (New) sim offer db1 own db2 ts where "t_simulation db = Some sim"
      "List.find (\<lambda>a. action_key a = (us_id user, or_request_id q)) (t_actions db) = None"
      "available_offer db sim user q = Inr offer" "own_side db user q offer f = Inr (db1, own)"
      "clear_market tools (Some {own, od_id offer}) (Some (or_quantity q)) g db1 = Inr (db2, t # ts)"
      "td_status t = COMMITTED" "(us_id user, or_request_id q) \<notin> action_key ` set (t_actions db2)"
      "td_id t \<in> td_id ` set (t_trades db2)"
      "db' = db2\<lparr>t_actions := t_actions db2 @ [\<lparr>ac_user_id = us_id user, ac_request_id = or_request_id q,
         ac_body_hash = purchase_hash (or_offer_id q) (or_quantity q) (or_price q) (or_own_order_id q),
         ac_trade_id = td_id t\<rparr>]\<rparr>"
proof (cases "List.find (\<lambda>a. action_key a = (us_id user, or_request_id q)) (t_actions db)")
  case (Some a)
  with assms have "ac_body_hash a = purchase_hash (or_offer_id q) (or_quantity q) (or_price q) (or_own_order_id q)"
    "fetch td_id (t_trades db) (ac_trade_id a) = Some t" "db' = db"
    by (auto simp: accept_offer_def bindE_eq_Inr split: if_splits option.splits)
  with Some Again show thesis by blast
next
  case None
  with assms obtain sim offer where o1: "t_simulation db = Some sim" "available_offer db sim user q = Inr offer"
    and p: "purchase tools user q offer f g db = Inr (db', t)"
    by (auto simp: accept_offer_def bindE_eq_Inr simulation_state_def split: option.splits)
  from p obtain db1 own db2 trades where b: "own_side db user q offer f = Inr (db1, own)"
    "clear_market tools (Some {own, od_id offer}) (Some (or_quantity q)) g db1 = Inr (db2, trades)"
    by (auto simp: purchase_def bindE_eq_Inr)
  with p obtain ts where ts: "trades = t # ts" "td_status t = COMMITTED"
    "insert_action \<lparr>ac_user_id = us_id user, ac_request_id = or_request_id q,
         ac_body_hash = purchase_hash (or_offer_id q) (or_quantity q) (or_price q) (or_own_order_id q),
         ac_trade_id = td_id t\<rparr> db2 = Inr db'"
    by (cases trades) (auto simp: purchase_def bindE_eq_Inr split: if_splits)
  have "td_id t \<in> td_id ` set (t_trades db2)" using ts(3) by (auto simp: insert_action_def known_def bindE_eq_Inr)
  with insert_workspace_rows(4) [OF ts(3)] New [OF o1(1) None o1(2) b(1) _ ts(2)] b(2) ts(1) show thesis
    by (simp add: action_key_def)
qed

lemma accept_offer_trading: "accept_offer tools user q f g db = Inr (db', t) \<Longrightarrow> trading db db'"
proof (erule accept_offer_cases)
  fix sim offer db1 own db2 ts
  assume o1: "own_side db user q offer f = Inr (db1, own)"
    and c: "clear_market tools (Some {own, od_id offer}) (Some (or_quantity q)) g db1 = Inr (db2, t # ts)"
    and db': "db' = db2\<lparr>t_actions := t_actions db2 @ [\<lparr>ac_user_id = us_id user, ac_request_id = or_request_id q,
         ac_body_hash = purchase_hash (or_offer_id q) (or_quantity q) (or_price q) (or_own_order_id q),
         ac_trade_id = td_id t\<rparr>]\<rparr>"
  from o1 have "trading db db1"
    by (cases rule: own_side_cases) (auto intro: place_trading)
  from trading_trans [OF this clear_market_trading [OF c]] have "trading db db2" .
  then show "trading db db'" by (auto simp: db' trading_def untouched_def trades_stored_def remembers_def)
qed simp

section \<open>Measured energy\<close>

text \<open>
  Time passing in the connected marketplace: readings and forecasts are added, due trades are
  settled, and the energy given to trades stays within what was measured.
\<close>

section \<open>Readings arrive\<close>

lemma numeric_measured: "nullable (numeric 14 4) v = Inr w \<Longrightarrow> measured_energy w"
  by (auto simp: nullable_def bindE_eq_Inr measured_energy_def val_simps val_Dec4 gridI dest!: numeric_form split: option.splits)

lemma insert_reading_frame:
  assumes "insert_reading r db = Inr db'"
  shows "\<exists>row. db' = db\<lparr>t_readings := t_readings db @ [row]\<rparr> \<and> \<not> known rd_id (t_readings db) (rd_id row)
    \<and> rd_grid_export_kwh row = rd_grid_export_kwh r \<and> rd_grid_import_kwh row = rd_grid_import_kwh r"
proof -
  from assms obtain row where s: "stored_reading r = Inr row" "list_all fst (reading_checks db row)"
    "db' = db\<lparr>t_readings := t_readings db @ [row]\<rparr>" by (auto simp: insert_reading_def bindE_eq_Inr)
  from s(1) have "rd_grid_export_kwh row = rd_grid_export_kwh r \<and> rd_grid_import_kwh row = rd_grid_import_kwh r"
    by (auto simp: stored_reading_def bindE_eq_Inr)
  with s(2,3) show ?thesis by (auto simp: reading_checks_def)
qed

lemma insert_profile_reading_frame:
  assumes "insert_profile_reading r db = Inr db'"
  obtains row where "db' = db\<lparr>t_readings := t_readings db @ [row]\<rparr>" "\<not> known rd_id (t_readings db) (rd_id row)"
    "measured_energy (rd_grid_export_kwh row)" "measured_energy (rd_grid_import_kwh row)"
proof -
  from assms obtain g l i x where c: "nullable (numeric 14 4) (rd_grid_import_kwh r) = Inr i"
    "nullable (numeric 14 4) (rd_grid_export_kwh r) = Inr x"
    "insert_reading (r\<lparr>rd_generation_kwh := g, rd_load_kwh := l, rd_grid_import_kwh := i, rd_grid_export_kwh := x\<rparr>) db = Inr db'"
    by (auto simp: insert_profile_reading_def bindE_eq_Inr)
  from insert_reading_frame [OF c(3)] c(1,2) show thesis by (auto intro: that dest: numeric_measured)
qed

lemma fit_arrival:
  assumes "allocations_fit rs as" "\<not> known rd_id rs (rd_id row)"
    and "measured_energy (rd_grid_export_kwh row)" "measured_energy (rd_grid_import_kwh row)"
  shows "allocations_fit (rs @ [row]) as"
proof -
  have "filter (\<lambda>a. al_seller_reading_id a = rd_id row) as = []" "filter (\<lambda>a. al_buyer_reading_id a = rd_id row) as = []"
    using assms(1,2) by (auto simp: allocations_fit_def filter_empty_conv)
  then have "allocated_kwh as al_seller_reading_id (rd_id row) = 0" "allocated_kwh as al_buyer_reading_id (rd_id row) = 0"
    by (simp_all add: allocated_kwh_def)
  moreover have "0 \<le> channel_kwh v" for v by (simp add: channel_kwh_def split: option.splits)
  ultimately show ?thesis using assms by (auto simp: allocations_fit_def known_def)
qed

text \<open>A run that only adds readings.\<close>

definition arrivals :: "'a telemetry_db_scheme \<Rightarrow> 'a telemetry_db_scheme \<Rightarrow> bool" where
  "arrivals db db' \<longleftrightarrow>
     (\<exists>rs. db' = db\<lparr>t_readings := rs\<rparr> \<and> (\<forall>as. allocations_fit (t_readings db) as \<longrightarrow> allocations_fit rs as))"

lemma arrivals_refl [simp]: "arrivals db db"
  unfolding arrivals_def by (intro exI [of _ "t_readings db"]) simp

lemma arrivals_trans: "arrivals db1 db2 \<Longrightarrow> arrivals db2 db3 \<Longrightarrow> arrivals db1 db3"
  by (auto simp: arrivals_def)

lemma insert_profile_reading_arrives: "insert_profile_reading r db = Inr db' \<Longrightarrow> arrivals db db'"
  by (erule insert_profile_reading_frame) (auto simp: arrivals_def intro!: fit_arrival)

lemma add_reading_arrives: "add_reading profile s scenario moment i db = Inr db' \<Longrightarrow> arrivals db db'"
  by (auto simp: add_reading_def bindE_eq_Inr intro: insert_profile_reading_arrives split: if_splits)

lemma foldE_arrives:
  assumes "foldE f xs db = Inr db'" "\<And>x db db'. f x db = Inr db' \<Longrightarrow> arrivals db db'"
  shows "arrivals db db'"
  using assms(1) by (rule foldE_invariant [where P = "arrivals db"]) (auto intro: arrivals_trans assms(2))

lemma add_readings_arrive: "add_readings profile s scenario moments ids db = Inr db' \<Longrightarrow> arrivals db db'"
  by (auto simp: add_readings_def bindE_eq_Inr intro: insert_profile_reading_arrives split: if_splits
      elim!: foldE_arrives)

lemma replay_order_arrives: "replay_order profile t x db = Inr db' \<Longrightarrow> arrivals db db'"
  by (cases x) (auto simp: replay_order_def intro: add_reading_arrives split: option.splits)

section \<open>Trades are delivered\<close>

definition measured_ok :: "'a workspace_db_scheme \<Rightarrow> bool" where
  "measured_ok db \<longleftrightarrow> deliveries_ok db \<and> trades_stored db"

lemma trading_keeps: "trading db db' \<Longrightarrow> measured_ok db \<Longrightarrow> measured_ok db'"
  by (simp add: trading_def untouched_def measured_ok_def deliveries_ok_def)

lemma arrivals_keep: "arrivals db db' \<Longrightarrow> measured_ok db \<Longrightarrow> measured_ok db'"
  by (auto simp: arrivals_def measured_ok_def deliveries_ok_def trades_stored_def)

lemma deliver_trades_stored:
  assumes "deliver_trade sim f t db = Inr db'" "trades_stored db"
  shows "trades_stored db'"
  using assms(1)
proof (cases rule: deliver_trade_cases)
  case 1
  then show ?thesis using assms(2) by simp
next
  case (2 buy sell sr br exported imported delivered)
  from 2(6) have "t_trades db' = modify td_id (td_id t) (\<lambda>q. q\<lparr>td_status := Trade_SETTLED\<rparr>) (t_trades db)"
    by (rule file_delivery_effect) simp
  with assms(2) show ?thesis by (auto simp: trades_stored_def modify_def)
qed

lemma reconcile_due_keeps:
  assumes "reconcile_due sim f db = Inr db'" "measured_ok db"
  shows "measured_ok db'"
  using assms(1) unfolding reconcile_due_def
proof (rule foldE_invariant [where P = measured_ok])
  show "measured_ok db" by (rule assms(2))
  fix t db1 db2
  assume "t \<in> set (due_trades db sim)" and d: "measured_ok db1" "deliver_trade sim (f (td_id t)) t db1 = Inr db2"
  then have "stored_energy (td_quantity_kwh t)"
    using assms(2) by (auto simp: due_trades_def measured_ok_def trades_stored_def)
  with d show "measured_ok db2"
    unfolding measured_ok_def using deliver_keeps deliver_trades_stored by blast
qed

section \<open>Forecasts are filed\<close>

definition forecasting :: "'a forecast_db_scheme \<Rightarrow> 'a forecast_db_scheme \<Rightarrow> bool" where
  "forecasting db db' \<longleftrightarrow> (\<exists>rs ps. db' = db\<lparr>t_forecast_runs := rs, t_forecast_points := ps\<rparr>)"

lemma forecasting_refl [simp]: "forecasting db db"
  unfolding forecasting_def by (intro exI [of _ "t_forecast_runs db"] exI [of _ "t_forecast_points db"]) simp

lemma forecasting_trans: "forecasting db1 db2 \<Longrightarrow> forecasting db2 db3 \<Longrightarrow> forecasting db1 db3"
  unfolding forecasting_def
  by (intro exI [of _ "t_forecast_runs db3"] exI [of _ "t_forecast_points db3"]) auto

lemma foldE_forecasting:
  assumes "foldE f xs db = Inr db'" "\<And>x db db'. f x db = Inr db' \<Longrightarrow> forecasting db db'"
  shows "forecasting db db'"
  using assms(1) by (rule foldE_invariant [where P = "forecasting db"]) (auto intro: forecasting_trans assms(2))

lemma insert_run_forecasting: "insert_run r db = Inr db' \<Longrightarrow> forecasting db db'"
  unfolding forecasting_def
  by (intro exI [of _ "t_forecast_runs db'"] exI [of _ "t_forecast_points db"]) (auto simp: insert_run_def bindE_eq_Inr)

lemma insert_point_forecasting: "insert_point p db = Inr db' \<Longrightarrow> forecasting db db'"
  unfolding forecasting_def
  by (intro exI [of _ "t_forecast_runs db"] exI [of _ "t_forecast_points db'"]) (auto simp: insert_point_def bindE_eq_Inr)

lemma file_forecast_forecasting: "file_forecast cfg f s tomorrow history kind db = Inr db' \<Longrightarrow> forecasting db db'"
  unfolding file_forecast_def bindE_eq_Inr
  by (elim exE conjE, rule forecasting_trans, erule insert_run_forecasting, erule foldE_forecasting)
    (auto split: prod.splits intro: insert_point_forecasting)

lemma forecast_tomorrow_forecasting: "forecast_tomorrow cfg f sim s db = Inr db' \<Longrightarrow> forecasting db db'"
  by (auto simp: forecast_tomorrow_def Let_def simp del: foldE.simps split: if_splits
      elim!: foldE_forecasting file_forecast_forecasting)

section \<open>The clock\<close>

lemma measured_bump [simp]: "measured_ok (bump db) \<longleftrightarrow> measured_ok db"
  by (simp add: measured_ok_def deliveries_ok_def trades_stored_def bump_def)

lemma measured_clock [simp]: "measured_ok (db\<lparr>t_simulation := s\<rparr>) \<longleftrightarrow> measured_ok db"
  by (simp add: measured_ok_def deliveries_ok_def trades_stored_def)

lemma advance_cases:
  assumes "advance_clock profile cfg n deliver_all f db = Inr db'"
  obtains sim db1 db2 db3 where "arrivals (db\<lparr>t_simulation := Some sim\<rparr>) db1"
    "reconcile_due sim (av_delivery f) db1 = Inr db2" "forecasting db2 db3" "db' = bump db3"
proof -
  from assms obtain sim0 target where a: "simulation_state db = Inr sim0"
    "advance_target sim0 n deliver_all db = Inr target" by (auto simp: advance_clock_def bindE_eq_Inr)
  obtain moments clock where q: "quarter_hours (sim_clock sim0) target = (moments, clock)" by fastforce
  define sim where "sim = sim0\<lparr>sim_clock := clock\<rparr>"
  from assms obtain db1 db2 db3 where s:
    "foldE (\<lambda>s. add_readings profile s (sim_scenario sim) moments (av_reading_id f (si_id s))) (feeder_sites db)
       (db\<lparr>t_simulation := Some sim\<rparr>) = Inr db1"
    "reconcile_due sim (av_delivery f) db1 = Inr db2"
    "foldE (\<lambda>s. forecast_tomorrow cfg (av_forecast f (si_id s)) sim s) (feeder_sites db) db2 = Inr db3" "db' = bump db3"
    by (auto simp: advance_clock_def Let_def a q sim_def bindE_eq_Inr)
  show thesis
    by (rule that [OF foldE_arrives [OF s(1)] s(2) foldE_forecasting [OF s(3)] s(4)])
      (rule add_readings_arrive forecast_tomorrow_forecasting, assumption)+
qed

lemma forecasting_keeps: "forecasting db db' \<Longrightarrow> measured_ok db \<Longrightarrow> measured_ok db'"
  by (auto simp: forecasting_def measured_ok_def deliveries_ok_def trades_stored_def)

lemma advance_keeps: "advance_clock profile cfg n deliver_all f db = Inr db' \<Longrightarrow> measured_ok db \<Longrightarrow> measured_ok db'"
  by (erule advance_cases) (auto dest!: arrivals_keep reconcile_due_keeps forecasting_keeps)

lemma recover_cases:
  assumes "recover_missing profile ids f db = Inr db'"
  obtains sim db1 db2 where "arrivals db db1" "reconcile_due sim f db1 = Inr db2" "db' = bump db2"
proof -
  from assms obtain sim db1 db2 where s:
    "foldE (\<lambda>t. foldE (replay_order profile t) [(td_buy_order_id t, ids (td_id t) BUY), (td_sell_order_id t, ids (td_id t) SELL)])
       (filter (\<lambda>t. td_status t = COMMITTED \<and> td_delivery_end t \<le> sim_clock sim) (t_trades db)) db = Inr db1"
    "reconcile_due sim f db1 = Inr db2" "db' = bump db2"
    unfolding recover_missing_def by (simp add: bindE_eq_Inr) blast
  have "arrivals db db1" using s(1) by (rule foldE_arrives) (erule foldE_arrives, rule replay_order_arrives)
  then show thesis using s(2,3) by (rule that)
qed

lemma recover_keeps: "recover_missing profile ids f db = Inr db' \<Longrightarrow> measured_ok db \<Longrightarrow> measured_ok db'"
  by (erule recover_cases) (auto dest!: arrivals_keep reconcile_due_keeps)

lemma cancel_keeps: "cancel_workspace_order user i event now db = Inr db' \<Longrightarrow> measured_ok db \<Longrightarrow> measured_ok db'"
  by (erule cancel_frame) (simp, simp add: measured_ok_def deliveries_ok_def trades_stored_def)

lemma workspace_step_keeps: "workspace_step tools profile cfg db db' \<Longrightarrow> measured_ok db \<Longrightarrow> measured_ok db'"
  by (induction rule: workspace_step.induct)
    (blast intro: trading_keeps place_trading cancel_keeps accept_offer_trading clear_market_trading advance_keeps recover_keeps)+

end
