(* ===== verification/Workspace_Settled.thy ===== *)
theory Workspace_Settled
  imports Workspace_Measured Settlement_Claims Baseline_Forecast_Props
begin

text \<open>
  What the connected marketplace guarantees when time passes: energy that was measured once is sold
  once, and a delivered trade is settled for exactly what was measured and left.
\<close>

section \<open>Money of a delivery\<close>

lemma quantize_half_even_val:
  assumes "quantize_half_even p x = Inr d"
  shows "d = Dec (quantized_even p x) (- int p) \<and> \<bar>quantized_even p x\<bar> < 10 ^ 28"
proof -
  have "dlen \<bar>quantized_even p x\<bar> \<le> PREC" "d = Dec (quantized_even p x) (- int p)"
    using assms by (auto simp: quantize_half_even_def checked_quantum_def split: if_splits)
  then show ?thesis using dlen_le_iff [of PREC "\<bar>quantized_even p x\<bar>"] by (simp add: PREC_def)
qed

lemma gross_of_product:
  assumes "quantize_half_even 2 (delivered * price) = Inr gross" "stored_energy delivered" "stored_price price"
  shows "\<bar>val gross - val delivered * val price\<bar> \<le> 1 / 200 \<and> grid 2 (val gross) \<and> rep28 (val gross)"
proof -
  let ?p = "delivered * price"
  have "grid 8 (val delivered * val price)"
    using grid_times [of 4 "val delivered" 4 "val price"] assms(2,3) by (simp add: stored_energy_def stored_price_def)
  moreover have "val delivered * val price < 10 ^ 10 * 10 ^ 8"
    using assms(2,3) by (intro mult_strict_mono) (auto simp: stored_energy_def stored_price_def)
  moreover have n: "0 \<le> val delivered * val price" using assms(2,3) by (simp add: stored_energy_def stored_price_def)
  ultimately have "rep28 (val delivered * val price)" by (intro rep28_grid [of 8]) simp_all
  with times_rounds [of delivered price] have v: "val ?p = val delivered * val price" by (simp add: rounds_to_exact)
  note q = quantize_half_even_val [OF assms(1)]
  have "quantized_even 2 ?p = rhe (val ?p * 100)" using quantized_even_rhe [of ?p 2] n v by simp
  with q have g: "val gross = of_int (rhe (val ?p * 100)) / 100" by (simp add: val_def [of "Dec _ _"] power_int_minus)
  have "\<bar>(of_int (rhe (val ?p * 100)) - val ?p * 100) / 100\<bar> \<le> 1 / 2 / 100"
    unfolding abs_divide using rhe_error [of "val ?p * 100"] by (simp add: field_simps)
  then have "\<bar>val gross - val ?p\<bar> \<le> 1 / 200" by (simp add: g diff_divide_distrib)
  moreover have "grid 2 (val gross)" by (simp add: g grid_def)
  moreover have "rep28 (val gross)" using q rep28I [of "quantized_even 2 ?p" "- 2"] by (simp add: val_def)
  ultimately show ?thesis by (simp add: v)
qed

lemma journal_amounts:
  assumes "numeric 16 2 (- gross) = Inr u" "numeric 16 2 gross = Inr v" "grid 2 (val gross)" "rep28 (val gross)"
  shows "val v = val gross \<and> val u = - val gross"
proof -
  have "val (- gross) = - val gross"
    using uminus_rounds [of gross] assms(4) by (simp add: rounds_to_exact rep28_uminus)
  with assms show ?thesis by (simp add: numeric_val round_half_up_id grid_uminus)
qed

section \<open>The books of a delivery\<close>

text \<open>
  What each row says of the delivery, written out field by field: the energy \<open>kwh\<close>, the price of the
  trade and the parties of its orders.
\<close>

definition reconciled_as :: "trade_row \<Rightarrow> rat \<Rightarrow> reconciliation_row \<Rightarrow> bool" where
  "reconciled_as t kwh rc \<longleftrightarrow>
     rc_trade_id rc = td_id t \<and> rc_status rc = RECONCILED \<and> val (rc_committed_kwh rc) = val (td_quantity_kwh t)
     \<and> map_option val (rc_actual_kwh rc) = Some kwh
     \<and> map_option val (rc_deviation_kwh rc) = Some (kwh - val (td_quantity_kwh t))
     \<and> val (rc_balancing_kwh rc) = val (td_quantity_kwh t) - kwh
     \<and> (rc_within_tolerance rc \<longleftrightarrow> \<bar>kwh - val (td_quantity_kwh t)\<bar> \<le> val (td_quantity_kwh t) * 5 / 100)"

definition settled_as ::
  "simulation_row \<Rightarrow> trade_row \<Rightarrow> order_row \<Rightarrow> order_row \<Rightarrow> rat \<Rightarrow> decimal \<Rightarrow> settlement_row \<Rightarrow> bool" where
  "settled_as sim t buy sell kwh price s \<longleftrightarrow>
     sm_trade_id s = td_id t \<and> sm_status s = SETTLED \<and> sm_settled_at s = sim_clock sim
     \<and> sm_buyer_user_id s = od_user_id buy \<and> sm_seller_user_id s = od_user_id sell \<and> val (sm_settled_kwh s) = kwh
     \<and> \<bar>val (sm_gross_inr s) - kwh * val price\<bar> \<le> 1 / 200
     \<and> val (sm_seller_credit_inr s) = val (sm_gross_inr s) \<and> val (sm_buyer_debit_inr s) = val (sm_gross_inr s)
     \<and> val (sm_platform_fee_inr s) = 0 \<and> val (sm_balancing_charge_inr s) = 0"

definition receipted_as ::
  "'a workspace_db_scheme \<Rightarrow> trade_row \<Rightarrow> rat \<Rightarrow> decimal \<Rightarrow> settlement_row \<Rightarrow> receipt_row \<Rightarrow> bool" where
  "receipted_as db t kwh price s rp \<longleftrightarrow>
     rp_trade_id rp = td_id t \<and> rp_status rp = ''pending'' \<and> rp_payload_hash rp = sha256_hex (dumps (rp_payload rp))
     \<and> (\<exists>i run d g. td_grid_validation_id t = Some i \<and> fetch vn_id (t_validation_runs db) i = Some run
          \<and> val d = kwh \<and> val g = val (sm_gross_inr s)
          \<and> rp_payload rp = JObj
             [(''schema'', JStr ''urjasetu-receipt-1''), (''trade_id'', JStr (uuid_text (td_id t))),
              (''settlement_id'', JStr (uuid_text (sm_id s))),
              (''agreed_kwh'', JStr (decimal_text (td_quantity_kwh t))), (''delivered_kwh'', JStr (decimal_text d)),
              (''price_inr_per_kwh'', JStr (decimal_text price)), (''gross_inr'', JStr (decimal_text g)),
              (''delivery_start'', JStr (isoformat (td_delivery_start t))), (''grid_input_hash'', JStr (vn_input_hash run)),
              (''source'', JStr ''synthetic''), (''model_version'', JStr PROFILE_VERSION)])"

definition delivery_booked ::
  "simulation_row \<Rightarrow> 'a workspace_db_scheme \<Rightarrow> trade_row \<Rightarrow> order_row \<Rightarrow> order_row \<Rightarrow> reading_row \<Rightarrow> reading_row \<Rightarrow> rat
   \<Rightarrow> decimal \<Rightarrow> 'a workspace_db_scheme \<Rightarrow> bool" where
  "delivery_booked sim db t buy sell sr br kwh price db' \<longleftrightarrow>
     (\<exists>a rc s jb js rp ev. t_allocations db' = t_allocations db @ [a] \<and> t_reconciliations db' = t_reconciliations db @ [rc]
        \<and> t_settlements db' = t_settlements db @ [s] \<and> t_journal db' = t_journal db @ [jb, js]
        \<and> t_receipts db' = t_receipts db @ [rp] \<and> t_audit db' = t_audit db @ [ev]
        \<and> al_trade_id a = td_id t \<and> al_seller_reading_id a = rd_id sr \<and> al_buyer_reading_id a = rd_id br
        \<and> val (al_energy_kwh a) = kwh
        \<and> reconciled_as t kwh rc \<and> settled_as sim t buy sell kwh price s \<and> receipted_as db t kwh price s rp
        \<and> jn_settlement_id jb = sm_id s \<and> jn_settlement_id js = sm_id s
        \<and> jn_account jb = uuid_text (od_user_id buy) \<and> jn_account js = uuid_text (od_user_id sell)
        \<and> val (jn_amount_inr js) = val (sm_gross_inr s) \<and> val (jn_amount_inr jb) + val (jn_amount_inr js) = 0
        \<and> ar_event_type ev = TRADE_SETTLED \<and> ar_entity_id ev = td_id t
        \<and> map_of (ar_payload_json ev) ''receipt_hash'' = Some (JStr (rp_payload_hash rp)))
     \<and> t_trades db' = modify td_id (td_id t) (\<lambda>q. q\<lparr>td_status := Trade_SETTLED\<rparr>) (t_trades db)
     \<and> t_readings db' = t_readings db \<and> t_orders db' = t_orders db"

lemma stored_delivery_reconciliation:
  assumes "stored_reconciliation (delivery_reconciliation t delivered f) = Inr rc"
    and "stored_energy delivered" "stored_energy (td_quantity_kwh t)"
  shows "reconciled_as t (val delivered) rc"
proof -
  let ?q = "td_quantity_kwh t"
  have b: "grid 4 (val delivered)" "grid 4 (val ?q)" "\<bar>val delivered\<bar> < 10 ^ 10" "\<bar>val ?q\<bar> < 10 ^ 10"
    using assms(2,3) by (auto simp: stored_energy_def)
  note v = energy_minus [OF b]
  have "\<bar>val delivered - val ?q\<bar> * 10 ^ 4 \<le> 10 ^ 10 * 10 ^ 4"
    using assms(2,3) by (intro mult_right_mono) (auto simp: stored_energy_def abs_le_iff)
  then have r: "rep28 (val delivered - val ?q)" using b by (intro rep28_grid [of 4] grid_minus) simp_all
  then have r': "rep28 (val ?q - val delivered)" using rep28_uminus [of "val delivered - val ?q"] by simp
  with r have "rep28 \<bar>val delivered - val ?q\<bar>" by (simp add: abs_if)
  with r' have m: "val (- (delivered - ?q)) = val ?q - val delivered" "val \<bar>delivered - ?q\<bar> = \<bar>val delivered - val ?q\<bar>"
    using uminus_rounds [of "delivered - ?q"] abs_rounds [of "delivered - ?q"] by (simp_all add: v rounds_to_exact)
  have "grid 6 (val ?q * (5 / 100))"
    using grid_times [OF b(2), of 2 "5 / 100"] by (simp add: grid_def)
  moreover have "val ?q * (5 / 100) * 10 ^ 6 < 10 ^ 28" using b(4) by simp
  ultimately have "rep28 (val ?q * (5 / 100))" using assms(3) by (intro rep28_grid [of 6]) (simp_all add: stored_energy_def)
  then have p: "val (?q * Dec 5 (-2)) = val ?q * 5 / 100"
    using rounds_to_exact [OF times_rounds [of ?q "Dec 5 (-2)"]] by (simp add: val_def [of "Dec _ _"] power_int_minus)
  have "grid 4 (val ?q - val delivered)" using b by (simp add: grid_minus)
  with b m p v assms(1) show ?thesis
    by (auto simp: reconciled_as_def stored_reconciliation_def delivery_reconciliation_def Let_def bindE_eq_Inr nullable_def
        numeric_val round_half_up_id grid_minus val_simps split: option.splits)
qed

lemma numeric_zero: "numeric p s 0 = Inr z \<Longrightarrow> coeff z = 0"
  by (drule numeric_val) simp

lemma stored_delivery_settlement:
  assumes "stored_settlement (delivery_settlement t buy sell delivered gross sim f) = Inr s"
    and "stored_energy delivered" "grid 2 (val gross)"
  shows "val (sm_settled_kwh s) = val delivered \<and> val (sm_gross_inr s) = val gross
    \<and> val (sm_seller_credit_inr s) = val gross \<and> val (sm_buyer_debit_inr s) = val gross
    \<and> val (sm_platform_fee_inr s) = 0 \<and> val (sm_balancing_charge_inr s) = 0
    \<and> sm_id s = df_settlement_id f \<and> sm_trade_id s = td_id t \<and> sm_status s = SETTLED
    \<and> sm_buyer_user_id s = od_user_id buy \<and> sm_seller_user_id s = od_user_id sell \<and> sm_settled_at s = sim_clock sim"
  using assms by (auto simp: stored_settlement_def delivery_settlement_def bindE_eq_Inr numeric_val stored_energy_def
      round_half_up_id dest: numeric_zero)

text \<open>The two measurements of a delivery, and the smallest of the three energies.\<close>

lemma unallocated_None:
  "unallocated db o1 t column side = None \<longleftrightarrow> Option.bind (slot_reading db o1 t) column = None"
  by (auto simp: unallocated_def split: option.splits)

definition left_of_reading :: "'a workspace_db_scheme \<Rightarrow> (reading_row \<Rightarrow> decimal option) \<Rightarrow> (allocation_row \<Rightarrow> uuid) \<Rightarrow> reading_row \<Rightarrow> rat" where
  "left_of_reading db column side r = channel_kwh (column r) - allocated_kwh (t_allocations db) side (rd_id r)"

lemma deliverable:
  assumes "deliveries_ok db" "stored_energy (td_quantity_kwh t)"
    and "unallocated db sell t rd_grid_export_kwh al_seller_reading_id = Some (sr, exported)"
    and "unallocated db buy t rd_grid_import_kwh al_buyer_reading_id = Some (br, imported)"
    and "quantize_down 4 (pymin (pymin (td_quantity_kwh t) exported) imported) = Inr delivered"
  shows "slot_reading db sell t = Some sr \<and> slot_reading db buy t = Some br \<and> stored_energy delivered
    \<and> val delivered = min (val (td_quantity_kwh t))
        (min (left_of_reading db rd_grid_export_kwh al_seller_reading_id sr)
             (left_of_reading db rd_grid_import_kwh al_buyer_reading_id br))"
proof -
  have ok: "\<forall>a \<in> set (t_allocations db). stored_energy (al_energy_kwh a)"
    "\<forall>r \<in> set (t_readings db). measured_energy (rd_grid_export_kwh r)
       \<and> allocated_kwh (t_allocations db) al_seller_reading_id (rd_id r) \<le> channel_kwh (rd_grid_export_kwh r)"
    "\<forall>r \<in> set (t_readings db). measured_energy (rd_grid_import_kwh r)
       \<and> allocated_kwh (t_allocations db) al_buyer_reading_id (rd_id r) \<le> channel_kwh (rd_grid_import_kwh r)"
    using assms(1) by (auto simp: deliveries_ok_def allocations_fit_def)
  note s = unallocated_left [OF assms(3) ok(1,2)] and b = unallocated_left [OF assms(4) ok(1,3)]
  let ?m = "pymin (pymin (td_quantity_kwh t) exported) imported"
  have v: "val ?m = min (val (td_quantity_kwh t)) (min (val exported) (val imported))" by (simp add: val_pymin min.assoc)
  have m: "stored_energy ?m" using s b assms(2) unfolding stored_energy_def v by (auto intro!: grid_min)
  from quantize_down_energy [OF assms(5)] m have "val delivered = val ?m" by (simp add: stored_energy_def)
  with m v s b show ?thesis by (simp add: stored_energy_def left_of_reading_def)
qed

lemma delivery_is_booked:
  assumes "file_delivery sim f t buy sell sr br delivered db = Inr db'" "stored_energy delivered"
    and "stored_energy (td_quantity_kwh t)"
    and "\<forall>b \<in> set (t_price_components db). stored_price (bd_final_price b)"
  shows "\<exists>price \<in> set (t_price_components db). bd_trade_id price = td_id t
    \<and> delivery_booked sim db t buy sell sr br (val delivered) (bd_final_price price) db'"
  using assms(1)
proof (rule file_delivery_effect)
  fix e price run gross s u v ev rc rp
  assume e: "numeric 14 4 delivered = Inr e"
    and p: "List.find (\<lambda>b. bd_trade_id b = td_id t) (t_price_components db) = Some price"
    and run: "Option.bind (td_grid_validation_id t) (fetch vn_id (t_validation_runs db)) = Some run"
    and g: "quantize_half_even 2 (delivered * bd_final_price price) = Inr gross"
    and s: "stored_settlement (delivery_settlement t buy sell delivered gross sim f) = Inr s"
    and j: "numeric 16 2 (- gross) = Inr u" "numeric 16 2 gross = Inr v"
    and rc: "stored_reconciliation (delivery_reconciliation t delivered f) = Inr rc"
    and rp: "rp = (let payload = receipt_payload t delivered (bd_final_price price) gross run f
           in \<lparr>rp_id = df_receipt_id f, rp_trade_id = td_id t, rp_payload = payload,
               rp_payload_hash = sha256_hex (dumps payload), rp_status = ''pending''\<rparr>)"
    and ev: "ar_event_type ev = TRADE_SETTLED" "ar_entity_id ev = td_id t"
      "map_of (ar_payload_json ev) ''receipt_hash'' = Some (JStr (rp_payload_hash rp))"
    and db': "db' = db\<lparr>t_allocations := t_allocations db @ [\<lparr>al_id = df_allocation_id f, al_trade_id = td_id t,
           al_seller_reading_id = rd_id sr, al_buyer_reading_id = rd_id br, al_energy_kwh = e\<rparr>],
         t_reconciliations := t_reconciliations db @ [rc], t_settlements := t_settlements db @ [s],
         t_journal := t_journal db @
           [\<lparr>jn_id = df_buyer_journal_id f, jn_settlement_id = df_settlement_id f,
             jn_account = uuid_text (od_user_id buy), jn_amount_inr = u\<rparr>,
            \<lparr>jn_id = df_seller_journal_id f, jn_settlement_id = df_settlement_id f,
             jn_account = uuid_text (od_user_id sell), jn_amount_inr = v\<rparr>],
         t_trades := modify td_id (td_id t) (\<lambda>q. q\<lparr>td_status := Trade_SETTLED\<rparr>) (t_trades db),
         t_receipts := t_receipts db @ [rp], t_audit := t_audit db @ [ev]\<rparr>"
  from p have price: "price \<in> set (t_price_components db)" "bd_trade_id price = td_id t" by (auto simp: find_Some_iff)
  note m = gross_of_product [OF g assms(2)] and j = journal_amounts [OF j]
  have "val e = val delivered" using numeric_val [OF e] assms(2) by (simp add: stored_energy_def round_half_up_id)
  moreover have "settled_as sim t buy sell (val delivered) (bd_final_price price) s" "val (sm_gross_inr s) = val gross"
    "sm_id s = df_settlement_id f"
    using stored_delivery_settlement [OF s assms(2)] price m assms(4) by (simp_all add: settled_as_def)
  moreover from this have "receipted_as db t (val delivered) (bd_final_price price) s rp"
    using run unfolding receipted_as_def rp Let_def receipt_payload_def
    by (cases "td_grid_validation_id t") auto
  ultimately have "delivery_booked sim db t buy sell sr br (val delivered) (bd_final_price price) db'"
    using price m j ev stored_delivery_reconciliation [OF rc assms(2,3)] assms(4)
    unfolding delivery_booked_def db' by simp
  with price show ?thesis by blast
qed


end
