(* ===== verification/Workspace_Demo.thy ===== *)
theory Workspace_Demo
  imports Workspace_Settled Account_Demo
begin

text \<open>
  A marketplace with one committed trade of 4 kWh whose slot is over: the seller exported 3.5 kWh, the
  buyer imported 3 kWh. Its delivery returns, and the properties apply to it.
\<close>

definition demo_simulation :: simulation_row where
  "demo_simulation = \<lparr>sim_clock = 900000000, sim_running = True, sim_scenario = ''normal'', sim_revision = 0, sim_live_mode = False\<rparr>"

definition demo_committed :: trade_row where
  "demo_committed = demo_trade\<lparr>td_grid_validation_id := Some 80, td_status := COMMITTED, td_committed_at := Some 1\<rparr>"

definition demo_buy_order :: order_row where
  "demo_buy_order = (demo_row 21 BUY 1 (Dec 50000 (-4)) (Dec 65000 (-4)))\<lparr>od_status := PARTIALLY_FILLED, od_matched_kwh := Dec 40000 (-4)\<rparr>"

definition demo_sell_order :: order_row where
  "demo_sell_order = (demo_row 22 SELL 2 (Dec 40000 (-4)) (Dec 52500 (-4)))
     \<lparr>od_site_id := 8, od_status := FILLED, od_matched_kwh := Dec 40000 (-4)\<rparr>"

definition demo_meter :: "uuid \<Rightarrow> uuid \<Rightarrow> meter_row" where
  "demo_meter i site = \<lparr>me_id = i, me_site_id = site, me_meter_type = SMART_METER, me_vendor = None, me_external_meter_ref = None,
     me_verification_level = Level_NONE, me_active = True\<rparr>"

definition demo_slot_reading :: "uuid \<Rightarrow> uuid \<Rightarrow> decimal \<Rightarrow> decimal \<Rightarrow> reading_row" where
  "demo_slot_reading i meter inn out = profile_reading i meter 0
     \<lparr>iv_generation_kw = Dec 0 (-4), iv_load_kw = Dec 0 (-4), iv_grid_import_kw = Dec 0 (-4), iv_grid_export_kw = Dec 0 (-4),
      iv_generation_kwh = Dec 0 (-4), iv_load_kwh = Dec 0 (-4), iv_grid_import_kwh = inn, iv_grid_export_kwh = out\<rparr>"

definition demo_site_point :: "uuid \<Rightarrow> uuid \<Rightarrow> decimal \<Rightarrow> point_row" where
  "demo_site_point i run kwh = (demo_forecast_point i run kwh)\<lparr>fp_site_id := 8, fp_predicted_kwh := Some kwh\<rparr>"

definition demo_marketplace :: workspace_db where
  "demo_marketplace = settlement_db.extend
     ((demo_accounts [demo_breakdown])\<lparr>t_trades := [demo_committed], t_orders := [demo_buy_order, demo_sell_order],
        t_meters := [demo_meter 6 5, demo_meter 7 8], t_forecast_runs := [demo_run 30 SOLAR, demo_run 31 LOAD],
        t_forecast_points := [demo_site_point 32 30 (Dec 90000 (-4)), demo_site_point 33 31 (Dec 10000 (-4))],
        t_readings := [demo_slot_reading 51 6 (Dec 30000 (-4)) (Dec 0 (-4)), demo_slot_reading 52 7 (Dec 0 (-4)) (Dec 35000 (-4))]\<rparr>)
     (workspace_db.fields (Some demo_simulation) [] [] [] [])"

lemma demo_marketplace_tables:
  "t_simulation demo_marketplace = Some demo_simulation" "t_trades demo_marketplace = [demo_committed]"
  "t_orders demo_marketplace = [demo_buy_order, demo_sell_order]" "t_meters demo_marketplace = [demo_meter 6 5, demo_meter 7 8]"
  "t_readings demo_marketplace = [demo_slot_reading 51 6 (Dec 30000 (-4)) (Dec 0 (-4)), demo_slot_reading 52 7 (Dec 0 (-4)) (Dec 35000 (-4))]"
  "t_allocations demo_marketplace = []" "t_journal demo_marketplace = []" "t_receipts demo_marketplace = []"
  "t_actions demo_marketplace = []" "t_settlements demo_marketplace = []" "t_reconciliations demo_marketplace = []"
  "t_price_components demo_marketplace = [demo_breakdown]" "t_validation_runs demo_marketplace = [demo_run_row]"
  "t_audit demo_marketplace = []" "map us_id (t_users demo_marketplace) = [1, 2]"
  "t_sites demo_marketplace = t_sites demo_closed" "t_forecast_runs demo_marketplace = [demo_run 30 SOLAR, demo_run 31 LOAD]"
  "t_forecast_points demo_marketplace = [demo_site_point 32 30 (Dec 90000 (-4)), demo_site_point 33 31 (Dec 10000 (-4))]"
  using demo_accounts_tables [of "[demo_breakdown]"]
  by (simp_all add: demo_marketplace_def settlement_db.defs workspace_db.defs)

definition demo_tools :: grid_tools where
  "demo_tools = \<lparr>gt_solver = demo_solver, gt_version = ''1'', gt_detail = (\<lambda>_. []), gt_hash = request_fingerprint\<rparr>"

lemma demo_deliveries_ok: "deliveries_ok demo_marketplace"
  by (simp add: deliveries_ok_def allocations_fit_def demo_marketplace_tables demo_slot_reading_def profile_reading_def
      measured_energy_def allocated_kwh_def channel_kwh_def val_Dec4 gridI)

definition demo_delivery_draw :: delivery_fresh where
  "demo_delivery_draw = \<lparr>df_allocation_id = 101, df_reconciliation_id = 102, df_settlement_id = 103, df_buyer_journal_id = 104,
     df_seller_journal_id = 105, df_receipt_id = 106, df_event_id = 107, df_clock = 8, df_now = 9\<rparr>"

lemma demo_measured:
  "unallocated demo_marketplace demo_sell_order demo_committed rd_grid_export_kwh al_seller_reading_id
     = Some (demo_slot_reading 52 7 (Dec 0 (-4)) (Dec 35000 (-4)), Dec 35000 (-4))"
  "unallocated demo_marketplace demo_buy_order demo_committed rd_grid_import_kwh al_buyer_reading_id
     = Some (demo_slot_reading 51 6 (Dec 30000 (-4)) (Dec 0 (-4)), Dec 30000 (-4))"
proof -
  have d: "pymax 0 (Dec 35000 (-4) - dsum []) = Dec 35000 (-4)" "pymax 0 (Dec 30000 (-4) - dsum []) = Dec 30000 (-4)"
    by code_simp+
  show "unallocated demo_marketplace demo_sell_order demo_committed rd_grid_export_kwh al_seller_reading_id
     = Some (demo_slot_reading 52 7 (Dec 0 (-4)) (Dec 35000 (-4)), Dec 35000 (-4))"
    "unallocated demo_marketplace demo_buy_order demo_committed rd_grid_import_kwh al_buyer_reading_id
     = Some (demo_slot_reading 51 6 (Dec 30000 (-4)) (Dec 0 (-4)), Dec 30000 (-4))"
    by (simp_all add: unallocated_def slot_reading_def allocated_def demo_marketplace_tables demo_meter_def demo_sell_order_def
        demo_buy_order_def demo_row_def demo_slot_reading_def profile_reading_def INTERVAL_def demo_committed_def demo_trade_def d)
qed

lemma demo_amounts:
  "quantize_down 4 (pymin (pymin (Dec 40000 (-4)) (Dec 35000 (-4))) (Dec 30000 (-4))) = Inr (Dec 30000 (-4))"
  "quantize_half_even 2 (Dec 30000 (-4) * Dec 58750 (-4)) = Inr (Dec 1762 (-2))"
  "numeric 14 4 (Dec 30000 (-4)) = Inr (Dec 30000 (-4))" "numeric 14 4 (Dec 40000 (-4)) = Inr (Dec 40000 (-4))"
  "numeric 14 4 (Dec 30000 (-4) - Dec 40000 (-4)) = Inr (Dec (-10000) (-4))"
  "numeric 14 4 (- (Dec 30000 (-4) - Dec 40000 (-4))) = Inr (Dec 10000 (-4))"
  "numeric 16 2 (Dec 1762 (-2)) = Inr (Dec 1762 (-2))" "numeric 16 2 (- Dec 1762 (-2)) = Inr (Dec (-1762) (-2))"
  "numeric 16 2 0 = Inr (Dec 0 (-2))"
  by code_simp+

lemma demo_texts: "length (uuid_text (Suc 0)) \<le> 100" "length (uuid_text 2) \<le> 100" "uuid_text (Suc 0) \<noteq> uuid_text 2"
  "uuid_text 2 \<noteq> uuid_text (Suc 0)"
  by code_simp+

lemma demo_signs:
  "(0 :: decimal) \<le> Dec 30000 (-4)" "(0 :: decimal) \<le> Dec 10000 (-4)" "(0 :: decimal) < Dec 40000 (-4)"
  "(0 :: decimal) \<le> Dec 1762 (-2)" "(0 :: decimal) \<le> Dec 0 (-2)" "val (Dec 0 (-2)) = 0"
  "not_negative_check (Some (Dec 30000 (-4)))"
  by (simp_all add: val_simps not_negative_check_def val_zero val_def [of "Dec _ _"] power_int_minus)

lemmas demo_rows = demo_committed_def demo_trade_def demo_buy_order_def demo_sell_order_def demo_row_def
  demo_delivery_draw_def demo_slot_reading_def profile_reading_def demo_breakdown_def demo_run_row_def demo_simulation_def

lemma demo_users: "known us_id (t_users demo_marketplace) 1" "known us_id (t_users demo_marketplace) 2"
  using demo_marketplace_tables(15) by (auto simp: known_def)

lemma demo_delivered:
  "\<exists>db'. deliver_trade demo_simulation demo_delivery_draw demo_committed demo_marketplace = Inr db' \<and> length (t_allocations db') = 1
     \<and> t_forecast_runs db' = t_forecast_runs demo_marketplace \<and> t_forecast_points db' = t_forecast_points demo_marketplace"
proof -
  let ?sr = "demo_slot_reading 52 7 (Dec 0 (-4)) (Dec 35000 (-4))" and ?br = "demo_slot_reading 51 6 (Dec 30000 (-4)) (Dec 0 (-4))"
  let ?f = demo_delivery_draw and ?t = demo_committed and ?kwh = "Dec 30000 (-4)" and ?inr = "Dec 1762 (-2)"
  have o1: "fetch od_id (t_orders demo_marketplace) (td_buy_order_id ?t) = Some demo_buy_order"
    "fetch od_id (t_orders demo_marketplace) (td_sell_order_id ?t) = Some demo_sell_order"
    by (simp_all add: demo_marketplace_tables fetch_def demo_rows)
  have q: "td_quantity_kwh ?t = Dec 40000 (-4)" "td_id ?t = 70" by (simp_all add: demo_rows)
  have d: "deliver_trade demo_simulation ?f ?t demo_marketplace
      = file_delivery demo_simulation ?f ?t demo_buy_order demo_sell_order ?sr ?br ?kwh demo_marketplace"
    by (simp add: deliver_trade_def o1 demo_measured q demo_amounts)
  let ?a = "\<lparr>al_id = df_allocation_id ?f, al_trade_id = td_id ?t, al_seller_reading_id = rd_id ?sr, al_buyer_reading_id = rd_id ?br,
      al_energy_kwh = ?kwh\<rparr>"
  let ?db1 = "demo_marketplace\<lparr>t_allocations := [?a]\<rparr>"
  have i1: "insert_allocation ?a demo_marketplace = Inr ?db1"
    by (simp add: insert_allocation_def demo_amounts demo_marketplace_tables known_def demo_rows checks_pass del: all_checks_eq)
  obtain rc where i2: "insert_reconciliation (delivery_reconciliation ?t ?kwh ?f) ?db1 = Inr (?db1\<lparr>t_reconciliations := [rc]\<rparr>)"
    by (auto simp: insert_reconciliation_def stored_reconciliation_def delivery_reconciliation_def Let_def q demo_amounts nullable_def
        reconciliation_checks_def known_def demo_marketplace_tables demo_signs checks_pass simp del: all_checks_eq)
  let ?db2 = "?db1\<lparr>t_reconciliations := [rc]\<rparr>"
  have p: "List.find (\<lambda>b. bd_trade_id b = td_id ?t) (t_price_components ?db2) = Some demo_breakdown"
    "Option.bind (td_grid_validation_id ?t) (fetch vn_id (t_validation_runs ?db2)) = Some demo_run_row"
    "bd_final_price demo_breakdown = Dec 58750 (-4)"
    by (simp_all add: demo_marketplace_tables demo_rows fetch_def)
  let ?s = "(delivery_settlement ?t demo_buy_order demo_sell_order ?kwh ?inr demo_simulation ?f)
      \<lparr>sm_platform_fee_inr := Dec 0 (-2), sm_balancing_charge_inr := Dec 0 (-2)\<rparr>"
  let ?db3 = "?db2\<lparr>t_settlements := [?s]\<rparr>"
  have i3: "insert_settlement (delivery_settlement ?t demo_buy_order demo_sell_order ?kwh ?inr demo_simulation ?f) ?db2 = Inr ?db3"
    using demo_users
    by (simp add: insert_settlement_def stored_settlement_def delivery_settlement_def demo_amounts settlement_checks_def demo_signs
        demo_marketplace_tables known_def demo_rows checks_pass del: all_checks_eq)
  obtain js where i4: "post_journal (df_settlement_id ?f) [(df_buyer_journal_id ?f, od_user_id demo_buy_order, - ?inr),
      (df_seller_journal_id ?f, od_user_id demo_sell_order, ?inr)] ?db3 = Inr (?db3\<lparr>t_journal := js\<rparr>)"
    by (simp add: post_journal_def insert_journal_def varchar_def demo_texts demo_amounts demo_marketplace_tables known_def demo_rows
        delivery_settlement_def checks_pass del: all_checks_eq)
  let ?db5 = "?db3\<lparr>t_journal := js, t_trades := modify td_id (td_id ?t) (\<lambda>q. q\<lparr>td_status := Trade_SETTLED\<rparr>) (t_trades ?db3)\<rparr>"
  let ?p = "receipt_payload ?t ?kwh (Dec 58750 (-4)) ?inr demo_run_row ?f"
  let ?r = "\<lparr>rp_id = df_receipt_id ?f, rp_trade_id = td_id ?t, rp_payload = ?p, rp_payload_hash = sha256_hex (dumps ?p),
      rp_status = ''pending''\<rparr>"
  have i5: "insert_receipt ?r ?db5 = Inr (?db5\<lparr>t_receipts := [?r]\<rparr>)"
    by (simp add: insert_receipt_def varchar_def known_def demo_marketplace_tables modify_def demo_rows checks_pass del: all_checks_eq)
  have "\<exists>row. add_audit demo_simulation TRADE_SETTLED Entity_TRADE (td_id ?t)
      [(''delivered_kwh'', PStr (decimal_text ?kwh)), (''gross_inr'', PStr (decimal_text ?inr)),
       (''receipt_hash'', PStr (sha256_hex (dumps ?p)))] None (df_event_id ?f) (df_clock ?f) (?db5\<lparr>t_receipts := [?r]\<rparr>)
      = Inr (?db5\<lparr>t_receipts := [?r], t_audit := [row]\<rparr>)"
    unfolding add_audit_def
    by (rule first_event_recorded) (simp_all add: demo_marketplace_tables demo_rows datetime_ok_def py_dict_def)
  then obtain row where "add_audit demo_simulation TRADE_SETTLED Entity_TRADE (td_id ?t)
      [(''delivered_kwh'', PStr (decimal_text ?kwh)), (''gross_inr'', PStr (decimal_text ?inr)),
       (''receipt_hash'', PStr (sha256_hex (dumps ?p)))] None (df_event_id ?f) (df_clock ?f) (?db5\<lparr>t_receipts := [?r]\<rparr>)
      = Inr (?db5\<lparr>t_receipts := [?r], t_audit := [row]\<rparr>)" ..
  with i1 i2 p i3 i4 i5 d demo_amounts(2) show ?thesis
    by (simp add: file_delivery_def Let_def q)
qed

lemma demo_delivery_stored: "stored_energy (td_quantity_kwh demo_committed)"
  "\<forall>b \<in> set (t_price_components demo_marketplace). stored_price (bd_final_price b)"
  by (simp_all add: demo_rows demo_marketplace_tables)


text \<open>The recovery of the marketplace delivers the trade: its readings are on file already.\<close>

lemma demo_recovered:
  "\<exists>db'. workspace_step tools profile cfg demo_marketplace db' \<and> length (t_allocations db') = 1
     \<and> t_forecast_runs db' = t_forecast_runs demo_marketplace \<and> t_forecast_points db' = t_forecast_points demo_marketplace"
proof -
  have due: "filter (\<lambda>t. td_status t = COMMITTED \<and> td_delivery_end t \<le> sim_clock demo_simulation) (t_trades demo_marketplace)
      = [demo_committed]" by (simp add: demo_marketplace_tables demo_rows)
  have "replay_order profile demo_committed (21, i) demo_marketplace = Inr demo_marketplace"
    "replay_order profile demo_committed (22, i) demo_marketplace = Inr demo_marketplace" for i
    by (simp_all add: replay_order_def demo_marketplace_tables fetch_def demo_rows add_reading_def site_meter_def demo_meter_def
        has_reading_def demo_closed_def demo_market_defs)
  moreover obtain db' where delivered: "deliver_trade demo_simulation demo_delivery_draw demo_committed demo_marketplace = Inr db'"
      and kept: "length (t_allocations db') = 1" "t_forecast_runs db' = t_forecast_runs demo_marketplace"
      "t_forecast_points db' = t_forecast_points demo_marketplace" using demo_delivered by blast
  moreover have "td_buy_order_id demo_committed = 21" "td_sell_order_id demo_committed = 22" by (simp_all add: demo_rows)
  ultimately have "recover_missing profile (\<lambda>_ _. 0) (\<lambda>_. demo_delivery_draw) demo_marketplace = Inr (bump db')"
    using due by (simp add: recover_missing_def simulation_state_def demo_marketplace_tables(1) reconcile_due_def due_trades_def)
  then have "workspace_step tools profile cfg demo_marketplace (bump db')" by (rule workspace_step.Recovered)
  moreover have "length (t_allocations (bump db')) = 1 \<and> t_forecast_runs (bump db') = t_forecast_runs demo_marketplace
      \<and> t_forecast_points (bump db') = t_forecast_points demo_marketplace" using kept by (simp add: bump_def)
  ultimately show ?thesis by blast
qed

end
