(* ===== verification/Workspace_Purchases.thy ===== *)
theory Workspace_Purchases
  imports Workspace_Market Double_Laws Csv_Round_Trip
begin

text \<open>
  The text a purchase is identified by. \<open>accept_offer\<close> hashes the offer, the normalized quantity and
  price and the own order of a request; with at most 28 digits and identifiers of 128 bits, two
  requests have the same text exactly when these four agree, numbers by value.
\<close>

text \<open>A decimal without trailing zeros is determined by its value.\<close>

lemma drop_zeros_last:
  assumes "coeff d \<noteq> 0" "\<bar>coeff d\<bar> < 10 ^ k"
  shows "coeff (drop_zeros k d) mod 10 \<noteq> 0"
  using assms
proof (induction k d rule: drop_zeros.induct)
  case (2 k d)
  show ?case
  proof (cases "coeff d mod 10 = 0")
    case True
    then obtain c where c: "coeff d = 10 * c" by auto
    with 2(2,3) have "c \<noteq> 0" "\<bar>c\<bar> < 10 ^ k" by (auto simp: abs_mult)
    with 2(1) [OF True] c True show ?thesis by simp
  qed simp
qed simp

lemma last_digit_unique:
  assumes "val x = val y" "coeff x mod 10 \<noteq> 0" "coeff y mod 10 \<noteq> 0"
  shows "x = y"
proof -
  have le: "dexp b \<le> dexp a" if "val a = val b" "coeff a mod 10 \<noteq> 0" for a b
  proof (rule ccontr)
    assume "\<not> dexp b \<le> dexp a"
    then obtain n where n: "dexp b = dexp a + int (Suc n)" by (metis not_le zless_iff_Suc_zadd)
    have "val b = of_int (coeff b * 10 ^ Suc n) * 10 powi dexp a"
      unfolding val_def n by (subst power_int_add) (simp_all add: power_int_def nat_add_distrib)
    with that(1) have "(of_int (coeff a) :: rat) * 10 powi dexp a = of_int (coeff b * 10 ^ Suc n) * 10 powi dexp a"
      unfolding val_def by (simp only:)
    then have "(of_int (coeff a) :: rat) = of_int (coeff b * 10 ^ Suc n)" by (rule mult_right_cancel [THEN iffD1, rotated]) simp
    then have "coeff a = coeff b * 10 ^ Suc n" by (simp only: of_int_eq_iff)
    then show False using that(2) by simp
  qed
  from le [OF assms(1,2)] le [OF assms(1) [symmetric] assms(3)] have e: "dexp x = dexp y" by simp
  with assms(1) have "coeff x = coeff y" by (simp add: val_def)
  with e show ?thesis by (cases x; cases y) simp
qed

lemma normalize_val: "rep28 (val x) \<Longrightarrow> val (normalize x) = val x"
  using rounds_to_exact [OF fix28_rounds [of x]]
  by (auto simp: normalize_def Let_def drop_zeros_val val_def [of "Dec _ _"]) (simp add: val_def)

lemma normalize_last_digit: "normalize x = Dec 0 0 \<or> coeff (normalize x) mod 10 \<noteq> 0"
proof (cases "coeff (fix28 x) = 0")
  case False
  then have "\<bar>coeff (fix28 x)\<bar> < 10 ^ dlen \<bar>coeff (fix28 x)\<bar>" using dlen_le_iff [of "dlen \<bar>coeff (fix28 x)\<bar>" "\<bar>coeff (fix28 x)\<bar>"] by simp
  from drop_zeros_last [OF False this] False show ?thesis by (simp add: normalize_def Let_def)
qed (simp add: normalize_def Let_def)

lemma normalize_eq:
  assumes "rep28 (val x)" "rep28 (val y)"
  shows "normalize x = normalize y \<longleftrightarrow> val x = val y"
proof
  assume v: "val x = val y"
  note n = normalize_val [OF assms(1)] normalize_val [OF assms(2)]
  show "normalize x = normalize y"
  proof (cases "val x = 0")
    case True
    with v n have "coeff (normalize x) = 0" "coeff (normalize y) = 0" by (simp_all add: val_def)
    with normalize_last_digit [of x] normalize_last_digit [of y] have "normalize x = Dec 0 0" "normalize y = Dec 0 0"
      by (metis mod_0)+
    then show ?thesis by simp
  next
    case False
    have "val (Dec 0 0) = 0" by (simp add: val_def [of "Dec _ _"])
    with False v n have "normalize x \<noteq> Dec 0 0" "normalize y \<noteq> Dec 0 0" by metis+
    with normalize_last_digit [of x] normalize_last_digit [of y] n v show ?thesis
      by (intro last_digit_unique) metis+
  qed
qed (metis assms normalize_val)

section \<open>The body of a purchase\<close>

definition purchase_text :: "offer_request \<Rightarrow> string" where
  "purchase_text q = uuid_text (or_offer_id q) @ ''|'' @ decimal_text (normalize (or_quantity q)) @ ''|''
     @ decimal_text (normalize (or_price q)) @ ''|''
     @ (case or_own_order_id q of None \<Rightarrow> ''None'' | Some i \<Rightarrow> uuid_text i)"

definition purchase_ok :: "offer_request \<Rightarrow> bool" where
  "purchase_ok q \<longleftrightarrow> uuid_ok (or_offer_id q) \<and> pred_option uuid_ok (or_own_order_id q)
     \<and> rep28 (val (or_quantity q)) \<and> rep28 (val (or_price q))"

definition same_purchase :: "offer_request \<Rightarrow> offer_request \<Rightarrow> bool" where
  "same_purchase q q' \<longleftrightarrow> or_offer_id q = or_offer_id q' \<and> val (or_quantity q) = val (or_quantity q')
     \<and> val (or_price q) = val (or_price q') \<and> or_own_order_id q = or_own_order_id q'"

lemma split_at_bar:
  assumes "list_all plain_char a" "list_all plain_char a'"
  shows "a @ CHR ''|'' # b = a' @ CHR ''|'' # b' \<longleftrightarrow> a = a' \<and> b = b'"
proof -
  have "\<not> plain_char (CHR ''|'')" by (simp add: plain_char_def is_digit_def char_code_def)
  then have "takeWhile plain_char (x @ CHR ''|'' # y) = x" if "list_all plain_char x" for x y
    using that by (induction x) auto
  from this [OF assms(1), of b] this [OF assms(2), of b'] show ?thesis by auto
qed

lemma plain_texts: "list_all plain_char (uuid_text u)" "list_all plain_char (decimal_text d)"
  by (simp_all add: list_all_iff plain_uuid_text plain_decimal_text)

lemma decimal_text_inject: "decimal_text x = decimal_text y \<longleftrightarrow> x = y"
  by (metis numeral_of_decimal_text option.inject)

lemma own_text_inject:
  assumes "pred_option uuid_ok x" "pred_option uuid_ok y"
  shows "(case x of None \<Rightarrow> ''None'' | Some i \<Rightarrow> uuid_text i) = (case y of None \<Rightarrow> ''None'' | Some i \<Rightarrow> uuid_text i) \<longleftrightarrow> x = y"
proof -
  have "\<not> plain_char (CHR ''N'')" by (simp add: plain_char_def is_digit_def char_code_def)
  then have no: "uuid_text i \<noteq> ''None''" "''None'' \<noteq> uuid_text i" for i
    using plain_texts(1) [of i] by (metis list.pred_inject(2))+
  show ?thesis
  proof (cases "x = None \<or> y = None")
    case True
    then show ?thesis using no by (auto split: option.split)
  next
    case False
    then show ?thesis using assms uuid_text_inject by auto
  qed
qed

lemma purchase_text_eq:
  assumes "purchase_ok q" "purchase_ok q'"
  shows "purchase_text q = purchase_text q' \<longleftrightarrow> same_purchase q q'"
proof -
  have "uuid_text (or_offer_id q) = uuid_text (or_offer_id q') \<longleftrightarrow> or_offer_id q = or_offer_id q'"
    using assms uuid_text_inject by (auto simp: purchase_ok_def)
  then show ?thesis
    using assms by (simp add: purchase_text_def split_at_bar plain_texts decimal_text_inject normalize_eq own_text_inject
        purchase_ok_def same_purchase_def)
qed

lemma purchase_hash_text:
  "purchase_hash (or_offer_id q) (or_quantity q) (or_price q) (or_own_order_id q) = sha256_hex (purchase_text q)"
  by (simp add: purchase_hash_def purchase_text_def)

end
