(* ===== verification/Workspace_Claims.thy ===== *)
theory Workspace_Claims
  imports Workspace_Demo Workspace_Purchases
begin

text \<open>
  Properties of every run of the connected marketplace: measured energy is given to trades once, and a
  purchase that is asked for again answers with its trade.
\<close>

section \<open>What no operation forgets\<close>

lemma arrivals_remember: "arrivals db db' \<Longrightarrow> remembers db db'"
  by (auto simp: arrivals_def remembers_def)

lemma forecasting_remembers: "forecasting db db' \<Longrightarrow> remembers db db'"
  by (auto simp: forecasting_def remembers_def)

lemma deliver_remembers:
  assumes "deliver_trade sim f t db = Inr db'"
  shows "remembers db db'"
  using assms
proof (cases rule: deliver_trade_cases)
  case (2 buy sell sr br exported imported delivered)
  from 2(6) have "t_actions db' = t_actions db \<and> t_simulation db' = t_simulation db
      \<and> t_trades db' = modify td_id (td_id t) (\<lambda>q. q\<lparr>td_status := Trade_SETTLED\<rparr>) (t_trades db)"
    by (rule file_delivery_effect) simp
  moreover have "td_id ` set (modify td_id i (\<lambda>q. q\<lparr>td_status := st\<rparr>) rows) = td_id ` set rows" for i st and rows :: "trade_row list"
    by (induction rows) (auto simp: modify_def)
  ultimately show ?thesis by (simp add: remembers_def)
qed simp

lemma reconcile_due_remembers: "reconcile_due sim f db = Inr db' \<Longrightarrow> remembers db db'"
  unfolding reconcile_due_def
  by (erule foldE_invariant [where P = "remembers db"]) (auto intro: remembers_trans deliver_remembers)

lemma advance_remembers:
  assumes "advance_clock profile cfg n deliver_all f db = Inr db'"
  shows "remembers db db'"
  using assms
proof (rule advance_cases)
  fix sim db1 db2 db3
  assume s: "arrivals (db\<lparr>t_simulation := Some sim\<rparr>) db1" "reconcile_due sim (av_delivery f) db1 = Inr db2"
    "forecasting db2 db3" "db' = bump db3"
  from arrivals_remember [OF s(1)] have "remembers db db1" by (auto simp: remembers_def)
  from remembers_trans [OF this reconcile_due_remembers [OF s(2)]] forecasting_remembers [OF s(3)] s(4)
  show "remembers db db'" by (auto intro: remembers_trans)
qed

lemma recover_remembers: "recover_missing profile ids f db = Inr db' \<Longrightarrow> remembers db db'"
  by (erule recover_cases) (auto dest!: arrivals_remember reconcile_due_remembers intro: remembers_trans)

lemma cancel_remembers: "cancel_workspace_order user i event now db = Inr db' \<Longrightarrow> remembers db db'"
  by (erule cancel_frame) (simp, simp add: remembers_def)

lemma step_remembers: "workspace_step tools profile cfg db db' \<Longrightarrow> remembers db db'"
  by (induction rule: workspace_step.induct)
    (auto simp: trading_def dest!: place_trading accept_offer_trading clear_market_trading cancel_remembers advance_remembers
       recover_remembers)

lemma run_remembers: "(workspace_step tools profile cfg)\<^sup>*\<^sup>* db db' \<Longrightarrow> remembers db db'"
  by (induction rule: rtranclp_induct) (auto intro: remembers_trans step_remembers)

section \<open>Properties\<close>

text \<open>C3. Measured energy is sold once. However the operations of the marketplace are mixed, placing,
  cancelling, accepting, clearing, advancing the clock and recovering, the energy all delivered trades
  were given of a reading stays within what that reading exported, and within what it imported; and
  every allocation names readings on file.\<close>

theorem measured_energy_given_once:
  assumes "(workspace_step tools profile cfg)\<^sup>*\<^sup>* db db'" "deliveries_ok db" "trades_stored db"
  shows "(\<forall>r \<in> set (t_readings db').
        allocated_kwh (t_allocations db') al_seller_reading_id (rd_id r) \<le> channel_kwh (rd_grid_export_kwh r)
      \<and> allocated_kwh (t_allocations db') al_buyer_reading_id (rd_id r) \<le> channel_kwh (rd_grid_import_kwh r))
    \<and> (\<forall>a \<in> set (t_allocations db'). 0 \<le> val (al_energy_kwh a)
        \<and> known rd_id (t_readings db') (al_seller_reading_id a) \<and> known rd_id (t_readings db') (al_buyer_reading_id a))"
proof -
  have "measured_ok db" using assms(2,3) by (simp add: measured_ok_def)
  with assms(1) have "measured_ok db'" by (induction rule: rtranclp_induct) (auto intro: workspace_step_keeps)
  then show ?thesis by (auto simp: measured_ok_def deliveries_ok_def allocations_fit_def stored_energy_def)
qed

lemma measured_energy_given_once_witness:
  "\<exists>db' r a. t_allocations db' = [a] \<and> r \<in> set (t_readings (db' :: workspace_db)) \<and> rd_id r = al_seller_reading_id a
     \<and> val (al_energy_kwh a) \<le> channel_kwh (rd_grid_export_kwh r)"
proof -
  obtain db' where s: "workspace_step demo_tools (\<lambda>_ _ _ _. Inl AssertionError) demo_baseline demo_marketplace db'"
    "length (t_allocations db') = 1" using demo_recovered by blast
  then obtain a where a: "t_allocations db' = [a]" by (auto simp: length_Suc_conv)
  have "trades_stored demo_marketplace" using demo_delivery_stored(1) by (simp add: trades_stored_def demo_marketplace_tables)
  from measured_energy_given_once [OF r_into_rtranclp [of "workspace_step _ _ _", OF s(1)] demo_deliveries_ok this] a show ?thesis
    by (fastforce simp: known_def allocated_kwh_def)
qed

lemma purchase_on_record:
  assumes "accept_offer tools user q f g db = Inr (db', t)"
  shows "\<exists>a. List.find (\<lambda>a. action_key a = (us_id user, or_request_id q)) (t_actions db') = Some a
    \<and> ac_body_hash a = purchase_hash (or_offer_id q) (or_quantity q) (or_price q) (or_own_order_id q)
    \<and> ac_trade_id a = td_id t \<and> td_id t \<in> td_id ` set (t_trades db') \<and> t_simulation db' \<noteq> None"
proof -
  have "t_simulation db \<noteq> None" using assms by (auto simp: accept_offer_def bindE_eq_Inr simulation_state_def split: option.splits)
  with accept_offer_trading [OF assms] have sim: "t_simulation db' \<noteq> None" by (simp add: trading_def remembers_def)
  from assms show ?thesis
  proof (cases rule: accept_offer_cases)
    case (Again a)
    with sim show ?thesis by (auto dest: fetch_SomeD)
  next
    case (New sim offer db1 own db2 ts)
    then have "List.find (\<lambda>a. action_key a = (us_id user, or_request_id q)) (t_actions db2) = None"
      by (force simp: find_None_iff)
    with New sim show ?thesis by (auto simp: find_append action_key_def)
  qed
qed

text \<open>C7. A purchase asked for again. Once an offer was accepted, the same request of the same user,
  for the same offer, quantity, price and own order, answers with the same trade after any further
  operations and leaves every table as it is. With the same request identifier and another offer,
  quantity, price or own order it is refused with a conflict, unless the texts of the two bodies
  differ and have the same SHA-256 hash. Quantities and prices count by value, so that one more
  trailing zero is the same request; they have at most 28 digits, and identifiers 128 bits.\<close>

theorem purchase_answers_again:
  assumes "accept_offer tools user q f g db = Inr (db1, t)" "(workspace_step tools profile cfg)\<^sup>*\<^sup>* db1 db2"
    and "us_id user' = us_id user" "or_request_id q' = or_request_id q" "purchase_ok q" "purchase_ok q'"
  shows "if or_offer_id q' = or_offer_id q \<and> val (or_quantity q') = val (or_quantity q) \<and> val (or_price q') = val (or_price q)
         \<and> or_own_order_id q' = or_own_order_id q
    then \<exists>t'. accept_offer tools user' q' f' g' db2 = Inr (db2, t') \<and> td_id t' = td_id t
    else accept_offer tools user' q' f' g' db2 = Inl (HTTPException 409)
       \<or> purchase_text q' \<noteq> purchase_text q \<and> sha256_hex (purchase_text q') = sha256_hex (purchase_text q)"
proof -
  obtain a where a: "List.find (\<lambda>a. action_key a = (us_id user, or_request_id q)) (t_actions db1) = Some a"
    "ac_body_hash a = sha256_hex (purchase_text q)"
    "ac_trade_id a = td_id t" "td_id t \<in> td_id ` set (t_trades db1)" "t_simulation db1 \<noteq> None"
    using purchase_on_record [OF assms(1)] unfolding purchase_hash_text by blast
  from run_remembers [OF assms(2)] obtain more where m: "t_actions db2 = t_actions db1 @ more"
    "td_id t \<in> td_id ` set (t_trades db2)" "t_simulation db2 \<noteq> None"
    using a(4,5) by (auto simp: remembers_def)
  have f: "List.find (\<lambda>a. action_key a = (us_id user, or_request_id q)) (t_actions db2) = Some a"
    using a(1) by (simp add: m(1) find_append)
  obtain t' where t': "fetch td_id (t_trades db2) (td_id t) = Some t'" "td_id t' = td_id t"
    using m(2) fetch_SomeD by (metis fetch_None option.exhaust)
  have "accept_offer tools user' q' f' g' db2 = (if sha256_hex (purchase_text q') = sha256_hex (purchase_text q)
      then Inr (db2, t') else Inl (HTTPException 409))"
    using m(3) a(2,3) f t'(1)
    by (auto simp: accept_offer_def purchase_hash_text simulation_state_def assms(3,4) split: option.splits)
  with purchase_text_eq [OF assms(6,5)] t'(2) show ?thesis by (auto simp: same_purchase_def)
qed

text \<open>The demo trade as the purchase of the second user's offer.\<close>

definition demo_request_again :: offer_request where
  "demo_request_again = \<lparr>or_offer_id = 22, or_quantity = Dec 40000 (-4), or_price = Dec 65000 (-4), or_request_id = 200,
     or_own_order_id = None\<rparr>"

definition demo_purchased :: workspace_db where
  "demo_purchased = demo_marketplace\<lparr>t_actions := [\<lparr>ac_user_id = 1, ac_request_id = 200,
     ac_body_hash = purchase_hash 22 (Dec 40000 (-4)) (Dec 65000 (-4)) None, ac_trade_id = 70\<rparr>]\<rparr>"

definition demo_buyer :: user_row where
  "demo_buyer = \<lparr>us_id = 1, us_email = None, us_display_name = ''A'', us_role = PROSUMER, us_status = User_ACTIVE\<rparr>"

lemma demo_purchase: "accept_offer tools demo_buyer demo_request_again f g demo_purchased = Inr (demo_purchased, demo_committed)"
  by (simp add: accept_offer_def simulation_state_def demo_purchased_def demo_marketplace_tables demo_request_again_def
      demo_buyer_def action_key_def fetch_def demo_rows)

text \<open>The same request with one more zero, and with a higher price.\<close>

lemma demo_requests_ok: "purchase_ok demo_request_again" "purchase_ok (demo_request_again\<lparr>or_quantity := Dec 400000 (-5)\<rparr>)"
  "purchase_ok (demo_request_again\<lparr>or_price := Dec 70000 (-4)\<rparr>)"
  by (simp_all add: purchase_ok_def demo_request_again_def uuid_ok_def val_Dec4 rep28_grid [of 4] grid_def val_def [of "Dec _ _"]
      power_int_minus)

lemma purchase_answers_again_witness:
  "(\<exists>t'. accept_offer demo_tools demo_buyer (demo_request_again\<lparr>or_quantity := Dec 400000 (-5)\<rparr>) (order_fresh.fields 1 2 3 4 5)
       (slot_fresh.fields (\<lambda>_. 1) (\<lambda>_. 2) (\<lambda>_. 3) (\<lambda>_. 4) (\<lambda>_. 5) 6)
       demo_purchased = Inr (demo_purchased, t') \<and> td_id t' = 70)
   \<and> (accept_offer demo_tools demo_buyer (demo_request_again\<lparr>or_price := Dec 70000 (-4)\<rparr>) (order_fresh.fields 1 2 3 4 5)
       (slot_fresh.fields (\<lambda>_. 1) (\<lambda>_. 2) (\<lambda>_. 3) (\<lambda>_. 4) (\<lambda>_. 5) 6)
       demo_purchased = Inl (HTTPException 409)
     \<or> sha256_hex (purchase_text (demo_request_again\<lparr>or_price := Dec 70000 (-4)\<rparr>)) = sha256_hex (purchase_text demo_request_again))"
proof -
  have "workspace_step demo_tools (\<lambda>_ _ _ _. Inl AssertionError) demo_baseline demo_purchased demo_purchased"
    by (rule workspace_step.Accepted [OF demo_purchase])
  note again = purchase_answers_again [OF demo_purchase r_into_rtranclp [of "workspace_step _ _ _", OF this] refl]
  have "td_id demo_committed = 70" by (simp add: demo_rows)
  moreover have "val (or_quantity (demo_request_again\<lparr>or_quantity := Dec 400000 (-5)\<rparr>)) = val (or_quantity demo_request_again)"
    "val (or_price (demo_request_again\<lparr>or_price := Dec 70000 (-4)\<rparr>)) \<noteq> val (or_price demo_request_again)"
    by (simp_all add: demo_request_again_def val_def [of "Dec _ _"] power_int_minus)
  moreover note again [OF _ demo_requests_ok(1,2)] again [OF _ demo_requests_ok(1,3)]
  ultimately show ?thesis by simp blast
qed

end
