(* ===== verification/Workspace_Orders.thy ===== *)
theory Workspace_Orders
  imports Workspace_Measured
begin

text \<open>
  The orders of the connected marketplace: what trading may do to an order, and the energy a site has
  promised in a slot.
\<close>

section \<open>Sound orders\<close>

definition order_sound :: "order_row \<Rightarrow> bool" where
  "order_sound o1 \<longleftrightarrow>
     stored_energy (od_energy_kwh o1) \<and> stored_energy (od_matched_kwh o1) \<and> val (od_matched_kwh o1) \<le> val (od_energy_kwh o1)
     \<and> (od_status o1 = FILLED \<longrightarrow> val (od_matched_kwh o1) = val (od_energy_kwh o1))"

definition live :: "order_row \<Rightarrow> bool" where
  "live o1 \<longleftrightarrow> order_is_active (od_status o1) \<or> od_status o1 = FILLED"

definition promised :: "order_row \<Rightarrow> rat" where
  "promised o1 = (if order_is_active (od_status o1) then val (od_energy_kwh o1) else val (od_matched_kwh o1))"

text \<open>The same order later: its terms stay, it promises no more than before.\<close>

definition evolves :: "order_row \<Rightarrow> order_row \<Rightarrow> bool" where
  "evolves o1 o2 \<longleftrightarrow>
     od_id o2 = od_id o1 \<and> od_user_id o2 = od_user_id o1 \<and> od_site_id o2 = od_site_id o1 \<and> od_side o2 = od_side o1
     \<and> od_min_price o2 = od_min_price o1 \<and> od_max_price o2 = od_max_price o1
     \<and> od_delivery_start o2 = od_delivery_start o1
     \<and> (live o1 \<longrightarrow> live o2 \<or> od_status o2 = Order_REJECTED)
     \<and> (od_status o1 = Order_REJECTED \<longrightarrow> od_status o2 = Order_REJECTED)
     \<and> (order_sound o1 \<longrightarrow> order_sound o2 \<and> promised o2 \<le> promised o1)"

lemma evolves_refl [simp]: "evolves o1 o1"
  by (simp add: evolves_def)

lemma evolves_trans: "evolves o1 o2 \<Longrightarrow> evolves o2 o3 \<Longrightarrow> evolves o1 o3"
  by (auto simp: evolves_def)

lemma rounds_to_zero: "rounds_to u 0 \<Longrightarrow> u = 0"
proof (rule ccontr)
  have no: False if r: "rounds_to v 0" and "0 < v" for v
  proof -
    obtain n :: nat where n: "1 / v < of_nat n" using reals_Archimedean2 by blast
    have "of_nat n < (of_nat (10 ^ n) :: rat)" by (simp only: of_nat_less_iff) (simp add: power_gt_expt)
    then have "(of_nat n :: rat) < 10 ^ n" by simp
    with n have "1 / v < 10 ^ n" by linarith
    with \<open>0 < v\<close> have "1 / 10 ^ n \<le> v" by (simp add: field_simps)
    moreover have "rep28 (1 / 10 ^ n)" using rep28I [of 1 "- int n"] by (simp add: power_int_minus divide_inverse)
    ultimately have "1 / 10 ^ n \<le> (0 :: rat)" using rounds_to_ge [OF r] by blast
    moreover have "0 < 1 / (10 :: rat) ^ n" by simp
    ultimately show False by linarith
  qed
  assume "rounds_to u 0" "u \<noteq> 0"
  with no [of u] no [of "- u"] rounds_to_uminus [of u 0] show False by (cases "0 < u") auto
qed

text \<open>Filling an order.\<close>

lemma filled_evolves:
  assumes "numeric 14 4 (od_matched_kwh (fill_workspace_order q o1)) = Inr m"
    and "list_all fst (order_row_checks ((fill_workspace_order q o1)\<lparr>od_matched_kwh := m\<rparr>))" and "live o1"
  shows "evolves o1 ((fill_workspace_order q o1)\<lparr>od_matched_kwh := m\<rparr>)
    \<and> od_status ((fill_workspace_order q o1)\<lparr>od_matched_kwh := m\<rparr>) \<noteq> Order_REJECTED"
proof -
  let ?x = "od_matched_kwh o1 + q"
  have m: "val m = round_half_up 4 (val ?x)" using numeric_val [OF assms(1)] by (simp add: fill_workspace_order_def Let_def)
  have c: "0 \<le> val m" "val m \<le> val (od_energy_kwh o1)"
    using assms(2) by (auto simp: fill_workspace_order_def Let_def order_row_checks_def val_simps split: if_splits)
  have full: "val m = val (od_energy_kwh o1)" if "deq (od_energy_kwh o1 - ?x) 0" "order_sound o1"
  proof -
    have "val (od_energy_kwh o1 - ?x) = 0" using that(1) by (simp only: deq_val val_zero)
    with minus_rounds [of "od_energy_kwh o1" ?x] have "val (od_energy_kwh o1) = val ?x" using rounds_to_zero by fastforce
    with that(2) show ?thesis unfolding m by (simp add: order_sound_def stored_energy_def round_half_up_id)
  qed
  have "grid 4 (val m)" using numeric_form [OF assms(1)] by (auto simp: val_Dec4 gridI)
  with c full assms(3) show ?thesis
    by (auto simp: evolves_def live_def order_sound_def promised_def fill_workspace_order_def Let_def remaining_kwh_def stored_energy_def)
qed

lemma rejected_evolves: "evolves o1 (o1\<lparr>od_status := Order_REJECTED\<rparr>)"
  by (auto simp: evolves_def live_def order_sound_def promised_def)

lemma cancelled_promises: "order_sound o1 \<Longrightarrow> order_sound (o1\<lparr>od_status := CANCELLED\<rparr>) \<and> promised (o1\<lparr>od_status := CANCELLED\<rparr>) \<le> promised o1"
  by (auto simp: order_sound_def promised_def)

section \<open>Tables of orders\<close>

definition orders_evolve :: "order_row list \<Rightarrow> order_row list \<Rightarrow> bool" where
  "orders_evolve os os' \<longleftrightarrow> list_all2 evolves os os'"

lemma orders_evolve_refl [simp]: "orders_evolve os os"
  by (simp add: orders_evolve_def list_all2_refl)

lemma orders_evolve_trans: "orders_evolve os1 os2 \<Longrightarrow> orders_evolve os2 os3 \<Longrightarrow> orders_evolve os1 os3"
  unfolding orders_evolve_def using list_all2_trans [of evolves evolves evolves] evolves_trans by blast

lemma orders_evolve_keys: "orders_evolve os os' \<Longrightarrow> map od_id os' = map od_id os"
  unfolding orders_evolve_def by (induction rule: list_all2_induct) (auto simp: evolves_def)

lemma orders_evolve_fetch:
  assumes "orders_evolve os os'" "fetch od_id os' i = Some o2"
  shows "\<exists>o1. fetch od_id os i = Some o1 \<and> evolves o1 o2"
  using assms unfolding orders_evolve_def by (induction rule: list_all2_induct) (auto simp: fetch_def evolves_def split: if_splits)

lemma fetch_replace_other: "i \<noteq> j \<Longrightarrow> od_id o2 = i \<Longrightarrow> fetch od_id (modify od_id i (\<lambda>_. o2) os) j = fetch od_id os j"
  by (induction os) (auto simp: fetch_def modify_def)

lemma modify_evolves:
  assumes "distinct (map od_id os)" "fetch od_id os i = Some o1" "evolves o1 (f o1)"
  shows "orders_evolve os (modify od_id i f os)"
proof -
  have "evolves r (if od_id r = i then f r else r)" if "r \<in> set os" for r
    using fetch_member [OF assms(1) that] assms(2,3) by auto
  then show ?thesis by (simp add: orders_evolve_def modify_def list_all2_map2 list_all2_same)
qed

definition orders_sound :: "order_row list \<Rightarrow> bool" where
  "orders_sound os \<longleftrightarrow> distinct (map od_id os) \<and> (\<forall>o1 \<in> set os. order_sound o1)"

definition promised_kwh :: "order_row list \<Rightarrow> uuid \<Rightarrow> datetime \<Rightarrow> rat" where
  "promised_kwh os site start =
     sum_list (map promised (filter (\<lambda>o1. od_site_id o1 = site \<and> od_delivery_start o1 = start \<and> od_side o1 = SELL) os))"

lemma evolved_promises:
  assumes "orders_evolve os os'" "orders_sound os"
  shows "orders_sound os' \<and> promised_kwh os' site start \<le> promised_kwh os site start"
proof -
  from assms(1) [unfolded orders_evolve_def] assms(2) have "(\<forall>o1 \<in> set os'. order_sound o1)
      \<and> promised_kwh os' site start \<le> promised_kwh os site start"
    unfolding orders_sound_def by (induction rule: list_all2_induct) (auto simp: evolves_def promised_kwh_def)
  with assms(2) orders_evolve_keys [OF assms(1)] show ?thesis by (simp add: orders_sound_def)
qed

section \<open>Clearing\<close>

text \<open>One save after another.\<close>

lemma save_fill_evolves:
  assumes "save_fill (fill_workspace_order q o1) db = Inr db'" "live o1"
    and "distinct (map od_id (t_orders db))" "fetch od_id (t_orders db) (od_id o1) = Some o1"
  shows "\<exists>os. db' = db\<lparr>t_orders := os\<rparr> \<and> orders_evolve (t_orders db) os
    \<and> (\<forall>i. i \<noteq> od_id o1 \<longrightarrow> fetch od_id os i = fetch od_id (t_orders db) i)"
proof -
  let ?o = "fill_workspace_order q o1"
  have i: "od_id ?o = od_id o1" by (simp add: fill_workspace_order_def Let_def)
  from insert_rows(4) [OF assms(1)] obtain m where m: "numeric 14 4 (od_matched_kwh ?o) = Inr m"
    "list_all fst (order_row_checks (?o\<lparr>od_matched_kwh := m\<rparr>))"
    "db' = db\<lparr>t_orders := modify od_id (od_id o1) (\<lambda>_. ?o\<lparr>od_matched_kwh := m\<rparr>) (t_orders db)\<rparr>"
    by (auto simp: i)
  from filled_evolves [OF m(1,2) assms(2)] have "evolves o1 (?o\<lparr>od_matched_kwh := m\<rparr>)" by blast
  from modify_evolves [OF assms(3,4), of "\<lambda>_. ?o\<lparr>od_matched_kwh := m\<rparr>", OF this] m(3) show ?thesis
    by (auto simp: fetch_replace_other i)
qed

text \<open>A proposal is decided on live orders of different users.\<close>

lemma settle_orders_evolves:
  assumes "settle_orders accepted q [buy, sell] db = Inr db'" "live buy" "live sell" "od_id buy \<noteq> od_id sell"
    and "distinct (map od_id (t_orders db))"
    and "fetch od_id (t_orders db) (od_id buy) = Some buy" "fetch od_id (t_orders db) (od_id sell) = Some sell"
  shows "orders_evolve (t_orders db) (t_orders db')"
proof (cases accepted)
  case True
  with assms(1) obtain db1 where d: "save_fill (fill_workspace_order q buy) db = Inr db1"
    "save_fill (fill_workspace_order q sell) db1 = Inr db'" by (auto simp: settle_orders_def bindE_eq_Inr)
  from save_fill_evolves [OF d(1) assms(2,5,6)] obtain os where o1: "db1 = db\<lparr>t_orders := os\<rparr>" "orders_evolve (t_orders db) os"
    "fetch od_id os (od_id sell) = Some sell" using assms(4,7) by auto
  have "distinct (map od_id (t_orders db1))" using orders_evolve_keys [OF o1(2)] assms(5) by (simp add: o1(1))
  from save_fill_evolves [OF d(2) assms(3) this] o1 show ?thesis by (auto intro: orders_evolve_trans)
next
  case False
  let ?r = "\<lambda>i. modify od_id i (\<lambda>q :: order_row. q\<lparr>od_status := Order_REJECTED\<rparr>)"
  have r: "orders_evolve os (?r i os)" for i os
    by (simp add: orders_evolve_def modify_def list_all2_map2 list_all2_same rejected_evolves)
  have "t_orders db' = ?r (od_id sell) (?r (od_id buy) (t_orders db))" using False assms(1) by (auto simp: settle_orders_def)
  with r show ?thesis by (metis orders_evolve_trans)
qed

text \<open>The state of clearing a slot: its orders are those of the start, live or rejected by now.\<close>

definition slot_orders :: "order_row list \<Rightarrow> order_row list \<Rightarrow> bool" where
  "slot_orders slot os \<longleftrightarrow> distinct (map od_id os) \<and> (\<forall>o1 \<in> set slot. o1 \<in> set os \<and> live o1)"

lemma current_order_evolves:
  assumes "slot_orders slot os" "orders_evolve os (t_orders db)" "current_order slot db i = Inr o2"
  shows "\<exists>o1 \<in> set slot. od_id o1 = i \<and> evolves o1 o2 \<and> fetch od_id (t_orders db) (od_id o2) = Some o2
    \<and> (od_status o2 \<noteq> Order_REJECTED \<longrightarrow> live o2)"
proof -
  from assms(3) obtain o1 where o1: "o1 \<in> set slot" "od_id o1 = i" and f: "fetch od_id (t_orders db) i = Some o2"
    by (auto simp: current_order_def split: if_splits option.splits)
  with assms(1) fetch_member [of od_id os o1] have "fetch od_id os i = Some o1" "live o1" by (auto simp: slot_orders_def)
  moreover from orders_evolve_fetch [OF assms(2) f] obtain o0 where "fetch od_id os i = Some o0" "evolves o0 o2" by blast
  ultimately show ?thesis using o1 f fetch_SomeD [OF f] by (auto simp: evolves_def intro!: bexI [of _ o1])
qed

lemma current_order_live:
  "slot_orders slot os \<Longrightarrow> orders_evolve os (t_orders db) \<Longrightarrow> current_order slot db i = Inr o2
     \<Longrightarrow> od_status o2 \<noteq> Order_REJECTED \<Longrightarrow> live o2 \<and> fetch od_id (t_orders db) (od_id o2) = Some o2"
  by (drule (2) current_order_evolves) (elim bexE conjE, simp)

lemma decide_evolves:
  assumes "decide_proposal res run sim start slot f p (db, ts) = Inr (db', ts')"
    and "slot_orders slot os" "orders_evolve os (t_orders db)"
  shows "orders_evolve os (t_orders db')"
  using assms(1)
proof (cases rule: decide_proposal_cases)
  case (2 buy sell solar load x t)
  note c = current_order_live [OF assms(2,3) 2(1,3)] and s = current_order_live [OF assms(2,3) 2(2,4)]
  have ne: "od_id buy \<noteq> od_id sell" using 2(5) c s by (metis option.inject)
  have d: "distinct (map od_id (t_orders db))"
    using orders_evolve_keys [OF assms(3)] assms(2) by (simp add: slot_orders_def)
  from 2(8) have "orders_evolve (t_orders db) (t_orders db')"
  proof (rule file_decision_frame)
    fix row b log
    assume "settle_orders (price_accepted run buy sell (px_final_price x)) (pt_quantity_kwh p) [buy, sell]
       (db\<lparr>t_trades := t_trades db @ [row], t_price_components := t_price_components db @ [b], t_audit := log\<rparr>) = Inr db'"
    from settle_orders_evolves [OF this _ _ ne] c s d show "orders_evolve (t_orders db) (t_orders db')" by simp
  qed
  with assms(3) show ?thesis by (rule orders_evolve_trans)
qed (use assms(3) in simp)

lemma decisions_evolve:
  assumes "foldE (decide_proposal res run sim start slot f) ps (db, ts) = Inr (db', ts')"
    and "slot_orders slot os" "orders_evolve os (t_orders db)"
  shows "orders_evolve os (t_orders db')"
proof -
  let ?P = "\<lambda>s. orders_evolve os (t_orders (fst s))"
  have "?P (db', ts')" using assms(1)
  proof (rule foldE_invariant [where P = ?P])
    show "?P (db, ts)" using assms(3) by simp
    show "?P s'" if "?P s" "decide_proposal res run sim start slot f p s = Inr s'" for p s s'
      using that by (cases s; cases s') (simp, rule decide_evolves [OF _ assms(2)])
  qed
  then show ?thesis by simp
qed

lemma clear_slot_evolves:
  assumes "clear_slot tools sim orders most f start (db, ts) = Inr (db', ts')"
    and "slot_orders (filter (\<lambda>o1. od_delivery_start o1 = start) orders) os" "orders_evolve os (t_orders db)"
  shows "orders_evolve os (t_orders db')"
  using assms(1)
proof (cases rule: clear_slot_cases)
  case (2 res db1 run)
  from 2(2) have "t_orders db1 = t_orders db" by (rule validate_slot_frame) simp
  with 2(3) assms(3) show ?thesis by (auto dest: decisions_evolve [OF _ assms(2)])
qed (use assms(3) in simp)

lemma clear_market_evolves:
  assumes "clear_market tools ids most f db = Inr (db', ts)" "distinct (map od_id (t_orders db))"
  shows "orders_evolve (t_orders db) (t_orders db')"
  using assms(1)
proof (rule clear_market_cases)
  fix sim db1
  let ?os = "open_orders db sim ids" and ?P = "\<lambda>s. orders_evolve (t_orders db) (t_orders (fst s))"
  assume f: "foldE (clear_slot tools sim ?os most f) (sort (remdups (map od_delivery_start ?os))) (db, []) = Inr (db1, ts)"
    and db': "db' = bump db1"
  have slot: "slot_orders (filter (\<lambda>o1. od_delivery_start o1 = start) ?os) (t_orders db)" for start
    using assms(2) by (auto simp: slot_orders_def open_orders_def ACTIVE_ORDER_STATUSES_def live_def)
  have "?P (db1, ts)" using f
  proof (rule foldE_invariant [where P = ?P])
    show "?P s'" if "?P s" "clear_slot tools sim ?os most f start s = Inr s'" for start s s'
      using that by (cases s; cases s') (simp, rule clear_slot_evolves [OF _ slot])
  qed simp
  then show "orders_evolve (t_orders db) (t_orders db')" by (simp add: db' bump_def)
qed

section \<open>Promises against the forecast\<close>

definition forecasts_stored :: "'a forecast_db_scheme \<Rightarrow> bool" where
  "forecasts_stored db \<longleftrightarrow> (\<forall>p \<in> set (t_forecast_points db). pred_option stored_energy (fp_predicted_kwh p))"

definition backed :: "'a market_db_scheme \<Rightarrow> bool" where
  "backed db \<longleftrightarrow> orders_sound (t_orders db)
     \<and> (\<forall>site start solar load s l. prediction db site start = Inr (solar, load) \<longrightarrow> fp_predicted_kwh solar = Some s
          \<longrightarrow> fp_predicted_kwh load = Some l \<longrightarrow> promised_kwh (t_orders db) site start \<le> max 0 (val s - val l))"

lemma contribution_exact:
  assumes "order_sound o1"
  shows "val (od_matched_kwh o1 + (if order_is_active (od_status o1) then remaining_kwh o1 else 0)) = promised o1
    \<and> grid 4 (promised o1) \<and> 0 \<le> promised o1"
proof -
  have s: "grid 4 (val (od_energy_kwh o1))" "0 \<le> val (od_energy_kwh o1)" "val (od_energy_kwh o1) < 10 ^ 10"
    "grid 4 (val (od_matched_kwh o1))" "0 \<le> val (od_matched_kwh o1)" "val (od_matched_kwh o1) < 10 ^ 10"
    "val (od_matched_kwh o1) \<le> val (od_energy_kwh o1)" using assms by (auto simp: order_sound_def stored_energy_def)
  have r: "val (remaining_kwh o1) = val (od_energy_kwh o1) - val (od_matched_kwh o1)"
    unfolding remaining_kwh_def using s by (intro energy_minus) simp_all
  show ?thesis
  proof (cases "order_is_active (od_status o1)")
    case True
    with energy_plus(1) [of "od_matched_kwh o1" "remaining_kwh o1"] s r grid_minus [OF s(1,4)] show ?thesis
      by (simp add: promised_def)
  next
    case False
    with energy_plus(1) [of "od_matched_kwh o1" 0] s show ?thesis by (simp add: promised_def)
  qed
qed

lemma reserved_exact:
  assumes "orders_sound (t_orders db)" "promised_kwh (t_orders db) site start < 10 ^ 10"
  shows "val (reserved_kwh db site start) = promised_kwh (t_orders db) site start
    \<and> grid 4 (promised_kwh (t_orders db) site start) \<and> 0 \<le> promised_kwh (t_orders db) site start"
proof -
  let ?c = "\<lambda>o1. od_matched_kwh o1 + (if order_is_active (od_status o1) then remaining_kwh o1 else 0)"
  let ?os = "filter (\<lambda>o1. od_site_id o1 = site \<and> od_delivery_start o1 = start \<and> od_side o1 = SELL) (t_orders db)"
  have c: "\<forall>o1 \<in> set ?os. val (?c o1) = promised o1 \<and> grid 4 (promised o1) \<and> 0 \<le> promised o1"
    using assms(1) contribution_exact unfolding orders_sound_def by simp
  then have s: "sum_list (map val (map ?c ?os)) = promised_kwh (t_orders db) site start"
    unfolding promised_kwh_def map_map comp_def by (intro arg_cong [where f = sum_list] map_cong) simp_all
  moreover have v: "\<forall>x \<in> set (map ?c ?os). grid 4 (val x) \<and> 0 \<le> val x" using c by auto
  ultimately show ?thesis using energy_sum [OF v] sum_nonneg_prefix [of "map ?c ?os"] assms(2) by (simp add: reserved_kwh_def)
qed

end
