(* ===== verification/Workspace_Promises.thy ===== *)
theory Workspace_Promises
  imports Workspace_Orders Workspace_Demo
begin

text \<open>
  No forecast energy is promised twice: while the forecasts stand, the sells of a site in a slot stay
  within its forecast surplus under every operation.
\<close>

lemma prediction_cong:
  "t_forecast_runs db' = t_forecast_runs db \<Longrightarrow> t_forecast_points db' = t_forecast_points db
     \<Longrightarrow> prediction db' site start = prediction db site start"
  by (simp add: prediction_def newest_point_def run_of_point_def)

lemma head_row_member: "head_row xs = Some x \<Longrightarrow> x \<in> set xs"
  by (cases xs) (simp_all add: head_row_def)

lemma newest_point_member: "newest_point db site start kind = Some p \<Longrightarrow> p \<in> set (t_forecast_points db)"
  unfolding newest_point_def by (drule head_row_member) simp

lemma prediction_points:
  "prediction db site start = Inr (solar, load) \<Longrightarrow> solar \<in> set (t_forecast_points db) \<and> load \<in> set (t_forecast_points db)"
  by (auto simp: prediction_def dest: newest_point_member split: option.splits)

lemma promised_append [simp]:
  "promised_kwh (os @ [o1]) site start = promised_kwh os site start
     + (if od_site_id o1 = site \<and> od_delivery_start o1 = start \<and> od_side o1 = SELL then promised o1 else 0)"
  by (simp add: promised_kwh_def)

lemma admitted_sell:
  assumes "admit_slot db sim user start SELL quantity = Inr (site, p)"
  obtains solar load s l where "prediction db (si_id site) start = Inr (solar, load)" "fp_predicted_kwh solar = Some s"
    "fp_predicted_kwh load = Some l" "quantity \<le> unreserved db (si_id site) start s l"
  using assms
  by (auto simp: admit_slot_def forecast_energies_def bindE_eq_Inr val_simps not_less split: option.splits prod.splits)

lemma unreserved_exact:
  assumes "orders_sound (t_orders db)" "stored_energy s" "stored_energy l"
    and "promised_kwh (t_orders db) site start \<le> max 0 (val s - val l)"
  shows "val (unreserved db site start s l) = max 0 (val s - val l) - promised_kwh (t_orders db) site start
    \<and> grid 4 (val (unreserved db site start s l))"
proof -
  have e: "grid 4 (val s)" "0 \<le> val s" "val s < 10 ^ 10" "grid 4 (val l)" "0 \<le> val l" "val l < 10 ^ 10"
    using assms(2,3) by (auto simp: stored_energy_def)
  then have d: "val (s - l) = val s - val l" by (intro energy_minus) simp_all
  let ?m = "max 0 (val s - val l)"
  have m: "grid 4 ?m" "0 \<le> ?m" "?m < 10 ^ 10" "val (pymax 0 (s - l)) = ?m"
    using e by (auto simp: val_pymax d intro!: grid_max grid_minus)
  then have "promised_kwh (t_orders db) site start < 10 ^ 10" using assms(4) by linarith
  note r = reserved_exact [OF assms(1) this]
  have "val (unreserved db site start s l) = ?m - promised_kwh (t_orders db) site start"
    unfolding unreserved_def using m r assms(4) by (subst energy_minus) auto
  with m r show ?thesis by (auto intro: grid_minus)
qed

lemma placed_order:
  assumes "stored_order (workspace_order user site session_id run_id start side quantity price f) = Inr row"
    and "list_all fst (order_checks db row)"
  shows "order_sound row \<and> promised row = round_half_up 4 (val quantity) \<and> od_site_id row = si_id site
    \<and> od_delivery_start row = start \<and> od_side row = side \<and> \<not> known od_id (t_orders db) (od_id row)"
proof -
  from assms(1) obtain e m where e: "numeric 14 4 quantity = Inr e" "numeric 14 4 0 = Inr m" "od_energy_kwh row = e"
    "od_matched_kwh row = m" "od_status row = Order_OPEN" "od_site_id row = si_id site" "od_delivery_start row = start"
    "od_side row = side"
    by (auto simp: stored_order_def workspace_order_def bindE_eq_Inr)
  have c: "0 < od_energy_kwh row" "\<not> known od_id (t_orders db) (od_id row)"
    using assms(2) by (auto simp: order_checks_def order_row_checks_def)
  have "stored_energy e" using numeric_form [OF e(1)] c(1) e(3) by (auto simp: val_simps val_Dec4)
  moreover have "val m = 0" using numeric_val [OF e(2)] by (simp add: round_half_up_zero)
  ultimately have "val (od_matched_kwh row) = 0" "stored_energy (od_energy_kwh row)" using e(3,4) by simp_all
  note z = this
  show ?thesis
    using z(2) e(5-8) c(2) numeric_val [OF e(1)] e(3)
    by (simp add: order_sound_def promised_def stored_energy_def grid_zero z(1))
qed

lemma place_keeps_backed:
  assumes "place_workspace_order user start side quantity price f db = Inr (db', i)" "backed db" "forecasts_stored db"
  shows "backed db'"
  using assms(1)
proof (rule place_frame)
  fix sim site solar ss row log session_id
  assume a: "admit_slot db sim user start side quantity = Inr (site, solar)"
    and s: "stored_order (workspace_order user site session_id (fp_forecast_run_id solar) start side quantity price f) = Inr row"
    and c: "list_all fst (order_checks (db\<lparr>t_sessions := ss\<rparr>) row)"
    and db': "db' = bump (db\<lparr>t_sessions := ss, t_orders := t_orders db @ [row], t_audit := log\<rparr>)"
  from placed_order [OF s c] have row: "order_sound row" "promised row = round_half_up 4 (val quantity)"
    "od_site_id row = si_id site" "od_delivery_start row = start" "od_side row = side" "\<not> known od_id (t_orders db) (od_id row)"
    by simp_all
  have pr: "prediction db' x y = prediction db x y" for x y by (rule prediction_cong) (simp_all add: db' bump_def)
  have new: "t_orders db' = t_orders db @ [row]" by (simp add: db' bump_def)
  have os: "orders_sound (t_orders db)" using assms(2) by (simp add: backed_def)
  then have "orders_sound (t_orders db')" using row(1,6) unfolding new by (auto simp: orders_sound_def known_def)
  moreover have "promised_kwh (t_orders db') x y \<le> max 0 (val s - val l)"
    if p: "prediction db x y = Inr (solar', load')" "fp_predicted_kwh solar' = Some s" "fp_predicted_kwh load' = Some l"
    for x y solar' load' s l
  proof -
    have old: "promised_kwh (t_orders db) x y \<le> max 0 (val s - val l)" using assms(2) p unfolding backed_def by blast
    show ?thesis
    proof (cases "si_id site = x \<and> start = y \<and> side = SELL")
      case True
      with a have "admit_slot db sim user y SELL quantity = Inr (site, solar)" by simp
      then obtain solar2 load2 s2 l2 where "prediction db (si_id site) y = Inr (solar2, load2)" "fp_predicted_kwh solar2 = Some s2"
        "fp_predicted_kwh load2 = Some l2" "quantity \<le> unreserved db (si_id site) y s2 l2" by (rule admitted_sell)
      with p True have q: "quantity \<le> unreserved db x y s l" by simp
      have "stored_energy s" "stored_energy l"
        using assms(3) prediction_points [OF p(1)] p(2,3) by (auto simp: forecasts_stored_def)
      from unreserved_exact [OF os this old] have u:
        "val (unreserved db x y s l) = max 0 (val s - val l) - promised_kwh (t_orders db) x y"
        "grid 4 (val (unreserved db x y s l))" by blast+
      have "round_half_up 4 (val quantity) \<le> round_half_up 4 (val (unreserved db x y s l))"
        using q by (intro round_half_up_mono) (simp add: val_simps)
      with u have "promised row + promised_kwh (t_orders db) x y \<le> max 0 (val s - val l)"
        unfolding row(2) by (simp only: round_half_up_id)
      with row(3-5) True show ?thesis unfolding new by (simp add: add.commute)
    next
      case False
      with old row(3-5) show ?thesis unfolding new by auto
    qed
  qed
  ultimately show "backed db'" unfolding backed_def pr by blast
qed

lemma evolve_keeps_backed:
  assumes "orders_evolve (t_orders db) (t_orders db')" "backed db"
    and "t_forecast_runs db' = t_forecast_runs db" "t_forecast_points db' = t_forecast_points db"
  shows "backed db'"
  using assms(2) evolved_promises [OF assms(1)] unfolding backed_def prediction_cong [OF assms(3,4)] by (meson order_trans)

lemma promised_Cons:
  "promised_kwh (o1 # os) site start =
     (if od_site_id o1 = site \<and> od_delivery_start o1 = start \<and> od_side o1 = SELL then promised o1 else 0)
     + promised_kwh os site start"
  by (simp add: promised_kwh_def)

lemma cancelled_orders:
  assumes "\<forall>o1 \<in> set os. order_sound o1"
  shows "(\<forall>o1 \<in> set (modify od_id i (\<lambda>o1. o1\<lparr>od_status := CANCELLED\<rparr>) os). order_sound o1)
    \<and> promised_kwh (modify od_id i (\<lambda>o1. o1\<lparr>od_status := CANCELLED\<rparr>) os) site start \<le> promised_kwh os site start"
  using assms
proof (induction os)
  case (Cons o1 os)
  define o2 where "o2 = (if od_id o1 = i then o1\<lparr>od_status := CANCELLED\<rparr> else o1)"
  let ?c = "modify od_id i (\<lambda>o1. o1\<lparr>od_status := CANCELLED\<rparr>)"
  have s: "order_sound o1" using Cons.prems by simp
  have "od_site_id o2 = od_site_id o1 \<and> od_delivery_start o2 = od_delivery_start o1 \<and> od_side o2 = od_side o1"
    by (simp add: o2_def)
  moreover have "order_sound o2 \<and> promised o2 \<le> promised o1"
    by (cases "od_id o1 = i") (simp_all only: o2_def if_True if_False cancelled_promises [OF s] s order_refl simp_thms)
  ultimately have o2: "order_sound o2" "promised o2 \<le> promised o1" "od_site_id o2 = od_site_id o1"
    "od_delivery_start o2 = od_delivery_start o1" "od_side o2 = od_side o1" by blast+
  have "?c (o1 # os) = o2 # ?c os" by (simp add: modify_def o2_def)
  moreover have "promised_kwh (?c os) site start \<le> promised_kwh os site start" "\<forall>o1 \<in> set (?c os). order_sound o1"
    using Cons by simp_all
  ultimately show ?case using o2(1,2) by (simp add: promised_Cons o2(3-5) add_mono)
qed (simp add: modify_def)

lemma cancel_keeps_backed:
  assumes "cancel_workspace_order user i event now db = Inr db'" "backed db"
  shows "backed db'"
  using assms(1)
proof (rule cancel_frame)
  fix o1 log
  assume db': "db' = bump (db\<lparr>t_orders := modify od_id i (\<lambda>o1. o1\<lparr>od_status := CANCELLED\<rparr>) (t_orders db), t_audit := log\<rparr>)"
  have pr: "prediction db' x y = prediction db x y" for x y by (rule prediction_cong) (simp_all add: db' bump_def)
  have os: "\<forall>o1 \<in> set (t_orders db). order_sound o1" using assms(2) by (simp add: backed_def orders_sound_def)
  have new: "t_orders db' = modify od_id i (\<lambda>o1. o1\<lparr>od_status := CANCELLED\<rparr>) (t_orders db)" by (simp add: db' bump_def)
  have "orders_sound (t_orders db')"
    using assms(2) cancelled_orders [OF os, of i] unfolding new by (simp add: backed_def orders_sound_def)
  moreover have "promised_kwh (t_orders db') x y \<le> promised_kwh (t_orders db) x y" for x y
    using cancelled_orders [OF os, of i x y] unfolding new by blast
  ultimately show "backed db'" using assms(2) unfolding backed_def pr by (meson order_trans)
qed

section \<open>Every operation\<close>

lemma accept_keeps_backed:
  assumes "accept_offer tools user q f g db = Inr (db', t)" "backed db" "forecasts_stored db"
  shows "backed db'"
  using assms(1)
proof (cases rule: accept_offer_cases)
  case (New sim offer db1 own db2 ts)
  have "backed db1" using New(4)
    by (cases rule: own_side_cases) (use assms(2,3) place_keeps_backed in auto)
  moreover from clear_market_trading [OF New(5)] have "t_forecast_runs db2 = t_forecast_runs db1"
    "t_forecast_points db2 = t_forecast_points db1" by (simp_all add: trading_def untouched_def)
  ultimately have "backed db2"
    using clear_market_evolves [OF New(5)] evolve_keeps_backed by (auto simp: backed_def orders_sound_def)
  then show ?thesis unfolding New(9) backed_def by (simp add: prediction_def newest_point_def run_of_point_def)
qed (use assms(2) in simp)

text \<open>Time passing leaves the orders alone.\<close>

lemma deliver_keeps_orders: "deliver_trade sim f t db = Inr db' \<Longrightarrow> t_orders db' = t_orders db"
  by (erule deliver_trade_cases) (simp, erule file_delivery_effect, simp)

lemma reconcile_due_keeps_orders: "reconcile_due sim f db = Inr db' \<Longrightarrow> t_orders db' = t_orders db"
  unfolding reconcile_due_def
  by (erule foldE_invariant [where P = "\<lambda>x. t_orders x = t_orders db"]) (simp_all add: deliver_keeps_orders)

lemma arrivals_keep_orders: "arrivals db db' \<Longrightarrow> t_orders db' = t_orders db"
  by (auto simp: arrivals_def)

lemma advance_keeps_orders: "advance_clock profile cfg n deliver_all f db = Inr db' \<Longrightarrow> t_orders db' = t_orders db"
  by (erule advance_cases) (auto simp: forecasting_def bump_def dest!: arrivals_keep_orders reconcile_due_keeps_orders)

lemma recover_keeps_orders: "recover_missing profile ids f db = Inr db' \<Longrightarrow> t_orders db' = t_orders db"
  by (erule recover_cases) (auto simp: bump_def dest!: arrivals_keep_orders reconcile_due_keeps_orders)

lemma step_keeps_backed:
  assumes "workspace_step tools profile cfg db db'" "backed db" "forecasts_stored db"
    and "t_forecast_runs db' = t_forecast_runs db" "t_forecast_points db' = t_forecast_points db"
  shows "backed db'"
proof -
  have same: "backed db'" if "orders_evolve (t_orders db) (t_orders db')" using that assms(2,4,5) by (rule evolve_keeps_backed)
  from assms(1) show ?thesis
  proof cases
    case (Placed user start side quantity price f i)
    then show ?thesis using assms(2,3) by (rule place_keeps_backed)
  next
    case (Cancelled user i event now)
    then show ?thesis using assms(2) by (rule cancel_keeps_backed)
  next
    case (Accepted user q f g t)
    then show ?thesis using assms(2,3) by (rule accept_keeps_backed)
  next
    case (Cleared g ts)
    then have "orders_evolve (t_orders db) (t_orders db')"
      by (rule clear_market_evolves) (use assms(2) in \<open>simp add: backed_def orders_sound_def\<close>)
    then show ?thesis by (rule same)
  next
    case (Advanced n deliver_all h)
    then show ?thesis using same by (simp add: advance_keeps_orders)
  next
    case (Recovered ids d)
    then show ?thesis using same by (simp add: recover_keeps_orders)
  qed
qed

text \<open>C4. Forecast energy is promised once. However the operations are mixed, as long as the forecasts
  stand, what a site has sold and still offers in a slot, as the service adds it up before it admits
  another sell, stays within the forecast surplus of the slot: neither matching, cancelling nor
  rejecting lets the same energy be offered again beyond it.\<close>

theorem forecast_energy_promised_once:
  assumes "(\<lambda>db db'. workspace_step tools profile cfg db db' \<and> t_forecast_runs db' = t_forecast_runs db
      \<and> t_forecast_points db' = t_forecast_points db)\<^sup>*\<^sup>* db db'"
    and "backed db" "forecasts_stored db"
    and "prediction db' site start = Inr (solar, load)" "fp_predicted_kwh solar = Some s" "fp_predicted_kwh load = Some l"
  shows "val (reserved_kwh db' site start) \<le> max 0 (val s - val l)
    \<and> val (reserved_kwh db' site start) = promised_kwh (t_orders db') site start"
proof -
  from assms(1) have r: "backed db' \<and> forecasts_stored db'"
    by (induction rule: rtranclp_induct) (use assms(2,3) step_keeps_backed in \<open>auto simp: forecasts_stored_def\<close>)
  then have p: "promised_kwh (t_orders db') site start \<le> max 0 (val s - val l)" "orders_sound (t_orders db')"
    using assms(4-6) unfolding backed_def by blast+
  have "stored_energy s" "stored_energy l"
    using r prediction_points [OF assms(4)] assms(5,6) by (auto simp: forecasts_stored_def)
  then have "max 0 (val s - val l) < 10 ^ 10" by (auto simp: stored_energy_def)
  with p(1) have "promised_kwh (t_orders db') site start < 10 ^ 10" by linarith
  from reserved_exact [OF p(2) this] p(1) show ?thesis by simp
qed

lemma demo_prediction:
  "prediction demo_marketplace site start =
     (if site = 8 \<and> start = 0 then Inr (demo_site_point 32 30 (Dec 90000 (-4)), demo_site_point 33 31 (Dec 10000 (-4)))
      else Inl (HTTPException 409))"
  by (auto simp: prediction_def newest_point_def run_of_point_def head_row_def demo_marketplace_tables demo_site_point_def
      demo_forecast_point_def demo_run_def fetch_def)

lemma demo_backed: "backed demo_marketplace" "forecasts_stored demo_marketplace"
  by (auto simp: backed_def forecasts_stored_def demo_prediction orders_sound_def order_sound_def promised_kwh_def promised_def
      demo_marketplace_tables demo_rows demo_site_point_def demo_forecast_point_def val_Dec4 gridI split: if_splits)

lemma forecast_energy_promised_once_witness:
  "\<exists>db'. length (t_allocations (db' :: workspace_db)) = 1 \<and> val (reserved_kwh db' 8 0) \<le> 8"
proof -
  obtain db' where s: "workspace_step demo_tools (\<lambda>_ _ _ _. Inl AssertionError) demo_baseline demo_marketplace db'"
    "length (t_allocations db') = 1" "t_forecast_runs db' = t_forecast_runs demo_marketplace"
    "t_forecast_points db' = t_forecast_points demo_marketplace" using demo_recovered by blast
  have p: "prediction db' 8 0 = Inr (demo_site_point 32 30 (Dec 90000 (-4)), demo_site_point 33 31 (Dec 10000 (-4)))"
    using prediction_cong [OF s(3,4)] by (simp add: demo_prediction)
  note run = r_into_rtranclp [of "\<lambda>db db'. workspace_step demo_tools (\<lambda>_ _ _ _. Inl AssertionError) demo_baseline db db'
    \<and> t_forecast_runs db' = t_forecast_runs db \<and> t_forecast_points db' = t_forecast_points db", OF conjI [OF s(1) conjI [OF s(3,4)]]]
  have "fp_predicted_kwh (demo_site_point i run kwh) = Some kwh" for i run kwh by (simp add: demo_site_point_def)
  from forecast_energy_promised_once [OF run demo_backed p this this] s(2) show ?thesis by (auto simp: val_Dec4)
qed

end
