(* ===== verification/Workspace_Clearing.thy ===== *)
theory Workspace_Clearing
  imports Workspace_Promises Workspace_Demo
begin

text \<open>
  What a clearing of the connected marketplace commits: trades of slots to come, between different
  users, within both price limits, on a feeder whose forecast schedule was solved without an overload.
\<close>

section \<open>The schedule of a slot\<close>

definition schedule_solved ::
  "grid_tools \<Rightarrow> 'a workspace_db_scheme \<Rightarrow> simulation_row \<Rightarrow> datetime \<Rightarrow> bool" where
  "schedule_solved tools db sim start \<longleftrightarrow>
     (\<exists>injections out. mapE (site_injection db sim start) (feeder_sites db) = Inr injections
        \<and> gt_solver tools (gr_network (schedule_request db start injections)) (superpose injections) = Inr out
        \<and> (\<forall>(u, y) \<in> set (loadings (rated_lines (gr_network (schedule_request db start injections))) (out_lines out)
               @ loadings (rated_transformers (gr_network (schedule_request db start injections))) (out_transformers out)).
             val y \<le> 100))"

lemma schedule_safe:
  assumes "vn_status (schedule_row tools (schedule_request db start injections) i now) = SAFE"
    and "mapE (site_injection db sim start) (feeder_sites db) = Inr injections"
  shows "schedule_solved tools db sim start"
proof -
  let ?r = "schedule_request db start injections"
  from assms(1) obtain res where r: "pgm_validate (gt_solver tools) (gt_version tools) ?r = Inr res" "gv_status res = SAFE"
    by (cases "pgm_validate (gt_solver tools) (gt_version tools) ?r") (simp_all add: schedule_row_def schedule_verdict_def Let_def)
  have "combined_injections ?r = superpose injections"
    by (simp add: combined_injections_def superpose_def schedule_request_def)
  with pgm_safe_loadings [OF r] assms(2) show ?thesis unfolding schedule_solved_def by auto
qed

lemma schedule_cong:
  assumes "untouched db db1"
  shows "schedule_solved tools db1 sim start = schedule_solved tools db sim start"
proof -
  have p: "prediction db1 x y = prediction db x y" for x y
    using assms by (intro prediction_cong) (simp_all add: untouched_def)
  have "site_injection db1 sim start = site_injection db sim start" by (rule ext) (simp add: site_injection_def p)
  moreover have "feeder_sites db1 = feeder_sites db" using assms by (simp add: feeder_sites_def untouched_def cong: option.case_cong)
  moreover have "schedule_request db1 start is = schedule_request db start is" for "is"
    using assms by (simp add: schedule_request_def build_network_def feeder_nodes_def untouched_def)
  ultimately show ?thesis by (simp add: schedule_solved_def)
qed

section \<open>Committed trades\<close>

definition prices_stored :: "order_row \<Rightarrow> bool" where
  "prices_stored o1 \<longleftrightarrow> pred_option (\<lambda>p. grid 4 (val p)) (od_min_price o1) \<and> pred_option (\<lambda>p. grid 4 (val p)) (od_max_price o1)"

definition safely_priced :: "order_row list \<Rightarrow> breakdown_row list \<Rightarrow> trade_row \<Rightarrow> bool" where
  "safely_priced os bs t \<longleftrightarrow>
     (\<exists>buy \<in> set os. \<exists>sell \<in> set os. \<exists>b \<in> set bs. \<exists>lo hi.
        od_id buy = td_buy_order_id t \<and> od_id sell = td_sell_order_id t \<and> od_user_id buy \<noteq> od_user_id sell
        \<and> od_min_price sell = Some lo \<and> od_max_price buy = Some hi \<and> bd_trade_id b = td_id t
        \<and> val lo \<le> val (bd_final_price b) \<and> val (bd_final_price b) \<le> val hi)"

lemma safely_priced_mono:
  "safely_priced os bs t \<Longrightarrow> set os \<subseteq> set os' \<Longrightarrow> set bs \<subseteq> set bs' \<Longrightarrow> safely_priced os' bs' t"
  unfolding safely_priced_def by blast

lemma stored_final_price:
  "stored_breakdown (breakdown_of i x j now) = Inr b \<Longrightarrow> bd_trade_id b = i \<and> val (bd_final_price b) = round_half_up 4 (val (px_final_price x))"
  by (auto simp: stored_breakdown_def breakdown_of_def bindE_eq_Inr numeric_val)

lemma price_between:
  assumes "price_accepted run buy sell x" "prices_stored buy" "prices_stored sell"
  shows "vn_status run = SAFE \<and> (\<exists>lo hi. od_min_price sell = Some lo \<and> od_max_price buy = Some hi
    \<and> val lo \<le> round_half_up 4 (val x) \<and> round_half_up 4 (val x) \<le> val hi)"
proof -
  from assms(1) obtain lo hi where l: "vn_status run = SAFE" "od_min_price sell = Some lo" "od_max_price buy = Some hi"
    "val lo \<le> val x" "val x \<le> val hi" by (auto simp: price_accepted_def val_simps split: option.splits)
  with assms(2,3) have "grid 4 (val lo)" "grid 4 (val hi)" by (simp_all add: prices_stored_def)
  with l round_half_up_mono [OF l(4), of 4] round_half_up_mono [OF l(5), of 4] show ?thesis by (simp add: round_half_up_id)
qed

lemma decision_committed:
  assumes "decide_proposal res run sim start slot f p (db, ts) = Inr (db', ts')"
    and "slot_orders slot os" "orders_evolve os (t_orders db)" "\<forall>o1 \<in> set slot. prices_stored o1"
  shows "set (t_price_components db) \<subseteq> set (t_price_components db')
    \<and> (\<forall>t \<in> set ts'. t \<in> set ts \<or> (td_delivery_start t = start
          \<and> (td_status t = COMMITTED \<longrightarrow> vn_status run = SAFE \<and> safely_priced slot (t_price_components db') t)))"
  using assms(1)
proof (cases rule: decide_proposal_cases)
  case (2 buy sell solar load x t)
  from current_order_evolves [OF assms(2,3) 2(1)] obtain b0 where b0: "b0 \<in> set slot" "od_id b0 = pt_buy_order_id p" "evolves b0 buy"
    by blast
  from current_order_evolves [OF assms(2,3) 2(2)] obtain s0 where s0: "s0 \<in> set slot" "od_id s0 = pt_sell_order_id p" "evolves s0 sell"
    by blast
  have ps: "prices_stored buy" "prices_stored sell"
    using assms(4) b0 s0 by (auto simp: prices_stored_def evolves_def)
  from 2(8) show ?thesis
  proof (rule file_decision_frame)
    fix row b log
    assume t: "t = slot_trade res run sim start (price_accepted run buy sell (px_final_price x)) p
        (next_fill db (od_id buy) (od_id sell) start) (sl_trade_id f (length ts)) (sl_now f)"
      and b: "stored_breakdown (breakdown_of (td_id t) x (sl_breakdown_id f (length ts)) (sl_now f)) = Inr b"
      and s: "settle_orders (price_accepted run buy sell (px_final_price x)) (pt_quantity_kwh p) [buy, sell]
       (db\<lparr>t_trades := t_trades db @ [row], t_price_components := t_price_components db @ [b], t_audit := log\<rparr>) = Inr db'"
    from settle_orders_frame [OF s] have c: "t_price_components db' = t_price_components db @ [b]" by auto
    have "vn_status run = SAFE \<and> safely_priced slot (t_price_components db') t" if "td_status t = COMMITTED"
    proof -
      from that have "price_accepted run buy sell (px_final_price x)" by (simp add: t slot_trade_def split: if_splits)
      from price_between [OF this ps] obtain lo hi where l: "vn_status run = SAFE" "od_min_price sell = Some lo" "od_max_price buy = Some hi"
        "val lo \<le> val (bd_final_price b)" "val (bd_final_price b) \<le> val hi" using stored_final_price [OF b] by auto
      have "td_buy_order_id t = od_id b0" "td_sell_order_id t = od_id s0" by (simp_all add: t slot_trade_def b0(2) s0(2))
      moreover have "od_user_id b0 \<noteq> od_user_id s0" using 2(5) b0(3) s0(3) by (simp add: evolves_def)
      moreover have "od_min_price s0 = Some lo" "od_max_price b0 = Some hi" using l(2,3) b0(3) s0(3) by (simp_all add: evolves_def)
      ultimately show ?thesis unfolding safely_priced_def c
        using l b0(1) s0(1) stored_final_price [OF b] by (intro conjI bexI [of _ b0] bexI [of _ s0] bexI [of _ b]) auto
    qed
    moreover have "td_delivery_start t = start" by (simp add: t slot_trade_def)
    ultimately show ?thesis using 2(9) c by auto
  qed
qed simp

text \<open>All decisions of a slot, then all slots.\<close>

definition committed_ok ::
  "grid_tools \<Rightarrow> 'a workspace_db_scheme \<Rightarrow> simulation_row \<Rightarrow> order_row list \<Rightarrow> 'a workspace_db_scheme \<times> trade_row list \<Rightarrow> bool" where
  "committed_ok tools db sim orders s \<longleftrightarrow>
     untouched db (fst s) \<and> orders_evolve (t_orders db) (t_orders (fst s))
     \<and> (\<forall>t \<in> set (snd s). td_status t = COMMITTED \<longrightarrow>
          schedule_solved tools db sim (td_delivery_start t) \<and> sim_clock sim < td_delivery_start t
          \<and> safely_priced orders (t_price_components (fst s)) t)"

lemma decisions_committed:
  assumes "foldE (decide_proposal res run sim start slot f) ps (db, ts) = Inr (db', ts')"
    and "slot_orders slot os" "orders_evolve os (t_orders db)" "\<forall>o1 \<in> set slot. prices_stored o1"
  shows "orders_evolve os (t_orders db') \<and> set (t_price_components db) \<subseteq> set (t_price_components db')
    \<and> (\<forall>t \<in> set ts'. t \<in> set ts \<or> (td_delivery_start t = start
          \<and> (td_status t = COMMITTED \<longrightarrow> vn_status run = SAFE \<and> safely_priced slot (t_price_components db') t)))"
proof -
  let ?P = "\<lambda>s. orders_evolve os (t_orders (fst s)) \<and> set (t_price_components db) \<subseteq> set (t_price_components (fst s))
    \<and> (\<forall>t \<in> set (snd s). t \<in> set ts \<or> (td_delivery_start t = start
          \<and> (td_status t = COMMITTED \<longrightarrow> vn_status run = SAFE \<and> safely_priced slot (t_price_components (fst s)) t)))"
  have "?P (db', ts')" using assms(1)
  proof (rule foldE_invariant [where P = ?P])
    show "?P (db, ts)" using assms(3) by simp
    fix p s s'
    assume p: "?P s" and d: "decide_proposal res run sim start slot f p s = Inr s'"
    obtain db1 ts1 db2 ts2 where s: "s = (db1, ts1)" "s' = (db2, ts2)" by (cases s; cases s') blast
    from p have e: "orders_evolve os (t_orders db1)" by (simp add: s)
    note e2 = decide_evolves [OF d [unfolded s] assms(2) e] and c = decision_committed [OF d [unfolded s] assms(2) e assms(4)]
    have "t \<in> set ts \<or> (td_delivery_start t = start
          \<and> (td_status t = COMMITTED \<longrightarrow> vn_status run = SAFE \<and> safely_priced slot (t_price_components db2) t))"
      if "t \<in> set ts2" for t
      using c that p safely_priced_mono [of slot "t_price_components db1" t slot "t_price_components db2"] unfolding s by auto
    with e2 c p show "?P s'" unfolding s by auto
  qed
  then show ?thesis by simp
qed

lemma clear_slot_committed:
  assumes "clear_slot tools sim orders most f start s = Inr s'" "committed_ok tools db sim orders s"
    and "orders = open_orders db sim ids" "distinct (map od_id (t_orders db))" "\<forall>o1 \<in> set (t_orders db). prices_stored o1"
    and "sim_clock sim < start"
  shows "committed_ok tools db sim orders s'"
proof -
  obtain db1 ts1 db2 ts2 where s: "s = (db1, ts1)" "s' = (db2, ts2)" by (cases s; cases s') blast
  let ?slot = "filter (\<lambda>o1. od_delivery_start o1 = start) orders"
  have slot: "slot_orders ?slot (t_orders db)" "\<forall>o1 \<in> set ?slot. prices_stored o1"
    using assms(3-5) by (auto simp: slot_orders_def open_orders_def ACTIVE_ORDER_STATUSES_def live_def)
  have ok: "untouched db db1" "orders_evolve (t_orders db) (t_orders db1)"
    "\<forall>t \<in> set ts1. td_status t = COMMITTED \<longrightarrow> schedule_solved tools db sim (td_delivery_start t)
       \<and> sim_clock sim < td_delivery_start t \<and> safely_priced orders (t_price_components db1) t"
    using assms(2) by (simp_all add: committed_ok_def s)
  from assms(1) [unfolded s] show ?thesis
  proof (cases rule: clear_slot_cases)
    case (2 res db3 run)
    from 2(2) obtain injections row where v: "mapE (site_injection db1 sim start) (feeder_sites db1) = Inr injections"
      "run = schedule_row tools (schedule_request db1 start injections) (sl_run_id f start) (sl_now f)"
      "db3 = db1\<lparr>t_validation_runs := t_validation_runs db1 @ [row]\<rparr>" by (rule validate_slot_frame)
    have e3: "orders_evolve (t_orders db) (t_orders db3)" using ok(2) by (simp add: v(3))
    note c = decisions_committed [OF 2(3) slot(1) e3 slot(2)]
    have u: "untouched db db2" using ok(1) clear_slot_trading [OF assms(1) [unfolded s]] untouched_trans by (auto simp: trading_def)
    have solved: "vn_status run = SAFE \<Longrightarrow> schedule_solved tools db sim start"
      using schedule_safe [OF _ v(1)] schedule_cong [OF ok(1)] unfolding v(2) by blast
    have sub: "set (t_price_components db1) \<subseteq> set (t_price_components db2)" using c by (simp add: v(3))
    have "schedule_solved tools db sim (td_delivery_start t) \<and> sim_clock sim < td_delivery_start t
        \<and> safely_priced orders (t_price_components db2) t" if "t \<in> set ts2" "td_status t = COMMITTED" for t
    proof (cases "t \<in> set ts1")
      case True
      with ok(3) that(2) sub safely_priced_mono [of orders _ t orders] show ?thesis by blast
    next
      case False
      with c that have t: "td_delivery_start t = start" "vn_status run = SAFE" "safely_priced ?slot (t_price_components db2) t"
        by blast+
      have "safely_priced orders (t_price_components db2) t" by (rule safely_priced_mono [OF t(3)]) auto
      with t solved assms(6) show ?thesis by simp
    qed
    with c u show ?thesis by (simp add: committed_ok_def s)
  qed (use assms(2) s in simp)
qed

text \<open>C5. What the marketplace commits is safe and agreed. Every trade a clearing commits is for a slot
  that has not begun; the solver was asked for the feeder with the forecast of every site in that slot
  and answered with no line or transformer above its rating; it joins a buy and a sell of different
  users, and its final price, as it is stored, lies within both limits.\<close>

theorem committed_trades_are_safe:
  assumes "clear_market tools ids most f db = Inr (db', ts)" "t \<in> set ts" "td_status t = COMMITTED"
    and "distinct (map od_id (t_orders db))" "\<forall>o1 \<in> set (t_orders db). prices_stored o1"
  shows "\<exists>sim. t_simulation db = Some sim \<and> sim_clock sim < td_delivery_start t
    \<and> schedule_solved tools db sim (td_delivery_start t) \<and> safely_priced (t_orders db) (t_price_components db') t"
  using assms(1)
proof (rule clear_market_cases)
  fix sim db1
  let ?os = "open_orders db sim ids"
  assume sim: "t_simulation db = Some sim" and db': "db' = bump db1"
    and f: "foldE (clear_slot tools sim ?os most f) (sort (remdups (map od_delivery_start ?os))) (db, []) = Inr (db1, ts)"
  from f have "committed_ok tools db sim ?os (db1, ts)"
  proof (rule foldE_invariant)
    show "committed_ok tools db sim ?os (db, [])" by (simp add: committed_ok_def)
    fix start s s'
    assume "start \<in> set (sort (remdups (map od_delivery_start ?os)))" and ok: "committed_ok tools db sim ?os s"
      and s: "clear_slot tools sim ?os most f start s = Inr s'"
    then have "sim_clock sim < start" by (auto simp: open_orders_def)
    from clear_slot_committed [OF s ok refl assms(4,5) this] show "committed_ok tools db sim ?os s'" .
  qed
  then have "schedule_solved tools db sim (td_delivery_start t)" "sim_clock sim < td_delivery_start t"
    "safely_priced ?os (t_price_components db1) t" using assms(2,3) by (simp_all add: committed_ok_def)
  moreover have "safely_priced (t_orders db) (t_price_components db') t"
    using calculation(3) by (rule safely_priced_mono) (auto simp: open_orders_def db' bump_def)
  ultimately show ?thesis using sim by blast
qed

section \<open>A clearing\<close>

text \<open>
  A clearing that commits a trade: a buy and a sell of two users for one slot, over a feeder with one
  rated connection point whose forecast loads it to three fifths.
\<close>

definition demo_feeder :: "grid_node_row list" where
  "demo_feeder =
     [\<lparr>gn_id = 1, gn_external_ref = ''s'', gn_node_type = SUBSTATION, gn_nominal_voltage_kv = Dec 11 0,
       gn_parent_node_id = None, gn_feeder_id = Some FEEDER, gn_rated_capacity_kw = None\<rparr>,
      \<lparr>gn_id = 2, gn_external_ref = ''c'', gn_node_type = CONNECTION_POINT, gn_nominal_voltage_kv = Dec 4 (-1),
       gn_parent_node_id = Some 1, gn_feeder_id = Some FEEDER, gn_rated_capacity_kw = Some (Dec 10 0)\<rparr>]"

definition demo_feeder_site :: site_row where
  "demo_feeder_site = \<lparr>si_id = 8, si_owner_user_id = 2, si_name = ''B'', si_latitude = None, si_longitude = None,
     si_grid_node_id = Some 2, si_timezone = ''Asia/Kolkata''\<rparr>"

definition demo_open_buy :: order_row where
  "demo_open_buy = demo_row 21 BUY 1 (Dec 50000 (-4)) (Dec 65000 (-4))"

definition demo_open_sell :: order_row where
  "demo_open_sell = (demo_row 22 SELL 2 (Dec 40000 (-4)) (Dec 32500 (-4)))\<lparr>od_site_id := 8\<rparr>"

definition demo_before :: simulation_row where
  "demo_before = demo_simulation\<lparr>sim_clock := -900000000\<rparr>"

definition demo_clearing :: workspace_db where
  "demo_clearing = demo_marketplace\<lparr>t_simulation := Some demo_before, t_orders := [demo_open_buy, demo_open_sell],
     t_trades := [], t_price_components := [], t_validation_runs := [], t_grid_nodes := demo_feeder,
     t_sites := [demo_feeder_site],
     t_forecast_points := [demo_site_point 32 30 (Dec 70000 (-4)), demo_site_point 33 31 (Dec 10000 (-4))]\<rparr>"

definition demo_slot_draw :: slot_fresh where
  "demo_slot_draw = \<lparr>sl_run_id = \<lambda>_. 80, sl_trade_id = \<lambda>k. 70 + k, sl_breakdown_id = \<lambda>k. 90 + k, sl_event_id = \<lambda>k. 107 + k,
     sl_clock = \<lambda>_. 8, sl_now = 9\<rparr>"

definition demo_clearing_tools :: grid_tools where
  "demo_clearing_tools = demo_tools\<lparr>gt_hash := \<lambda>_. ''h''\<rparr>"

definition demo_proposal :: proposed_trade where
  "demo_proposal = \<lparr>pt_buy_order_id = 21, pt_sell_order_id = 22, pt_quantity_kwh = Dec 40000 (-4),
     pt_clearing_price = Dec 48750 (-4), pt_delivery_start = 0, pt_delivery_end = 900000000\<rparr>"

definition demo_matching :: matching_result where
  "demo_matching = \<lparr>mr_engine = ''baseline_double_auction'', mr_engine_version = ''0.1.0'', mr_trades = [demo_proposal],
     mr_unmatched_buys = [21], mr_unmatched_sells = []\<rparr>"

definition demo_slot_run :: validation_row where
  "demo_slot_run = \<lparr>vn_id = 80, vn_trade_id = None, vn_grid_snapshot_id = None, vn_simulation_engine = ''power_grid_model'',
    vn_engine_version = Some ''1'', vn_input_hash = ''h'', vn_status = SAFE, vn_min_voltage_pu = Some (Dec 99 (- 2)),
    vn_max_voltage_pu = Some (Dec 1 0), vn_max_line_loading_pct = Some (Dec 600000 (- 4)),
    vn_max_transformer_loading_pct = None, vn_decision = ACCEPT,
    vn_reason = Some ''Forecast schedule is within the modelled feeder limits.'', vn_created_at = 9\<rparr>"

definition demo_injection :: node_injection where
  "demo_injection = \<lparr>inj_node_id = 2, inj_active_power_kw = Dec 60000 (-4)\<rparr>"

lemma demo_clearing_tables:
  "t_simulation demo_clearing = Some demo_before" "t_orders demo_clearing = [demo_open_buy, demo_open_sell]"
  "t_trades demo_clearing = []" "t_price_components demo_clearing = []" "t_validation_runs demo_clearing = []"
  "t_grid_nodes demo_clearing = demo_feeder" "t_sites demo_clearing = [demo_feeder_site]" "t_audit demo_clearing = []"
  "t_forecast_runs demo_clearing = t_forecast_runs demo_marketplace" "t_forecast_points demo_clearing = [demo_site_point 32 30 (Dec 70000 (-4)), demo_site_point 33 31 (Dec 10000 (-4))]"
  using demo_marketplace_tables(14) by (simp_all add: demo_clearing_def)

lemma demo_matched:
  "baseline_match \<lparr>req_order_book = slot_book None 0 [demo_open_buy, demo_open_sell], req_cleared_at = -900000000\<rparr> = Inr demo_matching"
  by code_simp

lemma demo_network_of_feeder:
  "schedule_request demo_clearing 0 [demo_injection] =
     \<lparr>gr_network = \<lparr>net_version = PROFILE_VERSION,
        net_nodes = [\<lparr>node_id = 1, node_type = SUBSTATION, nominal_voltage_kv = Dec 11 0, parent_node_id = None,
                      feeder_id = Some FEEDER\<rparr>,
                     \<lparr>node_id = 2, node_type = CONNECTION_POINT, nominal_voltage_kv = Dec 4 (-1), parent_node_id = Some 1,
                      feeder_id = Some FEEDER\<rparr>],
        net_lines = [\<lparr>line_id = 2, line_from = 1, line_to = 2, line_rating_kw = Some (Dec 10 0)\<rparr>], net_transformers = []\<rparr>,
      gr_limits = DEFAULT_LIMITS, gr_interval_start = 0, gr_interval_end = INTERVAL, gr_baseline_injections = [demo_injection],
      gr_proposed_injections = []\<rparr>"
  by (simp add: schedule_request_def build_network_def feeder_nodes_def on_feeder_def demo_clearing_tables demo_feeder_def
      network_node_of_def dict_get_def)

lemma demo_schedule_row: "schedule_row demo_clearing_tools (schedule_request demo_clearing 0 [demo_injection]) 80 9 = demo_slot_run"
  unfolding demo_network_of_feeder by code_simp

lemma demo_site_predicted:
  "prediction db 8 0 = Inr (demo_site_point 32 30 (Dec 70000 (-4)), demo_site_point 33 31 (Dec 10000 (-4)))"
  if "t_forecast_runs db = t_forecast_runs demo_marketplace" "t_forecast_points db = t_forecast_points demo_clearing"
  using that by (simp add: prediction_def newest_point_def run_of_point_def head_row_def demo_marketplace_tables demo_clearing_tables demo_site_point_def
      demo_forecast_point_def demo_run_def fetch_def)

lemma demo_injections_of_sites: "mapE (site_injection demo_clearing demo_before 0) (feeder_sites demo_clearing) = Inr [demo_injection]"
proof -
  have "feeder_sites demo_clearing = [demo_feeder_site]"
    by (simp add: feeder_sites_def demo_clearing_tables demo_feeder_site_def demo_feeder_def)
  moreover have "(Dec 70000 (-4) :: decimal) - Dec 10000 (-4) = Dec 60000 (-4)" by code_simp
  ultimately show ?thesis
    by (simp add: site_injection_def demo_feeder_site_def demo_site_predicted demo_clearing_tables demo_site_point_def
        demo_forecast_point_def demo_before_def demo_simulation_def demo_injection_def)
qed

lemma demo_slot_run_stored: "\<exists>row. stored_validation demo_slot_run = Inr row \<and> all_checks (validation_checks demo_clearing row) = Inr ()"
proof -
  have "stored_validation demo_slot_run = Inr (demo_slot_run\<lparr>vn_min_voltage_pu := Some (Dec 9900 (-4)), vn_max_voltage_pu := Some (Dec 10000 (-4)),
      vn_max_line_loading_pct := Some (Dec 60000 (-3))\<rparr>)" by code_simp
  then show ?thesis
    by (simp add: validation_checks_def demo_slot_run_def demo_clearing_tables known_def voltages_ordered_def val_simps val_Dec4
        checks_pass del: all_checks_eq)
qed

definition demo_price_row :: breakdown_row where
  "demo_price_row = \<lparr>bd_id = 90, bd_trade_id = 70, bd_base_market_price = Dec 48750 (-4), bd_time_component = Dec 0 (-4),
     bd_congestion_component = Dec 0 (-4), bd_imbalance_component = Dec 2438 (-4),
     bd_local_renewable_component = Dec (-2438) (-4), bd_final_price = Dec 48750 (-4), bd_formula_version = ''1.0.0'',
     bd_created_at = 9\<rparr>"

definition demo_slot_request :: pricing_request where
  "demo_slot_request = \<lparr>pr_base_price = Dec 48750 (-4), pr_quantity_kwh = Dec 40000 (-4), pr_delivery_start = 0,
     pr_delivery_end = 900000000, pr_grid_status = SAFE,
     pr_grid_metrics = Some \<lparr>min_voltage_pu = Some (Dec 99 (-2)), max_voltage_pu = Some (Dec 1 0),
       max_line_loading_pct = Some (Dec 600000 (-4)), max_transformer_loading_pct = None\<rparr>,
     pr_caused_violations = [], pr_forecast_confidence = None, pr_local_renewable = True,
     pr_trade_id = None, pr_grid_validation_id = None, pr_forecast_basis_id = None\<rparr>"

lemma demo_slot_asks: "slot_quote_request demo_slot_run (demo_site_point 32 30 (Dec 70000 (-4))) demo_proposal 0 = demo_slot_request"
  by (simp add: slot_quote_request_def demo_slot_request_def demo_proposal_def demo_slot_run_def run_metrics_def demo_site_point_def
      demo_forecast_point_def INTERVAL_def)

lemma demo_slot_pieces:
  "\<not> pr_base_price demo_slot_request < 0" "quantize_price (pr_base_price demo_slot_request) = Inr (Dec 48750 (-4))"
  "time_component demo_slot_request DEFAULT_PARAMETERS = Inr \<lparr>pc_kind = Kind_TIME, pc_amount = Dec 0 (-4)\<rparr>"
  "congestion_component demo_slot_request DEFAULT_PARAMETERS = Inr \<lparr>pc_kind = Kind_CONGESTION, pc_amount = Dec 0 (-4)\<rparr>"
  "imbalance_component demo_slot_request DEFAULT_PARAMETERS = Inr \<lparr>pc_kind = Kind_IMBALANCE, pc_amount = Dec 2438 (-4)\<rparr>"
  "local_renewable_component demo_slot_request DEFAULT_PARAMETERS = Inr \<lparr>pc_kind = Kind_LOCAL_RENEWABLE, pc_amount = Dec (-2438) (-4)\<rparr>"
  "pp_formula_version DEFAULT_PARAMETERS = ''1.0.0''"
  by code_simp+

lemma demo_price_digits:
  "numeric 12 4 (Dec 48750 (-4)) = Inr (Dec 48750 (-4))" "numeric 12 4 (Dec 0 (-4)) = Inr (Dec 0 (-4))"
  "numeric 12 4 (Dec 0 (-4)) = Inr (Dec 0 (-4))" "numeric 12 4 (Dec 2438 (-4)) = Inr (Dec 2438 (-4))"
  "numeric 12 4 (Dec (-2438) (-4)) = Inr (Dec (-2438) (-4))" "numeric 12 4 (Dec 48750 (-4)) = Inr (Dec 48750 (-4))"
  "Dec 48750 (-4) + Dec 0 (-4) + Dec 0 (-4) + Dec 2438 (-4) + Dec (-2438) (-4) = Dec 48750 (-4)"
  by code_simp+

lemma demo_slot_quote:
  "\<exists>x. quote DEFAULT_PARAMETERS (slot_quote_request demo_slot_run (demo_site_point 32 30 (Dec 70000 (-4))) demo_proposal 0) = Inr x
     \<and> stored_breakdown (breakdown_of 70 x 90 9) = Inr demo_price_row \<and> px_final_price x = Dec 48750 (-4)"
proof -
  let ?r = demo_slot_request
  obtain d where "recommend (pr_grid_status ?r) (Dec 48750 (-4)) (pc_amount \<lparr>pc_kind = Kind_CONGESTION, pc_amount = Dec 0 (-4)\<rparr>)
      DEFAULT_PARAMETERS = Inr d" using recommend_returns by blast
  from quote_pieces [OF demo_slot_pieces(1-6) this] show ?thesis
    by (simp add: demo_slot_asks stored_breakdown_def breakdown_of_def demo_price_digits demo_slot_pieces(7) varchar_def demo_price_row_def)
qed

definition demo_cleared_trade :: trade_row where
  "demo_cleared_trade = \<lparr>td_id = 70, td_fill_sequence = 1, td_buy_order_id = 21, td_sell_order_id = 22,
     td_quantity_kwh = Dec 40000 (-4), td_clearing_price = Dec 48750 (-4), td_delivery_start = 0, td_delivery_end = 900000000,
     td_grid_validation_id = Some 80, td_status = COMMITTED, td_committed_at = Some (-900000000),
     td_matching_engine = Some ''baseline_double_auction'', td_matching_engine_version = Some ''0.1.0'', td_created_at = 9\<rparr>"

lemma demo_trade_fields:
  "td_id demo_cleared_trade = 70" "td_quantity_kwh demo_cleared_trade = Dec 40000 (-4)"
  "td_clearing_price demo_cleared_trade = Dec 48750 (-4)" "td_delivery_start demo_cleared_trade = 0"
  "td_delivery_end demo_cleared_trade = 900000000" "td_buy_order_id demo_cleared_trade = 21" "td_sell_order_id demo_cleared_trade = 22"
  "td_grid_validation_id demo_cleared_trade = Some 80"
  by (simp_all add: demo_cleared_trade_def)

lemma demo_price_ok: "price_accepted demo_slot_run demo_open_buy demo_open_sell (Dec 48750 (-4))"
  by code_simp

lemma demo_fills:
  "fill_workspace_order (Dec 40000 (-4)) demo_open_buy = demo_open_buy\<lparr>od_matched_kwh := Dec 40000 (-4), od_status := PARTIALLY_FILLED\<rparr>"
  "fill_workspace_order (Dec 40000 (-4)) demo_open_sell = demo_open_sell\<lparr>od_matched_kwh := Dec 40000 (-4), od_status := FILLED\<rparr>"
  by code_simp+

lemma demo_fill_checks:
  "numeric 14 4 (Dec 40000 (-4)) = Inr (Dec 40000 (-4))"
  "all_checks (order_row_checks (demo_open_buy\<lparr>od_status := PARTIALLY_FILLED, od_matched_kwh := Dec 40000 (-4)\<rparr>)) = Inr ()"
  "all_checks (order_row_checks (demo_open_sell\<lparr>od_status := FILLED, od_matched_kwh := Dec 40000 (-4)\<rparr>)) = Inr ()"
  by (code_simp, simp_all add: order_row_checks_def demo_open_buy_def demo_open_sell_def demo_row_def not_negative_check_def
      val_simps val_Dec4 checks_pass del: all_checks_eq)

lemma demo_slot_trade:
  "slot_trade demo_matching demo_slot_run demo_before 0 True demo_proposal 1 70 9 = demo_cleared_trade"
  by (simp add: slot_trade_def demo_matching_def demo_slot_run_def demo_before_def demo_proposal_def demo_cleared_trade_def INTERVAL_def)

lemma demo_decided:
  assumes "t_orders db = [demo_open_buy, demo_open_sell]" "t_trades db = []" "t_price_components db = []" "t_audit db = []"
    and "known vn_id (t_validation_runs db) 80" "px_final_price x = Dec 48750 (-4)"
    and "stored_breakdown (breakdown_of 70 x 90 9) = Inr demo_price_row"
  shows "\<exists>db'. file_decision demo_matching demo_slot_run demo_before 0 demo_slot_draw 0 demo_open_buy demo_open_sell demo_proposal x
      (db :: workspace_db) = Inr (db', demo_cleared_trade)"
proof -
  have k: "next_fill db (od_id demo_open_buy) (od_id demo_open_sell) 0 = 1" by (simp add: next_fill_def assms(2))
  have d: "sl_trade_id demo_slot_draw 0 = 70" "sl_breakdown_id demo_slot_draw 0 = 90" "sl_now demo_slot_draw = 9"
    "pt_quantity_kwh demo_proposal = Dec 40000 (-4)" "td_id demo_cleared_trade = 70"
    by (simp_all add: demo_slot_draw_def demo_proposal_def demo_cleared_trade_def)
  have st: "stored_trade demo_cleared_trade = Inr demo_cleared_trade" by code_simp
  let ?db1 = "db\<lparr>t_trades := [demo_cleared_trade]\<rparr>"
  have i1: "insert_judged_trade demo_cleared_trade db = Inr ?db1"
    using assms(5) by (simp add: insert_judged_trade_def insert_trade_def st trade_checks_def assms(1,2) known_def demo_open_buy_def
        demo_open_sell_def demo_row_def val_simps val_Dec4 constraint_def checks_pass demo_trade_fields del: all_checks_eq)
  let ?db2 = "?db1\<lparr>t_price_components := [demo_price_row]\<rparr>"
  have i2: "insert_breakdown (breakdown_of 70 x 90 9) ?db1 = Inr ?db2"
    by (simp add: insert_breakdown_def assms(3,7) breakdown_checks_def demo_price_row_def demo_trade_fields known_def val_simps
        val_Dec4 checks_pass del: all_checks_eq)
  have "\<exists>row. add_audit demo_before TRADE_PROPOSED Entity_TRADE 70 (trade_decided_payload demo_cleared_trade demo_slot_run (px_final_price x))
      None (sl_event_id demo_slot_draw 0) (sl_clock demo_slot_draw 0) ?db2 = Inr (?db2\<lparr>t_audit := [row]\<rparr>)"
    unfolding add_audit_def
    by (rule first_event_recorded) (simp_all add: assms(4) demo_before_def demo_simulation_def demo_slot_draw_def datetime_ok_def
        py_dict_def trade_decided_payload_def demo_slot_run_def)
  then obtain row where i3: "add_audit demo_before TRADE_PROPOSED Entity_TRADE 70
      (trade_decided_payload demo_cleared_trade demo_slot_run (px_final_price x)) None (sl_event_id demo_slot_draw 0)
      (sl_clock demo_slot_draw 0) ?db2 = Inr (?db2\<lparr>t_audit := [row]\<rparr>)" ..
  let ?db3 = "?db2\<lparr>t_audit := [row]\<rparr>"
  have "\<exists>db'. settle_orders True (Dec 40000 (-4)) [demo_open_buy, demo_open_sell] ?db3 = Inr db'"
    by (simp add: settle_orders_def save_fill_def Let_def demo_fills demo_fill_checks del: all_checks_eq)
  then obtain db' where i4: "settle_orders True (Dec 40000 (-4)) [demo_open_buy, demo_open_sell] ?db3 = Inr db'" ..
  from i1 i2 i3 i4 show ?thesis
    by (simp add: file_decision_def Let_def k d demo_slot_trade demo_price_ok assms(6) del: all_checks_eq)
qed

lemma demo_clears: "\<exists>db'. clear_market demo_clearing_tools None None demo_slot_draw demo_clearing = Inr (db', [demo_cleared_trade])"
proof -
  from demo_slot_run_stored obtain row where row: "stored_validation demo_slot_run = Inr row"
    "all_checks (validation_checks demo_clearing row) = Inr ()" by blast
  let ?db1 = "demo_clearing\<lparr>t_validation_runs := [row]\<rparr>"
  have "vn_id row = 80" using row(1) by (auto simp: stored_validation_def bindE_eq_Inr demo_slot_run_def)
  moreover obtain x where x: "quote DEFAULT_PARAMETERS (slot_quote_request demo_slot_run (demo_site_point 32 30 (Dec 70000 (-4))) demo_proposal 0) = Inr x"
    "stored_breakdown (breakdown_of 70 x 90 9) = Inr demo_price_row" "px_final_price x = Dec 48750 (-4)" using demo_slot_quote by blast
  ultimately obtain db2 where dec: "file_decision demo_matching demo_slot_run demo_before 0 demo_slot_draw 0 demo_open_buy demo_open_sell
      demo_proposal x ?db1 = Inr (db2, demo_cleared_trade)"
    using demo_decided [of ?db1 x] by (auto simp: demo_clearing_tables known_def)
  have v: "validate_slot demo_clearing_tools demo_before 0 80 9 demo_clearing = Inr (?db1, demo_slot_run)"
    by (simp add: validate_slot_def demo_injections_of_sites demo_schedule_row Let_def insert_validation_def row demo_clearing_tables
        del: all_checks_eq)
  have o1: "open_orders demo_clearing demo_before None = [demo_open_buy, demo_open_sell]"
    by (simp add: open_orders_def demo_clearing_tables demo_open_buy_def demo_open_sell_def demo_row_def ACTIVE_ORDER_STATUSES_def
        demo_before_def)
  have ids: "od_id demo_open_buy = 21" "od_id demo_open_sell = 22" "od_delivery_start demo_open_buy = 0"
    "od_delivery_start demo_open_sell = 0" "od_status demo_open_buy = Order_OPEN" "od_status demo_open_sell = Order_OPEN"
    "od_user_id demo_open_buy = 1" "od_user_id demo_open_sell = 2" "od_site_id demo_open_sell = 8"
    by (simp_all add: demo_open_buy_def demo_open_sell_def demo_row_def)
  have c: "decide_proposal demo_matching demo_slot_run demo_before 0 [demo_open_buy, demo_open_sell] demo_slot_draw demo_proposal (?db1, [])
      = Inr (db2, [demo_cleared_trade])"
  proof -
    have p: "prediction ?db1 8 0 = Inr (demo_site_point 32 30 (Dec 70000 (-4)), demo_site_point 33 31 (Dec 10000 (-4)))"
      by (rule demo_site_predicted) (simp_all add: demo_clearing_tables)
    have "current_order [demo_open_buy, demo_open_sell] ?db1 21 = Inr demo_open_buy"
      "current_order [demo_open_buy, demo_open_sell] ?db1 22 = Inr demo_open_sell"
      by (simp_all add: current_order_def ids fetch_def demo_clearing_tables)
    then show ?thesis using dec x(1) p by (simp add: decide_proposal_def demo_proposal_def ids)
  qed
  have s: "clear_slot demo_clearing_tools demo_before [demo_open_buy, demo_open_sell] None demo_slot_draw 0 (demo_clearing, [])
      = Inr (db2, [demo_cleared_trade])"
    using demo_matched v c
    by (simp add: clear_slot_def Let_def ids demo_before_def demo_matching_def demo_slot_draw_def)
  show ?thesis
    using s by (simp add: clear_market_def simulation_state_def demo_clearing_tables o1 ids)
qed

text \<open>The final price of 4.875 lies between the limits of 3.25 and 6.5.\<close>

lemma committed_trades_are_safe_witness:
  "\<exists>db'. schedule_solved demo_clearing_tools demo_clearing demo_before 0
     \<and> safely_priced [demo_open_buy, demo_open_sell] (t_price_components (db' :: workspace_db)) demo_cleared_trade"
proof -
  obtain db' where c: "clear_market demo_clearing_tools None None demo_slot_draw demo_clearing = Inr (db', [demo_cleared_trade])"
    using demo_clears by blast
  have "td_status demo_cleared_trade = COMMITTED" "td_delivery_start demo_cleared_trade = 0" by (simp_all add: demo_cleared_trade_def)
  moreover have "distinct (map od_id (t_orders demo_clearing))" "\<forall>o1 \<in> set (t_orders demo_clearing). prices_stored o1"
    by (simp_all add: demo_clearing_tables demo_open_buy_def demo_open_sell_def demo_row_def prices_stored_def val_Dec4 gridI)
  ultimately show ?thesis
    using committed_trades_are_safe [OF c, of demo_cleared_trade] by (auto simp: demo_clearing_tables)
qed

end
