(* ===== verification/Spec2Isabelle.thy ===== *)
theory Spec2Isabelle
  imports Market_Matching_Props Audit_Log_Props Registry_Props Forecasting_Props Market_Claims Account_Demo Baseline_Forecast_Props
    Csv_Claims Simulator_Claims Workspace_Claims Workspace_Clearing
begin

text \<open>
  UrjaSetu is a peer-to-peer energy market for an Indian distribution network. This library models
  the Python backend (\<open>src/backend/app\<close>): the pure policies that decide, and the services that
  gather evidence from the database, ask a policy and write down what it said.

  \<^bold>\<open>How the program fits together.\<close> Participants register with sites, meters and assets; the
  eligibility policy reads that registry. Meters deliver readings, which are classified and stored;
  forecasts are made from the usable ones, and two forecasts make a surplus. Orders are placed
  against eligibility and surplus, a session is closed and cleared by the matching engine into
  proposed trades, each trade is validated against the network, priced, and after delivery
  reconciled with the meter and settled. Every step is written to a hash-chained audit log and
  announced over the realtime hub.

  \<^bold>\<open>Shared ground.\<close>
  \<^item> \<open>Prelude\<close>: identifiers, instants, exceptions (\<open>core/errors.py\<close>), results as \<open>exn + 'a\<close>, loops whose
    body may raise.
  \<^item> \<open>Decimals\<close>, \<open>Decimal_Laws\<close>: Python's \<open>decimal\<close> at its default precision of 28 digits, with its
    roundings, as integer coefficient and exponent; \<open>val\<close> is the number a decimal denotes. Every
    result is the rounding of the exact result, and exact where 28 digits suffice.
  \<^item> \<open>Canonical_Text\<close>: \<open>str\<close> of a decimal, an identifier and an instant, which are taken in UTC; the sum of an instant and
    a duration, which raises outside the years 1 to 9999.
  \<^item> \<open>Durations\<close>: \<open>timedelta.total_seconds()\<close> as a double turned into a decimal.
  \<^item> \<open>Doubles\<close>, \<open>Double_Laws\<close>: the floating point between decimals, rounded to 53 bits, and its texts.
  \<^item> \<open>Domain_Enums\<close>: \<open>domain/enums.py\<close>.
  \<^item> \<open>Tables\<close>: tables as lists of rows, fetch by key, the checks of a flush, \<open>Numeric\<close> columns.

  \<^item> \<open>Python_Parsing\<close>, \<open>Python_Parsing_Laws\<close>: reading texts as decimals, floats, identifiers
    and instants (\<open>Decimal\<close>, \<open>float\<close>, \<open>UUID\<close>, \<open>fromisoformat\<close>, \<open>strptime\<close>, as CPython 3.12 does) and the
    facts that what \<open>Canonical_Text\<close> writes is read back.

  \<^bold>\<open>Policies.\<close>
  \<^item> \<open>Clearing_Price\<close>, \<open>Market_Matching\<close>, \<open>Market_Matching_Props\<close>:
    \<open>domain/policies/clearing_price.py\<close>, \<open>domain/interfaces/market.py\<close>,
    \<open>domain/policies/market_matching.py\<close>. The loop of the double auction is modelled with its
    dictionaries and breaks; the facts follow one invariant of the visited pairs and give sound
    trades, conservation, exhaustion, price-time priority, independence of the book's order.
  \<^item> \<open>Grid_Contract\<close>, \<open>Grid_Adapter\<close>: \<open>domain/interfaces/grid.py\<close>, \<open>domain/policies/grid_limits.py\<close>,
    \<open>adapters/grid/power_grid_model_adapter.py\<close>. The solver is a parameter; what the adapter makes
    of its readings is modelled. The locale \<open>grid_engine\<close> is the contract of an engine.
  \<^item> \<open>Dynamic_Pricing\<close>: \<open>domain/interfaces/pricing.py\<close>, \<open>domain/policies/dynamic_pricing.py\<close>; locale
    \<open>pricing_engine\<close>. A price that is not stored (more than eight integer digits) is outside the claims.
  \<^item> \<open>Settlement_Policy\<close>: \<open>domain/interfaces/settlement.py\<close>, \<open>domain/policies/settlement.py\<close>; locale
    \<open>settlement_calculator\<close>.
  \<^item> \<open>Eligibility\<close>, \<open>Telemetry_Quality\<close>, \<open>Surplus\<close>: the policies of those names.
  \<^item> \<open>Canonical_Text\<close>, \<open>Canonical_Json\<close>, \<open>Sha256\<close>, \<open>Audit_Chain\<close>, \<open>Audit_Chain_Props\<close>:
    \<open>domain/policies/audit_chain.py\<close>, \<open>domain/interfaces/audit.py\<close>. The canonical JSON text of an
    event is proved injective, so that two intact chains with one head agree unless SHA-256 collides
    on two texts of theirs. SHA-256 is computed, never evaluated in a proof; no fact rests on a
    property of it.

  \<^bold>\<open>Services over the database.\<close> A service operation is a function from tables to a result and, where
  it commits in between, to the tables it leaves behind together with the result. The tables extend
  one another by records.
  \<^item> \<open>Registry\<close>, \<open>Registry_Props\<close>: \<open>services/identity_service.py\<close>, \<open>services/asset_service.py\<close> with their
    repositories and models. An inductive step relation carries the table constraints.
  \<^item> \<open>Telemetry_Service\<close>, \<open>Telemetry_Props\<close>: \<open>services/telemetry_service.py\<close>, \<open>repositories/telemetry.py\<close>,
    \<open>db/models/telemetry.py\<close>. A batch is simulated by single ingestions.
  \<^item> \<open>Csv_Reader\<close>, \<open>Csv_Adapter\<close>: \<open>adapters/meter/csv_adapter.py\<close> over the state machine of the \<open>csv\<close> module.
    \<open>Csv_Round_Trip\<close> writes readings as a text and reads them back; \<open>Csv_Claims\<close> has what a batch
    guarantees, that a strict run is a lenient run without errors, and that the feed is stored.
    \<open>Simulator_Adapter\<close>, \<open>Simulator_Claims\<close>: \<open>adapters/meter/simulator_adapter.py\<close> over the doubles, with
    the sine, the random draws and \<open>uuid5\<close> as parameters. \<open>Meter_Source\<close> has the locale \<open>meter_source\<close> of
    what an adapter owes for batch ingestion to store its replay, interpreted on both adapters.
  \<^item> \<open>Forecasting\<close>, \<open>Forecasting_Props\<close>: \<open>services/forecast_service.py\<close>, \<open>services/forecast_registry.py\<close>,
    \<open>repositories/forecasting.py\<close>, \<open>db/models/forecasting.py\<close>. The provider is a parameter;
    \<open>Forecasting_Props\<close> has the locale \<open>sound_provider\<close> of what it owes for a run to complete.
  \<^item> \<open>Baseline_Forecast\<close>, \<open>Baseline_Forecast_Props\<close>: \<open>adapters/forecast/baseline.py\<close>, which meets that
    contract over a horizon within the calendar. Its square root, confidence and texts of doubles are
    those of \<open>Doubles\<close>; its loop raises where the horizon leaves the calendar.
  \<^item> \<open>Market_Tables\<close>, \<open>Market_Service\<close>: \<open>db/models/market.py\<close>, \<open>repositories/market.py\<close>,
    \<open>services/market_service.py\<close>, each operation one transaction. The engine is an argument of clearing;
    \<open>Matching_Contract\<close> has the locale \<open>matching_engine\<close> of what it owes and its interpretation on the
    baseline engine. \<open>Market_Clearing\<close> shows the boundary check and the writes exact,
    \<open>Market_State\<close> states the invariant of the tables, it and \<open>Market_Props\<close> show that every
    operation keeps it and that a closed session clears, \<open>Market_Claims\<close> the properties.
  \<^item> \<open>Grid_Tables\<close>, \<open>Grid_Service\<close>: \<open>db/models/grid.py\<close>, \<open>repositories/grid.py\<close>,
    \<open>services/grid_validation_service.py\<close>. The engine is an argument; \<open>Grid_Validation\<close> has what a
    validation leaves behind and the network it projects, \<open>Grid_Claims\<close> runs it with the modelled
    adapter. Of an exception outside \<open>Prelude\<close> the reason of a failed run cannot tell the class.
  \<^item> \<open>Pricing_Service\<close>, \<open>Pricing_Claims\<close>: \<open>db/models/pricing.py\<close>, \<open>repositories/pricing.py\<close>,
    \<open>services/pricing_service.py\<close>. The quote of the component engine is shown to pass the boundary
    check and the table to the last digit.
  \<^item> \<open>Settlement_Service\<close>: \<open>db/models/settlement.py\<close>, \<open>repositories/settlement.py\<close>,
    \<open>services/settlement_service.py\<close> with its default resolvers over pricing and telemetry.
    \<open>Settlement_Records\<close> has the invariant of the tables of record under every step of the three
    services, \<open>Settlement_Claims\<close> the settlement of a measured trade from the tables, \<open>Account_Demo\<close> a
    concrete trade carried through pricing and settlement. What a write can raise is in \<open>Audit_Write\<close>.
  \<^item> \<open>Audit_Log\<close>, \<open>Audit_Log_Props\<close>: \<open>services/audit_service.py\<close>, \<open>repositories/audit.py\<close>,
    \<open>db/models/audit.py\<close>, \<open>adapters/ledger/local_publisher.py\<close>; locale \<open>ledger_publisher\<close>.
  \<^item> \<open>Workspace_Tables\<close>, \<open>Workspace_Market\<close>, \<open>Workspace_Delivery\<close>: the connected marketplace
    (\<open>services/workspace_service.py\<close>, \<open>db/models/workspace.py\<close>), which trades without the services above:
    orders against the forecast surplus not yet reserved, offers accepted at most once, slots matched by
    the baseline engine and judged once by the power grid adapter, and a clock that brings readings,
    settles what is due and forecasts the next day. The profile of a household, the solver, the prose of
    violations and the hash of a grid request are arguments; a request of a user has at most four decimals (\<open>OrderInput\<close>
    of \<open>api/v1/workspace.py\<close>). \<open>Workspace_Deliveries\<close>, \<open>Workspace_Orders\<close> and
    \<open>Workspace_Measured\<close> say what each operation writes and leaves alone. \<open>Workspace_Measured\<close> and
    \<open>Workspace_Claims\<close> show under an inductive step relation that measured energy is given once,
    \<open>Workspace_Promises\<close> that forecast energy is promised once, \<open>Workspace_Settled\<close> what a delivery
    books, \<open>Workspace_Purchases\<close> that the hashed text of a purchase tells its offer, quantity, price and
    own order apart, \<open>Workspace_Clearing\<close> what a committed trade rests on, with a clearing carried
    out; \<open>Workspace_Demo\<close> runs a delivery.
  \<^item> \<open>Realtime\<close>: \<open>domain/interfaces/realtime.py\<close>, \<open>services/realtime_service.py\<close>, the queue of \<open>api/ws.py\<close>.

  \<^bold>\<open>Conventions.\<close> Recursion is structural or has its measure, but for the loop of the baseline
  forecast over its horizon and that of the meter simulator over its window, which need not end and
  are partial functions; no fuel is used. Identifiers that the
  code draws with \<open>uuid4\<close> and the clock are arguments. The database is PostgreSQL: rows are checked in
  its order (checks, keys, references), a \<open>Numeric\<close> column rounds half away from zero, and rows an
  \<open>ORDER BY\<close> does not tell apart come in table order. Texts are of Latin-1
  characters, and exponents of a decimal below the underflow of the context are not treated. India has
  been at +5:30 since 1945, and earlier instants are not treated. Claims about non-finite
  decimals are not made: JSON numbers are finite, and the schemas refuse the rest.

  \<^bold>\<open>Not modelled.\<close> HTTP routes, schemas and settings (FastAPI, Pydantic); the prose of most reasons
  and of error messages; logging; the decoding of files; the EVM adapter (an
  external chain); \<open>household_energy\<close> and \<open>community_energy\<close>, which are trigonometry over floats; the
  registration, bootstrap and screen snapshot of \<open>workspace_service\<close>; demo seeding; \<open>experience_service\<close>; sign-in and the
  language-model assistant; the network solver; the web frontend.
\<close>

end
